(* ===== verification/Prelude.thy ===== *)
theory Prelude
  imports Complex_Main "HOL-Library.List_Lexorder" "HOL-Library.Char_ord" "HOL-Library.Multiset"
begin

text \<open>
  Shared vocabulary of the development: the values Python code handles
  (\<open>pyval\<close>), its exceptions as values (\<open>exc\<close>), the parts of the Python
  runtime whose tables or algorithms are native code (\<open>runtime\<close>), insertion
  ordered dictionaries, strings, itertools-like list functions, loops that may
  raise, and the generic lemmas about them.

  Modelling conventions:
  \<^item> a string is a list of code points below 256 (the HOL type \<open>char\<close>); its
    order is Python's code point order;
  \<^item> a float is an exact real or one of the three special values: the rounding
    of binary64 arithmetic is not modelled;
  \<^item> a dict is an association list with distinct keys in insertion order;
  \<^item> a raised exception is \<open>Inl e\<close>, a returned value is \<open>Inr v\<close>.
\<close>

section \<open>Values and exceptions\<close>

datatype pyfloat = Fin real | PosInf | NegInf | NaN

text \<open>
  A timestamp (\<^verbatim>\<open>datetime\<close>): wall-clock microseconds since 0001-01-01 and, when aware, its UTC offset. As a value,
  \<open>PTime\<close>, it only comes from a source database; what a request or a file holds is read as JSON or text.
\<close>

record pydt =
  dt_wall :: int
  dt_offset :: "int option"

datatype pyval =
    PNone
  | PBool bool
  | PInt int
  | PFloat pyfloat
  | PStr string
  | PTime pydt
  | PList "pyval list"
  | PDict "(string \<times> pyval) list"

type_synonym pyrec = "(string \<times> pyval) list"

type_synonym uuid = nat

text \<open>
  \<open>ConnectorError code message\<close> is the class of \<^verbatim>\<open>connectors/base.py\<close>;
  \<open>HTTPException status detail\<close> is FastAPI's; the others are Python's built-in
  exceptions, \<open>MappingCompileError\<close> being the subclass of \<open>ValueError\<close> that
  \<^verbatim>\<open>mapping/engine.py\<close> declares.
\<close>

datatype exc =
    ConnectorError string string
  | HTTPException nat string
  | ValueError string
  | MappingCompileError string
  | TypeError
  | KeyError string
  | IndexError
  | ZeroDivisionError
  | OverflowError
  | RecursionError
  | FileNotFoundError
  | RuntimeError string

type_synonym 'a res = "exc + 'a"

text \<open>
  The runtime: Unicode tables, hashing, number and timestamp syntax, regular
  expressions, JSON text, the text of a UUID, file URIs (\<open>rt_uri_path\<close> is the path of a
  \<^verbatim>\<open>file:\<close> URI and \<open>None\<close> for any other), the interpreter's recursion limit, and the string
  similarity of the \<^verbatim>\<open>rapidfuzz\<close> package. Every definition that uses one of
  them takes the runtime as its first argument.
\<close>

record runtime =
  rt_nfkc :: "string \<Rightarrow> string"
  rt_casefold :: "string \<Rightarrow> string"
  rt_lower :: "string \<Rightarrow> string"
  rt_upper :: "string \<Rightarrow> string"
  rt_repr :: "pyval \<Rightarrow> string"
  rt_sha256 :: "string \<Rightarrow> string"
  rt_uuid5 :: "string \<Rightarrow> uuid"
  rt_uuid_str :: "uuid \<Rightarrow> string"
  rt_uuid_hex :: "uuid \<Rightarrow> string"
  rt_as_uri :: "string \<Rightarrow> string"
  rt_uri_path :: "string \<Rightarrow> string option"
  rt_fromiso :: "string \<Rightarrow> pydt option"
  rt_isoformat :: "int \<Rightarrow> string"
  rt_dt_isoformat :: "pydt \<Rightarrow> string"
  rt_float :: "string \<Rightarrow> pyfloat option"
  rt_int :: "string \<Rightarrow> int option"
  rt_fullmatch :: "string \<Rightarrow> string \<Rightarrow> bool option"
  rt_json :: "pyval \<Rightarrow> string"
  rt_ratio :: "string \<Rightarrow> string \<Rightarrow> real"
  rt_recursion_limit :: nat

named_theorems py_simps \<open>evaluation of the Python-level helpers\<close>
named_theorems res_simps \<open>case analysis of results and loops that may raise\<close>

section \<open>Strings\<close>

definition is_space :: "char \<Rightarrow> bool" where
  "is_space c = (of_char c \<in> {9, 10, 11, 12, 13, 28, 29, 30, 31, 32, 133, 160 :: nat})"

definition is_digit :: "char \<Rightarrow> bool" where
  "is_digit c = (let n = of_char c :: nat in (48 \<le> n \<and> n \<le> 57) \<or> n \<in> {178, 179, 185})"

definition is_alpha :: "char \<Rightarrow> bool" where
  "is_alpha c = (let n = of_char c :: nat in
     (65 \<le> n \<and> n \<le> 90) \<or> (97 \<le> n \<and> n \<le> 122) \<or> n \<in> {170, 181, 186}
     \<or> (192 \<le> n \<and> n \<noteq> 215 \<and> n \<noteq> 247))"

text \<open>The class \<^verbatim>\<open>\w\<close> of a Unicode pattern: alphanumeric or underscore.\<close>

definition is_word :: "char \<Rightarrow> bool" where
  "is_word c = (is_alpha c \<or> is_digit c \<or> of_char c \<in> {95, 188, 189, 190 :: nat})"

definition lstrip :: "string \<Rightarrow> string" where
  "lstrip s = dropWhile is_space s"

definition strip :: "string \<Rightarrow> string" where
  "strip s = rev (dropWhile is_space (rev (dropWhile is_space s)))"

fun starts_with :: "string \<Rightarrow> string \<Rightarrow> bool" where
  "starts_with s [] = True"
| "starts_with [] (p # ps) = False"
| "starts_with (c # s) (p # ps) = (c = p \<and> starts_with s ps)"

definition ends_with :: "string \<Rightarrow> string \<Rightarrow> bool" where
  "ends_with s p = starts_with (rev s) (rev p)"

fun contains :: "string \<Rightarrow> string \<Rightarrow> bool" where
  "contains [] p = (p = [])"
| "contains (c # s) p = (starts_with (c # s) p \<or> contains s p)"

text \<open>\<open>join sep parts\<close> is \<^verbatim>\<open>sep.join(parts)\<close>.\<close>

fun join :: "string \<Rightarrow> string list \<Rightarrow> string" where
  "join sep [] = []"
| "join sep [x] = x"
| "join sep (x # y # xs) = x @ sep @ join sep (y # xs)"

text \<open>\<open>split_on d s\<close> is \<^verbatim>\<open>s.split(d)\<close> for a non-empty separator \<open>d\<close>.\<close>

fun split_on_aux :: "nat \<Rightarrow> string \<Rightarrow> string \<Rightarrow> string \<Rightarrow> string list" where
  "split_on_aux 0 d cur s = [rev cur @ s]"
| "split_on_aux (Suc n) d cur [] = [rev cur]"
| "split_on_aux (Suc n) d cur (c # s) =
     (if starts_with (c # s) d
      then rev cur # split_on_aux n d [] (drop (length d) (c # s))
      else split_on_aux n d (c # cur) s)"

definition split_on :: "string \<Rightarrow> string \<Rightarrow> string list" where
  "split_on d s = split_on_aux (Suc (length s)) d [] s"

text \<open>Decimal text of an integer, \<^verbatim>\<open>str(n)\<close>.\<close>

fun digits_of :: "nat \<Rightarrow> nat \<Rightarrow> string" where
  "digits_of 0 n = []"
| "digits_of (Suc f) n =
     (if n < 10 then [char_of (48 + n)] else digits_of f (n div 10) @ [char_of (48 + n mod 10)])"

definition nat_str :: "nat \<Rightarrow> string" where
  "nat_str n = digits_of (Suc n) n"

definition int_str :: "int \<Rightarrow> string" where
  "int_str i = (if i < 0 then CHR ''-'' # nat_str (nat (- i)) else nat_str (nat i))"

text \<open>\<^verbatim>\<open>str(value)\<close>; floats, timestamps, lists and dicts go through the runtime, which knows their text.\<close>

definition py_str :: "runtime \<Rightarrow> pyval \<Rightarrow> string" where
  "py_str R v = (case v of
       PNone \<Rightarrow> ''None''
     | PBool b \<Rightarrow> (if b then ''True'' else ''False'')
     | PInt i \<Rightarrow> int_str i
     | PStr s \<Rightarrow> s
     | _ \<Rightarrow> rt_repr R v)"

text \<open>\<^verbatim>\<open>value in (None, "")\<close>\<close>

definition blank :: "pyval \<Rightarrow> bool" where
  "blank v = (v = PNone \<or> v = PStr [])"

text \<open>Truth value of an object.\<close>

fun truthy :: "pyval \<Rightarrow> bool" where
  "truthy PNone = False"
| "truthy (PBool b) = b"
| "truthy (PInt i) = (i \<noteq> 0)"
| "truthy (PFloat f) = (f \<noteq> Fin 0)"
| "truthy (PStr s) = (s \<noteq> [])"
| "truthy (PTime t) = True"
| "truthy (PList xs) = (xs \<noteq> [])"
| "truthy (PDict d) = (d \<noteq> [])"

text \<open>\<^verbatim>\<open>str(value).replace("Z", "+00:00")\<close>\<close>

definition iso_text :: "runtime \<Rightarrow> pyval \<Rightarrow> string" where
  "iso_text R v = concat (map (\<lambda>c. if c = CHR ''Z'' then ''+00:00'' else [c]) (py_str R v))"

text \<open>
  \<^verbatim>\<open>float(i)\<close> of an integer: from the midpoint between the largest binary64 number and the next power of
  two on, the conversion raises.
\<close>

definition FLOAT_BOUND :: int where
  "FLOAT_BOUND = 2 ^ 1024 - 2 ^ 970"

definition float_of_int :: "int \<Rightarrow> pyfloat res" where
  "float_of_int i = (if \<bar>i\<bar> < FLOAT_BOUND then Inr (Fin (of_int i)) else Inl OverflowError)"

lemma float_of_int_small [py_simps]: "\<bar>i\<bar> \<le> 9007199254740992 \<Longrightarrow> float_of_int i = Inr (Fin (of_int i))"
proof -
  have "(9007199254740992 :: int) < 2 ^ 970" by simp
  moreover have "(2 :: int) ^ 1024 = 2 ^ 54 * 2 ^ 970" by (simp flip: power_add)
  ultimately have "(9007199254740992 :: int) < FLOAT_BOUND" unfolding FLOAT_BOUND_def by simp
  moreover assume "\<bar>i\<bar> \<le> 9007199254740992"
  ultimately show ?thesis by (simp add: float_of_int_def)
qed

lemma float_of_int_code [code]:
  "float_of_int i = (if \<bar>i\<bar> \<le> 9007199254740992 then Inr (Fin (of_int i))
     else if \<bar>i\<bar> < FLOAT_BOUND then Inr (Fin (of_int i)) else Inl OverflowError)"
  by (simp add: float_of_int_small) (simp add: float_of_int_def)

lemma float_of_int_Inr: "float_of_int i = Inr f \<Longrightarrow> f = Fin (of_int i)"
  by (simp add: float_of_int_def split: if_splits)

text \<open>\<^verbatim>\<open>float(value)\<close>\<close>

definition py_float :: "runtime \<Rightarrow> pyval \<Rightarrow> pyfloat res" where
  "py_float R v = (case v of
       PBool b \<Rightarrow> Inr (Fin (if b then 1 else 0))
     | PInt i \<Rightarrow> float_of_int i
     | PFloat f \<Rightarrow> Inr f
     | PStr s \<Rightarrow> (case rt_float R s of
           None \<Rightarrow> Inl (ValueError (''could not convert string to float: '' @ rt_repr R v)) | Some f \<Rightarrow> Inr f)
     | _ \<Rightarrow> Inl TypeError)"

text \<open>The same inside \<^verbatim>\<open>try ... except (TypeError, ValueError)\<close>: \<open>None\<close> for what the handler catches.\<close>

definition try_float :: "runtime \<Rightarrow> pyval \<Rightarrow> pyfloat option res" where
  "try_float R v = (case py_float R v of
       Inr f \<Rightarrow> Inr (Some f)
     | Inl e \<Rightarrow> (case e of TypeError \<Rightarrow> Inr None | ValueError _ \<Rightarrow> Inr None | _ \<Rightarrow> Inl e))"

text \<open>Two timestamps are equal as instants when both are aware, as readings of the clock when neither is.\<close>

definition same_time :: "pydt \<Rightarrow> pydt \<Rightarrow> bool" where
  "same_time t u = (case (dt_offset t, dt_offset u) of
       (None, None) \<Rightarrow> dt_wall t = dt_wall u
     | (Some x, Some y) \<Rightarrow> dt_wall t - x = dt_wall u - y
     | _ \<Rightarrow> False)"

section \<open>Insertion ordered dictionaries\<close>

definition dict_get :: "('k \<times> 'v) list \<Rightarrow> 'k \<Rightarrow> 'v option" where
  "dict_get d k = map_of d k"

text \<open>\<^verbatim>\<open>record.get(field)\<close> and \<^verbatim>\<open>record.get(field, default)\<close> on a dict of values.\<close>

definition get_field :: "pyrec \<Rightarrow> string \<Rightarrow> pyval" where
  "get_field r f = (case map_of r f of None \<Rightarrow> PNone | Some v \<Rightarrow> v)"

definition get_field_or :: "pyrec \<Rightarrow> string \<Rightarrow> pyval \<Rightarrow> pyval" where
  "get_field_or r f d = (case map_of r f of None \<Rightarrow> d | Some v \<Rightarrow> v)"

text \<open>\<^verbatim>\<open>d[k] = v\<close>: an existing key keeps its place.\<close>

fun dict_set :: "'k \<Rightarrow> 'v \<Rightarrow> ('k \<times> 'v) list \<Rightarrow> ('k \<times> 'v) list" where
  "dict_set k v [] = [(k, v)]"
| "dict_set k v ((k', v') # d) = (if k = k' then (k, v) # d else (k', v') # dict_set k v d)"

text \<open>\<^verbatim>\<open>d.setdefault(k, []).append(x)\<close>\<close>

fun dict_append :: "'k \<Rightarrow> 'v \<Rightarrow> ('k \<times> 'v list) list \<Rightarrow> ('k \<times> 'v list) list" where
  "dict_append k x [] = [(k, [x])]"
| "dict_append k x ((k', xs) # d) =
     (if k = k' then (k', xs @ [x]) # d else (k', xs) # dict_append k x d)"

text \<open>Grouping loop: the values of each key in the order they arrive.\<close>

fun group_pairs :: "('k \<times> 'v) list \<Rightarrow> ('k \<times> 'v list) list \<Rightarrow> ('k \<times> 'v list) list" where
  "group_pairs [] g = g"
| "group_pairs ((k, x) # ps) g = group_pairs ps (dict_append k x g)"

section \<open>List functions\<close>

text \<open>\<^verbatim>\<open>itertools.combinations(xs, 2)\<close>\<close>

fun combs2 :: "'a list \<Rightarrow> ('a \<times> 'a) list" where
  "combs2 [] = []"
| "combs2 (x # xs) = map (Pair x) xs @ combs2 xs"

text \<open>\<^verbatim>\<open>zip(xs, xs[1:])\<close>\<close>

definition adjacent :: "'a list \<Rightarrow> ('a \<times> 'a) list" where
  "adjacent xs = zip xs (tl xs)"

text \<open>Two statements in sequence: the second runs with the result of the first, unless that raised.\<close>

definition and_then :: "'a res \<Rightarrow> ('a \<Rightarrow> 'b res) \<Rightarrow> 'b res" where
  "and_then r k = (case r of Inl e \<Rightarrow> Inl e | Inr v \<Rightarrow> k v)"

text \<open>A \<^verbatim>\<open>for\<close> loop whose body may raise; the first exception ends the loop.\<close>

fun res_fold :: "('a \<Rightarrow> 's \<Rightarrow> 's res) \<Rightarrow> 'a list \<Rightarrow> 's \<Rightarrow> 's res" where
  "res_fold f [] s = Inr s"
| "res_fold f (x # xs) s = (case f x s of Inl e \<Rightarrow> Inl e | Inr s' \<Rightarrow> res_fold f xs s')"

section \<open>Lemmas about dictionaries\<close>

lemma map_of_dict_set [simp]: "map_of (dict_set k v d) = (map_of d)(k \<mapsto> v)"
  by (induction d) (auto simp: fun_eq_iff)

lemma keys_dict_set [simp]: "fst ` set (dict_set k v d) = insert k (fst ` set d)"
  by (induction k v d rule: dict_set.induct) (simp_all add: insert_commute)

lemma distinct_dict_set [simp]:
  "distinct (map fst d) \<Longrightarrow> distinct (map fst (dict_set k v d))"
  by (induction d) (auto simp: image_iff dest: arg_cong[where f = set])

lemma dict_set_fresh: "k \<notin> fst ` set d \<Longrightarrow> dict_set k v d = d @ [(k, v)]"
  by (induction d) auto

lemma map_of_map_keys: "map_of (map (\<lambda>k. (k, f k)) ks) k = (if k \<in> set ks then Some (f k) else None)"
  by (induction ks) auto

lemma map_of_dict_append:
  "map_of (dict_append k x g) =
     (map_of g)(k \<mapsto> (case map_of g k of None \<Rightarrow> [x] | Some xs \<Rightarrow> xs @ [x]))"
  by (induction g) (auto simp: fun_eq_iff)

lemma keys_dict_append [simp]: "fst ` set (dict_append k x g) = insert k (fst ` set g)"
  by (induction k x g rule: dict_append.induct) (simp_all add: insert_commute)

lemma distinct_dict_append [simp]:
  "distinct (map fst g) \<Longrightarrow> distinct (map fst (dict_append k x g))"
  by (induction g) (auto simp: image_iff dest: arg_cong[where f = set])

lemma distinct_group_pairs [simp]:
  "distinct (map fst g) \<Longrightarrow> distinct (map fst (group_pairs ps g))"
  by (induction ps g rule: group_pairs.induct) auto

lemma map_of_group_pairs:
  "map_of (group_pairs ps g) k =
     (let xs = map snd (filter (\<lambda>p. fst p = k) ps)
      in case map_of g k of
           None \<Rightarrow> (if xs = [] then None else Some xs)
         | Some ys \<Rightarrow> Some (ys @ xs))"
  by (induction ps g rule: group_pairs.induct)
     (auto simp: map_of_dict_append Let_def split: option.splits)

text \<open>A group holds exactly the values that arrived under its key.\<close>

lemma group_pairs_mem:
  assumes "(k, xs) \<in> set (group_pairs ps [])"
  shows "xs = map snd (filter (\<lambda>p. fst p = k) ps)" and "xs \<noteq> []"
proof -
  have "map_of (group_pairs ps []) k = Some xs"
    using assms by (simp add: map_of_is_SomeI)
  then show "xs = map snd (filter (\<lambda>p. fst p = k) ps)" and "xs \<noteq> []"
    by (auto simp: map_of_group_pairs Let_def split: if_splits)
qed

lemma group_pairs_complete:
  assumes "(k, x) \<in> set ps"
  shows "(k, map snd (filter (\<lambda>p. fst p = k) ps)) \<in> set (group_pairs ps [])"
proof -
  have "map snd (filter (\<lambda>p. fst p = k) ps) \<noteq> []"
    using assms by (force simp: filter_empty_conv)
  then have "map_of (group_pairs ps []) k = Some (map snd (filter (\<lambda>p. fst p = k) ps))"
    by (simp add: map_of_group_pairs Let_def)
  then show ?thesis by (rule map_of_SomeD)
qed

lemma distinct_map_card: "length xs = card (f ` set xs) \<longleftrightarrow> distinct (map f xs)"
  by (metis card_distinct distinct_card length_map set_map)

section \<open>Lemmas about combinations and adjacent pairs\<close>

lemma combs2_subset: "(a, b) \<in> set (combs2 xs) \<Longrightarrow> a \<in> set xs \<and> b \<in> set xs"
  by (induction xs) auto

lemma combs2_sorted_iff:
  fixes xs :: "'a::linorder list"
  assumes "sorted xs" and "distinct xs"
  shows "(a, b) \<in> set (combs2 xs) \<longleftrightarrow> a \<in> set xs \<and> b \<in> set xs \<and> a < b"
  using assms by (induction xs) (auto simp: order.order_iff_strict dest: combs2_subset)

lemma distinct_combs2: "distinct xs \<Longrightarrow> distinct (combs2 xs)"
  by (induction xs) (auto simp: distinct_map inj_on_def dest: combs2_subset)

lemma adjacent_subset: "(a, b) \<in> set (adjacent xs) \<Longrightarrow> a \<in> set xs \<and> b \<in> set xs"
  unfolding adjacent_def by (cases xs) (auto dest: set_zip_leftD set_zip_rightD)

lemma adjacent_Cons2: "adjacent (x # y # xs) = (x, y) # adjacent (y # xs)"
  by (simp add: adjacent_def)

lemma adjacent_simps [simp]: "adjacent [] = []" "adjacent [x] = []"
  by (simp_all add: adjacent_def)

section \<open>Lemmas about loops that may raise\<close>

lemma and_then_simps:
  "and_then (Inr v) k = k v" "and_then (Inl e) k = Inl e"
  by (simp_all add: and_then_def)

lemma and_then_Inr: "and_then r k = Inr w \<longleftrightarrow> (\<exists>v. r = Inr v \<and> k v = Inr w)"
  by (cases r) (simp_all add: and_then_def)

text \<open>A loop that returns has run every body, each from the state the ones before it left.\<close>

lemma res_fold_unit: "res_fold f xs () = Inr u \<longleftrightarrow> (\<forall>x \<in> set xs. f x () = Inr ())"
  by (induction xs) (auto split: sum.split)

lemma res_fold_append [res_simps]:
  "res_fold f (xs @ ys) s =
     (case res_fold f xs s of Inl e \<Rightarrow> Inl e | Inr s' \<Rightarrow> res_fold f ys s')"
  by (induction xs arbitrary: s) (auto split: sum.splits)

text \<open>A loop whose body never raises under an invariant returns, and keeps the invariant.\<close>

lemma res_fold_total:
  assumes "I s"
    and "\<And>x s. x \<in> set xs \<Longrightarrow> I s \<Longrightarrow> \<exists>s'. f x s = Inr s' \<and> I s'"
  shows "\<exists>s'. res_fold f xs s = Inr s' \<and> I s'"
  using assms
proof (induction xs arbitrary: s)
  case Nil
  then show ?case by simp
next
  case (Cons x xs)
  then obtain s' where "f x s = Inr s'" "I s'" by (meson list.set_intros(1))
  with Cons show ?case by (auto intro: Cons.IH)
qed

lemma res_fold_inv:
  assumes "res_fold f xs s = Inr s'" and "I s"
    and "\<And>x s s'. x \<in> set xs \<Longrightarrow> I s \<Longrightarrow> f x s = Inr s' \<Longrightarrow> I s'"
  shows "I s'"
  using assms
  by (induction xs arbitrary: s) (auto split: sum.splits, metis)

text \<open>The result and the state an operation leaves.\<close>

lemma returned_pair: "\<not> isl (fst p) \<Longrightarrow> \<exists>x s. p = (Inr x, s)"
  by (cases p; cases "fst p") auto

lemma raised_pair: "isl (fst p) \<Longrightarrow> \<exists>e s. p = (Inl e, s)"
  by (cases p; cases "fst p") auto

section \<open>Lemmas about strings\<close>

lemma starts_with_append [simp]: "starts_with (p @ s) p"
  by (induction p) auto

lemma starts_with_iff: "starts_with s p \<longleftrightarrow> (\<exists>t. s = p @ t)"
  by (induction s p rule: starts_with.induct) auto

lemma strip_empty [simp]: "strip [] = []"
  by (simp add: strip_def)

section \<open>Connectivity by undirected links\<close>

text \<open>
  Two items are \<open>linked\<close> by a set of pairs when a path of pairs, taken in
  either direction, joins them: the equivalence closure of the pairs. It is the
  specification of the clusters the matchers compute and of a lineage trace.
\<close>

definition link_step :: "('a \<times> 'a) set \<Rightarrow> 'a \<Rightarrow> 'a \<Rightarrow> bool" where
  "link_step L a b = ((a, b) \<in> L \<or> (b, a) \<in> L)"

definition linked :: "('a \<times> 'a) set \<Rightarrow> 'a \<Rightarrow> 'a \<Rightarrow> bool" where
  "linked L = (link_step L)\<^sup>*\<^sup>*"

lemma linked_refl [simp]: "linked L a a"
  by (simp add: linked_def)

lemma linked_trans: "linked L a b \<Longrightarrow> linked L b c \<Longrightarrow> linked L a c"
  unfolding linked_def by (rule rtranclp_trans)

lemma linked_pair: "(a, b) \<in> L \<Longrightarrow> linked L a b"
  unfolding linked_def link_step_def by blast

lemma linked_sym: "linked L a b \<Longrightarrow> linked L b a"
  unfolding linked_def link_step_def
  by (rule sympD [OF symp_rtranclp]) (auto simp: symp_def)

lemma linked_mono: "linked L a b \<Longrightarrow> L \<subseteq> L' \<Longrightarrow> linked L' a b"
  unfolding linked_def by (erule rtranclp_mono [THEN predicate2D, rotated]) (auto simp: link_step_def)

lemma linked_empty [simp]: "linked {} a b \<longleftrightarrow> a = b"
  unfolding linked_def link_step_def
  by (auto elim: rtranclp_induct)

lemma linked_step: "linked L a b \<Longrightarrow> link_step L b c \<Longrightarrow> linked L a c"
  unfolding linked_def by (rule rtranclp.rtrancl_into_rtrancl)

text \<open>Adding one pair joins exactly its two sides.\<close>

lemma linked_insert:
  "linked (insert (a, b) L) x y \<longleftrightarrow>
     linked L x y \<or> (linked L x a \<and> linked L b y) \<or> (linked L x b \<and> linked L a y)"
    (is "_ \<longleftrightarrow> ?R x y")
proof
  assume "linked (insert (a, b) L) x y"
  then show "?R x y"
    unfolding linked_def [of "insert (a, b) L"]
  proof (induction rule: rtranclp_induct)
    case base
    show ?case by simp
  next
    case (step y z)
    from step.hyps(2) consider "link_step L y z" | "y = a \<and> z = b" | "y = b \<and> z = a"
      by (auto simp: link_step_def)
    then show ?case
      using step.IH by cases (auto intro: linked_step linked_trans)
  qed
next
  have ab: "linked (insert (a, b) L) a b" by (rule linked_pair) simp
  have up: "linked L u v \<Longrightarrow> linked (insert (a, b) L) u v" for u v
    by (erule linked_mono) blast
  assume "?R x y"
  then show "linked (insert (a, b) L) x y"
    using ab up linked_trans linked_sym by metis
qed

section \<open>Joining and numbering without collisions\<close>

text \<open>Texts that do not contain the separator can be read back from their join.\<close>

lemma join_Cons: "xs \<noteq> [] \<Longrightarrow> join sep (x # xs) = x @ sep @ join sep xs"
  by (cases xs) auto

lemma append_sep_eq:
  assumes "x @ c # s = y @ c # t" and "c \<notin> set x" and "c \<notin> set y"
  shows "x = y \<and> s = t"
  using assms
proof (induction x arbitrary: y)
  case Nil
  then show ?case by (cases y) auto
next
  case (Cons a x)
  then show ?case by (cases y) auto
qed

lemma join_inj:
  assumes "join [c] xs = join [c] ys" and "xs \<noteq> []" and "ys \<noteq> []"
    and "\<forall>x \<in> set xs. c \<notin> set x" and "\<forall>y \<in> set ys. c \<notin> set y"
  shows "xs = ys"
  using assms
proof (induction xs arbitrary: ys)
  case Nil
  then show ?case by simp
next
  case (Cons x xs)
  then obtain y ys' where ys: "ys = y # ys'" by (cases ys) auto
  show ?case
  proof (cases "xs = [] \<or> ys' = []")
    case True
    then show ?thesis using Cons.prems ys
      by (cases xs; cases ys') (auto simp: join_Cons)
  next
    case False
    then have "x @ c # join [c] xs = y @ c # join [c] ys'"
      using Cons.prems(1) ys by (simp add: join_Cons)
    then have "x = y \<and> join [c] xs = join [c] ys'"
      by (rule append_sep_eq) (use Cons.prems ys in auto)
    with Cons.IH [of ys'] Cons.prems False ys show ?thesis by simp
  qed
qed

definition nat_of_digits :: "string \<Rightarrow> nat" where
  "nat_of_digits s = foldl (\<lambda>a c. 10 * a + (of_char c - 48)) 0 s"

lemma nat_of_digits_of: "n < f \<Longrightarrow> nat_of_digits (digits_of f n) = n"
proof (induction f n rule: digits_of.induct)
  case (2 f n)
  have "n div 10 < f" if "10 \<le> n" using that 2(2) by linarith
  with 2 show ?case by (auto simp: nat_of_digits_def not_less)
qed simp

lemma nat_str_inj: "nat_str m = nat_str n \<longleftrightarrow> m = n"
  unfolding nat_str_def using nat_of_digits_of [of m "Suc m"] nat_of_digits_of [of n "Suc n"] by auto

section \<open>A concrete runtime\<close>

text \<open>
  A runtime on which hypotheses about the runtime hold: ASCII case tables, names
  numbered without collisions, digits read as integers, and no timestamps.
\<close>

definition ascii_lower :: "char \<Rightarrow> char" where
  "ascii_lower c = (let n = of_char c :: nat in if 65 \<le> n \<and> n \<le> 90 then char_of (n + 32) else c)"

definition ascii_upper :: "char \<Rightarrow> char" where
  "ascii_upper c = (let n = of_char c :: nat in if 97 \<le> n \<and> n \<le> 122 then char_of (n - 32) else c)"

fun text_number :: "string \<Rightarrow> nat" where
  "text_number [] = 0"
| "text_number (c # s) = 1 + of_char c + 257 * text_number s"

definition ascii_runtime :: runtime where
  "ascii_runtime = \<lparr>rt_nfkc = (\<lambda>s. s), rt_casefold = map ascii_lower, rt_lower = map ascii_lower,
     rt_upper = map ascii_upper, rt_repr = (\<lambda>v. ''?''), rt_sha256 = (\<lambda>s. s), rt_uuid5 = text_number,
     rt_uuid_str = nat_str, rt_uuid_hex = nat_str, rt_as_uri = (\<lambda>p. ''file://'' @ p),
     rt_uri_path = (\<lambda>u. if starts_with u ''file://'' then Some (drop 7 u) else None), rt_fromiso = (\<lambda>s. None), rt_isoformat = int_str,
     rt_dt_isoformat = (\<lambda>t. int_str (dt_wall t)), rt_float = (\<lambda>s. None),
     rt_int = (\<lambda>s. if s \<noteq> [] \<and> list_all is_digit s then Some (int (nat_of_digits s)) else None),
     rt_fullmatch = (\<lambda>p s. Some (p = s)), rt_json = (\<lambda>v. ''?''),
     rt_ratio = (\<lambda>a b. if a = b then 100 else 0), rt_recursion_limit = 1000\<rparr>"

lemma text_number_inj: "text_number s = text_number t \<longleftrightarrow> s = t"
proof (induction s arbitrary: t)
  case Nil
  then show ?case by (cases t) auto
next
  case (Cons c s)
  show ?case
  proof (cases t)
    case Nil
    then show ?thesis by simp
  next
    case (Cons d t')
    have lt: "of_char x < (256::nat)" for x :: char by (rule nat_of_char_less_256)
    show ?thesis
    proof
      assume eq: "text_number (c # s) = text_number t"
      then have "(1 + of_char c + 257 * text_number s) mod 257 = (1 + of_char d + 257 * text_number t') mod 257"
        using Cons by simp
      then have "of_char c = (of_char d :: nat)" using lt [of c] lt [of d] by simp
      with eq Cons Cons.IH [of t'] show "c # s = t" by simp
    qed (use Cons in simp)
  qed
qed

lemma ascii_uuid_inj: "inj (\<lambda>n. rt_uuid_str ascii_runtime (rt_uuid5 ascii_runtime n))"
  by (simp add: inj_def ascii_runtime_def nat_str_inj text_number_inj)

end
