(* ===== verification/UnionFind.thy ===== *)
theory UnionFind
  imports Prelude
begin

text \<open>
  The class \<open>UnionFind\<close> of \<^verbatim>\<open>matching/deterministic.py\<close>: a parent dictionary
  with path compression and a union that lets the smaller root win. The interface
  the matchers rely on is the locale \<open>partition_store\<close>: a \<open>find\<close> that returns
  the representative of a class and changes no class, a \<open>union\<close> that merges
  exactly two classes. It is interpreted on the model of the class below.
\<close>

section \<open>Model of the class\<close>

type_synonym 'k uf = "'k \<rightharpoonup> 'k"

text \<open>\<^verbatim>\<open>self.parent = {key: key for key in keys}\<close>\<close>

definition uf_init :: "'k list \<Rightarrow> 'k uf" where
  "uf_init keys = map_of (map (\<lambda>k. (k, k)) keys)"

text \<open>
  \<open>find\<close> recurses to the root and rewrites the parent of every key on the way.
  The first argument is the number of stack frames the interpreter grants: with
  none left it raises \<open>RecursionError\<close>.
\<close>

fun uf_find :: "nat \<Rightarrow> string uf \<Rightarrow> string \<Rightarrow> (string \<times> string uf) res" where
  "uf_find 0 uf key = Inl RecursionError"
| "uf_find (Suc depth) uf key =
     (case uf key of
        None \<Rightarrow> Inl (KeyError key)
      | Some parent \<Rightarrow>
          if parent \<noteq> key
          then (case uf_find depth uf parent of
                  Inl e \<Rightarrow> Inl e
                | Inr (found, uf') \<Rightarrow> Inr (found, uf'(key \<mapsto> found)))
          else Inr (parent, uf))"

definition uf_union :: "nat \<Rightarrow> string uf \<Rightarrow> string \<Rightarrow> string \<Rightarrow> (string \<times> string uf) res" where
  "uf_union depth uf left right =
     (case uf_find depth uf left of
        Inl e \<Rightarrow> Inl e
      | Inr (left_root, uf1) \<Rightarrow>
          (case uf_find depth uf1 right of
             Inl e \<Rightarrow> Inl e
           | Inr (right_root, uf2) \<Rightarrow>
               if left_root = right_root then Inr (left_root, uf2)
               else let winner = min left_root right_root;
                        loser = max left_root right_root
                    in Inr (winner, uf2(loser \<mapsto> winner))))"

section \<open>The interface\<close>

locale partition_store =
  fixes find_op :: "'s \<Rightarrow> 'k \<Rightarrow> ('k \<times> 's) res"
    and union_op :: "'s \<Rightarrow> 'k \<Rightarrow> 'k \<Rightarrow> ('k \<times> 's) res"
    and keys :: "'s \<Rightarrow> 'k set"
    and cls :: "'s \<Rightarrow> 'k \<Rightarrow> 'k"
    and invar :: "'s \<Rightarrow> bool"
  assumes find_spec: "invar s \<Longrightarrow> k \<in> keys s \<Longrightarrow>
      \<exists>s'. find_op s k = Inr (cls s k, s') \<and> invar s' \<and> keys s' = keys s
           \<and> (\<forall>j \<in> keys s. cls s' j = cls s j)"
    and union_spec: "invar s \<Longrightarrow> a \<in> keys s \<Longrightarrow> b \<in> keys s \<Longrightarrow>
      \<exists>w s'. union_op s a b = Inr (w, s') \<and> w \<in> {cls s a, cls s b}
           \<and> invar s' \<and> keys s' = keys s
           \<and> (\<forall>j \<in> keys s. cls s' j = (if cls s j \<in> {cls s a, cls s b} then w else cls s j))"
    and cls_key: "invar s \<Longrightarrow> k \<in> keys s \<Longrightarrow> cls s k \<in> keys s"
    and cls_idem: "invar s \<Longrightarrow> k \<in> keys s \<Longrightarrow> cls s (cls s k) = cls s k"
begin

text \<open>The classes of a store are the components of a set of links.\<close>

definition tracks :: "('k \<times> 'k) set \<Rightarrow> 's \<Rightarrow> bool" where
  "tracks L s = (invar s \<and> L \<subseteq> keys s \<times> keys s
     \<and> (\<forall>a \<in> keys s. \<forall>b \<in> keys s. cls s a = cls s b \<longleftrightarrow> linked L a b))"

lemma tracks_find:
  assumes "tracks L s" and "k \<in> keys s"
  shows "\<exists>s'. find_op s k = Inr (cls s k, s') \<and> tracks L s' \<and> keys s' = keys s
           \<and> (\<forall>j \<in> keys s. cls s' j = cls s j)"
proof -
  from assms(1) have inv: "invar s" by (simp add: tracks_def)
  from find_spec [OF inv assms(2)] obtain s' where s': "find_op s k = Inr (cls s k, s')"
    "invar s'" "keys s' = keys s" "\<forall>j \<in> keys s. cls s' j = cls s j" by blast
  with assms(1) have "tracks L s'" by (simp add: tracks_def)
  with s' show ?thesis by blast
qed

lemma tracks_union:
  assumes t: "tracks L s" and a: "a \<in> keys s" and b: "b \<in> keys s"
  shows "\<exists>w s'. union_op s a b = Inr (w, s') \<and> tracks (insert (a, b) L) s' \<and> keys s' = keys s
           \<and> w \<in> {cls s a, cls s b}
           \<and> (\<forall>j \<in> keys s. cls s' j = (if cls s j \<in> {cls s a, cls s b} then w else cls s j))"
proof -
  from t have inv: "invar s" and
    same: "\<And>x y. x \<in> keys s \<Longrightarrow> y \<in> keys s \<Longrightarrow> cls s x = cls s y \<longleftrightarrow> linked L x y"
    by (auto simp: tracks_def)
  from union_spec [OF inv a b] obtain w s' where u: "union_op s a b = Inr (w, s')"
    "w \<in> {cls s a, cls s b}" "invar s'" "keys s' = keys s"
    and c: "\<And>j. j \<in> keys s \<Longrightarrow> cls s' j = (if cls s j \<in> {cls s a, cls s b} then w else cls s j)"
    by blast
  have "cls s' x = cls s' y \<longleftrightarrow> linked (insert (a, b) L) x y"
    if x: "x \<in> keys s" and y: "y \<in> keys s" for x y
  proof -
    have "linked (insert (a, b) L) x y \<longleftrightarrow>
        cls s x = cls s y \<or> (cls s x = cls s a \<and> cls s b = cls s y)
        \<or> (cls s x = cls s b \<and> cls s a = cls s y)"
      by (simp add: linked_insert same a b x y)
    then show ?thesis using u(2) by (auto simp: c x y)
  qed
  with u t a b have "tracks (insert (a, b) L) s'" by (auto simp: tracks_def)
  with u c show ?thesis by auto
qed

lemma tracks_same:
  "tracks L s \<Longrightarrow> a \<in> keys s \<Longrightarrow> b \<in> keys s \<Longrightarrow> cls s a = cls s b \<longleftrightarrow> linked L a b"
  by (simp add: tracks_def)

text \<open>Merging a list of pairs succeeds and adds exactly these links.\<close>

lemma tracks_union_all:
  assumes "tracks L s" and "set ps \<subseteq> keys s \<times> keys s"
  shows "\<exists>s'. res_fold (\<lambda>(a, b) s. case union_op s a b of Inl e \<Rightarrow> Inl e | Inr (_, s') \<Rightarrow> Inr s') ps s
             = Inr s' \<and> tracks (L \<union> set ps) s' \<and> keys s' = keys s"
  using assms
proof (induction ps arbitrary: L s)
  case Nil
  then show ?case by simp
next
  case (Cons p ps)
  obtain a b where p: "p = (a, b)" by (cases p)
  with Cons.prems have ab: "a \<in> keys s" "b \<in> keys s" by auto
  from tracks_union [OF Cons.prems(1) ab] obtain w s1 where
    1: "union_op s a b = Inr (w, s1)" "tracks (insert (a, b) L) s1" "keys s1 = keys s"
    by blast
  have "set ps \<subseteq> keys s1 \<times> keys s1" using Cons.prems(2) 1(3) by auto
  from Cons.IH [OF 1(2) this] 1 p show ?case by auto
qed

end

section \<open>Representatives\<close>

inductive uf_rep :: "string uf \<Rightarrow> string \<Rightarrow> string \<Rightarrow> bool" for uf where
  root: "uf k = Some k \<Longrightarrow> uf_rep uf k k"
| step: "uf k = Some p \<Longrightarrow> p \<noteq> k \<Longrightarrow> uf_rep uf p r \<Longrightarrow> uf_rep uf k r"

text \<open>Parents are keys and never larger than their children: the order rules out cycles.\<close>

definition uf_wf :: "string uf \<Rightarrow> bool" where
  "uf_wf uf = (finite (dom uf) \<and> (\<forall>k p. uf k = Some p \<longrightarrow> p \<in> dom uf \<and> p \<le> k))"

definition uf_below :: "string uf \<Rightarrow> string \<Rightarrow> nat" where
  "uf_below uf k = card {j \<in> dom uf. j \<le> k}"

lemma uf_below_less:
  assumes "uf_wf uf" and "uf k = Some p" and "p \<noteq> k"
  shows "uf_below uf p < uf_below uf k"
  unfolding uf_below_def
proof (rule psubset_card_mono)
  show "finite {j \<in> dom uf. j \<le> k}" using assms(1) by (simp add: uf_wf_def)
  have "p < k" using assms by (auto simp: uf_wf_def order.strict_iff_order)
  moreover have "k \<in> {j \<in> dom uf. j \<le> k}" using assms(2) by auto
  moreover have "k \<notin> {j \<in> dom uf. j \<le> p}" using \<open>p < k\<close> by (simp add: not_le)
  moreover have "{j \<in> dom uf. j \<le> p} \<subseteq> {j \<in> dom uf. j \<le> k}"
    using \<open>p < k\<close> by auto
  ultimately show "{j \<in> dom uf. j \<le> p} \<subset> {j \<in> dom uf. j \<le> k}" by blast
qed

lemma uf_rep_root: "uf_rep uf k r \<Longrightarrow> uf r = Some r"
  by (induction rule: uf_rep.induct) auto

lemma uf_rep_dom: "uf_rep uf k r \<Longrightarrow> k \<in> dom uf \<and> r \<in> dom uf"
  by (induction rule: uf_rep.induct) auto

lemma uf_rep_unique: "uf_rep uf k r \<Longrightarrow> uf_rep uf k r' \<Longrightarrow> r' = r"
proof (induction arbitrary: r' rule: uf_rep.induct)
  case (root k)
  then show ?case by (auto elim: uf_rep.cases)
next
  case (step k p r)
  from step.prems step.hyps have "uf_rep uf p r'" by (auto elim: uf_rep.cases)
  then show ?case by (rule step.IH)
qed

lemma uf_rep_exists:
  assumes "uf_wf uf" and "k \<in> dom uf"
  shows "\<exists>r. uf_rep uf k r"
  using assms(2)
proof (induction "uf_below uf k" arbitrary: k rule: less_induct)
  case less
  then obtain p where p: "uf k = Some p" by auto
  show ?case
  proof (cases "p = k")
    case True
    with p show ?thesis by (blast intro: uf_rep.root)
  next
    case False
    with p assms(1) have "p \<in> dom uf" "uf_below uf p < uf_below uf k"
      by (auto simp: uf_wf_def intro: uf_below_less)
    with less p False show ?thesis by (blast intro: uf_rep.step)
  qed
qed

lemma uf_rep_le: "uf_wf uf \<Longrightarrow> uf_rep uf k r \<Longrightarrow> r \<le> k"
  by (rotate_tac, induction rule: uf_rep.induct) (auto simp: uf_wf_def intro: order.trans)

text \<open>Pointing a key directly at its root changes no representative.\<close>

lemma uf_rep_compress:
  assumes wf: "uf_wf uf" and kr: "uf_rep uf k r"
  shows "uf_wf (uf(k \<mapsto> r))" and "uf_rep (uf(k \<mapsto> r)) j x \<longleftrightarrow> uf_rep uf j x"
proof -
  have le: "r \<le> k" using wf kr by (rule uf_rep_le)
  have rr: "uf r = Some r" using kr by (rule uf_rep_root)
  show wf': "uf_wf (uf(k \<mapsto> r))"
    using wf kr le uf_rep_dom [OF kr] by (auto simp: uf_wf_def)
  have fwd: "uf_rep uf j x \<Longrightarrow> uf_rep (uf(k \<mapsto> r)) j x" for j x
  proof (induction rule: uf_rep.induct)
    case (root j)
    have "j = k \<Longrightarrow> j = r" using uf_rep_unique [OF kr] uf_rep.root [of uf j] root by blast
    then show ?case using root by (intro uf_rep.root) auto
  next
    case (step j p x)
    show ?case
    proof (cases "j = k")
      case True
      with step have "uf_rep uf k x" by (auto intro: uf_rep.step)
      with kr have [simp]: "x = r" by (auto dest: uf_rep_unique)
      have "r \<noteq> k" using step.hyps True rr by auto
      then show ?thesis using True rr by (auto intro!: uf_rep.step [where p = r] uf_rep.root)
    next
      case False
      with step show ?thesis by (auto intro: uf_rep.step)
    qed
  qed
  show "uf_rep (uf(k \<mapsto> r)) j x \<longleftrightarrow> uf_rep uf j x"
  proof
    assume a: "uf_rep (uf(k \<mapsto> r)) j x"
    then have "j \<in> dom uf" using uf_rep_dom [OF a] uf_rep_dom [OF kr] by auto
    then obtain y where "uf_rep uf j y" using uf_rep_exists [OF wf] by blast
    with fwd a show "uf_rep uf j x" by (metis uf_rep_unique)
  qed (rule fwd)
qed

section \<open>Correctness of find and union\<close>

text \<open>\<open>find\<close> needs at most as many frames as there are keys below its argument.\<close>

lemma uf_find_correct:
  assumes "uf_wf uf" and "uf_rep uf k r" and "uf_below uf k \<le> depth"
  shows "\<exists>uf'. uf_find depth uf k = Inr (r, uf') \<and> uf_wf uf' \<and> dom uf' = dom uf
           \<and> (\<forall>j x. uf_rep uf' j x \<longleftrightarrow> uf_rep uf j x)"
  using assms
proof (induction depth arbitrary: k)
  case 0
  then have "{j \<in> dom uf. j \<le> k} = {}" by (simp add: uf_below_def uf_wf_def)
  with "0.prems" show ?case by (auto dest: uf_rep_dom)
next
  case (Suc depth)
  from Suc.prems(2) show ?case
  proof cases
    case root
    then show ?thesis using Suc.prems(1) by simp
  next
    case (step p)
    with Suc.prems have "uf_below uf p \<le> depth"
      using uf_below_less [of uf k p] by linarith
    from Suc.IH [OF Suc.prems(1) step(3) this] obtain uf' where
      f: "uf_find depth uf p = Inr (r, uf')" "uf_wf uf'" "dom uf' = dom uf"
        "\<And>j x. uf_rep uf' j x \<longleftrightarrow> uf_rep uf j x" by blast
    have kr: "uf_rep uf' k r" using f(4) Suc.prems(2) by simp
    have dom: "insert k (dom uf) = dom uf" using step(1) by auto
    from f step uf_rep_compress [OF f(2) kr] dom show ?thesis
      by simp
  qed
qed

definition uf_cls :: "nat \<Rightarrow> string uf \<Rightarrow> string \<Rightarrow> string" where
  "uf_cls depth uf k = (case uf_find depth uf k of Inl _ \<Rightarrow> k | Inr (r, _) \<Rightarrow> r)"

definition uf_invar :: "nat \<Rightarrow> string uf \<Rightarrow> bool" where
  "uf_invar depth uf = (uf_wf uf \<and> card (dom uf) \<le> depth)"

lemma uf_below_le: "uf_invar depth uf \<Longrightarrow> uf_below uf k \<le> depth"
proof -
  assume inv: "uf_invar depth uf"
  then have "card {j \<in> dom uf. j \<le> k} \<le> card (dom uf)"
    by (intro card_mono) (auto simp: uf_invar_def uf_wf_def)
  with inv show ?thesis by (simp add: uf_below_def uf_invar_def)
qed

lemma uf_cls_iff:
  assumes "uf_invar depth uf" and "k \<in> dom uf"
  shows "uf_rep uf k r \<longleftrightarrow> uf_cls depth uf k = r"
proof -
  from assms obtain r' where r': "uf_rep uf k r'"
    using uf_rep_exists by (auto simp: uf_invar_def)
  with assms have "uf_cls depth uf k = r'"
    using uf_find_correct [of uf k r' depth] uf_below_le [of depth uf k]
    by (auto simp: uf_cls_def uf_invar_def)
  with r' show ?thesis by (auto dest: uf_rep_unique)
qed

lemma uf_find_spec:
  assumes inv: "uf_invar depth uf" and k: "k \<in> dom uf"
  shows "\<exists>uf'. uf_find depth uf k = Inr (uf_cls depth uf k, uf') \<and> uf_invar depth uf'
           \<and> dom uf' = dom uf \<and> (\<forall>j \<in> dom uf. uf_cls depth uf' j = uf_cls depth uf j)"
proof -
  from inv have wf: "uf_wf uf" and le: "card (dom uf) \<le> depth" by (auto simp: uf_invar_def)
  have "uf_rep uf k (uf_cls depth uf k)" using uf_cls_iff [OF inv k] by simp
  from uf_find_correct [OF wf this uf_below_le [OF inv]] obtain uf' where
    f: "uf_find depth uf k = Inr (uf_cls depth uf k, uf')" "uf_wf uf'" "dom uf' = dom uf"
       "\<And>j x. uf_rep uf' j x \<longleftrightarrow> uf_rep uf j x" by blast
  from f le have inv': "uf_invar depth uf'" by (simp add: uf_invar_def)
  have "uf_cls depth uf' j = uf_cls depth uf j" if "j \<in> dom uf" for j
    using uf_cls_iff [OF inv that] uf_cls_iff [OF inv', of j] f(3,4) that by auto
  with f inv' show ?thesis by blast
qed

text \<open>Attaching one root to another redirects exactly the first root's class.\<close>

lemma uf_rep_attach:
  assumes wf: "uf_wf uf" and w: "uf w = Some w" and l: "uf l = Some l" and lt: "w < l"
  shows "uf_wf (uf(l \<mapsto> w))"
    and "uf_rep (uf(l \<mapsto> w)) j (if uf_rep uf j l then w else x) \<longleftrightarrow> uf_rep uf j l \<or> uf_rep uf j x"
proof -
  show wf': "uf_wf (uf(l \<mapsto> w))"
    using wf w lt by (auto simp: uf_wf_def)
  define uf' where "uf' = uf(l \<mapsto> w)"
  have u: "uf' l = Some w" "\<And>j. j \<noteq> l \<Longrightarrow> uf' j = uf j" by (simp_all add: uf'_def)
  have "w \<noteq> l" using lt by auto
  then have ww: "uf_rep uf' w w" using u(2) w by (intro uf_rep.root) simp
  have lw: "uf_rep uf' l w" using u(1) \<open>w \<noteq> l\<close> ww by (rule uf_rep.step)
  have to': "uf_rep uf' j (if x = l then w else x)" if "uf_rep uf j x" for j x
    using that
  proof (induction rule: uf_rep.induct)
    case (root j)
    have "j \<noteq> l \<Longrightarrow> uf_rep uf' j j" using root u(2) by (intro uf_rep.root) simp
    then show ?case using lw by simp
  next
    case (step j p x)
    then have "j \<noteq> l" using l by auto
    then have "uf' j = Some p" using step.hyps u(2) by simp
    then show ?case using step.hyps(2) step.IH by (rule uf_rep.step)
  qed
  have to: "uf_rep uf j x \<Longrightarrow> uf_rep (uf(l \<mapsto> w)) j (if x = l then w else x)" for j x
    using to' by (simp add: uf'_def)
  show "uf_rep (uf(l \<mapsto> w)) j (if uf_rep uf j l then w else x) \<longleftrightarrow> uf_rep uf j l \<or> uf_rep uf j x"
  proof (cases "uf_rep uf j l")
    case True
    then show ?thesis using to [OF True] by simp
  next
    case False
    show ?thesis
    proof
      assume "uf_rep (uf(l \<mapsto> w)) j (if uf_rep uf j l then w else x)"
      then have a: "uf_rep (uf(l \<mapsto> w)) j x" using False by simp
      then have "j \<in> dom uf" using l by (auto dest!: uf_rep_dom split: if_splits)
      then obtain y where y: "uf_rep uf j y" using uf_rep_exists [OF wf] by blast
      with False have "y \<noteq> l" by auto
      with to [OF y] a have "x = y" by (auto dest: uf_rep_unique)
      with y show "uf_rep uf j l \<or> uf_rep uf j x" by simp
    next
      assume "uf_rep uf j l \<or> uf_rep uf j x"
      with False have x: "uf_rep uf j x" by simp
      with False have "x \<noteq> l" by auto
      with False to [OF x] show "uf_rep (uf(l \<mapsto> w)) j (if uf_rep uf j l then w else x)" by simp
    qed
  qed
qed

lemma uf_attach_cls:
  assumes inv: "uf_invar depth uf" and r: "uf w = Some w" "uf l = Some l" and lt: "w < l"
    and j: "j \<in> dom uf"
  shows "uf_invar depth (uf(l \<mapsto> w))" and
    "uf_cls depth (uf(l \<mapsto> w)) j = (if uf_cls depth uf j = l then w else uf_cls depth uf j)"
proof -
  from inv have wf: "uf_wf uf" by (simp add: uf_invar_def)
  have dom: "dom (uf(l \<mapsto> w)) = dom uf" using r(2) by auto
  show inv': "uf_invar depth (uf(l \<mapsto> w))"
    using uf_rep_attach(1) [OF wf r lt] inv dom by (simp add: uf_invar_def)
  from j dom have j': "j \<in> dom (uf(l \<mapsto> w))" by simp
  show "uf_cls depth (uf(l \<mapsto> w)) j = (if uf_cls depth uf j = l then w else uf_cls depth uf j)"
    using uf_rep_attach(2) [OF wf r lt, of j "uf_cls depth uf j"]
    by (simp add: uf_cls_iff [OF inv j] uf_cls_iff [OF inv' j'])
qed

lemma uf_cls_root: "uf_invar depth uf \<Longrightarrow> k \<in> dom uf \<Longrightarrow> uf (uf_cls depth uf k) = Some (uf_cls depth uf k)"
  using uf_cls_iff [of depth uf k] uf_rep_root by blast

lemma uf_union_spec:
  assumes inv: "uf_invar depth uf" and a: "a \<in> dom uf" and b: "b \<in> dom uf"
  shows "\<exists>w uf'. uf_union depth uf a b = Inr (w, uf')
      \<and> w = min (uf_cls depth uf a) (uf_cls depth uf b)
      \<and> uf_invar depth uf' \<and> dom uf' = dom uf
      \<and> (\<forall>j \<in> dom uf. uf_cls depth uf' j =
            (if uf_cls depth uf j \<in> {uf_cls depth uf a, uf_cls depth uf b} then w else uf_cls depth uf j))"
proof -
  let ?ra = "uf_cls depth uf a" and ?rb = "uf_cls depth uf b"
  from uf_find_spec [OF inv a] obtain uf1 where
    1: "uf_find depth uf a = Inr (?ra, uf1)" "uf_invar depth uf1" "dom uf1 = dom uf"
       "\<And>j. j \<in> dom uf \<Longrightarrow> uf_cls depth uf1 j = uf_cls depth uf j" by blast
  from uf_find_spec [OF 1(2), of b] b 1 obtain uf2 where
    2: "uf_find depth uf1 b = Inr (?rb, uf2)" "uf_invar depth uf2" "dom uf2 = dom uf"
       "\<And>j. j \<in> dom uf \<Longrightarrow> uf_cls depth uf2 j = uf_cls depth uf j" by force
  have roots: "uf2 ?ra = Some ?ra" "uf2 ?rb = Some ?rb"
    using uf_cls_root [OF 2(2)] 2(3,4) a b by metis+
  show ?thesis
  proof (cases "?ra = ?rb")
    case True
    then show ?thesis using 1 2 by (simp add: uf_union_def)
  next
    case False
    let ?w = "min ?ra ?rb" and ?l = "max ?ra ?rb"
    have lt: "?w < ?l" using False by (auto simp: min_def max_def)
    have wl: "uf2 ?w = Some ?w" "uf2 ?l = Some ?l" using roots by (auto simp: min_def max_def)
    have u: "uf_union depth uf a b = Inr (?w, uf2(?l \<mapsto> ?w))"
      using False 1 2 by (simp add: uf_union_def Let_def)
    have c: "uf_cls depth (uf2(?l \<mapsto> ?w)) j = (if uf_cls depth uf j = ?l then ?w else uf_cls depth uf j)"
      if "j \<in> dom uf" for j
      using uf_attach_cls(2) [OF 2(2) wl lt, of j] that 2 by simp
    have d: "dom (uf2(?l \<mapsto> ?w)) = dom uf" using wl 2(3) by auto
    have i: "uf_invar depth (uf2(?l \<mapsto> ?w))"
      using uf_attach_cls(1) [OF 2(2) wl lt, of a] a 2(3) by simp
    from u c d i show ?thesis by (auto simp: min_def max_def)
  qed
qed

interpretation uf: partition_store "uf_find depth" "uf_union depth" dom "uf_cls depth" "uf_invar depth" for depth
proof unfold_locales
  fix s :: "string uf" and k
  assume inv: "uf_invar depth s" and k: "k \<in> dom s"
  show "\<exists>s'. uf_find depth s k = Inr (uf_cls depth s k, s') \<and> uf_invar depth s' \<and> dom s' = dom s
           \<and> (\<forall>j \<in> dom s. uf_cls depth s' j = uf_cls depth s j)"
    by (rule uf_find_spec [OF inv k])
  show "uf_cls depth s k \<in> dom s" using uf_cls_root [OF inv k] by blast
  then show "uf_cls depth s (uf_cls depth s k) = uf_cls depth s k"
    using uf_cls_iff [OF inv] uf_cls_root [OF inv k] uf_rep.root by blast
next
  fix s :: "string uf" and a b
  assume "uf_invar depth s" "a \<in> dom s" "b \<in> dom s"
  from uf_union_spec [OF this] show "\<exists>w s'. uf_union depth s a b = Inr (w, s')
      \<and> w \<in> {uf_cls depth s a, uf_cls depth s b} \<and> uf_invar depth s' \<and> dom s' = dom s
      \<and> (\<forall>j \<in> dom s. uf_cls depth s' j =
            (if uf_cls depth s j \<in> {uf_cls depth s a, uf_cls depth s b} then w else uf_cls depth s j))"
    by (auto simp: min_def)
qed

lemma dom_uf_init [simp]: "dom (uf_init keys) = set keys"
  by (auto simp: uf_init_def dom_map_of_conv_image_fst image_image)

lemma uf_init_Some: "uf_init keys k = Some p \<longleftrightarrow> k \<in> set keys \<and> p = k"
  unfolding uf_init_def by (induction keys) auto

lemma uf_init_invar: "length keys \<le> depth \<Longrightarrow> uf_invar depth (uf_init keys)"
  using card_length [of keys] by (auto simp: uf_invar_def uf_wf_def uf_init_Some)

lemma uf_init_cls: "length keys \<le> depth \<Longrightarrow> k \<in> set keys \<Longrightarrow> uf_cls depth (uf_init keys) k = k"
  using uf_cls_iff [OF uf_init_invar, of keys depth k k] uf_rep.root [of "uf_init keys" k]
  by (simp add: uf_init_Some)

lemma uf_init_tracks: "length keys \<le> depth \<Longrightarrow> uf.tracks depth {} (uf_init keys)"
  by (simp add: uf.tracks_def uf_init_invar uf_init_cls)

end
