(* ===== verification/Config.thy ===== *)
theory Config
  imports Prelude
begin

text \<open>
  The configuration contracts of \<^verbatim>\<open>schemas/config.py\<close>: one record per model
  class and one predicate per class for the constraints its fields declare
  (bounds, literal sets, minimum lengths, validators). A configuration object
  that exists in the program satisfies its predicate, because the class refuses
  any other. Literal types stay strings, as the code compares them; string
  stripping and the refusal of unknown keys happen while a file is loaded and are
  not modelled.
\<close>

section \<open>Sources\<close>

record retry_policy =
  rp_attempts :: nat
  rp_initial_seconds :: real
  rp_maximum_seconds :: real

definition retry_policy_ok :: "retry_policy \<Rightarrow> bool" where
  "retry_policy_ok p =
     (1 \<le> rp_attempts p \<and> rp_attempts p \<le> 10
      \<and> 0 < rp_initial_seconds p \<and> rp_initial_seconds p \<le> 60
      \<and> 0 < rp_maximum_seconds p \<and> rp_maximum_seconds p \<le> 600)"

record source_object_config =
  soc_key :: string
  soc_object_type :: string
  soc_location :: string
  soc_contract_version :: string
  soc_incremental_field :: "string option"
  soc_sheet_name :: "string option"
  soc_json_records_path :: "string option"
  soc_primary_key :: "string list"
  soc_options :: pyrec

definition source_object_config_ok :: "source_object_config \<Rightarrow> bool" where
  "source_object_config_ok c =
     (soc_object_type c \<in> {''file'', ''table'', ''api_resource''})"

record source_config =
  sc_schema_version :: string
  sc_source_id :: string
  sc_name :: string
  sc_connector :: string
  sc_owner_role :: string
  sc_data_classification :: string
  sc_secret_reference :: "string option"
  sc_base_url :: "string option"
  sc_refresh_expectation :: "string option"
  sc_max_bytes :: nat
  sc_allowed_roots :: "string list"
  sc_request_timeout_seconds :: real
  sc_allow_private_network :: bool
  sc_retry :: retry_policy
  sc_objects :: "source_object_config list"

text \<open>The validator \<open>reject_literal_secret\<close>.\<close>

definition secret_is_literal :: "runtime \<Rightarrow> string \<Rightarrow> bool" where
  "secret_is_literal R v =
     (starts_with (rt_lower R v) ''password='' \<or> starts_with (rt_lower R v) ''token='')"

definition source_config_ok :: "runtime \<Rightarrow> source_config \<Rightarrow> bool" where
  "source_config_ok R c =
     (sc_schema_version c = ''1.0''
      \<and> sc_connector c \<in> {''csv'', ''xlsx'', ''json'', ''parquet'', ''rest'', ''postgresql''}
      \<and> sc_data_classification c \<in> {''public'', ''internal'', ''confidential'', ''restricted''}
      \<and> (case sc_secret_reference c of None \<Rightarrow> True
          | Some v \<Rightarrow> v = [] \<or> \<not> secret_is_literal R v)
      \<and> 0 < sc_max_bytes c \<and> sc_max_bytes c \<le> 5 * 1024 * 1024 * 1024
      \<and> 0 < sc_request_timeout_seconds c \<and> sc_request_timeout_seconds c \<le> 300
      \<and> retry_policy_ok (sc_retry c)
      \<and> sc_objects c \<noteq> [] \<and> list_all source_object_config_ok (sc_objects c))"

section \<open>Mapping and validation\<close>

definition transforms :: "string list" where
  "transforms =
     [''copy'', ''trim'', ''lower'', ''upper'', ''parse_datetime_utc'', ''lookup'', ''default'',
      ''concat'', ''split'', ''conditional'', ''sha256_pseudonymize'', ''plugin'']"

record mapping_rule_config =
  mr_target :: string
  mr_source :: "string option"
  mr_transform :: string
  mr_lookup :: "string option"
  mr_default :: pyval
  mr_parameters :: pyrec
  mr_plugin :: "string option"
  mr_required :: bool

record mapping_config =
  mc_schema_version :: string
  mc_mapping_id :: string
  mc_source_contract :: string
  mc_canonical_entity :: string
  mc_rules :: "mapping_rule_config list"

definition mapping_config_ok :: "mapping_config \<Rightarrow> bool" where
  "mapping_config_ok c =
     (mc_schema_version c = ''1.0'' \<and> mc_rules c \<noteq> []
      \<and> list_all (\<lambda>r. mr_transform r \<in> set transforms) (mc_rules c))"

definition severities :: "string list" where
  "severities = [''info'', ''warning'', ''error'', ''blocking'']"

definition rule_types :: "string list" where
  "rule_types =
     [''schema'', ''required'', ''allowed_values'', ''unique'', ''range'', ''pattern'',
      ''reference'', ''temporal'', ''cross_source'', ''timeliness'']"

record validation_rule_config =
  vr_rule_id :: string
  vr_title :: string
  vr_entity :: string
  vr_severity :: string
  vr_rule_type :: string
  vr_fields :: "string list"
  vr_parameters :: pyrec
  vr_explanation :: string
  vr_remediation :: "string option"

definition validation_rule_config_ok :: "validation_rule_config \<Rightarrow> bool" where
  "validation_rule_config_ok r =
     (vr_severity r \<in> set severities \<and> vr_rule_type r \<in> set rule_types \<and> vr_fields r \<noteq> [])"

record validation_config =
  vc_schema_version :: string
  vc_validation_set_id :: string
  vc_entity :: string
  vc_rules :: "validation_rule_config list"

definition validation_config_ok :: "validation_config \<Rightarrow> bool" where
  "validation_config_ok c =
     (vc_schema_version c = ''1.0'' \<and> vc_rules c \<noteq> []
      \<and> list_all validation_rule_config_ok (vc_rules c))"

section \<open>Pipelines\<close>

record pipeline_config =
  plc_schema_version :: string
  plc_pipeline_id :: string
  plc_organization_key :: string
  plc_sources :: "string list"
  plc_mapping_sets :: "string list"
  plc_validation_sets :: "string list"
  plc_publish_targets :: "string list"

definition pipeline_config_ok :: "pipeline_config \<Rightarrow> bool" where
  "pipeline_config_ok c = (plc_schema_version c = ''1.0'' \<and> plc_sources c \<noteq> [] \<and> plc_mapping_sets c \<noteq> []
     \<and> plc_validation_sets c \<noteq> [])"

section \<open>Profiles\<close>

record drift_threshold_config =
  dt_null_rate_delta :: real
  dt_distinct_rate_delta :: real
  dt_numeric_mean_relative_delta :: real
  dt_top_value_share_delta :: real

definition drift_threshold_config_ok :: "drift_threshold_config \<Rightarrow> bool" where
  "drift_threshold_config_ok t =
     (0 \<le> dt_null_rate_delta t \<and> dt_null_rate_delta t \<le> 1
      \<and> 0 \<le> dt_distinct_rate_delta t \<and> dt_distinct_rate_delta t \<le> 1
      \<and> 0 \<le> dt_numeric_mean_relative_delta t
      \<and> 0 \<le> dt_top_value_share_delta t \<and> dt_top_value_share_delta t \<le> 1)"

record profile_config =
  pc_schema_version :: string
  pc_profile_id :: string
  pc_sample_limit :: nat
  pc_top_values_limit :: nat
  pc_mask_samples :: bool
  pc_thresholds :: drift_threshold_config

definition profile_config_ok :: "profile_config \<Rightarrow> bool" where
  "profile_config_ok c =
     (pc_schema_version c = ''1.0''
      \<and> 0 < pc_sample_limit c \<and> pc_sample_limit c \<le> 1000000
      \<and> 0 < pc_top_values_limit c \<and> pc_top_values_limit c \<le> 100
      \<and> drift_threshold_config_ok (pc_thresholds c))"

section \<open>Matching\<close>

record match_rule_config =
  dr_rule_id :: string
  dr_priority :: int
  dr_fields :: "string list"
  dr_trusted :: bool
  dr_require_all :: bool

record det_match_config =
  dm_schema_version :: string
  dm_rule_set_id :: string
  dm_organization_field :: string
  dm_record_key_field :: string
  dm_rules :: "match_rule_config list"

definition det_match_config_ok :: "det_match_config \<Rightarrow> bool" where
  "det_match_config_ok c =
     (dm_schema_version c = ''1.0'' \<and> dm_rules c \<noteq> []
      \<and> list_all (\<lambda>r. 1 \<le> dr_priority r \<and> dr_fields r \<noteq> []) (dm_rules c))"

record blocking_rule_config =
  br_rule_id :: string
  br_fields :: "string list"
  br_require_all :: bool

record comparison_field_config =
  cf_field :: string
  cf_method :: string
  cf_weight :: real
  cf_agreement_probability :: real
  cf_random_agreement_probability :: real
  cf_tolerance :: real

definition comparison_field_config_ok :: "comparison_field_config \<Rightarrow> bool" where
  "comparison_field_config_ok c =
     (cf_method c \<in> {''exact'', ''string_similarity'', ''date_distance'', ''numeric_distance''}
      \<and> 0 < cf_weight c
      \<and> 0 < cf_agreement_probability c \<and> cf_agreement_probability c < 1
      \<and> 0 < cf_random_agreement_probability c \<and> cf_random_agreement_probability c < 1
      \<and> 0 \<le> cf_tolerance c)"

record prob_match_config =
  pm_schema_version :: string
  pm_model_id :: string
  pm_organization_field :: string
  pm_record_key_field :: string
  pm_blocking_rules :: "blocking_rule_config list"
  pm_comparisons :: "comparison_field_config list"
  pm_prior_match_probability :: real
  pm_review_low :: real
  pm_auto_match :: real
  pm_max_candidates :: nat

definition prob_match_config_ok :: "prob_match_config \<Rightarrow> bool" where
  "prob_match_config_ok c =
     (pm_schema_version c = ''1.0''
      \<and> pm_blocking_rules c \<noteq> [] \<and> list_all (\<lambda>b. br_fields b \<noteq> []) (pm_blocking_rules c)
      \<and> pm_comparisons c \<noteq> [] \<and> list_all comparison_field_config_ok (pm_comparisons c)
      \<and> 0 < pm_prior_match_probability c \<and> pm_prior_match_probability c < 1
      \<and> 0 < pm_review_low c \<and> pm_review_low c < 1
      \<and> 0 < pm_auto_match c \<and> pm_auto_match c < 1
      \<and> 0 < pm_max_candidates c \<and> pm_max_candidates c \<le> 5000000
      \<and> pm_review_low c < pm_auto_match c)"

section \<open>Marts, exports, orchestration, retention\<close>

record mart_config =
  ma_schema_version :: string
  ma_mart_id :: string
  ma_version :: string
  ma_entity :: string
  ma_fields :: "string list"
  ma_definitions :: "(string \<times> string) list"

definition mart_config_ok :: "mart_config \<Rightarrow> bool" where
  "mart_config_ok c =
     (ma_schema_version c = ''1.0''
      \<and> ma_entity c \<in> {''training_participation'', ''credential_status'', ''quality_trend''}
      \<and> ma_fields c \<noteq> [])"

record export_config =
  ex_schema_version :: string
  ex_export_id :: string
  ex_version :: string
  ex_mart_id :: string
  ex_format :: string
  ex_fields :: "string list"
  ex_masked_fields :: "string list"
  ex_retention_days :: int

definition export_config_ok :: "export_config \<Rightarrow> bool" where
  "export_config_ok c =
     (ex_schema_version c = ''1.0'' \<and> ex_format c \<in> {''csv'', ''parquet''} \<and> ex_fields c \<noteq> []
      \<and> 0 < ex_retention_days c \<and> ex_retention_days c \<le> 3650)"

record asset_schedule_config =
  as_asset_key :: string
  as_cron :: "string option"
  as_partitions :: "string list"
  as_max_attempts :: nat

record orchestration_config =
  oc_schema_version :: string
  oc_orchestration_id :: string
  oc_assets :: "asset_schedule_config list"

definition orchestration_config_ok :: "orchestration_config \<Rightarrow> bool" where
  "orchestration_config_ok c =
     (oc_schema_version c = ''1.0'' \<and> oc_assets c \<noteq> []
      \<and> list_all (\<lambda>a. 1 \<le> as_max_attempts a \<and> as_max_attempts a \<le> 10) (oc_assets c))"

record retention_policy_config =
  rc_schema_version :: string
  rc_policy_id :: string
  rc_raw_days :: int
  rc_quarantine_days :: int
  rc_export_days :: int
  rc_audit_days :: int

definition retention_policy_config_ok :: "retention_policy_config \<Rightarrow> bool" where
  "retention_policy_config_ok c =
     (rc_schema_version c = ''1.0''
      \<and> (\<forall>d \<in> {rc_raw_days c, rc_quarantine_days c, rc_export_days c, rc_audit_days c}.
            0 < d \<and> d \<le> 3650))"

end
