(* ===== verification/Deterministic.thy ===== *)
theory Deterministic
  imports UnionFind Config
begin

text \<open>
  Text normalisation (\<^verbatim>\<open>matching/normalization.py\<close>) and the deterministic
  matcher with its evaluation (\<^verbatim>\<open>matching/deterministic.py\<close>). The matcher is
  modelled loop by loop on an explicit state: the union-find store, the links and
  the conflicts found so far. Its clusters are proved to be the components of its
  links, its trusted phase to join everything that shares a trusted identifier,
  and its composite phase never to join two clusters whose trusted identifiers
  are not connected.
\<close>

section \<open>Normalisation\<close>

fun squeeze :: "bool \<Rightarrow> string \<Rightarrow> string" where
  "squeeze b [] = []"
| "squeeze b (c # s) =
     (if is_space c then (if b then squeeze True s else CHR '' '' # squeeze True s)
      else c # squeeze False s)"

definition keep_char :: "char \<Rightarrow> bool" where
  "keep_char c = (is_word c \<or> is_space c \<or> c \<in> set ''@.+-'')"

definition normalize_text :: "runtime \<Rightarrow> pyval \<Rightarrow> string" where
  "normalize_text R value =
     (if blank value then []
      else let text = strip (rt_casefold R (rt_nfkc R (py_str R value)));
               text = map (\<lambda>c. if keep_char c then c else CHR '' '') text
           in strip (squeeze False text))"

definition normalize_value :: "runtime \<Rightarrow> string \<Rightarrow> pyval \<Rightarrow> string" where
  "normalize_value R field value =
     (let normalized = normalize_text R value; name = rt_casefold R field in
      if contains name ''email'' then filter (\<lambda>c. c \<noteq> CHR '' '') normalized
      else if contains name ''phone'' then filter is_digit normalized
      else if ends_with name ''_id'' \<or> name \<in> {''employee_id'', ''record_key''}
           then rt_upper R normalized
      else normalized)"

section \<open>Data of the matcher\<close>

record match_link =
  ml_left_record_key :: string
  ml_right_record_key :: string
  ml_rule_id :: string
  ml_status :: string
  ml_evidence_fingerprints :: "(string \<times> string) list"

record det_match_result =
  dres_clusters :: "(string \<times> string) list"
  dres_links :: "match_link list"
  dres_conflicts :: "match_link list"

record match_state =
  ms_uf :: "string uf"
  ms_links :: "match_link list"
  ms_conflicts :: "match_link list"

section \<open>The matcher\<close>

definition det_key :: "runtime \<Rightarrow> pyrec \<Rightarrow> match_rule_config \<Rightarrow> string list option" where
  "det_key R rec rule =
     (let values = map (\<lambda>f. normalize_value R f (get_field rec f)) (dr_fields rule) in
      if dr_require_all rule \<and> list_ex (\<lambda>v. v = []) values then None
      else if \<not> list_ex (\<lambda>v. v \<noteq> []) values then None
      else Some values)"

definition fingerprints :: "runtime \<Rightarrow> pyrec \<Rightarrow> string list \<Rightarrow> (string \<times> string) list" where
  "fingerprints R rec flds =
     fold (\<lambda>f d. dict_set f (take 16 (rt_sha256 R (py_str R (get_field_or rec f (PStr []))))) d)
       flds []"

text \<open>The first loop of \<open>match\<close>: records by key, and the organizations seen.\<close>

fun index_records :: "runtime \<Rightarrow> det_match_config \<Rightarrow> pyrec list \<Rightarrow> (string \<times> pyrec) list \<Rightarrow> string set
    \<Rightarrow> ((string \<times> pyrec) list \<times> string set) res" where
  "index_records R cfg [] by_key orgs = Inr (by_key, orgs)"
| "index_records R cfg (rec # recs) by_key orgs =
     (let record_key = strip (py_str R (get_field_or rec (dm_record_key_field cfg) (PStr [])));
          organization = strip (py_str R (get_field_or rec (dm_organization_field cfg) (PStr [])))
      in if record_key = [] \<or> organization = []
         then Inl (ValueError ''Every matching record requires record_key and organization_id'')
         else if record_key \<in> fst ` set by_key
         then Inl (ValueError ''Matching record keys must be unique'')
         else index_records R cfg recs (by_key @ [(record_key, rec)]) (insert organization orgs))"

definition rule_groups :: "runtime \<Rightarrow> match_rule_config \<Rightarrow> (string \<times> pyrec) list \<Rightarrow> string list list" where
  "rule_groups R rule by_key =
     map snd (group_pairs
       (List.map_filter (\<lambda>(k, rec). map_option (\<lambda>v. (v, k)) (det_key R rec rule)) by_key) [])"

definition make_link :: "runtime \<Rightarrow> (string \<times> pyrec) list \<Rightarrow> match_rule_config \<Rightarrow> string \<Rightarrow> string \<Rightarrow> string
    \<Rightarrow> match_link" where
  "make_link R by_key rule left right status =
     \<lparr>ml_left_record_key = left, ml_right_record_key = right, ml_rule_id = dr_rule_id rule,
      ml_status = status,
      ml_evidence_fingerprints =
        fingerprints R (case map_of by_key left of None \<Rightarrow> [] | Some rec \<Rightarrow> rec) (dr_fields rule)\<rparr>"

definition trusted_step :: "runtime \<Rightarrow> (string \<times> pyrec) list \<Rightarrow> match_rule_config
    \<Rightarrow> string \<times> string \<Rightarrow> match_state \<Rightarrow> match_state res" where
  "trusted_step R by_key rule p st =
     (case p of (left, right) \<Rightarrow>
       (case uf_union (rt_recursion_limit R) (ms_uf st) left right of
          Inl e \<Rightarrow> Inl e
        | Inr (_, uf') \<Rightarrow>
            Inr (st\<lparr>ms_uf := uf',
                    ms_links := ms_links st @ [make_link R by_key rule left right ''auto_match'']\<rparr>)))"

definition trusted_phase :: "runtime \<Rightarrow> (string \<times> pyrec) list \<Rightarrow> match_rule_config list
    \<Rightarrow> match_state \<Rightarrow> match_state res" where
  "trusted_phase R by_key rules st =
     res_fold (\<lambda>rule st.
        res_fold (trusted_step R by_key rule)
          (concat (map (\<lambda>members. adjacent (sort members)) (rule_groups R rule by_key))) st)
       rules st"

text \<open>The inner function \<open>cluster_trusted_values\<close>; its finds compress paths.\<close>

fun cluster_trusted_values :: "runtime \<Rightarrow> match_rule_config list \<Rightarrow> string \<Rightarrow> (string \<times> pyrec) list
    \<Rightarrow> string uf \<Rightarrow> (string list set \<times> string uf) res" where
  "cluster_trusted_values R trusted rt [] uf = Inr ({}, uf)"
| "cluster_trusted_values R trusted rt ((k, rec) # by_key) uf =
     (case uf_find (rt_recursion_limit R) uf k of
        Inl e \<Rightarrow> Inl e
      | Inr (found, uf1) \<Rightarrow>
          (case cluster_trusted_values R trusted rt by_key uf1 of
             Inl e \<Rightarrow> Inl e
           | Inr (vals, uf2) \<Rightarrow>
               Inr ((if found \<noteq> rt then {} else set (List.map_filter (det_key R rec) trusted)) \<union> vals,
                    uf2)))"

definition composite_step :: "runtime \<Rightarrow> (string \<times> pyrec) list \<Rightarrow> match_rule_config list
    \<Rightarrow> match_rule_config \<Rightarrow> string \<times> string \<Rightarrow> match_state \<Rightarrow> match_state res" where
  "composite_step R by_key trusted rule p st =
     (case p of (left, right) \<Rightarrow>
       (let depth = rt_recursion_limit R in
        case uf_find depth (ms_uf st) left of Inl e \<Rightarrow> Inl e
        | Inr (left_root, uf1) \<Rightarrow>
        case uf_find depth uf1 right of Inl e \<Rightarrow> Inl e
        | Inr (right_root, uf2) \<Rightarrow>
        if left_root = right_root then Inr (st\<lparr>ms_uf := uf2\<rparr>)
        else
        case cluster_trusted_values R trusted left_root by_key uf2 of Inl e \<Rightarrow> Inl e
        | Inr (left_trusted, uf3) \<Rightarrow>
        case cluster_trusted_values R trusted right_root by_key uf3 of Inl e \<Rightarrow> Inl e
        | Inr (right_trusted, uf4) \<Rightarrow>
        if left_trusted \<noteq> {} \<and> right_trusted \<noteq> {} \<and> left_trusted \<inter> right_trusted = {}
        then Inr (st\<lparr>ms_uf := uf4,
                     ms_conflicts := ms_conflicts st
                       @ [make_link R by_key rule left right ''trusted_id_conflict'']\<rparr>)
        else
        case uf_union depth uf4 left right of Inl e \<Rightarrow> Inl e
        | Inr (_, uf5) \<Rightarrow>
            Inr (st\<lparr>ms_uf := uf5,
                    ms_links := ms_links st @ [make_link R by_key rule left right ''auto_match'']\<rparr>)))"

definition composite_phase :: "runtime \<Rightarrow> (string \<times> pyrec) list \<Rightarrow> match_rule_config list
    \<Rightarrow> match_rule_config list \<Rightarrow> match_state \<Rightarrow> match_state res" where
  "composite_phase R by_key trusted rules st =
     res_fold (\<lambda>rule st.
        res_fold (composite_step R by_key trusted rule)
          (concat (map (\<lambda>members. combs2 (sort members)) (rule_groups R rule by_key))) st)
       rules st"

text \<open>Looking every key up, in order.\<close>

fun find_all :: "nat \<Rightarrow> string list \<Rightarrow> string uf \<Rightarrow> ((string \<times> string) list \<times> string uf) res" where
  "find_all depth [] uf = Inr ([], uf)"
| "find_all depth (k # ks) uf =
     (case uf_find depth uf k of
        Inl e \<Rightarrow> Inl e
      | Inr (r, uf1) \<Rightarrow>
          (case find_all depth ks uf1 of
             Inl e \<Rightarrow> Inl e
           | Inr (ps, uf2) \<Rightarrow> Inr ((k, r) # ps, uf2)))"

definition cluster_name :: "string list \<Rightarrow> string" where
  "cluster_name members = ''eduwork:deterministic-cluster:'' @ join ''|'' (sort members)"

definition cluster_id :: "runtime \<Rightarrow> string list \<Rightarrow> string" where
  "cluster_id R members = rt_uuid_str R (rt_uuid5 R (cluster_name members))"

text \<open>The cluster dictionaries at the end of \<open>match\<close>.\<close>

definition build_clusters :: "runtime \<Rightarrow> string list \<Rightarrow> string uf \<Rightarrow> (string \<times> string) list res" where
  "build_clusters R keys uf =
     (case find_all (rt_recursion_limit R) keys uf of Inl e \<Rightarrow> Inl e
      | Inr (roots, uf1) \<Rightarrow>
      let cluster_members = group_pairs (map (\<lambda>(k, r). (r, k)) roots) [];
          cluster_ids = map (\<lambda>(r, members). (r, cluster_id R members)) cluster_members
      in case find_all (rt_recursion_limit R) keys uf1 of Inl e \<Rightarrow> Inl e
      | Inr (roots', uf2) \<Rightarrow>
          Inr (map (\<lambda>(k, r). (k, case map_of cluster_ids r of None \<Rightarrow> [] | Some c \<Rightarrow> c)) roots'))"

definition det_match :: "runtime \<Rightarrow> pyrec list \<Rightarrow> det_match_config \<Rightarrow> det_match_result res" where
  "det_match R records cfg =
     (case index_records R cfg records [] {} of Inl e \<Rightarrow> Inl e
      | Inr (by_key, organizations) \<Rightarrow>
      if card organizations > 1 then Inl (ValueError ''Cross-organization matching is prohibited'')
      else
      let keys = map fst by_key;
          st0 = \<lparr>ms_uf = uf_init keys, ms_links = [], ms_conflicts = []\<rparr>;
          trusted_rules = sort_key dr_priority (filter dr_trusted (dm_rules cfg));
          composite_rules = sort_key dr_priority (filter (\<lambda>r. \<not> dr_trusted r) (dm_rules cfg))
      in case trusted_phase R by_key trusted_rules st0 of Inl e \<Rightarrow> Inl e
      | Inr st1 \<Rightarrow>
      case composite_phase R by_key trusted_rules composite_rules st1 of Inl e \<Rightarrow> Inl e
      | Inr st2 \<Rightarrow>
      case build_clusters R keys (ms_uf st2) of Inl e \<Rightarrow> Inl e
      | Inr clusters \<Rightarrow>
          Inr \<lparr>dres_clusters = clusters, dres_links = ms_links st2,
               dres_conflicts = ms_conflicts st2\<rparr>)"

section \<open>Evaluation against a truth set\<close>

record match_metrics =
  mm_total_records :: nat
  mm_predicted_links :: nat
  mm_true_positives :: nat
  mm_false_positives :: nat
  mm_false_negatives :: nat
  mm_precision :: real
  mm_recall :: real
  mm_coverage :: real

text \<open>
  \<^verbatim>\<open>round(x, 8)\<close>: half to even at the eighth decimal, on the exact quotient.
\<close>

definition round_half_even :: "real \<Rightarrow> int" where
  "round_half_even x =
     (let f = \<lfloor>x\<rfloor>; d = x - of_int f in
      if d < 1 / 2 then f else if d > 1 / 2 then f + 1 else if even f then f else f + 1)"

definition round8 :: "real \<Rightarrow> real" where
  "round8 x = of_int (round_half_even (x * 10 ^ 8)) / 10 ^ 8"

definition evaluate_matches :: "(string \<times> string) list \<Rightarrow> (string \<times> string) list \<Rightarrow> match_metrics" where
  "evaluate_matches clusters truth =
     (let shared_keys = sort (remdups (filter (\<lambda>k. k \<in> fst ` set truth) (map fst clusters)));
          predicted_pairs = filter (\<lambda>(a, b). map_of clusters a = map_of clusters b) (combs2 shared_keys);
          truth_pairs = filter (\<lambda>(a, b). map_of truth a = map_of truth b) (combs2 shared_keys);
          tp = card (set predicted_pairs \<inter> set truth_pairs);
          fp = card (set predicted_pairs - set truth_pairs);
          fn = card (set truth_pairs - set predicted_pairs);
          n_pred = card (set predicted_pairs);
          n_truth = card (set truth_pairs);
          precision = (if predicted_pairs \<noteq> [] then real tp / real n_pred else 1);
          recall = (if truth_pairs \<noteq> [] then real tp / real n_truth else 1);
          size = (\<lambda>c. length (filter (\<lambda>k. map_of clusters k = c) shared_keys));
          covered = length (filter (\<lambda>k. size (map_of clusters k) > 1) shared_keys);
          coverage = (if shared_keys \<noteq> [] then real covered / real (length shared_keys) else 0)
      in \<lparr>mm_total_records = length shared_keys, mm_predicted_links = n_pred,
          mm_true_positives = tp, mm_false_positives = fp, mm_false_negatives = fn,
          mm_precision = round8 precision, mm_recall = round8 recall, mm_coverage = round8 coverage\<rparr>)"

section \<open>The state invariant of the matcher\<close>

definition link_pairs :: "match_link list \<Rightarrow> (string \<times> string) set" where
  "link_pairs ls = set (map (\<lambda>l. (ml_left_record_key l, ml_right_record_key l)) ls)"

text \<open>The classes of the store are the components of the links emitted so far.\<close>

definition match_inv :: "nat \<Rightarrow> string set \<Rightarrow> match_state \<Rightarrow> bool" where
  "match_inv depth K st =
     (dom (ms_uf st) = K \<and> uf.tracks depth (link_pairs (ms_links st)) (ms_uf st))"

lemma link_pairs_simps [simp]:
  "link_pairs [] = {}"
  "link_pairs (ls @ ms) = link_pairs ls \<union> link_pairs ms"
  "link_pairs [make_link R by_key rule a b s] = {(a, b)}"
  "link_pairs (map (\<lambda>p. make_link R by_key rule (fst p) (snd p) s) ps) = set ps"
  by (auto simp: link_pairs_def make_link_def image_image)

lemma match_inv_conflicts [simp]: "match_inv depth K (st\<lparr>ms_conflicts := cs\<rparr>) = match_inv depth K st"
  by (simp add: match_inv_def)

lemma match_inv_keys: "match_inv depth K st \<Longrightarrow> link_pairs (ms_links st) \<subseteq> K \<times> K"
  by (auto simp: match_inv_def uf.tracks_def)

lemma match_inv_same:
  "match_inv depth K st \<Longrightarrow> a \<in> K \<Longrightarrow> b \<in> K \<Longrightarrow>
     uf_cls depth (ms_uf st) a = uf_cls depth (ms_uf st) b \<longleftrightarrow> linked (link_pairs (ms_links st)) a b"
  using uf.tracks_same by (auto simp: match_inv_def)

lemma match_inv_union:
  assumes "match_inv depth K st" and "a \<in> K" and "b \<in> K"
  obtains w uf' where "uf_union depth (ms_uf st) a b = Inr (w, uf')" and "dom uf' = K"
    and "uf.tracks depth (insert (a, b) (link_pairs (ms_links st))) uf'"
  using assms uf.tracks_union [of depth "link_pairs (ms_links st)" "ms_uf st" a b]
  by (auto simp: match_inv_def)

lemma match_inv_find:
  assumes "match_inv depth K st" and "a \<in> K"
  obtains uf' where "uf_find depth (ms_uf st) a = Inr (uf_cls depth (ms_uf st) a, uf')"
    and "match_inv depth K (st\<lparr>ms_uf := uf'\<rparr>)"
    and "\<And>j. j \<in> K \<Longrightarrow> uf_cls depth uf' j = uf_cls depth (ms_uf st) j"
  using assms uf.tracks_find [of depth "link_pairs (ms_links st)" "ms_uf st" a]
  by (auto simp: match_inv_def)

subsection \<open>The trusted phase\<close>

lemma trusted_step_ok:
  assumes "match_inv (rt_recursion_limit R) K st" and "fst p \<in> K" and "snd p \<in> K"
  shows "\<exists>st'. trusted_step R by_key rule p st = Inr st' \<and> match_inv (rt_recursion_limit R) K st'
    \<and> ms_links st' = ms_links st @ [make_link R by_key rule (fst p) (snd p) ''auto_match'']
    \<and> ms_conflicts st' = ms_conflicts st"
proof -
  obtain w uf' where "uf_union (rt_recursion_limit R) (ms_uf st) (fst p) (snd p) = Inr (w, uf')"
    "dom uf' = K"
    "uf.tracks (rt_recursion_limit R) (insert (fst p, snd p) (link_pairs (ms_links st))) uf'"
    by (rule match_inv_union [OF assms])
  then show ?thesis by (cases p) (simp add: trusted_step_def match_inv_def)
qed

definition trusted_pairs :: "runtime \<Rightarrow> (string \<times> pyrec) list \<Rightarrow> match_rule_config \<Rightarrow> (string \<times> string) list"
  where "trusted_pairs R by_key rule =
     concat (map (\<lambda>members. adjacent (sort members)) (rule_groups R rule by_key))"

definition composite_pairs :: "runtime \<Rightarrow> (string \<times> pyrec) list \<Rightarrow> match_rule_config \<Rightarrow> (string \<times> string) list"
  where "composite_pairs R by_key rule =
     concat (map (\<lambda>members. combs2 (sort members)) (rule_groups R rule by_key))"

lemma rule_groups_mem:
  assumes "members \<in> set (rule_groups R rule by_key)" and "distinct (map fst by_key)"
  obtains v where "set members = {k. \<exists>rec. map_of by_key k = Some rec \<and> det_key R rec rule = Some v}"
proof -
  let ?ps = "List.map_filter (\<lambda>(k, rec). map_option (\<lambda>v. (v, k)) (det_key R rec rule)) by_key"
  from assms(1) obtain v where v: "(v, members) \<in> set (group_pairs ?ps [])"
    by (auto simp: rule_groups_def)
  have "set members = {k. (v, k) \<in> set ?ps}"
    unfolding group_pairs_mem(1) [OF v] by force
  also have "\<dots> = {k. \<exists>rec. map_of by_key k = Some rec \<and> det_key R rec rule = Some v}"
    using assms(2) by (force simp: List.map_filter_def map_of_eq_Some_iff)
  finally show ?thesis by (rule that)
qed

lemma rule_groups_complete:
  assumes "map_of by_key k = Some rec" and "det_key R rec rule = Some v" and "distinct (map fst by_key)"
  shows "\<exists>members \<in> set (rule_groups R rule by_key).
    set members = {k. \<exists>rec. map_of by_key k = Some rec \<and> det_key R rec rule = Some v}"
proof -
  let ?ps = "List.map_filter (\<lambda>(k, rec). map_option (\<lambda>v. (v, k)) (det_key R rec rule)) by_key"
  have mem: "(v, j) \<in> set ?ps \<longleftrightarrow> (\<exists>rec. map_of by_key j = Some rec \<and> det_key R rec rule = Some v)" for j
    using assms(3) by (force simp: List.map_filter_def map_of_eq_Some_iff)
  with assms have "(v, k) \<in> set ?ps" by blast
  from group_pairs_complete [OF this]
  have "map snd (filter (\<lambda>p. fst p = v) ?ps) \<in> set (rule_groups R rule by_key)"
    unfolding rule_groups_def by force
  moreover have "set (map snd (filter (\<lambda>p. fst p = v) ?ps)) = {j. (v, j) \<in> set ?ps}" by force
  ultimately show ?thesis unfolding mem by (rule bexI [rotated])
qed

text \<open>A pair compared under a rule joins two records with the same key for it.\<close>

lemma rule_pairs_same_key:
  assumes "p \<in> set (trusted_pairs R by_key rule) \<or> p \<in> set (composite_pairs R by_key rule)"
    and "distinct (map fst by_key)"
  obtains r1 r2 v where "map_of by_key (fst p) = Some r1" and "map_of by_key (snd p) = Some r2"
    and "det_key R r1 rule = Some v" and "det_key R r2 rule = Some v"
proof -
  from assms(1) obtain members where m: "members \<in> set (rule_groups R rule by_key)"
    and "fst p \<in> set members" "snd p \<in> set members"
    by (cases p) (auto simp: trusted_pairs_def composite_pairs_def
          dest: adjacent_subset combs2_subset)
  moreover obtain v where
    "set members = {k. \<exists>rec. map_of by_key k = Some rec \<and> det_key R rec rule = Some v}"
    by (rule rule_groups_mem [OF m assms(2)])
  ultimately show thesis using that by auto
qed

lemma rule_pairs_keys:
  assumes "p \<in> set (trusted_pairs R by_key rule) \<or> p \<in> set (composite_pairs R by_key rule)"
    and "distinct (map fst by_key)"
  shows "fst p \<in> fst ` set by_key" and "snd p \<in> fst ` set by_key"
  using rule_pairs_same_key [OF assms] by (metis domI dom_map_of_conv_image_fst)+

lemma trusted_rule_ok:
  assumes "match_inv (rt_recursion_limit R) (fst ` set by_key) st" and "distinct (map fst by_key)"
    and "set ps \<subseteq> set (trusted_pairs R by_key rule)"
  shows "\<exists>st'. res_fold (trusted_step R by_key rule) ps st = Inr st'
    \<and> match_inv (rt_recursion_limit R) (fst ` set by_key) st'
    \<and> ms_links st' = ms_links st @ map (\<lambda>p. make_link R by_key rule (fst p) (snd p) ''auto_match'') ps
    \<and> ms_conflicts st' = ms_conflicts st"
  using assms
proof (induction ps arbitrary: st)
  case Nil
  then show ?case by simp
next
  case (Cons p ps)
  then have "fst p \<in> fst ` set by_key" "snd p \<in> fst ` set by_key"
    using rule_pairs_keys [of p R by_key rule] by auto
  from trusted_step_ok [OF Cons.prems(1) this, of by_key rule] obtain st1 where
    1: "trusted_step R by_key rule p st = Inr st1" "match_inv (rt_recursion_limit R) (fst ` set by_key) st1"
       "ms_links st1 = ms_links st @ [make_link R by_key rule (fst p) (snd p) ''auto_match'']"
       "ms_conflicts st1 = ms_conflicts st" by blast
  from Cons.IH [OF 1(2)] Cons.prems 1 show ?case by auto
qed

lemma trusted_phase_ok:
  assumes "match_inv (rt_recursion_limit R) (fst ` set by_key) st" and "distinct (map fst by_key)"
  shows "\<exists>st'. trusted_phase R by_key rules st = Inr st'
    \<and> match_inv (rt_recursion_limit R) (fst ` set by_key) st'
    \<and> link_pairs (ms_links st')
        = link_pairs (ms_links st) \<union> (\<Union>rule \<in> set rules. set (trusted_pairs R by_key rule))
    \<and> ms_conflicts st' = ms_conflicts st"
  using assms(1)
proof (induction rules arbitrary: st)
  case Nil
  then show ?case by (simp add: trusted_phase_def)
next
  case (Cons rule rules)
  from trusted_rule_ok [OF Cons.prems assms(2) subset_refl, of rule] obtain st1 where
    1: "res_fold (trusted_step R by_key rule) (trusted_pairs R by_key rule) st = Inr st1"
       "match_inv (rt_recursion_limit R) (fst ` set by_key) st1"
       "link_pairs (ms_links st1) = link_pairs (ms_links st) \<union> set (trusted_pairs R by_key rule)"
       "ms_conflicts st1 = ms_conflicts st" by auto
  from Cons.IH [OF 1(2)] 1 show ?case
    by (auto simp: trusted_phase_def trusted_pairs_def)
qed

subsection \<open>Trusted identifiers of a cluster\<close>

definition trusted_values :: "runtime \<Rightarrow> match_rule_config list \<Rightarrow> (string \<times> pyrec) list \<Rightarrow> string
    \<Rightarrow> string list set" where
  "trusted_values R trusted by_key k =
     (case map_of by_key k of None \<Rightarrow> {} | Some rec \<Rightarrow> set (List.map_filter (det_key R rec) trusted))"

text \<open>Two identifiers are related when one record carries both.\<close>

definition value_edges :: "runtime \<Rightarrow> match_rule_config list \<Rightarrow> (string \<times> pyrec) list
    \<Rightarrow> (string list \<times> string list) set" where
  "value_edges R trusted by_key =
     (\<Union>k. trusted_values R trusted by_key k \<times> trusted_values R trusted by_key k)"

definition trust_ok :: "('k \<Rightarrow> 'v set) \<Rightarrow> ('v \<times> 'v) set \<Rightarrow> ('k \<times> 'k) set \<Rightarrow> bool" where
  "trust_ok tv E L = (\<forall>a b v w. linked L a b \<longrightarrow> v \<in> tv a \<longrightarrow> w \<in> tv b \<longrightarrow> linked E v w)"

definition separated :: "('k \<Rightarrow> 'v set) \<Rightarrow> ('k \<times> 'k) set \<Rightarrow> 'k \<Rightarrow> 'k \<Rightarrow> bool" where
  "separated tv L a b =
     (\<exists>x y v w. linked L a x \<and> linked L b y \<and> v \<in> tv x \<and> w \<in> tv y \<and> v \<noteq> w)"

lemma separated_mono: "separated tv L a b \<Longrightarrow> L \<subseteq> L' \<Longrightarrow> separated tv L' a b"
  unfolding separated_def by (meson linked_mono)

lemma trust_ok_insert:
  assumes ok: "trust_ok tv E L"
    and ab: "(\<forall>x. linked L a x \<longrightarrow> tv x = {}) \<or> (\<forall>y. linked L b y \<longrightarrow> tv y = {})
       \<or> (\<exists>x y u. linked L a x \<and> linked L b y \<and> u \<in> tv x \<and> u \<in> tv y)"
  shows "trust_ok tv E (insert (a, b) L)"
proof -
  have cross: "linked E v w"
    if "linked L a x" "linked L b y" "v \<in> tv x" "w \<in> tv y" for x y v w
  proof -
    from ab that obtain x' y' u where
      "linked L a x'" "linked L b y'" "u \<in> tv x'" "u \<in> tv y'" by blast
    moreover from this that have "linked L x x'" "linked L y' y"
      by (meson linked_sym linked_trans)+
    ultimately show ?thesis using ok that unfolding trust_ok_def by (meson linked_trans)
  qed
  show ?thesis
    unfolding trust_ok_def linked_insert
  proof (intro allI impI)
    fix x y v w
    assume l: "linked L x y \<or> linked L x a \<and> linked L b y \<or> linked L x b \<and> linked L a y"
      and v: "v \<in> tv x" and w: "w \<in> tv y"
    from l consider "linked L x y" | "linked L a x" "linked L b y" | "linked L b x" "linked L a y"
      using linked_sym by metis
    then show "linked E v w"
    proof cases
      case 1
      then show ?thesis using ok v w by (simp add: trust_ok_def)
    next
      case 2
      then show ?thesis using cross v w by blast
    next
      case 3
      then show ?thesis using cross v w linked_sym by metis
    qed
  qed
qed

lemma trust_ok_empty: "trust_ok (trusted_values R trusted by_key) (value_edges R trusted by_key) {}"
  by (auto simp: trust_ok_def value_edges_def intro!: linked_pair)

lemma trust_ok_union:
  assumes "finite P" and "trust_ok tv E L"
    and "\<And>a b. (a, b) \<in> P \<Longrightarrow> \<exists>u. u \<in> tv a \<and> u \<in> tv b"
  shows "trust_ok tv E (L \<union> P)"
  using assms
proof (induction P)
  case empty
  then show ?case by simp
next
  case (insert p P)
  obtain a b where p: "p = (a, b)" by (cases p)
  with insert.prems(2) obtain u where "u \<in> tv a" "u \<in> tv b" by blast
  moreover from insert have "trust_ok tv E (L \<union> P)" by blast
  ultimately show ?case using trust_ok_insert [of tv E "L \<union> P" a b] p
    by (metis Un_insert_right linked_refl)
qed

lemma trusted_values_pair:
  assumes "p \<in> set (trusted_pairs R by_key rule)" and "rule \<in> set trusted" and "distinct (map fst by_key)"
  shows "\<exists>u. u \<in> trusted_values R trusted by_key (fst p) \<and> u \<in> trusted_values R trusted by_key (snd p)"
proof -
  obtain r1 r2 v where "map_of by_key (fst p) = Some r1" "map_of by_key (snd p) = Some r2"
    "det_key R r1 rule = Some v" "det_key R r2 rule = Some v"
    by (rule rule_pairs_same_key [OF disjI1 [OF assms(1)] assms(3)])
  with assms(2) show ?thesis by (force simp: trusted_values_def List.map_filter_def)
qed

lemma cluster_trusted_values_ok:
  assumes "match_inv (rt_recursion_limit R) K st" and "fst ` set recs \<subseteq> K"
  shows "\<exists>uf'. cluster_trusted_values R trusted rt recs (ms_uf st)
      = Inr (\<Union>(k, rec) \<in> set recs. if uf_cls (rt_recursion_limit R) (ms_uf st) k = rt
               then set (List.map_filter (det_key R rec) trusted) else {}, uf')
    \<and> match_inv (rt_recursion_limit R) K (st\<lparr>ms_uf := uf'\<rparr>)
    \<and> (\<forall>j \<in> K. uf_cls (rt_recursion_limit R) uf' j = uf_cls (rt_recursion_limit R) (ms_uf st) j)"
  using assms
proof (induction recs arbitrary: st)
  case Nil
  then show ?case by simp
next
  case (Cons p recs)
  let ?d = "rt_recursion_limit R"
  obtain k rec where p: "p = (k, rec)" by (cases p)
  with Cons.prems have k: "k \<in> K" "fst ` set recs \<subseteq> K" by auto
  obtain uf1 where 1: "uf_find ?d (ms_uf st) k = Inr (uf_cls ?d (ms_uf st) k, uf1)"
    "match_inv ?d K (st\<lparr>ms_uf := uf1\<rparr>)" "\<And>j. j \<in> K \<Longrightarrow> uf_cls ?d uf1 j = uf_cls ?d (ms_uf st) j"
    using match_inv_find [OF Cons.prems(1) k(1)] by blast
  from Cons.IH [OF 1(2) k(2)] obtain uf2 where
    2: "cluster_trusted_values R trusted rt recs uf1
      = Inr (\<Union>(k, rec) \<in> set recs. if uf_cls ?d uf1 k = rt
               then set (List.map_filter (det_key R rec) trusted) else {}, uf2)"
      "match_inv ?d K (st\<lparr>ms_uf := uf2\<rparr>)" "\<forall>j \<in> K. uf_cls ?d uf2 j = uf_cls ?d uf1 j"
    by auto
  have "(\<Union>(k, rec) \<in> set recs. if uf_cls ?d uf1 k = rt
               then set (List.map_filter (det_key R rec) trusted) else {})
      = (\<Union>(k, rec) \<in> set recs. if uf_cls ?d (ms_uf st) k = rt
               then set (List.map_filter (det_key R rec) trusted) else {})"
    using k(2) 1(3) by (intro SUP_cong) force+
  with 1 2 p show ?case by auto
qed

text \<open>The values collected for a root are those of the records linked to it.\<close>

lemma cluster_values_linked:
  assumes inv: "match_inv depth (fst ` set by_key) st" and "distinct (map fst by_key)"
    and a: "a \<in> fst ` set by_key"
  shows "(\<Union>(k, rec) \<in> set by_key. if uf_cls depth (ms_uf st) k = uf_cls depth (ms_uf st) a
            then set (List.map_filter (det_key R rec) trusted) else {})
       = (\<Union>x \<in> {x. linked (link_pairs (ms_links st)) a x}. trusted_values R trusted by_key x)"
proof -
  have in_keys: "trusted_values R trusted by_key x = {}" if "x \<notin> fst ` set by_key" for x
    using that by (auto simp: trusted_values_def dom_map_of_conv_image_fst [symmetric] split: option.splits)
  have "(\<Union>(k, rec) \<in> set by_key. if uf_cls depth (ms_uf st) k = uf_cls depth (ms_uf st) a
            then set (List.map_filter (det_key R rec) trusted) else {})
      = (\<Union>k \<in> {k \<in> fst ` set by_key. uf_cls depth (ms_uf st) k = uf_cls depth (ms_uf st) a}.
            trusted_values R trusted by_key k)"
    using assms(2) by (force simp: trusted_values_def split: if_splits)
  also have "{k \<in> fst ` set by_key. uf_cls depth (ms_uf st) k = uf_cls depth (ms_uf st) a}
      = {x. linked (link_pairs (ms_links st)) a x} \<inter> fst ` set by_key"
    using match_inv_same [OF inv a] by (auto simp: eq_commute)
  also have "(\<Union>x \<in> {x. linked (link_pairs (ms_links st)) a x} \<inter> fst ` set by_key.
        trusted_values R trusted by_key x)
      = (\<Union>x \<in> {x. linked (link_pairs (ms_links st)) a x}. trusted_values R trusted by_key x)"
    using in_keys by blast
  finally show ?thesis .
qed

lemma cluster_values_of:
  assumes inv: "match_inv (rt_recursion_limit R) (fst ` set by_key) st" and d: "distinct (map fst by_key)"
    and a: "a \<in> fst ` set by_key" and r: "r = uf_cls (rt_recursion_limit R) (ms_uf st) a"
  obtains uf' where
    "cluster_trusted_values R trusted r by_key (ms_uf st)
       = Inr (\<Union>x \<in> {x. linked (link_pairs (ms_links st)) a x}. trusted_values R trusted by_key x, uf')"
    and "match_inv (rt_recursion_limit R) (fst ` set by_key) (st\<lparr>ms_uf := uf'\<rparr>)"
    and "\<And>j. j \<in> fst ` set by_key \<Longrightarrow>
           uf_cls (rt_recursion_limit R) uf' j = uf_cls (rt_recursion_limit R) (ms_uf st) j"
  using cluster_trusted_values_ok [OF inv subset_refl, of trusted r]
  unfolding r cluster_values_linked [OF inv d a] by blast

subsection \<open>The composite phase\<close>

definition comp_inv :: "runtime \<Rightarrow> match_rule_config list \<Rightarrow> (string \<times> pyrec) list \<Rightarrow> (string \<times> string) set
    \<Rightarrow> match_state \<Rightarrow> bool" where
  "comp_inv R trusted by_key L st =
     (match_inv (rt_recursion_limit R) (fst ` set by_key) st
      \<and> L \<subseteq> link_pairs (ms_links st)
      \<and> trust_ok (trusted_values R trusted by_key) (value_edges R trusted by_key) (link_pairs (ms_links st))
      \<and> (\<forall>(a, b) \<in> link_pairs (ms_conflicts st).
            a \<in> fst ` set by_key \<and> b \<in> fst ` set by_key
            \<and> separated (trusted_values R trusted by_key) (link_pairs (ms_links st)) a b))"

lemma composite_step_ok:
  assumes inv: "comp_inv R trusted by_key L st" and d: "distinct (map fst by_key)"
    and a: "a \<in> fst ` set by_key" and b: "b \<in> fst ` set by_key"
  shows "\<exists>st'. composite_step R by_key trusted rule (a, b) st = Inr st' \<and> comp_inv R trusted by_key L st'"
proof -
  let ?d = "rt_recursion_limit R" and ?K = "fst ` set by_key" and ?tv = "trusted_values R trusted by_key"
  let ?L = "link_pairs (ms_links st)" and ?r = "\<lambda>x. uf_cls ?d (ms_uf st) x"
  define vals where "vals x = (\<Union>y \<in> {y. linked ?L x y}. ?tv y)" for x
  from inv have m: "match_inv ?d ?K st" by (simp add: comp_inv_def)
  obtain uf1 where 1: "uf_find ?d (ms_uf st) a = Inr (?r a, uf1)" "match_inv ?d ?K (st\<lparr>ms_uf := uf1\<rparr>)"
    "\<And>j. j \<in> ?K \<Longrightarrow> uf_cls ?d uf1 j = ?r j"
    using match_inv_find [OF m a] by blast
  obtain uf2 where 2: "uf_find ?d uf1 b = Inr (?r b, uf2)" "match_inv ?d ?K (st\<lparr>ms_uf := uf2\<rparr>)"
    "\<And>j. j \<in> ?K \<Longrightarrow> uf_cls ?d uf2 j = ?r j"
    using match_inv_find [OF 1(2) b] 1(3) b by auto
  obtain uf3 where 3: "cluster_trusted_values R trusted (?r a) by_key uf2 = Inr (vals a, uf3)"
    "match_inv ?d ?K (st\<lparr>ms_uf := uf3\<rparr>)" "\<And>j. j \<in> ?K \<Longrightarrow> uf_cls ?d uf3 j = ?r j"
    using cluster_values_of [OF 2(2) d a, of "?r a" trusted thesis] 2(3)
    by (simp add: 2(3) [OF a] vals_def)
  obtain uf4 where 4: "cluster_trusted_values R trusted (?r b) by_key uf3 = Inr (vals b, uf4)"
    "match_inv ?d ?K (st\<lparr>ms_uf := uf4\<rparr>)" "\<And>j. j \<in> ?K \<Longrightarrow> uf_cls ?d uf4 j = ?r j"
    using cluster_values_of [OF 3(2) d b, of "?r b" trusted thesis] 3(3)
    by (simp add: 3(3) [OF b] vals_def)
  obtain w uf5 where 5: "uf_union ?d uf4 a b = Inr (w, uf5)" "dom uf5 = ?K"
    "uf.tracks ?d (insert (a, b) ?L) uf5"
    using match_inv_union [OF 4(2) a b] by auto
  note step = composite_step_def Let_def 1(1) 2(1) 3(1) 4(1) 5(1)
  show ?thesis
  proof (cases "?r a = ?r b")
    case True
    then show ?thesis using inv 2(2) by (simp add: step comp_inv_def)
  next
    case ne: False
    show ?thesis
    proof (cases "vals a \<noteq> {} \<and> vals b \<noteq> {} \<and> vals a \<inter> vals b = {}")
      case True
      then have "separated ?tv ?L a b" unfolding separated_def vals_def by blast
      then show ?thesis using ne True inv 4(2) a b by (simp add: step comp_inv_def)
    next
      case False
      then have "(\<forall>x. linked ?L a x \<longrightarrow> ?tv x = {}) \<or> (\<forall>y. linked ?L b y \<longrightarrow> ?tv y = {})
          \<or> (\<exists>x y u. linked ?L a x \<and> linked ?L b y \<and> u \<in> ?tv x \<and> u \<in> ?tv y)"
        unfolding vals_def by blast
      from trust_ok_insert [OF _ this] inv
      have "trust_ok ?tv (value_edges R trusted by_key) (insert (a, b) ?L)" by (simp add: comp_inv_def)
      moreover have "\<forall>(x, y) \<in> link_pairs (ms_conflicts st). separated ?tv (insert (a, b) ?L) x y"
        using inv by (auto simp: comp_inv_def intro: separated_mono)
      ultimately show ?thesis using ne False inv 5
        by (auto simp: step comp_inv_def match_inv_def)
    qed
  qed
qed

lemma composite_phase_ok:
  assumes inv: "comp_inv R trusted by_key L st" and d: "distinct (map fst by_key)"
  shows "\<exists>st'. composite_phase R by_key trusted rules st = Inr st' \<and> comp_inv R trusted by_key L st'"
  unfolding composite_phase_def composite_pairs_def [symmetric]
proof (rule res_fold_total [where I = "comp_inv R trusted by_key L"], rule inv,
       rule res_fold_total [where I = "comp_inv R trusted by_key L"], assumption)
  fix rule p s
  assume "p \<in> set (composite_pairs R by_key rule)" and s: "comp_inv R trusted by_key L s"
  then have "fst p \<in> fst ` set by_key" "snd p \<in> fst ` set by_key"
    using rule_pairs_keys [of p R by_key rule] d by auto
  with composite_step_ok [OF s d] show "\<exists>s'. composite_step R by_key trusted rule p s = Inr s'
      \<and> comp_inv R trusted by_key L s'" by (cases p) simp
qed

subsection \<open>The cluster dictionary\<close>

lemma find_all_ok:
  assumes "uf.tracks depth L uf" and "set ks \<subseteq> dom uf"
  shows "\<exists>uf'. find_all depth ks uf = Inr (map (\<lambda>k. (k, uf_cls depth uf k)) ks, uf')
    \<and> uf.tracks depth L uf' \<and> dom uf' = dom uf \<and> (\<forall>j \<in> dom uf. uf_cls depth uf' j = uf_cls depth uf j)"
  using assms
proof (induction ks arbitrary: uf)
  case Nil
  then show ?case by simp
next
  case (Cons k ks)
  then have k: "k \<in> dom uf" by simp
  from uf.tracks_find [OF Cons.prems(1) k] obtain uf1 where
    1: "uf_find depth uf k = Inr (uf_cls depth uf k, uf1)" "uf.tracks depth L uf1" "dom uf1 = dom uf"
       "\<forall>j \<in> dom uf. uf_cls depth uf1 j = uf_cls depth uf j" by blast
  from Cons.IH [OF 1(2)] Cons.prems 1 obtain uf2 where
    2: "find_all depth ks uf1 = Inr (map (\<lambda>k. (k, uf_cls depth uf1 k)) ks, uf2)"
       "uf.tracks depth L uf2" "dom uf2 = dom uf" "\<forall>j \<in> dom uf. uf_cls depth uf2 j = uf_cls depth uf j"
    by auto
  have "map (\<lambda>k. (k, uf_cls depth uf1 k)) ks = map (\<lambda>k. (k, uf_cls depth uf k)) ks"
    using Cons.prems(2) 1(4) by auto
  with 1 2 show ?case by simp
qed

text \<open>The id of a record is that of the records linked to it, in key order.\<close>

lemma build_clusters_ok:
  assumes t: "uf.tracks (rt_recursion_limit R) L uf" and "dom uf = set keys"
  shows "build_clusters R keys uf = Inr (map (\<lambda>k. (k, cluster_id R (filter (linked L k) keys))) keys)"
proof -
  let ?d = "rt_recursion_limit R" and ?c = "\<lambda>k. uf_cls (rt_recursion_limit R) uf k"
  from find_all_ok [OF t, of keys] assms(2) obtain uf1 where
    1: "find_all ?d keys uf = Inr (map (\<lambda>k. (k, ?c k)) keys, uf1)" "uf.tracks ?d L uf1"
       "dom uf1 = set keys" "\<forall>j \<in> set keys. uf_cls ?d uf1 j = ?c j" by auto
  from find_all_ok [OF 1(2), of keys] 1 obtain uf2 where
    2: "find_all ?d keys uf1 = Inr (map (\<lambda>k. (k, ?c k)) keys, uf2)"
    by auto
  let ?g = "group_pairs (map (\<lambda>(k, r). (r, k)) (map (\<lambda>k. (k, ?c k)) keys)) []"
  have "map_of (map (\<lambda>(r, ms). (r, cluster_id R ms)) ?g) (?c k) = Some (cluster_id R (filter (linked L k) keys))"
    if k: "k \<in> set keys" for k
  proof -
    have "(?c k, k) \<in> set (map (\<lambda>(k, r). (r, k)) (map (\<lambda>k. (k, ?c k)) keys))" using k by force
    from group_pairs_complete [OF this]
    have "map_of ?g (?c k) = Some (filter (\<lambda>j. ?c j = ?c k) keys)"
      by (simp add: filter_map o_def map_of_is_SomeI)
    moreover have "filter (\<lambda>j. ?c j = ?c k) keys = filter (linked L k) keys"
      using uf.tracks_same [OF t] assms(2) k by (intro filter_cong) (auto simp: eq_commute)
    ultimately show ?thesis by (simp add: map_of_map)
  qed
  with 1 2 show ?thesis by (simp add: build_clusters_def Let_def)
qed

section \<open>The whole match\<close>

definition rec_key :: "runtime \<Rightarrow> det_match_config \<Rightarrow> pyrec \<Rightarrow> string" where
  "rec_key R cfg rec = strip (py_str R (get_field_or rec (dm_record_key_field cfg) (PStr [])))"

definition rec_org :: "runtime \<Rightarrow> det_match_config \<Rightarrow> pyrec \<Rightarrow> string" where
  "rec_org R cfg rec = strip (py_str R (get_field_or rec (dm_organization_field cfg) (PStr [])))"

text \<open>What \<open>match\<close> demands of its records, and the rules it derives from the configuration.\<close>

definition det_input_ok :: "runtime \<Rightarrow> det_match_config \<Rightarrow> pyrec list \<Rightarrow> bool" where
  "det_input_ok R cfg records =
     ((\<forall>rec \<in> set records. rec_key R cfg rec \<noteq> [] \<and> rec_org R cfg rec \<noteq> [])
      \<and> distinct (map (rec_key R cfg) records)
      \<and> card (rec_org R cfg ` set records) \<le> 1)"

definition det_by_key :: "runtime \<Rightarrow> det_match_config \<Rightarrow> pyrec list \<Rightarrow> (string \<times> pyrec) list" where
  "det_by_key R cfg records = map (\<lambda>rec. (rec_key R cfg rec, rec)) records"

definition det_trusted :: "det_match_config \<Rightarrow> match_rule_config list" where
  "det_trusted cfg = sort_key dr_priority (filter dr_trusted (dm_rules cfg))"

lemma keys_det_by_key [simp]: "map fst (det_by_key R cfg records) = map (rec_key R cfg) records"
  by (simp add: det_by_key_def)

lemma key_set_det_by_key [simp]: "fst ` set (det_by_key R cfg records) = rec_key R cfg ` set records"
  by (simp add: det_by_key_def image_image)

lemma index_records_ok:
  assumes "\<forall>rec \<in> set recs. rec_key R cfg rec \<noteq> [] \<and> rec_org R cfg rec \<noteq> []"
    and "distinct (map (rec_key R cfg) recs)" and "rec_key R cfg ` set recs \<inter> fst ` set by_key = {}"
  shows "index_records R cfg recs by_key orgs
    = Inr (by_key @ det_by_key R cfg recs, orgs \<union> rec_org R cfg ` set recs)"
  using assms
  by (induction recs arbitrary: by_key orgs)
     (auto simp: Let_def det_by_key_def rec_key_def [symmetric] rec_org_def [symmetric])

lemma index_records_err:
  assumes "\<not> ((\<forall>rec \<in> set recs. rec_key R cfg rec \<noteq> [] \<and> rec_org R cfg rec \<noteq> [])
      \<and> distinct (map (rec_key R cfg) recs) \<and> rec_key R cfg ` set recs \<inter> fst ` set by_key = {})"
  shows "\<exists>m. index_records R cfg recs by_key orgs = Inl (ValueError m)"
  using assms
proof (induction recs arbitrary: by_key orgs)
  case Nil
  then show ?case by simp
next
  case (Cons rec recs)
  let ?k = "rec_key R cfg rec" and ?o = "rec_org R cfg rec"
  show ?case
  proof (cases "?k = [] \<or> ?o = [] \<or> ?k \<in> fst ` set by_key")
    case True
    then show ?thesis by (auto simp: Let_def rec_key_def [symmetric] rec_org_def [symmetric])
  next
    case False
    then have "\<exists>m. index_records R cfg recs (by_key @ [(?k, rec)]) (insert ?o orgs) = Inl (ValueError m)"
      using Cons.prems by (intro Cons.IH) auto
    with False show ?thesis by (auto simp: Let_def rec_key_def [symmetric] rec_org_def [symmetric])
  qed
qed

text \<open>The central lemma: on valid records the match returns, and this is what it returns.\<close>

lemma det_match_run:
  assumes ok: "det_input_ok R cfg records" and le: "length records \<le> rt_recursion_limit R"
  shows "\<exists>res. det_match R records cfg = Inr res
    \<and> dres_clusters res =
        map (\<lambda>k. (k, cluster_id R (filter (linked (link_pairs (dres_links res)) k) (map (rec_key R cfg) records))))
          (map (rec_key R cfg) records)
    \<and> link_pairs (dres_links res) \<subseteq> rec_key R cfg ` set records \<times> rec_key R cfg ` set records
    \<and> (\<forall>rule \<in> set (det_trusted cfg).
          set (trusted_pairs R (det_by_key R cfg records) rule) \<subseteq> link_pairs (dres_links res))
    \<and> trust_ok (trusted_values R (det_trusted cfg) (det_by_key R cfg records))
        (value_edges R (det_trusted cfg) (det_by_key R cfg records)) (link_pairs (dres_links res))
    \<and> (\<forall>(a, b) \<in> link_pairs (dres_conflicts res).
          separated (trusted_values R (det_trusted cfg) (det_by_key R cfg records)) (link_pairs (dres_links res)) a b)"
proof -
  let ?d = "rt_recursion_limit R" and ?bk = "det_by_key R cfg records" and ?t = "det_trusted cfg"
  let ?comp = "sort_key dr_priority (filter (\<lambda>r. \<not> dr_trusted r) (dm_rules cfg))"
  let ?keys = "map (rec_key R cfg) records"
  let ?st0 = "\<lparr>ms_uf = uf_init ?keys, ms_links = [], ms_conflicts = []\<rparr>"
  from ok have d: "distinct (map fst ?bk)" by (simp add: det_input_ok_def)
  have i: "index_records R cfg records [] {} = Inr (?bk, rec_org R cfg ` set records)"
    using ok index_records_ok [of records R cfg "[]" "{}"] by (simp add: det_input_ok_def)
  have m0: "match_inv ?d (fst ` set ?bk) ?st0"
    using uf_init_tracks [of ?keys ?d] le by (simp add: match_inv_def)
  from trusted_phase_ok [OF m0 d, of ?t] obtain st1 where
    1: "trusted_phase R ?bk ?t ?st0 = Inr st1" "match_inv ?d (fst ` set ?bk) st1"
       "link_pairs (ms_links st1) = (\<Union>rule \<in> set ?t. set (trusted_pairs R ?bk rule))"
       "ms_conflicts st1 = []" by auto
  have "trust_ok (trusted_values R ?t ?bk) (value_edges R ?t ?bk) ({} \<union> link_pairs (ms_links st1))"
  proof (rule trust_ok_union [OF _ trust_ok_empty])
    show "finite (link_pairs (ms_links st1))" by (simp add: link_pairs_def)
    show "\<exists>u. u \<in> trusted_values R ?t ?bk a \<and> u \<in> trusted_values R ?t ?bk b"
      if "(a, b) \<in> link_pairs (ms_links st1)" for a b
      using that trusted_values_pair [of "(a, b)" R ?bk _ ?t] d unfolding 1(3) by auto
  qed
  then have "comp_inv R ?t ?bk (link_pairs (ms_links st1)) st1"
    using 1 by (simp add: comp_inv_def)
  from composite_phase_ok [OF this d, of ?comp] obtain st2 where
    2: "composite_phase R ?bk ?t ?comp st1 = Inr st2" "comp_inv R ?t ?bk (link_pairs (ms_links st1)) st2"
    by blast
  from 2(2) have t: "uf.tracks ?d (link_pairs (ms_links st2)) (ms_uf st2)" "dom (ms_uf st2) = set ?keys"
    by (simp_all add: comp_inv_def match_inv_def)
  have "det_match R records cfg = Inr \<lparr>dres_clusters =
        map (\<lambda>k. (k, cluster_id R (filter (linked (link_pairs (ms_links st2)) k) ?keys))) ?keys,
      dres_links = ms_links st2, dres_conflicts = ms_conflicts st2\<rparr>"
    using ok i 1(1) 2(1) build_clusters_ok [OF t]
    by (simp add: det_match_def Let_def det_input_ok_def det_trusted_def [symmetric])
  then show ?thesis
    using 2(2) match_inv_keys [of ?d _ st2] 1(3) by (auto simp: comp_inv_def)
qed

lemma round8_unit: "0 \<le> x \<Longrightarrow> x \<le> 1 \<Longrightarrow> 0 \<le> round8 x \<and> round8 x \<le> 1"
proof -
  assume x: "0 \<le> x" "x \<le> 1"
  let ?y = "x * 10 ^ 8"
  have "0 \<le> \<lfloor>?y\<rfloor>" using x by simp
  then have "0 \<le> round_half_even ?y" by (simp add: round_half_even_def Let_def)
  moreover have "round_half_even ?y \<le> 10 ^ 8"
  proof (cases "x = 1")
    case True
    then show ?thesis by (simp add: round_half_even_def Let_def)
  next
    case False
    then have "\<lfloor>?y\<rfloor> < 10 ^ 8" using x by (simp add: floor_less_iff)
    then show ?thesis by (simp add: round_half_even_def Let_def)
  qed
  then have "real_of_int (round_half_even ?y) \<le> real_of_int (10 ^ 8)" by (rule of_int_le_iff [THEN iffD2])
  ultimately show ?thesis by (simp add: round8_def)
qed

lemma rate_unit: "a \<le> b \<Longrightarrow> 0 \<le> round8 (real a / real b) \<and> round8 (real a / real b) \<le> 1"
  by (rule round8_unit) (auto simp: divide_le_eq_1)

end
