(* ===== verification/Deterministic_Props.thy ===== *)
theory Deterministic_Props
  imports Deterministic
begin

text \<open>
  What the deterministic matcher and its evaluation guarantee: clusters are the
  components of the links, trusted identifiers are joined completely and never
  mixed, and the metrics count pairs.
\<close>

section \<open>Lemmas for the properties\<close>

lemma adjacent_linked:
  assumes "set (adjacent xs) \<subseteq> L" and "x \<in> set xs" and "y \<in> set xs"
  shows "linked L x y"
proof -
  have "linked L (hd xs) z" if "z \<in> set xs" for z
    using assms(1) that
  proof (induction xs)
    case (Cons a xs)
    show ?case
    proof (cases xs)
      case Nil
      then show ?thesis using Cons.prems by simp
    next
      case (Cons b ys)
      then have "(a, b) \<in> L" "set (adjacent xs) \<subseteq> L" using Cons.prems(1) by (auto simp: adjacent_Cons2)
      then show ?thesis
        using Cons.IH Cons.prems(2) Cons linked_pair linked_trans by (metis list.sel(1) linked_refl set_ConsD)
    qed
  qed simp
  then show ?thesis using assms(2,3) linked_sym linked_trans by metis
qed

lemma trusted_pairs_linked:
  assumes "set (trusted_pairs R by_key rule) \<subseteq> L" and "distinct (map fst by_key)"
    and "map_of by_key a = Some r1" and "map_of by_key b = Some r2"
    and "det_key R r1 rule = Some v" and "det_key R r2 rule = Some v"
  shows "linked L a b"
proof -
  from rule_groups_complete [OF assms(3,5,2)] obtain members where
    m: "members \<in> set (rule_groups R rule by_key)"
       "set members = {k. \<exists>rec. map_of by_key k = Some rec \<and> det_key R rec rule = Some v}" by blast
  have "set (adjacent (sort members)) \<subseteq> L" using assms(1) m(1) by (auto simp: trusted_pairs_def)
  moreover have "a \<in> set (sort members)" "b \<in> set (sort members)" using assms(3-6) m(2) by auto
  ultimately show ?thesis by (rule adjacent_linked)
qed

lemma cluster_name_inj:
  assumes "cluster_name xs = cluster_name ys" and "xs \<noteq> []" and "ys \<noteq> []"
    and "\<forall>x \<in> set xs \<union> set ys. CHR ''|'' \<notin> set x"
  shows "set xs = set ys"
proof -
  have "join ''|'' (sort xs) = join ''|'' (sort ys)" using assms(1) by (simp add: cluster_name_def)
  then have "sort xs = sort ys" by (rule join_inj) (use assms in \<open>auto dest: arg_cong [where f = set]\<close>)
  then show ?thesis by (metis set_sort)
qed

lemma cluster_id_linked:
  assumes "linked L a b"
  shows "cluster_id R (filter (linked L a) keys) = cluster_id R (filter (linked L b) keys)"
proof -
  have "linked L a x \<longleftrightarrow> linked L b x" for x
    using assms linked_sym [OF assms] linked_trans [of L] by blast
  then have "linked L a = linked L b" by (rule ext)
  then show ?thesis by simp
qed

lemma cluster_id_separates:
  assumes inj: "inj_on (\<lambda>n. rt_uuid_str R (rt_uuid5 R n)) ((\<lambda>k. cluster_name (filter (linked L k) keys)) ` set keys)"
    and "\<forall>k \<in> set keys. CHR ''|'' \<notin> set k"
    and "a \<in> set keys" and "b \<in> set keys"
    and eq: "cluster_id R (filter (linked L a) keys) = cluster_id R (filter (linked L b) keys)"
  shows "linked L a b"
proof -
  let ?A = "filter (linked L a) keys" and ?B = "filter (linked L b) keys"
  have mem: "a \<in> set ?A" "b \<in> set ?B" using assms(3,4) by auto
  have "cluster_name ?A = cluster_name ?B"
    by (rule inj_onD [OF inj]) (use eq assms(3,4) in \<open>simp_all add: cluster_id_def\<close>)
  moreover have "?A \<noteq> []" "?B \<noteq> []" using mem by (metis empty_iff empty_set)+
  moreover have "\<forall>x \<in> set ?A \<union> set ?B. CHR ''|'' \<notin> set x" using assms(2) by auto
  ultimately have "set ?A = set ?B" by (rule cluster_name_inj)
  with mem(2) have "b \<in> set ?A" by blast
  then show ?thesis by simp
qed

lemma single_rule_values:
  assumes "det_trusted cfg = [rule]"
  shows "linked (value_edges R (det_trusted cfg) by_key) v w \<longleftrightarrow> v = w"
proof
  have "value_edges R (det_trusted cfg) by_key \<subseteq> Id"
    using assms by (auto simp: value_edges_def trusted_values_def List.map_filter_def split: option.splits if_splits)
  then have step: "link_step (value_edges R (det_trusted cfg) by_key) x y \<Longrightarrow> x = y" for x y
    by (auto simp: link_step_def)
  assume "linked (value_edges R (det_trusted cfg) by_key) v w"
  then show "v = w" unfolding linked_def
    by (induction rule: rtranclp_induct) (auto dest: step)
qed simp

lemma det_rejects:
  assumes "\<not> det_input_ok R cfg records"
  shows "\<exists>m. det_match R records cfg = Inl (ValueError m)"
proof (cases "(\<forall>rec \<in> set records. rec_key R cfg rec \<noteq> [] \<and> rec_org R cfg rec \<noteq> [])
      \<and> distinct (map (rec_key R cfg) records)")
  case True
  with assms index_records_ok [of records R cfg "[]" "{}"] show ?thesis
    by (simp add: det_match_def det_input_ok_def)
next
  case False
  with index_records_err [of records R cfg "[]" "{}"] show ?thesis
    by (auto simp: det_match_def)
qed

lemma det_returns_ok: "det_match R records cfg = Inr res \<Longrightarrow> det_input_ok R cfg records"
  using det_rejects by fastforce

lemma det_by_key_map:
  "det_input_ok R cfg records \<Longrightarrow> r \<in> set records \<Longrightarrow>
     map_of (det_by_key R cfg records) (rec_key R cfg r) = Some r"
  by (auto simp: det_input_ok_def det_by_key_def o_def intro!: map_of_is_SomeI)

section \<open>Properties of the deterministic matcher\<close>

text \<open>The keys a chain of returned links joins with a key, and the names the clusters are numbered by.\<close>

definition component :: "runtime \<Rightarrow> det_match_config \<Rightarrow> pyrec list \<Rightarrow> det_match_result \<Rightarrow> string \<Rightarrow> string list" where
  "component R cfg records res k = filter (linked (link_pairs (dres_links res)) k) (map (rec_key R cfg) records)"

definition component_names :: "runtime \<Rightarrow> det_match_config \<Rightarrow> pyrec list \<Rightarrow> det_match_result \<Rightarrow> string set" where
  "component_names R cfg records res = (\<lambda>rec. cluster_name (component R cfg records res (rec_key R cfg rec))) ` set records"

text \<open>
  C1: on records with keys and one organization, all keys distinct and no more of them than the recursion
  limit, \<open>match\<close> returns and gives every record, in order, the identifier of its component, the UUIDv5 of the sorted keys that
  chains of returned links join with it. So linked records share the cluster id, and when no key contains the
  separator \<open>|\<close> and UUIDv5 does not collide on the names of the components of this very result, records
  with one cluster id are linked.
\<close>

theorem det_clusters_are_components:
  assumes "det_input_ok R cfg records" and "length records \<le> rt_recursion_limit R"
  shows "\<exists>res. det_match R records cfg = Inr res
    \<and> map fst (dres_clusters res) = map (rec_key R cfg) records
    \<and> (\<forall>rec \<in> set records. map_of (dres_clusters res) (rec_key R cfg rec)
          = Some (cluster_id R (component R cfg records res (rec_key R cfg rec))))
    \<and> (\<forall>a \<in> rec_key R cfg ` set records. \<forall>b \<in> rec_key R cfg ` set records.
          linked (link_pairs (dres_links res)) a b \<longrightarrow> map_of (dres_clusters res) a = map_of (dres_clusters res) b)
    \<and> ((\<forall>rec \<in> set records. CHR ''|'' \<notin> set (rec_key R cfg rec))
        \<and> inj_on (\<lambda>n. rt_uuid_str R (rt_uuid5 R n)) (component_names R cfg records res) \<longrightarrow>
          (\<forall>a \<in> rec_key R cfg ` set records. \<forall>b \<in> rec_key R cfg ` set records.
            map_of (dres_clusters res) a = map_of (dres_clusters res) b \<longrightarrow> linked (link_pairs (dres_links res)) a b))"
proof -
  let ?keys = "map (rec_key R cfg) records"
  from det_match_run [OF assms] obtain res where
    1: "det_match R records cfg = Inr res" and
    2: "dres_clusters res = map (\<lambda>k. (k, cluster_id R (filter (linked (link_pairs (dres_links res)) k) ?keys))) ?keys"
    by blast
  let ?L = "link_pairs (dres_links res)"
  have ids: "map_of (dres_clusters res) k = Some (cluster_id R (component R cfg records res k))" if "k \<in> set ?keys" for k
    using that unfolding 2 map_of_map_keys component_def by simp
  have names: "component_names R cfg records res = (\<lambda>k. cluster_name (filter (linked ?L k) ?keys)) ` set ?keys"
    by (simp add: component_names_def component_def image_image)
  have same: "map_of (dres_clusters res) a = map_of (dres_clusters res) b" if "a \<in> set ?keys" "b \<in> set ?keys" "linked ?L a b" for a b
    using cluster_id_linked [OF that(3), of R ?keys] that(1,2) by (simp add: ids component_def)
  have apart: "linked ?L a b"
    if "inj_on (\<lambda>n. rt_uuid_str R (rt_uuid5 R n)) (component_names R cfg records res)" "\<forall>rec \<in> set records. CHR ''|'' \<notin> set (rec_key R cfg rec)"
      "a \<in> set ?keys" "b \<in> set ?keys" "map_of (dres_clusters res) a = map_of (dres_clusters res) b" for a b
    using cluster_id_separates [OF that(1) [unfolded names] _ that(3,4)] that(2-5) by (simp add: ids component_def)
  have keys: "map fst (dres_clusters res) = ?keys" by (simp add: 2 comp_def)
  show ?thesis
    using 1 keys ids same apart unfolding set_map
    by (intro exI [of _ res] conjI ballI impI) (assumption | blast)+
qed

definition demo_match_config :: det_match_config where
  "demo_match_config = \<lparr>dm_schema_version = ''1.0'', dm_rule_set_id = ''people'',
     dm_organization_field = ''org'', dm_record_key_field = ''key'',
     dm_rules = [\<lparr>dr_rule_id = ''employee'', dr_priority = 1, dr_fields = [''employee_id''],
                  dr_trusted = True, dr_require_all = True\<rparr>,
                 \<lparr>dr_rule_id = ''name'', dr_priority = 2, dr_fields = [''name''],
                  dr_trusted = False, dr_require_all = True\<rparr>]\<rparr>"

definition demo_person :: "string \<Rightarrow> string \<Rightarrow> string \<Rightarrow> pyrec" where
  "demo_person key employee name = [(''key'', PStr key), (''org'', PStr ''o''),
     (''employee_id'', PStr employee), (''name'', PStr name)]"

definition demo_people :: "pyrec list" where
  "demo_people = [demo_person ''a'' ''e1'' ''x'', demo_person ''b'' ''e1'' ''y'',
     demo_person ''c'' ''e2'' ''y'', demo_person ''d'' [] ''x'']"

lemma demo_input:
  "det_input_ok ascii_runtime demo_match_config demo_people"
  "length demo_people \<le> rt_recursion_limit ascii_runtime"
  "map (rec_key ascii_runtime demo_match_config) demo_people = [''a'', ''b'', ''c'', ''d'']"
  "\<forall>rec \<in> set demo_people. CHR ''|'' \<notin> set (rec_key ascii_runtime demo_match_config rec)"
  by code_simp+

theorem det_clusters_are_components_witness:
  "\<exists>res. det_match ascii_runtime demo_people demo_match_config = Inr res
    \<and> map fst (dres_clusters res) = [''a'', ''b'', ''c'', ''d'']
    \<and> (\<forall>a \<in> {''a'', ''b'', ''c'', ''d''}. \<forall>b \<in> {''a'', ''b'', ''c'', ''d''}.
         map_of (dres_clusters res) a = map_of (dres_clusters res) b
         \<longleftrightarrow> linked (link_pairs (dres_links res)) a b)"
proof -
  have keys: "rec_key ascii_runtime demo_match_config ` set demo_people = {''a'', ''b'', ''c'', ''d''}"
    using arg_cong [OF demo_input(3), of set] by simp
  have inj: "inj_on (\<lambda>n. rt_uuid_str ascii_runtime (rt_uuid5 ascii_runtime n)) A" for A
    by (rule inj_on_subset [OF ascii_uuid_inj subset_UNIV])
  note components = det_clusters_are_components [OF demo_input(1,2), unfolded demo_input(3) keys]
  let ?K = "{''a'', ''b'', ''c'', ''d''}"
  from components obtain res where r: "det_match ascii_runtime demo_people demo_match_config = Inr res"
    "map fst (dres_clusters res) = [''a'', ''b'', ''c'', ''d'']"
    "\<forall>a \<in> ?K. \<forall>b \<in> ?K. linked (link_pairs (dres_links res)) a b \<longrightarrow> map_of (dres_clusters res) a = map_of (dres_clusters res) b"
    "(\<forall>rec \<in> set demo_people. CHR ''|'' \<notin> set (rec_key ascii_runtime demo_match_config rec))
      \<and> inj_on (\<lambda>n. rt_uuid_str ascii_runtime (rt_uuid5 ascii_runtime n)) (component_names ascii_runtime demo_match_config demo_people res)
      \<longrightarrow> (\<forall>a \<in> ?K. \<forall>b \<in> ?K. map_of (dres_clusters res) a = map_of (dres_clusters res) b \<longrightarrow> linked (link_pairs (dres_links res)) a b)"
    by (elim exE conjE) (rule that)
  note apart = mp [OF r(4) conjI [OF demo_input(4) inj]]
  show ?thesis
    by (intro exI [of _ res] conjI r(1,2) ballI iffI)
      (erule (2) r(3) [THEN bspec, THEN bspec, THEN mp, rotated 2] apart [THEN bspec, THEN bspec, THEN mp, rotated 2])+
qed

text \<open>
  \<open>match\<close> returns exactly when every record has a key and an organization after
  stripping, no key occurs twice and at most one organization occurs; on any other
  input it raises \<open>ValueError\<close> before a link or cluster exists.
\<close>

theorem det_match_returns_iff:
  assumes "length records \<le> rt_recursion_limit R"
  shows "((\<exists>res. det_match R records cfg = Inr res) \<longleftrightarrow> det_input_ok R cfg records)
    \<and> ((\<exists>m. det_match R records cfg = Inl (ValueError m)) \<longleftrightarrow> \<not> det_input_ok R cfg records)"
proof (cases "det_input_ok R cfg records")
  case True
  then show ?thesis using det_match_run [OF True assms] by auto
next
  case False
  then show ?thesis using det_rejects [OF False] by auto
qed

theorem det_match_returns_iff_witness:
  "(\<exists>res. det_match ascii_runtime demo_people demo_match_config = Inr res)
   \<and> (\<exists>m. det_match ascii_runtime (demo_people @ demo_people) demo_match_config = Inl (ValueError m))"
proof -
  have le: "length (demo_people @ demo_people) \<le> rt_recursion_limit ascii_runtime"
    and bad: "\<not> det_input_ok ascii_runtime demo_match_config (demo_people @ demo_people)" by code_simp+
  from det_match_returns_iff [OF demo_input(2), of demo_match_config] demo_input(1)
    det_match_returns_iff [OF le, of demo_match_config] bad show ?thesis by blast
qed

text \<open>
  C3: two records with the same value under a trusted rule always end in one cluster,
  whatever the other rules say.
\<close>

theorem det_trusted_complete:
  assumes "det_match R records cfg = Inr res" and "length records \<le> rt_recursion_limit R"
    and "rule \<in> set (dm_rules cfg)" and "dr_trusted rule"
    and "r1 \<in> set records" and "r2 \<in> set records"
    and "det_key R r1 rule = Some v" and "det_key R r2 rule = Some v"
  shows "map_of (dres_clusters res) (rec_key R cfg r1) = map_of (dres_clusters res) (rec_key R cfg r2)
    \<and> map_of (dres_clusters res) (rec_key R cfg r1) \<noteq> None"
proof -
  let ?keys = "map (rec_key R cfg) records" and ?L = "link_pairs (dres_links res)"
  from det_returns_ok [OF assms(1)] have ok: "det_input_ok R cfg records" .
  then have d: "distinct (map fst (det_by_key R cfg records))" by (simp add: det_input_ok_def)
  from det_match_run [OF ok assms(2)] assms(1) have
    c: "dres_clusters res = map (\<lambda>k. (k, cluster_id R (filter (linked ?L k) ?keys))) ?keys" and
    t: "\<forall>rule \<in> set (det_trusted cfg). set (trusted_pairs R (det_by_key R cfg records) rule) \<subseteq> ?L"
    by auto
  have "linked ?L (rec_key R cfg r1) (rec_key R cfg r2)"
    using t assms(3,4) by (intro trusted_pairs_linked [OF _ d det_by_key_map [OF ok] det_by_key_map [OF ok]]) (use assms in \<open>auto simp: det_trusted_def\<close>)
  then show ?thesis
    using assms(5,6) unfolding c map_of_map_keys by (auto intro: cluster_id_linked)
qed

lemma demo_trusted:
  "hd (dm_rules demo_match_config) \<in> set (dm_rules demo_match_config)"
  "dr_trusted (hd (dm_rules demo_match_config))"
  "demo_people ! 0 \<in> set demo_people" "demo_people ! 1 \<in> set demo_people"
  "det_key ascii_runtime (demo_people ! 0) (hd (dm_rules demo_match_config)) = Some [''E1'']"
  "det_key ascii_runtime (demo_people ! 1) (hd (dm_rules demo_match_config)) = Some [''E1'']"
  "rec_key ascii_runtime demo_match_config (demo_people ! 0) = ''a''"
  "rec_key ascii_runtime demo_match_config (demo_people ! 1) = ''b''"
  by code_simp+

theorem det_trusted_complete_witness:
  "\<exists>res. det_match ascii_runtime demo_people demo_match_config = Inr res
    \<and> map_of (dres_clusters res) ''a'' = map_of (dres_clusters res) ''b''
    \<and> map_of (dres_clusters res) ''a'' \<noteq> None"
proof -
  from det_match_run [OF demo_input(1,2)] obtain res where
    res: "det_match ascii_runtime demo_people demo_match_config = Inr res" by blast
  with det_trusted_complete [OF res demo_input(2) demo_trusted(1-6)] show ?thesis
    unfolding demo_trusted(7,8) by blast
qed

text \<open>
  C2: with one trusted rule, records that links join never disagree on the trusted
  identifier: if both carry one, it is the same. Composite rules can therefore never
  merge two people whose trusted identifiers differ.
\<close>

theorem det_trusted_sound:
  assumes "det_match R records cfg = Inr res" and "length records \<le> rt_recursion_limit R"
    and "det_trusted cfg = [rule]"
    and "r1 \<in> set records" and "r2 \<in> set records"
    and "linked (link_pairs (dres_links res)) (rec_key R cfg r1) (rec_key R cfg r2)"
    and "det_key R r1 rule = Some v" and "det_key R r2 rule = Some w"
  shows "v = w"
proof -
  from det_returns_ok [OF assms(1)] have ok: "det_input_ok R cfg records" .
  from det_match_run [OF ok assms(2)] assms(1) have
    "trust_ok (trusted_values R (det_trusted cfg) (det_by_key R cfg records))
       (value_edges R (det_trusted cfg) (det_by_key R cfg records)) (link_pairs (dres_links res))" by auto
  moreover have "v \<in> trusted_values R (det_trusted cfg) (det_by_key R cfg records) (rec_key R cfg r1)"
    "w \<in> trusted_values R (det_trusted cfg) (det_by_key R cfg records) (rec_key R cfg r2)"
    using assms(3-5,7,8) by (simp_all add: trusted_values_def det_by_key_map [OF ok] List.map_filter_def)
  ultimately show ?thesis
    using assms(6) single_rule_values [OF assms(3)] unfolding trust_ok_def by blast
qed

theorem det_trusted_sound_witness:
  "\<exists>res. det_match ascii_runtime demo_people demo_match_config = Inr res
    \<and> \<not> linked (link_pairs (dres_links res)) ''a'' ''c''"
proof -
  have c: "det_key ascii_runtime (demo_people ! 2) (hd (dm_rules demo_match_config)) = Some [''E2'']"
    "det_trusted demo_match_config = [hd (dm_rules demo_match_config)]"
    "demo_people ! 2 \<in> set demo_people"
    "rec_key ascii_runtime demo_match_config (demo_people ! 2) = ''c''" by code_simp+
  from det_match_run [OF demo_input(1,2)] obtain res where
    res: "det_match ascii_runtime demo_people demo_match_config = Inr res" by blast
  have "\<not> linked (link_pairs (dres_links res)) ''a'' ''c''"
    using det_trusted_sound [OF res demo_input(2) c(2) demo_trusted(3) c(3) _ demo_trusted(5) c(1)]
    unfolding demo_trusted(7) c(4) by auto
  with res show ?thesis by (intro exI [of _ res] conjI)
qed

text \<open>
  with one trusted rule, the two records of every reported conflict are never
  joined by links, not even through merges that happen after the conflict was reported.
\<close>

theorem det_conflicts_separate:
  assumes "det_match R records cfg = Inr res" and "length records \<le> rt_recursion_limit R"
    and "det_trusted cfg = [rule]" and "c \<in> set (dres_conflicts res)"
  shows "\<not> linked (link_pairs (dres_links res)) (ml_left_record_key c) (ml_right_record_key c)"
proof
  let ?tv = "trusted_values R (det_trusted cfg) (det_by_key R cfg records)"
  let ?L = "link_pairs (dres_links res)"
  assume l: "linked ?L (ml_left_record_key c) (ml_right_record_key c)"
  from det_returns_ok [OF assms(1)] have ok: "det_input_ok R cfg records" .
  have "(ml_left_record_key c, ml_right_record_key c) \<in> link_pairs (dres_conflicts res)"
    using assms(4) by (force simp: link_pairs_def)
  with det_match_run [OF ok assms(2)] assms(1) have
    t: "trust_ok ?tv (value_edges R (det_trusted cfg) (det_by_key R cfg records)) ?L" and
    "separated ?tv ?L (ml_left_record_key c) (ml_right_record_key c)" by auto
  then obtain x y v w where s: "linked ?L (ml_left_record_key c) x" "linked ?L (ml_right_record_key c) y"
    "v \<in> ?tv x" "w \<in> ?tv y" "v \<noteq> w" unfolding separated_def by blast
  from l s(1,2) have "linked ?L x y" by (meson linked_sym linked_trans)
  with t s show False using single_rule_values [OF assms(3)] unfolding trust_ok_def by blast
qed

definition demo_result :: det_match_result where
  "demo_result = (case det_match (ascii_runtime\<lparr>rt_uuid5 := \<lambda>_. 0\<rparr>) demo_people demo_match_config of
     Inr res \<Rightarrow> res | Inl e \<Rightarrow> \<lparr>dres_clusters = [], dres_links = [], dres_conflicts = []\<rparr>)"

theorem det_conflicts_separate_witness:
  "map (\<lambda>c. (ml_left_record_key c, ml_right_record_key c)) (dres_conflicts demo_result) = [(''b'', ''c'')]
   \<and> \<not> linked (link_pairs (dres_links demo_result)) ''b'' ''c''"
proof -
  let ?R = "ascii_runtime\<lparr>rt_uuid5 := \<lambda>_. 0\<rparr>"
  have pairs: "map (\<lambda>c. (ml_left_record_key c, ml_right_record_key c)) (dres_conflicts demo_result) = [(''b'', ''c'')]"
    and ok: "det_input_ok ?R demo_match_config demo_people"
    and le: "length demo_people \<le> rt_recursion_limit ?R"
    and rule: "det_trusted demo_match_config = [hd (dm_rules demo_match_config)]"
    by code_simp+
  from det_match_run [OF ok le] have res: "det_match ?R demo_people demo_match_config = Inr demo_result"
    by (auto simp: demo_result_def)
  from pairs obtain c where c: "dres_conflicts demo_result = [c]" "ml_left_record_key c = ''b''"
    "ml_right_record_key c = ''c''" by auto
  with det_conflicts_separate [OF res le rule, of c] have
    "\<not> linked (link_pairs (dres_links demo_result)) ''b'' ''c''" by simp
  with pairs show ?thesis by (rule conjI)
qed

section \<open>Properties of the evaluation\<close>

text \<open>The pairs of shared records a partition puts together.\<close>

definition same_pairs :: "(string \<times> string) list \<Rightarrow> string set \<Rightarrow> (string \<times> string) set" where
  "same_pairs c K = {(a, b). a \<in> K \<and> b \<in> K \<and> a < b \<and> map_of c a = map_of c b}"

lemma eval_pairs:
  fixes c :: "(string \<times> string) list"
  shows "set (filter (\<lambda>(a, b). map_of c a = map_of c b) (combs2 (sort (remdups ks)))) = same_pairs c (set ks)"
  by (auto simp: same_pairs_def combs2_sorted_iff)

definition shared_keys :: "(string \<times> string) list \<Rightarrow> (string \<times> string) list \<Rightarrow> string set" where
  "shared_keys clusters truth = fst ` set clusters \<inter> fst ` set truth"

lemma evaluate_counts:
  fixes clusters truth :: "(string \<times> string) list"
  defines "K \<equiv> shared_keys clusters truth"
  shows "mm_total_records (evaluate_matches clusters truth) = card K"
    and "mm_predicted_links (evaluate_matches clusters truth) = card (same_pairs clusters K)"
    and "mm_true_positives (evaluate_matches clusters truth) = card (same_pairs clusters K \<inter> same_pairs truth K)"
    and "mm_false_positives (evaluate_matches clusters truth) = card (same_pairs clusters K - same_pairs truth K)"
    and "mm_false_negatives (evaluate_matches clusters truth) = card (same_pairs truth K - same_pairs clusters K)"
proof -
  have K: "set (filter (\<lambda>k. k \<in> fst ` set truth) (map fst clusters)) = K"
    by (auto simp: K_def shared_keys_def)
  show "mm_total_records (evaluate_matches clusters truth) = card K"
    by (simp add: evaluate_matches_def Let_def length_remdups_card_conv K [symmetric])
  show "mm_predicted_links (evaluate_matches clusters truth) = card (same_pairs clusters K)"
    and "mm_true_positives (evaluate_matches clusters truth) = card (same_pairs clusters K \<inter> same_pairs truth K)"
    and "mm_false_positives (evaluate_matches clusters truth) = card (same_pairs clusters K - same_pairs truth K)"
    and "mm_false_negatives (evaluate_matches clusters truth) = card (same_pairs truth K - same_pairs clusters K)"
    unfolding evaluate_matches_def Let_def eval_pairs K by simp_all
qed

lemma finite_same_pairs [simp]: "finite K \<Longrightarrow> finite (same_pairs c K)"
  by (rule finite_subset [of _ "K \<times> K"]) (auto simp: same_pairs_def)

lemma finite_shared_keys [simp]: "finite (shared_keys clusters truth)"
  by (simp add: shared_keys_def)

lemma same_pairs_eq_iff:
  "same_pairs c K = same_pairs t K \<longleftrightarrow>
     (\<forall>a \<in> K. \<forall>b \<in> K. map_of c a = map_of c b \<longleftrightarrow> map_of t a = map_of t b)"
proof
  assume eq: "same_pairs c K = same_pairs t K"
  have lt: "map_of c a = map_of c b \<longleftrightarrow> map_of t a = map_of t b" if "a \<in> K" "b \<in> K" "a < b" for a b
    using eq that by (auto simp: same_pairs_def set_eq_iff)
  show "\<forall>a \<in> K. \<forall>b \<in> K. map_of c a = map_of c b \<longleftrightarrow> map_of t a = map_of t b"
    using lt by (metis linorder_neqE)
qed (auto simp: same_pairs_def)

lemma evaluate_sum:
  "mm_true_positives (evaluate_matches c t) + mm_false_positives (evaluate_matches c t)
     = mm_predicted_links (evaluate_matches c t)"
  unfolding evaluate_counts
  using card_Int_Diff [of "same_pairs c (shared_keys c t)" "same_pairs t (shared_keys c t)"] by simp

lemma evaluate_zero:
  "(mm_false_positives (evaluate_matches c t) = 0 \<and> mm_false_negatives (evaluate_matches c t) = 0) \<longleftrightarrow>
     (\<forall>a \<in> shared_keys c t. \<forall>b \<in> shared_keys c t. map_of c a = map_of c b \<longleftrightarrow> map_of t a = map_of t b)"
proof -
  have "(mm_false_positives (evaluate_matches c t) = 0 \<and> mm_false_negatives (evaluate_matches c t) = 0)
      \<longleftrightarrow> same_pairs c (shared_keys c t) = same_pairs t (shared_keys c t)"
    unfolding evaluate_counts by (auto simp: card_eq_0_iff)
  then show ?thesis by (simp only: same_pairs_eq_iff)
qed

lemma evaluate_rates:
  "0 \<le> mm_precision (evaluate_matches c t)" "mm_precision (evaluate_matches c t) \<le> 1"
  "0 \<le> mm_recall (evaluate_matches c t)" "mm_recall (evaluate_matches c t) \<le> 1"
  "0 \<le> mm_coverage (evaluate_matches c t)" "mm_coverage (evaluate_matches c t) \<le> 1"
  unfolding evaluate_matches_def Let_def
  by (simp_all add: rate_unit round8_unit card_mono del: length_sort)

text \<open>
  the evaluation counts pairs exactly: true and false positives add up to the
  predicted links, no false positive and no false negative remain exactly when the
  predicted clusters and the truth partition the shared records alike, and the
  three reported rates lie between 0 and 1.
\<close>

theorem evaluate_matches_exact:
  fixes clusters truth :: "(string \<times> string) list"
  defines "m \<equiv> evaluate_matches clusters truth"
  shows "mm_true_positives m + mm_false_positives m = mm_predicted_links m
    \<and> ((mm_false_positives m = 0 \<and> mm_false_negatives m = 0) \<longleftrightarrow>
        (\<forall>a \<in> shared_keys clusters truth. \<forall>b \<in> shared_keys clusters truth.
           map_of clusters a = map_of clusters b \<longleftrightarrow> map_of truth a = map_of truth b))
    \<and> 0 \<le> mm_precision m \<and> mm_precision m \<le> 1
    \<and> 0 \<le> mm_recall m \<and> mm_recall m \<le> 1
    \<and> 0 \<le> mm_coverage m \<and> mm_coverage m \<le> 1"
  unfolding m_def using evaluate_sum evaluate_zero evaluate_rates by blast

theorem evaluate_matches_exact_witness:
  "mm_true_positives (evaluate_matches [(''a'', ''x''), (''b'', ''x''), (''c'', ''y'')] [(''a'', ''1''), (''b'', ''2''), (''c'', ''2'')])
   + mm_false_positives (evaluate_matches [(''a'', ''x''), (''b'', ''x''), (''c'', ''y'')] [(''a'', ''1''), (''b'', ''2''), (''c'', ''2'')])
   = mm_predicted_links (evaluate_matches [(''a'', ''x''), (''b'', ''x''), (''c'', ''y'')] [(''a'', ''1''), (''b'', ''2''), (''c'', ''2'')])"
  using evaluate_matches_exact [of "[(''a'', ''x''), (''b'', ''x''), (''c'', ''y'')]" "[(''a'', ''1''), (''b'', ''2''), (''c'', ''2'')]"]
  by (rule conjunct1)

end
