(* ===== verification/Probabilistic.thy ===== *)
theory Probabilistic
  imports Deterministic
begin

text \<open>
  The probabilistic matcher (\<^verbatim>\<open>matching/probabilistic.py\<close>): candidate generation
  by blocking, the similarity of two field values, parameter estimation from a truth
  set, the log-odds score, and the greedy clustering that turns scored pairs into
  match decisions. The clustering loop is modelled on its four pieces of state: the
  union-find store, the trusted identifiers and the size kept at each root, and the
  results so far.
\<close>

section \<open>Data\<close>

record prob_candidate =
  pcd_left_record_key :: string
  pcd_right_record_key :: string
  pcd_probability :: real
  pcd_status :: string
  pcd_block_rule_ids :: "string list"
  pcd_features :: "(string \<times> real) list"
  pcd_evidence_fingerprints :: "(string \<times> string) list"
  pcd_left_cluster_size :: nat
  pcd_right_cluster_size :: nat
  pcd_merged_size :: nat

record prob_metrics =
  pmt_total_truth_pairs :: nat
  pmt_auto_match_pairs :: nat
  pmt_review_pairs :: nat
  pmt_auto_true_positives :: nat
  pmt_auto_false_positives :: nat
  pmt_false_negatives_after_review :: nat
  pmt_auto_precision :: real
  pmt_potential_recall_with_review :: real
  pmt_review_capture :: real

text \<open>The three numbers a model keeps per compared field.\<close>

record field_params =
  fp_m :: real
  fp_u :: real
  fp_weight :: real

record prob_result =
  pr_candidates :: "prob_candidate list"
  pr_model_parameters :: "(string \<times> field_params) list"
  pr_metrics :: "prob_metrics option"

record prob_state =
  ps_uf :: "string uf"
  ps_trusted_ids :: "string \<rightharpoonup> string set"
  ps_cluster_sizes :: "string \<rightharpoonup> nat"
  ps_results :: "prob_candidate list"

section \<open>Candidate generation\<close>

definition blocking_key :: "runtime \<Rightarrow> pyrec \<Rightarrow> string list \<Rightarrow> bool \<Rightarrow> string list option" where
  "blocking_key R rec flds require_all =
     (let values = map (\<lambda>f. normalize_value R f (get_field rec f)) flds in
      if require_all \<and> list_ex (\<lambda>v. v = []) values then None
      else if list_ex (\<lambda>v. v \<noteq> []) values then Some values else None)"

definition prob_key :: "runtime \<Rightarrow> prob_match_config \<Rightarrow> pyrec \<Rightarrow> string" where
  "prob_key R cfg rec = strip (py_str R (get_field_or rec (pm_record_key_field cfg) (PStr [])))"

definition block_groups :: "runtime \<Rightarrow> prob_match_config \<Rightarrow> blocking_rule_config \<Rightarrow> pyrec list
    \<Rightarrow> (string list \<times> string list) list" where
  "block_groups R cfg rule records =
     group_pairs (List.map_filter (\<lambda>rec.
        map_option (\<lambda>v. (v, prob_key R cfg rec)) (blocking_key R rec (br_fields rule) (br_require_all rule)))
       records) []"

type_synonym candidates = "((string \<times> string) \<times> string list) list"

definition add_candidate :: "nat \<Rightarrow> string \<Rightarrow> string \<times> string \<Rightarrow> candidates \<Rightarrow> candidates res" where
  "add_candidate max_candidates rule_id pair cands =
     (let cands' = dict_append pair rule_id cands in
      if length cands' > max_candidates then Inl (ValueError ''Probabilistic candidate limit exceeded'')
      else Inr cands')"

definition block_pairs :: "runtime \<Rightarrow> prob_match_config \<Rightarrow> blocking_rule_config \<Rightarrow> pyrec list
    \<Rightarrow> (string \<times> string) list" where
  "block_pairs R cfg rule records =
     concat (map (\<lambda>(v, members). combs2 (sort (remdups members))) (block_groups R cfg rule records))"

definition generate_candidates :: "runtime \<Rightarrow> pyrec list \<Rightarrow> prob_match_config \<Rightarrow> candidates res" where
  "generate_candidates R records cfg =
     (let organizations = set (map (\<lambda>rec. py_str R (get_field_or rec (pm_organization_field cfg) (PStr []))) records);
          keys = map (prob_key R cfg) records
      in if [] \<in> organizations \<or> card organizations \<noteq> 1
         then Inl (ValueError ''Probabilistic matching requires exactly one organization'')
         else if [] \<in> set keys \<or> length keys \<noteq> card (set keys)
         then Inl (ValueError ''Probabilistic matching requires unique non-empty record keys'')
         else res_fold (\<lambda>rule cands.
                res_fold (add_candidate (pm_max_candidates cfg) (br_rule_id rule))
                  (block_pairs R cfg rule records) cands)
              (pm_blocking_rules cfg) [])"

section \<open>Similarity\<close>

text \<open>
  \<^verbatim>\<open>(left - right).total_seconds()\<close> in microseconds; the difference of an aware and a
  naive timestamp raises \<open>TypeError\<close>.
\<close>

definition dt_diff :: "pydt \<Rightarrow> pydt \<Rightarrow> int res" where
  "dt_diff a b = (case (dt_offset a, dt_offset b) of
       (None, None) \<Rightarrow> Inr (dt_wall a - dt_wall b)
     | (Some x, Some y) \<Rightarrow> Inr ((dt_wall a - x) - (dt_wall b - y))
     | _ \<Rightarrow> Inl TypeError)"

definition tolerance_or_1 :: "comparison_field_config \<Rightarrow> real" where
  "tolerance_or_1 c = (if cf_tolerance c \<noteq> 0 then cf_tolerance c else 1)"

definition similarity :: "runtime \<Rightarrow> pyval \<Rightarrow> pyval \<Rightarrow> comparison_field_config \<Rightarrow> real res" where
  "similarity R left right c =
     (if blank left \<or> blank right then Inr (-1)
      else if cf_method c = ''exact'' then
        Inr (if normalize_value R (cf_field c) left = normalize_value R (cf_field c) right then 1 else 0)
      else if cf_method c = ''string_similarity'' then
        Inr (rt_ratio R (normalize_value R (cf_field c) left) (normalize_value R (cf_field c) right) / 100)
      else if cf_method c = ''date_distance'' then
        (case (rt_fromiso R (iso_text R left), rt_fromiso R (iso_text R right)) of
           (Some left_date, Some right_date) \<Rightarrow>
             (case dt_diff left_date right_date of
                Inl e \<Rightarrow> Inl e
              | Inr us \<Rightarrow>
                  let distance = \<bar>real_of_int us / 1000000\<bar> / 86400
                  in Inr (max 0 (1 - distance / tolerance_or_1 c)))
         | _ \<Rightarrow> Inr 0)
      else if cf_method c = ''numeric_distance'' then
        (case try_float R left of
           Inl e \<Rightarrow> Inl e
         | Inr None \<Rightarrow> Inr 0
         | Inr (Some a) \<Rightarrow>
             (case try_float R right of
                Inl e \<Rightarrow> Inl e
              | Inr None \<Rightarrow> Inr 0
              | Inr (Some b) \<Rightarrow>
                  (case (a, b) of
                     (Fin x, Fin y) \<Rightarrow> Inr (max 0 (1 - \<bar>x - y\<bar> / tolerance_or_1 c))
                   | _ \<Rightarrow> Inr 0)))
      else Inr 0)"

section \<open>Parameters and probability\<close>

definition key_records :: "runtime \<Rightarrow> prob_match_config \<Rightarrow> pyrec list \<Rightarrow> (string \<times> pyrec) list" where
  "key_records R cfg records = fold (\<lambda>rec d. dict_set (prob_key R cfg rec) rec d) records []"

definition record_of :: "(string \<times> pyrec) list \<Rightarrow> string \<Rightarrow> pyrec res" where
  "record_of by_key k = (case map_of by_key k of None \<Rightarrow> Inl (KeyError k) | Some rec \<Rightarrow> Inr rec)"

fun collect_similarities :: "runtime \<Rightarrow> (string \<times> pyrec) list \<Rightarrow> comparison_field_config
    \<Rightarrow> (string \<times> string \<times> bool) list \<Rightarrow> real list \<Rightarrow> real list \<Rightarrow> (real list \<times> real list) res" where
  "collect_similarities R by_key c [] matching nonmatching = Inr (matching, nonmatching)"
| "collect_similarities R by_key c ((l, r, is_match) # pairs) matching nonmatching =
     (case record_of by_key l of Inl e \<Rightarrow> Inl e | Inr lrec \<Rightarrow>
      case record_of by_key r of Inl e \<Rightarrow> Inl e | Inr rrec \<Rightarrow>
      case similarity R (get_field lrec (cf_field c)) (get_field rrec (cf_field c)) c of Inl e \<Rightarrow> Inl e | Inr s \<Rightarrow>
      if s \<ge> 0 then
        (if is_match then collect_similarities R by_key c pairs (matching @ [s]) nonmatching
         else collect_similarities R by_key c pairs matching (nonmatching @ [s]))
      else collect_similarities R by_key c pairs matching nonmatching)"

definition clamp01 :: "real \<Rightarrow> real" where
  "clamp01 x = min 0.99 (max 0.01 x)"

definition estimate_field :: "runtime \<Rightarrow> (string \<times> pyrec) list \<Rightarrow> (string \<times> string \<times> bool) list
    \<Rightarrow> comparison_field_config \<Rightarrow> (string \<times> field_params) list \<Rightarrow> (string \<times> field_params) list res" where
  "estimate_field R by_key pairs c params =
     (case collect_similarities R by_key c pairs [] [] of Inl e \<Rightarrow> Inl e
      | Inr (matching, nonmatching) \<Rightarrow>
        let m = (if matching \<noteq> [] then sum_list matching / real (length matching)
                 else cf_agreement_probability c);
            u = (if nonmatching \<noteq> [] then sum_list nonmatching / real (length nonmatching)
                 else cf_random_agreement_probability c)
        in Inr (dict_set (cf_field c) \<lparr>fp_m = clamp01 m, fp_u = clamp01 u, fp_weight = cf_weight c\<rparr> params))"

definition labeled_pairs :: "(string \<times> pyrec) list \<Rightarrow> (string \<times> string) list \<Rightarrow> (string \<times> string \<times> bool) list" where
  "labeled_pairs by_key truth =
     (let truth_keys = sort (remdups (filter (\<lambda>k. k \<in> fst ` set truth) (map fst by_key)))
      in map (\<lambda>(l, r). (l, r, map_of truth l = map_of truth r)) (take 100000 (combs2 truth_keys)))"

definition estimate_parameters :: "runtime \<Rightarrow> pyrec list \<Rightarrow> (string \<times> string) list \<Rightarrow> prob_match_config
    \<Rightarrow> (string \<times> field_params) list res" where
  "estimate_parameters R records truth cfg =
     (let by_key = key_records R cfg records in
      res_fold (estimate_field R by_key (labeled_pairs by_key truth)) (pm_comparisons cfg) [])"

definition default_parameters :: "prob_match_config \<Rightarrow> (string \<times> field_params) list" where
  "default_parameters cfg =
     fold (\<lambda>c d. dict_set (cf_field c)
            \<lparr>fp_m = cf_agreement_probability c, fp_u = cf_random_agreement_probability c,
             fp_weight = cf_weight c\<rparr> d) (pm_comparisons cfg) []"

text \<open>\<^verbatim>\<open>math.log(a / b)\<close> with the exceptions of the division and of the logarithm.\<close>

definition log_ratio :: "real \<Rightarrow> real \<Rightarrow> real res" where
  "log_ratio a b =
     (if b = 0 then Inl ZeroDivisionError
      else if a / b \<le> 0 then Inl (ValueError ''math domain error'')
      else Inr (ln (a / b)))"

definition add_log_odds :: "(string \<times> field_params) list \<Rightarrow> string \<times> real \<Rightarrow> real \<Rightarrow> real res" where
  "add_log_odds params p log_odds =
     (case p of (field, s) \<Rightarrow>
      if s < 0 then Inr log_odds
      else case map_of params field of
        None \<Rightarrow> Inl (KeyError field)
      | Some v \<Rightarrow>
          (case log_ratio (fp_m v) (fp_u v) of Inl e \<Rightarrow> Inl e | Inr agreement \<Rightarrow>
           case log_ratio (1 - fp_m v) (1 - fp_u v) of Inl e \<Rightarrow> Inl e | Inr disagreement \<Rightarrow>
             Inr (log_odds + fp_weight v * (disagreement + s * (agreement - disagreement)))))"

definition logistic :: "real \<Rightarrow> real" where
  "logistic x = 1 / (1 + exp (- max (-50) (min 50 x)))"

definition probability :: "(string \<times> real) list \<Rightarrow> (string \<times> field_params) list \<Rightarrow> real \<Rightarrow> real res" where
  "probability feats params prior =
     (case log_ratio prior (1 - prior) of Inl e \<Rightarrow> Inl e | Inr l0 \<Rightarrow>
      case res_fold (add_log_odds params) feats l0 of Inl e \<Rightarrow> Inl e | Inr l \<Rightarrow> Inr (logistic l))"

section \<open>Scoring and clustering\<close>

definition fingerprint :: "runtime \<Rightarrow> pyval \<Rightarrow> string" where
  "fingerprint R v = take 16 (rt_sha256 R (py_str R v))"

definition features_of :: "runtime \<Rightarrow> pyrec \<Rightarrow> pyrec \<Rightarrow> comparison_field_config list \<Rightarrow> (string \<times> real) list res" where
  "features_of R lrec rrec comparisons =
     res_fold (\<lambda>c d. case similarity R (get_field lrec (cf_field c)) (get_field rrec (cf_field c)) c of
                  Inl e \<Rightarrow> Inl e | Inr s \<Rightarrow> Inr (dict_set (cf_field c) s d)) comparisons []"

type_synonym scored = "(string \<times> string) \<times> string list \<times> (string \<times> real) list \<times> real"

definition score_pair :: "runtime \<Rightarrow> prob_match_config \<Rightarrow> (string \<times> pyrec) list \<Rightarrow> (string \<times> field_params) list
    \<Rightarrow> (string \<times> string) \<times> string list \<Rightarrow> scored list \<Rightarrow> scored list res" where
  "score_pair R cfg by_key params cand scored =
     (case cand of ((l, r), block_rules) \<Rightarrow>
      case record_of by_key l of Inl e \<Rightarrow> Inl e | Inr lrec \<Rightarrow>
      case record_of by_key r of Inl e \<Rightarrow> Inl e | Inr rrec \<Rightarrow>
      case features_of R lrec rrec (pm_comparisons cfg) of Inl e \<Rightarrow> Inl e | Inr feats \<Rightarrow>
      case probability feats params (pm_prior_match_probability cfg) of Inl e \<Rightarrow> Inl e | Inr p \<Rightarrow>
        Inr (scored @ [((l, r), block_rules, feats, p)]))"

definition employee_ids :: "runtime \<Rightarrow> pyrec \<Rightarrow> string set" where
  "employee_ids R rec =
     (let value = normalize_value R ''employee_id'' (get_field rec ''employee_id'') in
      if value \<noteq> [] then {value} else {})"

definition match_status :: "prob_match_config \<Rightarrow> bool \<Rightarrow> real \<Rightarrow> string" where
  "match_status cfg trusted_conflict p =
     (if trusted_conflict then ''trusted_id_conflict''
      else if p \<ge> pm_auto_match cfg then ''auto_match''
      else if p \<ge> pm_review_low cfg then ''review''
      else ''no_match'')"

definition lookup :: "('k \<rightharpoonup> 'v) \<Rightarrow> 'k \<Rightarrow> exc \<Rightarrow> 'v res" where
  "lookup m k e = (case m k of None \<Rightarrow> Inl e | Some v \<Rightarrow> Inr v)"

definition make_candidate :: "runtime \<Rightarrow> prob_match_config \<Rightarrow> pyrec \<Rightarrow> string \<Rightarrow> string \<Rightarrow> string list
    \<Rightarrow> (string \<times> real) list \<Rightarrow> real \<Rightarrow> string \<Rightarrow> nat \<Rightarrow> nat \<Rightarrow> nat \<Rightarrow> prob_candidate" where
  "make_candidate R cfg left_rec left right block_rules feats p status left_size right_size merged_size =
     \<lparr>pcd_left_record_key = left, pcd_right_record_key = right,
      pcd_probability = round8 p, pcd_status = status, pcd_block_rule_ids = sort block_rules,
      pcd_features = map (\<lambda>(k, v). (k, round8 v)) feats,
      pcd_evidence_fingerprints =
        fold (\<lambda>c d. dict_set (cf_field c) (fingerprint R (get_field left_rec (cf_field c))) d)
          (pm_comparisons cfg) [],
      pcd_left_cluster_size = left_size, pcd_right_cluster_size = right_size,
      pcd_merged_size = merged_size\<rparr>"

definition cluster_step :: "runtime \<Rightarrow> prob_match_config \<Rightarrow> (string \<times> pyrec) list \<Rightarrow> scored
    \<Rightarrow> prob_state \<Rightarrow> prob_state res" where
  "cluster_step R cfg by_key item st =
     (case item of ((left, right), block_rules, feats, p) \<Rightarrow>
      let depth = rt_recursion_limit R in
      case uf_find depth (ps_uf st) left of Inl e \<Rightarrow> Inl e | Inr (left_root, uf1) \<Rightarrow>
      case uf_find depth uf1 right of Inl e \<Rightarrow> Inl e | Inr (right_root, uf2) \<Rightarrow>
      case lookup (ps_trusted_ids st) left_root (KeyError left_root) of Inl e \<Rightarrow> Inl e | Inr left_ids \<Rightarrow>
      case lookup (ps_trusted_ids st) right_root (KeyError right_root) of Inl e \<Rightarrow> Inl e | Inr right_ids \<Rightarrow>
      let trusted_conflict = (left_ids \<noteq> {} \<and> right_ids \<noteq> {} \<and> left_ids \<inter> right_ids = {});
          status = match_status cfg trusted_conflict p
      in
      case lookup (ps_cluster_sizes st) left_root (KeyError left_root) of Inl e \<Rightarrow> Inl e | Inr left_size \<Rightarrow>
      case lookup (ps_cluster_sizes st) right_root (KeyError right_root) of Inl e \<Rightarrow> Inl e | Inr right_size \<Rightarrow>
      case record_of by_key left of Inl e \<Rightarrow> Inl e | Inr left_rec \<Rightarrow>
      let merged_size = (if left_root = right_root then left_size else left_size + right_size);
          candidate = make_candidate R cfg left_rec left right block_rules feats p status
                        left_size right_size merged_size
      in
      if status = ''auto_match'' \<and> left_root \<noteq> right_root then
        (case uf_union depth uf2 left right of Inl e \<Rightarrow> Inl e | Inr (rt, uf3) \<Rightarrow>
           Inr \<lparr>ps_uf = uf3, ps_trusted_ids = (ps_trusted_ids st)(rt \<mapsto> left_ids \<union> right_ids),
                ps_cluster_sizes = (ps_cluster_sizes st)(rt \<mapsto> merged_size),
                ps_results = ps_results st @ [candidate]\<rparr>)
      else Inr (st\<lparr>ps_uf := uf2, ps_results := ps_results st @ [candidate]\<rparr>))"

definition prob_init :: "runtime \<Rightarrow> (string \<times> pyrec) list \<Rightarrow> prob_state" where
  "prob_init R by_key =
     \<lparr>ps_uf = uf_init (map fst by_key),
      ps_trusted_ids = map_of (map (\<lambda>(k, rec). (k, employee_ids R rec)) by_key),
      ps_cluster_sizes = map_of (map (\<lambda>(k, rec). (k, 1)) by_key),
      ps_results = []\<rparr>"

section \<open>Evaluation\<close>

definition status_pairs :: "string \<Rightarrow> prob_candidate list \<Rightarrow> (string \<times> string) set" where
  "status_pairs s cands =
     set (map (\<lambda>c. (min (pcd_left_record_key c) (pcd_right_record_key c),
                   max (pcd_left_record_key c) (pcd_right_record_key c)))
          (filter (\<lambda>c. pcd_status c = s) cands))"

definition prob_evaluate :: "prob_candidate list \<Rightarrow> (string \<times> string) list \<Rightarrow> prob_metrics" where
  "prob_evaluate cands truth =
     (let truth_pairs = set (filter (\<lambda>(l, r). map_of truth l = map_of truth r) (combs2 (sort (map fst truth))));
          auto_pairs = status_pairs ''auto_match'' cands;
          review_pairs = status_pairs ''review'' cands;
          tp = card (auto_pairs \<inter> truth_pairs);
          captured = card ((auto_pairs \<union> review_pairs) \<inter> truth_pairs)
      in \<lparr>pmt_total_truth_pairs = card truth_pairs, pmt_auto_match_pairs = card auto_pairs,
          pmt_review_pairs = card review_pairs, pmt_auto_true_positives = tp,
          pmt_auto_false_positives = card (auto_pairs - truth_pairs),
          pmt_false_negatives_after_review = card (truth_pairs - auto_pairs - review_pairs),
          pmt_auto_precision = round8 (if auto_pairs \<noteq> {} then real tp / real (card auto_pairs) else 1),
          pmt_potential_recall_with_review =
            round8 (if truth_pairs \<noteq> {} then real captured / real (card truth_pairs) else 1),
          pmt_review_capture =
            round8 (if review_pairs \<noteq> {}
              then real (card (review_pairs \<inter> truth_pairs)) / real (card review_pairs) else 1)\<rparr>)"

section \<open>The run\<close>

definition choose_parameters :: "runtime \<Rightarrow> pyrec list \<Rightarrow> prob_match_config \<Rightarrow> (string \<times> string) list option
    \<Rightarrow> (string \<times> field_params) list option \<Rightarrow> (string \<times> field_params) list res" where
  "choose_parameters R records cfg truth params =
     (case params of
        Some (p # ps) \<Rightarrow> Inr (p # ps)
      | _ \<Rightarrow> (case truth of Some t \<Rightarrow> estimate_parameters R records t cfg
              | None \<Rightarrow> Inr (default_parameters cfg)))"

definition prob_run :: "runtime \<Rightarrow> pyrec list \<Rightarrow> prob_match_config \<Rightarrow> (string \<times> string) list option
    \<Rightarrow> (string \<times> field_params) list option \<Rightarrow> prob_result res" where
  "prob_run R records cfg truth params =
     (case generate_candidates R records cfg of Inl e \<Rightarrow> Inl e | Inr cands \<Rightarrow>
      let by_key = key_records R cfg records in
      case choose_parameters R records cfg truth params of Inl e \<Rightarrow> Inl e | Inr model_parameters \<Rightarrow>
      case res_fold (score_pair R cfg by_key model_parameters) cands [] of Inl e \<Rightarrow> Inl e | Inr scored \<Rightarrow>
      case res_fold (cluster_step R cfg by_key) (sort_key (\<lambda>(_, _, _, p). - p) scored) (prob_init R by_key) of
        Inl e \<Rightarrow> Inl e
      | Inr st \<Rightarrow>
          Inr \<lparr>pr_candidates = ps_results st, pr_model_parameters = model_parameters,
               pr_metrics = map_option (prob_evaluate (ps_results st)) truth\<rparr>)"

end
