(* ===== verification/Probabilistic_Props.thy ===== *)
theory Probabilistic_Props
  imports Probabilistic
begin

text \<open>
  What the probabilistic matcher guarantees: the candidates are exactly the pairs that
  share a block, the score is a probability and grows with agreement, the clustering
  never joins two employee identifiers, and the reported cluster sizes are the sizes
  of the clusters at the time of the decision.
\<close>

section \<open>Lemmas: candidates\<close>

definition prob_org :: "runtime \<Rightarrow> prob_match_config \<Rightarrow> pyrec \<Rightarrow> string" where
  "prob_org R cfg rec = py_str R (get_field_or rec (pm_organization_field cfg) (PStr []))"

definition prob_input_ok :: "runtime \<Rightarrow> prob_match_config \<Rightarrow> pyrec list \<Rightarrow> bool" where
  "prob_input_ok R cfg records =
     ([] \<notin> prob_org R cfg ` set records \<and> card (prob_org R cfg ` set records) = 1
      \<and> [] \<notin> prob_key R cfg ` set records \<and> distinct (map (prob_key R cfg) records))"

text \<open>Two records fall into one block of a rule.\<close>

definition shares_block :: "runtime \<Rightarrow> prob_match_config \<Rightarrow> pyrec list \<Rightarrow> blocking_rule_config \<Rightarrow> string \<Rightarrow> string \<Rightarrow> bool"
  where "shares_block R cfg records rule a b =
     (\<exists>r1 \<in> set records. \<exists>r2 \<in> set records. \<exists>v. prob_key R cfg r1 = a \<and> prob_key R cfg r2 = b
        \<and> blocking_key R r1 (br_fields rule) (br_require_all rule) = Some v
        \<and> blocking_key R r2 (br_fields rule) (br_require_all rule) = Some v)"

lemma group_pairs_append: "group_pairs (ps @ qs) g = group_pairs qs (group_pairs ps g)"
  by (induction ps g rule: group_pairs.induct) auto

lemma length_dict_append: "length g \<le> length (dict_append k x g)"
  by (induction g) auto

lemma length_group_pairs: "length g \<le> length (group_pairs ps g)"
  by (induction ps g rule: group_pairs.induct) (auto intro: order_trans [OF length_dict_append])

lemma fold_add_candidate:
  assumes "length g \<le> mx"
  shows "res_fold (add_candidate mx rid) ps g =
    (let g' = group_pairs (map (\<lambda>p. (p, rid)) ps) g in
     if length g' > mx then Inl (ValueError ''Probabilistic candidate limit exceeded'') else Inr g')"
  using assms
proof (induction ps arbitrary: g)
  case Nil
  then show ?case by simp
next
  case (Cons p ps)
  show ?case
  proof (cases "length (dict_append p rid g) > mx")
    case True
    then have "length (group_pairs (map (\<lambda>p. (p, rid)) ps) (dict_append p rid g)) > mx"
      using length_group_pairs less_le_trans by blast
    with True show ?thesis by (simp add: add_candidate_def Let_def)
  next
    case False
    then show ?thesis using Cons.IH [of "dict_append p rid g"] by (simp add: add_candidate_def Let_def)
  qed
qed

definition tagged_pairs :: "runtime \<Rightarrow> prob_match_config \<Rightarrow> pyrec list \<Rightarrow> blocking_rule_config list
    \<Rightarrow> ((string \<times> string) \<times> string) list" where
  "tagged_pairs R cfg records rules =
     concat (map (\<lambda>rule. map (\<lambda>p. (p, br_rule_id rule)) (block_pairs R cfg rule records)) rules)"

lemma fold_rules_candidates:
  assumes "length g \<le> mx"
  shows "res_fold (\<lambda>rule. res_fold (add_candidate mx (br_rule_id rule)) (block_pairs R cfg rule records)) rules g =
    (let g' = group_pairs (tagged_pairs R cfg records rules) g in
     if length g' > mx then Inl (ValueError ''Probabilistic candidate limit exceeded'') else Inr g')"
  using assms
proof (induction rules arbitrary: g)
  case Nil
  then show ?case by (simp add: tagged_pairs_def)
next
  case (Cons rule rules)
  let ?g1 = "group_pairs (map (\<lambda>p. (p, br_rule_id rule)) (block_pairs R cfg rule records)) g"
  show ?case
  proof (cases "length ?g1 > mx")
    case True
    then have "length (group_pairs (tagged_pairs R cfg records rules) ?g1) > mx"
      using length_group_pairs less_le_trans by blast
    with True show ?thesis
      by (simp add: fold_add_candidate [OF Cons.prems] tagged_pairs_def group_pairs_append Let_def)
  next
    case False
    then show ?thesis using Cons.IH [of ?g1]
      by (simp add: fold_add_candidate [OF Cons.prems] tagged_pairs_def group_pairs_append Let_def)
  qed
qed

lemma generate_candidates_eq:
  assumes "prob_input_ok R cfg records"
  shows "generate_candidates R records cfg =
    (let g = group_pairs (tagged_pairs R cfg records (pm_blocking_rules cfg)) [] in
     if length g > pm_max_candidates cfg
     then Inl (ValueError ''Probabilistic candidate limit exceeded'') else Inr g)"
proof -
  have "generate_candidates R records cfg =
     res_fold (\<lambda>rule. res_fold (add_candidate (pm_max_candidates cfg) (br_rule_id rule))
       (block_pairs R cfg rule records)) (pm_blocking_rules cfg) []"
    using assms
    by (simp add: generate_candidates_def prob_input_ok_def prob_org_def [symmetric] distinct_map_card Let_def)
  then show ?thesis by (simp add: fold_rules_candidates)
qed

lemma generate_candidates_rejects:
  assumes "\<not> prob_input_ok R cfg records"
  shows "\<exists>m. generate_candidates R records cfg = Inl (ValueError m)"
  using assms
  by (auto simp: generate_candidates_def prob_input_ok_def prob_org_def [symmetric] Let_def
      distinct_map_card)

lemma block_pairs_iff:
  "(a, b) \<in> set (block_pairs R cfg rule records) \<longleftrightarrow> a < b \<and> shares_block R cfg records rule a b"
proof -
  let ?bk = "\<lambda>rec. blocking_key R rec (br_fields rule) (br_require_all rule)"
  let ?ps = "List.map_filter (\<lambda>rec. map_option (\<lambda>v. (v, prob_key R cfg rec)) (?bk rec)) records"
  have mem: "(v, k) \<in> set ?ps \<longleftrightarrow> (\<exists>rec \<in> set records. prob_key R cfg rec = k \<and> ?bk rec = Some v)" for v k
    by (force simp: List.map_filter_def)
  have "(a, b) \<in> set (block_pairs R cfg rule records) \<longleftrightarrow>
      (\<exists>v members. (v, members) \<in> set (group_pairs ?ps []) \<and> a \<in> set members \<and> b \<in> set members \<and> a < b)"
    by (auto simp: block_pairs_def block_groups_def combs2_sorted_iff)
  also have "\<dots> \<longleftrightarrow> a < b \<and> (\<exists>v. (v, a) \<in> set ?ps \<and> (v, b) \<in> set ?ps)"
  proof (intro iffI conjI; elim exE conjE)
    fix v members
    assume m: "(v, members) \<in> set (group_pairs ?ps [])" "a \<in> set members" "b \<in> set members"
    from group_pairs_mem(1) [OF m(1)] m(2,3) show "\<exists>v. (v, a) \<in> set ?ps \<and> (v, b) \<in> set ?ps" by force
  next
    fix v
    assume "a < b" and v: "(v, a) \<in> set ?ps" "(v, b) \<in> set ?ps"
    from group_pairs_complete [OF v(1)] v \<open>a < b\<close>
    show "\<exists>v members. (v, members) \<in> set (group_pairs ?ps []) \<and> a \<in> set members \<and> b \<in> set members \<and> a < b"
      by force
  qed
  also have "\<dots> \<longleftrightarrow> a < b \<and> shares_block R cfg records rule a b"
    unfolding mem shares_block_def by blast
  finally show ?thesis .
qed

lemma tagged_pairs_iff:
  "((a, b), i) \<in> set (tagged_pairs R cfg records rules) \<longleftrightarrow>
     (\<exists>rule \<in> set rules. i = br_rule_id rule \<and> a < b \<and> shares_block R cfg records rule a b)"
  by (auto simp: tagged_pairs_def block_pairs_iff image_iff)

lemma keys_group_pairs: "fst ` set (group_pairs ps []) = fst ` set ps"
proof
  show "fst ` set (group_pairs ps []) \<subseteq> fst ` set ps"
    using group_pairs_mem by (fastforce simp: filter_empty_conv)
  show "fst ` set ps \<subseteq> fst ` set (group_pairs ps [])"
    using group_pairs_complete by force
qed

definition blocked_pairs :: "runtime \<Rightarrow> prob_match_config \<Rightarrow> pyrec list \<Rightarrow> (string \<times> string) set" where
  "blocked_pairs R cfg records =
     {(a, b). a < b \<and> (\<exists>rule \<in> set (pm_blocking_rules cfg). shares_block R cfg records rule a b)}"

lemma candidate_rule_ids:
  assumes "((a, b), ids) \<in> set (group_pairs (tagged_pairs R cfg records (pm_blocking_rules cfg)) [])"
  shows "set ids = br_rule_id ` {rule \<in> set (pm_blocking_rules cfg). shares_block R cfg records rule a b}"
proof -
  let ?ps = "tagged_pairs R cfg records (pm_blocking_rules cfg)"
  have "(a, b) \<in> fst ` set ?ps" using assms keys_group_pairs by force
  then have "a < b" by (auto simp: tagged_pairs_iff)
  have "set ids = {i. ((a, b), i) \<in> set ?ps}" unfolding group_pairs_mem(1) [OF assms] by force
  with \<open>a < b\<close> show ?thesis unfolding tagged_pairs_iff by auto
qed

text \<open>
  on records with distinct non-empty keys and one organization, the candidates are
  exactly the ordered pairs of records that share a block under some rule, each with
  the ids of these rules; the limit error is raised exactly when there are more such
  pairs than the configured maximum.
\<close>

theorem candidates_exact:
  assumes "prob_input_ok R cfg records"
  shows "\<exists>cands. distinct (map fst cands) \<and> fst ` set cands = blocked_pairs R cfg records
    \<and> (\<forall>((a, b), ids) \<in> set cands.
          set ids = br_rule_id ` {rule \<in> set (pm_blocking_rules cfg). shares_block R cfg records rule a b})
    \<and> generate_candidates R records cfg =
        (if length cands > pm_max_candidates cfg
         then Inl (ValueError ''Probabilistic candidate limit exceeded'') else Inr cands)"
proof -
  let ?g = "group_pairs (tagged_pairs R cfg records (pm_blocking_rules cfg)) []"
  have d: "distinct (map fst ?g)" by simp
  have keys: "fst ` set ?g = blocked_pairs R cfg records"
    unfolding keys_group_pairs blocked_pairs_def using tagged_pairs_iff by (force simp: image_iff)
  have ids: "\<forall>((a, b), ids) \<in> set ?g.
      set ids = br_rule_id ` {rule \<in> set (pm_blocking_rules cfg). shares_block R cfg records rule a b}"
    using candidate_rule_ids by blast
  from d keys ids generate_candidates_eq [OF assms] show ?thesis
    by (intro exI [of _ ?g]) (simp add: Let_def)
qed

definition demo_prob_config :: prob_match_config where
  "demo_prob_config = \<lparr>pm_schema_version = ''1.0'', pm_model_id = ''people'',
     pm_organization_field = ''org'', pm_record_key_field = ''key'',
     pm_blocking_rules = [\<lparr>br_rule_id = ''by_name'', br_fields = [''name''], br_require_all = True\<rparr>],
     pm_comparisons = [\<lparr>cf_field = ''name'', cf_method = ''exact'', cf_weight = 1,
        cf_agreement_probability = 9 / 10, cf_random_agreement_probability = 1 / 10, cf_tolerance = 0\<rparr>],
     pm_prior_match_probability = 1 / 10, pm_review_low = 1 / 10, pm_auto_match = 1 / 4,
     pm_max_candidates = 100\<rparr>"

definition demo_rows :: "pyrec list" where
  "demo_rows = map (\<lambda>(k, e, n). [(''key'', PStr k), (''org'', PStr ''o''), (''employee_id'', PStr e), (''name'', PStr n)])
     [(''a'', ''e1'', ''x''), (''b'', ''e2'', ''x''), (''c'', [], ''y'')]"

lemma demo_rows_ok:
  "prob_input_ok ascii_runtime demo_prob_config demo_rows"
  "generate_candidates ascii_runtime demo_rows demo_prob_config = Inr [((''a'', ''b''), [''by_name''])]"
  "length demo_rows \<le> rt_recursion_limit ascii_runtime"
  by code_simp+

lemma demo_prob_config_ok: "prob_match_config_ok demo_prob_config"
  by (simp add: prob_match_config_ok_def demo_prob_config_def comparison_field_config_ok_def)

theorem candidates_exact_witness:
  "generate_candidates ascii_runtime demo_rows demo_prob_config = Inr [((''a'', ''b''), [''by_name''])]
   \<and> blocked_pairs ascii_runtime demo_prob_config demo_rows = {(''a'', ''b'')}"
proof -
  from candidates_exact [OF demo_rows_ok(1)] obtain cands where
    1: "fst ` set cands = blocked_pairs ascii_runtime demo_prob_config demo_rows" and
    2: "Inr [((''a'', ''b''), [''by_name''])] =
       (if length cands > pm_max_candidates demo_prob_config
        then Inl (ValueError ''Probabilistic candidate limit exceeded'') else Inr cands)"
    unfolding demo_rows_ok(2) by (elim exE conjE)
  from 2 have "cands = [((''a'', ''b''), [''by_name''])]"
    by (cases "length cands > pm_max_candidates demo_prob_config") auto
  with 1 have "blocked_pairs ascii_runtime demo_prob_config demo_rows = {(''a'', ''b'')}" by simp
  with demo_rows_ok(2) show ?thesis by (rule conjI)
qed

section \<open>Lemmas: clustering\<close>

definition auto_pairs :: "prob_candidate list \<Rightarrow> (string \<times> string) set" where
  "auto_pairs cs = set (map (\<lambda>c. (pcd_left_record_key c, pcd_right_record_key c))
     (filter (\<lambda>c. pcd_status c = ''auto_match'') cs))"

definition ids_of :: "runtime \<Rightarrow> (string \<times> pyrec) list \<Rightarrow> string \<Rightarrow> string set" where
  "ids_of R by_key k = (case map_of by_key k of None \<Rightarrow> {} | Some rec \<Rightarrow> employee_ids R rec)"

text \<open>What a decision reports about the clusters of its two records at that moment.\<close>

definition impact_ok :: "runtime \<Rightarrow> (string \<times> pyrec) list \<Rightarrow> prob_candidate list \<Rightarrow> prob_candidate \<Rightarrow> bool" where
  "impact_ok R by_key before c =
     (let L = auto_pairs before; K = fst ` set by_key;
          l = pcd_left_record_key c; r = pcd_right_record_key c
      in pcd_left_cluster_size c = card {x \<in> K. linked L l x}
         \<and> pcd_right_cluster_size c = card {x \<in> K. linked L r x}
         \<and> pcd_merged_size c = card {x \<in> K. linked L l x \<or> linked L r x}
         \<and> (pcd_status c = ''trusted_id_conflict'' \<longleftrightarrow> separated (ids_of R by_key) L l r))"

definition prob_inv :: "runtime \<Rightarrow> (string \<times> pyrec) list \<Rightarrow> prob_state \<Rightarrow> bool" where
  "prob_inv R by_key st =
     (let d = rt_recursion_limit R; K = fst ` set by_key; L = auto_pairs (ps_results st);
          cl = (\<lambda>k. {x \<in> K. uf_cls d (ps_uf st) x = uf_cls d (ps_uf st) k})
      in dom (ps_uf st) = K \<and> uf.tracks d L (ps_uf st)
         \<and> trust_ok (ids_of R by_key) {} L
         \<and> (\<forall>k \<in> K. ps_trusted_ids st (uf_cls d (ps_uf st) k) = Some (\<Union>x \<in> cl k. ids_of R by_key x)
                  \<and> ps_cluster_sizes st (uf_cls d (ps_uf st) k) = Some (card (cl k)))
         \<and> (\<forall>i < length (ps_results st). impact_ok R by_key (take i (ps_results st)) (ps_results st ! i)))"

lemma linked_insert_same: "linked L a b \<Longrightarrow> linked (insert (a, b) L) = linked L"
  by (intro ext, simp add: linked_insert) (meson linked_sym linked_trans)

lemma auto_pairs_simps [simp]:
  "auto_pairs [] = {}"
  "auto_pairs (cs @ [c]) = (if pcd_status c = ''auto_match''
     then insert (pcd_left_record_key c, pcd_right_record_key c) (auto_pairs cs) else auto_pairs cs)"
  by (auto simp: auto_pairs_def)

lemma tracks_insert_same:
  "uf.tracks d L s \<Longrightarrow> a \<in> dom s \<Longrightarrow> b \<in> dom s \<Longrightarrow> linked L a b \<Longrightarrow> uf.tracks d (insert (a, b) L) s"
  by (simp add: uf.tracks_def linked_insert_same)

lemma trust_ok_insert_same: "trust_ok tv E L \<Longrightarrow> linked L a b \<Longrightarrow> trust_ok tv E (insert (a, b) L)"
  by (simp add: trust_ok_def linked_insert_same)

lemma employee_ids_single: "v \<in> employee_ids R rec \<Longrightarrow> w \<in> employee_ids R rec \<Longrightarrow> v = w"
  by (auto simp: employee_ids_def Let_def split: if_splits)

lemma ids_of_single: "v \<in> ids_of R by_key k \<Longrightarrow> w \<in> ids_of R by_key k \<Longrightarrow> v = w"
  by (auto simp: ids_of_def dest: employee_ids_single split: option.splits)

text \<open>The values at the roots decide a conflict exactly when the clusters carry different ids.\<close>

lemma conflict_iff_separated:
  fixes tv :: "'k \<Rightarrow> 'v set"
  assumes ok: "trust_ok tv {} L"
    and A: "A = (\<Union>x \<in> {x. linked L a x}. tv x)" and B: "B = (\<Union>x \<in> {x. linked L b x}. tv x)"
  shows "(A \<noteq> {} \<and> B \<noteq> {} \<and> A \<inter> B = {}) \<longleftrightarrow> separated tv L a b"
proof
  assume "A \<noteq> {} \<and> B \<noteq> {} \<and> A \<inter> B = {}"
  then show "separated tv L a b" unfolding separated_def A B by blast
next
  assume "separated tv L a b"
  then obtain x y v w where s: "linked L a x" "linked L b y" "v \<in> tv x" "w \<in> tv y" "v \<noteq> w"
    unfolding separated_def by blast
  have same: "u = u'" if "linked L c z" "linked L c z'" "u \<in> tv z" "u' \<in> tv z'" for c z z' u u'
    using ok that unfolding trust_ok_def by (metis linked_empty linked_sym linked_trans)
  have "A = {v}" using s same unfolding A by blast
  moreover have "B = {w}" using s same unfolding B by blast
  ultimately show "A \<noteq> {} \<and> B \<noteq> {} \<and> A \<inter> B = {}" using s(5) by auto
qed

lemma not_separated:
  assumes "\<not> separated tv L a b"
  shows "(\<forall>x. linked L a x \<longrightarrow> tv x = {}) \<or> (\<forall>y. linked L b y \<longrightarrow> tv y = {})
       \<or> (\<exists>x y u. linked L a x \<and> linked L b y \<and> u \<in> tv x \<and> u \<in> tv y)"
proof (rule ccontr)
  assume n: "\<not> ?thesis"
  then obtain x y v w where "linked L a x" "v \<in> tv x" "linked L b y" "w \<in> tv y" by blast
  moreover from this n have "v \<noteq> w" by blast
  ultimately show False using assms unfolding separated_def by blast
qed

text \<open>The bookkeeping at the roots, as a property of a store and a set of links.\<close>

definition roots_ok :: "('k \<Rightarrow> 'v set) \<Rightarrow> 'k set \<Rightarrow> ('k \<Rightarrow> 'k) \<Rightarrow> ('k \<rightharpoonup> 'v set) \<Rightarrow> ('k \<rightharpoonup> nat) \<Rightarrow> bool" where
  "roots_ok tv K c ids sizes = (\<forall>k \<in> K.
     ids (c k) = Some (\<Union>x \<in> {x \<in> K. c x = c k}. tv x) \<and> sizes (c k) = Some (card {x \<in> K. c x = c k}))"

lemma roots_ok_cong: "(\<And>k. k \<in> K \<Longrightarrow> c' k = c k) \<Longrightarrow> roots_ok tv K c' ids sizes = roots_ok tv K c ids sizes"
  by (auto simp: roots_ok_def cong: conj_cong)

lemma roots_ok_merge:
  assumes ok: "roots_ok tv K c ids sizes" and "finite K" and a: "a \<in> K" and b: "b \<in> K"
    and ne: "c a \<noteq> c b" and w: "w \<in> {c a, c b}"
    and c': "\<And>j. j \<in> K \<Longrightarrow> c' j = (if c j \<in> {c a, c b} then w else c j)"
  shows "roots_ok tv K c'
    (ids(w \<mapsto> (\<Union>x \<in> {x \<in> K. c x = c a}. tv x) \<union> (\<Union>x \<in> {x \<in> K. c x = c b}. tv x)))
    (sizes(w \<mapsto> card {x \<in> K. c x = c a} + card {x \<in> K. c x = c b}))"
  unfolding roots_ok_def
proof
  fix k
  assume k: "k \<in> K"
  let ?A = "{x \<in> K. c x = c a}" and ?B = "{x \<in> K. c x = c b}"
  show "(ids(w \<mapsto> (\<Union>x \<in> ?A. tv x) \<union> (\<Union>x \<in> ?B. tv x))) (c' k) = Some (\<Union>x \<in> {x \<in> K. c' x = c' k}. tv x)
      \<and> (sizes(w \<mapsto> card ?A + card ?B)) (c' k) = Some (card {x \<in> K. c' x = c' k})"
  proof (cases "c k \<in> {c a, c b}")
    case True
    then have eq: "c' k = w" "{x \<in> K. c' x = c' k} = ?A \<union> ?B" using k w by (auto simp: c' split: if_splits)
    have "card (?A \<union> ?B) = card ?A + card ?B"
      using \<open>finite K\<close> ne by (intro card_Un_disjoint) auto
    then show ?thesis unfolding eq(2) using eq(1) by (simp add: UN_Un)
  next
    case False
    then have eq: "c' k = c k" "{x \<in> K. c' x = c' k} = {x \<in> K. c x = c k}" "c k \<noteq> w"
      using k w by (auto simp: c' split: if_splits)
    then show ?thesis using ok k by (simp add: roots_ok_def)
  qed
qed

lemma cluster_members:
  assumes "uf.tracks d L s" and "dom s = K" and "a \<in> K"
  shows "{x \<in> K. uf_cls d s x = uf_cls d s a} = {x \<in> K. linked L a x}"
proof -
  have "uf_cls d s x = uf_cls d s a \<longleftrightarrow> linked L a x" if "x \<in> K" for x
    using uf.tracks_same [OF assms(1), of a x] assms(2,3) that by metis
  then show ?thesis by blast
qed

lemma merged_card:
  assumes "finite K"
  shows "(if linked L a b then card {x \<in> K. linked L a x}
          else card {x \<in> K. linked L a x} + card {x \<in> K. linked L b x})
    = card {x \<in> K. linked L a x \<or> linked L b x}"
proof (cases "linked L a b")
  case True
  then have "linked L b x \<Longrightarrow> linked L a x" for x by (meson linked_trans)
  then have "{x \<in> K. linked L a x \<or> linked L b x} = {x \<in> K. linked L a x}" by blast
  with True show ?thesis by simp
next
  case False
  then have disj: "\<not> (linked L a x \<and> linked L b x)" for x by (meson linked_sym linked_trans)
  have "card ({x \<in> K. linked L a x} \<union> {x \<in> K. linked L b x})
      = card {x \<in> K. linked L a x} + card {x \<in> K. linked L b x}"
    using assms disj by (intro card_Un_disjoint) auto
  moreover have "{x \<in> K. linked L a x} \<union> {x \<in> K. linked L b x} = {x \<in> K. linked L a x \<or> linked L b x}" by blast
  ultimately show ?thesis using False by simp
qed

lemma linked_outside:
  assumes "uf.tracks d L s" and "a \<in> dom s" and "linked L a x"
  shows "x \<in> dom s"
  using assms(3,2) unfolding linked_def
proof (induction rule: rtranclp_induct)
  case (step y z)
  then show ?case using assms(1) by (auto simp: link_step_def uf.tracks_def)
qed

lemma prob_inv_alt:
  "prob_inv R by_key st \<longleftrightarrow>
     dom (ps_uf st) = fst ` set by_key
     \<and> uf.tracks (rt_recursion_limit R) (auto_pairs (ps_results st)) (ps_uf st)
     \<and> trust_ok (ids_of R by_key) {} (auto_pairs (ps_results st))
     \<and> roots_ok (ids_of R by_key) (fst ` set by_key) (uf_cls (rt_recursion_limit R) (ps_uf st))
         (ps_trusted_ids st) (ps_cluster_sizes st)
     \<and> (\<forall>i < length (ps_results st). impact_ok R by_key (take i (ps_results st)) (ps_results st ! i))"
  by (simp add: prob_inv_def roots_ok_def Let_def)

lemma impact_snoc:
  assumes "\<forall>i < length rs. impact_ok R by_key (take i rs) (rs ! i)" and "impact_ok R by_key rs c"
  shows "\<forall>i < length (rs @ [c]). impact_ok R by_key (take i (rs @ [c])) ((rs @ [c]) ! i)"
  using assms by (auto simp: nth_append less_Suc_eq)

lemma make_candidate_sel [simp]:
  fixes R cfg rec l r ids feats p s m n k
  defines "c \<equiv> make_candidate R cfg rec l r ids feats p s m n k"
  shows "pcd_left_record_key c = l" "pcd_right_record_key c = r" "pcd_status c = s"
    "pcd_probability c = round8 p" "pcd_left_cluster_size c = m" "pcd_right_cluster_size c = n"
    "pcd_merged_size c = k"
  by (simp_all add: c_def make_candidate_def)

lemma prob_find2:
  assumes t: "uf.tracks d L s" and "a \<in> dom s" and "b \<in> dom s"
  obtains s1 s2 where "uf_find d s a = Inr (uf_cls d s a, s1)" and "uf_find d s1 b = Inr (uf_cls d s b, s2)"
    and "uf.tracks d L s2" and "dom s2 = dom s" and "\<And>j. j \<in> dom s \<Longrightarrow> uf_cls d s2 j = uf_cls d s j"
proof -
  from uf.tracks_find [OF t assms(2)] obtain s1 where
    1: "uf_find d s a = Inr (uf_cls d s a, s1)" "uf.tracks d L s1" "dom s1 = dom s"
       "\<And>j. j \<in> dom s \<Longrightarrow> uf_cls d s1 j = uf_cls d s j" by blast
  from uf.tracks_find [OF 1(2), of b] assms(3) 1 that show thesis by auto
qed

text \<open>One round of the loop, with the values the invariant gives for its lookups.\<close>

lemma cluster_step_eval:
  fixes R cfg by_key st a b
  defines "d \<equiv> rt_recursion_limit R" and "L \<equiv> auto_pairs (ps_results st)" and "K \<equiv> fst ` set by_key"
  assumes inv: "prob_inv R by_key st" and a: "a \<in> K" and b: "b \<in> K"
  obtains uf2 rec where
    "cluster_step R cfg by_key ((a, b), ids, feats, p) st =
       (let status = match_status cfg (separated (ids_of R by_key) L a b) p;
            c = make_candidate R cfg rec a b ids feats p status (card {x \<in> K. linked L a x})
                  (card {x \<in> K. linked L b x}) (card {x \<in> K. linked L a x \<or> linked L b x})
        in if status = ''auto_match'' \<and> \<not> linked L a b then
             (case uf_union d uf2 a b of Inl e \<Rightarrow> Inl e | Inr (w, uf3) \<Rightarrow>
                Inr \<lparr>ps_uf = uf3,
                     ps_trusted_ids = (ps_trusted_ids st)(w \<mapsto>
                       (\<Union>x \<in> {x \<in> K. linked L a x}. ids_of R by_key x)
                       \<union> (\<Union>x \<in> {x \<in> K. linked L b x}. ids_of R by_key x)),
                     ps_cluster_sizes = (ps_cluster_sizes st)(w \<mapsto>
                       card {x \<in> K. linked L a x \<or> linked L b x}),
                     ps_results = ps_results st @ [c]\<rparr>)
           else Inr (st\<lparr>ps_uf := uf2, ps_results := ps_results st @ [c]\<rparr>))"
    and "uf.tracks d L uf2" and "dom uf2 = K"
    and "\<And>j. j \<in> K \<Longrightarrow> uf_cls d uf2 j = uf_cls d (ps_uf st) j"
proof -
  let ?c = "uf_cls d (ps_uf st)" and ?tv = "ids_of R by_key"
  from inv have dom: "dom (ps_uf st) = K" and t: "uf.tracks d L (ps_uf st)" and tr: "trust_ok ?tv {} L"
    and ro: "roots_ok ?tv K ?c (ps_trusted_ids st) (ps_cluster_sizes st)"
    unfolding prob_inv_alt d_def L_def K_def by blast+
  obtain uf1 uf2 where f: "uf_find d (ps_uf st) a = Inr (?c a, uf1)" "uf_find d uf1 b = Inr (?c b, uf2)"
    "uf.tracks d L uf2" "dom uf2 = K" "\<And>j. j \<in> K \<Longrightarrow> uf_cls d uf2 j = ?c j"
    using prob_find2 [OF t, of a b] a b dom by metis
  define A where "A = (\<Union>x \<in> {x \<in> K. linked L a x}. ?tv x)"
  define B where "B = (\<Union>x \<in> {x \<in> K. linked L b x}. ?tv x)"
  define na where "na = card {x \<in> K. linked L a x}"
  define nb where "nb = card {x \<in> K. linked L b x}"
  have mem: "{x \<in> K. ?c x = ?c a} = {x \<in> K. linked L a x}" "{x \<in> K. ?c x = ?c b} = {x \<in> K. linked L b x}"
    using cluster_members [OF t dom] a b by blast+
  from ro a b have look: "ps_trusted_ids st (?c a) = Some A" "ps_trusted_ids st (?c b) = Some B"
    "ps_cluster_sizes st (?c a) = Some na" "ps_cluster_sizes st (?c b) = Some nb"
    unfolding roots_ok_def A_def B_def na_def nb_def mem [symmetric] by blast+
  from a obtain rec where rec: "map_of by_key a = Some rec"
    unfolding K_def by (metis dom_map_of_conv_image_fst domD)
  have "{x \<in> K. linked L a x} = {x. linked L a x}" "{x \<in> K. linked L b x} = {x. linked L b x}"
    using linked_outside [OF t] a b dom by auto
  then have conf: "(A \<noteq> {} \<and> B \<noteq> {} \<and> A \<inter> B = {}) \<longleftrightarrow> separated ?tv L a b"
    by (intro conflict_iff_separated [OF tr]) (simp_all add: A_def B_def)
  have same: "?c a = ?c b \<longleftrightarrow> linked L a b" using uf.tracks_same [OF t] a b dom by blast
  have n: "(if linked L a b then na else na + nb) = card {x \<in> K. linked L a x \<or> linked L b x}"
    unfolding na_def nb_def by (rule merged_card) (simp add: K_def)
  have "cluster_step R cfg by_key ((a, b), ids, feats, p) st =
       (let status = match_status cfg (separated ?tv L a b) p;
            c = make_candidate R cfg rec a b ids feats p status na nb
                  (card {x \<in> K. linked L a x \<or> linked L b x})
        in if status = ''auto_match'' \<and> \<not> linked L a b then
             (case uf_union d uf2 a b of Inl e \<Rightarrow> Inl e | Inr (w, uf3) \<Rightarrow>
                Inr \<lparr>ps_uf = uf3, ps_trusted_ids = (ps_trusted_ids st)(w \<mapsto> A \<union> B),
                     ps_cluster_sizes = (ps_cluster_sizes st)(w \<mapsto>
                       card {x \<in> K. linked L a x \<or> linked L b x}),
                     ps_results = ps_results st @ [c]\<rparr>)
           else Inr (st\<lparr>ps_uf := uf2, ps_results := ps_results st @ [c]\<rparr>))"
    by (simp add: cluster_step_def d_def [symmetric] f(1,2) lookup_def look record_of_def rec
          conf same n Let_def)
  then show thesis
    using that [of rec uf2] f(3-5) unfolding A_def B_def na_def nb_def by blast
qed

lemma cluster_step_ok:
  assumes inv: "prob_inv R by_key st" and a': "a \<in> fst ` set by_key" and b': "b \<in> fst ` set by_key"
  shows "\<exists>st'. cluster_step R cfg by_key ((a, b), ids, feats, p) st = Inr st' \<and> prob_inv R by_key st'
    \<and> (\<exists>c. ps_results st' = ps_results st @ [c] \<and> pcd_left_record_key c = a \<and> pcd_right_record_key c = b
         \<and> pcd_probability c = round8 p
         \<and> pcd_status c = match_status cfg (separated (ids_of R by_key) (auto_pairs (ps_results st)) a b) p)"
proof -
  let ?d = "rt_recursion_limit R" and ?tv = "ids_of R by_key" and ?L = "auto_pairs (ps_results st)"
  obtain K where K: "fst ` set by_key = K" by blast
  then have fin: "finite K" by auto
  from a' b' K have a: "a \<in> K" and b: "b \<in> K" by simp_all
  from inv have tr: "trust_ok ?tv {} ?L" and t: "uf.tracks ?d ?L (ps_uf st)" and dom: "dom (ps_uf st) = K"
    and ro: "roots_ok ?tv K (uf_cls ?d (ps_uf st)) (ps_trusted_ids st) (ps_cluster_sizes st)"
    and im: "\<forall>i < length (ps_results st). impact_ok R by_key (take i (ps_results st)) (ps_results st ! i)"
    unfolding prob_inv_alt K by blast+
  obtain rec uf2 where step: "cluster_step R cfg by_key ((a, b), ids, feats, p) st =
       (let status = match_status cfg (separated ?tv ?L a b) p;
            c = make_candidate R cfg rec a b ids feats p status (card {x \<in> K. linked ?L a x})
                  (card {x \<in> K. linked ?L b x}) (card {x \<in> K. linked ?L a x \<or> linked ?L b x})
        in if status = ''auto_match'' \<and> \<not> linked ?L a b then
             (case uf_union ?d uf2 a b of Inl e \<Rightarrow> Inl e | Inr (w, uf3) \<Rightarrow>
                Inr \<lparr>ps_uf = uf3,
                     ps_trusted_ids = (ps_trusted_ids st)(w \<mapsto>
                       (\<Union>x \<in> {x \<in> K. linked ?L a x}. ?tv x) \<union> (\<Union>x \<in> {x \<in> K. linked ?L b x}. ?tv x)),
                     ps_cluster_sizes = (ps_cluster_sizes st)(w \<mapsto>
                       card {x \<in> K. linked ?L a x \<or> linked ?L b x}),
                     ps_results = ps_results st @ [c]\<rparr>)
           else Inr (st\<lparr>ps_uf := uf2, ps_results := ps_results st @ [c]\<rparr>))"
    and 2: "uf.tracks ?d ?L uf2" "dom uf2 = K"
       "\<And>j. j \<in> K \<Longrightarrow> uf_cls ?d uf2 j = uf_cls ?d (ps_uf st) j"
    by (rule cluster_step_eval [OF inv a' b', of cfg ids feats p, unfolded K]) (rule that, assumption+)
  define status where "status = match_status cfg (separated ?tv ?L a b) p"
  define c where "c = make_candidate R cfg rec a b ids feats p status (card {x \<in> K. linked ?L a x})
                  (card {x \<in> K. linked ?L b x}) (card {x \<in> K. linked ?L a x \<or> linked ?L b x})"
  have sel: "pcd_left_record_key c = a" "pcd_right_record_key c = b" "pcd_status c = status"
    "pcd_probability c = round8 p" by (simp_all add: c_def)
  have "impact_ok R by_key (ps_results st) c"
    unfolding impact_ok_def Let_def K c_def by (simp add: status_def match_status_def)
  note im' = impact_snoc [OF im this]
  note ev = step [unfolded Let_def, folded status_def, folded c_def]
  show ?thesis
  proof (cases "status = ''auto_match'' \<and> \<not> linked ?L a b")
    case True
    have ne: "uf_cls ?d (ps_uf st) a \<noteq> uf_cls ?d (ps_uf st) b"
      using uf.tracks_same [OF t] a b dom True by blast
    from uf.tracks_union [OF 2(1), of a b] a b 2(2) obtain w uf3 where
      3: "uf_union ?d uf2 a b = Inr (w, uf3)" "uf.tracks ?d (insert (a, b) ?L) uf3" "dom uf3 = K"
         "w \<in> {uf_cls ?d (ps_uf st) a, uf_cls ?d (ps_uf st) b}"
         "\<And>j. j \<in> K \<Longrightarrow> uf_cls ?d uf3 j = (if uf_cls ?d (ps_uf st) j \<in> {uf_cls ?d (ps_uf st) a, uf_cls ?d (ps_uf st) b}
            then w else uf_cls ?d (ps_uf st) j)"
      using 2(3) by (metis (no_types, lifting))
    have tr': "trust_ok ?tv {} (insert (a, b) ?L)"
      using True by (intro trust_ok_insert [OF tr] not_separated) (auto simp: status_def match_status_def)
    have sum: "card {x \<in> K. linked ?L a x} + card {x \<in> K. linked ?L b x}
        = card {x \<in> K. linked ?L a x \<or> linked ?L b x}"
      using merged_card [OF fin, of ?L a b] True by simp
    show ?thesis
      unfolding ev using True 3 tr' im' sel
        roots_ok_merge [OF ro fin a b ne 3(4,5), unfolded cluster_members [OF t dom a]
          cluster_members [OF t dom b] sum]
      by (simp add: prob_inv_alt K status_def [symmetric])
  next
    case False
    have "uf.tracks ?d (auto_pairs (ps_results st @ [c])) uf2"
      "trust_ok ?tv {} (auto_pairs (ps_results st @ [c]))"
      using False 2 tr a b sel by (auto intro: tracks_insert_same trust_ok_insert_same)
    moreover have "roots_ok ?tv K (uf_cls ?d uf2) (ps_trusted_ids st) (ps_cluster_sizes st)"
      by (rule roots_ok_cong [THEN iffD2, OF _ ro]) (rule 2(3))
    ultimately have "prob_inv R by_key (st\<lparr>ps_uf := uf2, ps_results := ps_results st @ [c]\<rparr>)"
      unfolding prob_inv_alt K using 2(2) im' by simp
    then show ?thesis
      unfolding ev if_not_P [OF False] using sel by (simp add: status_def [symmetric])
  qed
qed

section \<open>Lemmas: the run\<close>

lemma key_records_eq:
  assumes "distinct (map (prob_key R cfg) records)"
  shows "key_records R cfg records = map (\<lambda>rec. (prob_key R cfg rec, rec)) records"
proof -
  have "fold (\<lambda>rec d. dict_set (prob_key R cfg rec) rec d) records d
      = d @ map (\<lambda>rec. (prob_key R cfg rec, rec)) records"
    if "prob_key R cfg ` set records \<inter> fst ` set d = {}" for d
    using assms that
    by (induction records arbitrary: d) (auto simp: dict_set_fresh)
  then show ?thesis by (simp add: key_records_def)
qed

lemma prob_init_inv:
  assumes "distinct (map fst by_key)" and "length by_key \<le> rt_recursion_limit R"
  shows "prob_inv R by_key (prob_init R by_key)"
proof -
  let ?K = "fst ` set by_key"
  have t: "uf.tracks (rt_recursion_limit R) {} (uf_init (map fst by_key))"
    using uf_init_tracks [of "map fst by_key" "rt_recursion_limit R"] assms(2) by simp
  have r: "uf_cls (rt_recursion_limit R) (uf_init (map fst by_key)) k = k" if "k \<in> ?K" for k
    using uf_init_cls [of "map fst by_key" "rt_recursion_limit R" k] assms(2) that by simp
  have one: "{x \<in> ?K. uf_cls (rt_recursion_limit R) (uf_init (map fst by_key)) x = k} = {k}" if "k \<in> ?K" for k
  proof -
    have "{x \<in> ?K. uf_cls (rt_recursion_limit R) (uf_init (map fst by_key)) x = k} = {x \<in> ?K. x = k}"
      by (intro Collect_cong conj_cong refl) (simp only: r)
    with that show ?thesis by auto
  qed
  have "roots_ok (ids_of R by_key) ?K (uf_cls (rt_recursion_limit R) (uf_init (map fst by_key)))
     (map_of (map (\<lambda>(k, rec). (k, employee_ids R rec)) by_key)) (map_of (map (\<lambda>(k, rec). (k, 1)) by_key))"
    unfolding roots_ok_def
  proof
    fix k
    assume k: "k \<in> ?K"
    then obtain rec where "map_of by_key k = Some rec" by (metis dom_map_of_conv_image_fst domD)
    then show "map_of (map (\<lambda>(k, rec). (k, employee_ids R rec)) by_key)
          (uf_cls (rt_recursion_limit R) (uf_init (map fst by_key)) k)
        = Some (\<Union>x \<in> {x \<in> ?K. uf_cls (rt_recursion_limit R) (uf_init (map fst by_key)) x
            = uf_cls (rt_recursion_limit R) (uf_init (map fst by_key)) k}. ids_of R by_key x)
      \<and> map_of (map (\<lambda>(k, rec). (k, 1)) by_key) (uf_cls (rt_recursion_limit R) (uf_init (map fst by_key)) k)
        = Some (card {x \<in> ?K. uf_cls (rt_recursion_limit R) (uf_init (map fst by_key)) x
            = uf_cls (rt_recursion_limit R) (uf_init (map fst by_key)) k})"
      unfolding r [OF k] one [OF k] by (simp add: ids_of_def map_of_map)
  qed
  moreover have "trust_ok (ids_of R by_key) {} {}" by (auto simp: trust_ok_def dest: ids_of_single)
  ultimately show ?thesis using t by (simp add: prob_inv_alt prob_init_def)
qed

lemma score_pairs_keys:
  assumes "res_fold (score_pair R cfg by_key params) cands sc = Inr sc'"
  shows "\<forall>((a, b), _) \<in> set sc'. (a, b) \<in> fst ` set cands \<or> (a, b) \<in> fst ` set sc"
  using assms
  by (induction cands arbitrary: sc)
     (force simp: score_pair_def split: sum.splits prod.splits)+

lemma score_pairs_length:
  assumes "res_fold (score_pair R cfg by_key params) cands sc = Inr sc'"
  shows "length sc' = length sc + length cands"
  using assms
  by (induction cands arbitrary: sc)
     (force simp: score_pair_def split: sum.splits prod.splits)+

lemma cluster_all_ok:
  assumes "prob_inv R by_key st"
    and "\<forall>((a, b), _) \<in> set items. a \<in> fst ` set by_key \<and> b \<in> fst ` set by_key"
  shows "\<exists>st'. res_fold (cluster_step R cfg by_key) items st = Inr st' \<and> prob_inv R by_key st'
    \<and> length (ps_results st') = length (ps_results st) + length items"
  using assms
proof (induction items arbitrary: st)
  case Nil
  then show ?case by simp
next
  case (Cons item items)
  obtain a b ids feats p where item: "item = ((a, b), ids, feats, p)" by (metis prod.exhaust)
  with Cons.prems have ab: "a \<in> fst ` set by_key" "b \<in> fst ` set by_key" by auto
  from cluster_step_ok [OF Cons.prems(1) ab, of cfg ids feats p] item obtain st1 where
    1: "cluster_step R cfg by_key item st = Inr st1" "prob_inv R by_key st1"
       "length (ps_results st1) = Suc (length (ps_results st))" by auto
  from Cons.IH [OF 1(2)] Cons.prems(2) 1 show ?case by auto
qed

lemma generate_candidates_keys:
  assumes "generate_candidates R records cfg = Inr cands" and "((a, b), ids) \<in> set cands"
  shows "a \<in> prob_key R cfg ` set records \<and> b \<in> prob_key R cfg ` set records"
proof -
  have ok: "prob_input_ok R cfg records"
    using generate_candidates_rejects assms(1) by fastforce
  have "cands = group_pairs (tagged_pairs R cfg records (pm_blocking_rules cfg)) []"
    using assms(1) generate_candidates_eq [OF ok] by (auto simp: Let_def split: if_splits)
  with assms(2) have "(a, b) \<in> fst ` set (tagged_pairs R cfg records (pm_blocking_rules cfg))"
    using keys_group_pairs by force
  then show ?thesis by (auto simp: tagged_pairs_iff shares_block_def)
qed

lemma prob_run_inv:
  assumes "prob_run R records cfg truth params = Inr res" and "length records \<le> rt_recursion_limit R"
  shows "\<exists>st. ps_results st = pr_candidates res
    \<and> prob_inv R (map (\<lambda>rec. (prob_key R cfg rec, rec)) records) st"
proof -
  let ?bk = "map (\<lambda>rec. (prob_key R cfg rec, rec)) records"
  from assms(1) obtain cands where c: "generate_candidates R records cfg = Inr cands"
    by (auto simp: prob_run_def split: sum.splits)
  then have ok: "prob_input_ok R cfg records"
    using generate_candidates_rejects by fastforce
  then have d: "distinct (map (prob_key R cfg) records)" by (simp add: prob_input_ok_def)
  from assms(1) c obtain ps sc st where
    sc: "res_fold (score_pair R cfg ?bk ps) cands [] = Inr sc" and
    st: "res_fold (cluster_step R cfg ?bk) (sort_key (\<lambda>(_, _, _, p). - p) sc) (prob_init R ?bk) = Inr st"
      "ps_results st = pr_candidates res"
    by (auto simp: prob_run_def key_records_eq [OF d] Let_def split: sum.splits)
  have "prob_inv R ?bk st"
  proof (rule res_fold_inv [OF st(1), where I = "prob_inv R ?bk"])
    show "prob_inv R ?bk (prob_init R ?bk)"
      using d assms(2) by (intro prob_init_inv) (simp_all add: o_def)
    fix item s s'
    assume i: "item \<in> set (sort_key (\<lambda>(_, _, _, p). - p) sc)" and s: "prob_inv R ?bk s"
      and s': "cluster_step R cfg ?bk item s = Inr s'"
    obtain a b ids feats p where item: "item = ((a, b), ids, feats, p)" by (metis prod.exhaust)
    with i score_pairs_keys [OF sc] have "(a, b) \<in> fst ` set cands" by fastforce
    with generate_candidates_keys [OF c] have "a \<in> fst ` set ?bk" "b \<in> fst ` set ?bk"
      by (force simp: image_image)+
    from cluster_step_ok [OF s this, of cfg ids feats p] s' item show "prob_inv R ?bk s'" by auto
  qed
  with st show ?thesis by blast
qed

lemma prob_run_keys:
  "prob_run R records cfg truth params = Inr res \<Longrightarrow> distinct (map (prob_key R cfg) records)"
  using generate_candidates_rejects [of R cfg records]
  by (auto simp: prob_run_def prob_input_ok_def split: sum.splits)

lemma map_of_key:
  "distinct (map f xs) \<Longrightarrow> x \<in> set xs \<Longrightarrow> map_of (map (\<lambda>x. (f x, x)) xs) (f x) = Some x"
  by (auto simp: o_def intro!: map_of_is_SomeI)

section \<open>Lemmas: scores\<close>

lemma logistic_bounds: "0 < logistic x" "logistic x < 1"
  by (simp_all add: logistic_def add_pos_pos)

lemma logistic_mono: "x \<le> y \<Longrightarrow> logistic x \<le> logistic y"
  by (auto simp: logistic_def add_pos_pos intro!: divide_left_mono)

lemma log_ratio_ok: "0 < a \<Longrightarrow> 0 < b \<Longrightarrow> log_ratio a b = Inr (ln (a / b))"
  by (simp add: log_ratio_def not_le)

definition params_ok :: "field_params \<Rightarrow> bool" where
  "params_ok v = (0 < fp_m v \<and> fp_m v < 1 \<and> 0 < fp_u v \<and> fp_u v < 1)"

text \<open>The contribution of one compared field to the log odds.\<close>

definition field_term :: "field_params \<Rightarrow> real \<Rightarrow> real" where
  "field_term v s = fp_weight v * (ln ((1 - fp_m v) / (1 - fp_u v))
     + s * (ln (fp_m v / fp_u v) - ln ((1 - fp_m v) / (1 - fp_u v))))"

lemma field_term_mono:
  assumes "params_ok v" and "0 \<le> fp_weight v" and "fp_u v \<le> fp_m v" and "s \<le> t"
  shows "field_term v s \<le> field_term v t"
proof -
  have "ln ((1 - fp_m v) / (1 - fp_u v)) \<le> ln 1"
    using assms by (subst ln_le_cancel_iff) (auto simp: params_ok_def)
  moreover have "ln 1 \<le> ln (fp_m v / fp_u v)"
    using assms by (subst ln_le_cancel_iff) (auto simp: params_ok_def)
  ultimately have "0 \<le> ln (fp_m v / fp_u v) - ln ((1 - fp_m v) / (1 - fp_u v))" by simp
  then show ?thesis using assms(2,4) by (auto simp: field_term_def intro!: mult_left_mono mult_right_mono)
qed

lemma add_log_odds_ok:
  "map_of params f = Some v \<Longrightarrow> params_ok v \<Longrightarrow> 0 \<le> s \<Longrightarrow>
     add_log_odds params (f, s) l = Inr (l + field_term v s)"
  by (simp add: add_log_odds_def log_ratio_ok params_ok_def field_term_def)

lemma log_odds_mono:
  assumes "list_all2 (\<lambda>(f, s) (g, t). f = g \<and> 0 \<le> s \<and> s \<le> t) feats feats'" and "l \<le> l'"
    and "\<forall>(f, s) \<in> set feats. \<exists>v. map_of params f = Some v \<and> params_ok v
           \<and> 0 \<le> fp_weight v \<and> fp_u v \<le> fp_m v"
  shows "\<exists>x y. res_fold (add_log_odds params) feats l = Inr x
    \<and> res_fold (add_log_odds params) feats' l' = Inr y \<and> x \<le> y"
  using assms
proof (induction feats feats' arbitrary: l l' rule: list_all2_induct)
  case Nil
  then show ?case by simp
next
  case (Cons p feats q feats')
  obtain f s t where pq: "p = (f, s)" "q = (f, t)" "0 \<le> s" "s \<le> t"
    using Cons.hyps(1) by (cases p; cases q) auto
  with Cons.prems obtain v where v: "map_of params f = Some v" "params_ok v" "0 \<le> fp_weight v" "fp_u v \<le> fp_m v"
    by auto
  have "l + field_term v s \<le> l' + field_term v t"
    using Cons.prems(1) field_term_mono [OF v(2-4) pq(4)] by linarith
  from Cons.IH [OF this] Cons.prems(2) pq v show ?case by (simp add: add_log_odds_ok)
qed

text \<open>
  the score is a probability strictly between 0 and 1, and it does not fall when the
  similarity of a compared field grows, as long as agreement is at least as likely
  among matches as among non-matches for the compared fields.
\<close>

theorem probability_monotone:
  assumes "0 < prior" and "prior < 1"
    and "list_all2 (\<lambda>(f, s) (g, t). f = g \<and> 0 \<le> s \<and> s \<le> t) feats feats'"
    and "\<forall>(f, s) \<in> set feats. \<exists>v. map_of params f = Some v \<and> params_ok v
           \<and> 0 \<le> fp_weight v \<and> fp_u v \<le> fp_m v"
  shows "\<exists>p q. probability feats params prior = Inr p \<and> probability feats' params prior = Inr q
    \<and> 0 < p \<and> p \<le> q \<and> q < 1"
proof -
  obtain x y where "res_fold (add_log_odds params) feats (ln (prior / (1 - prior))) = Inr x"
    "res_fold (add_log_odds params) feats' (ln (prior / (1 - prior))) = Inr y" "x \<le> y"
    using log_odds_mono [OF assms(3) order_refl assms(4)] by blast
  then show ?thesis
    using assms(1,2) logistic_bounds logistic_mono by (simp add: probability_def log_ratio_ok)
qed

theorem probability_monotone_witness:
  "\<exists>p q. probability [(''name'', 1/2)] [(''name'', \<lparr>fp_m = 9/10, fp_u = 1/10, fp_weight = 1\<rparr>)] (1/10) = Inr p
    \<and> probability [(''name'', 1)] [(''name'', \<lparr>fp_m = 9/10, fp_u = 1/10, fp_weight = 1\<rparr>)] (1/10) = Inr q
    \<and> 0 < p \<and> p \<le> q \<and> q < 1"
  by (rule probability_monotone) (simp_all add: params_ok_def)

section \<open>Lemmas: when a run returns\<close>

text \<open>
  What the comparisons need of the values: no integer of a numeric comparison is too large for \<^verbatim>\<open>float\<close>, and the
  timestamps of a date comparison are all aware or all naive. Values that are no number or no timestamp do no harm.
\<close>

definition comparable_field :: "runtime \<Rightarrow> comparison_field_config \<Rightarrow> pyval list \<Rightarrow> bool" where
  "comparable_field R c values =
     ((cf_method c = ''numeric_distance'' \<longrightarrow> (\<forall>i. PInt i \<in> set values \<longrightarrow> \<bar>i\<bar> < FLOAT_BOUND))
      \<and> (cf_method c = ''date_distance'' \<longrightarrow> (\<exists>aware. \<forall>v \<in> set values. \<forall>d.
            rt_fromiso R (iso_text R v) = Some d \<longrightarrow> (dt_offset d \<noteq> None) = aware)))"

definition comparable :: "runtime \<Rightarrow> prob_match_config \<Rightarrow> pyrec list \<Rightarrow> bool" where
  "comparable R cfg records =
     (\<forall>c \<in> set (pm_comparisons cfg). comparable_field R c (map (\<lambda>rec. get_field rec (cf_field c)) records))"

text \<open>Parameters handed to a run: for every compared field, two probabilities strictly between 0 and 1.\<close>

definition params_given_ok :: "prob_match_config \<Rightarrow> (string \<times> field_params) list \<Rightarrow> bool" where
  "params_given_ok cfg ps = (\<forall>c \<in> set (pm_comparisons cfg). \<exists>v. map_of ps (cf_field c) = Some v \<and> params_ok v)"

lemma try_float_total:
  assumes "\<And>i. v = PInt i \<Longrightarrow> \<bar>i\<bar> < FLOAT_BOUND"
  shows "\<exists>r. try_float R v = Inr r"
  using assms by (cases v) (auto simp: try_float_def py_float_def float_of_int_def split: option.splits)

lemma similarity_total:
  assumes "comparable_field R c values" and "x \<in> set values" and "y \<in> set values"
  shows "\<exists>s. similarity R x y c = Inr s"
proof -
  have numbers: "\<exists>a. try_float R x = Inr a" "\<exists>a. try_float R y = Inr a" if numeric: "cf_method c = ''numeric_distance''"
  proof -
    have "\<bar>i\<bar> < FLOAT_BOUND" if "PInt i \<in> set values" for i
      using assms(1) numeric that
      unfolding comparable_field_def by (elim conjE) (drule (1) mp, erule allE, erule (1) mp)
    with assms(2,3) show "\<exists>a. try_float R x = Inr a" "\<exists>a. try_float R y = Inr a"
      by (auto intro: try_float_total)
  qed
  have times: "\<exists>us. dt_diff d e = Inr us"
    if "cf_method c = ''date_distance''" "rt_fromiso R (iso_text R x) = Some d" "rt_fromiso R (iso_text R y) = Some e" for d e
  proof -
    from assms(1) that(1) have "\<exists>aware. \<forall>v \<in> set values. \<forall>d. rt_fromiso R (iso_text R v) = Some d \<longrightarrow> (dt_offset d \<noteq> None) = aware"
      unfolding comparable_field_def by (elim conjE) (erule (1) mp)
    then obtain aware where aware: "\<And>v d. v \<in> set values \<Longrightarrow> rt_fromiso R (iso_text R v) = Some d \<Longrightarrow> (dt_offset d \<noteq> None) = aware"
      by (elim exE) simp
    from aware [OF assms(2) that(2)] aware [OF assms(3) that(3)] show ?thesis by (auto simp: dt_diff_def split: option.splits)
  qed
  consider "cf_method c = ''numeric_distance''" | "cf_method c = ''date_distance''"
    | "cf_method c \<noteq> ''numeric_distance''" "cf_method c \<noteq> ''date_distance''" by blast
  then show ?thesis
  proof cases
    case 1
    from numbers [OF 1] obtain a b where "try_float R x = Inr a" "try_float R y = Inr b" by blast
    with 1 show ?thesis by (simp add: similarity_def split: option.split pyfloat.split)
  next
    case 2
    show ?thesis
    proof (cases "rt_fromiso R (iso_text R x) = None \<or> rt_fromiso R (iso_text R y) = None")
      case True
      with 2 show ?thesis by (auto simp: similarity_def split: option.split)
    next
      case False
      then obtain d e where de: "rt_fromiso R (iso_text R x) = Some d" "rt_fromiso R (iso_text R y) = Some e" by auto
      from times [OF 2 de] obtain us where "dt_diff d e = Inr us" by blast
      with 2 de show ?thesis by (simp add: similarity_def Let_def)
    qed
  next
    case 3
    show ?thesis unfolding similarity_def using 3 by (simp only: if_False if_True split: if_split) blast
  qed
qed

lemma features_total:
  assumes "\<forall>c \<in> set cs. \<exists>s. similarity R (get_field lrec (cf_field c)) (get_field rrec (cf_field c)) c = Inr s"
  shows "\<exists>fs. features_of R lrec rrec cs = Inr fs \<and> fst ` set fs \<subseteq> cf_field ` set cs"
  unfolding features_of_def
proof (rule res_fold_total [where I = "\<lambda>fs. fst ` set fs \<subseteq> cf_field ` set cs"])
  fix c and d :: "(string \<times> real) list"
  assume c: "c \<in> set cs" and d: "fst ` set d \<subseteq> cf_field ` set cs"
  obtain s where "similarity R (get_field lrec (cf_field c)) (get_field rrec (cf_field c)) c = Inr s"
    using assms c by blast
  with c d show "\<exists>s'. (case similarity R (get_field lrec (cf_field c)) (get_field rrec (cf_field c)) c of
      Inl e \<Rightarrow> Inl e | Inr s \<Rightarrow> Inr (dict_set (cf_field c) s d)) = Inr s' \<and> fst ` set s' \<subseteq> cf_field ` set cs"
    by simp
qed simp

lemma probability_total:
  assumes "0 < prior" and "prior < 1"
    and "\<forall>f \<in> fst ` set feats. \<exists>v. map_of params f = Some v \<and> params_ok v"
  shows "\<exists>p. probability feats params prior = Inr p"
proof -
  have "\<exists>l. res_fold (add_log_odds params) feats (ln (prior / (1 - prior))) = Inr l \<and> True"
  proof (rule res_fold_total)
    fix x l
    assume x: "x \<in> set feats"
    obtain f s where fs: "x = (f, s)" by (metis prod.exhaust)
    with x have "f \<in> fst ` set feats" by force
    with assms(3) obtain v where "map_of params f = Some v" "params_ok v" by blast
    with fs show "\<exists>l'. add_log_odds params x l = Inr l' \<and> True"
      by (cases "s < 0") (auto simp: add_log_odds_ok, simp add: add_log_odds_def)
  qed simp
  then show ?thesis using assms(1,2) by (auto simp: probability_def log_ratio_ok)
qed

lemma default_parameters_ok:
  assumes "list_all comparison_field_config_ok (pm_comparisons cfg)"
  shows "params_given_ok cfg (default_parameters cfg)"
proof -
  let ?g = "\<lambda>c d. dict_set (cf_field c) \<lparr>fp_m = cf_agreement_probability c,
      fp_u = cf_random_agreement_probability c, fp_weight = cf_weight c\<rparr> d"
  have "\<exists>v. map_of (fold ?g cs d) f = Some v \<and> params_ok v"
    if "list_all comparison_field_config_ok cs"
      "f \<in> cf_field ` set cs \<or> (\<exists>v. map_of d f = Some v \<and> params_ok v)" for cs d f
    using that
    by (induction cs arbitrary: d) (auto simp: params_ok_def comparison_field_config_ok_def)
  with assms show ?thesis by (simp add: params_given_ok_def default_parameters_def)
qed

text \<open>Estimation: the labelled pairs are pairs of records, and the estimates are kept away from 0 and 1.\<close>

lemma labeled_pairs_keys:
  "(l, r, m) \<in> set (labeled_pairs by_key truth) \<Longrightarrow> l \<in> fst ` set by_key \<and> r \<in> fst ` set by_key"
  by (auto simp: labeled_pairs_def dest!: in_set_takeD combs2_subset)

lemma collect_total:
  assumes "\<forall>(l, r, m) \<in> set pairs. \<exists>r1 r2. map_of by_key l = Some r1 \<and> map_of by_key r = Some r2
    \<and> (\<exists>s. similarity R (get_field r1 (cf_field c)) (get_field r2 (cf_field c)) c = Inr s)"
  shows "\<exists>x. collect_similarities R by_key c pairs a b = Inr x"
  using assms
proof (induction pairs arbitrary: a b)
  case (Cons p pairs)
  obtain l r m where p: "p = (l, r, m)" by (cases p)
  from Cons.prems p obtain r1 r2 s where "map_of by_key l = Some r1" "map_of by_key r = Some r2"
    "similarity R (get_field r1 (cf_field c)) (get_field r2 (cf_field c)) c = Inr s" by auto
  with Cons p show ?case by (simp add: record_of_def)
qed simp

lemma clamp01_bounds: "0 < clamp01 x" "clamp01 x < 1"
  by (simp_all add: clamp01_def)

lemma estimate_total:
  assumes "\<forall>c \<in> set (pm_comparisons cfg). \<forall>a \<in> fst ` set by_key. \<forall>b \<in> fst ` set by_key.
      \<exists>r1 r2. map_of by_key a = Some r1 \<and> map_of by_key b = Some r2
        \<and> (\<exists>s. similarity R (get_field r1 (cf_field c)) (get_field r2 (cf_field c)) c = Inr s)"
    and "key_records R cfg records = by_key"
  shows "\<exists>ps. estimate_parameters R records truth cfg = Inr ps \<and> params_given_ok cfg ps"
proof -
  let ?step = "estimate_field R by_key (labeled_pairs by_key truth)"
  have one: "\<exists>v. ?step c ps = Inr (dict_set (cf_field c) v ps) \<and> params_ok v"
    if "c \<in> set (pm_comparisons cfg)" for c ps
  proof -
    have "\<forall>(l, r, m) \<in> set (labeled_pairs by_key truth). \<exists>r1 r2. map_of by_key l = Some r1 \<and> map_of by_key r = Some r2
        \<and> (\<exists>s. similarity R (get_field r1 (cf_field c)) (get_field r2 (cf_field c)) c = Inr s)"
    proof clarify
      fix l r m assume "(l, r, m) \<in> set (labeled_pairs by_key truth)"
      from labeled_pairs_keys [OF this] assms(1) that
      show "\<exists>r1 r2. map_of by_key l = Some r1 \<and> map_of by_key r = Some r2
        \<and> (\<exists>s. similarity R (get_field r1 (cf_field c)) (get_field r2 (cf_field c)) c = Inr s)" by (elim conjE) (drule (1) bspec, drule (1) bspec, erule (1) bspec)
    qed
    from collect_total [OF this] have "\<exists>x. collect_similarities R by_key c (labeled_pairs by_key truth) [] [] = Inr x" .
    then show ?thesis by (auto simp: estimate_field_def Let_def params_ok_def clamp01_bounds split: prod.split)
  qed
  have "\<exists>ps'. res_fold ?step cs ps = Inr ps' \<and> (\<forall>f \<in> cf_field ` set cs \<union> F. \<exists>v. map_of ps' f = Some v \<and> params_ok v)"
    if "set cs \<subseteq> set (pm_comparisons cfg)" "\<forall>f \<in> F. \<exists>v. map_of ps f = Some v \<and> params_ok v" for cs ps F
    using that
  proof (induction cs arbitrary: ps F)
    case (Cons c cs)
    from one [of c ps] Cons.prems(1) obtain v where
      step: "?step c ps = Inr (dict_set (cf_field c) v ps)" and ok: "params_ok v"
      by auto
    have "\<forall>f \<in> insert (cf_field c) F. \<exists>v'. map_of (dict_set (cf_field c) v ps) f = Some v' \<and> params_ok v'"
      using Cons.prems(2) ok by simp
    from Cons.IH [OF _ this] Cons.prems(1) step show ?case by simp
  qed simp
  from this [OF subset_refl, of "{}" "[]"] show ?thesis
    unfolding estimate_parameters_def assms(2) Let_def params_given_ok_def by auto
qed

lemma score_total:
  assumes "prob_match_config_ok cfg" and params: "params_given_ok cfg ps"
    and sims: "\<forall>c \<in> set (pm_comparisons cfg). \<forall>a \<in> fst ` set by_key. \<forall>b \<in> fst ` set by_key.
      \<exists>r1 r2. map_of by_key a = Some r1 \<and> map_of by_key b = Some r2
        \<and> (\<exists>s. similarity R (get_field r1 (cf_field c)) (get_field r2 (cf_field c)) c = Inr s)"
    and cands: "\<forall>((a, b), _) \<in> set cands. a \<in> fst ` set by_key \<and> b \<in> fst ` set by_key"
  shows "\<exists>sc. res_fold (score_pair R cfg by_key ps) cands [] = Inr sc \<and> True"
proof (rule res_fold_total)
  fix x and sc :: "scored list"
  assume "x \<in> set cands"
  moreover obtain a b ids where x: "x = ((a, b), ids)" by (metis prod.exhaust)
  ultimately have ab: "a \<in> fst ` set by_key" "b \<in> fst ` set by_key" using cands by auto
  then obtain r1 r2 where r: "map_of by_key a = Some r1" "map_of by_key b = Some r2"
    by (metis dom_map_of_conv_image_fst domD)
  have "\<forall>c \<in> set (pm_comparisons cfg). \<exists>s. similarity R (get_field r1 (cf_field c)) (get_field r2 (cf_field c)) c = Inr s"
    using sims ab r by fastforce
  from features_total [OF this] obtain fs where fs: "features_of R r1 r2 (pm_comparisons cfg) = Inr fs"
    "fst ` set fs \<subseteq> cf_field ` set (pm_comparisons cfg)"
    by blast
  have "\<exists>p. probability fs ps (pm_prior_match_probability cfg) = Inr p"
    using assms(1) fs(2) params
    by (intro probability_total) (auto simp: prob_match_config_ok_def params_given_ok_def)
  with x r fs show "\<exists>s'. score_pair R cfg by_key ps x sc = Inr s' \<and> True"
    by (auto simp: score_pair_def record_of_def)
qed simp

lemma prob_run_total:
  assumes cfg: "prob_match_config_ok cfg" and values_ok: "comparable R cfg records"
    and given: "\<forall>p ps. params = Some (p # ps) \<longrightarrow> params_given_ok cfg (p # ps)"
    and le: "length records \<le> rt_recursion_limit R"
    and cands: "generate_candidates R records cfg = Inr cands"
  shows "\<exists>res. prob_run R records cfg truth params = Inr res
    \<and> length (pr_candidates res) = length cands"
proof -
  let ?bk = "map (\<lambda>rec. (prob_key R cfg rec, rec)) records"
  have ok: "prob_input_ok R cfg records" using generate_candidates_rejects cands by fastforce
  then have d: "distinct (map (prob_key R cfg) records)" by (simp add: prob_input_ok_def)
  have keys: "\<forall>((a, b), _) \<in> set cands. a \<in> fst ` set ?bk \<and> b \<in> fst ` set ?bk"
    using generate_candidates_keys [OF cands] by (auto simp: image_image)
  have found: "map_of ?bk (prob_key R cfg rec) = Some rec" if "rec \<in> set records" for rec
    using d that by (intro map_of_is_SomeI) (auto simp: comp_def)
  have sims: "\<forall>c \<in> set (pm_comparisons cfg). \<forall>a \<in> fst ` set ?bk. \<forall>b \<in> fst ` set ?bk.
      \<exists>r1 r2. map_of ?bk a = Some r1 \<and> map_of ?bk b = Some r2
        \<and> (\<exists>s. similarity R (get_field r1 (cf_field c)) (get_field r2 (cf_field c)) c = Inr s)"
  proof (intro ballI)
    fix c a b assume c: "c \<in> set (pm_comparisons cfg)" and "a \<in> fst ` set ?bk" "b \<in> fst ` set ?bk"
    then obtain r1 r2 where r: "r1 \<in> set records" "a = prob_key R cfg r1" "r2 \<in> set records" "b = prob_key R cfg r2" by auto
    have "\<exists>s. similarity R (get_field r1 (cf_field c)) (get_field r2 (cf_field c)) c = Inr s"
      by (rule similarity_total) (use values_ok c r in \<open>auto simp: comparable_def\<close>)
    with found r show "\<exists>r1 r2. map_of ?bk a = Some r1 \<and> map_of ?bk b = Some r2
        \<and> (\<exists>s. similarity R (get_field r1 (cf_field c)) (get_field r2 (cf_field c)) c = Inr s)" by blast
  qed
  have by_key: "key_records R cfg records = ?bk" by (rule key_records_eq [OF d])
  have default_ok: "params_given_ok cfg (default_parameters cfg)"
    using cfg by (intro default_parameters_ok) (simp add: prob_match_config_ok_def)
  have estimated: "\<exists>ps. estimate_parameters R records t cfg = Inr ps \<and> params_given_ok cfg ps" for t
    by (rule estimate_total [OF sims by_key])
  have "\<exists>ps. choose_parameters R records cfg truth params = Inr ps \<and> params_given_ok cfg ps"
    using default_ok estimated given by (auto simp: choose_parameters_def split: option.split list.split)
  then obtain ps where ps: "choose_parameters R records cfg truth params = Inr ps" "params_given_ok cfg ps" by blast
  from score_total [OF cfg ps(2) sims keys] obtain sc where
    sc: "res_fold (score_pair R cfg ?bk ps) cands [] = Inr sc" by blast
  have len: "length sc = length cands" using score_pairs_length [OF sc] by simp
  let ?items = "sort_key (\<lambda>(_, _, _, p). - p) sc"
  have items: "\<forall>((a, b), _) \<in> set ?items. a \<in> fst ` set ?bk \<and> b \<in> fst ` set ?bk"
    using score_pairs_keys [OF sc] keys by fastforce
  have init: "prob_inv R ?bk (prob_init R ?bk)"
    using d le by (intro prob_init_inv) (simp_all add: o_def)
  from cluster_all_ok [OF init items, of cfg] obtain st where
    "res_fold (cluster_step R cfg ?bk) ?items (prob_init R ?bk) = Inr st"
    "length (ps_results st) = length ?items" by (auto simp: prob_init_def)
  then show ?thesis
    using cands sc len ps(1) by (simp add: prob_run_def by_key Let_def)
qed

lemma demo_comparable: "comparable ascii_runtime demo_prob_config demo_rows"
  by (simp add: comparable_def comparable_field_def demo_prob_config_def)

lemma demo_run_returns:
  "\<exists>res. prob_run ascii_runtime demo_rows demo_prob_config None None = Inr res \<and> length (pr_candidates res) = length [((''a'', ''b''), [''by_name''])]"
  by (rule prob_run_total [OF demo_prob_config_ok demo_comparable _ demo_rows_ok(3,2)]) simp

section \<open>Properties of a run\<close>

text \<open>
  C4: whatever the scores and parameters, a run never puts two different employee
  identifiers into one cluster: if a chain of auto matches joins two records and both
  have a normalised employee id, the ids are equal.
\<close>

theorem prob_never_mixes_employees:
  assumes "prob_run R records cfg truth params = Inr res" and "length records \<le> rt_recursion_limit R"
    and "r1 \<in> set records" and "r2 \<in> set records"
    and "linked (auto_pairs (pr_candidates res)) (prob_key R cfg r1) (prob_key R cfg r2)"
    and "v \<in> employee_ids R r1" and "w \<in> employee_ids R r2"
  shows "v = w"
proof -
  let ?bk = "map (\<lambda>rec. (prob_key R cfg rec, rec)) records"
  from prob_run_inv [OF assms(1,2)] have "trust_ok (ids_of R ?bk) {} (auto_pairs (pr_candidates res))"
    by (auto simp: prob_inv_alt)
  moreover have "ids_of R ?bk (prob_key R cfg r) = employee_ids R r" if "r \<in> set records" for r
    using prob_run_keys [OF assms(1)] that by (simp add: ids_of_def map_of_key)
  ultimately have "linked {} v w" using assms(3-7) unfolding trust_ok_def by simp
  then show ?thesis by simp
qed

theorem prob_never_mixes_employees_witness:
  "\<exists>res. prob_run ascii_runtime demo_rows demo_prob_config None None = Inr res
    \<and> \<not> linked (auto_pairs (pr_candidates res)) ''a'' ''b''"
proof -
  from demo_run_returns obtain res where
    res: "prob_run ascii_runtime demo_rows demo_prob_config None None = Inr res" by blast
  have r: "demo_rows ! 0 \<in> set demo_rows" "demo_rows ! 1 \<in> set demo_rows"
    "prob_key ascii_runtime demo_prob_config (demo_rows ! 0) = ''a''"
    "prob_key ascii_runtime demo_prob_config (demo_rows ! 1) = ''b''"
    "''E1'' \<in> employee_ids ascii_runtime (demo_rows ! 0)"
    "''E2'' \<in> employee_ids ascii_runtime (demo_rows ! 1)" by code_simp+
  have "\<not> linked (auto_pairs (pr_candidates res)) ''a'' ''b''"
    using prob_never_mixes_employees [OF res demo_rows_ok(3) r(1,2) _ r(5,6)] unfolding r(3,4) by auto
  with res show ?thesis by (intro exI [of _ res] conjI)
qed

text \<open>
  C5: every decision reports the sizes its two clusters and their union have when the
  decision is taken, given the auto matches before it, and it is a trusted-id conflict
  exactly when these clusters carry different employee ids.
\<close>

theorem prob_decisions_report_clusters:
  assumes "prob_run R records cfg truth params = Inr res" and "length records \<le> rt_recursion_limit R"
    and "i < length (pr_candidates res)"
  shows "impact_ok R (map (\<lambda>rec. (prob_key R cfg rec, rec)) records)
    (take i (pr_candidates res)) (pr_candidates res ! i)"
  using prob_run_inv [OF assms(1,2)] assms(3) by (auto simp: prob_inv_alt)

theorem prob_decisions_report_clusters_witness:
  "\<exists>res. prob_run ascii_runtime demo_rows demo_prob_config None None = Inr res
    \<and> impact_ok ascii_runtime (map (\<lambda>rec. (prob_key ascii_runtime demo_prob_config rec, rec)) demo_rows)
        [] (pr_candidates res ! 0)"
proof -
  from demo_run_returns obtain res where
    res: "prob_run ascii_runtime demo_rows demo_prob_config None None = Inr res"
      "length (pr_candidates res) = length [((''a'', ''b''), [''by_name''])]" by blast
  then have len: "0 < length (pr_candidates res)" by simp
  from prob_decisions_report_clusters [OF res(1) demo_rows_ok(3) len] res(1) show ?thesis by auto
qed

text \<open>
  C6: a run on records whose candidates were generated returns, with one decision for each candidate, whatever truth it estimates
  from and whatever usable parameters it is handed: no lookup, comparison, logarithm or union-find step raises. The
  configuration is accepted, there are no more records than the recursion limit, no integer of a numeric comparison is too
  large for \<^verbatim>\<open>float\<close>, and the timestamps of a date comparison are all aware or all naive (those two raise
  in the code, too).
\<close>

theorem prob_run_returns:
  assumes "prob_match_config_ok cfg" and "comparable R cfg records"
    and "\<forall>p ps. params = Some (p # ps) \<longrightarrow> params_given_ok cfg (p # ps)"
    and "length records \<le> rt_recursion_limit R" and "generate_candidates R records cfg = Inr cands"
  shows "\<exists>res. prob_run R records cfg truth params = Inr res \<and> length (pr_candidates res) = length cands"
  by (rule prob_run_total [OF assms])

text \<open>Dates and numbers compared, the parameters estimated from a truth.\<close>

definition mixed_config :: prob_match_config where
  "mixed_config = demo_prob_config\<lparr>pm_comparisons :=
     [\<lparr>cf_field = ''born'', cf_method = ''date_distance'', cf_weight = 1, cf_agreement_probability = 9 / 10,
        cf_random_agreement_probability = 1 / 10, cf_tolerance = 2\<rparr>,
      \<lparr>cf_field = ''age'', cf_method = ''numeric_distance'', cf_weight = 1, cf_agreement_probability = 8 / 10,
        cf_random_agreement_probability = 2 / 10, cf_tolerance = 5\<rparr>]\<rparr>"

definition mixed_rows :: "pyrec list" where
  "mixed_rows = map (\<lambda>(k, n, d, a). [(''key'', PStr k), (''org'', PStr ''o''), (''name'', PStr n), (''born'', PStr d), (''age'', a)])
     [(''a'', ''x'', ''1'', PInt 30), (''b'', ''x'', ''2'', PInt 31), (''c'', ''x'', ''?'', PStr ''old'')]"

definition mixed_runtime :: runtime where
  "mixed_runtime = ascii_runtime\<lparr>rt_fromiso := (\<lambda>s. if s \<noteq> [] \<and> list_all is_digit s
     then Some \<lparr>dt_wall = int (nat_of_digits s), dt_offset = None\<rparr> else None)\<rparr>"

lemma mixed_rows_ok:
  "generate_candidates mixed_runtime mixed_rows mixed_config =
     Inr [((''a'', ''b''), [''by_name'']), ((''a'', ''c''), [''by_name'']), ((''b'', ''c''), [''by_name''])]"
  "length mixed_rows \<le> rt_recursion_limit mixed_runtime"
  by code_simp+

theorem prob_run_returns_witness:
  "\<exists>res. prob_run mixed_runtime mixed_rows mixed_config (Some [(''a'', ''p''), (''b'', ''p''), (''c'', ''q'')]) None = Inr res
    \<and> length (pr_candidates res) = 3"
proof -
  have "prob_match_config_ok mixed_config"
    by (simp add: prob_match_config_ok_def mixed_config_def demo_prob_config_def comparison_field_config_ok_def)
  moreover have "comparable mixed_runtime mixed_config mixed_rows"
  proof -
    have "(30 :: int) < FLOAT_BOUND" "(31 :: int) < FLOAT_BOUND"
      using float_of_int_small [of 30] float_of_int_small [of 31] by (auto simp: float_of_int_def split: if_splits)
    moreover have "rt_fromiso mixed_runtime s = Some d \<Longrightarrow> dt_offset d = None" for s d
      by (auto simp: mixed_runtime_def split: if_splits)
    ultimately show ?thesis
      by (auto simp: comparable_def comparable_field_def mixed_config_def mixed_rows_def get_field_def)
  qed
  ultimately show ?thesis
    using prob_run_returns [OF _ _ _ mixed_rows_ok(2,1), of None] by (simp add: numeral_3_eq_3)
qed

end
