(* ===== verification/Validation_Engine.thy ===== *)
theory Validation_Engine
  imports Deterministic
begin

text \<open>
  The rule engine (\<^verbatim>\<open>validation/engine.py\<close>): record rules one record at a time, the three
  rule types that look at the whole batch (unique, reference, cross_source), and the
  summaries and quality dimensions. Exceptions the engine does not catch (an unhashable
  group key, a malformed bound or pattern) are results of the model too.
\<close>

section \<open>Data\<close>

record validation_issue =
  vi_rule_id :: string
  vi_severity :: string
  vi_source_record_key :: string
  vi_fields :: "string list"
  vi_explanation :: string
  vi_evidence_masked :: "string option"

record rule_summary =
  rsm_rule_id :: string
  rsm_category :: string
  rsm_evaluated_count :: nat
  rsm_failed_count :: nat
  rsm_passed :: bool

record quality_dimension =
  qd_evaluated :: nat
  qd_failed :: nat
  qd_pass_rate :: real

record validation_run_result =
  vrr_issues :: "validation_issue list"
  vrr_summaries :: "rule_summary list"
  vrr_quality_dimensions :: "(string \<times> quality_dimension) list"
  vrr_blocking_failures :: nat

definition CATEGORY_BY_RULE :: "(string \<times> string) list" where
  "CATEGORY_BY_RULE =
     [(''schema'', ''structural''), (''required'', ''completeness''), (''allowed_values'', ''validity''),
      (''range'', ''validity''), (''pattern'', ''validity''), (''unique'', ''uniqueness''),
      (''reference'', ''consistency''), (''temporal'', ''consistency''), (''cross_source'', ''consistency''),
      (''timeliness'', ''timeliness'')]"

section \<open>Issues\<close>

fun first_truthy :: "pyrec \<Rightarrow> string list \<Rightarrow> pyval option" where
  "first_truthy rec [] = None"
| "first_truthy rec (f # fs) = (if truthy (get_field rec f) then Some (get_field rec f) else first_truthy rec fs)"

definition record_key :: "runtime \<Rightarrow> pyrec \<Rightarrow> nat \<Rightarrow> string" where
  "record_key R rec index =
     (case first_truthy rec [''record_key'', ''source_record_key'', ''employee_id'', ''assignment_id''] of
        Some v \<Rightarrow> py_str R v
      | None \<Rightarrow> ''row-'' @ nat_str (index + 1))"

definition masked :: "runtime \<Rightarrow> pyrec \<Rightarrow> string list \<Rightarrow> string option" where
  "masked R rec flds =
     (let present = map (\<lambda>f. py_str R (get_field rec f)) (filter (\<lambda>f. \<not> blank (get_field rec f)) flds) in
      if present = [] then None else Some (''sha256:'' @ take 16 (rt_sha256 R (join ''|'' present))))"

definition record_issue :: "runtime \<Rightarrow> validation_rule_config \<Rightarrow> pyrec \<Rightarrow> nat \<Rightarrow> validation_issue" where
  "record_issue R rule rec index =
     \<lparr>vi_rule_id = vr_rule_id rule, vi_severity = vr_severity rule,
      vi_source_record_key = record_key R rec index, vi_fields = vr_fields rule,
      vi_explanation = vr_explanation rule, vi_evidence_masked = masked R rec (vr_fields rule)\<rparr>"

section \<open>Record rules\<close>

text \<open>\<^verbatim>\<open>_parse_datetime\<close>: microseconds in UTC, a naive timestamp read as UTC.\<close>

definition parse_datetime :: "runtime \<Rightarrow> pyval \<Rightarrow> int option" where
  "parse_datetime R v = (case rt_fromiso R (iso_text R v) of
       None \<Rightarrow> None
     | Some d \<Rightarrow> Some (case dt_offset d of None \<Rightarrow> dt_wall d | Some o' \<Rightarrow> dt_wall d - o'))"

fun float_le :: "pyfloat \<Rightarrow> pyfloat \<Rightarrow> bool" where
  "float_le NaN y = False"
| "float_le x NaN = False"
| "float_le NegInf y = True"
| "float_le x PosInf = True"
| "float_le (Fin x) (Fin y) = (x \<le> y)"
| "float_le PosInf y = False"
| "float_le x NegInf = False"

definition has_type :: "pyval \<Rightarrow> string \<Rightarrow> bool" where
  "has_type v t = (case v of
       PStr _ \<Rightarrow> t = ''str''
     | PInt _ \<Rightarrow> t = ''int'' \<or> t = ''number''
     | PFloat _ \<Rightarrow> t = ''number''
     | PBool _ \<Rightarrow> t = ''bool''
     | PDict _ \<Rightarrow> t = ''object''
     | PList _ \<Rightarrow> t = ''list''
     | PTime _ \<Rightarrow> False
     | PNone \<Rightarrow> False)"

definition eval_schema :: "runtime \<Rightarrow> validation_rule_config \<Rightarrow> pyrec \<Rightarrow> bool" where
  "eval_schema R rule rec =
     (let expected_types = (case get_field_or (vr_parameters rule) ''types'' (PList []) of PList ts \<Rightarrow> ts | _ \<Rightarrow> []) in
      length expected_types = length (vr_fields rule)
      \<and> list_all (\<lambda>(f, t). get_field rec f = PNone \<or> has_type (get_field rec f) (py_str R t))
          (zip (vr_fields rule) expected_types))"

definition eval_allowed :: "runtime \<Rightarrow> validation_rule_config \<Rightarrow> pyrec \<Rightarrow> bool" where
  "eval_allowed R rule rec =
     (let raw = get_field_or (vr_parameters rule) ''values'' (PList []);
          allowed = map (py_str R) (case raw of PList vs \<Rightarrow> vs | v \<Rightarrow> [v])
      in list_all (\<lambda>f. blank (get_field rec f) \<or> py_str R (get_field rec f) \<in> set allowed) (vr_fields rule))"

text \<open>A bound of a range rule; what \<^verbatim>\<open>float\<close> raises here is outside the handler.\<close>

definition bound :: "runtime \<Rightarrow> pyval \<Rightarrow> pyfloat \<Rightarrow> pyfloat res" where
  "bound R raw dflt = (case raw of
       PStr _ \<Rightarrow> py_float R raw
     | PInt _ \<Rightarrow> py_float R raw
     | PFloat _ \<Rightarrow> py_float R raw
     | _ \<Rightarrow> Inr dflt)"

text \<open>The loop over the values stops at the first one that is no number or out of range; an overflow is not caught.\<close>

fun all_in_range :: "runtime \<Rightarrow> pyfloat \<Rightarrow> pyfloat \<Rightarrow> pyval list \<Rightarrow> bool res" where
  "all_in_range R minimum maximum [] = Inr True"
| "all_in_range R minimum maximum (v # vs) =
     (if blank v then all_in_range R minimum maximum vs
      else case try_float R v of
        Inl e \<Rightarrow> Inl e
      | Inr None \<Rightarrow> Inr False
      | Inr (Some x) \<Rightarrow>
          if float_le minimum x \<and> float_le x maximum then all_in_range R minimum maximum vs else Inr False)"

definition eval_range :: "runtime \<Rightarrow> validation_rule_config \<Rightarrow> pyrec \<Rightarrow> bool res" where
  "eval_range R rule rec =
     (case bound R (get_field (vr_parameters rule) ''min'') NegInf of Inl e \<Rightarrow> Inl e | Inr minimum \<Rightarrow>
      case bound R (get_field (vr_parameters rule) ''max'') PosInf of Inl e \<Rightarrow> Inl e | Inr maximum \<Rightarrow>
        all_in_range R minimum maximum (map (get_field rec) (vr_fields rule)))"

definition eval_pattern :: "runtime \<Rightarrow> validation_rule_config \<Rightarrow> pyrec \<Rightarrow> bool res" where
  "eval_pattern R rule rec =
     (let pattern = py_str R (get_field_or (vr_parameters rule) ''regex'' (PStr ''.*''));
          allow_blank = truthy (get_field_or (vr_parameters rule) ''allow_blank'' (PBool False))
      in if rt_fullmatch R pattern [] = None then Inl (RuntimeError ''re.error'')
         else Inr (list_all (\<lambda>f. let v = get_field rec f in
                (allow_blank \<and> blank v)
                \<or> (\<not> blank v \<and> rt_fullmatch R pattern (py_str R v) = Some True)) (vr_fields rule)))"

definition eval_temporal :: "runtime \<Rightarrow> validation_rule_config \<Rightarrow> pyrec \<Rightarrow> bool" where
  "eval_temporal R rule rec = (case map (get_field rec) (vr_fields rule) of
       [left, right] \<Rightarrow>
         if blank right \<and> truthy (get_field_or (vr_parameters rule) ''allow_blank_right'' (PBool False)) then True
         else if blank left \<or> blank right then False
         else (case (parse_datetime R left, parse_datetime R right) of
                 (Some l, Some r) \<Rightarrow>
                   if py_str R (get_field_or (vr_parameters rule) ''relation'' (PStr ''before_or_equal''))
                        = ''before_or_equal''
                   then l \<le> r else l < r
               | _ \<Rightarrow> False)
     | _ \<Rightarrow> False)"

text \<open>\<^verbatim>\<open>int(raw_max_age)\<close>: \<open>None\<close> for the exceptions the rule catches.\<close>

definition py_int :: "runtime \<Rightarrow> pyval \<Rightarrow> int option res" where
  "py_int R v = (case v of
       PInt i \<Rightarrow> Inr (Some i)
     | PStr s \<Rightarrow> Inr (rt_int R s)
     | PFloat (Fin x) \<Rightarrow> Inr (Some (if 0 \<le> x then \<lfloor>x\<rfloor> else \<lceil>x\<rceil>))
     | PFloat NaN \<Rightarrow> Inr None
     | PFloat _ \<Rightarrow> Inl OverflowError
     | _ \<Rightarrow> Inr None)"

definition eval_timeliness :: "runtime \<Rightarrow> validation_rule_config \<Rightarrow> pyrec \<Rightarrow> bool res" where
  "eval_timeliness R rule rec = (case map (get_field rec) (vr_fields rule) of
       [] \<Rightarrow> Inr False
     | v # _ \<Rightarrow>
         if blank v then Inr False
         else (case parse_datetime R v of None \<Rightarrow> Inr False | Some observed \<Rightarrow>
               case map_of (vr_parameters rule) ''as_of'' of None \<Rightarrow> Inr False | Some a \<Rightarrow>
               case parse_datetime R a of None \<Rightarrow> Inr False | Some as_of \<Rightarrow>
               case map_of (vr_parameters rule) ''max_age_days'' of None \<Rightarrow> Inr False | Some m \<Rightarrow>
               case py_int R m of Inl e \<Rightarrow> Inl e | Inr None \<Rightarrow> Inr False | Inr (Some max_age_days) \<Rightarrow>
                 let days = (as_of - observed) div 86400000000 in Inr (0 \<le> days \<and> days \<le> max_age_days)))"

definition evaluate_record_rule :: "runtime \<Rightarrow> validation_rule_config \<Rightarrow> pyrec \<Rightarrow> bool res" where
  "evaluate_record_rule R rule rec =
     (if vr_rule_type rule = ''schema'' then Inr (eval_schema R rule rec)
      else if vr_rule_type rule = ''required''
      then Inr (list_all (\<lambda>f. \<not> blank (get_field rec f)) (vr_fields rule))
      else if vr_rule_type rule = ''allowed_values'' then Inr (eval_allowed R rule rec)
      else if vr_rule_type rule = ''range'' then eval_range R rule rec
      else if vr_rule_type rule = ''pattern'' then eval_pattern R rule rec
      else if vr_rule_type rule = ''temporal'' then Inr (eval_temporal R rule rec)
      else if vr_rule_type rule = ''timeliness'' then eval_timeliness R rule rec
      else Inr True)"

section \<open>Batch rules\<close>

text \<open>
  A value as a member of a set or key of a dict: numbers compare by value whatever
  their type, aware timestamps by instant, a NaN equals no other NaN (it is tagged with the row it comes from), and
  lists and dicts are not hashable.
\<close>

definition hash_key :: "nat \<Rightarrow> pyval \<Rightarrow> pyval option" where
  "hash_key index v = (case v of
       PList _ \<Rightarrow> None
     | PDict _ \<Rightarrow> None
     | PBool b \<Rightarrow> Some (PFloat (Fin (if b then 1 else 0)))
     | PInt i \<Rightarrow> Some (PFloat (Fin (of_int i)))
     | PFloat NaN \<Rightarrow> Some (PList [PInt (int index)])
     | PTime t \<Rightarrow> Some (PTime (case dt_offset t of None \<Rightarrow> t | Some z \<Rightarrow> \<lparr>dt_wall = dt_wall t - z, dt_offset = Some 0\<rparr>))
     | _ \<Rightarrow> Some v)"

fun hash_all :: "nat \<Rightarrow> pyval list \<Rightarrow> pyval list option" where
  "hash_all index [] = Some []"
| "hash_all index (v # vs) =
     (case hash_key index v of None \<Rightarrow> None
      | Some k \<Rightarrow> map_option (Cons k) (hash_all index vs))"

text \<open>The loop that groups row numbers by the tuple of some fields.\<close>

fun tuple_keys :: "string list \<Rightarrow> (nat \<times> pyrec) list \<Rightarrow> (pyval list \<times> nat) list res" where
  "tuple_keys flds [] = Inr []"
| "tuple_keys flds ((i, rec) # rows) =
     (case hash_all i (map (get_field rec) flds) of None \<Rightarrow> Inl TypeError
      | Some k \<Rightarrow> (case tuple_keys flds rows of Inl e \<Rightarrow> Inl e | Inr ks \<Rightarrow> Inr ((k, i) # ks)))"

definition unique_failed :: "validation_rule_config \<Rightarrow> pyrec list \<Rightarrow> nat list res" where
  "unique_failed rule records =
     (case tuple_keys (vr_fields rule) (List.enumerate 0 records) of Inl e \<Rightarrow> Inl e | Inr ks \<Rightarrow>
        Inr (concat (map (\<lambda>(key, indices).
               if list_ex (\<lambda>v. \<not> blank v) key \<and> length indices > 1 then indices else []) (group_pairs ks []))))"

definition reference_failed :: "runtime \<Rightarrow> (string \<times> string list) list \<Rightarrow> validation_rule_config \<Rightarrow> pyrec list \<Rightarrow> nat list" where
  "reference_failed R references rule records =
     (let reference_name = py_str R (get_field_or (vr_parameters rule) ''reference_set'' (PStr []));
          allowed = (case map_of references reference_name of None \<Rightarrow> [] | Some a \<Rightarrow> a)
      in map fst (filter (\<lambda>(i, rec). list_ex (\<lambda>f. \<not> blank (get_field rec f)
              \<and> py_str R (get_field rec f) \<notin> set allowed) (vr_fields rule)) (List.enumerate 0 records)))"

definition param_list :: "runtime \<Rightarrow> pyrec \<Rightarrow> string \<Rightarrow> string list" where
  "param_list R ps k = (case get_field_or ps k (PList []) of PList vs \<Rightarrow> map (py_str R) vs | _ \<Rightarrow> [])"

text \<open>The set \<^verbatim>\<open>observed\<close> of one group and field.\<close>

fun observed_values :: "pyrec list \<Rightarrow> string \<Rightarrow> nat list \<Rightarrow> pyval set res" where
  "observed_values records field [] = Inr {}"
| "observed_values records field (i # is) =
     (let v = get_field (records ! i) field in
      if blank v then observed_values records field is
      else case hash_key i v of None \<Rightarrow> Inl TypeError
        | Some k \<Rightarrow> (case observed_values records field is of Inl e \<Rightarrow> Inl e | Inr vs \<Rightarrow> Inr (insert k vs)))"

definition cross_step :: "pyrec list \<Rightarrow> nat list \<times> string \<Rightarrow> nat list \<Rightarrow> nat list res" where
  "cross_step records p failed = (case p of (indices, field) \<Rightarrow>
     case observed_values records field indices of Inl e \<Rightarrow> Inl e
     | Inr vs \<Rightarrow> Inr (if card vs > 1 then failed @ indices else failed))"

definition cross_failed :: "runtime \<Rightarrow> validation_rule_config \<Rightarrow> pyrec list \<Rightarrow> nat list res" where
  "cross_failed R rule records =
     (let key_fields = param_list R (vr_parameters rule) ''key_fields'';
          compare_fields = param_list R (vr_parameters rule) ''compare_fields''
      in case tuple_keys key_fields (List.enumerate 0 records) of Inl e \<Rightarrow> Inl e | Inr ks \<Rightarrow>
         res_fold (cross_step records)
           (concat (map (\<lambda>(key, indices). map (Pair indices) compare_fields) (group_pairs ks []))) [])"

fun record_failed :: "runtime \<Rightarrow> validation_rule_config \<Rightarrow> (nat \<times> pyrec) list \<Rightarrow> nat list res" where
  "record_failed R rule [] = Inr []"
| "record_failed R rule ((i, rec) # rows) =
     (case evaluate_record_rule R rule rec of Inl e \<Rightarrow> Inl e | Inr ok \<Rightarrow>
      case record_failed R rule rows of Inl e \<Rightarrow> Inl e | Inr is \<Rightarrow> Inr (if ok then is else i # is))"

definition failed_indices :: "runtime \<Rightarrow> (string \<times> string list) list \<Rightarrow> validation_rule_config \<Rightarrow> pyrec list
    \<Rightarrow> nat list res" where
  "failed_indices R references rule records =
     map_sum id (\<lambda>is. sort (remdups is))
       (if vr_rule_type rule = ''unique'' then unique_failed rule records
        else if vr_rule_type rule = ''reference'' then Inr (reference_failed R references rule records)
        else if vr_rule_type rule = ''cross_source'' then cross_failed R rule records
        else record_failed R rule (List.enumerate 0 records))"

section \<open>The run\<close>

definition summarize :: "validation_rule_config \<Rightarrow> pyrec list \<Rightarrow> nat list \<Rightarrow> rule_summary" where
  "summarize rule records failed =
     \<lparr>rsm_rule_id = vr_rule_id rule,
      rsm_category = (case map_of CATEGORY_BY_RULE (vr_rule_type rule) of None \<Rightarrow> [] | Some c \<Rightarrow> c),
      rsm_evaluated_count = length records, rsm_failed_count = length failed, rsm_passed = (failed = [])\<rparr>"

definition rule_step :: "runtime \<Rightarrow> (string \<times> string list) list \<Rightarrow> pyrec list \<Rightarrow> validation_rule_config
    \<Rightarrow> validation_issue list \<times> rule_summary list \<Rightarrow> (validation_issue list \<times> rule_summary list) res" where
  "rule_step R references records rule acc = (case acc of (issues, summaries) \<Rightarrow>
     case failed_indices R references rule records of Inl e \<Rightarrow> Inl e | Inr failed \<Rightarrow>
       Inr (issues @ map (\<lambda>i. record_issue R rule (records ! i) i) failed,
            summaries @ [summarize rule records failed]))"

definition dimension :: "rule_summary list \<Rightarrow> string \<Rightarrow> quality_dimension" where
  "dimension summaries name =
     (let own = filter (\<lambda>s. rsm_category s = name) summaries;
          evaluated = sum_list (map rsm_evaluated_count own);
          failed = sum_list (map rsm_failed_count own)
      in \<lparr>qd_evaluated = evaluated, qd_failed = failed,
          qd_pass_rate = (if evaluated \<noteq> 0 then round8 (1 - real failed / real evaluated) else 1)\<rparr>)"

definition engine_validate :: "runtime \<Rightarrow> pyrec list \<Rightarrow> validation_config \<Rightarrow> (string \<times> string list) list
    \<Rightarrow> validation_run_result res" where
  "engine_validate R records config references =
     (case res_fold (rule_step R references records) (vc_rules config) ([], []) of Inl e \<Rightarrow> Inl e
      | Inr (issues, summaries) \<Rightarrow>
        let blocking_rule_ids = map vr_rule_id (filter (\<lambda>r. vr_severity r = ''blocking'') (vc_rules config)) in
        Inr \<lparr>vrr_issues = issues, vrr_summaries = summaries,
             vrr_quality_dimensions =
               map (\<lambda>name. (name, dimension summaries name)) (sort (remdups (map rsm_category summaries))),
             vrr_blocking_failures =
               length (filter (\<lambda>i. vi_rule_id i \<in> set blocking_rule_ids) issues)\<rparr>)"

section \<open>Lemmas: groups of rows\<close>

definition row_key :: "string list \<Rightarrow> pyrec list \<Rightarrow> nat \<Rightarrow> pyval list option" where
  "row_key flds records i = hash_all i (map (get_field (records ! i)) flds)"

lemma tuple_keys_spec:
  "tuple_keys flds rows = Inr ks \<Longrightarrow>
     map snd ks = map fst rows \<and> (\<forall>(k, i) \<in> set ks. \<exists>rec. (i, rec) \<in> set rows \<and> hash_all i (map (get_field rec) flds) = Some k)"
  by (induction flds rows arbitrary: ks rule: tuple_keys.induct)
     (fastforce split: option.splits sum.splits)+

lemma tuple_keys_mem:
  assumes "tuple_keys flds (List.enumerate 0 records) = Inr ks"
  shows "(k, i) \<in> set ks \<longleftrightarrow> i < length records \<and> row_key flds records i = Some k"
proof -
  have sp: "map snd ks = [0..<length records]"
    "\<forall>(k, i) \<in> set ks. i < length records \<and> row_key flds records i = Some k"
    using tuple_keys_spec [OF assms] by (auto simp: in_set_enumerate_eq row_key_def)
  show ?thesis
  proof
    assume "i < length records \<and> row_key flds records i = Some k"
    moreover from this sp(1) have "i \<in> set (map snd ks)" by simp
    then obtain k' where "(k', i) \<in> set ks" by auto
    moreover from this sp(2) have "row_key flds records i = Some k'" by blast
    ultimately show "(k, i) \<in> set ks" by simp
  qed (use sp(2) in blast)
qed

lemma tuple_keys_distinct:
  assumes "tuple_keys flds (List.enumerate 0 records) = Inr ks"
  shows "distinct (map snd ks)"
  using tuple_keys_spec [OF assms] by simp

lemma filter_two:
  assumes "distinct (map snd ps)" and "(k, i) \<in> set ps"
  shows "1 < length (filter (\<lambda>p. fst p = k) ps) \<longleftrightarrow> (\<exists>j. j \<noteq> i \<and> (k, j) \<in> set ps)"
proof -
  let ?xs = "filter (\<lambda>p. fst p = k) ps"
  have d: "distinct (map snd ?xs)" using assms(1) by (rule distinct_map_filter)
  have set: "set (map snd ?xs) = {j. (k, j) \<in> set ps}" by force
  have "length ?xs = card {j. (k, j) \<in> set ps}"
    using distinct_card [OF d] unfolding set by simp
  moreover have "finite {j. (k, j) \<in> set ps}" using set by (metis List.finite_set)
  ultimately show ?thesis
    using assms(2) card_le_Suc0_iff_eq [of "{j. (k, j) \<in> set ps}"]
    by (metis (mono_tags, lifting) mem_Collect_eq One_nat_def not_less)
qed

lemma unique_failed_iff:
  assumes "unique_failed rule records = Inr is"
  shows "i \<in> set is \<longleftrightarrow> i < length records
    \<and> (\<exists>k. row_key (vr_fields rule) records i = Some k \<and> list_ex (\<lambda>v. \<not> blank v) k
         \<and> (\<exists>j < length records. j \<noteq> i \<and> row_key (vr_fields rule) records j = Some k))"
proof -
  from assms obtain ks where t: "tuple_keys (vr_fields rule) (List.enumerate 0 records) = Inr ks"
    and "is": "is = concat (map (\<lambda>(key, indices).
        if list_ex (\<lambda>v. \<not> blank v) key \<and> length indices > 1 then indices else []) (group_pairs ks []))"
    by (auto simp: unique_failed_def split: sum.splits)
  note mem = tuple_keys_mem [OF t] and d = tuple_keys_distinct [OF t]
  have "i \<in> set is \<longleftrightarrow> (\<exists>k xs. (k, xs) \<in> set (group_pairs ks []) \<and> list_ex (\<lambda>v. \<not> blank v) k
      \<and> 1 < length xs \<and> i \<in> set xs)"
    unfolding "is" by (auto split: if_splits)
  also have "\<dots> \<longleftrightarrow> (\<exists>k. (k, i) \<in> set ks \<and> list_ex (\<lambda>v. \<not> blank v) k
      \<and> 1 < length (filter (\<lambda>p. fst p = k) ks))"
  proof (intro iffI; elim exE conjE)
    fix k xs
    assume m: "(k, xs) \<in> set (group_pairs ks [])" "list_ex (\<lambda>v. \<not> blank v) k" "1 < length xs" "i \<in> set xs"
    have xs: "xs = map snd (filter (\<lambda>p. fst p = k) ks)" by (rule group_pairs_mem(1) [OF m(1)])
    with m(4) have "(k, i) \<in> set ks" by force
    with m(2,3) xs show "\<exists>k. (k, i) \<in> set ks \<and> list_ex (\<lambda>v. \<not> blank v) k \<and> 1 < length (filter (\<lambda>p. fst p = k) ks)"
      by auto
  next
    fix k
    assume m: "(k, i) \<in> set ks" "list_ex (\<lambda>v. \<not> blank v) k" "1 < length (filter (\<lambda>p. fst p = k) ks)"
    from group_pairs_complete [OF m(1)] m show "\<exists>k xs. (k, xs) \<in> set (group_pairs ks [])
        \<and> list_ex (\<lambda>v. \<not> blank v) k \<and> 1 < length xs \<and> i \<in> set xs" by force
  qed
  also have "\<dots> \<longleftrightarrow> (\<exists>k. (k, i) \<in> set ks \<and> list_ex (\<lambda>v. \<not> blank v) k \<and> (\<exists>j. j \<noteq> i \<and> (k, j) \<in> set ks))"
    using filter_two [OF d] by blast
  finally show ?thesis unfolding mem by blast
qed

section \<open>Lemmas: counting\<close>

lemma sorted_distinct_failed:
  assumes "failed_indices R refs rule records = Inr fs"
  shows "sorted fs" and "distinct fs"
  using assms by (cases "if vr_rule_type rule = ''unique'' then unique_failed rule records
        else if vr_rule_type rule = ''reference'' then Inr (reference_failed R refs rule records)
        else if vr_rule_type rule = ''cross_source'' then cross_failed R rule records
        else record_failed R rule (List.enumerate 0 records)"; auto simp: failed_indices_def)+

lemma record_failed_range:
  "record_failed R rule rows = Inr fs \<Longrightarrow> set fs \<subseteq> fst ` set rows"
  by (induction R rule rows arbitrary: fs rule: record_failed.induct) (fastforce split: sum.splits if_splits)+

lemma observed_range: "res_fold (cross_step records) ps acc = Inr fs \<Longrightarrow>
    set fs \<subseteq> set acc \<union> (\<Union>p \<in> set ps. set (fst p))"
  by (induction ps arbitrary: acc) (fastforce simp: cross_step_def split: sum.splits prod.splits if_splits)+

lemma group_members:
  assumes "tuple_keys flds (List.enumerate 0 records) = Inr ks" and "(k, xs) \<in> set (group_pairs ks [])"
  shows "set xs \<subseteq> {..<length records}"
  using group_pairs_mem(1) [OF assms(2)] tuple_keys_mem [OF assms(1)] by auto

lemma cross_failed_range:
  assumes "cross_failed R rule records = Inr fs"
  shows "set fs \<subseteq> {..<length records}"
proof -
  from assms obtain ks where t: "tuple_keys (param_list R (vr_parameters rule) ''key_fields'') (List.enumerate 0 records) = Inr ks"
    and f: "res_fold (cross_step records) (concat (map (\<lambda>(key, indices).
        map (Pair indices) (param_list R (vr_parameters rule) ''compare_fields'')) (group_pairs ks []))) [] = Inr fs"
    by (auto simp: cross_failed_def Let_def split: sum.splits)
  from observed_range [OF f] group_members [OF t] show ?thesis by fastforce
qed

lemma failed_range:
  assumes "failed_indices R refs rule records = Inr fs"
  shows "set fs \<subseteq> {..<length records}"
proof -
  consider "vr_rule_type rule = ''unique''" | "vr_rule_type rule = ''reference''"
    | "vr_rule_type rule = ''cross_source''" | "vr_rule_type rule \<notin> {''unique'', ''reference'', ''cross_source''}"
    by blast
  then show ?thesis
  proof cases
    case 1
    then obtain ys where "unique_failed rule records = Inr ys" "set fs = set ys"
      using assms by (cases "unique_failed rule records") (auto simp: failed_indices_def)
    then show ?thesis using unique_failed_iff by blast
  next
    case 2
    then show ?thesis using assms
      by (auto simp: failed_indices_def reference_failed_def Let_def in_set_enumerate_eq)
  next
    case 3
    then obtain ys where "cross_failed R rule records = Inr ys" "set fs = set ys"
      using assms by (cases "cross_failed R rule records") (auto simp: failed_indices_def)
    then show ?thesis using cross_failed_range by blast
  next
    case 4
    then obtain ys where "record_failed R rule (List.enumerate 0 records) = Inr ys" "set fs = set ys"
      using assms by (cases "record_failed R rule (List.enumerate 0 records)") (auto simp: failed_indices_def)
    then show ?thesis using record_failed_range by (fastforce simp: in_set_enumerate_eq)
  qed
qed

lemma failed_count: "failed_indices R refs rule records = Inr fs \<Longrightarrow> length fs \<le> length records"
  using failed_range [of R refs rule records fs] sorted_distinct_failed(2) [of R refs rule records fs]
  by (metis card_lessThan card_mono distinct_card finite_lessThan)

text \<open>The issues and summaries of a run, rule by rule.\<close>

lemma rule_step_pair:
  "rule_step R refs records rule (issues, summaries) =
     (case failed_indices R refs rule records of Inl e \<Rightarrow> Inl e | Inr failed \<Rightarrow>
       Inr (issues @ map (\<lambda>i. record_issue R rule (records ! i) i) failed,
            summaries @ [summarize rule records failed]))"
  by (simp add: rule_step_def)

lemma rules_fold:
  assumes "res_fold (rule_step R refs records) rules (is0, ss0) = Inr (issues, summaries)"
  shows "\<exists>fss. list_all2 (\<lambda>rule fs. failed_indices R refs rule records = Inr fs) rules fss
    \<and> issues = is0 @ concat (map2 (\<lambda>rule fs. map (\<lambda>i. record_issue R rule (records ! i) i) fs) rules fss)
    \<and> summaries = ss0 @ map2 (\<lambda>rule fs. summarize rule records fs) rules fss"
  using assms
proof (induction rules arbitrary: is0 ss0)
  case Nil
  then show ?case by simp
next
  case (Cons rule rules)
  then obtain fs where fs: "failed_indices R refs rule records = Inr fs"
    and rest: "res_fold (rule_step R refs records) rules
      (is0 @ map (\<lambda>i. record_issue R rule (records ! i) i) fs, ss0 @ [summarize rule records fs]) = Inr (issues, summaries)"
    by (auto simp: rule_step_pair split: sum.splits)
  from Cons.IH [OF rest] obtain fss where
    "list_all2 (\<lambda>rule fs. failed_indices R refs rule records = Inr fs) rules fss"
    "issues = (is0 @ map (\<lambda>i. record_issue R rule (records ! i) i) fs)
       @ concat (map2 (\<lambda>rule fs. map (\<lambda>i. record_issue R rule (records ! i) i) fs) rules fss)"
    "summaries = (ss0 @ [summarize rule records fs]) @ map2 (\<lambda>rule fs. summarize rule records fs) rules fss"
    by blast
  with fs show ?case by (intro exI [of _ "fs # fss"]) simp
qed

lemma engine_run:
  assumes "engine_validate R records config refs = Inr res"
  obtains fss where "list_all2 (\<lambda>rule fs. failed_indices R refs rule records = Inr fs) (vc_rules config) fss"
    and "vrr_issues res = concat (map2 (\<lambda>rule fs. map (\<lambda>i. record_issue R rule (records ! i) i) fs) (vc_rules config) fss)"
    and "vrr_summaries res = map2 (\<lambda>rule fs. summarize rule records fs) (vc_rules config) fss"
proof -
  from assms obtain issues summaries where
    f: "res_fold (rule_step R refs records) (vc_rules config) ([], []) = Inr (issues, summaries)"
    and "vrr_issues res = issues" "vrr_summaries res = summaries"
    by (auto simp: engine_validate_def Let_def split: sum.splits)
  with rules_fold [OF f] that show thesis by auto
qed

lemma issues_of_rule:
  assumes "length fss = length rules" and "distinct (map vr_rule_id rules)" and "(rule, fs) \<in> set (zip rules fss)"
  shows "length (filter (\<lambda>i. vi_rule_id i = vr_rule_id rule)
      (concat (map2 (\<lambda>rule fs. map (\<lambda>i. record_issue R rule (records ! i) i) fs) rules fss))) = length fs"
  using assms
proof (induction fss rules rule: list_induct2)
  case Nil
  then show ?case by simp
next
  case (Cons f fs' r rs)
  have none: "length (filter (\<lambda>i. vi_rule_id i = vr_rule_id x)
      (concat (map2 (\<lambda>rule fs. map (\<lambda>i. record_issue R rule (records ! i) i) fs) rs fs'))) = 0"
    if "vr_rule_id x \<notin> vr_rule_id ` set rs" for x
    using that by (auto simp: filter_empty_conv record_issue_def dest!: set_zip_leftD) (metis imageI)
  show ?case
  proof (cases "(rule, fs) = (r, f)")
    case True
    then show ?thesis using none [of r] Cons.prems(1) by (simp add: filter_map o_def record_issue_def)
  next
    case False
    then have m: "(rule, fs) \<in> set (zip rs fs')" using Cons.prems(2) by auto
    then have "rule \<in> set rs" by (rule set_zip_leftD)
    then have "vr_rule_id r \<noteq> vr_rule_id rule" using Cons.prems(1) by auto
    then show ?thesis using Cons.IH [OF _ m] Cons.prems(1) by (simp add: filter_map o_def record_issue_def)
  qed
qed

section \<open>Properties of the engine\<close>

text \<open>
  a uniqueness rule fails exactly the rows that share their key with another row,
  keys of blanks only excepted: never fewer, never a row whose key is its own.
\<close>

theorem unique_rule_exact:
  assumes "vr_rule_type rule = ''unique''" and "failed_indices R refs rule records = Inr failed"
  shows "i \<in> set failed \<longleftrightarrow> i < length records
    \<and> (\<exists>k. row_key (vr_fields rule) records i = Some k \<and> list_ex (\<lambda>v. \<not> blank v) k
         \<and> (\<exists>j < length records. j \<noteq> i \<and> row_key (vr_fields rule) records j = Some k))"
proof -
  from assms obtain ys where "unique_failed rule records = Inr ys" "set failed = set ys"
    by (cases "unique_failed rule records") (auto simp: failed_indices_def)
  then show ?thesis using unique_failed_iff by simp
qed

definition demo_rule :: "string \<Rightarrow> string \<Rightarrow> validation_rule_config" where
  "demo_rule kind sev = \<lparr>vr_rule_id = kind, vr_title = kind, vr_entity = ''person'', vr_severity = sev,
     vr_rule_type = kind, vr_fields = [''id''], vr_parameters = [], vr_explanation = ''e'', vr_remediation = None\<rparr>"

definition demo_batch :: "pyrec list" where
  "demo_batch = [[(''id'', PInt 1)], [(''id'', PStr ''x'')], [(''id'', PFloat (Fin 1))], [], [(''id'', PStr [])]]"

theorem unique_rule_exact_witness:
  "failed_indices ascii_runtime [] (demo_rule ''unique'' ''error'') demo_batch = Inr [0, 2]
   \<and> (\<exists>j < length demo_batch. j \<noteq> 0
        \<and> row_key [''id''] demo_batch j = row_key [''id''] demo_batch 0)"
proof -
  have f: "failed_indices ascii_runtime [] (demo_rule ''unique'' ''error'') demo_batch = Inr [0, 2]"
    and t: "vr_rule_type (demo_rule ''unique'' ''error'') = ''unique''"
      "vr_fields (demo_rule ''unique'' ''error'') = [''id'']" by code_simp+
  from unique_rule_exact [OF t(1) f, of 0] f show ?thesis unfolding t(2) by fastforce
qed

lemma blocking_issue:
  assumes "distinct (map vr_rule_id rules)" and "length fss = length rules"
    and "issue \<in> set (concat (map2 (\<lambda>rule fs. map (\<lambda>i. record_issue R rule (records ! i) i) fs) rules fss))"
  shows "vi_rule_id issue \<in> vr_rule_id ` set (filter (\<lambda>r. vr_severity r = ''blocking'') rules)
    \<longleftrightarrow> vi_severity issue = ''blocking''"
proof -
  from assms(3) obtain rule fs i where r: "(rule, fs) \<in> set (zip rules fss)" and
    i: "issue = record_issue R rule (records ! i) i" by auto
  then have "rule \<in> set rules" by (auto dest: set_zip_leftD)
  then have uniq: "x \<in> set rules \<Longrightarrow> vr_rule_id x = vr_rule_id rule \<longleftrightarrow> x = rule" for x
    using assms(1) by (metis distinct_map inj_onD)
  have "vr_rule_id rule \<in> vr_rule_id ` set (filter (\<lambda>r. vr_severity r = ''blocking'') rules)
      \<longleftrightarrow> (\<exists>x \<in> set rules. vr_severity x = ''blocking'' \<and> vr_rule_id x = vr_rule_id rule)" by (auto simp: image_iff)
  also have "\<dots> \<longleftrightarrow> vr_severity rule = ''blocking''" using uniq \<open>rule \<in> set rules\<close> by blast
  finally show ?thesis by (simp add: i record_issue_def)
qed

text \<open>
  C8: the report of a run adds up, for rules with distinct ids: the rule at each position
  has a summary whose failed count is the number of issues the run lists for it, never
  more than the records evaluated, passed exactly when there is none; and the blocking
  failures are exactly the issues of blocking severity.
\<close>

theorem engine_report_adds_up:
  assumes "engine_validate R records config refs = Inr res" and "distinct (map vr_rule_id (vc_rules config))"
  shows "length (vrr_summaries res) = length (vc_rules config)
    \<and> (\<forall>n < length (vc_rules config). let s = vrr_summaries res ! n in
         rsm_rule_id s = vr_rule_id (vc_rules config ! n)
         \<and> rsm_failed_count s = length (filter (\<lambda>i. vi_rule_id i = rsm_rule_id s) (vrr_issues res))
         \<and> rsm_evaluated_count s = length records \<and> rsm_failed_count s \<le> length records
         \<and> (rsm_passed s \<longleftrightarrow> rsm_failed_count s = 0))
    \<and> vrr_blocking_failures res = length (filter (\<lambda>i. vi_severity i = ''blocking'') (vrr_issues res))"
proof -
  obtain fss where l: "list_all2 (\<lambda>rule fs. failed_indices R refs rule records = Inr fs) (vc_rules config) fss"
    and i: "vrr_issues res = concat (map2 (\<lambda>rule fs. map (\<lambda>i. record_issue R rule (records ! i) i) fs) (vc_rules config) fss)"
    and s: "vrr_summaries res = map2 (\<lambda>rule fs. summarize rule records fs) (vc_rules config) fss"
    by (rule engine_run [OF assms(1)])
  from l have len: "length fss = length (vc_rules config)" by (simp add: list_all2_lengthD)
  have "let s = vrr_summaries res ! n in
         rsm_rule_id s = vr_rule_id (vc_rules config ! n)
         \<and> rsm_failed_count s = length (filter (\<lambda>i. vi_rule_id i = rsm_rule_id s) (vrr_issues res))
         \<and> rsm_evaluated_count s = length records \<and> rsm_failed_count s \<le> length records
         \<and> (rsm_passed s \<longleftrightarrow> rsm_failed_count s = 0)" if n: "n < length (vc_rules config)" for n
  proof -
    have z: "(vc_rules config ! n, fss ! n) \<in> set (zip (vc_rules config) fss)"
      using n len by (metis in_set_zip fst_conv snd_conv)
    have sn: "vrr_summaries res ! n = summarize (vc_rules config ! n) records (fss ! n)"
      using n len by (simp add: s)
    have "failed_indices R refs (vc_rules config ! n) records = Inr (fss ! n)"
      using l n by (simp add: list_all2_conv_all_nth)
    from failed_count [OF this] issues_of_rule [OF len assms(2) z, of R records] show ?thesis
      unfolding i sn by (simp add: summarize_def)
  qed
  moreover have "vrr_blocking_failures res = length (filter (\<lambda>i. vi_severity i = ''blocking'') (vrr_issues res))"
  proof -
    have "vrr_blocking_failures res = length (filter (\<lambda>i. vi_rule_id i
        \<in> vr_rule_id ` set (filter (\<lambda>r. vr_severity r = ''blocking'') (vc_rules config))) (vrr_issues res))"
      using assms(1) by (auto simp: engine_validate_def Let_def split: sum.splits)
    also have "\<dots> = length (filter (\<lambda>i. vi_severity i = ''blocking'') (vrr_issues res))"
      unfolding i by (intro arg_cong [where f = length] filter_cong refl blocking_issue [OF assms(2) len])
    finally show ?thesis .
  qed
  ultimately show ?thesis using len by (simp add: s)
qed

definition demo_validation :: validation_config where
  "demo_validation = \<lparr>vc_schema_version = ''1.0'', vc_validation_set_id = ''v'', vc_entity = ''person'',
     vc_rules = [demo_rule ''unique'' ''error'', demo_rule ''required'' ''blocking'']\<rparr>"

theorem engine_report_adds_up_witness:
  "\<exists>res. engine_validate ascii_runtime demo_batch demo_validation [] = Inr res
    \<and> vrr_blocking_failures res = 2
    \<and> length (filter (\<lambda>i. vi_severity i = ''blocking'') (vrr_issues res)) = 2"
proof -
  have b: "map_sum id vrr_blocking_failures (engine_validate ascii_runtime demo_batch demo_validation []) = Inr 2"
    and d: "distinct (map vr_rule_id (vc_rules demo_validation))" by code_simp+
  from b obtain res where res: "engine_validate ascii_runtime demo_batch demo_validation [] = Inr res"
    "vrr_blocking_failures res = 2"
    by (cases "engine_validate ascii_runtime demo_batch demo_validation []") auto
  from engine_report_adds_up [OF res(1) d] res show ?thesis by simp
qed

text \<open>
  every quality dimension of a run reports a pass rate between 0 and 1, and no more
  failures than evaluations.
\<close>

theorem quality_dimensions_bounded:
  assumes "engine_validate R records config refs = Inr res"
    and "(name, d) \<in> set (vrr_quality_dimensions res)"
  shows "0 \<le> qd_pass_rate d \<and> qd_pass_rate d \<le> 1 \<and> qd_failed d \<le> qd_evaluated d"
proof -
  obtain fss where l: "list_all2 (\<lambda>rule fs. failed_indices R refs rule records = Inr fs) (vc_rules config) fss"
    and s: "vrr_summaries res = map2 (\<lambda>rule fs. summarize rule records fs) (vc_rules config) fss"
    by (rule engine_run [OF assms(1)])
  have d: "d = dimension (vrr_summaries res) name"
    using assms by (auto simp: engine_validate_def Let_def split: sum.splits)
  have each: "rsm_failed_count x \<le> rsm_evaluated_count x" if "x \<in> set (vrr_summaries res)" for x
    using that l failed_count unfolding s by (auto simp: summarize_def list_all2_iff)
  have le: "qd_failed d \<le> qd_evaluated d"
    unfolding d dimension_def Let_def by (auto intro!: sum_list_mono each)
  have rate: "qd_pass_rate d = (if qd_evaluated d \<noteq> 0
      then round8 (1 - real (qd_failed d) / real (qd_evaluated d)) else 1)"
    unfolding d dimension_def Let_def quality_dimension.select_convs by (rule refl)
  show ?thesis
  proof (cases "qd_evaluated d = 0")
    case True
    then show ?thesis using le rate by simp
  next
    case False
    then have "real (qd_failed d) / real (qd_evaluated d) \<le> 1" using le by simp
    then show ?thesis using False rate le round8_unit [of "1 - real (qd_failed d) / real (qd_evaluated d)"] by simp
  qed
qed

theorem quality_dimensions_bounded_witness:
  "\<exists>res d. engine_validate ascii_runtime demo_batch demo_validation [] = Inr res
    \<and> (''uniqueness'', d) \<in> set (vrr_quality_dimensions res) \<and> 0 \<le> qd_pass_rate d \<and> qd_pass_rate d \<le> 1"
proof -
  have b: "map_sum id (\<lambda>res. map fst (vrr_quality_dimensions res))
      (engine_validate ascii_runtime demo_batch demo_validation []) = Inr [''completeness'', ''uniqueness'']"
    by code_simp
  then obtain res where res: "engine_validate ascii_runtime demo_batch demo_validation [] = Inr res"
    "map fst (vrr_quality_dimensions res) = [''completeness'', ''uniqueness'']"
    by (cases "engine_validate ascii_runtime demo_batch demo_validation []") auto
  then obtain d where d: "(''uniqueness'', d) \<in> set (vrr_quality_dimensions res)"
    by (auto simp: map_eq_Cons_conv)
  from quality_dimensions_bounded [OF res(1) d] res(1) d show ?thesis by blast
qed

end
