(* ===== verification/Mapping_Engine.thy ===== *)
theory Mapping_Engine
  imports Validation_Engine
begin

text \<open>
  The mapping engine (\<^verbatim>\<open>mapping/engine.py\<close>) and the lookup loader
  (\<^verbatim>\<open>mapping/lookups.py\<close>): compilation checks, the twelve transformations, the run over
  a batch that separates outputs from issues, and the difference of two mappings.
  A plugin is a parameter: any function that returns a value or raises.

  Timestamps are microseconds counted from 0001-01-01 00:00, so that the range the
  \<^verbatim>\<open>datetime\<close> class accepts starts at 0.
\<close>

section \<open>Data\<close>

record mapping_issue =
  mi_source_record_key :: string
  mi_rule_sequence :: nat
  mi_target_field :: string
  mi_error_code :: string
  mi_explanation :: string
  mi_evidence_masked :: "string option"

record mapping_result =
  mres_outputs :: "pyrec list"
  mres_issues :: "mapping_issue list"
  mres_input_count :: nat

type_synonym plugin = "pyval \<Rightarrow> pyrec \<Rightarrow> pyrec \<Rightarrow> pyval res"
type_synonym plugins = "(string \<times> plugin) list"
type_synonym lookups = "(string \<times> pyrec) list"

section \<open>Compilation\<close>

text \<open>An optional name as a truth value: neither missing nor empty.\<close>

definition named :: "string option \<Rightarrow> bool" where
  "named n = (n \<noteq> None \<and> n \<noteq> Some [])"

definition or_empty :: "string option \<Rightarrow> string" where
  "or_empty n = (case n of None \<Rightarrow> [] | Some s \<Rightarrow> s)"

fun compile_rules :: "plugins \<Rightarrow> lookups \<Rightarrow> mapping_rule_config list \<Rightarrow> string list \<Rightarrow> unit res" where
  "compile_rules plugins lookups [] targets = Inr ()"
| "compile_rules plugins lookups (rule # rules) targets =
     (if mr_transform rule \<notin> set transforms
      then Inl (MappingCompileError (''Unsupported transformation: '' @ mr_transform rule))
      else if mr_target rule \<in> set targets
      then Inl (MappingCompileError (''Duplicate target field: '' @ mr_target rule))
      else if mr_transform rule = ''lookup'' \<and>
          (\<not> named (mr_lookup rule) \<or> map_of lookups (or_empty (mr_lookup rule)) = None)
      then Inl (MappingCompileError (''Lookup is unavailable for '' @ mr_target rule))
      else if mr_transform rule = ''plugin'' \<and>
          (\<not> named (mr_plugin rule) \<or> map_of plugins (or_empty (mr_plugin rule)) = None)
      then Inl (MappingCompileError (''Plugin is not registered for '' @ mr_target rule))
      else if mr_transform rule = ''sha256_pseudonymize'' \<and> map_of (mr_parameters rule) ''salt_key'' = None
      then Inl (MappingCompileError ''Pseudonymization requires a context salt_key name'')
      else compile_rules plugins lookups rules (mr_target rule # targets))"

definition compile :: "plugins \<Rightarrow> mapping_config \<Rightarrow> lookups \<Rightarrow> unit res" where
  "compile plugins config lookups = compile_rules plugins lookups (mc_rules config) []"

section \<open>Transformations\<close>

text \<open>Python's \<^verbatim>\<open>==\<close>: numbers by value across types, a NaN equal to nothing, dicts without order.\<close>

fun numeric :: "pyval \<Rightarrow> pyfloat option" where
  "numeric (PBool b) = Some (Fin (if b then 1 else 0))"
| "numeric (PInt i) = Some (Fin (of_int i))"
| "numeric (PFloat f) = Some f"
| "numeric v = None"

fun py_eq :: "pyval \<Rightarrow> pyval \<Rightarrow> bool"
  and py_eq_list :: "pyval list \<Rightarrow> pyval list \<Rightarrow> bool"
  and py_eq_dict :: "(string \<times> pyval) list \<Rightarrow> (string \<times> pyval) list \<Rightarrow> bool" where
  "py_eq (PList xs) w = (case w of PList ys \<Rightarrow> py_eq_list xs ys | _ \<Rightarrow> False)"
| "py_eq (PDict d) w = (case w of PDict e \<Rightarrow> length d = length e \<and> py_eq_dict d e | _ \<Rightarrow> False)"
| "py_eq PNone w = (w = PNone)"
| "py_eq (PStr s) w = (w = PStr s)"
| "py_eq (PTime t) w = (case w of PTime u \<Rightarrow> same_time t u | _ \<Rightarrow> False)"
| "py_eq (PBool b) w = (numeric w = Some (Fin (if b then 1 else 0)))"
| "py_eq (PInt i) w = (numeric w = Some (Fin (of_int i)))"
| "py_eq (PFloat f) w = (f \<noteq> NaN \<and> numeric w = Some f)"
| "py_eq_list [] ys = (ys = [])"
| "py_eq_list (x # xs) ys = (case ys of [] \<Rightarrow> False | y # ys' \<Rightarrow> py_eq x y \<and> py_eq_list xs ys')"
| "py_eq_dict [] e = True"
| "py_eq_dict ((k, v) # d) e = (case map_of e k of None \<Rightarrow> False | Some w \<Rightarrow> py_eq v w \<and> py_eq_dict d e)"

definition quote :: "runtime \<Rightarrow> string \<Rightarrow> string" where
  "quote R s = rt_repr R (PStr s)"

text \<open>\<^verbatim>\<open>parsed.astimezone(UTC).isoformat()\<close> of the timestamp in \<^verbatim>\<open>str(value)\<close>.\<close>

definition to_utc :: "runtime \<Rightarrow> pyval \<Rightarrow> pyval res" where
  "to_utc R v = (case rt_fromiso R (iso_text R v) of
       None \<Rightarrow> Inl (ValueError (''Invalid isoformat string: '' @ quote R (iso_text R v)))
     | Some d \<Rightarrow>
         let utc = (case dt_offset d of None \<Rightarrow> dt_wall d | Some o' \<Rightarrow> dt_wall d - o') in
         if utc < 0 \<or> 3652059 * 86400000000 \<le> utc then Inl OverflowError
         else Inr (PStr (rt_isoformat R utc)))"

definition do_lookup :: "runtime \<Rightarrow> lookups \<Rightarrow> string \<Rightarrow> pyval \<Rightarrow> pyval res" where
  "do_lookup R lookups name v = (case map_of lookups name of
       None \<Rightarrow> Inl (KeyError name)
     | Some table \<Rightarrow> (case map_of table (rt_lower R (strip (py_str R v))) of
           None \<Rightarrow> Inl (ValueError ''lookup value is not mapped'')
         | Some w \<Rightarrow> Inr w))"

text \<open>\<^verbatim>\<open>str(record.get(field, ""))\<close> for the entries of a concat rule.\<close>

definition concat_part :: "runtime \<Rightarrow> pyrec \<Rightarrow> pyval \<Rightarrow> string" where
  "concat_part R rec f = (case f of PStr n \<Rightarrow> py_str R (get_field_or rec n (PStr [])) | _ \<Rightarrow> [])"

definition do_concat :: "runtime \<Rightarrow> pyrec \<Rightarrow> pyrec \<Rightarrow> pyval res" where
  "do_concat R ps rec = (case get_field_or ps ''fields'' (PList []) of
       PList flds \<Rightarrow> Inr (PStr (strip (join (py_str R (get_field_or ps ''separator'' (PStr '' ''))) (map (concat_part R rec) flds))))
     | _ \<Rightarrow> Inl (ValueError ''concat fields must be a list''))"

text \<open>\<^verbatim>\<open>int(raw_position)\<close> in a split rule, after the check for lists and booleans.\<close>

definition split_index :: "runtime \<Rightarrow> pyval \<Rightarrow> int res" where
  "split_index R v = (case v of
       PList _ \<Rightarrow> Inl (ValueError ''split index must be an integer'')
     | PBool _ \<Rightarrow> Inl (ValueError ''split index must be an integer'')
     | PInt i \<Rightarrow> Inr i
     | PStr s \<Rightarrow> (case rt_int R s of
           None \<Rightarrow> Inl (ValueError (''invalid literal for int() with base 10: '' @ quote R s)) | Some i \<Rightarrow> Inr i)
     | PFloat (Fin x) \<Rightarrow> Inr (if 0 \<le> x then \<lfloor>x\<rfloor> else \<lceil>x\<rceil>)
     | PFloat NaN \<Rightarrow> Inl (ValueError ''cannot convert float NaN to integer'')
     | PFloat _ \<Rightarrow> Inl OverflowError
     | _ \<Rightarrow> Inl TypeError)"

definition do_split :: "runtime \<Rightarrow> pyrec \<Rightarrow> pyval \<Rightarrow> pyval res" where
  "do_split R ps v =
     (if blank v then Inr PNone
      else let delimiter = py_str R (get_field_or ps ''delimiter'' (PStr '','')) in
      case split_index R (get_field_or ps ''index'' (PInt 0)) of Inl e \<Rightarrow> Inl e | Inr position \<Rightarrow>
      if delimiter = [] then Inl (ValueError ''empty separator'')
      else let parts = split_on delimiter (py_str R v) in
      if int (length parts) \<le> position \<or> position < - int (length parts)
      then Inl (ValueError ''split index is outside the value'')
      else Inr (PStr (strip (parts ! nat (if 0 \<le> position then position else position + int (length parts))))))"

definition do_conditional :: "runtime \<Rightarrow> pyrec \<Rightarrow> pyrec \<Rightarrow> pyval" where
  "do_conditional R ps rec =
     (if py_eq (get_field rec (py_str R (get_field_or ps ''field'' (PStr [])))) (get_field ps ''equals'')
      then get_field ps ''then'' else get_field ps ''else'')"

definition do_pseudonymize :: "runtime \<Rightarrow> pyrec \<Rightarrow> pyrec \<Rightarrow> pyval \<Rightarrow> pyval res" where
  "do_pseudonymize R ps context v =
     (if blank v then Inr PNone
      else case map_of ps ''salt_key'' of None \<Rightarrow> Inl (KeyError ''salt_key'') | Some k \<Rightarrow>
      let salt = get_field context (py_str R k) in
      if \<not> truthy salt then Inl (ValueError ''pseudonymization salt is unavailable'')
      else Inr (PStr (rt_sha256 R (py_str R salt @ '':'' @ py_str R v))))"

definition on_text :: "(string \<Rightarrow> string) \<Rightarrow> pyval \<Rightarrow> pyval" where
  "on_text f v = (case v of PStr s \<Rightarrow> PStr (f s) | _ \<Rightarrow> v)"

definition transform :: "runtime \<Rightarrow> plugins \<Rightarrow> mapping_rule_config \<Rightarrow> pyval \<Rightarrow> pyrec \<Rightarrow> pyrec \<Rightarrow> lookups \<Rightarrow> pyval res" where
  "transform R plugins rule value rec context lookups =
     (let t = mr_transform rule; ps = mr_parameters rule in
      if t = ''copy'' then Inr value
      else if t = ''trim'' then Inr (on_text strip value)
      else if t = ''lower'' then Inr (on_text (\<lambda>s. rt_lower R (strip s)) value)
      else if t = ''upper'' then Inr (on_text (\<lambda>s. rt_upper R (strip s)) value)
      else if t = ''parse_datetime_utc'' then (if blank value then Inr PNone else to_utc R value)
      else if t = ''lookup'' then do_lookup R lookups (or_empty (mr_lookup rule)) value
      else if t = ''default'' then Inr (if blank value then mr_default rule else value)
      else if t = ''concat'' then do_concat R ps rec
      else if t = ''split'' then do_split R ps value
      else if t = ''conditional'' then Inr (do_conditional R ps rec)
      else if t = ''sha256_pseudonymize'' then do_pseudonymize R ps context value
      else if t = ''plugin'' then (case map_of plugins (or_empty (mr_plugin rule)) of
             None \<Rightarrow> Inl (KeyError (or_empty (mr_plugin rule))) | Some p \<Rightarrow> p value rec context)
      else Inl (MappingCompileError (''Unsupported transformation: '' @ t)))"

section \<open>Running a mapping\<close>

definition mask :: "runtime \<Rightarrow> pyval \<Rightarrow> string option" where
  "mask R v = (if blank v then None else Some (''sha256:'' @ take 12 (rt_sha256 R (py_str R v))))"

definition mapping_record_key :: "runtime \<Rightarrow> pyrec \<Rightarrow> nat \<Rightarrow> string" where
  "mapping_record_key R rec index =
     (case first_truthy rec [''record_key'', ''employee_id'', ''assignment_id'', ''source_record_key''] of
        Some v \<Rightarrow> py_str R v
      | None \<Rightarrow> ''row-'' @ nat_str (index + 1))"

text \<open>
  The handler \<^verbatim>\<open>except (KeyError, TypeError, ValueError)\<close>: the text of a caught exception,
  \<open>None\<close> for one that leaves the engine. \<open>MappingCompileError\<close> is a \<open>ValueError\<close>. The text of a
  \<open>TypeError\<close> is the interpreter's and stands for any.
\<close>

definition caught :: "runtime \<Rightarrow> exc \<Rightarrow> string option" where
  "caught R e = (case e of
       KeyError k \<Rightarrow> Some (quote R k)
     | TypeError \<Rightarrow> Some ''TypeError''
     | ValueError m \<Rightarrow> Some m
     | MappingCompileError m \<Rightarrow> Some m
     | _ \<Rightarrow> None)"

definition rule_value :: "mapping_rule_config \<Rightarrow> pyrec \<Rightarrow> pyval" where
  "rule_value rule rec = (if named (mr_source rule) then get_field rec (or_empty (mr_source rule)) else PNone)"

definition apply_rule :: "runtime \<Rightarrow> plugins \<Rightarrow> pyrec \<Rightarrow> lookups \<Rightarrow> pyrec \<Rightarrow> mapping_rule_config \<Rightarrow> pyval res" where
  "apply_rule R plugins context lookups rec rule =
     (case transform R plugins rule (rule_value rule rec) rec context lookups of
        Inl e \<Rightarrow> Inl e
      | Inr v \<Rightarrow> if mr_required rule \<and> blank v then Inl (ValueError ''required mapped value is blank'') else Inr v)"

definition mapping_rule_step :: "runtime \<Rightarrow> plugins \<Rightarrow> pyrec \<Rightarrow> lookups \<Rightarrow> pyrec \<Rightarrow> string
    \<Rightarrow> nat \<times> mapping_rule_config \<Rightarrow> pyrec \<times> mapping_issue list \<Rightarrow> (pyrec \<times> mapping_issue list) res" where
  "mapping_rule_step R plugins context lookups rec source_key p st =
     (case p of (sequence, rule) \<Rightarrow> case st of (output, record_issues) \<Rightarrow>
      case apply_rule R plugins context lookups rec rule of
        Inr v \<Rightarrow> Inr (dict_set (mr_target rule) v output, record_issues)
      | Inl e \<Rightarrow> (case caught R e of None \<Rightarrow> Inl e
          | Some m \<Rightarrow> Inr (output, record_issues @ [\<lparr>mi_source_record_key = source_key,
              mi_rule_sequence = sequence, mi_target_field = mr_target rule,
              mi_error_code = ''mapping_rule_failed'', mi_explanation = m,
              mi_evidence_masked = mask R (rule_value rule rec)\<rparr>])))"

text \<open>\<^verbatim>\<open>dict(execution_context.get("output_defaults", {}))\<close>\<close>

fun pair_items :: "pyval list \<Rightarrow> pyrec \<Rightarrow> pyrec res" where
  "pair_items [] d = Inr d"
| "pair_items (x # xs) d = (case x of PList [PStr k, v] \<Rightarrow> pair_items xs (dict_set k v d) | _ \<Rightarrow> Inl TypeError)"

definition output_defaults :: "pyrec \<Rightarrow> pyrec res" where
  "output_defaults context = (case get_field_or context ''output_defaults'' (PDict []) of
       PDict d \<Rightarrow> Inr d
     | PList xs \<Rightarrow> pair_items xs []
     | PStr s \<Rightarrow> (if s = [] then Inr [] else Inl (ValueError ''dictionary update sequence element #0 has length 1; 2 is required''))
     | _ \<Rightarrow> Inl TypeError)"

definition record_step :: "runtime \<Rightarrow> plugins \<Rightarrow> mapping_config \<Rightarrow> pyrec \<Rightarrow> lookups \<Rightarrow> nat \<times> pyrec
    \<Rightarrow> pyrec list \<times> mapping_issue list \<Rightarrow> (pyrec list \<times> mapping_issue list) res" where
  "record_step R plugins config context lookups p st =
     (case p of (index, rec) \<Rightarrow> case st of (outputs, issues) \<Rightarrow>
      case output_defaults context of Inl e \<Rightarrow> Inl e | Inr defaults \<Rightarrow>
      let source_key = mapping_record_key R rec index in
      case res_fold (mapping_rule_step R plugins context lookups rec source_key)
             (List.enumerate 1 (mc_rules config)) (defaults, []) of
        Inl e \<Rightarrow> Inl e
      | Inr (output, record_issues) \<Rightarrow>
          if record_issues \<noteq> [] then Inr (outputs, issues @ record_issues)
          else Inr (outputs @ [dict_set ''source_record_key'' (PStr source_key) output], issues))"

text \<open>\<^verbatim>\<open>records[:limit]\<close>, a negative limit counted from the end.\<close>

definition py_prefix :: "int option \<Rightarrow> 'a list \<Rightarrow> 'a list" where
  "py_prefix n xs = (case n of None \<Rightarrow> xs
     | Some i \<Rightarrow> if 0 \<le> i then take (nat i) xs else take (length xs - nat (- i)) xs)"

definition engine_execute :: "runtime \<Rightarrow> plugins \<Rightarrow> pyrec list \<Rightarrow> mapping_config \<Rightarrow> lookups \<Rightarrow> pyrec option
    \<Rightarrow> int option \<Rightarrow> mapping_result res" where
  "engine_execute R plugins records config lookups context limit =
     (case compile plugins config lookups of Inl e \<Rightarrow> Inl e | Inr _ \<Rightarrow>
      let execution_context = (case context of None \<Rightarrow> [] | Some c \<Rightarrow> c);
          selected = py_prefix limit records
      in case res_fold (record_step R plugins config execution_context lookups) (List.enumerate 0 selected) ([], []) of
           Inl e \<Rightarrow> Inl e
         | Inr (outputs, issues) \<Rightarrow>
             Inr \<lparr>mres_outputs = outputs, mres_issues = issues, mres_input_count = length selected\<rparr>)"

section \<open>Comparing mappings\<close>

record mapping_diff =
  mdiff_mapping_id_changed :: bool
  mdiff_added_targets :: "string list"
  mdiff_removed_targets :: "string list"
  mdiff_changed_targets :: "string list"

definition rules_by_target :: "mapping_config \<Rightarrow> (string \<times> mapping_rule_config) list" where
  "rules_by_target c = fold (\<lambda>r d. dict_set (mr_target r) r d) (mc_rules c) []"

text \<open>Equality of two dumped rules.\<close>

definition same_rule :: "mapping_rule_config \<Rightarrow> mapping_rule_config \<Rightarrow> bool" where
  "same_rule a b =
     (mr_target a = mr_target b \<and> mr_source a = mr_source b \<and> mr_transform a = mr_transform b
      \<and> mr_lookup a = mr_lookup b \<and> py_eq (mr_default a) (mr_default b)
      \<and> py_eq (PDict (mr_parameters a)) (PDict (mr_parameters b))
      \<and> mr_plugin a = mr_plugin b \<and> mr_required a = mr_required b)"

definition diff_mappings :: "mapping_config \<Rightarrow> mapping_config \<Rightarrow> mapping_diff" where
  "diff_mappings before after =
     (let b = rules_by_target before; a = rules_by_target after in
      \<lparr>mdiff_mapping_id_changed = (mc_mapping_id before \<noteq> mc_mapping_id after),
       mdiff_added_targets = sort (filter (\<lambda>t. map_of b t = None) (map fst a)),
       mdiff_removed_targets = sort (filter (\<lambda>t. map_of a t = None) (map fst b)),
       mdiff_changed_targets = sort (filter (\<lambda>t. case (map_of b t, map_of a t) of
            (Some x, Some y) \<Rightarrow> \<not> same_rule x y | _ \<Rightarrow> False) (map fst b))\<rparr>)"

section \<open>Lookup files\<close>

text \<open>
  \<^verbatim>\<open>load_lookup\<close> on the parsed YAML document; keys of the document's value table are texts
  here. The result is the lookup's id, its version and its normalised table.
\<close>

definition normalized_values :: "runtime \<Rightarrow> pyrec \<Rightarrow> pyrec" where
  "normalized_values R d = fold (\<lambda>(k, v) acc. dict_set (rt_lower R (strip k)) v acc) d []"

definition load_lookup :: "runtime \<Rightarrow> pyval \<Rightarrow> (string \<times> string \<times> pyrec) res" where
  "load_lookup R payload = (case payload of
       PDict p \<Rightarrow>
         if set (map fst p) \<noteq> {''lookup_id'', ''version'', ''values''}
         then Inl (MappingCompileError ''Lookup file must contain lookup_id, version, and values only'')
         else (case get_field p ''values'' of
             PDict vs \<Rightarrow> Inr (py_str R (get_field p ''lookup_id''), py_str R (get_field p ''version''), normalized_values R vs)
           | _ \<Rightarrow> Inl (MappingCompileError ''Lookup values must be an object''))
     | _ \<Rightarrow> Inl (MappingCompileError ''Lookup file must contain lookup_id, version, and values only''))"

section \<open>Lemmas: compilation\<close>

text \<open>What a rule needs to be executable.\<close>

definition rule_compiles :: "plugins \<Rightarrow> lookups \<Rightarrow> mapping_rule_config \<Rightarrow> bool" where
  "rule_compiles plugins lookups rule =
     (mr_transform rule \<in> set transforms
      \<and> (mr_transform rule = ''lookup'' \<longrightarrow> named (mr_lookup rule) \<and> map_of lookups (or_empty (mr_lookup rule)) \<noteq> None)
      \<and> (mr_transform rule = ''plugin'' \<longrightarrow> named (mr_plugin rule) \<and> map_of plugins (or_empty (mr_plugin rule)) \<noteq> None)
      \<and> (mr_transform rule = ''sha256_pseudonymize'' \<longrightarrow> map_of (mr_parameters rule) ''salt_key'' \<noteq> None))"

lemma compile_rules_iff:
  "compile_rules plugins lookups rules ts = Inr () \<longleftrightarrow>
     list_all (rule_compiles plugins lookups) rules \<and> distinct (map mr_target rules)
     \<and> set (map mr_target rules) \<inter> set ts = {}"
proof (induction rules arbitrary: ts)
  case (Cons r rs)
  show ?case
  proof (cases "rule_compiles plugins lookups r \<and> mr_target r \<notin> set ts")
    case True
    then have "compile_rules plugins lookups (r # rs) ts = compile_rules plugins lookups rs (mr_target r # ts)"
      by (auto simp: rule_compiles_def)
    with True Cons.IH [of "mr_target r # ts"] show ?thesis by auto
  next
    case False
    then have "compile_rules plugins lookups (r # rs) ts \<noteq> Inr ()"
      unfolding compile_rules.simps rule_compiles_def by (auto simp del: not_None_eq)
    with False show ?thesis by auto
  qed
qed simp

section \<open>Lemmas: one record\<close>

definition rule_fails :: "runtime \<Rightarrow> plugins \<Rightarrow> pyrec \<Rightarrow> lookups \<Rightarrow> pyrec \<Rightarrow> mapping_rule_config \<Rightarrow> bool" where
  "rule_fails R plugins context lookups rec rule = isl (apply_rule R plugins context lookups rec rule)"

definition record_maps :: "runtime \<Rightarrow> plugins \<Rightarrow> pyrec \<Rightarrow> lookups \<Rightarrow> mapping_rule_config list \<Rightarrow> pyrec \<Rightarrow> bool" where
  "record_maps R plugins context lookups rules rec = (\<not> list_ex (rule_fails R plugins context lookups rec) rules)"

lemma mapping_rule_step_cases:
  assumes "mapping_rule_step R P c lk rec key (n, rule) (out, iss) = Inr (out', iss')"
  shows "rule_fails R P c lk rec rule \<Longrightarrow>
      out' = out \<and> length iss' = Suc (length iss) \<and> (\<forall>i \<in> set iss'. i \<in> set iss \<or>
        (mi_source_record_key i = key \<and> mi_rule_sequence i = n \<and> mi_target_field i = mr_target rule))"
    and "\<not> rule_fails R P c lk rec rule \<Longrightarrow>
      iss' = iss \<and> (\<exists>v. apply_rule R P c lk rec rule = Inr v \<and> out' = dict_set (mr_target rule) v out)"
  using assms by (auto simp: mapping_rule_step_def rule_fails_def split: sum.splits option.splits)

text \<open>The loop over the rules: one issue per failing rule, one entry per rule that succeeds.\<close>

lemma rule_loop:
  assumes "res_fold (mapping_rule_step R P c lk rec key) (List.enumerate n rules) (out, iss) = Inr (out', iss')"
  shows "length iss' = length iss + length (filter (rule_fails R P c lk rec) rules)
    \<and> (\<forall>t. t \<notin> set (map mr_target rules) \<longrightarrow> map_of out' t = map_of out t)
    \<and> (distinct (map mr_target rules) \<longrightarrow> (\<forall>rule \<in> set rules. \<not> rule_fails R P c lk rec rule \<longrightarrow>
         apply_rule R P c lk rec rule = Inr (get_field out' (mr_target rule))
         \<and> map_of out' (mr_target rule) \<noteq> None))"
  using assms
proof (induction rules arbitrary: n out iss)
  case (Cons rule rules)
  from Cons.prems obtain out1 iss1 where
    s1: "mapping_rule_step R P c lk rec key (n, rule) (out, iss) = Inr (out1, iss1)"
    and rest: "res_fold (mapping_rule_step R P c lk rec key) (List.enumerate (Suc n) rules) (out1, iss1) = Inr (out', iss')"
    by (auto split: sum.splits)
  note IH = Cons.IH [OF rest]
  show ?case
  proof (cases "rule_fails R P c lk rec rule")
    case True
    with mapping_rule_step_cases(1) [OF s1] IH show ?thesis by auto
  next
    case False
    with mapping_rule_step_cases(2) [OF s1] obtain v where v: "iss1 = iss" "apply_rule R P c lk rec rule = Inr v"
      "out1 = dict_set (mr_target rule) v out" by auto
    have "distinct (map mr_target (rule # rules)) \<Longrightarrow> map_of out' (mr_target rule) = Some v"
      using IH v by auto
    with IH v False show ?thesis by (auto simp: get_field_def)
  qed
qed simp

section \<open>Lemmas: a batch\<close>

text \<open>What one output says about its record.\<close>

definition output_of :: "runtime \<Rightarrow> plugins \<Rightarrow> pyrec \<Rightarrow> lookups \<Rightarrow> mapping_rule_config list \<Rightarrow> pyrec \<Rightarrow> pyrec \<Rightarrow> bool" where
  "output_of R P c lk rules out rec =
     (\<forall>rule \<in> set rules. mr_target rule = ''source_record_key''
        \<or> apply_rule R P c lk rec rule = Inr (get_field out (mr_target rule)))"

lemma record_loop:
  assumes "res_fold (record_step R P cfg c lk) (List.enumerate n recs) (outs, iss) = Inr (outs', iss')"
    and dist: "distinct (map mr_target (mc_rules cfg))"
  shows "\<exists>new. outs' = outs @ new
      \<and> list_all2 (output_of R P c lk (mc_rules cfg)) new (filter (record_maps R P c lk (mc_rules cfg)) recs)
      \<and> length iss' = length iss + (\<Sum>rec \<leftarrow> recs. length (filter (rule_fails R P c lk rec) (mc_rules cfg)))"
  using assms(1)
proof (induction recs arbitrary: n outs iss)
  case (Cons rec recs)
  let ?key = "mapping_record_key R rec n"
  let ?fails = "filter (rule_fails R P c lk rec) (mc_rules cfg)"
  from Cons.prems obtain outs1 iss1 where
    one: "record_step R P cfg c lk (n, rec) (outs, iss) = Inr (outs1, iss1)"
    and rest: "res_fold (record_step R P cfg c lk) (List.enumerate (Suc n) recs) (outs1, iss1) = Inr (outs', iss')"
    by (auto split: sum.splits)
  from one obtain d out ri where
    loop: "res_fold (mapping_rule_step R P c lk rec ?key) (List.enumerate 1 (mc_rules cfg)) (d, []) = Inr (out, ri)"
    and step: "(outs1, iss1) = (if ri \<noteq> [] then (outs, iss @ ri)
        else (outs @ [dict_set ''source_record_key'' (PStr ?key) out], iss))"
    by (auto simp: record_step_def Let_def split: sum.splits prod.splits if_splits)
  note L = rule_loop [OF loop]
  from Cons.IH [OF rest] obtain new where new: "outs' = outs1 @ new"
    "list_all2 (output_of R P c lk (mc_rules cfg)) new (filter (record_maps R P c lk (mc_rules cfg)) recs)"
    "length iss' = length iss1 + (\<Sum>rec \<leftarrow> recs. length (filter (rule_fails R P c lk rec) (mc_rules cfg)))"
    by blast
  have maps: "record_maps R P c lk (mc_rules cfg) rec \<longleftrightarrow> ?fails = []"
    by (auto simp: record_maps_def list_ex_iff filter_empty_conv)
  have len: "length ri = length ?fails" using L by simp
  show ?case
  proof (cases "ri = []")
    case False
    with step len maps new show ?thesis by auto
  next
    case True
    then have none: "?fails = []" using len by simp
    then have "output_of R P c lk (mc_rules cfg) (dict_set ''source_record_key'' (PStr ?key) out) rec"
      using L dist by (auto simp: output_of_def get_field_def filter_empty_conv)
    with True step none maps new show ?thesis by auto
  qed
qed simp

section \<open>Properties of the mapping engine\<close>

text \<open>
  C10: a run that returns separates the selected records exactly: the outputs are, in
  order, one for each record on which no rule fails, and each holds what its rules
  computed; the issues are one for each failing rule of each record.
\<close>

theorem mapping_partitions_records:
  assumes "engine_execute R P records config lookups context limit = Inr r"
  defines "c \<equiv> (case context of None \<Rightarrow> [] | Some x \<Rightarrow> x)"
  shows "mres_input_count r = length (py_prefix limit records)
    \<and> list_all2 (output_of R P c lookups (mc_rules config)) (mres_outputs r)
        (filter (record_maps R P c lookups (mc_rules config)) (py_prefix limit records))
    \<and> length (mres_issues r) = (\<Sum>rec \<leftarrow> py_prefix limit records.
        length (filter (rule_fails R P c lookups rec) (mc_rules config)))"
proof -
  from assms(1) obtain outs iss where cmp: "compile P config lookups = Inr ()"
    and loop: "res_fold (record_step R P config c lookups) (List.enumerate 0 (py_prefix limit records)) ([], []) = Inr (outs, iss)"
    and r: "r = \<lparr>mres_outputs = outs, mres_issues = iss, mres_input_count = length (py_prefix limit records)\<rparr>"
    by (auto simp: engine_execute_def c_def Let_def split: sum.splits prod.splits)
  from cmp have "distinct (map mr_target (mc_rules config))" by (simp add: compile_def compile_rules_iff)
  from record_loop [OF loop this] r show ?thesis by auto
qed

text \<open>
  compilation accepts a mapping exactly when its targets are distinct, its
  transformations are known, and every lookup, plugin and salt name it needs is there.
\<close>

theorem compile_accepts_iff:
  "compile plugins config lookups = Inr () \<longleftrightarrow>
     distinct (map mr_target (mc_rules config)) \<and> list_all (rule_compiles plugins lookups) (mc_rules config)"
  by (auto simp: compile_def compile_rules_iff)

text \<open>
  the difference of two mappings names each target once: the added ones are those
  only the new mapping has, the removed ones those only the old one has, the changed ones
  those of both whose rules differ. Swapping the mappings swaps added and removed.
\<close>

theorem diff_mappings_exact:
  assumes "distinct (map mr_target (mc_rules a))" and "distinct (map mr_target (mc_rules b))"
  shows "set (mdiff_added_targets (diff_mappings a b)) = mr_target ` set (mc_rules b) - mr_target ` set (mc_rules a)
    \<and> set (mdiff_removed_targets (diff_mappings a b)) = mr_target ` set (mc_rules a) - mr_target ` set (mc_rules b)
    \<and> set (mdiff_changed_targets (diff_mappings a b)) =
        {mr_target x | x y. x \<in> set (mc_rules a) \<and> y \<in> set (mc_rules b) \<and> mr_target x = mr_target y \<and> \<not> same_rule x y}
    \<and> mdiff_added_targets (diff_mappings b a) = mdiff_removed_targets (diff_mappings a b)
    \<and> distinct (mdiff_added_targets (diff_mappings a b)) \<and> distinct (mdiff_changed_targets (diff_mappings a b))"
proof -
  have e: "rules_by_target c = map (\<lambda>r. (mr_target r, r)) (mc_rules c)"
    if "distinct (map mr_target (mc_rules c))" for c
  proof -
    have "fold (\<lambda>r d. dict_set (mr_target r) r d) rs d = d @ map (\<lambda>r. (mr_target r, r)) rs"
      if "distinct (map fst d @ map mr_target rs)" for rs and d :: "(string \<times> mapping_rule_config) list"
      using that by (induction rs arbitrary: d) (auto simp: dict_set_fresh)
    from this [of "[]" "mc_rules c"] that show ?thesis by (simp add: rules_by_target_def)
  qed
  have m: "map_of (map (\<lambda>r. (mr_target r, r)) rs) t = Some x \<longleftrightarrow> x \<in> set rs \<and> mr_target x = t"
    if "distinct (map mr_target rs)" for rs t x
    using that by (induction rs) (auto simp: rev_image_eqI)
  have n: "map_of (map (\<lambda>r. (mr_target r, r)) rs) t = None \<longleftrightarrow> t \<notin> mr_target ` set rs" for rs t
    by (induction rs) auto
  let ?by = "\<lambda>c. map (\<lambda>r. (mr_target r, r)) (mc_rules c)"
  note d = diff_mappings_def Let_def e [OF assms(1)] e [OF assms(2)]
  have "set (mdiff_changed_targets (diff_mappings a b))
      = {t. \<exists>x y. map_of (?by a) t = Some x \<and> map_of (?by b) t = Some y \<and> \<not> same_rule x y}"
  proof -
    have "set (mdiff_changed_targets (diff_mappings a b))
      = {t \<in> mr_target ` set (mc_rules a). \<exists>x y. map_of (?by a) t = Some x \<and> map_of (?by b) t = Some y \<and> \<not> same_rule x y}"
      by (auto simp: d split: option.splits simp del: map_of_eq_None_iff)
    then show ?thesis using m [OF assms(1)] by auto
  qed
  also have "\<dots> = {mr_target x | x y. x \<in> set (mc_rules a) \<and> y \<in> set (mc_rules b) \<and> mr_target x = mr_target y \<and> \<not> same_rule x y}"
    unfolding m [OF assms(1)] m [OF assms(2)] by force
  finally have changed: "set (mdiff_changed_targets (diff_mappings a b)) = \<dots>" .
  have rest: "set (mdiff_added_targets (diff_mappings a b)) = mr_target ` set (mc_rules b) - mr_target ` set (mc_rules a)"
    "set (mdiff_removed_targets (diff_mappings a b)) = mr_target ` set (mc_rules a) - mr_target ` set (mc_rules b)"
    "mdiff_added_targets (diff_mappings b a) = mdiff_removed_targets (diff_mappings a b)"
    "distinct (mdiff_added_targets (diff_mappings a b))" "distinct (mdiff_changed_targets (diff_mappings a b))"
    using assms by (auto simp: d n o_def simp del: map_of_eq_None_iff)
  from changed rest show ?thesis by blast
qed

text \<open>
  a timestamp that cannot be read is reported with its value masked as evidence,
  but the explanation beside it quotes the value in clear.
\<close>

theorem bad_timestamp_quoted:
  assumes "mr_transform rule = ''parse_datetime_utc''" and "\<not> blank (rule_value rule rec)"
    and "rt_fromiso R (iso_text R (rule_value rule rec)) = None"
  shows "\<exists>i. mapping_rule_step R P context lookups rec key (n, rule) (out, iss) = Inr (out, iss @ [i])
    \<and> mi_explanation i = ''Invalid isoformat string: '' @ quote R (iso_text R (rule_value rule rec))
    \<and> mi_evidence_masked i = Some (''sha256:'' @ take 12 (rt_sha256 R (py_str R (rule_value rule rec))))"
  using assms
  by (simp add: mapping_rule_step_def apply_rule_def transform_def to_utc_def caught_def mask_def)

definition demo_mapping_rule :: "string \<Rightarrow> string \<Rightarrow> string \<Rightarrow> bool \<Rightarrow> mapping_rule_config" where
  "demo_mapping_rule target source t required = \<lparr>mr_target = target, mr_source = Some source,
     mr_transform = t, mr_lookup = None, mr_default = PNone, mr_parameters = [], mr_plugin = None,
     mr_required = required\<rparr>"

definition demo_mapping :: "mapping_rule_config list \<Rightarrow> mapping_config" where
  "demo_mapping rules = \<lparr>mc_schema_version = ''1.0'', mc_mapping_id = ''m'', mc_source_contract = ''c'',
     mc_canonical_entity = ''person'', mc_rules = rules\<rparr>"

definition demo_rows :: "pyrec list" where
  "demo_rows = [[(''employee_id'', PStr ''e1''), (''name'', PStr '' Ada '')],
     [(''employee_id'', PStr ''e2''), (''name'', PStr [])]]"

theorem mapping_partitions_records_witness:
  "\<exists>r. engine_execute ascii_runtime [] demo_rows (demo_mapping [demo_mapping_rule ''id'' ''employee_id'' ''copy'' True,
        demo_mapping_rule ''label'' ''name'' ''trim'' True]) [] None None = Inr r
     \<and> mres_input_count r = 2 \<and> length (mres_outputs r) = 1 \<and> length (mres_issues r) = 1"
proof -
  let ?c = "demo_mapping [demo_mapping_rule ''id'' ''employee_id'' ''copy'' True, demo_mapping_rule ''label'' ''name'' ''trim'' True]"
  have "\<not> isl (engine_execute ascii_runtime [] demo_rows ?c [] None None)" by code_simp
  then obtain r where r: "engine_execute ascii_runtime [] demo_rows ?c [] None None = Inr r"
    by (metis sum.collapse(2))
  have 1: "length (filter (record_maps ascii_runtime [] [] [] (mc_rules ?c)) demo_rows) = 1"
    and 2: "(\<Sum>rec \<leftarrow> demo_rows. length (filter (rule_fails ascii_runtime [] [] [] rec) (mc_rules ?c))) = 1"
    by code_simp+
  from mapping_partitions_records [OF r] 1 2 r show ?thesis
    by (auto simp: py_prefix_def demo_rows_def dest: list_all2_lengthD)
qed

theorem diff_mappings_exact_witness:
  "set (mdiff_added_targets (diff_mappings (demo_mapping [demo_mapping_rule ''a'' ''x'' ''copy'' True, demo_mapping_rule ''b'' ''x'' ''copy'' True])
     (demo_mapping [demo_mapping_rule ''b'' ''y'' ''copy'' True, demo_mapping_rule ''c'' ''x'' ''copy'' True]))) = {''c''}"
proof -
  have "distinct (map mr_target (mc_rules (demo_mapping [demo_mapping_rule ''a'' ''x'' ''copy'' True, demo_mapping_rule ''b'' ''x'' ''copy'' True])))"
    and "distinct (map mr_target (mc_rules (demo_mapping [demo_mapping_rule ''b'' ''y'' ''copy'' True, demo_mapping_rule ''c'' ''x'' ''copy'' True])))"
    by code_simp+
  from diff_mappings_exact [OF this] show ?thesis by (auto simp: demo_mapping_def demo_mapping_rule_def)
qed

theorem bad_timestamp_quoted_witness:
  "\<exists>i. mapping_rule_step ascii_runtime [] [] [] [(''born'', PStr ''31/12'')] ''row-1'' (1, demo_mapping_rule ''d'' ''born'' ''parse_datetime_utc'' True) ([], [])
       = Inr ([], [i]) \<and> mi_explanation i = ''Invalid isoformat string: '' @ quote ascii_runtime ''31/12''"
proof -
  let ?rule = "demo_mapping_rule ''d'' ''born'' ''parse_datetime_utc'' True" and ?rec = "[(''born'', PStr ''31/12'')]"
  have h: "mr_transform ?rule = ''parse_datetime_utc''" "\<not> blank (rule_value ?rule ?rec)"
    "rt_fromiso ascii_runtime (iso_text ascii_runtime (rule_value ?rule ?rec)) = None"
    "iso_text ascii_runtime (rule_value ?rule ?rec) = ''31/12''"
    by code_simp+
  from bad_timestamp_quoted [OF h(1-3), of "[]" "[]" "[]" "''row-1''" 1 "[]" "[]"] show ?thesis unfolding h(4) by auto
qed

end
