(* ===== verification/Store.thy ===== *)
theory Store
  imports Config "HOL-Library.Product_Lexorder"
begin

text \<open>
  The control database (\<^verbatim>\<open>db/models/control.py\<close>, the role tables of \<^verbatim>\<open>security.py\<close>, the organization table of
  \<^verbatim>\<open>db/models/core.py\<close>) and the session the services work on. A table is the list of its rows in insertion order; a row is a record
  with one field per column (\<^verbatim>\<open>updated_at\<close>, which no service reads, is left out).
  A session holds the committed and the working database: \<open>flush\<close> makes a row
  visible in the working one, \<open>commit\<close> publishes it, \<open>rollback\<close> drops it. New
  primary keys come from a supply that stands for \<^verbatim>\<open>uuid4\<close>.

  Two contracts that several services share are locales here: rows that are looked
  up by key or created (\<open>get_or_create\<close>), and rows whose every change is numbered
  and recorded (\<open>revision_ledger\<close>).
\<close>

section \<open>Tables\<close>

record organization =
  org_id :: uuid
  org_created_at :: int
  org_name :: string
  org_organization_type :: string
  org_status :: string
  org_parent_organization_id :: "uuid option"
  org_metadata_json :: pyrec

record source_system =
  ss_id :: uuid
  ss_created_at :: int
  ss_organization_id :: uuid
  ss_source_key :: string
  ss_name :: string
  ss_connector_type :: string
  ss_owner_role :: "string option"
  ss_data_classification :: string
  ss_secret_reference :: "string option"
  ss_active :: bool

record source_object =
  so_id :: uuid
  so_created_at :: int
  so_source_system_id :: uuid
  so_object_key :: string
  so_object_type :: string
  so_location_template :: "string option"
  so_refresh_expectation :: "string option"

record data_contract =
  dc_id :: uuid
  dc_created_at :: int
  dc_source_object_id :: uuid
  dc_contract_key :: string
  dc_version :: string
  dc_schema_uri :: "string option"
  dc_schema_json :: pyrec
  dc_status :: string

record ingestion_run =
  ir_id :: uuid
  ir_created_at :: int
  ir_organization_id :: uuid
  ir_source_system_id :: uuid
  ir_status :: string
  ir_started_at :: "int option"
  ir_ended_at :: "int option"
  ir_cursor_json :: pyrec
  ir_correlation_id :: string
  ir_resume_from_run_id :: "uuid option"
  ir_attempt_number :: int
  ir_failure_code :: "string option"
  ir_failure_summary :: "string option"

record raw_snapshot =
  rs_id :: uuid
  rs_created_at :: int
  rs_ingestion_run_id :: uuid
  rs_source_object_id :: uuid
  rs_storage_uri :: string
  rs_checksum_sha256 :: string
  rs_row_count :: "int option"
  rs_schema_fingerprint :: "string option"
  rs_manifest_json :: pyrec

record schema_profile =
  sp_id :: uuid
  sp_created_at :: int
  sp_raw_snapshot_id :: uuid
  sp_profile_version :: string
  sp_profile_json :: pyrec
  sp_baseline_profile_id :: "uuid option"

record mapping_set =
  mset_id :: uuid
  mset_created_at :: int
  mset_organization_id :: uuid
  mset_mapping_key :: string
  mset_version :: string
  mset_canonical_entity :: string
  mset_status :: string
  mset_approved_by :: "uuid option"

record mapping_rule =
  mrule_id :: uuid
  mrule_created_at :: int
  mrule_mapping_set_id :: uuid
  mrule_sequence :: int
  mrule_target_field :: string
  mrule_source_expression :: "string option"
  mrule_transform_type :: string
  mrule_parameters_json :: pyrec
  mrule_required :: bool

record validation_rule =
  vrule_id :: uuid
  vrule_created_at :: int
  vrule_organization_id :: uuid
  vrule_rule_key :: string
  vrule_version :: string
  vrule_title :: string
  vrule_entity_name :: string
  vrule_severity :: string
  vrule_expression_type :: string
  vrule_expression_json :: pyrec
  vrule_explanation :: string
  vrule_remediation :: "string option"
  vrule_active :: bool

record validation_result =
  vres_id :: uuid
  vres_created_at :: int
  vres_organization_id :: uuid
  vres_ingestion_run_id :: uuid
  vres_validation_rule_id :: uuid
  vres_passed :: bool
  vres_evaluated_count :: int
  vres_failed_count :: int
  vres_result_json :: pyrec

record quarantine_record =
  qr_id :: uuid
  qr_created_at :: int
  qr_organization_id :: uuid
  qr_ingestion_run_id :: uuid
  qr_validation_rule_id :: uuid
  qr_raw_snapshot_id :: uuid
  qr_source_record_key :: string
  qr_field_name :: "string option"
  qr_evidence_masked :: "string option"
  qr_explanation :: string
  qr_status :: string
  qr_revision :: int
  qr_reviewer_id :: "uuid option"
  qr_waiver_reason :: "string option"
  qr_resolution_note :: "string option"
  qr_resolved_at :: "int option"
  qr_supersedes_quarantine_id :: "uuid option"
  qr_corrected_snapshot_id :: "uuid option"

record quarantine_resolution =
  qs_id :: uuid
  qs_created_at :: int
  qs_organization_id :: uuid
  qs_quarantine_id :: uuid
  qs_revision :: int
  qs_status :: string
  qs_note :: string
  qs_reviewer_id :: "uuid option"
  qs_recorded_at :: int
  qs_corrected_snapshot_id :: "uuid option"
  qs_imported :: bool

record match_rule_set =
  mrs_id :: uuid
  mrs_created_at :: int
  mrs_organization_id :: uuid
  mrs_rule_set_key :: string
  mrs_version :: string
  mrs_entity_type :: string
  mrs_deterministic_rules_json :: "pyval list"
  mrs_probabilistic_config_json :: pyrec
  mrs_status :: string

record match_candidate =
  mcand_id :: uuid
  mcand_created_at :: int
  mcand_organization_id :: uuid
  mcand_rule_set_id :: uuid
  mcand_left_record_key :: string
  mcand_right_record_key :: string
  mcand_score :: "real option"
  mcand_evidence_json :: pyrec
  mcand_status :: string
  mcand_revision :: int

record match_decision =
  md_id :: uuid
  md_created_at :: int
  md_organization_id :: uuid
  md_candidate_id :: uuid
  md_decision :: string
  md_revision :: int
  md_reason :: string
  md_reviewer_id :: uuid
  md_decided_at :: int
  md_supersedes_decision_id :: "uuid option"

record canonical_entity_version =
  cev_id :: uuid
  cev_created_at :: int
  cev_organization_id :: uuid
  cev_entity_type :: string
  cev_entity_id :: uuid
  cev_version_number :: int
  cev_payload_json :: pyrec
  cev_valid_from :: int
  cev_valid_to :: "int option"

record lineage_node =
  ln_id :: uuid
  ln_created_at :: int
  ln_organization_id :: uuid
  ln_node_type :: string
  ln_namespace :: string
  ln_name :: string
  ln_facets_json :: pyrec

record lineage_edge =
  le_id :: uuid
  le_created_at :: int
  le_organization_id :: uuid
  le_from_node_id :: uuid
  le_to_node_id :: uuid
  le_relation_type :: string
  le_field_mapping_json :: pyrec

record export_definition =
  ed_id :: uuid
  ed_created_at :: int
  ed_organization_id :: uuid
  ed_export_key :: string
  ed_version :: string
  ed_format :: string
  ed_contract_json :: pyrec
  ed_active :: bool

record export_snapshot =
  es_id :: uuid
  es_created_at :: int
  es_organization_id :: uuid
  es_export_definition_id :: uuid
  es_storage_uri :: string
  es_checksum_sha256 :: string
  es_row_count :: "int option"
  es_published_at :: int

record audit_event =
  ae_id :: uuid
  ae_occurred_at :: int
  ae_organization_id :: "uuid option"
  ae_actor_id :: "uuid option"
  ae_action :: string
  ae_resource_type :: string
  ae_resource_id :: string
  ae_correlation_id :: "string option"
  ae_details_json :: pyrec

record profile_comparison =
  pcmp_id :: uuid
  pcmp_created_at :: int
  pcmp_organization_id :: uuid
  pcmp_baseline_profile_id :: uuid
  pcmp_current_profile_id :: uuid
  pcmp_status :: string
  pcmp_comparison_json :: pyrec

record lookup_table =
  lt_id :: uuid
  lt_created_at :: int
  lt_organization_id :: uuid
  lt_lookup_key :: string
  lt_version :: string
  lt_values_json :: pyrec
  lt_status :: string

record mapping_execution =
  mx_id :: uuid
  mx_created_at :: int
  mx_organization_id :: uuid
  mx_raw_snapshot_id :: uuid
  mx_mapping_key :: string
  mx_mapping_version :: string
  mx_status :: string
  mx_dry_run :: bool
  mx_input_count :: int
  mx_output_count :: int
  mx_error_count :: int
  mx_output_uri :: "string option"
  mx_started_at :: int
  mx_ended_at :: "int option"

record mapping_error =
  me_id :: uuid
  me_created_at :: int
  me_mapping_execution_id :: uuid
  me_source_record_key :: string
  me_rule_sequence :: int
  me_target_field :: string
  me_error_code :: string
  me_explanation :: string
  me_evidence_masked :: "string option"

record match_evaluation =
  mev_id :: uuid
  mev_created_at :: int
  mev_organization_id :: uuid
  mev_rule_set_key :: string
  mev_rule_set_version :: string
  mev_truth_set_name :: string
  mev_evaluated_at :: int
  mev_total_records :: int
  mev_predicted_links :: int
  mev_true_positives :: int
  mev_false_positives :: int
  mev_false_negatives :: int
  mev_precision :: real
  mev_recall :: real
  mev_coverage :: real
  mev_details_json :: pyrec

record probabilistic_model =
  pmod_id :: uuid
  pmod_created_at :: int
  pmod_organization_id :: uuid
  pmod_model_key :: string
  pmod_version :: string
  pmod_status :: string
  pmod_comparison_config_json :: pyrec
  pmod_parameters_json :: pyrec
  pmod_review_low :: real
  pmod_auto_match :: real
  pmod_trained_on_truth_set :: "string option"
  pmod_trained_at :: "int option"

record probabilistic_run =
  prun_id :: uuid
  prun_created_at :: int
  prun_organization_id :: uuid
  prun_model_id :: uuid
  prun_status :: string
  prun_candidate_count :: int
  prun_auto_match_count :: int
  prun_review_count :: int
  prun_no_match_count :: int
  prun_conflict_count :: int
  prun_metrics_json :: pyrec
  prun_started_at :: int
  prun_ended_at :: "int option"

record data_mart_snapshot =
  dms_id :: uuid
  dms_created_at :: int
  dms_organization_id :: uuid
  dms_mart_key :: string
  dms_version :: string
  dms_storage_uri :: string
  dms_checksum_sha256 :: string
  dms_row_count :: int
  dms_dictionary_json :: pyrec
  dms_lineage_json :: pyrec
  dms_published_at :: int

record asset_run =
  ar_id :: uuid
  ar_created_at :: int
  ar_organization_id :: uuid
  ar_orchestration_key :: string
  ar_asset_key :: string
  ar_partition_key :: "string option"
  ar_status :: string
  ar_attempt_number :: int
  ar_watermark_json :: pyrec
  ar_change_hash :: "string option"
  ar_backfill_of_run_id :: "uuid option"
  ar_started_at :: int
  ar_ended_at :: "int option"
  ar_failure_code :: "string option"
  ar_metadata_json :: pyrec

record retention_policy =
  rpol_id :: uuid
  rpol_created_at :: int
  rpol_organization_id :: uuid
  rpol_policy_key :: string
  rpol_raw_days :: int
  rpol_quarantine_days :: int
  rpol_export_days :: int
  rpol_audit_days :: int
  rpol_active :: bool

record permission =
  perm_id :: uuid
  perm_created_at :: int
  perm_permission_key :: string
  perm_description :: string

record role =
  role_id :: uuid
  role_created_at :: int
  role_role_key :: string
  role_name :: string
  role_description :: "string option"

record role_permission =
  rperm_id :: uuid
  rperm_created_at :: int
  rperm_role_id :: uuid
  rperm_permission_id :: uuid

record database =
  db_organizations :: "organization list"
  db_source_systems :: "source_system list"
  db_source_objects :: "source_object list"
  db_data_contracts :: "data_contract list"
  db_ingestion_runs :: "ingestion_run list"
  db_raw_snapshots :: "raw_snapshot list"
  db_schema_profiles :: "schema_profile list"
  db_mapping_sets :: "mapping_set list"
  db_mapping_rules :: "mapping_rule list"
  db_validation_rules :: "validation_rule list"
  db_validation_results :: "validation_result list"
  db_quarantine_records :: "quarantine_record list"
  db_quarantine_resolutions :: "quarantine_resolution list"
  db_match_rule_sets :: "match_rule_set list"
  db_match_candidates :: "match_candidate list"
  db_match_decisions :: "match_decision list"
  db_canonical_entity_versions :: "canonical_entity_version list"
  db_lineage_nodes :: "lineage_node list"
  db_lineage_edges :: "lineage_edge list"
  db_export_definitions :: "export_definition list"
  db_export_snapshots :: "export_snapshot list"
  db_audit_events :: "audit_event list"
  db_profile_comparisons :: "profile_comparison list"
  db_lookup_tables :: "lookup_table list"
  db_mapping_executions :: "mapping_execution list"
  db_mapping_errors :: "mapping_error list"
  db_match_evaluations :: "match_evaluation list"
  db_probabilistic_models :: "probabilistic_model list"
  db_probabilistic_runs :: "probabilistic_run list"
  db_data_mart_snapshots :: "data_mart_snapshot list"
  db_asset_runs :: "asset_run list"
  db_retention_policies :: "retention_policy list"
  db_permissions :: "permission list"
  db_roles :: "role list"
  db_role_permissions :: "role_permission list"

definition empty_db :: database where
  "empty_db = \<lparr>db_organizations = [], db_source_systems = [], db_source_objects = [],
     db_data_contracts = [], db_ingestion_runs = [], db_raw_snapshots = [], db_schema_profiles = [],
     db_mapping_sets = [], db_mapping_rules = [], db_validation_rules = [], db_validation_results = [],
     db_quarantine_records = [], db_quarantine_resolutions = [], db_match_rule_sets = [],
     db_match_candidates = [], db_match_decisions = [], db_canonical_entity_versions = [],
     db_lineage_nodes = [], db_lineage_edges = [], db_export_definitions = [], db_export_snapshots = [],
     db_audit_events = [], db_profile_comparisons = [], db_lookup_tables = [],
     db_mapping_executions = [], db_mapping_errors = [], db_match_evaluations = [],
     db_probabilistic_models = [], db_probabilistic_runs = [], db_data_mart_snapshots = [],
     db_asset_runs = [], db_retention_policies = [],
     db_permissions = [], db_roles = [], db_role_permissions = []\<rparr>"

section \<open>Sessions\<close>

record session =
  s_committed :: database
  s_working :: database
  s_supply :: "nat \<Rightarrow> uuid"
  s_next :: nat

definition commit :: "session \<Rightarrow> session" where
  "commit s = s\<lparr>s_committed := s_working s\<rparr>"

definition rollback :: "session \<Rightarrow> session" where
  "rollback s = s\<lparr>s_working := s_committed s\<rparr>"

definition new_id :: "session \<Rightarrow> uuid" where
  "new_id s = s_supply s (s_next s)"

text \<open>
  \<^verbatim>\<open>session.add(row); session.flush()\<close>: the row, built from the new primary key, is
  put into the working database by the given table update.
\<close>

definition add_row :: "(uuid \<Rightarrow> 'r) \<Rightarrow> ('r \<Rightarrow> database \<Rightarrow> database) \<Rightarrow> session \<Rightarrow> 'r \<times> session" where
  "add_row mk put s =
     (let row = mk (new_id s) in (row, s\<lparr>s_working := put row (s_working s), s_next := Suc (s_next s)\<rparr>))"

definition on_working :: "(database \<Rightarrow> database) \<Rightarrow> session \<Rightarrow> session" where
  "on_working f s = s\<lparr>s_working := f (s_working s)\<rparr>"

text \<open>A UUID taken for a file name or a correlation id.\<close>

definition take_uuid :: "session \<Rightarrow> uuid \<times> session" where
  "take_uuid s = (new_id s, s\<lparr>s_next := Suc (s_next s)\<rparr>)"

definition fresh_session :: "session" where
  "fresh_session = \<lparr>s_committed = empty_db, s_working = empty_db, s_supply = (\<lambda>n. n), s_next = 0\<rparr>"

text \<open>A loop that stores one row per item and collects the new ids.\<close>

fun store_all :: "('a \<Rightarrow> session \<Rightarrow> uuid \<times> session) \<Rightarrow> 'a list \<Rightarrow> session \<Rightarrow> uuid list \<times> session" where
  "store_all f [] s = ([], s)"
| "store_all f (x # xs) s =
     (case f x s of (i, s1) \<Rightarrow> case store_all f xs s1 of (is, s2) \<Rightarrow> (i # is, s2))"

text \<open>A constraint the database refuses a row for.\<close>

definition integrity_error :: exc where
  "integrity_error = RuntimeError ''IntegrityError''"

text \<open>\<^verbatim>\<open>session.get(Model, id)\<close> on a table, and an \<^verbatim>\<open>UPDATE ... WHERE\<close>.\<close>

definition row_by :: "('r \<Rightarrow> uuid) \<Rightarrow> 'r list \<Rightarrow> uuid \<Rightarrow> 'r option" where
  "row_by key rows i = find (\<lambda>r. key r = i) rows"

definition update_where :: "('r \<Rightarrow> bool) \<Rightarrow> ('r \<Rightarrow> 'r) \<Rightarrow> 'r list \<Rightarrow> 'r list" where
  "update_where P f rows = map (\<lambda>r. if P r then f r else r) rows"

text \<open>\<^verbatim>\<open>column.icontains(text, autoescape=True)\<close>\<close>

definition icontains :: "runtime \<Rightarrow> string \<Rightarrow> string \<Rightarrow> bool" where
  "icontains R column text = contains (rt_lower R column) (rt_lower R text)"

text \<open>A grouped count, \<^verbatim>\<open>select(column, count()).group_by(column)\<close>, in column order.\<close>

definition count_by :: "'k::linorder list \<Rightarrow> ('k \<times> nat) list" where
  "count_by ks = map (\<lambda>k. (k, count_list ks k)) (sort (remdups ks))"

lemma session_simps [simp]:
  "s_working (commit s) = s_working s" "s_committed (commit s) = s_working s"
  "s_working (rollback s) = s_committed s" "s_committed (rollback s) = s_committed s"
  "s_supply (commit s) = s_supply s" "s_next (commit s) = s_next s"
  "s_supply (rollback s) = s_supply s" "s_next (rollback s) = s_next s"
  "s_working (on_working f s) = f (s_working s)" "s_committed (on_working f s) = s_committed s"
  by (simp_all add: commit_def rollback_def on_working_def)

lemma take_uuid_simps [simp]:
  "s_working (snd (take_uuid s)) = s_working s" "s_committed (snd (take_uuid s)) = s_committed s"
  by (simp_all add: take_uuid_def)

lemma find_update_where:
  assumes "\<And>r. key (f r) = key r"
  shows "row_by key (update_where P f rows) i = map_option (\<lambda>r. if P r then f r else r) (row_by key rows i)"
  using assms by (induction rows) (auto simp: row_by_def update_where_def)

lemma keys_update_where: "(\<And>r. key (f r) = key r) \<Longrightarrow> map key (update_where P f rows) = map key rows"
  by (simp add: update_where_def)

lemma row_by_append:
  "row_by key (rows @ [r]) i = (case row_by key rows i of Some x \<Rightarrow> Some x
     | None \<Rightarrow> if key r = i then Some r else None)"
  by (induction rows) (auto simp: row_by_def)

lemma row_by_Some: "row_by key rows i = Some r \<Longrightarrow> r \<in> set rows \<and> key r = i"
  by (auto simp: row_by_def find_Some_iff)

lemma row_by_unique:
  assumes "distinct (map key rows)" and "r \<in> set rows"
  shows "row_by key rows (key r) = Some r"
  using assms by (induction rows) (auto simp: row_by_def)

lemma find_snoc: "find P (xs @ [x]) = (case find P xs of None \<Rightarrow> if P x then Some x else None | Some y \<Rightarrow> Some y)"
  by (induction xs) auto

lemma add_row_simps [simp]:
  "fst (add_row mk put s) = mk (new_id s)"
  "s_working (snd (add_row mk put s)) = put (mk (new_id s)) (s_working s)"
  "s_committed (snd (add_row mk put s)) = s_committed s"
  by (simp_all add: add_row_def Let_def)

lemma filter_update_where:
  "(\<And>r. r \<in> set rows \<Longrightarrow> P r \<Longrightarrow> Q (f r) = Q r) \<Longrightarrow>
     filter Q (update_where P f rows) = update_where P f (filter Q rows)"
  by (induction rows) (auto simp: update_where_def)

lemma count_by_sum: "sum_list (map snd (count_by ks)) = length ks"
proof -
  have "sum_list (map snd (count_by ks)) = (\<Sum>k \<in> set ks. count_list ks k)"
    by (simp add: count_by_def o_def sum_list_distinct_conv_sum_set)
  then show ?thesis by (simp add: sum_count_set)
qed

lemma map_of_count_by: "map_of (count_by ks) k = (if k \<in> set ks then Some (count_list ks k) else None)"
  by (simp add: count_by_def map_of_map_keys)

section \<open>Looking up or creating\<close>

text \<open>
  The contract of \<^verbatim>\<open>_node\<close>, \<^verbatim>\<open>connect\<close>, \<^verbatim>\<open>_rule_set\<close>, \<^verbatim>\<open>_rule_model\<close> and \<^verbatim>\<open>_model\<close>: a key
  that is found costs nothing, a missing one is created and found from then on, and no
  other key is affected.
\<close>

locale get_or_create =
  fixes lookup_row :: "'s \<Rightarrow> 'k \<Rightarrow> 'r option"
    and goc :: "'k \<Rightarrow> 's \<Rightarrow> 'r \<times> 's"
  assumes hit: "lookup_row s k = Some r \<Longrightarrow> goc k s = (r, s)"
    and miss: "lookup_row s k = None \<Longrightarrow> goc k s = (r, s') \<Longrightarrow>
      lookup_row s' k = Some r \<and> (\<forall>k'. k' \<noteq> k \<longrightarrow> lookup_row s' k' = lookup_row s k')"
begin

lemma goc_finds: assumes "goc k s = (r, s')" shows "lookup_row s' k = Some r"
proof (cases "lookup_row s k")
  case None
  from miss [OF None assms] show ?thesis ..
next
  case (Some x)
  from hit [OF Some] assms Some show ?thesis by simp
qed

lemma goc_keeps: assumes "goc k s = (r, s')" and "lookup_row s k' = Some r'" shows "lookup_row s' k' = Some r'"
proof (cases "lookup_row s k")
  case None
  with assms(2) have "k' \<noteq> k" by auto
  with miss [OF None assms(1)] assms(2) show ?thesis by simp
next
  case (Some x)
  from hit [OF Some] assms show ?thesis by simp
qed

text \<open>A second request for the same key returns the same row and changes nothing.\<close>

lemma goc_idem: "goc k s = (r, s') \<Longrightarrow> goc k s' = (r, s')"
  using goc_finds hit by blast

lemma goc_twice:
  assumes "goc k s = (r, s1)" and "goc k' s1 = (r', s2)"
  shows "goc k s2 = (r, s2)"
  using goc_finds [OF assms(1)] goc_keeps [OF assms(2)] hit by blast

end

section \<open>Numbered changes\<close>

text \<open>
  The contract of \<^verbatim>\<open>record_decision\<close> and \<^verbatim>\<open>resolve_quarantine\<close>: a change names the
  revision its author saw. It succeeds only if that is still the current revision; then
  it advances the revision by one, sets the status and appends one history row.
\<close>

locale revision_ledger =
  fixes revision :: "'s \<Rightarrow> uuid \<Rightarrow> int option"
    and status :: "'s \<Rightarrow> uuid \<Rightarrow> string option"
    and history :: "'s \<Rightarrow> uuid \<Rightarrow> (int \<times> string) list"
    and invar :: "'s \<Rightarrow> bool"
    and change :: "'c \<Rightarrow> 's \<Rightarrow> 's option"
    and target :: "'c \<Rightarrow> uuid"
    and expected :: "'c \<Rightarrow> int"
    and verdict :: "'c \<Rightarrow> string"
  assumes guard: "invar s \<Longrightarrow> change c s = Some s' \<Longrightarrow> revision s (target c) = Some (expected c)"
    and effect: "invar s \<Longrightarrow> change c s = Some s' \<Longrightarrow>
      revision s' (target c) = Some (expected c + 1) \<and> status s' (target c) = Some (verdict c)
      \<and> history s' (target c) = history s (target c) @ [(expected c + 1, verdict c)]"
    and frame: "invar s \<Longrightarrow> change c s = Some s' \<Longrightarrow> i \<noteq> target c \<Longrightarrow>
      revision s' i = revision s i \<and> status s' i = status s i \<and> history s' i = history s i"
    and invar_change: "invar s \<Longrightarrow> change c s = Some s' \<Longrightarrow> invar s'"
begin

text \<open>The history numbers the changes without gap, and the row shows the last of them.\<close>

definition ledger_ok :: "'s \<Rightarrow> uuid \<Rightarrow> bool" where
  "ledger_ok s i = (case revision s i of
       None \<Rightarrow> history s i = []
     | Some n \<Rightarrow> 0 \<le> n \<and> map fst (history s i) = [1..n]
         \<and> (history s i \<noteq> [] \<longrightarrow> status s i = Some (snd (last (history s i)))))"

lemma change_ledger_ok:
  assumes inv: "invar s" and "change c s = Some s'" and "ledger_ok s i"
  shows "ledger_ok s' i"
proof (cases "i = target c")
  case True
  with assms guard [OF inv assms(2)] have 0: "0 \<le> expected c" "map fst (history s i) = [1..expected c]"
    by (simp_all add: ledger_ok_def)
  have "[1..expected c + 1] = [1..expected c] @ [expected c + 1]"
    using 0(1) upto_rec2 [of 1 "expected c + 1"] by simp
  with 0 True effect [OF inv assms(2)] show ?thesis by (simp add: ledger_ok_def)
next
  case False
  from frame [OF inv assms(2) False] assms(3) show ?thesis by (auto simp: ledger_ok_def split: option.splits)
qed

text \<open>Requests arrive in any order; the ones that fail leave no trace.\<close>

fun apply_all :: "'c list \<Rightarrow> 's \<Rightarrow> 's" where
  "apply_all [] s = s"
| "apply_all (c # cs) s = apply_all cs (case change c s of None \<Rightarrow> s | Some s' \<Rightarrow> s')"

lemma apply_all_ok: "invar s \<Longrightarrow> ledger_ok s i \<Longrightarrow> invar (apply_all cs s) \<and> ledger_ok (apply_all cs s) i"
  by (induction cs arbitrary: s) (auto split: option.splits dest: change_ledger_ok invar_change)

text \<open>Two requests that saw the same revision: at most one of them succeeds.\<close>

lemma stale_rejected:
  assumes inv: "invar s" and "change c s = Some s'" and "target d = target c" and "expected d = expected c"
  shows "change d s' = None"
proof (rule ccontr)
  assume "change d s' \<noteq> None"
  then obtain s'' where "change d s' = Some s''" by blast
  from guard [OF invar_change [OF inv assms(2)] this] effect [OF inv assms(2)] assms(3,4)
  show False by simp
qed

end

end
