(* ===== verification/Validation_Service.thy ===== *)
theory Validation_Service
  imports Validation_Engine Store
begin

text \<open>
  The validation service and the quarantine desk (\<^verbatim>\<open>validation/service.py\<close>): storing the
  result of a run with one quarantine record per issue, and resolving, querying and
  linking these records. A resolution is a numbered change like a match decision, so
  the same contract applies to it.
\<close>

definition ATTENTION_STATUSES :: "string list" where
  "ATTENTION_STATUSES = [''open'', ''acknowledged'']"

record validation_outcome =
  vo_result :: validation_run_result
  vo_persisted_result_ids :: "uuid list"
  vo_quarantine_ids :: "uuid list"

section \<open>Context and rules\<close>

definition snapshot_context :: "session \<Rightarrow> uuid \<Rightarrow> uuid \<Rightarrow> (raw_snapshot \<times> ingestion_run) res" where
  "snapshot_context s organization_id snapshot_id =
     (let db = s_working s;
          err = Inl (ConnectorError ''snapshot_scope_mismatch'' ''Raw snapshot is outside organization scope'')
      in case row_by rs_id (db_raw_snapshots db) snapshot_id of None \<Rightarrow> err | Some snapshot \<Rightarrow>
         case row_by so_id (db_source_objects db) (rs_source_object_id snapshot) of None \<Rightarrow> err | Some source_object \<Rightarrow>
         case row_by ss_id (db_source_systems db) (so_source_system_id source_object) of None \<Rightarrow> err | Some source \<Rightarrow>
         case row_by ir_id (db_ingestion_runs db) (rs_ingestion_run_id snapshot) of None \<Rightarrow> err | Some run \<Rightarrow>
         if ss_organization_id source \<noteq> organization_id then err else Inr (snapshot, run))"

definition find_validation_rule :: "session \<Rightarrow> uuid \<times> string \<Rightarrow> validation_rule option" where
  "find_validation_rule s k = (case k of (organization_id, key) \<Rightarrow>
     find (\<lambda>r. vrule_organization_id r = organization_id \<and> vrule_rule_key r = key \<and> vrule_version r = ''1.0'')
       (db_validation_rules (s_working s)))"

definition put_validation_rule :: "validation_rule \<Rightarrow> database \<Rightarrow> database" where
  "put_validation_rule r db = db\<lparr>db_validation_rules := db_validation_rules db @ [r]\<rparr>"

definition rule_model :: "validation_rule_config \<Rightarrow> int \<Rightarrow> uuid \<times> string \<Rightarrow> session \<Rightarrow> validation_rule \<times> session" where
  "rule_model c now k s =
     (case find_validation_rule s k of Some r \<Rightarrow> (r, s)
      | None \<Rightarrow> (case k of (organization_id, key) \<Rightarrow>
          add_row (\<lambda>i. \<lparr>vrule_id = i, vrule_created_at = now, vrule_organization_id = organization_id,
            vrule_rule_key = key, vrule_version = ''1.0'', vrule_title = vr_title c,
            vrule_entity_name = vr_entity c, vrule_severity = vr_severity c,
            vrule_expression_type = vr_rule_type c, vrule_expression_json = vr_parameters c,
            vrule_explanation = vr_explanation c, vrule_remediation = vr_remediation c,
            vrule_active = True\<rparr>) put_validation_rule s))"

text \<open>The dictionary \<^verbatim>\<open>rules\<close> of \<open>validate\<close>.\<close>

fun rule_models :: "uuid \<Rightarrow> int \<Rightarrow> validation_rule_config list \<Rightarrow> (string \<times> validation_rule) list \<Rightarrow> session
    \<Rightarrow> (string \<times> validation_rule) list \<times> session" where
  "rule_models organization_id now [] d s = (d, s)"
| "rule_models organization_id now (c # cs) d s =
     (case rule_model c now (organization_id, vr_rule_id c) s of
        (r, s1) \<Rightarrow> rule_models organization_id now cs (dict_set (vr_rule_id c) r d) s1)"

section \<open>Storing a run\<close>

definition put_validation_result :: "validation_result \<Rightarrow> database \<Rightarrow> database" where
  "put_validation_result r db = db\<lparr>db_validation_results := db_validation_results db @ [r]\<rparr>"

definition put_quarantine :: "quarantine_record \<Rightarrow> database \<Rightarrow> database" where
  "put_quarantine r db = db\<lparr>db_quarantine_records := db_quarantine_records db @ [r]\<rparr>"

definition summary_of :: "rule_summary list \<Rightarrow> string \<Rightarrow> rule_summary option" where
  "summary_of summaries rule_id = map_of (rev (map (\<lambda>s. (rsm_rule_id s, s)) summaries)) rule_id"

definition store_result :: "uuid \<Rightarrow> uuid \<Rightarrow> validation_config \<Rightarrow> validation_run_result \<Rightarrow> int
    \<Rightarrow> (string \<times> validation_rule) \<Rightarrow> session \<Rightarrow> uuid \<times> session" where
  "store_result organization_id run_id config result now p s =
     (case p of (rule_id, rule) \<Rightarrow>
      case summary_of (vrr_summaries result) rule_id of None \<Rightarrow> (0, s) | Some summary \<Rightarrow>
      case add_row (\<lambda>i. \<lparr>vres_id = i, vres_created_at = now, vres_organization_id = organization_id,
        vres_ingestion_run_id = run_id, vres_validation_rule_id = vrule_id rule,
        vres_passed = rsm_passed summary, vres_evaluated_count = int (rsm_evaluated_count summary),
        vres_failed_count = int (rsm_failed_count summary),
        vres_result_json = [(''category'', PStr (rsm_category summary)),
          (''validation_set_id'', PStr (vc_validation_set_id config)),
          (''blocking_failures'', PInt (int (length (filter (\<lambda>i. vi_rule_id i = rule_id \<and> vi_severity i = ''blocking'')
             (vrr_issues result)))))]\<rparr>) put_validation_result s of
      (r, s') \<Rightarrow> (vres_id r, s'))"

definition store_issue :: "uuid \<Rightarrow> uuid \<Rightarrow> uuid \<Rightarrow> (string \<times> validation_rule) list \<Rightarrow> int \<Rightarrow> validation_issue
    \<Rightarrow> session \<Rightarrow> uuid \<times> session" where
  "store_issue organization_id run_id snapshot_id rules now issue s =
     (case map_of rules (vi_rule_id issue) of None \<Rightarrow> (0, s) | Some rule \<Rightarrow>
      case add_row (\<lambda>i. \<lparr>qr_id = i, qr_created_at = now, qr_organization_id = organization_id,
        qr_ingestion_run_id = run_id, qr_validation_rule_id = vrule_id rule,
        qr_raw_snapshot_id = snapshot_id, qr_source_record_key = vi_source_record_key issue,
        qr_field_name = (if vi_fields issue \<noteq> [] then Some (join '','' (vi_fields issue)) else None),
        qr_evidence_masked = vi_evidence_masked issue, qr_explanation = vi_explanation issue,
        qr_status = ''open'', qr_revision = 0, qr_reviewer_id = None, qr_waiver_reason = None,
        qr_resolution_note = None, qr_resolved_at = None, qr_supersedes_quarantine_id = None,
        qr_corrected_snapshot_id = None\<rparr>) put_quarantine s of
      (r, s') \<Rightarrow> (qr_id r, s'))"

definition service_validate :: "runtime \<Rightarrow> uuid \<Rightarrow> uuid \<Rightarrow> pyrec list \<Rightarrow> validation_config
    \<Rightarrow> (string \<times> string list) list \<Rightarrow> int \<Rightarrow> session \<Rightarrow> validation_outcome res \<times> session" where
  "service_validate R organization_id snapshot_id records config references now s =
     (case snapshot_context s organization_id snapshot_id of Inl e \<Rightarrow> (Inl e, s) | Inr (snapshot, run) \<Rightarrow>
      case engine_validate R records config references of Inl e \<Rightarrow> (Inl e, s) | Inr result \<Rightarrow>
      case rule_models organization_id now (vc_rules config) [] s of (rules, s1) \<Rightarrow>
      case store_all (store_result organization_id (ir_id run) config result now) rules s1 of (persisted, s2) \<Rightarrow>
      case store_all (store_issue organization_id (ir_id run) (rs_id snapshot) rules now) (vrr_issues result) s2 of
        (quarantined, s3) \<Rightarrow>
        (Inr \<lparr>vo_result = result, vo_persisted_result_ids = persisted, vo_quarantine_ids = quarantined\<rparr>,
         commit s3))"

section \<open>Resolving\<close>

definition quarantine_statuses :: "string set" where
  "quarantine_statuses = {''open'', ''acknowledged'', ''corrected_upstream'', ''corrected_mapping'', ''waived'', ''closed''}"

definition get_quarantine :: "session \<Rightarrow> uuid \<Rightarrow> uuid \<Rightarrow> quarantine_record res" where
  "get_quarantine s organization_id quarantine_id =
     (case row_by qr_id (db_quarantine_records (s_working s)) quarantine_id of
        None \<Rightarrow> Inl (ConnectorError ''quarantine_not_found'' ''Exception was not found'')
      | Some r \<Rightarrow> if qr_organization_id r \<noteq> organization_id
                  then Inl (ConnectorError ''quarantine_not_found'' ''Exception was not found'') else Inr r)"

definition put_resolution :: "quarantine_resolution \<Rightarrow> database \<Rightarrow> database" where
  "put_resolution r db = db\<lparr>db_quarantine_resolutions := db_quarantine_resolutions db @ [r]\<rparr>"

text \<open>The constraints \<^verbatim>\<open>uq_quarantine_resolution_revision\<close> and \<^verbatim>\<open>ck_quarantine_resolution_revision\<close>.\<close>

definition resolution_insertable :: "database \<Rightarrow> uuid \<Rightarrow> int \<Rightarrow> bool" where
  "resolution_insertable db quarantine_id revision =
     (0 < revision \<and> \<not> list_ex (\<lambda>d. qs_quarantine_id d = quarantine_id \<and> qs_revision d = revision)
        (db_quarantine_resolutions db))"

definition resolve_row :: "string \<Rightarrow> uuid \<Rightarrow> string \<Rightarrow> uuid option \<Rightarrow> int \<Rightarrow> int \<Rightarrow> quarantine_record \<Rightarrow> quarantine_record" where
  "resolve_row status reviewer_id note corrected expected_revision now r =
     r\<lparr>qr_status := status, qr_reviewer_id := Some reviewer_id, qr_resolution_note := Some (strip note),
       qr_waiver_reason := (if status = ''waived'' then Some (strip note) else None),
       qr_corrected_snapshot_id := corrected,
       qr_resolved_at := (if status \<in> set ATTENTION_STATUSES then None else Some now),
       qr_revision := expected_revision + 1\<rparr>"

definition advance_quarantine :: "uuid \<Rightarrow> uuid \<Rightarrow> string \<Rightarrow> uuid \<Rightarrow> string \<Rightarrow> uuid option \<Rightarrow> int \<Rightarrow> int \<Rightarrow> database \<Rightarrow> database" where
  "advance_quarantine organization_id quarantine_id status reviewer_id note corrected expected_revision now db =
     db\<lparr>db_quarantine_records := update_where
          (\<lambda>r. qr_id r = quarantine_id \<and> qr_organization_id r = organization_id \<and> qr_revision r = expected_revision)
          (resolve_row status reviewer_id note corrected expected_revision now)
          (db_quarantine_records db)\<rparr>"

text \<open>The check that a corrected snapshot describes the object the record came from.\<close>

definition check_corrected :: "session \<Rightarrow> uuid \<Rightarrow> quarantine_record \<Rightarrow> uuid option \<Rightarrow> unit res" where
  "check_corrected s organization_id record corrected_snapshot_id =
     (case corrected_snapshot_id of None \<Rightarrow> Inr () | Some c \<Rightarrow>
      case snapshot_context s organization_id c of Inl e \<Rightarrow> Inl e | Inr (corrected, _) \<Rightarrow>
      let err = Inl (ConnectorError ''corrected_snapshot_mismatch''
                  ''Corrected snapshot must describe the same source object'')
      in case row_by rs_id (db_raw_snapshots (s_working s)) (qr_raw_snapshot_id record) of None \<Rightarrow> err
         | Some original \<Rightarrow>
             if rs_source_object_id corrected \<noteq> rs_source_object_id original then err else Inr ())"

definition resolve_quarantine :: "uuid \<Rightarrow> uuid \<Rightarrow> string \<Rightarrow> uuid \<Rightarrow> string \<Rightarrow> uuid option \<Rightarrow> int \<Rightarrow> int \<Rightarrow> bool
    \<Rightarrow> session \<Rightarrow> quarantine_record res \<times> session" where
  "resolve_quarantine organization_id quarantine_id status reviewer_id note corrected expected_revision now do_commit s =
     (if status \<notin> quarantine_statuses
      then (Inl (ConnectorError ''invalid_quarantine_status'' ''Quarantine status is invalid''), s)
      else case get_quarantine s organization_id quarantine_id of Inl e \<Rightarrow> (Inl e, s) | Inr record \<Rightarrow>
      if strip note = []
      then (Inl (ConnectorError ''resolution_note_required'' ''Resolution note is required''), s)
      else case check_corrected s organization_id record corrected of Inl e \<Rightarrow> (Inl e, s) | Inr _ \<Rightarrow>
      if \<not> list_ex (\<lambda>r. qr_id r = quarantine_id \<and> qr_organization_id r = organization_id
               \<and> qr_revision r = expected_revision) (db_quarantine_records (s_working s))
      then (Inl (ConnectorError ''quarantine_conflict''
              ''Exception changed. Refresh before recording a resolution.''), rollback s)
      else
      let s1 = on_working (advance_quarantine organization_id quarantine_id status reviewer_id note corrected
                 expected_revision now) s
      in if \<not> resolution_insertable (s_working s1) quarantine_id (expected_revision + 1)
         then (Inl integrity_error, rollback s1)
         else case add_row (\<lambda>i. \<lparr>qs_id = i, qs_created_at = now, qs_organization_id = organization_id,
                qs_quarantine_id = quarantine_id, qs_revision = expected_revision + 1, qs_status = status,
                qs_note = strip note, qs_reviewer_id = Some reviewer_id, qs_recorded_at = now,
                qs_corrected_snapshot_id = corrected, qs_imported = False\<rparr>) put_resolution s1 of
           (_, s2) \<Rightarrow>
             (case row_by qr_id (db_quarantine_records (s_working s2)) quarantine_id of
                None \<Rightarrow> (Inl (RuntimeError ''ObjectDeletedError''), s2)
              | Some r \<Rightarrow> (Inr r, if do_commit then commit s2 else s2)))"

section \<open>Queue\<close>

definition review_match :: "runtime \<Rightarrow> uuid \<Rightarrow> string option \<Rightarrow> string option \<Rightarrow> bool \<Rightarrow> string option
    \<Rightarrow> quarantine_record \<times> validation_rule \<Rightarrow> bool" where
  "review_match R organization_id status severity needs_attention q p =
     (case p of (r, rule) \<Rightarrow>
      qr_validation_rule_id r = vrule_id rule \<and> qr_organization_id r = organization_id
      \<and> vrule_organization_id rule = organization_id
      \<and> (case status of None \<Rightarrow> True | Some st \<Rightarrow> qr_status r = st)
      \<and> (case severity of None \<Rightarrow> True | Some sv \<Rightarrow> vrule_severity rule = sv)
      \<and> (needs_attention \<longrightarrow> qr_status r \<in> set ATTENTION_STATUSES)
      \<and> (case q of None \<Rightarrow> True
          | Some t \<Rightarrow> strip t \<noteq> [] \<longrightarrow> icontains R (qr_source_record_key r) (strip t)
              \<or> icontains R (vrule_title rule) (strip t) \<or> icontains R (vrule_rule_key rule) (strip t)))"

definition review_query :: "runtime \<Rightarrow> uuid \<Rightarrow> string option \<Rightarrow> string option \<Rightarrow> bool \<Rightarrow> string option \<Rightarrow> session
    \<Rightarrow> (quarantine_record \<times> validation_rule) list" where
  "review_query R organization_id status severity needs_attention q s =
     filter (review_match R organization_id status severity needs_attention q)
       (List.product (db_quarantine_records (s_working s)) (db_validation_rules (s_working s)))"

definition review_queue_count :: "runtime \<Rightarrow> uuid \<Rightarrow> string option \<Rightarrow> string option \<Rightarrow> bool \<Rightarrow> string option \<Rightarrow> session
    \<Rightarrow> nat" where
  "review_queue_count R organization_id status severity needs_attention q s =
     length (review_query R organization_id status severity needs_attention q s)"

definition severity_rank :: "string \<Rightarrow> int" where
  "severity_rank sv = (if sv = ''blocking'' then 0 else if sv = ''error'' then 1 else if sv = ''warning'' then 2 else 3)"

definition queue_order :: "string \<Rightarrow> (quarantine_record \<times> validation_rule \<Rightarrow> int \<times> int \<times> int) option" where
  "queue_order sort_by =
     (if sort_by = ''oldest'' then Some (\<lambda>(r, rule). (0, qr_created_at r, int (qr_id r)))
      else if sort_by = ''newest'' then Some (\<lambda>(r, rule). (0, - qr_created_at r, - int (qr_id r)))
      else if sort_by = ''severity''
      then Some (\<lambda>(r, rule). (severity_rank (vrule_severity rule), qr_created_at r, int (qr_id r)))
      else None)"

definition review_queue :: "runtime \<Rightarrow> uuid \<Rightarrow> string option \<Rightarrow> string option \<Rightarrow> bool \<Rightarrow> string option \<Rightarrow> string
    \<Rightarrow> nat \<Rightarrow> nat \<Rightarrow> session \<Rightarrow> (quarantine_record \<times> validation_rule) list res" where
  "review_queue R organization_id status severity needs_attention q sort_by lmt offset s =
     (case queue_order sort_by of
        None \<Rightarrow> Inl (ConnectorError ''invalid_quarantine_sort'' ''Exception sort is invalid'')
      | Some key \<Rightarrow> Inr (take lmt (drop offset
          (sort_key key (review_query R organization_id status severity needs_attention q s)))))"

record quarantine_summary =
  qsum_total :: nat
  qsum_needs_attention :: nat
  qsum_by_status :: "(string \<times> nat) list"
  qsum_by_severity :: "(string \<times> nat) list"

definition quarantine_queue_summary :: "uuid \<Rightarrow> session \<Rightarrow> quarantine_summary" where
  "quarantine_queue_summary organization_id s =
     (let db = s_working s;
          by_status = count_by (map qr_status
            (filter (\<lambda>r. qr_organization_id r = organization_id) (db_quarantine_records db)));
          by_severity = count_by (map (\<lambda>(r, rule). vrule_severity rule)
            (filter (\<lambda>(r, rule). qr_validation_rule_id r = vrule_id rule \<and> qr_organization_id r = organization_id
               \<and> vrule_organization_id rule = organization_id)
              (List.product (db_quarantine_records db) (db_validation_rules db))))
      in \<lparr>qsum_total = sum_list (map snd by_status),
          qsum_needs_attention =
            sum_list (map (\<lambda>st. case map_of by_status st of None \<Rightarrow> 0 | Some n \<Rightarrow> n) ATTENTION_STATUSES),
          qsum_by_status = by_status, qsum_by_severity = by_severity\<rparr>)"

definition resolution_history :: "uuid \<Rightarrow> uuid \<Rightarrow> nat \<Rightarrow> nat \<Rightarrow> session \<Rightarrow> quarantine_resolution list res" where
  "resolution_history organization_id quarantine_id lmt offset s =
     (case get_quarantine s organization_id quarantine_id of Inl e \<Rightarrow> Inl e | Inr _ \<Rightarrow>
        Inr (take lmt (drop offset (sort_key (\<lambda>d. - qs_revision d)
          (filter (\<lambda>d. qs_organization_id d = organization_id \<and> qs_quarantine_id d = quarantine_id)
            (db_quarantine_resolutions (s_working s)))))))"

definition reprocess_link :: "uuid \<Rightarrow> uuid \<Rightarrow> uuid \<Rightarrow> session \<Rightarrow> quarantine_record res \<times> session" where
  "reprocess_link organization_id prior_id new_id' s =
     (let err = Inl (ConnectorError ''quarantine_not_found'' ''Quarantine record was not found'');
          rows = db_quarantine_records (s_working s)
      in case (row_by qr_id rows prior_id, row_by qr_id rows new_id') of
           (Some prior, Some current) \<Rightarrow>
             if qr_organization_id prior \<noteq> organization_id \<or> qr_organization_id current \<noteq> organization_id
             then (err, s)
             else let current' = current\<lparr>qr_supersedes_quarantine_id := Some (qr_id prior)\<rparr> in
               (Inr current', commit (on_working (\<lambda>db. db\<lparr>db_quarantine_records :=
                  update_where (\<lambda>r. qr_id r = new_id')
                    (\<lambda>r. r\<lparr>qr_supersedes_quarantine_id := Some (qr_id prior)\<rparr>) (db_quarantine_records db)\<rparr>) s))
         | _ \<Rightarrow> (err, s))"

section \<open>Lemmas: rules are created once\<close>

interpretation validation_rules: get_or_create find_validation_rule "rule_model c now" for c now
proof unfold_locales
  fix s k r
  assume "find_validation_rule s k = Some r"
  then show "rule_model c now k s = (r, s)" by (simp add: rule_model_def)
next
  fix s k r s'
  assume none: "find_validation_rule s k = None" and g: "rule_model c now k s = (r, s')"
  obtain oid key where k: "k = (oid, key)" by (metis prod.exhaust)
  have r: "vrule_organization_id r = oid" "vrule_rule_key r = key" "vrule_version r = ''1.0''"
    "db_validation_rules (s_working s') = db_validation_rules (s_working s) @ [r]"
    using g none k by (auto simp: rule_model_def add_row_def Let_def put_validation_rule_def)
  show "find_validation_rule s' k = Some r \<and> (\<forall>k'. k' \<noteq> k \<longrightarrow> find_validation_rule s' k' = find_validation_rule s k')"
    using none r k by (auto simp: find_validation_rule_def find_snoc split: option.splits)
qed

section \<open>Lemmas: resolutions form a ledger\<close>

record resolution_request =
  rr_organization_id :: uuid
  rr_quarantine_id :: uuid
  rr_status :: string
  rr_reviewer_id :: uuid
  rr_note :: string
  rr_corrected :: "uuid option"
  rr_expected_revision :: int
  rr_now :: int

definition resolve :: "resolution_request \<Rightarrow> session \<Rightarrow> session option" where
  "resolve q s = (case resolve_quarantine (rr_organization_id q) (rr_quarantine_id q) (rr_status q)
       (rr_reviewer_id q) (rr_note q) (rr_corrected q) (rr_expected_revision q) (rr_now q) True s of
     (Inl e, s') \<Rightarrow> None | (Inr row, s') \<Rightarrow> Some s')"

definition quar_row :: "session \<Rightarrow> uuid \<Rightarrow> quarantine_record option" where
  "quar_row s i = row_by qr_id (db_quarantine_records (s_working s)) i"

definition quar_revision :: "session \<Rightarrow> uuid \<Rightarrow> int option" where
  "quar_revision s i = map_option qr_revision (quar_row s i)"

definition quar_status :: "session \<Rightarrow> uuid \<Rightarrow> string option" where
  "quar_status s i = map_option qr_status (quar_row s i)"

definition quar_history :: "session \<Rightarrow> uuid \<Rightarrow> (int \<times> string) list" where
  "quar_history s i = map (\<lambda>d. (qs_revision d, qs_status d))
     (filter (\<lambda>d. qs_quarantine_id d = i) (db_quarantine_resolutions (s_working s)))"

definition quar_keys :: "session \<Rightarrow> bool" where
  "quar_keys s = distinct (map qr_id (db_quarantine_records (s_working s)))"

lemma resolve_row_id [simp]: "qr_id (resolve_row st rv note co er now r) = qr_id r"
  by (simp add: resolve_row_def)

lemma get_quarantine_row: "get_quarantine s oid qid = Inr r \<longleftrightarrow> quar_row s qid = Some r \<and> qr_organization_id r = oid"
  by (auto simp: get_quarantine_def quar_row_def split: option.splits if_splits)

text \<open>What a successful resolution did.\<close>

lemma resolve_success:
  assumes "resolve_quarantine oid qid st rv note co er now c s = (Inr r', s')" and keys: "quar_keys s"
  shows "st \<in> quarantine_statuses \<and> strip note \<noteq> []"
    and "\<exists>r. quar_row s qid = Some r \<and> qr_organization_id r = oid \<and> qr_revision r = er
           \<and> r' = resolve_row st rv note co er now r"
    and "\<exists>res. s_working s' = put_resolution res (advance_quarantine oid qid st rv note co er now (s_working s))
           \<and> qs_quarantine_id res = qid \<and> qs_revision res = er + 1 \<and> qs_status res = st \<and> qs_note res = strip note"
    and "c \<Longrightarrow> s_committed s' = s_working s'"
proof -
  from assms(1) obtain r where r: "get_quarantine s oid qid = Inr r"
    by (auto simp: resolve_quarantine_def split: if_splits sum.splits)
  then have row: "quar_row s qid = Some r" and o: "qr_organization_id r = oid" by (simp_all add: get_quarantine_row)
  then have id: "qr_id r = qid" by (auto simp: quar_row_def dest: row_by_Some)
  note ev = resolve_quarantine_def r Let_def
  from assms(1) show "st \<in> quarantine_statuses \<and> strip note \<noteq> []"
    by (auto simp: ev split: if_splits sum.splits)
  from assms(1) have "list_ex (\<lambda>r. qr_id r = qid \<and> qr_organization_id r = oid \<and> qr_revision r = er)
      (db_quarantine_records (s_working s))" by (auto simp: ev split: if_splits sum.splits)
  then obtain x where x: "x \<in> set (db_quarantine_records (s_working s))" "qr_id x = qid" "qr_revision x = er"
    by (auto simp: list_ex_iff)
  with row_by_unique [OF keys [unfolded quar_keys_def] x(1)] row have "x = r" by (simp add: quar_row_def)
  with x have er: "qr_revision r = er" by simp
  from assms(1) obtain res where w: "s_working s' = put_resolution res (advance_quarantine oid qid st rv note co er now (s_working s))"
    "qs_quarantine_id res = qid" "qs_revision res = er + 1" "qs_status res = st" "qs_note res = strip note"
    and r': "quar_row s' qid = Some r'" and cm: "c \<Longrightarrow> s_committed s' = s_working s'"
    by (auto simp: ev add_row_def on_working_def quar_row_def split: if_splits sum.splits option.splits)
  have "quar_row s' qid = Some (resolve_row st rv note co er now r)"
    using row o er id unfolding quar_row_def w(1) put_resolution_def advance_quarantine_def
    by (simp add: find_update_where)
  with r' row o er show "\<exists>r. quar_row s qid = Some r \<and> qr_organization_id r = oid \<and> qr_revision r = er
           \<and> r' = resolve_row st rv note co er now r" by auto
  from w show "\<exists>res. s_working s' = put_resolution res (advance_quarantine oid qid st rv note co er now (s_working s))
           \<and> qs_quarantine_id res = qid \<and> qs_revision res = er + 1 \<and> qs_status res = st \<and> qs_note res = strip note"
    by blast
  show "c \<Longrightarrow> s_committed s' = s_working s'" by (rule cm)
qed

lemma quar_row_advance:
  assumes "s_working s' = put_resolution res (advance_quarantine oid qid st rv note co er now (s_working s))"
  shows "quar_row s' i = map_option (\<lambda>r. if qr_id r = qid \<and> qr_organization_id r = oid \<and> qr_revision r = er
      then resolve_row st rv note co er now r else r) (quar_row s i)"
  unfolding quar_row_def assms put_resolution_def advance_quarantine_def by (simp add: find_update_where)

lemma quar_history_advance:
  assumes "s_working s' = put_resolution res (advance_quarantine oid qid st rv note co er now (s_working s))"
    and "qs_quarantine_id res = qid" and "qs_revision res = er + 1" and "qs_status res = st"
  shows "quar_history s' i = quar_history s i @ (if i = qid then [(er + 1, st)] else [])"
  using assms by (auto simp: quar_history_def put_resolution_def advance_quarantine_def)

lemma quar_keys_advance:
  assumes "s_working s' = put_resolution res (advance_quarantine oid qid st rv note co er now (s_working s))"
    and "quar_keys s"
  shows "quar_keys s'"
  using assms(2) unfolding quar_keys_def assms(1) put_resolution_def advance_quarantine_def
  by (simp add: keys_update_where)

interpretation resolutions: revision_ledger quar_revision quar_status quar_history quar_keys resolve
  rr_quarantine_id rr_expected_revision rr_status
proof unfold_locales
  fix s q s'
  assume inv: "quar_keys s" and d: "resolve q s = Some s'"
  from d obtain r' where r': "resolve_quarantine (rr_organization_id q) (rr_quarantine_id q) (rr_status q)
       (rr_reviewer_id q) (rr_note q) (rr_corrected q) (rr_expected_revision q) (rr_now q) True s = (Inr r', s')"
    by (auto simp: resolve_def split: prod.splits sum.splits)
  note f = resolve_success [OF r' inv]
  from f(2) obtain r where r: "quar_row s (rr_quarantine_id q) = Some r" "qr_organization_id r = rr_organization_id q"
    "qr_revision r = rr_expected_revision q" by blast
  then have id: "qr_id r = rr_quarantine_id q" by (auto simp: quar_row_def dest: row_by_Some)
  from f(3) obtain res where w: "s_working s' = put_resolution res (advance_quarantine (rr_organization_id q)
      (rr_quarantine_id q) (rr_status q) (rr_reviewer_id q) (rr_note q) (rr_corrected q)
      (rr_expected_revision q) (rr_now q) (s_working s))"
    "qs_quarantine_id res = rr_quarantine_id q" "qs_revision res = rr_expected_revision q + 1"
    "qs_status res = rr_status q" by blast
  note adv = quar_row_advance [OF w(1)] quar_history_advance [OF w]
  show "quar_revision s (rr_quarantine_id q) = Some (rr_expected_revision q)"
    using r by (simp add: quar_revision_def)
  show "quar_revision s' (rr_quarantine_id q) = Some (rr_expected_revision q + 1)
      \<and> quar_status s' (rr_quarantine_id q) = Some (rr_status q)
      \<and> quar_history s' (rr_quarantine_id q)
          = quar_history s (rr_quarantine_id q) @ [(rr_expected_revision q + 1, rr_status q)]"
    using r id by (simp add: quar_revision_def quar_status_def adv resolve_row_def)
  show "quar_keys s'" by (rule quar_keys_advance [OF w(1) inv])
  fix i
  assume i: "i \<noteq> rr_quarantine_id q"
  then have "quar_row s' i = quar_row s i"
    unfolding adv(1) by (cases "quar_row s i") (auto simp: quar_row_def dest: row_by_Some)
  with i show "quar_revision s' i = quar_revision s i \<and> quar_status s' i = quar_status s i
      \<and> quar_history s' i = quar_history s i"
    by (simp add: quar_revision_def quar_status_def adv(2))
qed

section \<open>Properties of the quarantine desk\<close>

fun run_resolutions :: "resolution_request list \<Rightarrow> session \<Rightarrow> session" where
  "run_resolutions [] s = s"
| "run_resolutions (q # qs) s = run_resolutions qs (case resolve q s of None \<Rightarrow> s | Some s' \<Rightarrow> s')"

lemma run_resolutions_eq: "run_resolutions qs s = resolutions.apply_all qs s"
  by (induction qs arbitrary: s) auto

text \<open>
  C9: whatever resolutions reviewers send, the resolutions of a quarantine record stay
  numbered 1 to its revision, and its status is that of the last one.
\<close>

theorem resolutions_numbered:
  assumes "quar_keys s" and "quar_revision s i = Some 0" and "quar_history s i = []"
    and "quar_revision (run_resolutions qs s) i = Some n"
  shows "map fst (quar_history (run_resolutions qs s) i) = [1..n]
    \<and> (quar_history (run_resolutions qs s) i = []
       \<or> quar_status (run_resolutions qs s) i = Some (snd (last (quar_history (run_resolutions qs s) i))))"
proof -
  have "resolutions.ledger_ok s i" using assms by (simp add: resolutions.ledger_ok_def)
  with resolutions.apply_all_ok [OF assms(1)] have "resolutions.ledger_ok (run_resolutions qs s) i"
    by (simp add: run_resolutions_eq)
  with assms(4) show ?thesis by (auto simp: resolutions.ledger_ok_def)
qed

text \<open>
  a successful resolution leaves a consistent row: resolved exactly when its status
  needs no attention any more, with a waiver reason exactly when it was waived, its note
  stripped, its revision one higher, and everything else of the record as it was.
\<close>

theorem resolution_row_consistent:
  assumes "resolve_quarantine oid qid st rv note co er now c s = (Inr r', s')" and "quar_keys s"
  shows "qr_revision r' = er + 1 \<and> qr_status r' = st \<and> qr_resolution_note r' = Some (strip note)
    \<and> (qr_resolved_at r' = None \<longleftrightarrow> st \<in> set ATTENTION_STATUSES)
    \<and> (qr_waiver_reason r' \<noteq> None \<longleftrightarrow> st = ''waived'')
    \<and> (\<exists>r. quar_row s qid = Some r \<and> qr_revision r = er \<and> qr_explanation r' = qr_explanation r
         \<and> qr_raw_snapshot_id r' = qr_raw_snapshot_id r \<and> qr_source_record_key r' = qr_source_record_key r)"
  using resolve_success(2) [OF assms] by (auto simp: resolve_row_def split: if_splits)

definition demo_quarantine :: quarantine_record where
  "demo_quarantine = \<lparr>qr_id = 4, qr_created_at = 0, qr_organization_id = 1, qr_ingestion_run_id = 2,
     qr_validation_rule_id = 3, qr_raw_snapshot_id = 5, qr_source_record_key = ''row-1'', qr_field_name = None,
     qr_evidence_masked = None, qr_explanation = ''e'', qr_status = ''open'', qr_revision = 0, qr_reviewer_id = None,
     qr_waiver_reason = None, qr_resolution_note = None, qr_resolved_at = None,
     qr_supersedes_quarantine_id = None, qr_corrected_snapshot_id = None\<rparr>"

definition demo_quarantine_desk :: session where
  "demo_quarantine_desk = fresh_session\<lparr>s_working := empty_db\<lparr>db_quarantine_records := [demo_quarantine]\<rparr>, s_next := 10\<rparr>"

definition demo_resolution :: "string \<Rightarrow> int \<Rightarrow> resolution_request" where
  "demo_resolution st er = \<lparr>rr_organization_id = 1, rr_quarantine_id = 4, rr_status = st, rr_reviewer_id = 9,
     rr_note = ''ok'', rr_corrected = None, rr_expected_revision = er, rr_now = 50\<rparr>"

lemma demo_quarantine_facts:
  "quar_keys demo_quarantine_desk" "quar_revision demo_quarantine_desk 4 = Some 0"
  "quar_history demo_quarantine_desk 4 = []"
  "quar_revision (run_resolutions [demo_resolution ''acknowledged'' 0, demo_resolution ''closed'' 0,
     demo_resolution ''waived'' 1] demo_quarantine_desk) 4 = Some 2"
  by code_simp+

theorem resolutions_numbered_witness:
  "map fst (quar_history (run_resolutions [demo_resolution ''acknowledged'' 0, demo_resolution ''closed'' 0,
     demo_resolution ''waived'' 1] demo_quarantine_desk) 4) = [1..2]"
  using resolutions_numbered [OF demo_quarantine_facts] by (rule conjunct1)

theorem resolution_row_consistent_witness:
  "\<exists>r' s'. resolve_quarantine 1 4 ''waived'' 9 ''ok'' None 0 50 True demo_quarantine_desk = (Inr r', s')
    \<and> qr_revision r' = 1 \<and> qr_waiver_reason r' \<noteq> None"
proof -
  have "\<not> isl (fst (resolve_quarantine 1 4 ''waived'' 9 ''ok'' None 0 50 True demo_quarantine_desk))" by code_simp
  then obtain r' s' where r: "resolve_quarantine 1 4 ''waived'' 9 ''ok'' None 0 50 True demo_quarantine_desk = (Inr r', s')"
    using returned_pair by blast
  from resolution_row_consistent [OF r demo_quarantine_facts(1)] r show ?thesis by auto
qed

end
