(* ===== verification/Files.thy ===== *)
theory Files
  imports Prelude
begin

text \<open>
  The files the services write. A file system is a map from paths to contents.
  Every writer of the program publishes a file the same way: it writes a temporary
  file beside the target, then moves it over the target with \<^verbatim>\<open>os.replace\<close>. The
  steps are kept apart, so that what another reader can see between them is stated.
\<close>

type_synonym files = "string \<rightharpoonup> string"

definition write_text :: "string \<Rightarrow> string \<Rightarrow> files \<Rightarrow> files" where
  "write_text path content fs = fs(path \<mapsto> content)"

definition os_replace :: "string \<Rightarrow> string \<Rightarrow> files \<Rightarrow> files res" where
  "os_replace from to fs = (case fs from of
       None \<Rightarrow> Inl FileNotFoundError
     | Some c \<Rightarrow> Inr (if from = to then fs else (fs(to \<mapsto> c))(from := None)))"

definition unlink :: "string \<Rightarrow> files \<Rightarrow> files res" where
  "unlink path fs = (if fs path = None then Inl FileNotFoundError else Inr (fs(path := None)))"

text \<open>The states a publication goes through: before, with the temporary file, after.\<close>

definition publish_states :: "string \<Rightarrow> string \<Rightarrow> string \<Rightarrow> files \<Rightarrow> files list" where
  "publish_states temporary path content fs =
     (let fs1 = write_text temporary content fs in
      fs # fs1 # (case os_replace temporary path fs1 of Inl e \<Rightarrow> [] | Inr fs2 \<Rightarrow> [fs2]))"

definition publish :: "string \<Rightarrow> string \<Rightarrow> string \<Rightarrow> files \<Rightarrow> files" where
  "publish temporary path content fs = last (publish_states temporary path content fs)"

lemma publish_eq:
  "temporary \<noteq> path \<Longrightarrow> publish temporary path content fs = (fs(path \<mapsto> content))(temporary := None)"
  by (auto simp: publish_def publish_states_def write_text_def os_replace_def Let_def)

lemma publish_reads [simp]:
  "temporary \<noteq> path \<Longrightarrow> publish temporary path content fs path = Some content"
  "q \<noteq> path \<Longrightarrow> q \<noteq> temporary \<Longrightarrow> publish temporary path content fs q = fs q"
  by (cases "temporary = path"; simp add: publish_eq)
    (auto simp: publish_def publish_states_def write_text_def os_replace_def Let_def)

text \<open>A reader of the target sees the old content or the whole new one, at every step.\<close>

lemma publish_atomic:
  assumes "st \<in> set (publish_states temporary path content fs)" and "temporary \<noteq> path"
  shows "st path = fs path \<or> st path = Some content"
  using assms by (auto simp: publish_states_def write_text_def os_replace_def Let_def)

end
