(* ===== verification/Mapping_Service.thy ===== *)
theory Mapping_Service
  imports Mapping_Engine Validation_Service Files
begin

text \<open>
  The mapping service (\<^verbatim>\<open>mapping/service.py\<close>): a run of the engine with its execution
  row, one error row per issue, and the output file of a run that is not a preview.
\<close>

record mapping_outcome =
  mo_execution_id :: uuid
  mo_status :: string
  mo_input_count :: nat
  mo_output_count :: nat
  mo_error_count :: nat
  mo_output_uri :: "string option"
  mo_outputs :: "pyrec list"
  mo_issues :: "mapping_issue list"

definition verify_snapshot :: "session \<Rightarrow> uuid \<Rightarrow> uuid \<Rightarrow> unit res" where
  "verify_snapshot s organization_id snapshot_id =
     (let db = s_working s;
          err = Inl (ConnectorError ''snapshot_scope_mismatch'' ''Raw snapshot is outside organization scope'')
      in case row_by rs_id (db_raw_snapshots db) snapshot_id of None \<Rightarrow> err | Some snapshot \<Rightarrow>
         case row_by so_id (db_source_objects db) (rs_source_object_id snapshot) of None \<Rightarrow> err | Some source_object \<Rightarrow>
         case row_by ss_id (db_source_systems db) (so_source_system_id source_object) of None \<Rightarrow> err | Some source \<Rightarrow>
         if ss_organization_id source \<noteq> organization_id then err else Inr ())"

definition put_execution :: "mapping_execution \<Rightarrow> database \<Rightarrow> database" where
  "put_execution r db = db\<lparr>db_mapping_executions := db_mapping_executions db @ [r]\<rparr>"

definition put_mapping_error :: "mapping_error \<Rightarrow> database \<Rightarrow> database" where
  "put_mapping_error r db = db\<lparr>db_mapping_errors := db_mapping_errors db @ [r]\<rparr>"

definition error_row :: "uuid \<Rightarrow> int \<Rightarrow> mapping_issue \<Rightarrow> uuid \<Rightarrow> mapping_error" where
  "error_row execution_id now issue i =
     \<lparr>me_id = i, me_created_at = now, me_mapping_execution_id = execution_id,
      me_source_record_key = mi_source_record_key issue, me_rule_sequence = int (mi_rule_sequence issue),
      me_target_field = mi_target_field issue, me_error_code = mi_error_code issue,
      me_explanation = mi_explanation issue, me_evidence_masked = mi_evidence_masked issue\<rparr>"

definition store_mapping_error :: "uuid \<Rightarrow> int \<Rightarrow> mapping_issue \<Rightarrow> session \<Rightarrow> uuid \<times> session" where
  "store_mapping_error execution_id now issue s =
     (case add_row (error_row execution_id now issue) put_mapping_error s of (r, s') \<Rightarrow> (me_id r, s'))"

definition execution_status :: "bool \<Rightarrow> mapping_result \<Rightarrow> string" where
  "execution_status dry_run result =
     (if dry_run then ''previewed''
      else if mres_issues result = [] then ''succeeded''
      else if mres_outputs result \<noteq> [] then ''partially_succeeded'' else ''failed'')"

text \<open>Writing the outputs under the execution's id, by a temporary file; nothing for a preview.\<close>

definition output_path :: "runtime \<Rightarrow> string \<Rightarrow> uuid \<Rightarrow> string" where
  "output_path R output_root execution_id = output_root @ ''/'' @ rt_uuid_str R execution_id @ ''.json''"

definition publish_outputs :: "runtime \<Rightarrow> string \<Rightarrow> uuid \<Rightarrow> bool \<Rightarrow> mapping_result \<Rightarrow> session \<times> files
    \<Rightarrow> string option \<times> session \<times> files" where
  "publish_outputs R output_root execution_id dry_run result st =
     (case st of (s, fs) \<Rightarrow>
      if dry_run then (None, s, fs)
      else case take_uuid s of (u, s') \<Rightarrow>
        let path = output_path R output_root execution_id;
            temporary = output_root @ ''/.'' @ rt_uuid_str R execution_id @ ''.'' @ rt_uuid_hex R u @ ''.tmp''
        in (Some (rt_as_uri R path), s',
            publish temporary path (rt_json R (PList (map PDict (mres_outputs result))) @ [CHR 0x0A]) fs))"

definition finish_execution :: "uuid \<Rightarrow> string \<Rightarrow> mapping_result \<Rightarrow> string option \<Rightarrow> int \<Rightarrow> database \<Rightarrow> database" where
  "finish_execution execution_id status result uri now db =
     db\<lparr>db_mapping_executions := update_where (\<lambda>r. mx_id r = execution_id)
          (\<lambda>r. r\<lparr>mx_status := status, mx_input_count := int (mres_input_count result),
             mx_output_count := int (length (mres_outputs result)),
             mx_error_count := int (length (mres_issues result)),
             mx_output_uri := uri, mx_ended_at := Some now\<rparr>) (db_mapping_executions db)\<rparr>"

definition new_execution :: "uuid \<Rightarrow> uuid \<Rightarrow> mapping_config \<Rightarrow> bool \<Rightarrow> int \<Rightarrow> uuid \<Rightarrow> mapping_execution" where
  "new_execution organization_id snapshot_id config dry_run now i =
     \<lparr>mx_id = i, mx_created_at = now, mx_organization_id = organization_id,
      mx_raw_snapshot_id = snapshot_id, mx_mapping_key = mc_mapping_id config,
      mx_mapping_version = mc_schema_version config, mx_status = ''running'', mx_dry_run = dry_run,
      mx_input_count = 0, mx_output_count = 0, mx_error_count = 0, mx_output_uri = None,
      mx_started_at = now, mx_ended_at = None\<rparr>"

definition mapping_execute :: "runtime \<Rightarrow> string \<Rightarrow> plugins \<Rightarrow> uuid \<Rightarrow> uuid \<Rightarrow> pyrec list \<Rightarrow> mapping_config \<Rightarrow> lookups
    \<Rightarrow> pyrec option \<Rightarrow> bool \<Rightarrow> int option \<Rightarrow> int \<Rightarrow> session \<times> files \<Rightarrow> mapping_outcome res \<times> session \<times> files" where
  "mapping_execute R output_root plugins organization_id snapshot_id records config lookups context dry_run
     preview_limit now st =
     (case st of (s, fs) \<Rightarrow>
      case verify_snapshot s organization_id snapshot_id of Inl e \<Rightarrow> (Inl e, s, fs) | Inr _ \<Rightarrow>
      case add_row (new_execution organization_id snapshot_id config dry_run now) put_execution s of (execution, s1) \<Rightarrow>
      case engine_execute R plugins records config lookups context (if dry_run then preview_limit else None) of
        Inl e \<Rightarrow> (Inl e, s1, fs)
      | Inr result \<Rightarrow>
      case store_all (store_mapping_error (mx_id execution) now) (mres_issues result) s1 of (_, s2) \<Rightarrow>
      case publish_outputs R output_root (mx_id execution) dry_run result (s2, fs) of (uri, s3, fs3) \<Rightarrow>
      let status = execution_status dry_run result in
      (Inr \<lparr>mo_execution_id = mx_id execution, mo_status = status,
         mo_input_count = mres_input_count result, mo_output_count = length (mres_outputs result),
         mo_error_count = length (mres_issues result), mo_output_uri = uri,
         mo_outputs = mres_outputs result, mo_issues = mres_issues result\<rparr>,
       commit (on_working (finish_execution (mx_id execution) status result uri now) s3), fs3))"

section \<open>Lemmas\<close>

text \<open>What an issue and an error row have in common.\<close>

definition issue_key :: "mapping_issue \<Rightarrow> string \<times> int \<times> string \<times> string" where
  "issue_key i = (mi_source_record_key i, int (mi_rule_sequence i), mi_target_field i, mi_explanation i)"

definition error_key :: "mapping_error \<Rightarrow> string \<times> int \<times> string \<times> string" where
  "error_key e = (me_source_record_key e, me_rule_sequence e, me_target_field e, me_explanation e)"

lemma store_errors:
  assumes "store_all (store_mapping_error x now) is s = (ids, s')"
  shows "\<exists>errs. s_working s' = (s_working s)\<lparr>db_mapping_errors := db_mapping_errors (s_working s) @ errs\<rparr>
      \<and> map error_key errs = map issue_key is \<and> (\<forall>e \<in> set errs. me_mapping_execution_id e = x)
      \<and> s_committed s' = s_committed s"
  using assms
proof (induction "is" arbitrary: s ids)
  case (Cons i "is")
  from Cons.prems obtain j s1 ids1 where one: "store_mapping_error x now i s = (j, s1)"
    and rest: "store_all (store_mapping_error x now) is s1 = (ids1, s')"
    by (auto split: prod.splits)
  define e where "e = error_row x now i (new_id s)"
  have s1: "s1 = snd (add_row (error_row x now i) put_mapping_error s)"
    using one by (simp add: store_mapping_error_def split: prod.splits)
  have e: "s_working s1 = (s_working s)\<lparr>db_mapping_errors := db_mapping_errors (s_working s) @ [e]\<rparr>"
    "error_key e = issue_key i" "me_mapping_execution_id e = x" "s_committed s1 = s_committed s"
    by (simp_all add: s1 e_def put_mapping_error_def error_row_def error_key_def issue_key_def)
  from Cons.IH [OF rest] obtain errs where "s_working s' = (s_working s1)\<lparr>db_mapping_errors := db_mapping_errors (s_working s1) @ errs\<rparr>"
    "map error_key errs = map issue_key is" "\<forall>e \<in> set errs. me_mapping_execution_id e = x" "s_committed s' = s_committed s1"
    by blast
  with e show ?case by (intro exI [of _ "e # errs"]) simp
qed simp

lemma temporary_differs: "output_root @ ''/.'' @ a @ b \<noteq> output_root @ ''/'' @ rt_uuid_str R i @ ''.json''"
  if "rt_uuid_str R i \<noteq> []" "hd (rt_uuid_str R i) \<noteq> CHR ''.''"
  using that by (cases "rt_uuid_str R i") auto

lemma publish_outputs_effect:
  assumes "publish_outputs R dir x dry result (s, fs) = (uri, s', fs')"
  shows "s_working s' = s_working s" and "s_committed s' = s_committed s"
    and "dry \<Longrightarrow> fs' = fs \<and> uri = None"
    and "\<not> dry \<Longrightarrow> rt_uuid_str R x \<noteq> [] \<Longrightarrow> hd (rt_uuid_str R x) \<noteq> CHR ''.'' \<Longrightarrow>
      uri = Some (rt_as_uri R (output_path R dir x))
      \<and> fs' (output_path R dir x) = Some (rt_json R (PList (map PDict (mres_outputs result))) @ [CHR 0x0A])"
  using assms temporary_differs
  by (auto simp: publish_outputs_def output_path_def Let_def take_uuid_def split: if_splits)

section \<open>Properties of the mapping service\<close>

text \<open>
  C11: a mapping run that returns commits one execution row that reports it (counts,
  status, end) and one error row per issue, in order; a preview touches no file, any other
  run leaves its outputs in the file its row names.
\<close>

theorem mapping_run_recorded:
  assumes run: "mapping_execute R dir plugins oid sid records config lookups context dry pl now (s, fs) = (Inr o', s', fs')"
    and fresh: "row_by mx_id (db_mapping_executions (s_working s)) (new_id s) = None"
    and names: "\<forall>u. rt_uuid_str R u \<noteq> [] \<and> hd (rt_uuid_str R u) \<noteq> CHR ''.''"
  shows "(\<exists>row. row_by mx_id (db_mapping_executions (s_committed s')) (mo_execution_id o') = Some row
        \<and> mx_status row = mo_status o' \<and> mx_input_count row = int (mo_input_count o')
        \<and> mx_output_count row = int (length (mo_outputs o')) \<and> mx_error_count row = int (length (mo_issues o'))
        \<and> mx_output_uri row = mo_output_uri o' \<and> mx_ended_at row \<noteq> None)
    \<and> (\<exists>errs. db_mapping_errors (s_committed s') = db_mapping_errors (s_working s) @ errs
        \<and> map error_key errs = map issue_key (mo_issues o')
        \<and> list_all (\<lambda>e. me_mapping_execution_id e = mo_execution_id o') errs)
    \<and> (if dry then fs' = fs \<and> mo_output_uri o' = None
       else mo_output_uri o' = Some (rt_as_uri R (output_path R dir (mo_execution_id o')))
         \<and> fs' (output_path R dir (mo_execution_id o')) = Some (rt_json R (PList (map PDict (mo_outputs o'))) @ [CHR 0x0A]))"
proof -
  define ex where "ex = new_execution oid sid config dry now (new_id s)"
  define s1 where "s1 = snd (add_row (new_execution oid sid config dry now) put_execution s)"
  have add: "add_row (new_execution oid sid config dry now) put_execution s = (ex, s1)"
    by (simp add: ex_def s1_def add_row_def Let_def)
  have ex: "mx_id ex = new_id s" "s_working s1 = put_execution ex (s_working s)"
    by (simp_all add: ex_def s1_def new_execution_def)
  from run obtain res where eng: "engine_execute R plugins records config lookups context (if dry then pl else None) = Inr res"
    by (auto simp: mapping_execute_def split: sum.splits prod.splits)
  obtain ids s2 where st: "store_all (store_mapping_error (mx_id ex) now) (mres_issues res) s1 = (ids, s2)"
    by (metis prod.exhaust)
  obtain uri s3 fs3 where pub: "publish_outputs R dir (mx_id ex) dry res (s2, fs) = (uri, s3, fs3)"
    by (metis prod.exhaust)
  from run have o': "mo_execution_id o' = mx_id ex" "mo_status o' = execution_status dry res"
      "mo_input_count o' = mres_input_count res" "mo_outputs o' = mres_outputs res"
      "mo_issues o' = mres_issues res" "mo_output_uri o' = uri"
    and s': "s_committed s' = finish_execution (mx_id ex) (execution_status dry res) res uri now (s_working s3)"
    and fs: "fs3 = fs'"
    by (auto simp: mapping_execute_def add eng st pub Let_def split: sum.splits)
  from store_errors [OF st] obtain errs where
    w2: "s_working s2 = (s_working s1)\<lparr>db_mapping_errors := db_mapping_errors (s_working s1) @ errs\<rparr>"
    and errs: "map error_key errs = map issue_key (mres_issues res)" "\<forall>e \<in> set errs. me_mapping_execution_id e = mx_id ex"
    by blast
  have w3: "s_working s3 = s_working s2" by (rule publish_outputs_effect(1) [OF pub])
  have 1: "row_by mx_id (db_mapping_executions (s_working s3)) (mx_id ex) = Some ex"
    using fresh ex by (simp add: w3 w2 put_execution_def row_by_append)
  have 2: "db_mapping_errors (s_committed s') = db_mapping_errors (s_working s) @ errs"
    by (simp add: s' finish_execution_def w3 w2 ex(2) put_execution_def)
  note pub = pub [unfolded fs]
  have 3: "if dry then fs' = fs \<and> uri = None else uri = Some (rt_as_uri R (output_path R dir (mx_id ex)))
      \<and> fs' (output_path R dir (mx_id ex)) = Some (rt_json R (PList (map PDict (mres_outputs res))) @ [CHR 0x0A])"
    using publish_outputs_effect(3,4) [OF pub] names by auto
  show ?thesis unfolding o' using 1 2 3 errs
    by (auto simp: s' finish_execution_def find_update_where list_all_iff)
qed

text \<open>
  a mapping run that raises changes neither the committed database nor any file.
\<close>

theorem failed_mapping_leaves_no_trace:
  assumes "mapping_execute R dir plugins oid sid records config lookups context dry pl now (s, fs) = (Inl e, s', fs')"
  shows "s_committed s' = s_committed s \<and> fs' = fs"
  using assms by (auto simp: mapping_execute_def add_row_def Let_def split: sum.splits prod.splits)

definition demo_source_db :: database where
  "demo_source_db = empty_db\<lparr>
     db_source_systems := [\<lparr>ss_id = 2, ss_created_at = 0, ss_organization_id = 1, ss_source_key = ''hris'', ss_name = ''HRIS'',
       ss_connector_type = ''csv'', ss_owner_role = None, ss_data_classification = ''internal'',
       ss_secret_reference = None, ss_active = True\<rparr>],
     db_source_objects := [\<lparr>so_id = 3, so_created_at = 0, so_source_system_id = 2, so_object_key = ''workers'',
       so_object_type = ''file'', so_location_template = None, so_refresh_expectation = None\<rparr>],
     db_raw_snapshots := [\<lparr>rs_id = 4, rs_created_at = 0, rs_ingestion_run_id = 9, rs_source_object_id = 3,
       rs_storage_uri = ''file:///raw/1'', rs_checksum_sha256 = ''ab'', rs_row_count = Some 2,
       rs_schema_fingerprint = None, rs_manifest_json = []\<rparr>]\<rparr>"

definition demo_source_session :: session where
  "demo_source_session = fresh_session\<lparr>s_committed := demo_source_db, s_working := demo_source_db, s_next := 20\<rparr>"

abbreviation demo_mapping_run :: "uuid \<Rightarrow> mapping_outcome res \<times> session \<times> files" where
  "demo_mapping_run oid \<equiv> mapping_execute ascii_runtime ''var/mapped'' [] oid 4 demo_rows
     (demo_mapping [demo_mapping_rule ''id'' ''employee_id'' ''copy'' True, demo_mapping_rule ''label'' ''name'' ''trim'' True])
     [] None False None 50 (demo_source_session, Map.empty)"

lemma digits_of_digit: "c \<in> set (digits_of f n) \<Longrightarrow> 48 \<le> (of_char c :: nat)"
  by (induction f n rule: digits_of.induct) (auto split: if_splits)

lemma ascii_uuid_text: "\<forall>u. rt_uuid_str ascii_runtime u \<noteq> [] \<and> hd (rt_uuid_str ascii_runtime u) \<noteq> CHR ''.''"
proof
  fix u
  have "digits_of (Suc u) u \<noteq> []" by simp
  moreover from this have "48 \<le> (of_char (hd (digits_of (Suc u) u)) :: nat)" by (intro digits_of_digit [of _ "Suc u" u] hd_in_set)
  ultimately show "rt_uuid_str ascii_runtime u \<noteq> [] \<and> hd (rt_uuid_str ascii_runtime u) \<noteq> CHR ''.''"
    by (auto simp: ascii_runtime_def nat_str_def simp del: digits_of.simps)
qed

theorem mapping_run_recorded_witness:
  "\<exists>o' s' fs'. demo_mapping_run 1 = (Inr o', s', fs') \<and> mo_status o' = ''partially_succeeded''
     \<and> fs' (output_path ascii_runtime ''var/mapped'' (mo_execution_id o')) \<noteq> None"
proof -
  have "\<not> isl (fst (demo_mapping_run 1))" by code_simp
  then obtain o' t where "demo_mapping_run 1 = (Inr o', t)" using returned_pair by blast
  moreover obtain s' fs' where "t = (s', fs')" by (metis prod.exhaust)
  ultimately have r: "demo_mapping_run 1 = (Inr o', s', fs')" by simp
  have f: "row_by mx_id (db_mapping_executions (s_working demo_source_session)) (new_id demo_source_session) = None"
    by code_simp
  have "map_sum (\<lambda>e. ()) mo_status (fst (demo_mapping_run 1)) = Inr ''partially_succeeded''" by code_simp
  with r have "mo_status o' = ''partially_succeeded''" by simp
  with mapping_run_recorded [OF r f ascii_uuid_text] r show ?thesis by auto
qed

theorem failed_mapping_leaves_no_trace_witness:
  "\<exists>e s' fs'. demo_mapping_run 7 = (Inl e, s', fs') \<and> s_committed s' = demo_source_db \<and> fs' = Map.empty"
proof -
  have "isl (fst (demo_mapping_run 7))" by code_simp
  then obtain e t where "demo_mapping_run 7 = (Inl e, t)" using raised_pair by blast
  moreover obtain s' fs' where "t = (s', fs')" by (metis prod.exhaust)
  ultimately have r: "demo_mapping_run 7 = (Inl e, s', fs')" by simp
  from failed_mapping_leaves_no_trace [OF r] r show ?thesis by (simp add: demo_source_session_def)
qed

end
