(* ===== verification/Security.thy ===== *)
theory Security
  imports Mapping_Engine Store
begin

text \<open>
  Identity, authorization, the request limits and the audit log (\<^verbatim>\<open>security/\<close>), and the
  attribute filter of \<^verbatim>\<open>observability/telemetry.py\<close>. A frozen set of strings is a list
  here, only membership counts. The rate limiter's state is its table of queues; its
  clock reading is an argument.
\<close>

section \<open>Identity\<close>

record actor =
  actor_id :: uuid
  actor_subject :: string
  actor_display_name :: string
  actor_organization_ids :: "string list"
  actor_roles :: "string list"
  actor_permissions :: "string list"
  actor_authentication_method :: string

definition demo_admin_permissions :: "string list" where
  "demo_admin_permissions =
     [''sources:read'', ''ingestion:write'', ''profiles:write'', ''mappings:write'', ''validation:write'',
      ''matching:write'', ''marts:write'', ''exports:write'', ''lineage:read'', ''audit:read'', ''retention:write'']"

definition demo_authenticate :: "runtime \<Rightarrow> bool \<Rightarrow> string \<Rightarrow> string option \<Rightarrow> actor res" where
  "demo_authenticate R enabled environment credential =
     (if \<not> enabled \<or> environment = ''production''
      then Inl (ConnectorError ''identity_required'' ''Production identity is required'')
      else if \<not> named credential
      then Inl (ConnectorError ''identity_required'' ''An explicit demo identity is required'')
      else let user = or_empty credential in
      if user = ''demo-admin''
      then Inr \<lparr>actor_id = rt_uuid5 R ''eduwork:demo-admin'', actor_subject = ''demo-admin'',
         actor_display_name = ''Demo Administrator'', actor_organization_ids = [''*''],
         actor_roles = [''administrator''], actor_permissions = demo_admin_permissions,
         actor_authentication_method = ''demo''\<rparr>
      else if user = ''demo-viewer''
      then Inr \<lparr>actor_id = rt_uuid5 R ''eduwork:demo-viewer'', actor_subject = ''demo-viewer'',
         actor_display_name = ''Demo Viewer'', actor_organization_ids = [''*''],
         actor_roles = [''viewer''], actor_permissions = [''sources:read'', ''lineage:read''],
         actor_authentication_method = ''demo''\<rparr>
      else Inl (ConnectorError ''identity_invalid'' ''Demo identity is invalid''))"

text \<open>\<^verbatim>\<open>int(value)\<close> with the exceptions it raises.\<close>

definition py_int_of :: "runtime \<Rightarrow> pyval \<Rightarrow> int res" where
  "py_int_of R v = (case v of
       PBool b \<Rightarrow> Inr (if b then 1 else 0)
     | PInt i \<Rightarrow> Inr i
     | PFloat (Fin x) \<Rightarrow> Inr (if 0 \<le> x then \<lfloor>x\<rfloor> else \<lceil>x\<rceil>)
     | PFloat NaN \<Rightarrow> Inl (ValueError ''cannot convert float NaN to integer'')
     | PFloat _ \<Rightarrow> Inl OverflowError
     | PStr s \<Rightarrow> (case rt_int R s of
           None \<Rightarrow> Inl (ValueError (''invalid literal for int() with base 10: '' @ quote R s)) | Some i \<Rightarrow> Inr i)
     | _ \<Rightarrow> Inl TypeError)"

text \<open>The values a \<^verbatim>\<open>for\<close> loop over an object visits; a string yields its characters, a dict its keys.\<close>

definition py_iter :: "pyval \<Rightarrow> pyval list res" where
  "py_iter v = (case v of
       PList xs \<Rightarrow> Inr xs
     | PStr s \<Rightarrow> Inr (map (\<lambda>c. PStr [c]) s)
     | PDict d \<Rightarrow> Inr (map (\<lambda>p. PStr (fst p)) d)
     | _ \<Rightarrow> Inl TypeError)"

definition hashable :: "pyval \<Rightarrow> bool" where
  "hashable v = (case v of PList _ \<Rightarrow> False | PDict _ \<Rightarrow> False | _ \<Rightarrow> True)"

text \<open>\<^verbatim>\<open>{audience} if isinstance(audience, str) else set(audience or [])\<close>\<close>

definition audiences :: "pyval \<Rightarrow> pyval list res" where
  "audiences v = (case v of
       PStr a \<Rightarrow> Inr [PStr a]
     | _ \<Rightarrow> if \<not> truthy v then Inr []
            else case py_iter v of Inl e \<Rightarrow> Inl e
              | Inr xs \<Rightarrow> if list_all hashable xs then Inr xs else Inl TypeError)"

definition claim_list :: "runtime \<Rightarrow> pyrec \<Rightarrow> string \<Rightarrow> string list res" where
  "claim_list R claims key = (case py_iter (get_field_or claims key (PList [])) of
       Inl e \<Rightarrow> Inl e | Inr xs \<Rightarrow> Inr (map (py_str R) xs))"

definition claims_to_actor :: "runtime \<Rightarrow> string \<Rightarrow> string \<Rightarrow> int \<Rightarrow> pyrec \<Rightarrow> actor res" where
  "claims_to_actor R issuer audience now claims =
     (if get_field claims ''iss'' \<noteq> PStr issuer
      then Inl (ConnectorError ''oidc_issuer_invalid'' ''OIDC issuer is invalid'')
      else case audiences (get_field claims ''aud'') of Inl e \<Rightarrow> Inl e | Inr auds \<Rightarrow>
      if PStr audience \<notin> set auds
      then Inl (ConnectorError ''oidc_audience_invalid'' ''OIDC audience is invalid'')
      else case py_int_of R (get_field_or claims ''exp'' (PInt 0)) of Inl e \<Rightarrow> Inl e | Inr expires \<Rightarrow>
      if expires \<le> now
      then Inl (ConnectorError ''oidc_token_expired'' ''OIDC token is expired'')
      else let subject = py_str R (get_field_or claims ''sub'' (PStr [])) in
      if subject = []
      then Inl (ConnectorError ''oidc_subject_missing'' ''OIDC subject is missing'')
      else case claim_list R claims ''eduwork_orgs'' of Inl e \<Rightarrow> Inl e | Inr orgs \<Rightarrow>
      case claim_list R claims ''eduwork_roles'' of Inl e \<Rightarrow> Inl e | Inr roles \<Rightarrow>
      case claim_list R claims ''eduwork_permissions'' of Inl e \<Rightarrow> Inl e | Inr permissions \<Rightarrow>
      Inr \<lparr>actor_id = rt_uuid5 R (''eduwork:oidc:'' @ issuer @ '':'' @ subject), actor_subject = subject,
           actor_display_name = py_str R (get_field_or claims ''name'' (PStr subject)),
           actor_organization_ids = orgs, actor_roles = roles, actor_permissions = permissions,
           actor_authentication_method = ''oidc''\<rparr>)"

section \<open>Authorization\<close>

definition may_access :: "runtime \<Rightarrow> actor \<Rightarrow> uuid \<Rightarrow> bool" where
  "may_access R a organization_id =
     (''*'' \<in> set (actor_organization_ids a) \<or> rt_uuid_str R organization_id \<in> set (actor_organization_ids a))"

definition require_organization :: "runtime \<Rightarrow> actor \<Rightarrow> uuid \<Rightarrow> unit res" where
  "require_organization R a organization_id =
     (if \<not> may_access R a organization_id
      then Inl (ConnectorError ''organization_forbidden'' ''Actor cannot access this organization'') else Inr ())"

definition require_permission :: "actor \<Rightarrow> string \<Rightarrow> unit res" where
  "require_permission a permission =
     (if permission \<notin> set (actor_permissions a)
      then Inl (ConnectorError ''permission_forbidden'' ''Actor lacks the required permission'') else Inr ())"

text \<open>The settings the program reads, \<^verbatim>\<open>settings.py\<close>.\<close>

record settings =
  set_environment :: string
  set_database_url :: string
  set_log_level :: string
  set_demo_mode :: bool
  set_api_title :: string
  set_api_version :: string
  set_allowed_origins :: "string list"
  set_raw_store_root :: string
  set_allowed_file_roots :: "string list"
  set_max_source_bytes :: nat
  set_max_archive_members :: nat
  set_allow_private_network_sources :: bool
  set_http_timeout_seconds :: real
  set_export_root :: string
  set_mart_root :: string
  set_lineage_root :: string
  set_telemetry_enabled :: bool
  set_telemetry_service_name :: string
  set_demo_identity_enabled :: bool
  set_rate_limit_per_minute :: int
  set_max_request_bytes :: int
  set_raw_retention_days :: int
  set_export_retention_days :: int

definition default_settings :: "string \<Rightarrow> settings" where
  "default_settings version = \<lparr>set_environment = ''development'',
     set_database_url = ''sqlite+pysqlite:///./eduwork_phase2.db'', set_log_level = ''INFO'', set_demo_mode = True,
     set_api_title = ''EduWork DataBridge API'', set_api_version = version,
     set_allowed_origins = [''http://localhost:5173''], set_raw_store_root = ''var/raw'',
     set_allowed_file_roots = [''data/synthetic''], set_max_source_bytes = 100 * 1024 * 1024,
     set_max_archive_members = 1000, set_allow_private_network_sources = False, set_http_timeout_seconds = 30,
     set_export_root = ''var/exports'', set_mart_root = ''var/marts'', set_lineage_root = ''var/lineage'',
     set_telemetry_enabled = True, set_telemetry_service_name = ''eduwork-databridge'',
     set_demo_identity_enabled = True, set_rate_limit_per_minute = 120,
     set_max_request_bytes = 5 * 1024 * 1024, set_raw_retention_days = 30, set_export_retention_days = 30\<rparr>"

definition get_actor :: "runtime \<Rightarrow> settings \<Rightarrow> string option \<Rightarrow> actor res" where
  "get_actor R st x_demo_user =
     (case demo_authenticate R (set_demo_identity_enabled st \<and> set_demo_mode st) (set_environment st) x_demo_user of
        Inr a \<Rightarrow> Inr a
      | Inl (ConnectorError code message) \<Rightarrow> Inl (HTTPException 401 message)
      | Inl e \<Rightarrow> Inl e)"

section \<open>Request limits\<close>

record request =
  rq_client :: "string option"
  rq_headers :: "(string \<times> string) list"

record response =
  rsp_status :: nat
  rsp_headers :: "(string \<times> string) list"
  rsp_body :: pyval

type_synonym handler = "request \<Rightarrow> response res"

definition csp_none :: string where
  "csp_none = [CHR 0x27] @ ''none'' @ [CHR 0x27]"

definition security_headers :: "handler \<Rightarrow> request \<Rightarrow> response res" where
  "security_headers call_next rq = (case call_next rq of Inl e \<Rightarrow> Inl e | Inr r \<Rightarrow>
     Inr (r\<lparr>rsp_headers := fold (\<lambda>(k, v) h. dict_set k v h)
       [(''x-content-type-options'', ''nosniff''), (''x-frame-options'', ''DENY''), (''referrer-policy'', ''no-referrer''),
        (''permissions-policy'', ''camera=(), microphone=(), geolocation=()''),
        (''content-security-policy'', ''default-src '' @ csp_none @ ''; frame-ancestors '' @ csp_none @ ''; base-uri '' @ csp_none)] (rsp_headers r)\<rparr>))"

definition request_size_limit :: "runtime \<Rightarrow> int \<Rightarrow> handler \<Rightarrow> request \<Rightarrow> response res" where
  "request_size_limit R max_bytes call_next rq =
     (let content_length = map_of (rq_headers rq) ''content-length'' in
      if named content_length
      then (case rt_int R (or_empty content_length) of
          None \<Rightarrow> Inl (ValueError ''invalid literal for int()'')
        | Some n \<Rightarrow> if n > max_bytes
            then Inr \<lparr>rsp_status = 413, rsp_headers = [], rsp_body = PDict [(''detail'', PStr ''Request body is too large'')]\<rparr>
            else call_next rq)
      else call_next rq)"

type_synonym rate_history = "string \<Rightarrow> real list"

definition rate_identity :: "request \<Rightarrow> string" where
  "rate_identity rq =
     (let client = (case rq_client rq of Some host \<Rightarrow> host | None \<Rightarrow> ''unknown'') in
      case map_of (rq_headers rq) ''x-demo-user'' of Some u \<Rightarrow> u | None \<Rightarrow> client)"

text \<open>One pass through the limiter: whether the request goes on, and the new history.\<close>

definition rate_step :: "int \<Rightarrow> string \<Rightarrow> real \<Rightarrow> rate_history \<Rightarrow> bool \<times> rate_history" where
  "rate_step requests_per_minute identity now history =
     (let queue = dropWhile (\<lambda>t. now - t \<ge> 60) (history identity) in
      if int (length queue) \<ge> requests_per_minute then (False, history(identity := queue))
      else (True, history(identity := queue @ [now])))"

definition rate_limit :: "int \<Rightarrow> handler \<Rightarrow> real \<Rightarrow> request \<Rightarrow> rate_history \<Rightarrow> response res \<times> rate_history" where
  "rate_limit requests_per_minute call_next now rq history =
     (case rate_step requests_per_minute (rate_identity rq) now history of
        (False, h) \<Rightarrow> (Inr \<lparr>rsp_status = 429, rsp_headers = [], rsp_body = PDict [(''detail'', PStr ''Rate limit exceeded'')]\<rparr>, h)
      | (True, h) \<Rightarrow> (call_next rq, h))"

section \<open>Attribute filter and audit log\<close>

definition SENSITIVE_TOKENS :: "string list" where
  "SENSITIVE_TOKENS = [''secret'', ''token'', ''password'', ''raw'', ''record'', ''email'', ''name'']"

definition sensitive :: "runtime \<Rightarrow> string \<Rightarrow> bool" where
  "sensitive R key = list_ex (contains (rt_casefold R key)) SENSITIVE_TOKENS"

definition safe_value :: "pyval \<Rightarrow> pyval option" where
  "safe_value v = (case v of
       PStr s \<Rightarrow> Some (PStr (take 200 s))
     | PBool b \<Rightarrow> Some v
     | PInt i \<Rightarrow> Some v
     | PFloat f \<Rightarrow> Some v
     | _ \<Rightarrow> None)"

fun sanitize_attributes :: "runtime \<Rightarrow> pyrec \<Rightarrow> pyrec" where
  "sanitize_attributes R [] = []"
| "sanitize_attributes R ((key, value) # rest) =
     (if sensitive R key then sanitize_attributes R rest
      else case safe_value value of None \<Rightarrow> sanitize_attributes R rest
        | Some v \<Rightarrow> (key, v) # sanitize_attributes R rest)"

definition put_audit :: "audit_event \<Rightarrow> database \<Rightarrow> database" where
  "put_audit e db = db\<lparr>db_audit_events := db_audit_events db @ [e]\<rparr>"

text \<open>
  Writing an event can fail: \<open>insert_event\<close> is what the database answers to the insert of the row. The failed
  flush, within \<^verbatim>\<open>commit\<close> or alone, has rolled the transaction back.
\<close>

definition audit_record :: "runtime \<Rightarrow> (audit_event \<Rightarrow> unit res) \<Rightarrow> actor \<Rightarrow> string \<Rightarrow> string \<Rightarrow> string \<Rightarrow> uuid option
    \<Rightarrow> string option \<Rightarrow> pyrec option \<Rightarrow> int \<Rightarrow> bool \<Rightarrow> session \<Rightarrow> audit_event res \<times> session" where
  "audit_record R insert_event a action resource_type resource_id organization_id correlation_id details now do_commit s =
     (case add_row (\<lambda>i. \<lparr>ae_id = i, ae_occurred_at = now, ae_organization_id = organization_id,
         ae_actor_id = Some (actor_id a), ae_action = action, ae_resource_type = resource_type,
         ae_resource_id = resource_id, ae_correlation_id = correlation_id,
         ae_details_json = sanitize_attributes R (case details of None \<Rightarrow> [] | Some d \<Rightarrow> d)\<rparr>) put_audit s of
        (e, s') \<Rightarrow> (case insert_event e of
            Inl x \<Rightarrow> (Inl x, rollback s')
          | Inr _ \<Rightarrow> (Inr e, if do_commit then commit s' else s')))"

definition list_audit :: "session \<Rightarrow> uuid \<Rightarrow> int \<Rightarrow> audit_event list" where
  "list_audit s organization_id limit =
     take (nat (min (max limit 1) 1000))
       (sort_key (\<lambda>e. - ae_occurred_at e)
         (filter (\<lambda>e. ae_organization_id e = Some organization_id) (db_audit_events (s_working s))))"

section \<open>Lemmas: the rate limiter refines a sliding window\<close>

text \<open>
  The specification keeps every accepted request for ever and counts those of the last
  60 seconds; the middleware keeps one pruned queue per identity.
\<close>

definition window_count :: "(string \<times> real) list \<Rightarrow> string \<Rightarrow> real \<Rightarrow> nat" where
  "window_count lg identity now = length (filter (\<lambda>(i, t). i = identity \<and> now - t < 60) lg)"

definition window_step :: "int \<Rightarrow> string \<Rightarrow> real \<Rightarrow> (string \<times> real) list \<Rightarrow> bool \<times> (string \<times> real) list" where
  "window_step limit identity now lg =
     (if int (window_count lg identity now) < limit then (True, lg @ [(identity, now)]) else (False, lg))"

fun rate_run :: "int \<Rightarrow> (string \<times> real) list \<Rightarrow> rate_history \<Rightarrow> bool list" where
  "rate_run limit [] h = []"
| "rate_run limit ((i, t) # rs) h = (case rate_step limit i t h of (ok, h') \<Rightarrow> ok # rate_run limit rs h')"

fun window_run :: "int \<Rightarrow> (string \<times> real) list \<Rightarrow> (string \<times> real) list \<Rightarrow> bool list \<times> (string \<times> real) list" where
  "window_run limit [] lg = ([], lg)"
| "window_run limit ((i, t) # rs) lg =
     (case window_step limit i t lg of (ok, lg') \<Rightarrow> case window_run limit rs lg' of (oks, l) \<Rightarrow> (ok # oks, l))"

definition times_of :: "(string \<times> real) list \<Rightarrow> string \<Rightarrow> real list" where
  "times_of lg i = map snd (filter (\<lambda>p. fst p = i) lg)"

text \<open>The queue holds what the log holds, less entries already too old at the last request.\<close>

definition queue_of :: "real \<Rightarrow> rate_history \<Rightarrow> (string \<times> real) list \<Rightarrow> bool" where
  "queue_of prev h lg = (\<forall>i. sorted (times_of lg i) \<and> (\<forall>t \<in> set (times_of lg i). t \<le> prev)
     \<and> (\<exists>old. times_of lg i = old @ h i \<and> (\<forall>t \<in> set old. prev - t \<ge> 60)))"

lemma dropWhile_old: "sorted xs \<Longrightarrow> dropWhile (\<lambda>t. now - t \<ge> 60) xs = filter (\<lambda>t. now - t < (60 :: real)) xs"
proof (induction xs)
  case (Cons x xs)
  show ?case
  proof (cases "now - x \<ge> 60")
    case False
    with Cons.prems have "\<forall>y \<in> set xs. now - y < 60" by auto
    with False show ?thesis by (simp add: filter_id_conv)
  qed (use Cons in simp)
qed simp

lemma window_count_times: "window_count lg i now = length (filter (\<lambda>t. now - t < 60) (times_of lg i))"
  by (induction lg) (auto simp: window_count_def times_of_def)

lemma pruned_queue:
  assumes "queue_of prev h lg" and "prev \<le> now"
  shows "dropWhile (\<lambda>t. now - t \<ge> 60) (h i) = filter (\<lambda>t. now - t < 60) (times_of lg i)"
    and "\<exists>old. times_of lg i = old @ dropWhile (\<lambda>t. now - t \<ge> 60) (h i) \<and> (\<forall>t \<in> set old. now - t \<ge> 60)"
proof -
  from assms(1) obtain old where o: "times_of lg i = old @ h i" "\<forall>t \<in> set old. prev - t \<ge> 60"
    and s: "sorted (times_of lg i)" unfolding queue_of_def by blast
  have old: "\<forall>t \<in> set old. now - t \<ge> 60" using o(2) assms(2) by force
  have sh: "sorted (h i)" using s o(1) by (simp add: sorted_append)
  have "filter (\<lambda>t. now - t < 60) old = []" using old by (force simp: filter_empty_conv)
  then show "dropWhile (\<lambda>t. now - t \<ge> 60) (h i) = filter (\<lambda>t. now - t < 60) (times_of lg i)"
    by (simp add: dropWhile_old [OF sh] o(1))
  show "\<exists>old. times_of lg i = old @ dropWhile (\<lambda>t. now - t \<ge> 60) (h i) \<and> (\<forall>t \<in> set old. now - t \<ge> 60)"
    by (rule exI [of _ "old @ takeWhile (\<lambda>t. now - t \<ge> 60) (h i)"])
      (use o old in \<open>auto dest: set_takeWhileD\<close>)
qed

lemma times_of_snoc: "times_of (lg @ [(j, t)]) i = times_of lg i @ (if i = j then [t] else [])"
  by (simp add: times_of_def)

lemma queue_of_later:
  assumes "queue_of prev h lg" and "prev \<le> now"
  shows "queue_of now h lg"
  using assms unfolding queue_of_def by (force intro: order_trans)

lemma rate_step_simulates:
  assumes "queue_of prev h lg" and "prev \<le> now"
    and "rate_step limit i now h = (ok, h')" and "window_step limit i now lg = (ok', lg')"
  shows "ok = ok' \<and> queue_of now h' lg'"
proof -
  let ?q = "dropWhile (\<lambda>t. now - t \<ge> 60) (h i)"
  note p = pruned_queue [OF assms(1,2), of i]
  have ok: "ok = ok'" using assms(3,4) p(1)
    by (auto simp: rate_step_def window_step_def window_count_times Let_def split: if_splits)
  have q: "queue_of now h lg" by (rule queue_of_later [OF assms(1,2)])
  have h': "h' = h(i := (if ok then ?q @ [now] else ?q))"
    using assms(3) by (auto simp: rate_step_def Let_def split: if_splits)
  have lg': "lg' = (if ok then lg @ [(i, now)] else lg)"
    using assms(4) ok by (auto simp: window_step_def split: if_splits)
  from p(2) obtain old where old: "times_of lg i = old @ ?q" "\<forall>t \<in> set old. now - t \<ge> 60" by blast
  have "queue_of now h' lg'"
    unfolding queue_of_def
  proof
    fix j
    from q have j: "sorted (times_of lg j)" "\<forall>t \<in> set (times_of lg j). t \<le> now"
      "\<exists>old. times_of lg j = old @ h j \<and> (\<forall>t \<in> set old. now - t \<ge> 60)" unfolding queue_of_def by blast+
    show "sorted (times_of lg' j) \<and> (\<forall>t \<in> set (times_of lg' j). t \<le> now)
      \<and> (\<exists>old. times_of lg' j = old @ h' j \<and> (\<forall>t \<in> set old. now - t \<ge> 60))"
    proof (cases "j = i")
      case True
      then show ?thesis using j(1,2) old by (auto simp: h' lg' times_of_snoc sorted_append)
    next
      case False
      then show ?thesis using j by (auto simp: h' lg' times_of_snoc)
    qed
  qed
  with ok show ?thesis ..
qed

lemma rate_run_simulates:
  assumes "queue_of prev h lg" and "sorted (prev # map snd rs)"
  shows "rate_run limit rs h = fst (window_run limit rs lg)"
  using assms
proof (induction rs arbitrary: prev h lg)
  case (Cons r rs)
  obtain i t where r: "r = (i, t)" by (metis prod.exhaust)
  obtain ok h' where 1: "rate_step limit i t h = (ok, h')" by (metis prod.exhaust)
  obtain ok' lg' where 2: "window_step limit i t lg = (ok', lg')" by (metis prod.exhaust)
  have "prev \<le> t" using Cons.prems(2) r by simp
  from rate_step_simulates [OF Cons.prems(1) this 1 2] have s: "ok = ok'" "queue_of t h' lg'" by auto
  moreover have "sorted (t # map snd rs)" using Cons.prems(2) r by simp
  ultimately show ?case using Cons.IH [of t h' lg'] r 1 2 by (simp split: prod.splits)
qed simp

text \<open>In the specification, at most the limit is accepted in any 60 seconds.\<close>

lemma window_step_bound:
  assumes "\<forall>p \<in> set lg. snd p \<le> now"
    and "\<forall>u. int (window_count (filter (\<lambda>p. snd p \<le> u) lg) i u) \<le> limit"
    and "window_step limit j now lg = (ok, lg')" and "0 \<le> limit"
  shows "\<forall>u. int (window_count (filter (\<lambda>p. snd p \<le> u) lg') i u) \<le> limit"
proof
  fix u
  show "int (window_count (filter (\<lambda>p. snd p \<le> u) lg') i u) \<le> limit"
  proof (cases "ok \<and> now \<le> u \<and> j = i")
    case True
    have all: "filter (\<lambda>p. snd p \<le> u) lg = lg" by (intro filter_True) (use assms(1) True in force)
    have "window_count lg i u \<le> window_count lg i now"
    proof -
      have "length (filter (\<lambda>p. P p \<and> Q p) xs) \<le> length (filter Q xs)" for P Q and xs :: "(string \<times> real) list"
        by (induction xs) auto
      from this [of "\<lambda>(i', t). i' = i \<and> u - t < 60" "\<lambda>(i', t). i' = i \<and> now - t < 60" lg]
      have "length (filter (\<lambda>p. (case p of (i', t) \<Rightarrow> i' = i \<and> u - t < 60) \<and> (case p of (i', t) \<Rightarrow> i' = i \<and> now - t < 60)) lg)
         \<le> window_count lg i now" by (simp add: window_count_def)
      moreover have "filter (\<lambda>p. (case p of (i', t) \<Rightarrow> i' = i \<and> u - t < 60) \<and> (case p of (i', t) \<Rightarrow> i' = i \<and> now - t < 60)) lg
         = filter (\<lambda>(i', t). i' = i \<and> u - t < 60) lg"
        using True by (intro filter_cong) auto
      ultimately show ?thesis by (simp add: window_count_def)
    qed
    moreover have "int (window_count lg i now) < limit" "lg' = lg @ [(i, now)]"
      using assms(3) True by (auto simp: window_step_def split: if_splits)
    ultimately show ?thesis using True all by (simp add: window_count_def)
  next
    case False
    then have "window_count (filter (\<lambda>p. snd p \<le> u) lg') i u = window_count (filter (\<lambda>p. snd p \<le> u) lg) i u"
      using assms(3) by (auto simp: window_step_def window_count_def split: if_splits)
    with assms(2) show ?thesis by simp
  qed
qed

lemma window_run_bound:
  assumes "\<forall>p \<in> set lg. snd p \<le> prev" and "sorted (prev # map snd rs)" and "0 \<le> limit"
    and "\<forall>u. int (window_count (filter (\<lambda>p. snd p \<le> u) lg) i u) \<le> limit"
  shows "\<forall>u. int (window_count (filter (\<lambda>p. snd p \<le> u) (snd (window_run limit rs lg))) i u) \<le> limit"
  using assms
proof (induction rs arbitrary: prev lg)
  case (Cons r rs)
  obtain j t where r: "r = (j, t)" by (metis prod.exhaust)
  obtain ok lg' where 2: "window_step limit j t lg = (ok, lg')" by (metis prod.exhaust)
  have le: "\<forall>p \<in> set lg. snd p \<le> t" using Cons.prems(1,2) r by force
  have "\<forall>p \<in> set lg'. snd p \<le> t" using 2 le by (auto simp: window_step_def split: if_splits)
  moreover have "sorted (t # map snd rs)" using Cons.prems(2) r by simp
  moreover note window_step_bound [OF le Cons.prems(4) 2 Cons.prems(3)]
  ultimately have "\<forall>u. int (window_count (filter (\<lambda>p. snd p \<le> u) (snd (window_run limit rs lg'))) i u) \<le> limit"
    using Cons.IH Cons.prems(3) by blast
  then show ?case using r 2 by (auto split: prod.splits)
qed simp

section \<open>Properties of the security layer\<close>

text \<open>
  C15: as long as the clock does not run backwards, the limiter with its pruned queues
  answers every sequence of requests exactly like the sliding window that remembers all
  of them, and so no identity ever has more than the limit accepted within 60 seconds.
\<close>

theorem rate_limit_refines_window:
  assumes "sorted (map snd requests)" and "0 \<le> limit"
  shows "rate_run limit requests (\<lambda>_. []) = fst (window_run limit requests [])
    \<and> int (window_count (filter (\<lambda>p. snd p \<le> u) (snd (window_run limit requests []))) i u) \<le> limit"
proof (cases requests)
  case Nil
  then show ?thesis using assms(2) by (simp add: window_count_def)
next
  case (Cons r rs)
  have s: "sorted (snd r # map snd requests)" using assms(1) Cons by simp
  have "queue_of (snd r) (\<lambda>_. []) []" by (simp add: queue_of_def times_of_def)
  from rate_run_simulates [OF this s] window_run_bound [OF _ s assms(2), of "[]" i] assms(2) show ?thesis
    by (simp add: window_count_def)
qed

text \<open>
  the demonstration identities exist only outside production and only when both
  switches are on; every other request is answered 401, and a viewer is never given a
  permission to write.
\<close>

theorem demo_identity_guarded:
  "(\<forall>a. get_actor R st cred = Inr a \<longrightarrow>
      set_environment st \<noteq> ''production'' \<and> set_demo_mode st \<and> set_demo_identity_enabled st
      \<and> cred \<in> {Some ''demo-admin'', Some ''demo-viewer''} \<and> Some (actor_subject a) = cred
      \<and> (actor_subject a = ''demo-viewer'' \<longrightarrow> list_all (\<lambda>p. ends_with p '':read'') (actor_permissions a)))
   \<and> (isl (get_actor R st cred) \<longrightarrow> (\<exists>m. get_actor R st cred = Inl (HTTPException 401 m)))"
proof -
  have r: "ends_with ''sources:read'' '':read''" "ends_with ''lineage:read'' '':read''" by code_simp+
  show ?thesis
    by (auto simp: get_actor_def demo_authenticate_def Let_def named_def or_empty_def r split: if_splits)
qed

text \<open>
  what reaches the audit log or telemetry names no sensitive attribute, holds only
  scalars, and no text longer than 200 characters; every other scalar passes.
\<close>

theorem sanitized_attributes_safe:
  "(k, v) \<in> set (sanitize_attributes R attributes) \<longleftrightarrow>
     \<not> sensitive R k \<and> (\<exists>w. (k, w) \<in> set attributes \<and> safe_value w = Some v)"
  by (induction R attributes rule: sanitize_attributes.induct) (auto split: option.splits)

theorem rate_limit_refines_window_witness:
  "rate_run 2 [(''a'', 0), (''a'', 1), (''b'', 2), (''a'', 30), (''a'', 60)] (\<lambda>_. [])
     = fst (window_run 2 [(''a'', 0), (''a'', 1), (''b'', 2), (''a'', 30), (''a'', 60)] [])"
proof -
  have "sorted (map snd [(''a'', 0::real), (''a'', 1), (''b'', 2), (''a'', 30), (''a'', 60)])" by simp
  from rate_limit_refines_window [OF this, of 2] show ?thesis by simp
qed

theorem demo_identity_guarded_witness:
  "\<exists>a. get_actor ascii_runtime (default_settings ''1'') (Some ''demo-viewer'') = Inr a \<and> actor_subject a = ''demo-viewer''"
proof -
  have "\<not> isl (get_actor ascii_runtime (default_settings ''1'') (Some ''demo-viewer''))"
    by (simp add: get_actor_def demo_authenticate_def default_settings_def named_def or_empty_def Let_def)
  then obtain a where a: "get_actor ascii_runtime (default_settings ''1'') (Some ''demo-viewer'') = Inr a"
    by (metis sum.collapse(2))
  with demo_identity_guarded [of ascii_runtime "default_settings ''1''" "Some ''demo-viewer''"]
  have "Some (actor_subject a) = Some ''demo-viewer''" by blast
  with a show ?thesis by blast
qed

end
