(* ===== verification/Orchestration.thy ===== *)
theory Orchestration
  imports Security
begin

text \<open>
  Asset orchestration (\<^verbatim>\<open>orchestration/engine.py\<close>) and the telemetry events it emits
  (\<^verbatim>\<open>observability/telemetry.py\<close>). An asset's function is a parameter: it may answer
  differently at every call, so it is given the number of calls made so far. The state
  is the database session together with the log of calls, of events and of hook calls.
  Dependencies run by recursion; its depth is bounded by the interpreter's recursion
  limit, which is what ends a cyclic dependency.
\<close>

section \<open>Data\<close>

record asset_spec =
  asp_key :: string
  asp_compute :: "nat \<Rightarrow> pyrec \<Rightarrow> pyrec res"
  asp_dependencies :: "string list"
  asp_max_attempts :: int

record asset_outcome =
  ao_asset_key :: string
  ao_run_id :: uuid
  ao_status :: string
  ao_change_hash :: string
  ao_output :: pyrec
  ao_watermark :: pyrec

type_synonym failure_hook = "string \<Rightarrow> string \<Rightarrow> unit res"
type_synonym assets = "(string \<times> asset_spec) list"

record orchestrator =
  orc_key :: string
  orc_hooks :: "failure_hook list"
  orc_assets :: assets

record orch_state =
  ost_session :: session
  ost_calls :: "(string \<times> pyrec) list"
  ost_events :: "(string \<times> pyrec) list"
  ost_hooked :: "(string \<times> string) list"

definition register :: "asset_spec \<Rightarrow> orchestrator \<Rightarrow> orchestrator res" where
  "register spec o' =
     (if map_of (orc_assets o') (asp_key spec) \<noteq> None
      then Inl (ValueError (''Duplicate asset key: '' @ asp_key spec))
      else if asp_max_attempts spec < 1 \<or> asp_max_attempts spec > 10
      then Inl (ValueError ''Asset attempts must be between one and ten'')
      else Inr (o'\<lparr>orc_assets := dict_set (asp_key spec) spec (orc_assets o')\<rparr>))"

definition opt_val :: "string option \<Rightarrow> pyval" where
  "opt_val v = (case v of None \<Rightarrow> PNone | Some t \<Rightarrow> PStr t)"

definition compute_change_hash :: "runtime \<Rightarrow> string \<Rightarrow> string option \<Rightarrow> pyrec \<Rightarrow> pyrec \<Rightarrow> string" where
  "compute_change_hash R asset_key partition_key watermark context =
     rt_sha256 R (rt_json R (PDict [(''asset_key'', PStr asset_key), (''partition_key'', opt_val partition_key),
       (''watermark'', PDict watermark), (''context'', PDict context)]))"

definition safe_metadata_keys :: "string list" where
  "safe_metadata_keys = [''row_count'', ''checksum_sha256'', ''snapshot_id'', ''profile_id'',
     ''validation_issue_count'', ''export_snapshot_id'']"

definition safe_metadata :: "pyrec \<Rightarrow> pyrec" where
  "safe_metadata output = filter (\<lambda>p. fst p \<in> set safe_metadata_keys) output"

text \<open>\<^verbatim>\<open>type(exc).__name__\<close>\<close>

fun exc_name :: "exc \<Rightarrow> string" where
  "exc_name (ConnectorError c m) = ''ConnectorError''"
| "exc_name (HTTPException n m) = ''HTTPException''"
| "exc_name (ValueError m) = ''ValueError''"
| "exc_name (MappingCompileError m) = ''MappingCompileError''"
| "exc_name TypeError = ''TypeError''"
| "exc_name (KeyError k) = ''KeyError''"
| "exc_name IndexError = ''IndexError''"
| "exc_name ZeroDivisionError = ''ZeroDivisionError''"
| "exc_name OverflowError = ''OverflowError''"
| "exc_name RecursionError = ''RecursionError''"
| "exc_name FileNotFoundError = ''FileNotFoundError''"
| "exc_name (RuntimeError m) = ''RuntimeError''"

section \<open>Telemetry events\<close>

definition span_event :: "runtime \<Rightarrow> string \<Rightarrow> pyrec \<Rightarrow> string \<times> pyrec" where
  "span_event R name attributes = (name, sanitize_attributes R attributes)"

text \<open>\<^verbatim>\<open>record_run\<close>; the measured duration is left out.\<close>

definition run_event :: "runtime \<Rightarrow> string \<Rightarrow> pyrec \<Rightarrow> string \<times> pyrec" where
  "run_event R status attributes =
     (''asset_run_metric'', dict_set ''status'' (PStr status) (sanitize_attributes R attributes))"

section \<open>Rows\<close>

definition put_asset_run :: "asset_run \<Rightarrow> database \<Rightarrow> database" where
  "put_asset_run r db = db\<lparr>db_asset_runs := db_asset_runs db @ [r]\<rparr>"

text \<open>The latest successful run with the same change hash; a succeeded row always has an end.\<close>

definition find_prior :: "session \<Rightarrow> uuid \<Rightarrow> string \<Rightarrow> string option \<Rightarrow> string \<Rightarrow> asset_run option" where
  "find_prior s organization_id asset_key partition_key hash =
     (case sort_key (\<lambda>r. - (case ar_ended_at r of None \<Rightarrow> 0 | Some t \<Rightarrow> t))
        (filter (\<lambda>r. ar_organization_id r = organization_id \<and> ar_asset_key r = asset_key
           \<and> ar_partition_key r = partition_key \<and> ar_change_hash r = Some hash \<and> ar_status r = ''succeeded'')
           (db_asset_runs (s_working s))) of
        [] \<Rightarrow> None | r # _ \<Rightarrow> Some r)"

record run_args =
  ra_organization_id :: uuid
  ra_partition_key :: "string option"
  ra_watermark :: "pyrec option"
  ra_backfill_of :: "uuid option"
  ra_now :: int

definition current_watermark :: "run_args \<Rightarrow> pyrec" where
  "current_watermark ra = (case ra_watermark ra of None \<Rightarrow> [] | Some w \<Rightarrow> w)"

definition skipped_row :: "runtime \<Rightarrow> string \<Rightarrow> run_args \<Rightarrow> string \<Rightarrow> string \<Rightarrow> asset_run \<Rightarrow> uuid \<Rightarrow> asset_run" where
  "skipped_row R orchestration_key ra asset_key hash prior i =
     \<lparr>ar_id = i, ar_created_at = ra_now ra, ar_organization_id = ra_organization_id ra,
      ar_orchestration_key = orchestration_key, ar_asset_key = asset_key, ar_partition_key = ra_partition_key ra,
      ar_status = ''skipped_unchanged'', ar_attempt_number = 1, ar_watermark_json = current_watermark ra,
      ar_change_hash = Some hash, ar_backfill_of_run_id = None, ar_started_at = ra_now ra,
      ar_ended_at = Some (ra_now ra), ar_failure_code = None,
      ar_metadata_json = [(''prior_run_id'', PStr (rt_uuid_str R (ar_id prior)))]\<rparr>"

definition running_row :: "string \<Rightarrow> run_args \<Rightarrow> string \<Rightarrow> string \<Rightarrow> int \<Rightarrow> uuid \<Rightarrow> asset_run" where
  "running_row orchestration_key ra asset_key hash attempt i =
     \<lparr>ar_id = i, ar_created_at = ra_now ra, ar_organization_id = ra_organization_id ra,
      ar_orchestration_key = orchestration_key, ar_asset_key = asset_key, ar_partition_key = ra_partition_key ra,
      ar_status = ''running'', ar_attempt_number = attempt, ar_watermark_json = current_watermark ra,
      ar_change_hash = Some hash, ar_backfill_of_run_id = ra_backfill_of ra, ar_started_at = ra_now ra,
      ar_ended_at = None, ar_failure_code = None, ar_metadata_json = []\<rparr>"

definition finish_run :: "uuid \<Rightarrow> string \<Rightarrow> string option \<Rightarrow> pyrec \<Rightarrow> int \<Rightarrow> session \<Rightarrow> session" where
  "finish_run run_id status failure_code metadata now s =
     commit (on_working (\<lambda>db. db\<lparr>db_asset_runs := update_where (\<lambda>r. ar_id r = run_id)
       (\<lambda>r. r\<lparr>ar_status := status, ar_ended_at := Some now, ar_failure_code := failure_code,
              ar_metadata_json := metadata\<rparr>) (db_asset_runs db)\<rparr>) s)"

section \<open>Attempts\<close>

fun call_hooks :: "failure_hook list \<Rightarrow> string \<Rightarrow> string \<Rightarrow> orch_state \<Rightarrow> unit res \<times> orch_state" where
  "call_hooks [] asset_key name st = (Inr (), st)"
| "call_hooks (h # hs) asset_key name st =
     (let st' = st\<lparr>ost_hooked := ost_hooked st @ [(asset_key, name)]\<rparr> in
      case h asset_key name of Inl e \<Rightarrow> (Inl e, st') | Inr _ \<Rightarrow> call_hooks hs asset_key name st')"

definition start_attempt :: "runtime \<Rightarrow> orchestrator \<Rightarrow> run_args \<Rightarrow> string \<Rightarrow> string \<Rightarrow> pyrec \<Rightarrow> int \<Rightarrow> orch_state
    \<Rightarrow> uuid \<times> orch_state" where
  "start_attempt R o' ra asset_key hash context attempt st =
     (case add_row (running_row (orc_key o') ra asset_key hash attempt) put_asset_run (ost_session st) of (run, s1) \<Rightarrow>
        (ar_id run, st\<lparr>ost_session := commit s1, ost_calls := ost_calls st @ [(asset_key, context)],
           ost_events := ost_events st @ [span_event R ''eduwork.asset''
             [(''asset_key'', PStr asset_key),
              (''partition_key'', PStr (case ra_partition_key ra of Some (c # p) \<Rightarrow> c # p | _ \<Rightarrow> ''none'')),
              (''attempt'', PInt attempt)]]\<rparr>))"

definition end_attempt :: "runtime \<Rightarrow> run_args \<Rightarrow> string \<Rightarrow> int \<Rightarrow> uuid \<Rightarrow> string \<Rightarrow> string option \<Rightarrow> pyrec \<Rightarrow> orch_state
    \<Rightarrow> orch_state" where
  "end_attempt R ra asset_key attempt run_id status failure_code metadata st =
     st\<lparr>ost_session := finish_run run_id status failure_code metadata (ra_now ra) (ost_session st),
        ost_events := ost_events st @ [run_event R status [(''asset_key'', PStr asset_key), (''attempt'', PInt attempt)]]\<rparr>"

text \<open>
  The loop over the attempts, \<open>left\<close> of them remaining. The function \<open>_safe_metadata\<close> and the
  commits inside the \<^verbatim>\<open>try\<close> do not raise on a dictionary.
\<close>

fun attempts :: "runtime \<Rightarrow> orchestrator \<Rightarrow> run_args \<Rightarrow> asset_spec \<Rightarrow> string \<Rightarrow> string \<Rightarrow> pyrec \<Rightarrow> int \<Rightarrow> nat \<Rightarrow> orch_state
    \<Rightarrow> asset_outcome res \<times> orch_state" where
  "attempts R o' ra spec asset_key hash context attempt 0 st =
     (Inl (ConnectorError ''asset_failed''
        (''Asset failed after '' @ int_str (asp_max_attempts spec) @ '' attempts'')), st)"
| "attempts R o' ra spec asset_key hash context attempt (Suc left) st =
     (case start_attempt R o' ra asset_key hash context attempt st of (run_id, st1) \<Rightarrow>
      case asp_compute spec (length (ost_calls st)) context of
        Inr output \<Rightarrow>
          (Inr \<lparr>ao_asset_key = asset_key, ao_run_id = run_id, ao_status = ''succeeded'', ao_change_hash = hash,
                ao_output = output, ao_watermark = current_watermark ra\<rparr>,
           end_attempt R ra asset_key attempt run_id ''succeeded'' None (safe_metadata output) st1)
      | Inl e \<Rightarrow>
          (case call_hooks (orc_hooks o') asset_key (exc_name e)
              (end_attempt R ra asset_key attempt run_id ''failed'' (Some (exc_name e)) [] st1) of
             (Inl e', st2) \<Rightarrow> (Inl e', st2)
           | (Inr _, st2) \<Rightarrow> attempts R o' ra spec asset_key hash context (attempt + 1) left st2))"

section \<open>Runs\<close>

text \<open>The part of \<^verbatim>\<open>run\<close> after the dependencies.\<close>

definition run_body :: "runtime \<Rightarrow> orchestrator \<Rightarrow> run_args \<Rightarrow> asset_spec \<Rightarrow> string \<Rightarrow> pyrec \<Rightarrow> pyrec \<Rightarrow> orch_state
    \<Rightarrow> asset_outcome res \<times> orch_state" where
  "run_body R o' ra spec asset_key context dependency_outputs st =
     (let context' = dict_set ''dependencies'' (PDict dependency_outputs) context;
          hash = compute_change_hash R asset_key (ra_partition_key ra) (current_watermark ra) context'
      in case find_prior (ost_session st) (ra_organization_id ra) asset_key (ra_partition_key ra) hash of
           Some prior \<Rightarrow>
             if ra_backfill_of ra = None
             then (case add_row (skipped_row R (orc_key o') ra asset_key hash prior) put_asset_run (ost_session st) of
                     (skipped, s1) \<Rightarrow>
                       (Inr \<lparr>ao_asset_key = asset_key, ao_run_id = ar_id skipped, ao_status = ''skipped_unchanged'',
                             ao_change_hash = hash, ao_output = ar_metadata_json prior,
                             ao_watermark = ar_watermark_json prior\<rparr>,
                        st\<lparr>ost_session := commit s1\<rparr>))
             else attempts R o' ra spec asset_key hash context' 1 (nat (asp_max_attempts spec)) st
         | None \<Rightarrow> attempts R o' ra spec asset_key hash context' 1 (nat (asp_max_attempts spec)) st)"

fun run_asset :: "runtime \<Rightarrow> orchestrator \<Rightarrow> run_args \<Rightarrow> nat \<Rightarrow> string \<Rightarrow> pyrec \<Rightarrow> orch_state \<Rightarrow> asset_outcome res \<times> orch_state"
  and run_dependencies :: "runtime \<Rightarrow> orchestrator \<Rightarrow> run_args \<Rightarrow> nat \<Rightarrow> string list \<Rightarrow> pyrec \<Rightarrow> pyrec \<Rightarrow> orch_state
    \<Rightarrow> pyrec res \<times> orch_state" where
  "run_asset R o' ra 0 asset_key context st = (Inl RecursionError, st)"
| "run_asset R o' ra (Suc depth) asset_key context st =
     (case map_of (orc_assets o') asset_key of
        None \<Rightarrow> (Inl (ConnectorError ''asset_not_registered'' ''Asset is not registered''), st)
      | Some spec \<Rightarrow>
        (case run_dependencies R o' ra depth (asp_dependencies spec) context [] st of
           (Inl e, st1) \<Rightarrow> (Inl e, st1)
         | (Inr outputs, st1) \<Rightarrow> run_body R o' ra spec asset_key context outputs st1))"
| "run_dependencies R o' ra depth [] context outputs st = (Inr outputs, st)"
| "run_dependencies R o' ra depth (d # ds) context outputs st =
     (case run_asset R o' ra depth d context st of
        (Inl e, st1) \<Rightarrow> (Inl e, st1)
      | (Inr outcome, st1) \<Rightarrow>
          run_dependencies R o' ra depth ds context (dict_set d (PDict (ao_output outcome)) outputs) st1)"

definition orchestrator_run :: "runtime \<Rightarrow> orchestrator \<Rightarrow> uuid \<Rightarrow> string \<Rightarrow> string option \<Rightarrow> pyrec option \<Rightarrow> pyrec option
    \<Rightarrow> uuid option \<Rightarrow> int \<Rightarrow> orch_state \<Rightarrow> asset_outcome res \<times> orch_state" where
  "orchestrator_run R o' organization_id asset_key partition_key context watermark backfill_of_run_id now st =
     run_asset R o' \<lparr>ra_organization_id = organization_id, ra_partition_key = partition_key, ra_watermark = watermark,
       ra_backfill_of = backfill_of_run_id, ra_now = now\<rparr> (rt_recursion_limit R) asset_key
       (case context of None \<Rightarrow> [] | Some c \<Rightarrow> c) st"

section \<open>Lemmas: attempts\<close>

text \<open>Run ids come from the supply, so that a new one is fresh.\<close>

definition run_ids_ok :: "session \<Rightarrow> bool" where
  "run_ids_ok s = (inj (s_supply s) \<and> (\<forall>r \<in> set (db_asset_runs (s_working s)). \<exists>n < s_next s. ar_id r = s_supply s n))"

definition quiet_hooks :: "orchestrator \<Rightarrow> bool" where
  "quiet_hooks o' = (\<forall>h \<in> set (orc_hooks o'). \<forall>a b. \<not> isl (h a b))"

abbreviation runs_of :: "orch_state \<Rightarrow> asset_run list" where
  "runs_of st \<equiv> db_asset_runs (s_working (ost_session st))"

lemma call_hooks_quiet:
  assumes "\<forall>h \<in> set hs. \<forall>a b. \<not> isl (h a b)"
  shows "\<exists>l. call_hooks hs key name st = (Inr (), st\<lparr>ost_hooked := l\<rparr>)"
  using assms
proof (induction hs arbitrary: st)
  case Nil
  show ?case by (rule exI [of _ "ost_hooked st"]) simp
next
  case (Cons h hs)
  then obtain u where "h key name = Inr u" by (metis list.set_intros(1) sum.collapse(2))
  with Cons.IH [of "st\<lparr>ost_hooked := ost_hooked st @ [(key, name)]\<rparr>"] Cons.prems show ?case
    by (auto simp: Let_def)
qed

text \<open>The hooks are called in order until one raises.\<close>

fun hook_error :: "failure_hook list \<Rightarrow> string \<Rightarrow> string \<Rightarrow> exc option" where
  "hook_error [] key name = None"
| "hook_error (h # hs) key name = (case h key name of Inl e \<Rightarrow> Some e | Inr _ \<Rightarrow> hook_error hs key name)"

fun hook_log :: "failure_hook list \<Rightarrow> string \<Rightarrow> string \<Rightarrow> (string \<times> string) list" where
  "hook_log [] key name = []"
| "hook_log (h # hs) key name = (key, name) # (case h key name of Inl e \<Rightarrow> [] | Inr _ \<Rightarrow> hook_log hs key name)"

lemma call_hooks_eq:
  "call_hooks hs key name st = (case hook_error hs key name of None \<Rightarrow> Inr () | Some e \<Rightarrow> Inl e,
     st\<lparr>ost_hooked := ost_hooked st @ hook_log hs key name\<rparr>)"
  by (induction hs arbitrary: st) (auto simp: Let_def split: sum.split)

lemma quiet_hook_error: "quiet_hooks o' \<Longrightarrow> hook_error (orc_hooks o') key name = None"
proof -
  have "\<forall>h \<in> set hs. \<forall>a b. \<not> isl (h a b) \<Longrightarrow> hook_error hs key name = None" for hs
    by (induction hs) (auto split: sum.split, metis sum.disc(1))
  then show "quiet_hooks o' \<Longrightarrow> hook_error (orc_hooks o') key name = None" by (simp add: quiet_hooks_def)
qed

text \<open>A run row that was added and then finished.\<close>

lemma finished_row:
  assumes ok: "run_ids_ok s" and id: "\<And>i. ar_id (mk i) = i"
    and s': "s' = finish_run (new_id s) status code meta now (commit (snd (add_row mk put_asset_run s)))"
  shows "db_asset_runs (s_working s') = db_asset_runs (s_working s)
       @ [(mk (new_id s))\<lparr>ar_status := status, ar_ended_at := Some now, ar_failure_code := code, ar_metadata_json := meta\<rparr>]"
    and "s_committed s' = s_working s'" and "run_ids_ok s'"
proof -
  have fresh: "\<forall>r \<in> set (db_asset_runs (s_working s)). ar_id r \<noteq> new_id s"
    using ok unfolding run_ids_ok_def new_id_def by (metis injD less_irrefl)
  then have keep: "update_where (\<lambda>r. ar_id r = new_id s) f (db_asset_runs (s_working s)) = db_asset_runs (s_working s)" for f
    by (auto simp: update_where_def map_idI)
  have rows: "db_asset_runs (s_working s') = db_asset_runs (s_working s)
       @ [(mk (new_id s))\<lparr>ar_status := status, ar_ended_at := Some now, ar_failure_code := code, ar_metadata_json := meta\<rparr>]"
    using keep by (simp add: s' finish_run_def put_asset_run_def update_where_def id)
  then show "db_asset_runs (s_working s') = db_asset_runs (s_working s)
       @ [(mk (new_id s))\<lparr>ar_status := status, ar_ended_at := Some now, ar_failure_code := code, ar_metadata_json := meta\<rparr>]" .
  show "s_committed s' = s_working s'" by (simp add: s' finish_run_def)
  have sup: "s_supply s' = s_supply s" "s_next s' = Suc (s_next s)"
    by (simp_all add: s' finish_run_def on_working_def commit_def add_row_def Let_def)
  show "run_ids_ok s'"
    using ok unfolding run_ids_ok_def rows sup by (auto simp: id new_id_def intro: less_SucI)
qed

definition one_attempt :: "string \<Rightarrow> string option \<Rightarrow> pyrec \<Rightarrow> run_args \<Rightarrow> asset_run \<Rightarrow> asset_run" where
  "one_attempt status code meta ra row =
     row\<lparr>ar_status := status, ar_ended_at := Some (ra_now ra), ar_failure_code := code, ar_metadata_json := meta\<rparr>"

lemma start_attempt_eq:
  "start_attempt R o' ra key hash ctx n st = (new_id (ost_session st), snd (start_attempt R o' ra key hash ctx n st))"
  by (simp add: start_attempt_def add_row_def Let_def running_row_def)

lemma ended_attempt:
  assumes "run_ids_ok (ost_session st)"
    and "start_attempt R o' ra key hash ctx n st = (new_id (ost_session st), st1)"
    and "st' = end_attempt R ra key n (new_id (ost_session st)) status code meta st1"
  shows "runs_of st' = runs_of st @ [one_attempt status code meta ra (running_row (orc_key o') ra key hash n (new_id (ost_session st)))]"
    and "s_committed (ost_session st') = s_working (ost_session st')" and "run_ids_ok (ost_session st')"
    and "length (ost_calls st') = Suc (length (ost_calls st))"
proof -
  let ?mk = "running_row (orc_key o') ra key hash n"
  have "ost_session st' = finish_run (new_id (ost_session st)) status code meta (ra_now ra)
      (commit (snd (add_row ?mk put_asset_run (ost_session st))))"
    using assms(2) by (auto simp: assms(3) end_attempt_def start_attempt_def split: prod.splits)
  note fin = finished_row [OF assms(1) _ this]
  show "runs_of st' = runs_of st @ [one_attempt status code meta ra (running_row (orc_key o') ra key hash n (new_id (ost_session st)))]"
    and "s_committed (ost_session st') = s_working (ost_session st')" and "run_ids_ok (ost_session st')"
    using fin by (simp_all add: one_attempt_def running_row_def)
  show "length (ost_calls st') = Suc (length (ost_calls st))"
    using assms(2) by (auto simp: assms(3) end_attempt_def start_attempt_def split: prod.splits)
qed

text \<open>
  The reference: call the function until it answers or a hook raises on its failure, at most \<open>left\<close> times; and the
  attempt number, status and failure code of each call.
\<close>

fun tries :: "(string \<Rightarrow> exc option) \<Rightarrow> (nat \<Rightarrow> pyrec res) \<Rightarrow> nat \<Rightarrow> nat \<Rightarrow> pyrec res list" where
  "tries H f c 0 = []"
| "tries H f c (Suc left) = f c # (case f c of
     Inr _ \<Rightarrow> [] | Inl e \<Rightarrow> if H (exc_name e) = None then tries H f (Suc c) left else [])"

fun tries_keys :: "int \<Rightarrow> pyrec res list \<Rightarrow> (int \<times> string \<times> string option) list" where
  "tries_keys n [] = []"
| "tries_keys n (x # xs) = (case x of Inl e \<Rightarrow> (n, ''failed'', Some (exc_name e)) | Inr _ \<Rightarrow> (n, ''succeeded'', None))
     # tries_keys (n + 1) xs"

definition run_key :: "asset_run \<Rightarrow> int \<times> string \<times> string option" where
  "run_key r = (ar_attempt_number r, ar_status r, ar_failure_code r)"

lemma run_key_attempt: "run_key (one_attempt status code meta ra (running_row ok ra key hash n i)) = (n, status, code)"
  by (simp add: run_key_def one_attempt_def running_row_def)

text \<open>
  What the loop leaves, against the reference: one row for each call, the last of them committed, the hooks called after each
  failure, and the last answer, the hook's exception, or the failure of all attempts.
\<close>

definition asset_failed :: "asset_spec \<Rightarrow> exc" where
  "asset_failed spec = ConnectorError ''asset_failed''
     (''Asset failed after '' @ int_str (asp_max_attempts spec) @ '' attempts'')"

definition tries_recorded :: "failure_hook list \<Rightarrow> string \<Rightarrow> asset_spec \<Rightarrow> pyrec \<Rightarrow> int \<Rightarrow> nat \<Rightarrow> orch_state
    \<Rightarrow> asset_outcome res \<Rightarrow> orch_state \<Rightarrow> bool" where
  "tries_recorded hooks key spec ctx n left st res st' =
     (let H = hook_error hooks key; xs = tries H (\<lambda>c. asp_compute spec c ctx) (length (ost_calls st)) left in
      (\<exists>rows. runs_of st' = runs_of st @ rows \<and> map run_key rows = tries_keys n xs
        \<and> (rows = [] \<or> s_committed (ost_session st') = s_working (ost_session st')))
      \<and> ost_calls st' = ost_calls st @ replicate (length xs) (key, ctx)
      \<and> ost_hooked st' = ost_hooked st @ concat (map (\<lambda>x. case x of Inl e \<Rightarrow> hook_log hooks key (exc_name e) | Inr _ \<Rightarrow> []) xs)
      \<and> (case res of
            Inr oc \<Rightarrow> xs \<noteq> [] \<and> last xs = Inr (ao_output oc) \<and> ao_status oc = ''succeeded''
          | Inl e \<Rightarrow> list_all isl xs
              \<and> ((\<exists>x. xs \<noteq> [] \<and> last xs = Inl x \<and> H (exc_name x) = Some e)
                \<or> (length xs = left \<and> (\<forall>x. Inl x \<in> set xs \<longrightarrow> H (exc_name x) = None) \<and> e = asset_failed spec))))"

lemma start_attempt_calls:
  "start_attempt R o' ra key hash ctx n st = (i, st1) \<Longrightarrow> ost_calls st1 = ost_calls st @ [(key, ctx)] \<and> ost_hooked st1 = ost_hooked st"
  by (auto simp: start_attempt_def split: prod.splits)

lemma end_attempt_calls [simp]:
  "ost_calls (end_attempt R ra key n i status code meta st) = ost_calls st"
  "ost_hooked (end_attempt R ra key n i status code meta st) = ost_hooked st"
  by (simp_all add: end_attempt_def)

lemma attempts_recorded:
  assumes "run_ids_ok (ost_session st)"
    and "attempts R o' ra spec key hash ctx n left st = (res, st')"
  shows "tries_recorded (orc_hooks o') key spec ctx n left st res st' \<and> run_ids_ok (ost_session st')"
  using assms
proof (induction left arbitrary: n st)
  case 0
  then show ?case by (auto simp: tries_recorded_def asset_failed_def)
next
  case (Suc left)
  let ?id = "new_id (ost_session st)" and ?H = "hook_error (orc_hooks o') key"
  obtain st1 where start: "start_attempt R o' ra key hash ctx n st = (?id, st1)" using start_attempt_eq by blast
  note calls = start_attempt_calls [OF start]
  show ?case
  proof (cases "asp_compute spec (length (ost_calls st)) ctx")
    case (Inr out)
    define e where "e = end_attempt R ra key n ?id ''succeeded'' None (safe_metadata out) st1"
    note ended = ended_attempt [OF Suc.prems(1) start e_def]
    have calls': "ost_calls e = ost_calls st @ [(key, ctx)]" "ost_hooked e = ost_hooked st" using calls by (simp_all add: e_def)
    from Suc.prems(2) have "st' = e" "\<exists>oc. res = Inr oc \<and> ao_output oc = out \<and> ao_status oc = ''succeeded''"
      by (auto simp: Inr start e_def)
    with ended Inr calls' show ?thesis
      by (auto simp: tries_recorded_def Let_def run_key_attempt)
  next
    case (Inl x)
    define e where "e = end_attempt R ra key n ?id ''failed'' (Some (exc_name x)) [] st1"
    define h where "h = e\<lparr>ost_hooked := ost_hooked e @ hook_log (orc_hooks o') key (exc_name x)\<rparr>"
    note ended = ended_attempt [OF Suc.prems(1) start e_def]
    have h: "runs_of h = runs_of e" "ost_session h = ost_session e" "ost_calls h = ost_calls st @ [(key, ctx)]"
      "ost_hooked h = ost_hooked st @ hook_log (orc_hooks o') key (exc_name x)"
      using calls by (simp_all add: h_def e_def)
    let ?row = "one_attempt ''failed'' (Some (exc_name x)) [] ra (running_row (orc_key o') ra key hash n ?id)"
    show ?thesis
    proof (cases "?H (exc_name x)")
      case (Some e')
      with Suc.prems(2) have "res = Inl e'" "st' = h"
        by (simp_all add: Inl start call_hooks_eq h_def e_def)
      with ended h Inl Some show ?thesis
        by (auto simp: tries_recorded_def Let_def run_key_attempt)
    next
      case None
      have run: "attempts R o' ra spec key hash ctx (n + 1) left h = (res, st')"
        using Suc.prems(2) None by (simp add: Inl start call_hooks_eq h_def e_def)
      have ok: "run_ids_ok (ost_session h)" using ended(3) h by simp
      let ?xs = "tries ?H (\<lambda>c. asp_compute spec c ctx) (Suc (length (ost_calls st))) left"
      have len: "length (ost_calls h) = Suc (length (ost_calls st))" using h by simp
      note IH = Suc.IH [OF ok run, unfolded tries_recorded_def Let_def len]
      from IH obtain rows where r: "runs_of st' = runs_of h @ rows" "map run_key rows = tries_keys (n + 1) ?xs"
        "rows = [] \<or> s_committed (ost_session st') = s_working (ost_session st')" by blast
      have com: "s_committed (ost_session st') = s_working (ost_session st')"
        using r(3)
      proof
        assume "rows = []"
        then have "?xs = []" using r(2) by (cases ?xs) auto
        then have "left = 0" by (cases left) auto
        with run have "st' = h" by simp
        then show ?thesis using ended(2) h by simp
      qed
      have rows: "\<exists>rows. runs_of st' = runs_of st @ rows \<and> map run_key rows = tries_keys n (Inl x # ?xs)
          \<and> (rows = [] \<or> s_committed (ost_session st') = s_working (ost_session st'))"
        using r ended(1) h(1) com by (intro exI [of _ "?row # rows"]) (simp add: run_key_attempt)
      have rest: "ost_calls st' = ost_calls st @ replicate (length (Inl x # ?xs)) (key, ctx)"
        "ost_hooked st' = ost_hooked st @ concat (map (\<lambda>x. case x of Inl e \<Rightarrow> hook_log (orc_hooks o') key (exc_name e) | Inr _ \<Rightarrow> []) (Inl x # ?xs))"
        using IH h(3,4) by simp_all
      have answer: "case res of
            Inr oc \<Rightarrow> Inl x # ?xs \<noteq> [] \<and> last (Inl x # ?xs) = Inr (ao_output oc) \<and> ao_status oc = ''succeeded''
          | Inl e \<Rightarrow> list_all isl (Inl x # ?xs)
              \<and> ((\<exists>y. Inl x # ?xs \<noteq> [] \<and> last (Inl x # ?xs) = Inl y \<and> ?H (exc_name y) = Some e)
                \<or> (length (Inl x # ?xs) = Suc left \<and> (\<forall>y. Inl y \<in> set (Inl x # ?xs) \<longrightarrow> ?H (exc_name y) = None) \<and> e = asset_failed spec))"
        using IH None by (cases res) auto
      have "tries ?H (\<lambda>c. asp_compute spec c ctx) (length (ost_calls st)) (Suc left) = Inl x # ?xs"
        using None by (simp add: Inl)
      with rows rest answer IH show ?thesis unfolding tries_recorded_def Let_def by (simp only:)
    qed
  qed
qed

lemma tries_facts:
  "length (tries H f c left) \<le> left"
  "(\<And>name. H name = None) \<Longrightarrow> list_all isl (tries H f c left) \<longleftrightarrow> (\<forall>k < left. isl (f (c + k)))"
proof (induction left arbitrary: c)
  case (Suc left)
  { case 1 show ?case using Suc.IH(1) by (auto split: sum.split) }
  { case 2 show ?case using Suc.IH(2) [of "Suc c"] 2 by (auto simp: less_Suc_eq_0_disj split: sum.split) }
qed auto

lemma recorded_row_ids:
  assumes "run_ids_ok s" and "\<And>i. ar_id (mk i) = i"
  shows "run_ids_ok (commit (snd (add_row mk put_asset_run s)))"
  using assms unfolding run_ids_ok_def by (auto simp: add_row_def Let_def put_asset_run_def new_id_def commit_def) (meson less_SucI)

lemma run_body_ids:
  assumes "run_ids_ok (ost_session st)" and "run_body R o' ra spec key ctx outs st = (res, st')"
  shows "run_ids_ok (ost_session st')"
proof -
  let ?ctx = "dict_set ''dependencies'' (PDict outs) ctx"
  let ?hash = "compute_change_hash R key (ra_partition_key ra) (current_watermark ra) ?ctx"
  have loop: "run_ids_ok (ost_session st')" if "attempts R o' ra spec key ?hash ?ctx 1 n st = (res, st')" for n
    using attempts_recorded [OF assms(1) that] ..
  show ?thesis
  proof (cases "find_prior (ost_session st) (ra_organization_id ra) key (ra_partition_key ra) ?hash")
    case None
    with assms(2) loop show ?thesis by (simp add: run_body_def Let_def)
  next
    case (Some prior)
    show ?thesis
    proof (cases "ra_backfill_of ra")
      case None
      let ?mk = "skipped_row R (orc_key o') ra key ?hash prior"
      obtain row s1 where add: "add_row ?mk put_asset_run (ost_session st) = (row, s1)" by (metis prod.exhaust)
      have "st' = st\<lparr>ost_session := commit s1\<rparr>"
        using assms(2) Some None add by (simp add: run_body_def Let_def)
      with recorded_row_ids [OF assms(1), of ?mk] add show ?thesis by (simp add: skipped_row_def)
    next
      case (Some b)
      with assms(2) loop \<open>find_prior _ _ _ _ _ = Some prior\<close> show ?thesis by (simp add: run_body_def Let_def)
    qed
  qed
qed

lemma run_ids_kept:
  "run_ids_ok (ost_session st) \<Longrightarrow> run_ids_ok (ost_session (snd (run_asset R o' ra depth key ctx st)))"
  "run_ids_ok (ost_session st) \<Longrightarrow> run_ids_ok (ost_session (snd (run_dependencies R o' ra depth ds ctx outs st)))"
proof (induction R o' ra depth key ctx st and R o' ra depth ds ctx outs st rule: run_asset_run_dependencies.induct)
  case (2 R o' ra depth key ctx st)
  show ?case
  proof (cases "map_of (orc_assets o') key")
    case (Some spec)
    obtain r st1 where r: "run_dependencies R o' ra depth (asp_dependencies spec) ctx [] st = (r, st1)" by (metis prod.exhaust)
    with 2 Some have ok: "run_ids_ok (ost_session st1)" by auto
    show ?thesis
    proof (cases r)
      case (Inr outs)
      obtain x st2 where b: "run_body R o' ra spec key ctx outs st1 = (x, st2)" by (metis prod.exhaust)
      with run_body_ids [OF ok b] Inr Some r show ?thesis by simp
    qed (use ok Some r in simp)
  qed (use 2 in simp)
next
  case (4 R o' ra depth d ds ctx outs st)
  obtain r st1 where r: "run_asset R o' ra depth d ctx st = (r, st1)" by (metis prod.exhaust)
  with 4 show ?case by (cases r) auto
qed simp_all

section \<open>Lemmas: recursion over dependencies\<close>





section \<open>Lemmas: success is remembered\<close>

definition succeeded_row :: "run_args \<Rightarrow> string \<Rightarrow> string \<Rightarrow> asset_run \<Rightarrow> bool" where
  "succeeded_row ra key hash r = (ar_organization_id r = ra_organization_id ra \<and> ar_asset_key r = key
     \<and> ar_partition_key r = ra_partition_key ra \<and> ar_change_hash r = Some hash \<and> ar_status r = ''succeeded'')"

lemma update_where_mem: "r \<in> set rows \<Longrightarrow> P r \<Longrightarrow> f r \<in> set (update_where P f rows)"
  by (force simp: update_where_def)

lemma attempts_success_row:
  assumes "quiet_hooks o'" and "attempts R o' ra spec key hash ctx n left st = (Inr oc, st')"
  shows "\<exists>r \<in> set (runs_of st'). succeeded_row ra key hash r"
  using assms(2)
proof (induction left arbitrary: n st)
  case (Suc left)
  let ?id = "new_id (ost_session st)"
  obtain st1 where start: "start_attempt R o' ra key hash ctx n st = (?id, st1)" using start_attempt_eq by blast
  have q: "\<forall>h \<in> set (orc_hooks o'). \<forall>a b. \<not> isl (h a b)" using assms(1) by (simp add: quiet_hooks_def)
  show ?case
  proof (cases "asp_compute spec (length (ost_calls st)) ctx")
    case (Inl x)
    obtain l where l: "call_hooks (orc_hooks o') key (exc_name x)
        (end_attempt R ra key n ?id ''failed'' (Some (exc_name x)) [] st1)
        = (Inr (), (end_attempt R ra key n ?id ''failed'' (Some (exc_name x)) [] st1)\<lparr>ost_hooked := l\<rparr>)"
      using call_hooks_quiet [OF q] by blast
    from Suc.prems Suc.IH Inl show ?thesis by (simp add: start l)
  next
    case (Inr out)
    with Suc.prems have st': "st' = end_attempt R ra key n ?id ''succeeded'' None (safe_metadata out) st1"
      by (simp add: start)
    have "running_row (orc_key o') ra key hash n ?id \<in> set (runs_of st1)"
      using start by (auto simp: start_attempt_def add_row_def Let_def put_asset_run_def)
    moreover have "ar_id (running_row (orc_key o') ra key hash n ?id) = ?id" by (simp add: running_row_def)
    moreover have "runs_of st' = update_where (\<lambda>r. ar_id r = ?id)
        (one_attempt ''succeeded'' None (safe_metadata out) ra) (runs_of st1)"
      by (simp add: st' end_attempt_def finish_run_def one_attempt_def [abs_def])
    ultimately have "one_attempt ''succeeded'' None (safe_metadata out) ra (running_row (orc_key o') ra key hash n ?id) \<in> set (runs_of st')"
      by (simp add: update_where_mem)
    moreover have "succeeded_row ra key hash
        (one_attempt ''succeeded'' None (safe_metadata out) ra (running_row (orc_key o') ra key hash n ?id))"
      by (simp add: succeeded_row_def one_attempt_def running_row_def)
    ultimately show ?thesis by blast
  qed
qed simp

lemma find_prior_some: "find_prior s oid key part hash \<noteq> None \<longleftrightarrow>
    (\<exists>r \<in> set (db_asset_runs (s_working s)). ar_organization_id r = oid \<and> ar_asset_key r = key
       \<and> ar_partition_key r = part \<and> ar_change_hash r = Some hash \<and> ar_status r = ''succeeded'')" (is "_ = ?R")
proof -
  have "find_prior s oid key part hash = None \<longleftrightarrow> filter (\<lambda>r. ar_organization_id r = oid \<and> ar_asset_key r = key
       \<and> ar_partition_key r = part \<and> ar_change_hash r = Some hash \<and> ar_status r = ''succeeded'') (db_asset_runs (s_working s)) = []"
    unfolding find_prior_def by (metis (no_types, lifting) list.simps(4) list.simps(5) neq_Nil_conv option.distinct(1) set_empty set_sort)
  then show ?thesis by (auto simp: filter_empty_conv)
qed

section \<open>Properties of orchestration\<close>

text \<open>
  C13: once the dependencies of an asset have been run, and when no run of the same organization, asset, partition and
  change hash has succeeded (or the run is a backfill), the asset is called until it answers, at most its number of attempts.
  Every call leaves exactly one row, numbered from 1, failed with its exception's name or succeeded, and the last one is
  committed; after each failure the hooks are called in their order. The run returns the first answer; it raises the exception of
  a hook, when one raises, and that ends the loop; and otherwise it raises \<open>asset_failed\<close> exactly when every one of the allowed
  attempts failed.
\<close>

theorem attempts_follow_reference:
  fixes R o' oid key part wm bf now
  defines "ra \<equiv> \<lparr>ra_organization_id = oid, ra_partition_key = part, ra_watermark = wm, ra_backfill_of = bf, ra_now = now\<rparr>"
  assumes "map_of (orc_assets o') key = Some spec" and "rt_recursion_limit R = Suc depth"
    and "run_dependencies R o' ra depth (asp_dependencies spec) ctx [] st = (Inr outputs, st1)"
  defines "ctx' \<equiv> dict_set ''dependencies'' (PDict outputs) ctx"
  assumes "bf \<noteq> None
      \<or> (\<forall>r \<in> set (runs_of st1). \<not> succeeded_row ra key (compute_change_hash R key part (current_watermark ra) ctx') r)"
    and "run_ids_ok (ost_session st)"
    and "orchestrator_run R o' oid key part (Some ctx) wm bf now st = (res, st')"
  shows "tries_recorded (orc_hooks o') key spec ctx' 1 (nat (asp_max_attempts spec)) st1 res st'
    \<and> length (ost_calls st') \<le> length (ost_calls st1) + nat (asp_max_attempts spec)
    \<and> (quiet_hooks o' \<longrightarrow>
        (res = Inl (asset_failed spec) \<longleftrightarrow> (\<forall>k < nat (asp_max_attempts spec). isl (asp_compute spec (length (ost_calls st1) + k) ctx'))))"
proof -
  let ?n = "nat (asp_max_attempts spec)" and ?hash = "compute_change_hash R key part (current_watermark ra) ctx'"
  have ids: "run_ids_ok (ost_session st1)" using run_ids_kept(2) [OF assms(7)] assms(4) by (metis snd_conv)
  have "bf \<noteq> None \<or> find_prior (ost_session st1) oid key part ?hash = None"
    using assms(6) find_prior_some [of "ost_session st1" oid key part ?hash] by (auto simp: succeeded_row_def ra_def)
  then have run: "attempts R o' ra spec key ?hash ctx' 1 ?n st1 = (res, st')"
    using assms(2-4,8) by (auto simp: orchestrator_run_def run_body_def Let_def ctx'_def ra_def split: option.splits)
  from attempts_recorded [OF ids run] have
    rec: "tries_recorded (orc_hooks o') key spec ctx' 1 ?n st1 res st'" ..
  let ?xs = "tries (hook_error (orc_hooks o') key) (\<lambda>c. asp_compute spec c ctx') (length (ost_calls st1)) ?n"
  from rec have 1: "ost_calls st' = ost_calls st1 @ replicate (length ?xs) (key, ctx')"
    unfolding tries_recorded_def Let_def by blast
  have 2: "res = Inl (asset_failed spec) \<longleftrightarrow> list_all isl ?xs" if "quiet_hooks o'"
  proof (cases res)
    case (Inl e)
    with rec quiet_hook_error [OF that] show ?thesis unfolding tries_recorded_def Let_def by auto
  next
    case (Inr oc)
    with rec have "?xs \<noteq> []" "\<not> isl (last ?xs)" unfolding tries_recorded_def Let_def by auto
    with Inr show ?thesis by (auto simp: list_all_iff dest: last_in_set)
  qed
  show ?thesis
    using rec 1 2 tries_facts(1) [of "hook_error (orc_hooks o') key" "\<lambda>c. asp_compute spec c ctx'" "length (ost_calls st1)" ?n]
      tries_facts(2) [of "hook_error (orc_hooks o') key" "\<lambda>c. asp_compute spec c ctx'" "length (ost_calls st1)" ?n]
      quiet_hook_error by auto
qed


text \<open>
  repeating a successful run of an asset without dependencies, with the same context
  and watermark, calls nothing: it is recorded as skipped, pointing to a success.
\<close>

theorem unchanged_run_is_skipped:
  assumes "map_of (orc_assets o') key = Some spec" and "asp_dependencies spec = []"
    and "quiet_hooks o'" and "0 < rt_recursion_limit R"
    and "orchestrator_run R o' oid key part (Some ctx) wm None now st = (Inr oc, st1)"
  shows "\<exists>oc2 st2. orchestrator_run R o' oid key part (Some ctx) wm None now' st1 = (Inr oc2, st2)
    \<and> ao_status oc2 = ''skipped_unchanged'' \<and> ost_calls st2 = ost_calls st1
    \<and> (\<exists>row. runs_of st2 = runs_of st1 @ [row] \<and> ar_status row = ''skipped_unchanged'')
    \<and> s_committed (ost_session st2) = s_working (ost_session st2)"
proof -
  obtain d where d: "rt_recursion_limit R = Suc d" using assms(4) by (metis gr0_implies_Suc)
  define ra where "ra = (\<lambda>t. \<lparr>ra_organization_id = oid, ra_partition_key = part, ra_watermark = wm,
       ra_backfill_of = None, ra_now = t\<rparr>)"
  let ?ctx = "dict_set ''dependencies'' (PDict []) ctx"
  define hash where "hash = compute_change_hash R key part (case wm of None \<Rightarrow> [] | Some w \<Rightarrow> w) ?ctx"
  have h: "compute_change_hash R key (ra_partition_key (ra t)) (current_watermark (ra t)) ?ctx = hash" for t
    by (simp add: hash_def ra_def current_watermark_def)
  have run: "orchestrator_run R o' oid key part (Some ctx) wm None t s = run_body R o' (ra t) spec key ctx [] s" for t s
    by (simp add: orchestrator_run_def d assms(1,2) ra_def)
  have "find_prior (ost_session st1) oid key part hash \<noteq> None"
  proof (cases "find_prior (ost_session st) oid key part hash")
    case None
    then have "attempts R o' (ra now) spec key hash ?ctx 1 (nat (asp_max_attempts spec)) st = (Inr oc, st1)"
      using assms(5) unfolding run run_body_def Let_def h by (simp add: ra_def)
    from attempts_success_row [OF assms(3) this] show ?thesis
      unfolding find_prior_some succeeded_row_def ra_def by auto
  next
    case (Some prior)
    then have ex: "\<exists>r \<in> set (runs_of st). ar_organization_id r = oid \<and> ar_asset_key r = key
       \<and> ar_partition_key r = part \<and> ar_change_hash r = Some hash \<and> ar_status r = ''succeeded''"
      using find_prior_some [of "ost_session st" oid key part hash] by simp
    have "set (runs_of st) \<subseteq> set (runs_of st1)"
      using assms(5) Some unfolding run run_body_def Let_def h
      by (auto simp: ra_def add_row_def Let_def put_asset_run_def)
    with ex show ?thesis unfolding find_prior_some by blast
  qed
  then obtain prior where prior: "find_prior (ost_session st1) oid key part hash = Some prior" by auto
  show ?thesis unfolding run run_body_def Let_def h
    using prior by (simp add: ra_def add_row_def Let_def put_asset_run_def skipped_row_def)
qed

section \<open>Concrete runs\<close>

text \<open>A runtime whose JSON text tells values apart.\<close>

fun show_val :: "pyval \<Rightarrow> string"
  and show_list :: "pyval list \<Rightarrow> string"
  and show_dict :: "(string \<times> pyval) list \<Rightarrow> string" where
  "show_val PNone = ''n''"
| "show_val (PBool b) = (if b then ''t'' else ''f'')"
| "show_val (PInt i) = ''i'' @ int_str i"
| "show_val (PFloat x) = ''x''"
| "show_val (PStr s) = ''\"'' @ s @ ''\"''"
| "show_val (PTime t) = ''d'' @ int_str (dt_wall t)"
| "show_val (PList xs) = ''['' @ show_list xs @ '']''"
| "show_val (PDict d) = ''{'' @ show_dict d @ ''}''"
| "show_list [] = []"
| "show_list (x # xs) = show_val x @ '','' @ show_list xs"
| "show_dict [] = []"
| "show_dict ((k, v) # d) = k @ '':'' @ show_val v @ '','' @ show_dict d"

definition demo_orch_runtime :: runtime where
  "demo_orch_runtime = ascii_runtime\<lparr>rt_json := show_val, rt_recursion_limit := 10\<rparr>"

definition demo_asset :: "string \<Rightarrow> string list \<Rightarrow> (nat \<Rightarrow> pyrec \<Rightarrow> pyrec res) \<Rightarrow> asset_spec" where
  "demo_asset key deps f = \<lparr>asp_key = key, asp_compute = f, asp_dependencies = deps, asp_max_attempts = 3\<rparr>"

definition demo_orchestrator :: orchestrator where
  "demo_orchestrator = \<lparr>orc_key = ''daily'', orc_hooks = [],
     orc_assets = [(''raw'', demo_asset ''raw'' [] (\<lambda>c ctx. if c = 0 then Inl TypeError else Inr [(''rows'', PInt 3)])),
       (''mart'', demo_asset ''mart'' [''raw''] (\<lambda>c ctx. Inr [(''row_count'', PInt 3)]))]\<rparr>"

definition demo_orch_state :: orch_state where
  "demo_orch_state = \<lparr>ost_session = fresh_session, ost_calls = [], ost_events = [], ost_hooked = []\<rparr>"

abbreviation demo_orch_run :: "string \<Rightarrow> int \<Rightarrow> orch_state \<Rightarrow> asset_outcome res \<times> orch_state" where
  "demo_orch_run key now st \<equiv> orchestrator_run demo_orch_runtime demo_orchestrator 1 key None (Some []) None None now st"

lemma demo_orch_facts:
  "map_of (orc_assets demo_orchestrator) ''raw'' = Some (demo_asset ''raw'' [] (\<lambda>c ctx. if c = 0 then Inl TypeError else Inr [(''rows'', PInt 3)]))"
  "quiet_hooks demo_orchestrator" "0 < rt_recursion_limit demo_orch_runtime" "run_ids_ok (ost_session demo_orch_state)"
  by (simp_all add: demo_orchestrator_def quiet_hooks_def demo_orch_runtime_def demo_orch_state_def run_ids_ok_def
      fresh_session_def empty_db_def inj_def)

text \<open>The mart is computed after its dependency, whose first attempt fails.\<close>

definition demo_run_args :: run_args where
  "demo_run_args = \<lparr>ra_organization_id = 1, ra_partition_key = None, ra_watermark = None, ra_backfill_of = None, ra_now = 5\<rparr>"

definition demo_dependencies :: "pyrec res \<times> orch_state" where
  "demo_dependencies = run_dependencies demo_orch_runtime demo_orchestrator demo_run_args 9 [''raw''] [] [] demo_orch_state"

lemma demo_dependencies_run:
  "fst demo_dependencies = Inr [(''raw'', PDict [(''rows'', PInt 3)])]" "length (ost_calls (snd demo_dependencies)) = 2"
  "map ar_asset_key (runs_of (snd demo_dependencies)) = [''raw'', ''raw'']"
  by code_simp+

theorem attempts_follow_reference_witness:
  "\<exists>res st'. demo_orch_run ''mart'' 5 demo_orch_state = (res, st') \<and> res \<noteq> Inl (asset_failed (demo_asset ''mart'' [''raw''] (\<lambda>c ctx. Inr [(''row_count'', PInt 3)])))
    \<and> length (ost_calls st') \<le> 5"
proof -
  let ?spec = "demo_asset ''mart'' [''raw''] (\<lambda>c ctx. Inr [(''row_count'', PInt 3)])"
  obtain res st' where r: "demo_orch_run ''mart'' 5 demo_orch_state = (res, st')" by (metis prod.exhaust)
  have spec: "map_of (orc_assets demo_orchestrator) ''mart'' = Some ?spec" by (simp add: demo_orchestrator_def)
  have depth: "rt_recursion_limit demo_orch_runtime = Suc 9" by (simp add: demo_orch_runtime_def)
  have deps: "run_dependencies demo_orch_runtime demo_orchestrator
      \<lparr>ra_organization_id = 1, ra_partition_key = None, ra_watermark = None, ra_backfill_of = None, ra_now = 5\<rparr> 9
      (asp_dependencies ?spec) [] [] demo_orch_state = (Inr [(''raw'', PDict [(''rows'', PInt 3)])], snd demo_dependencies)"
    using demo_dependencies_run(1) by (simp add: demo_dependencies_def demo_run_args_def demo_asset_def prod_eq_iff)
  have new: "\<forall>r \<in> set (runs_of (snd demo_dependencies)). \<not> succeeded_row ra ''mart'' hash r" for ra hash
  proof
    fix r assume "r \<in> set (runs_of (snd demo_dependencies))"
    then have "ar_asset_key r \<in> set [''raw'', ''raw'']" unfolding demo_dependencies_run(3) [symmetric] by simp
    then show "\<not> succeeded_row ra ''mart'' hash r" by (auto simp: succeeded_row_def)
  qed
  note t = attempts_follow_reference [OF spec depth deps disjI2 [OF new] demo_orch_facts(4) r]
  have three: "nat (asp_max_attempts ?spec) = 3" and answers: "\<not> isl (asp_compute ?spec k c)" for k c by (simp_all add: demo_asset_def)
  have "(0 :: nat) < 3" by simp
  with t demo_orch_facts(2) answers have "res \<noteq> Inl (asset_failed ?spec)" unfolding three by blast
  moreover have "length (ost_calls st') \<le> 5" using t by (simp add: three demo_dependencies_run)
  ultimately show ?thesis using r by blast
qed


theorem unchanged_run_is_skipped_witness:
  "\<exists>oc2 st2. demo_orch_run ''raw'' 6 (snd (demo_orch_run ''raw'' 5 demo_orch_state)) = (Inr oc2, st2)
     \<and> ao_status oc2 = ''skipped_unchanged''"
proof -
  have "\<not> isl (fst (demo_orch_run ''raw'' 5 demo_orch_state))" by code_simp
  then obtain oc st1 where r: "demo_orch_run ''raw'' 5 demo_orch_state = (Inr oc, st1)" using returned_pair by blast
  have d: "asp_dependencies (demo_asset ''raw'' [] f) = []" for f by (simp add: demo_asset_def)
  from unchanged_run_is_skipped [OF demo_orch_facts(1) d demo_orch_facts(2,3) r, of 6] r show ?thesis by fastforce
qed

text \<open>
  A dependent asset is not spared: when its dependency is skipped, the dependency's recorded
  metadata stands in for its output, so the dependent's inputs look different and it is
  computed again although nothing changed. (The third call below is the second one of
  the mart.)
\<close>

lemma skipped_dependency_recomputes_dependent:
  "map fst (ost_calls (snd (demo_orch_run ''mart'' 6 (snd (demo_orch_run ''mart'' 5 demo_orch_state)))))
     = [''raw'', ''raw'', ''mart'', ''mart'']"
  by code_simp

end
