(* ===== verification/Connector_Guards.thy ===== *)
theory Connector_Guards
  imports Security Files
begin

text \<open>
  The guards of \<^verbatim>\<open>connectors/security.py\<close> and the path check of \<^verbatim>\<open>config_loader.py\<close>:
  files, archives, spreadsheet cells, remote URLs, SQL identifiers and secret
  references. What the operating system and the network answer (symbolic links, resolved
  paths with the home directory expanded, sizes, addresses, environment variables), and the two parsers of the standard
  library that read URLs and IP addresses, are fields of the \<open>host\<close> a guard is given. A
  resolved path is the list of its parts.
\<close>

section \<open>Host\<close>

type_synonym path = "string list"

record url_parts =
  up_scheme :: string
  up_hostname :: "string option"
  up_port :: "nat option"
  up_username :: "string option"
  up_password :: "string option"

record ip_flags =
  ip_private :: bool
  ip_loopback :: bool
  ip_link_local :: bool
  ip_multicast :: bool
  ip_reserved :: bool
  ip_unspecified :: bool

record host =
  ho_symlink :: "string \<Rightarrow> bool"
  ho_resolve :: "string \<Rightarrow> path option"
  ho_size :: "path \<Rightarrow> nat"
  ho_urlparse :: "string \<Rightarrow> url_parts"
  ho_urljoin :: "string \<Rightarrow> string \<Rightarrow> string"
  ho_getaddrinfo :: "string \<Rightarrow> nat \<Rightarrow> string list option"
  ho_ip :: "string \<Rightarrow> ip_flags"
  ho_getenv :: "string \<Rightarrow> string option"

section \<open>Paths\<close>

definition is_relative_to :: "path \<Rightarrow> path \<Rightarrow> bool" where
  "is_relative_to p d = (take (length d) p = d)"

text \<open>\<^verbatim>\<open>path.suffix\<close>: from the last dot of the last part, unless that dot starts or ends it.\<close>

definition suffix_of :: "path \<Rightarrow> string" where
  "suffix_of p =
     (if p = [] then [] else
      let name = last p; tail = takeWhile (\<lambda>c. c \<noteq> CHR ''.'') (rev name) in
      if tail = [] \<or> length name \<le> Suc (length tail) then [] else CHR ''.'' # rev tail)"

fun resolve_all :: "host \<Rightarrow> string list \<Rightarrow> path list res" where
  "resolve_all H [] = Inr []"
| "resolve_all H (d # ds) = (case ho_resolve H d of None \<Rightarrow> Inl FileNotFoundError
     | Some p \<Rightarrow> (case resolve_all H ds of Inl e \<Rightarrow> Inl e | Inr ps \<Rightarrow> Inr (p # ps)))"

definition ensure_allowed_file :: "runtime \<Rightarrow> host \<Rightarrow> string \<Rightarrow> string list \<Rightarrow> nat \<Rightarrow> string list \<Rightarrow> path res" where
  "ensure_allowed_file R H path allowed_roots max_bytes allowed_suffixes =
     (if ho_symlink H path
      then Inl (ConnectorError ''symlink_not_allowed'' ''Symbolic-link source files are not allowed'')
      else case ho_resolve H path of None \<Rightarrow> Inl FileNotFoundError | Some resolved \<Rightarrow>
      case resolve_all H allowed_roots of Inl e \<Rightarrow> Inl e | Inr roots \<Rightarrow>
      if \<not> list_ex (is_relative_to resolved) roots
      then Inl (ConnectorError ''file_outside_allowed_root'' ''Source file is outside an allowed root'')
      else if rt_lower R (suffix_of resolved) \<notin> set allowed_suffixes
      then Inl (ConnectorError ''unsupported_file_type'' ''Source file type is not allowed'')
      else if ho_size H resolved > max_bytes
      then Inl (ConnectorError ''source_too_large'' ''Source file exceeds the configured size limit'')
      else Inr resolved)"

section \<open>Archives\<close>

text \<open>\<^verbatim>\<open>Path(name)\<close>: absolute when it starts with a slash; its parts without empty and dot ones.\<close>

definition path_parts :: "string \<Rightarrow> string list" where
  "path_parts name = filter (\<lambda>p. p \<noteq> [] \<and> p \<noteq> ''.'') (split_on ''/'' name)"

definition unsafe_member :: "string \<Rightarrow> bool" where
  "unsafe_member name = (starts_with name ''/'' \<or> ''..'' \<in> set (path_parts name))"

fun check_members :: "nat \<Rightarrow> (string \<times> nat) list \<Rightarrow> nat \<Rightarrow> unit res" where
  "check_members max_total [] sofar = Inr ()"
| "check_members max_total ((name, sz) # ms) sofar =
     (if unsafe_member name
      then Inl (ConnectorError ''unsafe_archive_path'' ''Archive contains an unsafe member path'')
      else if sofar + sz > max_total
      then Inl (ConnectorError ''archive_too_large'' ''Archive expands beyond the configured limit'')
      else check_members max_total ms (sofar + sz))"

definition validate_zip_archive :: "(string \<times> nat) list \<Rightarrow> nat \<Rightarrow> nat \<Rightarrow> unit res" where
  "validate_zip_archive members max_members max_total_uncompressed_bytes =
     (if length members > max_members
      then Inl (ConnectorError ''archive_too_many_members'' ''Archive contains too many members'')
      else check_members max_total_uncompressed_bytes members 0)"

section \<open>Cells, URLs, identifiers, secrets\<close>

definition FORMULA_PREFIXES :: "char list" where
  "FORMULA_PREFIXES = [CHR ''='', CHR ''+'', CHR ''-'', CHR ''@'']"

definition is_formula :: "string \<Rightarrow> bool" where
  "is_formula value = (case value of [] \<Rightarrow> False | c # _ \<Rightarrow> c \<in> set FORMULA_PREFIXES)"

definition sanitize_spreadsheet_cell :: "string \<Rightarrow> string" where
  "sanitize_spreadsheet_cell value = (if is_formula value then CHR 0x27 # value else value)"

definition blocked_ip :: "ip_flags \<Rightarrow> bool" where
  "blocked_ip f = (ip_private f \<or> ip_loopback f \<or> ip_link_local f \<or> ip_multicast f \<or> ip_reserved f \<or> ip_unspecified f)"

definition validate_remote_url :: "host \<Rightarrow> string \<Rightarrow> bool \<Rightarrow> string res" where
  "validate_remote_url H url allow_private_network =
     (let parsed = ho_urlparse H url in
      if up_scheme parsed \<noteq> ''https'' \<and> \<not> allow_private_network
      then Inl (ConnectorError ''https_required'' ''REST sources require HTTPS'')
      else if up_scheme parsed \<notin> {''http'', ''https''} \<or> \<not> named (up_hostname parsed)
      then Inl (ConnectorError ''invalid_remote_url'' ''REST source URL is invalid'')
      else if named (up_username parsed) \<or> named (up_password parsed)
      then Inl (ConnectorError ''credentials_in_url'' ''Credentials must not be embedded in a URL'')
      else case ho_getaddrinfo H (or_empty (up_hostname parsed))
                  (case up_port parsed of None \<Rightarrow> 443 | Some p \<Rightarrow> if p = 0 then 443 else p) of
        None \<Rightarrow> Inl (ConnectorError ''host_resolution_failed'' ''REST source host could not be resolved'')
      | Some addresses \<Rightarrow>
          if list_ex (\<lambda>a. blocked_ip (ho_ip H a)) addresses \<and> \<not> allow_private_network
          then Inl (ConnectorError ''private_network_blocked'' ''REST source resolves to a blocked network'')
          else Inr url)"

definition ident_start :: "char \<Rightarrow> bool" where
  "ident_start c = (let n = of_char c :: nat in (65 \<le> n \<and> n \<le> 90) \<or> (97 \<le> n \<and> n \<le> 122) \<or> n = 95)"

definition ident_char :: "char \<Rightarrow> bool" where
  "ident_char c = (let n = of_char c :: nat in ident_start c \<or> (48 \<le> n \<and> n \<le> 57))"

text \<open>\<^verbatim>\<open>SAFE_SQL_IDENTIFIER.fullmatch\<close>\<close>

definition safe_identifier :: "string \<Rightarrow> bool" where
  "safe_identifier s = (case s of [] \<Rightarrow> False | c # cs \<Rightarrow> ident_start c \<and> list_all ident_char cs)"

definition validate_sql_identifier :: "string \<Rightarrow> string res" where
  "validate_sql_identifier value =
     (if \<not> safe_identifier value
      then Inl (ConnectorError ''unsafe_sql_identifier'' ''Table or column identifier is not allowed'')
      else Inr value)"

definition resolve_secret_reference :: "host \<Rightarrow> string option \<Rightarrow> string option res" where
  "resolve_secret_reference H reference = (case reference of
       None \<Rightarrow> Inr None
     | Some r \<Rightarrow>
         if \<not> starts_with r ''env://''
         then Inl (ConnectorError ''unsupported_secret_reference'' ''Only env:// secret references are supported'')
         else let variable = drop 6 r in
         if \<not> safe_identifier variable
         then Inl (ConnectorError ''invalid_secret_reference'' ''Secret reference name is invalid'')
         else if \<not> named (ho_getenv H variable)
         then Inl (ConnectorError ''secret_not_available'' ''Referenced secret is not available'')
         else Inr (ho_getenv H variable))"

section \<open>Configuration paths\<close>

definition named_config_path :: "host \<Rightarrow> string \<Rightarrow> string \<Rightarrow> string \<Rightarrow> path res" where
  "named_config_path H config_root category config_id =
     (case validate_sql_identifier category of Inl e \<Rightarrow> Inl e | Inr _ \<Rightarrow>
      case validate_sql_identifier config_id of Inl e \<Rightarrow> Inl e | Inr _ \<Rightarrow>
      case ho_resolve H config_root of None \<Rightarrow> Inl FileNotFoundError | Some d \<Rightarrow>
      case ho_resolve H (join ''/'' d @ ''/'' @ category @ ''/'' @ config_id @ ''.yml'') of
        None \<Rightarrow> Inl FileNotFoundError
      | Some p \<Rightarrow>
          if \<not> is_relative_to p d
          then Inl (ConnectorError ''config_outside_root'' ''Configuration is outside config root'')
          else Inr p)"

definition source_config_path :: "host \<Rightarrow> string \<Rightarrow> string \<Rightarrow> path res" where
  "source_config_path H config_root source_id = named_config_path H config_root ''sources'' source_id"

section \<open>Lemmas\<close>

lemma resolve_all_ok: "resolve_all H ds = Inr ps \<longleftrightarrow> map (ho_resolve H) ds = map Some ps"
proof (induction ds arbitrary: ps)
  case (Cons d ds)
  show ?case
  proof (cases "resolve_all H ds")
    case (Inl e)
    with Cons.IH show ?thesis by (auto split: option.splits)
  next
    case (Inr qs)
    with Cons.IH [of qs] Cons.IH show ?thesis by (cases ps) (auto split: option.splits)
  qed
qed auto

lemma check_members_iff:
  "check_members m ms t = Inr () \<longleftrightarrow> t + sum_list (map snd ms) \<le> m \<and> list_all (\<lambda>p. \<not> unsafe_member (fst p)) ms
     \<or> (ms = [])"
proof (induction ms arbitrary: t)
  case (Cons p ms)
  obtain n s where p: "p = (n, s)" by (metis prod.exhaust)
  show ?case
  proof (cases "unsafe_member n \<or> t + s > m")
    case True
    then show ?thesis by (auto simp: p)
  next
    case False
    with Cons.IH [of "t + s"] show ?thesis by (cases ms) (auto simp: p add.assoc)
  qed
qed simp

text \<open>
  Without the private network switch, an accepted URL is HTTPS, carries no credentials
  and names a host none of whose addresses is private or otherwise special.
\<close>

lemma validated_public:
  assumes "validate_remote_url H url False = Inr u"
  shows "u = url \<and> up_scheme (ho_urlparse H url) = ''https''
    \<and> \<not> named (up_username (ho_urlparse H url)) \<and> \<not> named (up_password (ho_urlparse H url))
    \<and> (\<exists>name port addresses. up_hostname (ho_urlparse H url) = Some name \<and> ho_getaddrinfo H name port = Some addresses
        \<and> list_all (\<lambda>a. \<not> blocked_ip (ho_ip H a)) addresses)"
proof -
  let ?p = "ho_urlparse H url"
  from assms have https: "up_scheme ?p = ''https''" by (auto simp: validate_remote_url_def Let_def split: if_splits)
  from assms https have c: "named (up_hostname ?p)" "\<not> named (up_username ?p)" "\<not> named (up_password ?p)"
    by (auto simp: validate_remote_url_def Let_def split: if_splits)
  then obtain name where name: "up_hostname ?p = Some name" by (auto simp: named_def)
  from assms https c name show ?thesis
    by (auto simp: validate_remote_url_def Let_def or_empty_def list_ex_iff list_all_iff split: if_splits option.splits)
qed

section \<open>Properties of the guards\<close>

text \<open>
  a source file is accepted exactly when it exists, is no symbolic link, lies after
  resolution below one of the allowed directories, which all exist, has an allowed
  type and does not exceed the size limit.
\<close>

theorem file_guard_exact:
  "ensure_allowed_file R H path allowed_roots max_bytes allowed_suffixes = Inr p \<longleftrightarrow>
     \<not> ho_symlink H path \<and> ho_resolve H path = Some p
     \<and> list_all (\<lambda>d. ho_resolve H d \<noteq> None) allowed_roots
     \<and> list_ex (\<lambda>d. \<exists>q rest. ho_resolve H d = Some q \<and> p = q @ rest) allowed_roots
     \<and> rt_lower R (suffix_of p) \<in> set allowed_suffixes \<and> ho_size H p \<le> max_bytes"
proof -
  have roots: "(\<exists>ps. resolve_all H ds = Inr ps) \<longleftrightarrow> list_all (\<lambda>d. ho_resolve H d \<noteq> None) ds" for ds
    by (induction ds) (auto split: option.splits sum.splits)
  have below: "list_ex (is_relative_to p) ps \<longleftrightarrow> list_ex (\<lambda>d. \<exists>q rest. ho_resolve H d = Some q \<and> p = q @ rest) ds"
    if "resolve_all H ds = Inr ps" for ds ps
  proof -
    have rel: "is_relative_to p q \<longleftrightarrow> (\<exists>rest. p = q @ rest)" for p q :: path
      unfolding is_relative_to_def by (metis append_eq_conv_conj append_take_drop_id)
    from that have "map (ho_resolve H) ds = map Some ps" by (simp add: resolve_all_ok)
    then show ?thesis by (induction ds arbitrary: ps) (auto simp: rel split del: if_split)
  qed
  show ?thesis
    using roots [of allowed_roots] below [of allowed_roots]
    by (auto simp: ensure_allowed_file_def split: option.splits sum.splits)
qed

text \<open>
  an archive passes exactly when it has no more members than allowed, none of them is
  absolute or climbs out of its directory, and together they do not expand beyond the limit.
\<close>

theorem archive_guard_exact:
  "validate_zip_archive members max_members max_total = Inr () \<longleftrightarrow>
     length members \<le> max_members \<and> list_all (\<lambda>p. \<not> unsafe_member (fst p)) members
     \<and> sum_list (map snd members) \<le> max_total"
  by (cases members) (auto simp: validate_zip_archive_def check_members_iff)

definition open_host :: host where
  "open_host = \<lparr> ho_symlink = (\<lambda>_. False), ho_resolve = (\<lambda>_. None), ho_size = (\<lambda>_. 0),
     ho_urlparse = (\<lambda>_. \<lparr> up_scheme = ''https'', up_hostname = Some ''api.example.org'', up_port = None,
       up_username = None, up_password = None \<rparr>),
     ho_urljoin = (\<lambda>_ u. u), ho_getaddrinfo = (\<lambda>_ _. Some [''93.184.216.34'']),
     ho_ip = (\<lambda>_. \<lparr> ip_private = False, ip_loopback = False, ip_link_local = False, ip_multicast = False,
       ip_reserved = False, ip_unspecified = False \<rparr>),
     ho_getenv = (\<lambda>_. None) \<rparr>"

lemma open_host_accepts: "validate_remote_url open_host ''https://api.example.org'' False = Inr ''https://api.example.org''"
  by (simp add: validate_remote_url_def open_host_def named_def or_empty_def blocked_ip_def)

end
