(* ===== verification/Connectors.thy ===== *)
theory Connectors
  imports Connector_Guards "HOL-Library.Product_Lexorder"
begin

text \<open>
  The connectors (\<^verbatim>\<open>connectors/base.py\<close>, \<^verbatim>\<open>files.py\<close>, \<^verbatim>\<open>rest.py\<close>, \<^verbatim>\<open>postgresql.py\<close>,
  \<^verbatim>\<open>factory.py\<close>). The readers of file formats and the writers of JSON text are fields of
  the \<open>codecs\<close>; the HTTP client is a function from a URL and the number of the request to its
  reply; the source database is a function from a table's name to its columns and rows. The
  paging loop is bounded by the pages that are left, so that it is total.
\<close>

section \<open>Base\<close>

record connection_test_result =
  ct_ok :: bool
  ct_connector :: string
  ct_checked_at :: int
  ct_details :: pyrec

record field_discovery =
  fd_name :: string
  fd_observed_type :: string
  fd_nullable :: bool

record discovery_result =
  dr_object_key :: string
  dr_fields :: "field_discovery list"
  dr_sample_count :: nat
  dr_metadata :: pyrec

record extraction_batch =
  eb_records :: "pyrec list"
  eb_raw_bytes :: string
  eb_content_type :: string
  eb_cursor :: pyrec
  eb_metadata :: pyrec

text \<open>The entry of a cursor, \<open>PNone\<close> when there is no cursor.\<close>

definition cursor_field :: "pyrec option \<Rightarrow> string \<Rightarrow> pyval" where
  "cursor_field cursor key = (case cursor of None \<Rightarrow> PNone | Some cu \<Rightarrow> get_field cu key)"

lemma cursor_field_simps [simp]: "cursor_field None key = PNone" "cursor_field (Some cu) key = get_field cu key"
  by (simp_all add: cursor_field_def)

definition connector_version :: string where
  "connector_version = ''0.4.0''"

text \<open>\<^verbatim>\<open>type(value).__name__\<close>\<close>

fun type_name :: "pyval \<Rightarrow> string" where
  "type_name PNone = ''NoneType''"
| "type_name (PBool b) = ''bool''"
| "type_name (PInt i) = ''int''"
| "type_name (PFloat f) = ''float''"
| "type_name (PStr s) = ''str''"
| "type_name (PTime t) = ''datetime''"
| "type_name (PList xs) = ''list''"
| "type_name (PDict d) = ''dict''"

definition observed_type :: "pyval list \<Rightarrow> string" where
  "observed_type values =
     (let non_null = filter (\<lambda>v. \<not> blank v) values; types = remdups (map type_name non_null) in
      if non_null = [] then ''unknown''
      else if length types = 1 then hd types else ''mixed'')"

definition add_names :: "pyrec \<Rightarrow> string list \<Rightarrow> string list" where
  "add_names record names = fold (\<lambda>p ns. if fst p \<notin> set ns then ns @ [fst p] else ns) record names"

definition field_names :: "pyrec list \<Rightarrow> string list" where
  "field_names sample = fold add_names sample []"

definition discover_fields :: "pyrec list \<Rightarrow> string \<Rightarrow> discovery_result" where
  "discover_fields records object_key =
     (let sample = take 100 records in
      \<lparr>dr_object_key = object_key,
       dr_fields = map (\<lambda>name. \<lparr>fd_name = name,
           fd_observed_type = observed_type (map (\<lambda>r. get_field r name) sample),
           fd_nullable = list_ex (\<lambda>r. blank (get_field r name)) sample\<rparr>) (field_names sample),
       dr_sample_count = length sample, dr_metadata = []\<rparr>)"

section \<open>Files\<close>

text \<open>A workbook: its named sheets and the active one, each the rows of its cells.\<close>

record workbook =
  wb_sheets :: "(string \<times> pyval list list) list"
  wb_active :: "pyval list list option"

record codecs =
  cd_read_bytes :: "path \<Rightarrow> string"
  cd_mtime_ns :: "path \<Rightarrow> int"
  cd_exists :: "string \<Rightarrow> bool"
  cd_zip_members :: "string \<Rightarrow> (string \<times> nat) list res"
  cd_csv_dicts :: "string \<Rightarrow> string \<Rightarrow> string \<Rightarrow> pyrec list res"
  cd_json_loads :: "string \<Rightarrow> pyval res"
  cd_load_workbook :: "string \<Rightarrow> workbook res"
  cd_read_table :: "string \<Rightarrow> pyrec list res"
  cd_json_compact :: "pyval \<Rightarrow> string"
  cd_json_pretty :: "pyval \<Rightarrow> string"

datatype file_kind = CSV | JSON | XLSX | Parquet

fun kind_name :: "file_kind \<Rightarrow> string" where
  "kind_name CSV = ''csv''" | "kind_name JSON = ''json''"
| "kind_name XLSX = ''xlsx''" | "kind_name Parquet = ''parquet''"

fun kind_suffixes :: "file_kind \<Rightarrow> string list" where
  "kind_suffixes CSV = [''.csv'']" | "kind_suffixes JSON = [''.json'']"
| "kind_suffixes XLSX = [''.xlsx'']" | "kind_suffixes Parquet = [''.parquet'']"

fun kind_content_type :: "file_kind \<Rightarrow> string" where
  "kind_content_type CSV = ''text/csv''"
| "kind_content_type JSON = ''application/json''"
| "kind_content_type XLSX = ''application/vnd.openxmlformats-officedocument.spreadsheetml.sheet''"
| "kind_content_type Parquet = ''application/vnd.apache.parquet''"

record file_connector =
  fc_kind :: file_kind
  fc_allowed_roots :: "string list"
  fc_max_bytes :: nat

definition file_test_connection :: "codecs \<Rightarrow> file_connector \<Rightarrow> int \<Rightarrow> connection_test_result" where
  "file_test_connection cd c now =
     (let existing = length (filter (cd_exists cd) (fc_allowed_roots c)) in
      \<lparr>ct_ok = (existing = length (fc_allowed_roots c)), ct_connector = kind_name (fc_kind c), ct_checked_at = now,
       ct_details = [(''configured_roots'', PInt (int (length (fc_allowed_roots c)))),
                     (''existing_roots'', PInt (int existing))]\<rparr>)"

definition file_path :: "runtime \<Rightarrow> host \<Rightarrow> codecs \<Rightarrow> file_connector \<Rightarrow> source_object_config \<Rightarrow> path res" where
  "file_path R H cd c obj =
     (case ensure_allowed_file R H (soc_location obj) (fc_allowed_roots c) (fc_max_bytes c) (kind_suffixes (fc_kind c)) of
        Inl e \<Rightarrow> Inl e
      | Inr p \<Rightarrow>
          if rt_lower R (suffix_of p) = ''.xlsx''
          then case cd_zip_members cd (cd_read_bytes cd p) of Inl e \<Rightarrow> Inl e | Inr members \<Rightarrow>
            (case validate_zip_archive members 1000 (500 * 1024 * 1024) of Inl e \<Rightarrow> Inl e | Inr _ \<Rightarrow> Inr p)
          else Inr p)"

text \<open>\<^verbatim>\<open>isinstance(value, list) and all(isinstance(item, dict) for item in value)\<close>\<close>

fun as_dict :: "pyval \<Rightarrow> pyrec option" where
  "as_dict (PDict d) = Some d"
| "as_dict _ = None"

fun all_dicts :: "pyval list \<Rightarrow> pyrec list option" where
  "all_dicts [] = Some []"
| "all_dicts (v # vs) = (case as_dict v of None \<Rightarrow> None
     | Some d \<Rightarrow> (case all_dicts vs of None \<Rightarrow> None | Some ds \<Rightarrow> Some (d # ds)))"

fun record_list :: "pyval \<Rightarrow> pyrec list option" where
  "record_list (PList xs) = all_dicts xs"
| "record_list _ = None"

fun json_walk :: "string list \<Rightarrow> pyval \<Rightarrow> pyval res" where
  "json_walk [] value = Inr value"
| "json_walk (part # parts) value =
     (case as_dict value of
        None \<Rightarrow> Inl (ConnectorError ''json_records_path_missing'' ''JSON records path was not found'')
      | Some d \<Rightarrow> (case map_of d part of
          None \<Rightarrow> Inl (ConnectorError ''json_records_path_missing'' ''JSON records path was not found'')
        | Some v \<Rightarrow> json_walk parts v))"

definition sheet_records :: "runtime \<Rightarrow> pyval list list \<Rightarrow> pyrec list" where
  "sheet_records R rows = (case rows of [] \<Rightarrow> []
     | header # body \<Rightarrow>
         let headers = map (py_str R) header in
         map (\<lambda>row. fold (\<lambda>(k, v). dict_set k v) (zip headers row) []) body)"

definition json_records :: "codecs \<Rightarrow> source_object_config \<Rightarrow> string \<Rightarrow> pyrec list res" where
  "json_records cd obj raw =
     (case cd_json_loads cd raw of Inl e \<Rightarrow> Inl e | Inr loaded \<Rightarrow>
      case (if named (soc_json_records_path obj)
            then json_walk (split_on ''.'' (or_empty (soc_json_records_path obj))) loaded else Inr loaded) of
        Inl e \<Rightarrow> Inl e
      | Inr value \<Rightarrow> (case record_list value of
          None \<Rightarrow> Inl (ConnectorError ''json_records_required'' ''JSON source must resolve to a list of objects'')
        | Some ds \<Rightarrow> Inr ds))"

definition xlsx_records :: "runtime \<Rightarrow> codecs \<Rightarrow> source_object_config \<Rightarrow> string \<Rightarrow> pyrec list res" where
  "xlsx_records R cd obj raw =
     (case cd_load_workbook cd raw of Inl e \<Rightarrow> Inl e | Inr wb \<Rightarrow>
      if named (soc_sheet_name obj)
      then (case map_of (wb_sheets wb) (or_empty (soc_sheet_name obj)) of
              None \<Rightarrow> Inl (KeyError (''Worksheet '' @ or_empty (soc_sheet_name obj) @ '' does not exist.''))
            | Some rows \<Rightarrow> Inr (sheet_records R rows))
      else (case wb_active wb of
              None \<Rightarrow> Inl (ConnectorError ''worksheet_missing'' ''Workbook does not contain a readable worksheet'')
            | Some rows \<Rightarrow> Inr (sheet_records R rows)))"

definition read_records :: "runtime \<Rightarrow> codecs \<Rightarrow> file_kind \<Rightarrow> source_object_config \<Rightarrow> string \<Rightarrow> pyrec list res" where
  "read_records R cd k obj raw = (case k of
       CSV \<Rightarrow> cd_csv_dicts cd (py_str R (get_field_or (soc_options obj) ''delimiter'' (PStr '','')))
                (py_str R (get_field_or (soc_options obj) ''encoding'' (PStr ''utf-8''))) raw
     | JSON \<Rightarrow> json_records cd obj raw
     | XLSX \<Rightarrow> xlsx_records R cd obj raw
     | Parquet \<Rightarrow> cd_read_table cd raw)"

definition file_extract :: "runtime \<Rightarrow> host \<Rightarrow> codecs \<Rightarrow> file_connector \<Rightarrow> source_object_config \<Rightarrow> pyrec option
    \<Rightarrow> extraction_batch res" where
  "file_extract R H cd c obj cursor =
     (case file_path R H cd c obj of Inl e \<Rightarrow> Inl e | Inr p \<Rightarrow>
      let raw = cd_read_bytes cd p; digest = rt_sha256 R raw;
          unchanged = (case cursor of None \<Rightarrow> False | Some cu \<Rightarrow> get_field cu ''sha256'' = PStr digest) in
      case (if unchanged then Inr [] else read_records R cd (fc_kind c) obj raw) of Inl e \<Rightarrow> Inl e | Inr records \<Rightarrow>
      Inr \<lparr>eb_records = records, eb_raw_bytes = raw, eb_content_type = kind_content_type (fc_kind c),
           eb_cursor = [(''sha256'', PStr digest), (''mtime_ns'', PInt (cd_mtime_ns cd p))],
           eb_metadata = [(''unchanged'', PBool unchanged), (''source_bytes'', PInt (int (length raw))),
                          (''row_count'', PInt (int (length records)))]\<rparr>)"

definition file_discover_schema :: "runtime \<Rightarrow> host \<Rightarrow> codecs \<Rightarrow> file_connector \<Rightarrow> source_object_config \<Rightarrow> discovery_result res" where
  "file_discover_schema R H cd c obj =
     (case file_path R H cd c obj of Inl e \<Rightarrow> Inl e | Inr p \<Rightarrow>
      case read_records R cd (fc_kind c) obj (cd_read_bytes cd p) of Inl e \<Rightarrow> Inl e | Inr records \<Rightarrow>
      Inr (discover_fields records (soc_key obj)))"

section \<open>REST\<close>

text \<open>
  A reply of the HTTP client: no connection or no answer in time, any other exception, or
  a response with its status, its URL and its body (\<open>None\<close>: the body is no JSON text).
\<close>

datatype http_reply =
    NoReply
  | ClientError exc
  | Response (hr_status: nat) (hr_url: string) (hr_json: "pyval option")

type_synonym http_client = "string \<Rightarrow> nat \<Rightarrow> http_reply"

text \<open>What a session with the source has done: the URLs requested and the pauses made.\<close>

record rest_state =
  rst_requests :: "string list"
  rst_sleeps :: "real list"

record rest_connector =
  rc_base_url :: string
  rc_timeout_seconds :: real
  rc_retry :: retry_policy
  rc_allow_private_network :: bool
  rc_bearer_token :: "string option"

definition new_rest_connector :: "string \<Rightarrow> real \<Rightarrow> retry_policy \<Rightarrow> bool \<Rightarrow> string option \<Rightarrow> rest_connector" where
  "new_rest_connector base_url timeout retry allow token =
     \<lparr>rc_base_url = rev (dropWhile (\<lambda>c. c = CHR ''/'') (rev base_url)) @ ''/'', rc_timeout_seconds = timeout,
      rc_retry = retry, rc_allow_private_network = allow, rc_bearer_token = token\<rparr>"

definition rest_url :: "host \<Rightarrow> rest_connector \<Rightarrow> string \<Rightarrow> string res" where
  "rest_url H c location =
     validate_remote_url H (ho_urljoin H (rc_base_url c) (dropWhile (\<lambda>ch. ch = CHR ''/'') location)) (rc_allow_private_network c)"

definition rest_headers :: "rest_connector \<Rightarrow> (string \<times> string) list" where
  "rest_headers c =
     [(''Accept'', ''application/json''), (''User-Agent'', ''EduWork-DataBridge/0.4.0'')] @
     (if named (rc_bearer_token c) then [(''Authorization'', ''Bearer '' @ or_empty (rc_bearer_token c))] else [])"

definition do_get :: "http_client \<Rightarrow> string \<Rightarrow> rest_state \<Rightarrow> http_reply \<times> rest_state" where
  "do_get client url st = (client url (length (rst_requests st)), st\<lparr>rst_requests := rst_requests st @ [url]\<rparr>)"

definition pause :: "real \<Rightarrow> rest_state \<Rightarrow> rest_state" where
  "pause seconds st = st\<lparr>rst_sleeps := rst_sleeps st @ [seconds]\<rparr>"

text \<open>The loop of \<^verbatim>\<open>_request\<close>: \<open>left\<close> attempts remain.\<close>

fun request_loop :: "http_client \<Rightarrow> retry_policy \<Rightarrow> string \<Rightarrow> real \<Rightarrow> nat \<Rightarrow> rest_state \<Rightarrow> http_reply res \<times> rest_state" where
  "request_loop client retry url delay 0 st = (Inl (ConnectorError ''rest_unavailable'' ''REST source is unavailable''), st)"
| "request_loop client retry url delay (Suc left) st =
     (case do_get client url st of (reply, st1) \<Rightarrow>
      let again = request_loop client retry url (min (delay * 2) (rp_maximum_seconds retry)) left
                    (pause (min delay (rp_maximum_seconds retry)) st1) in
      case reply of
        NoReply \<Rightarrow>
          if left = 0 then (Inl (ConnectorError ''rest_unavailable'' ''REST source is unavailable''), st1) else again
      | ClientError e \<Rightarrow> (Inl e, st1)
      | Response status u body \<Rightarrow>
          if status < 300 then (Inr reply, st1)
          else if \<not> (status = 429 \<or> 500 \<le> status) \<or> left = 0
          then (Inl (ConnectorError ''rest_request_failed'' (''REST source returned status '' @ nat_str status)), st1)
          else again)"

definition rest_request :: "http_client \<Rightarrow> retry_policy \<Rightarrow> string \<Rightarrow> rest_state \<Rightarrow> http_reply res \<times> rest_state" where
  "rest_request client retry url st = request_loop client retry url (rp_initial_seconds retry) (rp_attempts retry) st"

definition rest_test_connection :: "host \<Rightarrow> http_client \<Rightarrow> rest_connector \<Rightarrow> int \<Rightarrow> rest_state \<Rightarrow> connection_test_result res \<times> rest_state" where
  "rest_test_connection H client c now st =
     (case validate_remote_url H (rc_base_url c) (rc_allow_private_network c) of Inl e \<Rightarrow> (Inl e, st) | Inr url \<Rightarrow>
      case rest_request client (rc_retry c) url st of
        (Inl e, st1) \<Rightarrow> (Inl e, st1)
      | (Inr reply, st1) \<Rightarrow> (Inr \<lparr>ct_ok = True, ct_connector = ''rest'', ct_checked_at = now,
           ct_details = [(''base_url_validated'', PBool True), (''status_code'', PInt (int (hr_status reply)))]\<rparr>, st1))"

text \<open>The records of one page and its link to the next one.\<close>

definition page_content :: "string \<Rightarrow> string \<Rightarrow> pyval option \<Rightarrow> (pyrec list \<times> pyval) res" where
  "page_content records_path next_path body =
     (case body of None \<Rightarrow> Inl (ConnectorError ''invalid_json_response'' ''REST source returned invalid JSON'')
      | Some payload \<Rightarrow>
        case (case payload of
                PList xs \<Rightarrow> Inr (payload, PNone)
              | PDict d \<Rightarrow> Inr (get_field_or d records_path (PList []), get_field d next_path)
              | _ \<Rightarrow> Inl (ConnectorError ''invalid_rest_payload'' ''REST payload must be an object or list'')) of
          Inl e \<Rightarrow> Inl e
        | Inr (page_records, next_value) \<Rightarrow> (case record_list page_records of
            None \<Rightarrow> Inl (ConnectorError ''invalid_rest_records'' ''REST records must be a list of objects'')
          | Some ds \<Rightarrow> Inr (ds, next_value)))"

text \<open>The paging loop; \<open>left\<close> is \<^verbatim>\<open>max_pages - page_count\<close>, an empty URL ends it.\<close>

fun rest_pages :: "runtime \<Rightarrow> host \<Rightarrow> http_client \<Rightarrow> rest_connector \<Rightarrow> string \<Rightarrow> string \<Rightarrow> nat \<Rightarrow> string \<Rightarrow> nat
    \<Rightarrow> pyrec list \<Rightarrow> rest_state \<Rightarrow> (pyrec list \<times> nat) res \<times> rest_state" where
  "rest_pages R H client c records_path next_path 0 url page_count records st =
     (if url = [] then (Inr (records, page_count), st)
      else (Inl (ConnectorError ''page_limit_exceeded'' ''REST source exceeded page limit''), st))"
| "rest_pages R H client c records_path next_path (Suc left) url page_count records st =
     (if url = [] then (Inr (records, page_count), st)
      else case rest_request client (rc_retry c) url st of
        (Inl e, st1) \<Rightarrow> (Inl e, st1)
      | (Inr reply, st1) \<Rightarrow> (case page_content records_path next_path (hr_json reply) of
          Inl e \<Rightarrow> (Inl e, st1)
        | Inr (ds, next_value) \<Rightarrow>
            (case (if truthy next_value
                   then validate_remote_url H (ho_urljoin H (hr_url reply) (py_str R next_value)) (rc_allow_private_network c)
                   else Inr []) of
               Inl e \<Rightarrow> (Inl e, st1)
             | Inr url' \<Rightarrow> rest_pages R H client c records_path next_path left url' (Suc page_count) (records @ ds) st1)))"

text \<open>Where a run starts: the configured location, or the page the cursor names.\<close>

definition rest_start :: "runtime \<Rightarrow> host \<Rightarrow> rest_connector \<Rightarrow> string \<Rightarrow> pyrec option \<Rightarrow> string res" where
  "rest_start R H c url cursor =
     (let next_url = cursor_field cursor ''next_url'' in
      if truthy next_url then validate_remote_url H (py_str R next_url) (rc_allow_private_network c) else Inr url)"

definition rest_extract :: "runtime \<Rightarrow> host \<Rightarrow> codecs \<Rightarrow> http_client \<Rightarrow> rest_connector \<Rightarrow> source_object_config \<Rightarrow> pyrec option
    \<Rightarrow> rest_state \<Rightarrow> extraction_batch res \<times> rest_state" where
  "rest_extract R H cd client c obj cursor st =
     (case rest_url H c (soc_location obj) of Inl e \<Rightarrow> (Inl e, st) | Inr start \<Rightarrow>
      let records_path = py_str R (get_field_or (soc_options obj) ''records_path'' (PStr ''items''));
          next_path = py_str R (get_field_or (soc_options obj) ''next_path'' (PStr ''next'')) in
      case py_int_of R (get_field_or (soc_options obj) ''max_pages'' (PInt 100)) of Inl e \<Rightarrow> (Inl e, st) | Inr max_pages \<Rightarrow>
      case rest_start R H c start cursor of Inl e \<Rightarrow> (Inl e, st) | Inr url \<Rightarrow>
      case rest_pages R H client c records_path next_path (nat max_pages) url 0 [] st of
        (Inl e, st1) \<Rightarrow> (Inl e, st1)
      | (Inr (records, page_count), st1) \<Rightarrow>
          (Inr \<lparr>eb_records = records, eb_raw_bytes = cd_json_compact cd (PList (map PDict records)) @ [CHR 0x0A],
             eb_content_type = ''application/json'',
             eb_cursor = [(''next_url'', PNone), (''pages_completed'', PInt (int page_count))],
             eb_metadata = [(''page_count'', PInt (int page_count)), (''row_count'', PInt (int (length records)))]\<rparr>, st1))"

definition rest_discover_schema :: "runtime \<Rightarrow> host \<Rightarrow> codecs \<Rightarrow> http_client \<Rightarrow> rest_connector \<Rightarrow> source_object_config
    \<Rightarrow> rest_state \<Rightarrow> discovery_result res \<times> rest_state" where
  "rest_discover_schema R H cd client c obj st =
     (case rest_extract R H cd client c obj None st of
        (Inl e, st1) \<Rightarrow> (Inl e, st1)
      | (Inr batch, st1) \<Rightarrow> (Inr (discover_fields (eb_records batch) (soc_key obj)), st1))"

section \<open>PostgreSQL\<close>

text \<open>
  A table of the source: columns with their type text and nullability, rows in storage order,
  and, for a column, the place of a value in its order (\<open>None\<close>: NULL, which the
  database sorts last and compares with nothing). A parameter of a statement has a place, too: the database reads a
  text as a value of the column's type.
\<close>

record pg_table =
  pgt_columns :: "(string \<times> string \<times> bool) list"
  pgt_rows :: "pyrec list"
  pgt_rank :: "string \<Rightarrow> pyval \<Rightarrow> int option"

type_synonym pg_database = "string option \<Rightarrow> string \<Rightarrow> pg_table option"

record pg_connector =
  pgc_database_url :: string

definition new_pg_connector :: "string \<Rightarrow> bool \<Rightarrow> pg_connector res" where
  "new_pg_connector database_url allow_test_sqlite =
     (if \<not> (starts_with database_url ''postgresql'' \<or> starts_with database_url ''postgres'')
         \<and> \<not> (allow_test_sqlite \<and> starts_with database_url ''sqlite'')
      then Inl (ConnectorError ''postgresql_url_required'' ''PostgreSQL database URL is required'')
      else Inr \<lparr>pgc_database_url = database_url\<rparr>)"

definition table_parts :: "string \<Rightarrow> (string option \<times> string) res" where
  "table_parts location = (case split_on ''.'' location of
       [t] \<Rightarrow> (case validate_sql_identifier t of Inl e \<Rightarrow> Inl e | Inr t' \<Rightarrow> Inr (None, t'))
     | [s, t] \<Rightarrow> (case validate_sql_identifier s of Inl e \<Rightarrow> Inl e | Inr s' \<Rightarrow>
         (case validate_sql_identifier t of Inl e \<Rightarrow> Inl e | Inr t' \<Rightarrow> Inr (Some s', t')))
     | _ \<Rightarrow> Inl (ConnectorError ''invalid_table_location'' ''Table location must be table or schema.table''))"

definition pg_test_connection :: "unit res \<Rightarrow> int \<Rightarrow> connection_test_result res" where
  "pg_test_connection select_1 now = (case select_1 of Inl e \<Rightarrow> Inl e
     | Inr _ \<Rightarrow> Inr \<lparr>ct_ok = True, ct_connector = ''postgresql'', ct_checked_at = now,
         ct_details = [(''database_reachable'', PBool True)]\<rparr>)"

text \<open>The inspector answers for a missing table with an exception of its own.\<close>

definition pg_discover_schema :: "pg_database \<Rightarrow> source_object_config \<Rightarrow> discovery_result res" where
  "pg_discover_schema pg obj =
     (case table_parts (soc_location obj) of Inl e \<Rightarrow> Inl e | Inr (schema, table_name) \<Rightarrow>
      case pg schema table_name of
        None \<Rightarrow> Inl (RuntimeError ''NoSuchTableError'')
      | Some t \<Rightarrow>
          if pgt_columns t = [] then Inl (ConnectorError ''table_not_found'' ''Configured source table was not found'')
          else Inr \<lparr>dr_object_key = soc_key obj,
             dr_fields = map (\<lambda>(n, ty, nu). \<lparr>fd_name = n, fd_observed_type = ty, fd_nullable = nu\<rparr>) (pgt_columns t),
             dr_sample_count = 0,
             dr_metadata = [(''table'', PStr table_name),
               (''schema'', PStr (if named schema then or_empty schema else ''default''))]\<rparr>)"

definition pg_newer :: "pg_table \<Rightarrow> string \<Rightarrow> pyval \<Rightarrow> pyrec \<Rightarrow> bool" where
  "pg_newer t field value row = (case (pgt_rank t field (get_field row field), pgt_rank t field value) of
       (Some a, Some b) \<Rightarrow> a > b | _ \<Rightarrow> False)"

definition pg_order :: "pg_table \<Rightarrow> string \<Rightarrow> pyrec \<Rightarrow> nat \<times> int" where
  "pg_order t field row = (case pgt_rank t field (get_field row field) of None \<Rightarrow> (1, 0) | Some a \<Rightarrow> (0, a))"

text \<open>The statement: filter by the cursor, order by the incremental field, limit.\<close>

definition pg_select :: "pg_table \<Rightarrow> string option \<Rightarrow> pyval \<Rightarrow> nat \<Rightarrow> pyrec list" where
  "pg_select t incremental value max_rows = take max_rows
     (case incremental of
        None \<Rightarrow> pgt_rows t
      | Some f \<Rightarrow> sort_key (pg_order t f) (if value = PNone then pgt_rows t else filter (pg_newer t f value) (pgt_rows t)))"

text \<open>The value of the last row; a timestamp is carried on as its ISO text.\<close>

definition pg_cursor_value :: "runtime \<Rightarrow> string option \<Rightarrow> pyrec list \<Rightarrow> pyval" where
  "pg_cursor_value R incremental rows = (case incremental of
       None \<Rightarrow> PNone
     | Some f \<Rightarrow>
         if rows = [] then PNone
         else (case get_field (last rows) f of
                 PTime t \<Rightarrow> PStr (rt_dt_isoformat R t)
               | cursor_value \<Rightarrow> cursor_value))"

definition pg_extract :: "runtime \<Rightarrow> codecs \<Rightarrow> pg_database \<Rightarrow> source_object_config \<Rightarrow> pyrec option \<Rightarrow> extraction_batch res" where
  "pg_extract R cd pg obj cursor =
     (case table_parts (soc_location obj) of Inl e \<Rightarrow> Inl e | Inr (schema, table_name) \<Rightarrow>
      case py_int_of R (get_field_or (soc_options obj) ''max_rows'' (PInt 100000)) of Inl e \<Rightarrow> Inl e | Inr max_rows \<Rightarrow>
      if max_rows \<le> 0 \<or> max_rows > 5000000
      then Inl (ConnectorError ''invalid_row_limit'' ''PostgreSQL max_rows is outside allowed range'')
      else case pg schema table_name of None \<Rightarrow> Inl (RuntimeError ''NoSuchTableError'') | Some t \<Rightarrow>
      let incremental = (if named (soc_incremental_field obj) then soc_incremental_field obj else None) in
      case (case incremental of None \<Rightarrow> Inr () | Some f \<Rightarrow>
              (case validate_sql_identifier f of Inl e \<Rightarrow> Inl e | Inr _ \<Rightarrow>
               if f \<notin> fst ` set (pgt_columns t)
               then Inl (ConnectorError ''incremental_field_missing'' ''Incremental field was not found'') else Inr ())) of
        Inl e \<Rightarrow> Inl e
      | Inr _ \<Rightarrow>
          let rows = pg_select t incremental (cursor_field cursor ''value'') (nat max_rows) in
          Inr \<lparr>eb_records = rows, eb_raw_bytes = cd_json_compact cd (PList (map PDict rows)) @ [CHR 0x0A],
               eb_content_type = ''application/x-ndjson'',
               eb_cursor = [(''field'', case soc_incremental_field obj of None \<Rightarrow> PNone | Some f \<Rightarrow> PStr f),
                            (''value'', pg_cursor_value R incremental rows)],
               eb_metadata = [(''row_count'', PInt (int (length rows))), (''table'', PStr table_name)]\<rparr>)"

section \<open>Factory\<close>

datatype connector =
    FileConn file_connector
  | RestConn rest_connector
  | PgConn pg_connector

fun connector_type :: "connector \<Rightarrow> string" where
  "connector_type (FileConn c) = kind_name (fc_kind c)"
| "connector_type (RestConn c) = ''rest''"
| "connector_type (PgConn c) = ''postgresql''"

definition file_connectors :: "(string \<times> file_kind) list" where
  "file_connectors = [(''csv'', CSV), (''xlsx'', XLSX), (''json'', JSON), (''parquet'', Parquet)]"

definition build_connector :: "host \<Rightarrow> settings \<Rightarrow> source_config \<Rightarrow> connector res" where
  "build_connector H st source =
     (let allowed_roots = (if sc_allowed_roots source = [] then set_allowed_file_roots st else sc_allowed_roots source);
          max_bytes = min (sc_max_bytes source) (set_max_source_bytes st) in
      case map_of file_connectors (sc_connector source) of
        Some k \<Rightarrow> Inr (FileConn \<lparr>fc_kind = k, fc_allowed_roots = allowed_roots, fc_max_bytes = max_bytes\<rparr>)
      | None \<Rightarrow>
        (case resolve_secret_reference H (if named (sc_secret_reference source) then sc_secret_reference source else None) of
           Inl e \<Rightarrow> Inl e
         | Inr secret \<Rightarrow>
             if sc_connector source = ''rest'' then
               (case sc_base_url source of
                  None \<Rightarrow> Inl (ConnectorError ''base_url_required'' ''REST connector requires a base URL'')
                | Some u \<Rightarrow> Inr (RestConn (new_rest_connector u (sc_request_timeout_seconds source) (sc_retry source)
                    (sc_allow_private_network source \<and> set_allow_private_network_sources st) secret)))
             else if sc_connector source = ''postgresql'' then
               (case secret of
                  None \<Rightarrow> Inl (ConnectorError ''database_secret_required''
                      ''PostgreSQL connector requires an env:// secret reference'')
                | Some url \<Rightarrow> (case new_pg_connector url False of Inl e \<Rightarrow> Inl e | Inr c \<Rightarrow> Inr (PgConn c)))
             else Inl (ConnectorError ''unsupported_connector'' ''Configured connector is not supported'')))"

text \<open>The world a connector reads.\<close>

record sources_world =
  sw_host :: host
  sw_codecs :: codecs
  sw_client :: http_client
  sw_databases :: "string \<Rightarrow> pg_database"

definition connector_extract :: "runtime \<Rightarrow> sources_world \<Rightarrow> connector \<Rightarrow> source_object_config \<Rightarrow> pyrec option \<Rightarrow> extraction_batch res" where
  "connector_extract R W c obj cursor = (case c of
       FileConn fc \<Rightarrow> file_extract R (sw_host W) (sw_codecs W) fc obj cursor
     | RestConn rc \<Rightarrow> fst (rest_extract R (sw_host W) (sw_codecs W) (sw_client W) rc obj cursor \<lparr>rst_requests = [], rst_sleeps = []\<rparr>)
     | PgConn pc \<Rightarrow> pg_extract R (sw_codecs W) (sw_databases W (pgc_database_url pc)) obj cursor)"

section \<open>Lemmas: requests and pages\<close>

definition retryable :: "http_reply \<Rightarrow> bool" where
  "retryable reply = (case reply of NoReply \<Rightarrow> True | ClientError e \<Rightarrow> False
     | Response status u body \<Rightarrow> 300 \<le> status \<and> (status = 429 \<or> 500 \<le> status))"

definition good_reply :: "http_reply \<Rightarrow> bool" where
  "good_reply reply = (case reply of Response status u body \<Rightarrow> status < 300 | _ \<Rightarrow> False)"

text \<open>One attempt that is answered for good, or that is the last one.\<close>

lemma request_loop_final:
  assumes "\<not> retryable (client url (length (rst_requests st))) \<or> left = 0"
  shows "\<exists>r. request_loop client retry url delay (Suc left) st = (r, st\<lparr>rst_requests := rst_requests st @ [url]\<rparr>)
     \<and> (case r of Inr reply \<Rightarrow> reply = client url (length (rst_requests st)) \<and> good_reply reply
         | Inl e \<Rightarrow> \<not> good_reply (client url (length (rst_requests st))))"
  using assms by (cases "client url (length (rst_requests st))")
    (auto simp: do_get_def Let_def retryable_def good_reply_def)

lemma request_loop_again:
  assumes "retryable (client url (length (rst_requests st)))" and "left \<noteq> 0"
  shows "request_loop client retry url delay (Suc left) st =
     request_loop client retry url (min (delay * 2) (rp_maximum_seconds retry)) left
       (pause (min delay (rp_maximum_seconds retry)) (st\<lparr>rst_requests := rst_requests st @ [url]\<rparr>))"
  using assms by (cases "client url (length (rst_requests st))")
    (auto simp: do_get_def Let_def retryable_def)

text \<open>
  What a request does: \<open>k\<close> attempts, all but the last one to be repeated, with doubling
  pauses between them, and the outcome of the last one.
\<close>

definition request_trace :: "http_client \<Rightarrow> string \<Rightarrow> real \<Rightarrow> real \<Rightarrow> nat \<Rightarrow> rest_state \<Rightarrow> http_reply res \<Rightarrow> rest_state \<Rightarrow> nat \<Rightarrow> bool" where
  "request_trace client url delay mx left st r st' k =
     (1 \<le> k \<and> k \<le> left
      \<and> rst_requests st' = rst_requests st @ replicate k url
      \<and> rst_sleeps st' = rst_sleeps st @ map (\<lambda>i. min (delay * 2 ^ i) mx) [0..<k - 1]
      \<and> (\<forall>i < k - 1. retryable (client url (length (rst_requests st) + i)))
      \<and> (retryable (client url (length (rst_requests st) + (k - 1))) \<longrightarrow> k = left)
      \<and> (case r of Inr reply \<Rightarrow> reply = client url (length (rst_requests st) + (k - 1)) \<and> good_reply reply
         | Inl e \<Rightarrow> \<not> good_reply (client url (length (rst_requests st) + (k - 1)))))"

lemma min_double: "(0::real) \<le> m \<Longrightarrow> min (min (d * 2) m * 2 ^ i) m = min (d * 2 ^ Suc i) m"
proof (cases "d * 2 \<le> m")
  case False
  assume m: "0 \<le> m"
  have up: "0 \<le> x \<Longrightarrow> x \<le> x * 2 ^ i" for x :: real by (simp add: mult_le_cancel_left1)
  have "d * 2 \<le> d * 2 * 2 ^ i" using m False by (intro up) simp
  with False have "m \<le> d * 2 ^ Suc i" by (simp add: mult.assoc)
  moreover have "m \<le> m * 2 ^ i" by (rule up [OF m])
  ultimately show ?thesis using False by (simp add: min_absorb2)
qed (simp add: min_def mult.assoc)

lemma map_shift: "map f [0..<Suc n] = f 0 # map (\<lambda>i. f (Suc i)) [0..<n]"
  by (simp add: upt_conv_Cons map_Suc_upt [symmetric] del: upt_Suc map_Suc_upt)

lemma request_loop_trace:
  assumes "0 \<le> rp_maximum_seconds retry" and "left \<noteq> 0"
  shows "\<exists>r st' k. request_loop client retry url delay left st = (r, st')
     \<and> request_trace client url delay (rp_maximum_seconds retry) left st r st' k"
  using assms(2)
proof (induction left arbitrary: delay st)
  case (Suc left)
  let ?m = "rp_maximum_seconds retry"
  show ?case
  proof (cases "\<not> retryable (client url (length (rst_requests st))) \<or> left = 0")
    case True
    from request_loop_final [of client url st left retry delay] True obtain r where
      "request_loop client retry url delay (Suc left) st = (r, st\<lparr>rst_requests := rst_requests st @ [url]\<rparr>)"
      "case r of Inr reply \<Rightarrow> reply = client url (length (rst_requests st)) \<and> good_reply reply
         | Inl e \<Rightarrow> \<not> good_reply (client url (length (rst_requests st)))" by blast
    with True show ?thesis by (intro exI [of _ r] exI conjI [rotated] exI [of _ 1])
      (auto simp: request_trace_def split: sum.splits)
  next
    case False
    let ?st = "pause (min delay ?m) (st\<lparr>rst_requests := rst_requests st @ [url]\<rparr>)"
    from False Suc.IH [of "min (delay * 2) ?m" ?st] obtain r st' k where
      run: "request_loop client retry url (min (delay * 2) ?m) left ?st = (r, st')" and
      tr: "request_trace client url (min (delay * 2) ?m) ?m left ?st r st' k" by auto
    obtain k' where k: "k = Suc k'" using tr by (cases k) (auto simp: request_trace_def)
    have "request_trace client url delay ?m (Suc left) st r st' (Suc k)"
      using tr False assms(1)
      by (auto simp: request_trace_def pause_def k map_shift min_double less_Suc_eq_0_disj split: sum.splits simp del: upt_Suc)
    with run False show ?thesis by (metis request_loop_again)
  qed
qed simp

lemma rest_request_requests:
  assumes "rest_request client p url st = (r, st')" and "0 \<le> rp_maximum_seconds p"
  shows "\<exists>k \<le> rp_attempts p. rst_requests st' = rst_requests st @ replicate k url"
proof (cases "rp_attempts p = 0")
  case True
  with assms(1) show ?thesis by (auto simp: rest_request_def)
next
  case False
  from request_loop_trace [OF assms(2) this, of client url "rp_initial_seconds p" st] assms(1) show ?thesis
    unfolding rest_request_def request_trace_def by auto
qed

lemma validated_same: "validate_remote_url H url allow = Inr u \<Longrightarrow> u = url"
  by (auto simp: validate_remote_url_def Let_def split: if_splits option.splits)

text \<open>Every page is fetched with few requests, and from a URL the guard accepted.\<close>

lemma rest_pages_requests:
  assumes "rest_pages R H client c rp np left url n records st = (r, st')" and "0 \<le> rp_maximum_seconds (rc_retry c)"
    and "url = [] \<or> validate_remote_url H url (rc_allow_private_network c) = Inr url"
  shows "\<exists>us. rst_requests st' = rst_requests st @ us \<and> length us \<le> left * rp_attempts (rc_retry c)
    \<and> list_all (\<lambda>u. validate_remote_url H u (rc_allow_private_network c) = Inr u) us"
  using assms(1,3)
proof (induction left arbitrary: url n records st)
  case (Suc left)
  show ?case
  proof (cases "url = []")
    case True
    with Suc.prems(1) show ?thesis by (auto intro: exI [of _ "[]"])
  next
    case False
    with Suc.prems(2) have ok: "validate_remote_url H url (rc_allow_private_network c) = Inr url" by simp
    obtain r1 st1 where req: "rest_request client (rc_retry c) url st = (r1, st1)" by (metis prod.exhaust)
    from rest_request_requests [OF req assms(2)] obtain k where
      k: "k \<le> rp_attempts (rc_retry c)" "rst_requests st1 = rst_requests st @ replicate k url" by blast
    have one: "list_all (\<lambda>u. validate_remote_url H u (rc_allow_private_network c) = Inr u) (replicate k url)"
      using ok by (simp add: list_all_iff)
    have stop: ?thesis if "st' = st1" using that k one by (auto intro!: exI [of _ "replicate k url"])
    show ?thesis
    proof (cases "\<exists>url' ds. rest_pages R H client c rp np left url' (Suc n) (records @ ds) st1 = (r, st')
        \<and> (url' = [] \<or> validate_remote_url H url' (rc_allow_private_network c) = Inr url')")
      case True
      then obtain us where us: "rst_requests st' = rst_requests st1 @ us" "length us \<le> left * rp_attempts (rc_retry c)"
        "list_all (\<lambda>u. validate_remote_url H u (rc_allow_private_network c) = Inr u) us" using Suc.IH by blast
      then show ?thesis using k one by (auto intro!: exI [of _ "replicate k url @ us"])
    next
      case no: False
      have "st' = st1" using Suc.prems(1) False req no
        by (auto split: sum.splits if_splits) (metis validated_same)+
      then show ?thesis by (rule stop)
    qed
  qed
qed (auto intro: exI [of _ "[]"] split: if_splits)

section \<open>Lemmas: incremental reading\<close>

lemma filter_above_last:
  fixes rank :: "'a \<Rightarrow> int"
  assumes "sorted_wrt (\<lambda>a b. rank a < rank b) xs" and "take n xs \<noteq> []"
  shows "filter (\<lambda>x. rank (last (take n xs)) < rank x) xs = drop n xs"
proof -
  let ?b = "take n xs" and ?d = "drop n xs"
  have split: "sorted_wrt (\<lambda>a b. rank a < rank b) (?b @ ?d)" using assms(1) by simp
  have "rank x \<le> rank (last ?b)" if "x \<in> set ?b" for x
  proof -
    have "sorted_wrt (\<lambda>a b. rank a < rank b) (butlast ?b @ [last ?b])" using split assms(2)
      by (simp add: sorted_wrt_append del: append_take_drop_id)
    moreover have "x \<in> set (butlast ?b) \<or> x = last ?b" using that assms(2)
      by (metis append_butlast_last_id in_set_butlastD set_ConsD Un_iff set_append set_simps(1) empty_set emptyE)
    ultimately show ?thesis by (auto simp: sorted_wrt_append)
  qed
  then have "filter (\<lambda>x. rank (last ?b) < rank x) ?b = []" by (auto simp: filter_empty_conv not_less)
  moreover have "filter (\<lambda>x. rank (last ?b) < rank x) ?d = ?d"
    using split assms(2) last_in_set [OF assms(2)] by (auto simp: sorted_wrt_append filter_id_conv simp del: append_take_drop_id)
  ultimately show ?thesis by (metis append_take_drop_id filter_append append_Nil)
qed

text \<open>The incremental field of every row has a place of its own in the order.\<close>

definition strictly_ranked :: "pg_table \<Rightarrow> string \<Rightarrow> bool" where
  "strictly_ranked t f = (list_all (\<lambda>r. pgt_rank t f (get_field r f) \<noteq> None) (pgt_rows t)
     \<and> distinct (map (\<lambda>r. pgt_rank t f (get_field r f)) (pgt_rows t))
     \<and> list_all (\<lambda>r. get_field r f \<noteq> PNone) (pgt_rows t))"

text \<open>The database reads the ISO text of a timestamp of the column as that timestamp.\<close>

definition reads_iso :: "runtime \<Rightarrow> pg_table \<Rightarrow> string \<Rightarrow> bool" where
  "reads_iso R t f = list_all (\<lambda>r. case get_field r f of
       PTime x \<Rightarrow> pgt_rank t f (PStr (rt_dt_isoformat R x)) = pgt_rank t f (PTime x) | _ \<Rightarrow> True) (pgt_rows t)"

abbreviation pg_place :: "pg_table \<Rightarrow> string \<Rightarrow> pyrec \<Rightarrow> int" where
  "pg_place t f r \<equiv> the (pgt_rank t f (get_field r f))"

definition pg_all :: "pg_table \<Rightarrow> string \<Rightarrow> pyval \<Rightarrow> pyrec list" where
  "pg_all t f value = filter (\<lambda>r. value = PNone \<or> pg_newer t f value r) (sort_key (pg_order t f) (pgt_rows t))"

lemma pg_select_all: "pg_select t (Some f) value n = take n (pg_all t f value)"
  by (simp add: pg_select_def pg_all_def filter_sort)

lemma pg_all_sorted:
  assumes "strictly_ranked t f"
  shows "sorted_wrt (\<lambda>a b. pg_place t f a < pg_place t f b) (pg_all t f value)"
proof -
  let ?S = "sort_key (pg_order t f) (pgt_rows t)"
  have some: "pgt_rank t f (get_field r f) = Some (pg_place t f r)" if "r \<in> set (pgt_rows t)" for r
    using assms that by (auto simp: strictly_ranked_def list_all_iff)
  have inj: "inj_on (pg_place t f) (set (pgt_rows t))" and d: "distinct (pgt_rows t)"
    using assms some by (auto simp: strictly_ranked_def distinct_map inj_on_def) (metis option.inject)
  have order: "pg_order t f r = (0, pg_place t f r)" if "r \<in> set (pgt_rows t)" for r
    using some [OF that] by (cases "pgt_rank t f (get_field r f)") (simp_all add: pg_order_def)
  have "sorted_wrt (\<lambda>a b. pg_place t f a < pg_place t f b) ?S"
    unfolding sorted_wrt_iff_nth_less
  proof (intro allI impI)
    fix i j assume ij: "i < j" "j < length ?S"
    then have mem: "?S ! i \<in> set (pgt_rows t)" "?S ! j \<in> set (pgt_rows t)"
      by (metis nth_mem set_sort order.strict_trans)+
    have "pg_order t f (?S ! i) \<le> pg_order t f (?S ! j)"
      using sorted_sort_key [of "pg_order t f" "pgt_rows t"] ij by (simp add: sorted_iff_nth_mono less_imp_le)
    moreover have "?S ! i \<noteq> ?S ! j" using ij d by (simp add: nth_eq_iff_index_eq)
    ultimately show "pg_place t f (?S ! i) < pg_place t f (?S ! j)"
      using order [OF mem(1)] order [OF mem(2)] inj mem by (auto simp: inj_on_def order.order_iff_strict)
  qed
  then show ?thesis unfolding pg_all_def by (rule sorted_wrt_filter)
qed

lemma pg_select_resumes:
  assumes "strictly_ranked t f" and "rows = pg_select t (Some f) value n" and "rows \<noteq> []" and "reads_iso R t f"
  shows "rows @ pg_select t (Some f) (pg_cursor_value R (Some f) rows) m = pg_select t (Some f) value (n + m)"
proof -
  let ?A = "pg_all t f value"
  have rows: "rows = take n ?A" by (simp add: assms(2) pg_select_all)
  define v where "v = pg_cursor_value R (Some f) rows"
  have sub: "set ?A \<subseteq> set (pgt_rows t)" by (auto simp: pg_all_def)
  have "last rows \<in> set ?A" using rows assms(3) by (metis in_set_takeD last_in_set)
  then have l: "last rows \<in> set (pgt_rows t)" "value = PNone \<or> pg_newer t f value (last rows)"
    using sub by (auto simp: pg_all_def)
  have last_ranked: "pgt_rank t f (get_field (last rows) f) = Some (pg_place t f (last rows))" "get_field (last rows) f \<noteq> PNone"
    using assms(1) l(1) by (auto simp: strictly_ranked_def list_all_iff)
  have "case get_field (last rows) f of
      PTime x \<Rightarrow> pgt_rank t f (PStr (rt_dt_isoformat R x)) = pgt_rank t f (PTime x) | _ \<Rightarrow> True"
    using assms(4) l(1) by (simp add: reads_iso_def list_all_iff)
  with last_ranked assms(3) have v: "v \<noteq> PNone" "pgt_rank t f v = Some (pg_place t f (last rows))"
    by (auto simp: v_def pg_cursor_value_def split: pyval.split)
  have newer: "pg_newer t f v r \<longleftrightarrow> pg_place t f (last rows) < pg_place t f r" if "r \<in> set (pgt_rows t)" for r
    using assms(1) that v(2) by (auto simp: pg_newer_def strictly_ranked_def list_all_iff split: option.splits)
  have before: "pg_newer t f v r \<Longrightarrow> value = PNone \<or> pg_newer t f value r" for r
    using l(2) v(2) last_ranked by (auto simp: pg_newer_def split: option.splits)
  have "pg_all t f v = filter (pg_newer t f v) ?A"
    using v(1) before by (auto simp: pg_all_def conj_commute intro!: filter_cong)
  also have "\<dots> = filter (\<lambda>r. pg_place t f (last rows) < pg_place t f r) ?A"
    using newer sub by (auto intro!: filter_cong)
  also have "\<dots> = drop n ?A"
    using filter_above_last [OF pg_all_sorted [OF assms(1)]] assms(3) by (simp add: rows)
  finally show ?thesis unfolding v_def [symmetric] by (simp add: pg_select_all rows take_add)
qed

text \<open>What a successful extraction of an incremental object has read.\<close>

lemma pg_extract_rows:
  assumes "pg_extract R cd pg obj cursor = Inr b" and "table_parts (soc_location obj) = Inr (schema, name)"
    and "pg schema name = Some t" and "soc_incremental_field obj = Some f" and "f \<noteq> []"
  shows "\<exists>n. py_int_of R (get_field_or (soc_options obj) ''max_rows'' (PInt 100000)) = Inr n
    \<and> eb_records b = pg_select t (Some f) (cursor_field cursor ''value'') (nat n)
    \<and> get_field (eb_cursor b) ''value'' = pg_cursor_value R (Some f) (eb_records b)"
  using assms
  by (auto simp: pg_extract_def Let_def named_def get_field_def split: sum.splits if_splits)

section \<open>Properties of the connectors\<close>

text \<open>
  a REST request under an accepted retry policy makes between one and the allowed number of
  attempts; between them it pauses for the initial time, doubled each time and never longer
  than the maximum; only unanswered attempts and statuses 429 and 5xx are repeated; a success is
  the reply of the last attempt, with a status below 300, and a failure means that the last
  attempt was no success.
\<close>

theorem rest_request_backoff:
  assumes "retry_policy_ok p"
  shows "\<exists>r st' k. rest_request client p url st = (r, st') \<and> 1 \<le> k \<and> k \<le> rp_attempts p
    \<and> rst_requests st' = rst_requests st @ replicate k url
    \<and> rst_sleeps st' = rst_sleeps st @ map (\<lambda>i. min (rp_initial_seconds p * 2 ^ i) (rp_maximum_seconds p)) [0..<k - 1]
    \<and> (\<forall>i < k - 1. retryable (client url (length (rst_requests st) + i)))
    \<and> (retryable (client url (length (rst_requests st) + (k - 1))) \<longrightarrow> k = rp_attempts p)
    \<and> (case r of Inr reply \<Rightarrow> reply = client url (length (rst_requests st) + (k - 1)) \<and> good_reply reply
        | Inl e \<Rightarrow> \<not> good_reply (client url (length (rst_requests st) + (k - 1))))"
proof -
  from assms have "0 \<le> rp_maximum_seconds p" "rp_attempts p \<noteq> 0" by (auto simp: retry_policy_ok_def)
  from request_loop_trace [OF this, of client url "rp_initial_seconds p" st] show ?thesis
    unfolding rest_request_def request_trace_def .
qed

text \<open>
  C16: a REST extraction without the private network switch talks only to public hosts. Whatever
  pages and links the source answers with, every URL it requests, the links it follows
  included, is HTTPS, carries no credentials and resolves to public addresses only; and it ends
  after at most the page limit times the allowed attempts.
\<close>

theorem rest_extract_only_public:
  assumes "\<not> rc_allow_private_network c" and "retry_policy_ok (rc_retry c)"
    and "py_int_of R (get_field_or (soc_options obj) ''max_pages'' (PInt 100)) = Inr max_pages"
    and "rest_extract R H cd client c obj cursor \<lparr>rst_requests = [], rst_sleeps = []\<rparr> = (r, st')"
  shows "length (rst_requests st') \<le> nat max_pages * rp_attempts (rc_retry c)
    \<and> list_all (\<lambda>u. up_scheme (ho_urlparse H u) = ''https''
        \<and> \<not> named (up_username (ho_urlparse H u)) \<and> \<not> named (up_password (ho_urlparse H u))
        \<and> (\<exists>name port addresses. up_hostname (ho_urlparse H u) = Some name \<and> ho_getaddrinfo H name port = Some addresses
            \<and> list_all (\<lambda>a. \<not> blocked_ip (ho_ip H a)) addresses)) (rst_requests st')"
proof -
  let ?st = "\<lparr>rst_requests = [], rst_sleeps = []\<rparr>"
  have max: "0 \<le> rp_maximum_seconds (rc_retry c)" using assms(2) by (simp add: retry_policy_ok_def)
  have pub: "\<not> rc_allow_private_network c" by (rule assms(1))
  consider "st' = ?st" | (pages) url start rp np r' where "rest_pages R H client c rp np (nat max_pages) url 0 [] ?st = (r', st')"
      "rest_url H c (soc_location obj) = Inr start" "rest_start R H c start cursor = Inr url"
    using assms(3,4) by (auto simp: rest_extract_def Let_def split: sum.splits prod.splits)
  then have few: "length (rst_requests st') \<le> nat max_pages * rp_attempts (rc_retry c)
      \<and> list_all (\<lambda>u. validate_remote_url H u False = Inr u) (rst_requests st')"
  proof cases
    case pages
    then have "validate_remote_url H url (rc_allow_private_network c) = Inr url"
      unfolding rest_url_def rest_start_def Let_def by (metis Inr_inject validated_same)
    with rest_pages_requests [OF pages(1) max] pub show ?thesis by auto
  qed simp
  show ?thesis by (rule conjI [OF few [THEN conjunct1] list.pred_mono_strong [OF few [THEN conjunct2]]])
    (rule validated_public [THEN conjunct2])
qed

text \<open>
  C17: two successive incremental reads of a table, the second from the cursor the first returned. When the
  first found rows, the two together are exactly what one read with a doubled limit returns: no row is lost or read twice. When
  it found none, the cursor is empty and the second starts over from the first row. The
  incremental field orders the rows strictly and is never NULL, and the database reads the ISO text that stands for a timestamp
  in the cursor as that timestamp.
\<close>

theorem pg_incremental_resumes:
  assumes "table_parts (soc_location obj) = Inr (schema, name)" and "pg schema name = Some t"
    and "soc_incremental_field obj = Some f" and "f \<noteq> []" and "strictly_ranked t f" and "reads_iso R t f"
    and "py_int_of R (get_field_or (soc_options obj) ''max_rows'' (PInt 100000)) = Inr n"
    and "pg_extract R cd pg obj cursor = Inr b" and "pg_extract R cd pg obj (Some (eb_cursor b)) = Inr b'"
  shows "if eb_records b = [] then eb_records b' = pg_select t (Some f) PNone (nat n)
    else eb_records b @ eb_records b' = pg_select t (Some f) (cursor_field cursor ''value'') (nat n + nat n)"
proof -
  note first = pg_extract_rows [OF assms(8) assms(1-4)] and second = pg_extract_rows [OF assms(9) assms(1-4)]
  show ?thesis
  proof (cases "eb_records b = []")
    case True
    with first have "get_field (eb_cursor b) ''value'' = PNone" by (auto simp: pg_cursor_value_def)
    with True second assms(7) show ?thesis by auto
  next
    case False
    with first second assms(7) show ?thesis
      using pg_select_resumes [OF assms(5) _ _ assms(6)] by auto
  qed
qed

text \<open>
  an incremental read that finds nothing new leaves a cursor from which the next read
  starts over: it returns what a first read without any cursor returns.
\<close>

theorem pg_empty_batch_restarts:
  assumes "pg_extract R cd pg obj cursor = Inr b" and "eb_records b = []"
  shows "pg_extract R cd pg obj (Some (eb_cursor b)) = pg_extract R cd pg obj None"
proof -
  have "get_field (eb_cursor b) ''value'' = PNone"
    using assms
    by (auto simp: pg_extract_def Let_def get_field_def pg_cursor_value_def split: sum.splits if_splits option.splits prod.splits)
  then have same: "cursor_field (Some (eb_cursor b)) ''value'' = cursor_field None ''value''" by simp
  show ?thesis by (simp only: pg_extract_def same)
qed

section \<open>Concrete sources\<close>

definition plain_codecs :: codecs where
  "plain_codecs = \<lparr>cd_read_bytes = (\<lambda>_. []), cd_mtime_ns = (\<lambda>_. 0), cd_exists = (\<lambda>_. True), cd_zip_members = (\<lambda>_. Inr []),
     cd_csv_dicts = (\<lambda>_ _ _. Inr []), cd_json_loads = (\<lambda>_. Inr PNone),
     cd_load_workbook = (\<lambda>_. Inr \<lparr>wb_sheets = [], wb_active = None\<rparr>), cd_read_table = (\<lambda>_. Inr []),
     cd_json_compact = (\<lambda>v. case v of PList xs \<Rightarrow> nat_str (length xs) | _ \<Rightarrow> []), cd_json_pretty = (\<lambda>v. [])\<rparr>"

definition demo_retry :: retry_policy where
  "demo_retry = \<lparr>rp_attempts = 3, rp_initial_seconds = 1, rp_maximum_seconds = 10\<rparr>"

definition demo_rest :: rest_connector where
  "demo_rest = \<lparr>rc_base_url = ''https://api.example.org/'', rc_timeout_seconds = 30, rc_retry = demo_retry,
     rc_allow_private_network = False, rc_bearer_token = None\<rparr>"

definition demo_object :: source_object_config where
  "demo_object = \<lparr>soc_key = ''staff'', soc_object_type = ''table'', soc_location = ''hr.staff'', soc_contract_version = ''1.0'',
     soc_incremental_field = Some ''seq'', soc_sheet_name = None, soc_json_records_path = None, soc_primary_key = [],
     soc_options = [(''max_pages'', PInt 5), (''max_rows'', PInt 2)]\<rparr>"

text \<open>A source that is busy once and then serves two pages.\<close>

definition demo_client :: http_client where
  "demo_client url i = (if i = 0 then Response 503 url None
     else if i = 1 then Response 200 url (Some (PDict [(''items'', PList [PDict [(''seq'', PInt 1)]]), (''next'', PStr ''page2'')]))
     else Response 200 url (Some (PDict [(''items'', PList [PDict [(''seq'', PInt 2)]])])))"

text \<open>A table with a timestamp column; its ISO text is read back as the timestamp.\<close>

definition demo_time :: "int \<Rightarrow> pyval" where
  "demo_time i = PTime \<lparr>dt_wall = i, dt_offset = Some 0\<rparr>"

definition demo_table :: pg_table where
  "demo_table = \<lparr>pgt_columns = [(''seq'', ''TIMESTAMP'', False)],
     pgt_rows = [[(''seq'', demo_time 3)], [(''seq'', demo_time 1)], [(''seq'', demo_time 2)]],
     pgt_rank = (\<lambda>f v. case v of PTime t \<Rightarrow> Some (dt_wall t) | PStr s \<Rightarrow> rt_int ascii_runtime s | _ \<Rightarrow> None)\<rparr>"

definition demo_pg :: pg_database where
  "demo_pg schema name = (if schema = Some ''hr'' \<and> name = ''staff'' then Some demo_table else None)"

lemma demo_retry_ok: "retry_policy_ok demo_retry"
  by (simp add: retry_policy_ok_def demo_retry_def)

theorem rest_request_backoff_witness:
  "\<exists>r st' k. rest_request demo_client demo_retry ''u'' \<lparr>rst_requests = [], rst_sleeps = []\<rparr> = (r, st') \<and> 1 \<le> k \<and> k \<le> rp_attempts demo_retry
    \<and> rst_requests st' = replicate k ''u''"
  using rest_request_backoff [OF demo_retry_ok, of demo_client "''u''" "\<lparr>rst_requests = [], rst_sleeps = []\<rparr>"] by auto

abbreviation demo_rest_run :: "extraction_batch res \<times> rest_state" where
  "demo_rest_run \<equiv> rest_extract ascii_runtime open_host plain_codecs demo_client demo_rest demo_object None
     \<lparr>rst_requests = [], rst_sleeps = []\<rparr>"

lemma demo_pages: "rst_requests (snd demo_rest_run) = [''hr.staff'', ''hr.staff'', ''page2'']"
  by code_simp

theorem rest_extract_only_public_witness:
  "length (rst_requests (snd demo_rest_run)) \<le> nat 5 * rp_attempts demo_retry
    \<and> rst_requests (snd demo_rest_run) = [''hr.staff'', ''hr.staff'', ''page2'']"
  using rest_extract_only_public [of demo_rest ascii_runtime demo_object 5 open_host plain_codecs demo_client None
      "fst demo_rest_run" "snd demo_rest_run"] demo_retry_ok demo_pages
  by (simp add: demo_rest_def demo_object_def get_field_or_def py_int_of_def)

abbreviation demo_batch :: "pyrec option \<Rightarrow> extraction_batch res" where
  "demo_batch \<equiv> pg_extract ascii_runtime plain_codecs demo_pg demo_object"

definition demo_batch1 :: extraction_batch where
  "demo_batch1 = \<lparr>eb_records = [[(''seq'', demo_time 1)], [(''seq'', demo_time 2)]], eb_raw_bytes = [CHR ''2'', CHR 0x0A],
     eb_content_type = ''application/x-ndjson'', eb_cursor = [(''field'', PStr ''seq''), (''value'', PStr ''2'')],
     eb_metadata = [(''row_count'', PInt 2), (''table'', PStr ''staff'')]\<rparr>"

definition demo_batch2 :: extraction_batch where
  "demo_batch2 = \<lparr>eb_records = [[(''seq'', demo_time 3)]], eb_raw_bytes = [CHR ''1'', CHR 0x0A],
     eb_content_type = ''application/x-ndjson'', eb_cursor = [(''field'', PStr ''seq''), (''value'', PStr ''3'')],
     eb_metadata = [(''row_count'', PInt 1), (''table'', PStr ''staff'')]\<rparr>"

definition demo_batch3 :: extraction_batch where
  "demo_batch3 = \<lparr>eb_records = [], eb_raw_bytes = [CHR ''0'', CHR 0x0A],
     eb_content_type = ''application/x-ndjson'', eb_cursor = [(''field'', PStr ''seq''), (''value'', PNone)],
     eb_metadata = [(''row_count'', PInt 0), (''table'', PStr ''staff'')]\<rparr>"

lemma demo_batches:
  "demo_batch None = Inr demo_batch1" "demo_batch (Some (eb_cursor demo_batch1)) = Inr demo_batch2"
  "demo_batch (Some (eb_cursor demo_batch2)) = Inr demo_batch3"
  by code_simp+

lemma demo_table_ordered: "strictly_ranked demo_table ''seq''" "reads_iso ascii_runtime demo_table ''seq''"
  by code_simp+

theorem pg_incremental_resumes_witness:
  "eb_records demo_batch1 @ eb_records demo_batch2 = pg_select demo_table (Some ''seq'') PNone (nat 2 + nat 2)"
  using pg_incremental_resumes [of demo_object "Some ''hr''" "''staff''" demo_pg demo_table "''seq''" ascii_runtime 2
      plain_codecs None demo_batch1 demo_batch2] demo_batches(1,2) demo_table_ordered
  by (simp add: demo_object_def demo_pg_def demo_batch1_def get_field_or_def py_int_of_def table_parts_def split_on_def
      validate_sql_identifier_def safe_identifier_def ident_start_def ident_char_def)

theorem pg_empty_batch_restarts_witness:
  "demo_batch (Some (eb_cursor demo_batch3)) = demo_batch None \<and> eb_records demo_batch1 \<noteq> []"
  using pg_empty_batch_restarts [OF demo_batches(3)] by (simp add: demo_batch3_def demo_batch1_def)

end
