(* ===== verification/Keyed_Rows.thy ===== *)
theory Keyed_Rows
  imports Store
begin

text \<open>
  Rows that a service looks up by a key made of some columns and adds when they are missing.
  A table whose new rows carry the key they were made for satisfies the contract
  \<open>get_or_create\<close>; the snapshot, mart, export and policy tables are instances.
\<close>

definition find_by :: "(database \<Rightarrow> 'r list) \<Rightarrow> ('r \<Rightarrow> 'k) \<Rightarrow> session \<Rightarrow> 'k \<Rightarrow> 'r option" where
  "find_by rows key s k = find (\<lambda>r. key r = k) (rows (s_working s))"

definition goc_by :: "(database \<Rightarrow> 'r list) \<Rightarrow> ('r \<Rightarrow> 'k) \<Rightarrow> ('r \<Rightarrow> database \<Rightarrow> database) \<Rightarrow> ('k \<Rightarrow> uuid \<Rightarrow> 'r)
    \<Rightarrow> 'k \<Rightarrow> session \<Rightarrow> 'r \<times> session" where
  "goc_by rows key put mk k s = (case find_by rows key s k of
       Some r \<Rightarrow> (r, s)
     | None \<Rightarrow> add_row (mk k) put s)"

locale keyed_rows =
  fixes rows :: "database \<Rightarrow> 'r list"
    and key :: "'r \<Rightarrow> 'k"
    and put :: "'r \<Rightarrow> database \<Rightarrow> database"
    and mk :: "'k \<Rightarrow> uuid \<Rightarrow> 'r"
  assumes rows_put: "rows (put r db) = rows db @ [r]"
    and key_mk: "key (mk k i) = k"
begin

lemma goc_by_mem:
  assumes "goc_by rows key put mk k s = (r, s')"
  shows "r \<in> set (rows (s_working s'))" and "key r = k"
  using assms
  by (auto simp: goc_by_def find_by_def add_row_def Let_def rows_put key_mk find_Some_iff split: option.splits)

lemma goc_by_rows:
  assumes "goc_by rows key put mk k s = (r, s')"
  shows "find_by rows key s k \<noteq> None \<and> s' = s
    \<or> find_by rows key s k = None \<and> rows (s_working s') = rows (s_working s) @ [r] \<and> r = mk k (new_id s)"
  using assms by (auto simp: goc_by_def add_row_def Let_def rows_put split: option.splits)

lemma goc_by_distinct:
  assumes "goc_by rows key put mk k s = (r, s')" and "distinct (map key (rows (s_working s)))"
  shows "distinct (map key (rows (s_working s')))"
  using goc_by_rows [OF assms(1)] assms(2) by (auto simp: find_by_def find_None_iff key_mk)

end

sublocale keyed_rows \<subseteq> get_or_create "find_by rows key" "goc_by rows key put mk"
proof
  show "find_by rows key s k = Some r \<Longrightarrow> goc_by rows key put mk k s = (r, s)" for s k r
    by (simp add: goc_by_def)
  show "find_by rows key s k = None \<Longrightarrow> goc_by rows key put mk k s = (r, s') \<Longrightarrow>
      find_by rows key s' k = Some r \<and> (\<forall>k'. k' \<noteq> k \<longrightarrow> find_by rows key s' k' = find_by rows key s k')" for s k r s'
    by (auto simp: goc_by_def find_by_def add_row_def Let_def rows_put key_mk find_snoc split: option.splits)
qed

end
