(* ===== verification/Ingestion.thy ===== *)
theory Ingestion
  imports Connectors Keyed_Rows
begin

text \<open>
  Ingestion (\<^verbatim>\<open>ingestion/\<close>): the raw snapshot store, the service that extracts a source object
  into it and records the run, and the reader of stored snapshots. The store's directory is
  given resolved; the YAML reader of source configurations is a parameter.
\<close>

section \<open>The raw store\<close>

record snapshot_manifest =
  sm_source_id :: string
  sm_object_key :: string
  sm_connector_type :: string
  sm_connector_version :: string
  sm_contract_version :: string
  sm_extracted_at :: string
  sm_checksum_sha256 :: string
  sm_row_count :: nat
  sm_schema_fingerprint :: string
  sm_storage_uri :: string
  sm_content_type :: string
  sm_cursor :: pyrec

record stored_snapshot =
  st_path :: string
  st_manifest_path :: string
  st_manifest :: snapshot_manifest
  st_reused :: bool

definition CONTENT_EXTENSIONS :: "(string \<times> string) list" where
  "CONTENT_EXTENSIONS =
     [(''text/csv'', ''.csv''), (''application/json'', ''.json''), (''application/x-ndjson'', ''.ndjson''),
      (''application/vnd.apache.parquet'', ''.parquet''),
      (''application/vnd.openxmlformats-officedocument.spreadsheetml.sheet'', ''.xlsx'')]"

definition checksum :: "runtime \<Rightarrow> string \<Rightarrow> string" where
  "checksum R value = rt_sha256 R value"

definition fold_types :: "pyrec \<Rightarrow> (string \<times> string list) list \<Rightarrow> (string \<times> string list) list" where
  "fold_types record fds = fold (\<lambda>(name, v) g. dict_append name (type_name v) g) record fds"

definition schema_fingerprint :: "runtime \<Rightarrow> pyrec list \<Rightarrow> string" where
  "schema_fingerprint R records =
     (let grouped = fold fold_types (take 1000 records) [] in
      rt_sha256 R (rt_json R (PDict (map (\<lambda>(name, types). (name, PList (map PStr (sort (remdups types)))))
        (sort_key fst grouped)))))"

definition extension_of :: "string \<Rightarrow> string" where
  "extension_of content_type = (case map_of CONTENT_EXTENSIONS content_type of None \<Rightarrow> ''.bin'' | Some x \<Rightarrow> x)"

definition store_directory :: "string \<Rightarrow> string \<Rightarrow> string \<Rightarrow> string \<Rightarrow> string" where
  "store_directory dir source_id object_key digest =
     dir @ ''/'' @ source_id @ ''/'' @ object_key @ ''/'' @ take 2 digest"

definition payload_path :: "string \<Rightarrow> string \<Rightarrow> string \<Rightarrow> string \<Rightarrow> string \<Rightarrow> string" where
  "payload_path dir source_id object_key digest extension =
     store_directory dir source_id object_key digest @ ''/'' @ digest @ extension"

definition manifest_path :: "string \<Rightarrow> string \<Rightarrow> string \<Rightarrow> string \<Rightarrow> string" where
  "manifest_path dir source_id object_key digest =
     store_directory dir source_id object_key digest @ ''/'' @ digest @ ''.manifest.json''"

definition temporary_path :: "runtime \<Rightarrow> string \<Rightarrow> string \<Rightarrow> string \<Rightarrow> string \<Rightarrow> uuid \<Rightarrow> string \<Rightarrow> string" where
  "temporary_path R dir source_id object_key digest u ending =
     store_directory dir source_id object_key digest @ ''/.'' @ digest @ ''.'' @ rt_uuid_hex R u @ ending"

definition manifest_json :: "snapshot_manifest \<Rightarrow> pyval" where
  "manifest_json m = PDict
     [(''source_id'', PStr (sm_source_id m)), (''object_key'', PStr (sm_object_key m)),
      (''connector_type'', PStr (sm_connector_type m)), (''connector_version'', PStr (sm_connector_version m)),
      (''contract_version'', PStr (sm_contract_version m)), (''extracted_at'', PStr (sm_extracted_at m)),
      (''checksum_sha256'', PStr (sm_checksum_sha256 m)), (''row_count'', PInt (int (sm_row_count m))),
      (''schema_fingerprint'', PStr (sm_schema_fingerprint m)), (''storage_uri'', PStr (sm_storage_uri m)),
      (''content_type'', PStr (sm_content_type m)), (''cursor'', PDict (sm_cursor m))]"

text \<open>Publishing the payload under its digest; the temporary file is created exclusively.\<close>

definition store_payload :: "runtime \<Rightarrow> string \<Rightarrow> string \<Rightarrow> string \<Rightarrow> extraction_batch \<Rightarrow> session \<times> files \<Rightarrow> bool res \<times> session \<times> files" where
  "store_payload R dir source_id object_key batch st =
     (case st of (s, fs) \<Rightarrow>
      let digest = checksum R (eb_raw_bytes batch);
          path = payload_path dir source_id object_key digest (extension_of (eb_content_type batch)) in
      if fs path \<noteq> None then (Inr True, s, fs)
      else case take_uuid s of (u, s') \<Rightarrow>
        let temporary = temporary_path R dir source_id object_key digest u ''.tmp'' in
        if fs temporary \<noteq> None then (Inl (RuntimeError ''FileExistsError''), s', fs)
        else (Inr False, s', publish temporary path (eb_raw_bytes batch) fs))"

definition store_manifest :: "runtime \<Rightarrow> codecs \<Rightarrow> string \<Rightarrow> snapshot_manifest \<Rightarrow> session \<times> files \<Rightarrow> session \<times> files" where
  "store_manifest R cd dir m st =
     (case st of (s, fs) \<Rightarrow>
      let path = manifest_path dir (sm_source_id m) (sm_object_key m) (sm_checksum_sha256 m) in
      if fs path \<noteq> None then (s, fs)
      else case take_uuid s of (u, s') \<Rightarrow>
        (s', publish (temporary_path R dir (sm_source_id m) (sm_object_key m) (sm_checksum_sha256 m) u ''.manifest.tmp'')
               path (cd_json_pretty cd (manifest_json m) @ [CHR 0x0A]) fs))"

definition raw_store :: "runtime \<Rightarrow> codecs \<Rightarrow> string \<Rightarrow> extraction_batch \<Rightarrow> string \<Rightarrow> string \<Rightarrow> string \<Rightarrow> string \<Rightarrow> string \<Rightarrow> int
    \<Rightarrow> session \<times> files \<Rightarrow> stored_snapshot res \<times> session \<times> files" where
  "raw_store R cd dir batch source_id object_key connector_type' connector_version' contract_version extracted_at st =
     (let digest = checksum R (eb_raw_bytes batch);
          path = payload_path dir source_id object_key digest (extension_of (eb_content_type batch)) in
      case store_payload R dir source_id object_key batch st of
        (Inl e, st1) \<Rightarrow> (Inl e, st1)
      | (Inr reused, st1) \<Rightarrow>
        let m = \<lparr>sm_source_id = source_id, sm_object_key = object_key, sm_connector_type = connector_type',
               sm_connector_version = connector_version', sm_contract_version = contract_version,
               sm_extracted_at = rt_isoformat R extracted_at, sm_checksum_sha256 = digest,
               sm_row_count = length (eb_records batch), sm_schema_fingerprint = schema_fingerprint R (eb_records batch),
               sm_storage_uri = rt_as_uri R path, sm_content_type = eb_content_type batch, sm_cursor = eb_cursor batch\<rparr> in
        (Inr \<lparr>st_path = path, st_manifest_path = manifest_path dir source_id object_key digest,
              st_manifest = m, st_reused = reused\<rparr>, store_manifest R cd dir m st1))"

section \<open>Reading snapshots\<close>

definition snapshot_file_path :: "runtime \<Rightarrow> files \<Rightarrow> string \<Rightarrow> string res" where
  "snapshot_file_path R fs storage_uri = (case rt_uri_path R storage_uri of
       None \<Rightarrow> Inl (ConnectorError ''unsupported_snapshot_uri'' ''Snapshot URI is not a local file'')
     | Some p \<Rightarrow> if fs p = None then Inl FileNotFoundError else Inr p)"

definition read_snapshot_records :: "runtime \<Rightarrow> codecs \<Rightarrow> files \<Rightarrow> raw_snapshot \<Rightarrow> pyrec list res" where
  "read_snapshot_records R cd fs snapshot =
     (case snapshot_file_path R fs (rs_storage_uri snapshot) of Inl e \<Rightarrow> Inl e | Inr p \<Rightarrow>
      let content = the (fs p); content_type = py_str R (get_field_or (rs_manifest_json snapshot) ''content_type'' (PStr [])) in
      if content_type = ''text/csv'' then cd_csv_dicts cd '','' ''utf-8'' content
      else if content_type \<in> {''application/json'', ''application/x-ndjson''} then
        (case cd_json_loads cd content of Inl e \<Rightarrow> Inl e | Inr payload \<Rightarrow>
         case record_list payload of
           None \<Rightarrow> Inl (ConnectorError ''snapshot_records_invalid'' ''Snapshot must contain object records'')
         | Some ds \<Rightarrow> Inr ds)
      else if content_type = ''application/vnd.apache.parquet'' then cd_read_table cd content
      else if content_type = ''application/vnd.openxmlformats-officedocument.spreadsheetml.sheet'' then
        (case cd_load_workbook cd content of Inl e \<Rightarrow> Inl e | Inr wb \<Rightarrow>
         case wb_active wb of
           None \<Rightarrow> Inl (ConnectorError ''worksheet_missing'' ''Snapshot workbook has no worksheet'')
         | Some rows \<Rightarrow> Inr (sheet_records R rows))
      else Inl (ConnectorError ''snapshot_content_type_unsupported'' ''Snapshot content type is unsupported''))"

section \<open>The service\<close>

record ingestion_outcome =
  io_run_id :: uuid
  io_snapshot_id :: uuid
  io_checksum_sha256 :: string
  io_storage_uri :: string
  io_row_count :: int
  io_reused_snapshot :: bool
  io_cursor :: pyrec

definition load_configuration :: "host \<Rightarrow> (path \<Rightarrow> source_config res) \<Rightarrow> string \<Rightarrow> string \<Rightarrow> source_config res" where
  "load_configuration H load_yaml config_root source_id =
     (case source_config_path H config_root source_id of Inl e \<Rightarrow> Inl e | Inr p \<Rightarrow> load_yaml p)"

definition source_metadata :: "database \<Rightarrow> uuid \<Rightarrow> string \<Rightarrow> string \<Rightarrow> (source_system \<times> source_object) res" where
  "source_metadata db organization_id source_id object_key =
     (case find (\<lambda>r. ss_organization_id r = organization_id \<and> ss_source_key r = source_id \<and> ss_active r) (db_source_systems db) of
        None \<Rightarrow> Inl (ConnectorError ''source_not_registered'' ''Source metadata is not registered'')
      | Some source \<Rightarrow>
        (case find (\<lambda>r. so_source_system_id r = ss_id source \<and> so_object_key r = object_key) (db_source_objects db) of
           None \<Rightarrow> Inl (ConnectorError ''source_object_not_registered'' ''Source object is not registered'')
         | Some obj \<Rightarrow> Inr (source, obj)))"

definition configured_object :: "source_config \<Rightarrow> string \<Rightarrow> source_object_config res" where
  "configured_object config object_key =
     (case find (\<lambda>o'. soc_key o' = object_key) (sc_objects config) of
        None \<Rightarrow> Inl (ConnectorError ''object_not_configured'' ''Source object is not configured'')
      | Some o' \<Rightarrow> Inr o')"

definition resume_cursor :: "database \<Rightarrow> uuid option \<Rightarrow> uuid \<Rightarrow> uuid \<Rightarrow> (pyrec \<times> int) res" where
  "resume_cursor db resume_from organization_id source_system_id = (case resume_from of
       None \<Rightarrow> Inr ([], 1)
     | Some i \<Rightarrow> (case row_by ir_id (db_ingestion_runs db) i of
         None \<Rightarrow> Inl (ConnectorError ''invalid_resume_run'' ''Resume run is not valid for this source'')
       | Some previous \<Rightarrow>
           if ir_organization_id previous \<noteq> organization_id \<or> ir_source_system_id previous \<noteq> source_system_id
           then Inl (ConnectorError ''invalid_resume_run'' ''Resume run is not valid for this source'')
           else Inr (ir_cursor_json previous, ir_attempt_number previous + 1)))"

definition put_ingestion_run :: "ingestion_run \<Rightarrow> database \<Rightarrow> database" where
  "put_ingestion_run r db = db\<lparr>db_ingestion_runs := db_ingestion_runs db @ [r]\<rparr>"

definition new_run :: "runtime \<Rightarrow> uuid \<Rightarrow> uuid \<Rightarrow> pyrec \<Rightarrow> uuid \<Rightarrow> uuid option \<Rightarrow> int \<Rightarrow> int \<Rightarrow> uuid \<Rightarrow> ingestion_run" where
  "new_run R organization_id source_system_id cursor correlation resume_from attempt now i =
     \<lparr>ir_id = i, ir_created_at = now, ir_organization_id = organization_id, ir_source_system_id = source_system_id,
      ir_status = ''running'', ir_started_at = Some now, ir_ended_at = None, ir_cursor_json = cursor,
      ir_correlation_id = rt_uuid_str R correlation, ir_resume_from_run_id = resume_from, ir_attempt_number = attempt,
      ir_failure_code = None, ir_failure_summary = None\<rparr>"

definition end_run :: "uuid \<Rightarrow> (ingestion_run \<Rightarrow> ingestion_run) \<Rightarrow> session \<Rightarrow> session" where
  "end_run run_id f s = commit (on_working (\<lambda>db. db\<lparr>db_ingestion_runs :=
     update_where (\<lambda>r. ir_id r = run_id) f (db_ingestion_runs db)\<rparr>) s)"

definition succeed_run :: "pyrec \<Rightarrow> int \<Rightarrow> ingestion_run \<Rightarrow> ingestion_run" where
  "succeed_run cursor now r = r\<lparr>ir_status := ''succeeded'', ir_ended_at := Some now, ir_cursor_json := cursor,
     ir_failure_code := None, ir_failure_summary := None\<rparr>"

definition fail_run :: "string \<Rightarrow> string \<Rightarrow> int \<Rightarrow> ingestion_run \<Rightarrow> ingestion_run" where
  "fail_run code summary now r = r\<lparr>ir_status := ''failed'', ir_ended_at := Some now,
     ir_failure_code := Some code, ir_failure_summary := Some summary\<rparr>"

text \<open>The two handlers of the service: a connector error keeps its code, any other one is hidden.\<close>

definition public_error :: "exc \<Rightarrow> string \<times> string" where
  "public_error e = (case e of ConnectorError code message \<Rightarrow> (code, message)
     | _ \<Rightarrow> (''unexpected_connector_failure'', ''Unexpected connector failure''))"

definition put_snapshot :: "raw_snapshot \<Rightarrow> database \<Rightarrow> database" where
  "put_snapshot r db = db\<lparr>db_raw_snapshots := db_raw_snapshots db @ [r]\<rparr>"

definition snapshot_key :: "raw_snapshot \<Rightarrow> uuid \<times> string" where
  "snapshot_key r = (rs_source_object_id r, rs_checksum_sha256 r)"

abbreviation find_snapshot :: "session \<Rightarrow> uuid \<times> string \<Rightarrow> raw_snapshot option" where
  "find_snapshot \<equiv> find_by db_raw_snapshots snapshot_key"

definition new_snapshot :: "snapshot_manifest \<Rightarrow> uuid \<Rightarrow> int \<Rightarrow> uuid \<times> string \<Rightarrow> uuid \<Rightarrow> raw_snapshot" where
  "new_snapshot m run_id now k i =
     \<lparr>rs_id = i, rs_created_at = now, rs_ingestion_run_id = run_id, rs_source_object_id = fst k,
      rs_storage_uri = sm_storage_uri m, rs_checksum_sha256 = snd k, rs_row_count = Some (int (sm_row_count m)),
      rs_schema_fingerprint = Some (sm_schema_fingerprint m),
      rs_manifest_json = [(''source_id'', PStr (sm_source_id m)), (''object_key'', PStr (sm_object_key m)),
        (''connector_type'', PStr (sm_connector_type m)), (''connector_version'', PStr (sm_connector_version m)),
        (''contract_version'', PStr (sm_contract_version m)), (''extracted_at'', PStr (sm_extracted_at m)),
        (''content_type'', PStr (sm_content_type m)), (''cursor'', PDict (sm_cursor m))]\<rparr>"

text \<open>The snapshot of an object with the stored checksum, created at its first appearance.\<close>

abbreviation goc_snapshot :: "snapshot_manifest \<Rightarrow> uuid \<Rightarrow> int \<Rightarrow> uuid \<times> string \<Rightarrow> session \<Rightarrow> raw_snapshot \<times> session" where
  "goc_snapshot m run_id now \<equiv> goc_by db_raw_snapshots snapshot_key put_snapshot (new_snapshot m run_id now)"

text \<open>The body of the \<^verbatim>\<open>try\<close> statement.\<close>

definition extract_and_store :: "runtime \<Rightarrow> sources_world \<Rightarrow> settings \<Rightarrow> connector \<Rightarrow> string \<Rightarrow> string \<Rightarrow> source_object_config \<Rightarrow> pyrec \<Rightarrow> int
    \<Rightarrow> session \<times> files \<Rightarrow> (extraction_batch \<times> stored_snapshot) res \<times> session \<times> files" where
  "extract_and_store R W st c source_id object_key obj cursor now sf =
     (case connector_extract R W c obj (if cursor = [] then None else Some cursor) of
        Inl e \<Rightarrow> (Inl e, sf)
      | Inr batch \<Rightarrow>
        (case raw_store R (sw_codecs W) (set_raw_store_root st) batch source_id object_key (connector_type c)
                connector_version (soc_contract_version obj) now sf of
           (Inl e, sf1) \<Rightarrow> (Inl e, sf1)
         | (Inr stored, sf1) \<Rightarrow> (Inr (batch, stored), sf1)))"

definition finish_ingestion :: "uuid \<Rightarrow> uuid \<Rightarrow> int \<Rightarrow> extraction_batch \<times> stored_snapshot \<Rightarrow> session \<Rightarrow> ingestion_outcome \<times> session" where
  "finish_ingestion run_id object_id now bs s =
     (let m = st_manifest (snd bs); k = (object_id, sm_checksum_sha256 m) in
      case goc_snapshot m run_id now k s of (snapshot, s1) \<Rightarrow>
      (\<lparr>io_run_id = run_id, io_snapshot_id = rs_id snapshot, io_checksum_sha256 = rs_checksum_sha256 snapshot,
        io_storage_uri = rs_storage_uri snapshot,
        io_row_count = (case rs_row_count snapshot of None \<Rightarrow> 0 | Some n \<Rightarrow> n),
        io_reused_snapshot = (find_snapshot s k \<noteq> None), io_cursor = eb_cursor (fst bs)\<rparr>,
       end_run run_id (succeed_run (eb_cursor (fst bs)) now) s1))"

text \<open>Up to the committed run row: configuration, metadata, cursor.\<close>

record opened_run =
  op_config :: source_config
  op_object :: source_object_config
  op_source_object :: source_object
  op_cursor :: pyrec
  op_run :: ingestion_run

definition open_run :: "runtime \<Rightarrow> host \<Rightarrow> (path \<Rightarrow> source_config res) \<Rightarrow> string \<Rightarrow> uuid \<Rightarrow> string \<Rightarrow> string \<Rightarrow> uuid option \<Rightarrow> int
    \<Rightarrow> session \<Rightarrow> opened_run res \<times> session" where
  "open_run R H load_yaml config_root organization_id source_id object_key resume_from now s =
     (case load_configuration H load_yaml config_root source_id of Inl e \<Rightarrow> (Inl e, s) | Inr config \<Rightarrow>
      case configured_object config object_key of Inl e \<Rightarrow> (Inl e, s) | Inr obj \<Rightarrow>
      case source_metadata (s_working s) organization_id source_id object_key of Inl e \<Rightarrow> (Inl e, s) | Inr (source, source_object) \<Rightarrow>
      case resume_cursor (s_working s) resume_from organization_id (ss_id source) of Inl e \<Rightarrow> (Inl e, s) | Inr (cursor, attempt) \<Rightarrow>
      case take_uuid s of (correlation, s0) \<Rightarrow>
      case add_row (new_run R organization_id (ss_id source) cursor correlation resume_from attempt now) put_ingestion_run s0 of (run, s1) \<Rightarrow>
      (Inr \<lparr>op_config = config, op_object = obj, op_source_object = source_object, op_cursor = cursor, op_run = run\<rparr>, commit s1))"

definition ingest :: "runtime \<Rightarrow> sources_world \<Rightarrow> settings \<Rightarrow> (path \<Rightarrow> source_config res) \<Rightarrow> string \<Rightarrow> uuid \<Rightarrow> string \<Rightarrow> string
    \<Rightarrow> uuid option \<Rightarrow> int \<Rightarrow> session \<times> files \<Rightarrow> ingestion_outcome res \<times> session \<times> files" where
  "ingest R W st load_yaml config_root organization_id source_id object_key resume_from now sf =
     (case sf of (s, fs) \<Rightarrow>
      case open_run R (sw_host W) load_yaml config_root organization_id source_id object_key resume_from now s of
        (Inl e, s1) \<Rightarrow> (Inl e, s1, fs)
      | (Inr op, s1) \<Rightarrow>
      case build_connector (sw_host W) st (op_config op) of Inl e \<Rightarrow> (Inl e, s1, fs) | Inr c \<Rightarrow>
      case extract_and_store R W st c source_id object_key (op_object op) (op_cursor op) now (s1, fs) of
        (Inl e, s2, fs2) \<Rightarrow>
          (Inl (ConnectorError (fst (public_error e)) (snd (public_error e))),
           end_run (ir_id (op_run op)) (fail_run (fst (public_error e)) (snd (public_error e)) now) s2, fs2)
      | (Inr bs, s2, fs2) \<Rightarrow>
          (case finish_ingestion (ir_id (op_run op)) (so_id (op_source_object op)) now bs s2 of
             (outcome, s3) \<Rightarrow> (Inr outcome, s3, fs2)))"

section \<open>Lemmas: file names of the store\<close>

text \<open>The shape of a digest: 64 characters, none of them a separator.\<close>

definition digest_shape :: "string \<Rightarrow> bool" where
  "digest_shape d = (length d = 64 \<and> CHR ''/'' \<notin> set d \<and> CHR ''.'' \<notin> set d)"

definition extensions :: "string list" where
  "extensions = ''.bin'' # map snd CONTENT_EXTENSIONS"

text \<open>Every payload of the store has the digest in its name.\<close>

definition raw_consistent :: "runtime \<Rightarrow> string \<Rightarrow> files \<Rightarrow> bool" where
  "raw_consistent R dir fs = (\<forall>source_id object_key d ext c. digest_shape d \<longrightarrow> ext \<in> set extensions \<longrightarrow>
     fs (payload_path dir source_id object_key d ext) = Some c \<longrightarrow> rt_sha256 R c = d)"

lemma last_sep_eq:
  assumes "x @ c # s = y @ c # t" and "c \<notin> set s" and "c \<notin> set t"
  shows "x = y \<and> s = t"
proof -
  have "rev s @ c # rev x = rev t @ c # rev y" using arg_cong [OF assms(1), of rev] by simp
  from append_sep_eq [OF this] assms(2,3) show ?thesis by simp
qed

lemma extension_of_mem: "extension_of t \<in> set extensions"
  by (auto simp: extension_of_def extensions_def split: option.splits dest: map_of_SomeD)
    (metis map_of_SomeD image_eqI snd_conv)

lemma extension_facts:
  assumes "ext \<in> set extensions"
  shows "hd ext = CHR ''.''" "ext \<noteq> []" "CHR ''/'' \<notin> set ext" "last ext \<noteq> CHR ''p''" "ext \<noteq> ''.manifest.json''"
  using assms by (auto simp: extensions_def CONTENT_EXTENSIONS_def)

lemma ending_facts: "ending \<in> {''.tmp'', ''.manifest.tmp''} \<Longrightarrow>
    last (temporary_path R dir src obj d u ending) = CHR ''p'' \<and> ends_with (temporary_path R dir src obj d u ending) ''.tmp''"
  by (auto simp: temporary_path_def ends_with_def)

lemma payload_last: "ext \<in> set extensions \<Longrightarrow> last (payload_path dir src obj d ext) \<noteq> CHR ''p''"
  using extension_facts [of ext] by (simp add: payload_path_def)

lemma payload_digest:
  assumes "payload_path dir src obj d ext = payload_path dir src' obj' d' ext'"
    and "digest_shape d" "digest_shape d'" "ext \<in> set extensions" "ext' \<in> set extensions"
  shows "d = d'"
proof -
  note e = extension_facts [OF assms(4)] extension_facts [OF assms(5)]
  have "d @ ext = d' @ ext'"
    using last_sep_eq [of "store_directory dir src obj d" "CHR ''/''" "d @ ext" "store_directory dir src' obj' d'" "d' @ ext'"]
      assms(1-3) e by (auto simp: payload_path_def digest_shape_def)
  moreover obtain a b where "ext = CHR ''.'' # a" "ext' = CHR ''.'' # b" using e by (metis list.collapse)
  ultimately show ?thesis using append_sep_eq [of d "CHR ''.''" a d' b] assms(2,3) by (simp add: digest_shape_def)
qed

lemma manifest_not_payload:
  assumes "digest_shape d" "digest_shape d'" "ext \<in> set extensions"
  shows "manifest_path dir src obj d \<noteq> payload_path dir src' obj' d' ext"
proof
  assume eq: "manifest_path dir src obj d = payload_path dir src' obj' d' ext"
  note e = extension_facts [OF assms(3)]
  have "d @ ''.manifest.json'' = d' @ ext"
    using last_sep_eq [of "store_directory dir src obj d" "CHR ''/''" "d @ ''.manifest.json''" "store_directory dir src' obj' d'" "d' @ ext"]
      eq assms e by (auto simp: payload_path_def manifest_path_def digest_shape_def)
  moreover obtain b where "ext = CHR ''.'' # b" using e by (metis list.collapse)
  ultimately show False using append_sep_eq [of d "CHR ''.''" "''manifest.json''" d' b] assms e by (simp add: digest_shape_def)
qed

lemma publish_to:
  assumes "temporary \<noteq> path"
  shows "publish temporary path c fs q = (if q = path then Some c else if q = temporary then None else fs q)"
  using assms by (simp add: publish_eq)

text \<open>The two writers: what they add, and that everything else stays.\<close>

lemma store_payload_effect:
  assumes "store_payload R dir src obj batch (s, fs) = (Inr reused, s', fs')"
    and "path = payload_path dir src obj (checksum R (eb_raw_bytes batch)) (extension_of (eb_content_type batch))"
  shows "reused = (fs path \<noteq> None)"
    and "fs' path = (if reused then fs path else Some (eb_raw_bytes batch))"
    and "q \<noteq> path \<Longrightarrow> fs' q = fs q \<or> (ends_with q ''.tmp'' \<and> last q = CHR ''p'')"
proof -
  let ?t = "\<lambda>u. temporary_path R dir src obj (checksum R (eb_raw_bytes batch)) u ''.tmp''"
  have t: "ends_with (?t u) ''.tmp''" "last (?t u) = CHR ''p''" "?t u \<noteq> path" for u
    using ending_facts [of "''.tmp''" R dir src obj "checksum R (eb_raw_bytes batch)" u]
      payload_last [OF extension_of_mem, of dir src obj "checksum R (eb_raw_bytes batch)" "eb_content_type batch"]
    by (auto simp: assms(2))
  have "(reused \<and> fs path \<noteq> None \<and> fs' = fs) \<or>
      (\<not> reused \<and> fs path = None \<and> (\<exists>u. fs' = publish (?t u) path (eb_raw_bytes batch) fs))"
    using assms by (auto simp: store_payload_def Let_def split: if_splits prod.splits)
  then show "reused = (fs path \<noteq> None)" "fs' path = (if reused then fs path else Some (eb_raw_bytes batch))"
    "q \<noteq> path \<Longrightarrow> fs' q = fs q \<or> (ends_with q ''.tmp'' \<and> last q = CHR ''p'')"
    using t by (auto simp: publish_to split: if_splits)
qed

lemma store_manifest_effect:
  assumes "store_manifest R cd dir m (s, fs) = (s', fs')"
    and "path = manifest_path dir (sm_source_id m) (sm_object_key m) (sm_checksum_sha256 m)"
  shows "fs path = Some c \<Longrightarrow> fs' path = Some c"
    and "q \<noteq> path \<Longrightarrow> fs' q = fs q \<or> (ends_with q ''.tmp'' \<and> last q = CHR ''p'')"
proof -
  let ?t = "\<lambda>u. temporary_path R dir (sm_source_id m) (sm_object_key m) (sm_checksum_sha256 m) u ''.manifest.tmp''"
  have t: "ends_with (?t u) ''.tmp''" "last (?t u) = CHR ''p''" "?t u \<noteq> path" for u
    using ending_facts [of "''.manifest.tmp''" R dir "sm_source_id m" "sm_object_key m" "sm_checksum_sha256 m" u]
    by (auto simp: assms(2) manifest_path_def)
  have "(fs path \<noteq> None \<and> fs' = fs) \<or> (fs path = None \<and> (\<exists>u c. fs' = publish (?t u) path c fs))"
    using assms by (auto simp: store_manifest_def Let_def split: if_splits prod.splits)
  then show "fs path = Some c \<Longrightarrow> fs' path = Some c"
    "q \<noteq> path \<Longrightarrow> fs' q = fs q \<or> (ends_with q ''.tmp'' \<and> last q = CHR ''p'')"
    using t by (auto simp: publish_to split: if_splits)
qed

text \<open>What storing a batch does to the payloads and to every other file.\<close>

lemma raw_store_effect:
  assumes "raw_store R cd dir batch src obj ct cv kv now (s, fs) = (Inr stored, s', fs')"
    and "d = rt_sha256 R (eb_raw_bytes batch)" and "digest_shape d"
    and "p = payload_path dir src obj d (extension_of (eb_content_type batch))"
  shows "st_path stored = p" "sm_checksum_sha256 (st_manifest stored) = d"
    and "fs' p = (if st_reused stored then fs p else Some (eb_raw_bytes batch))" "st_reused stored = (fs p \<noteq> None)"
    and "\<And>a b d' e. digest_shape d' \<Longrightarrow> e \<in> set extensions \<Longrightarrow> payload_path dir a b d' e \<noteq> p \<Longrightarrow>
      fs' (payload_path dir a b d' e) = fs (payload_path dir a b d' e)"
    and "\<And>q c. fs q = Some c \<Longrightarrow> \<not> ends_with q ''.tmp'' \<Longrightarrow> fs' q = Some c"
proof -
  obtain r s1 fs1 where pay: "store_payload R dir src obj batch (s, fs) = (r, s1, fs1)" by (metis prod.exhaust)
  with assms(1) obtain reused m where r: "r = Inr reused"
    and man: "store_manifest R cd dir m (s1, fs1) = (s', fs')"
    and m: "sm_source_id m = src" "sm_object_key m = obj" "sm_checksum_sha256 m = d"
    and st: "st_manifest stored = m" "st_path stored = p" "st_reused stored = reused"
    by (auto simp: raw_store_def Let_def checksum_def assms(2,4) split: sum.splits)
  have p: "p = payload_path dir src obj (checksum R (eb_raw_bytes batch)) (extension_of (eb_content_type batch))"
    by (simp add: assms(2,4) checksum_def)
  note one = store_payload_effect [OF pay [unfolded r] p]
  define mp where "mp = manifest_path dir src obj d"
  have mp: "mp = manifest_path dir (sm_source_id m) (sm_object_key m) (sm_checksum_sha256 m)" by (simp add: mp_def m)
  note two = store_manifest_effect [OF man mp]
  have same: "fs' (payload_path dir a b d' e) = fs1 (payload_path dir a b d' e)"
    if "digest_shape d'" "e \<in> set extensions" for a b d' e
    using two(2) [of "payload_path dir a b d' e"] payload_last [OF that(2), of dir a b d']
      manifest_not_payload [OF assms(3) that, of dir src obj a b] by (auto simp: mp_def)
  show "st_path stored = p" "sm_checksum_sha256 (st_manifest stored) = d" "st_reused stored = (fs p \<noteq> None)"
    using one(1) by (simp_all add: st m)
  show "fs' p = (if st_reused stored then fs p else Some (eb_raw_bytes batch))"
    using one(2) same [OF assms(3) extension_of_mem] by (simp add: st assms(4))
  show "fs' (payload_path dir a b d' e) = fs (payload_path dir a b d' e)"
    if "digest_shape d'" "e \<in> set extensions" "payload_path dir a b d' e \<noteq> p" for a b d' e
    using one(3) [OF that(3)] same [OF that(1,2)] payload_last [OF that(2), of dir a b d'] by auto
  show "fs' q = Some c" if "fs q = Some c" "\<not> ends_with q ''.tmp''" for q c
  proof -
    have "fs1 q = Some c" using one one(3) [of q] that by (cases "q = p") auto
    then show ?thesis using two(1) two(2) [of q] that(2) by (cases "q = mp") auto
  qed
qed

section \<open>Properties of the raw store\<close>

text \<open>
  C18: the raw store is immutable and content addressed. Storing a batch leaves every file that
  is not a temporary one as it was; afterwards the returned path holds content whose digest is
  the recorded checksum, which is the batch's own bytes unless the path was there before; and every
  payload of the store still has its digest in its name.
\<close>

theorem raw_store_immutable:
  assumes "\<And>x. digest_shape (rt_sha256 R x)" and "raw_consistent R dir fs"
    and "raw_store R cd dir batch src obj ct cv kv now (s, fs) = (Inr stored, s', fs')"
  shows "raw_consistent R dir fs'
    \<and> sm_checksum_sha256 (st_manifest stored) = rt_sha256 R (eb_raw_bytes batch)
    \<and> (\<exists>c. fs' (st_path stored) = Some c \<and> rt_sha256 R c = sm_checksum_sha256 (st_manifest stored)
         \<and> (st_reused stored \<or> c = eb_raw_bytes batch))
    \<and> (\<forall>q c. fs q = Some c \<longrightarrow> \<not> ends_with q ''.tmp'' \<longrightarrow> fs' q = Some c)"
proof -
  define d where "d = rt_sha256 R (eb_raw_bytes batch)"
  define ext where "ext = extension_of (eb_content_type batch)"
  define p where "p = payload_path dir src obj d ext"
  have d: "digest_shape d" and x: "ext \<in> set extensions" by (simp_all add: d_def ext_def assms(1) extension_of_mem)
  note eff = raw_store_effect [OF assms(3) d_def d p_def [unfolded ext_def]]
  have new: "fs' p = Some c \<Longrightarrow> rt_sha256 R c = d" for c
    using eff(3,4) assms(2) d x by (cases "st_reused stored") (auto simp: raw_consistent_def p_def d_def)
  have "rt_sha256 R c = d'"
    if "fs' (payload_path dir a b d' e) = Some c" "digest_shape d'" "e \<in> set extensions" for a b d' e c
  proof (cases "payload_path dir a b d' e = p")
    case True
    then have "d' = d" using payload_digest [of dir a b d' e src obj d ext] that(2,3) d x by (simp add: p_def)
    with new that(1) True show ?thesis by simp
  next
    case False
    from eff(5) [OF that(2,3) False] that assms(2) show ?thesis by (auto simp: raw_consistent_def)
  qed
  then have "raw_consistent R dir fs'" unfolding raw_consistent_def by blast
  moreover have "\<exists>c. fs' p = Some c \<and> rt_sha256 R c = d \<and> (st_reused stored \<or> c = eb_raw_bytes batch)"
    using eff(3,4) new by (cases "st_reused stored") auto
  ultimately show ?thesis using eff(1,2,6) by (auto simp: d_def)
qed

section \<open>Lemmas: runs and snapshots\<close>

interpretation snapshots: keyed_rows db_raw_snapshots snapshot_key put_snapshot "new_snapshot m run_id now" for m run_id now
  by unfold_locales (simp_all add: put_snapshot_def new_snapshot_def snapshot_key_def)

definition ingestion_ids_ok :: "session \<Rightarrow> bool" where
  "ingestion_ids_ok s = (inj (s_supply s) \<and> (\<forall>r \<in> set (db_ingestion_runs (s_working s)). \<exists>n < s_next s. ir_id r = s_supply s n))"

abbreviation runs_in :: "database \<Rightarrow> ingestion_run list" where
  "runs_in db \<equiv> db_ingestion_runs db"

lemma open_run_effect:
  assumes "open_run R H ly cfg oid src key resume now s = (r, s')"
  shows "case r of Inl e \<Rightarrow> s' = s
    | Inr op \<Rightarrow> s_committed s' = s_working s' \<and> runs_in (s_working s') = runs_in (s_working s) @ [op_run op]
        \<and> db_raw_snapshots (s_working s') = db_raw_snapshots (s_working s)
        \<and> ir_status (op_run op) = ''running'' \<and> load_configuration H ly cfg src = Inr (op_config op)
        \<and> (ingestion_ids_ok s \<longrightarrow> ir_id (op_run op) \<notin> ir_id ` set (runs_in (s_working s)))"
proof -
  have fresh: "s_supply s (Suc (s_next s)) \<notin> ir_id ` set (runs_in (s_working s))" if "ingestion_ids_ok s"
  proof
    assume "s_supply s (Suc (s_next s)) \<in> ir_id ` set (runs_in (s_working s))"
    then obtain x where x: "x \<in> set (runs_in (s_working s))" "s_supply s (Suc (s_next s)) = ir_id x" by blast
    with that obtain n where "n < s_next s" "s_supply s (Suc (s_next s)) = s_supply s n"
      unfolding ingestion_ids_ok_def by metis
    with that show False by (auto simp: ingestion_ids_ok_def dest: injD)
  qed
  show ?thesis using assms fresh
    by (auto simp: open_run_def add_row_def Let_def put_ingestion_run_def new_run_def take_uuid_def new_id_def
        split: sum.splits)
qed

lemma raw_store_session:
  "raw_store R cd dir batch src obj ct cv kv now (s, fs) = (r, s', fs') \<Longrightarrow> s_working s' = s_working s"
  by (auto simp: raw_store_def store_payload_def store_manifest_def Let_def take_uuid_def split: sum.splits if_splits prod.splits)

lemma extract_and_store_session:
  "extract_and_store R W st c src key obj cursor now (s, fs) = (r, s', fs') \<Longrightarrow> s_working s' = s_working s"
  by (auto simp: extract_and_store_def split: sum.splits prod.splits dest: raw_store_session)

lemma end_run_effect:
  assumes "runs_in (s_working s) = rows @ [run]" and "ir_id run \<notin> ir_id ` set rows"
  shows "runs_in (s_committed (end_run (ir_id run) f s)) = rows @ [f run]"
    and "s_working (end_run i f s) = s_committed (end_run i f s)"
    and "db_raw_snapshots (s_committed (end_run i f s)) = db_raw_snapshots (s_working s)"
proof -
  have "update_where (\<lambda>r. ir_id r = ir_id run) f rows = rows"
    using assms(2) by (auto simp: update_where_def image_iff intro!: map_idI)
  then show "runs_in (s_committed (end_run (ir_id run) f s)) = rows @ [f run]"
    using assms(1) by (simp add: end_run_def update_where_def)
qed (simp_all add: end_run_def)

lemma goc_snapshot_effect:
  assumes "goc_snapshot m run_id now k s = (snap, s')"
  shows "runs_in (s_working s') = runs_in (s_working s)" and "snap \<in> set (db_raw_snapshots (s_working s'))"
    and "rs_source_object_id snap = fst k" "rs_checksum_sha256 snap = snd k"
  using snapshots.goc_by_mem [OF assms] assms
  by (auto simp: snapshot_key_def goc_by_def add_row_def Let_def put_snapshot_def split: option.splits)

lemma finish_ingestion_effect:
  assumes "finish_ingestion (ir_id run) object_id now bs s = (oc, s')"
    and "runs_in (s_working s) = rows @ [run]" and "ir_id run \<notin> ir_id ` set rows"
  shows "runs_in (s_committed s') = rows @ [succeed_run (eb_cursor (fst bs)) now run]" "s_working s' = s_committed s'"
    and "io_run_id oc = ir_id run" "io_cursor oc = eb_cursor (fst bs)"
    and "\<exists>snap \<in> set (db_raw_snapshots (s_committed s')). rs_id snap = io_snapshot_id oc
      \<and> rs_checksum_sha256 snap = io_checksum_sha256 oc \<and> rs_storage_uri snap = io_storage_uri oc
      \<and> rs_source_object_id snap = object_id"
proof -
  let ?m = "st_manifest (snd bs)"
  obtain snap s1 where g: "goc_snapshot ?m (ir_id run) now (object_id, sm_checksum_sha256 ?m) s = (snap, s1)"
    by (metis prod.exhaust)
  have oc: "io_run_id oc = ir_id run" "io_cursor oc = eb_cursor (fst bs)" "io_snapshot_id oc = rs_id snap"
    "io_checksum_sha256 oc = rs_checksum_sha256 snap" "io_storage_uri oc = rs_storage_uri snap"
    and s': "s' = end_run (ir_id run) (succeed_run (eb_cursor (fst bs)) now) s1"
    using assms(1) g by (auto simp: finish_ingestion_def Let_def)
  have rows: "runs_in (s_working s1) = rows @ [run]" using goc_snapshot_effect(1) [OF g] assms(2) by simp
  note e = end_run_effect [OF rows assms(3)]
  show "runs_in (s_committed s') = rows @ [succeed_run (eb_cursor (fst bs)) now run]" "s_working s' = s_committed s'"
    "io_run_id oc = ir_id run" "io_cursor oc = eb_cursor (fst bs)" using e(1,2) oc by (simp_all add: s')
  show "\<exists>snap \<in> set (db_raw_snapshots (s_committed s')). rs_id snap = io_snapshot_id oc
      \<and> rs_checksum_sha256 snap = io_checksum_sha256 oc \<and> rs_storage_uri snap = io_storage_uri oc
      \<and> rs_source_object_id snap = object_id"
    using goc_snapshot_effect(2,3) [OF g] e(3) oc by (intro bexI [of _ snap]) (simp_all add: s')
qed

section \<open>Properties of the service\<close>

text \<open>
  C19: an ingestion that gets past its checks leaves exactly one committed run row. When it
  returns, the run has succeeded with the returned cursor, and the returned snapshot is a committed
  row of the object with the returned checksum and location. When it raises, the run has failed
  with the code of the raised connector error, or the connector could not be built, and then
  the run is left running. An ingestion that fails its checks changes nothing.
\<close>

theorem ingestion_recorded:
  assumes "ingest R W st load_yaml config_root organization_id source_id object_key resume_from now (s, fs) = (r, s', fs')"
    and "ingestion_ids_ok s"
  shows "(\<exists>e. r = Inl e \<and> s' = s \<and> fs' = fs)
    \<or> (\<exists>run. runs_in (s_committed s') = runs_in (s_working s) @ [run] \<and> s_working s' = s_committed s'
        \<and> (case r of
             Inr oc \<Rightarrow> ir_id run = io_run_id oc \<and> ir_status run = ''succeeded'' \<and> ir_cursor_json run = io_cursor oc
               \<and> (\<exists>snap \<in> set (db_raw_snapshots (s_committed s')). rs_id snap = io_snapshot_id oc
                    \<and> rs_checksum_sha256 snap = io_checksum_sha256 oc \<and> rs_storage_uri snap = io_storage_uri oc)
           | Inl e \<Rightarrow> (\<exists>code message. e = ConnectorError code message \<and> ir_status run = ''failed'' \<and> ir_failure_code run = Some code)
               \<or> (ir_status run = ''running'' \<and> (\<exists>config. load_configuration (sw_host W) load_yaml config_root source_id = Inr config
                    \<and> build_connector (sw_host W) st config = Inl e))))"
proof -
  obtain r1 s1 where o: "open_run R (sw_host W) load_yaml config_root organization_id source_id object_key resume_from now s = (r1, s1)"
    by (metis prod.exhaust)
  note op = open_run_effect [OF o]
  show ?thesis
  proof (cases r1)
    case (Inl e)
    with o op assms(1) show ?thesis by (auto simp: ingest_def)
  next
    case (Inr p)
    let ?run = "op_run p"
    have p: "s_committed s1 = s_working s1" "runs_in (s_working s1) = runs_in (s_working s) @ [?run]"
      "ir_status ?run = ''running''" "load_configuration (sw_host W) load_yaml config_root source_id = Inr (op_config p)"
      "ir_id ?run \<notin> ir_id ` set (runs_in (s_working s))"
      using op assms(2) Inr by simp_all
    show ?thesis
    proof (cases "build_connector (sw_host W) st (op_config p)")
      case (Inl e)
      with o Inr assms(1) have "r = Inl e" "s' = s1" by (auto simp: ingest_def)
      with p Inl show ?thesis by auto
    next
      case (Inr c)
      obtain r2 s2 fs2 where x: "extract_and_store R W st c source_id object_key (op_object p) (op_cursor p) now (s1, fs) = (r2, s2, fs2)"
        by (metis prod.exhaust)
      have rows: "runs_in (s_working s2) = runs_in (s_working s) @ [?run]"
        using extract_and_store_session [OF x] p(2) by simp
      show ?thesis
      proof (cases r2)
        case (Inl e)
        with o \<open>r1 = Inr p\<close> Inr x assms(1) have "r = Inl (ConnectorError (fst (public_error e)) (snd (public_error e)))"
          "s' = end_run (ir_id ?run) (fail_run (fst (public_error e)) (snd (public_error e)) now) s2" by (auto simp: ingest_def)
        with end_run_effect(1,2) [OF rows p(5)] show ?thesis by (auto simp: fail_run_def)
      next
        case (Inr bs)
        obtain oc s3 where f: "finish_ingestion (ir_id ?run) (so_id (op_source_object p)) now bs s2 = (oc, s3)" by (metis prod.exhaust)
        with o \<open>r1 = Inr p\<close> \<open>build_connector (sw_host W) st (op_config p) = Inr c\<close> Inr x assms(1)
        have "r = Inr oc" "s' = s3" by (auto simp: ingest_def)
        with finish_ingestion_effect [OF f rows p(5)] show ?thesis by (auto simp: succeed_run_def)
      qed
    qed
  qed
qed

text \<open>
  bytes that were ingested before are not registered again: a second ingestion of an object
  that stores the same checksum returns the same snapshot, says that it was reused and adds no
  snapshot row.
\<close>

theorem same_bytes_same_snapshot:
  assumes "finish_ingestion run1 object_id now1 bs1 s = (oc1, s1)"
    and "find_snapshot s2 = find_snapshot s1"
    and "sm_checksum_sha256 (st_manifest (snd bs2)) = sm_checksum_sha256 (st_manifest (snd bs1))"
    and "finish_ingestion run2 object_id now2 bs2 s2 = (oc2, s3)"
  shows "io_snapshot_id oc2 = io_snapshot_id oc1 \<and> io_reused_snapshot oc2
    \<and> db_raw_snapshots (s_working s3) = db_raw_snapshots (s_working s2)"
proof -
  let ?k = "(object_id, sm_checksum_sha256 (st_manifest (snd bs1)))"
  obtain snap t where g: "goc_snapshot (st_manifest (snd bs1)) run1 now1 ?k s = (snap, t)" by (metis prod.exhaust)
  then have 1: "io_snapshot_id oc1 = rs_id snap" "s1 = end_run run1 (succeed_run (eb_cursor (fst bs1)) now1) t"
    using assms(1) by (auto simp: finish_ingestion_def Let_def)
  have "find_snapshot s1 ?k = Some snap"
    using snapshots.goc_finds [OF g] by (simp add: 1(2) find_by_def end_run_def)
  then have 2: "find_snapshot s2 ?k = Some snap" by (simp add: assms(2))
  from snapshots.hit [OF this] assms(3,4) 1(1) 2 show ?thesis
    by (auto simp: finish_ingestion_def Let_def end_run_def)
qed

section \<open>A concrete source\<close>

definition demo_sha :: "string \<Rightarrow> string" where
  "demo_sha s = take 64 (map (\<lambda>c. ''abcdef'' ! (of_char c mod 6)) s @ replicate 64 (CHR ''0''))"

definition digest_runtime :: runtime where
  "digest_runtime = ascii_runtime\<lparr>rt_sha256 := demo_sha\<rparr>"

lemma demo_sha_shape: "digest_shape (rt_sha256 digest_runtime x)"
proof -
  have letter: "''abcdef'' ! (of_char c mod 6) \<in> set ''abcdef''" for c :: char
    by (rule nth_mem) simp
  have "set (demo_sha x) \<subseteq> set ''0abcdef''"
  proof
    fix d assume "d \<in> set (demo_sha x)"
    then have "d \<in> (\<lambda>c. ''abcdef'' ! (of_char c mod 6)) ` set x \<or> d = CHR ''0''"
      unfolding demo_sha_def by (auto dest!: in_set_takeD)
    then show "d \<in> set ''0abcdef''" using letter by (auto simp del: nth_Cons_numeral)
  qed
  then have "c \<in> set (demo_sha x) \<Longrightarrow> c \<in> set ''0abcdef''" for c by blast
  moreover have "CHR ''/'' \<notin> set ''0abcdef''" "CHR ''.'' \<notin> set ''0abcdef''" by simp_all
  ultimately have "CHR ''/'' \<notin> set (demo_sha x)" "CHR ''.'' \<notin> set (demo_sha x)" by blast+
  then show ?thesis by (simp add: digest_shape_def digest_runtime_def demo_sha_def)
qed

definition demo_files_host :: host where
  "demo_files_host = open_host\<lparr>ho_resolve := (\<lambda>p.
     if p = ''configs'' then Some [''configs'']
     else if p = ''configs/sources/hr.yml'' then Some [''configs'', ''sources'', ''hr.yml'']
     else if p = ''data'' then Some [''data'']
     else if p = ''data/staff.csv'' then Some [''data'', ''staff.csv''] else None)\<rparr>"

definition demo_world :: sources_world where
  "demo_world = \<lparr>sw_host = demo_files_host,
     sw_codecs = plain_codecs\<lparr>cd_read_bytes := (\<lambda>_. ''id''), cd_csv_dicts := (\<lambda>_ _ _. Inr [[(''id'', PStr ''1'')]])\<rparr>,
     sw_client = demo_client, sw_databases = (\<lambda>_. demo_pg)\<rparr>"

definition demo_settings :: settings where
  "demo_settings = \<lparr>set_environment = ''test'', set_database_url = [], set_log_level = ''INFO'', set_demo_mode = True,
     set_api_title = [], set_api_version = ''0.4.0'', set_allowed_origins = [], set_raw_store_root = ''raw'',
     set_allowed_file_roots = [''data''], set_max_source_bytes = 10, set_max_archive_members = 10,
     set_allow_private_network_sources = False, set_http_timeout_seconds = 30, set_export_root = ''exports'',
     set_mart_root = ''marts'', set_lineage_root = ''lineage'', set_telemetry_enabled = True, set_telemetry_service_name = [],
     set_demo_identity_enabled = True, set_rate_limit_per_minute = 120, set_max_request_bytes = 100,
     set_raw_retention_days = 30, set_export_retention_days = 30\<rparr>"

definition demo_source :: "string \<Rightarrow> string option \<Rightarrow> source_config" where
  "demo_source kind secret = \<lparr>sc_schema_version = ''1.0'', sc_source_id = ''hr'', sc_name = ''HR'', sc_connector = kind,
     sc_owner_role = ''steward'', sc_data_classification = ''internal'', sc_secret_reference = secret, sc_base_url = None,
     sc_refresh_expectation = None, sc_max_bytes = 10, sc_allowed_roots = [''data''], sc_request_timeout_seconds = 30,
     sc_allow_private_network = False, sc_retry = demo_retry,
     sc_objects = [demo_object\<lparr>soc_object_type := ''file'', soc_location := ''data/staff.csv''\<rparr>]\<rparr>"

definition demo_ingest_db :: database where
  "demo_ingest_db = empty_db\<lparr>
     db_source_systems := [\<lparr>ss_id = 101, ss_created_at = 0, ss_organization_id = 7, ss_source_key = ''hr'', ss_name = ''HR'',
       ss_connector_type = ''csv'', ss_owner_role = None, ss_data_classification = ''internal'', ss_secret_reference = None, ss_active = True\<rparr>],
     db_source_objects := [\<lparr>so_id = 102, so_created_at = 0, so_source_system_id = 101, so_object_key = ''staff'',
       so_object_type = ''file'', so_location_template = None, so_refresh_expectation = None\<rparr>]\<rparr>"

definition demo_ingest_session :: session where
  "demo_ingest_session = \<lparr>s_committed = demo_ingest_db, s_working = demo_ingest_db, s_supply = (\<lambda>n. n), s_next = 0\<rparr>"

abbreviation demo_ingest :: "string \<Rightarrow> string option \<Rightarrow> int \<Rightarrow> session \<times> files \<Rightarrow> ingestion_outcome res \<times> session \<times> files" where
  "demo_ingest kind secret now \<equiv> ingest digest_runtime demo_world demo_settings (\<lambda>_. Inr (demo_source kind secret)) ''configs'' 7
     ''hr'' ''staff'' None now"

definition demo_staff_batch :: extraction_batch where
  "demo_staff_batch = \<lparr>eb_records = [[(''id'', PStr ''1'')]], eb_raw_bytes = ''id'', eb_content_type = ''text/csv'',
     eb_cursor = [], eb_metadata = []\<rparr>"

lemma demo_ingest_ids: "ingestion_ids_ok demo_ingest_session"
  by (simp add: ingestion_ids_ok_def demo_ingest_session_def demo_ingest_db_def empty_db_def inj_def)

lemma demo_ingest_succeeds: "\<not> isl (fst (demo_ingest ''csv'' None 5 (demo_ingest_session, Map.empty)))"
  by code_simp

theorem ingestion_recorded_witness:
  "\<exists>run oc. fst (demo_ingest ''csv'' None 5 (demo_ingest_session, Map.empty)) = Inr oc
    \<and> runs_in (s_committed (fst (snd (demo_ingest ''csv'' None 5 (demo_ingest_session, Map.empty))))) = [run]
    \<and> ir_status run = ''succeeded'' \<and> ir_id run = io_run_id oc"
proof -
  let ?x = "demo_ingest ''csv'' None 5 (demo_ingest_session, Map.empty)"
  obtain oc s' fs' where x: "?x = (Inr oc, s', fs')"
    using demo_ingest_succeeds by (metis isl_def old.sum.exhaust prod.collapse)
  from ingestion_recorded [OF x demo_ingest_ids] show ?thesis
    unfolding x by (auto simp: demo_ingest_session_def demo_ingest_db_def empty_db_def)
qed

lemma demo_store_returns:
  "\<exists>stored s' fs'. raw_store digest_runtime plain_codecs ''raw'' demo_staff_batch ''hr'' ''staff'' ''csv'' ''0.4.0'' ''1.0'' 5
     (fresh_session, Map.empty) = (Inr stored, s', fs')"
  by (simp add: raw_store_def store_payload_def Let_def take_uuid_def)

theorem raw_store_immutable_witness:
  "\<exists>stored s' fs' c. raw_store digest_runtime plain_codecs ''raw'' demo_staff_batch ''hr'' ''staff'' ''csv'' ''0.4.0'' ''1.0'' 5
     (fresh_session, Map.empty) = (Inr stored, s', fs') \<and> fs' (st_path stored) = Some c
     \<and> demo_sha c = demo_sha ''id''"
proof -
  obtain stored s' fs' where st: "raw_store digest_runtime plain_codecs ''raw'' demo_staff_batch ''hr'' ''staff'' ''csv'' ''0.4.0'' ''1.0'' 5
     (fresh_session, Map.empty) = (Inr stored, s', fs')" using demo_store_returns by blast
  from raw_store_immutable [OF demo_sha_shape _ st] st show ?thesis
    by (auto simp: raw_consistent_def demo_staff_batch_def digest_runtime_def)
qed

definition demo_stored :: stored_snapshot where
  "demo_stored = \<lparr>st_path = ''p'', st_manifest_path = ''m'', st_manifest = \<lparr>sm_source_id = ''hr'', sm_object_key = ''staff'',
     sm_connector_type = ''csv'', sm_connector_version = ''0.4.0'', sm_contract_version = ''1.0'', sm_extracted_at = ''t'',
     sm_checksum_sha256 = ''d'', sm_row_count = 1, sm_schema_fingerprint = ''f'', sm_storage_uri = ''u'', sm_content_type = ''text/csv'',
     sm_cursor = []\<rparr>, st_reused = False\<rparr>"

abbreviation demo_finish :: "uuid \<Rightarrow> int \<Rightarrow> session \<Rightarrow> ingestion_outcome \<times> session" where
  "demo_finish run now \<equiv> finish_ingestion run 102 now (demo_staff_batch, demo_stored)"

theorem same_bytes_same_snapshot_witness:
  "io_snapshot_id (fst (demo_finish 51 6 (snd (demo_finish 50 5 demo_ingest_session)))) = io_snapshot_id (fst (demo_finish 50 5 demo_ingest_session))
   \<and> io_reused_snapshot (fst (demo_finish 51 6 (snd (demo_finish 50 5 demo_ingest_session))))"
  using same_bytes_same_snapshot [of 50 102 5 "(demo_staff_batch, demo_stored)" demo_ingest_session _ _ _ _ 51 6 _ _,
      OF prod.collapse [symmetric] refl refl prod.collapse [symmetric]] by simp

text \<open>A source whose secret is missing: the error is raised, and its run stays running.\<close>

lemma missing_secret_leaves_run_running:
  "case demo_ingest ''postgresql'' (Some ''env://MISSING'') 5 (demo_ingest_session, Map.empty) of (r, s', fs') \<Rightarrow>
     r = Inl (ConnectorError ''secret_not_available'' ''Referenced secret is not available'')
     \<and> map (\<lambda>run. (ir_status run, ir_ended_at run, ir_failure_code run)) (runs_in (s_committed s')) = [(''running'', None, None)]"
  by code_simp

end
