(* ===== verification/Lineage.thy ===== *)
theory Lineage
  imports Store Files
begin

text \<open>
  Lineage (\<^verbatim>\<open>lineage/service.py\<close>): nodes and edges that are created once, the three
  recorders for mappings, marts and exports, the event file, and the trace that follows
  edges in both directions until nothing new is reached.
\<close>

section \<open>Nodes and edges\<close>

type_synonym node_key = "uuid \<times> string \<times> string \<times> string"
type_synonym edge_key = "uuid \<times> uuid \<times> uuid \<times> string"

definition find_node :: "session \<Rightarrow> node_key \<Rightarrow> lineage_node option" where
  "find_node s k = (case k of (organization_id, node_type, namespace, name) \<Rightarrow>
     find (\<lambda>n. ln_organization_id n = organization_id \<and> ln_node_type n = node_type
        \<and> ln_namespace n = namespace \<and> ln_name n = name) (db_lineage_nodes (s_working s)))"

definition put_node :: "lineage_node \<Rightarrow> database \<Rightarrow> database" where
  "put_node n db = db\<lparr>db_lineage_nodes := db_lineage_nodes db @ [n]\<rparr>"

definition new_node :: "pyrec \<Rightarrow> int \<Rightarrow> node_key \<Rightarrow> uuid \<Rightarrow> lineage_node" where
  "new_node facets now k i = (case k of (organization_id, node_type, namespace, name) \<Rightarrow>
     \<lparr>ln_id = i, ln_created_at = now, ln_organization_id = organization_id, ln_node_type = node_type,
      ln_namespace = namespace, ln_name = name, ln_facets_json = facets\<rparr>)"

definition node :: "pyrec \<Rightarrow> int \<Rightarrow> node_key \<Rightarrow> session \<Rightarrow> lineage_node \<times> session" where
  "node facets now k s = (case find_node s k of Some n \<Rightarrow> (n, s)
     | None \<Rightarrow> add_row (new_node facets now k) put_node s)"

definition find_edge :: "session \<Rightarrow> edge_key \<Rightarrow> lineage_edge option" where
  "find_edge s k = (case k of (organization_id, from_id, to_id, relation_type) \<Rightarrow>
     find (\<lambda>e. le_organization_id e = organization_id \<and> le_from_node_id e = from_id
        \<and> le_to_node_id e = to_id \<and> le_relation_type e = relation_type) (db_lineage_edges (s_working s)))"

definition put_edge :: "lineage_edge \<Rightarrow> database \<Rightarrow> database" where
  "put_edge e db = db\<lparr>db_lineage_edges := db_lineage_edges db @ [e]\<rparr>"

definition new_edge :: "pyrec \<Rightarrow> int \<Rightarrow> edge_key \<Rightarrow> uuid \<Rightarrow> lineage_edge" where
  "new_edge field_mapping now k i = (case k of (organization_id, from_id, to_id, relation_type) \<Rightarrow>
     \<lparr>le_id = i, le_created_at = now, le_organization_id = organization_id, le_from_node_id = from_id,
      le_to_node_id = to_id, le_relation_type = relation_type, le_field_mapping_json = field_mapping\<rparr>)"

definition connect_key :: "pyrec \<Rightarrow> int \<Rightarrow> edge_key \<Rightarrow> session \<Rightarrow> lineage_edge \<times> session" where
  "connect_key field_mapping now k s = (case find_edge s k of Some e \<Rightarrow> (e, s)
     | None \<Rightarrow> add_row (new_edge field_mapping now k) put_edge s)"

definition connect :: "uuid \<Rightarrow> lineage_node \<Rightarrow> lineage_node \<Rightarrow> string \<Rightarrow> pyrec \<Rightarrow> int \<Rightarrow> session \<Rightarrow> lineage_edge \<times> session" where
  "connect organization_id from_node to_node relation_type field_mapping now s =
     connect_key field_mapping now (organization_id, ln_id from_node, ln_id to_node, relation_type) s"

section \<open>Recorders\<close>

definition raw_node :: "runtime \<Rightarrow> uuid \<Rightarrow> uuid \<Rightarrow> int \<Rightarrow> session \<Rightarrow> lineage_node \<times> session" where
  "raw_node R organization_id snapshot_id now s =
     node [(''snapshot_id'', PStr (rt_uuid_str R snapshot_id))] now
       (organization_id, ''dataset'', ''eduwork.raw'', rt_uuid_str R snapshot_id) s"

definition mart_node :: "runtime \<Rightarrow> uuid \<Rightarrow> uuid \<Rightarrow> int \<Rightarrow> session \<Rightarrow> lineage_node \<times> session" where
  "mart_node R organization_id mart_id now s =
     node [(''mart_snapshot_id'', PStr (rt_uuid_str R mart_id))] now
       (organization_id, ''dataset'', ''eduwork.mart'', rt_uuid_str R mart_id) s"

text \<open>The names of a mapping's job and of the fields it fills.\<close>

definition mapping_job_name :: "string \<Rightarrow> string \<Rightarrow> string" where
  "mapping_job_name mapping_id version = mapping_id @ '':'' @ version"

definition field_name :: "runtime \<Rightarrow> string \<Rightarrow> pyval \<Rightarrow> string" where
  "field_name R mapping_id t = mapping_id @ ''.'' @ py_str R t"

definition identity_mapping :: "string list \<Rightarrow> pyrec" where
  "identity_mapping flds = fold (\<lambda>f d. dict_set f (PStr f) d) flds []"

text \<open>The loop of \<open>record_mapping\<close> over the rules.\<close>

fun record_targets :: "runtime \<Rightarrow> uuid \<Rightarrow> string \<Rightarrow> lineage_node \<Rightarrow> int \<Rightarrow> pyrec list \<Rightarrow> int \<Rightarrow> session
    \<Rightarrow> uuid list res \<times> session" where
  "record_targets R organization_id mapping_id job now [] sequence s = (Inr [], s)"
| "record_targets R organization_id mapping_id job now (rule # rules) sequence s =
     (case map_of rule ''target'' of None \<Rightarrow> (Inl (KeyError ''target''), s) | Some t \<Rightarrow>
      case node [(''target_field'', t)] now
             (organization_id, ''field'', ''eduwork.canonical'', field_name R mapping_id t) s of (target, s1) \<Rightarrow>
      case connect organization_id job target ''generated''
             [(''sequence'', PInt sequence), (''source'', get_field rule ''source''), (''target'', t),
              (''transform'', get_field rule ''transform'')] now s1 of (_, s2) \<Rightarrow>
      case record_targets R organization_id mapping_id job now rules (sequence + 1) s2 of
        (Inl e, s3) \<Rightarrow> (Inl e, s3)
      | (Inr ids, s3) \<Rightarrow> (Inr (ln_id target # ids), s3))"

definition record_mapping :: "runtime \<Rightarrow> uuid \<Rightarrow> uuid \<Rightarrow> string \<Rightarrow> string \<Rightarrow> pyrec list \<Rightarrow> int \<Rightarrow> session
    \<Rightarrow> uuid list res \<times> session" where
  "record_mapping R organization_id snapshot_id mapping_id mapping_version rules now s =
     (case raw_node R organization_id snapshot_id now s of (source, s1) \<Rightarrow>
      case node [(''mapping_id'', PStr mapping_id), (''version'', PStr mapping_version)] now
             (organization_id, ''job'', ''eduwork.mapping'', mapping_job_name mapping_id mapping_version) s1 of (job, s2) \<Rightarrow>
      case connect organization_id source job ''used'' [] now s2 of (_, s3) \<Rightarrow>
      case record_targets R organization_id mapping_id job now rules 1 s3 of
        (Inl e, s4) \<Rightarrow> (Inl e, s4)
      | (Inr ids, s4) \<Rightarrow> (Inr (ln_id source # ln_id job # ids), commit s4))"

text \<open>The upstream part of \<open>record_mart\<close>: the raw node, then the mapping job when one is named.\<close>

definition mart_source :: "runtime \<Rightarrow> uuid \<Rightarrow> uuid option \<Rightarrow> int \<Rightarrow> session \<Rightarrow> lineage_node option \<times> session" where
  "mart_source R organization_id source_snapshot_id now s = (case source_snapshot_id of
       None \<Rightarrow> (None, s)
     | Some i \<Rightarrow> (case raw_node R organization_id i now s of (n, s1) \<Rightarrow> (Some n, s1)))"

definition opt_str :: "string option \<Rightarrow> pyval" where
  "opt_str v = (case v of None \<Rightarrow> PNone | Some t \<Rightarrow> PStr t)"

definition version_text :: "string option \<Rightarrow> string" where
  "version_text v = (case v of None \<Rightarrow> ''unversioned'' | Some t \<Rightarrow> if t = [] then ''unversioned'' else t)"

definition mart_job :: "uuid \<Rightarrow> string option \<Rightarrow> string option \<Rightarrow> lineage_node option \<Rightarrow> int \<Rightarrow> session
    \<Rightarrow> lineage_node option \<times> session" where
  "mart_job organization_id mapping_id mapping_version upstream now s = (case mapping_id of
       None \<Rightarrow> (None, s)
     | Some m \<Rightarrow>
        (case node [(''mapping_id'', PStr m), (''version'', opt_str mapping_version)] now
                (organization_id, ''job'', ''eduwork.mapping'', mapping_job_name m (version_text mapping_version)) s of (job, s1) \<Rightarrow>
         (Some job, case upstream of None \<Rightarrow> s1 | Some u \<Rightarrow> snd (connect organization_id u job ''used'' [] now s1))))"

definition record_mart :: "runtime \<Rightarrow> uuid \<Rightarrow> uuid \<Rightarrow> uuid option \<Rightarrow> string option \<Rightarrow> string option \<Rightarrow> int \<Rightarrow> session
    \<Rightarrow> uuid list \<times> session" where
  "record_mart R organization_id mart_snapshot_id source_snapshot_id mapping_id mapping_version now s =
     (case mart_node R organization_id mart_snapshot_id now s of (mart, s1) \<Rightarrow>
      case mart_source R organization_id source_snapshot_id now s1 of (source, s2) \<Rightarrow>
      case mart_job organization_id mapping_id mapping_version source now s2 of (job, s3) \<Rightarrow>
      let upstream = (if job = None then source else job);
          s4 = (case upstream of None \<Rightarrow> s3 | Some u \<Rightarrow> snd (connect organization_id u mart ''produced'' [] now s3))
      in (ln_id mart # map ln_id (case source of None \<Rightarrow> [] | Some n \<Rightarrow> [n]) @ map ln_id (case job of None \<Rightarrow> [] | Some n \<Rightarrow> [n]),
          commit s4))"

definition record_export :: "runtime \<Rightarrow> uuid \<Rightarrow> uuid \<Rightarrow> uuid \<Rightarrow> string list \<Rightarrow> int \<Rightarrow> session \<Rightarrow> uuid list \<times> session" where
  "record_export R organization_id mart_id export_id flds now s =
     (case mart_node R organization_id mart_id now s of (mart, s1) \<Rightarrow>
      case node [(''export_snapshot_id'', PStr (rt_uuid_str R export_id)), (''fields'', PList (map PStr flds))] now
             (organization_id, ''dataset'', ''eduwork.export'', rt_uuid_str R export_id) s1 of (export, s2) \<Rightarrow>
      case connect organization_id mart export ''derived_from'' (identity_mapping flds) now s2 of
        (edge, s3) \<Rightarrow> ([ln_id mart, ln_id export, le_id edge], commit s3))"

section \<open>Event files\<close>

definition event_ref :: "string \<Rightarrow> pyval" where
  "event_ref name = PDict [(''namespace'', PStr ''eduwork''), (''name'', PStr name), (''facets'', PDict [])]"

definition openlineage_event :: "runtime \<Rightarrow> uuid \<Rightarrow> string \<Rightarrow> uuid \<Rightarrow> string \<Rightarrow> string list \<Rightarrow> string list \<Rightarrow> int \<Rightarrow> pyval" where
  "openlineage_event R organization_id job_name run_id event_type inputs outputs now =
     PDict [(''eventType'', PStr event_type), (''eventTime'', PStr (rt_isoformat R now)),
       (''producer'', PStr ''https://github.com/imtiazither/eduwork-databridge''),
       (''schemaURL'', PStr ''https://openlineage.io/spec/2-0-2/OpenLineage.json''),
       (''run'', PDict [(''runId'', PStr (rt_uuid_str R run_id)),
          (''facets'', PDict [(''eduwork'', PDict [(''organizationId'', PStr (rt_uuid_str R organization_id))])])]),
       (''job'', event_ref job_name),
       (''inputs'', PList (map event_ref inputs)), (''outputs'', PList (map event_ref outputs))]"

definition emit_openlineage_event :: "runtime \<Rightarrow> string \<Rightarrow> uuid \<Rightarrow> string \<Rightarrow> uuid \<Rightarrow> string \<Rightarrow> string list \<Rightarrow> string list
    \<Rightarrow> int \<Rightarrow> session \<times> files \<Rightarrow> string \<times> session \<times> files" where
  "emit_openlineage_event R event_root organization_id job_name run_id event_type inputs outputs now st =
     (case st of (s, fs) \<Rightarrow> case take_uuid s of (u, s') \<Rightarrow>
      let name = rt_uuid_str R run_id @ ''-'' @ rt_lower R event_type @ ''.json'';
          path = event_root @ ''/'' @ name;
          temporary = event_root @ ''/.'' @ name @ ''.'' @ rt_uuid_hex R u @ ''.tmp''
      in (path, s', publish temporary path
            (rt_json R (openlineage_event R organization_id job_name run_id event_type inputs outputs now) @ [CHR 0x0A]) fs))"

section \<open>Trace\<close>

record lineage_trace =
  lt_nodes :: "lineage_node list"
  lt_edges :: "lineage_edge list"

text \<open>One pass of the \<^verbatim>\<open>for\<close> loop over the edges, with the flag \<^verbatim>\<open>changed\<close>.\<close>

definition trace_edge :: "lineage_edge \<Rightarrow> uuid list \<times> bool \<Rightarrow> uuid list \<times> bool" where
  "trace_edge e st = (case st of (rel, changed) \<Rightarrow>
     let a = le_from_node_id e; b = le_to_node_id e;
         (rel1, changed1) = (if b \<in> set rel \<and> a \<notin> set rel then (a # rel, True) else (rel, changed))
     in if a \<in> set rel1 \<and> b \<notin> set rel1 then (b # rel1, True) else (rel1, changed1))"

definition trace_pass :: "lineage_edge list \<Rightarrow> uuid list \<Rightarrow> uuid list \<times> bool" where
  "trace_pass edges rel = fold trace_edge edges (rel, False)"

definition edge_ends :: "lineage_edge list \<Rightarrow> uuid set" where
  "edge_ends edges = le_from_node_id ` set edges \<union> le_to_node_id ` set edges"

lemma trace_edge_cases:
  assumes "trace_edge e (rel, c) = (rel', c')"
  shows "set rel \<subseteq> set rel'" and "set rel' \<subseteq> set rel \<union> {le_from_node_id e, le_to_node_id e}"
    and "c' \<longleftrightarrow> c \<or> set rel' \<noteq> set rel"
    and "set rel' \<noteq> set rel \<Longrightarrow> card (set rel) < card (set rel')"
proof -
  let ?a = "le_from_node_id e" and ?b = "le_to_node_id e"
  consider "?a \<in> set rel \<longleftrightarrow> ?b \<in> set rel" "rel' = rel" "c' = c"
    | "?a \<notin> set rel" "?b \<in> set rel" "rel' = ?a # rel" "c'"
    | "?a \<in> set rel" "?b \<notin> set rel" "rel' = ?b # rel" "c'"
    using assms by (cases "?a \<in> set rel"; cases "?b \<in> set rel") (simp_all add: trace_edge_def)
  note steps = this
  show "set rel \<subseteq> set rel'" using steps by cases auto
  show "set rel' \<subseteq> set rel \<union> {?a, ?b}" using steps by cases auto
  show "c' \<longleftrightarrow> c \<or> set rel' \<noteq> set rel" using steps by cases auto
  show "card (set rel) < card (set rel')" if "set rel' \<noteq> set rel" using steps that by cases simp_all
qed

lemma trace_fold:
  assumes "fold trace_edge edges (rel, c) = (rel', c')"
  shows "set rel \<subseteq> set rel' \<and> set rel' \<subseteq> set rel \<union> edge_ends edges \<and> (c' \<longleftrightarrow> c \<or> set rel' \<noteq> set rel)"
  using assms
proof (induction edges arbitrary: rel c)
  case (Cons e es)
  obtain r1 c1 where 1: "trace_edge e (rel, c) = (r1, c1)" by (metis prod.exhaust)
  with Cons.prems have 2: "fold trace_edge es (r1, c1) = (rel', c')" by simp
  from trace_edge_cases [OF 1] Cons.IH [OF 2] show ?case by (auto simp: edge_ends_def)
qed simp

lemma trace_pass_shrinks:
  assumes "(rel', True) = trace_pass edges rel"
  shows "card (edge_ends edges - set rel') < card (edge_ends edges - set rel)"
proof -
  from assms have "fold trace_edge edges (rel, False) = (rel', True)" by (simp add: trace_pass_def)
  from trace_fold [OF this] have "edge_ends edges - set rel' \<subset> edge_ends edges - set rel" by auto
  then show ?thesis by (simp add: psubset_card_mono edge_ends_def)
qed

text \<open>The loop \<^verbatim>\<open>while changed\<close>; each pass but the last reaches a new end of an edge.\<close>

function trace_loop :: "lineage_edge list \<Rightarrow> uuid list \<Rightarrow> uuid list" where
  "trace_loop edges rel = (case trace_pass edges rel of (rel', changed) \<Rightarrow>
     if changed then trace_loop edges rel' else rel')"
  by pat_completeness auto

termination
  by (relation "measure (\<lambda>(edges, rel). card (edge_ends edges - set rel))") (auto intro: trace_pass_shrinks)

declare trace_loop.simps [simp del]

definition trace_start :: "runtime \<Rightarrow> lineage_node list \<Rightarrow> uuid \<Rightarrow> uuid list" where
  "trace_start R nodes node_id = map ln_id (filter (\<lambda>n. ln_id n = node_id \<or> ln_name n = rt_uuid_str R node_id) nodes)"

definition trace :: "runtime \<Rightarrow> session \<Rightarrow> uuid \<Rightarrow> uuid \<Rightarrow> lineage_trace" where
  "trace R s organization_id node_id =
     (let nodes = filter (\<lambda>n. ln_organization_id n = organization_id) (db_lineage_nodes (s_working s));
          edges = filter (\<lambda>e. le_organization_id e = organization_id) (db_lineage_edges (s_working s));
          start = trace_start R nodes node_id
      in if start = [] then \<lparr>lt_nodes = [], lt_edges = []\<rparr>
         else let rel = trace_loop edges start in
           \<lparr>lt_nodes = filter (\<lambda>n. ln_id n \<in> set rel) nodes,
            lt_edges = filter (\<lambda>e. le_from_node_id e \<in> set rel \<and> le_to_node_id e \<in> set rel) edges\<rparr>)"

text \<open>The dictionaries a trace is returned as.\<close>

definition node_json :: "runtime \<Rightarrow> lineage_node \<Rightarrow> pyrec" where
  "node_json R n = [(''id'', PStr (rt_uuid_str R (ln_id n))), (''type'', PStr (ln_node_type n)),
     (''namespace'', PStr (ln_namespace n)), (''name'', PStr (ln_name n)), (''facets'', PDict (ln_facets_json n))]"

definition edge_json :: "runtime \<Rightarrow> lineage_edge \<Rightarrow> pyrec" where
  "edge_json R e = [(''id'', PStr (rt_uuid_str R (le_id e))), (''from'', PStr (rt_uuid_str R (le_from_node_id e))),
     (''to'', PStr (rt_uuid_str R (le_to_node_id e))), (''relation'', PStr (le_relation_type e)),
     (''field_mapping'', PDict (le_field_mapping_json e))]"

definition trace_json :: "runtime \<Rightarrow> lineage_trace \<Rightarrow> pyrec list \<times> pyrec list" where
  "trace_json R t = (map (node_json R) (lt_nodes t), map (edge_json R) (lt_edges t))"

section \<open>Lemmas: a trace is a connected component\<close>

definition edge_pairs :: "lineage_edge list \<Rightarrow> (uuid \<times> uuid) set" where
  "edge_pairs edges = (\<lambda>e. (le_from_node_id e, le_to_node_id e)) ` set edges"

text \<open>A pass adds only what is linked to what was there.\<close>

lemma trace_fold_sound:
  assumes "fold trace_edge edges (rel, c) = (rel', c')" and "set edges \<subseteq> set all"
    and "\<forall>x \<in> set rel. \<exists>a \<in> A. linked (edge_pairs all) a x"
  shows "\<forall>x \<in> set rel'. \<exists>a \<in> A. linked (edge_pairs all) a x"
  using assms
proof (induction edges arbitrary: rel c)
  case (Cons e es)
  obtain r1 c1 where 1: "trace_edge e (rel, c) = (r1, c1)" by (metis prod.exhaust)
  have "(le_from_node_id e, le_to_node_id e) \<in> edge_pairs all"
    using Cons.prems(2) by (auto simp: edge_pairs_def)
  then have l: "link_step (edge_pairs all) (le_from_node_id e) (le_to_node_id e)"
    "link_step (edge_pairs all) (le_to_node_id e) (le_from_node_id e)"
    by (auto simp: link_step_def)
  have "\<forall>x \<in> set r1. \<exists>a \<in> A. linked (edge_pairs all) a x"
    using 1 Cons.prems(3) l
    by (auto simp: trace_edge_def Let_def split: if_splits) (meson linked_step)+
  with Cons.IH [of r1 c1] Cons.prems 1 show ?case by simp
qed simp

text \<open>A pass that changes nothing has both ends of every edge or neither.\<close>

lemma trace_fold_closed:
  assumes "fold trace_edge edges (rel, False) = (rel', False)" and "e \<in> set edges"
  shows "le_from_node_id e \<in> set rel \<longleftrightarrow> le_to_node_id e \<in> set rel"
  using assms
proof (induction edges arbitrary: rel)
  case (Cons e' es)
  obtain r1 c1 where 1: "trace_edge e' (rel, False) = (r1, c1)" by (metis prod.exhaust)
  with Cons.prems have 2: "fold trace_edge es (r1, c1) = (rel', False)" by simp
  from trace_fold [OF 2] have c1: "c1 = False" by simp
  with trace_edge_cases(3) [OF 1] have same: "set r1 = set rel" by simp
  show ?case
  proof (cases "e = e'")
    case True
    with 1 c1 show ?thesis by (auto simp: trace_edge_def Let_def split: if_splits)
  next
    case False
    with Cons.IH [of r1] Cons.prems 2 c1 same show ?thesis by simp
  qed
qed simp

lemma trace_loop_spec:
  "set (trace_loop edges rel) = {x. \<exists>a \<in> set rel. linked (edge_pairs edges) a x}"
proof (induction edges rel rule: trace_loop.induct)
  case (1 edges rel)
  obtain rel' ch where p: "trace_pass edges rel = (rel', ch)" by (metis prod.exhaust)
  then have f: "fold trace_edge edges (rel, False) = (rel', ch)" by (simp add: trace_pass_def)
  note sub = trace_fold [OF f]
  have sound: "\<forall>x \<in> set rel'. \<exists>a \<in> set rel. linked (edge_pairs edges) a x"
    by (rule trace_fold_sound [OF f]) (auto intro: linked_refl)
  show ?case
  proof (cases ch)
    case True
    then have "set (trace_loop edges rel) = {x. \<exists>a \<in> set rel'. linked (edge_pairs edges) a x}"
      using 1 [OF p [symmetric]] p by (simp add: trace_loop.simps)
    moreover have "\<exists>a \<in> set rel. linked (edge_pairs edges) a x" if "b \<in> set rel'" "linked (edge_pairs edges) b x" for b x
      using sound that by (meson linked_trans)
    ultimately show ?thesis using sub by blast
  next
    case False
    then have same: "set rel' = set rel" and res: "trace_loop edges rel = rel'"
      using sub p by (auto simp: trace_loop.simps)
    have "x \<in> set rel" if "linked (edge_pairs edges) a x" and a: "a \<in> set rel" for a x
      using that(1) unfolding linked_def
    proof (induction rule: rtranclp_induct)
      case base
      show ?case by (rule a)
    next
      case (step y z)
      from step.hyps(2) obtain e where "e \<in> set edges"
        "(y = le_from_node_id e \<and> z = le_to_node_id e) \<or> (z = le_from_node_id e \<and> y = le_to_node_id e)"
        by (auto simp: link_step_def edge_pairs_def)
      moreover have "fold trace_edge edges (rel, False) = (rel', False)" using f False by simp
      ultimately show ?case using step.IH trace_fold_closed by metis
    qed
    then have "{x. \<exists>a \<in> set rel. linked (edge_pairs edges) a x} = set rel"
      by (intro set_eqI iffI) (simp, blast, simp, metis linked_refl)
    then show ?thesis by (simp add: res same)
  qed
qed

section \<open>Lemmas: nodes and edges are created once\<close>

interpretation nodes: get_or_create find_node "node facets now" for facets now
proof unfold_locales
  fix s k r
  assume "find_node s k = Some r"
  then show "node facets now k s = (r, s)" by (simp add: node_def)
next
  fix s k r s'
  assume none: "find_node s k = None" and g: "node facets now k s = (r, s')"
  obtain o' t ns nm where k: "k = (o', t, ns, nm)" by (metis prod.exhaust)
  have r: "ln_organization_id r = o'" "ln_node_type r = t" "ln_namespace r = ns" "ln_name r = nm"
    "db_lineage_nodes (s_working s') = db_lineage_nodes (s_working s) @ [r]"
    using g none k by (auto simp: node_def add_row_def Let_def put_node_def new_node_def)
  show "find_node s' k = Some r \<and> (\<forall>k'. k' \<noteq> k \<longrightarrow> find_node s' k' = find_node s k')"
    using none r k by (auto simp: find_node_def find_snoc split: option.splits)
qed

interpretation edges: get_or_create find_edge "connect_key mapping now" for mapping now
proof unfold_locales
  fix s k r
  assume "find_edge s k = Some r"
  then show "connect_key mapping now k s = (r, s)" by (simp add: connect_key_def)
next
  fix s k r s'
  assume none: "find_edge s k = None" and g: "connect_key mapping now k s = (r, s')"
  obtain o' a b rel where k: "k = (o', a, b, rel)" by (metis prod.exhaust)
  have r: "le_organization_id r = o'" "le_from_node_id r = a" "le_to_node_id r = b" "le_relation_type r = rel"
    "db_lineage_edges (s_working s') = db_lineage_edges (s_working s) @ [r]"
    using g none k by (auto simp: connect_key_def add_row_def Let_def put_edge_def new_edge_def)
  show "find_edge s' k = Some r \<and> (\<forall>k'. k' \<noteq> k \<longrightarrow> find_edge s' k' = find_edge s k')"
    using none r k by (auto simp: find_edge_def find_snoc split: option.splits)
qed

text \<open>A later session that still has everything an earlier one had.\<close>

definition knows :: "session \<Rightarrow> session \<Rightarrow> bool" where
  "knows s s' = ((\<forall>k n. find_node s k = Some n \<longrightarrow> find_node s' k = Some n)
     \<and> (\<forall>k e. find_edge s k = Some e \<longrightarrow> find_edge s' k = Some e))"

lemma knows_refl [simp]: "knows s s" and knows_commit [simp]: "knows s (commit s') \<longleftrightarrow> knows s s'"
  by (simp_all add: knows_def find_node_def find_edge_def)

lemma knows_trans [trans]: "knows s s' \<Longrightarrow> knows s' s'' \<Longrightarrow> knows s s''"
  by (simp add: knows_def)

lemma node_knows: assumes "node facets now k s = (n, s')" shows "knows s s'" "find_node s' k = Some n"
proof -
  have "db_lineage_edges (s_working s') = db_lineage_edges (s_working s)"
    using assms by (auto simp: node_def add_row_def Let_def put_node_def split: option.splits)
  then show "knows s s'" using nodes.goc_keeps [OF assms] by (simp add: knows_def find_edge_def)
  show "find_node s' k = Some n" by (rule nodes.goc_finds [OF assms])
qed

lemma connect_knows:
  assumes "connect o' a b rel m now s = (e, s')"
  shows "knows s s'" "find_edge s' (o', ln_id a, ln_id b, rel) = Some e"
proof -
  note c = assms [unfolded connect_def]
  have "db_lineage_nodes (s_working s') = db_lineage_nodes (s_working s)"
    using c by (auto simp: connect_key_def add_row_def Let_def put_edge_def split: option.splits)
  then show "knows s s'" using edges.goc_keeps [OF c] by (simp add: knows_def find_node_def)
  show "find_edge s' (o', ln_id a, ln_id b, rel) = Some e" by (rule edges.goc_finds [OF c])
qed

text \<open>What is known already is returned without a change.\<close>

lemma node_known: "find_node s k = Some n \<Longrightarrow> knows s s' \<Longrightarrow> node facets now k s' = (n, s')"
  by (rule nodes.hit) (auto simp only: knows_def)

lemma connect_known:
  "find_edge s (o', ln_id a, ln_id b, rel) = Some e \<Longrightarrow> knows s s' \<Longrightarrow> connect o' a b rel m now s' = (e, s')"
  unfolding connect_def by (rule edges.hit) (auto simp only: knows_def)

lemma record_targets_step:
  assumes "record_targets R o' m job now (rule # rules) n s = (Inr ids, s')"
  obtains v target s1 e s2 ids' fm where "map_of rule ''target'' = Some v"
    "node [(''target_field'', v)] now (o', ''field'', ''eduwork.canonical'', field_name R m v) s = (target, s1)"
    "connect o' job target ''generated'' fm now s1 = (e, s2)"
    "record_targets R o' m job now rules (n + 1) s2 = (Inr ids', s')" "ids = ln_id target # ids'"
  using assms by (auto split: option.splits prod.splits sum.splits)

lemma record_targets_known:
  assumes "record_targets R o' m job now rules n s = (Inr ids, s')"
  shows "knows s s' \<and> (\<forall>t n'. knows s' t \<longrightarrow> record_targets R o' m job now' rules n' t = (Inr ids, t))"
  using assms
proof (induction rules arbitrary: n s ids)
  case Nil
  then show ?case by simp
next
  case (Cons rule rules)
  from record_targets_step [OF Cons.prems] obtain v target s1 e s2 ids' fm where v: "map_of rule ''target'' = Some v"
    and n: "node [(''target_field'', v)] now (o', ''field'', ''eduwork.canonical'', field_name R m v) s = (target, s1)"
    and c: "connect o' job target ''generated'' fm now s1 = (e, s2)"
    and r: "record_targets R o' m job now rules (n + 1) s2 = (Inr ids', s')" and ids: "ids = ln_id target # ids'" .
  note IH = Cons.IH [OF r]
  have k: "knows s s'" "knows s1 s'" "knows s2 s'"
    using node_knows(1) [OF n] connect_knows(1) [OF c] IH by (blast intro: knows_trans)+
  have "record_targets R o' m job now' (rule # rules) n' t = (Inr ids, t)" if t: "knows s' t" for t n'
  proof -
    have "node fc now' (o', ''field'', ''eduwork.canonical'', field_name R m v) t = (target, t)" for fc
      by (rule node_known [OF node_knows(2) [OF n] knows_trans [OF k(2) t]])
    moreover have "connect o' job target ''generated'' fm' now' t = (e, t)" for fm'
      by (rule connect_known [OF connect_knows(2) [OF c] knows_trans [OF k(3) t]])
    ultimately show ?thesis using IH t by (simp only: record_targets.simps v ids option.case prod.case sum.case)
  qed
  with k(1) show ?case by blast
qed

section \<open>Lemmas: what the recorders leave behind\<close>

definition org_nodes :: "session \<Rightarrow> uuid \<Rightarrow> lineage_node list" where
  "org_nodes s organization_id = filter (\<lambda>n. ln_organization_id n = organization_id) (db_lineage_nodes (s_working s))"

definition org_links :: "session \<Rightarrow> uuid \<Rightarrow> (uuid \<times> uuid) set" where
  "org_links s organization_id =
     edge_pairs (filter (\<lambda>e. le_organization_id e = organization_id) (db_lineage_edges (s_working s)))"

lemma find_node_org: "find_node s (o', t, ns, nm) = Some n \<Longrightarrow> n \<in> set (org_nodes s o') \<and> ln_name n = nm"
  by (auto simp: find_node_def org_nodes_def find_Some_iff)

lemma find_edge_link: "find_edge s (o', a, b, rel) = Some e \<Longrightarrow> (a, b) \<in> org_links s o'"
  by (force simp: find_edge_def org_links_def edge_pairs_def find_Some_iff)

lemma knows_node: "knows s t \<Longrightarrow> find_node s k = Some n \<Longrightarrow> find_node t k = Some n"
  and knows_edge: "knows s t \<Longrightarrow> find_edge s ke = Some e \<Longrightarrow> find_edge t ke = Some e"
  by (simp_all only: knows_def)

lemma trace_nodes:
  "set (lt_nodes (trace R s o' i)) =
     {n \<in> set (org_nodes s o'). \<exists>a \<in> set (trace_start R (org_nodes s o') i). linked (org_links s o') a (ln_id n)}"
proof (cases "trace_start R (org_nodes s o') i = []")
  case True
  then show ?thesis by (simp add: trace_def org_nodes_def)
next
  case False
  then show ?thesis unfolding trace_def Let_def org_nodes_def org_links_def by (auto simp: trace_loop_spec)
qed

lemma record_mart_effect:
  assumes "record_mart R o' m (Some src) mapping version now s = (ids, s')"
  shows "knows s s'"
    and "\<exists>mart raw. find_node s' (o', ''dataset'', ''eduwork.mart'', rt_uuid_str R m) = Some mart
      \<and> find_node s' (o', ''dataset'', ''eduwork.raw'', rt_uuid_str R src) = Some raw
      \<and> linked (org_links s' o') (ln_id raw) (ln_id mart)"
proof -
  obtain mart s1 where 1: "mart_node R o' m now s = (mart, s1)" by (metis prod.exhaust)
  obtain raw s2 where 2: "raw_node R o' src now s1 = (raw, s2)" by (metis prod.exhaust)
  have n1: "knows s s1" "find_node s1 (o', ''dataset'', ''eduwork.mart'', rt_uuid_str R m) = Some mart"
    using node_knows [OF 1 [unfolded mart_node_def]] by auto
  have n2: "knows s1 s2" "find_node s2 (o', ''dataset'', ''eduwork.raw'', rt_uuid_str R src) = Some raw"
    using node_knows [OF 2 [unfolded raw_node_def]] by auto
  have up: "\<exists>u s3 s4 e. knows s2 s3 \<and> linked (org_links s4 o') (ln_id raw) (ln_id u)
      \<and> connect o' u mart ''produced'' [] now s3 = (e, s4) \<and> s' = commit s4"
  proof (cases mapping)
    case None
    obtain e s4 where c: "connect o' raw mart ''produced'' [] now s2 = (e, s4)" by (metis prod.exhaust)
    have "s' = commit s4"
      using None assms 1 2 c by (simp add: record_mart_def mart_source_def mart_job_def)
    show ?thesis
      by (rule exI [of _ raw], rule exI [of _ s2], rule exI [of _ s4], rule exI [of _ e]) (simp add: c \<open>s' = commit s4\<close>)
  next
    case (Some mp)
    obtain job s3 where j: "node [(''mapping_id'', PStr mp), (''version'', opt_str version)] now
        (o', ''job'', ''eduwork.mapping'', mapping_job_name mp (version_text version)) s2 = (job, s3)" by (metis prod.exhaust)
    obtain e3 s3' where u: "connect o' raw job ''used'' [] now s3 = (e3, s3')" by (metis prod.exhaust)
    obtain e s4 where c: "connect o' job mart ''produced'' [] now s3' = (e, s4)" by (metis prod.exhaust)
    have "s' = commit s4"
      using Some assms 1 2 j u c by (simp add: record_mart_def mart_source_def mart_job_def)
    moreover have "linked (org_links s4 o') (ln_id raw) (ln_id job)"
      by (rule linked_pair, rule find_edge_link, rule knows_edge [OF connect_knows(1) [OF c] connect_knows(2) [OF u]])
    moreover have "knows s2 s3'" using node_knows(1) [OF j] connect_knows(1) [OF u] by (rule knows_trans)
    ultimately show ?thesis using c by blast
  qed
  then obtain u s3 s4 e where u: "knows s2 s3" "linked (org_links s4 o') (ln_id raw) (ln_id u)"
    "connect o' u mart ''produced'' [] now s3 = (e, s4)" "s' = commit s4" by blast
  have k: "knows s2 s4" using u(1) connect_knows(1) [OF u(3)] by (rule knows_trans)
  show "knows s s'" using n1(1) n2(1) k by (auto simp: u(4) intro: knows_trans)
  have "find_node s4 (o', ''dataset'', ''eduwork.mart'', rt_uuid_str R m) = Some mart"
    using n1(2) n2(1) k knows_trans knows_node by blast
  moreover have "find_node s4 (o', ''dataset'', ''eduwork.raw'', rt_uuid_str R src) = Some raw"
    using n2(2) k knows_node by blast
  moreover have "linked (org_links s4 o') (ln_id raw) (ln_id mart)"
    using u(2) linked_pair [OF find_edge_link [OF connect_knows(2) [OF u(3)]]] by (rule linked_trans)
  ultimately show "\<exists>mart raw. find_node s' (o', ''dataset'', ''eduwork.mart'', rt_uuid_str R m) = Some mart
      \<and> find_node s' (o', ''dataset'', ''eduwork.raw'', rt_uuid_str R src) = Some raw
      \<and> linked (org_links s' o') (ln_id raw) (ln_id mart)"
    by (simp add: u(4) find_node_def org_links_def)
qed

lemma record_export_effect:
  assumes "record_export R o' m x flds now s = (ids, s')"
  shows "knows s s'"
    and "\<exists>mart ex. find_node s' (o', ''dataset'', ''eduwork.mart'', rt_uuid_str R m) = Some mart
      \<and> find_node s' (o', ''dataset'', ''eduwork.export'', rt_uuid_str R x) = Some ex
      \<and> (ln_id mart, ln_id ex) \<in> org_links s' o'"
proof -
  obtain mart s1 where 1: "mart_node R o' m now s = (mart, s1)" by (metis prod.exhaust)
  obtain ex s2 where 2: "node [(''export_snapshot_id'', PStr (rt_uuid_str R x)), (''fields'', PList (map PStr flds))] now
             (o', ''dataset'', ''eduwork.export'', rt_uuid_str R x) s1 = (ex, s2)" by (metis prod.exhaust)
  obtain e s3 where 3: "connect o' mart ex ''derived_from'' (identity_mapping flds) now s2 = (e, s3)"
    by (meson surj_pair)
  have s': "s' = commit s3" using assms by (simp add: record_export_def 1 2 3)
  note k = node_knows [OF 1 [unfolded mart_node_def]] node_knows [OF 2] connect_knows [OF 3]
  show "knows s s'" using k(1,3,5) by (auto simp: s' intro: knows_trans)
  have "find_node s3 (o', ''dataset'', ''eduwork.mart'', rt_uuid_str R m) = Some mart"
    using k(2,3,5) knows_node by blast
  moreover have "find_node s3 (o', ''dataset'', ''eduwork.export'', rt_uuid_str R x) = Some ex"
    using k(4,5) knows_node by blast
  ultimately show "\<exists>mart ex. find_node s' (o', ''dataset'', ''eduwork.mart'', rt_uuid_str R m) = Some mart
      \<and> find_node s' (o', ''dataset'', ''eduwork.export'', rt_uuid_str R x) = Some ex
      \<and> (ln_id mart, ln_id ex) \<in> org_links s' o'"
    using find_edge_link [OF k(6)] by (simp add: s' find_node_def org_links_def)
qed

lemma knows_linked:
  assumes "linked (org_links s o') a b" and "knows s t"
  shows "linked (org_links t o') a b"
  using assms(1)
proof (rule linked_mono)
  show "org_links s o' \<subseteq> org_links t o'"
  proof
    fix p assume "p \<in> org_links s o'"
    then obtain e where e: "e \<in> set (db_lineage_edges (s_working s))" "le_organization_id e = o'"
      "p = (le_from_node_id e, le_to_node_id e)" by (auto simp: org_links_def edge_pairs_def)
    then have "find_edge s (o', fst p, snd p, le_relation_type e) \<noteq> None"
      by (auto simp: find_edge_def find_None_iff)
    then obtain e' where "find_edge s (o', fst p, snd p, le_relation_type e) = Some e'" by auto
    from find_edge_link [OF knows_edge [OF assms(2) this]] show "p \<in> org_links t o'" by simp
  qed
qed

section \<open>Properties of lineage\<close>

text \<open>
  C12: a trace returns exactly the organization's nodes that some chain of its edges, followed in
  either direction, joins to a node with the requested id or name; the loop ends on every graph,
  cyclic ones included.
\<close>

theorem trace_is_component:
  "set (lt_nodes (trace R s o' i)) =
     {n \<in> set (org_nodes s o'). \<exists>a \<in> set (org_nodes s o'). (ln_id a = i \<or> ln_name a = rt_uuid_str R i)
        \<and> linked (org_links s o') (ln_id a) (ln_id n)}"
  by (auto simp: trace_nodes trace_start_def)

text \<open>
  recording a mapping a second time, at any later time, returns the same node ids and
  changes nothing: no node and no edge is ever duplicated.
\<close>

theorem record_mapping_idempotent:
  assumes "record_mapping R o' snap m v rules now s = (Inr ids, s')"
  shows "record_mapping R o' snap m v rules now' s' = (Inr ids, s')"
proof -
  obtain source s1 where 1: "raw_node R o' snap now s = (source, s1)" by (metis prod.exhaust)
  obtain job s2 where 2: "node [(''mapping_id'', PStr m), (''version'', PStr v)] now
    (o', ''job'', ''eduwork.mapping'', mapping_job_name m v) s1 = (job, s2)" by (metis prod.exhaust)
  obtain e s3 where 3: "connect o' source job ''used'' [] now s2 = (e, s3)" by (metis prod.exhaust)
  from assms obtain ids' s4 where 4: "record_targets R o' m job now rules 1 s3 = (Inr ids', s4)"
    and out: "ids = ln_id source # ln_id job # ids'" "s' = commit s4"
    by (auto simp: record_mapping_def 1 2 3 split: prod.splits sum.splits)
  have k4: "knows s3 s'" "knows s4 s'" using record_targets_known [OF 4] out by auto
  have k: "knows s2 s'" "knows s1 s'"
    using connect_knows(1) [OF 3] node_knows(1) [OF 2] k4 by (blast intro: knows_trans)+
  have "raw_node R o' snap now' s' = (source, s')"
    unfolding raw_node_def by (rule node_known [OF node_knows(2) [OF 1 [unfolded raw_node_def]] k(2)])
  moreover have "node [(''mapping_id'', PStr m), (''version'', PStr v)] now'
    (o', ''job'', ''eduwork.mapping'', mapping_job_name m v) s' = (job, s')"
    by (rule node_known [OF node_knows(2) [OF 2] k(1)])
  moreover have "connect o' source job ''used'' [] now' s' = (e, s')"
    by (rule connect_known [OF connect_knows(2) [OF 3] k4(1)])
  moreover have "record_targets R o' m job now' rules 1 s' = (Inr ids', s')"
    using record_targets_known [OF 4] k4(2) by blast
  moreover have "commit s' = s'" by (simp add: out commit_def)
  ultimately show ?thesis by (simp only: record_mapping_def prod.case sum.case out(1))
qed

text \<open>
  an export can be traced to its source: after a mart was recorded with its raw snapshot
  and, whatever else was recorded in between, an export of that mart, the trace of the
  export's id contains the nodes of the mart and of the raw snapshot.
\<close>

theorem export_traces_to_source:
  assumes "record_mart R o' m (Some src) mapping version now s = (ids, s1)" and "knows s1 s2"
    and "record_export R o' m x flds now' s2 = (ids', s3)"
  shows "\<exists>mart raw. mart \<in> set (lt_nodes (trace R s3 o' x)) \<and> ln_name mart = rt_uuid_str R m
    \<and> raw \<in> set (lt_nodes (trace R s3 o' x)) \<and> ln_name raw = rt_uuid_str R src"
proof -
  from record_mart_effect(2) [OF assms(1)] obtain mart raw where
    m: "find_node s1 (o', ''dataset'', ''eduwork.mart'', rt_uuid_str R m) = Some mart"
    and r: "find_node s1 (o', ''dataset'', ''eduwork.raw'', rt_uuid_str R src) = Some raw"
    and l: "linked (org_links s1 o') (ln_id raw) (ln_id mart)" by blast
  have k: "knows s1 s3" using assms(2) record_export_effect(1) [OF assms(3)] by (rule knows_trans)
  from record_export_effect(2) [OF assms(3)] knows_node [OF k m] obtain ex where
    ex: "find_node s3 (o', ''dataset'', ''eduwork.export'', rt_uuid_str R x) = Some ex"
    "(ln_id mart, ln_id ex) \<in> org_links s3 o'" by auto
  note nodes = find_node_org [OF knows_node [OF k m]] find_node_org [OF knows_node [OF k r]] find_node_org [OF ex(1)]
  have lm: "linked (org_links s3 o') (ln_id ex) (ln_id mart)"
    by (rule linked_sym, rule linked_pair, rule ex(2))
  have lr: "linked (org_links s3 o') (ln_id ex) (ln_id raw)"
    using lm linked_sym [OF knows_linked [OF l k]] by (rule linked_trans)
  have start: "ln_id ex \<in> set (trace_start R (org_nodes s3 o') x)"
    using nodes by (auto simp: trace_start_def)
  from nodes start lm lr show ?thesis unfolding trace_nodes by blast
qed

definition demo_lineage :: session where
  "demo_lineage = snd (record_mapping ascii_runtime 1 40 ''people'' ''1.0'' [[(''target'', PStr ''id'')], [(''target'', PStr ''label'')]] 7
     (fresh_session\<lparr>s_next := 100\<rparr>))"

lemma demo_lineage_records:
  "\<exists>ids. record_mapping ascii_runtime 1 40 ''people'' ''1.0'' [[(''target'', PStr ''id'')], [(''target'', PStr ''label'')]] 7
     (fresh_session\<lparr>s_next := 100\<rparr>) = (Inr ids, demo_lineage)"
proof -
  have "\<not> isl (fst (record_mapping ascii_runtime 1 40 ''people'' ''1.0'' [[(''target'', PStr ''id'')], [(''target'', PStr ''label'')]] 7
     (fresh_session\<lparr>s_next := 100\<rparr>)))" by code_simp
  from returned_pair [OF this] show ?thesis unfolding demo_lineage_def by auto
qed

theorem record_mapping_idempotent_witness:
  "\<exists>ids. record_mapping ascii_runtime 1 40 ''people'' ''1.0'' [[(''target'', PStr ''id'')], [(''target'', PStr ''label'')]] 8
     demo_lineage = (Inr ids, demo_lineage)"
  using demo_lineage_records record_mapping_idempotent by blast

theorem export_traces_to_source_witness:
  "\<exists>s3 raw. raw \<in> set (lt_nodes (trace ascii_runtime s3 1 60)) \<and> ln_name raw = ''40''
     \<and> s3 = snd (record_export ascii_runtime 1 50 60 [''id''] 9
         (snd (record_mart ascii_runtime 1 50 (Some 40) (Some ''people'') (Some ''1.0'') 8 demo_lineage)))"
proof -
  let ?m = "record_mart ascii_runtime 1 50 (Some 40) (Some ''people'') (Some ''1.0'') 8 demo_lineage"
  let ?x = "record_export ascii_runtime 1 50 60 [''id''] 9 (snd ?m)"
  have "rt_uuid_str ascii_runtime 40 = ''40''" by code_simp
  with export_traces_to_source [of ascii_runtime 1 50 40 "Some ''people''" "Some ''1.0''" 8 demo_lineage "fst ?m" "snd ?m"
      "snd ?m" 60 "[''id'']" 9 "fst ?x" "snd ?x"]
  show ?thesis by auto
qed

end
