(* ===== verification/Publishing.thy ===== *)
theory Publishing
  imports Lineage Connector_Guards Keyed_Rows
begin

text \<open>
  Data marts, exports and retention (\<^verbatim>\<open>marts/\<close>, \<^verbatim>\<open>publishing/\<close>). The writers of Parquet, CSV and
  indented JSON are parameters that turn rows into file content. Paths are resolved texts; a
  directory is created before it is used.
\<close>

section \<open>Mart builder\<close>

definition select_fields :: "string list \<Rightarrow> pyrec \<Rightarrow> pyrec" where
  "select_fields flds record = fold (\<lambda>f row. dict_set f (get_field record f) row) flds []"

text \<open>\<^verbatim>\<open>int(record.get(field, 0) or 0)\<close>\<close>

definition int_or_0 :: "runtime \<Rightarrow> pyrec \<Rightarrow> string \<Rightarrow> int res" where
  "int_or_0 R record f = (let v = get_field_or record f (PInt 0) in py_int_of R (if truthy v then v else PInt 0))"

definition credential_row :: "runtime \<Rightarrow> int \<Rightarrow> pyrec \<Rightarrow> pyrec \<Rightarrow> pyrec res" where
  "credential_row R reference_time record row =
     (let expires_at = get_field record ''expires_at'' in
      if truthy expires_at then
        (case rt_fromiso R (iso_text R expires_at) of
           None \<Rightarrow> Inl (ValueError (''Invalid isoformat string: '' @ quote R (iso_text R expires_at)))
         | Some d \<Rightarrow>
             let utc = (case dt_offset d of None \<Rightarrow> dt_wall d | Some o' \<Rightarrow> dt_wall d - o') in
             if utc < 0 \<or> 3652059 * 86400000000 \<le> utc then Inl OverflowError
             else Inr (dict_set ''current_status'' (PStr (if utc < reference_time then ''expired'' else ''active'')) row))
      else Inr (dict_set ''current_status'' (PStr (py_str R (get_field_or record ''status'' (PStr ''unknown'')))) row))"

definition quality_row :: "runtime \<Rightarrow> pyrec \<Rightarrow> pyrec \<Rightarrow> pyrec res" where
  "quality_row R record row =
     (case int_or_0 R record ''evaluated'' of Inl e \<Rightarrow> Inl e | Inr evaluated \<Rightarrow>
      case int_or_0 R record ''failed'' of Inl e \<Rightarrow> Inl e | Inr failed \<Rightarrow>
      Inr (dict_set ''pass_rate'' (PFloat (Fin (if evaluated \<noteq> 0 then round8 (1 - of_int failed / of_int evaluated) else 1))) row))"

definition mart_row :: "runtime \<Rightarrow> mart_config \<Rightarrow> int \<Rightarrow> pyrec \<Rightarrow> pyrec res" where
  "mart_row R config reference_time record =
     (let row = select_fields (ma_fields config) record in
      if ma_entity config = ''training_participation'' then
        Inr (dict_set ''has_progress'' (PBool (\<not> blank (get_field record ''progress_percent'')))
              (dict_set ''is_completed'' (PBool (py_str R (get_field_or record ''status'' (PStr [])) = ''completed'')) row))
      else if ma_entity config = ''credential_status'' then credential_row R reference_time record row
      else if ma_entity config = ''quality_trend'' then quality_row R record row
      else Inr row)"

fun mart_build :: "runtime \<Rightarrow> mart_config \<Rightarrow> int \<Rightarrow> pyrec list \<Rightarrow> pyrec list res" where
  "mart_build R config reference_time [] = Inr []"
| "mart_build R config reference_time (r # rs) =
     (case mart_row R config reference_time r of Inl e \<Rightarrow> Inl e | Inr row \<Rightarrow>
      case mart_build R config reference_time rs of Inl e \<Rightarrow> Inl e | Inr rows \<Rightarrow> Inr (row # rows))"

section \<open>Mart service\<close>

record writers =
  wr_parquet :: "pyrec list \<Rightarrow> string res"
  wr_csv :: "string list \<Rightarrow> pyrec list \<Rightarrow> string"
  wr_json :: "pyval \<Rightarrow> string"

record mart_outcome =
  mao_snapshot_id :: uuid
  mao_storage_uri :: string
  mao_checksum_sha256 :: string
  mao_row_count :: int
  mao_reused :: bool
  mao_records :: "pyrec list"

definition derived_fields :: "string \<Rightarrow> string list" where
  "derived_fields entity =
     (if entity = ''training_participation'' then [''is_completed'', ''has_progress'']
      else if entity = ''credential_status'' then [''current_status'']
      else if entity = ''quality_trend'' then [''pass_rate''] else [])"

definition mart_dictionary :: "mart_config \<Rightarrow> pyrec" where
  "mart_dictionary config = fold (\<lambda>f d. dict_set f
       (PStr (case map_of (ma_definitions config) f of None \<Rightarrow> ''Undocumented field'' | Some t \<Rightarrow> t)) d)
     (ma_fields config @ derived_fields (ma_entity config)) []"

text \<open>
  A written temporary file takes its place under its digest, or is removed when a file
  with that digest is there already.
\<close>

definition settle :: "string \<Rightarrow> string \<Rightarrow> files \<Rightarrow> files res" where
  "settle temporary target fs = (if fs target \<noteq> None then unlink temporary fs else os_replace temporary target fs)"

definition put_mart :: "data_mart_snapshot \<Rightarrow> database \<Rightarrow> database" where
  "put_mart r db = db\<lparr>db_data_mart_snapshots := db_data_mart_snapshots db @ [r]\<rparr>"

type_synonym mart_key = "uuid \<times> string \<times> string \<times> string"

definition mart_key_of :: "data_mart_snapshot \<Rightarrow> mart_key" where
  "mart_key_of r = (dms_organization_id r, dms_mart_key r, dms_version r, dms_checksum_sha256 r)"

definition new_mart :: "string \<Rightarrow> nat \<Rightarrow> pyrec \<Rightarrow> pyrec \<Rightarrow> int \<Rightarrow> mart_key \<Rightarrow> uuid \<Rightarrow> data_mart_snapshot" where
  "new_mart uri n dictionary lineage now k i = (case k of (organization_id, mart_id, version, digest) \<Rightarrow>
     \<lparr>dms_id = i, dms_created_at = now, dms_organization_id = organization_id, dms_mart_key = mart_id, dms_version = version,
      dms_storage_uri = uri, dms_checksum_sha256 = digest, dms_row_count = int n, dms_dictionary_json = dictionary,
      dms_lineage_json = lineage, dms_published_at = now\<rparr>)"

definition mart_service_build :: "runtime \<Rightarrow> writers \<Rightarrow> string \<Rightarrow> uuid \<Rightarrow> pyrec list \<Rightarrow> mart_config \<Rightarrow> pyrec \<Rightarrow> int option \<Rightarrow> int
    \<Rightarrow> session \<times> files \<Rightarrow> mart_outcome res \<times> session \<times> files" where
  "mart_service_build R w dir organization_id records config lineage as_of now st =
     (case st of (s, fs) \<Rightarrow>
      case mart_build R config (case as_of of None \<Rightarrow> now | Some t \<Rightarrow> t) records of Inl e \<Rightarrow> (Inl e, s, fs) | Inr output \<Rightarrow>
      let directory = dir @ ''/'' @ rt_uuid_str R organization_id @ ''/'' @ ma_mart_id config in
      case take_uuid s of (u, s0) \<Rightarrow>
      let temporary = directory @ ''/.'' @ rt_uuid_hex R u @ ''.tmp.parquet'' in
      case wr_parquet w output of Inl e \<Rightarrow> (Inl e, s0, fs) | Inr content \<Rightarrow>
      let fs1 = write_text temporary content fs; digest = rt_sha256 R content; target = directory @ ''/'' @ digest @ ''.parquet'';
          reused_file = (fs1 target \<noteq> None); k = (organization_id, ma_mart_id config, ma_version config, digest) in
      case settle temporary target fs1 of Inl e \<Rightarrow> (Inl e, s0, fs1) | Inr fs2 \<Rightarrow>
      case goc_by db_data_mart_snapshots mart_key_of put_mart
             (new_mart (rt_as_uri R target) (length output) (mart_dictionary config) lineage now) k s0 of (m, s1) \<Rightarrow>
      let found = (find_by db_data_mart_snapshots mart_key_of s0 k \<noteq> None) in
      (Inr \<lparr>mao_snapshot_id = dms_id m, mao_storage_uri = dms_storage_uri m, mao_checksum_sha256 = dms_checksum_sha256 m,
            mao_row_count = dms_row_count m, mao_reused = (found \<or> reused_file), mao_records = output\<rparr>,
       (if found then s1 else commit s1), fs2))"

definition read_mart_records :: "runtime \<Rightarrow> (string \<Rightarrow> pyrec list res) \<Rightarrow> files \<Rightarrow> data_mart_snapshot \<Rightarrow> pyrec list res" where
  "read_mart_records R read_table fs m = (case rt_uri_path R (dms_storage_uri m) of
       None \<Rightarrow> Inl (ValueError ''Mart snapshot URI is not a local file'')
     | Some p \<Rightarrow> (case fs p of None \<Rightarrow> Inl FileNotFoundError | Some c \<Rightarrow> read_table c))"

section \<open>Exports\<close>

record export_outcome =
  eo_export_snapshot_id :: uuid
  eo_storage_uri :: string
  eo_checksum_sha256 :: string
  eo_row_count :: int
  eo_dictionary_uri :: string
  eo_expires_at :: string

definition export_mask :: "runtime \<Rightarrow> pyval \<Rightarrow> pyval" where
  "export_mask R v = (if blank v then PNone else PStr (''sha256:'' @ take 16 (rt_sha256 R (py_str R v))))"

definition sanitize_value :: "pyval \<Rightarrow> pyval" where
  "sanitize_value v = (case v of PStr t \<Rightarrow> PStr (sanitize_spreadsheet_cell t) | _ \<Rightarrow> v)"

definition export_cell :: "runtime \<Rightarrow> export_config \<Rightarrow> pyrec \<Rightarrow> string \<Rightarrow> pyval" where
  "export_cell R config record f =
     (let v = get_field record f in sanitize_value (if f \<in> set (ex_masked_fields config) then export_mask R v else v))"

definition export_row :: "runtime \<Rightarrow> export_config \<Rightarrow> pyrec \<Rightarrow> pyrec" where
  "export_row R config record = fold (\<lambda>f row. dict_set f (export_cell R config record f) row) (ex_fields config) []"

definition put_definition :: "export_definition \<Rightarrow> database \<Rightarrow> database" where
  "put_definition r db = db\<lparr>db_export_definitions := db_export_definitions db @ [r]\<rparr>"

definition definition_key :: "export_definition \<Rightarrow> uuid \<times> string \<times> string" where
  "definition_key r = (ed_organization_id r, ed_export_key r, ed_version r)"

definition new_definition :: "runtime \<Rightarrow> export_config \<Rightarrow> uuid \<Rightarrow> int \<Rightarrow> uuid \<times> string \<times> string \<Rightarrow> uuid \<Rightarrow> export_definition" where
  "new_definition R config mart_id now k i = (case k of (organization_id, export_key, version) \<Rightarrow>
     \<lparr>ed_id = i, ed_created_at = now, ed_organization_id = organization_id, ed_export_key = export_key, ed_version = version,
      ed_format = ex_format config,
      ed_contract_json = [(''mart_id'', PStr (rt_uuid_str R mart_id)), (''fields'', PList (map PStr (ex_fields config))),
        (''masked_fields'', PList (map PStr (ex_masked_fields config))), (''retention_days'', PInt (ex_retention_days config))],
      ed_active = True\<rparr>)"

definition put_export :: "export_snapshot \<Rightarrow> database \<Rightarrow> database" where
  "put_export r db = db\<lparr>db_export_snapshots := db_export_snapshots db @ [r]\<rparr>"

definition export_key_of :: "export_snapshot \<Rightarrow> uuid \<times> uuid \<times> string" where
  "export_key_of r = (es_organization_id r, es_export_definition_id r, es_checksum_sha256 r)"

definition new_export :: "string \<Rightarrow> nat \<Rightarrow> int \<Rightarrow> uuid \<times> uuid \<times> string \<Rightarrow> uuid \<Rightarrow> export_snapshot" where
  "new_export uri n now k i = (case k of (organization_id, definition_id, digest) \<Rightarrow>
     \<lparr>es_id = i, es_created_at = now, es_organization_id = organization_id, es_export_definition_id = definition_id,
      es_storage_uri = uri, es_checksum_sha256 = digest, es_row_count = Some (int n), es_published_at = now\<rparr>)"

definition scoped_mart :: "session \<Rightarrow> uuid \<Rightarrow> uuid \<Rightarrow> data_mart_snapshot option" where
  "scoped_mart s organization_id mart_snapshot_id = (case row_by dms_id (db_data_mart_snapshots (s_working s)) mart_snapshot_id of
       None \<Rightarrow> None | Some m \<Rightarrow> if dms_organization_id m \<noteq> organization_id then None else Some m)"

definition export_directory :: "runtime \<Rightarrow> string \<Rightarrow> uuid \<Rightarrow> export_config \<Rightarrow> string" where
  "export_directory R dir organization_id config = dir @ ''/'' @ rt_uuid_str R organization_id @ ''/'' @ ex_export_id config"

definition export_target :: "runtime \<Rightarrow> string \<Rightarrow> uuid \<Rightarrow> export_config \<Rightarrow> string \<Rightarrow> string" where
  "export_target R dir organization_id config digest =
     export_directory R dir organization_id config @ ''/'' @ digest @ ''.'' @ ex_format config"

definition dictionary_target :: "runtime \<Rightarrow> string \<Rightarrow> uuid \<Rightarrow> export_config \<Rightarrow> string \<Rightarrow> string" where
  "dictionary_target R dir organization_id config digest =
     export_directory R dir organization_id config @ ''/'' @ digest @ ''.dictionary.json''"

definition export_dictionary :: "runtime \<Rightarrow> export_config \<Rightarrow> data_mart_snapshot \<Rightarrow> pyval" where
  "export_dictionary R config mart = PDict
     [(''export_id'', PStr (ex_export_id config)), (''version'', PStr (ex_version config)),
      (''fields'', PDict (fold (\<lambda>f d. dict_set f (get_field (dms_dictionary_json mart) f) d) (ex_fields config) [])),
      (''masked_fields'', PList (map PStr (ex_masked_fields config))),
      (''source_mart_snapshot_id'', PStr (rt_uuid_str R (dms_id mart)))]"

definition export_content :: "writers \<Rightarrow> export_config \<Rightarrow> pyrec list \<Rightarrow> string res" where
  "export_content w config selected =
     (if ex_format config = ''csv'' then Inr (wr_csv w (ex_fields config) selected) else wr_parquet w selected)"

text \<open>The database part of \<^verbatim>\<open>publish\<close>: definition, snapshot, lineage of a new snapshot, commit.\<close>

definition register_export :: "runtime \<Rightarrow> uuid \<Rightarrow> data_mart_snapshot \<Rightarrow> export_config \<Rightarrow> string \<Rightarrow> string \<Rightarrow> nat \<Rightarrow> int
    \<Rightarrow> session \<Rightarrow> export_snapshot \<times> session" where
  "register_export R organization_id mart config uri digest n now s =
     (case goc_by db_export_definitions definition_key put_definition (new_definition R config (dms_id mart) now)
             (organization_id, ex_export_id config, ex_version config) s of (d, s1) \<Rightarrow>
      let k = (organization_id, ed_id d, digest) in
      case goc_by db_export_snapshots export_key_of put_export (new_export uri n now) k s1 of (e, s2) \<Rightarrow>
      (e, commit (if find_by db_export_snapshots export_key_of s1 k = None
                  then snd (record_export R organization_id (dms_id mart) (es_id e) (ex_fields config) now s2) else s2)))"

definition export_publish :: "runtime \<Rightarrow> writers \<Rightarrow> string \<Rightarrow> uuid \<Rightarrow> uuid \<Rightarrow> pyrec list \<Rightarrow> export_config \<Rightarrow> string list \<Rightarrow> int
    \<Rightarrow> session \<times> files \<Rightarrow> export_outcome res \<times> session \<times> files" where
  "export_publish R w dir organization_id mart_snapshot_id records config permissions now st =
     (case st of (s, fs) \<Rightarrow>
      if ''exports:write'' \<notin> set permissions
      then (Inl (ConnectorError ''export_forbidden'' ''Export permission is required''), s, fs)
      else case scoped_mart s organization_id mart_snapshot_id of
        None \<Rightarrow> (Inl (ConnectorError ''mart_not_found'' ''Mart snapshot was not found''), s, fs)
      | Some mart \<Rightarrow>
      if filter (\<lambda>f. map_of (dms_dictionary_json mart) f = None) (ex_fields config) \<noteq> []
      then (Inl (ConnectorError ''export_field_undocumented'' ''Export contains undocumented fields''), s, fs)
      else let selected = map (export_row R config) records in
      case take_uuid s of (u, s0) \<Rightarrow>
      let temporary = export_directory R dir organization_id config @ ''/.'' @ rt_uuid_hex R u @ ''.tmp'' in
      case export_content w config selected of Inl e \<Rightarrow> (Inl e, s0, fs) | Inr content \<Rightarrow>
      let fs1 = write_text temporary content fs; digest = rt_sha256 R content;
          target = export_target R dir organization_id config digest in
      case settle temporary target fs1 of Inl e \<Rightarrow> (Inl e, s0, fs1) | Inr fs2 \<Rightarrow>
      let dictionary_path = dictionary_target R dir organization_id config digest;
          fs3 = write_text dictionary_path (wr_json w (export_dictionary R config mart) @ [CHR 0x0A]) fs2 in
      case register_export R organization_id mart config (rt_as_uri R target) digest (length selected) now s0 of (e, s1) \<Rightarrow>
      (Inr \<lparr>eo_export_snapshot_id = es_id e, eo_storage_uri = es_storage_uri e, eo_checksum_sha256 = es_checksum_sha256 e,
            eo_row_count = (case es_row_count e of None \<Rightarrow> 0 | Some n \<Rightarrow> n), eo_dictionary_uri = rt_as_uri R dictionary_path,
            eo_expires_at = rt_isoformat R (now + ex_retention_days config * 86400000000)\<rparr>, s1, fs3))"

section \<open>Retention\<close>

record retention_outcome =
  ro_candidate_ids :: "uuid list"
  ro_deleted_files :: "string list"
  ro_dry_run :: bool

definition put_policy :: "retention_policy \<Rightarrow> database \<Rightarrow> database" where
  "put_policy r db = db\<lparr>db_retention_policies := db_retention_policies db @ [r]\<rparr>"

definition set_policy :: "retention_policy_config \<Rightarrow> retention_policy \<Rightarrow> retention_policy" where
  "set_policy c r = r\<lparr>rpol_raw_days := rc_raw_days c, rpol_quarantine_days := rc_quarantine_days c,
     rpol_export_days := rc_export_days c, rpol_audit_days := rc_audit_days c\<rparr>"

definition policy_key_of :: "retention_policy \<Rightarrow> uuid \<times> string" where
  "policy_key_of r = (rpol_organization_id r, rpol_policy_key r)"

definition new_policy :: "retention_policy_config \<Rightarrow> int \<Rightarrow> uuid \<times> string \<Rightarrow> uuid \<Rightarrow> retention_policy" where
  "new_policy c now k i = \<lparr>rpol_id = i, rpol_created_at = now, rpol_organization_id = fst k, rpol_policy_key = snd k,
     rpol_raw_days = rc_raw_days c, rpol_quarantine_days = rc_quarantine_days c, rpol_export_days = rc_export_days c,
     rpol_audit_days = rc_audit_days c, rpol_active = True\<rparr>"

definition upsert_policy :: "uuid \<Rightarrow> retention_policy_config \<Rightarrow> int \<Rightarrow> session \<Rightarrow> retention_policy \<times> session" where
  "upsert_policy organization_id c now s =
     (case find_by db_retention_policies policy_key_of s (organization_id, rc_policy_id c) of
        None \<Rightarrow> (case add_row (new_policy c now (organization_id, rc_policy_id c)) put_policy s of (r, s1) \<Rightarrow> (r, commit s1))
      | Some p \<Rightarrow> (set_policy c p, commit (on_working (\<lambda>db. db\<lparr>db_retention_policies :=
          update_where (\<lambda>r. rpol_id r = rpol_id p) (set_policy c) (db_retention_policies db)\<rparr>) s)))"

text \<open>The snapshots the query selects: old enough, of a definition of the organization.\<close>

definition expired :: "database \<Rightarrow> uuid \<Rightarrow> int \<Rightarrow> export_snapshot \<Rightarrow> bool" where
  "expired db organization_id cutoff e =
     (list_ex (\<lambda>d. ed_id d = es_export_definition_id e \<and> ed_organization_id d = organization_id) (db_export_definitions db)
      \<and> es_published_at e < cutoff)"

definition text_below :: "string \<Rightarrow> string \<Rightarrow> bool" where
  "text_below p dir = (p = dir \<or> starts_with p (dir @ ''/''))"

definition delete_export :: "uuid \<Rightarrow> database \<Rightarrow> database" where
  "delete_export i db = db\<lparr>db_export_snapshots := filter (\<lambda>e. es_id e \<noteq> i) (db_export_snapshots db)\<rparr>"

fun delete_expired :: "runtime \<Rightarrow> string \<Rightarrow> export_snapshot list \<Rightarrow> session \<times> files \<Rightarrow> string list res \<times> session \<times> files" where
  "delete_expired R dir [] st = (Inr [], st)"
| "delete_expired R dir (e # es) st =
     (case rt_uri_path R (es_storage_uri e) of
        None \<Rightarrow> (Inl (ConnectorError ''retention_uri_unsupported'' ''Retention supports local file URIs only''), st)
      | Some p \<Rightarrow>
        (case st of (s, fs) \<Rightarrow>
         if fs p = None then (Inl FileNotFoundError, s, fs)
         else if \<not> text_below p dir
         then (Inl (ConnectorError ''retention_path_outside_root'' ''Retention path is outside export root''), s, fs)
         else case unlink p fs of Inl x \<Rightarrow> (Inl x, s, fs) | Inr fs1 \<Rightarrow>
           (case delete_expired R dir es (on_working (delete_export (es_id e)) s, fs1) of
              (Inl x, st2) \<Rightarrow> (Inl x, st2)
            | (Inr ps, st2) \<Rightarrow> (Inr (p # ps), st2))))"

definition apply_export_retention :: "runtime \<Rightarrow> bool \<Rightarrow> string \<Rightarrow> uuid \<Rightarrow> retention_policy \<Rightarrow> bool \<Rightarrow> int option \<Rightarrow> int
    \<Rightarrow> session \<times> files \<Rightarrow> retention_outcome res \<times> session \<times> files" where
  "apply_export_retention R root_exists dir organization_id policy dry_run as_of now st =
     (case st of (s, fs) \<Rightarrow>
      let reference = (case as_of of None \<Rightarrow> now | Some t \<Rightarrow> t);
          cutoff = reference - rpol_export_days policy * 86400000000;
          snapshots = filter (expired (s_working s) organization_id cutoff) (db_export_snapshots (s_working s)) in
      if dry_run then (Inr \<lparr>ro_candidate_ids = map es_id snapshots, ro_deleted_files = [], ro_dry_run = True\<rparr>, s, fs)
      else if \<not> root_exists then (Inl FileNotFoundError, s, fs)
      else case delete_expired R dir snapshots (s, fs) of
        (Inl e, st1) \<Rightarrow> (Inl e, st1)
      | (Inr deleted, s1, fs1) \<Rightarrow>
          (Inr \<lparr>ro_candidate_ids = map es_id snapshots, ro_deleted_files = deleted, ro_dry_run = False\<rparr>, commit s1, fs1))"

section \<open>Lemmas\<close>

interpretation marts: keyed_rows db_data_mart_snapshots mart_key_of put_mart "new_mart uri n dictionary lineage now" for uri n dictionary lineage now
  by unfold_locales (auto simp: put_mart_def new_mart_def mart_key_of_def split: prod.splits)

interpretation definitions: keyed_rows db_export_definitions definition_key put_definition "new_definition R config mart_id now"
  for R config mart_id now
  by unfold_locales (auto simp: put_definition_def new_definition_def definition_key_def split: prod.splits)

interpretation exports: keyed_rows db_export_snapshots export_key_of put_export "new_export uri n now" for uri n now
  by unfold_locales (auto simp: put_export_def new_export_def export_key_of_def split: prod.splits)

interpretation policies: keyed_rows db_retention_policies policy_key_of put_policy "new_policy c now" for c now
  by unfold_locales (auto simp: put_policy_def new_policy_def policy_key_of_def)


lemma fold_dict_set_keys: "fst ` set (fold (\<lambda>f d. dict_set f (g f) d) flds d) = fst ` set d \<union> set flds"
  by (induction flds arbitrary: d) auto

text \<open>A settled file: the target holds what it held, or the new content; the temporary file is gone.\<close>

lemma settle_ok:
  assumes "temporary \<noteq> target"
  shows "settle temporary target (write_text temporary c fs) =
    Inr (\<lambda>q. if q = temporary then None else if q = target \<and> fs target = None then Some c else fs q)"
  using assms by (auto simp: settle_def write_text_def unlink_def os_replace_def fun_eq_iff)

lemma record_export_keeps:
  assumes "record_export R organization_id mart_id export_id flds now s = (ids, s')"
  shows "db_export_snapshots (s_working s') = db_export_snapshots (s_working s)"
    and "db_export_definitions (s_working s') = db_export_definitions (s_working s)"
proof -
  have n: "db_export_snapshots (s_working (snd (node f t k s))) = db_export_snapshots (s_working s)
      \<and> db_export_definitions (s_working (snd (node f t k s))) = db_export_definitions (s_working s)" for f t k s
    by (auto simp: node_def add_row_def Let_def put_node_def split: option.splits)
  have c: "db_export_snapshots (s_working (snd (connect o' a b r m t s))) = db_export_snapshots (s_working s)
      \<and> db_export_definitions (s_working (snd (connect o' a b r m t s))) = db_export_definitions (s_working s)" for o' a b r m t s
    by (auto simp: connect_def connect_key_def add_row_def Let_def put_edge_def split: option.splits)
  from assms show "db_export_snapshots (s_working s') = db_export_snapshots (s_working s)"
    "db_export_definitions (s_working s') = db_export_definitions (s_working s)"
    using n c unfolding record_export_def mart_node_def
    by (auto split: prod.splits) (metis snd_conv)+
qed

text \<open>After a registration both rows are found under their keys.\<close>

lemma register_export_effect:
  assumes "register_export R organization_id mart config uri digest n now s = (e, s')"
  shows "s_working s' = s_committed s'" and "es_checksum_sha256 e = digest" and "es_organization_id e = organization_id"
    and "e \<in> set (db_export_snapshots (s_working s'))"
    and "\<exists>d. find_by db_export_definitions definition_key s' (organization_id, ex_export_id config, ex_version config) = Some d
      \<and> find_by db_export_snapshots export_key_of s' (organization_id, ed_id d, digest) = Some e"
proof -
  obtain d s1 where d: "goc_by db_export_definitions definition_key put_definition (new_definition R config (dms_id mart) now)
      (organization_id, ex_export_id config, ex_version config) s = (d, s1)" by (metis prod.exhaust)
  obtain e' s2 where e': "goc_by db_export_snapshots export_key_of put_export (new_export uri n now)
      (organization_id, ed_id d, digest) s1 = (e', s2)" by (metis prod.exhaust)
  define s3 where "s3 = (if find_by db_export_snapshots export_key_of s1 (organization_id, ed_id d, digest) = None
      then snd (record_export R organization_id (dms_id mart) (es_id e') (ex_fields config) now s2) else s2)"
  have r: "e = e'" "s' = commit s3" using assms d e' by (auto simp: register_export_def Let_def s3_def)
  have keep: "db_export_snapshots (s_working s3) = db_export_snapshots (s_working s2)"
    "db_export_definitions (s_working s3) = db_export_definitions (s_working s2)"
    using record_export_keeps [OF prod.collapse [symmetric]] by (simp_all add: s3_def)
  have "find_by db_export_definitions definition_key s2 k = find_by db_export_definitions definition_key s1 k" for k
    using e' by (auto simp: goc_by_def find_by_def add_row_def Let_def put_export_def split: option.splits)
  with definitions.goc_finds [OF d] keep have fd: "find_by db_export_definitions definition_key s'
      (organization_id, ex_export_id config, ex_version config) = Some d" by (simp add: r find_by_def)
  have fe: "find_by db_export_snapshots export_key_of s' (organization_id, ed_id d, digest) = Some e"
    using exports.goc_finds [OF e'] keep by (simp add: r find_by_def)
  show "s_working s' = s_committed s'" by (simp add: r)
  show "es_checksum_sha256 e = digest" "es_organization_id e = organization_id" "e \<in> set (db_export_snapshots (s_working s'))"
    using exports.goc_by_mem [OF e'] keep by (simp_all add: r export_key_of_def)
  show "\<exists>d. find_by db_export_definitions definition_key s' (organization_id, ex_export_id config, ex_version config) = Some d
      \<and> find_by db_export_snapshots export_key_of s' (organization_id, ed_id d, digest) = Some e" using fd fe by blast
qed

lemma register_export_again:
  assumes "find_by db_export_definitions definition_key s (organization_id, ex_export_id config, ex_version config) = Some d"
    and "find_by db_export_snapshots export_key_of s (organization_id, ed_id d, digest) = Some e"
  shows "register_export R organization_id mart config uri digest n now s = (e, commit s)"
  using assms by (simp add: register_export_def goc_by_def Let_def)

text \<open>What a publication that returns has gone through.\<close>

lemma export_publish_steps:
  assumes "export_publish R w dir oid mid records config permissions now (s, fs) = (Inr oc, s', fs')"
  obtains mart content e u fs2 where
    "''exports:write'' \<in> set permissions" "scoped_mart s oid mid = Some mart"
    "\<forall>f \<in> set (ex_fields config). map_of (dms_dictionary_json mart) f \<noteq> None"
    "export_content w config (map (export_row R config) records) = Inr content"
    "register_export R oid mart config (rt_as_uri R (export_target R dir oid config (rt_sha256 R content)))
       (rt_sha256 R content) (length records) now (snd (take_uuid s)) = (e, s')"
    "settle (export_directory R dir oid config @ ''/.'' @ rt_uuid_hex R u @ ''.tmp'') (export_target R dir oid config (rt_sha256 R content))
       (write_text (export_directory R dir oid config @ ''/.'' @ rt_uuid_hex R u @ ''.tmp'') content fs) = Inr fs2"
    "fs' = write_text (dictionary_target R dir oid config (rt_sha256 R content)) (wr_json w (export_dictionary R config mart) @ [CHR 0x0A]) fs2"
    "eo_export_snapshot_id oc = es_id e" "eo_checksum_sha256 oc = es_checksum_sha256 e"
  using assms unfolding export_publish_def Let_def
  by (auto simp: filter_empty_conv take_uuid_def split: if_splits option.splits sum.splits prod.splits)

text \<open>A run of the deletion loop that returns.\<close>

lemma delete_expired_ok:
  assumes "delete_expired R dir es (s, fs) = (Inr ps, s', fs')"
  shows "map (\<lambda>e. rt_uri_path R (es_storage_uri e)) es = map Some ps \<and> distinct ps
    \<and> list_all (\<lambda>p. fs p \<noteq> None \<and> text_below p dir) ps
    \<and> fs' = (\<lambda>q. if q \<in> set ps then None else fs q)
    \<and> db_export_snapshots (s_working s') = filter (\<lambda>e. es_id e \<notin> es_id ` set es) (db_export_snapshots (s_working s))"
  using assms
proof (induction es arbitrary: s fs ps)
  case (Cons e es)
  obtain p where p: "rt_uri_path R (es_storage_uri e) = Some p" using Cons.prems by (auto split: option.splits)
  let ?s = "on_working (delete_export (es_id e)) s" and ?fs = "fs(p := None)"
  from Cons.prems p have fs: "fs p \<noteq> None" "text_below p dir" by (auto split: if_splits)
  with Cons.prems p obtain ps' where rest: "delete_expired R dir es (?s, ?fs) = (Inr ps', s', fs')" and ps: "ps = p # ps'"
    by (auto simp: unlink_def split: sum.splits prod.splits)
  note ih = Cons.IH [OF rest]
  have "p \<notin> set ps'" using ih by (auto simp: list_all_iff)
  with ih p fs ps show ?case
    by (auto simp: list_all_iff delete_export_def fun_eq_iff intro!: filter_cong split: if_splits)
qed auto

lemma delete_expired_committed: "delete_expired R dir es (s, fs) = (r, s', fs') \<Longrightarrow> s_committed s' = s_committed s"
proof (induction es arbitrary: s fs r)
  case (Cons e es)
  then show ?case by (fastforce split: option.splits if_splits sum.splits prod.splits)
qed simp

lemma mart_row_keys:
  assumes "mart_row R config t r = Inr row"
  shows "fst ` set row = set (ma_fields config) \<union> set (derived_fields (ma_entity config))"
proof -
  let ?row = "select_fields (ma_fields config) r"
  have base: "fst ` set ?row = set (ma_fields config)" by (simp add: select_fields_def fold_dict_set_keys)
  have c: "\<exists>v. x = dict_set ''current_status'' v ?row" if "credential_row R t r ?row = Inr x" for x
    using that unfolding credential_row_def Let_def by (auto split: if_splits option.splits)
  have q: "\<exists>v. x = dict_set ''pass_rate'' v ?row" if "quality_row R r ?row = Inr x" for x
    using that unfolding quality_row_def by (auto split: sum.splits)
  consider (training) "ma_entity config = ''training_participation''" | (credential) "ma_entity config = ''credential_status''"
    | (quality) "ma_entity config = ''quality_trend''"
    | (other) "ma_entity config \<notin> {''training_participation'', ''credential_status'', ''quality_trend''}" by blast
  then show ?thesis
  proof cases
    case training
    then have "row = dict_set ''has_progress'' (PBool (\<not> blank (get_field r ''progress_percent'')))
        (dict_set ''is_completed'' (PBool (py_str R (get_field_or r ''status'' (PStr [])) = ''completed'')) ?row)"
      using assms by (simp add: mart_row_def)
    then show ?thesis by (simp add: base training derived_fields_def insert_commute)
  next
    case credential
    then obtain v where "row = dict_set ''current_status'' v ?row" using assms c by (auto simp: mart_row_def)
    then show ?thesis by (simp add: base credential derived_fields_def)
  next
    case quality
    then obtain v where "row = dict_set ''pass_rate'' v ?row" using assms q by (auto simp: mart_row_def)
    then show ?thesis by (simp add: base quality derived_fields_def)
  next
    case other
    then show ?thesis using assms base by (simp add: mart_row_def derived_fields_def)
  qed
qed






section \<open>Properties of publishing\<close>

text \<open>
  C22: every field of a mart's rows is documented: a built mart has one row per record, and the
  fields of each row are exactly the keys of the data dictionary stored with the mart.
\<close>

theorem mart_rows_documented:
  assumes "mart_build R config t records = Inr rows"
  shows "length rows = length records
    \<and> list_all (\<lambda>row. fst ` set row = fst ` set (mart_dictionary config)) rows"
proof -
  have "fst ` set (mart_dictionary config) = set (ma_fields config) \<union> set (derived_fields (ma_entity config))"
    by (simp add: mart_dictionary_def fold_dict_set_keys)
  with mart_row_keys assms show ?thesis
    by (induction records arbitrary: rows) (auto split: sum.splits)
qed


text \<open>
  publishing the same rows again creates nothing: the second publication returns the
  snapshot of the first, with the same checksum, and the table of export snapshots keeps its rows.
\<close>

theorem export_idempotent:
  assumes "export_publish R w dir oid mid records config permissions now (s, fs) = (Inr oc, s1, fs1)"
    and "export_publish R w dir oid mid records config permissions now' (s1, fs1) = (Inr oc', s2, fs2)"
  shows "eo_export_snapshot_id oc' = eo_export_snapshot_id oc \<and> eo_checksum_sha256 oc' = eo_checksum_sha256 oc
    \<and> db_export_snapshots (s_committed s2) = db_export_snapshots (s_committed s1)"
proof -
  from assms(1) obtain mart content e where st:
    "export_content w config (map (export_row R config) records) = Inr content"
    "register_export R oid mart config (rt_as_uri R (export_target R dir oid config (rt_sha256 R content)))
       (rt_sha256 R content) (length records) now (snd (take_uuid s)) = (e, s1)"
    "eo_export_snapshot_id oc = es_id e" "eo_checksum_sha256 oc = es_checksum_sha256 e"
    by (rule export_publish_steps)
  from assms(2) obtain mart' content' e' where st':
    "export_content w config (map (export_row R config) records) = Inr content'"
    "register_export R oid mart' config (rt_as_uri R (export_target R dir oid config (rt_sha256 R content')))
       (rt_sha256 R content') (length records) now' (snd (take_uuid s1)) = (e', s2)"
    "eo_export_snapshot_id oc' = es_id e'" "eo_checksum_sha256 oc' = es_checksum_sha256 e'"
    by (rule export_publish_steps)
  have same: "content' = content" using st(1) st'(1) by simp
  note r = register_export_effect [OF st(2)]
  have "register_export R oid mart' config (rt_as_uri R (export_target R dir oid config (rt_sha256 R content)))
       (rt_sha256 R content) (length records) now' (snd (take_uuid s1)) = (e, commit (snd (take_uuid s1)))"
    using r(5) by (auto simp: find_by_def intro: register_export_again)
  with st'(2) same have "e' = e" "s2 = commit (snd (take_uuid s1))" by simp_all
  with st st' r(1) show ?thesis by simp
qed

text \<open>
  C21: retention deletes exactly what has expired. A run that returns has removed the expired export
  snapshots of the organization from the committed database, each with its own file below the export
  directory, and nothing else: every other snapshot row and every other file is as before. A dry run
  changes nothing and reports the same candidates.
\<close>

theorem retention_exact:
  assumes "apply_export_retention R True dir oid policy dry_run as_of now (s, fs) = (Inr oc, s', fs')"
    and "cutoff = (case as_of of None \<Rightarrow> now | Some t \<Rightarrow> t) - rpol_export_days policy * 86400000000"
    and "distinct (map es_id (db_export_snapshots (s_working s)))"
  shows "ro_candidate_ids oc = map es_id (filter (expired (s_working s) oid cutoff) (db_export_snapshots (s_working s)))
    \<and> (if dry_run then s' = s \<and> fs' = fs
       else db_export_snapshots (s_committed s') = filter (\<lambda>e. \<not> expired (s_working s) oid cutoff e) (db_export_snapshots (s_working s))
         \<and> map Some (ro_deleted_files oc) = map (\<lambda>e. rt_uri_path R (es_storage_uri e))
             (filter (expired (s_working s) oid cutoff) (db_export_snapshots (s_working s)))
         \<and> list_all (\<lambda>p. fs p \<noteq> None \<and> text_below p dir) (ro_deleted_files oc)
         \<and> fs' = (\<lambda>q. if q \<in> set (ro_deleted_files oc) then None else fs q))"
proof (cases dry_run)
  case True
  with assms(1,2) show ?thesis by (auto simp: apply_export_retention_def Let_def)
next
  case False
  let ?all = "db_export_snapshots (s_working s)"
  let ?ex = "filter (expired (s_working s) oid cutoff) ?all"
  from False assms(1,2) obtain s1 where d: "delete_expired R dir ?ex (s, fs) = (Inr (ro_deleted_files oc), s1, fs')"
    and s': "s' = commit s1" and ids: "ro_candidate_ids oc = map es_id ?ex"
    by (auto simp: apply_export_retention_def Let_def split: sum.splits prod.splits)
  have "es_id e \<in> es_id ` set ?ex \<longleftrightarrow> expired (s_working s) oid cutoff e" if "e \<in> set ?all" for e
    using that assms(3) by (auto simp: distinct_map inj_on_def)
  then have "filter (\<lambda>e. es_id e \<notin> es_id ` set ?ex) ?all = filter (\<lambda>e. \<not> expired (s_working s) oid cutoff e) ?all"
    by (intro filter_cong refl) simp
  with delete_expired_ok [OF d] ids s' False show ?thesis by simp
qed

text \<open>
  two expired snapshots that name the same file block retention: the run raises, and the
  committed database keeps every snapshot. Two versions of an export with equal content are such
  snapshots, because the name of an exported file is its digest.
\<close>

theorem shared_file_blocks_retention:
  assumes "cutoff = (case as_of of None \<Rightarrow> now | Some t \<Rightarrow> t) - rpol_export_days policy * 86400000000"
    and "\<not> distinct (map es_storage_uri (filter (expired (s_working s) oid cutoff) (db_export_snapshots (s_working s))))"
  shows "\<exists>e s' fs'. apply_export_retention R True dir oid policy False as_of now (s, fs) = (Inl e, s', fs')
    \<and> s_committed s' = s_committed s"
proof -
  let ?ex = "filter (expired (s_working s) oid cutoff) (db_export_snapshots (s_working s))"
  obtain r s' fs' where d: "delete_expired R dir ?ex (s, fs) = (r, s', fs')" by (metis prod.exhaust)
  have "isl r"
  proof (rule ccontr)
    assume "\<not> isl r"
    then obtain ps where "r = Inr ps" by (cases r) auto
    with delete_expired_ok [of R dir ?ex s fs ps s' fs'] d
    have "map (\<lambda>e. rt_uri_path R (es_storage_uri e)) ?ex = map Some ps" "distinct ps" by simp_all
    then have "distinct (map (rt_uri_path R) (map es_storage_uri ?ex))" by (simp add: o_def distinct_map)
    with assms(2) show False using distinct_map by blast
  qed
  then obtain e where "r = Inl e" by (cases r) auto
  with d delete_expired_committed [OF d] assms(1) show ?thesis by (auto simp: apply_export_retention_def Let_def)
qed

section \<open>Concrete publications\<close>

definition demo_writers :: writers where
  "demo_writers = \<lparr>wr_parquet = (\<lambda>rows. Inr (nat_str (length rows))), wr_csv = (\<lambda>flds rows. join '','' flds), wr_json = (\<lambda>v. ''{}'')\<rparr>"

definition demo_mart_config :: mart_config where
  "demo_mart_config = \<lparr>ma_schema_version = ''1.0'', ma_mart_id = ''quality'', ma_version = ''1'', ma_entity = ''quality_trend'',
     ma_fields = [''evaluated'', ''failed''], ma_definitions = [(''evaluated'', ''Rows'')]\<rparr>"

definition demo_export_config :: export_config where
  "demo_export_config = \<lparr>ex_schema_version = ''1.0'', ex_export_id = ''staff'', ex_version = ''1'', ex_mart_id = ''quality'', ex_format = ''csv'',
     ex_fields = [''id'', ''note''], ex_masked_fields = [''id''], ex_retention_days = 30\<rparr>"

definition demo_export_records :: "pyrec list" where
  "demo_export_records = [[(''id'', PStr ''7''), (''note'', PStr ''=1'')]]"

definition demo_publish_session :: session where
  "demo_publish_session = fresh_session\<lparr>s_working := empty_db\<lparr>db_data_mart_snapshots := [\<lparr>dms_id = 90, dms_created_at = 0,
     dms_organization_id = 7, dms_mart_key = ''quality'', dms_version = ''1'', dms_storage_uri = ''u'', dms_checksum_sha256 = ''c'',
     dms_row_count = 1, dms_dictionary_json = [(''id'', PStr ''Id''), (''note'', PStr ''Note'')], dms_lineage_json = [], dms_published_at = 0\<rparr>]\<rparr>\<rparr>"

definition demo_export_runtime :: runtime where
  "demo_export_runtime = ascii_runtime\<lparr>rt_isoformat := (\<lambda>_. ''t'')\<rparr>"

abbreviation demo_export :: "session \<times> files \<Rightarrow> export_outcome res \<times> session \<times> files" where
  "demo_export \<equiv> export_publish demo_export_runtime demo_writers ''exports'' 7 90 demo_export_records demo_export_config [''exports:write''] 5"

definition demo_export1 :: "export_outcome res \<times> session \<times> files" where
  "demo_export1 = demo_export (demo_publish_session, Map.empty)"

definition demo_export2 :: "export_outcome res \<times> session \<times> files" where
  "demo_export2 = demo_export (snd demo_export1)"

lemma demo_exports_return: "\<not> isl (fst demo_export1)" "\<not> isl (fst demo_export2)"
  by code_simp+

lemma demo_export_pairs:
  "\<exists>oc s' fs'. demo_export (demo_publish_session, Map.empty) = (Inr oc, s', fs') \<and> demo_export1 = (Inr oc, s', fs')"
  "\<exists>oc s' fs'. demo_export (snd demo_export1) = (Inr oc, s', fs') \<and> demo_export2 = (Inr oc, s', fs')"
  using demo_exports_return unfolding demo_export1_def demo_export2_def by (metis isl_def old.sum.exhaust prod.collapse)+

theorem mart_rows_documented_witness:
  "\<exists>rows. mart_build ascii_runtime demo_mart_config 0 [[(''evaluated'', PInt 4), (''failed'', PInt 1)]] = Inr rows
    \<and> length rows = 1 \<and> list_all (\<lambda>row. fst ` set row = fst ` set (mart_dictionary demo_mart_config)) rows"
proof -
  obtain rows where rows: "mart_build ascii_runtime demo_mart_config 0 [[(''evaluated'', PInt 4), (''failed'', PInt 1)]] = Inr rows"
    by (simp add: demo_mart_config_def mart_row_def quality_row_def int_or_0_def get_field_or_def py_int_of_def Let_def)
  from mart_rows_documented [OF rows] rows show ?thesis by simp
qed


theorem export_idempotent_witness:
  "db_export_snapshots (s_committed (fst (snd demo_export2))) = db_export_snapshots (s_committed (fst (snd demo_export1)))"
proof -
  obtain oc s' fs' where x: "demo_export (demo_publish_session, Map.empty) = (Inr oc, s', fs')" "demo_export1 = (Inr oc, s', fs')"
    using demo_export_pairs by blast
  obtain oc2 s2 fs2 where y: "demo_export (s', fs') = (Inr oc2, s2, fs2)" "demo_export2 = (Inr oc2, s2, fs2)"
    using demo_export_pairs(2) x(2) by (metis snd_conv)
  from export_idempotent [OF x(1) y(1)] show ?thesis by (simp add: x(2) y(2))
qed

text \<open>Two versions of an export with the same content, and one without a twin.\<close>

definition demo_snapshot :: "uuid \<Rightarrow> uuid \<Rightarrow> string \<Rightarrow> export_snapshot" where
  "demo_snapshot i d uri = \<lparr>es_id = i, es_created_at = 0, es_organization_id = 7, es_export_definition_id = d, es_storage_uri = uri,
     es_checksum_sha256 = ''c'', es_row_count = Some 1, es_published_at = 0\<rparr>"

definition demo_definition :: "uuid \<Rightarrow> string \<Rightarrow> export_definition" where
  "demo_definition i v = \<lparr>ed_id = i, ed_created_at = 0, ed_organization_id = 7, ed_export_key = ''staff'', ed_version = v,
     ed_format = ''csv'', ed_contract_json = [], ed_active = True\<rparr>"

definition demo_policy :: retention_policy where
  "demo_policy = \<lparr>rpol_id = 1, rpol_created_at = 0, rpol_organization_id = 7, rpol_policy_key = ''p'', rpol_raw_days = 1,
     rpol_quarantine_days = 1, rpol_export_days = 1, rpol_audit_days = 1, rpol_active = True\<rparr>"

definition demo_retention_session :: "export_snapshot list \<Rightarrow> session" where
  "demo_retention_session es = fresh_session\<lparr>s_working := empty_db\<lparr>db_export_definitions := [demo_definition 1 ''1'', demo_definition 2 ''2''],
     db_export_snapshots := es\<rparr>\<rparr>"

lemma demo_rows [simp]: "db_export_snapshots (s_working (demo_retention_session es)) = es" "es_storage_uri (demo_snapshot i d uri) = uri"
  "es_id (demo_snapshot i d uri) = i"
  by (simp_all add: demo_retention_session_def demo_snapshot_def)

lemma demo_expired: "expired (s_working (demo_retention_session es)) 7 c (demo_snapshot i d uri) \<longleftrightarrow> (d = 1 \<or> d = 2) \<and> 0 < c"
  by (auto simp: expired_def demo_retention_session_def demo_definition_def demo_snapshot_def)

theorem retention_exact_witness:
  "case apply_export_retention ascii_runtime True ''x'' 7 demo_policy False None 100000000000
       (demo_retention_session [demo_snapshot 11 1 ''file://x/a''], [''x/a'' \<mapsto> ''content'']) of
     (r, s', fs') \<Rightarrow> \<not> isl r \<and> db_export_snapshots (s_committed s') = [] \<and> fs' = Map.empty"
proof -
  let ?s = "demo_retention_session [demo_snapshot 11 1 ''file://x/a'']" and ?fs = "[''x/a'' \<mapsto> ''content'']"
  have path: "rt_uri_path ascii_runtime ''file://x/a'' = Some ''x/a''" by (simp add: ascii_runtime_def)
  obtain oc s' fs' where r: "apply_export_retention ascii_runtime True ''x'' 7 demo_policy False None 100000000000 (?s, ?fs) = (Inr oc, s', fs')"
    by (simp add: apply_export_retention_def Let_def demo_expired demo_policy_def path text_below_def unlink_def)
  from retention_exact [OF r refl] show ?thesis
    unfolding r by (auto simp: demo_expired demo_policy_def path fun_eq_iff)
qed

theorem shared_file_blocks_retention_witness:
  "\<exists>e s' fs'. apply_export_retention ascii_runtime True ''x'' 7 demo_policy False None 100000000000
     (demo_retention_session [demo_snapshot 11 1 ''file://x/a'', demo_snapshot 12 2 ''file://x/a''], [''x/a'' \<mapsto> ''content'']) = (Inl e, s', fs')
    \<and> s_committed s' = s_committed (demo_retention_session [demo_snapshot 11 1 ''file://x/a'', demo_snapshot 12 2 ''file://x/a''])"
  by (rule shared_file_blocks_retention [OF refl])
    (simp add: demo_expired demo_policy_def)

end
