(* ===== verification/Match_Service.thy ===== *)
theory Match_Service
  imports Deterministic Probabilistic Store
begin

text \<open>
  The two matching services (\<^verbatim>\<open>matching/service.py\<close>,
  \<^verbatim>\<open>matching/probabilistic_service.py\<close>): running a matcher and storing its
  candidates, recording review decisions under optimistic concurrency, and the
  review queue. Every operation takes the session and returns the session it
  leaves, also when it raises. The clock is an argument (\<open>now\<close>).
\<close>

section \<open>Data\<close>

definition REVIEW_STATUSES :: "string list" where
  "REVIEW_STATUSES = [''pending'', ''review'', ''trusted_id_conflict'', ''defer'', ''escalate'']"

record match_outcome =
  mo_result :: det_match_result
  mo_candidate_ids :: "uuid list"
  mo_evaluation_id :: "uuid option"
  mo_metrics :: "match_metrics option"

record match_queue_item =
  mq_candidate :: match_candidate
  mq_latest_decision :: "match_decision option"
  mq_decision_count :: nat

record match_queue_summary =
  msum_total_candidates :: nat
  msum_unreviewed_candidates :: nat
  msum_needs_review_candidates :: nat
  msum_by_status :: "(string \<times> nat) list"

record prob_outcome =
  po_model_id :: uuid
  po_run_id :: uuid
  po_candidate_ids :: "uuid list"
  po_result :: prob_result

section \<open>Storing a deterministic match\<close>

text \<open>\<^verbatim>\<open>rule.model_dump(mode="json")\<close>\<close>

definition dump_match_rule :: "match_rule_config \<Rightarrow> pyval" where
  "dump_match_rule r = PDict [(''rule_id'', PStr (dr_rule_id r)), (''priority'', PInt (dr_priority r)),
     (''fields'', PList (map PStr (dr_fields r))), (''trusted'', PBool (dr_trusted r)),
     (''require_all'', PBool (dr_require_all r))]"

definition find_rule_set :: "session \<Rightarrow> uuid \<times> string \<times> string \<Rightarrow> match_rule_set option" where
  "find_rule_set s k = (case k of (organization_id, key, version) \<Rightarrow>
     find (\<lambda>r. mrs_organization_id r = organization_id \<and> mrs_rule_set_key r = key \<and> mrs_version r = version)
       (db_match_rule_sets (s_working s)))"

definition put_rule_set :: "match_rule_set \<Rightarrow> database \<Rightarrow> database" where
  "put_rule_set r db = db\<lparr>db_match_rule_sets := db_match_rule_sets db @ [r]\<rparr>"

definition create_rule_set :: "pyval list \<Rightarrow> pyrec \<Rightarrow> int \<Rightarrow> uuid \<times> string \<times> string \<Rightarrow> session
    \<Rightarrow> match_rule_set \<times> session" where
  "create_rule_set rules cfg now k s = (case k of (organization_id, key, version) \<Rightarrow>
     add_row (\<lambda>i. \<lparr>mrs_id = i, mrs_created_at = now, mrs_organization_id = organization_id,
        mrs_rule_set_key = key, mrs_version = version, mrs_entity_type = ''Person'',
        mrs_deterministic_rules_json = rules, mrs_probabilistic_config_json = cfg,
        mrs_status = ''active''\<rparr>) put_rule_set s)"

definition goc_rule_set :: "pyval list \<Rightarrow> pyrec \<Rightarrow> int \<Rightarrow> uuid \<times> string \<times> string \<Rightarrow> session
    \<Rightarrow> match_rule_set \<times> session" where
  "goc_rule_set rules cfg now k s =
     (case find_rule_set s k of Some r \<Rightarrow> (r, s) | None \<Rightarrow> create_rule_set rules cfg now k s)"

definition rule_set :: "uuid \<Rightarrow> det_match_config \<Rightarrow> int \<Rightarrow> session \<Rightarrow> match_rule_set \<times> session" where
  "rule_set organization_id cfg now s =
     goc_rule_set (map dump_match_rule (dm_rules cfg)) [] now
       (organization_id, dm_rule_set_id cfg, dm_schema_version cfg) s"

definition put_candidate :: "match_candidate \<Rightarrow> database \<Rightarrow> database" where
  "put_candidate c db = db\<lparr>db_match_candidates := db_match_candidates db @ [c]\<rparr>"

definition store_link :: "uuid \<Rightarrow> uuid \<Rightarrow> int \<Rightarrow> match_link \<Rightarrow> session \<Rightarrow> uuid \<times> session" where
  "store_link organization_id rule_set_id now l s =
     (case add_row (\<lambda>i. \<lparr>mcand_id = i, mcand_created_at = now, mcand_organization_id = organization_id,
        mcand_rule_set_id = rule_set_id, mcand_left_record_key = ml_left_record_key l,
        mcand_right_record_key = ml_right_record_key l, mcand_score = None,
        mcand_evidence_json = [(''rule_id'', PStr (ml_rule_id l)),
          (''fingerprints'', PDict (map (\<lambda>(k, v). (k, PStr v)) (ml_evidence_fingerprints l)))],
        mcand_status = ml_status l, mcand_revision = 0\<rparr>) put_candidate s of
      (c, s') \<Rightarrow> (mcand_id c, s'))"

definition metrics_json :: "match_metrics \<Rightarrow> pyrec" where
  "metrics_json m =
     [(''total_records'', PInt (int (mm_total_records m))), (''predicted_links'', PInt (int (mm_predicted_links m))),
      (''true_positives'', PInt (int (mm_true_positives m))), (''false_positives'', PInt (int (mm_false_positives m))),
      (''false_negatives'', PInt (int (mm_false_negatives m))), (''precision'', PFloat (Fin (mm_precision m))),
      (''recall'', PFloat (Fin (mm_recall m))), (''coverage'', PFloat (Fin (mm_coverage m)))]"

definition put_evaluation :: "match_evaluation \<Rightarrow> database \<Rightarrow> database" where
  "put_evaluation e db = db\<lparr>db_match_evaluations := db_match_evaluations db @ [e]\<rparr>"

definition store_evaluation :: "uuid \<Rightarrow> det_match_config \<Rightarrow> string \<Rightarrow> int \<Rightarrow> match_metrics \<Rightarrow> session
    \<Rightarrow> match_evaluation \<times> session" where
  "store_evaluation organization_id cfg truth_set_name now m s =
     add_row (\<lambda>i. \<lparr>mev_id = i, mev_created_at = now, mev_organization_id = organization_id,
        mev_rule_set_key = dm_rule_set_id cfg, mev_rule_set_version = dm_schema_version cfg,
        mev_truth_set_name = truth_set_name, mev_evaluated_at = now,
        mev_total_records = int (mm_total_records m), mev_predicted_links = int (mm_predicted_links m),
        mev_true_positives = int (mm_true_positives m), mev_false_positives = int (mm_false_positives m),
        mev_false_negatives = int (mm_false_negatives m), mev_precision = mm_precision m,
        mev_recall = mm_recall m, mev_coverage = mm_coverage m,
        mev_details_json = metrics_json m\<rparr>) put_evaluation s"

definition in_scope :: "runtime \<Rightarrow> string \<Rightarrow> uuid \<Rightarrow> pyrec \<Rightarrow> bool" where
  "in_scope R organization_field organization_id rec =
     (py_str R (get_field_or rec organization_field (PStr [])) = rt_uuid_str R organization_id)"

definition scope_mismatch :: exc where
  "scope_mismatch = ConnectorError ''matching_scope_mismatch'' ''Matching record is outside organization scope''"

definition det_execute :: "runtime \<Rightarrow> uuid \<Rightarrow> pyrec list \<Rightarrow> det_match_config \<Rightarrow> (string \<times> string) list option
    \<Rightarrow> string \<Rightarrow> int \<Rightarrow> session \<Rightarrow> match_outcome res \<times> session" where
  "det_execute R organization_id records cfg truth truth_set_name now s =
     (if list_ex (\<lambda>rec. \<not> in_scope R (dm_organization_field cfg) organization_id rec) records
      then (Inl scope_mismatch, s)
      else case rule_set organization_id cfg now s of (rset, s1) \<Rightarrow>
      case det_match R records cfg of Inl e \<Rightarrow> (Inl e, s1) | Inr result \<Rightarrow>
      case store_all (store_link organization_id (mrs_id rset) now)
             (dres_links result @ dres_conflicts result) s1 of (candidate_ids, s2) \<Rightarrow>
      case truth of
        None \<Rightarrow> (Inr \<lparr>mo_result = result, mo_candidate_ids = candidate_ids,
                       mo_evaluation_id = None, mo_metrics = None\<rparr>, commit s2)
      | Some t \<Rightarrow>
          let metrics = evaluate_matches (dres_clusters result) t in
          case store_evaluation organization_id cfg truth_set_name now metrics s2 of (evaluation, s3) \<Rightarrow>
          (Inr \<lparr>mo_result = result, mo_candidate_ids = candidate_ids,
                mo_evaluation_id = Some (mev_id evaluation), mo_metrics = Some metrics\<rparr>, commit s3))"

section \<open>Recording a decision\<close>

definition match_decisions_allowed :: "string set" where
  "match_decisions_allowed = {''match'', ''no_match'', ''defer'', ''escalate''}"

definition scoped_candidate :: "session \<Rightarrow> uuid \<Rightarrow> uuid \<Rightarrow> match_candidate res" where
  "scoped_candidate s organization_id candidate_id =
     (case row_by mcand_id (db_match_candidates (s_working s)) candidate_id of
        None \<Rightarrow> Inl (ConnectorError ''candidate_not_found'' ''Match candidate was not found'')
      | Some c \<Rightarrow> if mcand_organization_id c \<noteq> organization_id
                  then Inl (ConnectorError ''candidate_not_found'' ''Match candidate was not found'')
                  else Inr c)"

definition decisions_of :: "database \<Rightarrow> uuid \<Rightarrow> uuid \<Rightarrow> match_decision list" where
  "decisions_of db organization_id candidate_id =
     filter (\<lambda>d. md_candidate_id d = candidate_id \<and> md_organization_id d = organization_id)
       (db_match_decisions db)"

definition latest_decision :: "match_decision list \<Rightarrow> match_decision option" where
  "latest_decision ds =
     (case sort_key (\<lambda>d. - md_revision d) ds of [] \<Rightarrow> None | d # _ \<Rightarrow> Some d)"

definition put_decision :: "match_decision \<Rightarrow> database \<Rightarrow> database" where
  "put_decision d db = db\<lparr>db_match_decisions := db_match_decisions db @ [d]\<rparr>"

text \<open>The constraints \<^verbatim>\<open>uq_match_decision_revision\<close> and \<^verbatim>\<open>ck_match_decision_revision\<close>.\<close>

definition decision_insertable :: "database \<Rightarrow> uuid \<Rightarrow> int \<Rightarrow> bool" where
  "decision_insertable db candidate_id revision =
     (0 < revision \<and> \<not> list_ex (\<lambda>d. md_candidate_id d = candidate_id \<and> md_revision d = revision)
        (db_match_decisions db))"

definition advance_candidate :: "uuid \<Rightarrow> uuid \<Rightarrow> string \<Rightarrow> int \<Rightarrow> database \<Rightarrow> database" where
  "advance_candidate organization_id candidate_id decision expected_revision db =
     db\<lparr>db_match_candidates := update_where
          (\<lambda>c. mcand_id c = candidate_id \<and> mcand_organization_id c = organization_id
               \<and> mcand_revision c = expected_revision)
          (\<lambda>c. c\<lparr>mcand_status := decision, mcand_revision := expected_revision + 1\<rparr>)
          (db_match_candidates db)\<rparr>"

definition record_decision :: "uuid \<Rightarrow> uuid \<Rightarrow> string \<Rightarrow> string \<Rightarrow> uuid \<Rightarrow> int \<Rightarrow> int \<Rightarrow> bool \<Rightarrow> session
    \<Rightarrow> match_decision res \<times> session" where
  "record_decision organization_id candidate_id decision reason reviewer_id expected_revision now do_commit s =
     (if decision \<notin> match_decisions_allowed
      then (Inl (ConnectorError ''invalid_match_decision'' ''Match decision is invalid''), s)
      else case scoped_candidate s organization_id candidate_id of Inl e \<Rightarrow> (Inl e, s) | Inr candidate \<Rightarrow>
      if strip reason = []
      then (Inl (ConnectorError ''decision_reason_required'' ''Match decision reason is required''), s)
      else if \<not> list_ex (\<lambda>c. mcand_id c = candidate_id \<and> mcand_organization_id c = organization_id
                 \<and> mcand_revision c = expected_revision) (db_match_candidates (s_working s))
      then (Inl (ConnectorError ''decision_conflict''
              ''Candidate changed. Refresh the queue before deciding.''), rollback s)
      else
      let s1 = on_working (advance_candidate organization_id candidate_id decision expected_revision) s;
          prior = latest_decision (decisions_of (s_working s1) organization_id (mcand_id candidate))
      in if \<not> decision_insertable (s_working s1) (mcand_id candidate) (expected_revision + 1)
         then (Inl integrity_error, rollback s1)
         else case add_row (\<lambda>i. \<lparr>md_id = i, md_created_at = now, md_organization_id = organization_id,
                md_candidate_id = mcand_id candidate, md_decision = decision,
                md_revision = expected_revision + 1, md_reason = strip reason,
                md_reviewer_id = reviewer_id, md_decided_at = now,
                md_supersedes_decision_id = map_option md_id prior\<rparr>) put_decision s1 of
           (row, s2) \<Rightarrow> (Inr row, if do_commit then commit s2 else s2))"

section \<open>Reading decisions and the queue\<close>

definition list_decisions :: "uuid \<Rightarrow> uuid \<Rightarrow> nat \<Rightarrow> nat \<Rightarrow> session \<Rightarrow> match_decision list res" where
  "list_decisions organization_id candidate_id lmt offset s =
     (case scoped_candidate s organization_id candidate_id of Inl e \<Rightarrow> Inl e | Inr candidate \<Rightarrow>
        Inr (take lmt (drop offset (sort_key (\<lambda>d. - md_revision d)
          (decisions_of (s_working s) organization_id (mcand_id candidate))))))"

definition unreviewed_candidate :: "database \<Rightarrow> uuid \<Rightarrow> match_candidate \<Rightarrow> bool" where
  "unreviewed_candidate db organization_id c = (decisions_of db organization_id (mcand_id c) = [])"

definition queue_match :: "runtime \<Rightarrow> database \<Rightarrow> uuid \<Rightarrow> string option \<Rightarrow> bool \<Rightarrow> bool \<Rightarrow> string option
    \<Rightarrow> match_candidate \<Rightarrow> bool" where
  "queue_match R db organization_id status needs_review unreviewed q c =
     (mcand_organization_id c = organization_id
      \<and> (case status of None \<Rightarrow> True | Some st \<Rightarrow> mcand_status c = st)
      \<and> (needs_review \<longrightarrow> mcand_status c \<in> set REVIEW_STATUSES)
      \<and> (unreviewed \<longrightarrow> unreviewed_candidate db organization_id c)
      \<and> (case q of None \<Rightarrow> True
          | Some t \<Rightarrow> strip t \<noteq> [] \<longrightarrow>
              icontains R (mcand_left_record_key c) (strip t) \<or> icontains R (mcand_right_record_key c) (strip t)))"

definition queue_item :: "database \<Rightarrow> uuid \<Rightarrow> match_candidate \<Rightarrow> match_queue_item" where
  "queue_item db organization_id c =
     (let ds = decisions_of db organization_id (mcand_id c) in
      \<lparr>mq_candidate = c,
       mq_latest_decision = (case rev (filter (\<lambda>d. md_revision d = mcand_revision c) ds) of
           [] \<Rightarrow> None | d # _ \<Rightarrow> Some d),
       mq_decision_count = length ds\<rparr>)"

definition list_review_queue :: "runtime \<Rightarrow> uuid \<Rightarrow> string option \<Rightarrow> nat \<Rightarrow> nat \<Rightarrow> bool \<Rightarrow> bool
    \<Rightarrow> string option \<Rightarrow> session \<Rightarrow> match_queue_item list" where
  "list_review_queue R organization_id status lmt offset needs_review unreviewed q s =
     (let db = s_working s;
          candidates = take lmt (drop offset (sort_key (\<lambda>c. (mcand_created_at c, mcand_id c))
            (filter (queue_match R db organization_id status needs_review unreviewed q)
              (db_match_candidates db))))
      in map (queue_item db organization_id) candidates)"

definition review_queue_summary :: "uuid \<Rightarrow> session \<Rightarrow> match_queue_summary" where
  "review_queue_summary organization_id s =
     (let db = s_working s;
          cs = filter (\<lambda>c. mcand_organization_id c = organization_id) (db_match_candidates db);
          by_status = count_by (map mcand_status cs)
      in \<lparr>msum_total_candidates = sum_list (map snd by_status),
          msum_unreviewed_candidates = length (filter (unreviewed_candidate db organization_id) cs),
          msum_needs_review_candidates =
            sum_list (map (\<lambda>st. case map_of by_status st of None \<Rightarrow> 0 | Some n \<Rightarrow> n) REVIEW_STATUSES),
          msum_by_status = by_status\<rparr>)"

section \<open>Storing a probabilistic run\<close>

definition dump_blocking :: "blocking_rule_config \<Rightarrow> pyval" where
  "dump_blocking b = PDict [(''rule_id'', PStr (br_rule_id b)), (''fields'', PList (map PStr (br_fields b))),
     (''require_all'', PBool (br_require_all b))]"

definition dump_comparison :: "comparison_field_config \<Rightarrow> pyval" where
  "dump_comparison c = PDict [(''field'', PStr (cf_field c)), (''method'', PStr (cf_method c)),
     (''weight'', PFloat (Fin (cf_weight c))),
     (''agreement_probability'', PFloat (Fin (cf_agreement_probability c))),
     (''random_agreement_probability'', PFloat (Fin (cf_random_agreement_probability c))),
     (''tolerance'', PFloat (Fin (cf_tolerance c)))]"

definition dump_prob_config :: "prob_match_config \<Rightarrow> pyrec" where
  "dump_prob_config c = [(''schema_version'', PStr (pm_schema_version c)), (''model_id'', PStr (pm_model_id c)),
     (''organization_field'', PStr (pm_organization_field c)), (''record_key_field'', PStr (pm_record_key_field c)),
     (''blocking_rules'', PList (map dump_blocking (pm_blocking_rules c))),
     (''comparisons'', PList (map dump_comparison (pm_comparisons c))),
     (''prior_match_probability'', PFloat (Fin (pm_prior_match_probability c))),
     (''review_low'', PFloat (Fin (pm_review_low c))), (''auto_match'', PFloat (Fin (pm_auto_match c))),
     (''max_candidates'', PInt (int (pm_max_candidates c)))]"

definition dump_params :: "(string \<times> field_params) list \<Rightarrow> pyrec" where
  "dump_params ps = map (\<lambda>(f, v). (f, PDict [(''m'', PFloat (Fin (fp_m v))), (''u'', PFloat (Fin (fp_u v))),
     (''weight'', PFloat (Fin (fp_weight v)))])) ps"

definition find_prob_model :: "session \<Rightarrow> uuid \<times> string \<times> string \<Rightarrow> probabilistic_model option" where
  "find_prob_model s k = (case k of (organization_id, key, version) \<Rightarrow>
     find (\<lambda>m. pmod_organization_id m = organization_id \<and> pmod_model_key m = key \<and> pmod_version m = version)
       (db_probabilistic_models (s_working s)))"

definition put_prob_model :: "probabilistic_model \<Rightarrow> database \<Rightarrow> database" where
  "put_prob_model m db = db\<lparr>db_probabilistic_models := db_probabilistic_models db @ [m]\<rparr>"

definition goc_prob_model :: "prob_match_config \<Rightarrow> (string \<times> field_params) list \<Rightarrow> string option \<Rightarrow> int
    \<Rightarrow> uuid \<times> string \<times> string \<Rightarrow> session \<Rightarrow> probabilistic_model \<times> session" where
  "goc_prob_model cfg params truth_set_name now k s =
     (case find_prob_model s k of Some m \<Rightarrow> (m, s)
      | None \<Rightarrow> (case k of (organization_id, key, version) \<Rightarrow>
          let trained = (case truth_set_name of None \<Rightarrow> False | Some n \<Rightarrow> n \<noteq> []) in
          add_row (\<lambda>i. \<lparr>pmod_id = i, pmod_created_at = now, pmod_organization_id = organization_id,
            pmod_model_key = key, pmod_version = version,
            pmod_status = (if trained then ''synthetic_evaluated'' else ''configured''),
            pmod_comparison_config_json =
              [(''blocking_rules'', PList (map dump_blocking (pm_blocking_rules cfg))),
               (''comparisons'', PList (map dump_comparison (pm_comparisons cfg)))],
            pmod_parameters_json = dump_params params, pmod_review_low = pm_review_low cfg,
            pmod_auto_match = pm_auto_match cfg, pmod_trained_on_truth_set = truth_set_name,
            pmod_trained_at = (if trained then Some now else None)\<rparr>) put_prob_model s))"

definition prob_model :: "uuid \<Rightarrow> prob_match_config \<Rightarrow> (string \<times> field_params) list \<Rightarrow> string option \<Rightarrow> int
    \<Rightarrow> session \<Rightarrow> (probabilistic_model \<times> match_rule_set) \<times> session" where
  "prob_model organization_id cfg params truth_set_name now s =
     (let version = pm_schema_version cfg in
      case goc_prob_model cfg params truth_set_name now (organization_id, pm_model_id cfg, version) s of (model, s1) \<Rightarrow>
      case goc_rule_set [] (dump_prob_config cfg) now
             (organization_id, ''probabilistic_'' @ pm_model_id cfg, version) s1 of (rset, s2) \<Rightarrow>
        ((model, rset), s2))"

definition prob_metrics_json :: "prob_metrics \<Rightarrow> pyrec" where
  "prob_metrics_json m =
     [(''total_truth_pairs'', PInt (int (pmt_total_truth_pairs m))),
      (''auto_match_pairs'', PInt (int (pmt_auto_match_pairs m))),
      (''review_pairs'', PInt (int (pmt_review_pairs m))),
      (''auto_true_positives'', PInt (int (pmt_auto_true_positives m))),
      (''auto_false_positives'', PInt (int (pmt_auto_false_positives m))),
      (''false_negatives_after_review'', PInt (int (pmt_false_negatives_after_review m))),
      (''auto_precision'', PFloat (Fin (pmt_auto_precision m))),
      (''potential_recall_with_review'', PFloat (Fin (pmt_potential_recall_with_review m))),
      (''review_capture'', PFloat (Fin (pmt_review_capture m)))]"

definition put_prob_run :: "probabilistic_run \<Rightarrow> database \<Rightarrow> database" where
  "put_prob_run r db = db\<lparr>db_probabilistic_runs := db_probabilistic_runs db @ [r]\<rparr>"

definition count_status :: "string \<Rightarrow> prob_candidate list \<Rightarrow> int" where
  "count_status st cs = int (length (filter (\<lambda>c. pcd_status c = st) cs))"

definition store_prob_run :: "uuid \<Rightarrow> uuid \<Rightarrow> prob_result \<Rightarrow> int \<Rightarrow> session \<Rightarrow> probabilistic_run \<times> session" where
  "store_prob_run organization_id model_id result now s =
     add_row (\<lambda>i. \<lparr>prun_id = i, prun_created_at = now, prun_organization_id = organization_id,
        prun_model_id = model_id, prun_status = ''succeeded'',
        prun_candidate_count = int (length (pr_candidates result)),
        prun_auto_match_count = count_status ''auto_match'' (pr_candidates result),
        prun_review_count = count_status ''review'' (pr_candidates result),
        prun_no_match_count = count_status ''no_match'' (pr_candidates result),
        prun_conflict_count = count_status ''trusted_id_conflict'' (pr_candidates result),
        prun_metrics_json = (case pr_metrics result of None \<Rightarrow> [] | Some m \<Rightarrow> prob_metrics_json m),
        prun_started_at = now, prun_ended_at = Some now\<rparr>) put_prob_run s"

definition store_prob_candidate :: "runtime \<Rightarrow> uuid \<Rightarrow> uuid \<Rightarrow> uuid \<Rightarrow> int \<Rightarrow> prob_candidate \<Rightarrow> session
    \<Rightarrow> uuid \<times> session" where
  "store_prob_candidate R organization_id rule_set_id model_id now item s =
     (case add_row (\<lambda>i. \<lparr>mcand_id = i, mcand_created_at = now, mcand_organization_id = organization_id,
        mcand_rule_set_id = rule_set_id, mcand_left_record_key = pcd_left_record_key item,
        mcand_right_record_key = pcd_right_record_key item, mcand_score = Some (pcd_probability item),
        mcand_evidence_json =
          [(''model_id'', PStr (rt_uuid_str R model_id)),
           (''block_rule_ids'', PList (map PStr (pcd_block_rule_ids item))),
           (''features'', PDict (map (\<lambda>(k, v). (k, PFloat (Fin v))) (pcd_features item))),
           (''fingerprints'', PDict (map (\<lambda>(k, v). (k, PStr v)) (pcd_evidence_fingerprints item))),
           (''cluster_impact'', PDict [(''left_cluster_size'', PInt (int (pcd_left_cluster_size item))),
              (''right_cluster_size'', PInt (int (pcd_right_cluster_size item))),
              (''merged_size'', PInt (int (pcd_merged_size item)))])],
        mcand_status = pcd_status item, mcand_revision = 0\<rparr>) put_candidate s of
      (c, s') \<Rightarrow> (mcand_id c, s'))"

definition prob_execute :: "runtime \<Rightarrow> uuid \<Rightarrow> pyrec list \<Rightarrow> prob_match_config \<Rightarrow> (string \<times> string) list option
    \<Rightarrow> string option \<Rightarrow> (string \<times> field_params) list option \<Rightarrow> int \<Rightarrow> session \<Rightarrow> prob_outcome res \<times> session" where
  "prob_execute R organization_id records cfg truth truth_set_name params now s =
     (if list_ex (\<lambda>rec. \<not> in_scope R (pm_organization_field cfg) organization_id rec) records
      then (Inl scope_mismatch, s)
      else case prob_run R records cfg truth params of Inl e \<Rightarrow> (Inl e, s) | Inr result \<Rightarrow>
      case prob_model organization_id cfg (pr_model_parameters result)
             (if truth \<noteq> None then truth_set_name else None) now s of ((model, rset), s1) \<Rightarrow>
      case store_prob_run organization_id (pmod_id model) result now s1 of (run, s2) \<Rightarrow>
      case store_all (store_prob_candidate R organization_id (mrs_id rset) (pmod_id model) now)
             (pr_candidates result) s2 of (ids, s3) \<Rightarrow>
        (Inr \<lparr>po_model_id = pmod_id model, po_run_id = prun_id run, po_candidate_ids = ids,
              po_result = result\<rparr>, commit s3))"

section \<open>Lemmas: rule sets and models are created once\<close>

interpretation rule_sets: get_or_create find_rule_set "goc_rule_set rules cfg now" for rules cfg now
proof unfold_locales
  fix s k r
  assume "find_rule_set s k = Some r"
  then show "goc_rule_set rules cfg now k s = (r, s)" by (simp add: goc_rule_set_def)
next
  fix s k r s'
  assume none: "find_rule_set s k = None" and g: "goc_rule_set rules cfg now k s = (r, s')"
  obtain oid key version where k: "k = (oid, key, version)" by (metis prod.exhaust)
  from none g k have c: "create_rule_set rules cfg now (oid, key, version) s = (r, s')"
    by (simp add: goc_rule_set_def)
  have r: "mrs_organization_id r = oid" "mrs_rule_set_key r = key" "mrs_version r = version"
    "db_match_rule_sets (s_working s') = db_match_rule_sets (s_working s) @ [r]"
    using c by (auto simp: create_rule_set_def add_row_def Let_def put_rule_set_def)
  show "find_rule_set s' k = Some r \<and> (\<forall>k'. k' \<noteq> k \<longrightarrow> find_rule_set s' k' = find_rule_set s k')"
    using none r k by (auto simp: find_rule_set_def find_snoc split: option.splits)
qed

interpretation prob_models: get_or_create find_prob_model "goc_prob_model cfg params name now" for cfg params name now
proof unfold_locales
  fix s k r
  assume "find_prob_model s k = Some r"
  then show "goc_prob_model cfg params name now k s = (r, s)" by (simp add: goc_prob_model_def)
next
  fix s k r s'
  assume none: "find_prob_model s k = None" and g: "goc_prob_model cfg params name now k s = (r, s')"
  obtain oid key version where k: "k = (oid, key, version)" by (metis prod.exhaust)
  have r: "pmod_organization_id r = oid" "pmod_model_key r = key" "pmod_version r = version"
    "db_probabilistic_models (s_working s') = db_probabilistic_models (s_working s) @ [r]"
    using g none k by (auto simp: goc_prob_model_def add_row_def Let_def put_prob_model_def)
  show "find_prob_model s' k = Some r \<and> (\<forall>k'. k' \<noteq> k \<longrightarrow> find_prob_model s' k' = find_prob_model s k')"
    using none r k by (auto simp: find_prob_model_def find_snoc split: option.splits)
qed

section \<open>Lemmas: decisions form a ledger\<close>

record decision_request =
  rq_organization_id :: uuid
  rq_candidate_id :: uuid
  rq_decision :: string
  rq_reason :: string
  rq_reviewer_id :: uuid
  rq_expected_revision :: int
  rq_now :: int

definition decide :: "decision_request \<Rightarrow> session \<Rightarrow> session option" where
  "decide q s = (case record_decision (rq_organization_id q) (rq_candidate_id q) (rq_decision q) (rq_reason q)
       (rq_reviewer_id q) (rq_expected_revision q) (rq_now q) True s of
     (Inl e, s') \<Rightarrow> None | (Inr row, s') \<Rightarrow> Some s')"

definition cand_row :: "session \<Rightarrow> uuid \<Rightarrow> match_candidate option" where
  "cand_row s i = row_by mcand_id (db_match_candidates (s_working s)) i"

definition cand_revision :: "session \<Rightarrow> uuid \<Rightarrow> int option" where
  "cand_revision s i = map_option mcand_revision (cand_row s i)"

definition cand_status :: "session \<Rightarrow> uuid \<Rightarrow> string option" where
  "cand_status s i = map_option mcand_status (cand_row s i)"

definition cand_history :: "session \<Rightarrow> uuid \<Rightarrow> (int \<times> string) list" where
  "cand_history s i = map (\<lambda>d. (md_revision d, md_decision d))
     (filter (\<lambda>d. md_candidate_id d = i) (db_match_decisions (s_working s)))"

definition cand_keys :: "session \<Rightarrow> bool" where
  "cand_keys s = distinct (map mcand_id (db_match_candidates (s_working s)))"

text \<open>What a successful decision did.\<close>

lemma record_decision_success:
  assumes "record_decision oid cid dec reason rv er now c s = (Inr row, s')" and keys: "cand_keys s"
  shows "dec \<in> match_decisions_allowed \<and> strip reason \<noteq> []"
    and "\<exists>cand. cand_row s cid = Some cand \<and> mcand_organization_id cand = oid \<and> mcand_revision cand = er"
    and "decision_insertable (s_working s) cid (er + 1)"
    and "row = \<lparr>md_id = new_id s, md_created_at = now, md_organization_id = oid, md_candidate_id = cid,
           md_decision = dec, md_revision = er + 1, md_reason = strip reason, md_reviewer_id = rv,
           md_decided_at = now,
           md_supersedes_decision_id = map_option md_id (latest_decision (decisions_of (s_working s) oid cid))\<rparr>"
    and "s_working s' = put_decision row (advance_candidate oid cid dec er (s_working s))"
    and "c \<Longrightarrow> s_committed s' = s_working s'"
proof -
  from assms(1) obtain cand where cand: "scoped_candidate s oid cid = Inr cand"
    by (auto simp: record_decision_def split: if_splits sum.splits)
  then have row: "cand_row s cid = Some cand" and o: "mcand_organization_id cand = oid" and i: "mcand_id cand = cid"
    by (auto simp: scoped_candidate_def cand_row_def dest: row_by_Some split: option.splits if_splits)
  have dec: "db_match_decisions (advance_candidate oid cid dec er db) = db_match_decisions db" for db
    by (simp add: advance_candidate_def)
  note ev = record_decision_def cand Let_def
  from assms(1) show "dec \<in> match_decisions_allowed \<and> strip reason \<noteq> []"
    by (auto simp: ev split: if_splits)
  from assms(1) have "list_ex (\<lambda>c. mcand_id c = cid \<and> mcand_organization_id c = oid \<and> mcand_revision c = er)
      (db_match_candidates (s_working s))" by (auto simp: ev split: if_splits)
  then obtain c' where c': "c' \<in> set (db_match_candidates (s_working s))" "mcand_id c' = cid" "mcand_revision c' = er"
    by (auto simp: list_ex_iff)
  with row_by_unique [OF keys [unfolded cand_keys_def] c'(1)] row have "c' = cand"
    by (simp add: cand_row_def)
  with c' row o show "\<exists>cand. cand_row s cid = Some cand \<and> mcand_organization_id cand = oid \<and> mcand_revision cand = er"
    by blast
  from assms(1) show "decision_insertable (s_working s) cid (er + 1)"
    by (auto simp: ev i decision_insertable_def dec split: if_splits)
  from assms(1) show "row = \<lparr>md_id = new_id s, md_created_at = now, md_organization_id = oid, md_candidate_id = cid,
           md_decision = dec, md_revision = er + 1, md_reason = strip reason, md_reviewer_id = rv,
           md_decided_at = now,
           md_supersedes_decision_id = map_option md_id (latest_decision (decisions_of (s_working s) oid cid))\<rparr>"
    and "s_working s' = put_decision row (advance_candidate oid cid dec er (s_working s))"
    and "c \<Longrightarrow> s_committed s' = s_working s'"
    by (auto simp: ev i add_row_def new_id_def on_working_def decisions_of_def dec split: if_splits)
qed

lemma cand_row_advance:
  assumes "s_working s' = put_decision row (advance_candidate oid cid dec er (s_working s))"
  shows "cand_row s' i = map_option (\<lambda>c. if mcand_id c = cid \<and> mcand_organization_id c = oid \<and> mcand_revision c = er
      then c\<lparr>mcand_status := dec, mcand_revision := er + 1\<rparr> else c) (cand_row s i)"
  unfolding cand_row_def assms put_decision_def advance_candidate_def
  by (simp add: find_update_where)

lemma cand_history_advance:
  assumes "s_working s' = put_decision row (advance_candidate oid cid dec er (s_working s))"
    and "md_candidate_id row = cid" and "md_revision row = er + 1" and "md_decision row = dec"
  shows "cand_history s' i = cand_history s i @ (if i = cid then [(er + 1, dec)] else [])"
  using assms by (auto simp: cand_history_def put_decision_def advance_candidate_def)

lemma cand_keys_advance:
  assumes "s_working s' = put_decision row (advance_candidate oid cid dec er (s_working s))" and "cand_keys s"
  shows "cand_keys s'"
  using assms(2) unfolding cand_keys_def assms(1) put_decision_def advance_candidate_def
  by (simp add: keys_update_where)

lemma decide_facts:
  assumes "cand_keys s" and "decide q s = Some s'"
  obtains row cand where
    "s_working s' = put_decision row (advance_candidate (rq_organization_id q) (rq_candidate_id q) (rq_decision q)
        (rq_expected_revision q) (s_working s))"
    and "md_candidate_id row = rq_candidate_id q" and "md_revision row = rq_expected_revision q + 1"
    and "md_decision row = rq_decision q" and "cand_row s (rq_candidate_id q) = Some cand"
    and "mcand_organization_id cand = rq_organization_id q" and "mcand_revision cand = rq_expected_revision q"
    and "mcand_id cand = rq_candidate_id q"
proof -
  from assms(2) obtain row where r: "record_decision (rq_organization_id q) (rq_candidate_id q) (rq_decision q)
      (rq_reason q) (rq_reviewer_id q) (rq_expected_revision q) (rq_now q) True s = (Inr row, s')"
    by (auto simp: decide_def split: prod.splits sum.splits)
  note f = record_decision_success [OF r assms(1)]
  from f(2) obtain cand where c: "cand_row s (rq_candidate_id q) = Some cand"
    "mcand_organization_id cand = rq_organization_id q" "mcand_revision cand = rq_expected_revision q" by blast
  moreover from c(1) have "mcand_id cand = rq_candidate_id q" by (auto simp: cand_row_def dest: row_by_Some)
  ultimately show thesis using that [of row cand] f(4,5) by simp
qed

interpretation decisions: revision_ledger cand_revision cand_status cand_history cand_keys decide
  rq_candidate_id rq_expected_revision rq_decision
proof unfold_locales
  fix s q s'
  assume inv: "cand_keys s" and d: "decide q s = Some s'"
  obtain row cand where f: "s_working s' = put_decision row (advance_candidate (rq_organization_id q)
        (rq_candidate_id q) (rq_decision q) (rq_expected_revision q) (s_working s))"
    "md_candidate_id row = rq_candidate_id q" "md_revision row = rq_expected_revision q + 1"
    "md_decision row = rq_decision q" "cand_row s (rq_candidate_id q) = Some cand"
    "mcand_organization_id cand = rq_organization_id q" "mcand_revision cand = rq_expected_revision q"
    "mcand_id cand = rq_candidate_id q"
    by (rule decide_facts [OF inv d])
  note adv = cand_row_advance [OF f(1)] cand_history_advance [OF f(1-4)]
  show "cand_revision s (rq_candidate_id q) = Some (rq_expected_revision q)"
    using f(5,7) by (simp add: cand_revision_def)
  show "cand_revision s' (rq_candidate_id q) = Some (rq_expected_revision q + 1)
      \<and> cand_status s' (rq_candidate_id q) = Some (rq_decision q)
      \<and> cand_history s' (rq_candidate_id q)
          = cand_history s (rq_candidate_id q) @ [(rq_expected_revision q + 1, rq_decision q)]"
    using f by (simp add: cand_revision_def cand_status_def adv)
  show "cand_keys s'" by (rule cand_keys_advance [OF f(1) inv])
  fix i
  assume "i \<noteq> rq_candidate_id q"
  then have "cand_row s' i = cand_row s i"
    unfolding adv(1) by (cases "cand_row s i") (auto simp: cand_row_def dest: row_by_Some)
  with \<open>i \<noteq> rq_candidate_id q\<close> show "cand_revision s' i = cand_revision s i \<and> cand_status s' i = cand_status s i
      \<and> cand_history s' i = cand_history s i"
    by (simp add: cand_revision_def cand_status_def adv(2))
qed

lemma decide_keeps_row:
  assumes "cand_keys s" and "decide q s = Some s'" and "cand_row s i \<noteq> None"
  shows "cand_row s' i \<noteq> None"
proof -
  obtain row where "s_working s' = put_decision row (advance_candidate (rq_organization_id q)
        (rq_candidate_id q) (rq_decision q) (rq_expected_revision q) (s_working s))"
    using decide_facts [OF assms(1,2)] by blast
  from cand_row_advance [OF this, of i] assms(3) show ?thesis by simp
qed

section \<open>Properties of the review desk\<close>

text \<open>A run of requests, each applied to what the ones before it left committed.\<close>

fun run_requests :: "decision_request list \<Rightarrow> session \<Rightarrow> session" where
  "run_requests [] s = s"
| "run_requests (q # qs) s = run_requests qs (case decide q s of None \<Rightarrow> s | Some s' \<Rightarrow> s')"

lemma run_requests_eq: "run_requests qs s = decisions.apply_all qs s"
  by (induction qs arbitrary: s) auto

lemma run_requests_keeps_row:
  "cand_keys s \<Longrightarrow> cand_row s i \<noteq> None \<Longrightarrow> cand_row (run_requests qs s) i \<noteq> None"
proof (induction qs arbitrary: s)
  case (Cons q qs)
  show ?case
  proof (cases "decide q s")
    case None
    with Cons show ?thesis by simp
  next
    case (Some s')
    with Cons decisions.invar_change [OF Cons.prems(1) Some] decide_keeps_row [OF Cons.prems(1) Some Cons.prems(2)]
    show ?thesis by simp
  qed
qed simp

text \<open>
  C7: whatever requests reviewers send and in whatever order, stale ones included, the
  decisions of a candidate stay numbered 1 to its revision without gap or repetition,
  and its status is that of the last decision.
\<close>

theorem decisions_numbered:
  assumes "cand_keys s" and "cand_row s i = Some c" and "mcand_revision c = 0" and "cand_history s i = []"
  shows "\<exists>n st. cand_revision (run_requests qs s) i = Some n \<and> cand_status (run_requests qs s) i = Some st
    \<and> map fst (cand_history (run_requests qs s) i) = [1..n]
    \<and> (cand_history (run_requests qs s) i = [] \<or> st = snd (last (cand_history (run_requests qs s) i)))"
proof -
  have "decisions.ledger_ok s i" using assms by (simp add: decisions.ledger_ok_def cand_revision_def)
  with decisions.apply_all_ok [OF assms(1)] have ok: "decisions.ledger_ok (run_requests qs s) i"
    by (simp add: run_requests_eq)
  have "cand_row (run_requests qs s) i \<noteq> None"
    using run_requests_keeps_row [OF assms(1)] assms(2) by simp
  then obtain c' where "cand_row (run_requests qs s) i = Some c'" by blast
  with ok show ?thesis by (auto simp: decisions.ledger_ok_def cand_revision_def cand_status_def)
qed

text \<open>
  of two decisions made on the same revision only one is recorded: after the first
  succeeded, the second raises \<^verbatim>\<open>decision_conflict\<close> and the committed database stays
  as the first left it.
\<close>

theorem second_decision_conflicts:
  assumes "cand_keys s"
    and "record_decision oid cid dec reason rv er now True s = (Inr row, s')"
    and "dec2 \<in> match_decisions_allowed" and "strip reason2 \<noteq> []"
  shows "record_decision oid cid dec2 reason2 rv2 er now2 True s'
    = (Inl (ConnectorError ''decision_conflict'' ''Candidate changed. Refresh the queue before deciding.''), rollback s')
    \<and> s_committed (rollback s') = s_committed s' \<and> s_working (rollback s') = s_working s'"
proof -
  note f = record_decision_success [OF assms(2,1)]
  from f(2) obtain c where c: "cand_row s cid = Some c" "mcand_organization_id c = oid" "mcand_revision c = er" by blast
  then have id: "mcand_id c = cid" by (auto simp: cand_row_def dest: row_by_Some)
  have row: "cand_row s' cid = Some (c\<lparr>mcand_status := dec, mcand_revision := er + 1\<rparr>)"
    using cand_row_advance [OF f(5), of cid] c id by simp
  have keys: "cand_keys s'" by (rule cand_keys_advance [OF f(5) assms(1)])
  have none: "\<not> list_ex (\<lambda>c. mcand_id c = cid \<and> mcand_organization_id c = oid \<and> mcand_revision c = er)
      (db_match_candidates (s_working s'))"
  proof
    assume "list_ex (\<lambda>c. mcand_id c = cid \<and> mcand_organization_id c = oid \<and> mcand_revision c = er)
      (db_match_candidates (s_working s'))"
    then obtain x where x: "x \<in> set (db_match_candidates (s_working s'))" "mcand_id x = cid" "mcand_revision x = er"
      by (auto simp: list_ex_iff)
    from row_by_unique [OF keys [unfolded cand_keys_def] x(1)] row x(2,3) show False
      by (auto simp: cand_row_def)
  qed
  have "scoped_candidate s' oid cid = Inr (c\<lparr>mcand_status := dec, mcand_revision := er + 1\<rparr>)"
    using row c id by (simp add: scoped_candidate_def cand_row_def)
  with none assms(3,4) f(6) show ?thesis by (simp add: record_decision_def)
qed

definition demo_candidate :: match_candidate where
  "demo_candidate = \<lparr>mcand_id = 7, mcand_created_at = 0, mcand_organization_id = 1, mcand_rule_set_id = 3,
     mcand_left_record_key = ''a'', mcand_right_record_key = ''b'', mcand_score = None,
     mcand_evidence_json = [], mcand_status = ''review'', mcand_revision = 0\<rparr>"

definition demo_desk :: session where
  "demo_desk = fresh_session\<lparr>s_working := empty_db\<lparr>db_match_candidates := [demo_candidate]\<rparr>,
     s_committed := empty_db\<lparr>db_match_candidates := [demo_candidate]\<rparr>, s_next := 10\<rparr>"

definition demo_request :: "string \<Rightarrow> int \<Rightarrow> decision_request" where
  "demo_request dec er = \<lparr>rq_organization_id = 1, rq_candidate_id = 7, rq_decision = dec, rq_reason = ''seen'',
     rq_reviewer_id = 5, rq_expected_revision = er, rq_now = 100\<rparr>"

lemma demo_desk_facts:
  "cand_keys demo_desk" "cand_row demo_desk 7 = Some demo_candidate" "mcand_revision demo_candidate = 0"
  "cand_history demo_desk 7 = []"
  by code_simp+

theorem decisions_numbered_witness:
  "\<exists>n st. cand_revision (run_requests [demo_request ''match'' 0, demo_request ''no_match'' 0, demo_request ''defer'' 1] demo_desk) 7 = Some n
    \<and> cand_status (run_requests [demo_request ''match'' 0, demo_request ''no_match'' 0, demo_request ''defer'' 1] demo_desk) 7 = Some st
    \<and> map fst (cand_history (run_requests [demo_request ''match'' 0, demo_request ''no_match'' 0, demo_request ''defer'' 1] demo_desk) 7) = [1..n]
    \<and> n = 2"
proof -
  let ?s = "run_requests [demo_request ''match'' 0, demo_request ''no_match'' 0, demo_request ''defer'' 1] demo_desk"
  have n: "cand_revision ?s 7 = Some 2" by code_simp
  from decisions_numbered [OF demo_desk_facts, of "[demo_request ''match'' 0, demo_request ''no_match'' 0, demo_request ''defer'' 1]"]
  obtain m st where "cand_revision ?s 7 = Some m" "cand_status ?s 7 = Some st" "map fst (cand_history ?s 7) = [1..m]"
    by blast
  with n show ?thesis by simp
qed

lemma demo_first_decision:
  "\<exists>row s'. record_decision 1 7 ''match'' ''seen'' 5 0 100 True demo_desk = (Inr row, s')"
proof -
  have "\<not> isl (fst (record_decision 1 7 ''match'' ''seen'' 5 0 100 True demo_desk))" by code_simp
  then show ?thesis by (rule returned_pair)
qed

theorem second_decision_conflicts_witness:
  "\<exists>row s'. record_decision 1 7 ''match'' ''seen'' 5 0 100 True demo_desk = (Inr row, s')
    \<and> record_decision 1 7 ''no_match'' ''differs'' 6 0 101 True s'
      = (Inl (ConnectorError ''decision_conflict'' ''Candidate changed. Refresh the queue before deciding.''), rollback s')"
proof -
  obtain row s' where r: "record_decision 1 7 ''match'' ''seen'' 5 0 100 True demo_desk = (Inr row, s')"
    using demo_first_decision by blast
  have h: "''no_match'' \<in> match_decisions_allowed" "strip ''differs'' \<noteq> []" by code_simp+
  from second_decision_conflicts [OF demo_desk_facts(1) r h, of 6 101] r show ?thesis by blast
qed

text \<open>
  a refused decision publishes nothing: whatever the error, the committed database
  is unchanged, and the working one is either untouched or rolled back to it.
\<close>

theorem refused_decision_publishes_nothing:
  assumes "record_decision oid cid dec reason rv er now c s = (Inl e, s')"
  shows "s_committed s' = s_committed s \<and> (s_working s' = s_working s \<or> s_working s' = s_committed s)"
  using assms
  by (auto simp: record_decision_def Let_def add_row_def split: if_splits sum.splits)

theorem refused_decision_publishes_nothing_witness:
  "\<exists>e s'. record_decision 1 7 ''perhaps'' ''seen'' 5 0 100 True demo_desk = (Inl e, s')
    \<and> s_committed s' = s_committed demo_desk"
proof -
  have "isl (fst (record_decision 1 7 ''perhaps'' ''seen'' 5 0 100 True demo_desk))" by code_simp
  then obtain e s' where r: "record_decision 1 7 ''perhaps'' ''seen'' 5 0 100 True demo_desk = (Inl e, s')"
    using raised_pair by blast
  from refused_decision_publishes_nothing [OF r] r show ?thesis by blast
qed

text \<open>The ledger of one candidate, as the invariant keeps it.\<close>

definition candidate_ledger :: "session \<Rightarrow> uuid \<Rightarrow> bool" where
  "candidate_ledger s i = (\<exists>n. cand_revision s i = Some n \<and> 0 \<le> n \<and> map fst (cand_history s i) = [1..n])"

lemma ledger_insertable:
  assumes "candidate_ledger s cid" and "cand_revision s cid = Some er"
  shows "decision_insertable (s_working s) cid (er + 1)"
proof -
  have h: "0 \<le> er" "map fst (cand_history s cid) = [1..er]" using assms by (auto simp: candidate_ledger_def)
  have "er + 1 \<notin> set (map fst (cand_history s cid))" unfolding h(2) by simp
  then show ?thesis using h(1)
    by (force simp: decision_insertable_def list_ex_iff cand_history_def)
qed

lemma record_decision_ok:
  assumes "cand_keys s" and "candidate_ledger s cid" and "dec \<in> match_decisions_allowed" and "strip reason \<noteq> []"
    and c: "cand_row s cid = Some c" "mcand_organization_id c = oid" "mcand_revision c = er"
  shows "\<exists>row s'. record_decision oid cid dec reason rv er now cm s = (Inr row, s')"
proof -
  have mem: "c \<in> set (db_match_candidates (s_working s))" "mcand_id c = cid"
    using c(1) by (auto simp: cand_row_def dest: row_by_Some)
  have "scoped_candidate s oid cid = Inr c" using c by (simp add: scoped_candidate_def cand_row_def)
  moreover have "list_ex (\<lambda>c. mcand_id c = cid \<and> mcand_organization_id c = oid \<and> mcand_revision c = er)
      (db_match_candidates (s_working s))" using mem c by (auto simp: list_ex_iff)
  moreover have "decision_insertable (s_working (on_working (advance_candidate oid cid dec er) s)) cid (er + 1)"
    using ledger_insertable [OF assms(2)] c by (simp add: decision_insertable_def advance_candidate_def cand_revision_def)
  ultimately show ?thesis using assms(3,4) mem by (simp add: record_decision_def Let_def split: prod.splits)
qed

text \<open>
  a decision is recorded exactly when it is one of the four decisions, has a reason,
  names a candidate of the organization and the candidate's current revision; the
  database's constraints then never refuse it.
\<close>

theorem decision_recorded_iff:
  assumes "cand_keys s" and "candidate_ledger s cid"
  shows "(\<exists>row s'. record_decision oid cid dec reason rv er now cm s = (Inr row, s')) \<longleftrightarrow>
    dec \<in> match_decisions_allowed \<and> strip reason \<noteq> []
    \<and> (\<exists>c. cand_row s cid = Some c \<and> mcand_organization_id c = oid \<and> mcand_revision c = er)"
  (is "?L \<longleftrightarrow> ?R")
proof
  assume ?L
  then obtain row s' where "record_decision oid cid dec reason rv er now cm s = (Inr row, s')" by blast
  from record_decision_success(1,2) [OF this assms(1)] show ?R by blast
next
  assume ?R
  then show ?L using record_decision_ok [OF assms] by blast
qed

theorem decision_recorded_iff_witness:
  "\<exists>row s'. record_decision 1 7 ''match'' ''seen'' 5 0 100 False demo_desk = (Inr row, s')"
proof -
  have l: "candidate_ledger demo_desk 7"
    using demo_desk_facts by (simp add: candidate_ledger_def cand_revision_def)
  have "''match'' \<in> match_decisions_allowed" "strip ''seen'' \<noteq> []" "mcand_organization_id demo_candidate = 1"
    by code_simp+
  with decision_recorded_iff [OF demo_desk_facts(1) l] demo_desk_facts show ?thesis by blast
qed

lemma sum_counts_filter:
  assumes "distinct ss"
  shows "sum_list (map (\<lambda>st. case map_of (count_by xs) st of None \<Rightarrow> 0 | Some n \<Rightarrow> n) ss)
    = length (filter (\<lambda>x. x \<in> set ss) xs)"
proof -
  have eq: "(case map_of (count_by xs) st of None \<Rightarrow> 0 | Some n \<Rightarrow> n) = count_list xs st" for st
    by (simp add: map_of_count_by count_list_0_iff)
  have "sum_list (map (count_list xs) ss) = length (filter (\<lambda>x. x \<in> set ss) xs)"
    using assms
  proof (induction xs)
    case (Cons x xs)
    have "sum_list (map (\<lambda>s. if x = s then 1 + count_list xs s else count_list xs s) ss)
        = sum_list (map (count_list xs) ss) + (if x \<in> set ss then 1 else 0)"
      using Cons.prems by (induction ss) auto
    moreover have "count_list (x # xs) = (\<lambda>s. if x = s then 1 + count_list xs s else count_list xs s)" by auto
    ultimately show ?case using Cons by simp
  qed simp
  then show ?thesis by (simp add: eq)
qed

text \<open>
  the summary of the review queue is exact: its total is the number of the
  organization's candidates, its needs-review count the number of those in a review
  status, and no candidate is counted as unreviewed that is not among them.
\<close>

theorem queue_summary_exact:
  fixes oid :: uuid and s :: session
  defines "cs \<equiv> filter (\<lambda>c. mcand_organization_id c = oid) (db_match_candidates (s_working s))"
  shows "msum_total_candidates (review_queue_summary oid s) = length cs
    \<and> msum_needs_review_candidates (review_queue_summary oid s)
        = length (filter (\<lambda>c. mcand_status c \<in> set REVIEW_STATUSES) cs)
    \<and> msum_unreviewed_candidates (review_queue_summary oid s)
        = length (filter (\<lambda>c. decisions_of (s_working s) oid (mcand_id c) = []) cs)"
proof -
  have d: "distinct REVIEW_STATUSES" by code_simp
  show ?thesis
    by (simp add: review_queue_summary_def Let_def cs_def count_by_sum sum_counts_filter [OF d]
        filter_map o_def unreviewed_candidate_def)
qed

lemma sort_key_snoc_least:
  assumes "\<forall>d \<in> set ds. f x < f d"
  shows "sort_key f (ds @ [x]) = x # sort_key f ds"
  using assms by (induction ds) (auto simp: not_le)

text \<open>
  after a decision is recorded, the candidate's decision list starts with it, the
  earlier decisions follow unchanged, and it supersedes exactly the decision that led the
  list before.
\<close>

theorem recorded_decision_leads_list:
  assumes "cand_keys s" and "candidate_ledger s cid"
    and "record_decision oid cid dec reason rv er now cm s = (Inr row, s')"
    and "list_decisions oid cid n 0 s = Inr ds"
  shows "list_decisions oid cid (Suc n) 0 s' = Inr (row # ds)
    \<and> (n = 0 \<or> md_supersedes_decision_id row = (case ds of [] \<Rightarrow> None | d # _ \<Rightarrow> Some (md_id d)))"
proof -
  note f = record_decision_success [OF assms(3,1)]
  from f(2) obtain c where c: "cand_row s cid = Some c" "mcand_organization_id c = oid" "mcand_revision c = er" by blast
  have id: "mcand_id c = cid" using c(1) by (auto simp: cand_row_def dest: row_by_Some)
  have row': "cand_row s' cid = Some (c\<lparr>mcand_status := dec, mcand_revision := er + 1\<rparr>)"
    using cand_row_advance [OF f(5), of cid] c id by simp
  have scoped: "scoped_candidate s oid cid = Inr c"
    "scoped_candidate s' oid cid = Inr (c\<lparr>mcand_status := dec, mcand_revision := er + 1\<rparr>)"
    using c row' by (simp_all add: scoped_candidate_def cand_row_def)
  let ?ds = "decisions_of (s_working s) oid cid"
  have ds': "decisions_of (s_working s') oid cid = ?ds @ [row]"
    unfolding f(5) by (simp add: decisions_of_def put_decision_def advance_candidate_def f(4))
  have hist: "map fst (cand_history s cid) = [1..er]" using assms(2) c(1,3) by (auto simp: candidate_ledger_def cand_revision_def)
  have "\<forall>d \<in> set ?ds. md_revision d \<le> er"
  proof
    fix d
    assume "d \<in> set ?ds"
    then have "md_revision d \<in> set (map fst (cand_history s cid))"
      by (force simp: decisions_of_def cand_history_def)
    then show "md_revision d \<le> er" unfolding hist by simp
  qed
  then have "sort_key (\<lambda>d. - md_revision d) (?ds @ [row]) = row # sort_key (\<lambda>d. - md_revision d) ?ds"
    by (intro sort_key_snoc_least) (auto simp: f(4))
  then have "list_decisions oid cid (Suc n) 0 s' = Inr (row # take n (sort_key (\<lambda>d. - md_revision d) ?ds))"
    using scoped(2) ds' id by (simp add: list_decisions_def)
  moreover have "ds = take n (sort_key (\<lambda>d. - md_revision d) ?ds)"
    using assms(4) scoped(1) id by (simp add: list_decisions_def)
  moreover have "md_supersedes_decision_id row = map_option md_id (latest_decision ?ds)"
    by (simp add: f(4))
  ultimately show ?thesis
    by (cases n; cases "sort_key (\<lambda>d. - md_revision d) ?ds") (simp_all add: latest_decision_def)
qed

theorem recorded_decision_leads_list_witness:
  "\<exists>row s'. record_decision 1 7 ''match'' ''seen'' 5 0 100 True demo_desk = (Inr row, s')
    \<and> list_decisions 1 7 (Suc 10) 0 s' = Inr [row]"
proof -
  obtain row s' where r: "record_decision 1 7 ''match'' ''seen'' 5 0 100 True demo_desk = (Inr row, s')"
    using demo_first_decision by blast
  have l: "candidate_ledger demo_desk 7"
    using demo_desk_facts by (simp add: candidate_ledger_def cand_revision_def)
  have e: "list_decisions 1 7 10 0 demo_desk = Inr []" by code_simp
  from recorded_decision_leads_list [OF demo_desk_facts(1) l r e] r show ?thesis by blast
qed

text \<open>
  running a match twice for one configuration reuses the stored rule set: the second
  lookup returns the row the first created and leaves the session as it is.
\<close>

theorem rule_set_reused:
  assumes "rule_set oid cfg now s = (r, s')"
  shows "rule_set oid cfg later s' = (r, s')"
proof -
  let ?k = "(oid, dm_rule_set_id cfg, dm_schema_version cfg)"
  have "find_rule_set s' ?k = Some r"
    using rule_sets.goc_finds assms by (simp add: rule_set_def)
  then show ?thesis using rule_sets.hit by (simp add: rule_set_def)
qed

definition demo_rules :: det_match_config where
  "demo_rules = \<lparr>dm_schema_version = ''1.0'', dm_rule_set_id = ''people'', dm_organization_field = ''org'',
     dm_record_key_field = ''key'', dm_rules = []\<rparr>"

theorem rule_set_reused_witness:
  "\<exists>r s'. rule_set 1 demo_rules 5 fresh_session = (r, s') \<and> rule_set 1 demo_rules 9 s' = (r, s')"
proof -
  obtain r s' where r: "rule_set 1 demo_rules 5 fresh_session = (r, s')" by (metis prod.exhaust)
  from rule_set_reused [OF this, of 9] r show ?thesis by blast
qed

end
