(* ===== verification/Profiling.thy ===== *)
theory Profiling
  imports Connectors Match_Service
begin

text \<open>
  Profiling (\<^verbatim>\<open>profiling/\<close>) and the scoped queries of \<^verbatim>\<open>repositories.py\<close>. The data frame library is a
  parameter that turns the sampled records into columns, each with its values, the name of its
  type and, for a numeric column, its statistics. A profile is the dict the code stores, and the
  comparison reads that dict.
\<close>

section \<open>Floats\<close>

fun fl_neg :: "pyfloat \<Rightarrow> pyfloat" where
  "fl_neg (Fin x) = Fin (- x)" | "fl_neg PosInf = NegInf" | "fl_neg NegInf = PosInf" | "fl_neg NaN = NaN"

fun fl_add :: "pyfloat \<Rightarrow> pyfloat \<Rightarrow> pyfloat" where
  "fl_add (Fin x) (Fin y) = Fin (x + y)"
| "fl_add NaN b = NaN"
| "fl_add a NaN = NaN"
| "fl_add PosInf NegInf = NaN"
| "fl_add NegInf PosInf = NaN"
| "fl_add PosInf b = PosInf"
| "fl_add NegInf b = NegInf"
| "fl_add a b = b"

definition fl_sub :: "pyfloat \<Rightarrow> pyfloat \<Rightarrow> pyfloat" where
  "fl_sub a b = fl_add a (fl_neg b)"

fun fl_abs :: "pyfloat \<Rightarrow> pyfloat" where
  "fl_abs (Fin x) = Fin \<bar>x\<bar>" | "fl_abs NaN = NaN" | "fl_abs _ = PosInf"

text \<open>Division of two absolute values, the divisor not zero.\<close>

fun fl_div :: "pyfloat \<Rightarrow> pyfloat \<Rightarrow> pyfloat" where
  "fl_div (Fin x) (Fin y) = Fin (x / y)"
| "fl_div NaN b = NaN"
| "fl_div a NaN = NaN"
| "fl_div (Fin x) b = Fin 0"
| "fl_div a (Fin y) = a"
| "fl_div a b = NaN"

fun fl_round8 :: "pyfloat \<Rightarrow> pyfloat" where
  "fl_round8 (Fin x) = Fin (round8 x)" | "fl_round8 f = f"

fun fl_above :: "pyfloat \<Rightarrow> real \<Rightarrow> bool" where
  "fl_above (Fin x) t = (x > t)" | "fl_above PosInf t = True" | "fl_above _ t = False"

definition py_number :: "pyval \<Rightarrow> pyfloat res" where
  "py_number v = (case v of PBool b \<Rightarrow> Inr (Fin (if b then 1 else 0)) | PInt i \<Rightarrow> Inr (Fin (of_int i))
     | PFloat f \<Rightarrow> Inr f | _ \<Rightarrow> Inl TypeError)"

section \<open>Profiles\<close>

record column_stats =
  cs_minimum :: pyfloat
  cs_maximum :: pyfloat
  cs_mean :: pyfloat
  cs_median :: pyfloat
  cs_p05 :: pyfloat
  cs_p95 :: pyfloat

record frame_column =
  fcol_name :: string
  fcol_values :: "pyval list"
  fcol_dtype :: string
  fcol_numeric :: bool
  fcol_stats :: "column_stats option"

type_synonym frame_reader = "pyrec list \<Rightarrow> frame_column list res"

record profile_result =
  pr_profile :: pyrec
  pr_schema_fingerprint :: string

record drift_result =
  dres_status :: string
  dres_comparison :: pyrec

definition profile_fingerprint :: "runtime \<Rightarrow> string \<Rightarrow> string" where
  "profile_fingerprint R value = take 16 (rt_sha256 R value)"

definition safe_ratio :: "nat \<Rightarrow> nat \<Rightarrow> real" where
  "safe_ratio numerator denominator = (if denominator \<noteq> 0 then round8 (of_nat numerator / of_nat denominator) else 0)"

definition relative_delta :: "pyfloat \<Rightarrow> pyfloat \<Rightarrow> pyfloat" where
  "relative_delta current baseline =
     (if baseline = Fin 0 then (if current = Fin 0 then Fin 0 else Fin 1)
      else fl_round8 (fl_div (fl_abs (fl_sub current baseline)) (fl_abs baseline)))"

text \<open>\<^verbatim>\<open>Counter\<close>: the texts in the order of their first appearance, with their counts.\<close>

definition counter :: "string list \<Rightarrow> (string \<times> nat) list" where
  "counter xs = map (\<lambda>(k, ys). (k, length ys)) (group_pairs (map (\<lambda>x. (x, ())) xs) [])"

definition most_common :: "nat \<Rightarrow> (string \<times> nat) list \<Rightarrow> (string \<times> nat) list" where
  "most_common n counts = take n (sort_key (\<lambda>p. - int (snd p)) counts)"

definition top_value :: "runtime \<Rightarrow> profile_config \<Rightarrow> nat \<Rightarrow> string \<times> nat \<Rightarrow> pyval" where
  "top_value R config sample_count p = PDict
     [(''fingerprint'', PStr (if pc_mask_samples config then profile_fingerprint R (fst p) else fst p)),
      (''count'', PInt (int (snd p))), (''share'', PFloat (Fin (safe_ratio (snd p) sample_count)))]"

definition round4 :: "real \<Rightarrow> real" where
  "round4 x = of_int (round_half_even (x * 10 ^ 4)) / 10 ^ 4"

definition str_lengths :: "pyval list \<Rightarrow> nat list" where
  "str_lengths values = concat (map (\<lambda>v. case v of PStr t \<Rightarrow> [length t] | _ \<Rightarrow> []) values)"

definition stats_json :: "column_stats \<Rightarrow> pyval" where
  "stats_json c = PDict [(''minimum'', PFloat (cs_minimum c)), (''maximum'', PFloat (cs_maximum c)), (''mean'', PFloat (cs_mean c)),
     (''median'', PFloat (cs_median c)), (''p05'', PFloat (cs_p05 c)), (''p95'', PFloat (cs_p95 c))]"

definition is_blank_text :: "pyval \<Rightarrow> bool" where
  "is_blank_text v = (case v of PStr t \<Rightarrow> strip t = [] | _ \<Rightarrow> False)"

definition numeric_part :: "frame_column \<Rightarrow> pyrec" where
  "numeric_part c = (if fcol_numeric c then (case fcol_stats c of None \<Rightarrow> [] | Some st \<Rightarrow> [(''numeric'', stats_json st)]) else [])"

definition length_part :: "nat list \<Rightarrow> pyrec" where
  "length_part lengths = (if lengths = [] then [] else
     [(''string_length'', PDict [(''minimum'', PInt (int (Min (set lengths)))), (''maximum'', PInt (int (Max (set lengths)))),
        (''mean'', PFloat (Fin (round4 (of_nat (sum_list lengths) / of_nat (length lengths)))))])])"

definition field_profile :: "runtime \<Rightarrow> profile_config \<Rightarrow> nat \<Rightarrow> frame_column \<Rightarrow> pyrec" where
  "field_profile R config sample_count c =
     (let values = fcol_values c; null_count = length (filter (\<lambda>v. v = PNone) values);
          non_null = filter (\<lambda>v. v \<noteq> PNone) values; counts = counter (map (py_str R) non_null); lengths = str_lengths non_null in
      [(''observed_type'', PStr (fcol_dtype c)), (''null_count'', PInt (int null_count)),
       (''null_rate'', PFloat (Fin (safe_ratio null_count sample_count))),
       (''blank_count'', PInt (int (length (filter is_blank_text values)))),
       (''distinct_count'', PInt (int (length counts))),
       (''distinct_rate'', PFloat (Fin (safe_ratio (length counts) sample_count))),
       (''top_values'', PList (map (top_value R config sample_count) (most_common (pc_top_values_limit config) counts)))]
      @ numeric_part c @ length_part lengths)"

definition profiler_profile :: "runtime \<Rightarrow> frame_reader \<Rightarrow> pyrec list \<Rightarrow> profile_config \<Rightarrow> int \<Rightarrow> profile_result res" where
  "profiler_profile R from_dicts records config now =
     (let sampled = take (pc_sample_limit config) records in
      case (if sampled = [] then Inr [] else from_dicts sampled) of Inl e \<Rightarrow> Inl e | Inr columns \<Rightarrow>
      let flds = fold (\<lambda>c d. dict_set (fcol_name c) (PDict (field_profile R config (length sampled) c)) d) columns [];
          material = map (\<lambda>(name, v). (name, get_field (case v of PDict d \<Rightarrow> d | _ \<Rightarrow> []) ''observed_type'')) (sort_key fst flds) in
      Inr \<lparr>pr_profile = [(''profile_version'', PStr ''1.0''), (''profile_id'', PStr (pc_profile_id config)),
             (''generated_at'', PStr (rt_isoformat R now)), (''row_count'', PInt (int (length records))),
             (''sample_count'', PInt (int (length sampled))), (''masked_top_values'', PBool (pc_mask_samples config)),
             (''fields'', PDict flds)],
           pr_schema_fingerprint = rt_sha256 R (rt_json R (PDict material))\<rparr>)"

section \<open>Drift\<close>

text \<open>Calling \<^verbatim>\<open>.get\<close> on something that is no dict.\<close>

definition need_dict :: "pyval \<Rightarrow> pyrec res" where
  "need_dict v = (case as_dict v of None \<Rightarrow> Inl (RuntimeError ''AttributeError'') | Some d \<Rightarrow> Inr d)"

definition metric_delta :: "pyrec \<Rightarrow> pyrec \<Rightarrow> string \<Rightarrow> pyfloat res" where
  "metric_delta before after key =
     (case py_number (get_field_or after key (PFloat (Fin 0))) of Inl e \<Rightarrow> Inl e | Inr a \<Rightarrow>
      case py_number (get_field_or before key (PFloat (Fin 0))) of Inl e \<Rightarrow> Inl e | Inr b \<Rightarrow> Inr (fl_round8 (fl_sub a b)))"

definition mean_of :: "pyrec \<Rightarrow> pyval res" where
  "mean_of fp = (case need_dict (get_field_or fp ''numeric'' (PDict [])) of Inl e \<Rightarrow> Inl e | Inr d \<Rightarrow> Inr (get_field d ''mean''))"

definition mean_delta :: "runtime \<Rightarrow> pyrec \<Rightarrow> pyrec \<Rightarrow> pyfloat option res" where
  "mean_delta R before after =
     (case mean_of before of Inl e \<Rightarrow> Inl e | Inr b \<Rightarrow>
      case mean_of after of Inl e \<Rightarrow> Inl e | Inr a \<Rightarrow>
      if b = PNone \<or> a = PNone then Inr None
      else case py_float R a of Inl e \<Rightarrow> Inl e | Inr x \<Rightarrow>
      case py_float R b of Inl e \<Rightarrow> Inl e | Inr y \<Rightarrow> Inr (Some (relative_delta x y)))"

definition top_share :: "runtime \<Rightarrow> pyrec \<Rightarrow> pyfloat res" where
  "top_share R fp = (case get_field_or fp ''top_values'' (PList [PDict []]) of
       PList [] \<Rightarrow> Inr (Fin 0)
     | PList (v # _) \<Rightarrow> (case need_dict v of Inl e \<Rightarrow> Inl e | Inr d \<Rightarrow> py_float R (get_field_or d ''share'' (PFloat (Fin 0))))
     | v \<Rightarrow> if truthy v then Inl TypeError else Inr (Fin 0))"

text \<open>The four deltas of a field, in the order of the dict.\<close>

definition field_change :: "runtime \<Rightarrow> pyrec \<Rightarrow> pyrec \<Rightarrow> (string \<times> pyfloat option) list res" where
  "field_change R before after =
     (case metric_delta before after ''null_rate'' of Inl e \<Rightarrow> Inl e | Inr n \<Rightarrow>
      case metric_delta before after ''distinct_rate'' of Inl e \<Rightarrow> Inl e | Inr d \<Rightarrow>
      case mean_delta R before after of Inl e \<Rightarrow> Inl e | Inr m \<Rightarrow>
      case top_share R before of Inl e \<Rightarrow> Inl e | Inr b \<Rightarrow>
      case top_share R after of Inl e \<Rightarrow> Inl e | Inr a \<Rightarrow>
      Inr [(''null_rate_delta'', Some n), (''distinct_rate_delta'', Some d), (''numeric_mean_relative_delta'', m),
           (''top_value_share_delta'', Some (fl_round8 (fl_sub a b)))])"

definition thresholds_of :: "profile_config \<Rightarrow> string \<Rightarrow> real" where
  "thresholds_of config metric =
     (let t = pc_thresholds config in
      if metric = ''null_rate_delta'' then dt_null_rate_delta t
      else if metric = ''distinct_rate_delta'' then dt_distinct_rate_delta t
      else if metric = ''numeric_mean_relative_delta'' then dt_numeric_mean_relative_delta t
      else dt_top_value_share_delta t)"

definition opt_float :: "pyfloat option \<Rightarrow> pyval" where
  "opt_float v = (case v of None \<Rightarrow> PNone | Some f \<Rightarrow> PFloat f)"

definition breaches_of :: "profile_config \<Rightarrow> string \<Rightarrow> (string \<times> pyfloat option) list \<Rightarrow> pyval list" where
  "breaches_of config name change = map (\<lambda>(metric, v). PDict [(''field'', PStr name), (''metric'', PStr metric), (''value'', opt_float v),
       (''threshold'', PFloat (Fin (thresholds_of config metric)))])
     (filter (\<lambda>(metric, v). case v of None \<Rightarrow> False | Some f \<Rightarrow> fl_above (fl_abs f) (thresholds_of config metric)) change)"

record drift_state =
  ds_type_changes :: "pyval list"
  ds_metric_changes :: "pyval list"
  ds_breached :: "pyval list"

definition compare_field :: "runtime \<Rightarrow> profile_config \<Rightarrow> pyrec \<Rightarrow> pyrec \<Rightarrow> string \<Rightarrow> drift_state \<Rightarrow> drift_state res" where
  "compare_field R config baseline_fields current_fields name ds =
     (case need_dict (get_field baseline_fields name) of Inl e \<Rightarrow> Inl e | Inr before \<Rightarrow>
      case need_dict (get_field current_fields name) of Inl e \<Rightarrow> Inl e | Inr after \<Rightarrow>
      case field_change R before after of Inl e \<Rightarrow> Inl e | Inr change \<Rightarrow>
      let tb = get_field before ''observed_type''; ta = get_field after ''observed_type'' in
      Inr \<lparr>ds_type_changes = ds_type_changes ds @ (if tb \<noteq> ta
             then [PDict [(''field'', PStr name), (''baseline'', PStr (py_str R tb)), (''current'', PStr (py_str R ta))]] else []),
           ds_metric_changes = ds_metric_changes ds @ [PDict ((''field'', PStr name) # map (\<lambda>(m, v). (m, opt_float v)) change)],
           ds_breached = ds_breached ds @ breaches_of config name change\<rparr>)"

definition compare_profiles :: "runtime \<Rightarrow> pyrec \<Rightarrow> pyrec \<Rightarrow> profile_config \<Rightarrow> drift_result res" where
  "compare_profiles R baseline current config =
     (case need_dict (get_field_or baseline ''fields'' (PDict [])) of Inl e \<Rightarrow> Inl e | Inr baseline_fields \<Rightarrow>
      case need_dict (get_field_or current ''fields'' (PDict [])) of Inl e \<Rightarrow> Inl e | Inr current_fields \<Rightarrow>
      let bn = remdups (map fst baseline_fields); cn = remdups (map fst current_fields);
          added = sort (filter (\<lambda>n. n \<notin> set bn) cn); removed = sort (filter (\<lambda>n. n \<notin> set cn) bn) in
      case res_fold (compare_field R config baseline_fields current_fields) (sort (filter (\<lambda>n. n \<in> set cn) bn))
             \<lparr>ds_type_changes = [], ds_metric_changes = [], ds_breached = []\<rparr> of
        Inl e \<Rightarrow> Inl e
      | Inr ds \<Rightarrow>
        let status = (if removed \<noteq> [] \<or> ds_type_changes ds \<noteq> [] \<or> ds_breached ds \<noteq> [] then ''drift''
                      else if added \<noteq> [] then ''warning'' else ''stable'') in
        Inr \<lparr>dres_status = status, dres_comparison =
          [(''status'', PStr status), (''added_fields'', PList (map PStr added)), (''removed_fields'', PList (map PStr removed)),
           (''type_changes'', PList (ds_type_changes ds)), (''metric_changes'', PList (ds_metric_changes ds)),
           (''threshold_breaches'', PList (ds_breached ds)), (''baseline_row_count'', get_field_or baseline ''row_count'' (PInt 0)),
           (''current_row_count'', get_field_or current ''row_count'' (PInt 0))]\<rparr>)"

section \<open>Service\<close>

record profile_outcome =
  po_profile_id :: uuid
  po_schema_fingerprint :: string
  po_profile :: pyrec
  po_comparison_id :: "uuid option"
  po_drift_status :: "string option"
  po_comparison :: "pyrec option"

definition profile_snapshot :: "database \<Rightarrow> uuid \<Rightarrow> uuid \<Rightarrow> raw_snapshot res" where
  "profile_snapshot db organization_id snapshot_id =
     (case row_by rs_id (db_raw_snapshots db) snapshot_id of
        None \<Rightarrow> Inl (ConnectorError ''snapshot_not_found'' ''Raw snapshot was not found'')
      | Some snapshot \<Rightarrow>
        let err = Inl (ConnectorError ''snapshot_scope_mismatch'' ''Raw snapshot is outside organization scope'') in
        case row_by so_id (db_source_objects db) (rs_source_object_id snapshot) of None \<Rightarrow> err | Some obj \<Rightarrow>
        case row_by ss_id (db_source_systems db) (so_source_system_id obj) of None \<Rightarrow> err | Some source \<Rightarrow>
        if ss_organization_id source \<noteq> organization_id then err else Inr snapshot)"

definition put_profile :: "schema_profile \<Rightarrow> database \<Rightarrow> database" where
  "put_profile r db = db\<lparr>db_schema_profiles := db_schema_profiles db @ [r]\<rparr>"

definition put_comparison :: "profile_comparison \<Rightarrow> database \<Rightarrow> database" where
  "put_comparison r db = db\<lparr>db_profile_comparisons := db_profile_comparisons db @ [r]\<rparr>"

definition check_baseline :: "database \<Rightarrow> uuid \<Rightarrow> uuid \<Rightarrow> uuid option \<Rightarrow> schema_profile option res" where
  "check_baseline db organization_id snapshot_id baseline_profile_id = (case baseline_profile_id of
       None \<Rightarrow> Inr None
     | Some b \<Rightarrow> (case row_by sp_id (db_schema_profiles db) b of
         None \<Rightarrow> Inl (ConnectorError ''baseline_not_found'' ''Baseline profile was not found'')
       | Some baseline \<Rightarrow>
         (case profile_snapshot db organization_id snapshot_id of Inl e \<Rightarrow> Inl e | Inr current \<Rightarrow>
          case profile_snapshot db organization_id (sp_raw_snapshot_id baseline) of Inl e \<Rightarrow> Inl e | Inr old \<Rightarrow>
          if rs_source_object_id current \<noteq> rs_source_object_id old
          then Inl (ConnectorError ''baseline_source_mismatch'' ''Baseline must describe the same source object'')
          else Inr (Some baseline))))"

definition create_profile :: "runtime \<Rightarrow> frame_reader \<Rightarrow> uuid \<Rightarrow> uuid \<Rightarrow> pyrec list \<Rightarrow> profile_config \<Rightarrow> uuid option \<Rightarrow> int
    \<Rightarrow> session \<Rightarrow> profile_outcome res \<times> session" where
  "create_profile R from_dicts organization_id snapshot_id records config baseline_profile_id now s =
     (case profile_snapshot (s_working s) organization_id snapshot_id of Inl e \<Rightarrow> (Inl e, s) | Inr _ \<Rightarrow>
      case profiler_profile R from_dicts records config now of Inl e \<Rightarrow> (Inl e, s) | Inr result \<Rightarrow>
      case check_baseline (s_working s) organization_id snapshot_id baseline_profile_id of Inl e \<Rightarrow> (Inl e, s) | Inr baseline \<Rightarrow>
      case add_row (\<lambda>i. \<lparr>sp_id = i, sp_created_at = now, sp_raw_snapshot_id = snapshot_id, sp_profile_version = ''1.0'',
             sp_profile_json = pr_profile result, sp_baseline_profile_id = baseline_profile_id\<rparr>) put_profile s of (profile, s1) \<Rightarrow>
      case baseline of
        None \<Rightarrow> (Inr \<lparr>po_profile_id = sp_id profile, po_schema_fingerprint = pr_schema_fingerprint result, po_profile = pr_profile result,
             po_comparison_id = None, po_drift_status = None, po_comparison = None\<rparr>, commit s1)
      | Some b \<Rightarrow>
        (case compare_profiles R (sp_profile_json b) (pr_profile result) config of Inl e \<Rightarrow> (Inl e, s1) | Inr drift \<Rightarrow>
         case add_row (\<lambda>i. \<lparr>pcmp_id = i, pcmp_created_at = now, pcmp_organization_id = organization_id, pcmp_baseline_profile_id = sp_id b,
                pcmp_current_profile_id = sp_id profile, pcmp_status = dres_status drift, pcmp_comparison_json = dres_comparison drift\<rparr>)
                put_comparison s1 of (c, s2) \<Rightarrow>
         (Inr \<lparr>po_profile_id = sp_id profile, po_schema_fingerprint = pr_schema_fingerprint result, po_profile = pr_profile result,
             po_comparison_id = Some (pcmp_id c), po_drift_status = Some (dres_status drift), po_comparison = Some (dres_comparison drift)\<rparr>,
          commit s2)))"

section \<open>Scoped queries\<close>

text \<open>\<^verbatim>\<open>uuid.UUID(value)\<close> is a parameter: \<open>None\<close> for a text that is no UUID.\<close>

definition list_organizations :: "(string \<Rightarrow> uuid option) \<Rightarrow> database \<Rightarrow> string list option \<Rightarrow> organization list" where
  "list_organizations parse_uuid db organization_ids =
     (let all = sort_key org_name (db_organizations db) in
      case organization_ids of
        None \<Rightarrow> all
      | Some ids \<Rightarrow> if ''*'' \<in> set ids then all
          else filter (\<lambda>r. Some (org_id r) \<in> parse_uuid ` set ids) all)"

definition get_scoped_source :: "database \<Rightarrow> uuid \<Rightarrow> string \<Rightarrow> source_system res" where
  "get_scoped_source db organization_id key =
     (case find (\<lambda>r. ss_organization_id r = organization_id \<and> ss_source_key r = key \<and> ss_active r) (db_source_systems db) of
        None \<Rightarrow> Inl (ConnectorError ''source_not_found'' ''Source was not found'') | Some r \<Rightarrow> Inr r)"

definition in_organization :: "database \<Rightarrow> uuid \<Rightarrow> raw_snapshot \<Rightarrow> bool" where
  "in_organization db organization_id r =
     list_ex (\<lambda>o'. so_id o' = rs_source_object_id r \<and>
       list_ex (\<lambda>s. ss_id s = so_source_system_id o' \<and> ss_organization_id s = organization_id) (db_source_systems db)) (db_source_objects db)"

definition get_scoped_snapshot :: "database \<Rightarrow> uuid \<Rightarrow> uuid \<Rightarrow> raw_snapshot res" where
  "get_scoped_snapshot db organization_id snapshot_id =
     (case find (\<lambda>r. rs_id r = snapshot_id \<and> in_organization db organization_id r) (db_raw_snapshots db) of
        None \<Rightarrow> Inl (ConnectorError ''snapshot_not_found'' ''Raw snapshot was not found'') | Some r \<Rightarrow> Inr r)"

definition list_sources :: "database \<Rightarrow> uuid \<Rightarrow> source_system list" where
  "list_sources db organization_id = sort_key ss_name (filter (\<lambda>r. ss_organization_id r = organization_id) (db_source_systems db))"

section \<open>Lemmas: a field compared with itself\<close>

lemma fl_self [simp]: "\<not> fl_above (fl_abs (fl_round8 (fl_sub f f))) t" if "0 \<le> t" for t
  using that by (cases f) (simp_all add: fl_sub_def round8_def round_half_even_def)

lemma relative_delta_self: "0 \<le> t \<Longrightarrow> \<not> fl_above (fl_abs (relative_delta f f)) t"
  by (cases f) (simp_all add: relative_delta_def fl_sub_def round8_def round_half_even_def)

lemma field_profile_rates:
  "get_field_or (field_profile R config n c) ''null_rate'' d = PFloat (Fin (safe_ratio (length (filter (\<lambda>v. v = PNone) (fcol_values c))) n))"
  by (simp add: field_profile_def Let_def get_field_or_def)

lemma field_profile_numeric:
  "get_field_or (field_profile R config n c) ''numeric'' (PDict []) =
     (if fcol_numeric c then (case fcol_stats c of None \<Rightarrow> PDict [] | Some st \<Rightarrow> stats_json st) else PDict [])"
proof -
  have "map_of (length_part l) ''numeric'' = None" for l by (simp add: length_part_def)
  then show ?thesis unfolding field_profile_def Let_def get_field_or_def numeric_part_def
    by (cases "fcol_numeric c"; cases "fcol_stats c") (simp_all add: map_add_def)
qed

lemma field_profile_top:
  "\<exists>counts. get_field_or (field_profile R config n c) ''top_values'' d = PList (map (top_value R config n) counts)"
  by (intro exI [of _ "most_common (pc_top_values_limit config) (counter (map (py_str R) (filter (\<lambda>v. v \<noteq> PNone) (fcol_values c))))"])
    (simp add: field_profile_def Let_def get_field_or_def)

lemma mean_of_profile: "\<exists>m. mean_of (field_profile R config n c) = Inr m \<and> (m = PNone \<or> (\<exists>f. m = PFloat f))"
  by (auto simp: mean_of_def field_profile_numeric need_dict_def stats_json_def get_field_def split: option.splits)

lemma top_share_profile: "\<exists>f. top_share R (field_profile R config n c) = Inr f"
proof -
  obtain counts where "get_field_or (field_profile R config n c) ''top_values'' (PList [PDict []]) = PList (map (top_value R config n) counts)"
    using field_profile_top by blast
  then show ?thesis by (cases counts)
    (simp_all add: top_share_def need_dict_def top_value_def get_field_or_def py_float_def)
qed

lemma field_change_self:
  "\<exists>n' d' m a. field_change R (field_profile R config n c) (field_profile R config n c) =
     Inr [(''null_rate_delta'', Some (fl_round8 (fl_sub n' n'))), (''distinct_rate_delta'', Some (fl_round8 (fl_sub d' d'))),
          (''numeric_mean_relative_delta'', map_option (\<lambda>f. relative_delta f f) m), (''top_value_share_delta'', Some (fl_round8 (fl_sub a a)))]"
proof -
  let ?p = "field_profile R config n c"
  obtain x where x: "\<And>d. get_field_or ?p ''distinct_rate'' d = PFloat (Fin x)"
    by (auto simp: field_profile_def Let_def get_field_or_def)
  obtain m where m: "mean_of ?p = Inr m" "m = PNone \<or> (\<exists>f. m = PFloat f)" using mean_of_profile by blast
  obtain a where a: "top_share R ?p = Inr a" using top_share_profile by blast
  from m(2) show ?thesis
  proof
    assume "m = PNone"
    then show ?thesis using m(1) a
      by (intro exI [of _ None] exI)  (simp add: field_change_def metric_delta_def field_profile_rates x py_number_def mean_delta_def)
  next
    assume "\<exists>f. m = PFloat f"
    then obtain f where "m = PFloat f" by blast
    then show ?thesis using m(1) a
      by (intro exI [of _ "Some f"] exI)
        (simp add: field_change_def metric_delta_def field_profile_rates x py_number_def mean_delta_def py_float_def)
  qed
qed

lemma dict_set_mem: "(k, v) \<in> set (dict_set k' v' d) \<Longrightarrow> (k, v) = (k', v') \<or> (k, v) \<in> set d"
  by (induction k' v' d rule: dict_set.induct) (auto split: if_splits)

lemma thresholds_nonneg: "drift_threshold_config_ok (pc_thresholds config) \<Longrightarrow> 0 \<le> thresholds_of config metric"
  by (simp add: thresholds_of_def Let_def drift_threshold_config_ok_def)

lemma compare_field_self:
  assumes "drift_threshold_config_ok (pc_thresholds config)" and "get_field flds name = PDict (field_profile R config n c)"
    and "ds_type_changes ds = []" and "ds_breached ds = []"
  shows "\<exists>ds'. compare_field R config flds flds name ds = Inr ds' \<and> ds_type_changes ds' = [] \<and> ds_breached ds' = []"
proof -
  obtain n' d' m a where ch: "field_change R (field_profile R config n c) (field_profile R config n c) =
     Inr [(''null_rate_delta'', Some (fl_round8 (fl_sub n' n'))), (''distinct_rate_delta'', Some (fl_round8 (fl_sub d' d'))),
          (''numeric_mean_relative_delta'', map_option (\<lambda>f. relative_delta f f) m), (''top_value_share_delta'', Some (fl_round8 (fl_sub a a)))]"
    using field_change_self by blast
  have t: "0 \<le> thresholds_of config metric" for metric by (rule thresholds_nonneg [OF assms(1)])
  show ?thesis using t assms(2-4)
    by (cases m) (simp_all add: compare_field_def need_dict_def ch breaches_of_def relative_delta_self)
qed

text \<open>A field that is compared without a finding.\<close>

definition field_unchanged :: "runtime \<Rightarrow> profile_config \<Rightarrow> pyrec \<Rightarrow> pyrec \<Rightarrow> string \<Rightarrow> bool" where
  "field_unchanged R config bf cf name = (\<exists>before after change. get_field bf name = PDict before \<and> get_field cf name = PDict after
     \<and> get_field before ''observed_type'' = get_field after ''observed_type'' \<and> field_change R before after = Inr change
     \<and> (\<forall>metric f. (metric, Some f) \<in> set change \<longrightarrow> \<not> fl_above (fl_abs f) (thresholds_of config metric)))"

lemma sort_Nil_iff: "sort xs = [] \<longleftrightarrow> xs = []"
  by (metis length_0_conv length_sort)

lemma need_dict_iff: "need_dict v = Inr d \<longleftrightarrow> v = PDict d"
  by (cases v) (simp_all add: need_dict_def)

lemma compare_field_quiet:
  assumes "compare_field R config bf cf name ds = Inr ds'" and "ds_type_changes ds' = []" and "ds_breached ds' = []"
  shows "ds_type_changes ds = []" and "ds_breached ds = []" and "field_unchanged R config bf cf name"
proof -
  from assms(1) obtain before after change where c: "get_field bf name = PDict before" "get_field cf name = PDict after"
    "field_change R before after = Inr change"
    by (auto simp: compare_field_def need_dict_iff split: sum.splits)
  have q: "ds_type_changes ds = []" "ds_breached ds = []" "breaches_of config name change = []"
    "get_field before ''observed_type'' = get_field after ''observed_type''"
    using assms by (auto simp: compare_field_def c need_dict_def Let_def split: if_splits)
  show "ds_type_changes ds = []" "ds_breached ds = []" by (fact q)+
  from q(3) have "(metric, Some f) \<in> set change \<Longrightarrow> \<not> fl_above (fl_abs f) (thresholds_of config metric)" for metric f
    by (auto simp: breaches_of_def filter_empty_conv)
  with c q(4) show "field_unchanged R config bf cf name" unfolding field_unchanged_def by blast
qed

lemma compare_fields_quiet:
  assumes "res_fold (compare_field R config bf cf) ks ds = Inr ds'" and "ds_type_changes ds' = []" and "ds_breached ds' = []"
  shows "ds_type_changes ds = [] \<and> ds_breached ds = [] \<and> list_all (field_unchanged R config bf cf) ks"
  using assms(1)
proof (induction ks arbitrary: ds)
  case (Cons k ks)
  then obtain ds1 where one: "compare_field R config bf cf k ds = Inr ds1" and "res_fold (compare_field R config bf cf) ks ds1 = Inr ds'"
    by (auto split: sum.splits)
  with Cons.IH have "ds_type_changes ds1 = []" "ds_breached ds1 = []" "list_all (field_unchanged R config bf cf) ks" by blast+
  with compare_field_quiet [OF one] show ?case by simp
qed (use assms in simp)

lemma profile_self_stable:
  assumes "profiler_profile R from_dicts records config now = Inr p" and "drift_threshold_config_ok (pc_thresholds config)"
  shows "\<exists>d. compare_profiles R (pr_profile p) (pr_profile p) config = Inr d \<and> dres_status d = ''stable''"
proof -
  define n where "n = length (take (pc_sample_limit config) records)"
  obtain columns where flds: "get_field_or (pr_profile p) ''fields'' (PDict []) =
      PDict (fold (\<lambda>c d. dict_set (fcol_name c) (PDict (field_profile R config n c)) d) columns [])"
    using assms(1) by (auto simp: profiler_profile_def Let_def get_field_or_def n_def split: sum.splits)
  let ?f = "fold (\<lambda>c d. dict_set (fcol_name c) (PDict (field_profile R config n c)) d) columns []"
  have shape: "\<exists>c. v = PDict (field_profile R config n c)"
    if "(k, v) \<in> set (fold (\<lambda>c d. dict_set (fcol_name c) (PDict (field_profile R config n c)) d) cs d)"
      "\<And>k v. (k, v) \<in> set d \<Longrightarrow> \<exists>c. v = PDict (field_profile R config n c)" for cs d k v
    using that
  proof (induction cs arbitrary: d)
    case (Cons c cs)
    have "\<exists>c. v = PDict (field_profile R config n c)"
      if "(k, v) \<in> set (dict_set (fcol_name c) (PDict (field_profile R config n c)) d)" for k v
      using dict_set_mem [OF that] Cons.prems(2) by auto
    from Cons.IH [OF _ this] Cons.prems(1) show ?case by simp
  qed auto
  have get: "\<exists>c. get_field ?f k = PDict (field_profile R config n c)" if "k \<in> fst ` set ?f" for k
  proof -
    from that obtain v where v: "map_of ?f k = Some v" by (metis map_of_eq_None_iff not_None_eq)
    have "\<exists>c. v = PDict (field_profile R config n c)" by (rule shape [OF map_of_SomeD [OF v]]) simp
    with v show ?thesis by (auto simp: get_field_def)
  qed
  let ?ks = "sort (filter (\<lambda>n. n \<in> set (remdups (map fst ?f))) (remdups (map fst ?f)))"
  have "\<exists>ds. res_fold (compare_field R config ?f ?f) ?ks \<lparr>ds_type_changes = [], ds_metric_changes = [], ds_breached = []\<rparr> = Inr ds
      \<and> (ds_type_changes ds = [] \<and> ds_breached ds = [])"
  proof (rule res_fold_total)
    fix k and ds :: drift_state assume "k \<in> set ?ks" and ds: "ds_type_changes ds = [] \<and> ds_breached ds = []"
    then have "k \<in> fst ` set ?f" by simp
    with get obtain c where "get_field ?f k = PDict (field_profile R config n c)" by blast
    from compare_field_self [OF assms(2) this] ds
    show "\<exists>ds'. compare_field R config ?f ?f k ds = Inr ds' \<and> ds_type_changes ds' = [] \<and> ds_breached ds' = []" by simp
  qed simp
  then show ?thesis by (auto simp: compare_profiles_def need_dict_def flds Let_def)
qed

section \<open>Properties of profiling\<close>

text \<open>
  a profile never drifts from itself: comparing the profile of any records with that
  profile returns, and reports a stable schema, whatever the values, special floats included.
\<close>

theorem profile_never_drifts_from_itself:
  assumes "profiler_profile R from_dicts records config now = Inr p" and "drift_threshold_config_ok (pc_thresholds config)"
  shows "\<exists>d. compare_profiles R (pr_profile p) (pr_profile p) config = Inr d \<and> dres_status d = ''stable''"
  by (rule profile_self_stable [OF assms])

text \<open>
  a stable verdict can be trusted: both profiles have the same fields, and every field has the
  same observed type and all four of its deltas within the configured thresholds.
\<close>

theorem stable_means_unchanged:
  assumes "compare_profiles R baseline current config = Inr d" and "dres_status d = ''stable''"
    and "get_field_or baseline ''fields'' (PDict []) = PDict bf" and "get_field_or current ''fields'' (PDict []) = PDict cf"
  shows "fst ` set bf = fst ` set cf \<and> (\<forall>name \<in> fst ` set bf. field_unchanged R config bf cf name)"
proof -
  let ?ks = "sort (filter (\<lambda>n. n \<in> set (remdups (map fst cf))) (remdups (map fst bf)))"
  from assms obtain ds where run: "res_fold (compare_field R config bf cf) ?ks
        \<lparr>ds_type_changes = [], ds_metric_changes = [], ds_breached = []\<rparr> = Inr ds"
    and quiet: "ds_type_changes ds = []" "ds_breached ds = []"
    and same: "sort (filter (\<lambda>n. n \<notin> set (remdups (map fst cf))) (remdups (map fst bf))) = []"
      "sort (filter (\<lambda>n. n \<notin> set (remdups (map fst bf))) (remdups (map fst cf))) = []"
    by (auto simp: compare_profiles_def need_dict_iff Let_def split: sum.splits if_splits)
  from same have names: "fst ` set bf = fst ` set cf" by (auto simp: sort_Nil_iff filter_empty_conv)
  with compare_fields_quiet [OF run quiet] show ?thesis by (auto simp: list_all_iff)
qed

section \<open>A concrete profile\<close>

definition demo_frame :: frame_reader where
  "demo_frame records = Inr [\<lparr>fcol_name = ''hours'', fcol_values = map (\<lambda>r. get_field r ''hours'') records, fcol_dtype = ''Int64'',
     fcol_numeric = True, fcol_stats = Some \<lparr>cs_minimum = Fin 1, cs_maximum = Fin 3, cs_mean = Fin 2, cs_median = Fin 2, cs_p05 = Fin 1,
       cs_p95 = Fin 3\<rparr>\<rparr>]"

definition demo_profile_config :: profile_config where
  "demo_profile_config = \<lparr>pc_schema_version = ''1.0'', pc_profile_id = ''p'', pc_sample_limit = 10, pc_top_values_limit = 2,
     pc_mask_samples = True, pc_thresholds = \<lparr>dt_null_rate_delta = 0, dt_distinct_rate_delta = 0,
       dt_numeric_mean_relative_delta = 0, dt_top_value_share_delta = 0\<rparr>\<rparr>"

lemma demo_profile: "\<exists>p bf. profiler_profile ascii_runtime demo_frame [[(''hours'', PInt 1)]] demo_profile_config 0 = Inr p
    \<and> get_field_or (pr_profile p) ''fields'' (PDict []) = PDict [(''hours'', bf)]"
  by (simp add: profiler_profile_def demo_frame_def demo_profile_config_def get_field_or_def)

lemma demo_thresholds: "drift_threshold_config_ok (pc_thresholds demo_profile_config)"
  by (simp add: drift_threshold_config_ok_def demo_profile_config_def)

theorem profile_never_drifts_from_itself_witness:
  "\<exists>p d. profiler_profile ascii_runtime demo_frame [[(''hours'', PInt 1)]] demo_profile_config 0 = Inr p
    \<and> compare_profiles ascii_runtime (pr_profile p) (pr_profile p) demo_profile_config = Inr d \<and> dres_status d = ''stable''"
proof -
  obtain p where "profiler_profile ascii_runtime demo_frame [[(''hours'', PInt 1)]] demo_profile_config 0 = Inr p"
    using demo_profile by blast
  with profile_never_drifts_from_itself [OF this demo_thresholds] show ?thesis by blast
qed

theorem stable_means_unchanged_witness:
  "\<exists>bf. field_unchanged ascii_runtime demo_profile_config [(''hours'', bf)] [(''hours'', bf)] ''hours''"
proof -
  obtain p bf where p: "profiler_profile ascii_runtime demo_frame [[(''hours'', PInt 1)]] demo_profile_config 0 = Inr p"
    "get_field_or (pr_profile p) ''fields'' (PDict []) = PDict [(''hours'', bf)]" using demo_profile by blast
  from profile_self_stable [OF p(1) demo_thresholds] obtain d where
    "compare_profiles ascii_runtime (pr_profile p) (pr_profile p) demo_profile_config = Inr d" "dres_status d = ''stable''" by blast
  from stable_means_unchanged [OF this p(2) p(2)] show ?thesis by auto
qed

end
