(* ===== verification/Api_Schemas.thy ===== *)
theory Api_Schemas
  imports Mapping_Service Match_Service Orchestration Ingestion Publishing Profiling
begin

text \<open>
  The request and response models of \<^verbatim>\<open>schemas/api.py\<close>: one record per model, the field
  constraints of a request as a predicate, and the two sums an endpoint takes and returns.
  Rows carry no \<^verbatim>\<open>updated_at\<close> column in this development, so the two read models that
  expose it leave it out.
\<close>

section \<open>Requests\<close>

record ingestion_request =
  inq_object_key :: string
  inq_resume_from_run_id :: "uuid option"

record profile_request =
  pfq_snapshot_id :: uuid
  pfq_profile_config_id :: string
  pfq_baseline_profile_id :: "uuid option"

record mapping_preview_request =
  mpq_snapshot_id :: uuid
  mpq_mapping_id :: string
  mpq_lookup_ids :: "string list"
  mpq_preview_limit :: int

definition mapping_preview_request_ok :: "mapping_preview_request \<Rightarrow> bool" where
  "mapping_preview_request_ok q = (1 \<le> mpq_preview_limit q \<and> mpq_preview_limit q \<le> 1000)"

record validation_request =
  vaq_snapshot_id :: uuid
  vaq_validation_set_id :: string
  vaq_reference_sets :: "(string \<times> string list) list"
  vaq_mapping_id :: "string option"
  vaq_lookup_ids :: "string list"

definition quarantine_status_values :: "string list" where
  "quarantine_status_values = [''open'', ''acknowledged'', ''corrected_upstream'', ''corrected_mapping'', ''waived'', ''closed'']"

record quarantine_resolve_request =
  qrq_status :: string
  qrq_note :: string
  qrq_corrected_snapshot_id :: "uuid option"
  qrq_expected_revision :: int

definition quarantine_resolve_request_ok :: "quarantine_resolve_request \<Rightarrow> bool" where
  "quarantine_resolve_request_ok q =
     (qrq_status q \<in> set quarantine_status_values \<and> 1 \<le> length (qrq_note q) \<and> length (qrq_note q) \<le> 2000
      \<and> 0 \<le> qrq_expected_revision q)"

text \<open>\<^verbatim>\<open>DeterministicMatchRequest\<close> and \<^verbatim>\<open>ProbabilisticMatchRequest\<close> have the same two fields.\<close>

record match_request =
  mtq_match_config_id :: string
  mtq_dataset_preset :: string

record match_decision_request =
  mdq_decision :: string
  mdq_reason :: string
  mdq_expected_revision :: int

definition match_decision_request_ok :: "match_decision_request \<Rightarrow> bool" where
  "match_decision_request_ok q =
     (mdq_decision q \<in> {''match'', ''no_match'', ''defer'', ''escalate''}
      \<and> 1 \<le> length (mdq_reason q) \<and> length (mdq_reason q) \<le> 2000 \<and> 0 \<le> mdq_expected_revision q)"

record mart_build_request =
  mbq_mart_config_id :: string
  mbq_records :: "pyrec list"
  mbq_lineage :: pyrec
  mbq_source_snapshot_id :: "uuid option"
  mbq_mapping_id :: "string option"

record export_publish_request =
  epq_mart_snapshot_id :: uuid
  epq_export_config_id :: string

record asset_run_request =
  arq_asset_key :: string
  arq_partition_key :: "string option"
  arq_watermark :: pyrec

record retention_apply_request =
  raq_policy_id :: string
  raq_dry_run :: bool

text \<open>The query parameters of the two quarantine lists and of the match review queue.\<close>

record quarantine_params =
  qpa_status :: "string option"
  qpa_severity :: "string option"
  qpa_needs_attention :: bool
  qpa_q :: "string option"
  qpa_sort :: string
  qpa_limit :: nat
  qpa_offset :: nat

definition page_params_ok :: "nat \<Rightarrow> bool" where
  "page_params_ok lmt = (1 \<le> lmt \<and> lmt \<le> 200)"

definition search_ok :: "string option \<Rightarrow> bool" where
  "search_ok q = (case q of None \<Rightarrow> True | Some t \<Rightarrow> length t \<le> 100)"

definition choice_ok :: "string list \<Rightarrow> string option \<Rightarrow> bool" where
  "choice_ok values v = (case v of None \<Rightarrow> True | Some t \<Rightarrow> t \<in> set values)"

definition quarantine_params_ok :: "quarantine_params \<Rightarrow> bool" where
  "quarantine_params_ok p =
     (choice_ok quarantine_status_values (qpa_status p) \<and> choice_ok [''blocking'', ''error'', ''warning''] (qpa_severity p)
      \<and> search_ok (qpa_q p) \<and> qpa_sort p \<in> {''oldest'', ''newest'', ''severity''} \<and> page_params_ok (qpa_limit p))"

record match_queue_params =
  mqp_status :: "string option"
  mqp_limit :: nat
  mqp_offset :: nat
  mqp_needs_review :: bool
  mqp_unreviewed :: bool
  mqp_q :: "string option"

definition match_queue_params_ok :: "match_queue_params \<Rightarrow> bool" where
  "match_queue_params_ok p =
     (choice_ok [''pending'', ''auto_match'', ''review'', ''trusted_id_conflict'', ''match'', ''no_match'', ''defer'', ''escalate'']
        (mqp_status p) \<and> page_params_ok (mqp_limit p) \<and> search_ok (mqp_q p))"

section \<open>Responses\<close>

record health_response =
  hl_status :: string
  hl_service :: string
  hl_version :: string

record ready_response =
  rdy_status :: string
  rdy_database :: string

record demo_summary_response =
  dsr_preset :: string
  dsr_seed :: int
  dsr_generated_at :: int
  dsr_synthetic :: bool
  dsr_privacy_notice :: string
  dsr_counts :: "(string \<times> int) list"
  dsr_defect_summary :: "(string \<times> int) list"
  dsr_defect_catalog :: "(string \<times> string) list"

record organization_read =
  ogr_id :: uuid
  ogr_name :: string
  ogr_organization_type :: string
  ogr_status :: string
  ogr_created_at :: int

record source_system_read =
  ssr_id :: uuid
  ssr_organization_id :: uuid
  ssr_source_key :: string
  ssr_name :: string
  ssr_connector_type :: string
  ssr_data_classification :: string
  ssr_active :: bool
  ssr_created_at :: int

record mapping_response =
  mpr_execution_id :: uuid
  mpr_status :: string
  mpr_input_count :: nat
  mpr_output_count :: nat
  mpr_error_count :: nat
  mpr_output_uri :: "string option"
  mpr_outputs :: "pyrec list"
  mpr_issues :: "mapping_issue list"

record validation_response =
  var_issue_count :: nat
  var_blocking_failures :: nat
  var_quality_dimensions :: "(string \<times> quality_dimension) list"
  var_persisted_result_ids :: "uuid list"
  var_quarantine_ids :: "uuid list"
  var_validated_record_count :: nat
  var_record_source :: string

record quarantine_resolution_response =
  qrr_id :: uuid
  qrr_quarantine_id :: uuid
  qrr_revision :: int
  qrr_status :: string
  qrr_note :: string
  qrr_reviewer_id :: "uuid option"
  qrr_recorded_at :: int
  qrr_corrected_snapshot_id :: "uuid option"
  qrr_imported :: bool

record quarantine_item_response =
  qir_quarantine_id :: uuid
  qir_source_record_key :: string
  qir_field_name :: "string option"
  qir_evidence_masked :: "string option"
  qir_explanation :: string
  qir_status :: string
  qir_revision :: int
  qir_created_at :: int
  qir_raw_snapshot_id :: uuid
  qir_supersedes_quarantine_id :: "uuid option"
  qir_rule_key :: string
  qir_rule_title :: string
  qir_severity :: string
  qir_remediation :: "string option"

record quarantine_page_response =
  qpr_items :: "quarantine_item_response list"
  qpr_total :: nat
  qpr_limit :: nat
  qpr_offset :: nat

record det_match_response =
  dmr_candidate_ids :: "uuid list"
  dmr_evaluation_id :: "uuid option"
  dmr_cluster_count :: nat
  dmr_link_count :: nat
  dmr_conflict_count :: nat
  dmr_metrics :: "pyrec option"

record match_decision_response =
  mdr_id :: uuid
  mdr_candidate_id :: uuid
  mdr_decision :: string
  mdr_revision :: int
  mdr_reason :: string
  mdr_reviewer_id :: uuid
  mdr_decided_at :: int
  mdr_supersedes_decision_id :: "uuid option"

record match_queue_item_response =
  mqr_candidate_id :: uuid
  mqr_left_record_key :: string
  mqr_right_record_key :: string
  mqr_score :: "real option"
  mqr_evidence :: pyrec
  mqr_status :: string
  mqr_revision :: int
  mqr_created_at :: int
  mqr_decision_count :: nat
  mqr_latest_decision :: "match_decision_response option"

record prob_match_response =
  pmr_model_id :: uuid
  pmr_run_id :: uuid
  pmr_candidate_count :: nat
  pmr_status_counts :: "(string \<times> nat) list"
  pmr_metrics :: "pyrec option"

record mart_build_response =
  mbr_mart_snapshot_id :: uuid
  mbr_storage_uri :: string
  mbr_checksum_sha256 :: string
  mbr_row_count :: int
  mbr_reused :: bool

record asset_run_response =
  arr_run_id :: uuid
  arr_asset_key :: string
  arr_status :: string
  arr_change_hash :: string
  arr_watermark :: pyrec

record actor_response =
  acr_actor_id :: uuid
  acr_subject :: string
  acr_display_name :: string
  acr_roles :: "string list"
  acr_permissions :: "string list"
  acr_authentication_method :: string

record audit_event_response =
  aer_id :: uuid
  aer_occurred_at :: int
  aer_actor_id :: "uuid option"
  aer_action :: string
  aer_resource_type :: string
  aer_resource_id :: string
  aer_correlation_id :: "string option"
  aer_details :: pyrec

text \<open>
  \<^verbatim>\<open>IngestionResponse\<close>, \<^verbatim>\<open>ProfileResponse\<close>, \<^verbatim>\<open>ExportPublishResponse\<close>,
  \<^verbatim>\<open>RetentionApplyResponse\<close>, \<^verbatim>\<open>SourceConnectionTestResponse\<close>, \<^verbatim>\<open>SourceDiscoveryResponse\<close>
  and the two queue summaries have exactly the fields of the outcome records they are filled
  from; those records stand for them.
\<close>

section \<open>Endpoints\<close>

datatype endpoint =
    Health | Ready | Version | DemoSummary | CurrentActor | Organizations
  | Sources
  | TestSource string
  | DiscoverSource string string
  | ExtractSource string ingestion_request
  | CreateProfile profile_request
  | PreviewMapping mapping_preview_request
  | ValidateSnapshot validation_request
  | QuarantineQueue quarantine_params
  | QuarantinePage quarantine_params
  | QuarantineSummary
  | QuarantineHistory uuid nat nat
  | ResolveQuarantine uuid quarantine_resolve_request
  | DeterministicMatch match_request
  | RecordDecision uuid match_decision_request
  | MatchReviewQueue match_queue_params
  | MatchQueueSummary
  | MatchDecisions uuid nat nat
  | ProbabilisticMatch match_request
  | BuildMart mart_build_request
  | PublishExport export_publish_request
  | LineageTrace uuid
  | RunAsset asset_run_request
  | ApplyRetention retention_apply_request
  | ListAudit

datatype api_response =
    HealthR health_response
  | ReadyR ready_response
  | VersionR string
  | DemoSummaryR demo_summary_response
  | ActorR actor_response
  | OrganizationsR "organization_read list"
  | SourcesR "source_system_read list"
  | TestR connection_test_result
  | DiscoveryR discovery_result
  | IngestionR ingestion_outcome
  | ProfileR profile_outcome
  | MappingR mapping_response
  | ValidationR validation_response
  | QuarantineItemsR "quarantine_item_response list"
  | QuarantinePageR quarantine_page_response
  | QuarantineSummaryR quarantine_summary
  | ResolutionsR "quarantine_resolution_response list"
  | ResolutionR quarantine_resolution_response
  | DetMatchR det_match_response
  | DecisionR match_decision_response
  | MatchQueueR "match_queue_item_response list"
  | MatchSummaryR match_queue_summary
  | DecisionsR "match_decision_response list"
  | ProbMatchR prob_match_response
  | MartR mart_build_response
  | ExportR export_outcome
  | TraceR "pyrec list" "pyrec list"
  | AssetRunR asset_run_response
  | RetentionR retention_outcome
  | AuditR "audit_event_response list"

text \<open>What the framework checks of path, query and body before it calls the handler (status 422).\<close>

fun request_ok :: "endpoint \<Rightarrow> bool" where
  "request_ok (PreviewMapping q) = mapping_preview_request_ok q"
| "request_ok (QuarantineQueue p) = quarantine_params_ok p"
| "request_ok (QuarantinePage p) = quarantine_params_ok p"
| "request_ok (QuarantineHistory i lmt offset) = page_params_ok lmt"
| "request_ok (ResolveQuarantine i q) = quarantine_resolve_request_ok q"
| "request_ok (RecordDecision i q) = match_decision_request_ok q"
| "request_ok (MatchReviewQueue p) = match_queue_params_ok p"
| "request_ok (MatchDecisions i lmt offset) = page_params_ok lmt"
| "request_ok ep = True"

end
