(* ===== verification/Api.thy ===== *)
theory Api
  imports Api_Schemas
begin

text \<open>
  The HTTP application (\<^verbatim>\<open>main.py\<close>) and the demo fixture it reads (\<^verbatim>\<open>matching/fixtures.py\<close>).
  A handler is an action: a function of the request's session and of the file store that
  answers or fails, and leaves a new session and store. The first lines of almost every
  handler are the same three checks (\<open>authorised\<close>); the rest follows the code call by call,
  with each \<^verbatim>\<open>except\<close> clause as a function on the raised exception. What the handlers get
  from outside the repository is one record (\<open>api_env\<close>): the YAML and pydantic loaders, the
  data frame library, the writers, the hosts and databases sources are read from, and the answer of
  the database to the insert of an audit event, which may be a failure.
  \<open>dispatch\<close> is a whole request: identity, the framework's checks of the request, the
  handler, and the session that closes without a commit.
\<close>

section \<open>Actions\<close>

datatype api_error = HttpError nat pyval | Raised exc

type_synonym world = "session \<times> files"
type_synonym 'a act = "world \<Rightarrow> (api_error + 'a) \<times> world"

definition answers :: "'a \<Rightarrow> 'a act" where
  "answers v w = (Inr v, w)"

definition needs :: "api_error + 'a \<Rightarrow> ('a \<Rightarrow> 'b act) \<Rightarrow> 'b act" where
  "needs r k w = (case r of Inl e \<Rightarrow> (Inl e, w) | Inr v \<Rightarrow> k v w)"

definition reads :: "(session \<Rightarrow> files \<Rightarrow> api_error + 'a) \<Rightarrow> ('a \<Rightarrow> 'b act) \<Rightarrow> 'b act" where
  "reads f k w = (case w of (s, fs) \<Rightarrow> needs (f s fs) k w)"

definition calls :: "(exc \<Rightarrow> api_error) \<Rightarrow> (world \<Rightarrow> 'a res \<times> world) \<Rightarrow> ('a \<Rightarrow> 'b act) \<Rightarrow> 'b act" where
  "calls h op k w = (case op w of (Inl e, w1) \<Rightarrow> (Inl (h e), w1) | (Inr v, w1) \<Rightarrow> k v w1)"

definition on_session :: "(session \<Rightarrow> 'a \<times> session) \<Rightarrow> world \<Rightarrow> 'a \<times> world" where
  "on_session op w = (case w of (s, fs) \<Rightarrow> case op s of (r, s1) \<Rightarrow> (r, s1, fs))"

definition no_raise :: "(session \<Rightarrow> 'a \<times> session) \<Rightarrow> world \<Rightarrow> 'a res \<times> world" where
  "no_raise op w = (case on_session op w of (r, w1) \<Rightarrow> (Inr r, w1))"

definition lift :: "(exc \<Rightarrow> api_error) \<Rightarrow> 'a res \<Rightarrow> api_error + 'a" where
  "lift h r = (case r of Inl e \<Rightarrow> Inl (h e) | Inr v \<Rightarrow> Inr v)"

definition recover :: "(exc \<Rightarrow> api_error) \<Rightarrow> api_error + 'a \<Rightarrow> api_error + 'a" where
  "recover h r = (case r of Inl (Raised e) \<Rightarrow> Inl (h e) | _ \<Rightarrow> r)"

section \<open>Errors\<close>

definition code_detail :: "string \<Rightarrow> string \<Rightarrow> pyval" where
  "code_detail code message = PDict [(''code'', PStr code), (''message'', PStr message)]"

definition is_value_error :: "exc \<Rightarrow> bool" where
  "is_value_error e = (case e of ValueError _ \<Rightarrow> True | MappingCompileError _ \<Rightarrow> True | _ \<Rightarrow> False)"

text \<open>The four kinds of \<^verbatim>\<open>except\<close> clause around a service call.\<close>

definition as_code_detail :: "exc \<Rightarrow> api_error" where
  "as_code_detail e = (case e of ConnectorError code message \<Rightarrow> HttpError 400 (code_detail code message) | _ \<Rightarrow> Raised e)"

definition as_safe_message :: "exc \<Rightarrow> api_error" where
  "as_safe_message e = (case e of ConnectorError code message \<Rightarrow> HttpError 400 (PStr message) | _ \<Rightarrow> Raised e)"

definition as_mapping_message :: "exc \<Rightarrow> api_error" where
  "as_mapping_message e = (case e of
       ConnectorError code message \<Rightarrow> HttpError 400 (PStr message)
     | MappingCompileError _ \<Rightarrow> HttpError 400 (PStr ''Mapping cannot compile'')
     | _ \<Rightarrow> Raised e)"

definition as_matching_message :: "exc \<Rightarrow> api_error" where
  "as_matching_message e = (case e of
       ConnectorError code message \<Rightarrow> HttpError 400 (PStr message)
     | _ \<Rightarrow> if is_value_error e then HttpError 400 (PStr ''Matching input is invalid'') else Raised e)"

definition as_unavailable :: "string \<Rightarrow> string \<Rightarrow> exc \<Rightarrow> api_error" where
  "as_unavailable default_code message e = (case e of
       ConnectorError code _ \<Rightarrow> HttpError 400 (code_detail code message)
     | FileNotFoundError \<Rightarrow> HttpError 400 (code_detail default_code message)
     | _ \<Rightarrow> if is_value_error e then HttpError 400 (code_detail default_code message) else Raised e)"

definition ends_with :: "string \<Rightarrow> string \<Rightarrow> bool" where
  "ends_with s suffix' = starts_with (rev s) (rev suffix')"

definition connector_error_status :: "string \<Rightarrow> nat" where
  "connector_error_status code =
     (if ends_with code ''forbidden'' then 403
      else if ends_with code ''not_found'' then 404
      else if code \<in> {''decision_conflict'', ''quarantine_conflict''} then 409
      else 400)"

text \<open>\<^verbatim>\<open>connector_error_handler\<close> and the framework's own handlers: status and detail of a failure.\<close>

fun error_reply :: "api_error \<Rightarrow> nat \<times> pyval" where
  "error_reply (HttpError status detail) = (status, detail)"
| "error_reply (Raised (HTTPException status detail)) = (status, PStr detail)"
| "error_reply (Raised (ConnectorError code message)) = (connector_error_status code, code_detail code message)"
| "error_reply (Raised e) = (500, PStr ''Internal Server Error'')"

section \<open>Environment\<close>

record api_env =
  env_runtime :: runtime
  env_settings :: settings
  env_world :: sources_world
  env_version :: string
  env_source_config :: "path \<Rightarrow> source_config res"
  env_profile_config :: "path \<Rightarrow> profile_config res"
  env_mapping_config :: "path \<Rightarrow> mapping_config res"
  env_validation_config :: "path \<Rightarrow> validation_config res"
  env_det_config :: "path \<Rightarrow> det_match_config res"
  env_prob_config :: "path \<Rightarrow> prob_match_config res"
  env_mart_config :: "path \<Rightarrow> mart_config res"
  env_export_config :: "path \<Rightarrow> export_config res"
  env_orchestration_config :: "path \<Rightarrow> orchestration_config res"
  env_retention_config :: "path \<Rightarrow> retention_policy_config res"
  env_lookup_document :: "path \<Rightarrow> pyval res"
  env_summary_model :: "pyrec \<Rightarrow> demo_summary_response res"
  env_frames :: frame_reader
  env_writers :: writers
  env_parse_uuid :: "string \<Rightarrow> uuid option"
  env_select_1 :: "unit res"
  env_source_ping :: "string \<Rightarrow> unit res"
  env_audit_insert :: "audit_event \<Rightarrow> unit res"

abbreviation env_host :: "api_env \<Rightarrow> host" where
  "env_host E \<equiv> sw_host (env_world E)"

abbreviation env_codecs :: "api_env \<Rightarrow> codecs" where
  "env_codecs E \<equiv> sw_codecs (env_world E)"

definition CONFIG_ROOT :: string where
  "CONFIG_ROOT = ''configs/demo''"

definition source_config_of :: "api_env \<Rightarrow> string \<Rightarrow> api_error + source_config" where
  "source_config_of E source_id =
     lift (as_unavailable ''source_config_unavailable'' ''Source configuration is unavailable'')
       (load_configuration (env_host E) (env_source_config E) CONFIG_ROOT source_id)"

definition named_config :: "api_env \<Rightarrow> (path \<Rightarrow> 'c res) \<Rightarrow> string \<Rightarrow> string \<Rightarrow> api_error + 'c" where
  "named_config E load category config_id =
     lift (as_unavailable ''configuration_unavailable'' ''Requested configuration is unavailable'')
       (case named_config_path (env_host E) CONFIG_ROOT category config_id of Inl e \<Rightarrow> Inl e | Inr p \<Rightarrow> load p)"

definition required_organization :: "uuid option \<Rightarrow> api_error + uuid" where
  "required_organization v = (case v of
       None \<Rightarrow> Inl (HttpError 400 (PStr ''X-Organization-ID is required'')) | Some i \<Rightarrow> Inr i)"

definition demo_asset_compute :: "runtime \<Rightarrow> string \<Rightarrow> nat \<Rightarrow> pyrec \<Rightarrow> pyrec res" where
  "demo_asset_compute R asset_key n context =
     (case py_int_of R (get_field_or context ''row_count'' (PInt 0)) of Inl e \<Rightarrow> Inl e | Inr rows \<Rightarrow>
      Inr [(''row_count'', PInt rows),
           (''checksum_sha256'', PStr (rt_uuid_hex R (rt_uuid5 R (''eduwork:'' @ asset_key))))])"

definition source_object_of :: "source_config \<Rightarrow> string \<Rightarrow> api_error + source_object_config" where
  "source_object_of config object_key =
     (case find (\<lambda>o'. soc_key o' = object_key) (sc_objects config) of
        None \<Rightarrow> Inl (HttpError 404 (code_detail ''object_not_configured'' ''Source object is not configured''))
      | Some o' \<Rightarrow> Inr o')"

fun load_lookups :: "api_env \<Rightarrow> string list \<Rightarrow> lookups \<Rightarrow> api_error + lookups" where
  "load_lookups E [] acc = Inr acc"
| "load_lookups E (lookup_id # ids) acc =
     (case named_config_path (env_host E) CONFIG_ROOT ''lookups'' lookup_id of Inl e \<Rightarrow> Inl (Raised e) | Inr p \<Rightarrow>
      case env_lookup_document E p of Inl e \<Rightarrow> Inl (Raised e) | Inr document \<Rightarrow>
      case load_lookup (env_runtime E) document of Inl e \<Rightarrow> Inl (Raised e) | Inr (loaded_id, _, values) \<Rightarrow>
      if loaded_id \<noteq> lookup_id then Inl (HttpError 400 (PStr ''Lookup identifier mismatch''))
      else load_lookups E ids (dict_set lookup_id values acc))"

definition mapping_rules :: "mapping_config \<Rightarrow> pyrec list" where
  "mapping_rules config = map (\<lambda>rule.
     [(''target'', PStr (mr_target rule)), (''source'', opt_val (mr_source rule)),
      (''transform'', PStr (mr_transform rule))]) (mc_rules config)"

section \<open>Shared steps\<close>

definition authorised :: "api_env \<Rightarrow> actor \<Rightarrow> uuid option \<Rightarrow> string \<Rightarrow> (uuid \<Rightarrow> 'a act) \<Rightarrow> 'a act" where
  "authorised E a x_organization_id permission k =
     needs (required_organization x_organization_id) (\<lambda>organization_id.
     needs (lift Raised (require_organization (env_runtime E) a organization_id)) (\<lambda>_.
     needs (lift Raised (require_permission a permission)) (\<lambda>_.
     k organization_id)))"

definition audited :: "api_env \<Rightarrow> actor \<Rightarrow> int \<Rightarrow> uuid \<Rightarrow> bool \<Rightarrow> string \<Rightarrow> string \<Rightarrow> string \<Rightarrow> pyrec \<Rightarrow> 'a act \<Rightarrow> 'a act" where
  "audited E a now organization_id do_commit action resource_type resource_id details k =
     calls Raised (on_session (audit_record (env_runtime E) (env_audit_insert E) a action resource_type resource_id
       (Some organization_id) None (Some details) now do_commit)) (\<lambda>_. k)"

abbreviation uuid_text :: "api_env \<Rightarrow> uuid \<Rightarrow> string" where
  "uuid_text E \<equiv> rt_uuid_str (env_runtime E)"

section \<open>Synthetic identity fixture\<close>

text \<open>
  \<^verbatim>\<open>value[key]\<close> on a JSON value. The identifiers of the truth file are texts here; another
  type ends in \<open>TypeError\<close>, where the code would carry it on.
\<close>

definition py_item :: "pyval \<Rightarrow> string \<Rightarrow> pyval res" where
  "py_item v key = (case v of
       PDict d \<Rightarrow> (case map_of d key of None \<Rightarrow> Inl (KeyError key) | Some x \<Rightarrow> Inr x)
     | _ \<Rightarrow> Inl TypeError)"

definition text_item :: "pyval \<Rightarrow> string \<Rightarrow> string res" where
  "text_item v key = (case py_item v key of Inl e \<Rightarrow> Inl e | Inr (PStr t) \<Rightarrow> Inr t | Inr _ \<Rightarrow> Inl TypeError)"

definition fixture_record :: "runtime \<Rightarrow> uuid \<Rightarrow> string \<Rightarrow> string \<Rightarrow> pyval \<Rightarrow> pyval \<Rightarrow> pyval \<Rightarrow> pyval \<Rightarrow> pyrec" where
  "fixture_record R organization_id rkey source employee_id display_name email unit' =
     [(''organization_id'', PStr (rt_uuid_str R organization_id)), (''record_key'', PStr rkey),
      (''source'', PStr source), (''employee_id'', employee_id), (''display_name'', display_name),
      (''email'', email), (''organization_unit_key'', unit')]"

text \<open>The loop over \<^verbatim>\<open>zip(hris, truth_rows, strict=True)\<close>.\<close>

fun hris_loop :: "runtime \<Rightarrow> uuid \<Rightarrow> nat \<Rightarrow> pyrec list \<Rightarrow> pyval list \<Rightarrow> (pyrec \<times> string \<times> string) list res" where
  "hris_loop R organization_id index [] [] = Inr []"
| "hris_loop R organization_id index (person # hris) (truth # truths) =
     (let rkey = ''hris-row:'' @ nat_str (index + 1) in
      and_then (py_item (PDict person) ''employee_id'') (\<lambda>employee_id.
      and_then (py_item (PDict person) ''display_name'') (\<lambda>display_name.
      and_then (py_item (PDict person) ''email'') (\<lambda>email.
      and_then (py_item (PDict person) ''department_code'') (\<lambda>unit'.
      and_then (text_item truth ''canonical_person_id'') (\<lambda>person_id.
      and_then (hris_loop R organization_id (index + 1) hris truths) (\<lambda>rest.
      Inr ((fixture_record R organization_id rkey ''hris'' employee_id display_name email unit', rkey, person_id) # rest))))))))"
| "hris_loop R organization_id index _ _ = Inl (ValueError ''zip() arguments have different lengths'')"

fun first_lms :: "runtime \<Rightarrow> pyval list \<Rightarrow> (string \<times> pyval) list \<Rightarrow> (string \<times> pyval) list res" where
  "first_lms R [] acc = Inr acc"
| "first_lms R (participation # rest) acc =
     (and_then (py_item participation ''lms_user_id'') (\<lambda>v.
      let key = py_str R v in
      first_lms R rest (case map_of acc key of None \<Rightarrow> dict_set key participation acc | Some _ \<Rightarrow> acc)))"

fun truth_by_lms :: "pyval list \<Rightarrow> (pyval \<times> string) list \<Rightarrow> (pyval \<times> string) list res" where
  "truth_by_lms [] acc = Inr acc"
| "truth_by_lms (row # rows) acc =
     (and_then (py_item row ''lms_user_ids'') (\<lambda>v.
      and_then (py_iter v) (\<lambda>ids.
      if ids = [] then truth_by_lms rows acc
      else and_then (text_item row ''canonical_person_id'') (\<lambda>person_id.
      if \<not> list_all hashable ids then Inl TypeError
      else truth_by_lms rows (fold (\<lambda>i d. dict_set i person_id d) ids acc)))))"

fun lms_loop :: "runtime \<Rightarrow> uuid \<Rightarrow> (pyval \<times> string) list \<Rightarrow> (string \<times> pyval) list \<Rightarrow> (pyrec \<times> string \<times> string) list res" where
  "lms_loop R organization_id truths [] = Inr []"
| "lms_loop R organization_id truths ((lms_user_id, participation) # rest) =
     (let rkey = ''lms:'' @ lms_user_id in
      and_then (py_item participation ''employee_reference'') (\<lambda>employee_id.
      and_then (py_item participation ''learner_name'') (\<lambda>display_name.
      and_then (py_item participation ''department'') (\<lambda>unit'.
      and_then (case map_of truths (PStr lms_user_id) of None \<Rightarrow> Inl (KeyError lms_user_id) | Some i \<Rightarrow> Inr i) (\<lambda>person_id.
      and_then (lms_loop R organization_id truths rest) (\<lambda>rows.
      Inr ((fixture_record R organization_id rkey ''lms'' employee_id display_name (PStr []) unit', rkey, person_id) # rows)))))))"

definition read_file :: "files \<Rightarrow> string \<Rightarrow> string res" where
  "read_file fs p = (case fs p of None \<Rightarrow> Inl FileNotFoundError | Some c \<Rightarrow> Inr c)"

definition json_file :: "codecs \<Rightarrow> files \<Rightarrow> string \<Rightarrow> pyval res" where
  "json_file cd fs p = (case read_file fs p of Inl e \<Rightarrow> Inl e | Inr c \<Rightarrow> cd_json_loads cd c)"

text \<open>
  The hris rows come with keys of their own, so that the two loops fill disjoint parts of
  the \<^verbatim>\<open>truth\<close> dictionary, in the order of the records.
\<close>

definition load_synthetic_identity_fixture :: "runtime \<Rightarrow> codecs \<Rightarrow> files \<Rightarrow> string \<Rightarrow> uuid
    \<Rightarrow> (pyrec list \<times> (string \<times> string) list) res" where
  "load_synthetic_identity_fixture R cd fs dataset_root organization_id =
     (and_then (read_file fs (dataset_root @ ''/hris/employees.csv'')) (\<lambda>csv_text.
      and_then (cd_csv_dicts cd '','' ''utf-8'' csv_text) (\<lambda>hris.
      and_then (json_file cd fs (dataset_root @ ''/lms/participation.json'')) (\<lambda>lms.
      and_then (json_file cd fs (dataset_root @ ''/truth/identity_truth.json'')) (\<lambda>truth_rows.
      and_then (py_iter truth_rows) (\<lambda>truths.
      and_then (hris_loop R organization_id 0 hris truths) (\<lambda>hris_rows.
      and_then (py_iter lms) (\<lambda>participations.
      and_then (first_lms R participations []) (\<lambda>firsts.
      and_then (truth_by_lms truths []) (\<lambda>by_lms.
      and_then (lms_loop R organization_id by_lms (sort_key fst firsts)) (\<lambda>lms_rows.
      let rows = hris_rows @ lms_rows in
      Inr (map fst rows, fold (\<lambda>(record, key, person) d. dict_set key person d) rows []))))))))))))"

section \<open>Operations and metadata\<close>

definition health :: "api_env \<Rightarrow> health_response act" where
  "health E = answers \<lparr>hl_status = ''ok'', hl_service = ''eduwork-databridge'', hl_version = env_version E\<rparr>"

definition ready :: "api_env \<Rightarrow> ready_response act" where
  "ready E = needs (lift Raised (env_select_1 E)) (\<lambda>_.
     answers \<lparr>rdy_status = ''ready'', rdy_database = ''reachable''\<rparr>)"

definition version :: "api_env \<Rightarrow> string act" where
  "version E = answers (env_version E)"

definition summary_unavailable :: "exc \<Rightarrow> api_error" where
  "summary_unavailable e = (case e of
       KeyError _ \<Rightarrow> HttpError 503 (PStr ''Synthetic demo summary is unavailable'')
     | FileNotFoundError \<Rightarrow> HttpError 503 (PStr ''Synthetic demo summary is unavailable'')
     | _ \<Rightarrow> if is_value_error e then HttpError 503 (PStr ''Synthetic demo summary is unavailable'') else Raised e)"

fun manifest_items :: "pyval \<Rightarrow> string list \<Rightarrow> pyrec res" where
  "manifest_items manifest [] = Inr []"
| "manifest_items manifest (k # ks) =
     (case py_item manifest k of Inl e \<Rightarrow> Inl e | Inr v \<Rightarrow>
      case manifest_items manifest ks of Inl e \<Rightarrow> Inl e | Inr items \<Rightarrow> Inr ((k, v) # items))"

definition demo_summary :: "api_env \<Rightarrow> demo_summary_response act" where
  "demo_summary E = reads (\<lambda>s fs. lift summary_unavailable
     (case json_file (env_codecs E) fs ''data/synthetic/small/dataset_manifest.json'' of Inl e \<Rightarrow> Inl e | Inr manifest \<Rightarrow>
      case manifest_items manifest [''preset'', ''seed'', ''generated_at'', ''synthetic'', ''privacy_notice'', ''counts'',
             ''defect_summary'', ''defect_catalog''] of Inl e \<Rightarrow> Inl e | Inr items \<Rightarrow> env_summary_model E items)) answers"

definition organization_view :: "organization \<Rightarrow> organization_read" where
  "organization_view o' = \<lparr>ogr_id = org_id o', ogr_name = org_name o', ogr_organization_type = org_organization_type o',
     ogr_status = org_status o', ogr_created_at = org_created_at o'\<rparr>"

definition organizations :: "api_env \<Rightarrow> actor \<Rightarrow> organization_read list act" where
  "organizations E a =
     needs (lift Raised (require_permission a ''sources:read'')) (\<lambda>_.
     reads (\<lambda>s fs. Inr (map organization_view
       (list_organizations (env_parse_uuid E) (s_working s) (Some (actor_organization_ids a))))) answers)"

definition source_view :: "source_system \<Rightarrow> source_system_read" where
  "source_view r = \<lparr>ssr_id = ss_id r, ssr_organization_id = ss_organization_id r, ssr_source_key = ss_source_key r,
     ssr_name = ss_name r, ssr_connector_type = ss_connector_type r, ssr_data_classification = ss_data_classification r,
     ssr_active = ss_active r, ssr_created_at = ss_created_at r\<rparr>"

definition sources :: "api_env \<Rightarrow> actor \<Rightarrow> uuid option \<Rightarrow> source_system_read list act" where
  "sources E a org = authorised E a org ''sources:read'' (\<lambda>organization_id.
     reads (\<lambda>s fs. Inr (map source_view (list_sources (s_working s) organization_id))) answers)"

section \<open>Sources\<close>

definition connector_test :: "api_env \<Rightarrow> connector \<Rightarrow> int \<Rightarrow> connection_test_result res" where
  "connector_test E c now = (case c of
       FileConn fc \<Rightarrow> Inr (file_test_connection (env_codecs E) fc now)
     | RestConn rc \<Rightarrow> fst (rest_test_connection (env_host E) (sw_client (env_world E)) rc now \<lparr>rst_requests = [], rst_sleeps = []\<rparr>)
     | PgConn pc \<Rightarrow> pg_test_connection (env_source_ping E (pgc_database_url pc)) now)"

definition connector_discover :: "api_env \<Rightarrow> connector \<Rightarrow> source_object_config \<Rightarrow> discovery_result res" where
  "connector_discover E c obj = (case c of
       FileConn fc \<Rightarrow> file_discover_schema (env_runtime E) (env_host E) (env_codecs E) fc obj
     | RestConn rc \<Rightarrow> fst (rest_discover_schema (env_runtime E) (env_host E) (env_codecs E) (sw_client (env_world E)) rc obj
         \<lparr>rst_requests = [], rst_sleeps = []\<rparr>)
     | PgConn pc \<Rightarrow> pg_discover_schema (sw_databases (env_world E) (pgc_database_url pc)) obj)"

definition test_source_connection :: "api_env \<Rightarrow> int \<Rightarrow> actor \<Rightarrow> uuid option \<Rightarrow> string \<Rightarrow> connection_test_result act" where
  "test_source_connection E now a org source_id = authorised E a org ''sources:read'' (\<lambda>organization_id.
     reads (\<lambda>s fs. lift Raised (get_scoped_source (s_working s) organization_id source_id)) (\<lambda>_.
     needs (source_config_of E source_id) (\<lambda>config.
     needs (lift Raised (build_connector (env_host E) (env_settings E) config)) (\<lambda>c.
     needs (lift as_code_detail (connector_test E c now)) answers))))"

definition discover_source :: "api_env \<Rightarrow> actor \<Rightarrow> uuid option \<Rightarrow> string \<Rightarrow> string \<Rightarrow> discovery_result act" where
  "discover_source E a org source_id object_key = authorised E a org ''sources:read'' (\<lambda>organization_id.
     reads (\<lambda>s fs. lift Raised (get_scoped_source (s_working s) organization_id source_id)) (\<lambda>_.
     needs (source_config_of E source_id) (\<lambda>config.
     needs (source_object_of config object_key) (\<lambda>obj.
     needs (lift Raised (build_connector (env_host E) (env_settings E) config)) (\<lambda>c.
     needs (lift as_code_detail (connector_discover E c obj)) answers)))))"

definition extract_source :: "api_env \<Rightarrow> int \<Rightarrow> actor \<Rightarrow> uuid option \<Rightarrow> string \<Rightarrow> ingestion_request \<Rightarrow> ingestion_outcome act" where
  "extract_source E now a org source_id q = authorised E a org ''ingestion:write'' (\<lambda>organization_id.
     calls as_code_detail (ingest (env_runtime E) (env_world E) (env_settings E) (env_source_config E) CONFIG_ROOT
       organization_id source_id (inq_object_key q) (inq_resume_from_run_id q) now) (\<lambda>outcome.
     audited E a now organization_id True ''ingestion.completed'' ''ingestion_run'' (uuid_text E (io_run_id outcome))
       [(''source_id'', PStr source_id), (''object_key'', PStr (inq_object_key q)),
        (''row_count'', PInt (io_row_count outcome)), (''reused_snapshot'', PBool (io_reused_snapshot outcome))]
     (answers outcome)))"

section \<open>Profiles, mappings, validation\<close>

definition create_profile_endpoint :: "api_env \<Rightarrow> int \<Rightarrow> actor \<Rightarrow> uuid option \<Rightarrow> profile_request \<Rightarrow> profile_outcome act" where
  "create_profile_endpoint E now a org q = authorised E a org ''profiles:write'' (\<lambda>organization_id.
     needs (named_config E (env_profile_config E) ''profiles'' (pfq_profile_config_id q)) (\<lambda>config.
     reads (\<lambda>s fs. lift Raised (get_scoped_snapshot (s_working s) organization_id (pfq_snapshot_id q))) (\<lambda>snapshot.
     reads (\<lambda>s fs. lift as_code_detail (read_snapshot_records (env_runtime E) (env_codecs E) fs snapshot)) (\<lambda>records.
     calls as_code_detail (on_session (create_profile (env_runtime E) (env_frames E) organization_id (pfq_snapshot_id q)
       records config (pfq_baseline_profile_id q) now)) (\<lambda>outcome.
     audited E a now organization_id True ''profile.created'' ''schema_profile'' (uuid_text E (po_profile_id outcome))
       [(''snapshot_id'', PStr (uuid_text E (pfq_snapshot_id q))), (''drift_status'', opt_val (po_drift_status outcome))]
     (answers outcome))))))"

text \<open>A preview run of the mapping service, as the mapping and the validation handlers call it.\<close>

definition MAPPED_ROOT :: string where
  "MAPPED_ROOT = ''var/mapped''"

definition preview_run :: "api_env \<Rightarrow> int \<Rightarrow> uuid \<Rightarrow> uuid \<Rightarrow> pyrec list \<Rightarrow> mapping_config \<Rightarrow> lookups \<Rightarrow> int option
    \<Rightarrow> world \<Rightarrow> mapping_outcome res \<times> world" where
  "preview_run E now organization_id snapshot_id records config lookups preview_limit =
     mapping_execute (env_runtime E) MAPPED_ROOT [] organization_id snapshot_id records config lookups
       (Some [(''output_defaults'', PDict [(''organization_id'', PStr (uuid_text E organization_id))])])
       True preview_limit now"

definition records_lineage :: "api_env \<Rightarrow> int \<Rightarrow> uuid \<Rightarrow> uuid \<Rightarrow> mapping_config \<Rightarrow> 'a act \<Rightarrow> 'a act" where
  "records_lineage E now organization_id snapshot_id config k =
     calls Raised (on_session (record_mapping (env_runtime E) organization_id snapshot_id (mc_mapping_id config)
       (mc_source_contract config) (mapping_rules config) now)) (\<lambda>_. k)"

definition preview_mapping :: "api_env \<Rightarrow> int \<Rightarrow> actor \<Rightarrow> uuid option \<Rightarrow> mapping_preview_request \<Rightarrow> mapping_response act" where
  "preview_mapping E now a org q = authorised E a org ''mappings:write'' (\<lambda>organization_id.
     needs (named_config E (env_mapping_config E) ''mappings'' (mpq_mapping_id q)) (\<lambda>config.
     reads (\<lambda>s fs. lift Raised (get_scoped_snapshot (s_working s) organization_id (mpq_snapshot_id q))) (\<lambda>snapshot.
     needs (load_lookups E (mpq_lookup_ids q) []) (\<lambda>lookups.
     reads (\<lambda>s fs. lift as_mapping_message (read_snapshot_records (env_runtime E) (env_codecs E) fs snapshot)) (\<lambda>records.
     calls as_mapping_message (preview_run E now organization_id (mpq_snapshot_id q) records config lookups
       (Some (mpq_preview_limit q))) (\<lambda>outcome.
     records_lineage E now organization_id (mpq_snapshot_id q) config
     (audited E a now organization_id True ''mapping.previewed'' ''mapping_execution'' (uuid_text E (mo_execution_id outcome))
       [(''mapping_id'', PStr (mc_mapping_id config)), (''output_count'', PInt (int (mo_output_count outcome)))]
     (answers \<lparr>mpr_execution_id = mo_execution_id outcome, mpr_status = mo_status outcome,
        mpr_input_count = mo_input_count outcome, mpr_output_count = mo_output_count outcome,
        mpr_error_count = mo_error_count outcome, mpr_output_uri = mo_output_uri outcome,
        mpr_outputs = mo_outputs outcome, mpr_issues = mo_issues outcome\<rparr>))))))))"

text \<open>The records a validation runs on: those of the snapshot, or those a mapping makes of them.\<close>

definition validation_records :: "api_env \<Rightarrow> int \<Rightarrow> uuid \<Rightarrow> validation_request \<Rightarrow> pyrec list \<Rightarrow> (pyrec list \<times> string \<Rightarrow> 'a act) \<Rightarrow> 'a act" where
  "validation_records E now organization_id q records k = (case vaq_mapping_id q of
       None \<Rightarrow> k (records, ''raw'')
     | Some mapping_id \<Rightarrow>
         needs (named_config E (env_mapping_config E) ''mappings'' mapping_id) (\<lambda>config.
         needs (recover as_mapping_message (load_lookups E (vaq_lookup_ids q) [])) (\<lambda>lookups.
         calls as_mapping_message (preview_run E now organization_id (vaq_snapshot_id q) records config lookups None) (\<lambda>mapped.
         records_lineage E now organization_id (vaq_snapshot_id q) config
         (k (mo_outputs mapped, ''mapped''))))))"

definition validate_snapshot :: "api_env \<Rightarrow> int \<Rightarrow> actor \<Rightarrow> uuid option \<Rightarrow> validation_request \<Rightarrow> validation_response act" where
  "validate_snapshot E now a org q = authorised E a org ''validation:write'' (\<lambda>organization_id.
     needs (named_config E (env_validation_config E) ''validations'' (vaq_validation_set_id q)) (\<lambda>config.
     reads (\<lambda>s fs. lift Raised (get_scoped_snapshot (s_working s) organization_id (vaq_snapshot_id q))) (\<lambda>snapshot.
     reads (\<lambda>s fs. lift Raised (read_snapshot_records (env_runtime E) (env_codecs E) fs snapshot)) (\<lambda>raw.
     validation_records E now organization_id q raw (\<lambda>(records, record_source).
     calls as_safe_message (on_session (service_validate (env_runtime E) organization_id (vaq_snapshot_id q) records config
       (vaq_reference_sets q) now)) (\<lambda>outcome.
     audited E a now organization_id True ''validation.completed'' ''raw_snapshot'' (uuid_text E (vaq_snapshot_id q))
       [(''validation_set_id'', PStr (vaq_validation_set_id q)), (''record_source'', PStr record_source),
        (''issue_count'', PInt (int (length (vrr_issues (vo_result outcome))))),
        (''blocking_failures'', PInt (int (vrr_blocking_failures (vo_result outcome)))),
        (''quarantine_count'', PInt (int (length (vo_quarantine_ids outcome))))]
     (answers \<lparr>var_issue_count = length (vrr_issues (vo_result outcome)),
        var_blocking_failures = vrr_blocking_failures (vo_result outcome),
        var_quality_dimensions = vrr_quality_dimensions (vo_result outcome),
        var_persisted_result_ids = vo_persisted_result_ids outcome, var_quarantine_ids = vo_quarantine_ids outcome,
        var_validated_record_count = length records, var_record_source = record_source\<rparr>)))))))"

section \<open>Exception desk\<close>

definition quarantine_item :: "quarantine_record \<times> validation_rule \<Rightarrow> quarantine_item_response" where
  "quarantine_item p = (case p of (row, rule) \<Rightarrow>
     \<lparr>qir_quarantine_id = qr_id row, qir_source_record_key = qr_source_record_key row, qir_field_name = qr_field_name row,
      qir_evidence_masked = qr_evidence_masked row, qir_explanation = qr_explanation row, qir_status = qr_status row,
      qir_revision = qr_revision row, qir_created_at = qr_created_at row, qir_raw_snapshot_id = qr_raw_snapshot_id row,
      qir_supersedes_quarantine_id = qr_supersedes_quarantine_id row, qir_rule_key = vrule_rule_key rule,
      qir_rule_title = vrule_title rule, qir_severity = vrule_severity rule, qir_remediation = vrule_remediation rule\<rparr>)"

definition quarantine_queue :: "api_env \<Rightarrow> actor \<Rightarrow> uuid option \<Rightarrow> quarantine_params \<Rightarrow> quarantine_item_response list act" where
  "quarantine_queue E a org p = authorised E a org ''validation:write'' (\<lambda>organization_id.
     reads (\<lambda>s fs. lift Raised (review_queue (env_runtime E) organization_id (qpa_status p) (qpa_severity p)
       (qpa_needs_attention p) (qpa_q p) (qpa_sort p) (qpa_limit p) (qpa_offset p) s)) (\<lambda>rows.
     answers (map quarantine_item rows)))"

definition page_offset :: "nat \<Rightarrow> nat \<Rightarrow> nat \<Rightarrow> nat" where
  "page_offset n lmt offset = min offset (((n - 1) div lmt) * lmt)"

definition quarantine_page :: "api_env \<Rightarrow> actor \<Rightarrow> uuid option \<Rightarrow> quarantine_params \<Rightarrow> quarantine_page_response act" where
  "quarantine_page E a org p = authorised E a org ''validation:write'' (\<lambda>organization_id.
     reads (\<lambda>s fs. Inr (review_queue_count (env_runtime E) organization_id (qpa_status p) (qpa_severity p)
       (qpa_needs_attention p) (qpa_q p) s)) (\<lambda>total'.
     let offset = page_offset total' (qpa_limit p) (qpa_offset p) in
     reads (\<lambda>s fs. lift Raised (review_queue (env_runtime E) organization_id (qpa_status p) (qpa_severity p)
       (qpa_needs_attention p) (qpa_q p) (qpa_sort p) (qpa_limit p) offset s)) (\<lambda>rows.
     answers \<lparr>qpr_items = map quarantine_item rows, qpr_total = total', qpr_limit = qpa_limit p, qpr_offset = offset\<rparr>)))"

definition quarantine_summary_endpoint :: "api_env \<Rightarrow> actor \<Rightarrow> uuid option \<Rightarrow> quarantine_summary act" where
  "quarantine_summary_endpoint E a org = authorised E a org ''validation:write'' (\<lambda>organization_id.
     reads (\<lambda>s fs. Inr (quarantine_queue_summary organization_id s)) answers)"

definition resolution_view :: "quarantine_resolution \<Rightarrow> quarantine_resolution_response" where
  "resolution_view d = \<lparr>qrr_id = qs_id d, qrr_quarantine_id = qs_quarantine_id d, qrr_revision = qs_revision d,
     qrr_status = qs_status d, qrr_note = qs_note d, qrr_reviewer_id = qs_reviewer_id d, qrr_recorded_at = qs_recorded_at d,
     qrr_corrected_snapshot_id = qs_corrected_snapshot_id d, qrr_imported = qs_imported d\<rparr>"

definition quarantine_history :: "api_env \<Rightarrow> actor \<Rightarrow> uuid option \<Rightarrow> uuid \<Rightarrow> nat \<Rightarrow> nat \<Rightarrow> quarantine_resolution_response list act" where
  "quarantine_history E a org quarantine_id lmt offset = authorised E a org ''validation:write'' (\<lambda>organization_id.
     reads (\<lambda>s fs. lift Raised (resolution_history organization_id quarantine_id lmt offset s)) (\<lambda>rows.
     answers (map resolution_view rows)))"

text \<open>
  \<^verbatim>\<open>except ConnectorError: session.rollback(); raise\<close>, around the two operations that leave
  their commit to the handler.
\<close>

definition rolled_back :: "(session \<Rightarrow> 'a res \<times> session) \<Rightarrow> session \<Rightarrow> 'a res \<times> session" where
  "rolled_back op s = (case op s of
       (Inl (ConnectorError code message), s1) \<Rightarrow> (Inl (ConnectorError code message), rollback s1)
     | r \<Rightarrow> r)"

definition commits :: "'a act \<Rightarrow> 'a act" where
  "commits k = calls Raised (no_raise (\<lambda>s. ((), commit s))) (\<lambda>_. k)"

definition resolve_quarantine_endpoint :: "api_env \<Rightarrow> int \<Rightarrow> actor \<Rightarrow> uuid option \<Rightarrow> uuid \<Rightarrow> quarantine_resolve_request
    \<Rightarrow> quarantine_resolution_response act" where
  "resolve_quarantine_endpoint E now a org quarantine_id q = authorised E a org ''validation:write'' (\<lambda>organization_id.
     calls Raised (on_session (rolled_back (resolve_quarantine organization_id quarantine_id (qrq_status q) (actor_id a)
       (qrq_note q) (qrq_corrected_snapshot_id q) (qrq_expected_revision q) now False))) (\<lambda>row.
     audited E a now organization_id False ''quarantine.resolved'' ''quarantine_record'' (uuid_text E (qr_id row))
       [(''status'', PStr (qr_status row)), (''revision'', PInt (qr_revision row))]
     (reads (\<lambda>s fs. lift Raised (resolution_history organization_id (qr_id row) 1 0 s)) (\<lambda>rows.
      needs (case rows of [] \<Rightarrow> Inl (Raised IndexError) | resolution # _ \<Rightarrow> Inr (resolution_view resolution)) (\<lambda>response.
      commits (answers response))))))"

section \<open>Matching\<close>

definition synthetic_fixture :: "api_env \<Rightarrow> uuid \<Rightarrow> string \<Rightarrow> files \<Rightarrow> (pyrec list \<times> (string \<times> string) list) res" where
  "synthetic_fixture E organization_id preset fs =
     load_synthetic_identity_fixture (env_runtime E) (env_codecs E) fs (''data/synthetic/'' @ preset) organization_id"

definition check_preset :: "string \<Rightarrow> api_error + unit" where
  "check_preset preset = (if preset \<notin> {''small'', ''medium''}
     then Inl (HttpError 400 (PStr ''Dataset preset must be small or medium'')) else Inr ())"

definition deterministic_synthetic_match :: "api_env \<Rightarrow> int \<Rightarrow> actor \<Rightarrow> uuid option \<Rightarrow> match_request \<Rightarrow> det_match_response act" where
  "deterministic_synthetic_match E now a org q = authorised E a org ''matching:write'' (\<lambda>organization_id.
     needs (check_preset (mtq_dataset_preset q)) (\<lambda>_.
     needs (named_config E (env_det_config E) ''matching'' (mtq_match_config_id q)) (\<lambda>config.
     reads (\<lambda>s fs. lift Raised (synthetic_fixture E organization_id (mtq_dataset_preset q) fs)) (\<lambda>(records, truth).
     calls as_matching_message (on_session (det_execute (env_runtime E) organization_id records config (Some truth)
       (mtq_dataset_preset q @ ''_identity_truth'') now)) (\<lambda>outcome.
     audited E a now organization_id True ''matching.deterministic.completed'' ''match_evaluation''
       (case mo_evaluation_id outcome of None \<Rightarrow> ''synthetic-run'' | Some i \<Rightarrow> uuid_text E i)
       [(''candidate_count'', PInt (int (length (mo_candidate_ids outcome)))),
        (''link_count'', PInt (int (length (dres_links (mo_result outcome))))),
        (''conflict_count'', PInt (int (length (dres_conflicts (mo_result outcome)))))]
     (answers \<lparr>dmr_candidate_ids = mo_candidate_ids outcome, dmr_evaluation_id = mo_evaluation_id outcome,
        dmr_cluster_count = length (remdups (map snd (dres_clusters (mo_result outcome)))),
        dmr_link_count = length (dres_links (mo_result outcome)),
        dmr_conflict_count = length (dres_conflicts (mo_result outcome)),
        dmr_metrics = map_option metrics_json (mo_metrics outcome)\<rparr>))))))"

definition decision_view :: "match_decision \<Rightarrow> match_decision_response" where
  "decision_view d = \<lparr>mdr_id = md_id d, mdr_candidate_id = md_candidate_id d, mdr_decision = md_decision d,
     mdr_revision = md_revision d, mdr_reason = md_reason d, mdr_reviewer_id = md_reviewer_id d,
     mdr_decided_at = md_decided_at d, mdr_supersedes_decision_id = md_supersedes_decision_id d\<rparr>"

definition record_match_decision :: "api_env \<Rightarrow> int \<Rightarrow> actor \<Rightarrow> uuid option \<Rightarrow> uuid \<Rightarrow> match_decision_request
    \<Rightarrow> match_decision_response act" where
  "record_match_decision E now a org candidate_id q = authorised E a org ''matching:write'' (\<lambda>organization_id.
     calls Raised (on_session (rolled_back (record_decision organization_id candidate_id (mdq_decision q) (mdq_reason q)
       (actor_id a) (mdq_expected_revision q) now False))) (\<lambda>row.
     audited E a now organization_id False ''matching.decision.recorded'' ''match_decision'' (uuid_text E (md_id row))
       [(''candidate_id'', PStr (uuid_text E candidate_id)), (''decision'', PStr (md_decision row)),
        (''revision'', PInt (md_revision row)),
        (''supersedes_decision_id'', opt_val (map_option (uuid_text E) (md_supersedes_decision_id row)))]
     (commits (answers (decision_view row)))))"

definition queue_item_view :: "match_queue_item \<Rightarrow> match_queue_item_response" where
  "queue_item_view i = (let c = mq_candidate i in
     \<lparr>mqr_candidate_id = mcand_id c, mqr_left_record_key = mcand_left_record_key c,
      mqr_right_record_key = mcand_right_record_key c, mqr_score = mcand_score c, mqr_evidence = mcand_evidence_json c,
      mqr_status = mcand_status c, mqr_revision = mcand_revision c, mqr_created_at = mcand_created_at c,
      mqr_decision_count = mq_decision_count i, mqr_latest_decision = map_option decision_view (mq_latest_decision i)\<rparr>)"

definition list_match_review_queue :: "api_env \<Rightarrow> actor \<Rightarrow> uuid option \<Rightarrow> match_queue_params \<Rightarrow> match_queue_item_response list act" where
  "list_match_review_queue E a org p = authorised E a org ''matching:write'' (\<lambda>organization_id.
     reads (\<lambda>s fs. Inr (list_review_queue (env_runtime E) organization_id (mqp_status p) (mqp_limit p) (mqp_offset p)
       (mqp_needs_review p) (mqp_unreviewed p) (mqp_q p) s)) (\<lambda>items.
     answers (map queue_item_view items)))"

definition match_review_queue_summary :: "api_env \<Rightarrow> actor \<Rightarrow> uuid option \<Rightarrow> match_queue_summary act" where
  "match_review_queue_summary E a org = authorised E a org ''matching:write'' (\<lambda>organization_id.
     reads (\<lambda>s fs. Inr (review_queue_summary organization_id s)) answers)"

definition list_match_decisions :: "api_env \<Rightarrow> actor \<Rightarrow> uuid option \<Rightarrow> uuid \<Rightarrow> nat \<Rightarrow> nat \<Rightarrow> match_decision_response list act" where
  "list_match_decisions E a org candidate_id lmt offset = authorised E a org ''matching:write'' (\<lambda>organization_id.
     reads (\<lambda>s fs. lift as_safe_message (list_decisions organization_id candidate_id lmt offset s)) (\<lambda>rows.
     answers (map decision_view rows)))"

definition current_actor :: "actor \<Rightarrow> actor_response act" where
  "current_actor a = answers \<lparr>acr_actor_id = actor_id a, acr_subject = actor_subject a,
     acr_display_name = actor_display_name a, acr_roles = sort (remdups (actor_roles a)),
     acr_permissions = sort (remdups (actor_permissions a)),
     acr_authentication_method = actor_authentication_method a\<rparr>"

definition status_counts :: "prob_candidate list \<Rightarrow> (string \<times> nat) list" where
  "status_counts cs = fold (\<lambda>c counts. dict_set (pcd_status c)
     ((case map_of counts (pcd_status c) of None \<Rightarrow> 0 | Some n \<Rightarrow> n) + 1) counts) cs []"

definition probabilistic_synthetic_match :: "api_env \<Rightarrow> int \<Rightarrow> actor \<Rightarrow> uuid option \<Rightarrow> match_request \<Rightarrow> prob_match_response act" where
  "probabilistic_synthetic_match E now a org q = authorised E a org ''matching:write'' (\<lambda>organization_id.
     needs (check_preset (mtq_dataset_preset q)) (\<lambda>_.
     needs (named_config E (env_prob_config E) ''matching'' (mtq_match_config_id q)) (\<lambda>config.
     reads (\<lambda>s fs. lift Raised (synthetic_fixture E organization_id (mtq_dataset_preset q) fs)) (\<lambda>(records, truth).
     calls as_matching_message (on_session (prob_execute (env_runtime E) organization_id records config (Some truth)
       (Some (mtq_dataset_preset q @ ''_identity_truth'')) None now)) (\<lambda>outcome.
     audited E a now organization_id True ''matching.probabilistic.completed'' ''probabilistic_run''
       (uuid_text E (po_run_id outcome)) [(''candidate_count'', PInt (int (length (po_candidate_ids outcome))))]
     (answers \<lparr>pmr_model_id = po_model_id outcome, pmr_run_id = po_run_id outcome,
        pmr_candidate_count = length (po_candidate_ids outcome),
        pmr_status_counts = status_counts (pr_candidates (po_result outcome)),
        pmr_metrics = map_option prob_metrics_json (pr_metrics (po_result outcome))\<rparr>))))))"

section \<open>Publishing\<close>

definition optional_mapping :: "api_env \<Rightarrow> string option \<Rightarrow> api_error + mapping_config option" where
  "optional_mapping E mapping_id = (case mapping_id of
       None \<Rightarrow> Inr None
     | Some i \<Rightarrow> map_sum id Some (named_config E (env_mapping_config E) ''mappings'' i))"

definition optional_snapshot :: "database \<Rightarrow> uuid \<Rightarrow> uuid option \<Rightarrow> api_error + unit" where
  "optional_snapshot db organization_id snapshot_id = (case snapshot_id of
       None \<Rightarrow> Inr ()
     | Some i \<Rightarrow> lift Raised (map_sum id (\<lambda>_. ()) (get_scoped_snapshot db organization_id i)))"

definition build_mart :: "api_env \<Rightarrow> int \<Rightarrow> actor \<Rightarrow> uuid option \<Rightarrow> mart_build_request \<Rightarrow> mart_build_response act" where
  "build_mart E now a org q = authorised E a org ''marts:write'' (\<lambda>organization_id.
     needs (named_config E (env_mart_config E) ''marts'' (mbq_mart_config_id q)) (\<lambda>config.
     needs (optional_mapping E (mbq_mapping_id q)) (\<lambda>mapping.
     reads (\<lambda>s fs. optional_snapshot (s_working s) organization_id (mbq_source_snapshot_id q)) (\<lambda>_.
     calls Raised (mart_service_build (env_runtime E) (env_writers E) (set_mart_root (env_settings E)) organization_id
       (mbq_records q) config (mbq_lineage q) None now) (\<lambda>outcome.
     calls Raised (no_raise (record_mart (env_runtime E) organization_id (mao_snapshot_id outcome) (mbq_source_snapshot_id q)
       (map_option mc_mapping_id mapping) (map_option mc_source_contract mapping) now)) (\<lambda>_.
     audited E a now organization_id True ''mart.created'' ''data_mart_snapshot'' (uuid_text E (mao_snapshot_id outcome))
       [(''row_count'', PInt (mao_row_count outcome))]
     (answers \<lparr>mbr_mart_snapshot_id = mao_snapshot_id outcome, mbr_storage_uri = mao_storage_uri outcome,
        mbr_checksum_sha256 = mao_checksum_sha256 outcome, mbr_row_count = mao_row_count outcome,
        mbr_reused = mao_reused outcome\<rparr>)))))))"

definition mart_of_organization :: "session \<Rightarrow> uuid \<Rightarrow> uuid \<Rightarrow> api_error + data_mart_snapshot" where
  "mart_of_organization s organization_id mart_snapshot_id = (case scoped_mart s organization_id mart_snapshot_id of
       None \<Rightarrow> Inl (HttpError 404 (PStr ''Mart snapshot was not found'')) | Some m \<Rightarrow> Inr m)"

definition publish_export :: "api_env \<Rightarrow> int \<Rightarrow> actor \<Rightarrow> uuid option \<Rightarrow> export_publish_request \<Rightarrow> export_outcome act" where
  "publish_export E now a org q = authorised E a org ''exports:write'' (\<lambda>organization_id.
     reads (\<lambda>s fs. mart_of_organization s organization_id (epq_mart_snapshot_id q)) (\<lambda>mart.
     needs (named_config E (env_export_config E) ''exports'' (epq_export_config_id q)) (\<lambda>config.
     reads (\<lambda>s fs. lift Raised (read_mart_records (env_runtime E) (cd_read_table (env_codecs E)) fs mart)) (\<lambda>records.
     calls Raised (export_publish (env_runtime E) (env_writers E) (set_export_root (env_settings E)) organization_id
       (dms_id mart) records config (actor_permissions a) now) (\<lambda>outcome.
     audited E a now organization_id True ''export.created'' ''export_snapshot'' (uuid_text E (eo_export_snapshot_id outcome))
       [(''row_count'', PInt (eo_row_count outcome))]
     (answers outcome))))))"

definition lineage_trace_endpoint :: "api_env \<Rightarrow> actor \<Rightarrow> uuid option \<Rightarrow> uuid \<Rightarrow> (pyrec list \<times> pyrec list) act" where
  "lineage_trace_endpoint E a org node_id = authorised E a org ''lineage:read'' (\<lambda>organization_id.
     reads (\<lambda>s fs. Inr (trace_json (env_runtime E) (trace (env_runtime E) s organization_id node_id))) answers)"

section \<open>Orchestration, retention, audit\<close>

definition demo_dependencies :: "(string \<times> string list) list" where
  "demo_dependencies = [(''raw_snapshot'', []), (''profile'', [''raw_snapshot'']), (''validated'', [''profile'']),
     (''training_mart'', [''validated''])]"

definition demo_spec :: "runtime \<Rightarrow> asset_schedule_config \<Rightarrow> asset_spec" where
  "demo_spec R item = \<lparr>asp_key = as_asset_key item, asp_compute = demo_asset_compute R (as_asset_key item),
     asp_dependencies = (case map_of demo_dependencies (as_asset_key item) of None \<Rightarrow> [] | Some ds \<Rightarrow> ds),
     asp_max_attempts = int (as_max_attempts item)\<rparr>"

definition demo_orchestrator_of :: "runtime \<Rightarrow> orchestration_config \<Rightarrow> orchestrator res" where
  "demo_orchestrator_of R config = res_fold (\<lambda>item o'. register (demo_spec R item) o') (oc_assets config)
     \<lparr>orc_key = oc_orchestration_id config, orc_hooks = [], orc_assets = []\<rparr>"

text \<open>A run on the request's session; the orchestrator's telemetry stays outside.\<close>

definition orchestrate :: "runtime \<Rightarrow> orchestrator \<Rightarrow> uuid \<Rightarrow> asset_run_request \<Rightarrow> int \<Rightarrow> session \<Rightarrow> asset_outcome res \<times> session" where
  "orchestrate R o' organization_id q now s =
     (case orchestrator_run R o' organization_id (arq_asset_key q) (arq_partition_key q) (Some []) (Some (arq_watermark q)) None now
             \<lparr>ost_session = s, ost_calls = [], ost_events = [], ost_hooked = []\<rparr> of
        (r, st) \<Rightarrow> (r, ost_session st))"

definition run_asset_endpoint :: "api_env \<Rightarrow> int \<Rightarrow> actor \<Rightarrow> uuid option \<Rightarrow> asset_run_request \<Rightarrow> asset_run_response act" where
  "run_asset_endpoint E now a org q = authorised E a org ''ingestion:write'' (\<lambda>organization_id.
     needs (named_config E (env_orchestration_config E) ''orchestration'' ''phase11_daily_v1'') (\<lambda>config.
     needs (lift Raised (demo_orchestrator_of (env_runtime E) config)) (\<lambda>o'.
     calls Raised (on_session (orchestrate (env_runtime E) o' organization_id q now)) (\<lambda>outcome.
     audited E a now organization_id True ''orchestration.asset.completed'' ''asset_run'' (uuid_text E (ao_run_id outcome))
       [(''asset_key'', PStr (ao_asset_key outcome)), (''status'', PStr (ao_status outcome))]
     (answers \<lparr>arr_run_id = ao_run_id outcome, arr_asset_key = ao_asset_key outcome, arr_status = ao_status outcome,
        arr_change_hash = ao_change_hash outcome, arr_watermark = ao_watermark outcome\<rparr>)))))"

definition apply_retention :: "api_env \<Rightarrow> int \<Rightarrow> actor \<Rightarrow> uuid option \<Rightarrow> retention_apply_request \<Rightarrow> retention_outcome act" where
  "apply_retention E now a org q = authorised E a org ''retention:write'' (\<lambda>organization_id.
     needs (named_config E (env_retention_config E) ''retention'' (raq_policy_id q)) (\<lambda>config.
     calls Raised (no_raise (upsert_policy organization_id config now)) (\<lambda>policy.
     calls Raised (apply_export_retention (env_runtime E) (ho_resolve (env_host E) (set_export_root (env_settings E)) \<noteq> None)
       (set_export_root (env_settings E)) organization_id policy (raq_dry_run q) None now) (\<lambda>outcome.
     audited E a now organization_id True ''retention.applied'' ''retention_policy'' (uuid_text E (rpol_id policy))
       [(''candidate_count'', PInt (int (length (ro_candidate_ids outcome)))), (''dry_run'', PBool (ro_dry_run outcome))]
     (answers outcome)))))"

definition audit_view :: "audit_event \<Rightarrow> audit_event_response" where
  "audit_view e = \<lparr>aer_id = ae_id e, aer_occurred_at = ae_occurred_at e, aer_actor_id = ae_actor_id e,
     aer_action = ae_action e, aer_resource_type = ae_resource_type e, aer_resource_id = ae_resource_id e,
     aer_correlation_id = ae_correlation_id e, aer_details = ae_details_json e\<rparr>"

definition list_audit_endpoint :: "api_env \<Rightarrow> actor \<Rightarrow> uuid option \<Rightarrow> audit_event_response list act" where
  "list_audit_endpoint E a org = authorised E a org ''audit:read'' (\<lambda>organization_id.
     reads (\<lambda>s fs. Inr (map audit_view (list_audit s organization_id 100))) answers)"

section \<open>Requests\<close>

definition tagged :: "('a \<Rightarrow> api_response) \<Rightarrow> 'a act \<Rightarrow> api_response act" where
  "tagged f m w = (case m w of (r, w1) \<Rightarrow> (map_sum id f r, w1))"

fun handle :: "api_env \<Rightarrow> int \<Rightarrow> actor \<Rightarrow> uuid option \<Rightarrow> endpoint \<Rightarrow> api_response act" where
  "handle E now a org Health = tagged HealthR (health E)"
| "handle E now a org Ready = tagged ReadyR (ready E)"
| "handle E now a org Version = tagged VersionR (version E)"
| "handle E now a org DemoSummary = tagged DemoSummaryR (demo_summary E)"
| "handle E now a org CurrentActor = tagged ActorR (current_actor a)"
| "handle E now a org Organizations = tagged OrganizationsR (organizations E a)"
| "handle E now a org Sources = tagged SourcesR (sources E a org)"
| "handle E now a org (TestSource i) = tagged TestR (test_source_connection E now a org i)"
| "handle E now a org (DiscoverSource i k) = tagged DiscoveryR (discover_source E a org i k)"
| "handle E now a org (ExtractSource i q) = tagged IngestionR (extract_source E now a org i q)"
| "handle E now a org (CreateProfile q) = tagged ProfileR (create_profile_endpoint E now a org q)"
| "handle E now a org (PreviewMapping q) = tagged MappingR (preview_mapping E now a org q)"
| "handle E now a org (ValidateSnapshot q) = tagged ValidationR (validate_snapshot E now a org q)"
| "handle E now a org (QuarantineQueue p) = tagged QuarantineItemsR (quarantine_queue E a org p)"
| "handle E now a org (QuarantinePage p) = tagged QuarantinePageR (quarantine_page E a org p)"
| "handle E now a org QuarantineSummary = tagged QuarantineSummaryR (quarantine_summary_endpoint E a org)"
| "handle E now a org (QuarantineHistory i lmt offset) = tagged ResolutionsR (quarantine_history E a org i lmt offset)"
| "handle E now a org (ResolveQuarantine i q) = tagged ResolutionR (resolve_quarantine_endpoint E now a org i q)"
| "handle E now a org (DeterministicMatch q) = tagged DetMatchR (deterministic_synthetic_match E now a org q)"
| "handle E now a org (RecordDecision i q) = tagged DecisionR (record_match_decision E now a org i q)"
| "handle E now a org (MatchReviewQueue p) = tagged MatchQueueR (list_match_review_queue E a org p)"
| "handle E now a org MatchQueueSummary = tagged MatchSummaryR (match_review_queue_summary E a org)"
| "handle E now a org (MatchDecisions i lmt offset) = tagged DecisionsR (list_match_decisions E a org i lmt offset)"
| "handle E now a org (ProbabilisticMatch q) = tagged ProbMatchR (probabilistic_synthetic_match E now a org q)"
| "handle E now a org (BuildMart q) = tagged MartR (build_mart E now a org q)"
| "handle E now a org (PublishExport q) = tagged ExportR (publish_export E now a org q)"
| "handle E now a org (LineageTrace i) = tagged (\<lambda>t. TraceR (fst t) (snd t)) (lineage_trace_endpoint E a org i)"
| "handle E now a org (RunAsset q) = tagged AssetRunR (run_asset_endpoint E now a org q)"
| "handle E now a org (ApplyRetention q) = tagged RetentionR (apply_retention E now a org q)"
| "handle E now a org ListAudit = tagged AuditR (list_audit_endpoint E a org)"

text \<open>The endpoints that ask for no identity.\<close>

definition public_endpoint :: "endpoint \<Rightarrow> bool" where
  "public_endpoint ep = (ep \<in> {Health, Ready, Version, DemoSummary})"

definition anonymous :: actor where
  "anonymous = \<lparr>actor_id = 0, actor_subject = [], actor_display_name = [], actor_organization_ids = [],
     actor_roles = [], actor_permissions = [], actor_authentication_method = []\<rparr>"

text \<open>
  \<^verbatim>\<open>get_session\<close>: a request works on a session of its own, which sees the committed
  database; leaving the \<^verbatim>\<open>with\<close> block closes it, and uncommitted work is lost.
\<close>

definition new_session :: "world \<Rightarrow> world" where
  "new_session w = (case w of (s, fs) \<Rightarrow> (rollback s, fs))"

definition close_session :: "world \<Rightarrow> world" where
  "close_session w = (case w of (s, fs) \<Rightarrow> (rollback s, fs))"

definition with_session :: "'a act \<Rightarrow> 'a act" where
  "with_session m w = (case m (new_session w) of (r, w1) \<Rightarrow> (r, close_session w1))"

definition dispatch :: "api_env \<Rightarrow> int \<Rightarrow> string option \<Rightarrow> uuid option \<Rightarrow> endpoint \<Rightarrow> api_response act" where
  "dispatch E now x_demo_user org ep =
     with_session (if public_endpoint ep then handle E now anonymous org ep
      else needs (lift Raised (get_actor (env_runtime E) (env_settings E) x_demo_user)) (\<lambda>a.
           needs (if request_ok ep then Inr () else Inl (HttpError 422 PNone)) (\<lambda>_.
           handle E now a org ep)))"

end
