(* ===== verification/Api_Props.thy ===== *)
theory Api_Props
  imports Api
begin

text \<open>
  Properties of whole requests: what an actor without the right gets, what the demo viewer can
  change, which requests leave an event in the audit log, and the exception desk's pages.
\<close>

section \<open>Authorization\<close>

text \<open>The permission each endpoint asks for, and whether it works for one organization.\<close>

fun permission_of :: "endpoint \<Rightarrow> string option" where
  "permission_of Health = None"
| "permission_of Ready = None"
| "permission_of Version = None"
| "permission_of DemoSummary = None"
| "permission_of CurrentActor = None"
| "permission_of Organizations = Some ''sources:read''"
| "permission_of Sources = Some ''sources:read''"
| "permission_of (TestSource i) = Some ''sources:read''"
| "permission_of (DiscoverSource i k) = Some ''sources:read''"
| "permission_of (ExtractSource i q) = Some ''ingestion:write''"
| "permission_of (CreateProfile q) = Some ''profiles:write''"
| "permission_of (PreviewMapping q) = Some ''mappings:write''"
| "permission_of (ValidateSnapshot q) = Some ''validation:write''"
| "permission_of (QuarantineQueue p) = Some ''validation:write''"
| "permission_of (QuarantinePage p) = Some ''validation:write''"
| "permission_of QuarantineSummary = Some ''validation:write''"
| "permission_of (QuarantineHistory i n m) = Some ''validation:write''"
| "permission_of (ResolveQuarantine i q) = Some ''validation:write''"
| "permission_of (DeterministicMatch q) = Some ''matching:write''"
| "permission_of (RecordDecision i q) = Some ''matching:write''"
| "permission_of (MatchReviewQueue p) = Some ''matching:write''"
| "permission_of MatchQueueSummary = Some ''matching:write''"
| "permission_of (MatchDecisions i n m) = Some ''matching:write''"
| "permission_of (ProbabilisticMatch q) = Some ''matching:write''"
| "permission_of (BuildMart q) = Some ''marts:write''"
| "permission_of (PublishExport q) = Some ''exports:write''"
| "permission_of (LineageTrace i) = Some ''lineage:read''"
| "permission_of (RunAsset q) = Some ''ingestion:write''"
| "permission_of (ApplyRetention q) = Some ''retention:write''"
| "permission_of ListAudit = Some ''audit:read''"

definition organization_scoped :: "endpoint \<Rightarrow> bool" where
  "organization_scoped ep = (permission_of ep \<noteq> None \<and> ep \<noteq> Organizations)"

definition in_reach :: "api_env \<Rightarrow> actor \<Rightarrow> uuid option \<Rightarrow> bool" where
  "in_reach E a org = (case org of None \<Rightarrow> False | Some i \<Rightarrow> may_access (env_runtime E) a i)"

definition allowed :: "api_env \<Rightarrow> actor \<Rightarrow> uuid option \<Rightarrow> endpoint \<Rightarrow> bool" where
  "allowed E a org ep = (case permission_of ep of
       None \<Rightarrow> True
     | Some p \<Rightarrow> p \<in> set (actor_permissions a) \<and> (organization_scoped ep \<longrightarrow> in_reach E a org))"

text \<open>The handlers of the organization-scoped endpoints all open with \<open>authorised\<close>.\<close>

lemmas scoped_handlers = sources_def test_source_connection_def discover_source_def extract_source_def
  create_profile_endpoint_def preview_mapping_def validate_snapshot_def quarantine_queue_def quarantine_page_def
  quarantine_summary_endpoint_def quarantine_history_def resolve_quarantine_endpoint_def
  deterministic_synthetic_match_def record_match_decision_def list_match_review_queue_def
  match_review_queue_summary_def list_match_decisions_def probabilistic_synthetic_match_def build_mart_def
  publish_export_def lineage_trace_endpoint_def run_asset_endpoint_def apply_retention_def list_audit_endpoint_def

lemma ends_with_simps:
  "connector_error_status ''organization_forbidden'' = 403" "connector_error_status ''permission_forbidden'' = 403"
  by code_simp+

text \<open>The three checks as one decision.\<close>

definition refusal :: "api_env \<Rightarrow> actor \<Rightarrow> uuid option \<Rightarrow> string \<Rightarrow> api_error option" where
  "refusal E a org p = (case org of
       None \<Rightarrow> Some (HttpError 400 (PStr ''X-Organization-ID is required''))
     | Some i \<Rightarrow>
         if \<not> may_access (env_runtime E) a i
         then Some (Raised (ConnectorError ''organization_forbidden'' ''Actor cannot access this organization''))
         else if p \<notin> set (actor_permissions a)
         then Some (Raised (ConnectorError ''permission_forbidden'' ''Actor lacks the required permission''))
         else None)"

lemma authorised_eq:
  "authorised E a org p k w = (case refusal E a org p of Some e \<Rightarrow> (Inl e, w) | None \<Rightarrow> k (the org) w)"
  by (cases org) (simp_all add: authorised_def refusal_def needs_def lift_def required_organization_def
      require_organization_def require_permission_def)

lemma refusal_None_iff: "refusal E a org p = None \<longleftrightarrow> p \<in> set (actor_permissions a) \<and> in_reach E a org"
  by (auto simp: refusal_def in_reach_def split: option.splits)

lemma refusal_status: "refusal E a org p = Some e \<Longrightarrow> fst (error_reply e) \<in> {400, 403}"
  by (auto simp: refusal_def ends_with_simps split: option.splits if_splits)

lemma handle_refuses:
  assumes "organization_scoped ep" and "permission_of ep = Some p" and "refusal E a org p = Some e"
  shows "handle E now a org ep w = (Inl e, w)"
  using assms by (cases ep) (simp_all add: organization_scoped_def scoped_handlers tagged_def authorised_eq)

lemma refused_handle:
  assumes "\<not> allowed E a org ep"
  shows "\<exists>e. handle E now a org ep w = (Inl e, w) \<and> fst (error_reply e) \<in> {400, 403}"
proof (cases "ep = Organizations")
  case True
  with assms show ?thesis
    by (simp add: allowed_def organization_scoped_def tagged_def organizations_def needs_def lift_def
        require_permission_def ends_with_simps)
next
  case False
  with assms obtain p where p: "permission_of ep = Some p" "\<not> (p \<in> set (actor_permissions a) \<and> in_reach E a org)"
    by (auto simp: allowed_def organization_scoped_def split: option.splits)
  then obtain e where e: "refusal E a org p = Some e" using refusal_None_iff by fastforce
  from p False have "organization_scoped ep" by (simp add: organization_scoped_def)
  from handle_refuses [OF this p(1) e] refusal_status [OF e] show ?thesis by blast
qed

text \<open>
  C24: a request whose actor lacks the endpoint's permission, or that names no organization or one
  outside the actor's reach, is answered 400 or 403, and changes neither database nor files.
\<close>

theorem refused_request_changes_nothing:
  "\<not> allowed E a org ep \<Longrightarrow> \<exists>e. handle E now a org ep w = (Inl e, w) \<and> fst (error_reply e) \<in> {400, 403}"
  by (rule refused_handle)

section \<open>Endpoints that only read\<close>

text \<open>The action each changing endpoint records in the audit log; the others record nothing.\<close>

fun audit_action :: "endpoint \<Rightarrow> string option" where
  "audit_action (ExtractSource i q) = Some ''ingestion.completed''"
| "audit_action (CreateProfile q) = Some ''profile.created''"
| "audit_action (PreviewMapping q) = Some ''mapping.previewed''"
| "audit_action (ValidateSnapshot q) = Some ''validation.completed''"
| "audit_action (ResolveQuarantine i q) = Some ''quarantine.resolved''"
| "audit_action (DeterministicMatch q) = Some ''matching.deterministic.completed''"
| "audit_action (RecordDecision i q) = Some ''matching.decision.recorded''"
| "audit_action (ProbabilisticMatch q) = Some ''matching.probabilistic.completed''"
| "audit_action (BuildMart q) = Some ''mart.created''"
| "audit_action (PublishExport q) = Some ''export.created''"
| "audit_action (RunAsset q) = Some ''orchestration.asset.completed''"
| "audit_action (ApplyRetention q) = Some ''retention.applied''"
| "audit_action ep = None"

lemma snd_needs: "snd (needs r k w) = (case r of Inl e \<Rightarrow> w | Inr v \<Rightarrow> snd (k v w))"
  by (simp add: needs_def split: sum.split)

lemma snd_reads: "snd (reads f k w) = (case f (fst w) (snd w) of Inl e \<Rightarrow> w | Inr v \<Rightarrow> snd (k v w))"
  by (simp add: reads_def snd_needs split_beta)

lemma snd_authorised: "snd (authorised E a org p k w) = (if refusal E a org p = None then snd (k (the org) w) else w)"
  by (simp add: authorised_eq split: option.split)

lemma snd_tagged [simp]: "snd (tagged f m w) = snd (m w)"
  by (simp add: tagged_def split_beta)

lemma snd_answers [simp]: "snd (answers v w) = w"
  by (simp add: answers_def)

lemma reading_endpoint:
  assumes "audit_action ep = None"
  shows "snd (handle E now a org ep w) = w"
  using assms
  by (cases ep) (simp_all add: scoped_handlers health_def ready_def version_def demo_summary_def current_actor_def
      organizations_def snd_authorised snd_needs snd_reads Let_def split: sum.split)

lemma viewer_permissions:
  assumes "get_actor R st (Some ''demo-viewer'') = Inr a"
  shows "actor_permissions a = [''sources:read'', ''lineage:read'']"
  using assms by (auto simp: get_actor_def demo_authenticate_def or_empty_def named_def Let_def split: if_splits)

lemma changing_endpoint_permission:
  assumes "audit_action ep \<noteq> None"
  shows "\<exists>p. permission_of ep = Some p \<and> p \<notin> {''sources:read'', ''lineage:read'', ''audit:read''}"
  using assms by (cases ep) simp_all

lemma snd_with_session: "snd (with_session m w) = close_session (snd (m (new_session w)))"
  by (simp add: with_session_def split: prod.split)

lemma close_new_session [simp]: "close_session (new_session w) = new_session w"
  by (simp add: close_session_def new_session_def rollback_def split: prod.split)

text \<open>
  whatever the demo viewer asks for, the request leaves the committed database and the files
  as they were.
\<close>

theorem viewer_changes_nothing: "snd (dispatch E now (Some ''demo-viewer'') org ep w) = new_session w"
proof -
  have "snd (handle E now a org ep w') = w'"
    if "public_endpoint ep \<or> get_actor (env_runtime E) (env_settings E) (Some ''demo-viewer'') = Inr a" for a w'
  proof (cases "audit_action ep = None")
    case False
    from changing_endpoint_permission [OF this] obtain p
      where p: "permission_of ep = Some p" "p \<notin> {''sources:read'', ''lineage:read'', ''audit:read''}" by blast
    with that have "get_actor (env_runtime E) (env_settings E) (Some ''demo-viewer'') = Inr a"
      by (auto simp: public_endpoint_def)
    from viewer_permissions [OF this] p have "\<not> allowed E a org ep" by (simp add: allowed_def)
    then obtain e where "handle E now a org ep w' = (Inl e, w')" using refused_handle by blast
    then show ?thesis by simp
  qed (rule reading_endpoint)
  then show ?thesis
    by (simp add: dispatch_def snd_with_session snd_needs lift_def split: sum.split)
qed

section \<open>Pages of the exception desk\<close>

text \<open>The whole filtered and ordered queue a page is a window of.\<close>

definition ordered_queue :: "api_env \<Rightarrow> uuid \<Rightarrow> quarantine_params \<Rightarrow> session \<Rightarrow> (quarantine_record \<times> validation_rule) list" where
  "ordered_queue E i p s = sort_key (the (queue_order (qpa_sort p)))
     (review_query (env_runtime E) i (qpa_status p) (qpa_severity p) (qpa_needs_attention p) (qpa_q p) s)"

lemma queue_order_known: "quarantine_params_ok p \<Longrightarrow> \<exists>key. queue_order (qpa_sort p) = Some key"
  by (auto simp: quarantine_params_ok_def queue_order_def)

lemma quarantine_page_window:
  assumes "allowed E a (Some i) (QuarantinePage p)" and "quarantine_params_ok p"
  shows "handle E now a (Some i) (QuarantinePage p) (s, fs) =
    (let n = length (ordered_queue E i p s); offset = page_offset n (qpa_limit p) (qpa_offset p) in
     (Inr (QuarantinePageR \<lparr>qpr_items = map quarantine_item (take (qpa_limit p) (drop offset (ordered_queue E i p s))),
        qpr_total = n, qpr_limit = qpa_limit p, qpr_offset = offset\<rparr>), s, fs))"
proof -
  obtain key where key: "queue_order (qpa_sort p) = Some key" using queue_order_known [OF assms(2)] by blast
  from assms(1) have "refusal E a (Some i) ''validation:write'' = None"
    by (simp add: allowed_def organization_scoped_def refusal_None_iff)
  with key show ?thesis
    by (simp add: quarantine_page_def tagged_def authorised_eq reads_def needs_def lift_def answers_def Let_def
        review_queue_def review_queue_count_def ordered_queue_def)
qed

lemma page_offset_bound:
  assumes "0 < n"
  shows "page_offset n lmt offset < n"
proof -
  have "page_offset n lmt offset \<le> (n - 1) div lmt * lmt" by (simp add: page_offset_def)
  also have "\<dots> \<le> n - 1" by (rule div_times_less_eq_dividend)
  finally show ?thesis using assms by simp
qed

lemma page_offset_exact:
  assumes "j < n"
  shows "page_offset n lmt ((j div lmt) * lmt) = (j div lmt) * lmt"
proof -
  from assms have "j div lmt \<le> (n - 1) div lmt" by (intro div_le_mono) simp
  then show ?thesis by (simp add: page_offset_def min_def)
qed

lemma window_mem:
  assumes "j < length xs" and "0 < lmt"
  shows "xs ! j \<in> set (take lmt (drop ((j div lmt) * lmt) xs))"
proof -
  have "j div lmt * lmt \<le> length xs"
    using assms(1) by (meson div_times_less_eq_dividend le_less_trans less_imp_le)
  then have "xs ! j = drop ((j div lmt) * lmt) xs ! (j mod lmt)"
    by (subst nth_drop) (simp_all add: div_mult_mod_eq)
  moreover have "j mod lmt < length (take lmt (drop ((j div lmt) * lmt) xs))"
    using assms by (simp add: less_diff_conv)
  ultimately show ?thesis by (metis nth_mem nth_take length_take min_less_iff_conj)
qed

text \<open>
  C26: every exception the filters select is on some page: with a known sort order and a page size
  of at least one, there is an offset at which the page endpoint lists it.
\<close>

theorem pages_cover_queue:
  assumes ok: "quarantine_params_ok p" and allowed: "allowed E a (Some i) (QuarantinePage p)"
    and row: "row \<in> set (ordered_queue E i p s)"
  shows "\<exists>offset page. handle E now a (Some i) (QuarantinePage (p\<lparr>qpa_offset := offset\<rparr>)) (s, fs)
      = (Inr (QuarantinePageR page), s, fs) \<and> quarantine_item row \<in> set (qpr_items page)"
proof -
  let ?xs = "ordered_queue E i p s" and ?l = "qpa_limit p"
  from row obtain j where j: "j < length ?xs" "row = ?xs ! j" by (metis in_set_conv_nth)
  let ?p = "p\<lparr>qpa_offset := (j div ?l) * ?l\<rparr>"
  have xs: "ordered_queue E i ?p s = ?xs" by (simp add: ordered_queue_def)
  from ok have ok': "quarantine_params_ok ?p" and l: "0 < ?l" by (auto simp: quarantine_params_ok_def page_params_ok_def)
  from allowed have "allowed E a (Some i) (QuarantinePage ?p)" by (simp add: allowed_def organization_scoped_def)
  from quarantine_page_window [OF this ok'] xs
  have "handle E now a (Some i) (QuarantinePage ?p) (s, fs) =
     (Inr (QuarantinePageR \<lparr>qpr_items = map quarantine_item (take ?l (drop ((j div ?l) * ?l) ?xs)),
        qpr_total = length ?xs, qpr_limit = ?l, qpr_offset = (j div ?l) * ?l\<rparr>), s, fs)"
    by (simp add: Let_def page_offset_exact [OF j(1)])
  with window_mem [OF j(1) l] j(2) show ?thesis by force
qed

text \<open>A page is empty only when nothing is selected, however large the offset asked for.\<close>

lemma page_empty_iff:
  assumes "quarantine_params_ok p" and "allowed E a (Some i) (QuarantinePage p)"
    and "handle E now a (Some i) (QuarantinePage p) (s, fs) = (Inr (QuarantinePageR page), w)"
  shows "qpr_items page = [] \<longleftrightarrow> qpr_total page = 0"
proof -
  from assms(1) have l: "0 < qpa_limit p" by (simp add: quarantine_params_ok_def page_params_ok_def)
  show ?thesis
    using quarantine_page_window [OF assms(2,1), of now s fs] assms(3) l
      page_offset_bound [of "length (ordered_queue E i p s)" "qpa_limit p" "qpa_offset p"]
    by (cases "ordered_queue E i p s = []") (auto simp: Let_def)
qed

section \<open>A concrete service\<close>

text \<open>The demo settings, with no configuration file, no fixture and no plug-in.\<close>

definition demo_env :: api_env where
  "demo_env = \<lparr>env_runtime = digest_runtime, env_settings = demo_settings, env_world = demo_world, env_version = ''0.62.1'',
     env_source_config = (\<lambda>_. Inr (demo_source ''csv'' None)), env_profile_config = (\<lambda>_. Inl FileNotFoundError),
     env_mapping_config = (\<lambda>_. Inl FileNotFoundError), env_validation_config = (\<lambda>_. Inl FileNotFoundError),
     env_det_config = (\<lambda>_. Inl FileNotFoundError), env_prob_config = (\<lambda>_. Inl FileNotFoundError),
     env_mart_config = (\<lambda>_. Inr demo_mart_config), env_export_config = (\<lambda>_. Inr demo_export_config),
     env_orchestration_config = (\<lambda>_. Inl FileNotFoundError), env_retention_config = (\<lambda>_. Inl FileNotFoundError),
     env_lookup_document = (\<lambda>_. Inl FileNotFoundError), env_summary_model = (\<lambda>_. Inl (ValueError [])),
     env_frames = demo_frame, env_writers = demo_writers, env_parse_uuid = (\<lambda>_. None), env_select_1 = Inr (),
     env_source_ping = (\<lambda>_. Inr ()), env_audit_insert = (\<lambda>_. Inr ())\<rparr>"

definition demo_viewer :: actor where
  "demo_viewer = anonymous\<lparr>actor_organization_ids := [''*''], actor_permissions := [''sources:read'', ''lineage:read'']\<rparr>"

definition demo_decision :: match_decision_request where
  "demo_decision = \<lparr>mdq_decision = ''match'', mdq_reason = ''seen'', mdq_expected_revision = 0\<rparr>"

lemma demo_viewer_refused: "\<not> allowed demo_env demo_viewer (Some 1) (RecordDecision 7 demo_decision)"
  by (simp add: allowed_def demo_viewer_def)

theorem refused_request_changes_nothing_witness:
  "\<not> allowed demo_env demo_viewer (Some 1) (RecordDecision 7 demo_decision)
   \<and> (\<exists>e. handle demo_env 100 demo_viewer (Some 1) (RecordDecision 7 demo_decision) (demo_desk, Map.empty) =
            (Inl e, demo_desk, Map.empty) \<and> fst (error_reply e) \<in> {400, 403})"
  using refused_request_changes_nothing [OF demo_viewer_refused, of 100 "(demo_desk, Map.empty)"] demo_viewer_refused
  by blast

definition demo_desk_params :: quarantine_params where
  "demo_desk_params = \<lparr>qpa_status = None, qpa_severity = None, qpa_needs_attention = False, qpa_q = None,
     qpa_sort = ''oldest'', qpa_limit = 1, qpa_offset = 0\<rparr>"

definition demo_steward :: actor where
  "demo_steward = anonymous\<lparr>actor_organization_ids := [''*''], actor_permissions := [''validation:write'']\<rparr>"

definition demo_page_rule :: validation_rule where
  "demo_page_rule = \<lparr>vrule_id = 3, vrule_created_at = 0, vrule_organization_id = 1, vrule_rule_key = ''r'', vrule_version = ''1.0'',
     vrule_title = ''t'', vrule_entity_name = ''e'', vrule_severity = ''error'', vrule_expression_type = ''required'',
     vrule_expression_json = [], vrule_explanation = [], vrule_remediation = None, vrule_active = True\<rparr>"

definition demo_page_row :: "uuid \<Rightarrow> quarantine_record" where
  "demo_page_row i = \<lparr>qr_id = i, qr_created_at = int i, qr_organization_id = 1, qr_ingestion_run_id = 2, qr_validation_rule_id = 3,
     qr_raw_snapshot_id = 4, qr_source_record_key = ''k'', qr_field_name = None, qr_evidence_masked = None, qr_explanation = [],
     qr_status = ''open'', qr_revision = 0, qr_reviewer_id = None, qr_waiver_reason = None, qr_resolution_note = None,
     qr_resolved_at = None, qr_supersedes_quarantine_id = None, qr_corrected_snapshot_id = None\<rparr>"

definition demo_page_session :: session where
  "demo_page_session = fresh_session\<lparr>s_working := empty_db\<lparr>db_validation_rules := [demo_page_rule],
     db_quarantine_records := [demo_page_row 5, demo_page_row 6]\<rparr>\<rparr>"

lemma demo_page_facts:
  "quarantine_params_ok demo_desk_params" "allowed demo_env demo_steward (Some 1) (QuarantinePage demo_desk_params)"
  "(demo_page_row 6, demo_page_rule) \<in> set (ordered_queue demo_env 1 demo_desk_params demo_page_session)"
proof -
  show "quarantine_params_ok demo_desk_params"
    by (simp add: quarantine_params_ok_def demo_desk_params_def choice_ok_def search_ok_def page_params_ok_def)
  show "allowed demo_env demo_steward (Some 1) (QuarantinePage demo_desk_params)"
    by (simp add: allowed_def demo_steward_def in_reach_def may_access_def)
  have "(demo_page_row 6, demo_page_rule) \<in> set (review_query (env_runtime demo_env) 1 None None False None demo_page_session)"
    by (simp add: review_query_def review_match_def demo_page_session_def demo_page_row_def demo_page_rule_def)
  then show "(demo_page_row 6, demo_page_rule) \<in> set (ordered_queue demo_env 1 demo_desk_params demo_page_session)"
    by (simp add: ordered_queue_def demo_desk_params_def)
qed

theorem pages_cover_queue_witness:
  "\<exists>offset page. handle demo_env 0 demo_steward (Some 1) (QuarantinePage (demo_desk_params\<lparr>qpa_offset := offset\<rparr>))
       (demo_page_session, Map.empty) = (Inr (QuarantinePageR page), demo_page_session, Map.empty)
     \<and> quarantine_item (demo_page_row 6, demo_page_rule) \<in> set (qpr_items page)"
  using pages_cover_queue [OF demo_page_facts, of 0 Map.empty] .

end
