(* ===== verification/Service_Frames.thy ===== *)
theory Service_Frames
  imports Api
begin

text \<open>
  What the services leave alone. A predicate says that one table, in the committed and in the
  uncommitted state of a session, is a given one. A locale holds what a table has to satisfy
  (no update of another table touches it), and inside it every service is shown to keep it;
  the table of the audit log and the one of the quarantine records are its instances.
\<close>

named_theorems frame_intros \<open>operations that leave a table as it is\<close>

definition keeps :: "(database \<Rightarrow> 'r) \<Rightarrow> 'r \<Rightarrow> session \<Rightarrow> bool" where
  "keeps tab A s = (tab (s_working s) = A \<and> tab (s_committed s) = A)"

section \<open>Store operations\<close>

lemma frame_commit [frame_intros]: "keeps tab A s \<Longrightarrow> keeps tab A (commit s)"
  by (simp add: keeps_def)

lemma frame_rollback [frame_intros]: "keeps tab A s \<Longrightarrow> keeps tab A (rollback s)"
  by (simp add: keeps_def)

lemma frame_take_uuid [frame_intros]: "keeps tab A s \<Longrightarrow> keeps tab A (snd (take_uuid s))"
  by (simp add: keeps_def take_uuid_def)

lemma frame_on_working [frame_intros]:
  "keeps tab A s \<Longrightarrow> (\<And>db. tab (f db) = tab db) \<Longrightarrow> keeps tab A (on_working f s)"
  by (simp add: keeps_def)

lemma frame_add_row [frame_intros]:
  "keeps tab A s \<Longrightarrow> (\<And>r db. tab (put r db) = tab db) \<Longrightarrow> keeps tab A (snd (add_row mk put s))"
  by (simp add: keeps_def add_row_def Let_def)

lemma frame_goc_by [frame_intros]:
  "keeps tab A s \<Longrightarrow> (\<And>r db. tab (put r db) = tab db) \<Longrightarrow> keeps tab A (snd (goc_by rows key put mk k s))"
  by (simp add: goc_by_def frame_add_row split: option.split)

lemma frame_store_all [frame_intros]:
  assumes "\<And>x s. keeps tab A s \<Longrightarrow> keeps tab A (snd (f x s))" and "keeps tab A s"
  shows "keeps tab A (snd (store_all f xs s))"
  using assms(2) by (induction xs arbitrary: s) (simp_all add: split_beta assms(1))

lemmas frame_split = split_beta Let_def

lemma call_hooks_session [simp]: "ost_session (snd (call_hooks hs k n st)) = ost_session st"
  by (induction hs arbitrary: st) (auto simp: Let_def split: sum.split)

section \<open>A table the services leave alone\<close>

locale service_table =
  fixes tab :: "database \<Rightarrow> 'r list"
  assumes upd_organizations: "tab (db_organizations_update f0 db) = tab db"
    and upd_source_systems: "tab (db_source_systems_update f1 db) = tab db"
    and upd_source_objects: "tab (db_source_objects_update f2 db) = tab db"
    and upd_data_contracts: "tab (db_data_contracts_update f3 db) = tab db"
    and upd_ingestion_runs: "tab (db_ingestion_runs_update f4 db) = tab db"
    and upd_raw_snapshots: "tab (db_raw_snapshots_update f5 db) = tab db"
    and upd_schema_profiles: "tab (db_schema_profiles_update f6 db) = tab db"
    and upd_mapping_sets: "tab (db_mapping_sets_update f7 db) = tab db"
    and upd_mapping_rules: "tab (db_mapping_rules_update f8 db) = tab db"
    and upd_validation_rules: "tab (db_validation_rules_update f9 db) = tab db"
    and upd_validation_results: "tab (db_validation_results_update f10 db) = tab db"
    and upd_quarantine_resolutions: "tab (db_quarantine_resolutions_update f11 db) = tab db"
    and upd_match_rule_sets: "tab (db_match_rule_sets_update f12 db) = tab db"
    and upd_match_candidates: "tab (db_match_candidates_update f13 db) = tab db"
    and upd_match_decisions: "tab (db_match_decisions_update f14 db) = tab db"
    and upd_canonical_entity_versions: "tab (db_canonical_entity_versions_update f15 db) = tab db"
    and upd_lineage_nodes: "tab (db_lineage_nodes_update f16 db) = tab db"
    and upd_lineage_edges: "tab (db_lineage_edges_update f17 db) = tab db"
    and upd_export_definitions: "tab (db_export_definitions_update f18 db) = tab db"
    and upd_export_snapshots: "tab (db_export_snapshots_update f19 db) = tab db"
    and upd_profile_comparisons: "tab (db_profile_comparisons_update f20 db) = tab db"
    and upd_lookup_tables: "tab (db_lookup_tables_update f21 db) = tab db"
    and upd_mapping_executions: "tab (db_mapping_executions_update f22 db) = tab db"
    and upd_mapping_errors: "tab (db_mapping_errors_update f23 db) = tab db"
    and upd_match_evaluations: "tab (db_match_evaluations_update f24 db) = tab db"
    and upd_probabilistic_models: "tab (db_probabilistic_models_update f25 db) = tab db"
    and upd_probabilistic_runs: "tab (db_probabilistic_runs_update f26 db) = tab db"
    and upd_data_mart_snapshots: "tab (db_data_mart_snapshots_update f27 db) = tab db"
    and upd_asset_runs: "tab (db_asset_runs_update f28 db) = tab db"
    and upd_retention_policies: "tab (db_retention_policies_update f29 db) = tab db"
    and upd_permissions: "tab (db_permissions_update f30 db) = tab db"
    and upd_roles: "tab (db_roles_update f31 db) = tab db"
    and upd_role_permissions: "tab (db_role_permissions_update f32 db) = tab db"
begin

lemmas table_updates [simp] = upd_organizations upd_source_systems upd_source_objects upd_data_contracts upd_ingestion_runs upd_raw_snapshots upd_schema_profiles upd_mapping_sets upd_mapping_rules upd_validation_rules upd_validation_results upd_quarantine_resolutions upd_match_rule_sets upd_match_candidates upd_match_decisions upd_canonical_entity_versions upd_lineage_nodes upd_lineage_edges upd_export_definitions upd_export_snapshots upd_profile_comparisons upd_lookup_tables upd_mapping_executions upd_mapping_errors upd_match_evaluations upd_probabilistic_models upd_probabilistic_runs upd_data_mart_snapshots upd_asset_runs upd_retention_policies upd_permissions upd_roles upd_role_permissions

text \<open>No table update but that of the log itself touches it.\<close>

lemma puts_keep [simp]:
  "tab (put_validation_rule r1 db) = tab db"
  "tab (put_validation_result r2 db) = tab db"
  "tab (put_resolution r4 db) = tab db"
  "tab (put_rule_set r5 db) = tab db"
  "tab (put_candidate r6 db) = tab db"
  "tab (put_evaluation r7 db) = tab db"
  "tab (put_decision r8 db) = tab db"
  "tab (put_prob_model r9 db) = tab db"
  "tab (put_prob_run r10 db) = tab db"
  "tab (put_execution r11 db) = tab db"
  "tab (put_mapping_error r12 db) = tab db"
  "tab (put_node r13 db) = tab db"
  "tab (put_edge r14 db) = tab db"
  "tab (put_asset_run r15 db) = tab db"
  "tab (put_ingestion_run r16 db) = tab db"
  "tab (put_snapshot r17 db) = tab db"
  "tab (put_mart r18 db) = tab db"
  "tab (put_definition r19 db) = tab db"
  "tab (put_export r20 db) = tab db"
  "tab (put_policy r21 db) = tab db"
  "tab (put_profile r22 db) = tab db"
  "tab (put_comparison r23 db) = tab db"
  "tab (advance_candidate i o' d v db) = tab db"
  "tab (delete_export j db) = tab db"
  "tab (finish_execution k st res uri now db) = tab db"
  by (simp_all add: put_validation_rule_def put_validation_result_def put_resolution_def put_rule_set_def put_candidate_def put_evaluation_def put_decision_def put_prob_model_def put_prob_run_def put_execution_def put_mapping_error_def put_node_def put_edge_def put_asset_run_def put_ingestion_run_def put_snapshot_def put_mart_def put_definition_def put_export_def put_policy_def put_profile_def put_comparison_def advance_candidate_def delete_export_def finish_execution_def)


lemma frame_node [frame_intros]: "keeps tab A s \<Longrightarrow> keeps tab A (snd (node facets now k s))"
  by (simp add: node_def frame_intros split: option.split)

lemma frame_connect [frame_intros]: "keeps tab A s \<Longrightarrow> keeps tab A (snd (connect o' a b rel m now s))"
  by (simp add: connect_def connect_key_def frame_intros split: option.split)

lemma frame_record_targets: "keeps tab A s \<Longrightarrow> keeps tab A (snd (record_targets R o' m job now rules n s))"
  by (induction rules arbitrary: n s)
    (auto simp: frame_split frame_intros split: option.split sum.split)

lemma frame_record_mapping [frame_intros]: "keeps tab A s \<Longrightarrow> keeps tab A (snd (record_mapping R o' i m v rules now s))"
  by (simp add: record_mapping_def raw_node_def frame_split frame_intros frame_record_targets split: sum.split)

lemma frame_record_mart [frame_intros]: "keeps tab A s \<Longrightarrow> keeps tab A (snd (record_mart R o' i src m v now s))"
  by (auto simp: record_mart_def mart_node_def mart_source_def mart_job_def raw_node_def frame_split intro!: frame_intros
      split: option.split)

lemma frame_record_export [frame_intros]: "keeps tab A s \<Longrightarrow> keeps tab A (snd (record_export R o' m e flds now s))"
  by (simp add: record_export_def mart_node_def frame_split frame_intros)

lemma frame_rule_model: "keeps tab A s \<Longrightarrow> keeps tab A (snd (rule_model c now k s))"
  by (auto simp: split_beta rule_model_def intro!: frame_intros split: option.split)

lemma frame_rule_models [frame_intros]: "keeps tab A s \<Longrightarrow> keeps tab A (snd (rule_models o' now cs d s))"
  by (induction cs arbitrary: d s) (simp_all add: split_beta frame_rule_model)

lemma frame_store_result [frame_intros]: "keeps tab A s \<Longrightarrow> keeps tab A (snd (store_result o' run config result now p s))"
  by (auto simp: store_result_def split_beta intro!: frame_intros split: option.split)

lemma frame_goc_rule_set [frame_intros]: "keeps tab A s \<Longrightarrow> keeps tab A (snd (goc_rule_set rules cfg now k s))"
  by (auto simp: goc_rule_set_def create_rule_set_def split_beta intro!: frame_intros split: option.split)

lemma frame_det_execute [frame_intros]:
  "keeps tab A s \<Longrightarrow> keeps tab A (snd (det_execute R o' records cfg truth name now s))"
  by (auto simp: det_execute_def rule_set_def store_link_def store_evaluation_def split_beta Let_def
      intro!: frame_intros split: sum.split option.split)

lemma frame_record_decision [frame_intros]:
  "keeps tab A s \<Longrightarrow> keeps tab A (snd (record_decision o' i d reason a v now b s))"
  by (auto simp: record_decision_def split_beta Let_def intro!: frame_intros split: sum.split)

lemma frame_goc_prob_model [frame_intros]: "keeps tab A s \<Longrightarrow> keeps tab A (snd (goc_prob_model cfg ps name now k s))"
  by (simp add: goc_prob_model_def split_beta Let_def frame_intros split: option.split)

lemma frame_prob_model [frame_intros]: "keeps tab A s \<Longrightarrow> keeps tab A (snd (prob_model o' cfg ps name now s))"
  by (simp add: prob_model_def split_beta Let_def frame_goc_prob_model frame_goc_rule_set)

lemma frame_store_prob_run [frame_intros]: "keeps tab A s \<Longrightarrow> keeps tab A (snd (store_prob_run o' m result now s))"
  by (simp add: store_prob_run_def frame_intros)

lemma frame_store_prob_candidate [frame_intros]: "keeps tab A s \<Longrightarrow> keeps tab A (snd (store_prob_candidate R o' rs m now item s))"
  by (simp add: store_prob_candidate_def split_beta frame_intros)

lemma frame_prob_execute [frame_intros]:
  "keeps tab A s \<Longrightarrow> keeps tab A (snd (prob_execute R o' records cfg truth name ps now s))"
  by (simp add: prob_execute_def split_beta frame_commit frame_store_all frame_store_prob_candidate frame_store_prob_run
      frame_prob_model split: sum.split)

lemma frame_create_profile [frame_intros]:
  "keeps tab A s \<Longrightarrow> keeps tab A (snd (create_profile R fr o' i records config base now s))"
  by (auto simp: create_profile_def split_beta Let_def intro!: frame_intros split: sum.split option.split)

text \<open>Services that work on the session and the files together.\<close>

lemma frame_mapping_execute [frame_intros]:
  "keeps tab A (fst w) \<Longrightarrow> keeps tab A (fst (snd (mapping_execute R root' plugins o' i records config lookups ctx dry lmt now w)))"
  by (auto simp: mapping_execute_def publish_outputs_def store_mapping_error_def split_beta Let_def
      intro!: frame_intros split: sum.split)

lemma frame_raw_store [frame_intros]:
  "keeps tab A (fst w) \<Longrightarrow> keeps tab A (fst (snd (raw_store R cd dir batch i k c v cv t w)))"
  by (auto simp: raw_store_def store_payload_def store_manifest_def split_beta Let_def intro!: frame_intros split: sum.split)

lemma frame_end_run [frame_intros]: "keeps tab A s \<Longrightarrow> keeps tab A (end_run i f s)"
  by (auto simp: end_run_def intro!: frame_intros)

lemma frame_ingest [frame_intros]:
  "keeps tab A (fst w) \<Longrightarrow> keeps tab A (fst (snd (ingest R W st load dir o' i k res now w)))"
  by (auto simp: ingest_def open_run_def extract_and_store_def finish_ingestion_def split_beta Let_def
      intro!: frame_intros split: sum.split)

lemma frame_mart_build [frame_intros]:
  "keeps tab A (fst w) \<Longrightarrow> keeps tab A (fst (snd (mart_service_build R wr dir o' records config lin as_of now w)))"
  by (auto simp: mart_service_build_def split_beta Let_def intro!: frame_intros split: sum.split)

lemma frame_export_publish [frame_intros]:
  "keeps tab A (fst w) \<Longrightarrow> keeps tab A (fst (snd (export_publish R wr dir o' i records config perms now w)))"
  by (auto simp: export_publish_def register_export_def split_beta Let_def intro!: frame_intros split: sum.split option.split)

lemma frame_upsert_policy [frame_intros]: "keeps tab A s \<Longrightarrow> keeps tab A (snd (upsert_policy o' c now s))"
  by (auto simp: upsert_policy_def split_beta intro!: frame_intros split: option.split)

lemma frame_delete_expired [frame_intros]:
  "keeps tab A (fst w) \<Longrightarrow> keeps tab A (fst (snd (delete_expired R dir es w)))"
proof (induction es arbitrary: w)
  case (Cons e es)
  obtain s fs where w: "w = (s, fs)" by (cases w)
  have "keeps tab A (fst (snd (delete_expired R dir es (on_working (delete_export (es_id e)) s, fs1))))" for fs1
    using Cons.prems w by (intro Cons.IH) (simp add: frame_on_working)
  with Cons.prems w show ?case by (auto simp: split_beta split: option.split sum.split)
qed simp

lemma frame_retention [frame_intros]:
  "keeps tab A (fst w) \<Longrightarrow> keeps tab A (fst (snd (apply_export_retention R ex dir o' p dry as_of now w)))"
  by (auto simp: apply_export_retention_def split_beta Let_def intro!: frame_intros split: sum.split)

lemma frame_finish_run [frame_intros]: "keeps tab A s \<Longrightarrow> keeps tab A (finish_run i st c m now s)"
  by (auto simp: finish_run_def intro!: frame_intros)

lemma frame_attempts: "keeps tab A (ost_session st) \<Longrightarrow> keeps tab A (ost_session (snd (attempts R o' ra spec k h c n left st)))"
proof (induction left arbitrary: n st)
  case (Suc left)
  let ?st1 = "snd (start_attempt R o' ra k h c n st)"
  have 1: "keeps tab A (ost_session (end_attempt R ra k n i status f m ?st1))" for i status f m
    using Suc.prems by (auto simp: start_attempt_def end_attempt_def split_beta intro!: frame_intros)
  show ?case
    using Suc.IH 1 by (auto simp: split_beta split: sum.split)
qed simp

lemma frame_run_body: "keeps tab A (ost_session st) \<Longrightarrow> keeps tab A (ost_session (snd (run_body R o' ra spec k c outs st)))"
  by (auto simp: run_body_def Let_def split_beta intro!: frame_attempts frame_intros split: option.split)

lemma frame_run_asset:
  "keeps tab A (ost_session st) \<Longrightarrow> keeps tab A (ost_session (snd (run_asset R o' ra depth k c st)))"
  "keeps tab A (ost_session st) \<Longrightarrow> keeps tab A (ost_session (snd (run_dependencies R o' ra depth ds c outs st)))"
  by (induction R o' ra depth k c st and R o' ra depth ds c outs st rule: run_asset_run_dependencies.induct)
    (auto intro!: frame_run_body split: option.split sum.split prod.split)

lemma frame_orchestrate [frame_intros]: "keeps tab A s \<Longrightarrow> keeps tab A (snd (orchestrate R o' i q now s))"
  by (auto simp: orchestrate_def orchestrator_run_def split_beta intro!: frame_run_asset)

end

section \<open>A table the validation service leaves alone, too\<close>

locale quiet_table = service_table +
  assumes upd_quarantine_records: "tab (db_quarantine_records_update f db) = tab db"
begin

lemma quarantine_keep [simp]:
  "tab (put_quarantine r3 db) = tab db"
  "tab (advance_quarantine o1 o2 o3 o4 o5 o6 o7 o8 db) = tab db"
  by (simp_all add: put_quarantine_def advance_quarantine_def upd_quarantine_records)

lemma frame_store_issue [frame_intros]: "keeps tab A s \<Longrightarrow> keeps tab A (snd (store_issue o' run i rules now issue s))"
  by (auto simp: store_issue_def split_beta intro!: frame_intros split: option.split)


lemma frame_validate [frame_intros]:
  "keeps tab A s \<Longrightarrow> keeps tab A (snd (service_validate R o' i records config refs now s))"
  by (auto simp: service_validate_def split_beta intro!: frame_intros split: sum.split)


lemma frame_resolve [frame_intros]:
  "keeps tab A s \<Longrightarrow> keeps tab A (snd (resolve_quarantine o' i st rev' note c v now b s))"
  by (auto simp: resolve_quarantine_def split_beta Let_def intro!: frame_intros split: sum.split option.split)

end

section \<open>The two tables\<close>

interpretation audit: quiet_table db_audit_events
  by unfold_locales simp_all

interpretation quarantine: service_table db_quarantine_records
  by unfold_locales simp_all

end
