(* ===== verification/Audit_Trail.thy ===== *)
theory Audit_Trail
  imports Api_Props Service_Frames
begin

text \<open>
  The audit log under whole requests. A predicate says that a session's log, committed and
  uncommitted, is a given list; the store operations and, through them, all services keep it,
  so that the events of a request are exactly those its handler records.
\<close>

abbreviation trail :: "audit_event list \<Rightarrow> session \<Rightarrow> bool" where
  "trail \<equiv> keeps db_audit_events"

section \<open>Handlers\<close>

text \<open>
  \<open>logs Q m\<close>: started on a settled log, the action leaves one more event, of the kind \<open>Q\<close>, when
  it answers, and none in the committed log when it fails. \<open>settles ev m\<close> is the same for the
  rest of a handler whose event is recorded but not committed yet.
\<close>

named_theorems logs_intros \<open>how the combinators pass events on\<close>

abbreviation committed_log :: "world \<Rightarrow> audit_event list" where
  "committed_log w \<equiv> db_audit_events (s_committed (fst w))"

definition logged :: "(audit_event \<Rightarrow> bool) \<Rightarrow> audit_event list \<Rightarrow> (api_error + 'a) \<times> world \<Rightarrow> bool" where
  "logged Q A r = (case fst r of
       Inl e \<Rightarrow> committed_log (snd r) = A
     | Inr v \<Rightarrow> \<exists>ev. Q ev \<and> trail (A @ [ev]) (fst (snd r)))"

definition logs :: "(audit_event \<Rightarrow> bool) \<Rightarrow> 'a act \<Rightarrow> bool" where
  "logs Q m = (\<forall>A w. trail A (fst w) \<longrightarrow> logged Q A (m w))"

definition settles :: "audit_event \<Rightarrow> 'a act \<Rightarrow> bool" where
  "settles ev m = (\<forall>A w. db_audit_events (s_working (fst w)) = A @ [ev] \<and> committed_log w = A \<longrightarrow>
     logged (\<lambda>e. e = ev) A (m w))"

definition event_of :: "actor \<Rightarrow> int \<Rightarrow> uuid option \<Rightarrow> string \<Rightarrow> audit_event \<Rightarrow> bool" where
  "event_of a now org action ev =
     (ae_action ev = action \<and> ae_actor_id ev = Some (actor_id a) \<and> ae_organization_id ev = org \<and> ae_occurred_at ev = now)"

lemma logged_Inl [simp]: "logged Q A (Inl e, w) = (committed_log w = A)"
  by (simp add: logged_def)

lemma logged_Inr [simp]: "logged Q A (Inr v, w) = (\<exists>ev. Q ev \<and> trail (A @ [ev]) (fst w))"
  by (simp add: logged_def)

lemma logged_mono: "logged (\<lambda>e. e = ev) A r \<Longrightarrow> Q ev \<Longrightarrow> logged Q A r"
  by (auto simp: logged_def split: sum.splits)

lemma logsD: "logs Q m \<Longrightarrow> trail A (fst w) \<Longrightarrow> logged Q A (m w)"
  unfolding logs_def by blast

lemma logs_needs [logs_intros]: "(\<And>v. logs Q (k v)) \<Longrightarrow> logs Q (needs r k)"
  by (cases r) (simp_all add: logs_def needs_def, simp add: keeps_def)

lemma logs_reads [logs_intros]: "(\<And>v. logs Q (k v)) \<Longrightarrow> logs Q (reads f k)"
  using logsD [OF logs_needs] by (fastforce simp: logs_def reads_def split: prod.split)

lemma logs_calls [logs_intros]:
  assumes "\<And>A w. trail A (fst w) \<Longrightarrow> trail A (fst (snd (op w)))" and "\<And>v. logs Q (k v)"
  shows "logs Q (calls h op k)"
  unfolding logs_def
proof (intro allI impI)
  fix A :: "audit_event list" and w :: world assume "trail A (fst w)"
  with assms(1) have "trail A (fst (snd (op w)))" .
  moreover obtain r w1 where "op w = (r, w1)" by (cases "op w")
  ultimately show "logged Q A (calls h op k w)"
    using logsD [OF assms(2)] by (cases r) (simp_all add: calls_def, simp add: keeps_def)
qed

lemma trail_on_session [frame_intros]:
  "(\<And>s. trail A s \<Longrightarrow> trail A (snd (op s))) \<Longrightarrow> trail A (fst w) \<Longrightarrow> trail A (fst (snd (on_session op w)))"
  by (simp add: on_session_def split_beta)

lemma trail_no_raise [frame_intros]:
  "(\<And>s. trail A s \<Longrightarrow> trail A (snd (op s))) \<Longrightarrow> trail A (fst w) \<Longrightarrow> trail A (fst (snd (no_raise op w)))"
  by (simp add: no_raise_def trail_on_session split_beta)

lemma trail_rolled_back [frame_intros]:
  assumes "\<And>s. trail A s \<Longrightarrow> trail A (snd (op s))" and "trail A s"
  shows "trail A (snd (rolled_back op s))"
proof -
  obtain r s1 where "op s = (r, s1)" by (cases "op s")
  with assms(1) [OF assms(2)] show ?thesis
    by (auto simp: rolled_back_def intro: frame_rollback split: sum.split exc.split)
qed

lemma logs_authorised [logs_intros]:
  assumes "\<And>i. org = Some i \<Longrightarrow> logs (event_of a now (Some i) act) (k i)"
  shows "logs (event_of a now org act) (authorised E a org p k)"
  unfolding logs_def
proof (intro allI impI)
  fix A :: "audit_event list" and w :: world assume w: "trail A (fst w)"
  show "logged (event_of a now org act) A (authorised E a org p k w)"
  proof (cases org)
    case None with w show ?thesis by (simp add: authorised_eq refusal_def keeps_def)
  next
    case (Some i)
    from logsD [OF assms [OF Some] w] w Some show ?thesis
      by (simp add: authorised_eq refusal_def keeps_def)
  qed
qed

lemma logged_tagged: "logged Q A (tagged f m w) = logged Q A (m w)"
  by (cases "m w"; cases "fst (m w)") (simp_all add: tagged_def)

lemma logs_tagged [logs_intros]: "logs Q m \<Longrightarrow> logs Q (tagged f m)"
  by (simp add: logs_def logged_tagged)

lemma audit_record_effect:
  assumes "audit_record R ins a act rt rid org c d now b s = (r, s')"
  shows "case r of
      Inl e \<Rightarrow> s_working s' = s_committed s \<and> s_committed s' = s_committed s
    | Inr ev \<Rightarrow> event_of a now org act ev \<and> ae_resource_id ev = rid \<and> s_working s' = put_audit ev (s_working s)
        \<and> s_committed s' = (if b then put_audit ev (s_working s) else s_committed s)"
  using assms
  by (auto simp: audit_record_def add_row_def Let_def event_of_def rollback_def commit_def split: sum.splits)

lemma audited_eq:
  "audited E a now i b act rt rid d k (s, fs) =
     (case audit_record (env_runtime E) (env_audit_insert E) a act rt rid (Some i) None (Some d) now b s of
        (Inl e, s1) \<Rightarrow> (Inl (Raised e), s1, fs) | (Inr ev, s1) \<Rightarrow> k (s1, fs))"
  by (simp add: audited_def calls_def on_session_def split: prod.splits sum.splits)

lemma logs_audited [logs_intros]: "logs (event_of a now (Some i) act) (audited E a now i True act rt rid d (answers v))"
  unfolding logs_def
proof (intro allI impI)
  fix A :: "audit_event list" and w :: world assume w: "trail A (fst w)"
  obtain r s1 where op: "audit_record (env_runtime E) (env_audit_insert E) a act rt rid (Some i) None (Some d) now True (fst w) = (r, s1)"
    by (metis surj_pair)
  have "audited E a now i True act rt rid d (answers v) w = (case r of Inl e \<Rightarrow> (Inl (Raised e), s1, snd w) | Inr ev \<Rightarrow> (Inr v, s1, snd w))"
    using audited_eq [of E a now i True act rt rid d "answers v" "fst w" "snd w"] by (simp add: op answers_def split: sum.splits)
  with audit_record_effect [OF op] w show "logged (event_of a now (Some i) act) A (audited E a now i True act rt rid d (answers v) w)"
    by (cases r) (auto simp: keeps_def put_audit_def)
qed

lemma logs_pending [logs_intros]:
  assumes "\<And>ev. settles ev k"
  shows "logs (event_of a now (Some i) act) (audited E a now i False act rt rid d k)"
  unfolding logs_def
proof (intro allI impI)
  fix A :: "audit_event list" and w :: world assume w: "trail A (fst w)"
  obtain r s1 where op: "audit_record (env_runtime E) (env_audit_insert E) a act rt rid (Some i) None (Some d) now False (fst w) = (r, s1)"
    by (metis surj_pair)
  have eq: "audited E a now i False act rt rid d k w = (case r of Inl e \<Rightarrow> (Inl (Raised e), s1, snd w) | Inr ev \<Rightarrow> k (s1, snd w))"
    using audited_eq [of E a now i False act rt rid d k "fst w" "snd w"] by (simp add: op split: sum.splits)
  show "logged (event_of a now (Some i) act) A (audited E a now i False act rt rid d k w)"
  proof (cases r)
    case (Inl e)
    with eq audit_record_effect [OF op] w show ?thesis by (simp add: keeps_def)
  next
    case (Inr ev)
    with audit_record_effect [OF op] w have ev: "event_of a now (Some i) act ev"
      and "db_audit_events (s_working s1) = A @ [ev]" "db_audit_events (s_committed s1) = A"
      by (simp_all add: keeps_def put_audit_def)
    with assms [of ev] have "logged (\<lambda>e. e = ev) A (k (s1, snd w))" unfolding settles_def by auto
    from logged_mono [of ev A "k (s1, snd w)" "event_of a now (Some i) act"] this ev eq Inr show ?thesis by simp
  qed
qed

lemma settles_commits [logs_intros]: "settles ev (commits (answers v))"
  by (simp add: settles_def commits_def calls_def no_raise_def on_session_def answers_def keeps_def split_beta)

lemma settles_needs [logs_intros]: "(\<And>v. settles ev (k v)) \<Longrightarrow> settles ev (needs r k)"
  by (cases r) (simp_all add: settles_def needs_def)

lemma settles_reads [logs_intros]: "(\<And>v. settles ev (k v)) \<Longrightarrow> settles ev (reads f k)"
  using settles_needs by (fastforce simp: settles_def reads_def split: prod.split)

section \<open>Requests\<close>

lemma logs_records_lineage [logs_intros]: "logs Q k \<Longrightarrow> logs Q (records_lineage E now o' i config k)"
  unfolding records_lineage_def by (intro logs_intros frame_intros)

lemma logs_validation_records [logs_intros]:
  assumes "\<And>p. logs Q (k p)"
  shows "logs Q (validation_records E now o' q records k)"
  using assms unfolding validation_records_def preview_run_def
  by (auto intro!: logs_intros frame_intros split: option.split)

lemma changing_endpoint_logs:
  assumes "audit_action ep = Some act"
  shows "logs (event_of a now org act) (handle E now a org ep)"
  using assms
  by (cases ep) (auto simp: scoped_handlers preview_run_def split_beta intro!: logs_intros frame_intros)

definition event_key :: "audit_event \<Rightarrow> string \<times> uuid option \<times> uuid option \<times> int" where
  "event_key e = (ae_action e, ae_actor_id e, ae_organization_id e, ae_occurred_at e)"

lemma trail_new_session: "trail (committed_log w) (fst (new_session w))"
  by (simp add: keeps_def new_session_def split: prod.split)

lemma committed_close [simp]: "committed_log (close_session w) = committed_log w"
  by (simp add: close_session_def split: prod.split)

lemma dispatch_actor:
  assumes "get_actor (env_runtime E) (env_settings E) u = Inr a" and "\<not> public_endpoint ep"
  shows "dispatch E now u org ep w =
    (if request_ok ep then with_session (handle E now a org ep) w else (Inl (HttpError 422 PNone), new_session w))"
  using assms
  by (simp add: dispatch_def with_session_def needs_def lift_def close_session_def new_session_def rollback_def split: prod.split)

text \<open>
  C23: the audit log of a request: an answered request of a changing endpoint appends exactly one
  event, with the endpoint's action, the actor, the organization and the time; a request that
  fails, at whatever point, and a reading one append nothing.
\<close>

theorem audit_log_exact:
  assumes actor: "get_actor (env_runtime E) (env_settings E) u = Inr a"
  shows "\<exists>new. committed_log (snd (dispatch E now u org ep w)) = committed_log w @ new
    \<and> map event_key new = (case fst (dispatch E now u org ep w) of
         Inl _ \<Rightarrow> []
       | Inr _ \<Rightarrow> (case audit_action ep of None \<Rightarrow> [] | Some act \<Rightarrow> [(act, Some (actor_id a), org, now)]))"
proof (cases "audit_action ep")
  case None
  then have "snd (dispatch E now u org ep w) = new_session w"
    by (simp add: dispatch_def snd_with_session snd_needs reading_endpoint split: sum.split)
  with None show ?thesis by (simp add: new_session_def split: prod.split sum.split)
next
  case (Some act)
  then have np: "\<not> public_endpoint ep" by (auto simp: public_endpoint_def)
  obtain r w1 where h: "handle E now a org ep (new_session w) = (r, w1)" by (metis surj_pair)
  have "logged (event_of a now org act) (committed_log w) (handle E now a org ep (new_session w))"
    by (rule logsD [OF changing_endpoint_logs [OF Some] trail_new_session])
  with h Some show ?thesis
    unfolding dispatch_actor [OF actor np]
    by (cases r) (auto simp: with_session_def event_of_def event_key_def keeps_def new_session_def split: prod.splits)
qed

section \<open>Decisions and their events\<close>

lemma record_decision_pending:
  assumes "record_decision oid cid dec reason rv er now False s = (r, s')"
  shows "s_committed s' = s_committed s"
    and "r = Inr row \<Longrightarrow> db_match_decisions (s_working s') = db_match_decisions (s_working s) @ [row]"
  using assms
  by (auto simp: record_decision_def Let_def add_row_def put_decision_def advance_candidate_def split: if_splits sum.splits)

lemma rolled_back_cases:
  assumes "op s = (r, s1)"
  shows "rolled_back op s = (r, s1) \<or> (\<exists>e. r = Inl e) \<and> rolled_back op s = (r, rollback s1)"
  using assms by (auto simp: rolled_back_def split: sum.split exc.split)

text \<open>What a handler does after its operation left the commit to it: event, commit, answer.\<close>

lemma audited_commits:
  "audited E a now i b act rt rid d (commits (answers v)) (s, fs) =
     (case audit_record (env_runtime E) (env_audit_insert E) a act rt rid (Some i) None (Some d) now b s of
        (Inl e, s1) \<Rightarrow> (Inl (Raised e), s1, fs) | (Inr ev, s1) \<Rightarrow> (Inr v, commit s1, fs))"
  by (simp add: audited_eq commits_def calls_def no_raise_def on_session_def answers_def split: prod.splits sum.splits)

definition decision_published :: "api_env \<Rightarrow> database \<Rightarrow> database \<Rightarrow> api_response \<Rightarrow> bool" where
  "decision_published E db db' v = (\<exists>row ev. db_match_decisions db' = db_match_decisions db @ [row]
     \<and> db_audit_events db' = db_audit_events db @ [ev]
     \<and> ae_resource_id ev = rt_uuid_str (env_runtime E) (md_id row) \<and> v = DecisionR (decision_view row))"

lemma record_match_decision_atomic:
  assumes "s_working s = s_committed s" and "handle E now a org (RecordDecision i q) (s, fs) = (r, s', fs')"
  shows "case r of Inl e \<Rightarrow> s_committed s' = s_committed s | Inr v \<Rightarrow> decision_published E (s_committed s) (s_committed s') v"
proof (cases "refusal E a org ''matching:write''")
  case (Some e)
  with assms show ?thesis by (auto simp: tagged_def record_match_decision_def authorised_eq)
next
  case None
  let ?op = "record_decision (the org) i (mdq_decision q) (mdq_reason q) (actor_id a) (mdq_expected_revision q) now False"
  obtain r0 s0 where op: "?op s = (r0, s0)" by (metis surj_pair)
  note pending = record_decision_pending [OF op] and rb = rolled_back_cases [of ?op s, OF op]
  show ?thesis
  proof (cases r0)
    case (Inl e)
    with rb obtain s1 where "rolled_back ?op s = (Inl e, s1)" "s_committed s1 = s_committed s"
      using pending(1) by auto
    with assms(2) None show ?thesis
      by (auto simp: tagged_def record_match_decision_def authorised_eq calls_def on_session_def)
  next
    case (Inr row)
    with rb have rb: "rolled_back ?op s = (Inr row, s0)" by auto
    obtain ra s1 where ra: "audit_record (env_runtime E) (env_audit_insert E) a ''matching.decision.recorded'' ''match_decision''
        (uuid_text E (md_id row)) (Some (the org)) None
        (Some [(''candidate_id'', PStr (uuid_text E i)), (''decision'', PStr (md_decision row)), (''revision'', PInt (md_revision row)),
          (''supersedes_decision_id'', opt_val (map_option (uuid_text E) (md_supersedes_decision_id row)))]) now False s0 = (ra, s1)" by (metis surj_pair)
    have "db_match_decisions (put_audit ev db) = db_match_decisions db" "db_audit_events (put_audit ev db) = db_audit_events db @ [ev]" for ev db
      by (simp_all add: put_audit_def)
    moreover have "db_audit_events (s_working s0) = db_audit_events (s_working s)"
      using op Inr by (auto simp: record_decision_def Let_def add_row_def split: if_splits sum.splits)
    ultimately show ?thesis
      using assms None rb ra pending(1) pending(2) [OF Inr] audit_record_effect [OF ra]
      by (cases ra) (auto simp: tagged_def record_match_decision_def authorised_eq calls_def on_session_def audited_commits
          decision_published_def)
  qed
qed

text \<open>
  C25: a review decision and its audit event are published together: an answered request adds
  exactly one decision and one event about it to the committed database; a refused or
  failed one, one whose audit event the database does not take included, leaves the committed database untouched.
\<close>

theorem decision_request_atomic:
  "case fst (dispatch E now u org (RecordDecision i q) w) of
     Inl e \<Rightarrow> s_committed (fst (snd (dispatch E now u org (RecordDecision i q) w))) = s_committed (fst w)
   | Inr v \<Rightarrow> decision_published E (s_committed (fst w)) (s_committed (fst (snd (dispatch E now u org (RecordDecision i q) w)))) v"
proof -
  obtain s fs where w: "w = (s, fs)" by (cases w)
  have np: "\<not> public_endpoint (RecordDecision i q)" by (simp add: public_endpoint_def)
  show ?thesis
  proof (cases "get_actor (env_runtime E) (env_settings E) u")
    case (Inl e)
    then show ?thesis
      by (simp add: w dispatch_def np needs_def lift_def with_session_def new_session_def close_session_def)
  next
    case (Inr a)
    obtain r s1 fs1 where h: "handle E now a org (RecordDecision i q) (rollback s, fs) = (r, s1, fs1)" by (metis surj_pair)
    have "s_working (rollback s) = s_committed (rollback s)" by simp
    from record_match_decision_atomic [OF this h] h show ?thesis
      unfolding dispatch_actor [OF Inr np]
      by (cases r) (auto simp: w with_session_def new_session_def close_session_def)
  qed
qed

section \<open>A recorded decision\<close>

abbreviation demo_decision_reply :: "(api_error + api_response) \<times> world" where
  "demo_decision_reply \<equiv> dispatch demo_env 100 (Some ''demo-admin'') (Some 1) (RecordDecision 7 demo_decision) (demo_desk, Map.empty)"

lemma demo_admin_known: "\<exists>a. get_actor (env_runtime demo_env) (env_settings demo_env) (Some ''demo-admin'') = Inr a
    \<and> actor_organization_ids a = [''*''] \<and> ''matching:write'' \<in> set (actor_permissions a)"
  by (simp add: demo_env_def get_actor_def demo_authenticate_def demo_settings_def named_def or_empty_def
      demo_admin_permissions_def Let_def)

lemma demo_events_taken: "env_audit_insert demo_env ev = Inr ()"
  by (simp add: demo_env_def)

lemma demo_desk_decides: "\<not> isl (fst (record_decision 1 7 ''match'' ''seen'' aid 0 100 False (rollback demo_desk)))"
  by (simp add: record_decision_def match_decisions_allowed_def scoped_candidate_def row_by_def demo_desk_def rollback_def
      demo_candidate_def strip_def is_space_def decision_insertable_def decisions_of_def latest_decision_def advance_candidate_def
      empty_db_def fresh_session_def add_row_def Let_def)

theorem audit_log_exact_witness:
  "\<exists>a new. get_actor (env_runtime demo_env) (env_settings demo_env) (Some ''demo-admin'') = Inr a
     \<and> committed_log (snd demo_decision_reply) = committed_log (demo_desk, Map.empty) @ new
     \<and> map event_key new = [(''matching.decision.recorded'', Some (actor_id a), Some 1, 100)]"
proof -
  obtain a where a: "get_actor (env_runtime demo_env) (env_settings demo_env) (Some ''demo-admin'') = Inr a"
    and r: "actor_organization_ids a = [''*'']" "''matching:write'' \<in> set (actor_permissions a)" using demo_admin_known by blast
  obtain row s1 where op: "record_decision 1 7 ''match'' ''seen'' (actor_id a) 0 100 False (rollback demo_desk) = (Inr row, s1)"
    using returned_pair [OF demo_desk_decides] by blast
  then have "rolled_back (record_decision 1 7 ''match'' ''seen'' (actor_id a) 0 100 False) (rollback demo_desk) = (Inr row, s1)"
    by (simp add: rolled_back_def)
  moreover have "refusal demo_env a (Some 1) ''matching:write'' = None"
    using r by (simp add: refusal_def may_access_def)
  ultimately have "fst demo_decision_reply = Inr (DecisionR (decision_view row))"
    by (subst dispatch_actor [OF a])
      (simp_all add: public_endpoint_def demo_decision_def match_decision_request_ok_def with_session_def new_session_def
        tagged_def record_match_decision_def authorised_eq calls_def on_session_def audited_commits
        audit_record_def demo_events_taken add_row_def Let_def)
  with audit_log_exact [OF a, of 100 "Some 1" "RecordDecision 7 demo_decision" "(demo_desk, Map.empty)"] a
  show ?thesis by auto
qed

end
