(* ===== verification/Schema_Ops.thy ===== *)
theory Schema_Ops
  imports Prelude
begin

text \<open>
  A catalogue of tables and the schema operations the migrations use (Alembic's \<^verbatim>\<open>op\<close> object
  on PostgreSQL and SQLite). An operation answers the new catalogue or the error the database
  raises: a table, column or constraint that is there already or is missing, a constraint
  over unknown columns, a foreign key whose target is no key, a table or column that is still
  referenced.
\<close>

section \<open>Tables\<close>

datatype sql_type = SString nat | SText | SUuid | SInteger | SBoolean | SDateTime | SDate | SJSON | SNumeric nat nat

record sql_column =
  c_name :: string
  c_type :: sql_type
  c_nullable :: bool
  c_default :: "string option"

datatype sql_constraint =
    PrimaryKey string "string list"
  | ForeignKey string "string list" string "string list"
  | Unique string "string list"
  | Check string string

record sql_index =
  i_name :: string
  i_columns :: "string list"
  i_unique :: bool

record sql_table =
  t_name :: string
  t_columns :: "sql_column list"
  t_constraints :: "sql_constraint list"
  t_indexes :: "sql_index list"

type_synonym catalog = "sql_table list"

datatype dialect = SQLite | PostgreSQL

definition col :: "string \<Rightarrow> sql_type \<Rightarrow> bool \<Rightarrow> sql_column" where
  "col n ty nullable = \<lparr>c_name = n, c_type = ty, c_nullable = nullable, c_default = None\<rparr>"

definition col_default :: "string \<Rightarrow> sql_type \<Rightarrow> string \<Rightarrow> sql_column" where
  "col_default n ty d = \<lparr>c_name = n, c_type = ty, c_nullable = False, c_default = Some d\<rparr>"

definition now_col :: "string \<Rightarrow> sql_column" where
  "now_col n = col_default n SDateTime ''now()''"

fun constraint_name :: "sql_constraint \<Rightarrow> string" where
  "constraint_name (PrimaryKey n cs) = n"
| "constraint_name (ForeignKey n cs t rs) = n"
| "constraint_name (Unique n cs) = n"
| "constraint_name (Check n e) = n"

text \<open>The columns a constraint names; the text of a check is not analysed.\<close>

fun constraint_columns :: "sql_constraint \<Rightarrow> string list" where
  "constraint_columns (PrimaryKey n cs) = cs"
| "constraint_columns (ForeignKey n cs t rs) = cs"
| "constraint_columns (Unique n cs) = cs"
| "constraint_columns (Check n e) = []"

definition column_names :: "sql_table \<Rightarrow> string list" where
  "column_names t = map c_name (t_columns t)"

fun keys_of :: "sql_constraint list \<Rightarrow> string list list" where
  "keys_of [] = []"
| "keys_of (PrimaryKey n cs # r) = cs # keys_of r"
| "keys_of (Unique n cs # r) = cs # keys_of r"
| "keys_of (c # r) = keys_of r"

definition index_names :: "catalog \<Rightarrow> string list" where
  "index_names cat = concat (map (\<lambda>t. map i_name (t_indexes t)) cat)"

definition find_table :: "catalog \<Rightarrow> string \<Rightarrow> sql_table option" where
  "find_table cat n = find (\<lambda>t. t_name t = n) cat"

section \<open>Well-formed constraints\<close>

text \<open>A foreign key may refer to its own table, which the catalogue does not hold yet.\<close>

definition reference_ok :: "catalog \<Rightarrow> sql_table \<Rightarrow> sql_constraint \<Rightarrow> bool" where
  "reference_ok cat t c = (case c of
       ForeignKey n cs target rs \<Rightarrow>
         length cs = length rs \<and>
         (if target = t_name t then rs \<in> set (keys_of (t_constraints t))
          else case find_table cat target of None \<Rightarrow> False | Some r \<Rightarrow> rs \<in> set (keys_of (t_constraints r)))
     | _ \<Rightarrow> True)"

definition constraint_ok :: "catalog \<Rightarrow> sql_table \<Rightarrow> sql_constraint \<Rightarrow> bool" where
  "constraint_ok cat t c =
     (list_all (\<lambda>n. n \<in> set (column_names t)) (constraint_columns c) \<and> reference_ok cat t c)"

definition table_ok :: "catalog \<Rightarrow> sql_table \<Rightarrow> bool" where
  "table_ok cat t = (distinct (column_names t) \<and> distinct (map constraint_name (t_constraints t))
     \<and> list_all (constraint_ok cat t) (t_constraints t))"

section \<open>Operations\<close>

datatype ddl =
    CreateTable string "sql_column list" "sql_constraint list"
  | CreateIndex string string "string list" bool
  | AddColumn string sql_column
  | AddConstraint string sql_constraint
  | SetDefault string string "string option"
  | DropConstraint string string
  | DropIndex string string
  | DropColumn string string
  | DropTable string

definition sql_error :: "string \<Rightarrow> 'a res" where
  "sql_error n = Inl (RuntimeError n)"

definition put_table :: "string \<Rightarrow> sql_table \<Rightarrow> catalog \<Rightarrow> catalog" where
  "put_table n t cat = map (\<lambda>x. if t_name x = n then t else x) cat"

definition on_table :: "string \<Rightarrow> (sql_table \<Rightarrow> sql_table res) \<Rightarrow> catalog \<Rightarrow> catalog res" where
  "on_table n f cat = (case find_table cat n of
       None \<Rightarrow> sql_error ''UndefinedTable''
     | Some t \<Rightarrow> (case f t of Inl e \<Rightarrow> Inl e | Inr t' \<Rightarrow> Inr (put_table n t' cat)))"

text \<open>Whether another table's foreign key still refers to a table, or to columns of it.\<close>

fun refers_to :: "string \<Rightarrow> string option \<Rightarrow> sql_constraint \<Rightarrow> bool" where
  "refers_to target column (ForeignKey n cs t rs) =
     (t = target \<and> (case column of None \<Rightarrow> True | Some c \<Rightarrow> c \<in> set rs))"
| "refers_to target column c = False"

definition referenced :: "catalog \<Rightarrow> string \<Rightarrow> string option \<Rightarrow> bool" where
  "referenced cat n column = list_ex (\<lambda>t. t_name t \<noteq> n \<and> list_ex (refers_to n column) (t_constraints t)) cat"

fun apply_ddl :: "dialect \<Rightarrow> ddl \<Rightarrow> catalog \<Rightarrow> catalog res" where
  "apply_ddl d (CreateTable n cs ks) cat =
     (let t = \<lparr>t_name = n, t_columns = cs, t_constraints = ks, t_indexes = []\<rparr> in
      if find_table cat n \<noteq> None then sql_error ''DuplicateTable''
      else if \<not> table_ok cat t then sql_error ''InvalidTableDefinition''
      else Inr (cat @ [t]))"
| "apply_ddl d (CreateIndex i n cs u) cat =
     (if i \<in> set (index_names cat) then sql_error ''DuplicateTable''
      else on_table n (\<lambda>t.
        if \<not> list_all (\<lambda>c. c \<in> set (column_names t)) cs then sql_error ''UndefinedColumn''
        else Inr (t\<lparr>t_indexes := t_indexes t @ [\<lparr>i_name = i, i_columns = cs, i_unique = u\<rparr>]\<rparr>)) cat)"
| "apply_ddl d (AddColumn n c) cat = on_table n (\<lambda>t.
      if c_name c \<in> set (column_names t) then sql_error ''DuplicateColumn''
      else Inr (t\<lparr>t_columns := t_columns t @ [c]\<rparr>)) cat"
| "apply_ddl d (AddConstraint n k) cat = on_table n (\<lambda>t.
      if constraint_name k \<in> set (map constraint_name (t_constraints t)) then sql_error ''DuplicateObject''
      else if \<not> constraint_ok cat t k then sql_error ''InvalidConstraint''
      else Inr (t\<lparr>t_constraints := t_constraints t @ [k]\<rparr>)) cat"
| "apply_ddl d (SetDefault n c v) cat = on_table n (\<lambda>t.
      if c \<notin> set (column_names t) then sql_error ''UndefinedColumn''
      else Inr (t\<lparr>t_columns := map (\<lambda>x. if c_name x = c then x\<lparr>c_default := v\<rparr> else x) (t_columns t)\<rparr>)) cat"
| "apply_ddl d (DropConstraint k n) cat = on_table n (\<lambda>t.
      if k \<notin> set (map constraint_name (t_constraints t)) then sql_error ''UndefinedObject''
      else Inr (t\<lparr>t_constraints := filter (\<lambda>c. constraint_name c \<noteq> k) (t_constraints t)\<rparr>)) cat"
| "apply_ddl d (DropIndex i n) cat = on_table n (\<lambda>t.
      if \<not> list_ex (\<lambda>x. i_name x = i) (t_indexes t) then sql_error ''UndefinedObject''
      else Inr (t\<lparr>t_indexes := filter (\<lambda>x. i_name x \<noteq> i) (t_indexes t)\<rparr>)) cat"
| "apply_ddl d (DropColumn n c) cat =
     (if referenced cat n (Some c) then sql_error ''DependentObjectsStillExist''
      else on_table n (\<lambda>t.
        if c \<notin> set (column_names t) then sql_error ''UndefinedColumn''
        else Inr (t\<lparr>t_columns := filter (\<lambda>x. c_name x \<noteq> c) (t_columns t),
              t_constraints := filter (\<lambda>k. c \<notin> set (constraint_columns k)) (t_constraints t),
              t_indexes := filter (\<lambda>x. c \<notin> set (i_columns x)) (t_indexes t)\<rparr>)) cat)"
| "apply_ddl d (DropTable n) cat =
     (if find_table cat n = None then sql_error ''UndefinedTable''
      else if d = PostgreSQL \<and> referenced cat n None then sql_error ''DependentObjectsStillExist''
      else Inr (filter (\<lambda>t. t_name t \<noteq> n) cat))"

definition run_ddl :: "dialect \<Rightarrow> ddl list \<Rightarrow> catalog \<Rightarrow> catalog res" where
  "run_ddl d ops cat = res_fold (apply_ddl d) ops cat"

text \<open>What the inspector of the database reports.\<close>

definition table_names :: "catalog \<Rightarrow> string list" where
  "table_names cat = map t_name cat"

definition get_columns :: "catalog \<Rightarrow> string \<Rightarrow> string list" where
  "get_columns cat n = (case find_table cat n of None \<Rightarrow> [] | Some t \<Rightarrow> column_names t)"

fun is_foreign_key :: "sql_constraint \<Rightarrow> bool" where
  "is_foreign_key (ForeignKey n cs t rs) = True"
| "is_foreign_key c = False"

fun is_unique :: "sql_constraint \<Rightarrow> bool" where
  "is_unique (Unique n cs) = True"
| "is_unique c = False"

definition constraint_names :: "(sql_constraint \<Rightarrow> bool) \<Rightarrow> catalog \<Rightarrow> string \<Rightarrow> string list" where
  "constraint_names P cat n = (case find_table cat n of None \<Rightarrow> []
     | Some t \<Rightarrow> map constraint_name (filter P (t_constraints t)))"

text \<open>Two tables with the same content: the order of columns, constraints and indexes is not compared.\<close>

definition same_table :: "sql_table \<Rightarrow> sql_table \<Rightarrow> bool" where
  "same_table t u = (t_name t = t_name u \<and> set (t_columns t) = set (t_columns u)
     \<and> set (t_constraints t) = set (t_constraints u) \<and> set (t_indexes t) = set (t_indexes u))"

definition same_catalog :: "catalog \<Rightarrow> catalog \<Rightarrow> bool" where
  "same_catalog a b = (list_all (\<lambda>t. case find_table b (t_name t) of None \<Rightarrow> False | Some u \<Rightarrow> same_table t u) a
     \<and> list_all (\<lambda>t. find_table a (t_name t) \<noteq> None) b)"

section \<open>Lemmas: finding and replacing tables\<close>

lemma find_table_Some: "find_table cat n = Some t \<Longrightarrow> t \<in> set cat \<and> t_name t = n"
  by (auto simp: find_table_def find_Some_iff)

lemma find_table_None: "find_table cat n = None \<longleftrightarrow> n \<notin> set (table_names cat)"
  by (auto simp: find_table_def find_None_iff table_names_def)

lemma find_table_append: "find_table (a @ b) n = (case find_table a n of None \<Rightarrow> find_table b n | Some t \<Rightarrow> Some t)"
  by (induction a) (simp_all add: find_table_def)

lemma find_table_simps [simp]:
  "find_table [] n = None"
  "find_table (t # cat) n = (if t_name t = n then Some t else find_table cat n)"
  by (simp_all add: find_table_def)

lemma find_table_unique: "distinct (table_names cat) \<Longrightarrow> t \<in> set cat \<Longrightarrow> find_table cat (t_name t) = Some t"
  by (induction cat) (auto simp: table_names_def)

lemma table_names_put [simp]: "t_name t = n \<Longrightarrow> table_names (put_table n t cat) = table_names cat"
  by (induction cat) (auto simp: table_names_def put_table_def)

lemma find_table_put [simp]:
  "t_name t = n \<Longrightarrow> find_table (put_table n t cat) m =
     (if m = n then map_option (\<lambda>x. t) (find_table cat n) else find_table cat m)"
  by (induction cat) (auto simp: put_table_def)

lemma index_names_put:
  "set (index_names (put_table n t cat)) \<subseteq> set (index_names cat) \<union> i_name ` set (t_indexes t)"
  by (auto simp: index_names_def put_table_def split: if_splits)

section \<open>Lemmas: creating tables in order\<close>

text \<open>
  A table is made by one \<^verbatim>\<open>create_table\<close> and one \<^verbatim>\<open>create_index\<close> for each of its indexes. In the
  catalogues of this program every foreign key refers to the column \<open>id\<close>, the primary key.
\<close>

definition create_ops :: "sql_table \<Rightarrow> ddl list" where
  "create_ops t = CreateTable (t_name t) (t_columns t) (t_constraints t)
     # map (\<lambda>i. CreateIndex (i_name i) (t_name t) (i_columns i) (i_unique i)) (t_indexes t)"

fun foreign_targets :: "sql_constraint list \<Rightarrow> string list" where
  "foreign_targets [] = []"
| "foreign_targets (ForeignKey n cs t rs # r) = t # foreign_targets r"
| "foreign_targets (c # r) = foreign_targets r"

fun to_id :: "sql_constraint \<Rightarrow> bool" where
  "to_id (ForeignKey n cs t rs) = (length cs = 1 \<and> rs = [''id''])"
| "to_id c = True"

definition has_id :: "sql_table \<Rightarrow> bool" where
  "has_id t = ([''id''] \<in> set (keys_of (t_constraints t)))"

definition sound_table :: "sql_table \<Rightarrow> bool" where
  "sound_table t = (has_id t \<and> distinct (column_names t) \<and> distinct (map constraint_name (t_constraints t))
     \<and> list_all to_id (t_constraints t)
     \<and> list_all (\<lambda>k. list_all (\<lambda>n. n \<in> set (column_names t)) (constraint_columns k)) (t_constraints t)
     \<and> list_all (\<lambda>i. list_all (\<lambda>n. n \<in> set (column_names t)) (i_columns i)) (t_indexes t))"

fun ordered_refs :: "string list \<Rightarrow> (string \<times> string list) list \<Rightarrow> bool" where
  "ordered_refs seen [] = True"
| "ordered_refs seen ((n, ts) # r) = (list_all (\<lambda>x. x = n \<or> x \<in> set seen) ts \<and> ordered_refs (n # seen) r)"

definition refs_of :: "sql_table \<Rightarrow> string \<times> string list" where
  "refs_of t = (t_name t, foreign_targets (t_constraints t))"

lemma run_ddl_simps [simp]:
  "run_ddl d [] cat = Inr cat"
  "run_ddl d (x # xs) cat = (case apply_ddl d x cat of Inl e \<Rightarrow> Inl e | Inr c \<Rightarrow> run_ddl d xs c)"
  by (simp_all add: run_ddl_def split: sum.splits)

lemma run_ddl_append:
  "run_ddl d (xs @ ys) cat = (case run_ddl d xs cat of Inl e \<Rightarrow> Inl e | Inr c \<Rightarrow> run_ddl d ys c)"
  by (simp add: run_ddl_def res_fold_append split: sum.splits)

lemma foreign_targets_mem: "ForeignKey n cs t rs \<in> set ks \<Longrightarrow> t \<in> set (foreign_targets ks)"
  by (induction ks rule: foreign_targets.induct) auto

lemma table_ok_indexes [simp]: "table_ok cat (t\<lparr>t_indexes := x\<rparr>) = table_ok cat t"
  by (simp add: table_ok_def constraint_ok_def [abs_def] reference_ok_def [abs_def] column_names_def
      cong: sql_constraint.case_cong)

lemma sound_table_ok:
  assumes "sound_table t" and "list_all has_id cat"
    and "list_all (\<lambda>x. x = t_name t \<or> x \<in> set (table_names cat)) (foreign_targets (t_constraints t))"
  shows "table_ok cat t"
proof -
  have "reference_ok cat t k" if k: "k \<in> set (t_constraints t)" for k
  proof (cases k)
    case (ForeignKey n cs target rs)
    with k assms(1) have r: "length cs = 1" "rs = [''id'']" and own: "rs \<in> set (keys_of (t_constraints t))"
      by (auto simp: sound_table_def list_all_iff has_id_def)
    from ForeignKey k assms(3) have "target = t_name t \<or> target \<in> set (table_names cat)"
      by (auto simp: list_all_iff dest: foreign_targets_mem)
    then consider "target = t_name t" | u where "find_table cat target = Some u" "target \<noteq> t_name t"
      using find_table_None by fastforce
    then show ?thesis
    proof cases
      case 2
      then have "has_id u" using assms(2) find_table_Some by (fastforce simp: list_all_iff)
      with 2 ForeignKey r show ?thesis by (simp add: reference_ok_def has_id_def)
    qed (use ForeignKey r own in \<open>simp add: reference_ok_def\<close>)
  qed (simp_all add: reference_ok_def)
  with assms(1) show ?thesis
    by (auto simp: table_ok_def sound_table_def constraint_ok_def list_all_iff)
qed

lemma index_names_snoc [simp]: "index_names (cat @ [t]) = index_names cat @ map i_name (t_indexes t)"
  by (simp add: index_names_def)

lemma put_last: "t_name t \<notin> set (table_names cat) \<Longrightarrow> t_name t' = t_name t \<Longrightarrow>
    put_table (t_name t) t' (cat @ [t]) = cat @ [t']"
  by (induction cat) (auto simp: put_table_def table_names_def)

lemma run_indexes:
  assumes "t_name t \<notin> set (table_names cat)" and "distinct (map i_name (t_indexes t @ is))"
    and "set (index_names cat) \<inter> i_name ` set is = {}"
    and "list_all (\<lambda>i. list_all (\<lambda>n. n \<in> set (column_names t)) (i_columns i)) is"
  shows "run_ddl d (map (\<lambda>i. CreateIndex (i_name i) (t_name t) (i_columns i) (i_unique i)) is) (cat @ [t])
    = Inr (cat @ [t\<lparr>t_indexes := t_indexes t @ is\<rparr>])"
  using assms
proof (induction "is" arbitrary: t)
  case (Cons i "is")
  let ?t = "t\<lparr>t_indexes := t_indexes t @ [i]\<rparr>"
  have f: "find_table (cat @ [t]) (t_name t) = Some t"
    using Cons.prems(1) by (auto simp: find_table_append find_table_None [THEN iffD2])
  have p: "put_table (t_name t) ?t (cat @ [t]) = cat @ [?t]" using Cons.prems(1) by (simp add: put_last)
  have a: "apply_ddl d (CreateIndex (i_name i) (t_name t) (i_columns i) (i_unique i)) (cat @ [t]) = Inr (cat @ [?t])"
    using Cons.prems f p by (cases i) (auto simp: on_table_def)
  have "run_ddl d (map (\<lambda>i. CreateIndex (i_name i) (t_name ?t) (i_columns i) (i_unique i)) is) (cat @ [?t])
      = Inr (cat @ [?t\<lparr>t_indexes := t_indexes ?t @ is\<rparr>])"
    using Cons.prems by (intro Cons.IH) (simp_all add: column_names_def)
  with a show ?case by simp
qed simp

lemma run_create_ops:
  assumes "t_name t \<notin> set (table_names cat)" and "table_ok cat t"
    and "distinct (map i_name (t_indexes t))" and "set (index_names cat) \<inter> i_name ` set (t_indexes t) = {}"
    and "list_all (\<lambda>i. list_all (\<lambda>n. n \<in> set (column_names t)) (i_columns i)) (t_indexes t)"
  shows "run_ddl d (create_ops t) cat = Inr (cat @ [t])"
proof -
  let ?t = "t\<lparr>t_indexes := []\<rparr>"
  have e: "?t = \<lparr>t_name = t_name t, t_columns = t_columns t, t_constraints = t_constraints t, t_indexes = []\<rparr>" by simp
  have "apply_ddl d (CreateTable (t_name t) (t_columns t) (t_constraints t)) cat = Inr (cat @ [?t])"
    using assms(1,2) unfolding apply_ddl.simps Let_def e [symmetric] by (simp add: find_table_None [THEN iffD2])
  moreover have "run_ddl d (map (\<lambda>i. CreateIndex (i_name i) (t_name ?t) (i_columns i) (i_unique i)) (t_indexes t)) (cat @ [?t])
      = Inr (cat @ [?t\<lparr>t_indexes := t_indexes ?t @ t_indexes t\<rparr>])"
    using assms by (intro run_indexes) (simp_all add: column_names_def)
  ultimately show ?thesis by (simp add: create_ops_def)
qed

text \<open>A list of sound tables that refer only to themselves and to earlier ones is created whatever was there before.\<close>

lemma run_create_all:
  assumes "list_all sound_table ts" and "ordered_refs (rev (table_names cat)) (map refs_of ts)"
    and "distinct (table_names (cat @ ts))" and "distinct (index_names (cat @ ts))" and "list_all has_id cat"
  shows "run_ddl d (concat (map create_ops ts)) cat = Inr (cat @ ts)"
  using assms
proof (induction ts arbitrary: cat)
  case (Cons t ts)
  have ok: "table_ok cat t" using Cons.prems by (intro sound_table_ok) (auto simp: refs_of_def)
  have "run_ddl d (create_ops t) cat = Inr (cat @ [t])"
  proof (rule run_create_ops)
    have "index_names (cat @ t # ts) = (index_names cat @ map i_name (t_indexes t)) @ index_names ts"
      by (simp add: index_names_def)
    with Cons.prems(4) show "distinct (map i_name (t_indexes t))"
      and "set (index_names cat) \<inter> i_name ` set (t_indexes t) = {}"
      by (simp_all only: distinct_append set_append set_map [symmetric])
  qed (use Cons.prems ok in \<open>auto simp: table_names_def sound_table_def\<close>)
  moreover have "run_ddl d (concat (map create_ops ts)) (cat @ [t]) = Inr ((cat @ [t]) @ ts)"
    using Cons.prems by (intro Cons.IH) (auto simp: table_names_def sound_table_def refs_of_def)
  ultimately show ?case by (simp add: run_ddl_append)
qed simp

section \<open>Lemmas: dropping tables in order\<close>

text \<open>\<open>drops_before ns cat\<close>: no table refers to one that \<open>ns\<close> lists before it, other than itself.\<close>

fun drops_before :: "'a list \<Rightarrow> ('a \<times> 'a list) list \<Rightarrow> bool" where
  "drops_before [] refs = True"
| "drops_before (n # ns) refs = (list_all (\<lambda>(m, ts). m = n \<or> n \<notin> set ts) refs
     \<and> drops_before ns (filter (\<lambda>(m, ts). m \<noteq> n) refs))"

lemma referenced_refs: "referenced cat n None \<longleftrightarrow> \<not> list_all (\<lambda>(m, ts). m = n \<or> n \<notin> set ts) (map refs_of cat)"
proof -
  have "list_ex (refers_to n None) ks \<longleftrightarrow> n \<in> set (foreign_targets ks)" for ks
    by (induction ks rule: foreign_targets.induct) auto
  then show ?thesis by (auto simp: referenced_def list_ex_iff list_all_iff refs_of_def)
qed

lemma refs_filter: "map refs_of (filter (\<lambda>t. t_name t \<noteq> n) cat) = filter (\<lambda>(m, ts). m \<noteq> n) (map refs_of cat)"
  by (induction cat) (auto simp: refs_of_def)

lemma run_drops:
  assumes "drops_before ns (map refs_of cat)" and "set ns \<subseteq> set (table_names cat)" and "distinct ns"
  shows "run_ddl d (map DropTable ns) cat = Inr (filter (\<lambda>t. t_name t \<notin> set ns) cat)"
  using assms
proof (induction ns arbitrary: cat)
  case (Cons n ns)
  let ?c = "filter (\<lambda>t. t_name t \<noteq> n) cat"
  have "apply_ddl d (DropTable n) cat = Inr ?c"
    using Cons.prems by (auto simp: find_table_None referenced_refs)
  moreover have "run_ddl d (map DropTable ns) ?c = Inr (filter (\<lambda>t. t_name t \<notin> set ns) ?c)"
  proof (rule Cons.IH)
    show "drops_before ns (map refs_of ?c)" using Cons.prems(1) by (simp add: refs_filter)
    show "set ns \<subseteq> set (table_names ?c)" using Cons.prems(2,3) by (force simp: table_names_def)
  qed (use Cons.prems(3) in simp)
  ultimately show ?case by (simp add: conj_commute)
qed simp

text \<open>Fewer tables and fewer references, and tables that are gone left out of the order.\<close>

lemma drops_before_mono:
  assumes "drops_before ns refs"
    and "\<And>m ts'. (m, ts') \<in> set refs' \<Longrightarrow> \<exists>ts. (m, ts) \<in> set refs \<and> set ts' \<subseteq> set ts"
    and "\<And>n. n \<in> set ns \<Longrightarrow> \<not> P n \<Longrightarrow> n \<notin> fst ` set refs'"
  shows "drops_before (filter P ns) refs'"
  using assms
proof (induction ns arbitrary: refs refs')
  case (Cons n ns)
  have sub: "\<exists>ts. (m, ts) \<in> set (filter (\<lambda>(m, ts). m \<noteq> n) refs) \<and> set ts' \<subseteq> set ts"
    if "(m, ts') \<in> set (filter (\<lambda>(m, ts). m \<noteq> n) refs')" for m ts'
    using that Cons.prems(2) by fastforce
  have rest: "drops_before (filter P ns) (filter (\<lambda>(m, ts). m \<noteq> n) refs')"
  proof (rule Cons.IH [OF _ sub])
    show "k \<notin> fst ` set (filter (\<lambda>(m, ts). m \<noteq> n) refs')" if "k \<in> set ns" "\<not> P k" for k
      using Cons.prems(3) [of k] that by auto
  qed (use Cons.prems(1) in simp)
  show ?case
  proof (cases "P n")
    case True
    have "m = n \<or> n \<notin> set ts'" if "(m, ts') \<in> set refs'" for m ts'
      using Cons.prems(1) Cons.prems(2) [OF that] by (fastforce simp: list_all_iff)
    with rest True show ?thesis by (auto simp: list_all_iff)
  next
    case False
    with Cons.prems(3) have "n \<notin> fst ` set refs'" by simp
    then have "filter (\<lambda>(m, ts). m \<noteq> n) refs' = refs'" by (force simp: filter_id_conv)
    with rest False show ?thesis by simp
  qed
qed simp

text \<open>The check may be made on numbers that stand for the names.\<close>

lemma drops_before_inj:
  assumes "drops_before (map f ns) (map (map_prod f (map f)) refs)" and "inj_on f (set ns \<union> fst ` set refs)"
  shows "drops_before ns refs"
  using assms
proof (induction ns arbitrary: refs)
  case (Cons n ns)
  have eq: "f m = f n \<longleftrightarrow> m = n" if "(m, ts) \<in> set refs" for m ts
    using inj_on_eq_iff [OF Cons.prems(2), of m n] that by (force intro: rev_image_eqI)
  have "filter (\<lambda>(m, ts). m \<noteq> f n) (map (map_prod f (map f)) refs)
      = map (map_prod f (map f)) (filter (\<lambda>(m, ts). m \<noteq> n) refs)"
    unfolding filter_map o_def using eq by (auto intro!: arg_cong [where f = "map _"] filter_cong)
  moreover have "inj_on f (set ns \<union> fst ` set (filter (\<lambda>(m, ts). m \<noteq> n) refs))"
    by (rule inj_on_subset [OF Cons.prems(2)]) auto
  ultimately have "drops_before ns (filter (\<lambda>(m, ts). m \<noteq> n) refs)"
    using Cons.prems(1) by (intro Cons.IH) simp_all
  moreover have "list_all (\<lambda>(m, ts). m = n \<or> n \<notin> set ts) refs"
    using Cons.prems(1) eq by (fastforce simp: list_all_iff)
  ultimately show ?case by simp
qed simp

end
