(* ===== verification/Baseline_Schema.thy ===== *)
theory Baseline_Schema
  imports Schema_Ops
begin

text \<open>
  The frozen baseline \<^verbatim>\<open>migrations/versions/20260719_0001_phase2_baseline.py\<close>: for each of its
  tables the \<^verbatim>\<open>op.create_table\<close> and \<^verbatim>\<open>op.create_index\<close> calls, in the order of the file.
\<close>

definition base_organizations :: "ddl list" where
  "base_organizations = [
     CreateTable ''organizations''
       [col ''name'' (SString 255) False, col ''organization_type'' (SString 50) False,
        col ''status'' (SString 30) False, col ''parent_organization_id'' SUuid True,
        col ''metadata_json'' SJSON False, col ''id'' SUuid False, now_col ''created_at'', now_col ''updated_at'']
       [ForeignKey ''fk_organizations_parent_organization_id_organizations'' [''parent_organization_id''] ''organizations'' [''id''],
        PrimaryKey ''pk_organizations'' [''id'']],
     CreateIndex ''ix_organizations_parent_organization_id'' ''organizations'' [''parent_organization_id''] False]"

definition base_permissions :: "ddl list" where
  "base_permissions = [
     CreateTable ''permissions''
       [col ''permission_key'' (SString 150) False, col ''description'' (SString 1000) False, col ''id'' SUuid False,
        now_col ''created_at'', now_col ''updated_at'']
       [PrimaryKey ''pk_permissions'' [''id''], Unique ''uq_permissions_permission_key'' [''permission_key'']]]"

definition base_roles :: "ddl list" where
  "base_roles = [
     CreateTable ''roles''
       [col ''role_key'' (SString 100) False, col ''name'' (SString 255) False,
        col ''description'' (SString 1000) True, col ''id'' SUuid False, now_col ''created_at'', now_col ''updated_at'']
       [PrimaryKey ''pk_roles'' [''id''], Unique ''uq_roles_role_key'' [''role_key'']]]"

definition base_users :: "ddl list" where
  "base_users = [
     CreateTable ''users''
       [col ''subject'' (SString 500) False, col ''email'' (SString 320) True, col ''display_name'' (SString 255) True,
        col ''active'' SBoolean False, col ''id'' SUuid False, now_col ''created_at'', now_col ''updated_at'']
       [PrimaryKey ''pk_users'' [''id''], Unique ''uq_users_subject'' [''subject'']]]"

definition base_assessment_definitions :: "ddl list" where
  "base_assessment_definitions = [
     CreateTable ''assessment_definitions''
       [col ''organization_id'' SUuid False, col ''external_key'' (SString 255) False,
        col ''name'' (SString 255) False, col ''maximum_score'' (SNumeric 12 4) True,
        col ''passing_score'' (SNumeric 12 4) True, col ''id'' SUuid False, now_col ''created_at'',
        now_col ''updated_at'']
       [ForeignKey ''fk_assessment_definitions_organization_id_organizations'' [''organization_id''] ''organizations'' [''id''],
        PrimaryKey ''pk_assessment_definitions'' [''id'']],
     CreateIndex ''ix_assessment_definitions_organization_id'' ''assessment_definitions'' [''organization_id''] False]"

definition base_asset_runs :: "ddl list" where
  "base_asset_runs = [
     CreateTable ''asset_runs''
       [col ''organization_id'' SUuid False, col ''orchestration_key'' (SString 255) False,
        col ''asset_key'' (SString 255) False, col ''partition_key'' (SString 255) True,
        col ''status'' (SString 30) False, col ''attempt_number'' SInteger False, col ''watermark_json'' SJSON False,
        col ''change_hash'' (SString 64) True, col ''backfill_of_run_id'' SUuid True,
        col ''started_at'' SDateTime False, col ''ended_at'' SDateTime True, col ''failure_code'' (SString 100) True,
        col ''metadata_json'' SJSON False, col ''id'' SUuid False, now_col ''created_at'', now_col ''updated_at'']
       [ForeignKey ''fk_asset_runs_backfill_of_run_id_asset_runs'' [''backfill_of_run_id''] ''asset_runs'' [''id''],
        ForeignKey ''fk_asset_runs_organization_id_organizations'' [''organization_id''] ''organizations'' [''id''],
        PrimaryKey ''pk_asset_runs'' [''id'']],
     CreateIndex ''ix_asset_runs_asset_key'' ''asset_runs'' [''asset_key''] False,
     CreateIndex ''ix_asset_runs_organization_id'' ''asset_runs'' [''organization_id''] False]"

definition base_audit_events :: "ddl list" where
  "base_audit_events = [
     CreateTable ''audit_events''
       [col ''occurred_at'' SDateTime False, col ''organization_id'' SUuid True, col ''actor_id'' SUuid True,
        col ''action'' (SString 100) False, col ''resource_type'' (SString 100) False,
        col ''resource_id'' (SString 255) False, col ''correlation_id'' (SString 100) True,
        col ''details_json'' SJSON False, col ''id'' SUuid False]
       [ForeignKey ''fk_audit_events_organization_id_organizations'' [''organization_id''] ''organizations'' [''id''],
        PrimaryKey ''pk_audit_events'' [''id'']],
     CreateIndex ''ix_audit_events_correlation_id'' ''audit_events'' [''correlation_id''] False,
     CreateIndex ''ix_audit_events_organization_id'' ''audit_events'' [''organization_id''] False]"

definition base_canonical_entity_versions :: "ddl list" where
  "base_canonical_entity_versions = [
     CreateTable ''canonical_entity_versions''
       [col ''organization_id'' SUuid False, col ''entity_type'' (SString 100) False, col ''entity_id'' SUuid False,
        col ''version_number'' SInteger False, col ''payload_json'' SJSON False, col ''valid_from'' SDateTime False,
        col ''valid_to'' SDateTime True, col ''id'' SUuid False, now_col ''created_at'', now_col ''updated_at'']
       [ForeignKey ''fk_canonical_entity_versions_organization_id_organizations'' [''organization_id''] ''organizations'' [''id''],
        PrimaryKey ''pk_canonical_entity_versions'' [''id'']],
     CreateIndex ''ix_canonical_entity_versions_entity_id'' ''canonical_entity_versions'' [''entity_id''] False,
     CreateIndex ''ix_canonical_entity_versions_organization_id'' ''canonical_entity_versions'' [''organization_id''] False]"

definition base_competency_definitions :: "ddl list" where
  "base_competency_definitions = [
     CreateTable ''competency_definitions''
       [col ''organization_id'' SUuid False, col ''external_key'' (SString 255) False,
        col ''name'' (SString 255) False, col ''description'' SText True, col ''framework_uri'' (SString 1000) True,
        col ''parent_competency_id'' SUuid True, col ''id'' SUuid False, now_col ''created_at'', now_col ''updated_at'']
       [ForeignKey ''fk_competency_definitions_organization_id_organizations'' [''organization_id''] ''organizations'' [''id''],
        ForeignKey ''fk_competency_definitions_parent_competency_id'' [''parent_competency_id''] ''competency_definitions'' [''id''],
        PrimaryKey ''pk_competency_definitions'' [''id'']],
     CreateIndex ''ix_competency_definitions_organization_id'' ''competency_definitions'' [''organization_id''] False]"

definition base_credential_definitions :: "ddl list" where
  "base_credential_definitions = [
     CreateTable ''credential_definitions''
       [col ''organization_id'' SUuid False, col ''external_key'' (SString 255) False,
        col ''name'' (SString 255) False, col ''credential_type'' (SString 50) False,
        col ''issuer_name'' (SString 255) True, col ''public_uri'' (SString 1000) True, col ''expires'' SBoolean False,
        col ''id'' SUuid False, now_col ''created_at'', now_col ''updated_at'']
       [ForeignKey ''fk_credential_definitions_organization_id_organizations'' [''organization_id''] ''organizations'' [''id''],
        PrimaryKey ''pk_credential_definitions'' [''id'']],
     CreateIndex ''ix_credential_definitions_organization_id'' ''credential_definitions'' [''organization_id''] False]"

definition base_data_mart_snapshots :: "ddl list" where
  "base_data_mart_snapshots = [
     CreateTable ''data_mart_snapshots''
       [col ''organization_id'' SUuid False, col ''mart_key'' (SString 255) False, col ''version'' (SString 50) False,
        col ''storage_uri'' (SString 1000) False, col ''checksum_sha256'' (SString 64) False,
        col ''row_count'' SInteger False, col ''dictionary_json'' SJSON False, col ''lineage_json'' SJSON False,
        col ''published_at'' SDateTime False, col ''id'' SUuid False, now_col ''created_at'', now_col ''updated_at'']
       [ForeignKey ''fk_data_mart_snapshots_organization_id_organizations'' [''organization_id''] ''organizations'' [''id''],
        PrimaryKey ''pk_data_mart_snapshots'' [''id''],
        Unique ''uq_mart_snapshot_content'' [''organization_id'', ''mart_key'', ''version'', ''checksum_sha256'']],
     CreateIndex ''ix_data_mart_snapshots_organization_id'' ''data_mart_snapshots'' [''organization_id''] False]"

definition base_export_definitions :: "ddl list" where
  "base_export_definitions = [
     CreateTable ''export_definitions''
       [col ''organization_id'' SUuid False, col ''export_key'' (SString 255) False,
        col ''version'' (SString 50) False, col ''format'' (SString 30) False, col ''contract_json'' SJSON False,
        col ''active'' SBoolean False, col ''id'' SUuid False, now_col ''created_at'', now_col ''updated_at'']
       [ForeignKey ''fk_export_definitions_organization_id_organizations'' [''organization_id''] ''organizations'' [''id''],
        PrimaryKey ''pk_export_definitions'' [''id'']],
     CreateIndex ''ix_export_definitions_organization_id'' ''export_definitions'' [''organization_id''] False]"

definition base_learning_programs :: "ddl list" where
  "base_learning_programs = [
     CreateTable ''learning_programs''
       [col ''organization_id'' SUuid False, col ''external_key'' (SString 255) False,
        col ''name'' (SString 255) False, col ''description'' SText True, col ''program_type'' (SString 50) False,
        col ''status'' (SString 30) False, col ''id'' SUuid False, now_col ''created_at'', now_col ''updated_at'']
       [ForeignKey ''fk_learning_programs_organization_id_organizations'' [''organization_id''] ''organizations'' [''id''],
        PrimaryKey ''pk_learning_programs'' [''id''],
        Unique ''uq_program_external_key'' [''organization_id'', ''external_key'']],
     CreateIndex ''ix_learning_programs_organization_id'' ''learning_programs'' [''organization_id''] False]"

definition base_lineage_nodes :: "ddl list" where
  "base_lineage_nodes = [
     CreateTable ''lineage_nodes''
       [col ''organization_id'' SUuid False, col ''node_type'' (SString 50) False,
        col ''namespace'' (SString 255) False, col ''name'' (SString 500) False, col ''facets_json'' SJSON False,
        col ''id'' SUuid False, now_col ''created_at'', now_col ''updated_at'']
       [ForeignKey ''fk_lineage_nodes_organization_id_organizations'' [''organization_id''] ''organizations'' [''id''],
        PrimaryKey ''pk_lineage_nodes'' [''id'']],
     CreateIndex ''ix_lineage_nodes_organization_id'' ''lineage_nodes'' [''organization_id''] False]"

definition base_lookup_tables :: "ddl list" where
  "base_lookup_tables = [
     CreateTable ''lookup_tables''
       [col ''organization_id'' SUuid False, col ''lookup_key'' (SString 255) False,
        col ''version'' (SString 50) False, col ''values_json'' SJSON False, col ''status'' (SString 30) False,
        col ''id'' SUuid False, now_col ''created_at'', now_col ''updated_at'']
       [ForeignKey ''fk_lookup_tables_organization_id_organizations'' [''organization_id''] ''organizations'' [''id''],
        PrimaryKey ''pk_lookup_tables'' [''id''],
        Unique ''uq_lookup_version'' [''organization_id'', ''lookup_key'', ''version'']],
     CreateIndex ''ix_lookup_tables_organization_id'' ''lookup_tables'' [''organization_id''] False]"

definition base_mapping_sets :: "ddl list" where
  "base_mapping_sets = [
     CreateTable ''mapping_sets''
       [col ''organization_id'' SUuid False, col ''mapping_key'' (SString 255) False,
        col ''version'' (SString 50) False, col ''canonical_entity'' (SString 100) False,
        col ''status'' (SString 30) False, col ''approved_by'' SUuid True, col ''id'' SUuid False,
        now_col ''created_at'', now_col ''updated_at'']
       [ForeignKey ''fk_mapping_sets_organization_id_organizations'' [''organization_id''] ''organizations'' [''id''],
        PrimaryKey ''pk_mapping_sets'' [''id''],
        Unique ''uq_mapping_version'' [''organization_id'', ''mapping_key'', ''version'']],
     CreateIndex ''ix_mapping_sets_organization_id'' ''mapping_sets'' [''organization_id''] False]"

definition base_match_evaluations :: "ddl list" where
  "base_match_evaluations = [
     CreateTable ''match_evaluations''
       [col ''organization_id'' SUuid False, col ''rule_set_key'' (SString 255) False,
        col ''rule_set_version'' (SString 50) False, col ''truth_set_name'' (SString 255) False,
        col ''evaluated_at'' SDateTime False, col ''total_records'' SInteger False,
        col ''predicted_links'' SInteger False, col ''true_positives'' SInteger False,
        col ''false_positives'' SInteger False, col ''false_negatives'' SInteger False,
        col ''precision'' (SNumeric 8 6) False, col ''recall'' (SNumeric 8 6) False,
        col ''coverage'' (SNumeric 8 6) False, col ''details_json'' SJSON False, col ''id'' SUuid False,
        now_col ''created_at'', now_col ''updated_at'']
       [ForeignKey ''fk_match_evaluations_organization_id_organizations'' [''organization_id''] ''organizations'' [''id''],
        PrimaryKey ''pk_match_evaluations'' [''id'']],
     CreateIndex ''ix_match_evaluations_organization_id'' ''match_evaluations'' [''organization_id''] False]"

definition base_match_rule_sets :: "ddl list" where
  "base_match_rule_sets = [
     CreateTable ''match_rule_sets''
       [col ''organization_id'' SUuid False, col ''rule_set_key'' (SString 255) False,
        col ''version'' (SString 50) False, col ''entity_type'' (SString 100) False,
        col ''deterministic_rules_json'' SJSON False, col ''probabilistic_config_json'' SJSON False,
        col ''status'' (SString 30) False, col ''id'' SUuid False, now_col ''created_at'', now_col ''updated_at'']
       [ForeignKey ''fk_match_rule_sets_organization_id_organizations'' [''organization_id''] ''organizations'' [''id''],
        PrimaryKey ''pk_match_rule_sets'' [''id''],
        Unique ''uq_match_ruleset'' [''organization_id'', ''rule_set_key'', ''version'']],
     CreateIndex ''ix_match_rule_sets_organization_id'' ''match_rule_sets'' [''organization_id''] False]"

definition base_organization_units :: "ddl list" where
  "base_organization_units = [
     CreateTable ''organization_units''
       [col ''organization_id'' SUuid False, col ''parent_unit_id'' SUuid True,
        col ''external_key'' (SString 255) False, col ''name'' (SString 255) False,
        col ''unit_type'' (SString 50) False, col ''effective_from'' SDate True, col ''effective_to'' SDate True,
        col ''id'' SUuid False, now_col ''created_at'', now_col ''updated_at'']
       [ForeignKey ''fk_organization_units_organization_id_organizations'' [''organization_id''] ''organizations'' [''id''],
        ForeignKey ''fk_organization_units_parent_unit_id_organization_units'' [''parent_unit_id''] ''organization_units'' [''id''],
        PrimaryKey ''pk_organization_units'' [''id''],
        Unique ''uq_org_unit_external_key'' [''organization_id'', ''external_key'']],
     CreateIndex ''ix_organization_units_organization_id'' ''organization_units'' [''organization_id''] False]"

definition base_persons :: "ddl list" where
  "base_persons = [
     CreateTable ''persons''
       [col ''organization_id'' SUuid False, col ''display_name'' (SString 255) False,
        col ''given_name'' (SString 150) True, col ''family_name'' (SString 150) True,
        col ''preferred_name'' (SString 150) True, col ''status'' (SString 30) False,
        col ''effective_from'' SDate True, col ''effective_to'' SDate True, col ''id'' SUuid False,
        now_col ''created_at'', now_col ''updated_at'']
       [ForeignKey ''fk_persons_organization_id_organizations'' [''organization_id''] ''organizations'' [''id''],
        PrimaryKey ''pk_persons'' [''id'']],
     CreateIndex ''ix_person_org_status'' ''persons'' [''organization_id'', ''status''] False,
     CreateIndex ''ix_persons_organization_id'' ''persons'' [''organization_id''] False]"

definition base_probabilistic_models :: "ddl list" where
  "base_probabilistic_models = [
     CreateTable ''probabilistic_models''
       [col ''organization_id'' SUuid False, col ''model_key'' (SString 255) False, col ''version'' (SString 50) False,
        col ''status'' (SString 30) False, col ''comparison_config_json'' SJSON False,
        col ''parameters_json'' SJSON False, col ''review_low'' (SNumeric 8 6) False,
        col ''auto_match'' (SNumeric 8 6) False, col ''trained_on_truth_set'' (SString 255) True,
        col ''trained_at'' SDateTime True, col ''id'' SUuid False, now_col ''created_at'', now_col ''updated_at'']
       [ForeignKey ''fk_probabilistic_models_organization_id_organizations'' [''organization_id''] ''organizations'' [''id''],
        PrimaryKey ''pk_probabilistic_models'' [''id''],
        Unique ''uq_prob_model_version'' [''organization_id'', ''model_key'', ''version'']],
     CreateIndex ''ix_probabilistic_models_organization_id'' ''probabilistic_models'' [''organization_id''] False]"

definition base_retention_policies :: "ddl list" where
  "base_retention_policies = [
     CreateTable ''retention_policies''
       [col ''organization_id'' SUuid False, col ''policy_key'' (SString 255) False, col ''raw_days'' SInteger False,
        col ''quarantine_days'' SInteger False, col ''export_days'' SInteger False, col ''audit_days'' SInteger False,
        col ''active'' SBoolean False, col ''id'' SUuid False, now_col ''created_at'', now_col ''updated_at'']
       [ForeignKey ''fk_retention_policies_organization_id_organizations'' [''organization_id''] ''organizations'' [''id''],
        PrimaryKey ''pk_retention_policies'' [''id''],
        Unique ''uq_retention_policy'' [''organization_id'', ''policy_key'']],
     CreateIndex ''ix_retention_policies_organization_id'' ''retention_policies'' [''organization_id''] False]"

definition base_role_permissions :: "ddl list" where
  "base_role_permissions = [
     CreateTable ''role_permissions''
       [col ''role_id'' SUuid False, col ''permission_id'' SUuid False, col ''id'' SUuid False, now_col ''created_at'',
        now_col ''updated_at'']
       [ForeignKey ''fk_role_permissions_permission_id_permissions'' [''permission_id''] ''permissions'' [''id''],
        ForeignKey ''fk_role_permissions_role_id_roles'' [''role_id''] ''roles'' [''id''],
        PrimaryKey ''pk_role_permissions'' [''id''], Unique ''uq_role_permission'' [''role_id'', ''permission_id'']],
     CreateIndex ''ix_role_permissions_permission_id'' ''role_permissions'' [''permission_id''] False,
     CreateIndex ''ix_role_permissions_role_id'' ''role_permissions'' [''role_id''] False]"

definition base_source_systems :: "ddl list" where
  "base_source_systems = [
     CreateTable ''source_systems''
       [col ''organization_id'' SUuid False, col ''source_key'' (SString 100) False, col ''name'' (SString 255) False,
        col ''connector_type'' (SString 50) False, col ''owner_role'' (SString 255) True,
        col ''data_classification'' (SString 30) False, col ''secret_reference'' (SString 500) True,
        col ''active'' SBoolean False, col ''id'' SUuid False, now_col ''created_at'', now_col ''updated_at'']
       [ForeignKey ''fk_source_systems_organization_id_organizations'' [''organization_id''] ''organizations'' [''id''],
        PrimaryKey ''pk_source_systems'' [''id''], Unique ''uq_source_key'' [''organization_id'', ''source_key'']],
     CreateIndex ''ix_source_systems_organization_id'' ''source_systems'' [''organization_id''] False]"

definition base_user_organizations :: "ddl list" where
  "base_user_organizations = [
     CreateTable ''user_organizations''
       [col ''user_id'' SUuid False, col ''organization_id'' SUuid False, col ''id'' SUuid False,
        now_col ''created_at'', now_col ''updated_at'']
       [ForeignKey ''fk_user_organizations_organization_id_organizations'' [''organization_id''] ''organizations'' [''id''],
        ForeignKey ''fk_user_organizations_user_id_users'' [''user_id''] ''users'' [''id''],
        PrimaryKey ''pk_user_organizations'' [''id''],
        Unique ''uq_user_organization'' [''user_id'', ''organization_id'']],
     CreateIndex ''ix_user_organizations_organization_id'' ''user_organizations'' [''organization_id''] False,
     CreateIndex ''ix_user_organizations_user_id'' ''user_organizations'' [''user_id''] False]"

definition base_user_roles :: "ddl list" where
  "base_user_roles = [
     CreateTable ''user_roles''
       [col ''user_id'' SUuid False, col ''organization_id'' SUuid False, col ''role_id'' SUuid False,
        col ''id'' SUuid False, now_col ''created_at'', now_col ''updated_at'']
       [ForeignKey ''fk_user_roles_organization_id_organizations'' [''organization_id''] ''organizations'' [''id''],
        ForeignKey ''fk_user_roles_role_id_roles'' [''role_id''] ''roles'' [''id''],
        ForeignKey ''fk_user_roles_user_id_users'' [''user_id''] ''users'' [''id''],
        PrimaryKey ''pk_user_roles'' [''id''],
        Unique ''uq_user_role_scope'' [''user_id'', ''organization_id'', ''role_id'']],
     CreateIndex ''ix_user_roles_organization_id'' ''user_roles'' [''organization_id''] False,
     CreateIndex ''ix_user_roles_role_id'' ''user_roles'' [''role_id''] False,
     CreateIndex ''ix_user_roles_user_id'' ''user_roles'' [''user_id''] False]"

definition base_validation_rules :: "ddl list" where
  "base_validation_rules = [
     CreateTable ''validation_rules''
       [col ''organization_id'' SUuid False, col ''rule_key'' (SString 255) False, col ''version'' (SString 50) False,
        col ''title'' (SString 255) False, col ''entity_name'' (SString 100) False,
        col ''severity'' (SString 30) False, col ''expression_type'' (SString 100) False,
        col ''expression_json'' SJSON False, col ''explanation'' SText False, col ''remediation'' SText True,
        col ''active'' SBoolean False, col ''id'' SUuid False, now_col ''created_at'', now_col ''updated_at'']
       [ForeignKey ''fk_validation_rules_organization_id_organizations'' [''organization_id''] ''organizations'' [''id''],
        PrimaryKey ''pk_validation_rules'' [''id''],
        Unique ''uq_validation_rule_version'' [''organization_id'', ''rule_key'', ''version'']],
     CreateIndex ''ix_validation_rules_organization_id'' ''validation_rules'' [''organization_id''] False]"

definition base_assessment_attempts :: "ddl list" where
  "base_assessment_attempts = [
     CreateTable ''assessment_attempts''
       [col ''organization_id'' SUuid False, col ''assessment_id'' SUuid False, col ''person_id'' SUuid False,
        col ''attempt_number'' SInteger False, col ''started_at'' SDateTime True, col ''submitted_at'' SDateTime True,
        col ''id'' SUuid False, now_col ''created_at'', now_col ''updated_at'']
       [ForeignKey ''fk_assessment_attempts_assessment_id_assessment_definitions'' [''assessment_id''] ''assessment_definitions'' [''id''],
        ForeignKey ''fk_assessment_attempts_organization_id_organizations'' [''organization_id''] ''organizations'' [''id''],
        ForeignKey ''fk_assessment_attempts_person_id_persons'' [''person_id''] ''persons'' [''id''],
        PrimaryKey ''pk_assessment_attempts'' [''id'']],
     CreateIndex ''ix_assessment_attempts_assessment_id'' ''assessment_attempts'' [''assessment_id''] False,
     CreateIndex ''ix_assessment_attempts_organization_id'' ''assessment_attempts'' [''organization_id''] False,
     CreateIndex ''ix_assessment_attempts_person_id'' ''assessment_attempts'' [''person_id''] False]"

definition base_competency_alignments :: "ddl list" where
  "base_competency_alignments = [
     CreateTable ''competency_alignments''
       [col ''organization_id'' SUuid False, col ''competency_id'' SUuid False, col ''target_type'' (SString 50) False,
        col ''target_id'' SUuid False, col ''alignment_type'' (SString 50) False, col ''id'' SUuid False,
        now_col ''created_at'', now_col ''updated_at'']
       [ForeignKey ''fk_competency_alignments_competency_id_competency_definitions'' [''competency_id''] ''competency_definitions'' [''id''],
        ForeignKey ''fk_competency_alignments_organization_id_organizations'' [''organization_id''] ''organizations'' [''id''],
        PrimaryKey ''pk_competency_alignments'' [''id'']],
     CreateIndex ''ix_competency_alignments_competency_id'' ''competency_alignments'' [''competency_id''] False,
     CreateIndex ''ix_competency_alignments_organization_id'' ''competency_alignments'' [''organization_id''] False,
     CreateIndex ''ix_competency_alignments_target_id'' ''competency_alignments'' [''target_id''] False]"

definition base_credential_awards :: "ddl list" where
  "base_credential_awards = [
     CreateTable ''credential_awards''
       [col ''organization_id'' SUuid False, col ''credential_definition_id'' SUuid False,
        col ''person_id'' SUuid False, col ''awarded_at'' SDateTime False, col ''expires_at'' SDateTime True,
        col ''status'' (SString 30) False, col ''evidence_uri'' (SString 1000) True, col ''id'' SUuid False,
        now_col ''created_at'', now_col ''updated_at'']
       [ForeignKey ''fk_credential_awards_credential_definition_id'' [''credential_definition_id''] ''credential_definitions'' [''id''],
        ForeignKey ''fk_credential_awards_organization_id_organizations'' [''organization_id''] ''organizations'' [''id''],
        ForeignKey ''fk_credential_awards_person_id_persons'' [''person_id''] ''persons'' [''id''],
        PrimaryKey ''pk_credential_awards'' [''id'']],
     CreateIndex ''ix_credential_awards_credential_definition_id'' ''credential_awards'' [''credential_definition_id''] False,
     CreateIndex ''ix_credential_awards_organization_id'' ''credential_awards'' [''organization_id''] False,
     CreateIndex ''ix_credential_awards_person_id'' ''credential_awards'' [''person_id''] False]"

definition base_export_snapshots :: "ddl list" where
  "base_export_snapshots = [
     CreateTable ''export_snapshots''
       [col ''organization_id'' SUuid False, col ''export_definition_id'' SUuid False,
        col ''storage_uri'' (SString 1000) False, col ''checksum_sha256'' (SString 64) False,
        col ''row_count'' SInteger True, col ''published_at'' SDateTime False, col ''id'' SUuid False,
        now_col ''created_at'', now_col ''updated_at'']
       [ForeignKey ''fk_export_snapshots_export_definition_id_export_definitions'' [''export_definition_id''] ''export_definitions'' [''id''],
        ForeignKey ''fk_export_snapshots_organization_id_organizations'' [''organization_id''] ''organizations'' [''id''],
        PrimaryKey ''pk_export_snapshots'' [''id'']],
     CreateIndex ''ix_export_snapshots_export_definition_id'' ''export_snapshots'' [''export_definition_id''] False,
     CreateIndex ''ix_export_snapshots_organization_id'' ''export_snapshots'' [''organization_id''] False]"

definition base_external_identities :: "ddl list" where
  "base_external_identities = [
     CreateTable ''external_identities''
       [col ''organization_id'' SUuid False, col ''person_id'' SUuid False, col ''source_system_id'' SUuid False,
        col ''identity_type'' (SString 50) False, col ''identity_value'' (SString 512) False,
        col ''identity_value_hash'' (SString 64) False, col ''trusted'' SBoolean False, col ''id'' SUuid False,
        now_col ''created_at'', now_col ''updated_at'']
       [ForeignKey ''fk_external_identities_organization_id_organizations'' [''organization_id''] ''organizations'' [''id''],
        ForeignKey ''fk_external_identities_person_id_persons'' [''person_id''] ''persons'' [''id''],
        ForeignKey ''fk_external_identities_source_system_id_source_systems'' [''source_system_id''] ''source_systems'' [''id''],
        PrimaryKey ''pk_external_identities'' [''id''],
        Unique ''uq_external_identity_scope'' [''organization_id'', ''source_system_id'', ''identity_type'', ''identity_value_hash'']],
     CreateIndex ''ix_external_identities_organization_id'' ''external_identities'' [''organization_id''] False,
     CreateIndex ''ix_external_identities_person_id'' ''external_identities'' [''person_id''] False,
     CreateIndex ''ix_external_identities_source_system_id'' ''external_identities'' [''source_system_id''] False]"

definition base_ingestion_runs :: "ddl list" where
  "base_ingestion_runs = [
     CreateTable ''ingestion_runs''
       [col ''organization_id'' SUuid False, col ''source_system_id'' SUuid False, col ''status'' (SString 30) False,
        col ''started_at'' SDateTime True, col ''ended_at'' SDateTime True, col ''cursor_json'' SJSON False,
        col ''correlation_id'' (SString 100) False, col ''resume_from_run_id'' SUuid True,
        col ''attempt_number'' SInteger False, col ''failure_code'' (SString 100) True,
        col ''failure_summary'' (SString 500) True, col ''id'' SUuid False, now_col ''created_at'',
        now_col ''updated_at'']
       [ForeignKey ''fk_ingestion_runs_organization_id_organizations'' [''organization_id''] ''organizations'' [''id''],
        ForeignKey ''fk_ingestion_runs_resume_from_run_id_ingestion_runs'' [''resume_from_run_id''] ''ingestion_runs'' [''id''],
        ForeignKey ''fk_ingestion_runs_source_system_id_source_systems'' [''source_system_id''] ''source_systems'' [''id''],
        PrimaryKey ''pk_ingestion_runs'' [''id''], Unique ''uq_ingestion_runs_correlation_id'' [''correlation_id'']],
     CreateIndex ''ix_ingestion_runs_organization_id'' ''ingestion_runs'' [''organization_id''] False,
     CreateIndex ''ix_ingestion_runs_source_system_id'' ''ingestion_runs'' [''source_system_id''] False]"

definition base_learning_offerings :: "ddl list" where
  "base_learning_offerings = [
     CreateTable ''learning_offerings''
       [col ''organization_id'' SUuid False, col ''program_id'' SUuid True, col ''external_key'' (SString 255) False,
        col ''name'' (SString 255) False, col ''offering_type'' (SString 50) False, col ''starts_at'' SDateTime True,
        col ''ends_at'' SDateTime True, col ''status'' (SString 30) False, col ''id'' SUuid False,
        now_col ''created_at'', now_col ''updated_at'']
       [ForeignKey ''fk_learning_offerings_organization_id_organizations'' [''organization_id''] ''organizations'' [''id''],
        ForeignKey ''fk_learning_offerings_program_id_learning_programs'' [''program_id''] ''learning_programs'' [''id''],
        PrimaryKey ''pk_learning_offerings'' [''id''],
        Unique ''uq_offering_external_key'' [''organization_id'', ''external_key'']],
     CreateIndex ''ix_learning_offerings_organization_id'' ''learning_offerings'' [''organization_id''] False,
     CreateIndex ''ix_learning_offerings_program_id'' ''learning_offerings'' [''program_id''] False]"

definition base_lineage_edges :: "ddl list" where
  "base_lineage_edges = [
     CreateTable ''lineage_edges''
       [col ''organization_id'' SUuid False, col ''from_node_id'' SUuid False, col ''to_node_id'' SUuid False,
        col ''relation_type'' (SString 50) False, col ''field_mapping_json'' SJSON False, col ''id'' SUuid False,
        now_col ''created_at'', now_col ''updated_at'']
       [ForeignKey ''fk_lineage_edges_from_node_id_lineage_nodes'' [''from_node_id''] ''lineage_nodes'' [''id''],
        ForeignKey ''fk_lineage_edges_organization_id_organizations'' [''organization_id''] ''organizations'' [''id''],
        ForeignKey ''fk_lineage_edges_to_node_id_lineage_nodes'' [''to_node_id''] ''lineage_nodes'' [''id''],
        PrimaryKey ''pk_lineage_edges'' [''id'']],
     CreateIndex ''ix_lineage_edges_from_node_id'' ''lineage_edges'' [''from_node_id''] False,
     CreateIndex ''ix_lineage_edges_organization_id'' ''lineage_edges'' [''organization_id''] False,
     CreateIndex ''ix_lineage_edges_to_node_id'' ''lineage_edges'' [''to_node_id''] False]"

definition base_mapping_rules :: "ddl list" where
  "base_mapping_rules = [
     CreateTable ''mapping_rules''
       [col ''mapping_set_id'' SUuid False, col ''sequence'' SInteger False, col ''target_field'' (SString 255) False,
        col ''source_expression'' (SString 1000) True, col ''transform_type'' (SString 100) False,
        col ''parameters_json'' SJSON False, col ''required'' SBoolean False, col ''id'' SUuid False,
        now_col ''created_at'', now_col ''updated_at'']
       [ForeignKey ''fk_mapping_rules_mapping_set_id_mapping_sets'' [''mapping_set_id''] ''mapping_sets'' [''id''],
        PrimaryKey ''pk_mapping_rules'' [''id'']],
     CreateIndex ''ix_mapping_rules_mapping_set_id'' ''mapping_rules'' [''mapping_set_id''] False]"

definition base_match_candidates :: "ddl list" where
  "base_match_candidates = [
     CreateTable ''match_candidates''
       [col ''organization_id'' SUuid False, col ''rule_set_id'' SUuid False,
        col ''left_record_key'' (SString 255) False, col ''right_record_key'' (SString 255) False,
        col ''score'' (SNumeric 8 6) True, col ''evidence_json'' SJSON False, col ''status'' (SString 30) False,
        col ''id'' SUuid False, now_col ''created_at'', now_col ''updated_at'']
       [ForeignKey ''fk_match_candidates_organization_id_organizations'' [''organization_id''] ''organizations'' [''id''],
        ForeignKey ''fk_match_candidates_rule_set_id_match_rule_sets'' [''rule_set_id''] ''match_rule_sets'' [''id''],
        PrimaryKey ''pk_match_candidates'' [''id'']],
     CreateIndex ''ix_match_candidates_organization_id'' ''match_candidates'' [''organization_id''] False,
     CreateIndex ''ix_match_candidates_rule_set_id'' ''match_candidates'' [''rule_set_id''] False]"

definition base_probabilistic_runs :: "ddl list" where
  "base_probabilistic_runs = [
     CreateTable ''probabilistic_runs''
       [col ''organization_id'' SUuid False, col ''model_id'' SUuid False, col ''status'' (SString 30) False,
        col ''candidate_count'' SInteger False, col ''auto_match_count'' SInteger False,
        col ''review_count'' SInteger False, col ''no_match_count'' SInteger False,
        col ''conflict_count'' SInteger False, col ''metrics_json'' SJSON False, col ''started_at'' SDateTime False,
        col ''ended_at'' SDateTime True, col ''id'' SUuid False, now_col ''created_at'', now_col ''updated_at'']
       [ForeignKey ''fk_probabilistic_runs_model_id_probabilistic_models'' [''model_id''] ''probabilistic_models'' [''id''],
        ForeignKey ''fk_probabilistic_runs_organization_id_organizations'' [''organization_id''] ''organizations'' [''id''],
        PrimaryKey ''pk_probabilistic_runs'' [''id'']],
     CreateIndex ''ix_probabilistic_runs_model_id'' ''probabilistic_runs'' [''model_id''] False,
     CreateIndex ''ix_probabilistic_runs_organization_id'' ''probabilistic_runs'' [''organization_id''] False]"

definition base_role_assignments :: "ddl list" where
  "base_role_assignments = [
     CreateTable ''role_assignments''
       [col ''organization_id'' SUuid False, col ''person_id'' SUuid False, col ''organization_unit_id'' SUuid True,
        col ''role_type'' (SString 50) False, col ''status'' (SString 30) False, col ''effective_from'' SDate True,
        col ''effective_to'' SDate True, col ''id'' SUuid False, now_col ''created_at'', now_col ''updated_at'']
       [ForeignKey ''fk_role_assignments_organization_id_organizations'' [''organization_id''] ''organizations'' [''id''],
        ForeignKey ''fk_role_assignments_organization_unit_id_organization_units'' [''organization_unit_id''] ''organization_units'' [''id''],
        ForeignKey ''fk_role_assignments_person_id_persons'' [''person_id''] ''persons'' [''id''],
        PrimaryKey ''pk_role_assignments'' [''id'']],
     CreateIndex ''ix_role_assignments_organization_id'' ''role_assignments'' [''organization_id''] False,
     CreateIndex ''ix_role_assignments_person_id'' ''role_assignments'' [''person_id''] False]"

definition base_source_objects :: "ddl list" where
  "base_source_objects = [
     CreateTable ''source_objects''
       [col ''source_system_id'' SUuid False, col ''object_key'' (SString 255) False,
        col ''object_type'' (SString 50) False, col ''location_template'' (SString 1000) True,
        col ''refresh_expectation'' (SString 100) True, col ''id'' SUuid False, now_col ''created_at'',
        now_col ''updated_at'']
       [ForeignKey ''fk_source_objects_source_system_id_source_systems'' [''source_system_id''] ''source_systems'' [''id''],
        PrimaryKey ''pk_source_objects'' [''id''],
        Unique ''uq_source_object_key'' [''source_system_id'', ''object_key'']],
     CreateIndex ''ix_source_objects_source_system_id'' ''source_objects'' [''source_system_id''] False]"

definition base_assessment_results :: "ddl list" where
  "base_assessment_results = [
     CreateTable ''assessment_results''
       [col ''organization_id'' SUuid False, col ''attempt_id'' SUuid False, col ''raw_score'' (SNumeric 12 4) True,
        col ''normalized_score'' (SNumeric 8 6) True, col ''outcome'' (SString 50) True,
        col ''graded_at'' SDateTime True, col ''id'' SUuid False, now_col ''created_at'', now_col ''updated_at'']
       [ForeignKey ''fk_assessment_results_attempt_id_assessment_attempts'' [''attempt_id''] ''assessment_attempts'' [''id''],
        ForeignKey ''fk_assessment_results_organization_id_organizations'' [''organization_id''] ''organizations'' [''id''],
        PrimaryKey ''pk_assessment_results'' [''id''], Unique ''uq_assessment_results_attempt_id'' [''attempt_id'']],
     CreateIndex ''ix_assessment_results_organization_id'' ''assessment_results'' [''organization_id''] False]"

definition base_data_contracts :: "ddl list" where
  "base_data_contracts = [
     CreateTable ''data_contracts''
       [col ''source_object_id'' SUuid False, col ''contract_key'' (SString 255) False,
        col ''version'' (SString 50) False, col ''schema_uri'' (SString 1000) True, col ''schema_json'' SJSON False,
        col ''status'' (SString 30) False, col ''id'' SUuid False, now_col ''created_at'', now_col ''updated_at'']
       [ForeignKey ''fk_data_contracts_source_object_id_source_objects'' [''source_object_id''] ''source_objects'' [''id''],
        PrimaryKey ''pk_data_contracts'' [''id''],
        Unique ''uq_contract_version'' [''source_object_id'', ''contract_key'', ''version'']],
     CreateIndex ''ix_data_contracts_source_object_id'' ''data_contracts'' [''source_object_id''] False]"

definition base_experience_events :: "ddl list" where
  "base_experience_events = [
     CreateTable ''experience_events''
       [col ''organization_id'' SUuid False, col ''source_system_id'' SUuid False, col ''person_id'' SUuid True,
        col ''offering_id'' SUuid True, col ''event_key'' (SString 255) False, col ''event_type'' (SString 100) False,
        col ''occurred_at'' SDateTime False, col ''payload'' SJSON False, col ''id'' SUuid False,
        now_col ''created_at'', now_col ''updated_at'']
       [ForeignKey ''fk_experience_events_offering_id_learning_offerings'' [''offering_id''] ''learning_offerings'' [''id''],
        ForeignKey ''fk_experience_events_organization_id_organizations'' [''organization_id''] ''organizations'' [''id''],
        ForeignKey ''fk_experience_events_person_id_persons'' [''person_id''] ''persons'' [''id''],
        ForeignKey ''fk_experience_events_source_system_id_source_systems'' [''source_system_id''] ''source_systems'' [''id''],
        PrimaryKey ''pk_experience_events'' [''id''],
        Unique ''uq_event_key'' [''organization_id'', ''source_system_id'', ''event_key'']],
     CreateIndex ''ix_experience_events_organization_id'' ''experience_events'' [''organization_id''] False,
     CreateIndex ''ix_experience_events_person_id'' ''experience_events'' [''person_id''] False,
     CreateIndex ''ix_experience_events_source_system_id'' ''experience_events'' [''source_system_id''] False]"

definition base_match_decisions :: "ddl list" where
  "base_match_decisions = [
     CreateTable ''match_decisions''
       [col ''organization_id'' SUuid False, col ''candidate_id'' SUuid False, col ''decision'' (SString 30) False,
        col ''reason'' SText False, col ''reviewer_id'' SUuid False, col ''decided_at'' SDateTime False,
        col ''supersedes_decision_id'' SUuid True, col ''id'' SUuid False, now_col ''created_at'',
        now_col ''updated_at'']
       [ForeignKey ''fk_match_decisions_candidate_id_match_candidates'' [''candidate_id''] ''match_candidates'' [''id''],
        ForeignKey ''fk_match_decisions_organization_id_organizations'' [''organization_id''] ''organizations'' [''id''],
        ForeignKey ''fk_match_decisions_supersedes_decision_id_match_decisions'' [''supersedes_decision_id''] ''match_decisions'' [''id''],
        PrimaryKey ''pk_match_decisions'' [''id'']],
     CreateIndex ''ix_match_decisions_candidate_id'' ''match_decisions'' [''candidate_id''] False,
     CreateIndex ''ix_match_decisions_organization_id'' ''match_decisions'' [''organization_id''] False]"

definition base_participations :: "ddl list" where
  "base_participations = [
     CreateTable ''participations''
       [col ''organization_id'' SUuid False, col ''person_id'' SUuid False, col ''offering_id'' SUuid False,
        col ''source_record_key'' (SString 255) False, col ''status'' (SString 30) False,
        col ''assigned_at'' SDateTime True, col ''started_at'' SDateTime True, col ''completed_at'' SDateTime True,
        col ''completion_percent'' SInteger True, col ''id'' SUuid False, now_col ''created_at'', now_col ''updated_at'']
       [ForeignKey ''fk_participations_offering_id_learning_offerings'' [''offering_id''] ''learning_offerings'' [''id''],
        ForeignKey ''fk_participations_organization_id_organizations'' [''organization_id''] ''organizations'' [''id''],
        ForeignKey ''fk_participations_person_id_persons'' [''person_id''] ''persons'' [''id''],
        PrimaryKey ''pk_participations'' [''id''],
        Unique ''uq_participation_source_record'' [''organization_id'', ''person_id'', ''offering_id'', ''source_record_key'']],
     CreateIndex ''ix_participations_offering_id'' ''participations'' [''offering_id''] False,
     CreateIndex ''ix_participations_organization_id'' ''participations'' [''organization_id''] False,
     CreateIndex ''ix_participations_person_id'' ''participations'' [''person_id''] False]"

definition base_raw_snapshots :: "ddl list" where
  "base_raw_snapshots = [
     CreateTable ''raw_snapshots''
       [col ''ingestion_run_id'' SUuid False, col ''source_object_id'' SUuid False,
        col ''storage_uri'' (SString 1000) False, col ''checksum_sha256'' (SString 64) False,
        col ''row_count'' SInteger True, col ''schema_fingerprint'' (SString 64) True,
        col ''manifest_json'' SJSON False, col ''id'' SUuid False, now_col ''created_at'', now_col ''updated_at'']
       [ForeignKey ''fk_raw_snapshots_ingestion_run_id_ingestion_runs'' [''ingestion_run_id''] ''ingestion_runs'' [''id''],
        ForeignKey ''fk_raw_snapshots_source_object_id_source_objects'' [''source_object_id''] ''source_objects'' [''id''],
        PrimaryKey ''pk_raw_snapshots'' [''id''],
        Unique ''uq_snapshot_content'' [''source_object_id'', ''checksum_sha256'']],
     CreateIndex ''ix_raw_snapshots_ingestion_run_id'' ''raw_snapshots'' [''ingestion_run_id''] False,
     CreateIndex ''ix_raw_snapshots_source_object_id'' ''raw_snapshots'' [''source_object_id''] False]"

definition base_validation_results :: "ddl list" where
  "base_validation_results = [
     CreateTable ''validation_results''
       [col ''organization_id'' SUuid False, col ''ingestion_run_id'' SUuid False,
        col ''validation_rule_id'' SUuid False, col ''passed'' SBoolean False, col ''evaluated_count'' SInteger False,
        col ''failed_count'' SInteger False, col ''result_json'' SJSON False, col ''id'' SUuid False,
        now_col ''created_at'', now_col ''updated_at'']
       [ForeignKey ''fk_validation_results_ingestion_run_id_ingestion_runs'' [''ingestion_run_id''] ''ingestion_runs'' [''id''],
        ForeignKey ''fk_validation_results_organization_id_organizations'' [''organization_id''] ''organizations'' [''id''],
        ForeignKey ''fk_validation_results_validation_rule_id_validation_rules'' [''validation_rule_id''] ''validation_rules'' [''id''],
        PrimaryKey ''pk_validation_results'' [''id'']],
     CreateIndex ''ix_validation_results_ingestion_run_id'' ''validation_results'' [''ingestion_run_id''] False,
     CreateIndex ''ix_validation_results_organization_id'' ''validation_results'' [''organization_id''] False,
     CreateIndex ''ix_validation_results_validation_rule_id'' ''validation_results'' [''validation_rule_id''] False]"

definition base_mapping_executions :: "ddl list" where
  "base_mapping_executions = [
     CreateTable ''mapping_executions''
       [col ''organization_id'' SUuid False, col ''raw_snapshot_id'' SUuid False,
        col ''mapping_key'' (SString 255) False, col ''mapping_version'' (SString 50) False,
        col ''status'' (SString 30) False, col ''dry_run'' SBoolean False, col ''input_count'' SInteger False,
        col ''output_count'' SInteger False, col ''error_count'' SInteger False,
        col ''output_uri'' (SString 1000) True, col ''started_at'' SDateTime False, col ''ended_at'' SDateTime True,
        col ''id'' SUuid False, now_col ''created_at'', now_col ''updated_at'']
       [ForeignKey ''fk_mapping_executions_organization_id_organizations'' [''organization_id''] ''organizations'' [''id''],
        ForeignKey ''fk_mapping_executions_raw_snapshot_id_raw_snapshots'' [''raw_snapshot_id''] ''raw_snapshots'' [''id''],
        PrimaryKey ''pk_mapping_executions'' [''id'']],
     CreateIndex ''ix_mapping_executions_organization_id'' ''mapping_executions'' [''organization_id''] False,
     CreateIndex ''ix_mapping_executions_raw_snapshot_id'' ''mapping_executions'' [''raw_snapshot_id''] False]"

definition base_quarantine_records :: "ddl list" where
  "base_quarantine_records = [
     CreateTable ''quarantine_records''
       [col ''organization_id'' SUuid False, col ''ingestion_run_id'' SUuid False,
        col ''validation_rule_id'' SUuid False, col ''raw_snapshot_id'' SUuid False,
        col ''source_record_key'' (SString 255) False, col ''field_name'' (SString 255) True,
        col ''evidence_masked'' SText True, col ''explanation'' SText False, col ''status'' (SString 30) False,
        col ''reviewer_id'' SUuid True, col ''waiver_reason'' SText True, col ''resolution_note'' SText True,
        col ''resolved_at'' SDateTime True, col ''supersedes_quarantine_id'' SUuid True,
        col ''corrected_snapshot_id'' SUuid True, col ''id'' SUuid False, now_col ''created_at'', now_col ''updated_at'']
       [ForeignKey ''fk_quarantine_records_corrected_snapshot_id_raw_snapshots'' [''corrected_snapshot_id''] ''raw_snapshots'' [''id''],
        ForeignKey ''fk_quarantine_records_ingestion_run_id_ingestion_runs'' [''ingestion_run_id''] ''ingestion_runs'' [''id''],
        ForeignKey ''fk_quarantine_records_organization_id_organizations'' [''organization_id''] ''organizations'' [''id''],
        ForeignKey ''fk_quarantine_records_raw_snapshot_id_raw_snapshots'' [''raw_snapshot_id''] ''raw_snapshots'' [''id''],
        ForeignKey ''fk_quarantine_records_supersedes_quarantine_id'' [''supersedes_quarantine_id''] ''quarantine_records'' [''id''],
        ForeignKey ''fk_quarantine_records_validation_rule_id_validation_rules'' [''validation_rule_id''] ''validation_rules'' [''id''],
        PrimaryKey ''pk_quarantine_records'' [''id'']],
     CreateIndex ''ix_quarantine_records_ingestion_run_id'' ''quarantine_records'' [''ingestion_run_id''] False,
     CreateIndex ''ix_quarantine_records_organization_id'' ''quarantine_records'' [''organization_id''] False]"

definition base_schema_profiles :: "ddl list" where
  "base_schema_profiles = [
     CreateTable ''schema_profiles''
       [col ''raw_snapshot_id'' SUuid False, col ''profile_version'' (SString 50) False,
        col ''profile_json'' SJSON False, col ''baseline_profile_id'' SUuid True, col ''id'' SUuid False,
        now_col ''created_at'', now_col ''updated_at'']
       [ForeignKey ''fk_schema_profiles_baseline_profile_id_schema_profiles'' [''baseline_profile_id''] ''schema_profiles'' [''id''],
        ForeignKey ''fk_schema_profiles_raw_snapshot_id_raw_snapshots'' [''raw_snapshot_id''] ''raw_snapshots'' [''id''],
        PrimaryKey ''pk_schema_profiles'' [''id'']],
     CreateIndex ''ix_schema_profiles_raw_snapshot_id'' ''schema_profiles'' [''raw_snapshot_id''] False]"

definition base_mapping_errors :: "ddl list" where
  "base_mapping_errors = [
     CreateTable ''mapping_errors''
       [col ''mapping_execution_id'' SUuid False, col ''source_record_key'' (SString 255) False,
        col ''rule_sequence'' SInteger False, col ''target_field'' (SString 255) False,
        col ''error_code'' (SString 100) False, col ''explanation'' SText False, col ''evidence_masked'' SText True,
        col ''id'' SUuid False, now_col ''created_at'', now_col ''updated_at'']
       [ForeignKey ''fk_mapping_errors_mapping_execution_id_mapping_executions'' [''mapping_execution_id''] ''mapping_executions'' [''id''],
        PrimaryKey ''pk_mapping_errors'' [''id'']],
     CreateIndex ''ix_mapping_errors_mapping_execution_id'' ''mapping_errors'' [''mapping_execution_id''] False]"

definition base_profile_comparisons :: "ddl list" where
  "base_profile_comparisons = [
     CreateTable ''profile_comparisons''
       [col ''organization_id'' SUuid False, col ''baseline_profile_id'' SUuid False,
        col ''current_profile_id'' SUuid False, col ''status'' (SString 30) False, col ''comparison_json'' SJSON False,
        col ''id'' SUuid False, now_col ''created_at'', now_col ''updated_at'']
       [ForeignKey ''fk_profile_comparisons_baseline_profile_id_schema_profiles'' [''baseline_profile_id''] ''schema_profiles'' [''id''],
        ForeignKey ''fk_profile_comparisons_current_profile_id_schema_profiles'' [''current_profile_id''] ''schema_profiles'' [''id''],
        ForeignKey ''fk_profile_comparisons_organization_id_organizations'' [''organization_id''] ''organizations'' [''id''],
        PrimaryKey ''pk_profile_comparisons'' [''id'']],
     CreateIndex ''ix_profile_comparisons_baseline_profile_id'' ''profile_comparisons'' [''baseline_profile_id''] False,
     CreateIndex ''ix_profile_comparisons_current_profile_id'' ''profile_comparisons'' [''current_profile_id''] False,
     CreateIndex ''ix_profile_comparisons_organization_id'' ''profile_comparisons'' [''organization_id''] False]"

text \<open>The body of \<^verbatim>\<open>upgrade\<close> and the list \<^verbatim>\<open>tables\<close> of \<^verbatim>\<open>downgrade\<close>.\<close>

definition baseline_ops :: "ddl list list" where
  "baseline_ops = [base_organizations, base_permissions, base_roles, base_users, base_assessment_definitions, base_asset_runs,
     base_audit_events, base_canonical_entity_versions, base_competency_definitions, base_credential_definitions,
     base_data_mart_snapshots, base_export_definitions, base_learning_programs, base_lineage_nodes, base_lookup_tables,
     base_mapping_sets, base_match_evaluations, base_match_rule_sets, base_organization_units, base_persons,
     base_probabilistic_models, base_retention_policies, base_role_permissions, base_source_systems,
     base_user_organizations, base_user_roles, base_validation_rules, base_assessment_attempts,
     base_competency_alignments, base_credential_awards, base_export_snapshots, base_external_identities,
     base_ingestion_runs, base_learning_offerings, base_lineage_edges, base_mapping_rules, base_match_candidates,
     base_probabilistic_runs, base_role_assignments, base_source_objects, base_assessment_results, base_data_contracts,
     base_experience_events, base_match_decisions, base_participations, base_raw_snapshots, base_validation_results,
     base_mapping_executions, base_quarantine_records, base_schema_profiles, base_mapping_errors,
     base_profile_comparisons]"

definition baseline_drop_order :: "string list" where
  "baseline_drop_order = [''profile_comparisons'', ''mapping_errors'', ''schema_profiles'', ''quarantine_records'', ''mapping_executions'',
     ''validation_results'', ''raw_snapshots'', ''participations'', ''match_decisions'', ''experience_events'',
     ''data_contracts'', ''assessment_results'', ''source_objects'', ''role_assignments'', ''probabilistic_runs'',
     ''match_candidates'', ''mapping_rules'', ''lineage_edges'', ''learning_offerings'', ''ingestion_runs'',
     ''external_identities'', ''export_snapshots'', ''credential_awards'', ''competency_alignments'',
     ''assessment_attempts'', ''validation_rules'', ''user_roles'', ''user_organizations'', ''source_systems'',
     ''role_permissions'', ''retention_policies'', ''probabilistic_models'', ''persons'', ''organization_units'',
     ''match_rule_sets'', ''match_evaluations'', ''mapping_sets'', ''lookup_tables'', ''lineage_nodes'',
     ''learning_programs'', ''export_definitions'', ''data_mart_snapshots'', ''credential_definitions'',
     ''competency_definitions'', ''canonical_entity_versions'', ''audit_events'', ''asset_runs'',
     ''assessment_definitions'', ''users'', ''roles'', ''permissions'', ''organizations'']"

end
