(* ===== verification/Model_Schema.thy ===== *)
theory Model_Schema
  imports Schema_Ops
begin

text \<open>
  The tables the ORM classes of \<^verbatim>\<open>db/models/\<close> declare. A class is its table name, its columns as
  \<^verbatim>\<open>mapped_column\<close> gives them and its \<^verbatim>\<open>__table_args__\<close>; \<open>table_of_model\<close> adds the columns of the
  two mixins and names keys and indexes by the conventions of \<^verbatim>\<open>db/base.py\<close>. Client-side
  defaults (\<^verbatim>\<open>default\<close>, \<^verbatim>\<open>onupdate\<close>) are no part of the schema; the name of a check is the
  label both sides give to the naming convention.
\<close>

record model_column =
  mc_column :: sql_column
  mc_foreign_key :: "string option"
  mc_foreign_key_name :: "string option"
  mc_index :: bool
  mc_unique :: bool

datatype table_arg = ArgUnique string "string list" | ArgCheck string string | ArgIndex string "string list"

record orm_model =
  om_table :: string
  om_timestamps :: bool
  om_columns :: "model_column list"
  om_args :: "table_arg list"

definition plain :: "sql_column \<Rightarrow> model_column" where
  "plain c = \<lparr>mc_column = c, mc_foreign_key = None, mc_foreign_key_name = None, mc_index = False, mc_unique = False\<rparr>"

definition indexed :: "model_column \<Rightarrow> model_column" where
  "indexed c = c\<lparr>mc_index := True\<rparr>"

definition unique_col :: "model_column \<Rightarrow> model_column" where
  "unique_col c = c\<lparr>mc_unique := True\<rparr>"

text \<open>\<^verbatim>\<open>mapped_column(Uuid(as_uuid=True), ForeignKey("table.id"), nullable=...)\<close>\<close>

definition fk_col :: "string \<Rightarrow> string \<Rightarrow> bool \<Rightarrow> model_column" where
  "fk_col n target nullable = (plain (col n SUuid nullable))\<lparr>mc_foreign_key := Some target\<rparr>"

definition named_fk :: "string \<Rightarrow> model_column \<Rightarrow> model_column" where
  "named_fk n c = c\<lparr>mc_foreign_key_name := Some n\<rparr>"

section \<open>Naming conventions and mixins\<close>

definition convention :: "string \<Rightarrow> string list \<Rightarrow> string" where
  "convention kind parts = join ''_'' (kind # parts)"

definition uuid_primary_key :: sql_column where
  "uuid_primary_key = col ''id'' SUuid False"

definition timestamp_columns :: "sql_column list" where
  "timestamp_columns = [now_col ''created_at'', now_col ''updated_at'']"

definition column_constraints :: "string \<Rightarrow> model_column \<Rightarrow> sql_constraint list" where
  "column_constraints table c =
     (case mc_foreign_key c of None \<Rightarrow> [] | Some target \<Rightarrow>
        [ForeignKey (case mc_foreign_key_name c of Some n \<Rightarrow> n
             | None \<Rightarrow> convention ''fk'' [table, c_name (mc_column c), target])
           [c_name (mc_column c)] target [''id'']])
     @ (if mc_unique c then [Unique (convention ''uq'' [table, c_name (mc_column c)]) [c_name (mc_column c)]] else [])"

definition column_indexes :: "string \<Rightarrow> model_column \<Rightarrow> sql_index list" where
  "column_indexes table c = (if mc_index c
     then [\<lparr>i_name = convention ''ix'' [table, c_name (mc_column c)], i_columns = [c_name (mc_column c)], i_unique = False\<rparr>]
     else [])"

fun arg_constraint :: "table_arg \<Rightarrow> sql_constraint list" where
  "arg_constraint (ArgUnique n cs) = [Unique n cs]"
| "arg_constraint (ArgCheck n e) = [Check n e]"
| "arg_constraint (ArgIndex n cs) = []"

fun arg_index :: "table_arg \<Rightarrow> sql_index list" where
  "arg_index (ArgIndex n cs) = [\<lparr>i_name = n, i_columns = cs, i_unique = False\<rparr>]"
| "arg_index a = []"

definition table_of_model :: "orm_model \<Rightarrow> sql_table" where
  "table_of_model m = \<lparr>t_name = om_table m,
     t_columns = map mc_column (om_columns m) @ [uuid_primary_key] @ (if om_timestamps m then timestamp_columns else []),
     t_constraints = PrimaryKey (convention ''pk'' [om_table m]) [''id'']
       # concat (map (column_constraints (om_table m)) (om_columns m)) @ concat (map arg_constraint (om_args m)),
     t_indexes = concat (map (column_indexes (om_table m)) (om_columns m)) @ concat (map arg_index (om_args m))\<rparr>"

section \<open>Classes\<close>

definition organization_model :: orm_model where
  "organization_model = \<lparr>om_table = ''organizations'', om_timestamps = True,
     om_columns = [plain (col ''name'' (SString 255) False), plain (col ''organization_type'' (SString 50) False),
        plain (col ''status'' (SString 30) False), indexed (fk_col ''parent_organization_id'' ''organizations'' True),
        plain (col ''metadata_json'' SJSON False)],
     om_args = []\<rparr>"

definition organization_unit_model :: orm_model where
  "organization_unit_model = \<lparr>om_table = ''organization_units'', om_timestamps = True,
     om_columns = [indexed (fk_col ''organization_id'' ''organizations'' False),
        fk_col ''parent_unit_id'' ''organization_units'' True, plain (col ''external_key'' (SString 255) False),
        plain (col ''name'' (SString 255) False), plain (col ''unit_type'' (SString 50) False),
        plain (col ''effective_from'' SDate True), plain (col ''effective_to'' SDate True)],
     om_args = [ArgUnique ''uq_org_unit_external_key'' [''organization_id'', ''external_key'']]\<rparr>"

definition person_model :: orm_model where
  "person_model = \<lparr>om_table = ''persons'', om_timestamps = True,
     om_columns = [indexed (fk_col ''organization_id'' ''organizations'' False), plain (col ''display_name'' (SString 255) False),
        plain (col ''given_name'' (SString 150) True), plain (col ''family_name'' (SString 150) True),
        plain (col ''preferred_name'' (SString 150) True), plain (col ''status'' (SString 30) False),
        plain (col ''effective_from'' SDate True), plain (col ''effective_to'' SDate True)],
     om_args = [ArgIndex ''ix_person_org_status'' [''organization_id'', ''status'']]\<rparr>"

definition external_identity_model :: orm_model where
  "external_identity_model = \<lparr>om_table = ''external_identities'', om_timestamps = True,
     om_columns = [indexed (fk_col ''organization_id'' ''organizations'' False), indexed (fk_col ''person_id'' ''persons'' False),
        indexed (fk_col ''source_system_id'' ''source_systems'' False),
        plain (col ''identity_type'' (SString 50) False), plain (col ''identity_value'' (SString 512) False),
        plain (col ''identity_value_hash'' (SString 64) False), plain (col ''trusted'' SBoolean False)],
     om_args = [ArgUnique ''uq_external_identity_scope'' [''organization_id'', ''source_system_id'', ''identity_type'', ''identity_value_hash'']]\<rparr>"

definition role_assignment_model :: orm_model where
  "role_assignment_model = \<lparr>om_table = ''role_assignments'', om_timestamps = True,
     om_columns = [indexed (fk_col ''organization_id'' ''organizations'' False), indexed (fk_col ''person_id'' ''persons'' False),
        fk_col ''organization_unit_id'' ''organization_units'' True, plain (col ''role_type'' (SString 50) False),
        plain (col ''status'' (SString 30) False), plain (col ''effective_from'' SDate True),
        plain (col ''effective_to'' SDate True)],
     om_args = []\<rparr>"

definition learning_program_model :: orm_model where
  "learning_program_model = \<lparr>om_table = ''learning_programs'', om_timestamps = True,
     om_columns = [indexed (fk_col ''organization_id'' ''organizations'' False), plain (col ''external_key'' (SString 255) False),
        plain (col ''name'' (SString 255) False), plain (col ''description'' SText True),
        plain (col ''program_type'' (SString 50) False), plain (col ''status'' (SString 30) False)],
     om_args = [ArgUnique ''uq_program_external_key'' [''organization_id'', ''external_key'']]\<rparr>"

definition learning_offering_model :: orm_model where
  "learning_offering_model = \<lparr>om_table = ''learning_offerings'', om_timestamps = True,
     om_columns = [indexed (fk_col ''organization_id'' ''organizations'' False),
        indexed (fk_col ''program_id'' ''learning_programs'' True), plain (col ''external_key'' (SString 255) False),
        plain (col ''name'' (SString 255) False), plain (col ''offering_type'' (SString 50) False),
        plain (col ''starts_at'' SDateTime True), plain (col ''ends_at'' SDateTime True),
        plain (col ''status'' (SString 30) False)],
     om_args = [ArgUnique ''uq_offering_external_key'' [''organization_id'', ''external_key'']]\<rparr>"

definition participation_model :: orm_model where
  "participation_model = \<lparr>om_table = ''participations'', om_timestamps = True,
     om_columns = [indexed (fk_col ''organization_id'' ''organizations'' False), indexed (fk_col ''person_id'' ''persons'' False),
        indexed (fk_col ''offering_id'' ''learning_offerings'' False),
        plain (col ''source_record_key'' (SString 255) False), plain (col ''status'' (SString 30) False),
        plain (col ''assigned_at'' SDateTime True), plain (col ''started_at'' SDateTime True),
        plain (col ''completed_at'' SDateTime True), plain (col ''completion_percent'' SInteger True)],
     om_args = [ArgUnique ''uq_participation_source_record'' [''organization_id'', ''person_id'', ''offering_id'', ''source_record_key'']]\<rparr>"

definition experience_event_model :: orm_model where
  "experience_event_model = \<lparr>om_table = ''experience_events'', om_timestamps = True,
     om_columns = [indexed (fk_col ''organization_id'' ''organizations'' False),
        indexed (fk_col ''source_system_id'' ''source_systems'' False),
        indexed (fk_col ''person_id'' ''persons'' True), fk_col ''offering_id'' ''learning_offerings'' True,
        plain (col ''event_key'' (SString 255) False), plain (col ''event_type'' (SString 100) False),
        plain (col ''occurred_at'' SDateTime False), plain (col ''payload'' SJSON False)],
     om_args = [ArgUnique ''uq_event_key'' [''organization_id'', ''source_system_id'', ''event_key'']]\<rparr>"

definition assessment_definition_model :: orm_model where
  "assessment_definition_model = \<lparr>om_table = ''assessment_definitions'', om_timestamps = True,
     om_columns = [indexed (fk_col ''organization_id'' ''organizations'' False), plain (col ''external_key'' (SString 255) False),
        plain (col ''name'' (SString 255) False), plain (col ''maximum_score'' (SNumeric 12 4) True),
        plain (col ''passing_score'' (SNumeric 12 4) True)],
     om_args = []\<rparr>"

definition assessment_attempt_model :: orm_model where
  "assessment_attempt_model = \<lparr>om_table = ''assessment_attempts'', om_timestamps = True,
     om_columns = [indexed (fk_col ''organization_id'' ''organizations'' False),
        indexed (fk_col ''assessment_id'' ''assessment_definitions'' False),
        indexed (fk_col ''person_id'' ''persons'' False), plain (col ''attempt_number'' SInteger False),
        plain (col ''started_at'' SDateTime True), plain (col ''submitted_at'' SDateTime True)],
     om_args = []\<rparr>"

definition assessment_result_model :: orm_model where
  "assessment_result_model = \<lparr>om_table = ''assessment_results'', om_timestamps = True,
     om_columns = [indexed (fk_col ''organization_id'' ''organizations'' False),
        unique_col (fk_col ''attempt_id'' ''assessment_attempts'' False),
        plain (col ''raw_score'' (SNumeric 12 4) True), plain (col ''normalized_score'' (SNumeric 8 6) True),
        plain (col ''outcome'' (SString 50) True), plain (col ''graded_at'' SDateTime True)],
     om_args = []\<rparr>"

definition competency_definition_model :: orm_model where
  "competency_definition_model = \<lparr>om_table = ''competency_definitions'', om_timestamps = True,
     om_columns = [indexed (fk_col ''organization_id'' ''organizations'' False), plain (col ''external_key'' (SString 255) False),
        plain (col ''name'' (SString 255) False), plain (col ''description'' SText True),
        plain (col ''framework_uri'' (SString 1000) True),
        named_fk ''fk_competency_definitions_parent_competency_id'' (fk_col ''parent_competency_id'' ''competency_definitions'' True)],
     om_args = []\<rparr>"

definition competency_alignment_model :: orm_model where
  "competency_alignment_model = \<lparr>om_table = ''competency_alignments'', om_timestamps = True,
     om_columns = [indexed (fk_col ''organization_id'' ''organizations'' False),
        indexed (fk_col ''competency_id'' ''competency_definitions'' False),
        plain (col ''target_type'' (SString 50) False), indexed (plain (col ''target_id'' SUuid False)),
        plain (col ''alignment_type'' (SString 50) False)],
     om_args = []\<rparr>"

definition credential_definition_model :: orm_model where
  "credential_definition_model = \<lparr>om_table = ''credential_definitions'', om_timestamps = True,
     om_columns = [indexed (fk_col ''organization_id'' ''organizations'' False), plain (col ''external_key'' (SString 255) False),
        plain (col ''name'' (SString 255) False), plain (col ''credential_type'' (SString 50) False),
        plain (col ''issuer_name'' (SString 255) True), plain (col ''public_uri'' (SString 1000) True),
        plain (col ''expires'' SBoolean False)],
     om_args = []\<rparr>"

definition credential_award_model :: orm_model where
  "credential_award_model = \<lparr>om_table = ''credential_awards'', om_timestamps = True,
     om_columns = [indexed (fk_col ''organization_id'' ''organizations'' False),
        indexed (named_fk ''fk_credential_awards_credential_definition_id'' (fk_col ''credential_definition_id'' ''credential_definitions'' False)),
        indexed (fk_col ''person_id'' ''persons'' False), plain (col ''awarded_at'' SDateTime False),
        plain (col ''expires_at'' SDateTime True), plain (col ''status'' (SString 30) False),
        plain (col ''evidence_uri'' (SString 1000) True)],
     om_args = []\<rparr>"

definition user_model :: orm_model where
  "user_model = \<lparr>om_table = ''users'', om_timestamps = True,
     om_columns = [unique_col (plain (col ''subject'' (SString 500) False)), plain (col ''email'' (SString 320) True),
        plain (col ''display_name'' (SString 255) True), plain (col ''active'' SBoolean False)],
     om_args = []\<rparr>"

definition role_model :: orm_model where
  "role_model = \<lparr>om_table = ''roles'', om_timestamps = True,
     om_columns = [unique_col (plain (col ''role_key'' (SString 100) False)), plain (col ''name'' (SString 255) False),
        plain (col ''description'' (SString 1000) True)],
     om_args = []\<rparr>"

definition permission_model :: orm_model where
  "permission_model = \<lparr>om_table = ''permissions'', om_timestamps = True,
     om_columns = [unique_col (plain (col ''permission_key'' (SString 150) False)),
        plain (col ''description'' (SString 1000) False)],
     om_args = []\<rparr>"

definition user_organization_model :: orm_model where
  "user_organization_model = \<lparr>om_table = ''user_organizations'', om_timestamps = True,
     om_columns = [indexed (fk_col ''user_id'' ''users'' False), indexed (fk_col ''organization_id'' ''organizations'' False)],
     om_args = [ArgUnique ''uq_user_organization'' [''user_id'', ''organization_id'']]\<rparr>"

definition user_role_model :: orm_model where
  "user_role_model = \<lparr>om_table = ''user_roles'', om_timestamps = True,
     om_columns = [indexed (fk_col ''user_id'' ''users'' False), indexed (fk_col ''organization_id'' ''organizations'' False),
        indexed (fk_col ''role_id'' ''roles'' False)],
     om_args = [ArgUnique ''uq_user_role_scope'' [''user_id'', ''organization_id'', ''role_id'']]\<rparr>"

definition role_permission_model :: orm_model where
  "role_permission_model = \<lparr>om_table = ''role_permissions'', om_timestamps = True,
     om_columns = [indexed (fk_col ''role_id'' ''roles'' False), indexed (fk_col ''permission_id'' ''permissions'' False)],
     om_args = [ArgUnique ''uq_role_permission'' [''role_id'', ''permission_id'']]\<rparr>"

definition source_system_model :: orm_model where
  "source_system_model = \<lparr>om_table = ''source_systems'', om_timestamps = True,
     om_columns = [indexed (fk_col ''organization_id'' ''organizations'' False), plain (col ''source_key'' (SString 100) False),
        plain (col ''name'' (SString 255) False), plain (col ''connector_type'' (SString 50) False),
        plain (col ''owner_role'' (SString 255) True), plain (col ''data_classification'' (SString 30) False),
        plain (col ''secret_reference'' (SString 500) True), plain (col ''active'' SBoolean False)],
     om_args = [ArgUnique ''uq_source_key'' [''organization_id'', ''source_key'']]\<rparr>"

definition source_object_model :: orm_model where
  "source_object_model = \<lparr>om_table = ''source_objects'', om_timestamps = True,
     om_columns = [indexed (fk_col ''source_system_id'' ''source_systems'' False), plain (col ''object_key'' (SString 255) False),
        plain (col ''object_type'' (SString 50) False), plain (col ''location_template'' (SString 1000) True),
        plain (col ''refresh_expectation'' (SString 100) True)],
     om_args = [ArgUnique ''uq_source_object_key'' [''source_system_id'', ''object_key'']]\<rparr>"

definition data_contract_model :: orm_model where
  "data_contract_model = \<lparr>om_table = ''data_contracts'', om_timestamps = True,
     om_columns = [indexed (fk_col ''source_object_id'' ''source_objects'' False),
        plain (col ''contract_key'' (SString 255) False), plain (col ''version'' (SString 50) False),
        plain (col ''schema_uri'' (SString 1000) True), plain (col ''schema_json'' SJSON False),
        plain (col ''status'' (SString 30) False)],
     om_args = [ArgUnique ''uq_contract_version'' [''source_object_id'', ''contract_key'', ''version'']]\<rparr>"

definition ingestion_run_model :: orm_model where
  "ingestion_run_model = \<lparr>om_table = ''ingestion_runs'', om_timestamps = True,
     om_columns = [indexed (fk_col ''organization_id'' ''organizations'' False),
        indexed (fk_col ''source_system_id'' ''source_systems'' False), plain (col ''status'' (SString 30) False),
        plain (col ''started_at'' SDateTime True), plain (col ''ended_at'' SDateTime True),
        plain (col ''cursor_json'' SJSON False), unique_col (plain (col ''correlation_id'' (SString 100) False)),
        fk_col ''resume_from_run_id'' ''ingestion_runs'' True, plain (col ''attempt_number'' SInteger False),
        plain (col ''failure_code'' (SString 100) True), plain (col ''failure_summary'' (SString 500) True)],
     om_args = []\<rparr>"

definition raw_snapshot_model :: orm_model where
  "raw_snapshot_model = \<lparr>om_table = ''raw_snapshots'', om_timestamps = True,
     om_columns = [indexed (fk_col ''ingestion_run_id'' ''ingestion_runs'' False),
        indexed (fk_col ''source_object_id'' ''source_objects'' False),
        plain (col ''storage_uri'' (SString 1000) False), plain (col ''checksum_sha256'' (SString 64) False),
        plain (col ''row_count'' SInteger True), plain (col ''schema_fingerprint'' (SString 64) True),
        plain (col ''manifest_json'' SJSON False)],
     om_args = [ArgUnique ''uq_snapshot_content'' [''source_object_id'', ''checksum_sha256'']]\<rparr>"

definition schema_profile_model :: orm_model where
  "schema_profile_model = \<lparr>om_table = ''schema_profiles'', om_timestamps = True,
     om_columns = [indexed (fk_col ''raw_snapshot_id'' ''raw_snapshots'' False),
        plain (col ''profile_version'' (SString 50) False), plain (col ''profile_json'' SJSON False),
        fk_col ''baseline_profile_id'' ''schema_profiles'' True],
     om_args = []\<rparr>"

definition mapping_set_model :: orm_model where
  "mapping_set_model = \<lparr>om_table = ''mapping_sets'', om_timestamps = True,
     om_columns = [indexed (fk_col ''organization_id'' ''organizations'' False), plain (col ''mapping_key'' (SString 255) False),
        plain (col ''version'' (SString 50) False), plain (col ''canonical_entity'' (SString 100) False),
        plain (col ''status'' (SString 30) False), plain (col ''approved_by'' SUuid True)],
     om_args = [ArgUnique ''uq_mapping_version'' [''organization_id'', ''mapping_key'', ''version'']]\<rparr>"

definition mapping_rule_model :: orm_model where
  "mapping_rule_model = \<lparr>om_table = ''mapping_rules'', om_timestamps = True,
     om_columns = [indexed (fk_col ''mapping_set_id'' ''mapping_sets'' False), plain (col ''sequence'' SInteger False),
        plain (col ''target_field'' (SString 255) False), plain (col ''source_expression'' (SString 1000) True),
        plain (col ''transform_type'' (SString 100) False), plain (col ''parameters_json'' SJSON False),
        plain (col ''required'' SBoolean False)],
     om_args = []\<rparr>"

definition validation_rule_model :: orm_model where
  "validation_rule_model = \<lparr>om_table = ''validation_rules'', om_timestamps = True,
     om_columns = [indexed (fk_col ''organization_id'' ''organizations'' False), plain (col ''rule_key'' (SString 255) False),
        plain (col ''version'' (SString 50) False), plain (col ''title'' (SString 255) False),
        plain (col ''entity_name'' (SString 100) False), plain (col ''severity'' (SString 30) False),
        plain (col ''expression_type'' (SString 100) False), plain (col ''expression_json'' SJSON False),
        plain (col ''explanation'' SText False), plain (col ''remediation'' SText True),
        plain (col ''active'' SBoolean False)],
     om_args = [ArgUnique ''uq_validation_rule_version'' [''organization_id'', ''rule_key'', ''version'']]\<rparr>"

definition validation_result_model :: orm_model where
  "validation_result_model = \<lparr>om_table = ''validation_results'', om_timestamps = True,
     om_columns = [indexed (fk_col ''organization_id'' ''organizations'' False),
        indexed (fk_col ''ingestion_run_id'' ''ingestion_runs'' False),
        indexed (fk_col ''validation_rule_id'' ''validation_rules'' False), plain (col ''passed'' SBoolean False),
        plain (col ''evaluated_count'' SInteger False), plain (col ''failed_count'' SInteger False),
        plain (col ''result_json'' SJSON False)],
     om_args = []\<rparr>"

definition quarantine_record_model :: orm_model where
  "quarantine_record_model = \<lparr>om_table = ''quarantine_records'', om_timestamps = True,
     om_columns = [indexed (fk_col ''organization_id'' ''organizations'' False),
        indexed (fk_col ''ingestion_run_id'' ''ingestion_runs'' False),
        fk_col ''validation_rule_id'' ''validation_rules'' False, fk_col ''raw_snapshot_id'' ''raw_snapshots'' False,
        plain (col ''source_record_key'' (SString 255) False), plain (col ''field_name'' (SString 255) True),
        plain (col ''evidence_masked'' SText True), plain (col ''explanation'' SText False),
        plain (col ''status'' (SString 30) False), plain (col_default ''revision'' SInteger ''0''),
        plain (col ''reviewer_id'' SUuid True), plain (col ''waiver_reason'' SText True),
        plain (col ''resolution_note'' SText True), plain (col ''resolved_at'' SDateTime True),
        named_fk ''fk_quarantine_records_supersedes_quarantine_id'' (fk_col ''supersedes_quarantine_id'' ''quarantine_records'' True),
        fk_col ''corrected_snapshot_id'' ''raw_snapshots'' True],
     om_args = [ArgCheck ''ck_quarantine_revision'' ''revision >= 0'',
        ArgIndex ''ix_quarantine_queue'' [''organization_id'', ''status'', ''created_at'', ''id'']]\<rparr>"

definition quarantine_resolution_model :: orm_model where
  "quarantine_resolution_model = \<lparr>om_table = ''quarantine_resolutions'', om_timestamps = True,
     om_columns = [indexed (fk_col ''organization_id'' ''organizations'' False),
        indexed (fk_col ''quarantine_id'' ''quarantine_records'' False), plain (col ''revision'' SInteger False),
        plain (col ''status'' (SString 30) False), plain (col ''note'' SText False),
        plain (col ''reviewer_id'' SUuid True), plain (col ''recorded_at'' SDateTime False),
        fk_col ''corrected_snapshot_id'' ''raw_snapshots'' True, plain (col ''imported'' SBoolean False)],
     om_args = [ArgUnique ''uq_quarantine_resolution_revision'' [''quarantine_id'', ''revision''],
        ArgCheck ''ck_quarantine_resolution_revision'' ''revision > 0'']\<rparr>"

definition match_rule_set_model :: orm_model where
  "match_rule_set_model = \<lparr>om_table = ''match_rule_sets'', om_timestamps = True,
     om_columns = [indexed (fk_col ''organization_id'' ''organizations'' False), plain (col ''rule_set_key'' (SString 255) False),
        plain (col ''version'' (SString 50) False), plain (col ''entity_type'' (SString 100) False),
        plain (col ''deterministic_rules_json'' SJSON False), plain (col ''probabilistic_config_json'' SJSON False),
        plain (col ''status'' (SString 30) False)],
     om_args = [ArgUnique ''uq_match_ruleset'' [''organization_id'', ''rule_set_key'', ''version'']]\<rparr>"

definition match_candidate_model :: orm_model where
  "match_candidate_model = \<lparr>om_table = ''match_candidates'', om_timestamps = True,
     om_columns = [indexed (fk_col ''organization_id'' ''organizations'' False),
        indexed (fk_col ''rule_set_id'' ''match_rule_sets'' False),
        plain (col ''left_record_key'' (SString 255) False), plain (col ''right_record_key'' (SString 255) False),
        plain (col ''score'' (SNumeric 8 6) True), plain (col ''evidence_json'' SJSON False),
        plain (col ''status'' (SString 30) False), plain (col_default ''revision'' SInteger ''0'')],
     om_args = [ArgCheck ''ck_match_candidate_revision'' ''revision >= 0'',
        ArgIndex ''ix_match_queue'' [''organization_id'', ''status'', ''created_at'', ''id'']]\<rparr>"

definition match_decision_model :: orm_model where
  "match_decision_model = \<lparr>om_table = ''match_decisions'', om_timestamps = True,
     om_columns = [indexed (fk_col ''organization_id'' ''organizations'' False),
        indexed (fk_col ''candidate_id'' ''match_candidates'' False), plain (col ''decision'' (SString 30) False),
        plain (col ''revision'' SInteger False), plain (col ''reason'' SText False),
        plain (col ''reviewer_id'' SUuid False), plain (col ''decided_at'' SDateTime False),
        fk_col ''supersedes_decision_id'' ''match_decisions'' True],
     om_args = [ArgUnique ''uq_match_decision_revision'' [''candidate_id'', ''revision''],
        ArgCheck ''ck_match_decision_revision'' ''revision > 0'']\<rparr>"

definition canonical_entity_version_model :: orm_model where
  "canonical_entity_version_model = \<lparr>om_table = ''canonical_entity_versions'', om_timestamps = True,
     om_columns = [indexed (fk_col ''organization_id'' ''organizations'' False), plain (col ''entity_type'' (SString 100) False),
        indexed (plain (col ''entity_id'' SUuid False)), plain (col ''version_number'' SInteger False),
        plain (col ''payload_json'' SJSON False), plain (col ''valid_from'' SDateTime False),
        plain (col ''valid_to'' SDateTime True)],
     om_args = []\<rparr>"

definition lineage_node_model :: orm_model where
  "lineage_node_model = \<lparr>om_table = ''lineage_nodes'', om_timestamps = True,
     om_columns = [indexed (fk_col ''organization_id'' ''organizations'' False), plain (col ''node_type'' (SString 50) False),
        plain (col ''namespace'' (SString 255) False), plain (col ''name'' (SString 500) False),
        plain (col ''facets_json'' SJSON False)],
     om_args = []\<rparr>"

definition lineage_edge_model :: orm_model where
  "lineage_edge_model = \<lparr>om_table = ''lineage_edges'', om_timestamps = True,
     om_columns = [indexed (fk_col ''organization_id'' ''organizations'' False),
        indexed (fk_col ''from_node_id'' ''lineage_nodes'' False),
        indexed (fk_col ''to_node_id'' ''lineage_nodes'' False), plain (col ''relation_type'' (SString 50) False),
        plain (col ''field_mapping_json'' SJSON False)],
     om_args = []\<rparr>"

definition export_definition_model :: orm_model where
  "export_definition_model = \<lparr>om_table = ''export_definitions'', om_timestamps = True,
     om_columns = [indexed (fk_col ''organization_id'' ''organizations'' False), plain (col ''export_key'' (SString 255) False),
        plain (col ''version'' (SString 50) False), plain (col ''format'' (SString 30) False),
        plain (col ''contract_json'' SJSON False), plain (col ''active'' SBoolean False)],
     om_args = []\<rparr>"

definition export_snapshot_model :: orm_model where
  "export_snapshot_model = \<lparr>om_table = ''export_snapshots'', om_timestamps = True,
     om_columns = [indexed (fk_col ''organization_id'' ''organizations'' False),
        indexed (fk_col ''export_definition_id'' ''export_definitions'' False),
        plain (col ''storage_uri'' (SString 1000) False), plain (col ''checksum_sha256'' (SString 64) False),
        plain (col ''row_count'' SInteger True), plain (col ''published_at'' SDateTime False)],
     om_args = []\<rparr>"

definition audit_event_model :: orm_model where
  "audit_event_model = \<lparr>om_table = ''audit_events'', om_timestamps = False,
     om_columns = [plain (col ''occurred_at'' SDateTime False), indexed (fk_col ''organization_id'' ''organizations'' True),
        plain (col ''actor_id'' SUuid True), plain (col ''action'' (SString 100) False),
        plain (col ''resource_type'' (SString 100) False), plain (col ''resource_id'' (SString 255) False),
        indexed (plain (col ''correlation_id'' (SString 100) True)), plain (col ''details_json'' SJSON False)],
     om_args = []\<rparr>"

definition profile_comparison_model :: orm_model where
  "profile_comparison_model = \<lparr>om_table = ''profile_comparisons'', om_timestamps = True,
     om_columns = [indexed (fk_col ''organization_id'' ''organizations'' False),
        indexed (fk_col ''baseline_profile_id'' ''schema_profiles'' False),
        indexed (fk_col ''current_profile_id'' ''schema_profiles'' False), plain (col ''status'' (SString 30) False),
        plain (col ''comparison_json'' SJSON False)],
     om_args = []\<rparr>"

definition lookup_table_model :: orm_model where
  "lookup_table_model = \<lparr>om_table = ''lookup_tables'', om_timestamps = True,
     om_columns = [indexed (fk_col ''organization_id'' ''organizations'' False), plain (col ''lookup_key'' (SString 255) False),
        plain (col ''version'' (SString 50) False), plain (col ''values_json'' SJSON False),
        plain (col ''status'' (SString 30) False)],
     om_args = [ArgUnique ''uq_lookup_version'' [''organization_id'', ''lookup_key'', ''version'']]\<rparr>"

definition mapping_execution_model :: orm_model where
  "mapping_execution_model = \<lparr>om_table = ''mapping_executions'', om_timestamps = True,
     om_columns = [indexed (fk_col ''organization_id'' ''organizations'' False),
        indexed (fk_col ''raw_snapshot_id'' ''raw_snapshots'' False), plain (col ''mapping_key'' (SString 255) False),
        plain (col ''mapping_version'' (SString 50) False), plain (col ''status'' (SString 30) False),
        plain (col ''dry_run'' SBoolean False), plain (col ''input_count'' SInteger False),
        plain (col ''output_count'' SInteger False), plain (col ''error_count'' SInteger False),
        plain (col ''output_uri'' (SString 1000) True), plain (col ''started_at'' SDateTime False),
        plain (col ''ended_at'' SDateTime True)],
     om_args = []\<rparr>"

definition mapping_error_model :: orm_model where
  "mapping_error_model = \<lparr>om_table = ''mapping_errors'', om_timestamps = True,
     om_columns = [indexed (fk_col ''mapping_execution_id'' ''mapping_executions'' False),
        plain (col ''source_record_key'' (SString 255) False), plain (col ''rule_sequence'' SInteger False),
        plain (col ''target_field'' (SString 255) False), plain (col ''error_code'' (SString 100) False),
        plain (col ''explanation'' SText False), plain (col ''evidence_masked'' SText True)],
     om_args = []\<rparr>"

definition match_evaluation_model :: orm_model where
  "match_evaluation_model = \<lparr>om_table = ''match_evaluations'', om_timestamps = True,
     om_columns = [indexed (fk_col ''organization_id'' ''organizations'' False), plain (col ''rule_set_key'' (SString 255) False),
        plain (col ''rule_set_version'' (SString 50) False), plain (col ''truth_set_name'' (SString 255) False),
        plain (col ''evaluated_at'' SDateTime False), plain (col ''total_records'' SInteger False),
        plain (col ''predicted_links'' SInteger False), plain (col ''true_positives'' SInteger False),
        plain (col ''false_positives'' SInteger False), plain (col ''false_negatives'' SInteger False),
        plain (col ''precision'' (SNumeric 8 6) False), plain (col ''recall'' (SNumeric 8 6) False),
        plain (col ''coverage'' (SNumeric 8 6) False), plain (col ''details_json'' SJSON False)],
     om_args = []\<rparr>"

definition probabilistic_model_model :: orm_model where
  "probabilistic_model_model = \<lparr>om_table = ''probabilistic_models'', om_timestamps = True,
     om_columns = [indexed (fk_col ''organization_id'' ''organizations'' False), plain (col ''model_key'' (SString 255) False),
        plain (col ''version'' (SString 50) False), plain (col ''status'' (SString 30) False),
        plain (col ''comparison_config_json'' SJSON False), plain (col ''parameters_json'' SJSON False),
        plain (col ''review_low'' (SNumeric 8 6) False), plain (col ''auto_match'' (SNumeric 8 6) False),
        plain (col ''trained_on_truth_set'' (SString 255) True), plain (col ''trained_at'' SDateTime True)],
     om_args = [ArgUnique ''uq_prob_model_version'' [''organization_id'', ''model_key'', ''version'']]\<rparr>"

definition probabilistic_run_model :: orm_model where
  "probabilistic_run_model = \<lparr>om_table = ''probabilistic_runs'', om_timestamps = True,
     om_columns = [indexed (fk_col ''organization_id'' ''organizations'' False),
        indexed (fk_col ''model_id'' ''probabilistic_models'' False), plain (col ''status'' (SString 30) False),
        plain (col ''candidate_count'' SInteger False), plain (col ''auto_match_count'' SInteger False),
        plain (col ''review_count'' SInteger False), plain (col ''no_match_count'' SInteger False),
        plain (col ''conflict_count'' SInteger False), plain (col ''metrics_json'' SJSON False),
        plain (col ''started_at'' SDateTime False), plain (col ''ended_at'' SDateTime True)],
     om_args = []\<rparr>"

definition data_mart_snapshot_model :: orm_model where
  "data_mart_snapshot_model = \<lparr>om_table = ''data_mart_snapshots'', om_timestamps = True,
     om_columns = [indexed (fk_col ''organization_id'' ''organizations'' False), plain (col ''mart_key'' (SString 255) False),
        plain (col ''version'' (SString 50) False), plain (col ''storage_uri'' (SString 1000) False),
        plain (col ''checksum_sha256'' (SString 64) False), plain (col ''row_count'' SInteger False),
        plain (col ''dictionary_json'' SJSON False), plain (col ''lineage_json'' SJSON False),
        plain (col ''published_at'' SDateTime False)],
     om_args = [ArgUnique ''uq_mart_snapshot_content'' [''organization_id'', ''mart_key'', ''version'', ''checksum_sha256'']]\<rparr>"

definition asset_run_model :: orm_model where
  "asset_run_model = \<lparr>om_table = ''asset_runs'', om_timestamps = True,
     om_columns = [indexed (fk_col ''organization_id'' ''organizations'' False),
        plain (col ''orchestration_key'' (SString 255) False), indexed (plain (col ''asset_key'' (SString 255) False)),
        plain (col ''partition_key'' (SString 255) True), plain (col ''status'' (SString 30) False),
        plain (col ''attempt_number'' SInteger False), plain (col ''watermark_json'' SJSON False),
        plain (col ''change_hash'' (SString 64) True), fk_col ''backfill_of_run_id'' ''asset_runs'' True,
        plain (col ''started_at'' SDateTime False), plain (col ''ended_at'' SDateTime True),
        plain (col ''failure_code'' (SString 100) True), plain (col ''metadata_json'' SJSON False)],
     om_args = []\<rparr>"

definition retention_policy_model :: orm_model where
  "retention_policy_model = \<lparr>om_table = ''retention_policies'', om_timestamps = True,
     om_columns = [indexed (fk_col ''organization_id'' ''organizations'' False), plain (col ''policy_key'' (SString 255) False),
        plain (col ''raw_days'' SInteger False), plain (col ''quarantine_days'' SInteger False),
        plain (col ''export_days'' SInteger False), plain (col ''audit_days'' SInteger False),
        plain (col ''active'' SBoolean False)],
     om_args = [ArgUnique ''uq_retention_policy'' [''organization_id'', ''policy_key'']]\<rparr>"

text \<open>All classes, as \<^verbatim>\<open>Base.metadata\<close> knows them.\<close>

definition orm_models :: "orm_model list" where
  "orm_models = [organization_model, organization_unit_model, person_model, external_identity_model, role_assignment_model,
     learning_program_model, learning_offering_model, participation_model, experience_event_model,
     assessment_definition_model, assessment_attempt_model, assessment_result_model, competency_definition_model,
     competency_alignment_model, credential_definition_model, credential_award_model, user_model, role_model,
     permission_model, user_organization_model, user_role_model, role_permission_model, source_system_model,
     source_object_model, data_contract_model, ingestion_run_model, raw_snapshot_model, schema_profile_model,
     mapping_set_model, mapping_rule_model, validation_rule_model, validation_result_model, quarantine_record_model,
     quarantine_resolution_model, match_rule_set_model, match_candidate_model, match_decision_model,
     canonical_entity_version_model, lineage_node_model, lineage_edge_model, export_definition_model,
     export_snapshot_model, audit_event_model, profile_comparison_model, lookup_table_model, mapping_execution_model,
     mapping_error_model, match_evaluation_model, probabilistic_model_model, probabilistic_run_model,
     data_mart_snapshot_model, asset_run_model, retention_policy_model]"

end
