(* ===== verification/Baseline_Tables.thy ===== *)
theory Baseline_Tables
  imports Baseline_Schema Model_Schema
begin

text \<open>
  The tables the baseline creates and, but for the three a later revision changes, their
  agreement with the ORM classes. Long lists of names are compared by evaluation.
\<close>

section \<open>The tables of the baseline\<close>

fun index_of_op :: "ddl \<Rightarrow> sql_index" where
  "index_of_op (CreateIndex i n cs u) = \<lparr>i_name = i, i_columns = cs, i_unique = u\<rparr>"
| "index_of_op x = \<lparr>i_name = [], i_columns = [], i_unique = False\<rparr>"

fun table_of_ops :: "ddl list \<Rightarrow> sql_table" where
  "table_of_ops (CreateTable n cs ks # is) = \<lparr>t_name = n, t_columns = cs, t_constraints = ks, t_indexes = map index_of_op is\<rparr>"
| "table_of_ops x = \<lparr>t_name = [], t_columns = [], t_constraints = [], t_indexes = []\<rparr>"

definition baseline_tables :: catalog where
  "baseline_tables = map table_of_ops baseline_ops"

lemmas baseline_defs =
  base_organizations_def base_permissions_def base_roles_def base_users_def base_assessment_definitions_def
  base_asset_runs_def base_audit_events_def base_canonical_entity_versions_def base_competency_definitions_def
  base_credential_definitions_def base_data_mart_snapshots_def base_export_definitions_def
  base_learning_programs_def base_lineage_nodes_def base_lookup_tables_def base_mapping_sets_def
  base_match_evaluations_def base_match_rule_sets_def base_organization_units_def base_persons_def
  base_probabilistic_models_def base_retention_policies_def base_role_permissions_def base_source_systems_def
  base_user_organizations_def base_user_roles_def base_validation_rules_def base_assessment_attempts_def
  base_competency_alignments_def base_credential_awards_def base_export_snapshots_def base_external_identities_def
  base_ingestion_runs_def base_learning_offerings_def base_lineage_edges_def base_mapping_rules_def
  base_match_candidates_def base_probabilistic_runs_def base_role_assignments_def base_source_objects_def
  base_assessment_results_def base_data_contracts_def base_experience_events_def base_match_decisions_def
  base_participations_def base_raw_snapshots_def base_validation_results_def base_mapping_executions_def
  base_quarantine_records_def base_schema_profiles_def base_mapping_errors_def base_profile_comparisons_def

text \<open>
  Names with different sums are different: the sum of a name's prefix sums over the low bits of
  its characters, small enough to compare a hundred names by evaluation.
\<close>

fun low_bits :: "char \<Rightarrow> int" where
  "low_bits (Char b0 b1 b2 b3 b4 b5 b6 b7) = (if b0 then 1 else 0) + (if b1 then 2 else 0) + (if b2 then 4 else 0)
     + (if b3 then 8 else 0) + (if b4 then 16 else 0)"

fun name_sum :: "int \<Rightarrow> int \<Rightarrow> string \<Rightarrow> int" where
  "name_sum a b [] = b"
| "name_sum a b (c # cs) = (let a' = low_bits c + a in name_sum a' (a' + b) cs)"

lemma distinct_name_sums: "distinct (map (name_sum 0 0) ns) \<Longrightarrow> distinct ns"
  by (simp add: distinct_map)

text \<open>The indexes the later revisions create.\<close>

definition new_indexes :: "string list" where
  "new_indexes = [''ix_match_queue'', ''ix_quarantine_queue'', ''ix_quarantine_resolutions_organization_id'',
     ''ix_quarantine_resolutions_quarantine_id'']"

lemma baseline_created: "list_all (\<lambda>ops. create_ops (table_of_ops ops) = ops) baseline_ops"
  by (simp add: baseline_ops_def baseline_defs create_ops_def)

lemma baseline_sound: "list_all (\<lambda>ops. sound_table (table_of_ops ops)) baseline_ops"
  unfolding baseline_ops_def list.pred_inject by (intro conjI; code_simp)

lemma baseline_names:
  "table_names baseline_tables = [''organizations'', ''permissions'', ''roles'', ''users'', ''assessment_definitions'', ''asset_runs'',
     ''audit_events'', ''canonical_entity_versions'', ''competency_definitions'', ''credential_definitions'',
     ''data_mart_snapshots'', ''export_definitions'', ''learning_programs'', ''lineage_nodes'', ''lookup_tables'',
     ''mapping_sets'', ''match_evaluations'', ''match_rule_sets'', ''organization_units'', ''persons'',
     ''probabilistic_models'', ''retention_policies'', ''role_permissions'', ''source_systems'',
     ''user_organizations'', ''user_roles'', ''validation_rules'', ''assessment_attempts'',
     ''competency_alignments'', ''credential_awards'', ''export_snapshots'', ''external_identities'',
     ''ingestion_runs'', ''learning_offerings'', ''lineage_edges'', ''mapping_rules'', ''match_candidates'',
     ''probabilistic_runs'', ''role_assignments'', ''source_objects'', ''assessment_results'', ''data_contracts'',
     ''experience_events'', ''match_decisions'', ''participations'', ''raw_snapshots'', ''validation_results'',
     ''mapping_executions'', ''quarantine_records'', ''schema_profiles'', ''mapping_errors'',
     ''profile_comparisons'']"
  by (simp add: baseline_tables_def table_names_def baseline_ops_def baseline_defs)

lemma baseline_name_sums: "distinct (map (name_sum 0 0) (table_names baseline_tables))"
  unfolding baseline_names by code_simp

lemma baseline_names_distinct: "distinct (table_names baseline_tables)"
  by (rule distinct_name_sums [OF baseline_name_sums])

lemma baseline_indexes_distinct: "distinct (index_names baseline_tables @ new_indexes)"
  by (rule distinct_name_sums) code_simp

lemma baseline_refs: "ordered_refs [] (map refs_of baseline_tables)"
  by code_simp

lemma run_baseline: "run_ddl d (concat baseline_ops) [] = Inr baseline_tables"
proof -
  have "map create_ops baseline_tables = baseline_ops"
    using baseline_created by (auto simp: baseline_tables_def list_all_iff intro!: map_idI)
  moreover have "list_all sound_table baseline_tables"
    using baseline_sound by (simp add: baseline_tables_def list_all_iff)
  ultimately show ?thesis
    using run_create_all [of baseline_tables "[]" d] baseline_refs baseline_names_distinct baseline_indexes_distinct
    by (simp add: table_names_def)
qed

text \<open>A table is found under its name.\<close>

lemma find_baseline: "ops \<in> set baseline_ops \<Longrightarrow> t_name (table_of_ops ops) = n \<Longrightarrow>
    find_table baseline_tables n = Some (table_of_ops ops)"
  using find_table_unique [OF baseline_names_distinct, of "table_of_ops ops"] by (auto simp: baseline_tables_def)

section \<open>Agreement with the ORM classes\<close>

definition model_pairs :: "(ddl list \<times> orm_model) list" where
  "model_pairs = [(base_organizations, organization_model), (base_permissions, permission_model), (base_roles, role_model),
     (base_users, user_model), (base_assessment_definitions, assessment_definition_model),
     (base_asset_runs, asset_run_model), (base_audit_events, audit_event_model),
     (base_canonical_entity_versions, canonical_entity_version_model),
     (base_competency_definitions, competency_definition_model),
     (base_credential_definitions, credential_definition_model),
     (base_data_mart_snapshots, data_mart_snapshot_model), (base_export_definitions, export_definition_model),
     (base_learning_programs, learning_program_model), (base_lineage_nodes, lineage_node_model),
     (base_lookup_tables, lookup_table_model), (base_mapping_sets, mapping_set_model),
     (base_match_evaluations, match_evaluation_model), (base_match_rule_sets, match_rule_set_model),
     (base_organization_units, organization_unit_model), (base_persons, person_model),
     (base_probabilistic_models, probabilistic_model_model), (base_retention_policies, retention_policy_model),
     (base_role_permissions, role_permission_model), (base_source_systems, source_system_model),
     (base_user_organizations, user_organization_model), (base_user_roles, user_role_model),
     (base_validation_rules, validation_rule_model), (base_assessment_attempts, assessment_attempt_model),
     (base_competency_alignments, competency_alignment_model), (base_credential_awards, credential_award_model),
     (base_export_snapshots, export_snapshot_model), (base_external_identities, external_identity_model),
     (base_ingestion_runs, ingestion_run_model), (base_learning_offerings, learning_offering_model),
     (base_lineage_edges, lineage_edge_model), (base_mapping_rules, mapping_rule_model),
     (base_probabilistic_runs, probabilistic_run_model), (base_role_assignments, role_assignment_model),
     (base_source_objects, source_object_model), (base_assessment_results, assessment_result_model),
     (base_data_contracts, data_contract_model), (base_experience_events, experience_event_model),
     (base_participations, participation_model), (base_raw_snapshots, raw_snapshot_model),
     (base_validation_results, validation_result_model), (base_mapping_executions, mapping_execution_model),
     (base_schema_profiles, schema_profile_model), (base_mapping_errors, mapping_error_model),
     (base_profile_comparisons, profile_comparison_model)]"

text \<open>The columns even come in the same order, which saves comparing them as sets.\<close>

definition alike :: "sql_table \<Rightarrow> sql_table \<Rightarrow> bool" where
  "alike t u = (t_name t = t_name u \<and> t_columns t = t_columns u
     \<and> set (t_constraints t) = set (t_constraints u) \<and> set (t_indexes t) = set (t_indexes u))"

lemma alike_same: "alike t u \<Longrightarrow> same_table t u"
  by (simp add: alike_def same_table_def)

lemma model_pairs_alike: "list_all (\<lambda>(ops, m). alike (table_of_ops ops) (table_of_model m)) model_pairs"
  unfolding model_pairs_def list.pred_inject prod.case by (intro conjI; code_simp)

lemma model_pairs_same: "list_all (\<lambda>(ops, m). same_table (table_of_ops ops) (table_of_model m)) model_pairs"
  using model_pairs_alike by (auto simp: list_all_iff intro: alike_same)

lemma model_pairs_baseline:
  "set baseline_ops = fst ` set model_pairs \<union> {base_match_candidates, base_match_decisions, base_quarantine_records}"
  unfolding model_pairs_def baseline_ops_def by (simp only: list.set image_insert image_empty fst_conv Un_insert_right) blast

lemma model_pairs_models:
  "set orm_models = snd ` set model_pairs
     \<union> {match_candidate_model, match_decision_model, quarantine_record_model, quarantine_resolution_model}"
  unfolding model_pairs_def orm_models_def by (simp only: list.set image_insert image_empty snd_conv Un_insert_right) blast

end
