(* ===== verification/Migrations.thy ===== *)
theory Migrations
  imports Baseline_Schema Model_Schema Match_Service Validation_Service
begin

text \<open>
  The revisions of \<^verbatim>\<open>migrations/versions/\<close>: for each file its \<^verbatim>\<open>upgrade\<close> and \<^verbatim>\<open>downgrade\<close> on a
  catalogue, and for the last two also on the rows of the tables they fill. The lemmas show
  that a fresh database ends at the tables of the ORM classes on both dialects, that it can be
  taken back to nothing, and what the two data migrations make of old rows.

  An upgrade reads the catalogue once through the inspector, before its first change to the
  table it asks about. A batch on SQLite, which copies the table, has the effect of the
  separate statements.
\<close>

section \<open>Baseline\<close>

definition upgrade_0001 :: "dialect \<Rightarrow> catalog \<Rightarrow> catalog res" where
  "upgrade_0001 d cat = run_ddl d (concat baseline_ops) cat"

definition downgrade_0001 :: "dialect \<Rightarrow> catalog \<Rightarrow> catalog res" where
  "downgrade_0001 d cat =
     run_ddl d (map DropTable (filter (\<lambda>n. n \<in> set (table_names cat)) baseline_drop_order)) cat"

section \<open>Ingestion metadata\<close>

definition add_missing_columns :: "string \<Rightarrow> sql_column list \<Rightarrow> catalog \<Rightarrow> ddl list" where
  "add_missing_columns n cols cat = map (AddColumn n) (filter (\<lambda>c. c_name c \<notin> set (get_columns cat n)) cols)"

definition add_missing_constraint :: "(sql_constraint \<Rightarrow> bool) \<Rightarrow> string \<Rightarrow> sql_constraint \<Rightarrow> catalog \<Rightarrow> ddl list" where
  "add_missing_constraint P n k cat =
     (if constraint_name k \<in> set (constraint_names P cat n) then [] else [AddConstraint n k])"

definition additions_0002 :: "sql_column list" where
  "additions_0002 = [col ''resume_from_run_id'' SUuid True, col_default ''attempt_number'' SInteger ''1'',
     col ''failure_code'' (SString 100) True, col ''failure_summary'' (SString 500) True]"

definition upgrade_0002 :: "dialect \<Rightarrow> catalog \<Rightarrow> catalog res" where
  "upgrade_0002 d cat = run_ddl d
     (add_missing_columns ''ingestion_runs'' additions_0002 cat
      @ (if d \<noteq> SQLite
         then add_missing_constraint is_foreign_key ''ingestion_runs''
           (ForeignKey ''fk_ingestion_runs_resume_from_run_id_ingestion_runs'' [''resume_from_run_id'']
              ''ingestion_runs'' [''id'']) cat
         else [])
      @ add_missing_constraint is_unique ''raw_snapshots''
          (Unique ''uq_snapshot_content'' [''source_object_id'', ''checksum_sha256'']) cat) cat"

definition downgrade_0002 :: "dialect \<Rightarrow> catalog \<Rightarrow> catalog res" where
  "downgrade_0002 d cat = (if d = SQLite then Inr cat else run_ddl d
     [DropConstraint ''uq_snapshot_content'' ''raw_snapshots'',
      DropConstraint ''fk_ingestion_runs_resume_from_run_id_ingestion_runs'' ''ingestion_runs'',
      DropColumn ''ingestion_runs'' ''failure_summary'', DropColumn ''ingestion_runs'' ''failure_code'',
      DropColumn ''ingestion_runs'' ''attempt_number'', DropColumn ''ingestion_runs'' ''resume_from_run_id''] cat)"

section \<open>Processing and operations metadata\<close>

text \<open>\<^verbatim>\<open>Base.metadata.tables[name].create(bind, checkfirst=True)\<close> for the tables that are missing.\<close>

definition metadata_table :: "string \<Rightarrow> sql_table res" where
  "metadata_table n = (case find (\<lambda>m. om_table m = n) orm_models of
       None \<Rightarrow> Inl (KeyError n) | Some m \<Rightarrow> Inr (table_of_model m))"

definition create_missing :: "dialect \<Rightarrow> string list \<Rightarrow> catalog \<Rightarrow> catalog res" where
  "create_missing d names cat = res_fold (\<lambda>n c. if n \<in> set (table_names cat) then Inr c
     else and_then (metadata_table n) (\<lambda>t. run_ddl d (create_ops t) c)) names cat"

definition new_tables_0003 :: "string list" where
  "new_tables_0003 = [''profile_comparisons'', ''lookup_tables'', ''mapping_executions'', ''mapping_errors'',
     ''match_evaluations'']"

definition additions_0003 :: "sql_column list" where
  "additions_0003 = [col ''waiver_reason'' SText True, col ''resolution_note'' SText True,
     col ''resolved_at'' SDateTime True, col ''supersedes_quarantine_id'' SUuid True,
     col ''corrected_snapshot_id'' SUuid True]"

definition upgrade_0003 :: "dialect \<Rightarrow> catalog \<Rightarrow> catalog res" where
  "upgrade_0003 d cat = and_then (create_missing d new_tables_0003 cat) (\<lambda>c. run_ddl d
     (add_missing_columns ''quarantine_records'' additions_0003 c
      @ (if d \<noteq> SQLite
         then add_missing_constraint is_foreign_key ''quarantine_records''
             (ForeignKey ''fk_quarantine_records_supersedes_quarantine_id'' [''supersedes_quarantine_id'']
                ''quarantine_records'' [''id'']) c
           @ add_missing_constraint is_foreign_key ''quarantine_records''
             (ForeignKey ''fk_quarantine_records_corrected_snapshot_id_raw_snapshots'' [''corrected_snapshot_id'']
                ''raw_snapshots'' [''id'']) c
         else [])) c)"

definition downgrade_0003 :: "dialect \<Rightarrow> catalog \<Rightarrow> catalog res" where
  "downgrade_0003 d cat = (if d = SQLite then Inr cat else run_ddl d
     ([DropConstraint ''fk_quarantine_records_corrected_snapshot_id_raw_snapshots'' ''quarantine_records'',
       DropConstraint ''fk_quarantine_records_supersedes_quarantine_id'' ''quarantine_records'']
      @ map (DropColumn ''quarantine_records'')
          [''corrected_snapshot_id'', ''supersedes_quarantine_id'', ''resolved_at'', ''resolution_note'', ''waiver_reason'']
      @ map DropTable (rev new_tables_0003)) cat)"

definition new_tables_0004 :: "string list" where
  "new_tables_0004 = [''probabilistic_models'', ''probabilistic_runs'', ''data_mart_snapshots'', ''asset_runs'',
     ''retention_policies'']"

definition upgrade_0004 :: "dialect \<Rightarrow> catalog \<Rightarrow> catalog res" where
  "upgrade_0004 d cat = create_missing d new_tables_0004 cat"

definition downgrade_0004 :: "dialect \<Rightarrow> catalog \<Rightarrow> catalog res" where
  "downgrade_0004 d cat = (if d = SQLite then Inr cat else run_ddl d (map DropTable (rev new_tables_0004)) cat)"

section \<open>Match review revisions\<close>

text \<open>
  \<^verbatim>\<open>ROW_NUMBER() OVER (PARTITION BY candidate_id ORDER BY decided_at, id)\<close>. A column the
  catalogue does not have reads as 0, the default it is added with.
\<close>

definition decision_order :: "match_decision list \<Rightarrow> uuid \<Rightarrow> match_decision list" where
  "decision_order ds i = sort_key md_decided_at (sort_key md_id (filter (\<lambda>d. md_candidate_id d = i) ds))"

definition row_number :: "match_decision list \<Rightarrow> match_decision \<Rightarrow> int" where
  "row_number ds d = int (length (takeWhile (\<lambda>x. md_id x \<noteq> md_id d) (decision_order ds (md_candidate_id d)))) + 1"

definition rank_decisions :: "database \<Rightarrow> database" where
  "rank_decisions db = db\<lparr>db_match_decisions :=
     map (\<lambda>d. d\<lparr>md_revision := row_number (db_match_decisions db) d\<rparr>) (db_match_decisions db)\<rparr>"

definition count_decisions :: "database \<Rightarrow> database" where
  "count_decisions db = db\<lparr>db_match_candidates :=
     map (\<lambda>c. c\<lparr>mcand_revision := int (length (filter (\<lambda>d. md_candidate_id d = mcand_id c) (db_match_decisions db)))\<rparr>)
       (db_match_candidates db)\<rparr>"

text \<open>The checks the new constraints make of the rows that are there.\<close>

definition revisions_valid :: "database \<Rightarrow> bool" where
  "revisions_valid db = (list_all (\<lambda>c. 0 \<le> mcand_revision c) (db_match_candidates db)
     \<and> list_all (\<lambda>d. 0 < md_revision d) (db_match_decisions db)
     \<and> distinct (map (\<lambda>d. (md_candidate_id d, md_revision d)) (db_match_decisions db)))"

definition columns_0005 :: "ddl list" where
  "columns_0005 = [AddColumn ''match_candidates'' (col_default ''revision'' SInteger ''0''),
     AddColumn ''match_decisions'' (col_default ''revision'' SInteger ''0'')]"

definition constraints_0005 :: "ddl list" where
  "constraints_0005 = [AddConstraint ''match_candidates'' (Check ''ck_match_candidate_revision'' ''revision >= 0''),
     CreateIndex ''ix_match_queue'' ''match_candidates'' [''organization_id'', ''status'', ''created_at'', ''id''] False,
     SetDefault ''match_decisions'' ''revision'' None,
     AddConstraint ''match_decisions'' (Check ''ck_match_decision_revision'' ''revision > 0''),
     AddConstraint ''match_decisions'' (Unique ''uq_match_decision_revision'' [''candidate_id'', ''revision''])]"

definition upgrade_0005 :: "dialect \<Rightarrow> catalog \<times> database \<Rightarrow> (catalog \<times> database) res" where
  "upgrade_0005 d = (\<lambda>(cat, db). and_then (run_ddl d columns_0005 cat) (\<lambda>c.
     let db' = count_decisions (rank_decisions db) in
     if \<not> revisions_valid db' then sql_error ''IntegrityError''
     else and_then (run_ddl d constraints_0005 c) (\<lambda>c'. Inr (c', db'))))"

definition downgrade_0005 :: "dialect \<Rightarrow> catalog \<times> database \<Rightarrow> (catalog \<times> database) res" where
  "downgrade_0005 d = (\<lambda>(cat, db). and_then (run_ddl d
       [DropConstraint ''uq_match_decision_revision'' ''match_decisions'',
        DropConstraint ''ck_match_decision_revision'' ''match_decisions'',
        DropColumn ''match_decisions'' ''revision'',
        DropIndex ''ix_match_queue'' ''match_candidates'',
        DropConstraint ''ck_match_candidate_revision'' ''match_candidates'',
        DropColumn ''match_candidates'' ''revision''] cat) (\<lambda>c. Inr (c,
     db\<lparr>db_match_decisions := map (\<lambda>d. d\<lparr>md_revision := 0\<rparr>) (db_match_decisions db),
        db_match_candidates := map (\<lambda>c. c\<lparr>mcand_revision := 0\<rparr>) (db_match_candidates db)\<rparr>)))"

section \<open>Exception desk\<close>

definition quarantine_resolutions_table :: sql_table where
  "quarantine_resolutions_table = \<lparr>t_name = ''quarantine_resolutions'',
     t_columns = [col ''id'' SUuid False, now_col ''created_at'', now_col ''updated_at'', col ''organization_id'' SUuid False,
       col ''quarantine_id'' SUuid False, col ''revision'' SInteger False, col ''status'' (SString 30) False,
       col ''note'' SText False, col ''reviewer_id'' SUuid True, col ''recorded_at'' SDateTime False,
       col ''corrected_snapshot_id'' SUuid True, col ''imported'' SBoolean False],
     t_constraints = [PrimaryKey ''pk_quarantine_resolutions'' [''id''],
       ForeignKey ''fk_quarantine_resolutions_organization_id_organizations'' [''organization_id''] ''organizations'' [''id''],
       ForeignKey ''fk_quarantine_resolutions_quarantine_id_quarantine_records'' [''quarantine_id''] ''quarantine_records'' [''id''],
       ForeignKey ''fk_quarantine_resolutions_corrected_snapshot_id_raw_snapshots'' [''corrected_snapshot_id''] ''raw_snapshots'' [''id''],
       Unique ''uq_quarantine_resolution_revision'' [''quarantine_id'', ''revision''],
       Check ''ck_quarantine_resolution_revision'' ''revision > 0''],
     t_indexes = [\<lparr>i_name = ''ix_quarantine_resolutions_organization_id'', i_columns = [''organization_id''], i_unique = False\<rparr>,
       \<lparr>i_name = ''ix_quarantine_resolutions_quarantine_id'', i_columns = [''quarantine_id''], i_unique = False\<rparr>]\<rparr>"

definition ops_0006 :: "ddl list" where
  "ops_0006 = [AddColumn ''quarantine_records'' (col_default ''revision'' SInteger ''0''),
     AddConstraint ''quarantine_records'' (Check ''ck_quarantine_revision'' ''revision >= 0''),
     CreateIndex ''ix_quarantine_queue'' ''quarantine_records'' [''organization_id'', ''status'', ''created_at'', ''id''] False]
     @ create_ops quarantine_resolutions_table"

text \<open>
  \<^verbatim>\<open>resolution_note IS NOT NULL AND TRIM(resolution_note) <> ''\<close>: SQL's \<^verbatim>\<open>TRIM\<close> removes blanks
  only. The column \<^verbatim>\<open>updated_at\<close>, which the rows of the model do not carry, is an argument.
\<close>

definition has_note :: "quarantine_record \<Rightarrow> bool" where
  "has_note r = (case qr_resolution_note r of None \<Rightarrow> False | Some n \<Rightarrow> list_ex (\<lambda>c. c \<noteq> CHR '' '') n)"

definition imported_resolution :: "(uuid \<Rightarrow> int) \<Rightarrow> quarantine_record \<Rightarrow> quarantine_resolution" where
  "imported_resolution updated_at r = \<lparr>qs_id = qr_id r, qs_created_at = qr_created_at r,
     qs_organization_id = qr_organization_id r, qs_quarantine_id = qr_id r, qs_revision = 1,
     qs_status = qr_status r, qs_note = (case qr_resolution_note r of None \<Rightarrow> [] | Some n \<Rightarrow> n),
     qs_reviewer_id = qr_reviewer_id r,
     qs_recorded_at = (case qr_resolved_at r of Some t \<Rightarrow> t | None \<Rightarrow> updated_at (qr_id r)),
     qs_corrected_snapshot_id = qr_corrected_snapshot_id r, qs_imported = True\<rparr>"

definition import_resolutions :: "(uuid \<Rightarrow> int) \<Rightarrow> database \<Rightarrow> database" where
  "import_resolutions updated_at db = (let rs = map (imported_resolution updated_at) (filter has_note (db_quarantine_records db)) in
     db\<lparr>db_quarantine_resolutions := rs,
        db_quarantine_records := map (\<lambda>r. r\<lparr>qr_revision := (if qr_id r \<in> set (map qs_quarantine_id rs) then 1 else 0)\<rparr>)
          (db_quarantine_records db)\<rparr>)"

definition upgrade_0006 :: "dialect \<Rightarrow> (uuid \<Rightarrow> int) \<Rightarrow> catalog \<times> database \<Rightarrow> (catalog \<times> database) res" where
  "upgrade_0006 d updated_at = (\<lambda>(cat, db). and_then (run_ddl d ops_0006 cat) (\<lambda>c. Inr (c, import_resolutions updated_at db)))"

definition downgrade_0006 :: "dialect \<Rightarrow> catalog \<times> database \<Rightarrow> (catalog \<times> database) res" where
  "downgrade_0006 d = (\<lambda>(cat, db).
     if list_ex (\<lambda>r. \<not> qs_imported r) (db_quarantine_resolutions db)
     then Inl (RuntimeError ''Downgrade would discard resolution history. Restore a pre-upgrade backup instead.'')
     else and_then (run_ddl d
       [DropTable ''quarantine_resolutions'', DropIndex ''ix_quarantine_queue'' ''quarantine_records'',
        DropConstraint ''ck_quarantine_revision'' ''quarantine_records'', DropColumn ''quarantine_records'' ''revision''] cat)
       (\<lambda>c. Inr (c, db\<lparr>db_quarantine_resolutions := [],
          db_quarantine_records := map (\<lambda>r. r\<lparr>qr_revision := 0\<rparr>) (db_quarantine_records db)\<rparr>)))"

section \<open>The chain of revisions\<close>

definition upgrade_to_0004 :: "dialect \<Rightarrow> catalog \<Rightarrow> catalog res" where
  "upgrade_to_0004 d cat = and_then (upgrade_0001 d cat) (\<lambda>c. and_then (upgrade_0002 d c) (\<lambda>c.
     and_then (upgrade_0003 d c) (upgrade_0004 d)))"

definition upgrade_head :: "dialect \<Rightarrow> (uuid \<Rightarrow> int) \<Rightarrow> catalog \<times> database \<Rightarrow> (catalog \<times> database) res" where
  "upgrade_head d updated_at = (\<lambda>(cat, db). and_then (upgrade_to_0004 d cat) (\<lambda>c.
     and_then (upgrade_0005 d (c, db)) (upgrade_0006 d updated_at)))"

definition downgrade_from_0004 :: "dialect \<Rightarrow> catalog \<Rightarrow> catalog res" where
  "downgrade_from_0004 d cat = and_then (downgrade_0004 d cat) (\<lambda>c. and_then (downgrade_0003 d c) (\<lambda>c.
     and_then (downgrade_0002 d c) (downgrade_0001 d)))"

definition downgrade_base :: "dialect \<Rightarrow> catalog \<times> database \<Rightarrow> catalog res" where
  "downgrade_base d s = and_then (downgrade_0006 d s) (\<lambda>s. and_then (downgrade_0005 d s) (\<lambda>(c, db). downgrade_from_0004 d c))"

end
