(* ===== verification/Migration_Props.thy ===== *)
theory Migration_Props
  imports Baseline_Tables Migrations
begin

text \<open>
  What the upgrades do to the schema: the catalogue of a fresh database after each of them,
  and its agreement with the ORM classes.
\<close>

section \<open>The tables the later revisions read and change\<close>

definition cand_base :: sql_table where "cand_base = table_of_ops base_match_candidates"
definition dec_base :: sql_table where "dec_base = table_of_ops base_match_decisions"
definition quar_base :: sql_table where "quar_base = table_of_ops base_quarantine_records"
definition runs_base :: sql_table where "runs_base = table_of_ops base_ingestion_runs"
definition snap_base :: sql_table where "snap_base = table_of_ops base_raw_snapshots"

lemmas base_table_defs = cand_base_def dec_base_def quar_base_def runs_base_def snap_base_def
  base_match_candidates_def base_match_decisions_def base_quarantine_records_def base_ingestion_runs_def
  base_raw_snapshots_def

lemma base_names [simp]:
  "t_name cand_base = ''match_candidates''" "t_name dec_base = ''match_decisions''"
  "t_name quar_base = ''quarantine_records''" "t_name runs_base = ''ingestion_runs''"
  "t_name snap_base = ''raw_snapshots''"
  by (simp_all add: base_table_defs)

lemma base_members:
  "base_match_candidates \<in> set baseline_ops" "base_match_decisions \<in> set baseline_ops"
  "base_quarantine_records \<in> set baseline_ops" "base_ingestion_runs \<in> set baseline_ops"
  "base_raw_snapshots \<in> set baseline_ops"
  by (simp_all add: baseline_ops_def)

lemma find_base [simp]:
  "find_table baseline_tables ''match_candidates'' = Some cand_base"
  "find_table baseline_tables ''match_decisions'' = Some dec_base"
  "find_table baseline_tables ''quarantine_records'' = Some quar_base"
  "find_table baseline_tables ''ingestion_runs'' = Some runs_base"
  "find_table baseline_tables ''raw_snapshots'' = Some snap_base"
  using base_names base_members unfolding cand_base_def dec_base_def quar_base_def runs_base_def snap_base_def
  by (auto intro: find_baseline)

lemma base_columns:
  "map c_name (t_columns cand_base) = [''organization_id'', ''rule_set_id'', ''left_record_key'', ''right_record_key'',
     ''score'', ''evidence_json'', ''status'', ''id'', ''created_at'', ''updated_at'']"
  "map c_name (t_columns dec_base) = [''organization_id'', ''candidate_id'', ''decision'', ''reason'', ''reviewer_id'',
     ''decided_at'', ''supersedes_decision_id'', ''id'', ''created_at'', ''updated_at'']"
  "map c_name (t_columns quar_base) = [''organization_id'', ''ingestion_run_id'', ''validation_rule_id'',
     ''raw_snapshot_id'', ''source_record_key'', ''field_name'', ''evidence_masked'', ''explanation'', ''status'',
     ''reviewer_id'', ''waiver_reason'', ''resolution_note'', ''resolved_at'', ''supersedes_quarantine_id'',
     ''corrected_snapshot_id'', ''id'', ''created_at'', ''updated_at'']"
  by (simp_all add: base_table_defs col_def col_default_def now_col_def)

lemma base_sound: "sound_table cand_base" "sound_table dec_base" "sound_table quar_base" "sound_table runs_base"
  "sound_table snap_base"
  using baseline_sound base_members
  by (auto simp: list_all_iff cand_base_def dec_base_def quar_base_def runs_base_def snap_base_def)

section \<open>The first four revisions\<close>

lemma no_missing_columns:
  "find_table cat n = Some t \<Longrightarrow> list_all (\<lambda>c. c_name c \<in> set (map c_name (t_columns t))) cols
     \<Longrightarrow> add_missing_columns n cols cat = []"
  by (auto simp: add_missing_columns_def get_columns_def column_names_def list_all_iff filter_empty_conv)

lemma no_missing_constraint:
  "find_table cat n = Some t \<Longrightarrow> constraint_name k \<in> set (map constraint_name (filter P (t_constraints t)))
     \<Longrightarrow> add_missing_constraint P n k cat = []"
  by (simp add: add_missing_constraint_def constraint_names_def)

lemma nothing_missing: "set ns \<subseteq> set (table_names cat) \<Longrightarrow> create_missing d ns cat = Inr cat"
proof -
  have "set ns \<subseteq> set (table_names cat) \<Longrightarrow>
    res_fold (\<lambda>n c. if n \<in> set (table_names cat) then Inr c
     else and_then (metadata_table n) (\<lambda>t. run_ddl d (create_ops t) c)) ns c = Inr c" for c
    by (induction ns) auto
  then show "set ns \<subseteq> set (table_names cat) \<Longrightarrow> create_missing d ns cat = Inr cat" by (simp add: create_missing_def)
qed

lemma runs_complete:
  "list_all (\<lambda>c. c_name c \<in> set (map c_name (t_columns runs_base))) additions_0002"
  "''fk_ingestion_runs_resume_from_run_id_ingestion_runs''
     \<in> set (map constraint_name (filter is_foreign_key (t_constraints runs_base)))"
  "''uq_snapshot_content'' \<in> set (map constraint_name (filter is_unique (t_constraints snap_base)))"
  by code_simp+

lemma quar_complete:
  "list_all (\<lambda>c. c_name c \<in> set (map c_name (t_columns quar_base))) additions_0003"
  "''fk_quarantine_records_supersedes_quarantine_id''
     \<in> set (map constraint_name (filter is_foreign_key (t_constraints quar_base)))"
  "''fk_quarantine_records_corrected_snapshot_id_raw_snapshots''
     \<in> set (map constraint_name (filter is_foreign_key (t_constraints quar_base)))"
  by code_simp+

lemma fresh_to_0004: "upgrade_to_0004 d [] = Inr baseline_tables"
proof -
  have "upgrade_0001 d [] = Inr baseline_tables" by (simp add: upgrade_0001_def run_baseline)
  moreover have "upgrade_0002 d baseline_tables = Inr baseline_tables"
    using runs_complete by (simp add: upgrade_0002_def no_missing_columns no_missing_constraint del: set_map)
  moreover have t: "set new_tables_0003 \<subseteq> set (table_names baseline_tables)"
    "set new_tables_0004 \<subseteq> set (table_names baseline_tables)"
    by (simp_all add: baseline_names new_tables_0003_def new_tables_0004_def)
  moreover have "upgrade_0003 d baseline_tables = Inr baseline_tables"
    using quar_complete t
    by (simp add: upgrade_0003_def no_missing_columns no_missing_constraint nothing_missing and_then_def del: set_map)
  ultimately show ?thesis by (simp add: upgrade_to_0004_def upgrade_0004_def and_then_def nothing_missing)
qed

section \<open>The last two revisions\<close>

definition cand_head :: sql_table where
  "cand_head = cand_base\<lparr>t_columns := t_columns cand_base @ [col_default ''revision'' SInteger ''0''],
     t_constraints := t_constraints cand_base @ [Check ''ck_match_candidate_revision'' ''revision >= 0''],
     t_indexes := t_indexes cand_base @ [\<lparr>i_name = ''ix_match_queue'',
       i_columns = [''organization_id'', ''status'', ''created_at'', ''id''], i_unique = False\<rparr>]\<rparr>"

definition dec_head :: sql_table where
  "dec_head = dec_base\<lparr>t_columns := t_columns dec_base @ [col ''revision'' SInteger False],
     t_constraints := t_constraints dec_base @ [Check ''ck_match_decision_revision'' ''revision > 0'',
       Unique ''uq_match_decision_revision'' [''candidate_id'', ''revision'']]\<rparr>"

definition quar_head :: sql_table where
  "quar_head = quar_base\<lparr>t_columns := t_columns quar_base @ [col_default ''revision'' SInteger ''0''],
     t_constraints := t_constraints quar_base @ [Check ''ck_quarantine_revision'' ''revision >= 0''],
     t_indexes := t_indexes quar_base @ [\<lparr>i_name = ''ix_quarantine_queue'',
       i_columns = [''organization_id'', ''status'', ''created_at'', ''id''], i_unique = False\<rparr>]\<rparr>"

lemma head_names [simp]: "t_name cand_head = ''match_candidates''" "t_name dec_head = ''match_decisions''"
  "t_name quar_head = ''quarantine_records''"
  by (simp_all add: cand_head_def dec_head_def quar_head_def)

definition review_tables :: catalog where
  "review_tables = put_table ''match_decisions'' dec_head (put_table ''match_candidates'' cand_head baseline_tables)"

definition head_tables :: catalog where
  "head_tables = put_table ''quarantine_records'' quar_head review_tables @ [quarantine_resolutions_table]"

lemma put_put [simp]: "t_name t = n \<Longrightarrow> put_table n u (put_table n t cat) = put_table n u cat"
  by (auto simp: put_table_def)

lemma put_commute: "t_name t = n \<Longrightarrow> t_name u = m \<Longrightarrow> m \<noteq> n \<Longrightarrow>
    put_table n t (put_table m u cat) = put_table m u (put_table n t cat)"
  by (auto simp: put_table_def)

lemma update_fresh: "k \<notin> f ` set xs \<Longrightarrow> map (\<lambda>x. if f x = k then g x else x) xs = xs"
  by (induction xs) auto

lemma base_fresh:
  "''revision'' \<notin> c_name ` set (t_columns cand_base)" "''revision'' \<notin> c_name ` set (t_columns dec_base)"
  "''revision'' \<notin> c_name ` set (t_columns quar_base)"
  "''ck_match_candidate_revision'' \<notin> constraint_name ` set (t_constraints cand_base)"
  "''ck_match_decision_revision'' \<notin> constraint_name ` set (t_constraints dec_base)"
  "''uq_match_decision_revision'' \<notin> constraint_name ` set (t_constraints dec_base)"
  "''ck_quarantine_revision'' \<notin> constraint_name ` set (t_constraints quar_base)"
  unfolding set_map [symmetric] by code_simp+

lemma base_known:
  "''organization_id'' \<in> c_name ` set (t_columns cand_base)" "''status'' \<in> c_name ` set (t_columns cand_base)"
  "''created_at'' \<in> c_name ` set (t_columns cand_base)" "''id'' \<in> c_name ` set (t_columns cand_base)"
  "''organization_id'' \<in> c_name ` set (t_columns quar_base)" "''status'' \<in> c_name ` set (t_columns quar_base)"
  "''created_at'' \<in> c_name ` set (t_columns quar_base)" "''id'' \<in> c_name ` set (t_columns quar_base)"
  "''candidate_id'' \<in> c_name ` set (t_columns dec_base)"
  unfolding set_map [symmetric] base_columns by simp_all

lemma index_fresh_put: "i \<notin> set (index_names cat) \<Longrightarrow> i \<notin> i_name ` set (t_indexes t) \<Longrightarrow>
    i \<notin> set (index_names (put_table n t cat))"
  using index_names_put by blast

lemma base_index_fresh:
  assumes "i \<in> set new_indexes" and "t \<in> set baseline_tables"
  shows "i \<notin> i_name ` set (t_indexes t)" and "i \<notin> set (index_names baseline_tables)"
  using assms baseline_indexes_distinct by (auto simp: index_names_def)

lemma members_base: "cand_base \<in> set baseline_tables" "dec_base \<in> set baseline_tables" "quar_base \<in> set baseline_tables"
  using base_members by (auto simp: baseline_tables_def cand_base_def dec_base_def quar_base_def)

lemma run_columns_0005: "run_ddl d columns_0005 baseline_tables =
    Inr (put_table ''match_decisions'' (dec_base\<lparr>t_columns := t_columns dec_base @ [col_default ''revision'' SInteger ''0'']\<rparr>)
      (put_table ''match_candidates'' (cand_base\<lparr>t_columns := t_columns cand_base @ [col_default ''revision'' SInteger ''0'']\<rparr>)
        baseline_tables))"
  using base_fresh by (simp add: columns_0005_def on_table_def column_names_def col_default_def)

lemma run_constraints_0005:
  assumes "run_ddl d columns_0005 baseline_tables = Inr c"
  shows "run_ddl d constraints_0005 c = Inr review_tables"
proof -
  let ?dec = "dec_base\<lparr>t_columns := t_columns dec_base @ [col_default ''revision'' SInteger ''0'']\<rparr>"
  let ?cand = "cand_base\<lparr>t_columns := t_columns cand_base @ [col_default ''revision'' SInteger ''0'']\<rparr>"
  from assms run_columns_0005 [of d]
  have c: "c = put_table ''match_decisions'' ?dec (put_table ''match_candidates'' ?cand baseline_tables)" by simp
  have i: "''ix_match_queue'' \<notin> set (index_names (put_table ''match_decisions'' e (put_table ''match_candidates'' t baseline_tables)))"
    if "t_indexes t = t_indexes cand_base" "t_indexes e = t_indexes dec_base" for t e
    using that base_index_fresh [of "''ix_match_queue''"] members_base
    by (intro index_fresh_put) (auto simp: new_indexes_def)
  have o: "put_table ''match_candidates'' t (put_table ''match_decisions'' e cat)
      = put_table ''match_decisions'' e (put_table ''match_candidates'' t cat)"
    if "t_name t = ''match_candidates''" "t_name e = ''match_decisions''" for t e cat
    using that by (simp add: put_commute [of t])
  have u: "map (\<lambda>x. if c_name x = ''revision'' then x\<lparr>c_default := None\<rparr> else x) (t_columns dec_base) = t_columns dec_base"
    using base_fresh(2) by (rule update_fresh)
  show ?thesis
    using base_fresh base_known i
    by (simp add: constraints_0005_def on_table_def column_names_def constraint_ok_def reference_ok_def
        c o review_tables_def cand_head_def dec_head_def col_default_def col_def u)
qed

lemma find_review [simp]: "find_table review_tables ''quarantine_records'' = Some quar_base"
  "table_names review_tables = table_names baseline_tables"
  by (simp_all add: review_tables_def)

lemma review_index_fresh: "i \<in> set new_indexes \<Longrightarrow> i \<noteq> ''ix_match_queue'' \<Longrightarrow> i \<notin> set (index_names review_tables)"
  unfolding review_tables_def cand_head_def dec_head_def
  using base_index_fresh [of i] members_base by (intro index_fresh_put) auto

lemma has_id_put: "list_all has_id cat \<Longrightarrow> has_id t \<Longrightarrow> list_all has_id (put_table n t cat)"
  by (auto simp: list_all_iff put_table_def)

lemma head_has_id: "has_id cand_head" "has_id dec_head" "has_id quar_head"
  by code_simp+

lemma baseline_has_id: "list_all has_id baseline_tables"
  using baseline_sound by (simp add: list_all_iff baseline_tables_def sound_table_def)

lemma resolutions_sound: "sound_table quarantine_resolutions_table"
  by code_simp

lemma run_create_resolutions:
  "run_ddl d (create_ops quarantine_resolutions_table) (put_table ''quarantine_records'' quar_head review_tables) = Inr head_tables"
    (is "run_ddl d _ ?c = _")
  unfolding head_tables_def
proof (rule run_create_ops)
  have names: "table_names ?c = table_names baseline_tables" by simp
  show "t_name quarantine_resolutions_table \<notin> set (table_names ?c)"
    unfolding names baseline_names by (simp add: quarantine_resolutions_table_def)
  show "table_ok ?c quarantine_resolutions_table"
  proof (rule sound_table_ok [OF resolutions_sound])
    show "list_all has_id ?c" unfolding review_tables_def using head_has_id baseline_has_id by (intro has_id_put)
    show "list_all (\<lambda>x. x = t_name quarantine_resolutions_table \<or> x \<in> set (table_names ?c))
        (foreign_targets (t_constraints quarantine_resolutions_table))"
      unfolding names baseline_names by (simp add: quarantine_resolutions_table_def)
  qed
  have "i \<notin> set (index_names ?c)" if "i \<in> set (map i_name (t_indexes quarantine_resolutions_table))" for i
    unfolding quar_head_def using that review_index_fresh base_index_fresh(1) [OF _ members_base(3)]
    by (intro index_fresh_put) (auto simp: quarantine_resolutions_table_def new_indexes_def)
  then show "set (index_names ?c) \<inter> i_name ` set (t_indexes quarantine_resolutions_table) = {}" by auto
  show "distinct (map i_name (t_indexes quarantine_resolutions_table))" by (simp add: quarantine_resolutions_table_def)
  show "list_all (\<lambda>i. list_all (\<lambda>n. n \<in> set (column_names quarantine_resolutions_table)) (i_columns i))
     (t_indexes quarantine_resolutions_table)"
    using resolutions_sound by (simp add: sound_table_def)
qed

lemma run_0006: "run_ddl d ops_0006 review_tables = Inr head_tables"
proof -
  have i: "''ix_quarantine_queue'' \<notin> set (index_names (put_table ''quarantine_records'' t review_tables))"
    if "t_indexes t = t_indexes quar_base" for t
    using that review_index_fresh [of "''ix_quarantine_queue''"] base_index_fresh(1) [OF _ members_base(3)]
    by (intro index_fresh_put) (auto simp: new_indexes_def)
  have "run_ddl d [AddColumn ''quarantine_records'' (col_default ''revision'' SInteger ''0''),
     AddConstraint ''quarantine_records'' (Check ''ck_quarantine_revision'' ''revision >= 0''),
     CreateIndex ''ix_quarantine_queue'' ''quarantine_records'' [''organization_id'', ''status'', ''created_at'', ''id''] False]
      review_tables = Inr (put_table ''quarantine_records'' quar_head review_tables)"
    using base_fresh base_known
    by (simp add: on_table_def column_names_def constraint_ok_def reference_ok_def i col_default_def quar_head_def)
  then show ?thesis unfolding ops_0006_def run_ddl_append by (simp only: sum.case run_create_resolutions)
qed

section \<open>A fresh database\<close>

lemma find_head: "find_table head_tables n =
    (if n = ''quarantine_records'' then Some quar_head else if n = ''match_decisions'' then Some dec_head
     else if n = ''match_candidates'' then Some cand_head
     else if n = ''quarantine_resolutions'' then Some quarantine_resolutions_table
     else find_table baseline_tables n)"
proof -
  have "find_table baseline_tables ''quarantine_resolutions'' = None"
    by (simp add: find_table_None baseline_names)
  then show ?thesis
    by (auto simp: head_tables_def review_tables_def find_table_append quarantine_resolutions_table_def
        split: option.splits)
qed

lemma changed_models_same:
  "same_table cand_head (table_of_model match_candidate_model)"
  "same_table dec_head (table_of_model match_decision_model)"
  "same_table quar_head (table_of_model quarantine_record_model)"
  "same_table quarantine_resolutions_table (table_of_model quarantine_resolution_model)"
  by code_simp+

lemma changed_model_names:
  "om_table match_candidate_model = ''match_candidates''" "om_table match_decision_model = ''match_decisions''"
  "om_table quarantine_record_model = ''quarantine_records''"
  "om_table quarantine_resolution_model = ''quarantine_resolutions''"
  by (simp_all add: match_candidate_model_def match_decision_model_def quarantine_record_model_def
      quarantine_resolution_model_def)

definition changed_tables :: "string list" where
  "changed_tables = [''quarantine_records'', ''match_decisions'', ''match_candidates'', ''quarantine_resolutions'']"

lemma model_pairs_unchanged: "list_all (\<lambda>(ops, m). om_table m \<notin> set changed_tables) model_pairs"
  unfolding model_pairs_def list.pred_inject prod.case by (intro conjI; code_simp)

lemma same_table_name: "same_table t (table_of_model m) \<Longrightarrow> t_name t = om_table m"
  by (simp add: same_table_def table_of_model_def)

lemma head_same_models:
  assumes "m \<in> set orm_models"
  shows "\<exists>t. find_table head_tables (om_table m) = Some t \<and> same_table t (table_of_model m)"
proof -
  from assms model_pairs_models consider ops where "(ops, m) \<in> set model_pairs"
    | "m \<in> {match_candidate_model, match_decision_model, quarantine_record_model, quarantine_resolution_model}" by fastforce
  then show ?thesis
  proof cases
    case (1 ops)
    then have s: "same_table (table_of_ops ops) (table_of_model m)" and "om_table m \<notin> set changed_tables"
      using model_pairs_same model_pairs_unchanged by (auto simp: list_all_iff)
    moreover from 1 have "ops \<in> set baseline_ops" unfolding model_pairs_baseline by force
    ultimately show ?thesis
      using find_baseline [of ops "om_table m"] same_table_name [OF s] by (simp add: find_head changed_tables_def)
  next
    case 2
    then show ?thesis
      by (elim insertE emptyE) (simp_all add: find_head changed_model_names changed_models_same)
  qed
qed

lemma head_names_distinct: "distinct (table_names head_tables)"
proof -
  have "table_names head_tables = table_names baseline_tables @ [''quarantine_resolutions'']"
    by (simp add: head_tables_def table_names_def [of "_ @ _"] quarantine_resolutions_table_def) (simp flip: table_names_def)
  with baseline_names_distinct show ?thesis by (simp add: baseline_names)
qed

lemma model_names_distinct: "distinct (map om_table orm_models)"
  by (rule distinct_name_sums) code_simp

lemma find_model: "m \<in> set orm_models \<Longrightarrow> find_table (map table_of_model orm_models) (om_table m) = Some (table_of_model m)"
  using find_table_unique [of "map table_of_model orm_models" "table_of_model m"] model_names_distinct
  by (simp add: table_names_def o_def table_of_model_def)

lemma head_table_model:
  assumes "t \<in> set head_tables"
  shows "\<exists>m \<in> set orm_models. om_table m = t_name t"
proof -
  have t: "find_table head_tables (t_name t) = Some t" using assms head_names_distinct by (rule find_table_unique [rotated])
  show ?thesis
  proof (cases "t_name t \<in> set changed_tables")
    case True
    then show ?thesis using model_pairs_models changed_model_names by (fastforce simp: changed_tables_def)
  next
    case False
    with t have "find_table baseline_tables (t_name t) = Some t" by (simp add: find_head changed_tables_def)
    then have "t \<in> set baseline_tables" by (simp add: find_table_Some)
    then obtain ops where ops: "ops \<in> set baseline_ops" "t = table_of_ops ops" by (auto simp: baseline_tables_def)
    moreover from False ops base_names have "ops \<notin> {base_match_candidates, base_match_decisions, base_quarantine_records}"
      by (auto simp: changed_tables_def cand_base_def dec_base_def quar_base_def)
    ultimately obtain m where m: "(ops, m) \<in> set model_pairs" by (auto simp: model_pairs_baseline)
    with model_pairs_same ops have "om_table m = t_name t"
      using same_table_name by (fastforce simp: list_all_iff)
    moreover from m have "m \<in> set orm_models" unfolding model_pairs_models by force
    ultimately show ?thesis by blast
  qed
qed

lemma head_is_models: "same_catalog head_tables (map table_of_model orm_models)"
proof -
  have "case find_table (map table_of_model orm_models) (t_name t) of None \<Rightarrow> False | Some u \<Rightarrow> same_table t u"
    if t: "t \<in> set head_tables" for t
  proof -
    from head_table_model [OF t] obtain m where m: "m \<in> set orm_models" "om_table m = t_name t" by blast
    with head_same_models [OF m(1)] find_model [OF m(1)] find_table_unique [OF head_names_distinct t]
    show ?thesis by auto
  qed
  moreover have "find_table head_tables (t_name (table_of_model m)) \<noteq> None" if "m \<in> set orm_models" for m
    using head_same_models [OF that] by (auto simp: table_of_model_def)
  ultimately show ?thesis by (auto simp: same_catalog_def list_all_iff)
qed

end
