(* ===== verification/Migration_Down.thy ===== *)
theory Migration_Down
  imports Migration_Props
begin

text \<open>
  The way back: each downgrade undoes its upgrade, and the whole chain leaves an empty
  catalogue on both dialects, with no table dropped while another refers to it.
\<close>

section \<open>Foreign keys lead to the column \<open>id\<close>\<close>

definition ids_only :: "catalog \<Rightarrow> bool" where
  "ids_only cat = list_all (\<lambda>t. list_all to_id (t_constraints t)) cat"

lemma column_unreferenced: "ids_only cat \<Longrightarrow> c \<noteq> ''id'' \<Longrightarrow> \<not> referenced cat n (Some c)"
proof -
  assume "ids_only cat" and c: "c \<noteq> ''id''"
  moreover have "to_id k \<Longrightarrow> \<not> refers_to n (Some c) k" for k using c by (cases k) auto
  ultimately show ?thesis by (auto simp: ids_only_def referenced_def list_all_iff list_ex_iff)
qed

lemma ids_only_put: "ids_only cat \<Longrightarrow> list_all to_id (t_constraints t) \<Longrightarrow> ids_only (put_table n t cat)"
  by (auto simp: ids_only_def list_all_iff put_table_def)

lemma ids_only_filter: "ids_only cat \<Longrightarrow> ids_only (filter P cat)"
  by (auto simp: ids_only_def list_all_iff)

lemma ids_only_baseline: "ids_only baseline_tables"
  using baseline_sound by (auto simp: ids_only_def list_all_iff sound_table_def baseline_tables_def)

lemma find_to_id: "ids_only cat \<Longrightarrow> find_table cat n = Some t \<Longrightarrow> list_all to_id (t_constraints t)"
  by (auto simp: ids_only_def list_all_iff dest: find_table_Some)

section \<open>Dropping columns and constraints of one table\<close>

lemma put_table_id:
  assumes "find_table cat n = Some t" and "distinct (table_names cat)"
  shows "put_table n t cat = cat"
proof -
  have "x = t" if "x \<in> set cat" "t_name x = n" for x
    using find_table_unique [OF assms(2) that(1)] that(2) assms(1) by simp
  then show ?thesis by (auto simp: put_table_def intro!: map_idI)
qed

definition without_columns :: "string list \<Rightarrow> sql_table \<Rightarrow> sql_table" where
  "without_columns cs t = t\<lparr>t_columns := filter (\<lambda>x. c_name x \<notin> set cs) (t_columns t),
     t_constraints := filter (\<lambda>k. set cs \<inter> set (constraint_columns k) = {}) (t_constraints t),
     t_indexes := filter (\<lambda>x. set cs \<inter> set (i_columns x) = {}) (t_indexes t)\<rparr>"

lemma without_columns_simps [simp]:
  "t_name (without_columns cs t) = t_name t" "without_columns [] t = t"
  "without_columns cs (without_columns [c] t) = without_columns (c # cs) t"
  by (auto simp: without_columns_def intro!: sql_table.equality filter_cong)

lemma without_fresh:
  assumes "sound_table t" and "c \<notin> c_name ` set (t_columns t)"
  shows "without_columns [c] t = t"
  using assms by (auto simp: without_columns_def sound_table_def column_names_def list_all_iff filter_id_conv
      intro!: sql_table.equality)

lemma drop_column:
  assumes "find_table cat n = Some t" and "ids_only cat" and "c \<in> c_name ` set (t_columns t)" and "c \<noteq> ''id''"
  shows "apply_ddl d (DropColumn n c) cat = Inr (put_table n (without_columns [c] t) cat)"
  using assms column_unreferenced [OF assms(2,4)]
  by (simp add: on_table_def column_names_def without_columns_def)

lemma run_drop_columns:
  assumes "find_table cat n = Some t" and "ids_only cat" and "distinct cs"
    and "set cs \<subseteq> c_name ` set (t_columns t)" and "''id'' \<notin> set cs" and "distinct (table_names cat)"
  shows "run_ddl d (map (DropColumn n) cs) cat = Inr (put_table n (without_columns cs t) cat)"
  using assms
proof (induction cs arbitrary: cat t)
  case Nil
  then show ?case by (simp add: put_table_id)
next
  case (Cons c cs)
  let ?t = "without_columns [c] t" and ?c = "put_table n (without_columns [c] t) cat"
  have n: "t_name ?t = n" using Cons.prems(1) find_table_Some by fastforce
  have "list_all to_id (t_constraints ?t)"
    using find_to_id [OF Cons.prems(2,1)] by (auto simp: without_columns_def list_all_iff)
  then have "ids_only ?c" using Cons.prems(2) by (rule ids_only_put [rotated])
  moreover have "set cs \<subseteq> c_name ` set (t_columns ?t)"
    using Cons.prems(3,4) by (force simp: without_columns_def)
  ultimately have "run_ddl d (map (DropColumn n) cs) ?c = Inr (put_table n (without_columns cs ?t) ?c)"
    using Cons.prems n by (intro Cons.IH) auto
  moreover have "apply_ddl d (DropColumn n c) cat = Inr ?c" using Cons.prems by (intro drop_column) auto
  ultimately show ?case using n by simp
qed

lemma drop_constraint:
  assumes "find_table cat n = Some t" and "k \<in> constraint_name ` set (t_constraints t)"
  shows "apply_ddl d (DropConstraint k n) cat =
    Inr (put_table n (t\<lparr>t_constraints := filter (\<lambda>c. constraint_name c \<noteq> k) (t_constraints t)\<rparr>) cat)"
  using assms by (simp add: on_table_def)

section \<open>References of the catalogues\<close>

lemma refs_put:
  assumes "find_table cat n = Some u" and "distinct (table_names cat)" and "refs_of t = refs_of u"
  shows "map refs_of (put_table n t cat) = map refs_of cat"
proof -
  have "x = u" if "x \<in> set cat" "t_name x = n" for x
    using find_table_unique [OF assms(2) that(1)] that(2) assms(1) by simp
  then show ?thesis using assms(3) by (auto simp: put_table_def)
qed

lemma foreign_targets_append: "foreign_targets (a @ b) = foreign_targets a @ foreign_targets b"
  by (induction a rule: foreign_targets.induct) auto

lemma head_refs: "refs_of cand_head = refs_of cand_base" "refs_of dec_head = refs_of dec_base"
  "refs_of quar_head = refs_of quar_base"
  by (simp_all add: refs_of_def cand_head_def dec_head_def quar_head_def foreign_targets_append)

lemma review_refs: "map refs_of review_tables = map refs_of baseline_tables"
  using baseline_names_distinct by (simp add: review_tables_def refs_put [OF _ _ head_refs(1)] refs_put [OF _ _ head_refs(2)])

lemma quar_refs: "map refs_of (put_table ''quarantine_records'' quar_head review_tables) = map refs_of baseline_tables"
  using baseline_names_distinct by (simp add: refs_put [OF _ _ head_refs(3)] review_refs)

lemma ordered_refs_known: "ordered_refs seen refs \<Longrightarrow> (m, ts) \<in> set refs \<Longrightarrow> set ts \<subseteq> set seen \<union> fst ` set refs"
proof (induction seen refs rule: ordered_refs.induct)
  case (2 seen n ks r)
  then consider "m = n" "ts = ks" | "(m, ts) \<in> set r" by auto
  then show ?case
  proof cases
    case 2
    with "2.IH" "2.prems"(1) have "set ts \<subseteq> set (n # seen) \<union> fst ` set r" by simp
    then show ?thesis by auto
  qed (use "2.prems"(1) in \<open>auto simp: list_all_iff\<close>)
qed simp

lemma refs_names: "fst ` set (map refs_of cat) = set (table_names cat)"
  by (auto simp: refs_of_def table_names_def image_image)

lemma resolutions_unreferenced: "\<not> referenced head_tables ''quarantine_resolutions'' None"
proof -
  note refs_names [of baseline_tables]
  then have "''quarantine_resolutions'' \<notin> set ts" if "(m, ts) \<in> set (map refs_of baseline_tables)" for m ts
    using ordered_refs_known [OF baseline_refs that] by (auto simp: baseline_names)
  then have "list_all (\<lambda>(m, ts). m = ''quarantine_resolutions'' \<or> ''quarantine_resolutions'' \<notin> set ts)
      (map refs_of baseline_tables)"
    unfolding list_all_iff by blast
  moreover have "map refs_of head_tables = map refs_of baseline_tables @ [refs_of quarantine_resolutions_table]"
    by (simp add: head_tables_def quar_refs)
  ultimately show ?thesis
    unfolding referenced_refs by (simp add: refs_of_def quarantine_resolutions_table_def)
qed

section \<open>Undoing the last two revisions\<close>

lemma filter_fresh: "k \<notin> f ` set xs \<Longrightarrow> filter (\<lambda>x. f x \<noteq> k) xs = xs"
  by (induction xs) auto

lemma base_filters:
  "filter (\<lambda>k. constraint_name k \<noteq> ''ck_match_candidate_revision'') (t_constraints cand_base) = t_constraints cand_base"
  "filter (\<lambda>k. constraint_name k \<noteq> ''ck_match_decision_revision'') (t_constraints dec_base) = t_constraints dec_base"
  "filter (\<lambda>k. constraint_name k \<noteq> ''uq_match_decision_revision'') (t_constraints dec_base) = t_constraints dec_base"
  "filter (\<lambda>k. constraint_name k \<noteq> ''ck_quarantine_revision'') (t_constraints quar_base) = t_constraints quar_base"
  "filter (\<lambda>x. i_name x \<noteq> ''ix_match_queue'') (t_indexes cand_base) = t_indexes cand_base"
  "filter (\<lambda>x. i_name x \<noteq> ''ix_quarantine_queue'') (t_indexes quar_base) = t_indexes quar_base"
  using base_fresh base_index_fresh(1) [OF _ members_base(1), of "''ix_match_queue''"]
    base_index_fresh(1) [OF _ members_base(3), of "''ix_quarantine_queue''"]
  by (simp_all add: filter_fresh new_indexes_def)

lemma without_added:
  assumes "sound_table t" and "c_name x \<notin> c_name ` set (t_columns t)"
  shows "without_columns [c_name x] (t\<lparr>t_columns := t_columns t @ [x]\<rparr>) = t"
proof -
  have "without_columns [c_name x] (t\<lparr>t_columns := t_columns t @ [x]\<rparr>) = without_columns [c_name x] t"
    by (simp add: without_columns_def)
  with without_fresh [OF assms] show ?thesis by simp
qed

lemma run_down_0006:
  "run_ddl d [DropTable ''quarantine_resolutions'', DropIndex ''ix_quarantine_queue'' ''quarantine_records'',
     DropConstraint ''ck_quarantine_revision'' ''quarantine_records'', DropColumn ''quarantine_records'' ''revision''] head_tables
   = Inr review_tables"
proof -
  let ?n = "''quarantine_records''"
  let ?q = "quar_base\<lparr>t_columns := t_columns quar_base @ [col_default ''revision'' SInteger ''0'']\<rparr>"
  have names: "''quarantine_resolutions'' \<notin> set (table_names (put_table ?n quar_head review_tables))"
    by (simp add: baseline_names)
  have "filter (\<lambda>t. t_name t \<noteq> ''quarantine_resolutions'') head_tables = put_table ?n quar_head review_tables"
    using names by (simp add: head_tables_def filter_fresh table_names_def quarantine_resolutions_table_def)
  then have "apply_ddl d (DropTable ''quarantine_resolutions'') head_tables = Inr (put_table ?n quar_head review_tables)"
    using resolutions_unreferenced by (simp add: find_head)
  moreover have "apply_ddl d (DropIndex ''ix_quarantine_queue'' ?n) (put_table ?n quar_head review_tables)
      = Inr (put_table ?n (quar_head\<lparr>t_indexes := t_indexes quar_base\<rparr>) review_tables)"
    by (simp add: on_table_def) (simp add: quar_head_def base_filters)
  moreover have "apply_ddl d (DropConstraint ''ck_quarantine_revision'' ?n)
      (put_table ?n (quar_head\<lparr>t_indexes := t_indexes quar_base\<rparr>) review_tables) = Inr (put_table ?n ?q review_tables)"
    by (simp add: on_table_def) (simp add: quar_head_def base_filters)
  moreover have "apply_ddl d (DropColumn ?n ''revision'') (put_table ?n ?q review_tables) = Inr review_tables"
  proof -
    have w: "without_columns [''revision''] ?q = quar_base"
      using without_added [OF base_sound(3), of "col_default ''revision'' SInteger ''0''"] base_fresh(3)
      by (simp add: col_default_def)
    have "ids_only (put_table ?n ?q review_tables)"
      unfolding review_tables_def using base_sound head_has_id ids_only_baseline
      by (intro ids_only_put) (auto simp: sound_table_def cand_head_def dec_head_def)
    then have "apply_ddl d (DropColumn ?n ''revision'') (put_table ?n ?q review_tables)
        = Inr (put_table ?n (without_columns [''revision''] ?q) (put_table ?n ?q review_tables))"
      by (intro drop_column) (simp_all add: col_default_def)
    then show ?thesis unfolding w using baseline_names_distinct by (simp add: put_table_id)
  qed
  ultimately show ?thesis by (simp only: run_ddl_simps sum.case)
qed

definition drops_0005 :: "ddl list" where
  "drops_0005 = [DropConstraint ''uq_match_decision_revision'' ''match_decisions'',
     DropConstraint ''ck_match_decision_revision'' ''match_decisions'',
     DropColumn ''match_decisions'' ''revision'', DropIndex ''ix_match_queue'' ''match_candidates'',
     DropConstraint ''ck_match_candidate_revision'' ''match_candidates'', DropColumn ''match_candidates'' ''revision'']"

lemma run_down_0005: "run_ddl d drops_0005 review_tables = Inr baseline_tables"
proof -
  let ?d = "''match_decisions''" and ?c = "''match_candidates''"
  let ?dec = "dec_base\<lparr>t_columns := t_columns dec_base @ [col ''revision'' SInteger False]\<rparr>"
  let ?cand = "cand_base\<lparr>t_columns := t_columns cand_base @ [col_default ''revision'' SInteger ''0'']\<rparr>"
  let ?cat = "put_table ?c cand_head baseline_tables"
  have w: "without_columns [''revision''] ?dec = dec_base" "without_columns [''revision''] ?cand = cand_base"
    using without_added [OF base_sound(2), of "col ''revision'' SInteger False"] base_fresh(2)
      without_added [OF base_sound(1), of "col_default ''revision'' SInteger ''0''"] base_fresh(1)
    by (simp_all add: col_default_def col_def)
  have ids: "ids_only ?cat" "ids_only (put_table ?d ?dec ?cat)" "ids_only (put_table ?c ?cand baseline_tables)"
    using base_sound ids_only_baseline by (auto intro!: ids_only_put simp: sound_table_def cand_head_def)
  let ?ck = "Check ''ck_match_decision_revision'' ''revision > 0''"
  have "apply_ddl d (DropConstraint ''uq_match_decision_revision'' ?d) review_tables
      = Inr (put_table ?d (dec_head\<lparr>t_constraints := t_constraints dec_base @ [?ck]\<rparr>) ?cat)"
    unfolding review_tables_def by (simp add: on_table_def) (simp add: dec_head_def base_filters)
  moreover have "apply_ddl d (DropConstraint ''ck_match_decision_revision'' ?d)
      (put_table ?d (dec_head\<lparr>t_constraints := t_constraints dec_base @ [?ck]\<rparr>) ?cat) = Inr (put_table ?d ?dec ?cat)"
    by (simp add: on_table_def) (simp add: dec_head_def base_filters)
  moreover have "apply_ddl d (DropColumn ?d ''revision'') (put_table ?d ?dec ?cat) = Inr ?cat"
  proof -
    have "apply_ddl d (DropColumn ?d ''revision'') (put_table ?d ?dec ?cat)
        = Inr (put_table ?d (without_columns [''revision''] ?dec) (put_table ?d ?dec ?cat))"
      using ids(2) by (intro drop_column) (simp_all add: col_def)
    then show ?thesis unfolding w using baseline_names_distinct by (simp add: put_table_id)
  qed
  moreover have "apply_ddl d (DropIndex ''ix_match_queue'' ?c) ?cat
      = Inr (put_table ?c (cand_head\<lparr>t_indexes := t_indexes cand_base\<rparr>) baseline_tables)"
    by (simp add: on_table_def) (simp add: cand_head_def base_filters)
  moreover have "apply_ddl d (DropConstraint ''ck_match_candidate_revision'' ?c)
      (put_table ?c (cand_head\<lparr>t_indexes := t_indexes cand_base\<rparr>) baseline_tables) = Inr (put_table ?c ?cand baseline_tables)"
    by (simp add: on_table_def) (simp add: cand_head_def base_filters)
  moreover have "apply_ddl d (DropColumn ?c ''revision'') (put_table ?c ?cand baseline_tables) = Inr baseline_tables"
  proof -
    have "apply_ddl d (DropColumn ?c ''revision'') (put_table ?c ?cand baseline_tables)
        = Inr (put_table ?c (without_columns [''revision''] ?cand) (put_table ?c ?cand baseline_tables))"
      using ids(3) by (intro drop_column) (simp_all add: col_default_def)
    then show ?thesis unfolding w using baseline_names_distinct by (simp add: put_table_id)
  qed
  ultimately show ?thesis
    unfolding drops_0005_def by (simp only: run_ddl_simps sum.case)
qed

section \<open>Dropping the tables\<close>

text \<open>The downgrade drops the tables in the reverse of the order they were created in.\<close>

lemma drop_order_rev: "baseline_drop_order = rev (table_names baseline_tables)"
  by (simp add: baseline_drop_order_def baseline_names)

lemma drop_order_names: "set baseline_drop_order = set (table_names baseline_tables)"
  by (simp add: drop_order_rev)

lemma drops_baseline: "drops_before baseline_drop_order (map refs_of baseline_tables)"
proof (rule drops_before_inj)
  show "drops_before (map (name_sum 0 0) baseline_drop_order)
      (map (map_prod (name_sum 0 0) (map (name_sum 0 0))) (map refs_of baseline_tables))" by code_simp
  show "inj_on (name_sum 0 0) (set baseline_drop_order \<union> fst ` set (map refs_of baseline_tables))"
    using baseline_name_sums unfolding refs_names drop_order_names by (simp add: distinct_map)
qed

lemma drops_new: "drops_before (rev new_tables_0004) (map refs_of baseline_tables)"
  "drops_before (rev new_tables_0003) (map refs_of baseline_tables)"
  by code_simp+

text \<open>A catalogue with no more tables and no more references.\<close>

definition smaller :: "catalog \<Rightarrow> catalog \<Rightarrow> bool" where
  "smaller cat' cat = (\<forall>t' \<in> set cat'. \<exists>t \<in> set cat. t_name t' = t_name t
     \<and> set (foreign_targets (t_constraints t')) \<subseteq> set (foreign_targets (t_constraints t)))"

lemma smaller_refs:
  assumes "smaller cat' cat" and "(m, ts') \<in> set (map refs_of cat')"
  shows "\<exists>ts. (m, ts) \<in> set (map refs_of cat) \<and> set ts' \<subseteq> set ts"
proof -
  from assms(2) obtain t' where t': "t' \<in> set cat'" "(m, ts') = refs_of t'" by auto
  with assms(1) obtain t where "t \<in> set cat" "t_name t' = t_name t"
    "set (foreign_targets (t_constraints t')) \<subseteq> set (foreign_targets (t_constraints t))" unfolding smaller_def by blast
  with t' have "refs_of t \<in> set (map refs_of cat)" "fst (refs_of t) = m" "set ts' \<subseteq> set (snd (refs_of t))"
    by (auto simp: refs_of_def)
  then show ?thesis by (metis prod.collapse)
qed

lemma smaller_trans:
  assumes "smaller a b" and "smaller b c"
  shows "smaller a c"
  unfolding smaller_def
proof
  fix t assume "t \<in> set a"
  with assms(1) obtain u where u: "u \<in> set b" "t_name t = t_name u"
    "set (foreign_targets (t_constraints t)) \<subseteq> set (foreign_targets (t_constraints u))" unfolding smaller_def by blast
  from assms(2) u(1) obtain v where "v \<in> set c" "t_name u = t_name v"
    "set (foreign_targets (t_constraints u)) \<subseteq> set (foreign_targets (t_constraints v))" unfolding smaller_def by blast
  with u show "\<exists>v \<in> set c. t_name t = t_name v
      \<and> set (foreign_targets (t_constraints t)) \<subseteq> set (foreign_targets (t_constraints v))"
    by (intro bexI [of _ v]) auto
qed

lemma smaller_filter: "smaller (filter P cat) cat"
  by (auto simp: smaller_def)

lemma smaller_refl: "smaller cat cat"
  by (auto simp: smaller_def)

lemma foreign_targets_mono: "set a \<subseteq> set b \<Longrightarrow> set (foreign_targets a) \<subseteq> set (foreign_targets b)"
proof -
  have "x \<in> set (foreign_targets a) \<Longrightarrow> \<exists>n cs rs. ForeignKey n cs x rs \<in> set a" for x a
    by (induction a rule: foreign_targets.induct) auto
  then show "set a \<subseteq> set b \<Longrightarrow> set (foreign_targets a) \<subseteq> set (foreign_targets b)"
    using foreign_targets_mem by blast
qed

lemma smaller_put:
  assumes "find_table cat n = Some t" and "t_name t' = n" and "set (t_constraints t') \<subseteq> set (t_constraints t)"
  shows "smaller (put_table n t' cat) cat"
proof -
  have "\<exists>u \<in> set cat. t_name t' = t_name u
      \<and> set (foreign_targets (t_constraints t')) \<subseteq> set (foreign_targets (t_constraints u))"
    using foreign_targets_mono [OF assms(3)] find_table_Some [OF assms(1)] assms(2) by (intro bexI [of _ t]) auto
  then show ?thesis by (auto simp: smaller_def put_table_def)
qed

lemma down_0001:
  assumes "smaller cat baseline_tables"
  shows "downgrade_0001 d cat = Inr []"
proof -
  let ?ns = "filter (\<lambda>n. n \<in> set (table_names cat)) baseline_drop_order"
  have "drops_before ?ns (map refs_of cat)"
    by (rule drops_before_mono [OF drops_baseline smaller_refs [OF assms]])
      (auto simp: table_names_def refs_of_def)
  moreover have "distinct baseline_drop_order" by (simp add: drop_order_rev baseline_names_distinct)
  ultimately have "downgrade_0001 d cat = Inr (filter (\<lambda>t. t_name t \<notin> set ?ns) cat)"
    unfolding downgrade_0001_def by (intro run_drops) auto
  moreover have "t_name t \<in> set baseline_drop_order" if "t \<in> set cat" for t
    using assms that unfolding drop_order_names smaller_def table_names_def by fastforce
  ultimately show ?thesis by (auto simp: filter_empty_conv table_names_def)
qed

text \<open>On PostgreSQL the downgrades of the middle revisions drop tables, columns and constraints first.\<close>

lemma find_table_filter: "find_table (filter (\<lambda>t. t_name t \<notin> S) cat) n = (if n \<in> S then None else find_table cat n)"
  by (induction cat) auto

lemma table_names_filter: "set (table_names (filter (\<lambda>t. t_name t \<notin> S) cat)) = set (table_names cat) - S"
  by (auto simp: table_names_def)

lemma run_new_drops:
  assumes "smaller cat baseline_tables" and "set ns \<subseteq> set (table_names cat)" and "distinct ns"
    and "drops_before ns (map refs_of baseline_tables)"
  shows "run_ddl d (map DropTable ns) cat = Inr (filter (\<lambda>t. t_name t \<notin> set ns) cat)"
proof (rule run_drops [OF _ assms(2,3)])
  have "drops_before (filter (\<lambda>_. True) ns) (map refs_of cat)"
    by (rule drops_before_mono [OF assms(4) smaller_refs [OF assms(1)]]) simp_all
  then show "drops_before ns (map refs_of cat)" by simp
qed

lemma drop_two_constraints:
  assumes "find_table cat n = Some t" and "k1 \<in> constraint_name ` set (t_constraints t)"
    and "k2 \<in> constraint_name ` set (t_constraints t)" and "k1 \<noteq> k2"
  shows "run_ddl d [DropConstraint k1 n, DropConstraint k2 n] cat =
    Inr (put_table n (t\<lparr>t_constraints := filter (\<lambda>c. constraint_name c \<noteq> k1 \<and> constraint_name c \<noteq> k2) (t_constraints t)\<rparr>) cat)"
proof -
  let ?t = "t\<lparr>t_constraints := filter (\<lambda>c. constraint_name c \<noteq> k1) (t_constraints t)\<rparr>"
  have n: "t_name t = n" using assms(1) find_table_Some by blast
  then have f: "find_table (put_table n ?t cat) n = Some ?t" using assms(1) by simp
  have "k2 \<in> constraint_name ` set (t_constraints ?t)" using assms(3,4) by force
  from drop_constraint [OF assms(1,2), of d] drop_constraint [OF f this, of d] n
  show ?thesis by (simp add: conj_commute)
qed

definition columns_down_0003 :: "string list" where
  "columns_down_0003 = [''corrected_snapshot_id'', ''supersedes_quarantine_id'', ''resolved_at'', ''resolution_note'', ''waiver_reason'']"

definition columns_down_0002 :: "string list" where
  "columns_down_0002 = [''failure_summary'', ''failure_code'', ''attempt_number'', ''resume_from_run_id'']"

lemma down_columns: "set columns_down_0003 \<subseteq> c_name ` set (t_columns quar_base)"
  "set columns_down_0002 \<subseteq> c_name ` set (t_columns runs_base)"
  unfolding set_map [symmetric] by code_simp+

definition quar_0002 :: sql_table where
  "quar_0002 = without_columns columns_down_0003 (quar_base\<lparr>t_constraints := filter
     (\<lambda>c. constraint_name c \<noteq> ''fk_quarantine_records_corrected_snapshot_id_raw_snapshots''
        \<and> constraint_name c \<noteq> ''fk_quarantine_records_supersedes_quarantine_id'') (t_constraints quar_base)\<rparr>)"

lemma quar_0002_simps [simp]: "t_name quar_0002 = ''quarantine_records''"
  "set (t_constraints quar_0002) \<subseteq> set (t_constraints quar_base)"
  by (auto simp: quar_0002_def without_columns_def)

lemma foreign_key_members:
  "''fk_quarantine_records_corrected_snapshot_id_raw_snapshots'' \<in> constraint_name ` set (t_constraints quar_base)"
  "''fk_quarantine_records_supersedes_quarantine_id'' \<in> constraint_name ` set (t_constraints quar_base)"
  "''fk_ingestion_runs_resume_from_run_id_ingestion_runs'' \<in> constraint_name ` set (t_constraints runs_base)"
  "''uq_snapshot_content'' \<in> constraint_name ` set (t_constraints snap_base)"
  using quar_complete runs_complete by auto

lemma down_0003:
  assumes "smaller cat baseline_tables" and q: "find_table cat ''quarantine_records'' = Some quar_base"
    and ids: "ids_only cat" and "set new_tables_0003 \<subseteq> set (table_names cat)" and dist: "distinct (table_names cat)"
  shows "downgrade_0003 PostgreSQL cat = Inr (filter (\<lambda>t. t_name t \<notin> set new_tables_0003)
    (put_table ''quarantine_records'' quar_0002 cat))"
proof -
  let ?n = "''quarantine_records''"
  let ?q = "quar_base\<lparr>t_constraints := filter
     (\<lambda>c. constraint_name c \<noteq> ''fk_quarantine_records_corrected_snapshot_id_raw_snapshots''
        \<and> constraint_name c \<noteq> ''fk_quarantine_records_supersedes_quarantine_id'') (t_constraints quar_base)\<rparr>"
  have "run_ddl PostgreSQL [DropConstraint ''fk_quarantine_records_corrected_snapshot_id_raw_snapshots'' ?n,
      DropConstraint ''fk_quarantine_records_supersedes_quarantine_id'' ?n] cat = Inr (put_table ?n ?q cat)"
    using q foreign_key_members(1,2) by (rule drop_two_constraints) simp
  moreover have "run_ddl PostgreSQL (map (DropColumn ?n) columns_down_0003) (put_table ?n ?q cat)
      = Inr (put_table ?n quar_0002 cat)"
  proof -
    have f: "find_table (put_table ?n ?q cat) ?n = Some ?q" using q by simp
    have "list_all to_id (t_constraints ?q)" using find_to_id [OF ids q] by (auto simp: list_all_iff)
    then have i: "ids_only (put_table ?n ?q cat)" using ids by (intro ids_only_put)
    have "set columns_down_0003 \<subseteq> c_name ` set (t_columns ?q)" using down_columns(1) by simp
    then have "run_ddl PostgreSQL (map (DropColumn ?n) columns_down_0003) (put_table ?n ?q cat)
        = Inr (put_table ?n (without_columns columns_down_0003 ?q) (put_table ?n ?q cat))"
      using f i dist by (intro run_drop_columns) (simp_all add: columns_down_0003_def)
    then show ?thesis by (simp add: quar_0002_def)
  qed
  moreover have "run_ddl PostgreSQL (map DropTable (rev new_tables_0003)) (put_table ?n quar_0002 cat)
      = Inr (filter (\<lambda>t. t_name t \<notin> set (rev new_tables_0003)) (put_table ?n quar_0002 cat))"
  proof (rule run_new_drops [OF _ _ _ drops_new(2)])
    show "smaller (put_table ?n quar_0002 cat) baseline_tables"
      by (rule smaller_trans [OF smaller_put [OF q] assms(1)]) simp_all
  qed (use assms(4) in \<open>simp_all add: new_tables_0003_def\<close>)
  ultimately show ?thesis
    unfolding downgrade_0003_def columns_down_0003_def by (simp only: run_ddl_append) simp
qed

lemma down_0002:
  assumes "smaller cat baseline_tables" and r: "find_table cat ''ingestion_runs'' = Some runs_base"
    and snap: "find_table cat ''raw_snapshots'' = Some snap_base" and ids: "ids_only cat" and dist: "distinct (table_names cat)"
  shows "\<exists>c. downgrade_0002 PostgreSQL cat = Inr c \<and> smaller c baseline_tables"
proof -
  let ?r = "''ingestion_runs''" and ?s = "''raw_snapshots''"
  let ?fk = "''fk_ingestion_runs_resume_from_run_id_ingestion_runs''"
  let ?snap = "snap_base\<lparr>t_constraints := filter (\<lambda>c. constraint_name c \<noteq> ''uq_snapshot_content'') (t_constraints snap_base)\<rparr>"
  let ?run = "runs_base\<lparr>t_constraints := filter (\<lambda>c. constraint_name c \<noteq> ?fk) (t_constraints runs_base)\<rparr>"
  let ?c1 = "put_table ?s ?snap cat" let ?c2 = "put_table ?r ?run ?c1"
  have f: "find_table ?c1 ?r = Some runs_base" "find_table ?c2 ?r = Some ?run" using r by simp_all
  have to: "list_all to_id (t_constraints ?snap)" "list_all to_id (t_constraints ?run)"
    using base_sound by (auto simp: sound_table_def list_all_iff)
  then have i: "ids_only ?c2" using ids by (intro ids_only_put)
  have "apply_ddl PostgreSQL (DropConstraint ''uq_snapshot_content'' ?s) cat = Inr ?c1"
    using snap foreign_key_members(4) by (rule drop_constraint)
  moreover have "apply_ddl PostgreSQL (DropConstraint ?fk ?r) ?c1 = Inr ?c2"
    using f(1) foreign_key_members(3) by (rule drop_constraint)
  moreover have "run_ddl PostgreSQL (map (DropColumn ?r) columns_down_0002) ?c2
      = Inr (put_table ?r (without_columns columns_down_0002 ?run) ?c2)"
    using f(2) i dist down_columns(2) by (intro run_drop_columns) (simp_all add: columns_down_0002_def)
  ultimately have "downgrade_0002 PostgreSQL cat = Inr (put_table ?r (without_columns columns_down_0002 ?run) ?c2)"
    unfolding downgrade_0002_def columns_down_0002_def
    by (simp only: list.map run_ddl_simps sum.case dialect.distinct if_False)
  moreover have "smaller (put_table ?r (without_columns columns_down_0002 ?run) ?c2) ?c2"
    using f(2) by (rule smaller_put) (auto simp: without_columns_def)
  moreover have "smaller ?c2 ?c1" using f(1) by (rule smaller_put) auto
  moreover have "smaller ?c1 cat" using snap by (rule smaller_put) auto
  ultimately show ?thesis using assms(1) smaller_trans by blast
qed

lemma down_from_0004: "downgrade_from_0004 d baseline_tables = Inr []"
proof (cases d)
  case SQLite
  then show ?thesis
    using down_0001 [OF smaller_refl, of SQLite]
    by (simp add: downgrade_from_0004_def downgrade_0002_def downgrade_0003_def downgrade_0004_def and_then_def)
next
  case PostgreSQL
  let ?c1 = "filter (\<lambda>t. t_name t \<notin> set (rev new_tables_0004)) baseline_tables"
  let ?c2 = "filter (\<lambda>t. t_name t \<notin> set new_tables_0003) (put_table ''quarantine_records'' quar_0002 ?c1)"
  have "run_ddl PostgreSQL (map DropTable (rev new_tables_0004)) baseline_tables = Inr ?c1"
    by (rule run_new_drops [OF smaller_refl _ _ drops_new(1)]) (simp_all add: new_tables_0004_def baseline_names)
  then have d4: "downgrade_0004 PostgreSQL baseline_tables = Inr ?c1"
    by (simp only: downgrade_0004_def dialect.distinct if_False)
  have d1: "distinct (table_names ?c1)" using baseline_names_distinct by (simp add: table_names_def distinct_map_filter)
  have s1: "smaller ?c1 baseline_tables" by (rule smaller_filter)
  have f1: "find_table ?c1 ''quarantine_records'' = Some quar_base" "find_table ?c1 ''ingestion_runs'' = Some runs_base"
    "find_table ?c1 ''raw_snapshots'' = Some snap_base"
    unfolding find_table_filter by (simp_all add: new_tables_0004_def)
  have i1: "ids_only ?c1" by (rule ids_only_filter [OF ids_only_baseline])
  have "set new_tables_0003 \<subseteq> set (table_names baseline_tables)" "set new_tables_0003 \<inter> set new_tables_0004 = {}"
    unfolding new_tables_0003_def new_tables_0004_def baseline_names by simp_all
  then have "set new_tables_0003 \<subseteq> set (table_names ?c1)" unfolding table_names_filter by auto
  then have d3: "downgrade_0003 PostgreSQL ?c1 = Inr ?c2" by (intro down_0003 s1 f1 i1 d1)
  have q2: "list_all to_id (t_constraints quar_0002)"
    using base_sound(3) by (auto simp: sound_table_def list_all_iff dest: subsetD [OF quar_0002_simps(2)])
  have "\<exists>c. downgrade_0002 PostgreSQL ?c2 = Inr c \<and> smaller c baseline_tables"
  proof (rule down_0002)
    show "smaller ?c2 baseline_tables"
      by (rule smaller_trans [OF smaller_filter smaller_trans [OF smaller_put [OF f1(1)] s1]]) simp_all
    show "find_table ?c2 ''ingestion_runs'' = Some runs_base" "find_table ?c2 ''raw_snapshots'' = Some snap_base"
      using f1 unfolding find_table_filter [of "set new_tables_0003"] by (simp_all add: new_tables_0003_def)
    show "ids_only ?c2" using q2 ids_only_baseline by (intro ids_only_filter ids_only_put)
    have "distinct (table_names (put_table ''quarantine_records'' quar_0002 ?c1))" using d1 by simp
    then show "distinct (table_names ?c2)" unfolding table_names_def by (rule distinct_map_filter)
  qed
  with d4 d3 down_0001 PostgreSQL show ?thesis by (auto simp: downgrade_from_0004_def and_then_def)
qed

section \<open>Properties of the migrations\<close>

lemma empty_rows: "count_decisions (rank_decisions empty_db) = empty_db" "revisions_valid empty_db"
  "import_resolutions u empty_db = empty_db"
  by (simp_all add: empty_db_def count_decisions_def rank_decisions_def revisions_valid_def import_resolutions_def)

lemma fresh_upgrade: "upgrade_head d u ([], empty_db) = Inr (head_tables, empty_db)"
  using fresh_to_0004 [of d] run_columns_0005 [of d] run_constraints_0005 [OF run_columns_0005, of d] run_0006 [of d]
  by (simp add: upgrade_head_def upgrade_0005_def upgrade_0006_def and_then_def empty_rows)

lemma head_downgrade: "db_quarantine_resolutions db = [] \<Longrightarrow> downgrade_base d (head_tables, db) = Inr []"
  using run_down_0006 [of d] run_down_0005 [of d] down_from_0004 [of d]
  by (simp add: downgrade_base_def downgrade_0006_def downgrade_0005_def drops_0005_def and_then_def
      del: run_ddl_simps)

text \<open>
  C27: A fresh database brought to the newest revision has, on SQLite and on PostgreSQL, exactly
  the tables the ORM classes declare: the same columns with their types, nullability and
  server defaults, the same keys, checks and indexes under the same names.
\<close>

theorem fresh_schema_is_models:
  "\<exists>cat. upgrade_head d u ([], empty_db) = Inr (cat, empty_db) \<and> same_catalog cat (map table_of_model orm_models)"
  using fresh_upgrade [of d u] head_is_models by simp

text \<open>
  A database that was brought to the newest revision can be taken back: on both dialects
  every downgrade succeeds, no table is dropped while another still refers to it, and
  nothing is left.
\<close>

theorem fresh_schema_round_trip:
  "\<exists>s. upgrade_head d u ([], empty_db) = Inr s \<and> downgrade_base d s = Inr []"
  using fresh_upgrade [of d u] head_downgrade [of empty_db d] by (simp add: empty_db_def)

end
