(* ===== verification/Migration_Data.thy ===== *)
theory Migration_Data
  imports Migration_Down
begin

text \<open>
  What the two data migrations make of the rows an older release left: the decisions on a
  candidate are numbered in the order they were made, and the single note of a quarantine
  record becomes the first entry of its history.
\<close>

section \<open>Numbering decisions\<close>

lemma insort_key_map: "(\<And>x. f (g x) = f x) \<Longrightarrow> insort_key f (g x) (map g xs) = map g (insort_key f x xs)"
  by (induction xs) auto

lemma sort_key_map: "(\<And>x. f (g x) = f x) \<Longrightarrow> sort_key f (map g xs) = map g (sort_key f xs)"
  by (induction xs) (auto simp: insort_key_map)

lemma decision_order_map:
  assumes "\<And>d. md_id (g d) = md_id d" "\<And>d. md_decided_at (g d) = md_decided_at d"
    "\<And>d. md_candidate_id (g d) = md_candidate_id d"
  shows "decision_order (map g ds) i = map g (decision_order ds i)"
  unfolding decision_order_def filter_map o_def assms
  by (simp add: sort_key_map [of md_id g] sort_key_map [of md_decided_at g] assms)

lemma set_decision_order: "set (decision_order ds i) = {d \<in> set ds. md_candidate_id d = i}"
  by (auto simp: decision_order_def)

lemma length_decision_order: "length (decision_order ds i) = length (filter (\<lambda>d. md_candidate_id d = i) ds)"
  by (simp add: decision_order_def)

lemma distinct_sort_key: "distinct (map f xs) \<Longrightarrow> distinct (map f (sort_key g xs))"
  by (metis distinct_map distinct_sort set_sort)

lemma decision_order_distinct: "distinct (map md_id ds) \<Longrightarrow> distinct (map md_id (decision_order ds i))"
  unfolding decision_order_def by (intro distinct_sort_key distinct_map_filter)

lemma positions:
  assumes "distinct (map f xs)"
  shows "map (\<lambda>x. int (length (takeWhile (\<lambda>y. f y \<noteq> f x) xs)) + 1) xs = [1..int (length xs)]"
proof (rule nth_equalityI)
  fix k assume "k < length (map (\<lambda>x. int (length (takeWhile (\<lambda>y. f y \<noteq> f x) xs)) + 1) xs)"
  then have k: "k < length xs" by simp
  have "takeWhile (\<lambda>y. f y \<noteq> f (xs ! k)) xs = take k xs"
    using assms k by (intro takeWhile_eq_take_P_nth) (auto simp: distinct_conv_nth)
  with k show "map (\<lambda>x. int (length (takeWhile (\<lambda>y. f y \<noteq> f x) xs)) + 1) xs ! k = [1..int (length xs)] ! k"
    by simp
qed simp

lemma row_numbers:
  assumes "distinct (map md_id ds)"
  shows "map (row_number ds) (decision_order ds i) = [1..int (length (filter (\<lambda>d. md_candidate_id d = i) ds))]"
proof -
  let ?os = "decision_order ds i"
  have "map (row_number ds) ?os = map (\<lambda>x. int (length (takeWhile (\<lambda>y. md_id y \<noteq> md_id x) ?os)) + 1) ?os"
    by (auto simp: row_number_def set_decision_order)
  also have "\<dots> = [1..int (length ?os)]" by (rule positions [OF decision_order_distinct [OF assms]])
  finally show ?thesis by (simp add: length_decision_order)
qed

lemma ranked_order:
  assumes "distinct (map md_id (db_match_decisions db))"
  shows "map md_revision (decision_order (db_match_decisions (rank_decisions db)) i)
    = [1..int (length (filter (\<lambda>d. md_candidate_id d = i) (db_match_decisions db)))]"
proof -
  have "decision_order (db_match_decisions (rank_decisions db)) i =
      map (\<lambda>d. d\<lparr>md_revision := row_number (db_match_decisions db) d\<rparr>) (decision_order (db_match_decisions db) i)"
    by (simp add: rank_decisions_def decision_order_map)
  with row_numbers [OF assms] show ?thesis by (simp add: o_def)
qed

lemma row_number_inj:
  assumes "distinct (map md_id ds)" and "d \<in> set ds" "e \<in> set ds" "md_candidate_id d = md_candidate_id e"
    and "row_number ds d = row_number ds e"
  shows "d = e"
proof -
  let ?os = "decision_order ds (md_candidate_id e)"
  have "distinct (map (row_number ds) ?os)" unfolding row_numbers [OF assms(1)] by simp
  then have "inj_on (row_number ds) (set ?os)" by (simp add: distinct_map)
  with assms show ?thesis by (auto simp: set_decision_order dest: inj_onD)
qed

lemma ranked_valid:
  assumes "distinct (map md_id (db_match_decisions db))"
  shows "revisions_valid (count_decisions (rank_decisions db))"
proof -
  let ?ds = "db_match_decisions db"
  have "inj_on (\<lambda>d. (md_candidate_id d, row_number ?ds d)) (set ?ds)"
    using row_number_inj [OF assms] by (auto intro!: inj_onI)
  with assms have "distinct (map (\<lambda>d. (md_candidate_id d, row_number ?ds d)) ?ds)" by (simp add: distinct_map)
  then show ?thesis
    by (simp add: revisions_valid_def count_decisions_def rank_decisions_def list_all_iff o_def row_number_def)
qed

lemma upgrade_0005_runs:
  assumes "distinct (map md_id (db_match_decisions db))"
  shows "upgrade_0005 d (baseline_tables, db) = Inr (review_tables, count_decisions (rank_decisions db))"
  using run_columns_0005 [of d] run_constraints_0005 [OF run_columns_0005, of d] ranked_valid [OF assms]
  by (simp add: upgrade_0005_def and_then_def)

text \<open>
  C28: An existing database at revision 0004, whatever decisions it holds, is upgraded to
  revision 0005: afterwards the decisions on every candidate, in the order they were made,
  carry the revisions 1 to n, every candidate's revision is that n, and the new constraints
  hold. Nothing but the revisions has changed.
\<close>

theorem match_revisions_migrated:
  assumes "upgrade_to_0004 d [] = Inr cat" and "distinct (map md_id (db_match_decisions db))"
  shows "\<exists>cat' db'. upgrade_0005 d (cat, db) = Inr (cat', db')
    \<and> (\<forall>i. map md_revision (decision_order (db_match_decisions db') i)
          = [1..int (length (filter (\<lambda>x. md_candidate_id x = i) (db_match_decisions db')))])
    \<and> (\<forall>c \<in> set (db_match_candidates db'). mcand_revision c
          = int (length (filter (\<lambda>x. md_candidate_id x = mcand_id c) (db_match_decisions db'))))
    \<and> revisions_valid db'
    \<and> map (\<lambda>x. x\<lparr>md_revision := 0\<rparr>) (db_match_decisions db') = map (\<lambda>x. x\<lparr>md_revision := 0\<rparr>) (db_match_decisions db)
    \<and> map (\<lambda>c. c\<lparr>mcand_revision := 0\<rparr>) (db_match_candidates db') = map (\<lambda>c. c\<lparr>mcand_revision := 0\<rparr>) (db_match_candidates db)"
proof -
  let ?db = "count_decisions (rank_decisions db)"
  have cat: "cat = baseline_tables" using assms(1) fresh_to_0004 [of d] by simp
  have ds: "db_match_decisions ?db = db_match_decisions (rank_decisions db)" by (simp add: count_decisions_def)
  have len: "length (filter (\<lambda>x. md_candidate_id x = i) (db_match_decisions (rank_decisions db)))
      = length (filter (\<lambda>x. md_candidate_id x = i) (db_match_decisions db))" for i
    by (simp add: rank_decisions_def filter_map o_def)
  show ?thesis
    using upgrade_0005_runs [OF assms(2), of d] ranked_order [OF assms(2)] ranked_valid [OF assms(2)]
    unfolding cat by (intro exI [of _ review_tables] exI [of _ ?db])
      (simp add: ds len, auto simp: count_decisions_def rank_decisions_def filter_map o_def)
qed

text \<open>
  Taking a database back over revision 0005 and up again loses nothing when the decisions on
  each candidate were numbered in the order of their times: catalogue and rows are as before.
\<close>

theorem review_round_trip:
  assumes "distinct (map md_id (db_match_decisions db))"
    and "\<And>i. map md_revision (decision_order (db_match_decisions db) i)
          = [1..int (length (filter (\<lambda>x. md_candidate_id x = i) (db_match_decisions db)))]"
    and "\<And>c. c \<in> set (db_match_candidates db) \<Longrightarrow> mcand_revision c
          = int (length (filter (\<lambda>x. md_candidate_id x = mcand_id c) (db_match_decisions db)))"
    and "upgrade_to_0004 d [] = Inr cat" and "upgrade_0005 d (cat, empty_db) = Inr (cat5, db0)"
  shows "\<exists>s. downgrade_0005 d (cat5, db) = Inr s \<and> upgrade_0005 d s = Inr (cat5, db)"
proof -
  let ?z = "\<lambda>x. x\<lparr>md_revision := 0\<rparr>"
  let ?db = "db\<lparr>db_match_decisions := map ?z (db_match_decisions db),
    db_match_candidates := map (\<lambda>c. c\<lparr>mcand_revision := 0\<rparr>) (db_match_candidates db)\<rparr>"
  have cat: "cat = baseline_tables" using assms(4) fresh_to_0004 [of d] by simp
  have cat5: "cat5 = review_tables" using assms(5) upgrade_0005_runs [of empty_db d] by (simp add: cat empty_db_def)
  have down: "downgrade_0005 d (cat5, db) = Inr (baseline_tables, ?db)"
    using run_down_0005 [of d] unfolding cat5
    by (simp add: downgrade_0005_def drops_0005_def and_then_def del: run_ddl_simps)
  have rn: "row_number (map ?z (db_match_decisions db)) (?z x) = row_number (db_match_decisions db) x" for x
    by (simp add: row_number_def decision_order_map takeWhile_map o_def)
  have keep: "row_number (db_match_decisions db) x = md_revision x" if "x \<in> set (db_match_decisions db)" for x
  proof -
    have "map (row_number (db_match_decisions db)) (decision_order (db_match_decisions db) (md_candidate_id x))
        = map md_revision (decision_order (db_match_decisions db) (md_candidate_id x))"
      unfolding row_numbers [OF assms(1)] assms(2) ..
    then show ?thesis using that by (auto simp: set_decision_order)
  qed
  have "count_decisions (rank_decisions ?db) = db"
    using assms(3) keep by (simp add: count_decisions_def rank_decisions_def rn filter_map o_def cong: map_cong)
      (auto intro!: database.equality map_idI)
  then have "upgrade_0005 d (baseline_tables, ?db) = Inr (cat5, db)"
    using upgrade_0005_runs [of ?db d] assms(1) by (simp add: cat5 o_def)
  with down show ?thesis by blast
qed

section \<open>Importing resolution notes\<close>

lemma filter_unique_key:
  assumes "distinct (map f xs)" and "r \<in> set xs"
  shows "filter (\<lambda>x. f x = f r \<and> P x) xs = (if P r then [r] else [])"
proof -
  have "f x = f r \<longleftrightarrow> x = r" if "x \<in> set xs" for x
    using assms that by (auto simp: distinct_map dest: inj_onD)
  then have "filter (\<lambda>x. f x = f r \<and> P x) xs = filter P (filter (\<lambda>x. x = r) xs)"
    by (auto simp: conj_commute intro: filter_cong)
  moreover have "distinct ys \<Longrightarrow> r \<in> set ys \<Longrightarrow> filter (\<lambda>x. x = r) ys = [r]" for ys
    by (induction ys) (auto simp: filter_empty_conv)
  then have "filter (\<lambda>x. x = r) xs = [r]" using assms by (simp add: distinct_map)
  ultimately show ?thesis by simp
qed

lemma imported_rows:
  assumes "distinct (map qr_id (db_quarantine_records db))" and "s_working s = import_resolutions u db"
  shows "quar_keys s" and "resolutions.ledger_ok s i"
proof -
  let ?rs = "db_quarantine_records db"
  let ?f = "\<lambda>r. r\<lparr>qr_revision := (if qr_id r \<in> qr_id ` set (filter has_note ?rs) then 1 else 0)\<rparr>"
  have w: "db_quarantine_records (s_working s) = map ?f ?rs"
    "db_quarantine_resolutions (s_working s) = map (imported_resolution u) (filter has_note ?rs)"
    using assms(2) by (auto simp: import_resolutions_def Let_def imported_resolution_def image_image)
  then show "quar_keys s" using assms(1) by (simp add: quar_keys_def o_def)
  have h: "quar_history s i = map (\<lambda>r. (1, qr_status r)) (filter (\<lambda>r. qr_id r = i \<and> has_note r) ?rs)"
    by (simp add: quar_history_def w filter_map o_def imported_resolution_def conj_commute)
  show "resolutions.ledger_ok s i"
  proof (cases "i \<in> qr_id ` set ?rs")
    case False
    then have "quar_row s i = None" "filter (\<lambda>r. qr_id r = i \<and> has_note r) ?rs = []"
      by (auto simp: quar_row_def w row_by_def find_None_iff filter_empty_conv)
    with h show ?thesis by (simp add: resolutions.ledger_ok_def quar_revision_def)
  next
    case True
    then obtain r where r: "r \<in> set ?rs" "qr_id r = i" by auto
    have u: "filter (\<lambda>r. qr_id r = i \<and> has_note r) ?rs = (if has_note r then [r] else [])"
      using filter_unique_key [OF assms(1) r(1), of has_note] r(2) by simp
    have "?f r \<in> set (db_quarantine_records (s_working s))"
      unfolding w set_map using r(1) by (rule imageI)
    then have "quar_row s i = Some (?f r)"
      using row_by_unique [OF \<open>quar_keys s\<close> [unfolded quar_keys_def], of "?f r"] r by (simp add: quar_row_def)
    moreover have "qr_id r \<in> qr_id ` set (filter has_note ?rs) \<longleftrightarrow> has_note r"
      using assms(1) r by (auto simp: distinct_map dest: inj_onD)
    ultimately show ?thesis using h u
      by (simp add: resolutions.ledger_ok_def quar_revision_def quar_status_def)
  qed
qed

text \<open>
  C29: After the upgrade to revision 0006 the resolution desk carries on from the imported notes:
  whatever resolutions reviewers then send, the history of a quarantine record is numbered 1
  to its revision and its status is that of the last entry.
\<close>

theorem imported_history_continues:
  assumes "upgrade_0006 d u (cat, db) = Inr (cat', s_working s)" and "distinct (map qr_id (db_quarantine_records db))"
    and "quar_revision (run_resolutions qs s) i = Some n"
  shows "map fst (quar_history (run_resolutions qs s) i) = [1..n]
    \<and> (quar_history (run_resolutions qs s) i = []
       \<or> quar_status (run_resolutions qs s) i = Some (snd (last (quar_history (run_resolutions qs s) i))))"
proof -
  have w: "s_working s = import_resolutions u db"
    using assms(1) by (auto simp: upgrade_0006_def and_then_def split: sum.splits)
  have "resolutions.ledger_ok (run_resolutions qs s) i"
    using resolutions.apply_all_ok [OF imported_rows [OF assms(2) w]] by (simp add: run_resolutions_eq)
  with assms(3) show ?thesis by (auto simp: resolutions.ledger_ok_def)
qed

lemma resolve_not_imported:
  assumes "resolve q s = Some s'"
  shows "list_ex (\<lambda>r. \<not> qs_imported r) (db_quarantine_resolutions (s_working s'))"
  using assms
  by (auto simp: resolve_def resolve_quarantine_def Let_def add_row_def on_working_def put_resolution_def commit_def
      list_ex_iff split: if_splits sum.splits option.splits)

lemma resolve_appends:
  assumes "resolve q s = Some s'"
  shows "set (db_quarantine_resolutions (s_working s)) \<subseteq> set (db_quarantine_resolutions (s_working s'))"
  using assms
  by (auto simp: resolve_def resolve_quarantine_def Let_def add_row_def on_working_def put_resolution_def commit_def
      advance_quarantine_def split: if_splits sum.splits option.splits)

lemma run_keeps_resolutions:
  "set (db_quarantine_resolutions (s_working s)) \<subseteq> set (db_quarantine_resolutions (s_working (run_resolutions qs s)))"
  by (induction qs arbitrary: s) (auto split: option.splits dest: resolve_appends)

text \<open>
  Once a reviewer has resolved anything, whatever other requests followed, the downgrade of
  revision 0006 refuses to run rather than discard the history.
\<close>

theorem recorded_history_blocks_downgrade:
  assumes "resolve q s = Some s'"
  shows "downgrade_0006 d (cat, s_working (run_resolutions qs s')) =
    Inl (RuntimeError ''Downgrade would discard resolution history. Restore a pre-upgrade backup instead.'')"
  using resolve_not_imported [OF assms] run_keeps_resolutions [of s' qs] by (auto simp: downgrade_0006_def list_ex_iff)

section \<open>Examples\<close>

definition old_decision :: "uuid \<Rightarrow> int \<Rightarrow> string \<Rightarrow> match_decision" where
  "old_decision i t verdict = \<lparr>md_id = i, md_created_at = t, md_organization_id = 1, md_candidate_id = 7,
     md_decision = verdict, md_revision = 0, md_reason = ''seen'', md_reviewer_id = 9, md_decided_at = t,
     md_supersedes_decision_id = None\<rparr>"

definition old_db :: database where
  "old_db = empty_db\<lparr>
     db_match_candidates := [\<lparr>mcand_id = 7, mcand_created_at = 0, mcand_organization_id = 1, mcand_rule_set_id = 2,
       mcand_left_record_key = ''a'', mcand_right_record_key = ''b'', mcand_score = None, mcand_evidence_json = [],
       mcand_status = ''accepted'', mcand_revision = 0\<rparr>],
     db_match_decisions := [old_decision 12 30 ''accepted'', old_decision 11 20 ''rejected''],
     db_quarantine_records := map (\<lambda>r. r\<lparr>qr_resolution_note := Some ''fixed'', qr_status := ''corrected''\<rparr>)
       (db_quarantine_records (s_working demo_quarantine_desk))\<rparr>"

lemma old_db_keys: "distinct (map md_id (db_match_decisions old_db))" "distinct (map qr_id (db_quarantine_records old_db))"
  by code_simp+

theorem match_revisions_migrated_witness:
  "\<exists>cat' db'. upgrade_0005 SQLite (baseline_tables, old_db) = Inr (cat', db') \<and> revisions_valid db'"
  using match_revisions_migrated [OF fresh_to_0004 [of SQLite] old_db_keys(1)] by blast

theorem review_round_trip_witness:
  "\<exists>s. downgrade_0005 PostgreSQL (review_tables, count_decisions (rank_decisions old_db)) = Inr s
    \<and> upgrade_0005 PostgreSQL s = Inr (review_tables, count_decisions (rank_decisions old_db))"
proof (rule review_round_trip [OF _ _ _ fresh_to_0004])
  let ?db = "count_decisions (rank_decisions old_db)"
  have ds: "db_match_decisions ?db = db_match_decisions (rank_decisions old_db)" by (simp add: count_decisions_def)
  show "distinct (map md_id (db_match_decisions ?db))"
    using old_db_keys(1) unfolding ds by (simp add: rank_decisions_def o_def)
  show "map md_revision (decision_order (db_match_decisions ?db) i)
      = [1..int (length (filter (\<lambda>x. md_candidate_id x = i) (db_match_decisions ?db)))]" for i
    using ranked_order [OF old_db_keys(1), of i] by (simp add: ds) (simp add: rank_decisions_def filter_map o_def)
  show "mcand_revision c = int (length (filter (\<lambda>x. md_candidate_id x = mcand_id c) (db_match_decisions ?db)))"
    if "c \<in> set (db_match_candidates ?db)" for c
    using that by (auto simp: count_decisions_def)
  show "upgrade_0005 PostgreSQL (baseline_tables, empty_db) = Inr (review_tables, count_decisions (rank_decisions empty_db))"
    by (rule upgrade_0005_runs) (simp add: empty_db_def)
qed

definition upgraded_session :: session where
  "upgraded_session = demo_quarantine_desk\<lparr>s_working := import_resolutions (\<lambda>i. 0) old_db,
     s_committed := import_resolutions (\<lambda>i. 0) old_db\<rparr>"

theorem imported_history_continues_witness:
  "map fst (quar_history (run_resolutions [demo_resolution ''closed'' 1] upgraded_session) 4) = [1..2]"
proof -
  have "upgrade_0006 SQLite (\<lambda>i. 0) (review_tables, old_db) = Inr (head_tables, s_working upgraded_session)"
    using run_0006 [of SQLite] by (simp add: upgrade_0006_def and_then_def upgraded_session_def)
  moreover have "quar_revision (run_resolutions [demo_resolution ''closed'' 1] upgraded_session) 4 = Some 2" by code_simp
  ultimately show ?thesis using imported_history_continues old_db_keys(2) by blast
qed

theorem recorded_history_blocks_downgrade_witness:
  "\<exists>s'. resolve (demo_resolution ''acknowledged'' 0) demo_quarantine_desk = Some s'
    \<and> isl (downgrade_0006 PostgreSQL (head_tables, s_working s'))"
proof -
  have "resolve (demo_resolution ''acknowledged'' 0) demo_quarantine_desk \<noteq> None" by code_simp
  then obtain s' where s': "resolve (demo_resolution ''acknowledged'' 0) demo_quarantine_desk = Some s'" by auto
  from recorded_history_blocks_downgrade [OF this, where qs = "[]"] have
    "isl (downgrade_0006 PostgreSQL (head_tables, s_working s'))" by simp
  with s' show ?thesis by blast
qed

end
