(* ===== verification/Seed.thy ===== *)
theory Seed
  imports Keyed_Rows
begin

text \<open>
  The demo seed (\<^verbatim>\<open>seed.py\<close>): the organization, sources, objects and contracts of the metadata file,
  and the permissions and roles of the program, each looked up by its key and added when it is
  missing. The lemmas show that a second run finds everything and changes nothing.
\<close>

section \<open>The metadata file\<close>

record organization_spec =
  osp_name :: string
  osp_organization_type :: string
  osp_status :: string
  osp_metadata_json :: pyrec

record contract_spec =
  csp_contract_key :: string
  csp_version :: string
  csp_schema_uri :: "string option"
  csp_schema_json :: pyrec
  csp_status :: string

record object_spec =
  bsp_object_key :: string
  bsp_object_type :: string
  bsp_location_template :: "string option"
  bsp_refresh_expectation :: "string option"
  bsp_contract :: contract_spec

record source_spec =
  ssp_source_key :: string
  ssp_name :: string
  ssp_connector_type :: string
  ssp_owner_role :: "string option"
  ssp_data_classification :: string
  ssp_active :: bool
  ssp_objects :: "object_spec list"

record seed_data =
  sd_organization :: organization_spec
  sd_sources :: "source_spec list"

section \<open>Permissions and roles\<close>

definition PERMISSIONS :: "(string \<times> string) list" where
  "PERMISSIONS = [(''sources:read'', ''Read source metadata''), (''ingestion:write'', ''Run immutable extraction''),
     (''profiles:write'', ''Create profiles and drift comparisons''), (''mappings:write'', ''Execute mapping previews''),
     (''validation:write'', ''Execute validation and resolve quarantine''),
     (''matching:write'', ''Execute identity matching and review decisions''),
     (''marts:write'', ''Build governed marts''), (''exports:write'', ''Publish documented exports''),
     (''lineage:read'', ''Read lineage traces''), (''audit:read'', ''Read organization audit events''),
     (''retention:write'', ''Manage and apply retention policies'')]"

text \<open>The sets of the dictionary, each in some order.\<close>

definition ROLE_PERMISSIONS :: "(string \<times> string list) list" where
  "ROLE_PERMISSIONS = [(''administrator'', map fst PERMISSIONS),
     (''data_steward'', [''sources:read'', ''ingestion:write'', ''profiles:write'', ''mappings:write'',
        ''validation:write'', ''matching:write'', ''lineage:read'']),
     (''publisher'', [''marts:write'', ''exports:write'', ''lineage:read'']),
     (''viewer'', [''sources:read'', ''lineage:read''])]"

text \<open>\<^verbatim>\<open>role_key.replace("_", " ").title()\<close> on lower-case ASCII keys.\<close>

definition upper_char :: "char \<Rightarrow> char" where
  "upper_char c = (if CHR ''a'' \<le> c \<and> c \<le> CHR ''z'' then char_of (of_char c - 32 :: nat) else c)"

fun title_from :: "bool \<Rightarrow> string \<Rightarrow> string" where
  "title_from start [] = []"
| "title_from start (c # cs) =
     (if c = CHR ''_'' then CHR '' '' # title_from True cs
      else (if start then upper_char c else c) # title_from False cs)"

section \<open>Rows\<close>

definition put_organization :: "organization \<Rightarrow> database \<Rightarrow> database" where
  "put_organization r db = db\<lparr>db_organizations := db_organizations db @ [r]\<rparr>"

definition put_source_system :: "source_system \<Rightarrow> database \<Rightarrow> database" where
  "put_source_system r db = db\<lparr>db_source_systems := db_source_systems db @ [r]\<rparr>"

definition put_source_object :: "source_object \<Rightarrow> database \<Rightarrow> database" where
  "put_source_object r db = db\<lparr>db_source_objects := db_source_objects db @ [r]\<rparr>"

definition put_data_contract :: "data_contract \<Rightarrow> database \<Rightarrow> database" where
  "put_data_contract r db = db\<lparr>db_data_contracts := db_data_contracts db @ [r]\<rparr>"

definition put_permission :: "permission \<Rightarrow> database \<Rightarrow> database" where
  "put_permission r db = db\<lparr>db_permissions := db_permissions db @ [r]\<rparr>"

definition put_role :: "role \<Rightarrow> database \<Rightarrow> database" where
  "put_role r db = db\<lparr>db_roles := db_roles db @ [r]\<rparr>"

definition put_role_permission :: "role_permission \<Rightarrow> database \<Rightarrow> database" where
  "put_role_permission r db = db\<lparr>db_role_permissions := db_role_permissions db @ [r]\<rparr>"

lemmas seed_puts = put_organization_def put_source_system_def put_source_object_def put_data_contract_def
  put_permission_def put_role_def put_role_permission_def

definition source_row_key :: "source_system \<Rightarrow> uuid \<times> string" where
  "source_row_key r = (ss_organization_id r, ss_source_key r)"

definition object_row_key :: "source_object \<Rightarrow> uuid \<times> string" where
  "object_row_key r = (so_source_system_id r, so_object_key r)"

definition contract_row_key :: "data_contract \<Rightarrow> uuid \<times> string \<times> string" where
  "contract_row_key r = (dc_source_object_id r, dc_contract_key r, dc_version r)"

definition grant_row_key :: "role_permission \<Rightarrow> uuid \<times> uuid" where
  "grant_row_key r = (rperm_role_id r, rperm_permission_id r)"

definition new_organization :: "organization_spec \<Rightarrow> int \<Rightarrow> string \<Rightarrow> uuid \<Rightarrow> organization" where
  "new_organization spec now k i = \<lparr>org_id = i, org_created_at = now, org_name = k,
     org_organization_type = osp_organization_type spec, org_status = osp_status spec,
     org_parent_organization_id = None, org_metadata_json = osp_metadata_json spec\<rparr>"

definition new_source :: "source_spec \<Rightarrow> int \<Rightarrow> uuid \<times> string \<Rightarrow> uuid \<Rightarrow> source_system" where
  "new_source spec now k i = \<lparr>ss_id = i, ss_created_at = now, ss_organization_id = fst k, ss_source_key = snd k,
     ss_name = ssp_name spec, ss_connector_type = ssp_connector_type spec, ss_owner_role = ssp_owner_role spec,
     ss_data_classification = ssp_data_classification spec, ss_secret_reference = None, ss_active = ssp_active spec\<rparr>"

definition new_object :: "object_spec \<Rightarrow> int \<Rightarrow> uuid \<times> string \<Rightarrow> uuid \<Rightarrow> source_object" where
  "new_object spec now k i = \<lparr>so_id = i, so_created_at = now, so_source_system_id = fst k, so_object_key = snd k,
     so_object_type = bsp_object_type spec, so_location_template = bsp_location_template spec,
     so_refresh_expectation = bsp_refresh_expectation spec\<rparr>"

definition new_contract :: "contract_spec \<Rightarrow> int \<Rightarrow> uuid \<times> string \<times> string \<Rightarrow> uuid \<Rightarrow> data_contract" where
  "new_contract spec now k i = \<lparr>dc_id = i, dc_created_at = now, dc_source_object_id = fst k,
     dc_contract_key = fst (snd k), dc_version = snd (snd k), dc_schema_uri = csp_schema_uri spec,
     dc_schema_json = csp_schema_json spec, dc_status = csp_status spec\<rparr>"

definition new_permission :: "string \<Rightarrow> int \<Rightarrow> string \<Rightarrow> uuid \<Rightarrow> permission" where
  "new_permission description now k i =
     \<lparr>perm_id = i, perm_created_at = now, perm_permission_key = k, perm_description = description\<rparr>"

definition new_role :: "int \<Rightarrow> string \<Rightarrow> uuid \<Rightarrow> role" where
  "new_role now k i = \<lparr>role_id = i, role_created_at = now, role_role_key = k, role_name = title_from True k,
     role_description = None\<rparr>"

definition new_grant :: "int \<Rightarrow> uuid \<times> uuid \<Rightarrow> uuid \<Rightarrow> role_permission" where
  "new_grant now k i = \<lparr>rperm_id = i, rperm_created_at = now, rperm_role_id = fst k, rperm_permission_id = snd k\<rparr>"

section \<open>Seeding\<close>

definition seed_permission :: "int \<Rightarrow> string \<times> string \<Rightarrow> session \<Rightarrow> permission \<times> session" where
  "seed_permission now p = goc_by db_permissions perm_permission_key put_permission (new_permission (snd p) now) (fst p)"

text \<open>The first loop of \<^verbatim>\<open>_seed_security\<close>, with the dictionary \<^verbatim>\<open>permission_rows\<close> it builds.\<close>

fun seed_permissions :: "int \<Rightarrow> (string \<times> string) list \<Rightarrow> session \<Rightarrow> (string \<times> uuid) list \<times> session" where
  "seed_permissions now [] s = ([], s)"
| "seed_permissions now (p # ps) s = (case seed_permission now p s of (r, s1) \<Rightarrow>
     case seed_permissions now ps s1 of (rows, s2) \<Rightarrow> ((fst p, perm_id r) # rows, s2))"

definition seed_grant :: "int \<Rightarrow> (string \<times> uuid) list \<Rightarrow> uuid \<Rightarrow> string \<Rightarrow> session \<Rightarrow> session res" where
  "seed_grant now rows rid key s = (case map_of rows key of
       None \<Rightarrow> Inl (KeyError key)
     | Some i \<Rightarrow> Inr (snd (goc_by db_role_permissions grant_row_key put_role_permission (new_grant now) (rid, i) s)))"

definition seed_role :: "int \<Rightarrow> (string \<times> uuid) list \<Rightarrow> string \<times> string list \<Rightarrow> session \<Rightarrow> session res" where
  "seed_role now rows r s = (case goc_by db_roles role_role_key put_role (new_role now) (fst r) s of
     (row, s1) \<Rightarrow> res_fold (seed_grant now rows (role_id row)) (snd r) s1)"

definition seed_security :: "int \<Rightarrow> session \<Rightarrow> session res" where
  "seed_security now s = (case seed_permissions now PERMISSIONS s of
     (rows, s1) \<Rightarrow> res_fold (seed_role now rows) ROLE_PERMISSIONS s1)"

definition seed_object :: "int \<Rightarrow> uuid \<Rightarrow> object_spec \<Rightarrow> session \<Rightarrow> session" where
  "seed_object now source_id spec s =
     (case goc_by db_source_objects object_row_key put_source_object (new_object spec now)
        (source_id, bsp_object_key spec) s of (row, s1) \<Rightarrow>
      snd (goc_by db_data_contracts contract_row_key put_data_contract (new_contract (bsp_contract spec) now)
        (so_id row, csp_contract_key (bsp_contract spec), csp_version (bsp_contract spec)) s1))"

definition seed_source :: "int \<Rightarrow> uuid \<Rightarrow> source_spec \<Rightarrow> session \<Rightarrow> session" where
  "seed_source now organization_id spec s =
     (case goc_by db_source_systems source_row_key put_source_system (new_source spec now)
        (organization_id, ssp_source_key spec) s of (row, s1) \<Rightarrow>
      fold (seed_object now (ss_id row)) (ssp_objects spec) s1)"

definition seed_metadata :: "int \<Rightarrow> seed_data \<Rightarrow> session \<Rightarrow> session" where
  "seed_metadata now data s =
     (case goc_by db_organizations org_name put_organization (new_organization (sd_organization data) now)
        (osp_name (sd_organization data)) s of (row, s1) \<Rightarrow>
      fold (seed_source now (org_id row)) (sd_sources data) s1)"

definition seed :: "int \<Rightarrow> seed_data \<Rightarrow> session \<Rightarrow> session res" where
  "seed now data s = (case seed_security now (seed_metadata now data s) of
       Inl e \<Rightarrow> Inl e | Inr s1 \<Rightarrow> Inr (commit s1))"

section \<open>Lemmas: rows that are found again\<close>

lemma find_prefix: "find P xs = Some r \<Longrightarrow> find P (xs @ ys) = Some r"
  by (induction xs) (auto split: if_splits)

context keyed_rows
begin

text \<open>A row that was found or made is found as long as the table only grows, whatever a new row would look like.\<close>

lemma goc_by_again:
  assumes "goc_by rows key put mk k s = (r, s1)" and "rows (s_working s2) = rows (s_working s1) @ xs"
  shows "goc_by rows key put mk' k s2 = (r, s2)"
proof -
  have "find_by rows key s1 k = Some r" using assms(1) by (rule goc_finds)
  then have "find_by rows key s2 k = Some r" using assms(2) by (simp add: find_by_def find_prefix)
  then show ?thesis by (simp add: goc_by_def)
qed

end

interpretation seed_orgs: keyed_rows db_organizations org_name put_organization "new_organization spec now" for spec now
  by unfold_locales (simp_all add: seed_puts new_organization_def)

interpretation seed_systems: keyed_rows db_source_systems source_row_key put_source_system "new_source spec now" for spec now
  by unfold_locales (simp_all add: seed_puts new_source_def source_row_key_def)

interpretation seed_objects: keyed_rows db_source_objects object_row_key put_source_object "new_object spec now" for spec now
  by unfold_locales (simp_all add: seed_puts new_object_def object_row_key_def)

interpretation seed_contracts: keyed_rows db_data_contracts contract_row_key put_data_contract "new_contract spec now"
  for spec now
  by unfold_locales (simp_all add: seed_puts new_contract_def contract_row_key_def)

interpretation seed_perms: keyed_rows db_permissions perm_permission_key put_permission "new_permission d now" for d now
  by unfold_locales (simp_all add: seed_puts new_permission_def)

interpretation seed_roles: keyed_rows db_roles role_role_key put_role "new_role now" for now
  by unfold_locales (simp_all add: seed_puts new_role_def)

interpretation seed_grants: keyed_rows db_role_permissions grant_row_key put_role_permission "new_grant now" for now
  by unfold_locales (simp_all add: seed_puts new_grant_def grant_row_key_def)

text \<open>The seven tables only grow.\<close>

definition grows :: "(database \<Rightarrow> 'r list) \<Rightarrow> session \<Rightarrow> session \<Rightarrow> bool" where
  "grows rows s s' = (\<exists>xs. rows (s_working s') = rows (s_working s) @ xs)"

definition extends :: "session \<Rightarrow> session \<Rightarrow> bool" where
  "extends s s' = (grows db_organizations s s' \<and> grows db_source_systems s s' \<and> grows db_source_objects s s'
     \<and> grows db_data_contracts s s' \<and> grows db_permissions s s' \<and> grows db_roles s s' \<and> grows db_role_permissions s s')"

lemma grows_refl: "grows rows s s"
  by (simp add: grows_def)

lemma extends_refl: "extends s s"
  by (simp add: extends_def grows_refl)

lemma extends_trans: "extends s t \<Longrightarrow> extends t u \<Longrightarrow> extends s u"
  by (auto simp: extends_def grows_def)

lemma extends_add:
  assumes "\<And>r. extends s (s\<lparr>s_working := put r (s_working s), s_next := Suc (s_next s)\<rparr>)"
  shows "extends s (snd (goc_by rows key put mk k s))"
  using assms by (simp add: goc_by_def add_row_def Let_def extends_refl split: option.split)

lemma extends_goc [simp]:
  "extends s (snd (goc_by db_organizations org_name put_organization mk1 k1 s))"
  "extends s (snd (goc_by db_source_systems source_row_key put_source_system mk2 k2 s))"
  "extends s (snd (goc_by db_source_objects object_row_key put_source_object mk3 k3 s))"
  "extends s (snd (goc_by db_data_contracts contract_row_key put_data_contract mk4 k4 s))"
  "extends s (snd (goc_by db_permissions perm_permission_key put_permission mk5 k5 s))"
  "extends s (snd (goc_by db_roles role_role_key put_role mk6 k6 s))"
  "extends s (snd (goc_by db_role_permissions grant_row_key put_role_permission mk7 k7 s))"
  by (rule extends_add; simp add: extends_def grows_def seed_puts)+

section \<open>Lemmas: a second run changes nothing\<close>

text \<open>\<open>settles f g\<close>: \<open>f\<close> only adds rows, and after it, whatever is added later, \<open>g\<close> does nothing.\<close>

definition settles :: "(session \<Rightarrow> session res) \<Rightarrow> (session \<Rightarrow> session res) \<Rightarrow> bool" where
  "settles f g = (\<forall>s. \<exists>s1. f s = Inr s1 \<and> extends s s1 \<and> (\<forall>s'. extends s1 s' \<longrightarrow> g s' = Inr s'))"

lemma settlesI: "(\<And>s. \<exists>s1. f s = Inr s1 \<and> extends s s1 \<and> (\<forall>s'. extends s1 s' \<longrightarrow> g s' = Inr s')) \<Longrightarrow> settles f g"
  by (simp add: settles_def)

lemma settlesE:
  assumes "settles f g"
  obtains s1 where "f s = Inr s1" and "extends s s1" and "\<And>s'. extends s1 s' \<Longrightarrow> g s' = Inr s'"
  using assms unfolding settles_def by blast

lemma settles_fold:
  "(\<And>x. x \<in> set xs \<Longrightarrow> settles (f x) (g x)) \<Longrightarrow> settles (res_fold f xs) (res_fold g xs)"
proof (induction xs)
  case Nil
  then show ?case by (auto intro!: settlesI simp: extends_refl)
next
  case (Cons x xs)
  show ?case
  proof (rule settlesI)
    fix s
    obtain s1 where 1: "f x s = Inr s1" "extends s s1" "\<And>s'. extends s1 s' \<Longrightarrow> g x s' = Inr s'"
      using settlesE [OF Cons.prems [of x]] by auto
    obtain s2 where 2: "res_fold f xs s1 = Inr s2" "extends s1 s2" "\<And>s'. extends s2 s' \<Longrightarrow> res_fold g xs s' = Inr s'"
      using settlesE [OF Cons.IH] Cons.prems by (metis list.set_intros(2))
    have "res_fold g (x # xs) s' = Inr s'" if "extends s2 s'" for s'
      using 1(3) [OF extends_trans [OF 2(2) that]] 2(3) [OF that] by simp
    with 1 2 show "\<exists>s1. res_fold f (x # xs) s = Inr s1 \<and> extends s s1
        \<and> (\<forall>s'. extends s1 s' \<longrightarrow> res_fold g (x # xs) s' = Inr s')"
      by (intro exI [of _ s2]) (auto intro: extends_trans)
  qed
qed

text \<open>A lookup followed by steps that use the row it found.\<close>

lemma settles_goc:
  assumes "\<And>s. extends s (snd (get s))"
    and "\<And>s r s1 s'. get s = (r, s1) \<Longrightarrow> extends s1 s' \<Longrightarrow> get' s' = (r, s')"
    and "\<And>r. settles (f r) (g r)"
  shows "settles (\<lambda>s. case get s of (r, s1) \<Rightarrow> f r s1) (\<lambda>s. case get' s of (r, s1) \<Rightarrow> g r s1)"
proof (rule settlesI)
  fix s
  obtain r s1 where g: "get s = (r, s1)" by fastforce
  obtain s2 where 2: "f r s1 = Inr s2" "extends s1 s2" "\<And>s'. extends s2 s' \<Longrightarrow> g r s' = Inr s'"
    using settlesE [OF assms(3) [of r]] by metis
  have "(case get' s' of (r, t) \<Rightarrow> g r t) = Inr s'" if "extends s2 s'" for s'
    using assms(2) [OF g extends_trans [OF 2(2) that]] 2(3) [OF that] by simp
  with g 2 assms(1) [of s] show "\<exists>s1. (case get s of (r, t) \<Rightarrow> f r t) = Inr s1 \<and> extends s s1
      \<and> (\<forall>s'. extends s1 s' \<longrightarrow> (case get' s' of (r, t) \<Rightarrow> g r t) = Inr s')"
    by (auto intro: extends_trans)
qed

lemma settles_done: "settles Inr Inr"
  by (auto intro!: settlesI simp: extends_refl)

lemma fold_as_res: "Inr (fold f xs s) = res_fold (\<lambda>x s. Inr (f x s)) xs s"
  by (induction xs arbitrary: s) auto

lemma extends_grows:
  assumes "extends s s'"
  obtains a b c d e f g where
    "db_organizations (s_working s') = db_organizations (s_working s) @ a"
    "db_source_systems (s_working s') = db_source_systems (s_working s) @ b"
    "db_source_objects (s_working s') = db_source_objects (s_working s) @ c"
    "db_data_contracts (s_working s') = db_data_contracts (s_working s) @ d"
    "db_permissions (s_working s') = db_permissions (s_working s) @ e"
    "db_roles (s_working s') = db_roles (s_working s) @ f"
    "db_role_permissions (s_working s') = db_role_permissions (s_working s) @ g"
  using assms unfolding extends_def grows_def by auto

text \<open>Each lookup of the seed, repeated at a later time on a larger database, finds the same row.\<close>

lemma found_again:
  assumes "extends s1 s'"
  shows "goc_by db_organizations org_name put_organization (new_organization sp1 now) k1 s = (r1, s1) \<Longrightarrow>
      goc_by db_organizations org_name put_organization (new_organization sp1 now') k1 s' = (r1, s')"
    "goc_by db_source_systems source_row_key put_source_system (new_source sp2 now) k2 s = (r2, s1) \<Longrightarrow>
      goc_by db_source_systems source_row_key put_source_system (new_source sp2 now') k2 s' = (r2, s')"
    "goc_by db_source_objects object_row_key put_source_object (new_object sp3 now) k3 s = (r3, s1) \<Longrightarrow>
      goc_by db_source_objects object_row_key put_source_object (new_object sp3 now') k3 s' = (r3, s')"
    "goc_by db_data_contracts contract_row_key put_data_contract (new_contract sp4 now) k4 s = (r4, s1) \<Longrightarrow>
      goc_by db_data_contracts contract_row_key put_data_contract (new_contract sp4 now') k4 s' = (r4, s')"
    "goc_by db_permissions perm_permission_key put_permission (new_permission dd now) k5 s = (r5, s1) \<Longrightarrow>
      goc_by db_permissions perm_permission_key put_permission (new_permission dd now') k5 s' = (r5, s')"
    "goc_by db_roles role_role_key put_role (new_role now) k6 s = (r6, s1) \<Longrightarrow>
      goc_by db_roles role_role_key put_role (new_role now') k6 s' = (r6, s')"
    "goc_by db_role_permissions grant_row_key put_role_permission (new_grant now) k7 s = (r7, s1) \<Longrightarrow>
      goc_by db_role_permissions grant_row_key put_role_permission (new_grant now') k7 s' = (r7, s')"
  using extends_grows [OF assms] seed_orgs.goc_by_again seed_systems.goc_by_again seed_objects.goc_by_again
    seed_contracts.goc_by_again seed_perms.goc_by_again seed_roles.goc_by_again seed_grants.goc_by_again
  by metis+

lemmas settles_steps = settles_goc settles_done settles_fold extends_goc

lemma settles_object: "settles (\<lambda>s. Inr (seed_object now src spec s)) (\<lambda>s. Inr (seed_object now' src spec s))"
proof -
  have eq: "(\<lambda>s. Inr (seed_object n src spec s)) = (\<lambda>s. case goc_by db_source_objects object_row_key put_source_object
        (new_object spec n) (src, bsp_object_key spec) s of (row, s1) \<Rightarrow>
      (case goc_by db_data_contracts contract_row_key put_data_contract (new_contract (bsp_contract spec) n)
        (so_id row, csp_contract_key (bsp_contract spec), csp_version (bsp_contract spec)) s1 of (r, s2) \<Rightarrow> Inr s2))" for n
    by (simp add: seed_object_def fun_eq_iff split: prod.split)
  show ?thesis unfolding eq by (intro settles_steps) (blast intro: found_again)+
qed

lemma settles_source: "settles (\<lambda>s. Inr (seed_source now oid spec s)) (\<lambda>s. Inr (seed_source now' oid spec s))"
proof -
  have eq: "(\<lambda>s. Inr (seed_source n oid spec s)) = (\<lambda>s. case goc_by db_source_systems source_row_key put_source_system
        (new_source spec n) (oid, ssp_source_key spec) s of (row, s1) \<Rightarrow>
      res_fold (\<lambda>x s. Inr (seed_object n (ss_id row) x s)) (ssp_objects spec) s1)" for n
    by (simp add: seed_source_def fun_eq_iff fold_as_res split: prod.split)
  show ?thesis unfolding eq by (intro settles_steps settles_object) (blast intro: found_again)
qed

lemma settles_metadata: "settles (\<lambda>s. Inr (seed_metadata now data s)) (\<lambda>s. Inr (seed_metadata now' data s))"
proof -
  have eq: "(\<lambda>s. Inr (seed_metadata n data s)) = (\<lambda>s. case goc_by db_organizations org_name put_organization
        (new_organization (sd_organization data) n) (osp_name (sd_organization data)) s of (row, s1) \<Rightarrow>
      res_fold (\<lambda>x s. Inr (seed_source n (org_id row) x s)) (sd_sources data) s1)" for n
    by (simp add: seed_metadata_def fun_eq_iff fold_as_res split: prod.split)
  show ?thesis unfolding eq by (intro settles_steps settles_source) (blast intro: found_again)
qed

lemma settles_grant:
  assumes "map_of rows key \<noteq> None"
  shows "settles (seed_grant now rows rid key) (seed_grant now' rows rid key)"
proof -
  from assms obtain i where i: "map_of rows key = Some i" by auto
  have eq: "seed_grant n rows rid key = (\<lambda>s. case goc_by db_role_permissions grant_row_key put_role_permission
      (new_grant n) (rid, i) s of (r, s1) \<Rightarrow> Inr s1)" for n
    by (simp add: seed_grant_def i fun_eq_iff split: prod.split)
  show ?thesis unfolding eq by (intro settles_steps) (blast intro: found_again)
qed

lemma settles_role:
  assumes "list_all (\<lambda>key. map_of rows key \<noteq> None) (snd r)"
  shows "settles (seed_role now rows r) (seed_role now' rows r)"
  unfolding seed_role_def using assms
  by (intro settles_steps settles_grant) (auto simp: list_all_iff intro: found_again)

lemma settles_permissions:
  assumes "seed_permissions now ps s = (rows, s1)"
  shows "extends s s1" and "extends s1 s' \<Longrightarrow> seed_permissions now' ps s' = (rows, s')" and "map fst rows = map fst ps"
proof -
  have "extends s s1 \<and> (\<forall>s'. extends s1 s' \<longrightarrow> seed_permissions now' ps s' = (rows, s')) \<and> map fst rows = map fst ps"
    using assms
  proof (induction ps arbitrary: s rows)
    case Nil
    then show ?case by (simp add: extends_refl)
  next
    case (Cons p ps)
    obtain r t where t: "seed_permission now p s = (r, t)" by fastforce
    obtain rs u where u: "seed_permissions now ps t = (rs, u)" by fastforce
    from Cons.prems t u have e: "rows = (fst p, perm_id r) # rs" "s1 = u" by simp_all
    note ih = Cons.IH [OF u [unfolded e(2) [symmetric]]]
    have st: "extends s t" using t extends_goc(5) [of s] unfolding seed_permission_def by (metis snd_conv)
    have "seed_permission now' p s' = (r, s')" if "extends s1 s'" for s'
      using found_again(5) [OF extends_trans [OF conjunct1 [OF ih] that]] t unfolding seed_permission_def by blast
    with ih e st show ?case by (auto intro: extends_trans)
  qed
  then show "extends s s1" and "extends s1 s' \<Longrightarrow> seed_permissions now' ps s' = (rows, s')" and "map fst rows = map fst ps"
    by blast+
qed

lemma role_permissions_known:
  "list_all (\<lambda>r. list_all (\<lambda>key. key \<in> set (map fst PERMISSIONS)) (snd r)) ROLE_PERMISSIONS"
  by code_simp

lemma settles_security: "settles (seed_security now) (seed_security now')"
proof (rule settlesI)
  fix s
  obtain rows t where t: "seed_permissions now PERMISSIONS s = (rows, t)" by fastforce
  note p = settles_permissions [OF t]
  have "map_of rows key \<noteq> None" if "key \<in> set (map fst PERMISSIONS)" for key
    using that p(3) by (simp add: map_of_eq_None_iff) (metis set_map)
  then have "settles (res_fold (seed_role now rows) ROLE_PERMISSIONS) (res_fold (seed_role now' rows) ROLE_PERMISSIONS)"
    using role_permissions_known by (intro settles_fold settles_role) (auto simp: list_all_iff)
  then obtain u where u: "res_fold (seed_role now rows) ROLE_PERMISSIONS t = Inr u" "extends t u"
    "\<And>s'. extends u s' \<Longrightarrow> res_fold (seed_role now' rows) ROLE_PERMISSIONS s' = Inr s'"
    by (rule settlesE [where s = t]) blast
  have "seed_security now' s' = Inr s'" if "extends u s'" for s'
    using p(2) [OF extends_trans [OF u(2) that]] u(3) [OF that] by (simp add: seed_security_def)
  with t u p(1) show "\<exists>s1. seed_security now s = Inr s1 \<and> extends s s1 \<and> (\<forall>s'. extends s1 s' \<longrightarrow> seed_security now' s' = Inr s')"
    by (auto simp: seed_security_def intro: extends_trans)
qed

section \<open>Properties of the seed\<close>

text \<open>
  Seeding never fails, whatever the database holds and whatever the metadata file lists; it
  publishes what it added, and seeding again at any later time, with the same file, changes
  nothing at all: no second organization, source, object, contract, permission, role or grant.
\<close>

theorem seed_idempotent:
  "\<exists>s1. seed now data s = Inr s1 \<and> extends s s1 \<and> s_committed s1 = s_working s1 \<and> seed now' data s1 = Inr s1"
proof -
  have "settles (\<lambda>s. Inr (seed_metadata now data s)) (\<lambda>s. Inr (seed_metadata now' data s))" by (rule settles_metadata)
  then obtain t where t: "seed_metadata now data s = t" "extends s t"
    "\<And>s'. extends t s' \<Longrightarrow> seed_metadata now' data s' = s'" by (rule settlesE [where s = s]) auto
  obtain u where u: "seed_security now t = Inr u" "extends t u" "\<And>s'. extends u s' \<Longrightarrow> seed_security now' s' = Inr s'"
    using settles_security [of now now'] by (rule settlesE [where s = t]) blast
  have c: "extends u (commit u)" by (simp add: extends_def grows_def commit_def)
  have "seed now' data (commit u) = Inr (commit u)"
    using t(3) [OF extends_trans [OF u(2) c]] u(3) [OF c] by (simp add: seed_def commit_def)
  with t u c show ?thesis
    by (intro exI [of _ "commit u"]) (auto simp: seed_def commit_def intro: extends_trans)
qed

end
