(* ===== verification/Generator.thy ===== *)
theory Generator
  imports Api
begin

text \<open>
  The generator of the synthetic datasets (\<^verbatim>\<open>synthetic/generator.py\<close> and
  \<^verbatim>\<open>synthetic/models.py\<close>): the presets, the rows of the six files with the
  defects injected into them, the writers, the manifest with its digests, and
  \<^verbatim>\<open>verify_manifest\<close>.

  A dictionary with a fixed set of keys is a record here, with the dictionary the
  writers receive beside it. The pseudo-random generator of the standard library is a
  state with a \<open>sample\<close> operation; the text formats written by native code (CSV,
  workbooks, zip archives, Parquet) are the functions of a record of writers, JSON is
  the one of \<open>codecs\<close>. Paths are texts joined by a slash.
\<close>

section \<open>Presets\<close>

record dataset_preset =
  dp_people :: nat
  dp_courses :: nat
  dp_participations_per_person :: nat
  dp_duplicate_rate :: real
  dp_defect_rate :: real

definition PRESETS :: "(string \<times> dataset_preset) list" where
  "PRESETS =
     [(''small'', \<lparr>dp_people = 120, dp_courses = 6, dp_participations_per_person = 3,
        dp_duplicate_rate = 5 / 100, dp_defect_rate = 8 / 100\<rparr>),
      (''medium'', \<lparr>dp_people = 2000, dp_courses = 18, dp_participations_per_person = 6,
        dp_duplicate_rate = 4 / 100, dp_defect_rate = 6 / 100\<rparr>),
      (''benchmark'', \<lparr>dp_people = 100000, dp_courses = 80, dp_participations_per_person = 10,
        dp_duplicate_rate = 3 / 100, dp_defect_rate = 5 / 100\<rparr>)]"

text \<open>\<^verbatim>\<open>asdict(preset)\<close>\<close>

definition preset_dict :: "dataset_preset \<Rightarrow> pyrec" where
  "preset_dict p =
     [(''people'', PInt (int (dp_people p))), (''courses'', PInt (int (dp_courses p))),
      (''participations_per_person'', PInt (int (dp_participations_per_person p))),
      (''duplicate_rate'', PFloat (Fin (dp_duplicate_rate p))),
      (''defect_rate'', PFloat (Fin (dp_defect_rate p)))]"

section \<open>Tables\<close>

definition FIRST_NAMES :: "string list" where
  "FIRST_NAMES = [''Amina'', ''Carlos'', ''Chen'', ''Devin'', ''Elena'', ''Fatima'', ''Grace'', ''Hiro'',
     ''Imani'', ''Jonah'', ''Kavya'', ''Luis'', ''Maya'', ''Noah'', ''Olivia'', ''Priya'', ''Rafael'',
     ''Samira'', ''Theo'', ''Yuki'']"

definition LAST_NAMES :: "string list" where
  "LAST_NAMES = [''Adams'', ''Bennett'', ''Chen'', ''Diaz'', ''Edwards'', ''Farah'', ''Garcia'', ''Hassan'',
     ''Ibrahim'', ''Johnson'', ''Kim'', ''Lopez'', ''Martin'', ''Nguyen'', ''Owens'', ''Patel'', ''Rahman'',
     ''Singh'', ''Taylor'', ''Williams'']"

definition DEPARTMENTS :: "string list" where
  "DEPARTMENTS = [''Operations'', ''Technology'', ''Sales'', ''Finance'', ''People'', ''Customer Success'']"

definition COURSE_TITLES :: "string list" where
  "COURSE_TITLES = [''Data Privacy Essentials'', ''Workplace Safety'', ''Customer Communication'',
     ''Responsible AI Foundations'', ''Manager Coaching'', ''Information Security'',
     ''Quality Fundamentals'', ''Project Delivery'']"

definition DEFECT_CATALOG :: pyrec where
  "DEFECT_CATALOG =
     [(''missing_employee_id'', PStr ''HRIS employee identifier is blank while related systems retain an ID.''),
      (''name_variant'', PStr ''LMS name contains spacing, punctuation, or nickname variation.''),
      (''duplicate_lms_account'', PStr ''One synthetic person has two LMS accounts.''),
      (''conflicting_department'', PStr ''HRIS and LMS department codes disagree.''),
      (''invalid_completion_status'', PStr ''LMS status contains a value outside the approved code set.''),
      (''completion_before_assignment'', PStr ''Completion timestamp precedes assignment timestamp.''),
      (''credential_before_assessment'', PStr ''Credential award precedes the qualifying assessment.''),
      (''late_event'', PStr ''A learning event arrives after the expected reporting window.''),
      (''formula_like_text'', PStr ''A harmless synthetic text value begins with a spreadsheet formula character.'')]"

section \<open>Texts, identifiers and times\<close>

text \<open>\<open>zero_pad w n\<close> is the format \<^verbatim>\<open>{n:0<w>d}\<close>.\<close>

definition zero_pad :: "nat \<Rightarrow> nat \<Rightarrow> string" where
  "zero_pad w n = replicate (w - length (nat_str n)) (CHR ''0'') @ nat_str n"

text \<open>\<^verbatim>\<open>text.replace(" ", by)\<close>\<close>

definition replace_space :: "string \<Rightarrow> string \<Rightarrow> string" where
  "replace_space by' s = concat (map (\<lambda>c. if c = CHR '' '' then by' else [c]) s)"

text \<open>\<^verbatim>\<open>uuid5\<close> of the URL namespace, as text.\<close>

definition stable_uuid :: "runtime \<Rightarrow> int \<Rightarrow> string \<Rightarrow> nat \<Rightarrow> string" where
  "stable_uuid R seed namespace number =
     rt_uuid_str R (rt_uuid5 R (''eduwork:'' @ int_str seed @ '':'' @ namespace @ '':'' @ nat_str number))"

definition days :: "int \<Rightarrow> int" where
  "days d = d * 86400000000"

text \<open>Midnight UTC of 2026-01-01, 2026-02-01 and 2027-01-15.\<close>

definition JAN_2026 :: int where "JAN_2026 = days 739616"

definition FEB_2026 :: int where "FEB_2026 = days 739647"

definition LATE_2027 :: int where "LATE_2027 = days 739995"

text \<open>\<^verbatim>\<open>datetime.fromisoformat(text)\<close>, the instant of an aware timestamp.\<close>

definition from_iso :: "runtime \<Rightarrow> string \<Rightarrow> int res" where
  "from_iso R s = (case rt_fromiso R s of
       None \<Rightarrow> Inl (ValueError ''Invalid isoformat string'')
     | Some d \<Rightarrow> Inr (dt_wall d - (case dt_offset d of None \<Rightarrow> 0 | Some z \<Rightarrow> z)))"

section \<open>Lists that are indexed\<close>

definition item_at :: "nat \<Rightarrow> 'a list \<Rightarrow> 'a res" where
  "item_at i xs = (if i < length xs then Inr (xs ! i) else Inl IndexError)"

definition change_at :: "nat \<Rightarrow> ('a \<Rightarrow> 'a) \<Rightarrow> 'a list \<Rightarrow> 'a list res" where
  "change_at i f xs = (if i < length xs then Inr (xs[i := f (xs ! i)]) else Inl IndexError)"

text \<open>\<^verbatim>\<open>xs[n % len(xs)]\<close>\<close>

definition cycled :: "nat \<Rightarrow> 'a list \<Rightarrow> 'a res" where
  "cycled n xs = (if xs = [] then Inl ZeroDivisionError else Inr (xs ! (n mod length xs)))"

text \<open>\<^verbatim>\<open>max(1, int(n * rate / d))\<close> for a rate that is not negative.\<close>

definition defects :: "nat \<Rightarrow> real \<Rightarrow> real \<Rightarrow> nat" where
  "defects n rate d = max 1 (nat \<lfloor>real n * rate / d\<rfloor>)"

section \<open>The pseudo-random generator\<close>

text \<open>
  \<^verbatim>\<open>random.Random(seed)\<close> and \<^verbatim>\<open>rng.sample(range(n), k)\<close>: the positions drawn, in
  order, and the state that follows. More positions than the range has raise.
\<close>

record 'g rng =
  rng_seed :: "int \<Rightarrow> 'g"
  rng_draw :: "'g \<Rightarrow> nat \<Rightarrow> nat \<Rightarrow> nat list \<times> 'g"

definition sample :: "'g rng \<Rightarrow> nat \<Rightarrow> nat \<Rightarrow> 'g \<Rightarrow> (nat list \<times> 'g) res" where
  "sample G n k g = (if n < k then Inl (ValueError ''Sample larger than population or is negative'')
     else Inr (rng_draw G g n k))"

text \<open>A loop over a sample of the positions of a range.\<close>

definition for_sample :: "'g rng \<Rightarrow> nat \<Rightarrow> nat \<Rightarrow> (nat \<Rightarrow> 's \<Rightarrow> 's res) \<Rightarrow> 's \<times> 'g \<Rightarrow> ('s \<times> 'g) res" where
  "for_sample G n k body st = (case st of (s, g) \<Rightarrow>
     and_then (sample G n k g) (\<lambda>(positions, g').
     and_then (res_fold body positions s) (\<lambda>s'. Inr (s', g'))))"

section \<open>Rows\<close>

record hris_row =
  hr_employee_id :: string
  hr_display_name :: string
  hr_given_name :: string
  hr_family_name :: string
  hr_email :: string
  hr_department_code :: string
  hr_employment_status :: string
  hr_updated_at :: string

record truth_row =
  tr_canonical_person_id :: string
  tr_employee_id :: string
  tr_lms_user_ids :: "string list"
  tr_assessment_person_id :: string

record course_row =
  cr_course_id :: string
  cr_course_uuid :: string
  cr_course_title :: string
  cr_required :: bool
  cr_credential_code :: string

record lms_row =
  lr_lms_user_id :: string
  lr_employee_reference :: string
  lr_learner_name :: string
  lr_department :: string
  lr_course_id :: string
  lr_assignment_id :: string
  lr_assigned_at :: string
  lr_completion_status :: string
  lr_completed_at :: string
  lr_progress_percent :: int
  lr_updated_at :: string

record assessment_row =
  ar_assessment_person_id :: string
  ar_assessment_id :: string
  ar_course_id :: string
  ar_attempt_number :: int
  ar_score :: int
  ar_maximum_score :: int
  ar_outcome :: string
  ar_assessed_at :: string

record award_row =
  wr_assessment_person_id :: string
  wr_credential_code :: string
  wr_awarded_at :: string
  wr_expires_at :: string
  wr_status :: string

definition hris_dict :: "hris_row \<Rightarrow> pyrec" where
  "hris_dict r =
     [(''employee_id'', PStr (hr_employee_id r)), (''display_name'', PStr (hr_display_name r)),
      (''given_name'', PStr (hr_given_name r)), (''family_name'', PStr (hr_family_name r)),
      (''email'', PStr (hr_email r)), (''department_code'', PStr (hr_department_code r)),
      (''employment_status'', PStr (hr_employment_status r)), (''updated_at'', PStr (hr_updated_at r))]"

definition truth_dict :: "truth_row \<Rightarrow> pyrec" where
  "truth_dict r =
     [(''canonical_person_id'', PStr (tr_canonical_person_id r)), (''employee_id'', PStr (tr_employee_id r)),
      (''lms_user_ids'', PList (map PStr (tr_lms_user_ids r))),
      (''assessment_person_id'', PStr (tr_assessment_person_id r))]"

definition course_dict :: "course_row \<Rightarrow> pyrec" where
  "course_dict r =
     [(''course_id'', PStr (cr_course_id r)), (''course_uuid'', PStr (cr_course_uuid r)),
      (''course_title'', PStr (cr_course_title r)), (''required'', PBool (cr_required r)),
      (''credential_code'', PStr (cr_credential_code r))]"

definition lms_dict :: "lms_row \<Rightarrow> pyrec" where
  "lms_dict r =
     [(''lms_user_id'', PStr (lr_lms_user_id r)), (''employee_reference'', PStr (lr_employee_reference r)),
      (''learner_name'', PStr (lr_learner_name r)), (''department'', PStr (lr_department r)),
      (''course_id'', PStr (lr_course_id r)), (''assignment_id'', PStr (lr_assignment_id r)),
      (''assigned_at'', PStr (lr_assigned_at r)), (''completion_status'', PStr (lr_completion_status r)),
      (''completed_at'', PStr (lr_completed_at r)), (''progress_percent'', PInt (lr_progress_percent r)),
      (''updated_at'', PStr (lr_updated_at r))]"

definition assessment_dict :: "assessment_row \<Rightarrow> pyrec" where
  "assessment_dict r =
     [(''assessment_person_id'', PStr (ar_assessment_person_id r)), (''assessment_id'', PStr (ar_assessment_id r)),
      (''course_id'', PStr (ar_course_id r)), (''attempt_number'', PInt (ar_attempt_number r)),
      (''score'', PInt (ar_score r)), (''maximum_score'', PInt (ar_maximum_score r)),
      (''outcome'', PStr (ar_outcome r)), (''assessed_at'', PStr (ar_assessed_at r))]"

definition award_dict :: "award_row \<Rightarrow> pyrec" where
  "award_dict r =
     [(''assessment_person_id'', PStr (wr_assessment_person_id r)), (''credential_code'', PStr (wr_credential_code r)),
      (''awarded_at'', PStr (wr_awarded_at r)), (''expires_at'', PStr (wr_expires_at r)),
      (''status'', PStr (wr_status r))]"

section \<open>People and courses\<close>

definition employee_code :: "nat \<Rightarrow> string" where
  "employee_code index = ''EMP-'' @ zero_pad 7 (index + 1)"

definition lms_code :: "nat \<Rightarrow> string" where
  "lms_code index = ''LMS-'' @ zero_pad 7 (index + 1)"

definition assessment_code :: "nat \<Rightarrow> string" where
  "assessment_code index = ''ASM-'' @ zero_pad 7 (index + 1)"

definition duplicate_code :: "nat \<Rightarrow> string" where
  "duplicate_code index = ''LMS-DUP-'' @ zero_pad 7 (index + 1)"

definition hris_person :: "runtime \<Rightarrow> nat \<Rightarrow> hris_row" where
  "hris_person R index =
     (let given = FIRST_NAMES ! (index mod length FIRST_NAMES);
          family = LAST_NAMES ! ((index * 7) mod length LAST_NAMES);
          department = DEPARTMENTS ! (index mod length DEPARTMENTS) in
      \<lparr>hr_employee_id = employee_code index, hr_display_name = given @ '' '' @ family,
       hr_given_name = given, hr_family_name = family,
       hr_email = rt_lower R (given @ ''.'' @ family @ ''.'' @ nat_str (index + 1) @ ''@example.test''),
       hr_department_code = replace_space ''_'' (rt_upper R department),
       hr_employment_status = (if index mod 17 \<noteq> 0 then ''active'' else ''leave''),
       hr_updated_at = rt_isoformat R (JAN_2026 + days (int (index mod 180)))\<rparr>)"

definition truth_person :: "runtime \<Rightarrow> int \<Rightarrow> nat \<Rightarrow> truth_row" where
  "truth_person R seed index =
     \<lparr>tr_canonical_person_id = stable_uuid R seed ''person'' index, tr_employee_id = employee_code index,
      tr_lms_user_ids = [lms_code index], tr_assessment_person_id = assessment_code index\<rparr>"

definition person_rows :: "runtime \<Rightarrow> 'g rng \<Rightarrow> int \<Rightarrow> dataset_preset \<Rightarrow> 'g
    \<Rightarrow> (hris_row list \<times> truth_row list \<times> 'g) res" where
  "person_rows R G seed preset g =
     (let hris = map (hris_person R) [0..<dp_people preset];
          truth = map (truth_person R seed) [0..<dp_people preset];
          defect_count = defects (dp_people preset) (dp_defect_rate preset) 1 in
      and_then (for_sample G (dp_people preset) defect_count
                 (\<lambda>index. change_at index (hr_employee_id_update (\<lambda>_. []))) (hris, g)) (\<lambda>(hris', g').
      Inr (hris', truth, g')))"

definition course_rows :: "runtime \<Rightarrow> int \<Rightarrow> nat \<Rightarrow> course_row list" where
  "course_rows R seed n = map (\<lambda>index.
     \<lparr>cr_course_id = ''CRS-'' @ zero_pad 5 (index + 1), cr_course_uuid = stable_uuid R seed ''course'' index,
      cr_course_title = COURSE_TITLES ! (index mod length COURSE_TITLES) @ '' ''
        @ nat_str (index div length COURSE_TITLES + 1),
      cr_required = (index mod 3 = 0),
      cr_credential_code = (if index mod 4 = 0 then ''CERT-'' @ zero_pad 5 (index + 1) else [])\<rparr>) [0..<n]"

section \<open>Participations\<close>

definition statuses :: "string list" where
  "statuses = [''assigned'', ''in_progress'', ''completed'']"

definition lms_slot :: "runtime \<Rightarrow> course_row list \<Rightarrow> nat \<Rightarrow> hris_row \<Rightarrow> truth_row \<Rightarrow> nat \<Rightarrow> lms_row list \<Rightarrow> lms_row list res" where
  "lms_slot R courses person_index person truth slot rows =
     (and_then (cycled (person_index * 3 + slot) courses) (\<lambda>course.
      let assigned = JAN_2026 + days (int ((person_index + slot) mod 120));
          status = statuses ! ((person_index + slot) mod length statuses);
          completed = (if status = ''completed'' then Some (assigned + days (3 + int slot)) else None) in
      and_then (item_at 0 (tr_lms_user_ids truth)) (\<lambda>lms_user_id.
      Inr (rows @
        [\<lparr>lr_lms_user_id = lms_user_id,
          lr_employee_reference = (if hr_employee_id person = [] then employee_code person_index else hr_employee_id person),
          lr_learner_name = hr_display_name person, lr_department = hr_department_code person,
          lr_course_id = cr_course_id course,
          lr_assignment_id = ''ASN-'' @ zero_pad 7 (person_index + 1) @ ''-'' @ zero_pad 2 (slot + 1),
          lr_assigned_at = rt_isoformat R assigned, lr_completion_status = status,
          lr_completed_at = (case completed of None \<Rightarrow> [] | Some t \<Rightarrow> rt_isoformat R t),
          lr_progress_percent = (if status = ''completed'' then 100 else if status = ''in_progress'' then 50 else 0),
          lr_updated_at = rt_isoformat R (assigned + days 10)\<rparr>]))))"

definition lms_person :: "runtime \<Rightarrow> dataset_preset \<Rightarrow> truth_row list \<Rightarrow> course_row list \<Rightarrow> nat \<times> hris_row
    \<Rightarrow> lms_row list \<Rightarrow> lms_row list res" where
  "lms_person R preset truth courses item rows =
     (case item of (person_index, person) \<Rightarrow>
      and_then (item_at person_index truth) (\<lambda>t.
      res_fold (lms_slot R courses person_index person t) [0..<dp_participations_per_person preset] rows))"

definition lms_base :: "runtime \<Rightarrow> dataset_preset \<Rightarrow> hris_row list \<Rightarrow> truth_row list \<Rightarrow> course_row list \<Rightarrow> lms_row list res" where
  "lms_base R preset hris truth courses =
     res_fold (lms_person R preset truth courses) (enumerate 0 hris) []"

text \<open>The defects, one loop body each.\<close>

definition vary_name :: "runtime \<Rightarrow> nat \<Rightarrow> nat \<Rightarrow> lms_row list \<Rightarrow> lms_row list res" where
  "vary_name R per_person person_index =
     change_at (person_index * per_person) (lr_learner_name_update (\<lambda>t. rt_upper R (replace_space ''  '' t)))"

definition break_status :: "nat \<Rightarrow> lms_row list \<Rightarrow> lms_row list res" where
  "break_status row_index = change_at row_index (lr_completion_status_update (\<lambda>_. ''done-ish''))"

definition break_completion :: "runtime \<Rightarrow> nat \<Rightarrow> lms_row list \<Rightarrow> lms_row list res" where
  "break_completion R row_index rows =
     (and_then (item_at row_index rows) (\<lambda>r.
      and_then (from_iso R (lr_assigned_at r)) (\<lambda>assigned.
      change_at row_index (\<lambda>r. r\<lparr>lr_completed_at := rt_isoformat R (assigned - days 2),
        lr_completion_status := ''completed''\<rparr>) rows)))"

definition break_department :: "nat \<Rightarrow> lms_row list \<Rightarrow> lms_row list res" where
  "break_department row_index = change_at row_index (lr_department_update (\<lambda>_. ''CONFLICTING_UNIT''))"

definition make_late :: "runtime \<Rightarrow> nat \<Rightarrow> lms_row list \<Rightarrow> lms_row list res" where
  "make_late R row_index = change_at row_index (lr_updated_at_update (\<lambda>_. rt_isoformat R LATE_2027))"

text \<open>\<^verbatim>\<open>rows[-1]["learner_name"] = ...\<close>\<close>

definition formula_text :: "lms_row list \<Rightarrow> lms_row list res" where
  "formula_text rows = (if rows = [] then Inl IndexError
     else change_at (length rows - 1) (lr_learner_name_update (\<lambda>_. ''=2+2 SYNTHETIC FORMULA-LIKE TEXT'')) rows)"

definition add_duplicate :: "nat \<Rightarrow> nat \<Rightarrow> lms_row list \<times> truth_row list \<Rightarrow> (lms_row list \<times> truth_row list) res" where
  "add_duplicate per_person person_index st =
     (case st of (rows, truth) \<Rightarrow>
      and_then (change_at person_index (tr_lms_user_ids_update (\<lambda>ids. ids @ [duplicate_code person_index])) truth) (\<lambda>truth'.
      and_then (item_at (person_index * per_person) rows) (\<lambda>source.
      Inr (rows @ [source\<lparr>lr_lms_user_id := duplicate_code person_index,
                          lr_assignment_id := ''DUP-'' @ lr_assignment_id source\<rparr>], truth'))))"

definition lms_rows :: "runtime \<Rightarrow> 'g rng \<Rightarrow> dataset_preset \<Rightarrow> hris_row list \<Rightarrow> truth_row list \<Rightarrow> course_row list \<Rightarrow> 'g
    \<Rightarrow> (lms_row list \<times> truth_row list \<times> 'g) res" where
  "lms_rows R G preset hris truth courses g =
     (let people = dp_people preset; rate = dp_defect_rate preset; per_person = dp_participations_per_person preset in
      and_then (lms_base R preset hris truth courses) (\<lambda>rows.
      and_then (for_sample G people (defects people rate 1) (vary_name R per_person) (rows, g)) (\<lambda>(rows, g).
      and_then (for_sample G (length rows) (defects (length rows) rate 4) break_status (rows, g)) (\<lambda>(rows, g).
      and_then (for_sample G (length rows) (defects (length rows) rate 5) (break_completion R) (rows, g)) (\<lambda>(rows, g).
      and_then (for_sample G (length rows) (defects people rate 3) break_department (rows, g)) (\<lambda>(rows, g).
      and_then (for_sample G (length rows) (defects people rate 4) (make_late R) (rows, g)) (\<lambda>(rows, g).
      and_then (formula_text rows) (\<lambda>rows.
      and_then (for_sample G people (defects people (dp_duplicate_rate preset) 1) (add_duplicate per_person)
                 ((rows, truth), g)) (\<lambda>((rows, truth), g).
      Inr (rows, truth, g))))))))))"

section \<open>Assessments and credentials\<close>

definition assessment_person :: "runtime \<Rightarrow> course_row list \<Rightarrow> nat \<times> truth_row
    \<Rightarrow> assessment_row list \<times> award_row list \<Rightarrow> (assessment_row list \<times> award_row list) res" where
  "assessment_person R courses item st =
     (case item of (index, person) \<Rightarrow> case st of (assessments, credentials) \<Rightarrow>
      and_then (cycled index courses) (\<lambda>course.
      let assessed_at = FEB_2026 + days (int (index mod 90));
          score = 60 + (index * 13) mod 41;
          a = \<lparr>ar_assessment_person_id = tr_assessment_person_id person, ar_assessment_id = ''TEST-'' @ cr_course_id course,
               ar_course_id = cr_course_id course, ar_attempt_number = 1, ar_score = int score, ar_maximum_score = 100,
               ar_outcome = (if score \<ge> 75 then ''pass'' else ''needs_review''),
               ar_assessed_at = rt_isoformat R assessed_at\<rparr>;
          c = \<lparr>wr_assessment_person_id = tr_assessment_person_id person, wr_credential_code = cr_credential_code course,
               wr_awarded_at = rt_isoformat R (assessed_at + days 1),
               wr_expires_at = rt_isoformat R (assessed_at + days 366), wr_status = ''active''\<rparr> in
      Inr (assessments @ [a], if cr_credential_code course \<noteq> [] \<and> score \<ge> 75 then credentials @ [c] else credentials)))"

definition assessment_rows :: "runtime \<Rightarrow> truth_row list \<Rightarrow> course_row list \<Rightarrow> (assessment_row list \<times> award_row list) res" where
  "assessment_rows R truth courses =
     and_then (res_fold (assessment_person R courses) (enumerate 0 truth) ([], [])) (\<lambda>(assessments, credentials).
     case credentials of [] \<Rightarrow> Inr (assessments, credentials) | c # rest \<Rightarrow>
     (case find (\<lambda>item. ar_assessment_person_id item = wr_assessment_person_id c) assessments of
        None \<Rightarrow> Inl (RuntimeError ''StopIteration'')
      | Some item \<Rightarrow> and_then (from_iso R (ar_assessed_at item)) (\<lambda>assessed_at.
          Inr (assessments, c\<lparr>wr_awarded_at := rt_isoformat R (assessed_at - days 1)\<rparr> # rest))))"

section \<open>The summary of the defects\<close>

definition count_if :: "('a \<Rightarrow> bool) \<Rightarrow> 'a list \<Rightarrow> pyval" where
  "count_if P xs = PInt (int (length (filter P xs)))"

text \<open>A sum over a condition that parses timestamps.\<close>

fun count_res :: "('a \<Rightarrow> bool res) \<Rightarrow> 'a list \<Rightarrow> nat res" where
  "count_res P [] = Inr 0"
| "count_res P (x # xs) = and_then (P x) (\<lambda>b. and_then (count_res P xs) (\<lambda>n. Inr (if b then Suc n else n)))"

definition assessment_times :: "runtime \<Rightarrow> assessment_row list \<Rightarrow> (string \<times> int) list res" where
  "assessment_times R assessments = res_fold (\<lambda>item d.
     and_then (from_iso R (ar_assessed_at item)) (\<lambda>t. Inr (dict_set (ar_assessment_person_id item) t d))) assessments []"

definition awarded_early :: "runtime \<Rightarrow> (string \<times> int) list \<Rightarrow> award_row \<Rightarrow> bool res" where
  "awarded_early R known item =
     (and_then (from_iso R (wr_awarded_at item)) (\<lambda>awarded.
      case map_of known (wr_assessment_person_id item) of
        None \<Rightarrow> Inl (KeyError (wr_assessment_person_id item)) | Some t \<Rightarrow> Inr (awarded < t)))"

definition completed_early :: "runtime \<Rightarrow> lms_row \<Rightarrow> bool res" where
  "completed_early R item =
     (if lr_completed_at item = [] then Inr False
      else and_then (from_iso R (lr_completed_at item)) (\<lambda>completed.
           and_then (from_iso R (lr_assigned_at item)) (\<lambda>assigned. Inr (completed < assigned))))"

definition defect_summary :: "runtime \<Rightarrow> hris_row list \<Rightarrow> truth_row list \<Rightarrow> lms_row list \<Rightarrow> assessment_row list
    \<Rightarrow> award_row list \<Rightarrow> pyrec res" where
  "defect_summary R hris truth lms assessments credentials =
     (and_then (assessment_times R assessments) (\<lambda>known.
      and_then (count_res (awarded_early R known) credentials) (\<lambda>credential_defects.
      and_then (count_res (completed_early R) lms) (\<lambda>completion_defects.
      Inr [(''missing_employee_id'', count_if (\<lambda>r. hr_employee_id r = []) hris),
           (''name_variant'', count_if (\<lambda>r. contains (lr_learner_name r) ''  '') lms),
           (''duplicate_lms_account'', count_if (\<lambda>r. length (tr_lms_user_ids r) > 1) truth),
           (''conflicting_department'', count_if (\<lambda>r. lr_department r = ''CONFLICTING_UNIT'') lms),
           (''invalid_completion_status'', count_if (\<lambda>r. lr_completion_status r = ''done-ish'') lms),
           (''completion_before_assignment'', PInt (int completion_defects)),
           (''credential_before_assessment'', PInt (int credential_defects)),
           (''late_event'', count_if (\<lambda>r. starts_with (lr_updated_at r) ''2027-'') lms),
           (''formula_like_text'', count_if (\<lambda>r. list_ex (starts_with (lr_learner_name r)) [''='', ''+'', ''-'', ''@'']) lms)]))))"

section \<open>Writers\<close>

text \<open>
  The formats written by other packages. \<open>wt_csv\<close> is \<^verbatim>\<open>csv.DictWriter\<close> with its header,
  \<open>wt_workbook created title table now\<close> the members of the workbook \<^verbatim>\<open>openpyxl\<close> saves at
  time \<open>now\<close> (saving sets the time of modification), \<open>wt_zip\<close> the archive of members whose
  date, mode and compression are fixed, \<open>wt_parquet\<close> the table \<^verbatim>\<open>pyarrow\<close> writes.
\<close>

record dataset_writers =
  wt_csv :: "string list \<Rightarrow> pyrec list \<Rightarrow> string"
  wt_workbook :: "int \<Rightarrow> string \<Rightarrow> pyval list list \<Rightarrow> int \<Rightarrow> (string \<times> string) list"
  wt_zip :: "(string \<times> string) list \<Rightarrow> string"
  wt_parquet :: "pyrec list \<Rightarrow> string"

definition fieldnames :: "pyrec list \<Rightarrow> string list" where
  "fieldnames rows = (case rows of [] \<Rightarrow> [] | row # _ \<Rightarrow> map fst row)"

definition write_csv :: "dataset_writers \<Rightarrow> string \<Rightarrow> pyrec list \<Rightarrow> files \<Rightarrow> files" where
  "write_csv W path rows fs = write_text path (wt_csv W (fieldnames rows) rows) fs"

definition write_json :: "codecs \<Rightarrow> string \<Rightarrow> pyrec list \<Rightarrow> files \<Rightarrow> files" where
  "write_json cd path rows fs = write_text path (cd_json_pretty cd (PList (map PDict rows)) @ [CHR 0x0A]) fs"

fun row_values :: "string list \<Rightarrow> pyrec \<Rightarrow> pyval list res" where
  "row_values [] row = Inr []"
| "row_values (field # names) row =
     (case map_of row field of None \<Rightarrow> Inl (KeyError field) | Some v \<Rightarrow>
      and_then (row_values names row) (\<lambda>vs. Inr (v # vs)))"

definition sheet_table :: "pyrec list \<Rightarrow> pyval list list res" where
  "sheet_table rows = res_fold (\<lambda>row acc. and_then (row_values (fieldnames rows) row) (\<lambda>vs. Inr (acc @ [vs])))
     rows [map PStr (fieldnames rows)]"

text \<open>
  The substitution of \<^verbatim>\<open><dcterms:modified[^>]*>.*?</dcterms:modified>\<close>: what follows a
  match at the start of a text, then the replacement of every match from left to right.
\<close>

definition modified_open :: string where "modified_open = ''<dcterms:modified''"

definition modified_close :: string where "modified_close = ''</dcterms:modified>''"

definition modified_fixed :: string where
  "modified_fixed = ''<dcterms:modified xsi:type=\"dcterms:W3CDTF\">2026-01-01T00:00:00Z</dcterms:modified>''"

fun after_close :: "string \<Rightarrow> string option" where
  "after_close [] = None"
| "after_close (c # s) =
     (if starts_with (c # s) modified_close then Some (drop (length modified_close) (c # s))
      else if c = CHR 0x0A then None else after_close s)"

definition after_modified :: "string \<Rightarrow> string option" where
  "after_modified s =
     (if starts_with s modified_open
      then (case dropWhile (\<lambda>c. c \<noteq> CHR ''>'') (drop (length modified_open) s) of
              [] \<Rightarrow> None | _ # rest \<Rightarrow> after_close rest)
      else None)"

lemma after_close_shorter: "after_close s = Some t \<Longrightarrow> length t < length s"
  by (induction s) (auto simp: modified_close_def split: if_splits)

lemma after_modified_shorter: "after_modified s = Some t \<Longrightarrow> length t < length s"
proof -
  assume *: "after_modified s = Some t"
  then obtain c rest where rest: "dropWhile (\<lambda>c. c \<noteq> CHR ''>'') (drop (length modified_open) s) = c # rest"
      "after_close rest = Some t"
    by (auto simp: after_modified_def split: if_splits list.splits)
  have "length (c # rest) \<le> length (drop (length modified_open) s)"
    by (metis rest(1) length_dropWhile_le)
  with after_close_shorter [OF rest(2)] show ?thesis by simp
qed

function sub_modified :: "string \<Rightarrow> string" where
  "sub_modified s = (case after_modified s of
       Some rest \<Rightarrow> modified_fixed @ sub_modified rest
     | None \<Rightarrow> (case s of [] \<Rightarrow> [] | c # t \<Rightarrow> c # sub_modified t))"
  by pat_completeness auto
termination
  by (relation "measure length") (auto dest: after_modified_shorter)

declare sub_modified.simps [simp del]

definition fix_member :: "string \<times> string \<Rightarrow> string \<times> string" where
  "fix_member m = (fst m, if fst m = ''docProps/core.xml'' then sub_modified (snd m) else snd m)"

definition write_xlsx :: "dataset_writers \<Rightarrow> int \<Rightarrow> string \<Rightarrow> pyrec list \<Rightarrow> files \<Rightarrow> files res" where
  "write_xlsx W now path rows fs =
     (and_then (sheet_table rows) (\<lambda>table.
      Inr (write_text path (wt_zip W (map fix_member
        (sort_key fst (wt_workbook W JAN_2026 ''assessment_results'' table now)))) fs)))"

definition write_parquet :: "dataset_writers \<Rightarrow> string \<Rightarrow> pyrec list \<Rightarrow> files \<Rightarrow> files" where
  "write_parquet W path rows fs = write_text path (wt_parquet W rows) fs"

section \<open>Digests\<close>

text \<open>The digest of a file read in blocks of one mebibyte.\<close>

function read_blocks :: "nat \<Rightarrow> string \<Rightarrow> string list" where
  "read_blocks n s = (if s = [] \<or> n = 0 then [] else take n s # read_blocks n (drop n s))"
  by pat_completeness auto
termination
  by (relation "measure (\<lambda>(n, s). length s)") auto

declare read_blocks.simps [simp del]

definition BLOCK :: nat where "BLOCK = 1024 * 1024"

definition sha256 :: "runtime \<Rightarrow> files \<Rightarrow> string \<Rightarrow> string res" where
  "sha256 R fs path = (case fs path of
       None \<Rightarrow> Inl FileNotFoundError
     | Some c \<Rightarrow> Inr (rt_sha256 R (concat (read_blocks BLOCK c))))"

section \<open>The dataset\<close>

definition dataset_files :: "string \<Rightarrow> (string \<times> string) list" where
  "dataset_files dataset_root =
     [(''hris_employees_csv'', dataset_root @ ''/hris/employees.csv''),
      (''lms_courses_csv'', dataset_root @ ''/lms/courses.csv''),
      (''lms_participation_json'', dataset_root @ ''/lms/participation.json''),
      (''assessment_results_xlsx'', dataset_root @ ''/assessment/assessment_results.xlsx''),
      (''credential_awards_parquet'', dataset_root @ ''/credential/credential_awards.parquet''),
      (''identity_truth_json'', dataset_root @ ''/truth/identity_truth.json'')]"

definition dataset_manifest_path :: "string \<Rightarrow> string" where
  "dataset_manifest_path dataset_root = dataset_root @ ''/dataset_manifest.json''"

text \<open>\<open>relative_to base p\<close> is \<^verbatim>\<open>p.relative_to(base)\<close> for a path below \<open>base\<close>.\<close>

definition relative_to :: "string \<Rightarrow> string \<Rightarrow> string" where
  "relative_to base p = drop (length base + 1) p"

definition manifest_file :: "runtime \<Rightarrow> string \<Rightarrow> files \<Rightarrow> string \<times> string \<Rightarrow> pyrec list \<Rightarrow> pyrec list res" where
  "manifest_file R output_root fs item acc =
     (case item of (logical_name, path) \<Rightarrow>
      and_then (sha256 R fs path) (\<lambda>digest.
      case fs path of None \<Rightarrow> Inl FileNotFoundError | Some c \<Rightarrow>
      Inr (acc @ [[(''logical_name'', PStr logical_name), (''path'', PStr (relative_to output_root path)),
                   (''sha256'', PStr digest), (''bytes'', PInt (int (length c)))]])))"

record dataset =
  ds_hris :: "hris_row list"
  ds_truth :: "truth_row list"
  ds_courses :: "course_row list"
  ds_lms :: "lms_row list"
  ds_assessments :: "assessment_row list"
  ds_credentials :: "award_row list"

text \<open>The rows of the six files, in the order the code makes them.\<close>

definition dataset_rows :: "runtime \<Rightarrow> 'g rng \<Rightarrow> dataset_preset \<Rightarrow> int \<Rightarrow> dataset res" where
  "dataset_rows R G preset seed =
     (and_then (person_rows R G seed preset (rng_seed G seed)) (\<lambda>(hris, truth, g).
      let courses = course_rows R seed (dp_courses preset) in
      and_then (lms_rows R G preset hris truth courses g) (\<lambda>(lms, truth, g).
      and_then (assessment_rows R truth courses) (\<lambda>(assessments, credentials).
      Inr \<lparr>ds_hris = hris, ds_truth = truth, ds_courses = courses, ds_lms = lms,
           ds_assessments = assessments, ds_credentials = credentials\<rparr>))))"

definition write_rows :: "codecs \<Rightarrow> dataset_writers \<Rightarrow> int \<Rightarrow> string \<Rightarrow> dataset \<Rightarrow> files \<Rightarrow> unit res \<times> files" where
  "write_rows cd W now dataset_root d fs =
     (let fs1 = write_csv W (dataset_root @ ''/hris/employees.csv'') (map hris_dict (ds_hris d)) fs;
          fs2 = write_csv W (dataset_root @ ''/lms/courses.csv'') (map course_dict (ds_courses d)) fs1;
          fs3 = write_json cd (dataset_root @ ''/lms/participation.json'') (map lms_dict (ds_lms d)) fs2 in
      case write_xlsx W now (dataset_root @ ''/assessment/assessment_results.xlsx'')
             (map assessment_dict (ds_assessments d)) fs3 of
        Inl e \<Rightarrow> (Inl e, fs3)
      | Inr fs4 \<Rightarrow>
          (let fs5 = write_parquet W (dataset_root @ ''/credential/credential_awards.parquet'')
                       (map award_dict (ds_credentials d)) fs4 in
           (Inr (), write_json cd (dataset_root @ ''/truth/identity_truth.json'') (map truth_dict (ds_truth d)) fs5)))"

definition manifest_dict :: "string \<Rightarrow> dataset_preset \<Rightarrow> int \<Rightarrow> dataset \<Rightarrow> pyrec \<Rightarrow> pyrec list \<Rightarrow> pyrec" where
  "manifest_dict preset_name preset seed d summary manifest_files =
     [(''project'', PStr ''EduWork DataBridge''), (''synthetic'', PBool True), (''preset'', PStr preset_name),
      (''seed'', PInt seed), (''generated_at'', PStr ''2026-07-19T00:00:00+00:00''),
      (''preset_spec'', PDict (preset_dict preset)),
      (''counts'', PDict
         [(''hris_people'', PInt (int (length (ds_hris d)))), (''lms_courses'', PInt (int (length (ds_courses d)))),
          (''lms_participations'', PInt (int (length (ds_lms d)))),
          (''assessment_results'', PInt (int (length (ds_assessments d)))),
          (''credential_awards'', PInt (int (length (ds_credentials d)))),
          (''identity_truth_rows'', PInt (int (length (ds_truth d))))]),
      (''defect_catalog'', PDict DEFECT_CATALOG), (''defect_summary'', PDict summary),
      (''files'', PList (map PDict manifest_files)),
      (''privacy_notice'', PStr (''All records are deterministic synthetic fixtures. ''
         @ ''They do not describe real people or organizations.''))]"

definition write_manifest :: "runtime \<Rightarrow> codecs \<Rightarrow> string \<Rightarrow> string \<Rightarrow> dataset_preset \<Rightarrow> int \<Rightarrow> dataset \<Rightarrow> files \<Rightarrow> pyrec res \<times> files" where
  "write_manifest R cd output_root preset_name preset seed d fs =
     (let dataset_root = output_root @ ''/'' @ preset_name in
      case and_then (res_fold (manifest_file R output_root fs) (sort_key fst (dataset_files dataset_root)) []) (\<lambda>manifest_files.
           and_then (defect_summary R (ds_hris d) (ds_truth d) (ds_lms d) (ds_assessments d) (ds_credentials d)) (\<lambda>summary.
           Inr (manifest_dict preset_name preset seed d summary manifest_files))) of
        Inl e \<Rightarrow> (Inl e, fs)
      | Inr manifest \<Rightarrow> (Inr manifest,
          write_text (dataset_manifest_path dataset_root) (cd_json_pretty cd (PDict manifest) @ [CHR 0x0A]) fs))"

definition generate_dataset :: "runtime \<Rightarrow> codecs \<Rightarrow> dataset_writers \<Rightarrow> 'g rng \<Rightarrow> int \<Rightarrow> string \<Rightarrow> string \<Rightarrow> int \<Rightarrow> files
    \<Rightarrow> pyrec res \<times> files" where
  "generate_dataset R cd W G now output_root preset_name seed fs =
     (case map_of PRESETS preset_name of None \<Rightarrow> (Inl (KeyError preset_name), fs) | Some preset \<Rightarrow>
      (case dataset_rows R G preset seed of Inl e \<Rightarrow> (Inl e, fs) | Inr d \<Rightarrow>
      (case write_rows cd W now (output_root @ ''/'' @ preset_name) d fs of
         (Inl e, fs') \<Rightarrow> (Inl e, fs')
       | (Inr _, fs') \<Rightarrow> write_manifest R cd output_root preset_name preset seed d fs')))"

section \<open>Verification of a manifest\<close>

text \<open>\<^verbatim>\<open>all(...)\<close> stops at the first file whose digest differs.\<close>

fun digests_match :: "runtime \<Rightarrow> files \<Rightarrow> string \<Rightarrow> pyval list \<Rightarrow> bool res" where
  "digests_match R fs output_root [] = Inr True"
| "digests_match R fs output_root (item # items) =
     (and_then (text_item item ''path'') (\<lambda>p.
      and_then (sha256 R fs (output_root @ ''/'' @ p)) (\<lambda>digest.
      and_then (py_item item ''sha256'') (\<lambda>expected.
      if PStr digest = expected then digests_match R fs output_root items else Inr False))))"

definition verify_manifest :: "runtime \<Rightarrow> codecs \<Rightarrow> files \<Rightarrow> string \<Rightarrow> string \<Rightarrow> bool res" where
  "verify_manifest R cd fs output_root preset_name =
     (and_then (json_file cd fs (dataset_manifest_path (output_root @ ''/'' @ preset_name))) (\<lambda>manifest.
      and_then (py_item manifest ''files'') (\<lambda>v.
      and_then (py_iter v) (digests_match R fs output_root))))"

declare and_then_simps [simp]

end
