(* ===== verification/Generator_Rows.thy ===== *)
theory Generator_Rows
  imports Generator
begin

text \<open>
  The rows of the synthetic datasets: under the promises of the pseudo-random generator
  and of the timestamp functions, every loop that injects a defect returns and keeps what
  the rows are (\<open>rows_ok\<close>, \<open>linked_ok\<close>), and the number of marked rows is the number of
  positions drawn.
\<close>

section \<open>What the parameters promise\<close>

text \<open>\<^verbatim>\<open>random.sample\<close> draws the requested number of distinct positions of the range.\<close>

definition draws_ok :: "'g rng \<Rightarrow> bool" where
  "draws_ok G = (\<forall>g n k. k \<le> n \<longrightarrow>
     (let ps = fst (rng_draw G g n k) in length ps = k \<and> distinct ps \<and> set ps \<subseteq> {..<n}))"

text \<open>\<^verbatim>\<open>fromisoformat\<close> reads what \<^verbatim>\<open>isoformat\<close> wrote for a UTC time of the years 1 to 9999.\<close>

definition iso_ok :: "runtime \<Rightarrow> bool" where
  "iso_ok R = (\<forall>t. 0 \<le> t \<and> t < days 3652059 \<longrightarrow>
     rt_fromiso R (rt_isoformat R t) = Some \<lparr>dt_wall = t, dt_offset = Some 0\<rparr>)"

text \<open>Presets on which the generator is meant to run.\<close>

definition preset_ok :: "dataset_preset \<Rightarrow> bool" where
  "preset_ok p = (0 < dp_people p \<and> 0 < dp_courses p \<and> 0 < dp_participations_per_person p
     \<and> dp_participations_per_person p \<le> 1000
     \<and> 0 \<le> dp_duplicate_rate p \<and> dp_duplicate_rate p \<le> 1 \<and> 0 \<le> dp_defect_rate p \<and> dp_defect_rate p \<le> 1)"

lemma presets_ok: "map_of PRESETS name = Some p \<Longrightarrow> preset_ok p"
  by (auto simp: PRESETS_def preset_ok_def split: if_splits)

section \<open>Codes\<close>

lemma digits_of_chars: "c \<in> set (digits_of f n) \<Longrightarrow> of_char c \<in> {48..57 :: nat}"
  by (induction f n rule: digits_of.induct) (auto split: if_splits simp: of_char_of take_bit_eq_mod)

lemma zero_pad_chars: "c \<in> set (zero_pad w n) \<Longrightarrow> of_char c \<in> {48..57 :: nat}"
  unfolding zero_pad_def nat_str_def set_append Un_iff
  using digits_of_chars [of c "Suc n" n] by (auto simp del: digits_of.simps)

lemma nat_of_digits_zeros: "nat_of_digits (replicate k (CHR ''0'') @ s) = nat_of_digits s"
proof -
  have "foldl (\<lambda>a c. 10 * a + (of_char c - 48)) (0 :: nat) (replicate k (CHR ''0'')) = 0"
    by (induction k) auto
  then show ?thesis by (simp add: nat_of_digits_def)
qed

lemma nat_of_digits_pad [simp]: "nat_of_digits (zero_pad w n) = n"
  by (simp add: zero_pad_def nat_of_digits_zeros nat_str_def nat_of_digits_of del: digits_of.simps)

lemma zero_pad_inj [simp]: "zero_pad w m = zero_pad w n \<longleftrightarrow> m = n"
  by (metis nat_of_digits_pad)

lemma codes_inj [simp]:
  "lms_code i = lms_code j \<longleftrightarrow> i = j" "duplicate_code i = duplicate_code j \<longleftrightarrow> i = j"
  "assessment_code i = assessment_code j \<longleftrightarrow> i = j"
  by (simp_all add: lms_code_def duplicate_code_def assessment_code_def)

lemma lms_code_not_duplicate [simp]: "lms_code i \<noteq> duplicate_code j" "duplicate_code j \<noteq> lms_code i"
proof -
  have "zero_pad 7 (i + 1) \<noteq> ''DUP-'' @ zero_pad 7 (j + 1)"
    using zero_pad_chars [of "CHR ''D''" 7 "i + 1"] by auto
  then show "lms_code i \<noteq> duplicate_code j" "duplicate_code j \<noteq> lms_code i"
    by (auto simp: lms_code_def duplicate_code_def)
qed

section \<open>Loops over samples\<close>

lemma defects_le:
  assumes "0 < n" and "0 \<le> rate" and "rate \<le> 1" and "1 \<le> d" and "n \<le> m"
  shows "defects n rate d \<le> m"
proof -
  have "real n * rate / d \<le> real n"
    using assms by (simp add: divide_le_eq mult_left_le mult_mono)
  then have "nat \<lfloor>real n * rate / d\<rfloor> \<le> n"
    by (metis floor_mono floor_of_nat nat_int nat_mono)
  with assms show ?thesis by (simp add: defects_def)
qed

lemma sample_ok:
  assumes "draws_ok G" and "k \<le> n"
  obtains ps g' where "sample G n k g = Inr (ps, g')" "length ps = k" "distinct ps" "set ps \<subseteq> {..<n}"
proof (cases "rng_draw G g n k")
  case (Pair ps g')
  have "length ps = k \<and> distinct ps \<and> set ps \<subseteq> {..<n}"
    using assms Pair unfolding draws_ok_def Let_def by (metis fst_conv)
  with Pair that [of ps g'] assms show ?thesis by (simp add: sample_def)
qed

text \<open>A loop whose body keeps an invariant and does not raise under it.\<close>

lemma for_sample_total:
  assumes "draws_ok G" and "k \<le> n" and "I s"
    and "\<And>p s. p < n \<Longrightarrow> I s \<Longrightarrow> \<exists>s'. body p s = Inr s' \<and> I s'"
  shows "\<exists>s' g'. for_sample G n k body (s, g) = Inr (s', g') \<and> I s'"
proof -
  obtain ps g' where ps: "sample G n k g = Inr (ps, g')" "set ps \<subseteq> {..<n}"
    using sample_ok [OF assms(1,2)] by metis
  have "\<exists>s'. res_fold body ps s = Inr s' \<and> I s'"
    by (rule res_fold_total) (use assms ps in \<open>auto simp: subset_iff\<close>)
  with ps show ?thesis by (auto simp: for_sample_def)
qed

lemma for_sample_Inr:
  assumes "for_sample G n k body (s, g) = Inr (s', g')" and "draws_ok G"
  obtains ps where "res_fold body ps s = Inr s'" "length ps = k" "distinct ps" "set ps \<subseteq> {..<n}"
proof -
  from assms(1) obtain ps where ps: "sample G n k g = Inr (ps, g')" and r: "res_fold body ps s = Inr s'"
    by (auto simp: for_sample_def and_then_Inr)
  then have "k \<le> n" by (auto simp: sample_def split: if_splits)
  from sample_ok [OF assms(2) this, where g = g] ps
  have "length ps = k" "distinct ps" "set ps \<subseteq> {..<n}" by auto
  with r that show ?thesis by blast
qed

text \<open>Changing distinct positions, in closed form.\<close>

lemma res_fold_change:
  assumes "distinct ps" and "set ps \<subseteq> {..<length xs}"
  shows "res_fold (\<lambda>p. change_at p (f p)) ps xs =
    Inr (map (\<lambda>i. if i \<in> set ps then f i (xs ! i) else xs ! i) [0..<length xs])"
  using assms
proof (induction ps arbitrary: xs)
  case Nil
  then show ?case by (simp add: map_nth)
next
  case (Cons p ps)
  then show ?case by (auto simp: change_at_def Cons.IH nth_list_update intro!: nth_equalityI)
qed

lemma length_filter_map_upt: "length (filter P (map g [0..<n])) = card {i. i < n \<and> P (g i)}"
proof -
  have "{i. i < n \<and> P (map g [0..<n] ! i)} = {i. i < n \<and> P (g i)}" by auto
  then show ?thesis by (simp add: length_filter_conv_card)
qed

text \<open>Marking distinct positions of a list without marks leaves that many marks.\<close>

lemma marked_count:
  assumes "res_fold (\<lambda>p. change_at p (f p)) ps xs = Inr ys"
    and "distinct ps" and "set ps \<subseteq> {..<length xs}"
    and "\<And>x. x \<in> set xs \<Longrightarrow> \<not> P x" and "\<And>p x. x \<in> set xs \<Longrightarrow> P (f p x)"
  shows "length (filter P ys) = length ps"
proof -
  let ?g = "\<lambda>i. if i \<in> set ps then f i (xs ! i) else xs ! i"
  have ys: "ys = map ?g [0..<length xs]"
    using assms(1) res_fold_change [OF assms(2,3), of f] by simp
  have "{i. i < length xs \<and> P (?g i)} = set ps"
    using assms(3-5) by (auto simp: subset_iff)
  then show ?thesis
    using assms(2) by (simp only: ys length_filter_map_upt distinct_card)
qed

section \<open>Times that parse\<close>

definition time_ok :: "int \<Rightarrow> bool" where
  "time_ok t = (days 2 \<le> t \<and> t < days 3652057)"

lemma from_iso_time:
  assumes "iso_ok R" and "0 \<le> t" and "t < days 3652059"
  shows "from_iso R (rt_isoformat R t) = Inr t"
  using assms by (simp add: iso_ok_def from_iso_def)

definition times_ok :: "runtime \<Rightarrow> lms_row \<Rightarrow> bool" where
  "times_ok R r = ((\<exists>t. from_iso R (lr_assigned_at r) = Inr t \<and> time_ok t)
     \<and> (lr_completed_at r = [] \<or> (\<exists>t. from_iso R (lr_completed_at r) = Inr t)))"

section \<open>The rows of the participations\<close>

text \<open>The undamaged rows: the right number, each under the account of its person.\<close>

definition rows_ok :: "runtime \<Rightarrow> dataset_preset \<Rightarrow> lms_row list \<Rightarrow> bool" where
  "rows_ok R preset rows = (length rows = dp_people preset * dp_participations_per_person preset
     \<and> (\<forall>i < length rows. lr_lms_user_id (rows ! i) = lms_code (i div dp_participations_per_person preset)
          \<and> times_ok R (rows ! i)))"

lemma lms_slots:
  assumes "iso_ok R" and "courses \<noteq> []" and "tr_lms_user_ids t = code # codes" and "\<forall>k \<in> set slots. k \<le> 1000"
  shows "\<exists>new. res_fold (lms_slot R courses person_index person t) slots rows = Inr (rows @ new)
    \<and> length new = length slots \<and> (\<forall>r \<in> set new. lr_lms_user_id r = code \<and> times_ok R r)"
  using assms(4)
proof (induction slots arbitrary: rows)
  case Nil
  then show ?case by simp
next
  case (Cons k slots)
  have days: "from_iso R (rt_isoformat R (JAN_2026 + days (int a))) = Inr (JAN_2026 + days (int a))"
    "time_ok (JAN_2026 + days (int a))"
    "from_iso R (rt_isoformat R (JAN_2026 + days (int a) + days (3 + int k))) = Inr (JAN_2026 + days (int a) + days (3 + int k))"
    if "a < 120" for a
    using that Cons.prems by (auto intro!: from_iso_time [OF assms(1)] simp: time_ok_def days_def JAN_2026_def)
  obtain r where r: "lms_slot R courses person_index person t k rows = Inr (rows @ [r])"
      "lr_lms_user_id r = code" "times_ok R r"
    using assms(2,3) days [of "(person_index + k) mod 120"]
    by (auto simp: lms_slot_def cycled_def item_at_def Let_def times_ok_def)
  from Cons.IH [of "rows @ [r]"] Cons.prems obtain new where
    "res_fold (lms_slot R courses person_index person t) slots (rows @ [r]) = Inr ((rows @ [r]) @ new)"
    "length new = length slots" "\<forall>r \<in> set new. lr_lms_user_id r = code \<and> times_ok R r" by auto
  with r show ?case by (intro exI [of _ "r # new"]) simp
qed

lemma lms_people:
  assumes "iso_ok R" and "courses \<noteq> []" and m: "dp_participations_per_person preset = m" "m \<le> 1000" "0 < m"
    and "\<And>i. s \<le> i \<Longrightarrow> i < s + length hris \<Longrightarrow> i < length truth \<and> tr_lms_user_ids (truth ! i) = [lms_code i]"
  shows "\<exists>new. res_fold (lms_person R preset truth courses) (enumerate s hris) rows = Inr (rows @ new)
    \<and> length new = length hris * m
    \<and> (\<forall>i < length new. lr_lms_user_id (new ! i) = lms_code (s + i div m) \<and> times_ok R (new ! i))"
  using assms(6)
proof (induction hris arbitrary: s rows)
  case Nil
  then show ?case by simp
next
  case (Cons h hris)
  from Cons.prems [of s] have s: "s < length truth" "tr_lms_user_ids (truth ! s) = [lms_code s]" by auto
  obtain new1 where new1: "res_fold (lms_slot R courses s h (truth ! s)) [0..<m] rows = Inr (rows @ new1)"
      "length new1 = m" "\<forall>r \<in> set new1. lr_lms_user_id r = lms_code s \<and> times_ok R r"
    using lms_slots [OF assms(1,2) s(2), of "[0..<m]" s h rows] m(2) by auto
  obtain new2 where new2: "res_fold (lms_person R preset truth courses) (enumerate (Suc s) hris) (rows @ new1) = Inr ((rows @ new1) @ new2)"
      "length new2 = length hris * m"
      "\<forall>i < length new2. lr_lms_user_id (new2 ! i) = lms_code (Suc s + i div m) \<and> times_ok R (new2 ! i)"
    using Cons.IH [of "Suc s" "rows @ new1"] Cons.prems by auto
  have "lr_lms_user_id ((new1 @ new2) ! i) = lms_code (s + i div m) \<and> times_ok R ((new1 @ new2) ! i)"
    if "i < length (new1 @ new2)" for i
  proof (cases "i < m")
    case True
    then show ?thesis using new1 by (simp add: nth_append)
  next
    case False
    then have "i div m = Suc ((i - m) div m)" using m(3) by (simp add: le_div_geq)
    moreover have "i - m < length new2" using False that new1(2) by simp
    ultimately show ?thesis using False new1(2) new2(3) by (simp add: nth_append)
  qed
  moreover have "lms_person R preset truth courses (s, h) rows = Inr (rows @ new1)"
    using s new1(1) m(1) by (simp add: lms_person_def item_at_def)
  ultimately show ?case
    using new1(2) new2 by (intro exI [of _ "new1 @ new2"]) simp
qed

lemma rows_ok_change:
  assumes "rows_ok R preset rows" and "i < length rows"
    and "lr_lms_user_id (f (rows ! i)) = lr_lms_user_id (rows ! i)" and "times_ok R (rows ! i) \<Longrightarrow> times_ok R (f (rows ! i))"
  shows "\<exists>rows'. change_at i f rows = Inr rows' \<and> rows_ok R preset rows'"
  using assms by (auto simp: change_at_def rows_ok_def nth_list_update)

lemma break_completion_ok:
  assumes "iso_ok R" and "rows_ok R preset rows" and "i < length rows"
  shows "\<exists>rows'. break_completion R i rows = Inr rows' \<and> rows_ok R preset rows'"
proof -
  from assms(2,3) obtain t where t: "from_iso R (lr_assigned_at (rows ! i)) = Inr t" "time_ok t"
    by (auto simp: rows_ok_def times_ok_def)
  then have "from_iso R (rt_isoformat R (t - days 2)) = Inr (t - days 2)"
    by (intro from_iso_time [OF assms(1)]) (auto simp: time_ok_def days_def)
  with t assms rows_ok_change [OF assms(2,3)] show ?thesis
    by (simp add: break_completion_def item_at_def times_ok_def)
qed

text \<open>The accounts of the truth, and the rows that use them.\<close>

definition truth_ok :: "runtime \<Rightarrow> int \<Rightarrow> nat \<Rightarrow> truth_row list \<Rightarrow> bool" where
  "truth_ok R seed n truth = (length truth = n \<and> (\<forall>i < n.
     tr_canonical_person_id (truth ! i) = stable_uuid R seed ''person'' i
     \<and> tr_assessment_person_id (truth ! i) = assessment_code i
     \<and> lms_code i \<in> set (tr_lms_user_ids (truth ! i))
     \<and> set (tr_lms_user_ids (truth ! i)) \<subseteq> {lms_code i, duplicate_code i}))"

definition accounts_ok :: "truth_row list \<Rightarrow> lms_row list \<Rightarrow> bool" where
  "accounts_ok truth rows =
     (lr_lms_user_id ` set rows = (\<Union>t \<in> set truth. set (tr_lms_user_ids t)))"

definition linked_ok :: "runtime \<Rightarrow> int \<Rightarrow> dataset_preset \<Rightarrow> lms_row list \<times> truth_row list \<Rightarrow> bool" where
  "linked_ok R seed preset st = (case st of (rows, truth) \<Rightarrow>
     dp_people preset * dp_participations_per_person preset \<le> length rows
     \<and> (\<forall>r \<in> set rows. times_ok R r) \<and> truth_ok R seed (dp_people preset) truth \<and> accounts_ok truth rows)"

lemma accounts_update:
  assumes "accounts_ok truth rows" and "i < length truth" and "r \<in> set rows"
  shows "accounts_ok (truth[i := tr_lms_user_ids_update (\<lambda>ids. ids @ [c]) (truth ! i)])
    (rows @ [r\<lparr>lr_lms_user_id := c, lr_assignment_id := a\<rparr>])"
proof -
  let ?t = "tr_lms_user_ids_update (\<lambda>ids. ids @ [c]) (truth ! i)"
  have "(\<Union>t \<in> set (truth[i := ?t]). set (tr_lms_user_ids t)) = (\<Union>j < length truth. set (tr_lms_user_ids (truth[i := ?t] ! j)))"
    by (auto simp: set_conv_nth)
  also have "\<dots> = insert c (\<Union>j < length truth. set (tr_lms_user_ids (truth ! j)))"
    using assms(2) by (auto simp: nth_list_update split: if_splits) 
  also have "(\<Union>j < length truth. set (tr_lms_user_ids (truth ! j))) = (\<Union>t \<in> set truth. set (tr_lms_user_ids t))"
    by (auto simp: set_conv_nth)
  finally show ?thesis using assms(1) by (simp add: accounts_ok_def)
qed

lemma add_duplicate_ok:
  assumes "linked_ok R seed preset st" and "i < dp_people preset" and "0 < dp_participations_per_person preset"
  shows "\<exists>st'. add_duplicate (dp_participations_per_person preset) i st = Inr st' \<and> linked_ok R seed preset st'"
proof -
  obtain rows truth where st: "st = (rows, truth)" by (cases st)
  let ?m = "dp_participations_per_person preset"
  have i: "i < length truth" using assms st by (simp add: linked_ok_def truth_ok_def)
  have "i * ?m < dp_people preset * ?m" using assms(2,3) by simp
  also have "\<dots> \<le> length rows" using assms(1) st by (simp add: linked_ok_def)
  finally have j: "i * ?m < length rows" .
  show ?thesis
    using assms i j accounts_update [OF _ i, of rows "rows ! (i * ?m)" "duplicate_code i" "''DUP-'' @ lr_assignment_id (rows ! (i * ?m))"]
    by (auto simp: st add_duplicate_def change_at_def item_at_def linked_ok_def truth_ok_def nth_list_update times_ok_def)
qed

lemma truth_people_ok: "truth_ok R seed n (map (truth_person R seed) [0..<n])"
  by (simp add: truth_ok_def truth_person_def)

lemma rows_ok_linked:
  assumes "rows_ok R preset rows" and "0 < dp_participations_per_person preset"
  shows "linked_ok R seed preset (rows, map (truth_person R seed) [0..<dp_people preset])"
proof -
  let ?m = "dp_participations_per_person preset" and ?n = "dp_people preset"
  have len: "length rows = ?n * ?m" using assms(1) by (simp add: rows_ok_def)
  have "lr_lms_user_id ` set rows = lms_code ` {..<?n}"
  proof
    show "lr_lms_user_id ` set rows \<subseteq> lms_code ` {..<?n}"
      using assms(1) len by (auto simp: rows_ok_def in_set_conv_nth less_mult_imp_div_less)
    show "lms_code ` {..<?n} \<subseteq> lr_lms_user_id ` set rows"
    proof
      fix x assume "x \<in> lms_code ` {..<?n}"
      then obtain i where i: "x = lms_code i" "i < ?n" by auto
      then have "i * ?m < length rows" using len assms(2) by simp
      then show "x \<in> lr_lms_user_id ` set rows"
        using assms i by (intro image_eqI [of _ _ "rows ! (i * ?m)"]) (auto simp: rows_ok_def)
    qed
  qed
  also have "\<dots> = (\<Union>t \<in> set (map (truth_person R seed) [0..<?n]). set (tr_lms_user_ids t))"
    by (auto simp: truth_person_def)
  finally show ?thesis
    using assms len by (auto simp: linked_ok_def accounts_ok_def truth_people_ok rows_ok_def in_set_conv_nth)
qed

lemma rows_nonempty: "preset_ok preset \<Longrightarrow> rows_ok R preset rows \<Longrightarrow> dp_people preset \<le> length rows \<and> 0 < length rows"
  by (simp add: preset_ok_def rows_ok_def)

lemma formula_text_ok:
  assumes "preset_ok preset" and "rows_ok R preset rows"
  shows "\<exists>rows'. formula_text rows = Inr rows' \<and> rows_ok R preset rows'"
  using rows_nonempty [OF assms] rows_ok_change [OF assms(2)]
  by (auto simp: formula_text_def times_ok_def)

lemma damage_ok:
  assumes "preset_ok preset" and "draws_ok G" and "rows_ok R preset rows"
    and "0 < n" and "n \<le> length rows" and "1 \<le> d"
    and "\<And>p s. p < length s \<Longrightarrow> rows_ok R preset s \<Longrightarrow> \<exists>s'. body p s = Inr s' \<and> rows_ok R preset s'"
  obtains rows' g' where "for_sample G (length rows) (defects n (dp_defect_rate preset) d) body (rows, g) = Inr (rows', g')"
    "rows_ok R preset rows'"
proof -
  have "\<exists>s' g'. for_sample G (length rows) (defects n (dp_defect_rate preset) d) body (rows, g) = Inr (s', g')
      \<and> rows_ok R preset s'"
  proof (rule for_sample_total [OF assms(2)])
    show "defects n (dp_defect_rate preset) d \<le> length rows"
      using assms(1,4-6) by (intro defects_le) (auto simp: preset_ok_def)
    show "\<exists>s'. body p s = Inr s' \<and> rows_ok R preset s'" if "p < length rows" "rows_ok R preset s" for p s
      using that assms(3,7) by (simp add: rows_ok_def)
  qed (rule assms(3))
  with that show thesis by blast
qed

lemma vary_names_ok:
  assumes "preset_ok preset" and "draws_ok G" and "rows_ok R preset rows"
  obtains rows' g' where "for_sample G (dp_people preset) (defects (dp_people preset) (dp_defect_rate preset) 1)
      (vary_name R (dp_participations_per_person preset)) (rows, g) = Inr (rows', g')" "rows_ok R preset rows'"
proof -
  let ?m = "dp_participations_per_person preset"
  have "\<exists>s' g'. for_sample G (dp_people preset) (defects (dp_people preset) (dp_defect_rate preset) 1)
      (vary_name R ?m) (rows, g) = Inr (s', g') \<and> rows_ok R preset s'"
  proof (rule for_sample_total [where I = "rows_ok R preset", OF assms(2) _ assms(3)])
    show "defects (dp_people preset) (dp_defect_rate preset) 1 \<le> dp_people preset"
      using assms(1) by (intro defects_le) (auto simp: preset_ok_def)
    show "\<exists>s'. vary_name R ?m p s = Inr s' \<and> rows_ok R preset s'" if "p < dp_people preset" "rows_ok R preset s" for p s
    proof -
      have "p * ?m < length s" using that assms(1) by (simp add: rows_ok_def preset_ok_def)
      then show ?thesis
        unfolding vary_name_def by (intro rows_ok_change [OF that(2)]) (simp_all add: times_ok_def)
    qed
  qed
  with that show thesis by blast
qed

lemma duplicates_added:
  assumes "res_fold (add_duplicate m) ps (rows, truth) = Inr (rows', truth')"
  shows "res_fold (\<lambda>p. change_at p (tr_lms_user_ids_update (\<lambda>ids. ids @ [duplicate_code p]))) ps truth = Inr truth'
    \<and> length rows' = length rows + length ps"
  using assms
proof (induction ps arbitrary: rows truth)
  case Nil
  then show ?case by simp
next
  case (Cons p ps)
  then show ?case by (auto simp: add_duplicate_def and_then_Inr split: sum.splits)
qed

lemma duplicates_ok:
  fixes seed :: int
  assumes P: "preset_ok preset" and G: "draws_ok G" and rows: "rows_ok R preset rows"
  defines "truth \<equiv> map (truth_person R seed) [0..<dp_people preset]"
    and "k \<equiv> defects (dp_people preset) (dp_duplicate_rate preset) 1"
  obtains rows' truth' g' where
    "for_sample G (dp_people preset) k (add_duplicate (dp_participations_per_person preset)) ((rows, truth), g)
       = Inr ((rows', truth'), g')"
    "linked_ok R seed preset (rows', truth')"
    "length (filter (\<lambda>t. length (tr_lms_user_ids t) > 1) truth') = k" "length rows' = length rows + k"
proof -
  have m: "0 < dp_participations_per_person preset" using P by (simp add: preset_ok_def)
  have k: "k \<le> dp_people preset" unfolding k_def using P by (intro defects_le) (auto simp: preset_ok_def)
  have "\<exists>st' g'. for_sample G (dp_people preset) k (add_duplicate (dp_participations_per_person preset)) ((rows, truth), g)
       = Inr (st', g') \<and> linked_ok R seed preset st'"
    by (rule for_sample_total [where I = "linked_ok R seed preset", OF G k])
      (use rows_ok_linked [OF rows m] add_duplicate_ok [OF _ _ m] in \<open>auto simp: truth_def\<close>)
  then obtain st' g' where run: "for_sample G (dp_people preset) k (add_duplicate (dp_participations_per_person preset)) ((rows, truth), g)
       = Inr (st', g')" and ok: "linked_ok R seed preset st'" by blast
  from for_sample_Inr [OF run G] obtain ps where
    ps: "res_fold (add_duplicate (dp_participations_per_person preset)) ps (rows, truth) = Inr (fst st', snd st')"
      "length ps = k" "distinct ps" "set ps \<subseteq> {..<dp_people preset}" by auto
  have truth': "length (filter (\<lambda>t. length (tr_lms_user_ids t) > 1) (snd st')) = length ps"
  proof (rule marked_count)
    show "res_fold (\<lambda>p. change_at p (tr_lms_user_ids_update (\<lambda>ids. ids @ [duplicate_code p]))) ps truth = Inr (snd st')"
      using duplicates_added [OF ps(1)] by blast
    show "distinct ps" by (rule ps(3))
    show "set ps \<subseteq> {..<length truth}" using ps(4) by (simp add: truth_def)
  qed (auto simp: truth_def truth_person_def)
  show thesis
    using that [of "fst st'" "snd st'" g'] run ok truth' ps(2) duplicates_added [OF ps(1)] by simp
qed

lemma lms_rows_ok:
  fixes seed :: int
  assumes P: "preset_ok preset" and G: "draws_ok G" and I: "iso_ok R" and "courses \<noteq> []"
    and "length hris = dp_people preset"
  defines "truth \<equiv> map (truth_person R seed) [0..<dp_people preset]"
    and "k \<equiv> defects (dp_people preset) (dp_duplicate_rate preset) 1"
  obtains rows' truth' g' where "lms_rows R G preset hris truth courses g = Inr (rows', truth', g')"
    "linked_ok R seed preset (rows', truth')"
    "length (filter (\<lambda>t. length (tr_lms_user_ids t) > 1) truth') = k"
    "length rows' = dp_people preset * dp_participations_per_person preset + k"
proof -
  let ?n = "dp_people preset" and ?m = "dp_participations_per_person preset" and ?q = "dp_defect_rate preset"
  have m: "0 < ?m" "?m \<le> 1000" "0 < ?n" using P by (auto simp: preset_ok_def)
  obtain r0 where base: "lms_base R preset hris truth courses = Inr r0" and r0: "rows_ok R preset r0"
    using lms_people [OF I assms(4) refl m(2,1), of 0 hris truth "[]"] assms(5)
    by (auto simp: truth_def truth_person_def lms_base_def rows_ok_def)
  note le = rows_nonempty [OF P] and damage = damage_ok [OF P G]
  note change = rows_ok_change [where R = R and preset = preset]
  obtain r1 g1 where s1: "for_sample G ?n (defects ?n ?q 1) (vary_name R ?m) (r0, g) = Inr (r1, g1)"
    and r1: "rows_ok R preset r1" by (rule vary_names_ok [OF P G r0])
  obtain r2 g2 where s2: "for_sample G (length r1) (defects (length r1) ?q 4) break_status (r1, g1) = Inr (r2, g2)"
    and r2: "rows_ok R preset r2"
    by (rule damage [OF r1, of "length r1" 4 break_status])
      (use le [OF r1] in \<open>auto simp: break_status_def times_ok_def intro!: change\<close>)
  obtain r3 g3 where s3: "for_sample G (length r2) (defects (length r2) ?q 5) (break_completion R) (r2, g2) = Inr (r3, g3)"
    and r3: "rows_ok R preset r3"
    by (rule damage [OF r2, of "length r2" 5 "break_completion R"])
      (use le [OF r2] in \<open>auto intro!: break_completion_ok [OF I]\<close>)
  obtain r4 g4 where s4: "for_sample G (length r3) (defects ?n ?q 3) break_department (r3, g3) = Inr (r4, g4)"
    and r4: "rows_ok R preset r4"
    by (rule damage [OF r3, of ?n 3 break_department])
      (use le [OF r3] m in \<open>auto simp: break_department_def times_ok_def intro!: change\<close>)
  obtain r5 g5 where s5: "for_sample G (length r4) (defects ?n ?q 4) (make_late R) (r4, g4) = Inr (r5, g5)"
    and r5: "rows_ok R preset r5"
    by (rule damage [OF r4, of ?n 4 "make_late R"])
      (use le [OF r4] m in \<open>auto simp: make_late_def times_ok_def intro!: change\<close>)
  obtain r6 where s6: "formula_text r5 = Inr r6" and r6: "rows_ok R preset r6"
    using formula_text_ok [OF P r5] by blast
  obtain r7 t7 g7 where s7: "for_sample G ?n k (add_duplicate ?m) ((r6, truth), g5) = Inr ((r7, t7), g7)"
    and r7: "linked_ok R seed preset (r7, t7)"
      "length (filter (\<lambda>t. length (tr_lms_user_ids t) > 1) t7) = k" "length r7 = length r6 + k"
    unfolding truth_def k_def by (rule duplicates_ok [OF P G r6])
  have "lms_rows R G preset hris truth courses g = Inr (r7, t7, g7)"
    unfolding lms_rows_def Let_def by (simp add: base s1 s2 s3 s4 s5 s6 s7 [unfolded k_def])
  then show thesis
    using that r7 r6 by (simp add: rows_ok_def)
qed

section \<open>People\<close>

lemma person_rows_ok:
  assumes P: "preset_ok preset" and G: "draws_ok G"
  obtains hris g' where "person_rows R G seed preset g = Inr (hris, map (truth_person R seed) [0..<dp_people preset], g')"
    "length hris = dp_people preset"
    "length (filter (\<lambda>r. hr_employee_id r = []) hris) = defects (dp_people preset) (dp_defect_rate preset) 1"
proof -
  let ?n = "dp_people preset" and ?k = "defects (dp_people preset) (dp_defect_rate preset) 1"
  let ?h = "map (hris_person R) [0..<?n]"
  have k: "?k \<le> ?n" using P by (intro defects_le) (auto simp: preset_ok_def)
  obtain ps g' where ps: "sample G ?n ?k g = Inr (ps, g')" "length ps = ?k" "distinct ps" "set ps \<subseteq> {..<?n}"
    by (rule sample_ok [OF G k])
  have run: "res_fold (\<lambda>p. change_at p (hr_employee_id_update (\<lambda>_. []))) ps ?h =
      Inr (map (\<lambda>i. if i \<in> set ps then hr_employee_id_update (\<lambda>_. []) (?h ! i) else ?h ! i) [0..<length ?h])" (is "_ = Inr ?h'")
    by (rule res_fold_change) (use ps in auto)
  have "length (filter (\<lambda>r. hr_employee_id r = []) ?h') = length ps"
    by (rule marked_count [OF run]) (use ps in \<open>auto simp: hris_person_def Let_def employee_code_def\<close>)
  with that [of ?h' g'] show thesis
    by (simp add: person_rows_def Let_def for_sample_def ps(1,2) run)
qed

section \<open>Assessments\<close>

definition assessed :: "nat \<Rightarrow> int" where
  "assessed i = FEB_2026 + days (int (i mod 90))"

definition assessments_ok :: "runtime \<Rightarrow> nat \<Rightarrow> nat \<Rightarrow> assessment_row list \<Rightarrow> bool" where
  "assessments_ok R s n as = (length as = n \<and> (\<forall>i < n. ar_assessment_person_id (as ! i) = assessment_code (s + i)
     \<and> ar_assessed_at (as ! i) = rt_isoformat R (assessed (s + i))))"

definition credential_of :: "runtime \<Rightarrow> int \<Rightarrow> nat \<Rightarrow> award_row \<Rightarrow> bool" where
  "credential_of R later i c = (wr_assessment_person_id c = assessment_code i
     \<and> wr_awarded_at c = rt_isoformat R (assessed i + days later))"

lemma from_iso_assessed:
  assumes "iso_ok R" and "- 1 \<le> d" and "d \<le> 1"
  shows "from_iso R (rt_isoformat R (assessed i + days d)) = Inr (assessed i + days d)"
    and "from_iso R (rt_isoformat R (assessed i)) = Inr (assessed i)"
proof -
  have "i mod 90 < 90" by simp
  with assms show "from_iso R (rt_isoformat R (assessed i + days d)) = Inr (assessed i + days d)"
    "from_iso R (rt_isoformat R (assessed i)) = Inr (assessed i)"
    by (auto intro!: from_iso_time [OF assms(1)] simp: assessed_def days_def FEB_2026_def)
qed

lemma assessment_step:
  assumes "courses \<noteq> []" and "tr_assessment_person_id t = assessment_code s"
  shows "\<exists>a nc. assessment_person R courses (s, t) (as, cs) = Inr (as @ [a], cs @ nc)
    \<and> ar_assessment_person_id a = assessment_code s \<and> ar_assessed_at a = rt_isoformat R (assessed s)
    \<and> (\<forall>c \<in> set nc. credential_of R 1 s c)"
  using assms
  by (cases "cr_credential_code (courses ! (s mod length courses)) \<noteq> [] \<and> 15 \<le> s * 13 mod 41")
    (auto simp: assessment_person_def cycled_def Let_def assessed_def credential_of_def)

lemma assessment_people:
  assumes "courses \<noteq> []" and "\<And>i. i < length truth \<Longrightarrow> tr_assessment_person_id (truth ! i) = assessment_code (s + i)"
  shows "\<exists>na nc. res_fold (assessment_person R courses) (enumerate s truth) (as, cs) = Inr (as @ na, cs @ nc)
    \<and> assessments_ok R s (length truth) na
    \<and> (\<forall>c \<in> set nc. \<exists>i \<in> {s..<s + length truth}. credential_of R 1 i c)"
  using assms(2)
proof (induction truth arbitrary: s as cs)
  case Nil
  then show ?case by (simp add: assessments_ok_def)
next
  case (Cons t truth)
  obtain a nc1 where step: "assessment_person R courses (s, t) (as, cs) = Inr (as @ [a], cs @ nc1)"
      "ar_assessment_person_id a = assessment_code s" "ar_assessed_at a = rt_isoformat R (assessed s)"
      "\<forall>c \<in> set nc1. credential_of R 1 s c"
    using assessment_step [OF assms(1), of t s R as cs] Cons.prems [of 0] by auto
  have "tr_assessment_person_id (truth ! i) = assessment_code (Suc s + i)" if "i < length truth" for i
    using Cons.prems [of "Suc i"] that by simp
  from Cons.IH [OF this, of "as @ [a]" "cs @ nc1"] obtain na nc where
    rest: "res_fold (assessment_person R courses) (enumerate (Suc s) truth) (as @ [a], cs @ nc1) = Inr ((as @ [a]) @ na, (cs @ nc1) @ nc)"
      "assessments_ok R (Suc s) (length truth) na" "\<forall>c \<in> set nc. \<exists>i \<in> {Suc s..<Suc s + length truth}. credential_of R 1 i c"
    by blast
  have "assessments_ok R s (length (t # truth)) (a # na)"
    using step rest(2) by (auto simp: assessments_ok_def nth_Cons split: nat.splits)
  moreover have "\<forall>c \<in> set (nc1 @ nc). \<exists>i \<in> {s..<s + length (t # truth)}. credential_of R 1 i c"
    using step(4) rest(3) by fastforce
  ultimately show ?case
    using step(1) rest(1) by (intro exI [of _ "a # na"] exI [of _ "nc1 @ nc"]) simp
qed

lemma find_assessment:
  assumes "assessments_ok R 0 n as" and "i < n"
  shows "\<exists>a. find (\<lambda>item. ar_assessment_person_id item = assessment_code i) as = Some a
    \<and> ar_assessed_at a = rt_isoformat R (assessed i)"
proof -
  have "find (\<lambda>item. ar_assessment_person_id item = assessment_code i) as \<noteq> None"
    using assms by (auto simp: find_None_iff assessments_ok_def in_set_conv_nth)
  then obtain a where a: "find (\<lambda>item. ar_assessment_person_id item = assessment_code i) as = Some a" by blast
  then obtain j where "j < length as" "a = as ! j" "ar_assessment_person_id (as ! j) = assessment_code i"
    by (auto simp: find_Some_iff)
  with assms a show ?thesis by (auto simp: assessments_ok_def)
qed

lemma assessment_rows_ok:
  assumes "iso_ok R" and "courses \<noteq> []" and "truth_ok R seed n truth"
  obtains as cs where "assessment_rows R truth courses = Inr (as, cs)" "assessments_ok R 0 n as"
    "\<forall>c \<in> set (tl cs). \<exists>i < n. credential_of R 1 i c" "cs \<noteq> [] \<Longrightarrow> \<exists>i < n. credential_of R (- 1) i (hd cs)"
proof -
  obtain as cs where run: "res_fold (assessment_person R courses) (enumerate 0 truth) ([], []) = Inr (as, cs)"
      and as: "assessments_ok R 0 n as" and cs: "\<forall>c \<in> set cs. \<exists>i < n. credential_of R 1 i c"
    using assessment_people [OF assms(2), of truth 0 R "[]" "[]"] assms(3)
    by (auto simp: truth_ok_def Bex_def)
  show thesis
  proof (cases cs)
    case Nil
    with that [of as "[]"] run as show thesis by (simp add: assessment_rows_def)
  next
    case (Cons c rest)
    with cs obtain i where i: "i < n" "credential_of R 1 i c" by auto
    obtain a where a: "find (\<lambda>item. ar_assessment_person_id item = assessment_code i) as = Some a"
      "ar_assessed_at a = rt_isoformat R (assessed i)" using find_assessment [OF as i(1)] by blast
    let ?c = "c\<lparr>wr_awarded_at := rt_isoformat R (assessed i - days 1)\<rparr>"
    have "assessment_rows R truth courses = Inr (as, ?c # rest)"
      using run a i(2) from_iso_assessed(2) [OF assms(1), of 0 i]
      by (simp add: assessment_rows_def Cons credential_of_def)
    moreover have "credential_of R (- 1) i ?c" using i(2) by (simp add: credential_of_def days_def)
    ultimately show thesis using that [of as "?c # rest"] as cs i(1) Cons by auto
  qed
qed

section \<open>The summary\<close>

lemma fold_set_keys [simp]:
  "fst ` set (fold (\<lambda>x. dict_set (k x) (v x)) xs d) = fst ` set d \<union> k ` set xs"
  by (induction xs arbitrary: d) auto

lemma fold_dict_set_lookup:
  assumes "key \<in> k ` set xs" and "\<And>x. x \<in> set xs \<Longrightarrow> k x = key \<Longrightarrow> v x = val"
  shows "map_of (fold (\<lambda>x. dict_set (k x) (v x)) xs d) key = Some val"
  using assms
proof (induction xs rule: rev_induct)
  case Nil
  then show ?case by simp
next
  case (snoc y ys)
  then show ?case by (cases "k y = key") auto
qed

lemma assessment_times_ok:
  assumes "iso_ok R" and "assessments_ok R 0 n as"
  obtains known where "assessment_times R as = Inr known"
    "\<And>i. i < n \<Longrightarrow> map_of known (assessment_code i) = Some (assessed i)"
proof -
  let ?t = "\<lambda>item. the (map_of (map (\<lambda>i. (assessment_code i, assessed i)) [0..<n]) (ar_assessment_person_id item))"
  have t: "?t (as ! i) = assessed i" if "i < n" for i
  proof -
    have "map_of (map (\<lambda>i. (assessment_code i, assessed i)) [0..<n]) (assessment_code i) = Some (assessed i)"
      using that by (intro map_of_is_SomeI) (auto simp: distinct_map inj_on_def)
    with that assms(2) show ?thesis by (simp add: assessments_ok_def)
  qed
  have "\<forall>item \<in> set as. from_iso R (ar_assessed_at item) = Inr (?t item)"
    using assms(2) t from_iso_assessed(2) [OF assms(1), of 0]
    by (auto simp: assessments_ok_def in_set_conv_nth)
  then have "res_fold (\<lambda>item d. and_then (from_iso R (ar_assessed_at item))
      (\<lambda>t. Inr (dict_set (ar_assessment_person_id item) t d))) as d =
      Inr (fold (\<lambda>item. dict_set (ar_assessment_person_id item) (?t item)) as d)" for d
    by (induction as arbitrary: d) auto
  then have run: "assessment_times R as = Inr (fold (\<lambda>item. dict_set (ar_assessment_person_id item) (?t item)) as [])"
    by (simp only: assessment_times_def)
  show thesis
  proof (rule that [OF run])
    fix i assume i: "i < n"
    show "map_of (fold (\<lambda>item. dict_set (ar_assessment_person_id item) (?t item)) as []) (assessment_code i) = Some (assessed i)"
    proof (rule fold_dict_set_lookup)
      show "assessment_code i \<in> ar_assessment_person_id ` set as"
        using i assms(2) by (intro image_eqI [of _ _ "as ! i"]) (auto simp: assessments_ok_def)
      show "?t x = assessed i" if "x \<in> set as" "ar_assessment_person_id x = assessment_code i" for x
        using that t assms(2) by (auto simp: in_set_conv_nth assessments_ok_def)
    qed
  qed
qed

lemma count_res_Inr: "(\<And>x. x \<in> set xs \<Longrightarrow> P x = Inr (Q x)) \<Longrightarrow> count_res P xs = Inr (length (filter Q xs))"
  by (induction xs) auto

lemma awarded_early_eq:
  assumes "iso_ok R" and "\<And>i. i < n \<Longrightarrow> map_of known (assessment_code i) = Some (assessed i)"
    and "i < n" and "credential_of R d i c" and "- 1 \<le> d" and "d \<le> 1"
  shows "awarded_early R known c = Inr (d < 0)"
  using assms(2-4) from_iso_assessed(1) [OF assms(1,5,6)]
  by (simp add: awarded_early_def credential_of_def) (simp add: days_def)

text \<open>Only the first credential was moved before its assessment.\<close>

lemma credential_defects:
  assumes "iso_ok R" and "\<And>i. i < n \<Longrightarrow> map_of known (assessment_code i) = Some (assessed i)"
    and "\<forall>c \<in> set (tl cs). \<exists>i < n. credential_of R 1 i c" and "cs \<noteq> [] \<Longrightarrow> \<exists>i < n. credential_of R (- 1) i (hd cs)"
  shows "count_res (awarded_early R known) cs = Inr (if cs = [] then 0 else 1)"
proof (cases cs)
  case (Cons c rest)
  have "awarded_early R known x = Inr False" if "x \<in> set rest" for x
    using that assms(3) Cons awarded_early_eq [OF assms(1,2), of n _ 1 x] by auto
  then have "count_res (awarded_early R known) rest = Inr (length (filter (\<lambda>_. False) rest))"
    by (rule count_res_Inr)
  moreover have "awarded_early R known c = Inr True"
    using assms(4) Cons awarded_early_eq [OF assms(1,2), of n _ "- 1" c] by auto
  ultimately show ?thesis using Cons by simp
qed simp

lemma completion_defects:
  assumes "\<forall>r \<in> set rows. times_ok R r"
  shows "count_res (completed_early R) rows = Inr (length (filter (\<lambda>r. completed_early R r = Inr True) rows))"
proof (rule count_res_Inr)
  fix r assume "r \<in> set rows"
  with assms have "\<exists>b. completed_early R r = Inr b" by (auto simp: completed_early_def times_ok_def)
  then show "completed_early R r = Inr (completed_early R r = Inr True)" by auto
qed

section \<open>Whole datasets\<close>

text \<open>What the rows of a dataset are, for every preset and every sequence of draws.\<close>

definition dataset_ok :: "runtime \<Rightarrow> int \<Rightarrow> dataset_preset \<Rightarrow> dataset \<Rightarrow> bool" where
  "dataset_ok R seed preset r =
     (length (ds_hris r) = dp_people preset \<and> length (ds_courses r) = dp_courses preset
      \<and> length (ds_assessments r) = dp_people preset
      \<and> linked_ok R seed preset (ds_lms r, ds_truth r)
      \<and> length (ds_lms r) = dp_people preset * dp_participations_per_person preset
          + defects (dp_people preset) (dp_duplicate_rate preset) 1
      \<and> length (filter (\<lambda>h. hr_employee_id h = []) (ds_hris r)) = defects (dp_people preset) (dp_defect_rate preset) 1
      \<and> length (filter (\<lambda>t. length (tr_lms_user_ids t) > 1) (ds_truth r)) = defects (dp_people preset) (dp_duplicate_rate preset) 1)"

definition summary_ok :: "runtime \<Rightarrow> dataset \<Rightarrow> pyrec \<Rightarrow> bool" where
  "summary_ok R r summary = (
      map_of summary ''missing_employee_id'' = Some (count_if (\<lambda>h. hr_employee_id h = []) (ds_hris r))
    \<and> map_of summary ''name_variant'' = Some (count_if (\<lambda>p. contains (lr_learner_name p) ''  '') (ds_lms r))
    \<and> map_of summary ''duplicate_lms_account'' = Some (count_if (\<lambda>t. length (tr_lms_user_ids t) > 1) (ds_truth r))
    \<and> map_of summary ''conflicting_department'' = Some (count_if (\<lambda>p. lr_department p = ''CONFLICTING_UNIT'') (ds_lms r))
    \<and> map_of summary ''invalid_completion_status'' = Some (count_if (\<lambda>p. lr_completion_status p = ''done-ish'') (ds_lms r))
    \<and> map_of summary ''completion_before_assignment'' = Some (count_if (\<lambda>p. completed_early R p = Inr True) (ds_lms r))
    \<and> map_of summary ''credential_before_assessment'' = Some (PInt (if ds_credentials r = [] then 0 else 1))
    \<and> map_of summary ''late_event'' = Some (count_if (\<lambda>p. starts_with (lr_updated_at p) ''2027-'') (ds_lms r))
    \<and> map_of summary ''formula_like_text'' =
        Some (count_if (\<lambda>p. list_ex (starts_with (lr_learner_name p)) [''='', ''+'', ''-'', ''@'']) (ds_lms r)))"

lemma dataset_rows_ok:
  assumes P: "preset_ok preset" and G: "draws_ok G" and I: "iso_ok R"
  obtains r summary where "dataset_rows R G preset seed = Inr r" "dataset_ok R seed preset r"
    "defect_summary R (ds_hris r) (ds_truth r) (ds_lms r) (ds_assessments r) (ds_credentials r) = Inr summary"
    "summary_ok R r summary"
proof -
  obtain hris g1 where people: "person_rows R G seed preset (rng_seed G seed) =
      Inr (hris, map (truth_person R seed) [0..<dp_people preset], g1)" "length hris = dp_people preset"
    "length (filter (\<lambda>r. hr_employee_id r = []) hris) = defects (dp_people preset) (dp_defect_rate preset) 1"
    by (rule person_rows_ok [OF P G])
  let ?c = "course_rows R seed (dp_courses preset)"
  have c: "?c \<noteq> []" "length ?c = dp_courses preset" using P by (auto simp: course_rows_def preset_ok_def)
  obtain lms truth g2 where lms: "lms_rows R G preset hris (map (truth_person R seed) [0..<dp_people preset]) ?c g1 = Inr (lms, truth, g2)"
    "linked_ok R seed preset (lms, truth)"
    "length (filter (\<lambda>t. length (tr_lms_user_ids t) > 1) truth) = defects (dp_people preset) (dp_duplicate_rate preset) 1"
    "length lms = dp_people preset * dp_participations_per_person preset + defects (dp_people preset) (dp_duplicate_rate preset) 1"
    by (rule lms_rows_ok [OF P G I c(1) people(2), where seed = seed and g = g1])
  have truth: "truth_ok R seed (dp_people preset) truth" using lms(2) by (simp add: linked_ok_def)
  obtain as cs where as: "assessment_rows R truth ?c = Inr (as, cs)" "assessments_ok R 0 (dp_people preset) as"
    "\<forall>c \<in> set (tl cs). \<exists>i < dp_people preset. credential_of R 1 i c"
    "cs \<noteq> [] \<Longrightarrow> \<exists>i < dp_people preset. credential_of R (- 1) i (hd cs)"
    using assessment_rows_ok [OF I c(1) truth] by blast
  obtain known where known: "assessment_times R as = Inr known"
    "\<And>i. i < dp_people preset \<Longrightarrow> map_of known (assessment_code i) = Some (assessed i)"
    by (rule assessment_times_ok [OF I as(2)]) blast
  have k: "count_res (completed_early R) lms = Inr (length (filter (\<lambda>r. completed_early R r = Inr True) lms))"
    using lms(2) by (intro completion_defects) (simp add: linked_ok_def)
  define r where "r = \<lparr>ds_hris = hris, ds_truth = truth, ds_courses = ?c, ds_lms = lms, ds_assessments = as, ds_credentials = cs\<rparr>"
  have rows: "dataset_rows R G preset seed = Inr r"
    by (simp add: dataset_rows_def people(1) lms(1) as(1) r_def)
  moreover have "dataset_ok R seed preset r"
    using people lms c(2) as(2) by (simp add: dataset_ok_def r_def assessments_ok_def)
  moreover note credential_defects [OF I known(2) as(3,4)]
  ultimately show thesis
    using that [of r] by (simp add: r_def defect_summary_def known(1) k summary_ok_def count_if_def)
qed

end
