(* ===== verification/Generator_Defects.thy ===== *)
theory Generator_Defects
  imports Generator_Rows
begin

text \<open>
  The defects of the participations, counted: the rows start without any mark, each of the loops
  marks the positions it draws and leaves the other marks alone, except that a broken completion resets the status, and the
  duplicated accounts copy rows with their marks.
\<close>

section \<open>What the texts promise\<close>

text \<open>
  \<^verbatim>\<open>str.upper\<close> on ASCII texts, and \<^verbatim>\<open>isoformat\<close>: never empty, and beginning with the year, here for the
  times of 2026 and of 2027.
\<close>

definition texts_ok :: "runtime \<Rightarrow> bool" where
  "texts_ok R =
     ((\<forall>s. list_all (\<lambda>c. of_char c < (128 :: nat)) s \<longrightarrow> rt_upper R s = map ascii_upper s)
      \<and> (\<forall>t. 0 \<le> t \<and> t < days 3652059 \<longrightarrow> rt_isoformat R t \<noteq> [])
      \<and> (\<forall>t. JAN_2026 \<le> t \<and> t < days 739981 \<longrightarrow> starts_with (rt_isoformat R t) ''2026-'')
      \<and> (\<forall>t. days 739981 \<le> t \<and> t < days 740346 \<longrightarrow> starts_with (rt_isoformat R t) ''2027-''))"

section \<open>Marks\<close>

datatype defect = Spaced | Odd_Status | Early | Odd_Unit | Late | Formula_Text

fun marked :: "runtime \<Rightarrow> defect \<Rightarrow> lms_row \<Rightarrow> bool" where
  "marked R Spaced r = contains (lr_learner_name r) ''  ''"
| "marked R Odd_Status r = (lr_completion_status r = ''done-ish'')"
| "marked R Early r = (completed_early R r = Inr True)"
| "marked R Odd_Unit r = (lr_department r = ''CONFLICTING_UNIT'')"
| "marked R Late r = starts_with (lr_updated_at r) ''2027-''"
| "marked R Formula_Text r = list_ex (starts_with (lr_learner_name r)) [''='', ''+'', ''-'', ''@'']"

definition marks :: "runtime \<Rightarrow> defect \<Rightarrow> lms_row list \<Rightarrow> nat" where
  "marks R d rows = length (filter (marked R d) rows)"

lemma no_marks: "marks R d rows = 0 \<longleftrightarrow> (\<forall>r \<in> set rows. \<not> marked R d r)"
  by (simp add: marks_def filter_empty_conv)

section \<open>Names and units\<close>

definition full_name :: "string \<Rightarrow> bool" where
  "full_name n = (\<exists>a \<in> set FIRST_NAMES. \<exists>b \<in> set LAST_NAMES. n = a @ '' '' @ b)"

definition unit_code :: "runtime \<Rightarrow> string \<Rightarrow> bool" where
  "unit_code R u = (\<exists>d \<in> set DEPARTMENTS. u = replace_space ''_'' (rt_upper R d))"

definition plain_word :: "string \<Rightarrow> bool" where
  "plain_word a = (a \<noteq> [] \<and> CHR '' '' \<notin> set a \<and> hd a \<notin> set ''=+-@'' \<and> ascii_upper (hd a) \<notin> set ''=+-@''
     \<and> list_all (\<lambda>c. of_char c < (128 :: nat)) a)"

lemma plain_names: "list_all plain_word FIRST_NAMES" "list_all plain_word LAST_NAMES"
  by code_simp+

lemma departments_plain:
  "list_all (\<lambda>d. list_all (\<lambda>c. of_char c < (128 :: nat)) d \<and> replace_space ''_'' (map ascii_upper d) \<noteq> ''CONFLICTING_UNIT'') DEPARTMENTS"
  by code_simp

lemma contains_iff: "contains s p \<longleftrightarrow> (\<exists>u v. s = u @ p @ v)"
proof (induction s)
  case (Cons c s)
  have "(\<exists>u v. c # s = u @ p @ v) \<longleftrightarrow> (\<exists>v. c # s = p @ v) \<or> (\<exists>u v. s = u @ p @ v)"
    by (auto simp: Cons_eq_append_conv)
  with Cons.IH show ?case by (simp add: starts_with_iff)
qed simp

lemma starts_formula:
  "list_ex (starts_with s) [''='', ''+'', ''-'', ''@''] \<longleftrightarrow> s \<noteq> [] \<and> hd s \<in> set ''=+-@''"
  by (cases s) auto

lemma one_space:
  assumes "CHR '' '' \<notin> set a" and "CHR '' '' \<notin> set b"
  shows "\<not> contains (a @ '' '' @ b) ''  ''"
proof
  assume "contains (a @ '' '' @ b) ''  ''"
  then obtain u v where eq: "a @ '' '' @ b = u @ ''  '' @ v" by (auto simp: contains_iff)
  from assms have "filter ((=) (CHR '' '')) a = []" "filter ((=) (CHR '' '')) b = []"
    by (auto simp: filter_empty_conv)
  with arg_cong [OF eq, of "\<lambda>s. length (filter ((=) (CHR '' '')) s)"] show False by simp
qed

lemma replace_space_append [simp]: "replace_space r (s @ t) = replace_space r s @ replace_space r t"
  by (simp add: replace_space_def)

lemma replace_space_none: "CHR '' '' \<notin> set s \<Longrightarrow> replace_space r s = s"
  by (induction s) (auto simp: replace_space_def)

lemma spaced_words: "CHR '' '' \<notin> set a \<Longrightarrow> CHR '' '' \<notin> set b \<Longrightarrow> replace_space t (a @ CHR '' '' # b) = a @ t @ b"
proof -
  assume "CHR '' '' \<notin> set a" "CHR '' '' \<notin> set b"
  moreover have "replace_space t (CHR '' '' # b) = t @ replace_space t b" by (simp add: replace_space_def)
  ultimately show ?thesis by (simp add: replace_space_none)
qed

lemma full_name_plain:
  assumes "full_name n"
  obtains a b where "n = a @ '' '' @ b" "plain_word a" "plain_word b"
  using assms plain_names by (auto simp: full_name_def list_all_iff)

lemma plain_full_name:
  assumes "full_name n"
  shows "\<not> contains n ''  ''" and "\<not> list_ex (starts_with n) [''='', ''+'', ''-'', ''@'']"
proof -
  obtain a b where n: "n = a @ '' '' @ b" and "plain_word a" "plain_word b" by (rule full_name_plain [OF assms])
  then show "\<not> contains n ''  ''" using one_space [of a b] by (simp add: plain_word_def)
  from \<open>plain_word a\<close> show "\<not> list_ex (starts_with n) [''='', ''+'', ''-'', ''@'']"
    unfolding starts_formula by (simp add: n plain_word_def)
qed

lemma varied_full_name:
  assumes "texts_ok R" and "full_name n"
  defines "v \<equiv> rt_upper R (replace_space ''  '' n)"
  shows "contains v ''  ''" and "\<not> list_ex (starts_with v) [''='', ''+'', ''-'', ''@'']"
proof -
  obtain a b where n: "n = a @ '' '' @ b" and w: "plain_word a" "plain_word b" by (rule full_name_plain [OF assms(2)])
  from w have "replace_space ''  '' n = a @ ''  '' @ b" by (simp add: n plain_word_def spaced_words del: replace_space_append)
  moreover have "list_all (\<lambda>c. of_char c < (128 :: nat)) (a @ ''  '' @ b)" using w by (simp add: plain_word_def)
  ultimately have v: "v = map ascii_upper a @ ''  '' @ map ascii_upper b"
    using assms(1) by (simp add: v_def texts_ok_def) (simp add: ascii_upper_def Let_def)
  then show "contains v ''  ''" unfolding contains_iff by blast
  from w(1) show "\<not> list_ex (starts_with v) [''='', ''+'', ''-'', ''@'']"
    unfolding starts_formula by (simp add: v plain_word_def hd_append hd_map)
qed

lemma plain_unit: "texts_ok R \<Longrightarrow> unit_code R u \<Longrightarrow> u \<noteq> ''CONFLICTING_UNIT''"
  using departments_plain by (fastforce simp: unit_code_def texts_ok_def list_all_iff)

section \<open>Rows without marks\<close>

definition clean_row :: "runtime \<Rightarrow> lms_row \<Rightarrow> bool" where
  "clean_row R r = (full_name (lr_learner_name r) \<and> unit_code R (lr_department r)
     \<and> lr_completion_status r \<in> set statuses \<and> completed_early R r = Inr False
     \<and> (\<exists>t. JAN_2026 \<le> t \<and> t < days 739981 \<and> lr_updated_at r = rt_isoformat R t))"

definition clean_person :: "runtime \<Rightarrow> hris_row \<Rightarrow> bool" where
  "clean_person R h = (full_name (hr_display_name h) \<and> unit_code R (hr_department_code h))"

lemma clean_unmarked:
  assumes "texts_ok R" and "clean_row R r"
  shows "\<not> marked R d r"
proof (cases d)
  case Late
  from assms have "starts_with (lr_updated_at r) ''2026-''" by (auto simp: clean_row_def texts_ok_def)
  with Late show ?thesis by (auto simp: starts_with_iff)
next
  case Odd_Unit
  with assms plain_unit show ?thesis by (auto simp: clean_row_def)
qed (use assms plain_full_name [of "lr_learner_name r"] in \<open>auto simp: clean_row_def statuses_def\<close>)

lemma clean_marks: "texts_ok R \<Longrightarrow> \<forall>r \<in> set rows. clean_row R r \<Longrightarrow> marks R d rows = 0"
  unfolding no_marks using clean_unmarked by blast

lemma clean_slot:
  assumes "lms_slot R courses i h t k rows = Inr rows'" and "\<forall>r \<in> set rows. clean_row R r" and "clean_person R h" and "iso_ok R" and "k \<le> 1000"
  shows "\<forall>r \<in> set rows'. clean_row R r"
proof -
  let ?a = "JAN_2026 + days (int ((i + k) mod 120))"
  have a: "JAN_2026 \<le> ?a" "?a \<le> JAN_2026 + days 119" by (auto simp: days_def)
  have iso: "from_iso R (rt_isoformat R ?a) = Inr ?a" "from_iso R (rt_isoformat R (?a + days (3 + int k))) = Inr (?a + days (3 + int k))"
    using a assms(5) by (auto intro!: from_iso_time [OF assms(4)] simp: days_def JAN_2026_def)
  have late: "JAN_2026 \<le> ?a + days 10" "?a + days 10 < days 739981" using a by (auto simp: days_def JAN_2026_def)
  have status: "statuses ! ((i + k) mod length statuses) \<in> set statuses" by (rule nth_mem) (simp add: statuses_def)
  from assms(1) obtain c u where rows': "rows' = rows @ [c]" and c: "lr_learner_name c = hr_display_name h"
    "lr_department c = hr_department_code h" "lr_completion_status c \<in> set statuses" "lr_updated_at c = rt_isoformat R (?a + days 10)"
    "lr_assigned_at c = rt_isoformat R ?a" "lr_completed_at c \<in> {[], rt_isoformat R (?a + days (3 + int k))}"
    using status by (auto simp: lms_slot_def and_then_Inr Let_def)
  have "completed_early R c = Inr False"
    using c(5,6) iso by (auto simp: completed_early_def days_def)
  moreover have "\<exists>t. JAN_2026 \<le> t \<and> t < days 739981 \<and> lr_updated_at c = rt_isoformat R t" using late c(4) by blast
  ultimately have "clean_row R c" using c(1-3) assms(3) by (simp add: clean_row_def clean_person_def)
  with assms(2) rows' show ?thesis by simp
qed

lemma clean_base:
  assumes "lms_base R preset hris truth courses = Inr rows" and "\<forall>h \<in> set hris. clean_person R h" and "iso_ok R"
    and "dp_participations_per_person preset \<le> 1000"
  shows "\<forall>r \<in> set rows. clean_row R r"
proof (rule res_fold_inv [where I = "\<lambda>rows. \<forall>r \<in> set rows. clean_row R r", OF assms(1) [unfolded lms_base_def]])
  fix item s s' assume item: "item \<in> set (enumerate 0 hris)" and s: "\<forall>r \<in> set s. clean_row R r"
    and run: "lms_person R preset truth courses item s = Inr s'"
  obtain i h where ih: "item = (i, h)" by (cases item)
  then have h: "clean_person R h" using item assms(2) by (auto simp: in_set_enumerate_eq)
  from run obtain t where run: "res_fold (lms_slot R courses i h t) [0..<dp_participations_per_person preset] s = Inr s'"
    by (auto simp: ih lms_person_def and_then_Inr)
  show "\<forall>r \<in> set s'. clean_row R r"
    by (rule res_fold_inv [where I = "\<lambda>rows. \<forall>r \<in> set rows. clean_row R r", OF run s])
      (use clean_slot [OF _ _ h assms(3)] assms(4) in auto)
qed simp

section \<open>Loops that mark\<close>

lemma kept_map:
  assumes "res_fold (\<lambda>p. change_at p (f p)) ps xs = Inr ys" and "\<And>p x. v (f p x) = v x"
  shows "map v ys = map v xs"
  using assms(1)
proof (induction ps arbitrary: xs)
  case (Cons p ps)
  then obtain zs where zs: "change_at p (f p) xs = Inr zs" "res_fold (\<lambda>p. change_at p (f p)) ps zs = Inr ys"
    by (auto split: sum.splits)
  have "map v zs = map v xs"
    using zs(1) assms(2) by (auto simp: change_at_def map_update list_update_same_conv split: if_splits)
  with Cons.IH [OF zs(2)] show ?case by simp
qed simp

lemma count_map: "length (filter P xs) = length (filter id (map P xs))"
  by (simp add: filter_map comp_def)

lemma fold_unmarks:
  assumes "res_fold (\<lambda>p. change_at p (f p)) ps xs = Inr ys" and "\<And>p x. \<not> P (f p x)"
  shows "length (filter P ys) \<le> length (filter P xs) \<and> length (filter P xs) \<le> length (filter P ys) + length ps"
  using assms(1)
proof (induction ps arbitrary: xs)
  case (Cons p ps)
  then obtain zs where zs: "change_at p (f p) xs = Inr zs" "res_fold (\<lambda>p. change_at p (f p)) ps zs = Inr ys"
    by (auto split: sum.splits)
  from zs(1) have p: "p < length xs" "zs = xs[p := f p (xs ! p)]" by (auto simp: change_at_def split: if_splits)
  have "length (filter P zs) \<le> length (filter P xs) \<and> length (filter P xs) \<le> length (filter P zs) + 1"
    using assms(2) unfolding p(2) upd_conv_take_nth_drop [OF p(1)]
    by (subst (2 3) id_take_nth_drop [OF p(1)]) auto
  with Cons.IH [OF zs(2)] show ?case by simp
qed simp

text \<open>A loop that marks one defect, and does not touch those outside of \<open>E\<close>.\<close>

lemma fold_marks:
  assumes run: "res_fold (\<lambda>p. change_at p (f p)) ps rows = Inr rows'" and ps: "distinct ps" "set ps \<subseteq> {..<length rows}"
    and none: "marks R d0 rows = 0" and marking: "\<And>p x. x \<in> set rows \<Longrightarrow> marked R d0 (f p x)"
    and others: "\<And>d p x. d \<noteq> d0 \<Longrightarrow> d \<notin> E \<Longrightarrow> marked R d (f p x) = marked R d x"
  shows "marks R d0 rows' = length ps" and "d \<noteq> d0 \<Longrightarrow> d \<notin> E \<Longrightarrow> marks R d rows' = marks R d rows"
proof -
  show "marks R d0 rows' = length ps"
    unfolding marks_def by (rule marked_count [OF run ps]) (use none marking in \<open>auto simp: no_marks\<close>)
  show "marks R d rows' = marks R d rows" if "d \<noteq> d0" "d \<notin> E"
    unfolding marks_def count_map [of "marked R d"]
    using kept_map [OF run, of "marked R d"] others [OF that] by simp
qed

lemma drawn_marks:
  assumes run: "for_sample G (length rows) k body (rows, g) = Inr (rows', g')" and G: "draws_ok G"
    and body: "\<And>p s s'. body p s = Inr s' \<Longrightarrow> change_at p (f p) s = Inr s'"
    and none: "marks R d0 rows = 0" and marking: "\<And>p x. x \<in> set rows \<Longrightarrow> marked R d0 (f p x)"
    and others: "\<And>d p x. d \<noteq> d0 \<Longrightarrow> d \<notin> E \<Longrightarrow> marked R d (f p x) = marked R d x"
  obtains ps where "res_fold (\<lambda>p. change_at p (f p)) ps rows = Inr rows'" "length ps = k" "marks R d0 rows' = k"
    "\<And>d. d \<noteq> d0 \<Longrightarrow> d \<notin> E \<Longrightarrow> marks R d rows' = marks R d rows"
proof -
  obtain ps where ps: "res_fold body ps rows = Inr rows'" "length ps = k" "distinct ps" "set ps \<subseteq> {..<length rows}"
    by (rule for_sample_Inr [OF run G])
  have "res_fold body qs s = Inr s' \<Longrightarrow> res_fold (\<lambda>p. change_at p (f p)) qs s = Inr s'" for qs s s'
    by (induction qs arbitrary: s) (auto dest!: body split: sum.splits)
  then have closed: "res_fold (\<lambda>p. change_at p (f p)) ps rows = Inr rows'" using ps(1) by blast
  from fold_marks [OF closed ps(3,4) none marking others] ps(2) that [OF closed ps(2)] show thesis by auto
qed

lemma count_dup:
  assumes "res_fold (add_duplicate m) ps (rows @ new, truth) = Inr (rows', truth')" and "\<forall>p \<in> set ps. p * m < length rows"
  shows "marks R d rows' = marks R d (rows @ new) + length (filter (\<lambda>p. marked R d (rows ! (p * m))) ps)"
  using assms
proof (induction ps arbitrary: new truth)
  case (Cons p ps)
  let ?c = "(rows ! (p * m))\<lparr>lr_lms_user_id := duplicate_code p, lr_assignment_id := ''DUP-'' @ lr_assignment_id (rows ! (p * m))\<rparr>"
  from Cons.prems obtain st where st: "add_duplicate m p (rows @ new, truth) = Inr st" "res_fold (add_duplicate m) ps st = Inr (rows', truth')"
    by (auto split: sum.splits)
  from st(1) Cons.prems(2) obtain truth1 where "st = (rows @ (new @ [?c]), truth1)"
    by (auto simp: add_duplicate_def and_then_Inr item_at_def nth_append)
  with st(2) have step: "res_fold (add_duplicate m) ps (rows @ (new @ [?c]), truth1) = Inr (rows', truth')" by simp
  have "marked R d ?c = marked R d (rows ! (p * m))"
    by (cases d) (simp_all add: completed_early_def)
  with Cons.IH [OF step] Cons.prems(2) show ?case by (simp add: marks_def)
qed simp

section \<open>The loops of the participations\<close>

lemma varied_marks:
  assumes run: "for_sample G people k (vary_name R m) (rows, g) = Inr (rows', g')" and G: "draws_ok G"
    and len: "length rows = people * m" and m: "2 \<le> m" and clean: "\<forall>r \<in> set rows. clean_row R r" and R: "texts_ok R"
  shows "marks R Spaced rows' = k" and "d \<noteq> Spaced \<Longrightarrow> marks R d rows' = 0"
    and "rows \<noteq> [] \<Longrightarrow> \<not> marked R Spaced (rows' ! (length rows - 1))"
    and "map lr_assigned_at rows' = map lr_assigned_at rows"
    and "\<forall>r \<in> set rows'. \<not> marked R Formula_Text r"
proof -
  let ?f = "\<lambda>p. lr_learner_name_update (\<lambda>t. rt_upper R (replace_space ''  '' t))"
  obtain ps where ps: "res_fold (vary_name R m) ps rows = Inr rows'" "length ps = k" "distinct ps" "set ps \<subseteq> {..<people}"
    by (rule for_sample_Inr [OF run G])
  let ?qs = "map (\<lambda>p. p * m) ps"
  have "res_fold (vary_name R m) ps s = res_fold (\<lambda>p. change_at p (?f p)) (map (\<lambda>p. p * m) ps) s" for ps s
    by (induction ps arbitrary: s) (simp_all add: vary_name_def cong: sum.case_cong)
  with ps(1) have closed: "res_fold (\<lambda>p. change_at p (?f p)) ?qs rows = Inr rows'" by simp
  have qs: "distinct ?qs" "set ?qs \<subseteq> {..<length rows}"
    using ps(3,4) m len by (auto simp: distinct_map inj_on_def)
  have none: "marks R d rows = 0" for d by (rule clean_marks [OF R clean])
  have varied: "marked R Spaced (?f p x)" "\<not> marked R Formula_Text (?f p x)" if "x \<in> set rows" for p x
    using varied_full_name [OF R] that clean by (auto simp: clean_row_def)
  have rows': "rows' = map (\<lambda>i. if i \<in> set ?qs then ?f i (rows ! i) else rows ! i) [0..<length rows]"
    using closed res_fold_change [OF qs, of ?f] by simp
  show "marks R Spaced rows' = k"
    using fold_marks(1) [OF closed qs none varied(1), of "UNIV"] ps(2) by simp
  show formula: "\<forall>r \<in> set rows'. \<not> marked R Formula_Text r"
    using varied(2) clean_unmarked [OF R] clean by (auto simp: rows' simp del: marked.simps)
  show "marks R d rows' = 0" if "d \<noteq> Spaced"
  proof (cases "d = Formula_Text")
    case True
    with formula show ?thesis by (simp add: no_marks)
  next
    case False
    have same: "marked R e (?f p x) = marked R e x" if "e \<noteq> Spaced" "e \<notin> {Formula_Text}" for e p x
      using that by (cases e) (auto simp: completed_early_def)
    have "marks R d rows' = marks R d rows"
      by (rule fold_marks(2) [OF closed qs none varied(1), where E = "{Formula_Text}"]) (use same that False in auto)
    with none show ?thesis by simp
  qed
  show "map lr_assigned_at rows' = map lr_assigned_at rows" by (rule kept_map [OF closed]) simp
  assume "rows \<noteq> []"
  have "length rows - 1 \<notin> set ?qs"
  proof
    assume "length rows - 1 \<in> set ?qs"
    then obtain p where "length rows - 1 = p * m" by auto
    with \<open>rows \<noteq> []\<close> have "people * m = p * m + 1" using len by (cases rows) auto
    then have "m dvd p * m + 1" by (metis dvd_triv_right)
    with m show False using dvd_add_right_iff [of m "p * m" 1] by simp
  qed
  with \<open>rows \<noteq> []\<close> have "rows' ! (length rows - 1) = last rows" by (simp add: rows' last_conv_nth)
  with clean_unmarked [OF R, of "last rows" Spaced] clean \<open>rows \<noteq> []\<close>
  show "\<not> marked R Spaced (rows' ! (length rows - 1))" by simp
qed

text \<open>The five loops that draw rows, and the row with the formula.\<close>

definition completion_broken :: "runtime \<Rightarrow> lms_row \<Rightarrow> lms_row" where
  "completion_broken R r = r\<lparr>lr_completed_at :=
       rt_isoformat R ((case from_iso R (lr_assigned_at r) of Inl _ \<Rightarrow> 0 | Inr t \<Rightarrow> t) - days 2),
     lr_completion_status := ''completed''\<rparr>"

lemma break_completion_change: "break_completion R p rows = Inr rows' \<Longrightarrow> change_at p (completion_broken R) rows = Inr rows'"
  by (auto simp: break_completion_def and_then_Inr item_at_def change_at_def completion_broken_def split: if_splits)

lemma completion_broken_early:
  assumes "iso_ok R" and "texts_ok R" and "from_iso R (lr_assigned_at r) = Inr t" and "time_ok t"
  shows "marked R Early (completion_broken R r)"
proof -
  have "from_iso R (rt_isoformat R (t - days 2)) = Inr (t - days 2)"
    using assms(4) by (intro from_iso_time [OF assms(1)]) (auto simp: time_ok_def days_def)
  moreover have "rt_isoformat R (t - days 2) \<noteq> []"
    using assms(2,4) by (auto simp: texts_ok_def time_ok_def days_def)
  ultimately show ?thesis using assms(3) by (simp add: completion_broken_def completed_early_def) (simp add: days_def)
qed

lemma formula_marks:
  assumes run: "formula_text rows = Inr rows'" and none: "marks R Formula_Text rows = 0" and unspaced: "\<not> marked R Spaced (last rows)"
  shows "marks R Formula_Text rows' = 1" and "d \<noteq> Formula_Text \<Longrightarrow> marks R d rows' = marks R d rows"
    and "length rows' = length rows" and "i < length rows - 1 \<Longrightarrow> rows' ! i = rows ! i"
proof -
  let ?f = "lr_learner_name_update (\<lambda>_. ''=2+2 SYNTHETIC FORMULA-LIKE TEXT'')"
  obtain xs x where rows: "rows = xs @ [x]" using run by (cases rows rule: rev_cases) (auto simp: formula_text_def)
  with run have rows': "rows' = xs @ [?f x]" by (simp add: formula_text_def change_at_def)
  show "length rows' = length rows" "i < length rows - 1 \<Longrightarrow> rows' ! i = rows ! i" by (simp_all add: rows rows' nth_append)
  have "marked R Formula_Text (?f x)" by simp
  moreover have "filter (marked R Formula_Text) xs = []"
    using none by (simp add: no_marks rows filter_empty_conv del: marked.simps)
  ultimately show "marks R Formula_Text rows' = 1" by (simp add: marks_def rows' del: marked.simps)
  have "\<not> marked R Spaced (?f x)" "\<not> marked R Spaced x" using unspaced by (simp_all add: rows)
  moreover have "marked R d (?f x) = marked R d x" if "d \<noteq> Formula_Text" "d \<noteq> Spaced" for d
    using that by (cases d) (auto simp: completed_early_def)
  ultimately show "marks R d rows' = marks R d rows" if "d \<noteq> Formula_Text"
    using that by (cases "d = Spaced") (simp_all add: marks_def rows rows' del: marked.simps)
qed

text \<open>A loop over the rows that leaves names and assignments alone.\<close>

lemma row_step:
  assumes "for_sample G (length rows) k body (rows, g) = Inr (rows', g')" and "draws_ok G"
    and "\<And>p s s'. body p s = Inr s' \<Longrightarrow> change_at p f s = Inr s'"
    and "marks R d0 rows = 0" and "\<And>x. x \<in> set rows \<Longrightarrow> marked R d0 (f x)"
    and "\<And>d x. d \<noteq> d0 \<Longrightarrow> d \<notin> E \<Longrightarrow> marked R d (f x) = marked R d x"
    and "\<And>x. (lr_learner_name (f x), lr_assigned_at (f x)) = (lr_learner_name x, lr_assigned_at x)"
  shows "marks R d0 rows' = k" and "\<And>d. d \<noteq> d0 \<Longrightarrow> d \<notin> E \<Longrightarrow> marks R d rows' = marks R d rows"
    and "map lr_learner_name rows' = map lr_learner_name rows" and "map lr_assigned_at rows' = map lr_assigned_at rows"
    and "length rows' = length rows"
    and "(\<And>x. \<not> marked R d (f x)) \<Longrightarrow> marks R d rows' \<le> marks R d rows \<and> marks R d rows \<le> marks R d rows' + k"
proof -
  obtain ps where ps: "res_fold (\<lambda>p. change_at p f) ps rows = Inr rows'" "length ps = k" and m: "marks R d0 rows' = k"
    "\<And>d. d \<noteq> d0 \<Longrightarrow> d \<notin> E \<Longrightarrow> marks R d rows' = marks R d rows"
    by (rule drawn_marks [where f = "\<lambda>_. f", OF assms(1-6)]) blast+
  show "marks R d0 rows' = k" "\<And>d. d \<noteq> d0 \<Longrightarrow> d \<notin> E \<Longrightarrow> marks R d rows' = marks R d rows" by (fact m)+
  show n: "map lr_learner_name rows' = map lr_learner_name rows" and "map lr_assigned_at rows' = map lr_assigned_at rows"
    using assms(7) by (auto intro!: kept_map [OF ps(1)])
  from n show "length rows' = length rows" by (metis length_map)
  assume "\<And>x. \<not> marked R d (f x)"
  then show "marks R d rows' \<le> marks R d rows \<and> marks R d rows \<le> marks R d rows' + k"
    using fold_unmarks [OF ps(1), of "marked R d"] ps(2) by (simp add: marks_def)
qed

text \<open>The counts of the six marks, under the numbers \<open>k\<close> the loops draw.\<close>

definition marks_ok :: "runtime \<Rightarrow> dataset_preset \<Rightarrow> lms_row list \<Rightarrow> bool" where
  "marks_ok R preset rows =
     (let people = dp_people preset; n = people * dp_participations_per_person preset; rate = dp_defect_rate preset;
          dup = defects people (dp_duplicate_rate preset) 1 in
      defects people rate 1 \<le> marks R Spaced rows \<and> marks R Spaced rows \<le> defects people rate 1 + dup
      \<and> defects n rate 4 - defects n rate 5 \<le> marks R Odd_Status rows \<and> marks R Odd_Status rows \<le> defects n rate 4 + dup
      \<and> defects n rate 5 \<le> marks R Early rows \<and> marks R Early rows \<le> defects n rate 5 + dup
      \<and> defects people rate 3 \<le> marks R Odd_Unit rows \<and> marks R Odd_Unit rows \<le> defects people rate 3 + dup
      \<and> defects people rate 4 \<le> marks R Late rows \<and> marks R Late rows \<le> defects people rate 4 + dup
      \<and> marks R Formula_Text rows = 1)"

lemma damaged_marks:
  assumes G: "draws_ok G" and I: "iso_ok R" and R: "texts_ok R" and n: "length r0 = people * m" "0 < people" "2 \<le> m"
    and clean: "\<forall>r \<in> set r0. clean_row R r" and times: "\<forall>r \<in> set r0. times_ok R r"
    and s1: "for_sample G people k1 (vary_name R m) (r0, g) = Inr (r1, g1)"
    and s2: "for_sample G (length r1) k2 break_status (r1, g1) = Inr (r2, g2)"
    and s3: "for_sample G (length r2) k3 (break_completion R) (r2, g2) = Inr (r3, g3)"
    and s4: "for_sample G (length r3) k4 break_department (r3, g3) = Inr (r4, g4)"
    and s5: "for_sample G (length r4) k5 (make_late R) (r4, g4) = Inr (r5, g5)"
    and s6: "formula_text r5 = Inr r6"
  shows "marks R Spaced r6 = k1" "k2 - k3 \<le> marks R Odd_Status r6" "marks R Odd_Status r6 \<le> k2" "marks R Early r6 = k3"
    "marks R Odd_Unit r6 = k4" "marks R Late r6 = k5" "marks R Formula_Text r6 = 1"
    "length r6 = people * m" "i < people * m - 1 \<Longrightarrow> \<not> marked R Formula_Text (r6 ! i)" "length r1 = people * m" "length r2 = people * m"
proof -
  have late: "starts_with (rt_isoformat R LATE_2027) ''2027-''"
    using R by (simp add: texts_ok_def LATE_2027_def days_def)
  note m1 = varied_marks [OF s1 G n(1,3) clean R]
  have "r0 \<noteq> []" using n by auto
  with m1 have last1: "\<not> marked R Spaced (r1 ! (length r0 - 1))" by blast
  have l1: "length r1 = length r0" using m1(4) by (metis length_map)
  let ?status = "\<lambda>x. x\<lparr>lr_completion_status := ''done-ish''\<rparr>" and ?unit = "\<lambda>x. x\<lparr>lr_department := ''CONFLICTING_UNIT''\<rparr>"
    and ?late = "\<lambda>x. x\<lparr>lr_updated_at := rt_isoformat R LATE_2027\<rparr>"
  have bodies: "\<And>p s s'. break_status p s = Inr s' \<Longrightarrow> change_at p ?status s = Inr s'"
    "\<And>p s s'. break_department p s = Inr s' \<Longrightarrow> change_at p ?unit s = Inr s'"
    "\<And>p s s'. make_late R p s = Inr s' \<Longrightarrow> change_at p ?late s = Inr s'"
    by (simp_all add: break_status_def break_department_def make_late_def)
  have sets: "\<And>x. marked R Odd_Status (?status x)" "\<And>x. marked R Odd_Unit (?unit x)" "\<And>x. marked R Late (?late x)"
    using late by simp_all
  have others: "\<And>d x. d \<noteq> Odd_Status \<Longrightarrow> d \<notin> {} \<Longrightarrow> marked R d (?status x) = marked R d x"
    "\<And>d x. d \<noteq> Early \<Longrightarrow> d \<notin> {Odd_Status} \<Longrightarrow> marked R d (completion_broken R x) = marked R d x"
    "\<And>d x. d \<noteq> Odd_Unit \<Longrightarrow> d \<notin> {} \<Longrightarrow> marked R d (?unit x) = marked R d x"
    "\<And>d x. d \<noteq> Late \<Longrightarrow> d \<notin> {} \<Longrightarrow> marked R d (?late x) = marked R d x"
    by (rename_tac d x; case_tac d; simp add: completed_early_def completion_broken_def)+
  have kept: "(lr_learner_name (?status x), lr_assigned_at (?status x)) = (lr_learner_name x, lr_assigned_at x)"
    "(lr_learner_name (?unit x), lr_assigned_at (?unit x)) = (lr_learner_name x, lr_assigned_at x)"
    "(lr_learner_name (?late x), lr_assigned_at (?late x)) = (lr_learner_name x, lr_assigned_at x)"
    "(lr_learner_name (completion_broken R x), lr_assigned_at (completion_broken R x)) = (lr_learner_name x, lr_assigned_at x)" for x
    by (simp_all add: completion_broken_def)
  note m2 = row_step [where E = "{}", OF s2 G bodies(1) m1(2) sets(1) others(1) kept(1), simplified]
  have broken: "marked R Early (completion_broken R x)" if "x \<in> set r2" for x
  proof -
    have "lr_assigned_at x \<in> set (map lr_assigned_at r0)" using that m2(4) m1(4) by (metis image_eqI set_map)
    with times obtain t where "from_iso R (lr_assigned_at x) = Inr t" "time_ok t" by (auto simp: times_ok_def)
    then show ?thesis by (rule completion_broken_early [OF I R])
  qed
  have none3: "marks R Early r2 = 0" using m2(2) [of Early] m1(2) [of Early] by simp
  note m3 = row_step [where E = "{Odd_Status}", OF s3 G break_completion_change none3 broken others(2) kept(4)]
  have status3: "marks R Odd_Status r3 \<le> k2 \<and> k2 \<le> marks R Odd_Status r3 + k3"
    using m3(6) [of Odd_Status] m2(1) by (simp add: completion_broken_def)
  have none4: "marks R Odd_Unit r3 = 0" using m3(2) [of Odd_Unit] m2(2) [of Odd_Unit] m1(2) [of Odd_Unit] by simp
  note m4 = row_step [where E = "{}", OF s4 G bodies(2) none4 sets(2) others(3) kept(2), simplified]
  have none5: "marks R Late r4 = 0" using m4(2) [of Late] m3(2) [of Late] m2(2) [of Late] m1(2) [of Late] by simp
  note m5 = row_step [where E = "{}", OF s5 G bodies(3) none5 sets(3) others(4) kept(3), simplified]
  have len5: "length r5 = length r0" using m5(5) m4(5) m3(5) m2(5) l1 by simp
  have "lr_learner_name (last r5) = map lr_learner_name r5 ! (length r0 - 1)" using len5 \<open>r0 \<noteq> []\<close>
    by (metis One_nat_def diff_less last_conv_nth length_greater_0_conv lessI nth_map)
  also have "\<dots> = lr_learner_name (r1 ! (length r0 - 1))" using m5(3) m4(3) m3(3) m2(3) l1 \<open>r0 \<noteq> []\<close> by simp
  finally have unspaced: "\<not> marked R Spaced (last r5)" using last1 by simp
  have none6: "marks R Formula_Text r5 = 0" using m1(2) [of Formula_Text] m2(2) m3(2) m4(2) m5(2) by simp
  note m6 = formula_marks [OF s6 none6 unspaced]
  show "marks R Spaced r6 = k1" "k2 - k3 \<le> marks R Odd_Status r6" "marks R Odd_Status r6 \<le> k2" "marks R Early r6 = k3"
    "marks R Odd_Unit r6 = k4" "marks R Late r6 = k5" "marks R Formula_Text r6 = 1"
    using m6(1,2) m5(1,2) m4(1,2) m3(1,2) m2(1,2) m1(1) status3 by auto
  show "length r6 = people * m" "length r1 = people * m" "length r2 = people * m" using m6(3) len5 l1 m2(5) n(1) by simp_all
  show "\<not> marked R Formula_Text (r6 ! i)" if "i < people * m - 1"
    using that none6 m6(4) [of i] len5 n(1) by (simp add: no_marks del: marked.simps)
qed

lemma lms_marks:
  fixes seed :: int
  assumes P: "preset_ok preset" "2 \<le> dp_participations_per_person preset" and G: "draws_ok G" and I: "iso_ok R" and R: "texts_ok R"
    and "courses \<noteq> []" and hris: "length hris = dp_people preset" "\<forall>h \<in> set hris. clean_person R h"
    and run: "lms_rows R G preset hris (map (truth_person R seed) [0..<dp_people preset]) courses g = Inr (rows', truth', g')"
  shows "marks_ok R preset rows'"
proof -
  let ?n = "dp_people preset" and ?m = "dp_participations_per_person preset" and ?q = "dp_defect_rate preset"
  let ?k = "defects ?n (dp_duplicate_rate preset) 1" and ?t = "map (truth_person R seed) [0..<?n]"
  have m: "0 < ?m" "?m \<le> 1000" "0 < ?n" using P by (auto simp: preset_ok_def)
  obtain r0 where base: "lms_base R preset hris ?t courses = Inr r0" and r0: "rows_ok R preset r0"
    using lms_people [OF I assms(6) refl m(2,1), of 0 hris ?t "[]"] hris(1)
    by (auto simp: truth_person_def lms_base_def rows_ok_def)
  from run obtain r1 g1 r2 g2 r3 g3 r4 g4 r5 g5 r6 where
    s1: "for_sample G ?n (defects ?n ?q 1) (vary_name R ?m) (r0, g) = Inr (r1, g1)"
    and s2: "for_sample G (length r1) (defects (length r1) ?q 4) break_status (r1, g1) = Inr (r2, g2)"
    and s3: "for_sample G (length r2) (defects (length r2) ?q 5) (break_completion R) (r2, g2) = Inr (r3, g3)"
    and s4: "for_sample G (length r3) (defects ?n ?q 3) break_department (r3, g3) = Inr (r4, g4)"
    and s5: "for_sample G (length r4) (defects ?n ?q 4) (make_late R) (r4, g4) = Inr (r5, g5)"
    and s6: "formula_text r5 = Inr r6"
    and s7: "for_sample G ?n ?k (add_duplicate ?m) ((r6, ?t), g5) = Inr ((rows', truth'), g')"
    unfolding lms_rows_def Let_def base and_then_simps by (auto simp: and_then_Inr)
  have len: "length r0 = ?n * ?m" and times: "\<forall>r \<in> set r0. times_ok R r"
    using r0 by (auto simp: rows_ok_def in_set_conv_nth)
  note damaged = damaged_marks [OF G I R len m(3) P(2) clean_base [OF base hris(2) I m(2)] times s1 s2 s3 s4 s5 s6]
  obtain ps where ps: "res_fold (add_duplicate ?m) ps (r6 @ [], ?t) = Inr (rows', truth')" "length ps = ?k" "set ps \<subseteq> {..<?n}"
    using for_sample_Inr [OF s7 G] by (metis append_Nil2)
  have near: "p * ?m < ?n * ?m - 1" if "p \<in> set ps" for p
  proof -
    from that ps(3) have "p + 1 \<le> ?n" by auto
    then have "(p + 1) * ?m \<le> ?n * ?m" by (rule mult_le_mono1)
    with P(2) show ?thesis by simp
  qed
  have "\<forall>p \<in> set ps. p * ?m < length r6" using near damaged(8) by (metis diff_le_self order_less_le_trans)
  note more = count_dup [OF ps(1) this, where R = R, unfolded append_Nil2]
  have at_most: "length (filter Q ps) \<le> ?k" for Q using ps(2) by (metis length_filter_le)
  have no_more: "filter (\<lambda>p. marked R Formula_Text (r6 ! (p * ?m))) ps = []"
    using damaged(9) near by (simp add: filter_empty_conv del: marked.simps)
  note counts = damaged(1-7) [unfolded damaged(10,11)]
  show ?thesis
    unfolding marks_ok_def Let_def more no_more
    using counts at_most by (simp add: add_increasing2 add_mono del: marked.simps)
qed

section \<open>People and credentials\<close>

lemma people_clean:
  assumes "person_rows R G seed preset g = Inr (hris, truth, g')" and "draws_ok G"
  shows "\<forall>h \<in> set hris. clean_person R h"
proof -
  let ?h = "map (hris_person R) [0..<dp_people preset]"
  from assms(1) obtain ps where ps: "res_fold (\<lambda>p. change_at p (hr_employee_id_update (\<lambda>_. []))) ps ?h = Inr hris"
    by (auto simp: person_rows_def Let_def and_then_Inr elim!: for_sample_Inr [OF _ assms(2)])
  have "clean_person R (hris_person R i)" for i
  proof -
    have "FIRST_NAMES ! (i mod length FIRST_NAMES) \<in> set FIRST_NAMES" "LAST_NAMES ! ((i * 7) mod length LAST_NAMES) \<in> set LAST_NAMES"
      "DEPARTMENTS ! (i mod length DEPARTMENTS) \<in> set DEPARTMENTS"
      by (rule nth_mem, simp add: FIRST_NAMES_def LAST_NAMES_def DEPARTMENTS_def)+
    then show ?thesis unfolding clean_person_def hris_person_def full_name_def unit_code_def Let_def by auto
  qed
  then have "list_all (\<lambda>(a, b). full_name a \<and> unit_code R b) (map (\<lambda>h. (hr_display_name h, hr_department_code h)) ?h)"
    by (simp add: list_all_iff clean_person_def)
  moreover have "map (\<lambda>h. (hr_display_name h, hr_department_code h)) hris = map (\<lambda>h. (hr_display_name h, hr_department_code h)) ?h"
    by (rule kept_map [OF ps]) simp
  ultimately have "list_all (\<lambda>(a, b). full_name a \<and> unit_code R b) (map (\<lambda>h. (hr_display_name h, hr_department_code h)) hris)" by simp
  then show ?thesis by (simp add: list_all_iff clean_person_def)
qed

text \<open>Person \<open>i\<close> is awarded a credential: every fourth course has one, and the score has to suffice.\<close>

definition awarded :: "nat \<Rightarrow> nat \<Rightarrow> bool" where
  "awarded courses i = (i mod courses mod 4 = 0 \<and> 75 \<le> 60 + i * 13 mod 41)"

lemma award_counts:
  assumes "res_fold (assessment_person R (course_rows R seed n)) (enumerate s truth) (as, cs) = Inr (as', cs')" and "0 < n"
  shows "length cs' = length cs + length (filter (awarded n) [s..<s + length truth])"
  using assms(1)
proof (induction truth arbitrary: s as cs)
  case (Cons t truth)
  have course: "cr_credential_code (course_rows R seed n ! (s mod n)) \<noteq> [] \<longleftrightarrow> s mod n mod 4 = 0"
    using assms(2) by (simp add: course_rows_def)
  have ne: "course_rows R seed n \<noteq> []" "length (course_rows R seed n) = n" using assms(2) by (auto simp: course_rows_def)
  from Cons.prems obtain as1 cs1 where step: "assessment_person R (course_rows R seed n) (s, t) (as, cs) = Inr (as1, cs1)"
    and rest: "res_fold (assessment_person R (course_rows R seed n)) (enumerate (Suc s) truth) (as1, cs1) = Inr (as', cs')"
    by (auto split: sum.splits)
  have "length cs1 = length cs + (if awarded n s then 1 else 0)"
    using step course unfolding assessment_person_def cycled_def Let_def ne(2) awarded_def by (auto simp: ne(1))
  moreover have "[s..<s + length (t # truth)] = s # [Suc s..<Suc s + length truth]"
    by (simp add: upt_conv_Cons del: upt_Suc)
  ultimately show ?case using Cons.IH [OF rest] by (simp del: upt_Suc)
qed simp

lemma awards_made:
  assumes "assessment_rows R truth (course_rows R seed n) = Inr (as, cs)" and "0 < n"
  shows "length cs = length (filter (awarded n) [0..<length truth])"
proof -
  from assms(1) obtain as' cs' where run: "res_fold (assessment_person R (course_rows R seed n)) (enumerate 0 truth) ([], []) = Inr (as', cs')"
    and moved: "(case cs' of [] \<Rightarrow> Inr (as', cs') | c # rest \<Rightarrow>
     (case find (\<lambda>item. ar_assessment_person_id item = wr_assessment_person_id c) as' of
        None \<Rightarrow> Inl (RuntimeError ''StopIteration'')
      | Some item \<Rightarrow> and_then (from_iso R (ar_assessed_at item)) (\<lambda>assessed_at.
          Inr (as', c\<lparr>wr_awarded_at := rt_isoformat R (assessed_at - days 1)\<rparr> # rest)))) = Inr (as, cs)"
    unfolding assessment_rows_def and_then_Inr by auto
  from moved have "length cs = length cs'" by (cases cs') (auto simp: and_then_Inr split: option.splits)
  with award_counts [OF run assms(2)] show ?thesis by simp
qed

text \<open>Both for a whole dataset.\<close>

lemma dataset_marks:
  assumes "dataset_rows R G preset seed = Inr r" and "preset_ok preset" and "2 \<le> dp_participations_per_person preset"
    and "draws_ok G" and "iso_ok R" and "texts_ok R"
  shows "marks_ok R preset (ds_lms r)"
    and "length (ds_credentials r) = length (filter (awarded (dp_courses preset)) [0..<length (ds_truth r)])"
proof -
  let ?c = "course_rows R seed (dp_courses preset)"
  have c: "?c \<noteq> []" "0 < dp_courses preset" using assms(2) by (auto simp: course_rows_def preset_ok_def)
  obtain hris g1 where people: "person_rows R G seed preset (rng_seed G seed) =
      Inr (hris, map (truth_person R seed) [0..<dp_people preset], g1)" "length hris = dp_people preset"
    by (rule person_rows_ok [OF assms(2,4)])
  from assms(1) people(1) obtain lms truth g2 as cs where
    lms: "lms_rows R G preset hris (map (truth_person R seed) [0..<dp_people preset]) ?c g1 = Inr (lms, truth, g2)"
    and as: "assessment_rows R truth ?c = Inr (as, cs)" and r: "ds_lms r = lms" "ds_credentials r = cs" "ds_truth r = truth"
    by (auto simp: dataset_rows_def and_then_Inr Let_def)
  show "marks_ok R preset (ds_lms r)"
    unfolding r by (rule lms_marks [OF assms(2-6) c(1) people(2) people_clean [OF people(1) assms(4)] lms])
  show "length (ds_credentials r) = length (filter (awarded (dp_courses preset)) [0..<length (ds_truth r)])"
    unfolding r by (rule awards_made [OF as c(2)])
qed

text \<open>The summary in terms of the marks: the value under a key is a number between two bounds.\<close>

definition recorded :: "pyrec \<Rightarrow> string \<Rightarrow> nat \<Rightarrow> nat \<Rightarrow> bool" where
  "recorded summary key low high = (\<exists>k. map_of summary key = Some (PInt (int k)) \<and> low \<le> k \<and> k \<le> high)"

lemma recorded_count: "map_of summary key = Some (count_if P xs) \<Longrightarrow> low \<le> length (filter P xs) \<Longrightarrow> length (filter P xs) \<le> high
    \<Longrightarrow> recorded summary key low high"
  by (simp add: recorded_def count_if_def)

lemma marks_counted:
  "length (filter (\<lambda>p. contains (lr_learner_name p) ''  '') rows) = marks R Spaced rows"
  "length (filter (\<lambda>p. lr_department p = ''CONFLICTING_UNIT'') rows) = marks R Odd_Unit rows"
  "length (filter (\<lambda>p. lr_completion_status p = ''done-ish'') rows) = marks R Odd_Status rows"
  "length (filter (\<lambda>p. completed_early R p = Inr True) rows) = marks R Early rows"
  "length (filter (\<lambda>p. starts_with (lr_updated_at p) ''2027-'') rows) = marks R Late rows"
  "length (filter (\<lambda>p. list_ex (starts_with (lr_learner_name p)) [''='', ''+'', ''-'', ''@'']) rows) = marks R Formula_Text rows"
  unfolding marks_def by (intro arg_cong [where f = length] filter_cong; simp)+

text \<open>The three presets have a second slot for each person, and somebody who is awarded a credential.\<close>

lemma presets_slots: "map_of PRESETS name = Some p \<Longrightarrow> 2 \<le> dp_participations_per_person p"
  by (auto simp: PRESETS_def split: if_splits)

lemma presets_award: "map_of PRESETS name = Some p \<Longrightarrow> \<exists>i < dp_people p. awarded (dp_courses p) i"
proof -
  assume *: "map_of PRESETS name = Some p"
  have "awarded 6 6" "awarded 18 8" "awarded 80 8" by (simp_all add: awarded_def)
  then have "awarded (dp_courses p) 6 \<or> awarded (dp_courses p) 8" "8 < dp_people p"
    using * by (auto simp: PRESETS_def split: if_splits)
  then show ?thesis by (meson less_trans numeral_less_iff semiring_norm(76,81,68,78))
qed

end
