(* ===== verification/Generator_Files.thy ===== *)
theory Generator_Files
  imports Generator
begin

text \<open>
  The files of the synthetic datasets: what JSON and CSV read back, the digests of
  the manifest and their verification, and the substitution that keeps the time of
  writing out of a workbook.
\<close>

section \<open>Reading back\<close>

text \<open>\<^verbatim>\<open>json.dumps(value, sort_keys=True)\<close> read by \<^verbatim>\<open>json.loads\<close>: the same value, its keys sorted.\<close>

fun json_sorted :: "pyval \<Rightarrow> pyval" where
  "json_sorted (PList xs) = PList (map json_sorted xs)"
| "json_sorted (PDict d) = PDict (sort_key fst (map (\<lambda>(k, v). (k, json_sorted v)) d))"
| "json_sorted v = v"

definition json_round_trip :: "codecs \<Rightarrow> pyval \<Rightarrow> bool" where
  "json_round_trip cd v = (cd_json_loads cd (cd_json_pretty cd v @ [CHR 0x0A]) = Inr (json_sorted v))"

definition csv_round_trip :: "dataset_writers \<Rightarrow> codecs \<Rightarrow> pyrec list \<Rightarrow> bool" where
  "csv_round_trip W cd rows = (cd_csv_dicts cd '','' ''utf-8'' (wt_csv W (fieldnames rows) rows) = Inr rows)"

lemma map_of_sort_key:
  assumes "distinct (map fst d)"
  shows "map_of (sort_key fst d) = map_of d"
proof -
  have "mset (map fst (sort_key fst d)) = mset (map fst d)" by simp
  with assms have "distinct (map fst (sort_key fst d))" by (metis mset_eq_imp_distinct_iff)
  with assms show ?thesis by (intro map_of_eqI) (auto simp: map_of_eq_Some_iff)
qed

lemma py_item_json_sorted:
  assumes "distinct (map fst d)" and "map_of d k = Some v"
  shows "py_item (json_sorted (PDict d)) k = Inr (json_sorted v)"
proof -
  let ?d = "map (\<lambda>(k, v). (k, json_sorted v)) d"
  have "map fst ?d = map fst d" by (induction d) auto
  moreover have "map_of ?d k = map_option json_sorted (map_of d k)" by (induction d) auto
  ultimately have "map_of (sort_key fst ?d) k = Some (json_sorted v)"
    using assms by (simp only: map_of_sort_key option.map)
  then show ?thesis by (simp only: py_item_def json_sorted.simps pyval.case option.case)
qed

lemma text_item_json_sorted:
  assumes "distinct (map fst d)" and "map_of d k = Some (PStr t)"
  shows "text_item (json_sorted (PDict d)) k = Inr t"
  using py_item_json_sorted [OF assms] by (simp add: text_item_def)

section \<open>Digests\<close>

lemma concat_read_blocks: "0 < n \<Longrightarrow> concat (read_blocks n s) = s"
proof (induction n s rule: read_blocks.induct)
  case (1 n s)
  then show ?case by (cases "s = []") (simp_all add: read_blocks.simps)
qed

text \<open>Reading in blocks does not change the digest.\<close>

lemma sha256_eq: "sha256 R fs path = (case fs path of None \<Rightarrow> Inl FileNotFoundError | Some c \<Rightarrow> Inr (rt_sha256 R c))"
  by (simp add: sha256_def concat_read_blocks BLOCK_def split: option.splits)

section \<open>The files of a dataset\<close>

definition dataset_paths :: "string \<Rightarrow> string list" where
  "dataset_paths dataset_root = map snd (sort_key fst (dataset_files dataset_root))"

lemma sorted_dataset_files:
  "sort_key fst (dataset_files d) =
     [(''assessment_results_xlsx'', d @ ''/assessment/assessment_results.xlsx''),
      (''credential_awards_parquet'', d @ ''/credential/credential_awards.parquet''),
      (''hris_employees_csv'', d @ ''/hris/employees.csv''),
      (''identity_truth_json'', d @ ''/truth/identity_truth.json''),
      (''lms_courses_csv'', d @ ''/lms/courses.csv''),
      (''lms_participation_json'', d @ ''/lms/participation.json'')]"
  by (simp add: dataset_files_def)

lemma dataset_paths_eq:
  "dataset_paths d = [d @ ''/assessment/assessment_results.xlsx'', d @ ''/credential/credential_awards.parquet'',
     d @ ''/hris/employees.csv'', d @ ''/truth/identity_truth.json'', d @ ''/lms/courses.csv'',
     d @ ''/lms/participation.json'']"
  by (simp add: dataset_paths_def sorted_dataset_files)

lemma write_rows_reads:
  assumes "write_rows cd W now d r fs = (Inr u, fs')"
  shows "p \<in> set (dataset_paths d) \<Longrightarrow> fs' p \<noteq> None"
    and "fs' (d @ ''/hris/employees.csv'') = Some (wt_csv W (fieldnames (map hris_dict (ds_hris r))) (map hris_dict (ds_hris r)))"
    and "fs' (d @ ''/lms/participation.json'') = Some (cd_json_pretty cd (PList (map PDict (map lms_dict (ds_lms r)))) @ [CHR 0x0A])"
    and "fs' (d @ ''/truth/identity_truth.json'') = Some (cd_json_pretty cd (PList (map PDict (map truth_dict (ds_truth r)))) @ [CHR 0x0A])"
  using assms
  by (auto simp: write_rows_def Let_def write_csv_def write_json_def write_parquet_def write_text_def
      write_xlsx_def and_then_Inr dataset_paths_eq split: sum.splits)

text \<open>One entry of the manifest for every file, with the digest of its content.\<close>

definition file_entry :: "runtime \<Rightarrow> string \<Rightarrow> files \<Rightarrow> string \<times> string \<Rightarrow> pyrec" where
  "file_entry R output_root fs item =
     [(''logical_name'', PStr (fst item)), (''path'', PStr (relative_to output_root (snd item))),
      (''sha256'', PStr (rt_sha256 R (the (fs (snd item))))), (''bytes'', PInt (int (length (the (fs (snd item))))))]"

lemma manifest_files_eq:
  assumes "\<And>x. x \<in> set items \<Longrightarrow> fs (snd x) \<noteq> None"
  shows "res_fold (manifest_file R output_root fs) items acc = Inr (acc @ map (file_entry R output_root fs) items)"
  using assms
proof (induction items arbitrary: acc)
  case Nil
  then show ?case by simp
next
  case (Cons x items)
  obtain c where "fs (snd x) = Some c" using Cons.prems [of x] by auto
  with Cons show ?case
    by (cases x) (simp add: manifest_file_def sha256_eq file_entry_def)
qed

lemma digests_match_iff:
  assumes "\<And>x. x \<in> set items \<Longrightarrow> \<exists>q. snd x = output_root @ ''/'' @ q"
  shows "digests_match R fs2 output_root (map (json_sorted \<circ> PDict \<circ> file_entry R output_root fs1) items) = Inr True \<longleftrightarrow>
    (\<forall>p \<in> snd ` set items. \<exists>c. fs2 p = Some c \<and> rt_sha256 R c = rt_sha256 R (the (fs1 p)))"
  using assms
proof (induction items)
  case Nil
  then show ?case by simp
next
  case (Cons x items)
  obtain q where q: "snd x = output_root @ ''/'' @ q" using Cons.prems [of x] by auto
  let ?e = "json_sorted (PDict (file_entry R output_root fs1 x))"
  have "text_item ?e ''path'' = Inr q"
    by (rule text_item_json_sorted) (simp_all add: file_entry_def q relative_to_def)
  moreover have "py_item ?e ''sha256'' = Inr (PStr (rt_sha256 R (the (fs1 (snd x)))))"
    by (subst py_item_json_sorted [where v = "PStr (rt_sha256 R (the (fs1 (snd x))))"])
      (simp_all add: file_entry_def)
  ultimately show ?case
    using Cons q by (auto simp: sha256_eq comp_def simp del: json_sorted.simps split: option.splits)
qed

lemma manifest_files_value:
  "py_item (json_sorted (PDict (manifest_dict name preset seed r summary entries))) ''files'' =
     Inr (PList (map (json_sorted \<circ> PDict) entries))"
  by (subst py_item_json_sorted [where v = "PList (map PDict entries)"]) (simp_all add: manifest_dict_def)

lemma write_manifest_reads:
  assumes "write_manifest R cd output_root preset_name preset seed r fs = (Inr m, fs')"
    and "d = output_root @ ''/'' @ preset_name"
    and "\<And>p. p \<in> set (dataset_paths d) \<Longrightarrow> fs p \<noteq> None"
  obtains summary where
    "defect_summary R (ds_hris r) (ds_truth r) (ds_lms r) (ds_assessments r) (ds_credentials r) = Inr summary"
    "m = manifest_dict preset_name preset seed r summary
           (map (file_entry R output_root fs) (sort_key fst (dataset_files d)))"
    "fs' = fs(dataset_manifest_path d \<mapsto> cd_json_pretty cd (PDict m) @ [CHR 0x0A])"
proof -
  have "res_fold (manifest_file R output_root fs) (sort_key fst (dataset_files d)) [] =
      Inr (map (file_entry R output_root fs) (sort_key fst (dataset_files d)))"
    by (subst manifest_files_eq) (use assms(3) in \<open>auto simp: dataset_paths_def\<close>)
  with assms(1,2) that show thesis
    by (auto simp: write_manifest_def Let_def and_then_Inr write_text_def split: sum.splits)
qed

lemma manifest_not_data: "p \<in> set (dataset_paths d) \<Longrightarrow> p \<noteq> dataset_manifest_path d"
  by (auto simp: dataset_paths_eq dataset_manifest_path_def)

lemma generate_dataset_cases:
  assumes "generate_dataset R cd W G now output_root preset_name seed fs = (Inr m, fs')"
  obtains preset r fs1 where "map_of PRESETS preset_name = Some preset" "dataset_rows R G preset seed = Inr r"
    "write_rows cd W now (output_root @ ''/'' @ preset_name) r fs = (Inr (), fs1)"
    "write_manifest R cd output_root preset_name preset seed r fs1 = (Inr m, fs')"
  using assms by (auto simp: generate_dataset_def split: option.splits sum.splits prod.splits)

lemma generate_dataset_rows:
  assumes "generate_dataset R cd W G now output_root preset_name seed fs = (Inr m, fs')"
  shows "\<exists>preset r fs1. map_of PRESETS preset_name = Some preset \<and> dataset_rows R G preset seed = Inr r
    \<and> write_rows cd W now (output_root @ ''/'' @ preset_name) r fs = (Inr (), fs1)
    \<and> (\<forall>p \<in> set (dataset_paths (output_root @ ''/'' @ preset_name)). fs' p = fs1 p \<and> fs1 p \<noteq> None)"
proof -
  let ?d = "output_root @ ''/'' @ preset_name"
  from assms obtain preset r fs1 where pre: "map_of PRESETS preset_name = Some preset" "dataset_rows R G preset seed = Inr r"
    and rows: "write_rows cd W now ?d r fs = (Inr (), fs1)"
    and man: "write_manifest R cd output_root preset_name preset seed r fs1 = (Inr m, fs')"
    by (rule generate_dataset_cases)
  have "fs' p = fs1 p" if "p \<in> set (dataset_paths ?d)" for p
    using write_manifest_reads [OF man refl write_rows_reads(1) [OF rows]] manifest_not_data [OF that] by fastforce
  with pre rows write_rows_reads(1) [OF rows] show ?thesis by blast
qed

lemma generate_dataset_files:
  assumes "generate_dataset R cd W G now output_root preset_name seed fs = (Inr m, fs')"
    and "d = output_root @ ''/'' @ preset_name" and "p \<in> set (dataset_paths d)"
  shows "fs' p \<noteq> None"
  using generate_dataset_rows [OF assms(1)] assms(2,3) by metis

lemma verify_manifest_iff:
  assumes gen: "generate_dataset R cd W G now output_root preset_name seed fs = (Inr m, fs')"
    and json: "json_round_trip cd (PDict m)"
    and d: "d = output_root @ ''/'' @ preset_name"
    and same: "fs2 (dataset_manifest_path d) = fs' (dataset_manifest_path d)"
  shows "verify_manifest R cd fs2 output_root preset_name = Inr True \<longleftrightarrow>
    (\<forall>p \<in> set (dataset_paths d). \<exists>c. fs2 p = Some c \<and> rt_sha256 R c = rt_sha256 R (the (fs' p)))"
proof -
  from gen obtain preset r fs1 where rows: "write_rows cd W now d r fs = (Inr (), fs1)"
    and man: "write_manifest R cd output_root preset_name preset seed r fs1 = (Inr m, fs')"
    using d by (auto elim: generate_dataset_cases)
  obtain summary where m: "m = manifest_dict preset_name preset seed r summary
        (map (file_entry R output_root fs1) (sort_key fst (dataset_files d)))"
    and fs': "fs' = fs1(dataset_manifest_path d \<mapsto> cd_json_pretty cd (PDict m) @ [CHR 0x0A])"
    using write_manifest_reads [OF man d write_rows_reads(1) [OF rows]] by blast
  have "json_file cd fs2 (dataset_manifest_path d) = Inr (json_sorted (PDict m))"
    using same json by (simp add: json_file_def read_file_def fs' json_round_trip_def del: json_sorted.simps)
  then have "verify_manifest R cd fs2 output_root preset_name =
      digests_match R fs2 output_root
        (map (json_sorted \<circ> PDict \<circ> file_entry R output_root fs1) (sort_key fst (dataset_files d)))"
    unfolding verify_manifest_def d [symmetric] m by (simp only: and_then_simps manifest_files_value)
      (simp add: py_iter_def comp_def del: json_sorted.simps)
  moreover have "\<exists>q. snd x = output_root @ ''/'' @ q" if "x \<in> set (sort_key fst (dataset_files d))" for x
    using that by (auto simp: dataset_files_def d)
  ultimately have "verify_manifest R cd fs2 output_root preset_name = Inr True \<longleftrightarrow>
      (\<forall>p \<in> set (dataset_paths d). \<exists>c. fs2 p = Some c \<and> rt_sha256 R c = rt_sha256 R (the (fs1 p)))"
    using digests_match_iff [of "sort_key fst (dataset_files d)" output_root R fs2 fs1]
    by (simp add: dataset_paths_def)
  with manifest_not_data show ?thesis by (auto simp: fs')
qed

section \<open>Independence of the time of writing\<close>

text \<open>
  The element that carries the time of modification in a workbook's properties, with the
  text before it, its attributes, the time and the text after it.
\<close>

definition core_xml :: "string \<Rightarrow> string \<Rightarrow> string \<Rightarrow> string \<Rightarrow> string" where
  "core_xml before attributes stamp after =
     before @ modified_open @ attributes @ ''>'' @ stamp @ modified_close @ after"

definition core_parts_ok :: "string \<Rightarrow> string \<Rightarrow> string \<Rightarrow> bool" where
  "core_parts_ok before attributes stamp \<longleftrightarrow>
     (\<forall>i < length before. \<not> starts_with (drop i (before @ modified_open)) modified_open)
     \<and> CHR ''>'' \<notin> set attributes \<and> CHR ''<'' \<notin> set stamp \<and> CHR 0x0A \<notin> set stamp"

lemma after_close_found:
  "CHR ''<'' \<notin> set stamp \<Longrightarrow> CHR 0x0A \<notin> set stamp \<Longrightarrow> after_close (stamp @ modified_close @ s) = Some s"
proof (induction stamp)
  case Nil
  have "after_close (modified_close @ s) = Some (drop (length modified_close) (modified_close @ s))"
    by (cases "modified_close @ s") (auto simp: modified_close_def)
  then show ?case by simp
next
  case (Cons c stamp)
  then have "\<not> starts_with (c # stamp @ modified_close @ s) modified_close"
    by (auto simp: modified_close_def)
  with Cons show ?case by auto
qed

lemma after_modified_found:
  assumes "CHR ''>'' \<notin> set attributes" and "CHR ''<'' \<notin> set stamp" and "CHR 0x0A \<notin> set stamp"
  shows "after_modified (modified_open @ attributes @ ''>'' @ stamp @ modified_close @ s) = Some s"
proof -
  have "dropWhile (\<lambda>c. c \<noteq> CHR ''>'') (attributes @ ''>'' @ stamp @ modified_close @ s) =
      CHR ''>'' # stamp @ modified_close @ s"
    using assms(1) by (induction attributes) auto
  then show ?thesis using after_close_found [OF assms(2,3), of s] by (simp add: after_modified_def)
qed

lemma starts_with_drop:
  assumes "i \<le> length before"
  shows "starts_with (drop i (before @ p @ s)) p \<longleftrightarrow> starts_with (drop i (before @ p)) p"
proof -
  have *: "starts_with (u @ s) p \<longleftrightarrow> starts_with u p" if "length p \<le> length u" for u
    using that by (induction u p rule: starts_with.induct) auto
  show ?thesis using assms * [of "drop i before @ p"] by simp
qed

lemma sub_modified_core:
  assumes "core_parts_ok before attributes stamp"
  shows "sub_modified (core_xml before attributes stamp after) = before @ modified_fixed @ sub_modified after"
  using assms
proof (induction before)
  case Nil
  then have "after_modified (core_xml [] attributes stamp after) = Some after"
    using after_modified_found [of attributes stamp after] by (simp add: core_xml_def core_parts_ok_def)
  then show ?case by (subst sub_modified.simps) simp
next
  case (Cons c before)
  let ?s = "core_xml before attributes stamp after"
  have "\<not> starts_with (drop 0 ((c # before) @ modified_open)) modified_open"
    using Cons.prems unfolding core_parts_ok_def by (metis length_greater_0_conv list.distinct(1))
  then have "\<not> starts_with (c # ?s) modified_open"
    using starts_with_drop [of 0 "c # before" modified_open "attributes @ ''>'' @ stamp @ modified_close @ after"]
    by (simp add: core_xml_def)
  then have "after_modified (c # ?s) = None" by (simp add: after_modified_def)
  then have "sub_modified (c # ?s) = c # sub_modified ?s" by (subst sub_modified.simps) simp
  moreover have "core_parts_ok before attributes stamp"
    using Cons.prems unfolding core_parts_ok_def by auto
  ultimately show ?case using Cons.IH by (simp add: core_xml_def)
qed

text \<open>Saving a workbook again changes nothing but the time of modification.\<close>

definition member_alike :: "string \<times> string \<Rightarrow> string \<times> string \<Rightarrow> bool" where
  "member_alike m m' = (fst m = fst m' \<and> (snd m = snd m' \<or> fst m = ''docProps/core.xml'' \<and>
     (\<exists>before attributes stamp stamp' after. core_parts_ok before attributes stamp \<and> core_parts_ok before attributes stamp'
        \<and> snd m = core_xml before attributes stamp after \<and> snd m' = core_xml before attributes stamp' after)))"

definition saves_alike :: "dataset_writers \<Rightarrow> bool" where
  "saves_alike W = (\<forall>created title table now now'.
     list_all2 member_alike (wt_workbook W created title table now) (wt_workbook W created title table now'))"

lemma sort_key_map_fst:
  assumes "\<And>x. fst (f x) = fst x"
  shows "map f (sort_key fst xs) = sort_key fst (map f xs)"
proof -
  have *: "map f (insort_key fst x ys) = insort_key fst (f x) (map f ys)" for x ys
    by (induction ys) (simp_all add: assms)
  show ?thesis by (induction xs) (simp_all add: *)
qed

lemma fix_member_alike: "member_alike m m' \<Longrightarrow> fix_member m = fix_member m'"
  by (auto simp: member_alike_def fix_member_def sub_modified_core)

lemma fixed_members_eq:
  assumes "saves_alike W"
  shows "map fix_member (sort_key fst (wt_workbook W created title table now)) =
    map fix_member (sort_key fst (wt_workbook W created title table now'))"
proof -
  have "list_all2 member_alike (wt_workbook W created title table now) (wt_workbook W created title table now')"
    using assms by (simp add: saves_alike_def)
  then have "map fix_member (wt_workbook W created title table now) = map fix_member (wt_workbook W created title table now')"
    by (induction rule: list_all2_induct) (auto simp: fix_member_alike)
  then show ?thesis by (simp add: sort_key_map_fst fix_member_def)
qed

lemma write_xlsx_now: "saves_alike W \<Longrightarrow> write_xlsx W now path rows fs = write_xlsx W now' path rows fs"
  unfolding write_xlsx_def by (simp add: fixed_members_eq [of W _ _ _ now now'])

text \<open>The files of a dataset are a function of its rows.\<close>

lemma write_rows_same:
  assumes "write_rows cd W now d r fs = (Inr u, fs1)" and "saves_alike W"
  shows "\<exists>fs2. write_rows cd W now' d r gs = (Inr (), fs2) \<and> (\<forall>p \<in> set (dataset_paths d). fs1 p = fs2 p)"
  using assms(1) write_xlsx_now [OF assms(2), of now] 
  by (auto simp: write_rows_def Let_def write_csv_def write_json_def write_parquet_def write_text_def
      write_xlsx_def and_then_Inr dataset_paths_eq fixed_members_eq [OF assms(2), of _ _ _ now now']
      split: sum.splits)

lemma generate_same:
  assumes gen: "generate_dataset R cd W G now output_root preset_name seed fs = (Inr m, fs1)"
    and alike: "saves_alike W" and d: "d = output_root @ ''/'' @ preset_name"
  shows "\<exists>fs2. generate_dataset R cd W G now' output_root preset_name seed gs = (Inr m, fs2)
    \<and> (\<forall>p \<in> set (dataset_manifest_path d # dataset_paths d). fs1 p = fs2 p)"
proof -
  from gen obtain preset r fs3 where pre: "map_of PRESETS preset_name = Some preset" "dataset_rows R G preset seed = Inr r"
    and rows: "write_rows cd W now d r fs = (Inr (), fs3)"
    and man: "write_manifest R cd output_root preset_name preset seed r fs3 = (Inr m, fs1)"
    using d by (auto elim: generate_dataset_cases)
  obtain gs3 where gs3: "write_rows cd W now' d r gs = (Inr (), gs3)"
    and same: "\<forall>p \<in> set (dataset_paths d). fs3 p = gs3 p"
    using write_rows_same [OF rows alike] by blast
  let ?items = "sort_key fst (dataset_files d)"
  have entries: "map (file_entry R output_root fs3) ?items = map (file_entry R output_root gs3) ?items"
    using same by (auto simp: file_entry_def dataset_paths_def)
  obtain summary where s: "defect_summary R (ds_hris r) (ds_truth r) (ds_lms r) (ds_assessments r) (ds_credentials r) = Inr summary"
    and m: "m = manifest_dict preset_name preset seed r summary (map (file_entry R output_root fs3) ?items)"
    and fs1: "fs1 = fs3(dataset_manifest_path d \<mapsto> cd_json_pretty cd (PDict m) @ [CHR 0x0A])"
    using write_manifest_reads [OF man d write_rows_reads(1) [OF rows]] by blast
  have "res_fold (manifest_file R output_root gs3) ?items [] = Inr (map (file_entry R output_root gs3) ?items)"
    by (subst manifest_files_eq) (use write_rows_reads(1) [OF gs3] in \<open>auto simp: dataset_paths_def\<close>)
  then have "write_manifest R cd output_root preset_name preset seed r gs3 =
      (Inr m, gs3(dataset_manifest_path d \<mapsto> cd_json_pretty cd (PDict m) @ [CHR 0x0A]))"
    unfolding write_manifest_def Let_def d [symmetric] by (simp add: s m entries write_text_def)
  with pre gs3 same show ?thesis
    unfolding generate_dataset_def d [symmetric] by (auto simp: fs1 dest: manifest_not_data)
qed

end
