(* ===== verification/Generator_Props.thy ===== *)
theory Generator_Props
  imports Generator_Defects Generator_Files
begin

text \<open>
  Properties of the synthetic datasets: the rows are made without an exception for
  every preset, the injected defects have the counts the manifest records, the files
  do not depend on the time they are written, \<^verbatim>\<open>verify_manifest\<close> accepts exactly the
  files the manifest was written for, and the identity fixture the API reads back
  assigns every record to the person it was made from.
\<close>

section \<open>Generation returns\<close>

lemma row_values_same: "(\<And>f. f \<in> set names \<Longrightarrow> map_of row f \<noteq> None) \<Longrightarrow> \<exists>vs. row_values names row = Inr vs"
proof (induction names)
  case (Cons f names)
  then obtain vs v where "row_values names row = Inr vs" "map_of row f = Some v"
    by (metis list.set_intros not_None_eq)
  then show ?case by simp
qed simp

lemma sheet_table_ok: "\<exists>table. sheet_table (map assessment_dict rows) = Inr table"
proof -
  let ?names = "fieldnames (map assessment_dict rows)"
  have "\<exists>vs. row_values ?names (assessment_dict r) = Inr vs" for r
    by (rule row_values_same) (auto simp: fieldnames_def assessment_dict_def split: list.splits)
  then have "\<exists>s'. res_fold (\<lambda>row acc. and_then (row_values ?names row) (\<lambda>vs. Inr (acc @ [vs])))
      (map assessment_dict rows) [map PStr ?names] = Inr s' \<and> True"
    by (intro res_fold_total) (auto simp: and_then_def split: sum.splits, metis sum.distinct(1))
  then show ?thesis by (auto simp: sheet_table_def)
qed

lemma write_rows_ok: "\<exists>fs'. write_rows cd W now d r fs = (Inr (), fs')"
  using sheet_table_ok [of "ds_assessments r"] by (auto simp: write_rows_def write_xlsx_def Let_def)

lemma generate_dataset_ok:
  assumes "map_of PRESETS preset_name = Some preset" and "draws_ok G" and "iso_ok R"
  obtains m fs' r summary entries where "generate_dataset R cd W G now output_root preset_name seed fs = (Inr m, fs')"
    "dataset_rows R G preset seed = Inr r" "dataset_ok R seed preset r" "summary_ok R r summary"
    "m = manifest_dict preset_name preset seed r summary entries"
proof -
  obtain r summary where r: "dataset_rows R G preset seed = Inr r" "dataset_ok R seed preset r"
    and s: "defect_summary R (ds_hris r) (ds_truth r) (ds_lms r) (ds_assessments r) (ds_credentials r) = Inr summary"
      "summary_ok R r summary"
    by (rule dataset_rows_ok [OF presets_ok [OF assms(1)] assms(2,3)])
  let ?d = "output_root @ ''/'' @ preset_name"
  obtain fs1 where fs1: "write_rows cd W now ?d r fs = (Inr (), fs1)" using write_rows_ok by blast
  have entries: "res_fold (manifest_file R output_root fs1) (sort_key fst (dataset_files ?d)) [] =
      Inr (map (file_entry R output_root fs1) (sort_key fst (dataset_files ?d)))"
    by (subst manifest_files_eq) (use write_rows_reads(1) [OF fs1] in \<open>auto simp: dataset_paths_def\<close>)
  obtain m fs' where m: "write_manifest R cd output_root preset_name preset seed r fs1 = (Inr m, fs')"
    "m = manifest_dict preset_name preset seed r summary (map (file_entry R output_root fs1) (sort_key fst (dataset_files ?d)))"
    unfolding write_manifest_def Let_def by (simp add: entries [simplified] s(1))
  have "generate_dataset R cd W G now output_root preset_name seed fs = (Inr m, fs')"
    unfolding generate_dataset_def using assms(1) r(1) fs1 m(1) by simp
  then show thesis using that r s(2) m(2) by blast
qed

section \<open>The fixture read back\<close>

declare json_sorted.simps(2) [simp del]

lemma hris_items [simp]:
  "py_item (PDict (hris_dict h)) ''employee_id'' = Inr (PStr (hr_employee_id h))"
  "py_item (PDict (hris_dict h)) ''display_name'' = Inr (PStr (hr_display_name h))"
  "py_item (PDict (hris_dict h)) ''email'' = Inr (PStr (hr_email h))"
  "py_item (PDict (hris_dict h)) ''department_code'' = Inr (PStr (hr_department_code h))"
  by (simp_all add: py_item_def hris_dict_def)

abbreviation read_back :: "pyrec \<Rightarrow> pyval" where
  "read_back row \<equiv> json_sorted (PDict row)"

lemma truth_items [simp]:
  "text_item (read_back (truth_dict t)) ''canonical_person_id'' = Inr (tr_canonical_person_id t)"
  "py_item (read_back (truth_dict t)) ''lms_user_ids'' = Inr (PList (map PStr (tr_lms_user_ids t)))"
proof -
  show "text_item (read_back (truth_dict t)) ''canonical_person_id'' = Inr (tr_canonical_person_id t)"
    by (rule text_item_json_sorted) (simp_all add: truth_dict_def)
  show "py_item (read_back (truth_dict t)) ''lms_user_ids'' = Inr (PList (map PStr (tr_lms_user_ids t)))"
    by (subst py_item_json_sorted [where v = "PList (map PStr (tr_lms_user_ids t))"]) (simp_all add: truth_dict_def)
qed

lemma lms_items [simp]:
  "py_item (read_back (lms_dict r)) ''lms_user_id'' = Inr (PStr (lr_lms_user_id r))"
  "py_item (read_back (lms_dict r)) ''employee_reference'' = Inr (PStr (lr_employee_reference r))"
  "py_item (read_back (lms_dict r)) ''learner_name'' = Inr (PStr (lr_learner_name r))"
  "py_item (read_back (lms_dict r)) ''department'' = Inr (PStr (lr_department r))"
proof -
  have *: "map_of (lms_dict r) k = Some (PStr t) \<Longrightarrow> py_item (read_back (lms_dict r)) k = Inr (PStr t)" for k t
    using py_item_json_sorted [of "lms_dict r" k "PStr t"] by (simp add: lms_dict_def del: json_sorted.simps(2))
  show "py_item (read_back (lms_dict r)) ''lms_user_id'' = Inr (PStr (lr_lms_user_id r))"
    "py_item (read_back (lms_dict r)) ''employee_reference'' = Inr (PStr (lr_employee_reference r))"
    "py_item (read_back (lms_dict r)) ''learner_name'' = Inr (PStr (lr_learner_name r))"
    "py_item (read_back (lms_dict r)) ''department'' = Inr (PStr (lr_department r))"
    by (rule *; simp add: lms_dict_def)+
qed

lemma hris_loop_ok:
  assumes "length hs = length ts"
  shows "\<exists>rows. hris_loop R org index (map hris_dict hs) (map (\<lambda>t. read_back (truth_dict t)) ts) = Inr rows
    \<and> map snd rows = map (\<lambda>i. (''hris-row:'' @ nat_str (index + i + 1), tr_canonical_person_id (ts ! i))) [0..<length ts]"
  using assms
proof (induction hs ts arbitrary: index rule: list_induct2)
  case Nil
  then show ?case by simp
next
  case (Cons h hs t ts)
  obtain rows where rows: "hris_loop R org (index + 1) (map hris_dict hs) (map (\<lambda>t. read_back (truth_dict t)) ts) = Inr rows"
    "map snd rows = map (\<lambda>i. (''hris-row:'' @ nat_str (index + 1 + i + 1), tr_canonical_person_id (ts ! i))) [0..<length ts]"
    using Cons.IH [of "index + 1"] by blast
  have "[0..<length (t # ts)] = 0 # map Suc [0..<length ts]"
    by (simp add: map_Suc_upt upt_conv_Cons del: upt_Suc)
  with rows show ?case by (simp add: Let_def comp_def del: json_sorted.simps upt_Suc)
qed

lemma first_lms_ok:
  assumes "\<And>k v. (k, v) \<in> set acc \<Longrightarrow> \<exists>r. v = read_back (lms_dict r)" and "distinct (map fst acc)"
  shows "\<exists>firsts. first_lms R (map (\<lambda>r. read_back (lms_dict r)) lms) acc = Inr firsts
    \<and> fst ` set firsts = fst ` set acc \<union> lr_lms_user_id ` set lms \<and> distinct (map fst firsts)
    \<and> (\<forall>(k, v) \<in> set firsts. \<exists>r. v = read_back (lms_dict r))"
  using assms
proof (induction lms arbitrary: acc)
  case Nil
  then show ?case by auto
next
  case (Cons r lms)
  let ?k = "lr_lms_user_id r"
  let ?acc = "case map_of acc ?k of None \<Rightarrow> dict_set ?k (read_back (lms_dict r)) acc | Some _ \<Rightarrow> acc"
  have "\<exists>r. v = read_back (lms_dict r)" if "(k, v) \<in> set ?acc" for k v
    using that Cons.prems(1) by (auto simp: map_of_eq_None_iff dict_set_fresh simp del: json_sorted.simps split: option.splits)
  moreover have "distinct (map fst ?acc)" using Cons.prems(2) by (auto split: option.splits)
  moreover have "fst ` set ?acc = insert ?k (fst ` set acc)"
    by (cases "map_of acc ?k") (simp_all del: json_sorted.simps, metis insert_absorb map_of_eq_None_iff option.distinct(1))
  moreover have "first_lms R (map (\<lambda>r. read_back (lms_dict r)) (r # lms)) acc =
      first_lms R (map (\<lambda>r. read_back (lms_dict r)) lms) ?acc"
    by (simp add: py_str_def Let_def del: json_sorted.simps cong: option.case_cong)
  ultimately show ?case
    using Cons.IH [of ?acc] by (simp del: json_sorted.simps first_lms.simps)
qed

lemma map_of_fold_texts:
  "map_of (fold (\<lambda>i. dict_set i c) (map PStr ids) acc) (PStr x) = (if x \<in> set ids then Some c else map_of acc (PStr x))"
  by (induction ids rule: rev_induct) auto

lemma truth_by_lms_ok:
  assumes "\<And>t. t \<in> set ts \<Longrightarrow> tr_lms_user_ids t \<noteq> []"
  shows "\<exists>known. truth_by_lms (map (\<lambda>t. read_back (truth_dict t)) ts) acc = Inr known
    \<and> (\<forall>x c. (\<exists>t \<in> set ts. x \<in> set (tr_lms_user_ids t))
          \<longrightarrow> (\<forall>t \<in> set ts. x \<in> set (tr_lms_user_ids t) \<longrightarrow> tr_canonical_person_id t = c)
          \<longrightarrow> map_of known (PStr x) = Some c)
    \<and> (\<forall>x. (\<forall>t \<in> set ts. x \<notin> set (tr_lms_user_ids t)) \<longrightarrow> map_of known (PStr x) = map_of acc (PStr x))"
  using assms
proof (induction ts arbitrary: acc)
  case Nil
  then show ?case by simp
next
  case (Cons t ts)
  let ?acc = "fold (\<lambda>i. dict_set i (tr_canonical_person_id t)) (map PStr (tr_lms_user_ids t)) acc"
  have acc: "map_of ?acc (PStr x) = (if x \<in> set (tr_lms_user_ids t) then Some (tr_canonical_person_id t) else map_of acc (PStr x))" for x
    by (rule map_of_fold_texts)
  have "list_all hashable (map PStr (tr_lms_user_ids t))" by (simp add: list_all_iff hashable_def)
  then have step: "truth_by_lms (map (\<lambda>t. read_back (truth_dict t)) (t # ts)) acc =
      truth_by_lms (map (\<lambda>t. read_back (truth_dict t)) ts) ?acc"
    using Cons.prems [of t] by (simp add: py_iter_def del: json_sorted.simps)
  obtain known where known: "truth_by_lms (map (\<lambda>t. read_back (truth_dict t)) ts) ?acc = Inr known"
    "\<And>x c. (\<exists>t \<in> set ts. x \<in> set (tr_lms_user_ids t)) \<Longrightarrow>
      (\<forall>t \<in> set ts. x \<in> set (tr_lms_user_ids t) \<longrightarrow> tr_canonical_person_id t = c) \<Longrightarrow> map_of known (PStr x) = Some c"
    "\<And>x. (\<forall>t \<in> set ts. x \<notin> set (tr_lms_user_ids t)) \<Longrightarrow> map_of known (PStr x) = map_of ?acc (PStr x)"
    using Cons.IH [of ?acc] Cons.prems by auto
  have "map_of known (PStr x) = Some c"
    if "\<exists>u \<in> set (t # ts). x \<in> set (tr_lms_user_ids u)" "\<forall>u \<in> set (t # ts). x \<in> set (tr_lms_user_ids u) \<longrightarrow> tr_canonical_person_id u = c"
    for x c
    using that known(2) [of x c] known(3) [of x] acc [of x] by (cases "\<exists>u \<in> set ts. x \<in> set (tr_lms_user_ids u)") auto
  moreover have "map_of known (PStr x) = map_of acc (PStr x)" if "\<forall>u \<in> set (t # ts). x \<notin> set (tr_lms_user_ids u)" for x
    using that known(3) [of x] acc [of x] by simp
  ultimately show ?case unfolding step by (intro exI [of _ known]) (use known(1) in blast)
qed

lemma lms_loop_ok:
  assumes "\<And>k v. (k, v) \<in> set ps \<Longrightarrow> (\<exists>r. v = read_back (lms_dict r)) \<and> map_of known (PStr k) = Some (pid k)"
  shows "\<exists>rows. lms_loop R org known ps = Inr rows \<and> map snd rows = map (\<lambda>(k, v). (''lms:'' @ k, pid k)) ps"
  using assms
proof (induction ps)
  case Nil
  then show ?case by simp
next
  case (Cons p ps)
  have "\<exists>rows. lms_loop R org known ps = Inr rows \<and> map snd rows = map (\<lambda>(k, v). (''lms:'' @ k, pid k)) ps"
    by (rule Cons.IH) (use Cons.prems in auto)
  then obtain rows where rows: "lms_loop R org known ps = Inr rows" "map snd rows = map (\<lambda>(k, v). (''lms:'' @ k, pid k)) ps"
    by blast
  obtain k v where p: "p = (k, v)" by (cases p)
  with Cons.prems [of k v] obtain r where "v = read_back (lms_dict r)" "map_of known (PStr k) = Some (pid k)" by auto
  with rows p show ?case by (simp add: Let_def del: json_sorted.simps)
qed

text \<open>The fixture of a dataset: every record keyed to the canonical identifier of its person.\<close>

definition fixture_assignment :: "runtime \<Rightarrow> int \<Rightarrow> dataset \<Rightarrow> (string \<times> string) list \<Rightarrow> bool" where
  "fixture_assignment R seed r truth \<longleftrightarrow>
     (\<forall>i < length (ds_hris r). map_of truth (''hris-row:'' @ nat_str (i + 1)) = Some (stable_uuid R seed ''person'' i)
        \<and> (\<forall>x \<in> set (tr_lms_user_ids (ds_truth r ! i)). map_of truth (''lms:'' @ x) = Some (stable_uuid R seed ''person'' i)))
     \<and> dom (map_of truth) = {''hris-row:'' @ nat_str (i + 1) | i. i < length (ds_hris r)}
         \<union> {''lms:'' @ lr_lms_user_id p | p. p \<in> set (ds_lms r)}"

lemma fixture_fold:
  "fold (\<lambda>(record, key, person) d. dict_set key person d) rows d =
     fold (\<lambda>(key, person). dict_set key person) (map snd rows) d"
  by (induction rows arbitrary: d) auto

lemma account_owner:
  assumes "truth_ok R seed n truth" and "i < n" and "x \<in> set (tr_lms_user_ids (truth ! i))" and "t \<in> set truth" and "x \<in> set (tr_lms_user_ids t)"
  shows "tr_canonical_person_id t = stable_uuid R seed ''person'' i"
proof -
  from assms(1,4) obtain j where j: "t = truth ! j" "j < n" by (auto simp: truth_ok_def in_set_conv_nth)
  with assms have "x \<in> {lms_code i, duplicate_code i}" "x \<in> {lms_code j, duplicate_code j}"
    unfolding truth_ok_def by blast+
  then have "i = j" by auto
  with j assms(1) show ?thesis by (simp add: truth_ok_def)
qed

lemma truth_accounts:
  assumes "truth_ok R seed n truth" and "t \<in> set truth"
  shows "tr_lms_user_ids t \<noteq> []"
  using assms by (fastforce simp: truth_ok_def in_set_conv_nth)

lemma fst_setcompr: "fst ` {(f i, g i) | i. P i} = {f i | i. P i}"
  by force

text \<open>The loops of the loader over the rows of a dataset.\<close>

lemma fixture_loops:
  assumes "dataset_ok R seed preset r"
  obtains hris_rows firsts known lms_rows where
    "hris_loop R org 0 (map hris_dict (ds_hris r)) (map (\<lambda>t. read_back (truth_dict t)) (ds_truth r)) = Inr hris_rows"
    "first_lms R (map (\<lambda>p. read_back (lms_dict p)) (ds_lms r)) [] = Inr firsts"
    "truth_by_lms (map (\<lambda>t. read_back (truth_dict t)) (ds_truth r)) [] = Inr known"
    "lms_loop R org known (sort_key fst firsts) = Inr lms_rows"
    "fixture_assignment R seed r (fold (\<lambda>(key, person). dict_set key person) (map snd (hris_rows @ lms_rows)) [])"
proof -
  let ?n = "dp_people preset" and ?t = "ds_truth r"
  have truth: "truth_ok R seed ?n ?t" and accounts: "accounts_ok ?t (ds_lms r)"
    and n: "length (ds_hris r) = ?n" "length ?t = ?n"
    using assms by (auto simp: dataset_ok_def linked_ok_def truth_ok_def)
  obtain hris_rows where hris: "hris_loop R org 0 (map hris_dict (ds_hris r)) (map (\<lambda>t. read_back (truth_dict t)) ?t) = Inr hris_rows"
    "map snd hris_rows = map (\<lambda>i. (''hris-row:'' @ nat_str (0 + i + 1), tr_canonical_person_id (?t ! i))) [0..<length ?t]"
    using hris_loop_ok [of "ds_hris r" ?t R org 0] n by auto
  obtain firsts where firsts: "first_lms R (map (\<lambda>p. read_back (lms_dict p)) (ds_lms r)) [] = Inr firsts"
    "fst ` set firsts = lr_lms_user_id ` set (ds_lms r)" "\<And>k v. (k, v) \<in> set firsts \<Longrightarrow> \<exists>p. v = read_back (lms_dict p)"
    using first_lms_ok [of "[]" R "ds_lms r"] by fastforce
  obtain known where known: "truth_by_lms (map (\<lambda>t. read_back (truth_dict t)) ?t) [] = Inr known"
    "\<And>x c. (\<exists>t \<in> set ?t. x \<in> set (tr_lms_user_ids t)) \<Longrightarrow>
      (\<forall>t \<in> set ?t. x \<in> set (tr_lms_user_ids t) \<longrightarrow> tr_canonical_person_id t = c) \<Longrightarrow> map_of known (PStr x) = Some c"
    using truth_by_lms_ok [of ?t "[]"] truth_accounts [OF truth] by auto
  have owner: "map_of known (PStr x) = Some (stable_uuid R seed ''person'' i)"
    if "i < ?n" "x \<in> set (tr_lms_user_ids (?t ! i))" for i x
    by (rule known(2)) (use that n account_owner [OF truth that] nth_mem [of i ?t] in auto)
  have "\<exists>c. map_of known (PStr k) = Some c" if "(k, v) \<in> set firsts" for k v
  proof -
    have "k \<in> (\<Union>t \<in> set ?t. set (tr_lms_user_ids t))"
      using that firsts(2) accounts unfolding accounts_ok_def by (metis fst_conv image_eqI)
    then obtain t where t: "t \<in> set ?t" "k \<in> set (tr_lms_user_ids t)" by blast
    from t(1) n obtain j where "j < ?n" "t = ?t ! j" by (metis in_set_conv_nth)
    with t(2) owner [of j k] show ?thesis by blast
  qed
  then have "\<exists>rows. lms_loop R org known (sort_key fst firsts) = Inr rows
      \<and> map snd rows = map (\<lambda>(k, v). (''lms:'' @ k, the (map_of known (PStr k)))) (sort_key fst firsts)"
    by (intro lms_loop_ok) (use firsts(3) in force)
  then obtain lms_rows where lms: "lms_loop R org known (sort_key fst firsts) = Inr lms_rows"
    "map snd lms_rows = map (\<lambda>(k, v). (''lms:'' @ k, the (map_of known (PStr k)))) (sort_key fst firsts)" by blast
  let ?rows = "map snd (hris_rows @ lms_rows)"
  have rows: "set ?rows = {(''hris-row:'' @ nat_str (i + 1), stable_uuid R seed ''person'' i) | i. i < ?n}
      \<union> {(''lms:'' @ k, the (map_of known (PStr k))) | k. k \<in> lr_lms_user_id ` set (ds_lms r)}"
  proof -
    have "set (map snd hris_rows) = {(''hris-row:'' @ nat_str (i + 1), stable_uuid R seed ''person'' i) | i. i < ?n}"
      unfolding hris(2) using truth n by (auto simp: truth_ok_def image_iff)
    moreover have "set (map snd lms_rows) = {(''lms:'' @ k, the (map_of known (PStr k))) | k. k \<in> fst ` set firsts}"
      unfolding lms(2) set_map set_sort by force
    ultimately show ?thesis by (simp only: map_append set_append firsts(2))
  qed
  have fold: "fold (\<lambda>(key, person). dict_set key person) ?rows [] = fold (\<lambda>x. dict_set (fst x) (snd x)) ?rows []"
    by (rule fold_cong) auto
  have entry: "map_of (fold (\<lambda>x. dict_set (fst x) (snd x)) ?rows []) key = Some person" if "(key, person) \<in> set ?rows" for key person
    by (rule fold_dict_set_lookup) (use that in \<open>force, unfold rows, auto simp: nat_str_inj\<close>)
  have "fixture_assignment R seed r (fold (\<lambda>(key, person). dict_set key person) ?rows [])"
    unfolding fixture_assignment_def fold
  proof (intro conjI allI impI ballI)
    fix i assume i: "i < length (ds_hris r)"
    show "map_of (fold (\<lambda>x. dict_set (fst x) (snd x)) ?rows []) (''hris-row:'' @ nat_str (i + 1)) = Some (stable_uuid R seed ''person'' i)"
      by (rule entry) (use i n rows in auto)
    fix x assume x: "x \<in> set (tr_lms_user_ids (ds_truth r ! i))"
    then have "x \<in> lr_lms_user_id ` set (ds_lms r)"
      using accounts i n unfolding accounts_ok_def by (metis UN_I nth_mem)
    then show "map_of (fold (\<lambda>x. dict_set (fst x) (snd x)) ?rows []) (''lms:'' @ x) = Some (stable_uuid R seed ''person'' i)"
      by (intro entry) (use rows owner [of i x] i n x in auto)
  next
    show "dom (map_of (fold (\<lambda>x. dict_set (fst x) (snd x)) ?rows [])) = {''hris-row:'' @ nat_str (i + 1) | i. i < length (ds_hris r)}
         \<union> {''lms:'' @ lr_lms_user_id p | p. p \<in> set (ds_lms r)}"
      unfolding dom_map_of_conv_image_fst fold_set_keys rows n image_Un fst_setcompr by auto
  qed
  with that hris(1) firsts(1) known(1) lms(1) show thesis by blast
qed

lemma fixture_ok:
  assumes rows: "dataset_ok R seed preset r" and written: "write_rows cd W now d r gs = (Inr (), fs1)"
    and fs: "\<And>p. p \<in> set (dataset_paths d) \<Longrightarrow> fs p = fs1 p"
    and csv: "csv_round_trip W cd (map hris_dict (ds_hris r))"
    and json: "json_round_trip cd (PList (map PDict (map lms_dict (ds_lms r))))"
      "json_round_trip cd (PList (map PDict (map truth_dict (ds_truth r))))"
  shows "\<exists>records truth. load_synthetic_identity_fixture R cd fs d org = Inr (records, truth)
    \<and> fixture_assignment R seed r truth"
proof -
  obtain hris_rows firsts known lms_rows where loops:
    "hris_loop R org 0 (map hris_dict (ds_hris r)) (map (\<lambda>t. read_back (truth_dict t)) (ds_truth r)) = Inr hris_rows"
    "first_lms R (map (\<lambda>p. read_back (lms_dict p)) (ds_lms r)) [] = Inr firsts"
    "truth_by_lms (map (\<lambda>t. read_back (truth_dict t)) (ds_truth r)) [] = Inr known"
    "lms_loop R org known (sort_key fst firsts) = Inr lms_rows"
    "fixture_assignment R seed r (fold (\<lambda>(key, person). dict_set key person) (map snd (hris_rows @ lms_rows)) [])"
    by (rule fixture_loops [OF rows])
  have "fs p = fs1 p" if "p \<in> {d @ ''/hris/employees.csv'', d @ ''/lms/participation.json'', d @ ''/truth/identity_truth.json''}" for p
    using that fs by (auto simp: dataset_paths_eq)
  then have files: "read_file fs (d @ ''/hris/employees.csv'') = Inr (wt_csv W (fieldnames (map hris_dict (ds_hris r))) (map hris_dict (ds_hris r)))"
    "json_file cd fs (d @ ''/lms/participation.json'') = Inr (PList (map (\<lambda>p. read_back (lms_dict p)) (ds_lms r)))"
    "json_file cd fs (d @ ''/truth/identity_truth.json'') = Inr (PList (map (\<lambda>t. read_back (truth_dict t)) (ds_truth r)))"
    using write_rows_reads(2-4) [OF written] json
    by (auto simp: read_file_def json_file_def json_round_trip_def comp_def)
  show ?thesis
    using loops csv unfolding load_synthetic_identity_fixture_def files and_then_simps csv_round_trip_def
    by (simp add: py_iter_def Let_def fixture_fold)
qed

section \<open>Properties\<close>

text \<open>
  C30: for each of the three presets and any seed, given a generator whose samples are distinct positions of the
  range, ISO texts that are read back and begin with the year, and an \<^verbatim>\<open>upper\<close> that is the ASCII one on ASCII
  texts, \<^verbatim>\<open>generate_dataset\<close> returns a manifest with the counts the preset prescribes. There are as
  many people, truth rows and assessments as the preset has people and as many courses as it has courses; one participation for each slot of each person
  and one more for each duplicated account; one credential for each person with a score of 75 or
  more in a course that has a credential. The defect summary records exactly the number the rates ask for of
  blanked employee identifiers and duplicated accounts, one formula-like text and one credential awarded too early. For the
  other five kinds it records at least the number the rates ask for, a status reset by a broken completion apart, and at
  most one more for each duplicated account, whose row is copied with its defects.
\<close>

theorem generated_counts:
  assumes "map_of PRESETS preset_name = Some preset" and "draws_ok G" and "iso_ok R" and "texts_ok R"
    and "people = dp_people preset" and "rows = people * dp_participations_per_person preset"
    and "rate = dp_defect_rate preset" and "dup = defects people (dp_duplicate_rate preset) 1"
  shows "\<exists>m fs' counts summary. generate_dataset R cd W G now output_root preset_name seed fs = (Inr m, fs')
    \<and> map_of m ''counts'' = Some (PDict counts) \<and> map_of m ''defect_summary'' = Some (PDict summary)
    \<and> map_of counts ''hris_people'' = Some (PInt (int people))
    \<and> map_of counts ''lms_courses'' = Some (PInt (int (dp_courses preset)))
    \<and> map_of counts ''lms_participations'' = Some (PInt (int (rows + dup)))
    \<and> map_of counts ''assessment_results'' = Some (PInt (int people))
    \<and> map_of counts ''credential_awards'' = Some (PInt (int (length
          (filter (\<lambda>i. i mod dp_courses preset mod 4 = 0 \<and> 75 \<le> 60 + i * 13 mod 41) [0..<people]))))
    \<and> map_of counts ''identity_truth_rows'' = Some (PInt (int people))
    \<and> recorded summary ''missing_employee_id'' (defects people rate 1) (defects people rate 1)
    \<and> recorded summary ''name_variant'' (defects people rate 1) (defects people rate 1 + dup)
    \<and> recorded summary ''duplicate_lms_account'' dup dup
    \<and> recorded summary ''conflicting_department'' (defects people rate 3) (defects people rate 3 + dup)
    \<and> recorded summary ''invalid_completion_status'' (defects rows rate 4 - defects rows rate 5) (defects rows rate 4 + dup)
    \<and> recorded summary ''completion_before_assignment'' (defects rows rate 5) (defects rows rate 5 + dup)
    \<and> recorded summary ''credential_before_assessment'' 1 1
    \<and> recorded summary ''late_event'' (defects people rate 4) (defects people rate 4 + dup)
    \<and> recorded summary ''formula_like_text'' 1 1"
proof -
  obtain m fs' r summary entries where gen: "generate_dataset R cd W G now output_root preset_name seed fs = (Inr m, fs')"
    and rows: "dataset_rows R G preset seed = Inr r"
    and r: "dataset_ok R seed preset r" "summary_ok R r summary" "m = manifest_dict preset_name preset seed r summary entries"
    using generate_dataset_ok [OF assms(1-3)] by metis
  have truth: "length (ds_truth r) = people" using r(1) by (simp add: dataset_ok_def linked_ok_def truth_ok_def assms(5))
  note ok = presets_ok [OF assms(1)] presets_slots [OF assms(1)]
  have marks: "marks_ok R preset (ds_lms r)"
    and awards: "length (ds_credentials r) = length (filter (awarded (dp_courses preset)) [0..<people])"
    using dataset_marks [OF rows ok assms(2-4)] by (simp_all add: truth)
  have some: "ds_credentials r \<noteq> []"
    using awards presets_award [OF assms(1)] by (auto simp: assms(5) filter_empty_conv)
  note marks = marks [unfolded marks_ok_def Let_def, folded assms(5) assms(7), folded assms(6,8)]
  have summary: "recorded summary ''missing_employee_id'' (defects people rate 1) (defects people rate 1)"
    "recorded summary ''name_variant'' (defects people rate 1) (defects people rate 1 + dup)"
    "recorded summary ''duplicate_lms_account'' dup dup"
    "recorded summary ''conflicting_department'' (defects people rate 3) (defects people rate 3 + dup)"
    "recorded summary ''invalid_completion_status'' (defects rows rate 4 - defects rows rate 5) (defects rows rate 4 + dup)"
    "recorded summary ''completion_before_assignment'' (defects rows rate 5) (defects rows rate 5 + dup)"
    "recorded summary ''credential_before_assessment'' 1 1"
    "recorded summary ''late_event'' (defects people rate 4) (defects people rate 4 + dup)"
    "recorded summary ''formula_like_text'' 1 1"
    using r(1,2) marks some assms(5,7,8) unfolding summary_ok_def dataset_ok_def count_if_def marks_counted [where R = R]
    by (auto simp: recorded_def)
  let ?c = "[(''hris_people'', PInt (int (length (ds_hris r)))), (''lms_courses'', PInt (int (length (ds_courses r)))),
          (''lms_participations'', PInt (int (length (ds_lms r)))),
          (''assessment_results'', PInt (int (length (ds_assessments r)))),
          (''credential_awards'', PInt (int (length (ds_credentials r)))),
          (''identity_truth_rows'', PInt (int (length (ds_truth r))))]"
  have parts: "map_of m ''counts'' = Some (PDict ?c)" "map_of m ''defect_summary'' = Some (PDict summary)"
    by (simp_all add: r(3) manifest_dict_def)
  have lengths: "length (ds_hris r) = people" "length (ds_courses r) = dp_courses preset" "length (ds_lms r) = rows + dup"
    "length (ds_assessments r) = people"
    using r(1) by (simp_all add: dataset_ok_def assms(5-8))
  have counts: "map_of ?c ''hris_people'' = Some (PInt (int people))" "map_of ?c ''lms_courses'' = Some (PInt (int (dp_courses preset)))"
    "map_of ?c ''lms_participations'' = Some (PInt (int (rows + dup)))" "map_of ?c ''assessment_results'' = Some (PInt (int people))"
    "map_of ?c ''credential_awards'' = Some (PInt (int (length
       (filter (\<lambda>i. i mod dp_courses preset mod 4 = 0 \<and> 75 \<le> 60 + i * 13 mod 41) [0..<people]))))"
    "map_of ?c ''identity_truth_rows'' = Some (PInt (int people))"
    unfolding lengths truth awards awarded_def by simp_all
  show ?thesis
    by (intro exI [of _ m] exI [of _ fs'] exI [of _ ?c] exI [of _ summary] conjI) (fact gen parts counts summary)+
qed

definition demo_rng :: "unit rng" where
  "demo_rng = \<lparr>rng_seed = (\<lambda>_. ()), rng_draw = (\<lambda>g n k. ([0..<k], g))\<rparr>"

text \<open>A year and the time in microseconds, in place of the ISO text.\<close>

definition demo_iso :: runtime where
  "demo_iso = ascii_runtime\<lparr>rt_isoformat := (\<lambda>t. (if t < days 739981 then ''2026-'' else ''2027-'') @ int_str t),
     rt_fromiso := (\<lambda>s. Some \<lparr>dt_wall = int (nat_of_digits (drop 5 s)), dt_offset = Some 0\<rparr>)\<rparr>"

definition demo_formats :: dataset_writers where
  "demo_formats = \<lparr>wt_csv = (\<lambda>names rows. nat_str (length rows)),
     wt_workbook = (\<lambda>created title table now. [(''docProps/core.xml'',
        core_xml ''<p>'' [] (int_str now) ''</p>''), (''xl/sheet1.xml'', nat_str (length table))]),
     wt_zip = (\<lambda>ms. concat (map snd ms)), wt_parquet = (\<lambda>rows. nat_str (length rows))\<rparr>"

lemma demo_rng_ok: "draws_ok demo_rng"
  by (auto simp: draws_ok_def demo_rng_def)

lemma demo_texts_ok: "texts_ok demo_iso"
  by (simp add: texts_ok_def demo_iso_def ascii_runtime_def)

lemma demo_iso_ok: "iso_ok demo_iso"
  by (simp add: iso_ok_def demo_iso_def int_str_def nat_str_def nat_of_digits_of del: digits_of.simps)

definition small_preset :: dataset_preset where
  "small_preset = \<lparr>dp_people = 120, dp_courses = 6, dp_participations_per_person = 3,
     dp_duplicate_rate = 5 / 100, dp_defect_rate = 8 / 100\<rparr>"

lemma small_preset: "map_of PRESETS ''small'' = Some small_preset"
  by (simp add: PRESETS_def small_preset_def)

lemma small_defects:
  "defects (dp_people small_preset) (dp_defect_rate small_preset) 1 = 9"
  "defects (dp_people small_preset) (dp_duplicate_rate small_preset) 1 = 6"
  by (simp_all add: defects_def small_preset_def floor_eq_iff)

theorem generated_counts_witness:
  "\<exists>m fs' counts summary. generate_dataset demo_iso plain_codecs demo_formats demo_rng 0 ''data/synthetic'' ''small'' 20260719 Map.empty
    = (Inr m, fs') \<and> map_of m ''counts'' = Some (PDict counts) \<and> map_of m ''defect_summary'' = Some (PDict summary)
    \<and> map_of counts ''lms_participations'' = Some (PInt 366) \<and> map_of counts ''lms_courses'' = Some (PInt 6)
    \<and> recorded summary ''missing_employee_id'' 9 9 \<and> recorded summary ''duplicate_lms_account'' 6 6
    \<and> recorded summary ''name_variant'' 9 15"
proof -
  have "dp_people small_preset = 120" "dp_participations_per_person small_preset = 3" "dp_courses small_preset = 6"
    by (simp_all add: small_preset_def)
  with generated_counts [OF small_preset demo_rng_ok demo_iso_ok demo_texts_ok refl refl refl refl,
      of plain_codecs demo_formats 0 "''data/synthetic''" 20260719 Map.empty] small_defects
  show ?thesis by (auto simp del: upt_Suc)
qed

text \<open>
  C31: after \<^verbatim>\<open>generate_dataset\<close> returned a manifest, \<^verbatim>\<open>verify_manifest\<close> is true, and on any
  later state of the files with the same manifest it is true exactly when each of the six
  data files is there with a content of the digest it had when it was written. JSON is
  asked to read back what it wrote for the manifest.
\<close>

theorem manifest_verifies_exactly:
  assumes "generate_dataset R cd W G now output_root preset_name seed fs = (Inr m, fs')"
    and "json_round_trip cd (PDict m)"
  shows "verify_manifest R cd fs' output_root preset_name = Inr True
    \<and> (\<forall>fs2. fs2 (dataset_manifest_path (output_root @ ''/'' @ preset_name)) = fs' (dataset_manifest_path (output_root @ ''/'' @ preset_name))
        \<longrightarrow> (verify_manifest R cd fs2 output_root preset_name = Inr True \<longleftrightarrow>
              (\<forall>p \<in> set (dataset_paths (output_root @ ''/'' @ preset_name)).
                 \<exists>c. fs2 p = Some c \<and> rt_sha256 R c = rt_sha256 R (the (fs' p)))))"
proof -
  let ?d = "output_root @ ''/'' @ preset_name"
  have iff: "verify_manifest R cd fs2 output_root preset_name = Inr True \<longleftrightarrow>
      (\<forall>p \<in> set (dataset_paths ?d). \<exists>c. fs2 p = Some c \<and> rt_sha256 R c = rt_sha256 R (the (fs' p)))"
    if "fs2 (dataset_manifest_path ?d) = fs' (dataset_manifest_path ?d)" for fs2
    using verify_manifest_iff [OF assms refl, of fs2] that by blast
  have "fs' p \<noteq> None" if "p \<in> set (dataset_paths ?d)" for p
    by (rule generate_dataset_files [OF assms(1) refl that])
  then have "verify_manifest R cd fs' output_root preset_name = Inr True"
    by (subst iff) (simp, metis option.sel not_None_eq)
  with iff show ?thesis by blast
qed

text \<open>A codec that reads back the values it is given.\<close>

definition reads_back :: "(string \<times> pyval) list \<Rightarrow> (string \<times> pyrec list) list \<Rightarrow> codecs" where
  "reads_back texts tables = plain_codecs\<lparr>
     cd_json_pretty := (\<lambda>v. case v of PDict d \<Rightarrow> ''{}''
       | PList (PDict ((''lms_user_id'', _) # _) # _) \<Rightarrow> ''[lms]'' | _ \<Rightarrow> ''[truth]''),
     cd_json_loads := (\<lambda>t. case map_of texts t of None \<Rightarrow> Inl (ValueError ''json'') | Some v \<Rightarrow> Inr (json_sorted v)),
     cd_csv_dicts := (\<lambda>d e t. case map_of tables t of None \<Rightarrow> Inl (ValueError ''csv'') | Some rows \<Rightarrow> Inr rows)\<rparr>"

lemma generate_codec:
  "cd_json_pretty cd = cd_json_pretty cd' \<Longrightarrow> generate_dataset R cd W G now output_root preset_name seed fs =
     generate_dataset R cd' W G now output_root preset_name seed fs"
proof -
  assume "cd_json_pretty cd = cd_json_pretty cd'"
  then have "write_json cd = write_json cd'" "write_manifest R cd = write_manifest R cd'"
    by (intro ext; simp only: write_json_def write_manifest_def)+
  then show ?thesis by (simp only: generate_dataset_def write_rows_def)
qed

lemma reads_back_pretty: "cd_json_pretty (reads_back a b) = cd_json_pretty (reads_back c d)"
  by (simp add: reads_back_def)

theorem manifest_verifies_exactly_witness:
  "\<exists>cd m fs'. generate_dataset demo_iso cd demo_formats demo_rng 0 ''data/synthetic'' ''small'' 20260719 Map.empty
      = (Inr m, fs') \<and> verify_manifest demo_iso cd fs' ''data/synthetic'' ''small'' = Inr True
    \<and> verify_manifest demo_iso cd (fs'(''data/synthetic/small/lms/courses.csv'' := None)) ''data/synthetic'' ''small'' \<noteq> Inr True"
proof -
  let ?gen = "\<lambda>cd. generate_dataset demo_iso cd demo_formats demo_rng 0 ''data/synthetic'' ''small'' 20260719 Map.empty"
  obtain m fs' where m: "?gen (reads_back [] []) = (Inr m, fs')"
    using generate_dataset_ok [OF small_preset demo_rng_ok demo_iso_ok] by metis
  let ?cd = "reads_back [(''{}'' @ [CHR 0x0A], PDict m)] []"
  have gen: "?gen ?cd = (Inr m, fs')" using m generate_codec [OF reads_back_pretty] by metis
  have json: "json_round_trip ?cd (PDict m)" by (simp add: json_round_trip_def reads_back_def)
  note verifies = manifest_verifies_exactly [OF gen json]
  have "verify_manifest demo_iso ?cd (fs'(''data/synthetic/small/lms/courses.csv'' := None)) ''data/synthetic'' ''small'' \<noteq> Inr True"
    using verifies [THEN conjunct2, THEN spec, of "fs'(''data/synthetic/small/lms/courses.csv'' := None)"]
    by (simp add: dataset_manifest_path_def dataset_paths_eq)
  with gen verifies show ?thesis by blast
qed

text \<open>
  A dataset does not depend on the time it is written nor on the files that were there: run
  again with the same preset and seed, at another time and on other files, \<^verbatim>\<open>generate_dataset\<close> returns the same
  manifest and leaves the same content under the seven paths it writes, although saving a
  workbook records the time: the substitution in \<^verbatim>\<open>write_xlsx\<close> takes it out.
\<close>

theorem generation_reproducible:
  assumes "generate_dataset R cd W G now output_root preset_name seed fs = (Inr m, fs1)" and "saves_alike W"
  shows "\<exists>fs2. generate_dataset R cd W G now' output_root preset_name seed gs = (Inr m, fs2)
    \<and> (\<forall>p \<in> set (dataset_manifest_path (output_root @ ''/'' @ preset_name) # dataset_paths (output_root @ ''/'' @ preset_name)).
         fs1 p = fs2 p)"
  by (rule generate_same [OF assms refl])

lemma demo_formats_alike: "saves_alike demo_formats"
proof -
  have "core_parts_ok ''<p>'' [] (int_str now)" for now
  proof -
    have "c \<in> set (int_str now) \<Longrightarrow> c = CHR ''-'' \<or> of_char c \<in> {48..57 :: nat}" for c
      using digits_of_chars by (auto simp: int_str_def nat_str_def simp del: digits_of.simps split: if_splits)
    then have "CHR ''<'' \<notin> set (int_str now)" "CHR 0x0A \<notin> set (int_str now)" by fastforce+
    then show ?thesis by (auto simp: core_parts_ok_def modified_open_def less_Suc_eq)
  qed
  then have "member_alike (''docProps/core.xml'', core_xml ''<p>'' [] (int_str now) ''</p>'')
      (''docProps/core.xml'', core_xml ''<p>'' [] (int_str now') ''</p>'')" for now now'
    unfolding member_alike_def by (metis fst_conv snd_conv)
  then show ?thesis by (simp add: saves_alike_def demo_formats_def member_alike_def [of "(''xl/sheet1.xml'', _)"])
qed

theorem generation_reproducible_witness:
  "\<exists>m fs1 fs2. generate_dataset demo_iso plain_codecs demo_formats demo_rng 0 ''data/synthetic'' ''small'' 20260719 Map.empty
      = (Inr m, fs1)
    \<and> generate_dataset demo_iso plain_codecs demo_formats demo_rng 777 ''data/synthetic'' ''small'' 20260719 Map.empty = (Inr m, fs2)
    \<and> fs1 ''data/synthetic/small/assessment/assessment_results.xlsx'' = fs2 ''data/synthetic/small/assessment/assessment_results.xlsx''"
proof -
  obtain m fs1 where m: "generate_dataset demo_iso plain_codecs demo_formats demo_rng 0 ''data/synthetic'' ''small'' 20260719 Map.empty
      = (Inr m, fs1)"
    using generate_dataset_ok [OF small_preset demo_rng_ok demo_iso_ok] by metis
  from generation_reproducible [OF m demo_formats_alike, of 777 Map.empty] m show ?thesis
    by (auto simp: dataset_paths_eq)
qed

text \<open>
  C32: the identity fixture the API loads from a generated dataset assigns every record to its
  person: the row of the \<open>i\<close>-th person in the HRIS file, its identifier blanked or not, and every LMS
  account the truth lists for that person, a duplicated one included, are keyed to the canonical identifier
  of person \<open>i\<close>, and no other key exists. The CSV and JSON packages are asked to read back the
  three files as they were written.
\<close>

theorem fixture_assigns_records:
  assumes "map_of PRESETS preset_name = Some preset" and "draws_ok G" and "iso_ok R"
    and "dataset_rows R G preset seed = Inr r"
    and "csv_round_trip W cd (map hris_dict (ds_hris r))"
    and "json_round_trip cd (PList (map PDict (map lms_dict (ds_lms r))))"
    and "json_round_trip cd (PList (map PDict (map truth_dict (ds_truth r))))"
  shows "\<exists>m fs' records truth. generate_dataset R cd W G now output_root preset_name seed fs = (Inr m, fs')
    \<and> load_synthetic_identity_fixture R cd fs' (output_root @ ''/'' @ preset_name) organization_id = Inr (records, truth)
    \<and> length (ds_hris r) = dp_people preset \<and> fixture_assignment R seed r truth"
proof -
  obtain m fs' r' where gen: "generate_dataset R cd W G now output_root preset_name seed fs = (Inr m, fs')"
    and "dataset_rows R G preset seed = Inr r'" "dataset_ok R seed preset r'"
    using generate_dataset_ok [OF assms(1-3)] by metis
  with assms(4) have r: "dataset_ok R seed preset r" by simp
  obtain fs1 where rows: "write_rows cd W now (output_root @ ''/'' @ preset_name) r fs = (Inr (), fs1)"
    and same: "\<And>p. p \<in> set (dataset_paths (output_root @ ''/'' @ preset_name)) \<Longrightarrow> fs' p = fs1 p"
    using generate_dataset_rows [OF gen] assms(1,4) by force
  from fixture_ok [OF r rows same assms(5-7)] gen r show ?thesis
    unfolding dataset_ok_def by blast
qed

theorem fixture_assigns_records_witness:
  "\<exists>cd fs' r records truth. dataset_rows demo_iso demo_rng small_preset 20260719 = Inr r
    \<and> load_synthetic_identity_fixture demo_iso cd fs' ''data/synthetic/small'' 1 = Inr (records, truth)
    \<and> length (ds_hris r) = 120 \<and> fixture_assignment demo_iso 20260719 r truth"
proof -
  obtain r where r: "dataset_rows demo_iso demo_rng small_preset 20260719 = Inr r" "dataset_ok demo_iso 20260719 small_preset r"
    using dataset_rows_ok [OF presets_ok [OF small_preset] demo_rng_ok demo_iso_ok] by metis
  let ?l = "PList (map PDict (map lms_dict (ds_lms r)))" and ?t = "PList (map PDict (map truth_dict (ds_truth r)))"
  let ?cd = "reads_back [(''[lms]'' @ [CHR 0x0A], ?l), (''[truth]'' @ [CHR 0x0A], ?t)]
      [(wt_csv demo_formats (fieldnames (map hris_dict (ds_hris r))) (map hris_dict (ds_hris r)), map hris_dict (ds_hris r))]"
  have n: "length (ds_lms r) \<noteq> 0" "length (ds_truth r) \<noteq> 0"
    using r(2) by (auto simp: dataset_ok_def linked_ok_def truth_ok_def small_preset_def)
  then obtain l ls t ts where rows: "ds_lms r = l # ls" "ds_truth r = t # ts"
    by (metis list.size(3) neq_Nil_conv)
  have csv: "csv_round_trip demo_formats ?cd (map hris_dict (ds_hris r))"
    by (simp add: csv_round_trip_def reads_back_def)
  have lms: "json_round_trip ?cd ?l"
    unfolding json_round_trip_def by (simp add: reads_back_def rows lms_dict_def del: json_sorted.simps)
  have truth: "json_round_trip ?cd ?t"
    unfolding json_round_trip_def by (simp add: reads_back_def rows truth_dict_def del: json_sorted.simps)
  have "length (ds_hris r) = 120" using r(2) by (simp add: dataset_ok_def small_preset_def)
  with fixture_assigns_records [OF small_preset demo_rng_ok demo_iso_ok r(1) csv lms truth,
      of 0 "''data/synthetic''" Map.empty 1] r(1)
  show ?thesis by (simp only: append.simps) blast
qed

end
