(* ===== verification/Demo_Workspace.thy ===== *)
theory Demo_Workspace
  imports Api
begin

text \<open>
  The storage of the local demo (\<^verbatim>\<open>scripts/demo_workspace.py\<close>): a directory of its own
  under \<^verbatim>\<open>var/demos\<close>, marked as owned, changed only under a lock file that is created
  exclusively, and deleted by \<^verbatim>\<open>reset\<close> only when it is owned.

  A file tree is an association list from places (lists of names) to nodes; a symbolic
  link is followed once, as far as the existence and the kind of a place are asked. JSON
  and the process environment are parameters.
\<close>

section \<open>A file tree\<close>

type_synonym place = "string list"

datatype tree_node = FileNode string | DirNode | LinkNode place

type_synonym tree = "(place \<times> tree_node) list"

definition node_at :: "tree \<Rightarrow> place \<Rightarrow> tree_node option" where
  "node_at fs p = map_of fs p"

definition followed :: "tree \<Rightarrow> place \<Rightarrow> tree_node option" where
  "followed fs p = (case node_at fs p of Some (LinkNode q) \<Rightarrow> node_at fs q | n \<Rightarrow> n)"

definition is_symlink :: "tree \<Rightarrow> place \<Rightarrow> bool" where
  "is_symlink fs p = (case node_at fs p of Some (LinkNode _) \<Rightarrow> True | _ \<Rightarrow> False)"

definition exists_at :: "tree \<Rightarrow> place \<Rightarrow> bool" where
  "exists_at fs p = (p = [] \<or> followed fs p \<noteq> None)"

definition is_dir :: "tree \<Rightarrow> place \<Rightarrow> bool" where
  "is_dir fs p = (p = [] \<or> followed fs p = Some DirNode)"

definition is_file :: "tree \<Rightarrow> place \<Rightarrow> bool" where
  "is_file fs p = (case followed fs p of Some (FileNode _) \<Rightarrow> True | _ \<Rightarrow> False)"

text \<open>The places at or below a place, and those strictly below it.\<close>

definition inside_of :: "place \<Rightarrow> place \<Rightarrow> bool" where
  "inside_of p q = (take (length p) q = p)"

definition below :: "place \<Rightarrow> place \<Rightarrow> bool" where
  "below p q = (inside_of p q \<and> q \<noteq> p)"

definition FILE_EXISTS :: exc where "FILE_EXISTS = RuntimeError ''FileExistsError''"

definition IS_A_DIRECTORY :: exc where "IS_A_DIRECTORY = RuntimeError ''IsADirectoryError''"

definition is_os_error :: "exc \<Rightarrow> bool" where
  "is_os_error e = (e = FileNotFoundError \<or> e = FILE_EXISTS \<or> e = IS_A_DIRECTORY)"

definition read_node :: "tree \<Rightarrow> place \<Rightarrow> string res" where
  "read_node fs p = (case followed fs p of
       Some (FileNode c) \<Rightarrow> Inr c | Some DirNode \<Rightarrow> Inl IS_A_DIRECTORY | _ \<Rightarrow> Inl FileNotFoundError)"

definition write_node :: "place \<Rightarrow> string \<Rightarrow> tree \<Rightarrow> tree res" where
  "write_node p c fs = (case node_at fs p of
       Some DirNode \<Rightarrow> Inl IS_A_DIRECTORY
     | Some (LinkNode q) \<Rightarrow> (if is_dir fs (butlast q) \<and> node_at fs q \<noteq> Some DirNode then Inr (dict_set q (FileNode c) fs)
                             else Inl FileNotFoundError)
     | _ \<Rightarrow> (if is_dir fs (butlast p) then Inr (dict_set p (FileNode c) fs) else Inl FileNotFoundError))"

text \<open>\<^verbatim>\<open>mkdir()\<close>, \<^verbatim>\<open>mkdir(exist_ok=True)\<close> and \<^verbatim>\<open>mkdir(parents=True, exist_ok=True)\<close>.\<close>

definition mkdir_new :: "place \<Rightarrow> tree \<Rightarrow> tree res" where
  "mkdir_new p fs = (if node_at fs p \<noteq> None then Inl FILE_EXISTS
     else if is_dir fs (butlast p) then Inr (dict_set p DirNode fs) else Inl FileNotFoundError)"

definition mkdir_ok :: "place \<Rightarrow> tree \<Rightarrow> tree res" where
  "mkdir_ok p fs = (if node_at fs p = None then mkdir_new p fs else if is_dir fs p then Inr fs else Inl FILE_EXISTS)"

definition mkdir_parents :: "place \<Rightarrow> tree \<Rightarrow> tree res" where
  "mkdir_parents p fs = res_fold mkdir_ok (map (\<lambda>k. take (Suc k) p) [0..<length p]) fs"

text \<open>\<^verbatim>\<open>shutil.rmtree\<close>\<close>

definition rmtree :: "place \<Rightarrow> tree \<Rightarrow> tree" where
  "rmtree p fs = filter (\<lambda>(q, _). \<not> inside_of p q) fs"

definition unlink_node :: "place \<Rightarrow> tree \<Rightarrow> tree res" where
  "unlink_node p fs = (if node_at fs p = None then Inl FileNotFoundError else Inr (filter (\<lambda>(q, _). q \<noteq> p) fs))"

section \<open>Actions on a tree\<close>

type_synonym 'a action = "tree \<Rightarrow> 'a res \<times> tree"

definition yields :: "'a \<Rightarrow> 'a action" where
  "yields v fs = (Inr v, fs)"

definition raises :: "exc \<Rightarrow> 'a action" where
  "raises e fs = (Inl e, fs)"

definition asks :: "(tree \<Rightarrow> 'a res) \<Rightarrow> 'a action" where
  "asks f fs = (f fs, fs)"

definition changes :: "(tree \<Rightarrow> tree res) \<Rightarrow> unit action" where
  "changes f fs = (case f fs of Inl e \<Rightarrow> (Inl e, fs) | Inr fs' \<Rightarrow> (Inr (), fs'))"

definition followed_by :: "'a action \<Rightarrow> ('a \<Rightarrow> 'b action) \<Rightarrow> 'b action" where
  "followed_by m k fs = (case m fs of (Inl e, fs') \<Rightarrow> (Inl e, fs') | (Inr v, fs') \<Rightarrow> k v fs')"

fun each :: "('a \<Rightarrow> unit action) \<Rightarrow> 'a list \<Rightarrow> unit action" where
  "each f [] = yields ()"
| "each f (x # xs) = followed_by (f x) (\<lambda>_. each f xs)"

section \<open>Workspaces\<close>

text \<open>What the process is given: JSON and the environment variables.\<close>

record demo_site =
  de_loads :: "string \<Rightarrow> pyval res"
  de_dumps :: "pyval \<Rightarrow> string"
  de_environ :: "(string \<times> string) list"

record workspace =
  ws_root :: place
  ws_name :: string
  ws_locked :: bool

definition MARKER :: pyval where
  "MARKER = PDict [(''kind'', PStr ''eduwork-synthetic-demo''), (''format'', PInt 1)]"

text \<open>\<^verbatim>\<open>value == MARKER\<close>: the same two entries in any order, one being equal to \<^verbatim>\<open>1.0\<close> and \<^verbatim>\<open>True\<close>.\<close>

definition equals_marker :: "pyval \<Rightarrow> bool" where
  "equals_marker v = (case v of
       PDict d \<Rightarrow> length d = 2 \<and> map_of d ''kind'' = Some (PStr ''eduwork-synthetic-demo'')
         \<and> (case map_of d ''format'' of Some f \<Rightarrow> f \<in> {PInt 1, PBool True, PFloat (Fin 1)} | None \<Rightarrow> False)
     | _ \<Rightarrow> False)"

definition is_lower :: "char \<Rightarrow> bool" where
  "is_lower c = (let n = of_char c :: nat in 97 \<le> n \<and> n \<le> 122)"

definition is_decimal :: "char \<Rightarrow> bool" where
  "is_decimal c = (let n = of_char c :: nat in 48 \<le> n \<and> n \<le> 57)"

text \<open>The pattern \<^verbatim>\<open>[a-z][a-z0-9-]{0,39}\<close>, matched in full.\<close>

definition name_ok :: "string \<Rightarrow> bool" where
  "name_ok s = (case s of [] \<Rightarrow> False
     | c # cs \<Rightarrow> is_lower c \<and> length cs \<le> 39 \<and> list_all (\<lambda>c. is_lower c \<or> is_decimal c \<or> c = CHR ''-'') cs)"

definition new_workspace :: "place \<Rightarrow> string \<Rightarrow> workspace res" where
  "new_workspace root' name =
     (if name_ok name then Inr \<lparr>ws_root = root', ws_name = name, ws_locked = False\<rparr>
      else Inl (ValueError ''Workspace names must be 1-40 lowercase letters, digits, or hyphens.''))"

text \<open>The property \<^verbatim>\<open>path\<close>.\<close>

definition safe_component :: "tree \<Rightarrow> string \<Rightarrow> place \<Rightarrow> place res" where
  "safe_component fs name p =
     (let q = p @ [name] in
      if is_symlink fs q \<or> (exists_at fs q \<and> \<not> is_dir fs q) then Inl (ValueError ''Refusing unsafe demo path'') else Inr q)"

definition workspace_path :: "workspace \<Rightarrow> tree \<Rightarrow> place res" where
  "workspace_path W fs = res_fold (safe_component fs) [''var'', ''demos'', ws_name W] (ws_root W)"

definition require_lock :: "workspace \<Rightarrow> unit res" where
  "require_lock W = (if ws_locked W then Inr () else Inl (ValueError ''Acquire the demo workspace lock before modifying demo data.''))"

definition MARKER_FILE :: string where "MARKER_FILE = ''.eduwork-demo.json''"

definition marker_valid :: "demo_site \<Rightarrow> tree \<Rightarrow> place \<Rightarrow> bool res" where
  "marker_valid E fs marker =
     (if is_symlink fs marker then Inr False
      else case and_then (read_node fs marker) (de_loads E) of
        Inl e \<Rightarrow> if is_os_error e \<or> is_value_error e then Inr False else Inl e
      | Inr v \<Rightarrow> Inr (equals_marker v))"

definition verify_owner :: "demo_site \<Rightarrow> workspace \<Rightarrow> tree \<Rightarrow> unit res" where
  "verify_owner E W fs =
     (and_then (workspace_path W fs) (\<lambda>p.
      and_then (marker_valid E fs (p @ [MARKER_FILE])) (\<lambda>valid.
      if \<not> valid then Inl (ValueError ''Not an owned synthetic demo workspace; leaving it untouched'')
      else if list_ex (\<lambda>(q, n). below p q \<and> is_symlink fs q) fs
        then Inl (ValueError ''Refusing symbolic links inside the synthetic demo workspace.'')
      else Inr ())))"

section \<open>The lock\<close>

definition lock_place :: "workspace \<Rightarrow> place \<Rightarrow> place" where
  "lock_place W parent = parent @ [CHR ''.'' # ws_name W @ ''.lock'']"

text \<open>
  Entering \<^verbatim>\<open>with workspace.locked()\<close>: the workspace that holds the lock, and the place of the lock
  file, created with \<^verbatim>\<open>O_CREAT | O_EXCL\<close> and holding the process number.
\<close>

definition enter_lock :: "workspace \<Rightarrow> nat \<Rightarrow> (workspace \<times> place) action" where
  "enter_lock W pid =
     followed_by (asks (workspace_path W)) (\<lambda>p.
     followed_by (changes (mkdir_parents (butlast p))) (\<lambda>_.
     let lock = lock_place W (butlast p) in
     followed_by (changes (\<lambda>fs. if node_at fs lock \<noteq> None then Inl (ValueError ''Demo workspace is already in use.'')
       else Inr (dict_set lock (FileNode (nat_str pid)) fs))) (\<lambda>_.
     yields (W\<lparr>ws_locked := True\<rparr>, lock))))"

definition locked :: "workspace \<Rightarrow> nat \<Rightarrow> (workspace \<Rightarrow> 'a action) \<Rightarrow> 'a action" where
  "locked W pid body =
     followed_by (enter_lock W pid) (\<lambda>(W', lock) fs.
       case body W' fs of (r, fs1) \<Rightarrow>
       (case unlink_node lock fs1 of Inl e \<Rightarrow> (Inl e, fs1) | Inr fs2 \<Rightarrow> (r, fs2)))"

section \<open>Operations\<close>

definition DIRECTORIES :: "string list" where
  "DIRECTORIES = [''raw'', ''marts'', ''exports'', ''lineage'', ''logs'']"

definition ensure_directory :: "workspace \<Rightarrow> string \<Rightarrow> unit action" where
  "ensure_directory W directory =
     followed_by (asks (workspace_path W)) (\<lambda>p. changes (mkdir_ok (p @ [directory])))"

definition initialize :: "demo_site \<Rightarrow> workspace \<Rightarrow> unit action" where
  "initialize E W =
     followed_by (asks (\<lambda>_. require_lock W)) (\<lambda>_.
     followed_by (asks (workspace_path W)) (\<lambda>p.
     followed_by (\<lambda>fs. if exists_at fs p then asks (verify_owner E W) fs
        else followed_by (changes (mkdir_new p)) (\<lambda>_.
             changes (write_node (p @ [MARKER_FILE]) (de_dumps E MARKER @ [CHR 0x0A]))) fs) (\<lambda>_.
     each (ensure_directory W) DIRECTORIES)))"

definition reset :: "demo_site \<Rightarrow> workspace \<Rightarrow> unit action" where
  "reset E W =
     followed_by (asks (\<lambda>_. require_lock W)) (\<lambda>_.
     followed_by (asks (workspace_path W)) (\<lambda>p.
     followed_by (\<lambda>fs. if exists_at fs p
        then followed_by (asks (verify_owner E W)) (\<lambda>_. changes (\<lambda>fs. Inr (rmtree p fs))) fs
        else yields () fs) (\<lambda>_.
     initialize E W)))"

definition fixture_place :: "workspace \<Rightarrow> place" where
  "fixture_place W = ws_root W @ [''data'', ''synthetic'', ''small'', ''dataset_manifest.json'']"

definition fixture_hash :: "runtime \<Rightarrow> workspace \<Rightarrow> tree \<Rightarrow> string res" where
  "fixture_hash R W fs = and_then (read_node fs (fixture_place W)) (\<lambda>c. Inr (rt_sha256 R c))"

definition STAMP :: string where "STAMP = ''prepared.json''"

definition prepared :: "runtime \<Rightarrow> demo_site \<Rightarrow> workspace \<Rightarrow> tree \<Rightarrow> bool res" where
  "prepared R E W fs =
     (and_then (workspace_path W fs) (\<lambda>p.
      if \<not> exists_at fs (p @ [STAMP]) then Inr False
      else and_then (and_then (read_node fs (p @ [STAMP])) (de_loads E)) (\<lambda>stamp.
        case stamp of
          PDict d \<Rightarrow> and_then (fixture_hash R W fs) (\<lambda>h.
            if get_field d ''fixture_sha256'' \<noteq> PStr h
            then Inl (ValueError ''Synthetic fixtures changed. Use --reset to prepare a fresh demo.'')
            else Inr (is_file fs (p @ [''control.db''])))
        | _ \<Rightarrow> Inl (RuntimeError ''AttributeError''))))"

definition mark_prepared :: "runtime \<Rightarrow> demo_site \<Rightarrow> workspace \<Rightarrow> unit action" where
  "mark_prepared R E W =
     followed_by (asks (\<lambda>_. require_lock W)) (\<lambda>_.
     followed_by (asks (workspace_path W)) (\<lambda>p.
     followed_by (asks (fixture_hash R W)) (\<lambda>h.
     changes (write_node (p @ [STAMP]) (de_dumps E (PDict [(''fixture_sha256'', PStr h)]) @ [CHR 0x0A])))))"

text \<open>\<^verbatim>\<open>str(path)\<close> of an absolute POSIX path.\<close>

definition place_text :: "place \<Rightarrow> string" where
  "place_text p = (if p = [] then ''/'' else concat (map (\<lambda>c. CHR ''/'' # c) p))"

definition inherited :: "demo_site \<Rightarrow> (string \<times> string) list" where
  "inherited E = filter (\<lambda>(key, _). \<not> starts_with key ''EDUWORK_'' \<and> \<not> starts_with key ''VITE_'') (de_environ E)"

definition own_variables :: "demo_site \<Rightarrow> workspace \<Rightarrow> place \<Rightarrow> (string \<times> string) list" where
  "own_variables E W p =
     [(''EDUWORK_DATABASE_URL'', ''sqlite+pysqlite:///'' @ place_text (p @ [''control.db''])),
      (''EDUWORK_ENVIRONMENT'', ''development''), (''EDUWORK_DEMO_MODE'', ''true''),
      (''EDUWORK_DEMO_IDENTITY_ENABLED'', ''true''), (''EDUWORK_ALLOW_PRIVATE_NETWORK_SOURCES'', ''false''),
      (''EDUWORK_ALLOWED_FILE_ROOTS'', de_dumps E (PList [PStr (place_text (ws_root W @ [''data'', ''synthetic'']))])),
      (''EDUWORK_RAW_STORE_ROOT'', place_text (p @ [''raw''])), (''EDUWORK_MART_ROOT'', place_text (p @ [''marts''])),
      (''EDUWORK_EXPORT_ROOT'', place_text (p @ [''exports''])), (''EDUWORK_LINEAGE_ROOT'', place_text (p @ [''lineage''])),
      (''EDUWORK_TELEMETRY_ENABLED'', ''false''), (''EDUWORK_RATE_LIMIT_PER_MINUTE'', ''1000''),
      (''VITE_API_BASE_URL'', []), (''PYTHONUNBUFFERED'', ''1'')]"

definition demo_environment :: "demo_site \<Rightarrow> workspace \<Rightarrow> tree \<Rightarrow> (string \<times> string) list res" where
  "demo_environment E W fs =
     and_then (workspace_path W fs) (\<lambda>p.
       Inr (fold (\<lambda>(key, v). dict_set key v) (own_variables E W p) (inherited E)))"

end
