(* ===== verification/Demo_Workspace_Props.thy ===== *)
theory Demo_Workspace_Props
  imports Demo_Workspace
begin

text \<open>
  Properties of the demo storage: a reset changes nothing but an owned directory, the
  parents it creates and the lock; it leaves a fresh workspace; and the lock file keeps
  any number of launchers from working in one workspace at the same time.
\<close>

named_theorems tree_simps \<open>trees, place by place\<close>

section \<open>Places\<close>

definition home :: "workspace \<Rightarrow> place" where
  "home W = ws_root W @ [''var'', ''demos'', ws_name W]"

definition lock_of :: "workspace \<Rightarrow> place" where
  "lock_of W = lock_place W (butlast (home W))"

lemma inside_of_append [simp]: "inside_of p (p @ q)" "inside_of p p"
  by (simp_all add: inside_of_def)

lemma butlast_home [simp]: "butlast (home W) = ws_root W @ [''var'', ''demos'']"
  by (simp add: home_def butlast_append)

lemma lock_of_eq: "lock_of W = ws_root W @ [''var'', ''demos'', CHR ''.'' # ws_name W @ ''.lock'']"
  by (simp add: lock_of_def lock_place_def)

lemma lock_not_inside [simp]: "\<not> inside_of (home W) (lock_of W)"
proof -
  have "CHR ''.'' # x @ ''.lock'' \<noteq> x" for x :: string
  proof
    assume "CHR ''.'' # x @ ''.lock'' = x"
    then have "length (CHR ''.'' # x @ ''.lock'') = length x" by simp
    then show False by simp
  qed
  then show ?thesis by (simp add: inside_of_def home_def lock_of_eq)
qed

lemma not_inside_shorter: "length q < length p \<Longrightarrow> \<not> inside_of p q"
  by (auto simp: inside_of_def)

lemma home_parents [simp]: "\<not> inside_of (home W) (ws_root W @ [''var''])" "\<not> inside_of (home W) (ws_root W @ [''var'', ''demos''])"
  by (rule not_inside_shorter; simp add: home_def)+

section \<open>Trees, place by place\<close>

lemma node_at_simps [tree_simps]:
  "node_at (dict_set p n fs) q = (if q = p then Some n else node_at fs q)"
  "node_at (rmtree p fs) q = (if inside_of p q then None else node_at fs q)"
  "node_at (filter (\<lambda>(q, _). q \<noteq> p) fs) q = (if q = p then None else node_at fs q)"
proof -
  have *: "map_of (filter (\<lambda>(q, _). Q q) fs) q = (if Q q then map_of fs q else None)" for Q and q :: place
    by (induction fs) auto
  show "node_at (dict_set p n fs) q = (if q = p then Some n else node_at fs q)"
    by (simp add: node_at_def)
  show "node_at (rmtree p fs) q = (if inside_of p q then None else node_at fs q)"
    "node_at (filter (\<lambda>(q, _). q \<noteq> p) fs) q = (if q = p then None else node_at fs q)"
    by (simp_all add: node_at_def rmtree_def *)
qed

definition plain :: "tree \<Rightarrow> place \<Rightarrow> bool" where
  "plain fs p = (node_at fs p = None \<or> node_at fs p = Some DirNode)"

lemma safe_component_iff:
  "safe_component fs n p = (if plain fs (p @ [n]) then Inr (p @ [n]) else Inl (ValueError ''Refusing unsafe demo path''))"
  by (auto simp: safe_component_def Let_def plain_def is_symlink_def exists_at_def is_dir_def followed_def
      split: option.splits tree_node.splits)

definition path_ok :: "workspace \<Rightarrow> tree \<Rightarrow> bool" where
  "path_ok W fs = (plain fs (ws_root W @ [''var'']) \<and> plain fs (ws_root W @ [''var'', ''demos'']) \<and> plain fs (home W))"

lemma workspace_path_iff:
  "workspace_path W fs = (if path_ok W fs then Inr (home W) else Inl (ValueError ''Refusing unsafe demo path''))"
  by (simp add: workspace_path_def safe_component_iff path_ok_def home_def)

lemma path_ok_locked [simp]: "path_ok (W\<lparr>ws_locked := b\<rparr>) fs = path_ok W fs" "home (W\<lparr>ws_locked := b\<rparr>) = home W"
  "lock_of (W\<lparr>ws_locked := b\<rparr>) = lock_of W"
  by (simp_all add: path_ok_def home_def lock_of_eq)

lemma action_simps [tree_simps]:
  "followed_by m k fs = (case m fs of (Inl e, fs') \<Rightarrow> (Inl e, fs') | (Inr v, fs') \<Rightarrow> k v fs')"
  "asks a fs = (a fs, fs)" "yields u fs = (Inr u, fs)"
  "changes f fs = (case f fs of Inl e \<Rightarrow> (Inl e, fs) | Inr fs' \<Rightarrow> (Inr (), fs'))"
  by (simp_all add: followed_by_def asks_def yields_def changes_def)

text \<open>Two trees that agree at and below the workspace.\<close>

definition same_home :: "workspace \<Rightarrow> tree \<Rightarrow> tree \<Rightarrow> bool" where
  "same_home W fs fs' = (\<forall>q. inside_of (home W) q \<longrightarrow> node_at fs' q = node_at fs q)"

lemma verify_owner_same:
  assumes "same_home W fs fs'" and "path_ok W fs" and "path_ok W fs'"
  shows "verify_owner E W fs' = verify_owner E W fs"
proof -
  have at: "node_at fs' q = node_at fs q" if "inside_of (home W) q" for q
    using assms(1) that by (simp add: same_home_def)
  have links: "list_ex (\<lambda>(q, n). below (home W) q \<and> is_symlink fs q) fs = (\<exists>q. below (home W) q \<and> is_symlink fs q)" for fs
    by (force simp: list_ex_iff is_symlink_def node_at_def split: option.splits dest: map_of_SomeD)
  have link: "is_symlink fs' q = is_symlink fs q" if "inside_of (home W) q" for q
    by (simp add: is_symlink_def at [OF that])
  have "marker_valid E fs' (home W @ [MARKER_FILE]) = marker_valid E fs (home W @ [MARKER_FILE])"
    by (auto simp: marker_valid_def read_node_def followed_def at is_symlink_def split: option.splits tree_node.splits)
  moreover have "(\<exists>q. below (home W) q \<and> is_symlink fs' q) = (\<exists>q. below (home W) q \<and> is_symlink fs q)"
    using link by (auto simp: below_def)
  ultimately show ?thesis using assms(2,3)
    by (auto simp: verify_owner_def workspace_path_iff links and_then_def)
qed

section \<open>Initialising\<close>

lemma ensure_directory_at:
  "ensure_directory W d fs = (if path_ok W fs then changes (mkdir_ok (home W @ [d])) fs
     else (Inl (ValueError ''Refusing unsafe demo path''), fs))"
  by (simp add: ensure_directory_def followed_by_def asks_def workspace_path_iff)

lemma each_mkdir:
  assumes "path_ok W fs" and "node_at fs (home W) = Some DirNode" and "\<forall>d \<in> set ds. plain fs (home W @ [d])"
  shows "\<exists>fs'. each (ensure_directory W) ds fs = (Inr (), fs')
    \<and> (\<forall>q. node_at fs' q = (if \<exists>d \<in> set ds. q = home W @ [d] then Some DirNode else node_at fs q))"
  using assms
proof (induction ds arbitrary: fs)
  case Nil
  then show ?case by (simp add: yields_def)
next
  case (Cons d ds)
  obtain fs1 where fs1: "mkdir_ok (home W @ [d]) fs = Inr fs1"
    "\<forall>q. node_at fs1 q = (if q = home W @ [d] then Some DirNode else node_at fs q)"
    using Cons.prems by (auto simp: mkdir_ok_def mkdir_new_def plain_def is_dir_def followed_def tree_simps)
  have "home W @ [d] \<noteq> home W" "ws_root W @ [''var''] \<noteq> home W @ [d]" "ws_root W @ [''var'', ''demos''] \<noteq> home W @ [d]"
    by (simp_all add: home_def)
  with fs1 Cons.prems have "path_ok W fs1" "node_at fs1 (home W) = Some DirNode" "\<forall>d \<in> set ds. plain fs1 (home W @ [d])"
    by (auto simp: path_ok_def plain_def)
  from Cons.IH [OF this] obtain fs2 where fs2: "each (ensure_directory W) ds fs1 = (Inr (), fs2)"
    "\<forall>q. node_at fs2 q = (if \<exists>d \<in> set ds. q = home W @ [d] then Some DirNode else node_at fs1 q)" by blast
  have "ensure_directory W d fs = (Inr (), fs1)"
    using Cons.prems(1) fs1(1) by (simp add: ensure_directory_at changes_def)
  with fs1(2) fs2 show ?case by (intro exI [of _ fs2]) (auto simp: followed_by_def)
qed

text \<open>What a fresh workspace holds.\<close>

definition fresh :: "demo_site \<Rightarrow> workspace \<Rightarrow> place \<Rightarrow> tree_node option" where
  "fresh E W q = (if q = home W then Some DirNode
     else if q = home W @ [MARKER_FILE] then Some (FileNode (de_dumps E MARKER @ [CHR 0x0A]))
     else if \<exists>d \<in> set DIRECTORIES. q = home W @ [d] then Some DirNode else None)"

lemma initialize_fresh:
  assumes "ws_locked W" and "path_ok W fs" and "is_dir fs (butlast (home W))"
    and none: "\<forall>q. inside_of (home W) q \<longrightarrow> node_at fs q = None"
  shows "\<exists>fs'. initialize E W fs = (Inr (), fs')
    \<and> (\<forall>q. node_at fs' q = (if inside_of (home W) q then fresh E W q else node_at fs q))"
proof -
  have absent: "node_at fs (home W) = None" "node_at fs (home W @ [x]) = None" for x using none by simp_all
  let ?c = "de_dumps E MARKER @ [CHR 0x0A]"
  let ?fs2 = "dict_set (home W @ [MARKER_FILE]) (FileNode ?c) (dict_set (home W) DirNode fs)"
  have marker: "home W \<noteq> home W @ [MARKER_FILE]" "ws_root W @ [''var''] \<noteq> home W @ [MARKER_FILE]"
    "ws_root W @ [''var'', ''demos''] \<noteq> home W @ [MARKER_FILE]" "ws_root W @ [''var''] \<noteq> home W" "ws_root W @ [''var'', ''demos''] \<noteq> home W"
    by (simp_all add: home_def)
  have "path_ok W ?fs2" "node_at ?fs2 (home W) = Some DirNode" "\<forall>d \<in> set DIRECTORIES. plain ?fs2 (home W @ [d])"
    using assms(2) marker absent by (auto simp: path_ok_def plain_def tree_simps MARKER_FILE_def DIRECTORIES_def)
  from each_mkdir [OF this] obtain fs' where fs': "each (ensure_directory W) DIRECTORIES ?fs2 = (Inr (), fs')"
    "\<forall>q. node_at fs' q = (if \<exists>d \<in> set DIRECTORIES. q = home W @ [d] then Some DirNode else node_at ?fs2 q)" by blast
  have "home W \<noteq> []" by (simp add: home_def)
  then have missing: "\<not> exists_at fs (home W)" using absent by (simp add: exists_at_def followed_def)
  have "mkdir_new (home W) fs = Inr (dict_set (home W) DirNode fs)"
    using assms(3) absent by (simp add: mkdir_new_def)
  moreover have "write_node (home W @ [MARKER_FILE]) ?c (dict_set (home W) DirNode fs) = Inr ?fs2"
    using absent by (simp add: write_node_def is_dir_def followed_def tree_simps)
  ultimately have "initialize E W fs = (Inr (), fs')"
    using assms(1,2) missing fs'(1) by (simp add: initialize_def tree_simps require_lock_def workspace_path_iff)
  moreover have "node_at fs' q = (if inside_of (home W) q then fresh E W q else node_at fs q)" for q
    using fs'(2) none marker by (auto simp: fresh_def tree_simps MARKER_FILE_def DIRECTORIES_def)
  ultimately show ?thesis by blast
qed

section \<open>The lock and the reset\<close>

text \<open>Every place of the tree lies in a directory; the root of the workspace is one.\<close>

definition tree_ok :: "tree \<Rightarrow> bool" where
  "tree_ok fs = list_all (\<lambda>(q, _). q \<noteq> [] \<and> (butlast q = [] \<or> node_at fs (butlast q) = Some DirNode)) fs"

definition root_ok :: "workspace \<Rightarrow> tree \<Rightarrow> bool" where
  "root_ok W fs = (\<forall>k < length (ws_root W). node_at fs (take (Suc k) (ws_root W)) = Some DirNode)"

lemma nothing_below:
  assumes "tree_ok fs" and "p \<noteq> []" and "node_at fs p = None" and "inside_of p q"
  shows "node_at fs q = None"
proof -
  from assms(4) obtain r where q: "q = p @ r" unfolding inside_of_def by (metis append_take_drop_id)
  have "node_at fs (p @ r) = None"
  proof (induction r rule: rev_induct)
    case Nil
    then show ?case using assms(3) by simp
  next
    case (snoc x r)
    show ?case
    proof (rule ccontr)
      assume "node_at fs (p @ r @ [x]) \<noteq> None"
      then obtain n where "(p @ r @ [x], n) \<in> set fs" by (auto simp: node_at_def dest: map_of_SomeD)
      then have "node_at fs (p @ r) = Some DirNode"
        using assms(1,2) by (auto simp: tree_ok_def list_all_iff butlast_append split: if_splits)
      with snoc show False by simp
    qed
  qed
  with q show ?thesis by simp
qed

lemma res_fold_same: "(\<And>x. x \<in> set xs \<Longrightarrow> f x s = Inr s) \<Longrightarrow> res_fold f xs s = Inr s"
  by (induction xs) auto

lemma mkdir_ok_plain:
  assumes "plain fs p" and "p \<noteq> []" and "is_dir fs (butlast p)"
  shows "\<exists>fs'. mkdir_ok p fs = Inr fs' \<and> (\<forall>q. node_at fs' q = (if q = p then Some DirNode else node_at fs q))"
  using assms by (auto simp: mkdir_ok_def mkdir_new_def plain_def is_dir_def followed_def tree_simps)

text \<open>The parents of the workspace, made where they are missing.\<close>

definition parents :: "workspace \<Rightarrow> place set" where
  "parents W = {ws_root W @ [''var''], ws_root W @ [''var'', ''demos'']}"

lemma mkdir_parents_eval:
  assumes "root_ok W fs" and "path_ok W fs"
  shows "\<exists>fs'. mkdir_parents (butlast (home W)) fs = Inr fs'
    \<and> (\<forall>q. node_at fs' q = (if q \<in> parents W then Some DirNode else node_at fs q))"
proof -
  let ?r = "ws_root W"
  have root_dir: "is_dir fs ?r"
  proof (cases "?r = []")
    case False
    then have "node_at fs (take (Suc (length ?r - 1)) ?r) = Some DirNode"
      using assms(1) unfolding root_ok_def by (metis One_nat_def diff_less length_greater_0_conv zero_less_one)
    with False show ?thesis by (simp add: is_dir_def followed_def)
  qed (simp add: is_dir_def)
  obtain fs1 where fs1: "mkdir_ok (?r @ [''var'']) fs = Inr fs1"
    "\<forall>q. node_at fs1 q = (if q = ?r @ [''var''] then Some DirNode else node_at fs q)"
    using mkdir_ok_plain [of fs "?r @ [''var'']"] assms(2) root_dir by (auto simp: path_ok_def)
  have "plain fs1 (?r @ [''var'', ''demos''])" "is_dir fs1 (butlast (?r @ [''var'', ''demos'']))"
    using fs1(2) assms(2) by (auto simp: path_ok_def plain_def is_dir_def followed_def butlast_append)
  then obtain fs2 where fs2: "mkdir_ok (?r @ [''var'', ''demos'']) fs1 = Inr fs2"
    "\<forall>q. node_at fs2 q = (if q = ?r @ [''var'', ''demos''] then Some DirNode else node_at fs1 q)"
    using mkdir_ok_plain [of fs1 "?r @ [''var'', ''demos'']"] by auto
  let ?p = "butlast (home W)"
  have "map (\<lambda>k. take (Suc k) ?p) [0..<length ?p] =
      map (\<lambda>k. take (Suc k) ?r) [0..<length ?r] @ [?r @ [''var''], ?r @ [''var'', ''demos'']]"
    by (simp add: numeral_2_eq_2)
  moreover have "res_fold mkdir_ok (map (\<lambda>k. take (Suc k) ?r) [0..<length ?r]) fs = Inr fs"
    by (rule res_fold_same) (use assms(1) in \<open>auto simp: root_ok_def mkdir_ok_def is_dir_def followed_def\<close>)
  ultimately have "mkdir_parents ?p fs = Inr fs2"
    by (simp only: mkdir_parents_def res_fold_append) (simp add: fs1(1) fs2(1))
  with fs1(2) fs2(2) show ?thesis by (auto simp: parents_def)
qed

lemma lock_facts [simp]: "lock_of W \<notin> parents W" "home W \<notin> parents W" "inside_of (home W) q \<Longrightarrow> q \<notin> parents W"
    "inside_of (home W) q \<Longrightarrow> q \<noteq> lock_of W"
  by (auto simp: lock_of_eq parents_def home_def inside_of_def)

lemma enter_lock_eval:
  assumes "root_ok W fs" and "path_ok W fs"
  shows "\<exists>fs1. (\<forall>q. node_at fs1 q = (if q \<in> parents W then Some DirNode else node_at fs q))
    \<and> enter_lock W pid fs = (if node_at fs (lock_of W) \<noteq> None then (Inl (ValueError ''Demo workspace is already in use.''), fs1)
        else (Inr (W\<lparr>ws_locked := True\<rparr>, lock_of W), dict_set (lock_of W) (FileNode (nat_str pid)) fs1))"
proof -
  obtain fs1 where fs1: "mkdir_parents (butlast (home W)) fs = Inr fs1"
    "\<forall>q. node_at fs1 q = (if q \<in> parents W then Some DirNode else node_at fs q)"
    using mkdir_parents_eval [OF assms] by blast
  then have "node_at fs1 (lock_of W) = node_at fs (lock_of W)" by simp
  with fs1 assms(2) show ?thesis
    by (intro exI [of _ fs1]) (simp add: enter_lock_def tree_simps workspace_path_iff Let_def lock_of_def [symmetric] del: butlast_home)
qed

lemma verify_owner_locked [simp]: "verify_owner E (W\<lparr>ws_locked := b\<rparr>) fs = verify_owner E W fs"
  by (simp add: verify_owner_def workspace_path_iff)

lemma verify_owner_path: "verify_owner E W fs = Inr u \<Longrightarrow> path_ok W fs"
  by (auto simp: verify_owner_def workspace_path_iff and_then_def split: if_splits)

lemma home_exists: "path_ok W fs \<Longrightarrow> exists_at fs (home W) = (node_at fs (home W) = Some DirNode)"
  by (auto simp: path_ok_def plain_def exists_at_def followed_def home_def)

text \<open>A reset under the lock, on a tree where an absent workspace has nothing below it.\<close>

lemma reset_eval:
  assumes "ws_locked W" and "path_ok W fs" and "is_dir fs (butlast (home W))"
    and none: "node_at fs (home W) = None \<Longrightarrow> \<forall>q. inside_of (home W) q \<longrightarrow> node_at fs q = None"
  shows "\<exists>fs'. reset E W fs = (case (if exists_at fs (home W) then verify_owner E W fs else Inr ()) of
        Inl e \<Rightarrow> (Inl e, fs) | Inr _ \<Rightarrow> (Inr (), fs'))
    \<and> (\<forall>q. node_at fs' q = (if inside_of (home W) q then fresh E W q else node_at fs q))"
proof (cases "exists_at fs (home W)")
  case True
  let ?fs1 = "rmtree (home W) fs"
  have "path_ok W ?fs1" using assms(2) by (auto simp: path_ok_def plain_def tree_simps)
  moreover have "is_dir ?fs1 (butlast (home W))"
  proof -
    have "plain fs (ws_root W @ [''var'', ''demos''])" using assms(2) by (simp add: path_ok_def)
    then show ?thesis using assms(3) by (auto simp: is_dir_def followed_def tree_simps plain_def)
  qed
  moreover have "\<forall>q. inside_of (home W) q \<longrightarrow> node_at ?fs1 q = None" by (simp add: tree_simps)
  ultimately obtain fs' where "initialize E W ?fs1 = (Inr (), fs')"
    "\<forall>q. node_at fs' q = (if inside_of (home W) q then fresh E W q else node_at ?fs1 q)"
    using initialize_fresh [OF assms(1)] by blast
  with True assms(1,2) show ?thesis
    by (intro exI [of _ fs']) (auto simp: reset_def tree_simps require_lock_def workspace_path_iff split: sum.splits)
next
  case False
  then have "node_at fs (home W) = None" using home_exists [OF assms(2)] assms(2) by (simp add: path_ok_def plain_def)
  then obtain fs' where "initialize E W fs = (Inr (), fs')"
    "\<forall>q. node_at fs' q = (if inside_of (home W) q then fresh E W q else node_at fs q)"
    using initialize_fresh [OF assms(1-3)] none by blast
  with False assms(1,2) show ?thesis
    by (intro exI [of _ fs']) (auto simp: reset_def tree_simps require_lock_def workspace_path_iff)
qed

text \<open>When a reset may go ahead: a safe path, a free lock, and nothing there that is not owned.\<close>

definition may_reset :: "demo_site \<Rightarrow> workspace \<Rightarrow> tree \<Rightarrow> bool" where
  "may_reset E W fs = (path_ok W fs \<and> node_at fs (lock_of W) = None
     \<and> (exists_at fs (home W) \<longrightarrow> verify_owner E W fs = Inr ()))"

lemma locked_reset_eval:
  assumes "tree_ok fs" and "root_ok W fs" and "locked W pid (reset E) fs = (r, fs')"
  shows "(r = Inr () \<longleftrightarrow> may_reset E W fs)
    \<and> (\<forall>q. inside_of (home W) q \<longrightarrow> node_at fs' q = (if r = Inr () then fresh E W q else node_at fs q))
    \<and> (\<forall>q. \<not> inside_of (home W) q \<and> q \<notin> parents W \<longrightarrow> node_at fs' q = node_at fs q)"
proof (cases "path_ok W fs")
  case False
  then have "enter_lock W pid fs = (Inl (ValueError ''Refusing unsafe demo path''), fs)"
    by (simp add: enter_lock_def tree_simps workspace_path_iff)
  with assms(3) False show ?thesis by (auto simp: locked_def tree_simps may_reset_def)
next
  case path: True
  obtain fs1 where fs1: "\<And>q. node_at fs1 q = (if q \<in> parents W then Some DirNode else node_at fs q)"
    and enter: "enter_lock W pid fs = (if node_at fs (lock_of W) \<noteq> None then (Inl (ValueError ''Demo workspace is already in use.''), fs1)
        else (Inr (W\<lparr>ws_locked := True\<rparr>, lock_of W), dict_set (lock_of W) (FileNode (nat_str pid)) fs1))"
    using enter_lock_eval [OF assms(2) path, of pid] by blast
  show ?thesis
  proof (cases "node_at fs (lock_of W) = None")
    case False
    with enter assms(3) fs1 show ?thesis by (auto simp: locked_def tree_simps may_reset_def)
  next
    case free: True
    let ?W = "W\<lparr>ws_locked := True\<rparr>" and ?fs2 = "dict_set (lock_of W) (FileNode (nat_str pid)) fs1"
    have fs2: "node_at ?fs2 q = (if q = lock_of W then Some (FileNode (nat_str pid))
        else if q \<in> parents W then Some DirNode else node_at fs q)" for q
      by (simp add: tree_simps fs1)
    have path2: "path_ok W ?fs2"
      using path fs2 by (auto simp: path_ok_def plain_def parents_def lock_of_eq home_def)
    have "node_at ?fs2 (butlast (home W)) = Some DirNode"
      using fs2 [of "butlast (home W)"] by (simp add: parents_def lock_of_eq)
    then have dir: "is_dir ?fs2 (butlast (home W))" by (simp add: is_dir_def followed_def)
    have same: "same_home W fs ?fs2" by (simp add: same_home_def fs2)
    have none: "\<forall>q. inside_of (home W) q \<longrightarrow> node_at ?fs2 q = None" if "node_at ?fs2 (home W) = None"
    proof (intro allI impI)
      fix q assume "inside_of (home W) q"
      then show "node_at ?fs2 q = None"
        using nothing_below [OF assms(1), of "home W" q] that by (simp add: fs2 home_def)
    qed
    have exists: "exists_at ?fs2 (home W) = exists_at fs (home W)"
      unfolding home_exists [OF path] home_exists [OF path2] by (simp add: fs2)
    obtain fs3 where run: "reset E ?W ?fs2 = (case (if exists_at fs (home W) then verify_owner E W fs else Inr ()) of
        Inl e \<Rightarrow> (Inl e, ?fs2) | Inr _ \<Rightarrow> (Inr (), fs3))"
      and fs3: "\<And>q. node_at fs3 q = (if inside_of (home W) q then fresh E W q else node_at ?fs2 q)"
      using reset_eval [of ?W ?fs2 E] path2 dir none exists verify_owner_same [OF same path path2]
      by (auto simp: fresh_def)
    have lock: "node_at fs3 (lock_of W) \<noteq> None" "node_at ?fs2 (lock_of W) \<noteq> None" by (simp_all add: fs3 fs2)
    show ?thesis
    proof (cases "if exists_at fs (home W) then verify_owner E W fs else Inr ()")
      case (Inl e)
      then have "r = Inl e" "fs' = filter (\<lambda>(q, _). q \<noteq> lock_of W) ?fs2"
        using assms(3) enter free run lock(2) by (simp_all add: locked_def tree_simps unlink_node_def)
      with Inl show ?thesis using free by (auto simp: may_reset_def tree_simps(3) fs2 split: if_splits)
    next
      case (Inr u)
      then have "r = Inr ()" "fs' = filter (\<lambda>(q, _). q \<noteq> lock_of W) fs3"
        using assms(3) enter free run lock(1) by (simp_all add: locked_def tree_simps unlink_node_def)
      with Inr path free show ?thesis by (auto simp: may_reset_def tree_simps(3) fs3 fs2 split: if_splits)
    qed
  qed
qed

text \<open>
  C33: \<^verbatim>\<open>reset\<close> under the lock, on a tree whose every place lies in a directory, changes nothing outside the workspace but the
  directories \<^verbatim>\<open>var\<close> and \<^verbatim>\<open>var/demos\<close> it makes. It succeeds exactly when the
  path holds no link and no file in the way, the lock is free and what is there, if anything, is owned: marked,
  and without symbolic links. Then the workspace is a fresh one; otherwise not one of its files
  is changed.
\<close>

theorem reset_touches_only_owned:
  assumes "tree_ok fs" and "root_ok W fs"
  shows "let (r, fs') = locked W pid (reset E) fs in
      (r = Inr () \<longleftrightarrow> may_reset E W fs)
    \<and> (\<forall>q. inside_of (home W) q \<longrightarrow> node_at fs' q = (if r = Inr () then fresh E W q else node_at fs q))
    \<and> (\<forall>q. \<not> inside_of (home W) q \<and> q \<notin> parents W \<longrightarrow> node_at fs' q = node_at fs q)"
proof -
  obtain r fs' where "locked W pid (reset E) fs = (r, fs')" by (cases "locked W pid (reset E) fs")
  with locked_reset_eval [OF assms this] show ?thesis by simp
qed

definition demo_workspace :: workspace where
  "demo_workspace = \<lparr>ws_root = [''repo''], ws_name = ''quickstart'', ws_locked = False\<rparr>"

definition demo_json :: demo_site where
  "demo_json = \<lparr>de_loads = (\<lambda>t. if t = ''marker'' @ [CHR 0x0A] then Inr MARKER else Inl (ValueError ''json'')),
     de_dumps = (\<lambda>v. ''marker''), de_environ = []\<rparr>"

text \<open>A workspace with saved data, once owned and once with another marker.\<close>

definition demo_tree :: "string \<Rightarrow> tree" where
  "demo_tree marker =
     [([''repo''], DirNode), ([''repo'', ''var''], DirNode), ([''repo'', ''var'', ''demos''], DirNode),
      ([''repo'', ''var'', ''demos'', ''quickstart''], DirNode),
      ([''repo'', ''var'', ''demos'', ''quickstart'', MARKER_FILE], FileNode marker),
      ([''repo'', ''var'', ''demos'', ''quickstart'', ''control.db''], FileNode ''reviews'')]"

theorem reset_touches_only_owned_witness:
  "(let (r, fs') = locked demo_workspace 1 (reset demo_json) (demo_tree (''marker'' @ [CHR 0x0A])) in
      r = Inr () \<and> node_at fs' (home demo_workspace @ [''control.db'']) = None)
   \<and> (let (r, fs') = locked demo_workspace 1 (reset demo_json) (demo_tree ''notes'') in
      r \<noteq> Inr () \<and> node_at fs' (home demo_workspace @ [''control.db'']) = Some (FileNode ''reviews''))"
proof -
  have ok: "tree_ok (demo_tree m)" "root_ok demo_workspace (demo_tree m)" for m
    by (simp_all add: tree_ok_def root_ok_def demo_tree_def demo_workspace_def node_at_def)
  have may: "may_reset demo_json demo_workspace (demo_tree (''marker'' @ [CHR 0x0A]))"
    "\<not> may_reset demo_json demo_workspace (demo_tree ''notes'')"
    by (simp_all add: may_reset_def path_ok_def plain_def node_at_def demo_tree_def demo_workspace_def home_def lock_of_eq
        exists_at_def followed_def verify_owner_def workspace_path_iff and_then_def marker_valid_def is_symlink_def
        read_node_def demo_json_def equals_marker_def MARKER_def MARKER_FILE_def is_os_error_def is_value_error_def FILE_EXISTS_def IS_A_DIRECTORY_def)
  have place: "fresh demo_json demo_workspace (home demo_workspace @ [''control.db'']) = None"
    "node_at (demo_tree ''notes'') (home demo_workspace @ [''control.db'']) = Some (FileNode ''reviews'')"
    by (simp_all add: fresh_def MARKER_FILE_def DIRECTORIES_def demo_tree_def demo_workspace_def home_def node_at_def)
  show ?thesis
    using reset_touches_only_owned [OF ok, of 1 demo_json "''marker'' @ [CHR 0x0A]"]
      reset_touches_only_owned [OF ok, of 1 demo_json "''notes''"] may place
    by (auto simp: Let_def split: prod.splits)
qed

end
