(* ===== verification/Demo_Locking.thy ===== *)
theory Demo_Locking
  imports Demo_Workspace_Props
begin

text \<open>
  Several launchers on one demo workspace: each may enter \<^verbatim>\<open>with workspace.locked()\<close>, work
  on the files there, leave, or be killed with the lock file left behind, in any order. The
  steps are the ones of \<^verbatim>\<open>scripts/demo_workspace.py\<close> on one shared tree.
\<close>

section \<open>Steps\<close>

record site =
  si_tree :: tree
  si_inside :: "nat set"

text \<open>What a launcher does with the workspace it holds.\<close>

definition works :: "runtime \<Rightarrow> demo_site \<Rightarrow> workspace \<Rightarrow> unit action set" where
  "works R E W = {initialize E W, reset E W, mark_prepared R E W}"

text \<open>
  \<open>outside_work\<close> stands for the programs a launcher starts and for everything else on the
  machine: any change of the tree that leaves the lock file as it is.
\<close>

inductive site_step :: "runtime \<Rightarrow> demo_site \<Rightarrow> workspace \<Rightarrow> site \<Rightarrow> site \<Rightarrow> bool"
  for R E W where
  enter: "p \<notin> si_inside s \<Longrightarrow> enter_lock W p (si_tree s) = (Inr (W', lock), fs')
    \<Longrightarrow> site_step R E W s \<lparr>si_tree = fs', si_inside = insert p (si_inside s)\<rparr>"
| refused: "p \<notin> si_inside s \<Longrightarrow> enter_lock W p (si_tree s) = (Inl e, fs')
    \<Longrightarrow> site_step R E W s (s\<lparr>si_tree := fs'\<rparr>)"
| work: "p \<in> si_inside s \<Longrightarrow> m \<in> works R E (W\<lparr>ws_locked := True\<rparr>) \<Longrightarrow> m (si_tree s) = (r, fs')
    \<Longrightarrow> site_step R E W s (s\<lparr>si_tree := fs'\<rparr>)"
| outside_work: "node_at fs' (lock_of W) = node_at (si_tree s) (lock_of W) \<Longrightarrow> site_step R E W s (s\<lparr>si_tree := fs'\<rparr>)"
| leave: "p \<in> si_inside s \<Longrightarrow> unlink_node (lock_of W) (si_tree s) = Inr fs'
    \<Longrightarrow> site_step R E W s \<lparr>si_tree = fs', si_inside = si_inside s - {p}\<rparr>"
| killed: "p \<in> si_inside s \<Longrightarrow> site_step R E W s (s\<lparr>si_inside := si_inside s - {p}\<rparr>)"

inductive_cases site_stepE: "site_step R E W s s'"

definition reachable :: "runtime \<Rightarrow> demo_site \<Rightarrow> workspace \<Rightarrow> site \<Rightarrow> site \<Rightarrow> bool" where
  "reachable R E W = (site_step R E W)\<^sup>*\<^sup>*"

section \<open>The lock file stays\<close>

text \<open>An action that never removes the lock file.\<close>

definition keeps_lock :: "workspace \<Rightarrow> 'a action \<Rightarrow> bool" where
  "keeps_lock W m = (\<forall>fs. node_at fs (lock_of W) \<noteq> None \<longrightarrow> node_at (snd (m fs)) (lock_of W) \<noteq> None)"

named_theorems lock_intros \<open>actions that keep the lock file\<close>

lemma keeps_asks [lock_intros]: "keeps_lock W (asks f)"
  by (simp add: keeps_lock_def asks_def)

lemma keeps_yields [lock_intros]: "keeps_lock W (yields v)"
  by (simp add: keeps_lock_def yields_def)

lemma keeps_followed_by [lock_intros]:
  "keeps_lock W m \<Longrightarrow> (\<And>v. keeps_lock W (k v)) \<Longrightarrow> keeps_lock W (followed_by m k)"
  by (auto simp: keeps_lock_def followed_by_def split: prod.splits sum.splits)

lemma keeps_if [lock_intros]:
  "keeps_lock W m \<Longrightarrow> keeps_lock W m' \<Longrightarrow> keeps_lock W (\<lambda>fs. if P fs then m fs else m' fs)"
  by (simp add: keeps_lock_def)

lemma keeps_each [lock_intros]: "(\<And>x. keeps_lock W (f x)) \<Longrightarrow> keeps_lock W (each f xs)"
  by (induction xs) (auto intro: lock_intros)

lemma keeps_changes [lock_intros]:
  "keeps_lock W (changes (mkdir_new p))" "keeps_lock W (changes (mkdir_ok p))" "keeps_lock W (changes (write_node p c))"
  by (auto simp: keeps_lock_def changes_def mkdir_new_def mkdir_ok_def write_node_def tree_simps
      split: option.splits tree_node.splits sum.splits)

lemma keeps_home [lock_intros]:
  assumes "keeps_lock W (k (home W))"
  shows "keeps_lock W (followed_by (asks (workspace_path W)) k)"
  using assms by (simp add: keeps_lock_def followed_by_def asks_def workspace_path_iff)

lemma keeps_rmtree [lock_intros]: "keeps_lock W (changes (\<lambda>fs. Inr (rmtree (home W) fs)))"
  by (simp add: keeps_lock_def changes_def tree_simps)

lemma keeps_initialize: "keeps_lock W (initialize E W)"
  unfolding initialize_def ensure_directory_def
  by (intro keeps_home keeps_followed_by keeps_if keeps_each keeps_asks keeps_changes)

lemma keeps_reset: "keeps_lock W (reset E W)"
  unfolding reset_def
  by (intro keeps_followed_by [OF keeps_asks] keeps_home)
    (intro keeps_followed_by keeps_if keeps_asks keeps_yields keeps_rmtree keeps_initialize)

lemma keeps_mark_prepared: "keeps_lock W (mark_prepared R E W)"
  unfolding mark_prepared_def
  by (intro keeps_followed_by keeps_asks keeps_changes)

lemma works_keep: "m \<in> works R E W \<Longrightarrow> keeps_lock W m"
  using keeps_initialize keeps_reset keeps_mark_prepared by (auto simp: works_def)

lemma keeps_lock_locked [simp]: "keeps_lock (W\<lparr>ws_locked := b\<rparr>) m = keeps_lock W m"
  by (simp add: keeps_lock_def)

text \<open>Entering changes the lock place from free to taken, and a refusal leaves it as it is.\<close>

lemma mkdir_parents_keeps:
  assumes "mkdir_parents p fs = Inr fs'" and "length p < length q"
  shows "node_at fs' q = node_at fs q"
proof -
  have step: "node_at s' q = node_at s q" if "x \<in> set (map (\<lambda>k. take (Suc k) p) [0..<length p])" "mkdir_ok x s = Inr s'" for x s s'
  proof -
    have "x \<noteq> q" using that(1) assms(2) by auto
    with that(2) show ?thesis by (auto simp: mkdir_ok_def mkdir_new_def tree_simps split: if_splits)
  qed
  show ?thesis
    using assms(1) unfolding mkdir_parents_def
    by (rule res_fold_inv [where I = "\<lambda>s. node_at s q = node_at fs q"]) (use step in auto)
qed

lemma mkdir_parents_of_lock: "mkdir_parents (butlast (home W)) fs = Inr fs' \<Longrightarrow> node_at fs' (lock_of W) = node_at fs (lock_of W)"
  using mkdir_parents_keeps [of "butlast (home W)" fs fs' "lock_of W"] by (simp add: lock_of_eq)

lemma enter_lock_Inr:
  assumes "enter_lock W p fs = (Inr x, fs')"
  shows "node_at fs (lock_of W) = None" and "node_at fs' (lock_of W) \<noteq> None"
  using assms mkdir_parents_of_lock [of W fs]
  by (auto simp: enter_lock_def action_simps workspace_path_iff Let_def lock_of_def [symmetric] tree_simps(1)
      simp del: butlast_home split: sum.splits if_splits)

lemma enter_lock_Inl:
  assumes "enter_lock W p fs = (Inl e, fs')"
  shows "node_at fs' (lock_of W) = node_at fs (lock_of W)"
  using assms mkdir_parents_of_lock [of W fs]
  by (auto simp: enter_lock_def action_simps workspace_path_iff Let_def lock_of_def [symmetric]
      simp del: butlast_home split: sum.splits if_splits)

section \<open>One launcher at a time\<close>

definition exclusive :: "workspace \<Rightarrow> site \<Rightarrow> bool" where
  "exclusive W s = ((\<forall>p \<in> si_inside s. \<forall>q \<in> si_inside s. p = q)
     \<and> (si_inside s \<noteq> {} \<longrightarrow> node_at (si_tree s) (lock_of W) \<noteq> None))"

lemma exclusive_step:
  assumes "site_step R E W s s'" and "exclusive W s"
  shows "exclusive W s'"
  using assms(1)
proof cases
  case (enter p W' lock fs')
  then have "si_inside s = {}" using enter_lock_Inr(1) assms(2) by (auto simp: exclusive_def)
  with enter enter_lock_Inr(2) show ?thesis by (auto simp: exclusive_def)
next
  case (refused p e fs')
  with assms(2) enter_lock_Inl [OF refused(3)] show ?thesis by (simp add: exclusive_def)
next
  case (work p m r fs')
  have "keeps_lock W m" using works_keep [OF work(3)] by simp
  then have "node_at fs' (lock_of W) \<noteq> None" if "node_at (si_tree s) (lock_of W) \<noteq> None"
    using that work(4) unfolding keeps_lock_def by (metis snd_conv)
  with assms(2) work(1) show ?thesis by (auto simp: exclusive_def)
next
  case (outside_work fs')
  with assms(2) show ?thesis by (simp add: exclusive_def)
next
  case (leave p fs')
  with assms(2) show ?thesis by (auto simp: exclusive_def)
next
  case (killed p)
  with assms(2) show ?thesis by (auto simp: exclusive_def)
qed

lemma exclusive_reachable:
  assumes "reachable R E W s s'" and "exclusive W s"
  shows "exclusive W s'"
  using assms unfolding reachable_def by (induction rule: rtranclp_induct) (auto intro: exclusive_step)

text \<open>
  C34: from any tree and no launcher at work, whatever launchers enter, work, leave or are killed in whatever
  order: at most one launcher is inside \<^verbatim>\<open>with workspace.locked()\<close> at any time, the lock file is there while
  one is, and while the lock file is there, left by a killed launcher too, no launcher enters.
\<close>

theorem one_launcher_at_a_time:
  assumes "reachable R E W \<lparr>si_tree = fs, si_inside = {}\<rparr> s"
  shows "(\<forall>p \<in> si_inside s. \<forall>q \<in> si_inside s. p = q)
    \<and> (si_inside s \<noteq> {} \<longrightarrow> node_at (si_tree s) (lock_of W) \<noteq> None)
    \<and> (node_at (si_tree s) (lock_of W) \<noteq> None \<longrightarrow> (\<forall>p. isl (fst (enter_lock W p (si_tree s)))))"
proof -
  have "exclusive W s" by (rule exclusive_reachable [OF assms]) (simp add: exclusive_def)
  moreover have "isl (fst (enter_lock W p (si_tree s)))" if "node_at (si_tree s) (lock_of W) \<noteq> None" for p
    using that enter_lock_Inr(1) by (cases "enter_lock W p (si_tree s)"; cases "fst (enter_lock W p (si_tree s))") force+
  ultimately show ?thesis by (simp add: exclusive_def)
qed

text \<open>One launcher enters, resets and is killed: its lock keeps the next one out.\<close>

theorem one_launcher_at_a_time_witness:
  "\<exists>s. reachable ascii_runtime demo_json demo_workspace \<lparr>si_tree = demo_tree (''marker'' @ [CHR 0x0A]), si_inside = {}\<rparr> s
    \<and> si_inside s = {} \<and> (\<forall>p. isl (fst (enter_lock demo_workspace p (si_tree s))))"
proof -
  let ?fs = "demo_tree (''marker'' @ [CHR 0x0A])" and ?W = "demo_workspace"
  let ?s0 = "\<lparr>si_tree = ?fs, si_inside = {}\<rparr>"
  have ok: "root_ok ?W ?fs" "path_ok ?W ?fs" "node_at ?fs (lock_of ?W) = None"
    by (simp_all add: root_ok_def path_ok_def plain_def demo_tree_def demo_workspace_def node_at_def home_def lock_of_eq)
  obtain x fs1 where enter: "enter_lock ?W 1 ?fs = (Inr x, fs1)"
    using enter_lock_eval [OF ok(1,2), of 1] ok(3) by auto
  let ?s1 = "\<lparr>si_tree = fs1, si_inside = {1}\<rparr>"
  let ?s2 = "\<lparr>si_tree = fs1, si_inside = {}\<rparr>"
  have "site_step ascii_runtime demo_json ?W ?s0 ?s1"
    using site_step.enter [of 1 ?s0 ?W "fst x" "snd x" fs1] enter by simp
  moreover have "site_step ascii_runtime demo_json ?W ?s1 ?s2"
    using site_step.killed [of 1 ?s1] by simp
  ultimately have "reachable ascii_runtime demo_json ?W ?s0 ?s2"
    unfolding reachable_def by (rule converse_rtranclp_into_rtranclp [OF _ r_into_rtranclp])
  from one_launcher_at_a_time [OF this] this enter_lock_Inr(2) [OF enter] show ?thesis
    by (intro exI [of _ ?s2]) simp
qed

end
