(* ===== verification/Demo_Launcher.thy ===== *)
theory Demo_Launcher
  imports Demo_Workspace
begin

text \<open>
  The launcher of the local demo: the checks of \<^verbatim>\<open>scripts/demo_doctor.py\<close>, the choice of
  ports, the confirmation of a reset, the preparation, the readiness loop and the command
  itself (\<^verbatim>\<open>scripts/demo.py\<close>). What the machine answers (programs on the path, their output,
  free ports, the terminal) and what a started program does to the tree are parameters,
  and so are the two servers while they run.
\<close>

record demo_host =
  dh_windows :: bool
  dh_python_info :: "nat list"
  dh_python_text :: string
  dh_which :: "string \<Rightarrow> string option"
  dh_version_output :: "string \<Rightarrow> string res"
  dh_port_free :: "int \<Rightarrow> bool"
  dh_terminal :: bool
  dh_answer :: string
  dh_run :: "(string \<times> string) list \<Rightarrow> string list \<Rightarrow> tree \<Rightarrow> nat \<times> tree"

section \<open>Checks\<close>

record check =
  ck_name :: string
  ck_ok :: bool
  ck_detail :: string
  ck_remedy :: string

definition check_of :: "string \<Rightarrow> bool \<Rightarrow> string \<Rightarrow> string \<Rightarrow> check" where
  "check_of name ok detail remedy = \<lparr>ck_name = name, ck_ok = ok, ck_detail = detail, ck_remedy = remedy\<rparr>"

definition REMEDIES :: "(string \<times> string) list" where
  "REMEDIES =
     [(''uv'', ''Install uv: https://docs.astral.sh/uv/getting-started/installation/''),
      (''node'', ''Install Node.js 24 LTS (includes npm): https://nodejs.org/en/download''),
      (''npm'', ''Reinstall Node.js 24 LTS, then reopen your terminal.'')]"

text \<open>\<^verbatim>\<open>re.search(r"(\d+)\.(\d+)\.(\d+)", text)\<close>: the three numbers of the first match.\<close>

definition version_at :: "string \<Rightarrow> nat list option" where
  "version_at s =
     (case (takeWhile is_decimal s, dropWhile is_decimal s) of (a, s1) \<Rightarrow>
      if a = [] \<or> s1 = [] \<or> hd s1 \<noteq> CHR ''.'' then None else
      case (takeWhile is_decimal (tl s1), dropWhile is_decimal (tl s1)) of (b, s2) \<Rightarrow>
      if b = [] \<or> s2 = [] \<or> hd s2 \<noteq> CHR ''.'' then None else
      case takeWhile is_decimal (tl s2) of c \<Rightarrow>
      if c = [] then None else Some [nat_of_digits a, nat_of_digits b, nat_of_digits c])"

fun search_version :: "string \<Rightarrow> nat list option" where
  "search_version s = (case version_at s of Some v \<Rightarrow> Some v
     | None \<Rightarrow> (case s of [] \<Rightarrow> None | _ # t \<Rightarrow> search_version t))"

declare search_version.simps [simp del]

definition tool_version :: "demo_host \<Rightarrow> string \<Rightarrow> nat list \<Rightarrow> check res" where
  "tool_version H name minimum =
     (case map_of REMEDIES name of None \<Rightarrow> Inl (KeyError name) | Some remedy \<Rightarrow>
      case dh_which H name of None \<Rightarrow> Inr (check_of name False ''Not found on PATH'' remedy) | Some executable \<Rightarrow>
      case dh_version_output H executable of
        Inl e \<Rightarrow> Inr (check_of name False (''Could not run '' @ name) remedy)
      | Inr text \<Rightarrow>
          (let release = (case search_version text of None \<Rightarrow> [] | Some v \<Rightarrow> v);
               supported = (minimum \<le> release) in
           and_then (if name = ''node'' \<and> supported
               then (case release of [] \<Rightarrow> Inl IndexError | major # _ \<Rightarrow> Inr (major \<in> {24, 26}))
               else Inr supported) (\<lambda>supported.
           Inr (check_of name supported (strip text) (if supported then [] else remedy)))))"

definition port_check :: "demo_host \<Rightarrow> string \<Rightarrow> int \<Rightarrow> check" where
  "port_check H name port =
     (if \<not> (1024 \<le> port \<and> port \<le> 65535)
      then check_of name False (''Invalid port '' @ int_str port) ''Choose a port from 1024 to 65535.''
      else if dh_port_free H port then check_of name True (''127.0.0.1:'' @ int_str port @ '' is available'') []
      else check_of name False (''127.0.0.1:'' @ int_str port @ '' is occupied'')
        ''Choose another --api-port or --ui-port. The launcher selects free ports by default.'')"

definition REQUIRED_FILES :: "place list" where
  "REQUIRED_FILES = [[''uv.lock''], [''apps'', ''reviewer-ui'', ''package-lock.json''],
     [''data'', ''synthetic'', ''small'', ''dataset_manifest.json'']]"

definition python_supported :: "demo_host \<Rightarrow> bool" where
  "python_supported H = ([3, 12] \<le> take 2 (dh_python_info H) \<and> take 2 (dh_python_info H) < [3, 14])"

definition inspect :: "demo_host \<Rightarrow> tree \<Rightarrow> place \<Rightarrow> int \<Rightarrow> int \<Rightarrow> check list res" where
  "inspect H fs root' api_port ui_port =
     (let python_ok = python_supported H;
          absent = filter (\<lambda>p. \<not> is_file fs (root' @ p)) REQUIRED_FILES in
      and_then (tool_version H ''uv'' [0, 13, 4]) (\<lambda>uv.
      and_then (tool_version H ''node'' [24, 0, 0]) (\<lambda>node.
      and_then (tool_version H ''npm'' [10, 0, 0]) (\<lambda>npm.
      Inr ([check_of ''Python'' python_ok (dh_python_text H)
              (if python_ok then [] else ''Install Python 3.12 or 3.13: https://www.python.org/downloads/''), uv, node, npm,
            check_of ''Project files'' (absent = [])
              (if absent = [] then ''Demo files are present'' else join '', '' (map (join ''/'') absent))
              (if absent = [] then [] else ''Download or clone the complete repository, then run this command from its folder.''),
            port_check H ''API port'' api_port, port_check H ''UI port'' ui_port]
          @ (if api_port = ui_port
             then [check_of ''Separate ports'' False ''API and UI ports are identical'' ''Choose two different ports.''] else []))))))"

text \<open>\<^verbatim>\<open>report\<close>: the result, and the lines printed for a reader.\<close>

definition report :: "check list \<Rightarrow> bool \<times> string list" where
  "report checks =
     (let passed = list_all ck_ok checks in
      (passed, concat (map (\<lambda>c. (CHR ''['' # (if ck_ok c then ''OK'' else ''FIX'') @ ''] '' @ ck_name c @ '': '' @ ck_detail c)
           # (if ck_remedy c = [] then [] else [''      '' @ ck_remedy c])) checks)
        @ [if passed then ''Ready to start the synthetic demo.'' else ''Fix the items above, then run the checker again.'']))"

section \<open>Ports and confirmation\<close>

definition choose_port :: "demo_host \<Rightarrow> int \<Rightarrow> int option \<Rightarrow> int option \<Rightarrow> int res" where
  "choose_port H preferred explicit excluded =
     (let candidates = (case explicit of Some port \<Rightarrow> [port] | None \<Rightarrow> [preferred..preferred + 49]) in
      case find (\<lambda>port. \<not> (Some port = excluded \<or> \<not> (1024 \<le> port \<and> port \<le> 65535))
             \<and> ck_ok (port_check H ''Demo port'' port)) candidates of
        Some port \<Rightarrow> Inr port
      | None \<Rightarrow> Inl (ValueError ''The requested port is occupied or invalid. Choose another --api-port or --ui-port.''))"

definition confirm_reset :: "demo_host \<Rightarrow> string \<Rightarrow> bool \<Rightarrow> unit res" where
  "confirm_reset H name yes =
     (if yes then Inr ()
      else if \<not> dh_terminal H then Inl (ValueError ''Reset needs confirmation. For automation, explicitly pass --reset --yes.'')
      else if dh_answer H \<noteq> ''RESET '' @ name then Inl (ValueError ''Reset cancelled. Existing demo data was not changed.'')
      else Inr ())"

section \<open>Preparation\<close>

definition CALLED_PROCESS_ERROR :: exc where "CALLED_PROCESS_ERROR = RuntimeError ''CalledProcessError''"

text \<open>Appending a step's label to the log, then running its program; a missing program is a \<open>TypeError\<close>.\<close>

definition append_node :: "place \<Rightarrow> string \<Rightarrow> tree \<Rightarrow> tree res" where
  "append_node p c fs = (case followed fs p of Some (FileNode old) \<Rightarrow> write_node p (old @ c) fs | _ \<Rightarrow> write_node p c fs)"

definition run_step :: "demo_host \<Rightarrow> (string \<times> string) list \<Rightarrow> place \<Rightarrow> string \<Rightarrow> string option list \<Rightarrow> unit action" where
  "run_step H env log' label command =
     followed_by (changes (append_node log' ([CHR 0x0A] @ label @ [CHR 0x0A]))) (\<lambda>_ fs.
       if None \<in> set command then (Inl TypeError, fs)
       else case dh_run H env (map the command) fs of (code, fs') \<Rightarrow>
         (if code \<noteq> 0 then Inl CALLED_PROCESS_ERROR else Inr (), fs'))"

definition python_place :: "demo_host \<Rightarrow> workspace \<Rightarrow> place" where
  "python_place H W = ws_root W @ [''.venv''] @ (if dh_windows H then [''Scripts'', ''python.exe''] else [''bin'', ''python''])"

definition vite_place :: "workspace \<Rightarrow> place" where
  "vite_place W = ws_root W @ [''apps'', ''reviewer-ui'', ''node_modules'', ''vite'', ''bin'', ''vite.js'']"

definition install_steps :: "demo_host \<Rightarrow> bool \<Rightarrow> (string \<times> string option list) list" where
  "install_steps H skip_install =
     (if skip_install then [] else
      [(''Installing locked Python dependencies (first run may take a few minutes)...'',
        [dh_which H ''uv'', Some ''sync'', Some ''--frozen'', Some ''--extra'', Some ''dev'']),
       (''Installing locked reviewer dependencies...'',
        [dh_which H ''npm'', Some ''--prefix'', Some ''apps/reviewer-ui'', Some ''ci''])])"

definition data_steps :: "demo_host \<Rightarrow> workspace \<Rightarrow> bool \<Rightarrow> (string \<times> string option list) list" where
  "data_steps H W already =
     (let python = Some (place_text (python_place H W)) in
      [(''Applying database upgrades...'', [python, Some ''-m'', Some ''alembic'', Some ''upgrade'', Some ''head'']),
       (''Preparing synthetic source metadata...'', [python, Some ''-m'', Some ''eduwork_databridge.seed''])]
      @ (if already then [] else
          [(''Loading fictional records and review queues...'', [python, Some ''scripts/run_demo.py''])]))"

definition prepare :: "runtime \<Rightarrow> demo_site \<Rightarrow> demo_host \<Rightarrow> workspace \<Rightarrow> bool \<Rightarrow> place action" where
  "prepare R E H W skip_install =
     followed_by (asks (demo_environment E W)) (\<lambda>env.
     followed_by (asks (workspace_path W)) (\<lambda>p.
     let log' = p @ [''logs'', ''setup.log'']; run = (\<lambda>(label, command). run_step H env log' label command) in
     followed_by (each run (install_steps H skip_install)) (\<lambda>_.
     followed_by (asks (\<lambda>fs. if is_file fs (python_place H W) \<and> is_file fs (vite_place W) then Inr ()
        else Inl (ValueError ''Dependencies are missing. Run again without --skip-install.''))) (\<lambda>_.
     followed_by (asks (prepared R E W)) (\<lambda>already.
     followed_by (asks (\<lambda>fs. if \<not> already \<and> exists_at fs (p @ [''control.db''])
        then Inl (ValueError ''An earlier demo setup was interrupted. Use --reset to prepare it again.'') else Inr ())) (\<lambda>_.
     followed_by (each run (data_steps H W already)) (\<lambda>_.
     followed_by (if already then yields () else mark_prepared R E W) (\<lambda>_.
     yields (python_place H W)))))))))"

section \<open>Readiness\<close>

text \<open>\<^verbatim>\<open>read_json\<close> is what the servers answer to a path with some headers.\<close>

type_synonym answers = "string \<Rightarrow> (string \<times> string) list \<Rightarrow> pyval res"

definition value_get :: "pyval \<Rightarrow> string \<Rightarrow> pyval \<Rightarrow> pyval res" where
  "value_get v key d = (case v of PDict r \<Rightarrow> Inr (get_field_or r key d) | _ \<Rightarrow> Inl (RuntimeError ''AttributeError''))"

definition first_id :: "pyval \<Rightarrow> string res" where
  "first_id v = (case v of PList (x # _) \<Rightarrow> text_item x ''id'' | PDict _ \<Rightarrow> Inl (KeyError ''0'') | _ \<Rightarrow> Inl TypeError)"

text \<open>\<^verbatim>\<open>value < 1\<close>\<close>

definition under_one :: "pyval \<Rightarrow> bool res" where
  "under_one v = (case v of PInt i \<Rightarrow> Inr (i < 1) | PBool b \<Rightarrow> Inr (\<not> b)
     | PFloat (Fin x) \<Rightarrow> Inr (x < 1) | PFloat NegInf \<Rightarrow> Inr True | PFloat _ \<Rightarrow> Inr False | _ \<Rightarrow> Inl TypeError)"

definition verify_ready :: "answers \<Rightarrow> string \<Rightarrow> unit res" where
  "verify_ready read_json release =
     (and_then (read_json ''/healthz'' []) (\<lambda>health.
      and_then (value_get health ''version'' PNone) (\<lambda>v.
      if v \<noteq> PStr release then Inl (ValueError ''The demo API reported an unexpected version.'') else
      and_then (read_json ''/readyz'' []) (\<lambda>ready.
      and_then (value_get ready ''status'' PNone) (\<lambda>status.
      if status \<noteq> PStr ''ready'' then Inl (ValueError ''The demo database is not ready.'') else
      and_then (read_json ''/api/v1/organizations'' [(''X-Demo-User'', ''demo-admin'')]) (\<lambda>organizations.
      if \<not> truthy organizations then Inl (ValueError ''Synthetic organization was not prepared.'') else
      and_then (first_id organizations) (\<lambda>organization_id.
      and_then (read_json ''/api/v1/quarantine/summary''
        [(''X-Demo-User'', ''demo-admin''), (''X-Organization-ID'', organization_id)]) (\<lambda>summary.
      and_then (value_get summary ''total'' (PInt 0)) (\<lambda>sum.
      and_then (under_one sum) (\<lambda>few.
      if few then Inl (ValueError ''Synthetic exception queue was not prepared.'') else Inr ()))))))))))"

text \<open>
  One turn of the loop: the clock when the condition is read, whether a server has exited, and
  what the servers answer.
\<close>

record turn =
  tn_clock :: real
  tn_exited :: bool
  tn_answers :: answers

definition retried :: "exc \<Rightarrow> bool" where
  "retried e = (is_os_error e \<or> is_value_error e \<or> (case e of KeyError _ \<Rightarrow> True | RuntimeError m \<Rightarrow> m = ''URLError'' | _ \<Rightarrow> False))"

text \<open>\<open>wait_ready\<close> with fuel: \<open>None\<close> when it is still waiting after that many turns.\<close>

fun wait_ready :: "nat \<Rightarrow> real \<Rightarrow> string \<Rightarrow> (nat \<Rightarrow> turn) \<Rightarrow> nat \<Rightarrow> unit res option" where
  "wait_ready 0 deadline release turns i = None"
| "wait_ready (Suc fuel) deadline release turns i =
     (if \<not> tn_clock (turns i) < deadline
      then Some (Inl (ValueError ''The demo did not become ready in time. See the api.log and ui.log files.''))
      else if tn_exited (turns i) then Some (Inl (ValueError ''A demo server exited. See the api.log and ui.log files.''))
      else case verify_ready (tn_answers (turns i)) release of
        Inr _ \<Rightarrow> Some (Inr ())
      | Inl e \<Rightarrow> if retried e then wait_ready fuel deadline release turns (Suc i) else Some (Inl e))"

section \<open>The command\<close>

record launch_args =
  la_workspace :: string
  la_api_port :: "int option"
  la_ui_port :: "int option"
  la_skip_install :: bool
  la_prepare_only :: bool
  la_reset :: bool
  la_yes :: bool

text \<open>\<open>serving\<close> is \<^verbatim>\<open>serve\<close>: the two servers until one stops or the launcher is interrupted.\<close>

definition launch_workspace :: "runtime \<Rightarrow> demo_site \<Rightarrow> demo_host \<Rightarrow> (workspace \<Rightarrow> place \<Rightarrow> int \<Rightarrow> int \<Rightarrow> unit action) \<Rightarrow> launch_args
    \<Rightarrow> int \<Rightarrow> int \<Rightarrow> workspace \<Rightarrow> unit action" where
  "launch_workspace R E H serving args api_port ui_port W =
     followed_by (if la_reset args
        then followed_by (asks (\<lambda>_. confirm_reset H (la_workspace args) (la_yes args))) (\<lambda>_. reset E W)
        else initialize E W) (\<lambda>_.
     followed_by (prepare R E H W (la_skip_install args)) (\<lambda>python.
     if la_prepare_only args then yields () else serving W python api_port ui_port))"

definition launch :: "runtime \<Rightarrow> demo_site \<Rightarrow> demo_host \<Rightarrow> (workspace \<Rightarrow> place \<Rightarrow> int \<Rightarrow> int \<Rightarrow> unit action) \<Rightarrow> place \<Rightarrow> nat \<Rightarrow> launch_args
    \<Rightarrow> int action" where
  "launch R E H serving root' pid args =
     followed_by (asks (\<lambda>_. choose_port H 8000 (la_api_port args) None)) (\<lambda>api_port.
     followed_by (asks (\<lambda>_. choose_port H 5173 (la_ui_port args) (Some api_port))) (\<lambda>ui_port.
     followed_by (asks (\<lambda>fs. inspect H fs root' api_port ui_port)) (\<lambda>checks.
     if \<not> fst (report checks) then yields 1 else
     followed_by (asks (\<lambda>_. new_workspace root' (la_workspace args))) (\<lambda>W.
     followed_by (locked W pid (launch_workspace R E H serving args api_port ui_port)) (\<lambda>_.
     yields 0)))))"

definition is_subprocess_error :: "exc \<Rightarrow> bool" where
  "is_subprocess_error e = (e = CALLED_PROCESS_ERROR)"

text \<open>\<^verbatim>\<open>main\<close>: the exit code, or an exception it does not handle.\<close>

definition demo_main :: "runtime \<Rightarrow> demo_site \<Rightarrow> demo_host \<Rightarrow> (workspace \<Rightarrow> place \<Rightarrow> int \<Rightarrow> int \<Rightarrow> unit action) \<Rightarrow> place \<Rightarrow> nat \<Rightarrow> launch_args
    \<Rightarrow> int action" where
  "demo_main R E H serving root' pid args fs =
     (case launch R E H serving root' pid args fs of
        (Inr code, fs') \<Rightarrow> (Inr code, fs')
      | (Inl e, fs') \<Rightarrow>
          if e = RuntimeError ''KeyboardInterrupt'' then (Inr 0, fs')
          else if is_os_error e \<or> is_value_error e \<or> is_subprocess_error e then (Inr 1, fs')
          else (Inl e, fs'))"

end
