(* ===== verification/Demo_Launcher_Props.thy ===== *)
theory Demo_Launcher_Props
  imports Demo_Launcher Demo_Workspace_Props
begin

text \<open>
  Properties of the launcher: the ports it chooses, a reset that is not confirmed, and the
  loop that waits for the servers.
\<close>

section \<open>Checks and ports\<close>

lemma tool_version_Inr:
  assumes "name \<in> {''uv'', ''node'', ''npm''}" and "minimum \<noteq> []"
  shows "\<exists>c. tool_version H name minimum = Inr c"
proof -
  have "\<not> minimum \<le> []" using assms(2) by simp
  then show ?thesis
    using assms(1) by (auto simp: tool_version_def REMEDIES_def Let_def and_then_def split: option.splits sum.splits list.splits)
qed

lemma inspect_Inr: "\<exists>checks. inspect H fs root' api_port ui_port = Inr checks"
proof -
  obtain uv node npm where "tool_version H ''uv'' [0, 13, 4] = Inr uv" "tool_version H ''node'' [24, 0, 0] = Inr node"
    "tool_version H ''npm'' [10, 0, 0] = Inr npm"
    using tool_version_Inr [of "''uv''" "[0, 13, 4]" H] tool_version_Inr [of "''node''" "[24, 0, 0]" H]
      tool_version_Inr [of "''npm''" "[10, 0, 0]" H] by auto
  then show ?thesis by (simp add: inspect_def Let_def and_then_def)
qed

lemma choose_port_Inl: "choose_port H preferred explicit excluded = Inl e \<Longrightarrow> is_value_error e"
  by (auto simp: choose_port_def is_value_error_def Let_def split: option.splits)

text \<open>The port chosen is allowed, free and not the excluded one.\<close>

lemma choose_port_Inr:
  assumes "choose_port H preferred explicit excluded = Inr port"
  shows "1024 \<le> port \<and> port \<le> 65535 \<and> dh_port_free H port \<and> Some port \<noteq> excluded"
  using assms
  by (auto simp: choose_port_def port_check_def check_of_def Let_def find_Some_iff split: option.splits if_splits)

section \<open>A reset that is not confirmed\<close>

lemma unlink_of_lock:
  "unlink_node p (dict_set p n fs) = Inr fs' \<Longrightarrow> node_at fs' q = (if q = p then None else node_at fs q)"
  by (auto simp: unlink_node_def tree_simps split: if_splits)

text \<open>A body that stops at once leaves the tree as it was, but for the parents of the workspace.\<close>

lemma locked_stops:
  assumes "root_ok W fs" and "\<And>W' fs. ws_name W' = ws_name W \<Longrightarrow> body W' fs = (Inl (ValueError m), fs)"
  shows "\<exists>e fs'. locked W pid body fs = (Inl e, fs') \<and> is_value_error e
    \<and> (\<forall>q. q \<notin> parents W \<longrightarrow> node_at fs' q = node_at fs q)"
proof (cases "path_ok W fs")
  case False
  then show ?thesis
    by (simp add: locked_def enter_lock_def action_simps workspace_path_iff is_value_error_def)
next
  case path: True
  obtain fs1 where fs1: "\<And>q. node_at fs1 q = (if q \<in> parents W then Some DirNode else node_at fs q)"
    and enter: "enter_lock W pid fs = (if node_at fs (lock_of W) \<noteq> None then (Inl (ValueError ''Demo workspace is already in use.''), fs1)
        else (Inr (W\<lparr>ws_locked := True\<rparr>, lock_of W), dict_set (lock_of W) (FileNode (nat_str pid)) fs1))"
    using enter_lock_eval [OF assms(1) path, of pid] by blast
  show ?thesis
  proof (cases "node_at fs (lock_of W) = None")
    case False
    with enter fs1 show ?thesis by (simp add: locked_def followed_by_def is_value_error_def)
  next
    case True
    let ?fs2 = "dict_set (lock_of W) (FileNode (nat_str pid)) fs1"
    obtain fs3 where fs3: "unlink_node (lock_of W) ?fs2 = Inr fs3"
      by (auto simp: unlink_node_def tree_simps)
    have "locked W pid body fs = (Inl (ValueError m), fs3)"
      using enter True fs3 assms(2) [of "W\<lparr>ws_locked := True\<rparr>" ?fs2] by (simp add: locked_def followed_by_def)
    moreover have "node_at fs3 q = node_at fs q" if "q \<notin> parents W" for q
      using that unlink_of_lock [OF fs3] fs1 True by auto
    ultimately show ?thesis by (auto simp: is_value_error_def)
  qed
qed

text \<open>
  a launch with \<^verbatim>\<open>--reset\<close> that is not confirmed (no \<^verbatim>\<open>--yes\<close>, and no terminal or another answer than
  the name asks for) ends with exit code 1, whatever else holds on the machine, and leaves the whole tree as
  it was, but for the two parent directories of the workspace, which it may make.
\<close>

theorem unconfirmed_reset_changes_nothing:
  assumes "la_reset args" and "\<not> la_yes args"
    and "\<not> dh_terminal H \<or> dh_answer H \<noteq> ''RESET '' @ la_workspace args"
    and "root_ok \<lparr>ws_root = root', ws_name = la_workspace args, ws_locked = False\<rparr> fs"
  shows "\<exists>fs'. demo_main R E H serving root' pid args fs = (Inr 1, fs')
    \<and> (\<forall>q. q \<notin> parents \<lparr>ws_root = root', ws_name = la_workspace args, ws_locked = False\<rparr> \<longrightarrow> node_at fs' q = node_at fs q)"
proof -
  let ?W = "\<lparr>ws_root = root', ws_name = la_workspace args, ws_locked = False\<rparr>"
  have "\<exists>m. confirm_reset H (la_workspace args) (la_yes args) = Inl (ValueError m)"
    using assms(2,3) by (cases "dh_terminal H") (simp_all add: confirm_reset_def)
  then obtain m where stop: "confirm_reset H (la_workspace args) (la_yes args) = Inl (ValueError m)" by blast
  have body: "launch_workspace R E H serving args a u W' t = (Inl (ValueError m), t)" for a u W' t
    using assms(1) stop by (simp add: launch_workspace_def followed_by_def asks_def)
  show ?thesis
  proof (cases "choose_port H 8000 (la_api_port args) None")
    case (Inl e)
    then show ?thesis using choose_port_Inl [OF Inl] by (auto simp: demo_main_def launch_def followed_by_def asks_def is_value_error_def)
  next
    case api: (Inr a)
    show ?thesis
    proof (cases "choose_port H 5173 (la_ui_port args) (Some a)")
      case (Inl e)
      with api show ?thesis using choose_port_Inl [OF Inl] by (auto simp: demo_main_def launch_def followed_by_def asks_def is_value_error_def)
    next
      case ui: (Inr u)
      obtain checks where checks: "inspect H fs root' a u = Inr checks" using inspect_Inr by blast
      obtain e fs' where run: "locked ?W pid (launch_workspace R E H serving args a u) fs = (Inl e, fs')" "is_value_error e"
        and same: "\<forall>q. q \<notin> parents ?W \<longrightarrow> node_at fs' q = node_at fs q"
        using locked_stops [OF assms(4), of "launch_workspace R E H serving args a u" m pid] body by blast
      have "e \<noteq> RuntimeError ''KeyboardInterrupt''" using run(2) by (auto simp: is_value_error_def)
      with run api ui checks same show ?thesis
        by (auto simp: demo_main_def launch_def followed_by_def asks_def yields_def new_workspace_def is_value_error_def)
    qed
  qed
qed

definition demo_machine :: demo_host where
  "demo_machine = \<lparr>dh_windows = False, dh_python_info = [3, 12, 1], dh_python_text = ''3.12.1'',
     dh_which = Some, dh_version_output = (\<lambda>p. Inr (if p = ''node'' then ''v24.19.0'' else ''uv 11.0.0'')),
     dh_port_free = (\<lambda>_. True), dh_terminal = True, dh_answer = ''no'', dh_run = (\<lambda>env c fs. (0, fs))\<rparr>"

definition reset_args :: launch_args where
  "reset_args = \<lparr>la_workspace = ''quickstart'', la_api_port = None, la_ui_port = None, la_skip_install = True,
     la_prepare_only = True, la_reset = True, la_yes = False\<rparr>"

theorem unconfirmed_reset_changes_nothing_witness:
  "\<exists>fs'. demo_main ascii_runtime demo_json demo_machine (\<lambda>_ _ _ _. yields ()) [''repo''] 1 reset_args
      (demo_tree (''marker'' @ [CHR 0x0A])) = (Inr 1, fs')
    \<and> node_at fs' [''repo'', ''var'', ''demos'', ''quickstart'', ''control.db''] = Some (FileNode ''reviews'')"
proof -
  have "la_reset reset_args" "\<not> la_yes reset_args" "\<not> dh_terminal demo_machine \<or> dh_answer demo_machine \<noteq> ''RESET '' @ la_workspace reset_args"
    by (simp_all add: reset_args_def demo_machine_def)
  moreover have "root_ok \<lparr>ws_root = [''repo''], ws_name = la_workspace reset_args, ws_locked = False\<rparr> (demo_tree (''marker'' @ [CHR 0x0A]))"
    by (simp add: root_ok_def demo_tree_def node_at_def)
  ultimately obtain fs' where "demo_main ascii_runtime demo_json demo_machine (\<lambda>_ _ _ _. yields ()) [''repo''] 1 reset_args
      (demo_tree (''marker'' @ [CHR 0x0A])) = (Inr 1, fs')"
    "\<forall>q. q \<notin> parents \<lparr>ws_root = [''repo''], ws_name = la_workspace reset_args, ws_locked = False\<rparr>
       \<longrightarrow> node_at fs' q = node_at (demo_tree (''marker'' @ [CHR 0x0A])) q"
    using unconfirmed_reset_changes_nothing [of reset_args demo_machine "[''repo'']" "demo_tree (''marker'' @ [CHR 0x0A])"] by blast
  then show ?thesis by (simp add: parents_def reset_args_def demo_tree_def node_at_def MARKER_FILE_def)
qed

section \<open>Waiting\<close>

text \<open>A turn that finds the demo ready, and one after which the loop goes on.\<close>

definition ready_turn :: "real \<Rightarrow> string \<Rightarrow> turn \<Rightarrow> bool" where
  "ready_turn deadline release t = (tn_clock t < deadline \<and> \<not> tn_exited t \<and> verify_ready (tn_answers t) release = Inr ())"

definition waiting_turn :: "real \<Rightarrow> string \<Rightarrow> turn \<Rightarrow> bool" where
  "waiting_turn deadline release t = (tn_clock t < deadline \<and> \<not> tn_exited t
     \<and> (case verify_ready (tn_answers t) release of Inl e \<Rightarrow> retried e | Inr _ \<Rightarrow> False))"

lemma wait_ready_ends:
  assumes "deadline \<le> tn_clock (turns (i + fuel))"
  shows "\<exists>r. wait_ready (Suc fuel) deadline release turns i = Some r"
  using assms
proof (induction fuel arbitrary: i)
  case 0
  then show ?case by simp
next
  case (Suc fuel)
  then have "\<exists>r. wait_ready (Suc fuel) deadline release turns (Suc i) = Some r" by simp
  then show ?case
    by (subst wait_ready.simps) (auto simp del: wait_ready.simps split: sum.split)
qed

lemma wait_ready_iff:
  "wait_ready fuel deadline release turns i = Some (Inr ()) \<longleftrightarrow>
     (\<exists>k < fuel. ready_turn deadline release (turns (i + k)) \<and> (\<forall>j < k. waiting_turn deadline release (turns (i + j))))"
proof (induction fuel arbitrary: i)
  case 0
  then show ?case by simp
next
  case (Suc fuel)
  let ?P = "\<lambda>i k. ready_turn deadline release (turns (i + k)) \<and> (\<forall>j < k. waiting_turn deadline release (turns (i + j)))"
  have split: "(\<exists>k < Suc fuel. ?P i k) \<longleftrightarrow> ready_turn deadline release (turns i)
      \<or> (waiting_turn deadline release (turns i) \<and> (\<exists>k < fuel. ?P (Suc i) k))"
  proof
    assume "\<exists>k < Suc fuel. ?P i k"
    then obtain k where k: "k < Suc fuel" "?P i k" by blast
    show "ready_turn deadline release (turns i) \<or> (waiting_turn deadline release (turns i) \<and> (\<exists>k < fuel. ?P (Suc i) k))"
    proof (cases k)
      case (Suc k')
      with k have "waiting_turn deadline release (turns i)" "?P (Suc i) k'" "k' < fuel" by force+
      then show ?thesis by blast
    qed (use k in simp)
  next
    assume "ready_turn deadline release (turns i) \<or> (waiting_turn deadline release (turns i) \<and> (\<exists>k < fuel. ?P (Suc i) k))"
    then show "\<exists>k < Suc fuel. ?P i k"
    proof
      assume "ready_turn deadline release (turns i)"
      then show ?thesis by (intro exI [of _ 0]) simp
    next
      assume "waiting_turn deadline release (turns i) \<and> (\<exists>k < fuel. ?P (Suc i) k)"
      then obtain k where "waiting_turn deadline release (turns i)" "k < fuel" "?P (Suc i) k" by blast
      then show ?thesis by (intro exI [of _ "Suc k"]) (auto simp: less_Suc_eq_0_disj)
    qed
  qed
  show ?case
    unfolding split using Suc.IH [of "Suc i"]
    by (auto simp: ready_turn_def waiting_turn_def split: sum.splits)
qed

text \<open>
  C35: the readiness loop returns. The clock goes forward by at least 0.4 seconds from one turn to the next, so
  within 226 turns of its 90 seconds \<^verbatim>\<open>wait_ready\<close> either returns or raises, whatever the servers answer;
  and it returns exactly when some turn before the deadline found the expected version, a ready database, an organization and
  a non-empty exception queue, after turns that each failed with an error the loop retries, no server having exited.
\<close>

theorem readiness_loop_ends:
  assumes "start \<le> tn_clock (turns 0)" and "\<And>i. tn_clock (turns i) + 4 / 10 \<le> tn_clock (turns (Suc i))"
  shows "\<exists>r. wait_ready 226 (start + 90) release turns 0 = Some r
    \<and> (r = Inr () \<longleftrightarrow> (\<exists>k. ready_turn (start + 90) release (turns k) \<and> (\<forall>j < k. waiting_turn (start + 90) release (turns j))))"
proof -
  have clock: "start + 4 / 10 * real i \<le> tn_clock (turns i)" for i
  proof (induction i)
    case (Suc i)
    with assms(2) [of i] show ?case by (simp add: field_simps)
  qed (use assms(1) in simp)
  obtain r where r: "wait_ready (Suc 225) (start + 90) release turns 0 = Some r"
    using wait_ready_ends [of "start + 90" turns 0 225 release] clock [of 225] by auto
  have late: "k < 226" if "ready_turn (start + 90) release (turns k)" for k
  proof (rule ccontr)
    assume "\<not> k < 226"
    then have "start + 90 \<le> tn_clock (turns k)" using clock [of k] by simp
    with that show False by (simp add: ready_turn_def)
  qed
  have "r = Inr () \<longleftrightarrow> wait_ready 226 (start + 90) release turns 0 = Some (Inr ())"
    using r by (simp del: wait_ready.simps)
  also have "\<dots> \<longleftrightarrow> (\<exists>k. ready_turn (start + 90) release (turns k) \<and> (\<forall>j < k. waiting_turn (start + 90) release (turns j)))"
    using late unfolding wait_ready_iff by auto
  finally show ?thesis using r by simp
qed

definition demo_turns :: "nat \<Rightarrow> turn" where
  "demo_turns i = \<lparr>tn_clock = real i, tn_exited = False,
     tn_answers = (\<lambda>path headers. if i < 2 then Inl (RuntimeError ''URLError'')
       else if path = ''/healthz'' then Inr (PDict [(''version'', PStr ''0.61.0'')])
       else if path = ''/readyz'' then Inr (PDict [(''status'', PStr ''ready'')])
       else if path = ''/api/v1/organizations'' then Inr (PList [PDict [(''id'', PStr ''org'')]])
       else Inr (PDict [(''total'', PInt 9)]))\<rparr>"

theorem readiness_loop_ends_witness:
  "\<exists>r. wait_ready 226 90 ''0.61.0'' demo_turns 0 = Some r \<and> r = Inr ()"
proof -
  have ready: "ready_turn 90 ''0.61.0'' (demo_turns 2)" "\<forall>j < 2. waiting_turn 90 ''0.61.0'' (demo_turns j)"
    by (simp_all add: ready_turn_def waiting_turn_def demo_turns_def verify_ready_def and_then_def value_get_def
        get_field_or_def first_id_def text_item_def py_item_def under_one_def retried_def is_os_error_def is_value_error_def
        FILE_EXISTS_def IS_A_DIRECTORY_def)
  have "0 \<le> tn_clock (demo_turns 0)" "tn_clock (demo_turns i) + 4 / 10 \<le> tn_clock (demo_turns (Suc i))" for i
    by (simp_all add: demo_turns_def)
  from readiness_loop_ends [of 0 demo_turns, OF this, of "''0.61.0''"] ready show ?thesis
    by (auto simp del: wait_ready.simps)
qed

end
