(* ===== verification/Demo_Run.thy ===== *)
theory Demo_Run
  imports Service_Frames
begin

text \<open>
  The run that fills the demo (\<^verbatim>\<open>scripts/run_demo.py\<close>): ingestion, the validation of the
  source, profiling, mapping, the validation of the mapped records, and both matchers, one
  after another in one session, with the counts it reports. The services are the ones of
  the other theories, the environment is the one of the API.
\<close>

section \<open>The run\<close>

record demo_report =
  dr_organization_id :: uuid
  dr_snapshot_id :: uuid
  dr_profile_id :: uuid
  dr_mapping_outputs :: nat
  dr_mapping_errors :: nat
  dr_validation_issues :: nat
  dr_blocking_failures :: nat
  dr_quarantine_records :: nat
  dr_source_quarantine_records :: nat
  dr_exception_queue :: quarantine_summary
  dr_matching :: "match_metrics option"
  dr_probabilistic_run_id :: uuid
  dr_review_queue :: match_queue_summary

type_synonym 'a job = "world \<Rightarrow> 'a res \<times> world"

definition then_do :: "'a job \<Rightarrow> ('a \<Rightarrow> 'b job) \<Rightarrow> 'b job" where
  "then_do m k w = (case m w of (Inl e, w1) \<Rightarrow> (Inl e, w1) | (Inr v, w1) \<Rightarrow> k v w1)"

definition consult :: "(session \<Rightarrow> files \<Rightarrow> 'a res) \<Rightarrow> 'a job" where
  "consult f w = (f (fst w) (snd w), w)"

definition config_file :: "string \<Rightarrow> string \<Rightarrow> path" where
  "config_file category name = [''configs'', ''demo'', category, name]"

definition demo_organization :: "session \<Rightarrow> organization res" where
  "demo_organization s =
     (case find (\<lambda>r. org_name r = ''Northstar Learning Labs'') (db_organizations (s_working s)) of
        None \<Rightarrow> Inl (RuntimeError ''SystemExit'') | Some r \<Rightarrow> Inr r)"

definition created_snapshot :: "uuid \<Rightarrow> session \<Rightarrow> raw_snapshot res" where
  "created_snapshot snapshot_id s =
     (case row_by rs_id (db_raw_snapshots (s_working s)) snapshot_id of
        None \<Rightarrow> Inl (RuntimeError ''SystemExit'') | Some r \<Rightarrow> Inr r)"

definition demo_lookup :: "api_env \<Rightarrow> (string \<times> pyrec) res" where
  "demo_lookup E =
     and_then (env_lookup_document E (config_file ''lookups'' ''employment_status_v1.yml'')) (\<lambda>document.
     and_then (load_lookup (env_runtime E) document) (\<lambda>(lookup_id, _, values). Inr (lookup_id, values)))"

definition demo_run :: "api_env \<Rightarrow> int \<Rightarrow> demo_report job" where
  "demo_run E now =
     then_do (consult (\<lambda>s fs. demo_organization s)) (\<lambda>organization.
     then_do (ingest (env_runtime E) (env_world E) (env_settings E) (env_source_config E) CONFIG_ROOT
       (org_id organization) ''demo_hris'' ''employees'' None now) (\<lambda>hris.
     then_do (consult (\<lambda>s fs. created_snapshot (io_snapshot_id hris) s)) (\<lambda>snapshot.
     then_do (consult (\<lambda>s fs. read_snapshot_records (env_runtime E) (env_codecs E) fs snapshot)) (\<lambda>records.
     then_do (consult (\<lambda>s fs. env_validation_config E (config_file ''validations'' ''hris_source_v1.yml''))) (\<lambda>source_rules.
     then_do (on_session (service_validate (env_runtime E) (org_id organization) (rs_id snapshot) records source_rules [] now)) (\<lambda>source_validation.
     then_do (consult (\<lambda>s fs. env_profile_config E (config_file ''profiles'' ''default_v1.yml''))) (\<lambda>profile_config.
     then_do (on_session (create_profile (env_runtime E) (env_frames E) (org_id organization) (rs_id snapshot) records
       profile_config None now)) (\<lambda>profile.
     then_do (consult (\<lambda>s fs. env_mapping_config E (config_file ''mappings'' ''hris_person_v1.yml''))) (\<lambda>mapping_config.
     then_do (consult (\<lambda>s fs. demo_lookup E)) (\<lambda>lookup.
     then_do (mapping_execute (env_runtime E) MAPPED_ROOT [] (org_id organization) (rs_id snapshot) records mapping_config [lookup]
       (Some [(''output_defaults'', PDict [(''organization_id'', PStr (uuid_text E (org_id organization)))])]) False None now) (\<lambda>mapping.
     then_do (consult (\<lambda>s fs. env_validation_config E (config_file ''validations'' ''person_v1.yml''))) (\<lambda>person_rules.
     then_do (on_session (service_validate (env_runtime E) (org_id organization) (rs_id snapshot)
       (Mapping_Service.mo_outputs mapping) person_rules [] now)) (\<lambda>validation.
     then_do (consult (\<lambda>s fs. env_det_config E (config_file ''matching'' ''person_v1.yml''))) (\<lambda>match_config.
     then_do (consult (\<lambda>s fs. synthetic_fixture E (org_id organization) ''small'' fs)) (\<lambda>(identity_records, truth).
     then_do (on_session (det_execute (env_runtime E) (org_id organization) identity_records match_config (Some truth)
       ''small_identity_truth'' now)) (\<lambda>matching.
     then_do (consult (\<lambda>s fs. env_prob_config E (config_file ''matching'' ''person_probabilistic_v1.yml''))) (\<lambda>probabilistic_config.
     then_do (on_session (prob_execute (env_runtime E) (org_id organization) identity_records probabilistic_config (Some truth)
       (Some ''small_identity_truth'') None now)) (\<lambda>probabilistic.
     consult (\<lambda>s fs. Inr
       \<lparr>dr_organization_id = org_id organization, dr_snapshot_id = rs_id snapshot, dr_profile_id = po_profile_id profile,
        dr_mapping_outputs = Mapping_Service.mo_output_count mapping, dr_mapping_errors = Mapping_Service.mo_error_count mapping,
        dr_validation_issues = length (vrr_issues (vo_result validation)),
        dr_blocking_failures = vrr_blocking_failures (vo_result validation),
        dr_quarantine_records = length (vo_quarantine_ids validation),
        dr_source_quarantine_records = length (vo_quarantine_ids source_validation),
        dr_exception_queue = quarantine_queue_summary (org_id organization) s,
        dr_matching = Match_Service.mo_metrics matching,
        dr_probabilistic_run_id = Match_Service.po_run_id probabilistic,
        dr_review_queue = review_queue_summary (org_id organization) s\<rparr>)))))))))))))))))))"

text \<open>\<^verbatim>\<open>with SessionLocal() as session\<close> around it.\<close>

definition run_demo :: "api_env \<Rightarrow> int \<Rightarrow> demo_report job" where
  "run_demo E now w = (case demo_run E now (new_session w) of (r, w1) \<Rightarrow> (r, close_session w1))"

section \<open>What a validation files\<close>

abbreviation files_kept :: "quarantine_record list \<Rightarrow> session \<Rightarrow> bool" where
  "files_kept \<equiv> keeps db_quarantine_records"

definition open_in :: "uuid \<Rightarrow> quarantine_record \<Rightarrow> bool" where
  "open_in organization_id r = (qr_organization_id r = organization_id \<and> qr_status r = ''open'')"

text \<open>The table is the one there was, followed by open records of the organization.\<close>

definition filed :: "uuid \<Rightarrow> quarantine_record list \<Rightarrow> quarantine_record list \<Rightarrow> session \<Rightarrow> bool" where
  "filed organization_id A new s = (files_kept (A @ new) s \<and> list_all (open_in organization_id) new)"

lemma rule_models_keys: "fst ` set (fst (rule_models o' now cs d s)) = fst ` set d \<union> vr_rule_id ` set cs"
  by (induction cs arbitrary: d s) (auto simp: split_beta)

lemma issue_has_rule:
  assumes "engine_validate R records config refs = Inr res" and "issue \<in> set (vrr_issues res)"
  shows "vi_rule_id issue \<in> vr_rule_id ` set (vc_rules config)"
proof -
  obtain fss where "vrr_issues res = concat (map2 (\<lambda>rule fs. map (\<lambda>i. record_issue R rule (records ! i) i) fs) (vc_rules config) fss)"
    by (rule engine_run [OF assms(1)])
  with assms(2) show ?thesis by (auto simp: record_issue_def dest: set_zip_leftD)
qed

text \<open>Every issue is filed: one open record each.\<close>

lemma store_issues_filed:
  assumes "\<And>issue. issue \<in> set issues \<Longrightarrow> vi_rule_id issue \<in> fst ` set rules"
    and "filed o' A new s" and "db_quarantine_records (s_committed s) = C"
    and "store_all (store_issue o' run snap rules now) issues s = (ids, s')"
  shows "\<exists>more'. db_quarantine_records (s_working s') = A @ new @ more' \<and> length more' = length issues \<and> length ids = length issues
    \<and> list_all (open_in o') more'"
proof -
  have "\<exists>more'. db_quarantine_records (s_working s') = db_quarantine_records (s_working s) @ more'
      \<and> length more' = length issues \<and> length ids = length issues \<and> list_all (open_in o') more'"
    using assms(1,4)
  proof (induction issues arbitrary: s ids)
    case Nil
    then show ?case by simp
  next
    case (Cons issue issues)
    obtain rule where rule: "map_of rules (vi_rule_id issue) = Some rule"
      using Cons.prems(1) [of issue] by (metis list.set_intros(1) map_of_eq_None_iff not_None_eq)
    obtain i s1 where one: "store_issue o' run snap rules now issue s = (i, s1)" by (cases "store_issue o' run snap rules now issue s")
    obtain rest_ids where rest: "store_all (store_issue o' run snap rules now) issues s1 = (rest_ids, s')" and ids: "ids = i # rest_ids"
      using Cons.prems(2) one by (auto split: prod.splits)
    obtain r where r: "db_quarantine_records (s_working s1) = db_quarantine_records (s_working s) @ [r]" "open_in o' r"
      using one rule by (auto simp: store_issue_def add_row_def Let_def put_quarantine_def open_in_def)
    obtain more' where "db_quarantine_records (s_working s') = db_quarantine_records (s_working s1) @ more'"
      "length more' = length issues" "length rest_ids = length issues" "list_all (open_in o') more'"
      using Cons.IH [OF _ rest] Cons.prems(1) by auto
    with r ids show ?case by (intro exI [of _ "r # more'"]) simp
  qed
  with assms(2) show ?thesis by (auto simp: filed_def keeps_def)
qed

lemma validate_files:
  assumes "filed o' A new s" and "service_validate R o' i records config refs now s = (r, s')"
  shows "\<exists>new'. filed o' A new' s' \<and> (\<forall>out. r = Inr out \<longrightarrow> length new' = length new + length (vo_quarantine_ids out))
    \<and> (isl r \<longrightarrow> new' = new)"
proof (cases r)
  case (Inl e)
  then have "s' = s"
    using assms(2) by (auto simp: service_validate_def split: sum.splits prod.splits)
  with Inl assms(1) show ?thesis by auto
next
  case (Inr out)
  obtain snapshot run where ctx: "snapshot_context s o' i = Inr (snapshot, run)"
    using assms(2) Inr by (cases "snapshot_context s o' i") (auto simp: service_validate_def)
  obtain res where res: "engine_validate R records config refs = Inr res"
    using assms(2) Inr ctx by (cases "engine_validate R records config refs") (auto simp: service_validate_def)
  obtain rules s1 where rules: "rule_models o' now (vc_rules config) [] s = (rules, s1)"
    by (cases "rule_models o' now (vc_rules config) [] s")
  obtain persisted s2 where stored: "store_all (store_result o' (ir_id run) config res now) rules s1 = (persisted, s2)"
    by (cases "store_all (store_result o' (ir_id run) config res now) rules s1")
  obtain ids s3 where issues: "store_all (store_issue o' (ir_id run) (rs_id snapshot) rules now) (vrr_issues res) s2 = (ids, s3)"
    by (cases "store_all (store_issue o' (ir_id run) (rs_id snapshot) rules now) (vrr_issues res) s2")
  have out: "out = \<lparr>vo_result = res, vo_persisted_result_ids = persisted, vo_quarantine_ids = ids\<rparr>" "s' = commit s3"
    using assms(2) Inr by (simp_all add: service_validate_def ctx res rules stored issues)
  have "files_kept (A @ new) s1"
    using quarantine.frame_rule_models [of "A @ new" s o' now "vc_rules config" "[]"] assms(1) rules by (simp add: filed_def)
  then have "files_kept (A @ new) s2"
    using frame_store_all [of db_quarantine_records "A @ new" "store_result o' (ir_id run) config res now" s1 rules] stored
      quarantine.frame_store_result by auto
  with assms(1) have s2: "filed o' A new s2" by (simp add: filed_def)
  have keys: "fst ` set rules = vr_rule_id ` set (vc_rules config)"
    using rule_models_keys [of o' now "vc_rules config" "[]" s] rules by simp
  obtain more' where "db_quarantine_records (s_working s3) = A @ new @ more'" "length more' = length (vrr_issues res)"
    "length ids = length (vrr_issues res)" "list_all (open_in o') more'"
    using store_issues_filed [OF _ s2 refl issues] issue_has_rule [OF res] keys by auto
  with assms(1) Inr out show ?thesis
    by (intro exI [of _ "new @ more'"]) (auto simp: filed_def keeps_def)
qed

section \<open>Counting over the run\<close>

text \<open>
  \<open>counts o' n m Q\<close>: started with \<open>n\<close> records filed since the run began, the job files open
  records of the organization only, and a result satisfies \<open>Q\<close> with the table and the number filed by then.
\<close>

definition counts :: "uuid \<Rightarrow> nat \<Rightarrow> 'a job \<Rightarrow> ('a \<Rightarrow> quarantine_record list \<Rightarrow> nat \<Rightarrow> bool) \<Rightarrow> bool" where
  "counts o' n m Q = (\<forall>A new w. filed o' A new (fst w) \<longrightarrow> length new = n \<longrightarrow>
     (\<exists>new'. filed o' A new' (fst (snd (m w))) \<and> (\<forall>v. fst (m w) = Inr v \<longrightarrow> Q v (A @ new') (length new'))))"

lemma counts_then:
  assumes "counts o' n m (\<lambda>v rows k. k = n' v)" and "\<And>v. counts o' (n' v) (k v) Q"
  shows "counts o' n (then_do m k) Q"
  unfolding counts_def
proof (intro allI impI)
  fix A new and w :: world assume "filed o' A new (fst w)" "length new = n"
  with assms(1) obtain new1 where new1: "filed o' A new1 (fst (snd (m w)))" "\<forall>v. fst (m w) = Inr v \<longrightarrow> length new1 = n' v"
    unfolding counts_def by blast
  show "\<exists>new'. filed o' A new' (fst (snd (then_do m k w))) \<and> (\<forall>v. fst (then_do m k w) = Inr v \<longrightarrow> Q v (A @ new') (length new'))"
  proof -
    obtain r w1 where m: "m w = (r, w1)" by (cases "m w")
    show ?thesis
    proof (cases r)
      case (Inl e)
      with m new1 show ?thesis by (intro exI [of _ new1]) (simp add: then_do_def)
    next
      case (Inr v)
      with m have eq: "then_do m k w = k v w1" by (simp add: then_do_def)
      from new1 m Inr have "filed o' A new1 (fst w1)" "length new1 = n' v" by auto
      with assms(2) [of v] show ?thesis unfolding eq counts_def by blast
    qed
  qed
qed

lemma counts_keep:
  assumes "\<And>A w. files_kept A (fst w) \<Longrightarrow> files_kept A (fst (snd (m w)))"
  shows "counts o' n m (\<lambda>v rows k. k = n)"
  unfolding counts_def filed_def using assms by blast

lemma counts_consult:
  assumes "\<And>s fs v. f s fs = Inr v \<Longrightarrow> Q v (db_quarantine_records (s_working s)) n"
  shows "counts o' n (consult f) Q"
  unfolding counts_def consult_def filed_def keeps_def using assms by (metis fst_conv snd_conv)

lemma counts_on_session:
  assumes "\<And>A s. files_kept A s \<Longrightarrow> files_kept A (snd (op s))"
  shows "counts o' n (on_session op) (\<lambda>v rows k. k = n)"
  by (rule counts_keep) (simp add: on_session_def split_beta assms)

lemma counts_validate:
  "counts o' n (on_session (service_validate R o' i records config refs now))
     (\<lambda>out rows k. k = n + length (vo_quarantine_ids out))"
  unfolding counts_def
proof (intro allI impI)
  fix A new and w :: world assume w: "filed o' A new (fst w)" "length new = n"
  obtain s fs where s: "w = (s, fs)" by (cases w)
  obtain r s' where v: "service_validate R o' i records config refs now s = (r, s')"
    by (cases "service_validate R o' i records config refs now s")
  from validate_files [OF _ v] w s v show "\<exists>new'. filed o' A new' (fst (snd (on_session (service_validate R o' i records config refs now) w)))
      \<and> (\<forall>out. fst (on_session (service_validate R o' i records config refs now) w) = Inr out \<longrightarrow>
            length new' = n + length (vo_quarantine_ids out))"
    by (fastforce simp: on_session_def)
qed

text \<open>The two numbers of the exception queue, from the table alone.\<close>

lemma queue_total:
  "qsum_total (quarantine_queue_summary o' s) = length (filter (\<lambda>r. qr_organization_id r = o') (db_quarantine_records (s_working s)))"
  by (simp add: quarantine_queue_summary_def Let_def count_by_sum)

lemma queue_attention:
  "qsum_needs_attention (quarantine_queue_summary o' s) =
     length (filter (\<lambda>r. qr_organization_id r = o' \<and> qr_status r \<in> set ATTENTION_STATUSES) (db_quarantine_records (s_working s)))"
proof -
  have "distinct ATTENTION_STATUSES" by (simp add: ATTENTION_STATUSES_def)
  then show ?thesis
    by (simp add: quarantine_queue_summary_def Let_def sum_counts_filter filter_map comp_def conj_commute)
qed

section \<open>The run, counted\<close>

lemma then_consult: "f (fst w) (snd w) = Inr v \<Longrightarrow> then_do (consult f) k w = k v w"
  by (simp add: then_do_def consult_def)

lemma counts_asks: "counts o' n (consult f) (\<lambda>v rows k. k = n)"
  by (rule counts_consult) simp

lemmas counts_steps = counts_validate counts_asks
  counts_keep [OF quarantine.frame_ingest] counts_keep [OF quarantine.frame_mapping_execute]
  counts_on_session [OF quarantine.frame_create_profile] counts_on_session [OF quarantine.frame_det_execute]
  counts_on_session [OF quarantine.frame_prob_execute]

text \<open>What the report says of the queue, given the table and the records filed so far.\<close>

definition report_agrees :: "uuid \<Rightarrow> demo_report \<Rightarrow> quarantine_record list \<Rightarrow> nat \<Rightarrow> bool" where
  "report_agrees o' report rows filed_now =
     (let mine = filter (\<lambda>r. qr_organization_id r = o') rows in
      filed_now = dr_source_quarantine_records report + dr_quarantine_records report
      \<and> qsum_total (dr_exception_queue report) = length mine
      \<and> qsum_needs_attention (dr_exception_queue report) = length (filter (\<lambda>r. qr_status r \<in> set ATTENTION_STATUSES) mine))"

lemma counts_unpair:
  "(\<And>a b. p = (a, b) \<Longrightarrow> counts o' n (k a b) Q) \<Longrightarrow> counts o' n (case p of (a, b) \<Rightarrow> k a b) Q"
  by (cases p) simp

text \<open>The steps after the organization was found.\<close>

lemma demo_run_counts:
  "\<exists>rest. counts (org_id organization) 0 rest (report_agrees (org_id organization))
     \<and> (\<forall>w. demo_organization (fst w) = Inr organization \<longrightarrow> demo_run E now w = rest w)"
  unfolding demo_run_def
  apply (intro exI conjI allI impI)
   prefer 2
   apply (rule then_consult, assumption)
  apply ((rule counts_then counts_unpair, (rule counts_steps, assumption?)?)+)
  apply (rule counts_consult)
  apply (auto simp: report_agrees_def queue_total queue_attention Let_def conj_commute)
  done

text \<open>
  C36: The report of the demo agrees with the exception queue it leaves. When the demo
  organization is not in the database, the run ends there and nothing is written. Otherwise
  whatever a run of the demo does, and wherever it fails, every quarantine record that was
  committed before stays as it was, and only open records of the demo organization are
  added behind them. When the run reports, they are exactly as many as the
  two validations say they filed, and the total and the number needing attention of the
  reported queue are the old ones plus that number.
\<close>

theorem demo_report_matches_queue:
  "let (r, w') = run_demo E now w; queue = (\<lambda>v. db_quarantine_records (s_committed (fst v))) in
   case demo_organization (fst (new_session w)) of
     Inl e \<Rightarrow> r = Inl e \<and> w' = new_session w
   | Inr organization \<Rightarrow>
       let mine = filter (\<lambda>q. qr_organization_id q = org_id organization) (queue w);
           waiting = filter (\<lambda>q. qr_status q \<in> set ATTENTION_STATUSES) mine in
       (\<exists>new. queue w' = queue w @ new \<and> list_all (open_in (org_id organization)) new
         \<and> (case r of Inl e \<Rightarrow> True
            | Inr report \<Rightarrow>
                length new = dr_source_quarantine_records report + dr_quarantine_records report
                \<and> qsum_total (dr_exception_queue report) = length mine + length new
                \<and> qsum_needs_attention (dr_exception_queue report) = length waiting + length new))"
proof (cases "demo_organization (fst (new_session w))")
  case (Inl e)
  then show ?thesis
    by (cases w) (simp add: run_demo_def demo_run_def then_do_def consult_def close_session_def new_session_def rollback_def)
next
  case (Inr organization)
  define A where "A = db_quarantine_records (s_committed (fst w))"
  define o' where "o' = org_id organization"
  obtain rest where rest: "counts o' 0 rest (report_agrees o')" "demo_run E now (new_session w) = rest (new_session w)"
    using demo_run_counts [of organization E now] Inr o'_def by blast
  have start: "filed o' A [] (fst (new_session w))"
    by (cases w) (simp add: filed_def keeps_def A_def new_session_def)
  obtain r w1 where run: "rest (new_session w) = (r, w1)" by (cases "rest (new_session w)")
  with rest(1) start obtain new where new: "filed o' A new (fst w1)" "\<forall>v. r = Inr v \<longrightarrow> report_agrees o' v (A @ new) (length new)"
    unfolding counts_def by (metis fst_conv snd_conv list.size(3))
  have open_new: "filter (\<lambda>q. qr_organization_id q = o') new = new" "filter (\<lambda>q. qr_status q \<in> set ATTENTION_STATUSES) new = new"
    using new(1) by (auto simp: filed_def list_all_iff open_in_def ATTENTION_STATUSES_def)
  have table: "db_quarantine_records (s_committed (fst (close_session w1))) = A @ new"
    using new(1) by (cases w1) (simp add: filed_def keeps_def close_session_def)
  have "list_all (open_in o') new" using new(1) by (simp add: filed_def)
  then have "db_quarantine_records (s_committed (fst (close_session w1))) = A @ new \<and> list_all (open_in o') new
     \<and> (case r of Inl e \<Rightarrow> True
        | Inr report \<Rightarrow>
            length new = dr_source_quarantine_records report + dr_quarantine_records report
            \<and> qsum_total (dr_exception_queue report) = length (filter (\<lambda>q. qr_organization_id q = o') A) + length new
            \<and> qsum_needs_attention (dr_exception_queue report) =
                length (filter (\<lambda>q. qr_status q \<in> set ATTENTION_STATUSES) (filter (\<lambda>q. qr_organization_id q = o') A)) + length new)"
    using new(2) table open_new by (simp add: report_agrees_def Let_def split: sum.split)
  with Inr run rest(2) show ?thesis
    unfolding A_def o'_def by (simp add: run_demo_def Let_def)
qed

end
