(* ===== verification/Secret_Scan.thy ===== *)
theory Secret_Scan
  imports Demo_Workspace
begin

text \<open>
  Two release tools that walk the repository's tree: the secret scan
  (\<^verbatim>\<open>scripts/scan_secrets.py\<close>) and the checksum file
  (\<^verbatim>\<open>scripts/generate_release_checksums.py\<close>).
\<close>

section \<open>What the interpreter is given\<close>

text \<open>
  \<open>rh_decode\<close> is the text of some bytes, \<open>None\<close> when they are no UTF-8; \<open>rh_indent\<close> is
  \<^verbatim>\<open>json.dumps(value, indent=2)\<close>.
\<close>

record text_host =
  rh_decode :: "string \<Rightarrow> string option"
  rh_indent :: "pyval \<Rightarrow> string"

definition system_exit :: "string \<Rightarrow> exc" where
  "system_exit message = RuntimeError (''SystemExit: '' @ message)"

definition NEWLINE :: char where "NEWLINE = CHR 0x0A"

text \<open>\<^verbatim>\<open>root.rglob("*")\<close>, which does not descend into linked directories.\<close>

definition rglob :: "tree \<Rightarrow> place \<Rightarrow> place list" where
  "rglob fs p = filter (below p) (map fst fs)"

text \<open>\<^verbatim>\<open>str(path.relative_to(root))\<close>\<close>

definition relative_text :: "place \<Rightarrow> place \<Rightarrow> string" where
  "relative_text root' p = join ''/'' (drop (length root') p)"

section \<open>Patterns\<close>

text \<open>
  The patterns are sequences of words, alternatives and repeated classes. A repetition without
  an upper bound stands at the end of its pattern only, so that \<^verbatim>\<open>search\<close> finds a match
  exactly when it finds one of the least length.
\<close>

datatype piece = Word string | Either "string list" | Chars string nat

definition DIGITS :: string where "DIGITS = ''0123456789''"
definition UPPERS :: string where "UPPERS = ''ABCDEFGHIJKLMNOPQRSTUVWXYZ''"
definition LOWERS :: string where "LOWERS = ''abcdefghijklmnopqrstuvwxyz''"

definition PATTERNS :: "(string \<times> piece list) list" where
  "PATTERNS =
     [(''private_key'', [Word ''-----BEGIN '', Either ['''', ''RSA '', ''EC '', ''OPENSSH ''], Word ''PRIVATE KEY-----'']),
      (''aws_access_key'', [Word ''AKIA'', Chars (DIGITS @ UPPERS) 16]),
      (''github_token'', [Word ''gh'', Chars ''pousr'' 1, Word ''_'', Chars (UPPERS @ LOWERS @ DIGITS) 36]),
      (''openai_style_key'', [Word ''sk-'', Chars (UPPERS @ LOWERS @ DIGITS @ ''_-'') 20]),
      (''google_api_key'', [Word ''AIza'', Chars (DIGITS @ UPPERS @ LOWERS @ ''_-'') 35])]"

fun match_at :: "piece list \<Rightarrow> string \<Rightarrow> bool" where
  "match_at [] s = True"
| "match_at (Word w # ps) s = (take (length w) s = w \<and> match_at ps (drop (length w) s))"
| "match_at (Either ws # ps) s = list_ex (\<lambda>w. take (length w) s = w \<and> match_at ps (drop (length w) s)) ws"
| "match_at (Chars cs n # ps) s = (n \<le> length s \<and> list_all (\<lambda>c. c \<in> set cs) (take n s) \<and> match_at ps (drop n s))"

fun search :: "piece list \<Rightarrow> string \<Rightarrow> bool" where
  "search ps [] = match_at ps []"
| "search ps (c # s) = (match_at ps (c # s) \<or> search ps s)"

section \<open>The scan\<close>

text \<open>\<^verbatim>\<open>str.splitlines\<close>: the line ends below 256; CR and LF together end one line.\<close>

definition line_end :: "char \<Rightarrow> bool" where
  "line_end c = (of_char c \<in> {10, 11, 12, 13, 28, 29, 30, 133 :: nat})"

fun split_lines :: "string \<Rightarrow> string \<Rightarrow> string list" where
  "split_lines line [] = (if line = [] then [] else [line])"
| "split_lines line (c # cs) =
     (if c = CHR 0x0D \<and> take 1 cs = [NEWLINE] then line # split_lines [] (drop 1 cs)
      else if line_end c then line # split_lines [] cs
      else split_lines (line @ [c]) cs)"

definition TEXT_SUFFIXES :: "string list" where
  "TEXT_SUFFIXES = [''.py'', ''.md'', ''.yml'', ''.yaml'', ''.json'', ''.toml'', ''.ini'', ''.txt'', ''.tsx'', ''.ts'', ''.js'',
     ''.css'', ''.html'', ''.mako'', ''.env'', ''.example'', ''.dockerignore'', ''.gitignore'']"

definition EXCLUDED_PARTS :: "string list" where
  "EXCLUDED_PARTS = [''.venv'', ''node_modules'', ''dist'', ''site'', ''var'', ''__pycache__'']"

definition PLAIN_NAMES :: "string list" where
  "PLAIN_NAMES = [''Dockerfile'', ''Makefile'', ''LICENSE'', ''NOTICE'']"

text \<open>The paths are absolute: their parts are those of the root, too.\<close>

definition to_scan :: "runtime \<Rightarrow> tree \<Rightarrow> place \<Rightarrow> bool" where
  "to_scan R fs p =
     (is_file fs p \<and> \<not> list_ex (\<lambda>part. part \<in> set EXCLUDED_PARTS) p
      \<and> (rt_lower R (suffix_of p) \<in> set TEXT_SUFFIXES \<or> last p \<in> set PLAIN_NAMES))"

record finding =
  fi_file :: string
  fi_line :: nat
  fi_pattern :: string

definition scan_line :: "string \<Rightarrow> nat \<times> string \<Rightarrow> finding list" where
  "scan_line file numbered = (case numbered of (n, line) \<Rightarrow>
     map (\<lambda>(name, ps). \<lparr>fi_file = file, fi_line = n, fi_pattern = name\<rparr>) (filter (\<lambda>(name, ps). search ps line) PATTERNS))"

definition scan_file :: "text_host \<Rightarrow> tree \<Rightarrow> place \<Rightarrow> place \<Rightarrow> finding list" where
  "scan_file H fs root' p = (case read_node fs p of Inl e \<Rightarrow> [] | Inr bytes \<Rightarrow>
     (case rh_decode H bytes of None \<Rightarrow> [] | Some t \<Rightarrow>
       concat (map (scan_line (relative_text root' p)) (enumerate (Suc 0) (split_lines [] t)))))"

definition scan :: "runtime \<Rightarrow> text_host \<Rightarrow> place \<Rightarrow> tree \<Rightarrow> finding list" where
  "scan R H root' fs = concat (map (scan_file H fs root') (filter (to_scan R fs) (rglob fs root')))"

definition finding_dict :: "finding \<Rightarrow> pyval" where
  "finding_dict f = PDict [(''file'', PStr (fi_file f)), (''line'', PInt (int (fi_line f))), (''pattern'', PStr (fi_pattern f))]"

definition write_report :: "place \<Rightarrow> string \<Rightarrow> unit action" where
  "write_report p t = followed_by (changes (mkdir_parents (butlast p))) (\<lambda>_. changes (write_node p (t @ [NEWLINE])))"

text \<open>The command; \<open>Inr\<close> is the exit code 0.\<close>

definition scan_command :: "runtime \<Rightarrow> text_host \<Rightarrow> place \<Rightarrow> place option \<Rightarrow> unit action" where
  "scan_command R H root' output =
     followed_by (asks (\<lambda>fs. Inr (scan R H root' fs))) (\<lambda>findings.
     followed_by (case output of None \<Rightarrow> yields () | Some p \<Rightarrow>
       write_report p (rh_indent H (PDict [(''scanner'', PStr ''eduwork-targeted-secret-scan''),
         (''findings'', PList (map finding_dict findings))]))) (\<lambda>_.
     if findings \<noteq> [] then raises (system_exit (''Potential secrets found: '' @ nat_str (length findings))) else yields ()))"

section \<open>Checksums\<close>

definition SUMS :: place where "SUMS = [''release'', ''SHA256SUMS'']"

definition OTHER_FILES :: "place list" where
  "OTHER_FILES =
     [[''benchmark-baseline'', ''small-v0.14.0.json''], [''benchmark-baseline'', ''budgets.json''],
      [''benchmark-results'', ''current.json''], [''docs'', ''evidence'', ''release-manifest.json''],
      [''docs'', ''assets'', ''eduwork-databridge-walkthrough.mp4''], [''docs'', ''assets'', ''reviewer-console.svg''],
      [''docs'', ''assets'', ''lineage-view.svg''], [''docs'', ''assets'', ''review-workbench-v0.50.jpg''],
      [''docs'', ''assets'', ''exception-desk-v0.60.jpg'']]"

definition release_files :: "place \<Rightarrow> tree \<Rightarrow> place list" where
  "release_files root' fs =
     sort_key (relative_text root')
       (remdups (filter (\<lambda>p. is_file fs p \<and> p \<noteq> root' @ SUMS) (rglob fs (root' @ [''release''])) @ map (\<lambda>p. root' @ p) OTHER_FILES))"

definition sum_line :: "runtime \<Rightarrow> place \<Rightarrow> tree \<Rightarrow> place \<Rightarrow> string list \<Rightarrow> string list res" where
  "sum_line R root' fs p lines =
     (and_then (read_node fs p) (\<lambda>c. Inr (lines @ [rt_sha256 R c @ ''  '' @ relative_text root' p])))"

definition render_sums :: "runtime \<Rightarrow> place \<Rightarrow> tree \<Rightarrow> string res" where
  "render_sums R root' fs =
     (and_then (res_fold (sum_line R root' fs) (release_files root' fs) []) (\<lambda>lines. Inr (join [NEWLINE] lines @ [NEWLINE])))"

definition sums_current :: "text_host \<Rightarrow> place \<Rightarrow> string \<Rightarrow> tree \<Rightarrow> unit res" where
  "sums_current H p expected fs =
     (if \<not> exists_at fs p then Inl (system_exit ''Release checksums are out of date'') else
      and_then (read_node fs p) (\<lambda>bytes.
      case rh_decode H bytes of None \<Rightarrow> Inl (ValueError ''UnicodeDecodeError'') | Some t \<Rightarrow>
        if t \<noteq> expected then Inl (system_exit ''Release checksums are out of date'') else Inr ()))"

definition sums_command :: "runtime \<Rightarrow> text_host \<Rightarrow> place \<Rightarrow> bool \<Rightarrow> unit action" where
  "sums_command R H root' check =
     followed_by (asks (render_sums R root')) (\<lambda>expected.
     if check then asks (sums_current H (root' @ SUMS) expected)
     else followed_by (changes (mkdir_parents (butlast (root' @ SUMS)))) (\<lambda>_. changes (write_node (root' @ SUMS) expected)))"

end
