(* ===== verification/Secret_Scan_Props.thy ===== *)
theory Secret_Scan_Props
  imports Secret_Scan
begin

text \<open>
  What the secret scan finds and what it cannot see, and that the checksum file is current
  exactly as long as the release is.
\<close>

section \<open>Patterns as languages\<close>

fun lang :: "piece list \<Rightarrow> string set" where
  "lang [] = {[]}"
| "lang (Word w # ps) = {w @ v | v. v \<in> lang ps}"
| "lang (Either ws # ps) = {w @ v | w v. w \<in> set ws \<and> v \<in> lang ps}"
| "lang (Chars cs n # ps) = {u @ v | u v. length u = n \<and> set u \<subseteq> set cs \<and> v \<in> lang ps}"

lemma take_is: "take (length w) s = w \<longleftrightarrow> (\<exists>t. s = w @ t)"
  by (metis append_eq_conv_conj append_take_drop_id)

text \<open>A match of a sequence is a match of its first piece followed by one of the rest.\<close>

fun piece_lang :: "piece \<Rightarrow> string set" where
  "piece_lang (Word w) = {w}"
| "piece_lang (Either ws) = set ws"
| "piece_lang (Chars cs n) = {u. length u = n \<and> set u \<subseteq> set cs}"

lemma lang_Cons: "lang (q # ps) = {u @ v | u v. u \<in> piece_lang q \<and> v \<in> lang ps}"
  by (cases q) auto

lemma match_at_Cons: "match_at (q # ps) s \<longleftrightarrow> (\<exists>u r. s = u @ r \<and> u \<in> piece_lang q \<and> match_at ps r)"
proof (cases q)
  case (Chars cs n)
  show ?thesis
  proof
    assume "match_at (q # ps) s"
    with Chars show "\<exists>u r. s = u @ r \<and> u \<in> piece_lang q \<and> match_at ps r"
      by (intro exI [of _ "take n s"] exI [of _ "drop n s"]) (auto simp: list_all_iff)
  qed (use Chars in \<open>auto simp: list_all_iff\<close>)
next
  case (Either ws)
  then show ?thesis by (auto simp: take_is list_ex_iff) blast
qed (auto simp: take_is)

lemma match_at_iff: "match_at ps s \<longleftrightarrow> (\<exists>v t. s = v @ t \<and> v \<in> lang ps)"
proof (induction ps arbitrary: s)
  case (Cons q ps)
  show ?case
  proof
    assume "match_at (q # ps) s"
    then obtain u v t where "s = u @ v @ t" "u \<in> piece_lang q" "v \<in> lang ps" by (auto simp: match_at_Cons Cons.IH)
    then show "\<exists>v t. s = v @ t \<and> v \<in> lang (q # ps)"
      by (intro exI [of _ "u @ v"] exI [of _ t]) (auto simp: lang_Cons)
  next
    assume "\<exists>v t. s = v @ t \<and> v \<in> lang (q # ps)"
    then obtain u v t where "s = u @ v @ t" "u \<in> piece_lang q" "v \<in> lang ps" by (auto simp: lang_Cons)
    then show "match_at (q # ps) s" by (auto simp: match_at_Cons Cons.IH)
  qed
qed simp

lemma search_suffix: "search ps s \<longleftrightarrow> (\<exists>a r. s = a @ r \<and> match_at ps r)"
  by (induction s) (auto simp: Cons_eq_append_conv)

lemma search_iff: "search ps s \<longleftrightarrow> (\<exists>a v b. s = a @ v @ b \<and> v \<in> lang ps)"
  by (auto simp: search_suffix match_at_iff)

section \<open>The findings\<close>

definition scanned_lines :: "runtime \<Rightarrow> text_host \<Rightarrow> place \<Rightarrow> tree \<Rightarrow> place \<Rightarrow> string list" where
  "scanned_lines R H root' fs p =
     (if p \<in> fst ` set fs \<and> below root' p \<and> to_scan R fs p
      then case read_node fs p of Inl e \<Rightarrow> [] | Inr bytes \<Rightarrow> (case rh_decode H bytes of None \<Rightarrow> [] | Some t \<Rightarrow> split_lines [] t)
      else [])"

lemma finding_eq: "(f::finding) = \<lparr>fi_file = file, fi_line = n, fi_pattern = name\<rparr> \<longleftrightarrow> fi_file f = file \<and> fi_line f = n \<and> fi_pattern f = name"
  by (cases f) simp
lemma set_scan_line:
  "f \<in> set (scan_line file (n, line)) \<longleftrightarrow>
     fi_file f = file \<and> fi_line f = n \<and> (\<exists>ps. (fi_pattern f, ps) \<in> set PATTERNS \<and> search ps line)"
    unfolding scan_line_def prod.case set_map set_filter image_iff Bex_def by (auto simp only: split_paired_Ex prod.case finding_eq mem_Collect_eq)
lemma in_numbered:
  "x \<in> set (concat (map g (enumerate (Suc 0) xs))) \<longleftrightarrow> (\<exists>n < length xs. x \<in> set (g (Suc n, xs ! n)))"
proof -
  have "enumerate (Suc 0) xs = map (\<lambda>n. (Suc n, xs ! n)) [0..<length xs]"
    by (rule nth_equalityI) (simp_all add: nth_enumerate_eq)
  then show ?thesis by auto
qed

lemma set_scan:
  "f \<in> set (scan R H root' fs) \<longleftrightarrow>
     (\<exists>p n. n < length (scanned_lines R H root' fs p)
        \<and> f \<in> set (scan_line (relative_text root' p) (Suc n, scanned_lines R H root' fs p ! n)))"
proof -
  have one: "f \<in> set (scan_file H fs root' p) \<longleftrightarrow>
      (\<exists>n. n < length (scanned_lines R H root' fs p)
        \<and> f \<in> set (scan_line (relative_text root' p) (Suc n, scanned_lines R H root' fs p ! n)))"
    if "p \<in> fst ` set fs" "below root' p" "to_scan R fs p" for p
    using that by (simp add: scan_file_def scanned_lines_def in_numbered del: set_concat set_map split: sum.split option.split)
  show ?thesis
    unfolding scan_def rglob_def by (force simp: one scanned_lines_def [of R H root' fs] split: if_splits)
qed

lemma scan_none:
  "scan R H root' fs = [] \<longleftrightarrow>
     (\<nexists>p line a secret b name ps. line \<in> set (scanned_lines R H root' fs p) \<and> line = a @ secret @ b
        \<and> (name, ps) \<in> set PATTERNS \<and> secret \<in> lang ps)" (is "_ \<longleftrightarrow> \<not> ?found")
proof -
  have "scan R H root' fs \<noteq> [] \<longleftrightarrow> (\<exists>f. f \<in> set (scan R H root' fs))"
    by (cases "scan R H root' fs") auto
  also have "\<dots> \<longleftrightarrow> (\<exists>p n name ps. n < length (scanned_lines R H root' fs p) \<and> (name, ps) \<in> set PATTERNS
      \<and> search ps (scanned_lines R H root' fs p ! n))"
    unfolding set_scan set_scan_line by (metis finding.select_convs)
  also have "\<dots> \<longleftrightarrow> ?found"
    unfolding search_iff in_set_conv_nth by blast
  finally show ?thesis by blast
qed

lemma scan_command_verdict:
  "fst (scan_command R H root' None fs) = Inr () \<longleftrightarrow> scan R H root' fs = []"
  by (simp add: scan_command_def followed_by_def asks_def yields_def raises_def)

text \<open>
  C37: the secret scan reports exactly the secrets in the lines it reads: a finding
  is in the report when its file is a file below the root the scan looks into, its line number is the one of a
  line of that file's text, and that line contains, anywhere, a text in the language of the pattern it
  names. The command ends with exit code 0 exactly when no line of any such file contains one.
\<close>

theorem scan_finds_exactly:
  "(f \<in> set (scan R H root' fs) \<longleftrightarrow>
     (\<exists>p n a secret b ps. fi_file f = relative_text root' p \<and> fi_line f = Suc n \<and> n < length (scanned_lines R H root' fs p)
        \<and> scanned_lines R H root' fs p ! n = a @ secret @ b \<and> (fi_pattern f, ps) \<in> set PATTERNS \<and> secret \<in> lang ps))
   \<and> (fst (scan_command R H root' None fs) = Inr () \<longleftrightarrow>
     (\<nexists>p line a secret b name ps. line \<in> set (scanned_lines R H root' fs p) \<and> line = a @ secret @ b
        \<and> (name, ps) \<in> set PATTERNS \<and> secret \<in> lang ps))"
proof
  show "f \<in> set (scan R H root' fs) \<longleftrightarrow>
     (\<exists>p n a secret b ps. fi_file f = relative_text root' p \<and> fi_line f = Suc n \<and> n < length (scanned_lines R H root' fs p)
        \<and> scanned_lines R H root' fs p ! n = a @ secret @ b \<and> (fi_pattern f, ps) \<in> set PATTERNS \<and> secret \<in> lang ps)"
    unfolding set_scan set_scan_line search_iff by metis
  show "fst (scan_command R H root' None fs) = Inr () \<longleftrightarrow>
     (\<nexists>p line a secret b name ps. line \<in> set (scanned_lines R H root' fs p) \<and> line = a @ secret @ b
        \<and> (name, ps) \<in> set PATTERNS \<and> secret \<in> lang ps)"
    unfolding scan_command_verdict by (rule scan_none)
qed

section \<open>What the scan does not see\<close>

definition no_links :: "tree \<Rightarrow> bool" where
  "no_links fs = list_all (\<lambda>(_, n). case n of LinkNode _ \<Rightarrow> False | _ \<Rightarrow> True) fs"

lemma no_links_at: "no_links fs \<Longrightarrow> followed fs p = node_at fs p"
  by (auto simp: no_links_def followed_def node_at_def list_all_iff split: option.split tree_node.splits dest!: map_of_SomeD)

lemma keys_set_existing: "map_of d k \<noteq> None \<Longrightarrow> map fst (dict_set k v d) = map fst d"
  by (induction d) (auto split: if_splits)

lemma no_links_set: "no_links fs \<Longrightarrow> no_links (dict_set p (FileNode c) fs)"
  unfolding no_links_def by (induction fs) auto

definition hidden_names :: "string list" where
  "hidden_names = [''.env'', ''.gitignore'', ''.dockerignore'']"

lemma hidden_not_scanned:
  assumes "rt_lower R [] = []" and "last p \<in> set hidden_names"
  shows "\<not> to_scan R fs p"
proof -
  have "suffix_of p = []" using assms(2) by (auto simp: suffix_of_def hidden_names_def)
  then show ?thesis using assms by (auto simp: to_scan_def TEXT_SUFFIXES_def PLAIN_NAMES_def hidden_names_def)
qed

text \<open>
  C38: what the scan cannot see. A file named \<^verbatim>\<open>.env\<close>, \<^verbatim>\<open>.gitignore\<close> or \<^verbatim>\<open>.dockerignore\<close> may hold any
  secret: writing any content into it leaves the scan's report as it was, because such a name has no suffix,
  although the three names are in the table of suffixes. And below a root that has
  an excluded name among its own parts, say \<^verbatim>\<open>/var/lib/repository\<close>, the scan reports nothing at all.
\<close>

theorem scan_blind_spots:
  assumes "rt_lower R [] = []" and "no_links fs" and "node_at fs p = Some (FileNode c)" and "last p \<in> set hidden_names"
    and "part \<in> set EXCLUDED_PARTS"
  shows "scan R H root' (dict_set p (FileNode secret) fs) = scan R H root' fs
    \<and> scan R H (up @ part # down) fs = []"
proof
  let ?fs = "dict_set p (FileNode secret) fs"
  have keys: "map fst ?fs = map fst fs"
    using assms(3) by (intro keys_set_existing) (simp add: node_at_def)
  have at: "followed ?fs q = (if q = p then Some (FileNode secret) else followed fs q)" for q
    using no_links_at [OF assms(2)] no_links_at [OF no_links_set [OF assms(2)]]
    by (simp add: node_at_def)
  have files: "to_scan R ?fs q = to_scan R fs q" for q
    using at [of q] no_links_at [OF assms(2)] assms(3) by (simp add: to_scan_def is_file_def)
  have "scan_file H ?fs root' q = scan_file H fs root' q" if "to_scan R fs q" for q
    using that at [of q] hidden_not_scanned [OF assms(1,4)] by (auto simp: scan_file_def read_node_def)
  then show "scan R H root' ?fs = scan R H root' fs"
    unfolding scan_def rglob_def keys files by (intro arg_cong [where f = concat]) simp
  have "\<not> to_scan R fs q" if "below (up @ part # down) q" for q
  proof -
    from that obtain r where "q = (up @ part # down) @ r"
      unfolding below_def inside_of_def by (metis append_take_drop_id)
    then show ?thesis using assms(5) by (auto simp: to_scan_def)
  qed
  then show "scan R H (up @ part # down) fs = []"
    unfolding scan_def rglob_def by (auto simp: filter_empty_conv)
qed

definition demo_text :: text_host where
  "demo_text = \<lparr>rh_decode = Some, rh_indent = (\<lambda>v. ''?'')\<rparr>"

definition demo_repository :: tree where
  "demo_repository = [([''srv''], DirNode), ([''srv'', ''.env''], FileNode []), ([''srv'', ''a.py''], FileNode ''x = 1'')]"

theorem scan_blind_spots_witness:
  "scan ascii_runtime demo_text [''srv''] (dict_set [''srv'', ''.env''] (FileNode ''AKIA0123456789ABCDEF'') demo_repository)
     = scan ascii_runtime demo_text [''srv''] demo_repository
   \<and> scan ascii_runtime demo_text ([] @ ''var'' # [''lib'']) demo_repository = []
   \<and> search (the (map_of PATTERNS ''aws_access_key'')) ''AKIA0123456789ABCDEF''"
proof -
  have "search (the (map_of PATTERNS ''aws_access_key'')) ''AKIA0123456789ABCDEF''" by code_simp
  with scan_blind_spots [of ascii_runtime demo_repository "[''srv'', ''.env'']" "[]" "''var''" demo_text "[''srv'']"
      "''AKIA0123456789ABCDEF''" "[]" "[''lib'']"]
  show ?thesis
    by (simp add: demo_repository_def no_links_def node_at_def hidden_names_def EXCLUDED_PARTS_def ascii_runtime_def)
qed

section \<open>Checksums\<close>

text \<open>What the checksum file says: the digests of the files and their relative names.\<close>

definition sums_listed :: "runtime \<Rightarrow> place \<Rightarrow> tree \<Rightarrow> (string \<times> string) list" where
  "sums_listed R root' fs = map (\<lambda>p. (case read_node fs p of Inl e \<Rightarrow> [] | Inr c \<Rightarrow> rt_sha256 R c, relative_text root' p)) (release_files root' fs)"

lemma readable_iff: "is_file fs p \<longleftrightarrow> (\<exists>c. read_node fs p = Inr c)"
  by (auto simp: is_file_def read_node_def split: option.split tree_node.split)

lemma sum_lines_iff:
  "res_fold (sum_line R root' fs) ps acc = Inr ls \<longleftrightarrow> (\<forall>p \<in> set ps. is_file fs p)
    \<and> ls = acc @ map (\<lambda>p. (case read_node fs p of Inl e \<Rightarrow> [] | Inr c \<Rightarrow> rt_sha256 R c) @ ''  '' @ relative_text root' p) ps"
proof (induction ps arbitrary: acc)
  case (Cons p ps)
  show ?case
  proof (cases "read_node fs p")
    case (Inl e)
    then show ?thesis using readable_iff [of fs p] by (simp add: sum_line_def and_then_def)
  next
    case (Inr c)
    then show ?thesis using readable_iff [of fs p] Cons.IH by (simp add: sum_line_def and_then_def)
  qed
qed auto

lemma render_sums_iff:
  "render_sums R root' fs = Inr t \<longleftrightarrow> (\<forall>p \<in> set (release_files root' fs). is_file fs p)
     \<and> t = join [NEWLINE] (map (\<lambda>(d, n). d @ ''  '' @ n) (sums_listed R root' fs)) @ [NEWLINE]"
proof (cases "res_fold (sum_line R root' fs) (release_files root' fs) []")
  case (Inl e)
  have "\<not> (\<forall>p \<in> set (release_files root' fs). is_file fs p)"
  proof
    assume "\<forall>p \<in> set (release_files root' fs). is_file fs p"
    from iffD2 [OF sum_lines_iff, OF conjI, OF this refl, of R root' "[]"] Inl show False by simp
  qed
  with Inl show ?thesis by (simp add: render_sums_def and_then_def)
next
  case (Inr ls)
  then have "\<forall>p \<in> set (release_files root' fs). is_file fs p"
    and ls: "ls = map (\<lambda>(d, n). d @ ''  '' @ n) (sums_listed R root' fs)"
    unfolding sum_lines_iff sums_listed_def by simp_all
  moreover from Inr have "render_sums R root' fs = Inr (join [NEWLINE] ls @ [NEWLINE])"
    by (simp add: render_sums_def and_then_def)
  ultimately show ?thesis by auto
qed

text \<open>The digests are texts of 64 characters, and no name of the repository holds a line end.\<close>

definition digests_ok :: "runtime \<Rightarrow> bool" where
  "digests_ok R = (\<forall>c. length (rt_sha256 R c) = 64 \<and> NEWLINE \<notin> set (rt_sha256 R c))"

definition names_plain :: "tree \<Rightarrow> bool" where
  "names_plain fs = list_all (\<lambda>(p, _). list_all (\<lambda>name. NEWLINE \<notin> set name) p) fs"

lemma join_lines_inj:
  assumes "join [NEWLINE] ls = join [NEWLINE] ms" and "\<And>l. l \<in> set ls \<union> set ms \<Longrightarrow> NEWLINE \<notin> set l \<and> l \<noteq> []"
  shows "ls = ms"
  using assms
proof (induction ls arbitrary: ms)
  case Nil
  then show ?case by (cases ms; cases "tl ms") auto
next
  case (Cons l ls)
  obtain m ms' where ms: "ms = m # ms'" using Cons.prems by (cases ms; cases ls) auto
  have cut: "takeWhile (\<lambda>c. c \<noteq> NEWLINE) (join [NEWLINE] (x # xs)) = x
      \<and> dropWhile (\<lambda>c. c \<noteq> NEWLINE) (join [NEWLINE] (x # xs)) = (if xs = [] then [] else NEWLINE # join [NEWLINE] xs)"
    if "NEWLINE \<notin> set x" for x xs
    using that by (cases xs) (auto simp: takeWhile_append dropWhile_append takeWhile_eq_all_conv)
  from Cons.prems ms have eq: "join [NEWLINE] (l # ls) = join [NEWLINE] (m # ms')"
    and plain: "NEWLINE \<notin> set l" "NEWLINE \<notin> set m" by auto
  from eq have "l = m" using cut [OF plain(1)] cut [OF plain(2)] by metis
  moreover from eq have "(if ls = [] then [] else NEWLINE # join [NEWLINE] ls) = (if ms' = [] then [] else NEWLINE # join [NEWLINE] ms')"
    using cut [OF plain(1)] cut [OF plain(2)] by metis
  then have "ls = ms'"
    using Cons.IH [of ms'] Cons.prems ms by (auto split: if_splits)
  ultimately show ?case using ms by simp
qed

text \<open>Two trees that have the same checksums, but for the checksum file itself.\<close>

definition sums_alike :: "runtime \<Rightarrow> place \<Rightarrow> tree \<Rightarrow> tree \<Rightarrow> bool" where
  "sums_alike R root' fs gs = (no_links gs \<and> release_files root' gs = release_files root' fs
     \<and> (\<forall>p. p \<noteq> root' @ SUMS \<longrightarrow> is_file gs p = is_file fs p)
     \<and> sums_listed R root' gs = sums_listed R root' fs)"

lemma release_files_not_sums: "root' @ SUMS \<notin> set (release_files root' fs)"
  by (auto simp: release_files_def OTHER_FILES_def SUMS_def)

lemma sums_alikeI:
  assumes "no_links gs" and "rglob gs (root' @ [''release'']) = rglob fs (root' @ [''release'']) @ extra"
    and "\<And>p. p \<in> set extra \<Longrightarrow> \<not> is_file gs p \<or> p = root' @ SUMS"
    and same: "\<And>p. p \<noteq> root' @ SUMS \<Longrightarrow> is_file gs p = is_file fs p \<and> (\<forall>c. read_node gs p = Inr c \<longleftrightarrow> read_node fs p = Inr c)"
  shows "sums_alike R root' fs gs"
proof -
  have "filter (\<lambda>p. is_file gs p \<and> p \<noteq> root' @ SUMS) (rglob gs (root' @ [''release'']))
      = filter (\<lambda>p. is_file fs p \<and> p \<noteq> root' @ SUMS) (rglob fs (root' @ [''release'']))"
    (is "filter ?P _ = filter ?Q ?xs")
  proof -
    have "filter ?P extra = []" using assms(3) by (auto simp: filter_empty_conv)
    moreover have "filter ?P ?xs = filter ?Q ?xs" by (rule filter_cong [OF refl]) (use same in blast)
    ultimately show ?thesis unfolding assms(2) filter_append by simp
  qed
  then have files: "release_files root' gs = release_files root' fs" by (simp add: release_files_def)
  have "(case read_node gs p of Inl e \<Rightarrow> [] | Inr c \<Rightarrow> rt_sha256 R c) = (case read_node fs p of Inl e \<Rightarrow> [] | Inr c \<Rightarrow> rt_sha256 R c)"
    if "p \<in> set (release_files root' fs)" for p
    using same [of p] that release_files_not_sums [of root' fs] by (fastforce split: sum.split)
  then have "sums_listed R root' gs = sums_listed R root' fs" by (simp add: sums_listed_def files)
  with assms(1) files same show ?thesis by (auto simp: sums_alike_def)
qed

lemma dict_set_new: "map_of d k = None \<Longrightarrow> dict_set k v d = d @ [(k, v)]"
  by (induction d) (auto split: if_splits)

lemma mkdir_ok_alike:
  assumes "no_links fs" and "mkdir_ok p fs = Inr gs"
  shows "sums_alike R root' fs gs"
proof (cases "node_at fs p")
  case None
  with assms(2) have gs: "gs = fs @ [(p, DirNode)]"
    by (auto simp: mkdir_ok_def mkdir_new_def node_at_def dict_set_new split: if_splits)
  have links: "no_links gs" using assms(1) by (simp add: gs no_links_def)
  have at: "followed gs q = (if q = p then Some DirNode else followed fs q)" for q
    using no_links_at [OF assms(1)] no_links_at [OF links] None by (auto simp: gs node_at_def map_add_def split: option.split)
  have none: "followed fs p = None" using no_links_at [OF assms(1)] None by simp
  have keys: "map fst gs = map fst fs @ [p]" by (simp add: gs)
  show ?thesis
  proof (rule sums_alikeI [OF links, where extra = "filter (below (root' @ [''release''])) [p]"])
    show "rglob gs (root' @ [''release'']) = rglob fs (root' @ [''release'']) @ filter (below (root' @ [''release''])) [p]"
      unfolding rglob_def keys filter_append ..
    show "\<not> is_file gs q \<or> q = root' @ SUMS" if "q \<in> set (filter (below (root' @ [''release''])) [p])" for q
      using that by (simp add: is_file_def at split: if_splits)
    show "is_file gs q = is_file fs q \<and> (\<forall>c. read_node gs q = Inr c \<longleftrightarrow> read_node fs q = Inr c)" for q
      by (simp add: is_file_def read_node_def at none)
  qed
next
  case (Some n)
  with assms have "gs = fs" by (auto simp: mkdir_ok_def split: if_splits)
  with assms(1) show ?thesis by (simp add: sums_alike_def)
qed

lemma sums_alike_trans: "sums_alike R root' fs gs \<Longrightarrow> sums_alike R root' gs hs \<Longrightarrow> sums_alike R root' fs hs"
  by (simp add: sums_alike_def)

lemma mkdir_parents_alike:
  assumes "no_links fs" and "mkdir_parents p fs = Inr gs"
  shows "sums_alike R root' fs gs"
proof -
  have "res_fold mkdir_ok ps fs = Inr gs \<Longrightarrow> no_links fs \<Longrightarrow> sums_alike R root' fs gs" for ps fs
  proof (induction ps arbitrary: fs)
    case Nil
    then show ?case by (simp add: sums_alike_def)
  next
    case (Cons q ps)
    then obtain hs where hs: "mkdir_ok q fs = Inr hs" "res_fold mkdir_ok ps hs = Inr gs" by (auto split: sum.splits)
    then have one: "sums_alike R root' fs hs" using mkdir_ok_alike Cons.prems by blast
    with Cons.IH [OF hs(2)] show ?case by (auto simp: sums_alike_def)
  qed
  with assms show ?thesis by (simp add: mkdir_parents_def)
qed

lemma write_sums_alike:
  assumes "no_links fs" and "write_node (root' @ SUMS) t fs = Inr gs"
  shows "sums_alike R root' fs gs" and "node_at gs (root' @ SUMS) = Some (FileNode t)"
proof -
  have gs: "gs = dict_set (root' @ SUMS) (FileNode t) fs"
  proof (cases "node_at fs (root' @ SUMS)")
    case None
    with assms(2) show ?thesis by (simp add: write_node_def split: if_splits)
  next
    case (Some n)
    with no_links_at [OF assms(1), of "root' @ SUMS"] assms show ?thesis
      by (cases n) (auto simp: write_node_def no_links_def node_at_def list_all_iff split: if_splits dest!: map_of_SomeD)
  qed
  then have links: "no_links gs" using no_links_set assms(1) by simp
  have at: "followed gs q = (if q = root' @ SUMS then Some (FileNode t) else followed fs q)" for q
    using no_links_at [OF assms(1)] no_links_at [OF links] by (simp add: gs node_at_def)
  have "\<exists>extra. map fst gs = map fst fs @ extra \<and> set extra \<subseteq> {root' @ SUMS}"
    by (cases "map_of fs (root' @ SUMS)") (auto simp: gs dict_set_new keys_set_existing)
  then obtain extra where extra: "map fst gs = map fst fs @ extra" "set extra \<subseteq> {root' @ SUMS}" by blast
  show "sums_alike R root' fs gs"
  proof (rule sums_alikeI [OF links, where extra = "filter (below (root' @ [''release''])) extra"])
    show "rglob gs (root' @ [''release'']) = rglob fs (root' @ [''release'']) @ filter (below (root' @ [''release''])) extra"
      unfolding rglob_def extra(1) filter_append ..
    show "\<not> is_file gs q \<or> q = root' @ SUMS" if "q \<in> set (filter (below (root' @ [''release''])) extra)" for q
      using that extra(2) by auto
    show "is_file gs q = is_file fs q \<and> (\<forall>c. read_node gs q = Inr c \<longleftrightarrow> read_node fs q = Inr c)" if "q \<noteq> root' @ SUMS" for q
      using that by (simp add: is_file_def read_node_def at)
  qed
  show "node_at gs (root' @ SUMS) = Some (FileNode t)" by (simp add: gs node_at_def)
qed

lemma render_sums_same:
  assumes "sums_alike R root' fs gs"
  shows "render_sums R root' gs = Inr t \<longleftrightarrow> render_sums R root' fs = Inr t"
proof -
  have "is_file gs p = is_file fs p" if "p \<in> set (release_files root' fs)" for p
    using assms that release_files_not_sums [of root' fs] unfolding sums_alike_def by metis
  with assms show ?thesis by (auto simp: render_sums_iff sums_alike_def)
qed

text \<open>The text of a checksum file determines what it says.\<close>

lemma relative_plain:
  assumes "names_plain fs" and "p \<in> set (release_files root' fs)"
  shows "NEWLINE \<notin> set (relative_text root' p)"
proof -
  have plain: "NEWLINE \<notin> set (join ''/'' ns)" if "\<And>name. name \<in> set ns \<Longrightarrow> NEWLINE \<notin> set name" for ns
    using that by (induction "''/''" ns rule: join.induct) (auto simp: NEWLINE_def)
  have "\<exists>q \<in> set OTHER_FILES. p = root' @ q \<or> p \<in> fst ` set fs"
    using assms(2) by (auto simp: release_files_def rglob_def OTHER_FILES_def)
  moreover have "list_all (list_all (\<lambda>name. NEWLINE \<notin> set name)) OTHER_FILES" by code_simp
  ultimately have "\<forall>name \<in> set (drop (length root') p). NEWLINE \<notin> set name"
    using assms(1) by (fastforce simp: names_plain_def list_all_iff dest: in_set_dropD)
  then show ?thesis unfolding relative_text_def by (intro plain) blast
qed

lemma sums_text_inj:
  assumes "digests_ok R" and "names_plain fs" and "names_plain gs"
    and "\<forall>p \<in> set (release_files root' fs). is_file fs p" and "\<forall>p \<in> set (release_files root' gs). is_file gs p"
    and "join [NEWLINE] (map (\<lambda>(d, n). d @ ''  '' @ n) (sums_listed R root' fs))
       = join [NEWLINE] (map (\<lambda>(d, n). d @ ''  '' @ n) (sums_listed R root' gs))"
  shows "sums_listed R root' fs = sums_listed R root' gs"
proof -
  have entry: "length d = 64 \<and> NEWLINE \<notin> set d \<and> NEWLINE \<notin> set n"
    if "(d, n) \<in> set (sums_listed R root' hs)" "names_plain hs" "\<forall>p \<in> set (release_files root' hs). is_file hs p" for d n hs
    using that assms(1) relative_plain [OF that(2)] readable_iff [of hs] by (fastforce simp: sums_listed_def digests_ok_def)
  have "map (\<lambda>(d, n). d @ ''  '' @ n) (sums_listed R root' fs) = map (\<lambda>(d, n). d @ ''  '' @ n) (sums_listed R root' gs)"
    using assms(6) by (rule join_lines_inj) (use entry assms(2-5) in \<open>fastforce simp: NEWLINE_def\<close>)
  then show ?thesis
  proof (rule map_inj_on [OF _ inj_onI])
    fix x y assume "x \<in> set (sums_listed R root' fs) \<union> set (sums_listed R root' gs)"
      "y \<in> set (sums_listed R root' fs) \<union> set (sums_listed R root' gs)"
      "(\<lambda>(d, n). d @ ''  '' @ n) x = (\<lambda>(d, n). d @ ''  '' @ n) y"
    moreover from this have "length (fst x) = 64" "length (fst y) = 64"
      using entry assms(2-5) by (metis UnE prod.collapse)+
    ultimately show "x = y" by (auto simp: split_beta intro!: prod_eqI)
  qed
qed

lemma check_current:
  assumes "no_links fs" and "node_at fs (root' @ SUMS) = Some (FileNode t)" and "rh_decode H t = Some t"
  shows "sums_command R H root' True fs = (and_then (render_sums R root' fs) (\<lambda>e.
      if t = e then Inr () else Inl (system_exit ''Release checksums are out of date'')), fs)"
proof -
  have at: "followed fs (root' @ SUMS) = Some (FileNode t)" using no_links_at [OF assms(1)] assms(2) by simp
  then show ?thesis
    using assms(3) by (simp add: sums_command_def followed_by_def asks_def sums_current_def exists_at_def read_node_def and_then_def
        split: sum.split)
qed

lemma sums_command_write:
  assumes "sums_command R H root' False fs = (Inr (), fs')" and "no_links fs"
  obtains t where "render_sums R root' fs = Inr t" "sums_alike R root' fs fs'" "node_at fs' (root' @ SUMS) = Some (FileNode t)"
proof -
  obtain t where t: "render_sums R root' fs = Inr t"
    using assms(1) by (cases "render_sums R root' fs") (auto simp: sums_command_def followed_by_def asks_def)
  obtain gs where gs: "mkdir_parents (butlast (root' @ SUMS)) fs = Inr gs"
    using assms(1) t by (cases "mkdir_parents (butlast (root' @ SUMS)) fs") (auto simp: sums_command_def followed_by_def asks_def changes_def)
  have w: "write_node (root' @ SUMS) t gs = Inr fs'"
    using assms(1) t gs by (auto simp: sums_command_def followed_by_def asks_def changes_def split: sum.splits)
  have alike: "sums_alike R root' fs gs" by (rule mkdir_parents_alike [OF assms(2) gs])
  then have "no_links gs" by (simp add: sums_alike_def)
  from write_sums_alike [OF this w] have "sums_alike R root' fs fs'" "node_at fs' (root' @ SUMS) = Some (FileNode t)"
    using sums_alike_trans [OF alike] by blast+
  with t show thesis by (rule that)
qed

text \<open>
  C39: the checksum file is current exactly as long as the release is. After the command wrote it, its check
  succeeds and changes nothing; and on any later tree that has the same checksum file, the check succeeds
  exactly when all files to be listed are there and their sorted names and digests are the ones of the release it was
  written for: a changed, added or removed file is noticed. The repository has no symbolic links and no line end in a name, a digest has 64
  characters, and the file reads back as written.
\<close>

theorem checksums_current_iff:
  assumes "sums_command R H root' False fs = (Inr (), fs')" and "digests_ok R" and "names_plain fs" and "no_links fs"
    and "\<And>t. node_at fs' (root' @ SUMS) = Some (FileNode t) \<Longrightarrow> rh_decode H t = Some t"
  shows "sums_command R H root' True fs' = (Inr (), fs')
    \<and> (\<forall>later. node_at later (root' @ SUMS) = node_at fs' (root' @ SUMS) \<longrightarrow> names_plain later \<longrightarrow> no_links later \<longrightarrow>
         (fst (sums_command R H root' True later) = Inr () \<longleftrightarrow>
            (\<forall>p \<in> set (release_files root' later). is_file later p) \<and> sums_listed R root' later = sums_listed R root' fs))"
proof -
  obtain t where t: "render_sums R root' fs = Inr t" "sums_alike R root' fs fs'" "node_at fs' (root' @ SUMS) = Some (FileNode t)"
    using sums_command_write [OF assms(1,4)] .
  have written: "\<forall>p \<in> set (release_files root' fs). is_file fs p"
    "t = join [NEWLINE] (map (\<lambda>(d, n). d @ ''  '' @ n) (sums_listed R root' fs)) @ [NEWLINE]"
    using t(1) unfolding render_sums_iff by blast+
  have here: "no_links fs'" "render_sums R root' fs' = Inr t"
    using t(1,2) render_sums_same [OF t(2)] by (simp_all add: sums_alike_def)
  have "sums_command R H root' True fs' = (Inr (), fs')"
    using check_current [OF here(1) t(3) assms(5) [OF t(3)]] here(2) by (simp add: and_then_def)
  moreover have "fst (sums_command R H root' True later) = Inr () \<longleftrightarrow>
      (\<forall>p \<in> set (release_files root' later). is_file later p) \<and> sums_listed R root' later = sums_listed R root' fs"
    if later: "node_at later (root' @ SUMS) = node_at fs' (root' @ SUMS)" "names_plain later" "no_links later" for later
  proof -
    have "fst (sums_command R H root' True later) = Inr () \<longleftrightarrow> render_sums R root' later = Inr t"
      using check_current [OF later(3) _ assms(5) [OF t(3)], of root' R] later(1) t(3)
      by (cases "render_sums R root' later") (auto simp: and_then_def)
    also have "\<dots> \<longleftrightarrow> (\<forall>p \<in> set (release_files root' later). is_file later p) \<and> sums_listed R root' later = sums_listed R root' fs"
    proof
      assume "render_sums R root' later = Inr t"
      then have *: "\<forall>p \<in> set (release_files root' later). is_file later p"
        "t = join [NEWLINE] (map (\<lambda>(d, n). d @ ''  '' @ n) (sums_listed R root' later)) @ [NEWLINE]"
        unfolding render_sums_iff by blast+
      with written have "sums_listed R root' later = sums_listed R root' fs"
        by (intro sums_text_inj [OF assms(2) later(2) assms(3)]) simp_all
      with *(1) show "(\<forall>p \<in> set (release_files root' later). is_file later p) \<and> sums_listed R root' later = sums_listed R root' fs"
        by blast
    next
      assume "(\<forall>p \<in> set (release_files root' later). is_file later p) \<and> sums_listed R root' later = sums_listed R root' fs"
      with written show "render_sums R root' later = Inr t" unfolding render_sums_iff by simp
    qed
    finally show ?thesis .
  qed
  ultimately show ?thesis by blast
qed

definition padded_runtime :: runtime where
  "padded_runtime = ascii_runtime\<lparr>rt_sha256 := (\<lambda>c. take 64 (filter (\<lambda>x. x \<noteq> NEWLINE) c @ replicate 64 CHR ''0''))\<rparr>"

definition release_tree :: tree where
  "release_tree = [([''release''], DirNode), ([''benchmark-baseline''], DirNode), ([''benchmark-results''], DirNode), ([''docs''], DirNode),
     ([''docs'', ''evidence''], DirNode), ([''docs'', ''assets''], DirNode), ([''release'', ''notes''], FileNode ''first'')]
     @ map (\<lambda>p. (p, FileNode ''data'')) OTHER_FILES"

definition release_sums :: tree where
  "release_sums = snd (sums_command padded_runtime demo_text [] False release_tree)"

lemma release_sums_run:
  "case sums_command padded_runtime demo_text [] False release_tree of (r, t) \<Rightarrow> r = Inr ()
     \<and> (let later = dict_set [''release'', ''notes''] (FileNode ''second'') t in
        node_at later ([] @ SUMS) = node_at t ([] @ SUMS) \<and> names_plain later \<and> no_links later
        \<and> sums_listed padded_runtime [] later \<noteq> sums_listed padded_runtime [] release_tree)"
  by code_simp

theorem checksums_current_iff_witness:
  "sums_command padded_runtime demo_text [] True release_sums = (Inr (), release_sums)
   \<and> fst (sums_command padded_runtime demo_text [] True (dict_set [''release'', ''notes''] (FileNode ''second'') release_sums)) \<noteq> Inr ()"
proof -
  obtain r t where e: "sums_command padded_runtime demo_text [] False release_tree = (r, t)" by fastforce
  have t: "t = release_sums" by (simp add: release_sums_def e)
  note later = release_sums_run [unfolded e prod.case Let_def t]
  from e later have run: "sums_command padded_runtime demo_text [] False release_tree = (Inr (), release_sums)" by (simp add: t)
  have digests: "digests_ok padded_runtime"
    by (auto simp: digests_ok_def padded_runtime_def NEWLINE_def dest: in_set_takeD)
  have plain: "names_plain release_tree" "no_links release_tree" by code_simp+
  show ?thesis using checksums_current_iff [OF run digests plain] later by (simp add: demo_text_def)
qed

end
