(* ===== verification/Release_Checks.thy ===== *)
theory Release_Checks
  imports Secret_Scan Demo_Launcher
begin

text \<open>
  The two gates of a release: the regression check of a benchmark
  (\<^verbatim>\<open>scripts/verify_benchmark.py\<close>) and the verification of the release's evidence
  (\<^verbatim>\<open>scripts/verify_release.py\<close>). Files are texts under the path they are opened with.
\<close>

section \<open>What the scripts are given\<close>

text \<open>
  TOML, the four decimals of \<^verbatim>\<open>f"{x:.4f}"\<close>, the text of a set, and \<^verbatim>\<open>ffprobe\<close>: where it is, and its
  output for a path or the exception \<^verbatim>\<open>subprocess.run\<close> raises. The members of the set \<^verbatim>\<open>REQUIRED_STAGES\<close> come in
  the order \<open>rl_order\<close>.
\<close>

record release_host =
  rl_runtime :: runtime
  rl_codecs :: codecs
  rl_texts :: text_host
  rl_toml :: "string \<Rightarrow> pyval res"
  rl_show4 :: "pyfloat \<Rightarrow> string"
  rl_set_text :: "string list \<Rightarrow> string"
  rl_which :: "string \<Rightarrow> string option"
  rl_probe :: "string \<Rightarrow> string \<Rightarrow> string res"
  rl_order :: "string list"

definition REQUIRED_STAGES :: "string list" where
  "REQUIRED_STAGES = [''synthetic_generation'', ''csv_connector'', ''json_connector'', ''xlsx_connector'', ''parquet_connector'',
     ''profiling'', ''mapping'', ''validation'', ''deterministic_matching'', ''probabilistic_matching'', ''training_mart'',
     ''parquet_export'']"

section \<open>Numbers of a report\<close>

text \<open>A value as a number that is compared.\<close>

definition number_of :: "pyval \<Rightarrow> pyfloat res" where
  "number_of v = (case numeric v of None \<Rightarrow> Inl TypeError | Some f \<Rightarrow> Inr f)"

definition fl_less :: "pyfloat \<Rightarrow> pyfloat \<Rightarrow> bool" where
  "fl_less a b = (float_le a b \<and> \<not> float_le b a)"

fun fl_mul :: "pyfloat \<Rightarrow> pyfloat \<Rightarrow> pyfloat" where
  "fl_mul NaN b = NaN"
| "fl_mul a NaN = NaN"
| "fl_mul (Fin x) (Fin y) = Fin (x * y)"
| "fl_mul (Fin x) b = (if x = 0 then NaN else if x < 0 then fl_neg b else b)"
| "fl_mul a (Fin y) = (if y = 0 then NaN else if y < 0 then fl_neg a else a)"
| "fl_mul a b = (if a = b then PosInf else NegInf)"

fun fl_round4 :: "pyfloat \<Rightarrow> pyfloat" where
  "fl_round4 (Fin x) = Fin (round4 x)"
| "fl_round4 f = f"

definition ratio :: "pyfloat \<Rightarrow> pyfloat \<Rightarrow> pyfloat res" where
  "ratio a b = (if b = Fin 0 then Inl ZeroDivisionError
     else Inr (case b of Fin y \<Rightarrow> if y < 0 then fl_neg (fl_div a (Fin (- y))) else fl_div a b | _ \<Rightarrow> fl_div a b))"

section \<open>The benchmark\<close>

text \<open>\<^verbatim>\<open>{item["stage"]: item for item in items}\<close>: an equal key keeps its place and takes the later value.\<close>

fun put_stage :: "pyval \<Rightarrow> pyval \<Rightarrow> (pyval \<times> pyval) list \<Rightarrow> (pyval \<times> pyval) list" where
  "put_stage name item [] = [(name, item)]"
| "put_stage name item ((k, v) # d) = (if py_eq k name then (k, item) # d else (k, v) # put_stage name item d)"

definition stage_entry :: "pyval \<Rightarrow> (pyval \<times> pyval) list \<Rightarrow> (pyval \<times> pyval) list res" where
  "stage_entry item d = (and_then (py_item item ''stage'') (\<lambda>name.
     case name of PList _ \<Rightarrow> Inl TypeError | PDict _ \<Rightarrow> Inl TypeError | _ \<Rightarrow> Inr (put_stage name item d)))"

definition stages_of :: "pyval \<Rightarrow> (pyval \<times> pyval) list res" where
  "stages_of document = (and_then (py_item document ''stages'') (\<lambda>v.
     and_then (py_iter v) (\<lambda>items. res_fold stage_entry items [])))"

definition stage_item :: "(pyval \<times> pyval) list \<Rightarrow> string \<Rightarrow> pyval res" where
  "stage_item d name = (case map_of d (PStr name) of None \<Rightarrow> Inl (KeyError name) | Some item \<Rightarrow> Inr item)"

definition stage_valid :: "runtime \<Rightarrow> pyval \<times> pyval \<Rightarrow> unit \<Rightarrow> unit res" where
  "stage_valid R entry u = (case entry of (name, item) \<Rightarrow>
     and_then (py_item item ''duration_seconds'') (\<lambda>v. and_then (number_of v) (\<lambda>duration.
     if float_le duration (Fin 0) then Inl (system_exit (''Benchmark duration is invalid: '' @ py_str R name)) else
     and_then (py_item item ''record_count'') (\<lambda>v. and_then (number_of v) (\<lambda>count.
     if fl_less count (Fin 0) then Inl (system_exit (''Benchmark record count is invalid: '' @ py_str R name)) else Inr ())))))"

text \<open>One turn of the loop over the required stages: the budget is the limit the stage may take.\<close>

definition duration_of :: "runtime \<Rightarrow> (pyval \<times> pyval) list \<Rightarrow> string \<Rightarrow> pyfloat res" where
  "duration_of R d name = (and_then (stage_item d name) (\<lambda>item. and_then (py_item item ''duration_seconds'') (py_float R)))"

definition stage_limit :: "runtime \<Rightarrow> pyval \<Rightarrow> pyfloat \<Rightarrow> pyfloat \<Rightarrow> string \<Rightarrow> pyfloat \<Rightarrow> pyfloat res" where
  "stage_limit R budgets default_multiplier default_slack name base_duration =
     (and_then (value_get budgets ''stages'' (PDict [])) (\<lambda>v.
      and_then (value_get v name (PDict [])) (\<lambda>stage_budget.
      and_then (value_get stage_budget ''duration_multiplier'' (PFloat default_multiplier)) (\<lambda>v.
      and_then (py_float R v) (\<lambda>multiplier.
      and_then (value_get stage_budget ''absolute_slack_seconds'' (PFloat default_slack)) (\<lambda>v.
      and_then (py_float R v) (\<lambda>slack.
      Inr (fl_add (fl_mul base_duration multiplier) slack))))))))"

definition stage_failure :: "release_host \<Rightarrow> (pyval \<times> pyval) list \<Rightarrow> (pyval \<times> pyval) list \<Rightarrow> pyval \<Rightarrow> pyfloat \<Rightarrow> pyfloat
    \<Rightarrow> string \<Rightarrow> string list \<Rightarrow> string list res" where
  "stage_failure L stages baseline_stages budgets default_multiplier default_slack name failures =
     (and_then (duration_of (rl_runtime L) baseline_stages name) (\<lambda>base_duration.
      and_then (duration_of (rl_runtime L) stages name) (\<lambda>current_duration.
      and_then (stage_limit (rl_runtime L) budgets default_multiplier default_slack name base_duration) (\<lambda>bound.
      Inr (if fl_less bound current_duration
           then failures @ [name @ '': '' @ rl_show4 L current_duration @ ''s > '' @ rl_show4 L bound @ ''s'']
           else failures)))))"

definition stage_ratio :: "runtime \<Rightarrow> (pyval \<times> pyval) list \<Rightarrow> (pyval \<times> pyval) list \<Rightarrow> string \<Rightarrow> pyrec \<Rightarrow> pyrec res" where
  "stage_ratio R stages baseline_stages name acc =
     (and_then (duration_of R stages name) (\<lambda>current_duration.
      and_then (duration_of R baseline_stages name) (\<lambda>base_duration.
      and_then (ratio current_duration base_duration) (\<lambda>q.
      Inr (acc @ [(name, PFloat (fl_round4 q))])))))"

definition benchmark_passed :: "pyval \<Rightarrow> string \<Rightarrow> pyrec res" where
  "benchmark_passed current current_path = (and_then (py_item current ''project_version'') (\<lambda>v.
     Inr [(''status'', PStr ''passed''), (''version'', v), (''current'', PStr current_path),
          (''interpretation'', PStr ''Local regression check only; not a production SLA.'')]))"

definition compare_benchmark :: "release_host \<Rightarrow> files \<Rightarrow> (pyval \<times> pyval) list \<Rightarrow> pyrec \<Rightarrow> string \<Rightarrow> string \<Rightarrow> pyrec res" where
  "compare_benchmark L fs stages result baseline_path budgets_path =
     (and_then (json_file (rl_codecs L) fs baseline_path) (\<lambda>baseline.
      and_then (stages_of baseline) (\<lambda>baseline_stages.
      and_then (json_file (rl_codecs L) fs budgets_path) (\<lambda>budgets.
      and_then (py_item budgets ''default_duration_multiplier'') (\<lambda>v. and_then (py_float (rl_runtime L) v) (\<lambda>default_multiplier.
      and_then (py_item budgets ''default_absolute_slack_seconds'') (\<lambda>v. and_then (py_float (rl_runtime L) v) (\<lambda>default_slack.
      and_then (res_fold (stage_failure L stages baseline_stages budgets default_multiplier default_slack) (rl_order L) []) (\<lambda>failures.
      if failures \<noteq> [] then Inl (system_exit (''Benchmark regression budget exceeded: '' @ join ''; '' failures)) else
      and_then (res_fold (stage_ratio (rl_runtime L) stages baseline_stages) (sort REQUIRED_STAGES) []) (\<lambda>ratios.
      Inr (result @ [(''baseline'', PStr baseline_path), (''budgets'', PStr budgets_path), (''duration_ratios'', PDict ratios)])))))))))))"

definition verify_benchmark :: "release_host \<Rightarrow> files \<Rightarrow> string \<Rightarrow> string option \<Rightarrow> string option \<Rightarrow> pyrec res" where
  "verify_benchmark L fs current_path baseline_path budgets_path =
     (and_then (json_file (rl_codecs L) fs current_path) (\<lambda>current.
      and_then (stages_of current) (\<lambda>stages.
      let missing = filter (\<lambda>name. PStr name \<notin> fst ` set stages) REQUIRED_STAGES in
      if missing \<noteq> [] then Inl (system_exit (''Benchmark stages missing: '' @ join '', '' (sort missing))) else
      and_then (res_fold (stage_valid (rl_runtime L)) stages ()) (\<lambda>_.
      and_then (benchmark_passed current current_path) (\<lambda>result.
      case (baseline_path, budgets_path) of
        (Some b, Some g) \<Rightarrow> compare_benchmark L fs stages result b g
      | _ \<Rightarrow> Inr result)))))"

section \<open>The release\<close>

text \<open>\<^verbatim>\<open>ROOT / path\<close>: an absolute path replaces the root.\<close>

definition under_root :: "string \<Rightarrow> string \<Rightarrow> string" where
  "under_root root' p = (if starts_with p ''/'' then p else root' @ ''/'' @ p)"

definition load_json :: "release_host \<Rightarrow> string \<Rightarrow> files \<Rightarrow> string \<Rightarrow> pyval res" where
  "load_json L root' fs p = json_file (rl_codecs L) fs (under_root root' p)"

text \<open>\<^verbatim>\<open>re.search(r'__version__ = "([^"]+)"', text).group(1)\<close>\<close>

definition VERSION_PREFIX :: string where "VERSION_PREFIX = ''__version__ = '' @ [CHR 0x22]"

fun quoted_version :: "string \<Rightarrow> string option" where
  "quoted_version [] = None"
| "quoted_version (c # cs) =
     (let t = drop (length VERSION_PREFIX) (c # cs); v = takeWhile (\<lambda>x. x \<noteq> CHR 0x22) t in
      if starts_with (c # cs) VERSION_PREFIX \<and> v \<noteq> [] \<and> length v < length t then Some v else quoted_version cs)"

definition text_version :: "string \<Rightarrow> string res" where
  "text_version t = (case quoted_version t of None \<Rightarrow> Inl (RuntimeError ''AttributeError'') | Some v \<Rightarrow> Inr v)"

text \<open>\<^verbatim>\<open>value[k1][k2]...\<close>\<close>

definition at_path :: "pyval \<Rightarrow> string list \<Rightarrow> pyval res" where
  "at_path v keys = res_fold (\<lambda>k v. py_item v k) keys v"

definition INIT_FILE :: string where
  "INIT_FILE = ''packages/eduwork_databridge/eduwork_databridge/__init__.py''"

text \<open>The version of the project, and the five places that name it.\<close>

definition release_versions :: "release_host \<Rightarrow> string \<Rightarrow> files \<Rightarrow> (string \<times> string list) res" where
  "release_versions L root' fs =
     (and_then (and_then (read_file fs (under_root root' ''pyproject.toml'')) (rl_toml L)) (\<lambda>project.
      and_then (at_path project [''project'', ''version'']) (\<lambda>v.
      let release = py_str (rl_runtime L) v in
      and_then (load_json L root' fs ''apps/reviewer-ui/package.json'') (\<lambda>package.
      and_then (load_json L root' fs ''apps/reviewer-ui/package-lock.json'') (\<lambda>lock.
      and_then (read_file fs (under_root root' INIT_FILE)) (\<lambda>init_text.
      and_then (at_path package [''version'']) (\<lambda>v1.
      and_then (at_path lock [''version'']) (\<lambda>v2.
      and_then (at_path lock [''packages'', [], ''version'']) (\<lambda>v3.
      and_then (text_version init_text) (\<lambda>v4.
      Inr (release, [release, py_str (rl_runtime L) v1, py_str (rl_runtime L) v2, py_str (rl_runtime L) v3, v4])))))))))))"

definition required_artifacts :: "string \<Rightarrow> string list" where
  "required_artifacts release =
     [''mkdocs.yml'', ''docs/index.md'', ''docs/PROJECT_OVERVIEW.md'', ''docs/evaluator/30-minute-tour.md'',
      ''docs/guides/review-workbench.md'', ''docs/guides/exception-desk.md'', ''docs/guides/demo-quickstart.md'',
      ''scripts/demo.py'', ''scripts/demo_doctor.py'', ''scripts/demo_workspace.py'', ''apps/reviewer-ui/playwright.config.ts'',
      ''apps/reviewer-ui/e2e/demo.spec.ts'', ''docs/assets/exception-desk-v0.60.jpg'', ''docs/release/v'' @ release @ ''.md'',
      ''docs/evidence/release-manifest.json'', ''benchmark-results/current.json'', ''docs/assets/eduwork-databridge-walkthrough.mp4'',
      ''benchmark-baseline/small-v0.14.0.json'', ''benchmark-baseline/budgets.json'', ''release/sbom/python-runtime.cdx.json'',
      ''release/sbom/frontend.cdx.json'', ''release/sbom/frontend.spdx.json'', ''release/security/pip-audit.json'',
      ''release/security/npm-audit.json'', ''release/security/secret-scan.json'', ''release/packages/package-verification.json'',
      ''release/packages/wheel-install-verification.json'', ''release/backup-restore-verification.json'',
      ''release/benchmark-verification.json'', ''release/environment-gaps.json'', ''docs/release/external-review-checklist.md'',
      ''docs/release/release-checklist.md'', ''docs/release/risk-register.md'', ''docs/release/claim-boundaries.md'']"

definition required_present :: "string \<Rightarrow> string \<Rightarrow> files \<Rightarrow> unit res" where
  "required_present root' release fs =
     (let missing = filter (\<lambda>p. fs (under_root root' p) = None) (required_artifacts release) in
      if missing \<noteq> [] then Inl (system_exit (''Release artifacts missing: '' @ join '', '' missing)) else Inr ())"

definition vulns_of :: "pyval \<Rightarrow> pyval list \<Rightarrow> pyval list res" where
  "vulns_of dependency acc = (and_then (value_get dependency ''vulns'' (PList [])) (\<lambda>v. and_then (py_iter v) (\<lambda>vs. Inr (acc @ vs))))"

definition security_scans :: "release_host \<Rightarrow> string \<Rightarrow> files \<Rightarrow> unit res" where
  "security_scans L root' fs =
     (and_then (load_json L root' fs ''release/security/pip-audit.json'') (\<lambda>pip_audit.
      and_then (py_item pip_audit ''dependencies'') (\<lambda>v. and_then (py_iter v) (\<lambda>dependencies.
      and_then (res_fold vulns_of dependencies []) (\<lambda>vulnerabilities.
      if vulnerabilities \<noteq> [] then Inl (system_exit ''Python dependency audit contains vulnerabilities'') else
      and_then (load_json L root' fs ''release/security/npm-audit.json'') (\<lambda>npm_audit.
      and_then (at_path npm_audit [''metadata'', ''vulnerabilities'', ''total'']) (\<lambda>v.
      and_then (py_int_of (rl_runtime L) v) (\<lambda>found.
      if found \<noteq> 0 then Inl (system_exit ''Frontend dependency audit contains vulnerabilities'') else
      and_then (load_json L root' fs ''release/security/secret-scan.json'') (\<lambda>secret_scan.
      and_then (py_item secret_scan ''findings'') (\<lambda>findings.
      if truthy findings then Inl (system_exit ''Targeted secret scan contains findings'') else Inr ()))))))))))"

definition SBOMS :: "string list" where
  "SBOMS = [''release/sbom/python-runtime.cdx.json'', ''release/sbom/frontend.cdx.json'', ''release/sbom/frontend.spdx.json'']"

definition sbom_filled :: "release_host \<Rightarrow> string \<Rightarrow> files \<Rightarrow> string \<Rightarrow> unit \<Rightarrow> unit res" where
  "sbom_filled L root' fs p u = (and_then (load_json L root' fs p) (\<lambda>document.
     if \<not> truthy document then Inl (system_exit (''SBOM is empty: '' @ p)) else Inr ()))"

text \<open>\<^verbatim>\<open>report[k1] != v1 or report[k2] != v2 or ...\<close>, ending in the message.\<close>

fun agrees :: "string \<Rightarrow> pyval \<Rightarrow> (string \<times> string) list \<Rightarrow> unit res" where
  "agrees message document [] = Inr ()"
| "agrees message document ((k, v) # rest) = (and_then (py_item document k) (\<lambda>w.
     if w \<noteq> PStr v then Inl (system_exit message) else agrees message document rest))"

definition package_reports :: "release_host \<Rightarrow> string \<Rightarrow> string \<Rightarrow> files \<Rightarrow> unit res" where
  "package_reports L root' release fs =
     (and_then (load_json L root' fs ''release/packages/package-verification.json'') (\<lambda>package_report.
      and_then (load_json L root' fs ''release/packages/wheel-install-verification.json'') (\<lambda>wheel_report.
      and_then (agrees ''Package verification did not pass'' package_report [(''status'', ''passed''), (''version'', release)]) (\<lambda>_.
      agrees ''Wheel installation verification did not pass'' wheel_report
        [(''status'', ''passed''), (''import_version'', release), (''fastapi_app_version'', release)]))))"

definition regression_reports :: "release_host \<Rightarrow> string \<Rightarrow> string \<Rightarrow> files \<Rightarrow> pyrec res" where
  "regression_reports L root' release fs =
     (and_then (load_json L root' fs ''release/backup-restore-verification.json'') (\<lambda>backup_report.
      and_then (agrees ''Backup/restore verification did not pass'' backup_report [(''status'', ''passed''), (''version'', release)]) (\<lambda>_.
      and_then (load_json L root' fs ''release/benchmark-verification.json'') (\<lambda>benchmark_report.
      and_then (agrees ''Benchmark regression verification did not pass'' benchmark_report [(''status'', ''passed''), (''version'', release)]) (\<lambda>_.
      and_then (text_item benchmark_report ''current'') (\<lambda>current.
      and_then (load_json L root' fs current) (\<lambda>results.
      and_then (agrees ''Benchmark results are from a different version'' results [(''project_version'', release)]) (\<lambda>_.
      and_then (text_item benchmark_report ''baseline'') (\<lambda>baseline.
      and_then (text_item benchmark_report ''budgets'') (\<lambda>budgets.
      verify_benchmark L fs (under_root root' current) (Some (under_root root' baseline)) (Some (under_root root' budgets))))))))))))"

definition lockfile_current :: "release_host \<Rightarrow> string \<Rightarrow> files \<Rightarrow> string \<times> pyval \<Rightarrow> unit \<Rightarrow> unit res" where
  "lockfile_current L root' fs entry u = (case entry of (p, expected) \<Rightarrow>
     and_then (read_file fs (under_root root' p)) (\<lambda>c.
     if PStr (rt_sha256 (rl_runtime L) c) \<noteq> expected
     then Inl (system_exit (''Release manifest lockfile hash is out of date: '' @ p)) else Inr ()))"

definition dict_items :: "pyval \<Rightarrow> pyrec res" where
  "dict_items v = (case v of PDict d \<Rightarrow> Inr d | _ \<Rightarrow> Inl (RuntimeError ''AttributeError''))"

definition manifest_current :: "release_host \<Rightarrow> string \<Rightarrow> string \<Rightarrow> files \<Rightarrow> unit res" where
  "manifest_current L root' release fs =
     (and_then (load_json L root' fs ''docs/evidence/release-manifest.json'') (\<lambda>manifest.
      and_then (agrees ''Release manifest is from a different version'' manifest [(''version'', release)]) (\<lambda>_.
      and_then (py_item manifest ''lockfile_sha256'') (\<lambda>v. and_then (dict_items v) (\<lambda>entries.
      res_fold (lockfile_current L root' fs) entries ())))))"

definition VIDEO :: string where "VIDEO = ''docs/assets/eduwork-databridge-walkthrough.mp4''"

definition video_check :: "release_host \<Rightarrow> string \<Rightarrow> files \<Rightarrow> string res" where
  "video_check L root' fs =
     (and_then (read_file fs (under_root root' VIDEO)) (\<lambda>c.
      if take 4 (drop 4 c) \<noteq> ''ftyp'' then Inl (system_exit ''Demo video is not a valid MP4 container'') else
      case rl_which L ''ffprobe'' of None \<Rightarrow> Inr ''passed_format_only_no_ffprobe'' | Some ffprobe \<Rightarrow>
      and_then (rl_probe L ffprobe (under_root root' VIDEO)) (\<lambda>stdout.
      and_then (cd_json_loads (rl_codecs L) stdout) (\<lambda>video.
      and_then (at_path video [''format'', ''duration'']) (\<lambda>v. and_then (py_float (rl_runtime L) v) (\<lambda>duration.
      if fl_less duration (Fin 30) then Inl (system_exit ''Demo video is too short'') else Inr ''passed_with_ffprobe''))))))"

definition gaps_recorded :: "release_host \<Rightarrow> string \<Rightarrow> files \<Rightarrow> unit res" where
  "gaps_recorded L root' fs = (and_then (load_json L root' fs ''release/environment-gaps.json'') (\<lambda>gaps.
     agrees ''Environment-gap record is inconsistent'' gaps [(''docker_compose_runtime_test'', ''not_run_no_daemon'')]))"

definition release_result :: "string \<Rightarrow> string \<Rightarrow> pyrec" where
  "release_result release video =
     [(''project'', PStr ''EduWork DataBridge''), (''version'', PStr release), (''status'', PStr ''passed_with_documented_environment_gaps''),
      (''checks'', PDict (map (\<lambda>(k, v). (k, PStr v))
         [(''version_consistency'', ''passed''), (''required_artifacts'', ''passed''), (''benchmark_integrity'', ''passed''),
          (''security_scans'', ''passed''), (''sboms'', ''passed''), (''packages'', ''passed''), (''backup_restore_and_regression'', ''passed''),
          (''release_manifest'', ''passed''), (''demo_video'', video), (''environment_gaps_documented'', ''passed'')])),
      (''checksums'', PStr ''generated_after_verification'')]"

definition check_release :: "release_host \<Rightarrow> string \<Rightarrow> files \<Rightarrow> pyrec res" where
  "check_release L root' fs =
     (and_then (release_versions L root' fs) (\<lambda>(release, versions).
      if set versions \<noteq> {release} then Inl (system_exit (''Version mismatch: '' @ rl_set_text L versions)) else
      and_then (required_present root' release fs) (\<lambda>_.
      and_then (verify_benchmark L fs (under_root root' ''benchmark-baseline/small-v0.14.0.json'') None None) (\<lambda>_.
      and_then (security_scans L root' fs) (\<lambda>_.
      and_then (res_fold (sbom_filled L root' fs) SBOMS ()) (\<lambda>_.
      and_then (package_reports L root' release fs) (\<lambda>_.
      and_then (regression_reports L root' release fs) (\<lambda>_.
      and_then (manifest_current L root' release fs) (\<lambda>_.
      and_then (video_check L root' fs) (\<lambda>video.
      and_then (gaps_recorded L root' fs) (\<lambda>_.
      Inr (release_result release video))))))))))))"

definition RELEASE_REPORT :: string where "RELEASE_REPORT = ''release/release-verification.json''"

definition verify_release :: "release_host \<Rightarrow> string \<Rightarrow> files \<Rightarrow> pyrec res \<times> files" where
  "verify_release L root' fs = (case check_release L root' fs of Inl e \<Rightarrow> (Inl e, fs)
     | Inr result \<Rightarrow> (Inr result, write_text (under_root root' RELEASE_REPORT) (rh_indent (rl_texts L) (PDict result) @ [NEWLINE]) fs))"

end
