(* ===== verification/Release_Props.thy ===== *)
theory Release_Props
  imports Release_Checks
begin

text \<open>What a release that passes its gate has shown.\<close>

section \<open>The benchmark\<close>

text \<open>
  A setting of the budgets document for a stage: the stage's own value, where \<^verbatim>\<open>budgets["stages"][name]\<close> has one, and the
  default of the document otherwise.
\<close>

definition budget_setting :: "runtime \<Rightarrow> pyval \<Rightarrow> string \<Rightarrow> string \<Rightarrow> string \<Rightarrow> pyfloat option" where
  "budget_setting R budgets name key default_key = (case budgets of
       PDict document \<Rightarrow>
         let own = (case map_of document ''stages'' of
               Some (PDict stages) \<Rightarrow> (case map_of stages name of Some (PDict budget) \<Rightarrow> map_of budget key | _ \<Rightarrow> None)
             | _ \<Rightarrow> None) in
         (case (case own of Some v \<Rightarrow> Some v | None \<Rightarrow> map_of document default_key) of
            None \<Rightarrow> None
          | Some v \<Rightarrow> (case py_float R v of Inl _ \<Rightarrow> None | Inr f \<Rightarrow> Some f))
     | _ \<Rightarrow> None)"

text \<open>
  \<open>in_budget\<close>: the stage ran in the current benchmark for a positive time, on no negative number
  of records, and for no longer than the duration of the baseline times the factor plus the slack that the
  budgets document sets for it.
\<close>

definition in_budget :: "release_host \<Rightarrow> pyval \<Rightarrow> pyval \<Rightarrow> pyval \<Rightarrow> string \<Rightarrow> bool" where
  "in_budget L current baseline budgets name =
     (\<exists>stages baseline_stages item records count cur base multiplier slack.
        stages_of current = Inr stages \<and> stages_of baseline = Inr baseline_stages
        \<and> stage_item stages name = Inr item \<and> py_item item ''record_count'' = Inr records \<and> numeric records = Some count
        \<and> \<not> fl_less count (Fin 0)
        \<and> duration_of (rl_runtime L) stages name = Inr cur \<and> \<not> float_le cur (Fin 0)
        \<and> duration_of (rl_runtime L) baseline_stages name = Inr base
        \<and> budget_setting (rl_runtime L) budgets name ''duration_multiplier'' ''default_duration_multiplier'' = Some multiplier
        \<and> budget_setting (rl_runtime L) budgets name ''absolute_slack_seconds'' ''default_absolute_slack_seconds'' = Some slack
        \<and> \<not> fl_less (fl_add (fl_mul base multiplier) slack) cur)"

lemma numeric_float: "numeric v = Some f \<Longrightarrow> py_float R v = Inr g \<Longrightarrow> g = f"
  by (cases v) (auto simp: py_float_def dest: float_of_int_Inr)

text \<open>The setting a read through \<^verbatim>\<open>get\<close> finds, where the default is a number that has been read.\<close>

lemma setting_read:
  assumes "py_item budgets default_key = Inr d" and "py_float R d = Inr m"
    and "value_get budgets ''stages'' (PDict []) = Inr v" and "value_get v name (PDict []) = Inr budget"
    and "value_get budget key (PFloat m) = Inr x" and "py_float R x = Inr f"
  shows "budget_setting R budgets name key default_key = Some f"
proof -
  have float: "py_float R (PFloat m) = Inr m" by (simp add: py_float_def)
  show ?thesis
    using assms
    by (auto simp: budget_setting_def py_item_def value_get_def get_field_or_def float
        split: pyval.splits option.splits)
qed

lemma stage_limit_settings:
  assumes "py_item budgets ''default_duration_multiplier'' = Inr d" and "py_float R d = Inr m"
    and "py_item budgets ''default_absolute_slack_seconds'' = Inr d'" and "py_float R d' = Inr sl"
    and "stage_limit R budgets m sl name base = Inr limit"
  obtains multiplier slack where
    "budget_setting R budgets name ''duration_multiplier'' ''default_duration_multiplier'' = Some multiplier"
    "budget_setting R budgets name ''absolute_slack_seconds'' ''default_absolute_slack_seconds'' = Some slack"
    "limit = fl_add (fl_mul base multiplier) slack"
proof -
  from assms(5) obtain v budget x y f g where read: "value_get budgets ''stages'' (PDict []) = Inr v"
    "value_get v name (PDict []) = Inr budget" "value_get budget ''duration_multiplier'' (PFloat m) = Inr x" "py_float R x = Inr f"
    "value_get budget ''absolute_slack_seconds'' (PFloat sl) = Inr y" "py_float R y = Inr g" "limit = fl_add (fl_mul base f) g"
    unfolding stage_limit_def and_then_Inr by (auto simp: and_then_Inr)
  show thesis
    by (rule that [OF setting_read [OF assms(1,2) read(1-4)] setting_read [OF assms(3,4) read(1,2,5,6)] read(7)])
qed

lemma stage_valid_iff:
  "stage_valid R (name, item) () = Inr () \<longleftrightarrow>
     (\<exists>v d w c. py_item item ''duration_seconds'' = Inr v \<and> numeric v = Some d \<and> \<not> float_le d (Fin 0)
        \<and> py_item item ''record_count'' = Inr w \<and> numeric w = Some c \<and> \<not> fl_less c (Fin 0))"
proof -
  have number: "number_of v = Inr f \<longleftrightarrow> numeric v = Some f" for v f
    by (simp add: number_of_def split: option.split)
  show ?thesis
    by (simp add: stage_valid_def and_then_Inr number if_distrib [where f = "\<lambda>r. r = Inr ()"] cong: if_cong) blast
qed

lemma no_failures:
  assumes "res_fold (stage_failure L stages base_stages budgets m sl) names acc = Inr []"
  shows "acc = [] \<and> (\<forall>name \<in> set names. \<exists>base cur bound. duration_of (rl_runtime L) base_stages name = Inr base
    \<and> duration_of (rl_runtime L) stages name = Inr cur \<and> stage_limit (rl_runtime L) budgets m sl name base = Inr bound
    \<and> \<not> fl_less bound cur)"
  using assms
proof (induction names arbitrary: acc)
  case (Cons name names)
  then obtain acc' where step: "stage_failure L stages base_stages budgets m sl name acc = Inr acc'"
    and rest: "res_fold (stage_failure L stages base_stages budgets m sl) names acc' = Inr []"
    by (auto split: sum.splits)
  from Cons.IH [OF rest] have "acc' = []" by blast
  with step have "acc = [] \<and> (\<exists>base cur bound. duration_of (rl_runtime L) base_stages name = Inr base
    \<and> duration_of (rl_runtime L) stages name = Inr cur \<and> stage_limit (rl_runtime L) budgets m sl name base = Inr bound
    \<and> \<not> fl_less bound cur)"
    by (auto simp: stage_failure_def and_then_Inr split: if_splits)
  with Cons.IH [OF rest] show ?case by simp
qed simp

lemma compare_in_budget:
  assumes "compare_benchmark L fs stages result b g = Inr r" and "set (rl_order L) = set REQUIRED_STAGES"
  obtains baseline base_stages budgets where "json_file (rl_codecs L) fs b = Inr baseline" "json_file (rl_codecs L) fs g = Inr budgets"
    "stages_of baseline = Inr base_stages"
    "\<And>name. name \<in> set REQUIRED_STAGES \<Longrightarrow> \<exists>base cur multiplier slack. duration_of (rl_runtime L) base_stages name = Inr base
       \<and> duration_of (rl_runtime L) stages name = Inr cur
       \<and> budget_setting (rl_runtime L) budgets name ''duration_multiplier'' ''default_duration_multiplier'' = Some multiplier
       \<and> budget_setting (rl_runtime L) budgets name ''absolute_slack_seconds'' ''default_absolute_slack_seconds'' = Some slack
       \<and> \<not> fl_less (fl_add (fl_mul base multiplier) slack) cur"
proof -
  from assms(1) obtain baseline base_stages budgets d m d' sl failures where steps: "json_file (rl_codecs L) fs b = Inr baseline"
    "json_file (rl_codecs L) fs g = Inr budgets" "stages_of baseline = Inr base_stages"
    and defaults: "py_item budgets ''default_duration_multiplier'' = Inr d" "py_float (rl_runtime L) d = Inr m"
      "py_item budgets ''default_absolute_slack_seconds'' = Inr d'" "py_float (rl_runtime L) d' = Inr sl"
    and failures: "res_fold (stage_failure L stages base_stages budgets m sl) (rl_order L) [] = Inr failures" "failures = []"
    unfolding compare_benchmark_def and_then_Inr by (auto simp: and_then_Inr simp del: res_fold.simps split: if_splits)
  show thesis
  proof (rule that [OF steps])
    fix name assume "name \<in> set REQUIRED_STAGES"
    with no_failures [OF failures(1) [unfolded failures(2)]] assms(2)
    obtain base cur limit where limits: "duration_of (rl_runtime L) base_stages name = Inr base"
      "duration_of (rl_runtime L) stages name = Inr cur" "stage_limit (rl_runtime L) budgets m sl name base = Inr limit"
      "\<not> fl_less limit cur" by blast
    from stage_limit_settings [OF defaults limits(3)] limits
    show "\<exists>base cur multiplier slack. duration_of (rl_runtime L) base_stages name = Inr base
       \<and> duration_of (rl_runtime L) stages name = Inr cur
       \<and> budget_setting (rl_runtime L) budgets name ''duration_multiplier'' ''default_duration_multiplier'' = Some multiplier
       \<and> budget_setting (rl_runtime L) budgets name ''absolute_slack_seconds'' ''default_absolute_slack_seconds'' = Some slack
       \<and> \<not> fl_less (fl_add (fl_mul base multiplier) slack) cur" by metis
  qed
qed

lemma verified_in_budget:
  assumes "verify_benchmark L fs c (Some b) (Some g) = Inr r" and "set (rl_order L) = set REQUIRED_STAGES"
  obtains current baseline budgets where "json_file (rl_codecs L) fs c = Inr current" "json_file (rl_codecs L) fs b = Inr baseline"
    "json_file (rl_codecs L) fs g = Inr budgets" "\<And>name. name \<in> set REQUIRED_STAGES \<Longrightarrow> in_budget L current baseline budgets name"
proof -
  obtain current stages result where current: "json_file (rl_codecs L) fs c = Inr current" "stages_of current = Inr stages"
    and present: "filter (\<lambda>name. PStr name \<notin> fst ` set stages) REQUIRED_STAGES = []"
    and valid: "res_fold (stage_valid (rl_runtime L)) stages () = Inr ()"
    and compared: "compare_benchmark L fs stages result b g = Inr r"
    using assms(1) unfolding verify_benchmark_def and_then_Inr Let_def
    by (auto simp: and_then_Inr simp del: res_fold.simps split: if_splits)
  obtain baseline base_stages budgets where base: "json_file (rl_codecs L) fs b = Inr baseline" "json_file (rl_codecs L) fs g = Inr budgets"
    "stages_of baseline = Inr base_stages"
    and limits: "\<And>name. name \<in> set REQUIRED_STAGES \<Longrightarrow> \<exists>base cur multiplier slack. duration_of (rl_runtime L) base_stages name = Inr base
       \<and> duration_of (rl_runtime L) stages name = Inr cur
       \<and> budget_setting (rl_runtime L) budgets name ''duration_multiplier'' ''default_duration_multiplier'' = Some multiplier
       \<and> budget_setting (rl_runtime L) budgets name ''absolute_slack_seconds'' ''default_absolute_slack_seconds'' = Some slack
       \<and> \<not> fl_less (fl_add (fl_mul base multiplier) slack) cur"
    using compare_in_budget [OF compared assms(2)] by metis
  show thesis
  proof (rule that [OF current(1) base(1,2)])
    fix name assume name: "name \<in> set REQUIRED_STAGES"
    with present have "PStr name \<in> fst ` set stages" by (auto simp: filter_empty_conv)
    then obtain item where item: "map_of stages (PStr name) = Some item"
      by (metis map_of_eq_None_iff not_None_eq)
    then have "stage_valid (rl_runtime L) (PStr name, item) () = Inr ()"
      using valid map_of_SomeD [OF item] unfolding res_fold_unit by blast
    then obtain v d w k where entry: "py_item item ''duration_seconds'' = Inr v" "numeric v = Some d" "\<not> float_le d (Fin 0)"
      "py_item item ''record_count'' = Inr w" "numeric w = Some k" "\<not> fl_less k (Fin 0)"
      unfolding stage_valid_iff by blast
    from item have found: "stage_item stages name = Inr item" by (simp add: stage_item_def)
    obtain base cur multiplier slack where limit: "duration_of (rl_runtime L) base_stages name = Inr base"
      "duration_of (rl_runtime L) stages name = Inr cur"
      "budget_setting (rl_runtime L) budgets name ''duration_multiplier'' ''default_duration_multiplier'' = Some multiplier"
      "budget_setting (rl_runtime L) budgets name ''absolute_slack_seconds'' ''default_absolute_slack_seconds'' = Some slack"
      "\<not> fl_less (fl_add (fl_mul base multiplier) slack) cur"
      using limits [OF name] by blast
    from limit(2) found entry(1) have "py_float (rl_runtime L) v = Inr cur" by (simp add: duration_of_def and_then_simps)
    with entry(2) have "cur = d" by (rule numeric_float)
    with entry(3) have "\<not> float_le cur (Fin 0)" by simp
    with current(2) base(3) found entry(4-6) limit show "in_budget L current baseline budgets name"
      unfolding in_budget_def by (intro exI conjI)
  qed
qed

section \<open>The release\<close>

text \<open>What each group of evidence has to say.\<close>

definition versions_agree :: "release_host \<Rightarrow> string \<Rightarrow> files \<Rightarrow> string \<Rightarrow> bool" where
  "versions_agree L root' fs release =
     (\<exists>versions. release_versions L root' fs = Inr (release, versions) \<and> (\<forall>v \<in> set versions. v = release))"

definition no_vulnerabilities :: "release_host \<Rightarrow> string \<Rightarrow> files \<Rightarrow> bool" where
  "no_vulnerabilities L root' fs =
     ((\<exists>audit v dependencies. load_json L root' fs ''release/security/pip-audit.json'' = Inr audit
        \<and> py_item audit ''dependencies'' = Inr v \<and> py_iter v = Inr dependencies
        \<and> (\<forall>d \<in> set dependencies. \<exists>w. value_get d ''vulns'' (PList []) = Inr w \<and> py_iter w = Inr []))
      \<and> (\<exists>audit v. load_json L root' fs ''release/security/npm-audit.json'' = Inr audit
        \<and> at_path audit [''metadata'', ''vulnerabilities'', ''total''] = Inr v \<and> py_int_of (rl_runtime L) v = Inr 0)
      \<and> (\<exists>report findings. load_json L root' fs ''release/security/secret-scan.json'' = Inr report
        \<and> py_item report ''findings'' = Inr findings \<and> \<not> truthy findings))"

definition benchmark_in_budget :: "release_host \<Rightarrow> string \<Rightarrow> files \<Rightarrow> string \<Rightarrow> bool" where
  "benchmark_in_budget L root' fs release =
     (\<exists>document c b g current baseline budgets.
        load_json L root' fs ''release/benchmark-verification.json'' = Inr document
        \<and> text_item document ''current'' = Inr c \<and> text_item document ''baseline'' = Inr b \<and> text_item document ''budgets'' = Inr g
        \<and> load_json L root' fs c = Inr current \<and> load_json L root' fs b = Inr baseline \<and> load_json L root' fs g = Inr budgets
        \<and> py_item current ''project_version'' = Inr (PStr release)
        \<and> (\<forall>name \<in> set REQUIRED_STAGES. in_budget L current baseline budgets name))"

definition lockfiles_current :: "release_host \<Rightarrow> string \<Rightarrow> files \<Rightarrow> string \<Rightarrow> bool" where
  "lockfiles_current L root' fs release =
     (\<exists>manifest entries. load_json L root' fs ''docs/evidence/release-manifest.json'' = Inr manifest
        \<and> py_item manifest ''version'' = Inr (PStr release) \<and> py_item manifest ''lockfile_sha256'' = Inr (PDict entries)
        \<and> (\<forall>(p, expected) \<in> set entries. \<exists>c. fs (under_root root' p) = Some c \<and> expected = PStr (rt_sha256 (rl_runtime L) c)))"

lemma agrees_iff: "agrees m d kvs = Inr () \<longleftrightarrow> (\<forall>(k, v) \<in> set kvs. py_item d k = Inr (PStr v))"
proof (induction kvs)
  case (Cons kv kvs)
  then show ?case by (cases kv) (auto simp: and_then_Inr)
qed simp

lemma no_vulns:
  assumes "res_fold vulns_of deps acc = Inr []"
  shows "acc = [] \<and> (\<forall>d \<in> set deps. \<exists>w. value_get d ''vulns'' (PList []) = Inr w \<and> py_iter w = Inr [])"
  using assms
proof (induction deps arbitrary: acc)
  case (Cons d deps)
  then obtain acc' where step: "vulns_of d acc = Inr acc'" "res_fold vulns_of deps acc' = Inr []" by (auto split: sum.splits)
  with Cons.IH [OF step(2)] show ?case by (auto simp: vulns_of_def and_then_Inr)
qed simp

lemma scans_shown: "security_scans L root' fs = Inr () \<Longrightarrow> no_vulnerabilities L root' fs"
proof -
  assume "security_scans L root' fs = Inr ()"
  then obtain audit v deps npm total scan_report findings where
    "load_json L root' fs ''release/security/pip-audit.json'' = Inr audit" "py_item audit ''dependencies'' = Inr v" "py_iter v = Inr deps"
    "res_fold vulns_of deps [] = Inr []"
    "load_json L root' fs ''release/security/npm-audit.json'' = Inr npm" "at_path npm [''metadata'', ''vulnerabilities'', ''total''] = Inr total"
    "py_int_of (rl_runtime L) total = Inr 0"
    "load_json L root' fs ''release/security/secret-scan.json'' = Inr scan_report" "py_item scan_report ''findings'' = Inr findings"
    "\<not> truthy findings"
    unfolding security_scans_def and_then_Inr by (auto simp: and_then_Inr simp del: res_fold.simps split: if_splits)
  then show ?thesis unfolding no_vulnerabilities_def using no_vulns by blast
qed

lemma regression_shown:
  assumes "regression_reports L root' release fs = Inr r" and "set (rl_order L) = set REQUIRED_STAGES"
  shows "benchmark_in_budget L root' fs release"
proof -
  from assms(1) obtain document c b g current where *:
    "load_json L root' fs ''release/benchmark-verification.json'' = Inr document" "text_item document ''current'' = Inr c"
    "text_item document ''baseline'' = Inr b" "text_item document ''budgets'' = Inr g" "load_json L root' fs c = Inr current"
    "agrees ''Benchmark results are from a different version'' current [(''project_version'', release)] = Inr ()"
    "verify_benchmark L fs (under_root root' c) (Some (under_root root' b)) (Some (under_root root' g)) = Inr r"
    unfolding regression_reports_def and_then_Inr by (auto simp del: agrees.simps)
  obtain current' baseline budgets where "load_json L root' fs c = Inr current'" "load_json L root' fs b = Inr baseline"
    "load_json L root' fs g = Inr budgets" "\<And>name. name \<in> set REQUIRED_STAGES \<Longrightarrow> in_budget L current' baseline budgets name"
    using verified_in_budget [OF *(7) assms(2)] unfolding load_json_def by metis
  moreover from *(6) have "py_item current ''project_version'' = Inr (PStr release)" by (simp only: agrees_iff) simp
  ultimately show ?thesis unfolding benchmark_in_budget_def using * by (metis sum.inject(2))
qed

lemma manifest_shown:
  assumes "manifest_current L root' release fs = Inr ()"
  shows "lockfiles_current L root' fs release"
proof -
  from assms obtain manifest v entries where *: "load_json L root' fs ''docs/evidence/release-manifest.json'' = Inr manifest"
    "agrees ''Release manifest is from a different version'' manifest [(''version'', release)] = Inr ()"
    "py_item manifest ''lockfile_sha256'' = Inr v" "dict_items v = Inr entries" "res_fold (lockfile_current L root' fs) entries () = Inr ()"
    unfolding manifest_current_def and_then_Inr by (auto simp del: agrees.simps res_fold.simps)
  from *(2) have "py_item manifest ''version'' = Inr (PStr release)" by (simp only: agrees_iff) simp
  moreover from *(4) have "v = PDict entries" by (cases v) (auto simp: dict_items_def)
  moreover have "\<exists>c. fs (under_root root' p) = Some c \<and> expected = PStr (rt_sha256 (rl_runtime L) c)"
    if "(p, expected) \<in> set entries" for p expected
    using *(5) that unfolding res_fold_unit
    by (force simp: lockfile_current_def and_then_Inr read_file_def split: option.splits if_splits)
  ultimately show ?thesis unfolding lockfiles_current_def using * by blast
qed

text \<open>
  C40: a release passes its gate only with all of its evidence, and the gate changes nothing but its report. When
  \<^verbatim>\<open>verify_release.py\<close> returns a result for a version, then the five places that name
  the version agree on it, every required artifact exists, the audits show no vulnerability and the secret scan no
  finding, every stage of the current benchmark, which is of this version, ran within the budget of the baseline, and every
  lockfile has the digest in the manifest, which is of this version, too. When it ends in an exception no file is changed,
  and otherwise only the report is written.
\<close>

theorem release_needs_all_evidence:
  assumes "set (rl_order L) = set REQUIRED_STAGES"
  shows "case verify_release L root' fs of
      (Inl e, fs') \<Rightarrow> fs' = fs
    | (Inr result, fs') \<Rightarrow>
        (\<forall>p. p \<noteq> under_root root' RELEASE_REPORT \<longrightarrow> fs' p = fs p)
        \<and> (\<exists>release. map_of result ''version'' = Some (PStr release)
            \<and> versions_agree L root' fs release
            \<and> (\<forall>p \<in> set (required_artifacts release). fs (under_root root' p) \<noteq> None)
            \<and> no_vulnerabilities L root' fs \<and> benchmark_in_budget L root' fs release \<and> lockfiles_current L root' fs release)"
proof (cases "check_release L root' fs")
  case (Inl e)
  then show ?thesis by (simp add: verify_release_def)
next
  case (Inr result)
  then obtain release versions video r where *: "release_versions L root' fs = Inr (release, versions)" "set versions = {release}"
    "required_present root' release fs = Inr ()" "security_scans L root' fs = Inr ()" "regression_reports L root' release fs = Inr r"
    "manifest_current L root' release fs = Inr ()" "result = release_result release video"
    unfolding check_release_def and_then_Inr by (auto simp: and_then_Inr simp del: res_fold.simps split: if_splits)
  have present: "\<forall>p \<in> set (required_artifacts release). fs (under_root root' p) \<noteq> None"
    using *(3) unfolding required_present_def Let_def by (simp add: filter_empty_conv split: if_splits)
  have "versions_agree L root' fs release" using *(1,2) by (auto simp: versions_agree_def)
  moreover have "map_of result ''version'' = Some (PStr release)" by (simp add: *(7) release_result_def)
  ultimately show ?thesis
    using present scans_shown [OF *(4)] regression_shown [OF *(5) assms] manifest_shown [OF *(6)] Inr
    by (auto simp: verify_release_def write_text_def)
qed

section \<open>A release that passes\<close>

definition demo_report_json :: pyval where
  "demo_report_json = PDict [(''project_version'', PStr ''1''),
     (''stages'', PList (map (\<lambda>n. PDict [(''stage'', PStr n), (''duration_seconds'', PInt 1), (''record_count'', PInt 3)]) REQUIRED_STAGES))]"

definition demo_documents :: "(string \<times> pyval) list" where
  "demo_documents =
     [(''package'', PDict [(''version'', PStr ''1'')]),
      (''lock'', PDict [(''version'', PStr ''1''), (''packages'', PDict [([], PDict [(''version'', PStr ''1'')])])]),
      (''stages'', demo_report_json),
      (''budgets'', PDict [(''default_duration_multiplier'', PInt 2), (''default_absolute_slack_seconds'', PInt 1)]),
      (''pip'', PDict [(''dependencies'', PList [PDict [(''name'', PStr ''fastapi''), (''vulns'', PList [])]])]),
      (''npm'', PDict [(''metadata'', PDict [(''vulnerabilities'', PDict [(''total'', PInt 0)])])]),
      (''secrets'', PDict [(''findings'', PList [])]),
      (''sbom'', PDict [(''name'', PStr ''sbom'')]),
      (''passed'', PDict [(''status'', PStr ''passed''), (''version'', PStr ''1'')]),
      (''wheel'', PDict [(''status'', PStr ''passed''), (''import_version'', PStr ''1''), (''fastapi_app_version'', PStr ''1'')]),
      (''regression'', PDict [(''status'', PStr ''passed''), (''version'', PStr ''1''), (''current'', PStr ''benchmark-results/current.json''),
         (''baseline'', PStr ''benchmark-baseline/small-v0.14.0.json''), (''budgets'', PStr ''benchmark-baseline/budgets.json'')]),
      (''manifest'', PDict [(''version'', PStr ''1''), (''lockfile_sha256'', PDict [(''mkdocs.yml'', PStr ''text'')])]),
      (''gaps'', PDict [(''docker_compose_runtime_test'', PStr ''not_run_no_daemon'')])]"

definition demo_contents :: "(string \<times> string) list" where
  "demo_contents =
     [(''pyproject.toml'', ''toml''), (''apps/reviewer-ui/package.json'', ''package''), (''apps/reviewer-ui/package-lock.json'', ''lock''),
      (INIT_FILE, VERSION_PREFIX @ ''1'' @ [CHR 0x22]), (''benchmark-results/current.json'', ''stages''),
      (''benchmark-baseline/small-v0.14.0.json'', ''stages''), (''benchmark-baseline/budgets.json'', ''budgets''),
      (''release/security/pip-audit.json'', ''pip''), (''release/security/npm-audit.json'', ''npm''),
      (''release/security/secret-scan.json'', ''secrets''), (''release/sbom/python-runtime.cdx.json'', ''sbom''),
      (''release/sbom/frontend.cdx.json'', ''sbom''), (''release/sbom/frontend.spdx.json'', ''sbom''),
      (''release/packages/package-verification.json'', ''passed''), (''release/packages/wheel-install-verification.json'', ''wheel''),
      (''release/backup-restore-verification.json'', ''passed''), (''release/benchmark-verification.json'', ''regression''),
      (''docs/evidence/release-manifest.json'', ''manifest''), (VIDEO, ''0000ftyp''), (''release/environment-gaps.json'', ''gaps'')]"

definition demo_store :: files where
  "demo_store p = (case map_of demo_contents (drop 2 p) of None \<Rightarrow> Some ''text'' | Some c \<Rightarrow> Some c)"

definition demo_release :: release_host where
  "demo_release = \<lparr>rl_runtime = ascii_runtime,
     rl_codecs = \<lparr>cd_read_bytes = (\<lambda>p. []), cd_mtime_ns = (\<lambda>p. 0), cd_exists = (\<lambda>p. False), cd_zip_members = (\<lambda>c. Inr []),
       cd_csv_dicts = (\<lambda>a b c. Inr []),
       cd_json_loads = (\<lambda>c. case map_of demo_documents c of None \<Rightarrow> Inl (ValueError c) | Some v \<Rightarrow> Inr v),
       cd_load_workbook = (\<lambda>c. Inl (ValueError c)), cd_read_table = (\<lambda>c. Inr []), cd_json_compact = (\<lambda>v. []), cd_json_pretty = (\<lambda>v. [])\<rparr>,
     rl_texts = \<lparr>rh_decode = Some, rh_indent = (\<lambda>v. [])\<rparr>, rl_toml = (\<lambda>t. Inr (PDict [(''project'', PDict [(''version'', PStr ''1'')])])),
     rl_show4 = (\<lambda>f. []), rl_set_text = concat, rl_which = (\<lambda>n. None), rl_probe = (\<lambda>a b. Inr []), rl_order = REQUIRED_STAGES\<rparr>"

lemma demo_passes:
  "(case check_release demo_release ''r'' demo_store of Inl e \<Rightarrow> False | Inr result \<Rightarrow> map_of result ''version'' = Some (PStr ''1''))"
  by code_simp

theorem release_needs_all_evidence_witness:
  "versions_agree demo_release ''r'' demo_store ''1'' \<and> no_vulnerabilities demo_release ''r'' demo_store
    \<and> benchmark_in_budget demo_release ''r'' demo_store ''1'' \<and> lockfiles_current demo_release ''r'' demo_store ''1''"
proof -
  have "set (rl_order demo_release) = set REQUIRED_STAGES" by (simp add: demo_release_def)
  note gate = release_needs_all_evidence [OF this, of demo_store "''r''"]
  obtain result where "check_release demo_release ''r'' demo_store = Inr result" "map_of result ''version'' = Some (PStr ''1'')"
    using demo_passes by (auto split: sum.splits)
  with gate show ?thesis by (simp add: verify_release_def)
qed

end
