(* ===== verification/Benchmark_Run.thy ===== *)
theory Benchmark_Run
  imports Generator_Files Demo_Run Release_Checks
begin

text \<open>
  The benchmark (\<^verbatim>\<open>scripts/run_benchmark.py\<close>): a dataset is generated in a temporary directory, read back by the
  four file connectors, profiled, mapped, validated, matched and published, each stage measured, and
  the report is written that \<^verbatim>\<open>verify_benchmark.py\<close> checks.
\<close>

section \<open>Measuring\<close>

text \<open>
  \<open>bn_clock\<close> and \<open>bn_rss\<close> are the answers of \<^verbatim>\<open>time.perf_counter\<close> and \<^verbatim>\<open>max_rss_kb\<close> in the order of the
  calls, two for each stage; \<open>bn_temporary\<close> is the directory \<^verbatim>\<open>mkdtemp\<close> made, \<open>bn_platform\<close> the description of the machine.
\<close>

record 'g bench_host =
  bn_env :: api_env
  bn_rng :: "'g rng"
  bn_writers :: dataset_writers
  bn_temporary :: string
  bn_clock :: "nat \<Rightarrow> real"
  bn_rss :: "nat \<Rightarrow> int"
  bn_platform :: pyval

text \<open>\<^verbatim>\<open>round(x, digits)\<close>\<close>

definition round_to :: "nat \<Rightarrow> real \<Rightarrow> real" where
  "round_to digits x = of_int (round_half_even (x * 10 ^ digits)) / 10 ^ digits"

definition measured :: "'g bench_host \<Rightarrow> nat \<Rightarrow> string \<Rightarrow> int \<Rightarrow> pyrec" where
  "measured B i name record_count =
     (let duration = bn_clock B (2 * i + 1) - bn_clock B (2 * i);
          before_rss = bn_rss B (2 * i); after_rss = bn_rss B (2 * i + 1) in
      [(''stage'', PStr name), (''duration_seconds'', PFloat (Fin (round_to 6 duration))), (''record_count'', PInt record_count),
       (''records_per_second'', if duration \<noteq> 0 then PFloat (Fin (round_to 2 (of_int record_count / duration))) else PNone),
       (''max_rss_kb'', PInt after_rss), (''rss_increase_kb'', PInt (max 0 (after_rss - before_rss)))])"

section \<open>Reading the generated files\<close>

text \<open>The connectors read the files that were generated; everything else of the codecs stays.\<close>

definition reading :: "files \<Rightarrow> codecs \<Rightarrow> codecs" where
  "reading fs cd = cd\<lparr>cd_read_bytes := (\<lambda>p. case fs (place_text p) of None \<Rightarrow> [] | Some c \<Rightarrow> c)\<rparr>"

definition bench_source :: "string \<Rightarrow> string \<Rightarrow> string \<Rightarrow> string option \<Rightarrow> source_object_config" where
  "bench_source root' relative key sheet =
     \<lparr>soc_key = key, soc_object_type = ''file'', soc_location = root' @ ''/'' @ relative, soc_contract_version = ''1.0'',
      soc_incremental_field = None, soc_sheet_name = sheet, soc_json_records_path = None, soc_primary_key = [], soc_options = []\<rparr>"

definition file_batch :: "'g bench_host \<Rightarrow> file_kind \<Rightarrow> string \<Rightarrow> string \<Rightarrow> string \<Rightarrow> string option \<Rightarrow> files \<Rightarrow> extraction_batch res" where
  "file_batch B kind root' relative key sheet fs =
     file_extract (env_runtime (bn_env B)) (env_host (bn_env B)) (reading fs (env_codecs (bn_env B)))
       \<lparr>fc_kind = kind, fc_allowed_roots = [bn_temporary B], fc_max_bytes = 2 * 1024 * 1024 * 1024\<rparr>
       (bench_source root' relative key sheet) None"

definition manifest_count :: "pyrec \<Rightarrow> string \<Rightarrow> int res" where
  "manifest_count manifest key = (and_then (at_path (PDict manifest) [''counts'', key]) (\<lambda>v.
     case v of PInt i \<Rightarrow> Inr i | _ \<Rightarrow> Inl TypeError))"

section \<open>The stages\<close>

text \<open>Generation is stage 0; the connectors are the stages 1 to 4.\<close>

definition read_stages :: "'g bench_host \<Rightarrow> string \<Rightarrow> pyrec \<Rightarrow> files \<Rightarrow> (pyrec list \<times> pyrec list \<times> pyrec list) res" where
  "read_stages B root' manifest fs =
     (and_then (py_item (PDict manifest) ''counts'') (\<lambda>input_counts.
      and_then (manifest_count manifest ''hris_people'') (\<lambda>people.
      and_then (file_batch B CSV root' ''hris/employees.csv'' ''employees'' None fs) (\<lambda>hris_batch.
      and_then (manifest_count manifest ''lms_participations'') (\<lambda>participations.
      and_then (file_batch B JSON root' ''lms/participation.json'' ''participation'' None fs) (\<lambda>lms_batch.
      and_then (manifest_count manifest ''assessment_results'') (\<lambda>assessments.
      and_then (file_batch B XLSX root' ''assessment/assessment_results.xlsx'' ''assessment_results'' (Some ''assessment_results'') fs) (\<lambda>_.
      and_then (manifest_count manifest ''credential_awards'') (\<lambda>awards.
      and_then (file_batch B Parquet root' ''credential/credential_awards.parquet'' ''credential_awards'' None fs) (\<lambda>_.
      Inr ([measured B 0 ''synthetic_generation'' 1 @ [(''generated_counts'', input_counts)],
            measured B 1 ''csv_connector'' people, measured B 2 ''json_connector'' participations,
            measured B 3 ''xlsx_connector'' assessments, measured B 4 ''parquet_connector'' awards],
           eb_records hris_batch, eb_records lms_batch)))))))))))"

definition BENCH_CONTEXT :: pyrec where
  "BENCH_CONTEXT = [(''output_defaults'', PDict [(''organization_id'', PStr ''benchmark-org'')])]"

definition quality_stages :: "'g bench_host \<Rightarrow> pyrec list \<Rightarrow> pyrec list \<Rightarrow> int \<Rightarrow> pyrec list res" where
  "quality_stages B hris_records lms_records now =
     (let E = bn_env B; R = env_runtime E in
      and_then (env_profile_config E (config_file ''profiles'' ''default_v1.yml'')) (\<lambda>profile_config.
      and_then (profiler_profile R (env_frames E) lms_records profile_config now) (\<lambda>_.
      and_then (demo_lookup E) (\<lambda>lookup.
      and_then (env_mapping_config E (config_file ''mappings'' ''hris_person_v1.yml'')) (\<lambda>person_mapping.
      and_then (engine_execute R [] hris_records person_mapping [lookup] (Some BENCH_CONTEXT) None) (\<lambda>mapped_people.
      and_then (env_validation_config E (config_file ''validations'' ''person_v1.yml'')) (\<lambda>person_validation.
      and_then (engine_validate R (mres_outputs mapped_people) person_validation []) (\<lambda>_.
      Inr [measured B 5 ''profiling'' (int (length lms_records)), measured B 6 ''mapping'' (int (length hris_records)),
           measured B 7 ''validation'' (int (length (mres_outputs mapped_people)))]))))))))"

definition match_stages :: "'g bench_host \<Rightarrow> string \<Rightarrow> int \<Rightarrow> files \<Rightarrow> pyrec list res" where
  "match_stages B root' seed fs =
     (let E = bn_env B; R = env_runtime E; organization_id = rt_uuid5 R (''eduwork:benchmark:'' @ int_str seed) in
      and_then (load_synthetic_identity_fixture R (env_codecs E) fs root' organization_id) (\<lambda>(identity_records, truth).
      and_then (env_det_config E (config_file ''matching'' ''person_v1.yml'')) (\<lambda>deterministic_config.
      and_then (det_match R identity_records deterministic_config) (\<lambda>_.
      and_then (env_prob_config E (config_file ''matching'' ''person_probabilistic_v1.yml'')) (\<lambda>probabilistic_config.
      and_then (prob_run R identity_records probabilistic_config (Some truth) None) (\<lambda>probabilistic.
      Inr [measured B 8 ''deterministic_matching'' (int (length identity_records)),
           measured B 9 ''probabilistic_matching'' (int (length identity_records)) @
             [(''metrics'', case Probabilistic.pr_metrics probabilistic of None \<Rightarrow> PNone | Some m \<Rightarrow> PDict (prob_metrics_json m))]]))))))"

definition mart_stage :: "'g bench_host \<Rightarrow> pyrec list \<Rightarrow> int \<Rightarrow> (pyrec list \<times> pyrec list) res" where
  "mart_stage B lms_records now =
     (let E = bn_env B; R = env_runtime E in
      and_then (env_mapping_config E (config_file ''mappings'' ''lms_participation_v1.yml'')) (\<lambda>participation_mapping.
      and_then (engine_execute R [] lms_records participation_mapping [] (Some BENCH_CONTEXT) None) (\<lambda>mapped_participation.
      and_then (env_mart_config E (config_file ''marts'' ''training_participation_v1.yml'')) (\<lambda>mart_config.
      and_then (mart_build R mart_config now (mres_outputs mapped_participation)) (\<lambda>mart.
      Inr ([measured B 10 ''training_mart'' (int (length (mres_outputs mapped_participation)))], mart))))))"

text \<open>The stages after the generation, up to the export; they only read.\<close>

definition middle_stages :: "'g bench_host \<Rightarrow> string \<Rightarrow> int \<Rightarrow> pyrec \<Rightarrow> int \<Rightarrow> files \<Rightarrow> (pyrec list \<times> pyrec list) res" where
  "middle_stages B root' seed manifest now fs =
     (and_then (read_stages B root' manifest fs) (\<lambda>(stages1, hris_records, lms_records).
      and_then (quality_stages B hris_records lms_records now) (\<lambda>stages2.
      and_then (match_stages B root' seed fs) (\<lambda>stages3.
      and_then (mart_stage B lms_records now) (\<lambda>(stages4, mart).
      Inr (stages1 @ stages2 @ stages3 @ stages4, mart))))))"

definition LIMITATIONS :: "string list" where
  "LIMITATIONS = [''Synthetic data only'', ''Single-process sandbox measurement'', ''Not a production SLA or cloud benchmark'',
     ''Filesystem cache and shared-host load may affect results'']"

definition bench_report :: "'g bench_host \<Rightarrow> string \<Rightarrow> int \<Rightarrow> pyval \<Rightarrow> pyrec list \<Rightarrow> pyrec" where
  "bench_report B preset seed input_counts results =
     [(''benchmark_version'', PStr ''1.0''), (''project_version'', PStr (env_version (bn_env B))), (''preset'', PStr preset),
      (''seed'', PInt seed), (''environment'', bn_platform B), (''input_counts'', input_counts), (''stages'', PList (map PDict results)),
      (''limitations'', PList (map PStr LIMITATIONS))]"

definition export_stage :: "'g bench_host \<Rightarrow> pyrec list \<Rightarrow> string \<Rightarrow> pyrec" where
  "export_stage B mart content = measured B 11 ''parquet_export'' (int (length mart)) @ [(''bytes'', PInt (int (length content)))]"

definition run_benchmark :: "'g bench_host \<Rightarrow> string \<Rightarrow> int \<Rightarrow> string \<Rightarrow> int \<Rightarrow> files \<Rightarrow> pyrec res \<times> files" where
  "run_benchmark B preset seed report_path now fs =
     (case generate_dataset (env_runtime (bn_env B)) (env_codecs (bn_env B)) (bn_writers B) (bn_rng B) now (bn_temporary B) preset seed fs of
        (Inl e, fs1) \<Rightarrow> (Inl e, fs1)
      | (Inr manifest, fs1) \<Rightarrow>
        (case middle_stages B (bn_temporary B @ ''/'' @ preset) seed manifest now fs1 of
           Inl e \<Rightarrow> (Inl e, fs1)
         | Inr (stages, mart) \<Rightarrow>
             let content = wt_parquet (bn_writers B) mart;
                 fs2 = write_text (bn_temporary B @ ''/training_mart.parquet'') content fs1;
                 report_dict = bench_report B preset seed (get_field manifest ''counts'') (stages @ [export_stage B mart content]) in
             (Inr report_dict, write_text report_path (cd_json_pretty (env_codecs (bn_env B)) (PDict report_dict) @ [NEWLINE]) fs2)))"

section \<open>The report passes its check\<close>

text \<open>A stage of a report as the check wants it: named, with a positive duration and no negative count.\<close>

definition stage_ok :: "pyrec \<Rightarrow> string \<Rightarrow> bool" where
  "stage_ok t name = (distinct (map fst t) \<and> map_of t ''stage'' = Some (PStr name)
     \<and> (\<exists>d. map_of t ''duration_seconds'' = Some (PFloat (Fin d)) \<and> 0 < d)
     \<and> (\<exists>c. map_of t ''record_count'' = Some (PInt c) \<and> 0 \<le> c))"

definition clock_runs :: "'g bench_host \<Rightarrow> bool" where
  "clock_runs B = (\<forall>i < 12. 0 < round_to 6 (bn_clock B (2 * i + 1) - bn_clock B (2 * i)))"

lemma measured_ok:
  assumes "clock_runs B" and "i < 12" and "0 \<le> c"
    and "distinct (map fst extra)" and "set (map fst extra) \<inter> set (map fst (measured B i name c)) = {}"
  shows "stage_ok (measured B i name c @ extra) name"
proof -
  have "0 < round_to 6 (bn_clock B (2 * i + 1) - bn_clock B (2 * i))" using assms(1,2) by (simp add: clock_runs_def)
  then show ?thesis using assms(3-5) by (simp add: stage_ok_def measured_def Let_def)
qed

lemma measured_ok_alone:
  assumes "clock_runs B" and "i < 12" and "0 \<le> c"
  shows "stage_ok (measured B i name c) name"
  using measured_ok [OF assms, of "[]"] by simp

lemma manifest_counts:
  assumes "generate_dataset R cd W G now root' preset seed fs = (Inr m, fs')"
    and "key \<in> {''hris_people'', ''lms_participations'', ''assessment_results'', ''credential_awards''}"
    and "manifest_count m key = Inr c"
  shows "0 \<le> c"
proof -
  obtain p r fs1 where "write_manifest R cd root' preset p seed r fs1 = (Inr m, fs')"
    using generate_dataset_cases [OF assms(1)] by metis
  then obtain summary entries where m: "m = manifest_dict preset p seed r summary entries"
    by (auto simp: write_manifest_def Let_def and_then_Inr split: sum.splits)
  from assms(2,3) show ?thesis
    unfolding m by (auto simp: manifest_count_def at_path_def manifest_dict_def py_item_def and_then_def)
qed

lemma stage_groups:
  "REQUIRED_STAGES = [''synthetic_generation'', ''csv_connector'', ''json_connector'', ''xlsx_connector'', ''parquet_connector'']
      @ [''profiling'', ''mapping'', ''validation''] @ [''deterministic_matching'', ''probabilistic_matching''] @ [''training_mart'']
      @ [''parquet_export'']"
  by (simp add: REQUIRED_STAGES_def)

lemma stages_ok:
  assumes "clock_runs B" and "generate_dataset R cd W G now0 root0 preset seed0 fs0 = (Inr manifest, fs)"
    and "middle_stages B root' seed manifest now fs = Inr (stages, mart)"
  shows "list_all2 stage_ok (stages @ [export_stage B mart content]) REQUIRED_STAGES"
proof -
  note ok = measured_ok [OF assms(1)] measured_ok_alone [OF assms(1)]
  obtain s1 h l s2 s3 s4 where stages: "read_stages B root' manifest fs = Inr (s1, h, l)" "quality_stages B h l now = Inr s2"
    "match_stages B root' seed fs = Inr s3" "mart_stage B l now = Inr (s4, mart)" "stages = s1 @ s2 @ s3 @ s4"
    using assms(3) by (auto simp: middle_stages_def and_then_Inr)
  have "list_all2 stage_ok s1 [''synthetic_generation'', ''csv_connector'', ''json_connector'', ''xlsx_connector'', ''parquet_connector'']"
  proof -
    obtain counts_value people participations assessments awards where
      s1: "s1 = [measured B 0 ''synthetic_generation'' 1 @ [(''generated_counts'', counts_value)],
            measured B 1 ''csv_connector'' people, measured B 2 ''json_connector'' participations,
            measured B 3 ''xlsx_connector'' assessments, measured B 4 ''parquet_connector'' awards]"
      and counted: "manifest_count manifest ''hris_people'' = Inr people" "manifest_count manifest ''lms_participations'' = Inr participations"
        "manifest_count manifest ''assessment_results'' = Inr assessments" "manifest_count manifest ''credential_awards'' = Inr awards"
      using stages(1) unfolding read_stages_def and_then_Inr by auto
    have "0 \<le> people" "0 \<le> participations" "0 \<le> assessments" "0 \<le> awards"
      by (rule manifest_counts [OF assms(2) _ counted(1)], simp) (rule manifest_counts [OF assms(2) _ counted(2)], simp,
        rule manifest_counts [OF assms(2) _ counted(3)], simp, rule manifest_counts [OF assms(2) _ counted(4)], simp)
    moreover have "stage_ok (measured B 0 ''synthetic_generation'' 1 @ [(''generated_counts'', counts_value)]) ''synthetic_generation''"
      by (rule ok(1)) (simp_all add: measured_def Let_def)
    ultimately show ?thesis by (simp add: s1 ok(2))
  qed
  moreover have "list_all2 stage_ok s2 [''profiling'', ''mapping'', ''validation'']"
    using stages(2) unfolding quality_stages_def Let_def and_then_Inr by (auto simp: ok(2))
  moreover have "list_all2 stage_ok s3 [''deterministic_matching'', ''probabilistic_matching'']"
  proof -
    obtain n metrics_value where s3: "s3 = [measured B 8 ''deterministic_matching'' (int n),
        measured B 9 ''probabilistic_matching'' (int n) @ [(''metrics'', metrics_value)]]"
      using stages(3) unfolding match_stages_def Let_def and_then_Inr by (auto simp: and_then_Inr)
    have "stage_ok (measured B 9 ''probabilistic_matching'' (int n) @ [(''metrics'', metrics_value)]) ''probabilistic_matching''"
      by (rule ok(1)) (simp_all add: measured_def Let_def)
    then show ?thesis by (simp add: s3 ok(2))
  qed
  moreover have "list_all2 stage_ok s4 [''training_mart'']"
    using stages(4) unfolding mart_stage_def Let_def and_then_Inr by (auto simp: ok(2))
  moreover have "list_all2 stage_ok [export_stage B mart content] [''parquet_export'']"
  proof -
    have "stage_ok (measured B 11 ''parquet_export'' (int (length mart)) @ [(''bytes'', PInt (int (length content)))]) ''parquet_export''"
      by (rule ok(1)) (simp_all add: measured_def Let_def)
    then show ?thesis by (simp add: export_stage_def)
  qed
  ultimately show ?thesis
    unfolding stages(5) append_assoc stage_groups by (intro list_all2_appendI)
qed

text \<open>The dictionary the check makes of the stages it reads.\<close>

lemma put_stage_new: "PStr name \<notin> fst ` set d \<Longrightarrow> (\<And>k. k \<in> fst ` set d \<Longrightarrow> \<exists>t. k = PStr t) \<Longrightarrow> put_stage (PStr name) item d = d @ [(PStr name, item)]"
  by (induction d) force+

lemma stage_entries:
  assumes "list_all2 stage_ok ts names" and "distinct (ns @ names)" and "map fst d = map PStr ns"
  shows "res_fold stage_entry (map (json_sorted \<circ> PDict) ts) d
    = Inr (d @ map2 (\<lambda>name t. (PStr name, json_sorted (PDict t))) names ts)"
  using assms
proof (induction ts names arbitrary: d ns rule: list_all2_induct)
  case (Cons t ts name names)
  have item: "py_item (json_sorted (PDict t)) ''stage'' = Inr (json_sorted (PStr name))"
    by (rule py_item_json_sorted) (use Cons.hyps(1) in \<open>auto simp: stage_ok_def\<close>)
  have keys: "fst ` set d = PStr ` set ns" using Cons.prems(2) by (metis list.set_map)
  have "put_stage (PStr name) (json_sorted (PDict t)) d = d @ [(PStr name, json_sorted (PDict t))]"
    using Cons.prems(1) by (intro put_stage_new) (auto simp: keys)
  then have "stage_entry (json_sorted (PDict t)) d = Inr (d @ [(PStr name, json_sorted (PDict t))])"
    using item by (simp add: stage_entry_def and_then_simps del: json_sorted.simps(2))
  then show ?case
    using Cons.IH [of "ns @ [name]" "d @ [(PStr name, json_sorted (PDict t))]"] Cons.prems by (simp del: json_sorted.simps(2))
qed simp

lemma stage_passes:
  assumes "stage_ok t name"
  shows "stage_valid R (PStr name, json_sorted (PDict t)) () = Inr ()"
proof -
  obtain d c where *: "map_of t ''duration_seconds'' = Some (PFloat (Fin d))" "0 < d" "map_of t ''record_count'' = Some (PInt c)" "0 \<le> c"
    "distinct (map fst t)"
    using assms by (auto simp: stage_ok_def)
  have "py_item (json_sorted (PDict t)) ''duration_seconds'' = Inr (PFloat (Fin d))" "py_item (json_sorted (PDict t)) ''record_count'' = Inr (PInt c)"
    using py_item_json_sorted [OF *(5,1)] py_item_json_sorted [OF *(5,3)] by simp_all
  with * show ?thesis by (simp add: stage_valid_def and_then_simps number_of_def fl_less_def del: json_sorted.simps(2))
qed

text \<open>
  A benchmark that returns has written a report that its own regression check accepts: all required stages are in it, in the
  order of their names in the check, with the positive durations the clock gave and no
  negative count, so that \<^verbatim>\<open>verify_benchmark.py\<close> passes it and answers with its version. Each of the twelve measured
  durations must be at least a microsecond when rounded, and JSON reads back the report as written.
\<close>

theorem benchmark_passes_own_check:
  assumes "run_benchmark B preset seed report_path now fs = (Inr r, fs')"
    and "json_round_trip (env_codecs (bn_env B)) (PDict r)" and "rl_codecs L = env_codecs (bn_env B)" and "clock_runs B"
  shows "verify_benchmark L fs' report_path None None = Inr
    [(''status'', PStr ''passed''), (''version'', PStr (env_version (bn_env B))), (''current'', PStr report_path),
     (''interpretation'', PStr ''Local regression check only; not a production SLA.'')]"
proof -
  from assms(1) obtain manifest fs1 stages mart content where
    gen: "generate_dataset (env_runtime (bn_env B)) (env_codecs (bn_env B)) (bn_writers B) (bn_rng B) now (bn_temporary B) preset seed fs = (Inr manifest, fs1)"
    and mid: "middle_stages B (bn_temporary B @ ''/'' @ preset) seed manifest now fs1 = Inr (stages, mart)"
    and r: "r = bench_report B preset seed (get_field manifest ''counts'') (stages @ [export_stage B mart content])"
    and out: "fs' report_path = Some (cd_json_pretty (env_codecs (bn_env B)) (PDict r) @ [NEWLINE])"
    by (auto simp: run_benchmark_def Let_def write_text_def split: prod.splits sum.splits)
  let ?ts = "stages @ [export_stage B mart content]"
  have ok: "list_all2 stage_ok ?ts REQUIRED_STAGES" by (rule stages_ok [OF assms(4) gen mid])
  have keys: "distinct (map fst r)" by (simp add: r bench_report_def)
  have read: "json_file (rl_codecs L) fs' report_path = Inr (json_sorted (PDict r))"
    using assms(2,3) out by (simp add: json_file_def read_file_def json_round_trip_def NEWLINE_def)
  have stage_list: "py_item (json_sorted (PDict r)) ''stages'' = Inr (PList (map (json_sorted \<circ> PDict) ?ts))"
    using py_item_json_sorted [OF keys, of "''stages''" "PList (map PDict ?ts)"] by (simp add: r bench_report_def)
  have release: "py_item (json_sorted (PDict r)) ''project_version'' = Inr (PStr (env_version (bn_env B)))"
    using py_item_json_sorted [OF keys, of "''project_version''" "PStr (env_version (bn_env B))"] by (simp add: r bench_report_def)
  have "distinct REQUIRED_STAGES" by (simp add: REQUIRED_STAGES_def)
  then have stages: "stages_of (json_sorted (PDict r)) = Inr (map2 (\<lambda>name t. (PStr name, json_sorted (PDict t))) REQUIRED_STAGES ?ts)"
    using stage_entries [OF ok, of "[]" "[]"] stage_list
    by (simp add: stages_of_def and_then_simps py_iter_def del: json_sorted.simps(2))
  let ?d = "map2 (\<lambda>name t. (PStr name, json_sorted (PDict t))) REQUIRED_STAGES ?ts"
  have len: "length ?ts = length REQUIRED_STAGES" using ok by (rule list_all2_lengthD)
  have present: "filter (\<lambda>name. PStr name \<notin> fst ` set ?d) REQUIRED_STAGES = []"
    using len by (auto simp: filter_empty_conv in_set_conv_nth image_iff set_zip)
  have valid: "res_fold (stage_valid (rl_runtime L)) ?d () = Inr ()"
    unfolding res_fold_unit using ok by (auto simp: list_all2_conv_all_nth set_zip simp del: json_sorted.simps(2) intro!: stage_passes)
  show ?thesis
    unfolding verify_benchmark_def read stages and_then_simps Let_def present valid
    by (simp add: benchmark_passed_def release and_then_simps del: json_sorted.simps(2))
qed

end
