(* ===== verification/Spec2Isabelle.thy ===== *)
theory Spec2Isabelle
  imports Deterministic_Props Probabilistic_Props Mapping_Service Orchestration Ingestion Publishing Profiling
    Audit_Trail Migration_Data Seed Generator_Props Demo_Locking Demo_Launcher_Props Demo_Run Secret_Scan_Props Release_Props
    Benchmark_Run
begin

text \<open>
  \<^bold>\<open>Verification library of EduWork DataBridge.\<close>

  DataBridge (\<^verbatim>\<open>src/packages/eduwork_databridge/eduwork_databridge\<close>, below only the path inside it)
  takes learning records from files, REST services and PostgreSQL, keeps the raw bytes, profiles,
  maps and validates them, links the records that describe one person, and publishes marts and
  exports. Every step leaves rows in a control database: runs, quarantine records and their
  resolutions, match candidates and decisions, lineage, audit events. A FastAPI application
  exposes the steps; requests carry an organization and an actor.

  \<^bold>\<open>How the parts interact.\<close> A handler of \<^verbatim>\<open>main.py\<close> checks organization and permission
  (\<^verbatim>\<open>security/\<close>), loads configuration (\<^verbatim>\<open>config_loader.py\<close>, \<^verbatim>\<open>schemas/config.py\<close>), calls one service
  on the request's database session and records an audit event. The services call each other in
  one direction: ingestion uses the connectors and the raw store; mapping and validation services
  run their engines and store the outcome; the matching services run the two matchers and store
  candidates, which the review desk decides; marts read mapped rows, exports read marts, both
  write lineage; retention deletes exports. The orchestrator runs assets, functions handed to it,
  in dependency order. The tables come from the migrations. Around the service stand scripts: the generator
  of synthetic datasets, the demo (its own directory, lock, prerequisites, launcher and the run
  that takes the generated records through ingestion, validation, profiling, mapping and matching), and the gates of a release.

  \<^bold>\<open>Theories and the code they model.\<close>
  \<^item> \<open>Prelude\<close>: Python values (\<open>pyval\<close>, \<open>pyrec\<close>), exceptions as values (\<open>exc\<close>, \<open>'a res\<close>), the runtime
    \<open>runtime\<close> (Unicode tables, hashing, number and time syntax, regular expressions, float rounding),
    dictionaries, sorting, combinations, \<open>res_fold\<close> for loops that may raise.
  \<^item> \<open>Config\<close>: the classes of \<^verbatim>\<open>schemas/config.py\<close> as records, their constraints as predicates \<open>_ok\<close>.
  \<^item> \<open>UnionFind\<close>, \<open>Deterministic\<close>, \<open>Deterministic_Props\<close>: \<^verbatim>\<open>matching/deterministic.py\<close>, \<^verbatim>\<open>normalization.py\<close>.
    The locale \<open>partition_store\<close> says what a find and a union promise; clusters are the components of the
    links, trusted identifiers are joined completely and never mixed.
  \<^item> \<open>Probabilistic\<close>, \<open>Probabilistic_Props\<close>: \<^verbatim>\<open>matching/probabilistic.py\<close>: blocking, similarity, estimation,
    scoring, clustering, evaluation.
  \<^item> \<open>Store\<close>, \<open>Keyed_Rows\<close>: the control tables of \<^verbatim>\<open>db/models/control.py\<close> as records, a session with a
    committed and a working database (\<^verbatim>\<open>db/session.py\<close>), and three contracts as locales:
    \<open>get_or_create\<close> (look up by key, add when missing), \<open>keyed_rows\<close>, and \<open>revision_ledger\<close> (a change names
    the revision it saw, succeeds only if that is current, and appends one history entry).
  \<^item> \<open>Validation_Engine\<close>, \<open>Validation_Service\<close>: \<^verbatim>\<open>validation/\<close>, with the quarantine desk as a ledger.
  \<^item> \<open>Mapping_Engine\<close>, \<open>Mapping_Service\<close>: \<^verbatim>\<open>mapping/\<close>. \<open>Files\<close>: the temporary-file-then-replace writer.
  \<^item> \<open>Match_Service\<close>: \<^verbatim>\<open>matching/service.py\<close>, \<^verbatim>\<open>probabilistic_service.py\<close>, with the review desk as a ledger.
  \<^item> \<open>Lineage\<close>: \<^verbatim>\<open>lineage/service.py\<close>. \<open>Orchestration\<close>: \<^verbatim>\<open>orchestration/engine.py\<close>, \<^verbatim>\<open>observability/telemetry.py\<close>.
  \<^item> \<open>Connector_Guards\<close>, \<open>Connectors\<close>, \<open>Ingestion\<close>: \<^verbatim>\<open>connectors/\<close>, \<^verbatim>\<open>config_loader.py\<close>, \<^verbatim>\<open>ingestion/\<close>.
  \<^item> \<open>Publishing\<close>: \<^verbatim>\<open>marts/\<close>, \<^verbatim>\<open>publishing/\<close>. \<open>Profiling\<close>: \<^verbatim>\<open>profiling/\<close>, \<^verbatim>\<open>repositories.py\<close>.
  \<^item> \<open>Security\<close>: \<^verbatim>\<open>security/\<close>, \<^verbatim>\<open>settings.py\<close>: identities, authorization, the middleware, the audit log.
  \<^item> \<open>Api_Schemas\<close>, \<open>Api\<close>: \<^verbatim>\<open>schemas/api.py\<close>, all handlers of \<^verbatim>\<open>main.py\<close>, \<^verbatim>\<open>matching/fixtures.py\<close>.
    \<open>Api_Props\<close>, \<open>Audit_Trail\<close>: properties of whole requests.
  \<^item> \<open>Schema_Ops\<close>: a catalogue of tables and the operations Alembic offers, with what a database refuses.
    \<open>Baseline_Schema\<close>, \<open>Model_Schema\<close>: the calls of the baseline revision and the ORM classes of \<^verbatim>\<open>db/models/\<close>.
    \<open>Migrations\<close>: the six revisions of \<^verbatim>\<open>src/migrations/versions\<close>. \<open>Baseline_Tables\<close>, \<open>Migration_Props\<close>,
    \<open>Migration_Down\<close>, \<open>Migration_Data\<close>: what they do to a fresh schema, on the way back, and to old rows.
  \<^item> \<open>Seed\<close>: \<^verbatim>\<open>seed.py\<close> as a chain of look-up-or-create steps.
  \<^item> \<open>Generator\<close>, \<open>Generator_Rows\<close>, \<open>Generator_Defects\<close>, \<open>Generator_Files\<close>, \<open>Generator_Props\<close>: \<^verbatim>\<open>synthetic/\<close>: presets,
    rows and injected defects, how often each defect is there, the six files, the manifest and its verification.
  \<^item> \<open>Service_Frames\<close>: the locale \<open>service_table\<close>, a table no update of another one touches, and what every service
    leaves of it; its instances are the audit log and the quarantine records.
  \<^item> \<open>Demo_Run\<close>: \<^verbatim>\<open>src/scripts/run_demo.py\<close>, the services in sequence in one session.
  \<^item> \<open>Demo_Workspace\<close>, \<open>Demo_Workspace_Props\<close>, \<open>Demo_Locking\<close>: \<^verbatim>\<open>src/scripts/demo_workspace.py\<close> on a tree of files, directories and
    links; several launchers are a step relation.
  \<^item> \<open>Demo_Launcher\<close>, \<open>Demo_Launcher_Props\<close>: \<^verbatim>\<open>src/scripts/demo_doctor.py\<close>, \<^verbatim>\<open>demo.py\<close>.
  \<^item> \<open>Secret_Scan\<close>, \<open>Secret_Scan_Props\<close>: \<^verbatim>\<open>src/scripts/scan_secrets.py\<close>, \<^verbatim>\<open>generate_release_checksums.py\<close>.
    \<open>Release_Checks\<close>, \<open>Release_Props\<close>: \<^verbatim>\<open>verify_benchmark.py\<close>, \<^verbatim>\<open>verify_release.py\<close>.
    \<open>Benchmark_Run\<close>: \<^verbatim>\<open>run_benchmark.py\<close>, its twelve measured stages and the report.

  \<^bold>\<open>What the lemmas show.\<close> Matching: clusters are exactly the components of the links; neither matcher
  joins two different trusted identifiers; candidate generation is exact; scores are probabilities and grow
  with agreement. Review desks: whatever requests arrive, in any order, the history of a candidate or a
  quarantine record is numbered without gap and its status is that of the last entry; exactly the requests
  that saw the current revision succeed. Engines: records are partitioned into mapped rows and errors;
  reports add up. Services: runs are recorded with their outcome, failures leave no partial rows or files,
  raw payloads never change, published rows are masked, documented and free of formulas, retention deletes
  exactly what expired. Requests: without the permission nothing changes; each answered changing request
  leaves exactly one audit event, committed with its effect. Guards: a REST extraction only requests public
  HTTPS hosts; the rate limiter refines a sliding window. Migrations: a fresh database has the tables of the
  ORM classes, every downgrade undoes its upgrade, old decisions and notes become complete histories.
  Seed: it always succeeds, and a second run changes nothing. Generator: the counts and the defects are the
  prescribed ones, its manifest verifies exactly as long as the files are unchanged, and the identity fixture read
  back gives every record its person. Demo: a reset touches only an owned directory, one launcher works at a time, the
  readiness loop ends, and the report agrees with the exception queue. Release: the secret scan
  finds exactly the patterns in what it reads (and never reads a file named \<^verbatim>\<open>.env\<close>), the checksums are current exactly as long as
  the release is unchanged, a release passes only with all of its evidence, and the report of a benchmark run
  passes its own regression check.

  \<^bold>\<open>Conventions.\<close> The runtime and every package, service or device outside the repository is a parameter
  with its documented behaviour as named hypotheses: plugins, asset functions, hooks, HTTP client, source
  database, codecs, data frames, file writers, YAML and pydantic loading, the operating system. Floats are exact
  reals with the special values kept apart, but \<^verbatim>\<open>float\<close> of an integer beyond the range of binary64 raises \<^verbatim>\<open>OverflowError\<close>; the limit
  on the digits of an integer read from or written as a text is left out. A value that is a timestamp comes from the source database only; JSON and
  CSV have none. Strings are code points below 256; timestamps are microseconds
  since 0001-01-01; the clock is the argument \<open>now\<close>; identifiers come from a supply in the session. A service
  operation returns its result together with the session (and the files), so that an error shows what it left. The insert of
  an audit event may be refused by the database, which is the one failure of a flush that no constraint of the model decides.
  SQL selects are filters, \<^verbatim>\<open>order_by\<close> is a stable sort, \<^verbatim>\<open>offset\<close> and \<^verbatim>\<open>limit\<close> are \<open>drop\<close> and \<open>take\<close>.

  \<^bold>\<open>Bounds.\<close> The interpreter's recursion limit is an explicit depth: the find of the union-find returns because
  its chains are no longer than the number of keys, and an acyclic orchestration needs no more than its rank.
  The lineage trace iterates at most once for each node, since each pass but the last adds one. Paging and
  retry loops carry the number of pages and attempts the configuration allows. Catalogues of a hundred names
  are compared by evaluating a sum over each name. The readiness loop of the demo has 226 turns as fuel: its clock goes forward
  by 0.4 seconds a turn, and 90 seconds are over by then.

  \<^bold>\<open>Not modelled.\<close> The Dagster definitions and the migration environment, which hand functions to
  those packages, the worker stub, the user interface, the child processes and signals of the demo's launcher, and the
  scripts that only drive other programs (package builds, backups) or print what pydantic and SQLAlchemy
  report of the classes. Random numbers, the byte formats of CSV, workbooks, archives and Parquet, JSON and TOML
  are parameters, and so are the time, the memory and the machine a benchmark measures. Routing, CORS and
  request parsing are FastAPI's; the validation of a request is the predicate \<open>request_ok\<close>. The columns
  \<^verbatim>\<open>updated_at\<close>, which the database maintains, are left out of the rows. Concurrency of requests is the
  interleaving of whole operations, which the revision check is about; isolation inside a transaction is the
  database's.
\<close>

end
